(* ===== verification/Prelude.thy ===== *)
theory Prelude
  imports Main "HOL-Library.List_Lexorder" "HOL-Library.Char_ord" "HOL-Library.Product_Lexorder"
begin

text \<open>
  Shared vocabulary of the development: results of code that may raise (a sum with the
  exception on the left), keyed tables as lists of rows, the interface locales that several
  components instantiate (event systems with an invariant, ranked machines, transactional
  operations) and the generic lemmas on them.
\<close>

section \<open>Results of code that may raise\<close>

text \<open>Hint collections: how a component's operations unfold, and facts about stored rows.\<close>

named_theorems op_defs
named_theorems row_simps

definition res_bind :: "'e + 'a \<Rightarrow> ('a \<Rightarrow> 'e + 'b) \<Rightarrow> 'e + 'b" where
  "res_bind m f = (case m of Inl e \<Rightarrow> Inl e | Inr a \<Rightarrow> f a)"

lemma res_bind_simps [simp]:
  "res_bind (Inl e) f = Inl e"
  "res_bind (Inr a) f = f a"
  by (simp_all add: res_bind_def)

lemma res_bind_Inr_iff: "res_bind m f = Inr b \<longleftrightarrow> (\<exists>a. m = Inr a \<and> f a = Inr b)"
  by (cases m) auto

lemma res_bind_Inl_iff:
  "res_bind m f = Inl e \<longleftrightarrow> m = Inl e \<or> (\<exists>a. m = Inr a \<and> f a = Inl e)"
  by (cases m) auto

lemma res_bind_cong [fundef_cong]:
  "m = m' \<Longrightarrow> (\<And>a. m' = Inr a \<Longrightarrow> f a = f' a) \<Longrightarrow> res_bind m f = res_bind m' f'"
  by (cases m') auto

text \<open>A loop body applied to each element in order; the first exception ends the loop.\<close>

fun res_map :: "('a \<Rightarrow> 'e + 'b) \<Rightarrow> 'a list \<Rightarrow> 'e + 'b list" where
  "res_map f [] = Inr []"
| "res_map f (x # xs) = res_bind (f x) (\<lambda>y. res_bind (res_map f xs) (\<lambda>ys. Inr (y # ys)))"

lemma res_map_Inr_length: "res_map f xs = Inr ys \<Longrightarrow> length ys = length xs"
  by (induction xs arbitrary: ys) (auto simp: res_bind_Inr_iff)

lemma res_map_Inr_iff_list_all2:
  "res_map f xs = Inr ys \<longleftrightarrow> list_all2 (\<lambda>x y. f x = Inr y) xs ys"
  by (induction xs arbitrary: ys) (auto simp: res_bind_Inr_iff list_all2_Cons1)

lemma res_map_Inl_witness: "res_map f xs = Inl e \<Longrightarrow> \<exists>x\<in>set xs. f x = Inl e"
  by (induction xs) (auto simp: res_bind_Inl_iff)

lemma res_map_total: "(\<And>x. x \<in> set xs \<Longrightarrow> f x = Inr (g x)) \<Longrightarrow> res_map f xs = Inr (map g xs)"
  by (induction xs) auto

fun res_fold :: "('a \<Rightarrow> 's \<Rightarrow> 'e + 's) \<Rightarrow> 'a list \<Rightarrow> 's \<Rightarrow> 'e + 's" where
  "res_fold f [] s = Inr s"
| "res_fold f (x # xs) s = res_bind (f x s) (res_fold f xs)"

lemma res_fold_append:
  "res_fold f (xs @ ys) s = res_bind (res_fold f xs s) (res_fold f ys)"
  by (induction xs arbitrary: s) (auto simp: res_bind_def split: sum.splits)

lemma res_fold_invariant:
  assumes "res_fold f xs s = Inr t" "P s"
    and "\<And>x s t. x \<in> set xs \<Longrightarrow> P s \<Longrightarrow> f x s = Inr t \<Longrightarrow> P t"
  shows "P t"
  using assms
proof (induction xs arbitrary: s)
  case Nil
  then show ?case by simp
next
  case (Cons x xs)
  from Cons.prems(1) obtain u where u: "f x s = Inr u" "res_fold f xs u = Inr t"
    by (auto simp: res_bind_Inr_iff)
  moreover have "P u" using Cons.prems(2,3) u(1) by (meson list.set_intros(1))
  ultimately show ?case using Cons.IH Cons.prems(3) by (meson list.set_intros(2))
qed

section \<open>Keyed tables\<close>

text \<open>
  A database table is the list of its rows; \<open>session.get\<close> and a \<open>WHERE key = ...\<close> scalar
  read the first row with the key, an attribute write updates the rows that carry it.
\<close>

definition find_row :: "('r \<Rightarrow> 'k) \<Rightarrow> 'k \<Rightarrow> 'r list \<Rightarrow> 'r option" where
  "find_row key k rows = find (\<lambda>r. key r = k) rows"

definition modify_rows :: "('r \<Rightarrow> 'k) \<Rightarrow> 'k \<Rightarrow> ('r \<Rightarrow> 'r) \<Rightarrow> 'r list \<Rightarrow> 'r list" where
  "modify_rows key k f rows = map (\<lambda>r. if key r = k then f r else r) rows"

lemma find_row_simps [row_simps, simp]:
  "find_row key k [] = None"
  "find_row key k (r # rows) = (if key r = k then Some r else find_row key k rows)"
  by (simp_all add: find_row_def)

lemma find_row_Some: "find_row key k rows = Some r \<Longrightarrow> r \<in> set rows \<and> key r = k"
  by (induction rows) (auto split: if_splits)

lemma find_row_None_iff: "find_row key k rows = None \<longleftrightarrow> k \<notin> key ` set rows"
  by (induction rows) auto

lemma find_row_append [row_simps]:
  "find_row key k (xs @ ys) =
     (case find_row key k xs of Some r \<Rightarrow> Some r | None \<Rightarrow> find_row key k ys)"
  by (induction xs) auto

lemma find_row_distinct:
  "distinct (map key rows) \<Longrightarrow> r \<in> set rows \<Longrightarrow> find_row key (key r) rows = Some r"
  by (induction rows) (auto simp: image_iff)

lemma find_row_modify:
  "(\<And>r. key (f r) = key r) \<Longrightarrow>
   find_row key k (modify_rows key k' f rows) =
     (if k = k' then map_option f (find_row key k rows) else find_row key k rows)"
  by (induction rows) (auto simp: modify_rows_def)

lemma modify_rows_keys:
  "(\<And>r. key (f r) = key r) \<Longrightarrow> map key (modify_rows key k f rows) = map key rows"
  by (auto simp: modify_rows_def)

lemma length_modify_rows [simp]: "length (modify_rows key k f rows) = length rows"
  by (simp add: modify_rows_def)

lemma in_modify_rows:
  "r \<in> set (modify_rows key k f rows) \<longleftrightarrow>
   (\<exists>q\<in>set rows. r = (if key q = k then f q else q))"
  unfolding modify_rows_def set_map image_iff by (rule refl)

section \<open>Event systems and invariants\<close>

text \<open>
  A component with state is its initial states and a step relation; a safety property is an
  invariant of the reachable states. The locale proves the induction once.
\<close>

locale event_system =
  fixes start :: "'s \<Rightarrow> bool"
    and step :: "'s \<Rightarrow> 's \<Rightarrow> bool"
    and inv :: "'s \<Rightarrow> bool"
  assumes inv_start: "start s \<Longrightarrow> inv s"
    and inv_step: "inv s \<Longrightarrow> step s t \<Longrightarrow> inv t"
begin

lemma inv_steps: "step\<^sup>*\<^sup>* s t \<Longrightarrow> inv s \<Longrightarrow> inv t"
  by (induction rule: rtranclp_induct) (auto intro: inv_step)

lemma inv_reachable: "start s \<Longrightarrow> step\<^sup>*\<^sup>* s t \<Longrightarrow> inv t"
  using inv_start inv_steps by blast

end

section \<open>Ranked machines\<close>

text \<open>
  A closed machine steps by a partial function on labels. When the rank never falls and the
  marked label is only accepted below a level and leads to it, a run accepts the marked label
  at most once, and nothing that needs a lower rank can follow.
\<close>

fun run_machine :: "('k \<Rightarrow> 'p \<Rightarrow> 'p option) \<Rightarrow> 'k list \<Rightarrow> 'p \<Rightarrow> 'p option" where
  "run_machine f [] p = Some p"
| "run_machine f (k # ks) p = (case f k p of None \<Rightarrow> None | Some q \<Rightarrow> run_machine f ks q)"

lemma run_machine_append:
  "run_machine f (xs @ ys) p = Option.bind (run_machine f xs p) (run_machine f ys)"
  by (induction xs arbitrary: p) (auto split: option.splits)

locale ranked_machine =
  fixes trans_fn :: "'k \<Rightarrow> 'p \<Rightarrow> 'p option"
    and rank :: "'p \<Rightarrow> nat"
    and marked :: 'k
    and level :: nat
  assumes rank_mono: "trans_fn k p = Some q \<Longrightarrow> rank p \<le> rank q"
    and marked_step: "trans_fn marked p = Some q \<Longrightarrow> rank p < level \<and> level \<le> rank q"
begin

lemma run_rank: "run_machine trans_fn ks p = Some q \<Longrightarrow> rank p \<le> rank q"
proof (induction ks arbitrary: p)
  case Nil
  then show ?case by simp
next
  case (Cons k ks)
  then obtain p' where "trans_fn k p = Some p'" "run_machine trans_fn ks p' = Some q"
    by (auto split: option.splits)
  then show ?case using Cons.IH rank_mono by (meson order_trans)
qed

lemma marked_at_most_once:
  "run_machine trans_fn ks p = Some q \<Longrightarrow>
   count_list ks marked \<le> (if rank p < level then 1 else 0)"
proof (induction ks arbitrary: p)
  case Nil
  then show ?case by simp
next
  case (Cons k ks)
  then obtain p' where s: "trans_fn k p = Some p'" "run_machine trans_fn ks p' = Some q"
    by (auto split: option.splits)
  have "rank p \<le> rank p'" using s(1) by (rule rank_mono)
  moreover have "k = marked \<Longrightarrow> rank p < level \<and> level \<le> rank p'" using s(1) marked_step by blast
  ultimately show ?case using Cons.IH [OF s(2)] by (auto split: if_splits)
qed

lemma marked_reaches_level:
  assumes "run_machine trans_fn ks p = Some q" "marked \<in> set ks"
  shows "level \<le> rank q"
proof -
  obtain xs ys where ks: "ks = xs @ marked # ys" using assms(2) by (meson split_list)
  then obtain r r' where "trans_fn marked r = Some r'" "run_machine trans_fn ys r' = Some q"
    using assms(1) by (auto simp: run_machine_append bind_eq_Some_conv split: option.splits)
  then show ?thesis using marked_step run_rank by (meson order_trans)
qed

end

section \<open>Transactional operations\<close>

text \<open>
  Every mutation of the services runs in one transaction: an exception rolls back, so a
  failed call leaves the database as it was. Sequences of calls inherit the contract.
\<close>

locale transactional =
  fixes run :: "'c \<Rightarrow> 's \<Rightarrow> ('e + 'a) \<times> 's"
  assumes rollback: "run c s = (Inl e, t) \<Longrightarrow> t = s"
begin

lemma changed_implies_success:
  assumes "run c s = (r, t)" "t \<noteq> s"
  obtains a where "r = Inr a"
  using assms rollback by (cases r) auto

end

section \<open>Small facts on lists and strings\<close>

definition starts_with :: "string \<Rightarrow> string \<Rightarrow> bool" where
  "starts_with p s = (take (length p) s = p)"

lemma starts_with_append [simp]: "starts_with p (p @ s)"
  by (simp add: starts_with_def)

text \<open>\<open>str.split(sep)\<close> for a one-character separator: always at least one part.\<close>

fun split_on :: "char \<Rightarrow> string \<Rightarrow> string list" where
  "split_on c [] = [[]]"
| "split_on c (x # xs) =
     (if x = c then [] # split_on c xs
      else (case split_on c xs of [] \<Rightarrow> [[x]] | p # ps \<Rightarrow> (x # p) # ps))"

lemma split_on_nonempty [simp]: "split_on c s \<noteq> []"
  by (induction s) (auto split: list.splits)

fun join_with :: "string \<Rightarrow> string list \<Rightarrow> string" where
  "join_with s [] = []"
| "join_with s [p] = p"
| "join_with s (p # q # ps) = p @ s @ join_with s (q # ps)"

lemma join_split: "join_with [c] (split_on c s) = s"
proof (induction s)
  case Nil
  then show ?case by simp
next
  case (Cons x xs)
  obtain p ps where p: "split_on c xs = p # ps"
    by (cases "split_on c xs") auto
  show ?case using Cons.IH by (cases ps) (auto simp: p)
qed

text \<open>
  White space of \<open>str.strip()\<close> and stripping. A character is a code point below 256; the
  white space of that range includes U+0085 and U+00A0.
\<close>

definition is_ws :: "char \<Rightarrow> bool" where
  "is_ws c = (of_char c \<in> {9, 10, 11, 12, 13, 28, 29, 30, 31, 32, 133, 160 :: nat})"

definition strip_ws :: "string \<Rightarrow> string" where
  "strip_ws s = rev (dropWhile is_ws (rev (dropWhile is_ws s)))"

definition blank :: "string \<Rightarrow> bool" where
  "blank s = list_all is_ws s"

text \<open>
  What pydantic strips under \<open>str_strip_whitespace\<close>: the characters with the Unicode property
  White_Space, which \<open>str.strip()\<close> extends by the separators 28 to 31.
\<close>

definition is_white :: "char \<Rightarrow> bool" where
  "is_white c = (of_char c \<in> {9, 10, 11, 12, 13, 32, 133, 160 :: nat})"

definition trim_text :: "string \<Rightarrow> string" where
  "trim_text s = rev (dropWhile is_white (rev (dropWhile is_white s)))"

lemma dropWhile_Nil_iff: "dropWhile P xs = [] \<longleftrightarrow> list_all P xs"
  by (induction xs) auto

lemma strip_ws_Nil_iff: "strip_ws s = [] \<longleftrightarrow> blank s"
proof -
  have "strip_ws s = [] \<longleftrightarrow> list_all is_ws (dropWhile is_ws s)"
    by (simp add: strip_ws_def dropWhile_Nil_iff list_all_iff)
  also have "\<dots> \<longleftrightarrow> list_all is_ws s"
    by (induction s) auto
  finally show ?thesis by (simp add: blank_def)
qed

lemma trim_text_Nil_iff: "trim_text s = [] \<longleftrightarrow> list_all is_white s"
proof -
  have "trim_text s = [] \<longleftrightarrow> list_all is_white (dropWhile is_white s)"
    by (simp add: trim_text_def dropWhile_Nil_iff list_all_iff)
  also have "\<dots> \<longleftrightarrow> list_all is_white s"
    by (induction s) auto
  finally show ?thesis .
qed

lemma trim_text_idem [simp]: "trim_text (trim_text s) = trim_text s"
proof -
  have tail: "dropWhile is_white (rev (dropWhile is_white (rev t))) = rev (dropWhile is_white (rev t))"
    if "t = [] \<or> \<not> is_white (hd t)" for t
  proof (cases "dropWhile is_white (rev t)")
    case Nil
    show ?thesis unfolding Nil by simp
  next
    case (Cons c u)
    then obtain p where p: "rev t = p @ c # u" by (metis takeWhile_dropWhile_id)
    then have "t = rev u @ c # rev p" by (metis rev_append rev_rev_ident rev.simps(2) append.assoc append_Cons append_Nil)
    then have "hd (rev (c # u)) = hd t" by (cases u rule: rev_cases) auto
    moreover have "t \<noteq> []" using p by auto
    ultimately show ?thesis using that Cons by (cases "rev (c # u)") auto
  qed
  have "dropWhile is_white s = [] \<or> \<not> is_white (hd (dropWhile is_white s))"
    using hd_dropWhile by blast
  then have "dropWhile is_white (trim_text s) = trim_text s" using tail unfolding trim_text_def by blast
  then show ?thesis by (simp add: trim_text_def)
qed

lemma sorted_wrt_strict_distinct: "sorted_wrt (<) (xs :: 'a :: linorder list) \<Longrightarrow> distinct xs"
  by (simp add: strict_sorted_iff)

end
