(* ===== verification/Json.thy ===== *)
theory Json
  imports Prelude "HOL-Library.Multiset"
begin

text \<open>
  JSON values as the Python code holds them (an object is its list of pairs, as a dict keeps
  insertion order), \<open>dict.get\<close>, the canonical form that \<open>json.dumps(sort_keys=True)\<close> gives
  every object, and the text form of a UUID.
\<close>

section \<open>Values\<close>

datatype json =
    JNull
  | JBool bool
  | JInt int
  | JStr string
  | JList "json list"
  | JObj "(string \<times> json) list"

text \<open>\<open>d.get(k)\<close> on a dict; \<open>k in d\<close>.\<close>

definition obj_get :: "string \<Rightarrow> (string \<times> json) list \<Rightarrow> json" where
  "obj_get k kvs = (case map_of kvs k of None \<Rightarrow> JNull | Some v \<Rightarrow> v)"

fun jget :: "string \<Rightarrow> json \<Rightarrow> json" where
  "jget k (JObj kvs) = obj_get k kvs"
| "jget k _ = JNull"

fun is_obj :: "json \<Rightarrow> bool" where
  "is_obj (JObj _) = True"
| "is_obj _ = False"

fun is_str :: "json \<Rightarrow> bool" where
  "is_str (JStr _) = True"
| "is_str _ = False"

fun json_keys :: "json \<Rightarrow> string list" where
  "json_keys (JObj kvs) = map fst kvs"
| "json_keys _ = []"

section \<open>The canonical form\<close>

text \<open>Keys in order at every level; two dicts that are equal in Python have one canonical form.\<close>

fun canon :: "json \<Rightarrow> json" where
  "canon (JList xs) = JList (map canon xs)"
| "canon (JObj kvs) = JObj (sort_key fst (map (\<lambda>(k, v). (k, canon v)) kvs))"
| "canon j = j"

lemma map_fst_canon [simp]: "map fst (map (\<lambda>(k, v). (k, canon v)) kvs) = map fst kvs"
  by (induction kvs) auto

lemma canon_obj_keys:
  assumes "canon (JObj kvs) = JObj kvs'"
  shows "mset (map fst kvs') = mset (map fst kvs) \<and> sorted (map fst kvs')"
proof -
  let ?c = "map (\<lambda>(k, v). (k, canon v)) kvs"
  have e: "kvs' = sort_key fst ?c" using assms by simp
  have "mset (map fst kvs') = mset (map fst ?c)"
    by (simp only: e mset_map mset_sort)
  moreover have "sorted (map fst kvs')" by (simp only: e sorted_sort_key)
  ultimately show ?thesis by (simp only: map_fst_canon simp_thms)
qed

section \<open>Dict equality\<close>

text \<open>
  A dict with distinct keys is determined by its sorted pairs, so permuted objects have the
  same canonical form and the digest does not depend on the insertion order.
\<close>

lemma distinct_set_singleton: "set xs = {k} \<Longrightarrow> distinct xs \<Longrightarrow> xs = [k]"
  by (cases xs) (auto simp: subset_singleton_iff)

lemma sort_key_perm_eq:
  assumes "mset xs = mset ys" "distinct (map f xs)"
  shows "sort_key f xs = sort_key f ys"
proof (rule properties_for_sort_key)
  show "mset (sort_key f ys) = mset xs" using assms(1) by simp
  show "sorted (map f (sort_key f ys))" by simp
  fix k assume "k \<in> set (sort_key f ys)"
  moreover have "set xs = set ys" using assms(1) by (metis set_mset_mset)
  ultimately have k: "k \<in> set xs" by simp
  have "distinct (map f ys)"
    using assms by (metis mset_map mset_eq_imp_distinct_iff)
  then have inj: "inj_on f (set ys)" "distinct ys" by (auto simp: distinct_map)
  have "\<And>zs. distinct zs \<Longrightarrow> set zs = set ys \<Longrightarrow> k \<in> set zs \<Longrightarrow> [x \<leftarrow> zs . f k = f x] = [k]"
  proof -
    fix zs assume z: "distinct zs" "set zs = set ys" "k \<in> set zs"
    have "set [x \<leftarrow> zs . f k = f x] = {k}" using z inj(1) by (auto simp: inj_on_def)
    moreover have "distinct [x \<leftarrow> zs . f k = f x]" using z(1) by simp
    ultimately show "[x \<leftarrow> zs . f k = f x] = [k]"
      by (rule distinct_set_singleton)
  qed
  moreover have "set xs = set ys" using assms(1) by (metis set_mset_mset)
  moreover have "distinct xs" using assms(2) by (simp add: distinct_map)
  ultimately show "[x \<leftarrow> sort_key f ys . f k = f x] = [x \<leftarrow> xs . f k = f x]"
    using k inj(2) by simp
qed

lemma canon_perm:
  assumes "mset kvs = mset kvs'" "distinct (map fst kvs)"
  shows "canon (JObj kvs) = canon (JObj kvs')"
proof -
  let ?g = "\<lambda>(k, v). (k, canon v)"
  have "mset (map ?g kvs) = mset (map ?g kvs')" using assms(1) by (simp only: mset_map)
  moreover have "distinct (map fst (map ?g kvs))" using assms(2) by (simp only: map_fst_canon)
  ultimately show ?thesis by (simp add: sort_key_perm_eq)
qed

section \<open>UUID text\<close>

definition hex_digit :: "nat \<Rightarrow> char" where
  "hex_digit n = (if n < 10 then char_of (48 + n) else char_of (87 + n))"

fun hex_digits :: "nat \<Rightarrow> nat \<Rightarrow> string" where
  "hex_digits 0 n = []"
| "hex_digits (Suc k) n = hex_digits k (n div 16) @ [hex_digit (n mod 16)]"

text \<open>\<open>str(uuid)\<close>: 32 lower-case hexadecimal digits in groups of 8, 4, 4, 4 and 12.\<close>

definition uuid_text :: "nat \<Rightarrow> string" where
  "uuid_text u =
     (let h = hex_digits 32 u
      in take 8 h @ ''-'' @ take 4 (drop 8 h) @ ''-'' @ take 4 (drop 12 h) @ ''-'' @
         take 4 (drop 16 h) @ ''-'' @ drop 20 h)"

lemma length_hex_digits [simp]: "length (hex_digits k n) = k"
  by (induction k arbitrary: n) auto

lemma length_uuid_text: "length (uuid_text u) = 36"
  by (simp add: uuid_text_def Let_def)

lemma hex_digit_inj: "a < 16 \<Longrightarrow> b < 16 \<Longrightarrow> hex_digit a = hex_digit b \<Longrightarrow> a = b"
proof -
  have all: "\<forall>a\<in>set [0..<16]. \<forall>b\<in>set [0..<16]. hex_digit a = hex_digit b \<longrightarrow> a = b"
    by code_simp
  assume "a < 16" "b < 16" "hex_digit a = hex_digit b"
  then show "a = b" using all by (simp add: atLeast0LessThan)
qed

lemma hex_digits_inj:
  "m < 16 ^ k \<Longrightarrow> n < 16 ^ k \<Longrightarrow> hex_digits k m = hex_digits k n \<Longrightarrow> m = n"
proof (induction k arbitrary: m n)
  case 0
  then show ?case by simp
next
  case (Suc k)
  have h: "hex_digits k (m div 16) = hex_digits k (n div 16)"
    "hex_digit (m mod 16) = hex_digit (n mod 16)" using Suc.prems(3) by simp_all
  have "m div 16 < 16 ^ k" "n div 16 < 16 ^ k"
    using Suc.prems by (simp_all add: less_mult_imp_div_less mult.commute)
  with Suc.IH h(1) have "m div 16 = n div 16" by blast
  moreover have "m mod 16 = n mod 16" using hex_digit_inj [OF _ _ h(2)] by simp
  ultimately show ?case by (metis div_mult_mod_eq)
qed

section \<open>Time text\<close>

fun digits_text :: "nat \<Rightarrow> nat \<Rightarrow> string" where
  "digits_text 0 n = []"
| "digits_text (Suc k) n = digits_text k (n div 10) @ [char_of (48 + n mod 10)]"

text \<open>The civil date of a day number since 1970-01-01 in the proleptic Gregorian calendar.\<close>

definition civil_date :: "int \<Rightarrow> int \<times> int \<times> int" where
  "civil_date days =
     (let z = days + 719468;
          era = z div 146097;
          doe = z mod 146097;
          yoe = (doe - doe div 1460 + doe div 36524 - doe div 146096) div 365;
          doy = doe - (365 * yoe + yoe div 4 - yoe div 100);
          mp = (5 * doy + 2) div 153;
          d = doy - (153 * mp + 2) div 5 + 1;
          m = (if mp < 10 then mp + 3 else mp - 9);
          y = yoe + era * 400 + (if m \<le> 2 then 1 else 0)
      in (y, m, d))"

text \<open>\<open>isoformat()\<close> of a UTC datetime given in microseconds since the epoch.\<close>

definition iso_text :: "int \<Rightarrow> string" where
  "iso_text t =
     (let secs = t div 1000000; us = t mod 1000000;
          (y, m, d) = civil_date (secs div 86400); r = secs mod 86400
      in digits_text 4 (nat y) @ ''-'' @ digits_text 2 (nat m) @ ''-'' @ digits_text 2 (nat d) @
         ''T'' @ digits_text 2 (nat (r div 3600)) @ '':'' @ digits_text 2 (nat (r mod 3600 div 60)) @
         '':'' @ digits_text 2 (nat (r mod 60)) @
         (if us = 0 then [] else ''.'' @ digits_text 6 (nat us)) @ ''+00:00'')"

lemma iso_text_epoch: "iso_text 0 = ''1970-01-01T00:00:00+00:00''"
  by code_simp

lemma iso_text_leap_day: "iso_text 1709164800000001 = ''2024-02-29T00:00:00.000001+00:00''"
  by code_simp

end
