(* ===== verification/Authorization.thy ===== *)
theory Authorization
  imports Prelude
begin

text \<open>
  Roles, capabilities and the verified principal (app/security/authorization.py, the
  Principal and the claim mapping of app/security/authentication.py) and the closed error
  codes of app/services/errors.py. Signature verification itself is the JWT library's.
\<close>

section \<open>Identifiers, time and errors\<close>

text \<open>
  A UUID is a number, a digest is the hexadecimal text, a time is the number of
  microseconds since the epoch (every clock and every stored time is UTC-aware).
\<close>

type_synonym uuid = nat
type_synonym digest = string
type_synonym time = int

definition seconds :: "int \<Rightarrow> time" where
  "seconds n = n * 1000000"

datatype error_code =
    VerificationDisabled | VerificationExecutorUnavailable | VerificationScopeConflict
  | VerificationIneligible | VerificationActive | VerificationLimit
  | ExecutionDisabled | ExecutionCapacity | ExecutionScopeConflict | ExecutionTargetReserved
  | InsufficientCapability | SeparationRequired | StateConflict | IdempotencyConflict
  | ProvenanceConflict | Ineligible | DatabaseUnavailable

fun error_status :: "error_code \<Rightarrow> nat" where
  "error_status VerificationDisabled = 503"
| "error_status VerificationExecutorUnavailable = 503"
| "error_status VerificationScopeConflict = 409"
| "error_status VerificationIneligible = 409"
| "error_status VerificationActive = 409"
| "error_status VerificationLimit = 409"
| "error_status ExecutionDisabled = 503"
| "error_status ExecutionCapacity = 503"
| "error_status ExecutionScopeConflict = 409"
| "error_status ExecutionTargetReserved = 409"
| "error_status InsufficientCapability = 403"
| "error_status SeparationRequired = 403"
| "error_status StateConflict = 409"
| "error_status IdempotencyConflict = 409"
| "error_status ProvenanceConflict = 409"
| "error_status Ineligible = 409"
| "error_status DatabaseUnavailable = 503"

text \<open>
  What a service call can raise: a RemediationError, EntityNotFoundError, ValueError (the
  pydantic ValidationError is one), TypeError, and inside a transaction the database's
  IntegrityError, which the remediation services never let out, SQLAlchemy's NoResultFound, and KeyError.
\<close>

datatype failure =
    RemErr error_code
  | NotFound string uuid
  | ValueErr string
  | TypeErr string
  | IntegrityErr
  | NoResultErr
  | KeyErr
  | SubmissionErr uuid uuid

section \<open>Roles and capabilities\<close>

datatype role = VIEWER | ANALYST | APPROVER | ADMIN

datatype capability = CAP_READ | CAP_PROPOSE | CAP_APPROVE | CAP_EXECUTE

record principal =
  pr_subject :: string
  pr_role_names :: "string list"
  pr_issuer :: string

definition role_of_name :: "string \<Rightarrow> role option" where
  "role_of_name s =
     (if s = ''VIEWER'' then Some VIEWER
      else if s = ''ANALYST'' then Some ANALYST
      else if s = ''APPROVER'' then Some APPROVER
      else if s = ''ADMIN'' then Some ADMIN
      else None)"

fun role_capabilities :: "role \<Rightarrow> capability list" where
  "role_capabilities VIEWER = [CAP_READ]"
| "role_capabilities ANALYST = [CAP_READ, CAP_PROPOSE]"
| "role_capabilities APPROVER = [CAP_READ, CAP_PROPOSE, CAP_APPROVE]"
| "role_capabilities ADMIN = [CAP_READ, CAP_PROPOSE, CAP_APPROVE, CAP_EXECUTE]"

text \<open>\<open>capabilities_for\<close>: unknown role names are skipped, the others add up.\<close>

fun collect_capabilities :: "string list \<Rightarrow> capability set" where
  "collect_capabilities [] = {}"
| "collect_capabilities (n # ns) =
     (case role_of_name n of
        None \<Rightarrow> collect_capabilities ns
      | Some r \<Rightarrow> set (role_capabilities r) \<union> collect_capabilities ns)"

definition capabilities_for :: "principal \<Rightarrow> capability set" where
  "capabilities_for p = collect_capabilities (pr_role_names p)"

definition require_capability :: "capability \<Rightarrow> principal \<Rightarrow> (nat \<times> string) + principal" where
  "require_capability c p =
     (if c \<notin> capabilities_for p then Inl (403, ''insufficient_capability'') else Inr p)"

lemma collect_capabilities_iff:
  "c \<in> collect_capabilities ns \<longleftrightarrow>
   (\<exists>n r. n \<in> set ns \<and> role_of_name n = Some r \<and> c \<in> set (role_capabilities r))"
  by (induction ns) (auto split: option.splits)

lemma role_of_name_ADMIN: "role_of_name n = Some ADMIN \<longleftrightarrow> n = ''ADMIN''"
  by (simp add: role_of_name_def)

definition known_roles :: "string list" where
  "known_roles = [''ADMIN'', ''ANALYST'', ''APPROVER'', ''VIEWER'']"

lemma role_of_known: "n \<in> set known_roles \<Longrightarrow> \<exists>r. role_of_name n = Some r"
  by (auto simp: known_roles_def role_of_name_def)

lemma read_in_every_role [simp]: "CAP_READ \<in> set (role_capabilities r)"
  by (cases r) auto

lemma execute_is_admin_only: "CAP_EXECUTE \<in> set (role_capabilities r) \<longleftrightarrow> r = ADMIN"
  by (cases r) auto

lemma approve_roles: "CAP_APPROVE \<in> set (role_capabilities r) \<longleftrightarrow> r = APPROVER \<or> r = ADMIN"
  by (cases r) auto

lemma execute_needs_admin:
  "CAP_EXECUTE \<in> capabilities_for p \<longleftrightarrow> ''ADMIN'' \<in> set (pr_role_names p)"
  using collect_capabilities_iff execute_is_admin_only role_of_name_ADMIN
  by (metis capabilities_for_def)

lemma capabilities_nonempty_read: "c \<in> capabilities_for p \<Longrightarrow> CAP_READ \<in> capabilities_for p"
  unfolding capabilities_for_def collect_capabilities_iff by (meson read_in_every_role)

section \<open>The principal of a set of verified claims\<close>

text \<open>
  The claim values the mapping distinguishes: a string, a list of values, anything else.
  \<open>_principal_from_claims\<close> strips and upper-cases the roles and refuses unknown ones.
\<close>

datatype claim_value = ClaimStr string | ClaimList "claim_value list" | ClaimOther

definition upper_char :: "char \<Rightarrow> char" where
  "upper_char c = (let n = of_char c :: nat in if 97 \<le> n \<and> n \<le> 122 then char_of (n - 32) else c)"

fun claim_strings :: "claim_value list \<Rightarrow> string list option" where
  "claim_strings [] = Some []"
| "claim_strings (ClaimStr s # vs) = map_option ((#) s) (claim_strings vs)"
| "claim_strings (_ # vs) = None"

definition claim_roles :: "claim_value option \<Rightarrow> string list option" where
  "claim_roles v =
     (case v of
        Some (ClaimStr s) \<Rightarrow> Some [s]
      | Some (ClaimList vs) \<Rightarrow> claim_strings vs
      | _ \<Rightarrow> None)"

definition principal_from_claims ::
    "string \<Rightarrow> string \<Rightarrow> (string \<Rightarrow> claim_value option) \<Rightarrow> string + principal" where
  "principal_from_claims issuer roles_claim claims =
     (case claims ''sub'' of
        Some (ClaimStr sub) \<Rightarrow>
          if blank sub then Inl ''bearer token subject is missing''
          else (case claim_roles (claims roles_claim) of
              None \<Rightarrow> Inl ''bearer token roles are missing''
            | Some roles \<Rightarrow>
                let names = map (map upper_char \<circ> strip_ws) (filter (\<lambda>r. \<not> blank r) roles)
                in if names = [] \<or>
                     \<not> set names \<subseteq> set known_roles
                   then Inl ''bearer token contains invalid roles''
                   else Inr \<lparr>pr_subject = strip_ws sub, pr_role_names = remdups names,
                             pr_issuer = issuer\<rparr>)
      | _ \<Rightarrow> Inl ''bearer token subject is missing'')"

lemma principal_from_claims_Inr:
  assumes "principal_from_claims iss rc claims = Inr p"
  shows "pr_issuer p = iss \<and> pr_subject p \<noteq> [] \<and> pr_role_names p \<noteq> [] \<and>
    set (pr_role_names p) \<subseteq> set known_roles"
  using assms
  unfolding principal_from_claims_def Let_def
  by (auto simp: strip_ws_Nil_iff split: option.splits claim_value.splits if_splits)

lemma known_role_has_read: "n \<in> set known_roles \<Longrightarrow> CAP_READ \<in> collect_capabilities [n]"
  using role_of_known [of n] by auto

end
