(* ===== verification/Remediation_Contracts.thy ===== *)
theory Remediation_Contracts
  imports Authorization
begin

text \<open>
  The closed contracts of the remediation workflow: app/remediation/contracts.py,
  execution_contracts.py, execution_phases.py, worker_contracts.py and worker_config.py.
  A frozen pydantic model is a record; what its construction or \<open>model_validate\<close> checks is a
  \<open>valid_\<close> predicate (fields of a Literal type carry no information and are left out).
\<close>

section \<open>String patterns\<close>

definition is_digit :: "char \<Rightarrow> bool" where
  "is_digit c = (let n = of_char c :: nat in 48 \<le> n \<and> n \<le> 57)"

definition is_lower :: "char \<Rightarrow> bool" where
  "is_lower c = (let n = of_char c :: nat in 97 \<le> n \<and> n \<le> 122)"

definition is_upper :: "char \<Rightarrow> bool" where
  "is_upper c = (let n = of_char c :: nat in 65 \<le> n \<and> n \<le> 90)"

definition is_hex :: "char \<Rightarrow> bool" where
  "is_hex c = (let n = of_char c :: nat in 48 \<le> n \<and> n \<le> 57 \<or> 97 \<le> n \<and> n \<le> 102)"

definition sha256_pattern :: "string \<Rightarrow> bool" where
  "sha256_pattern s = (length s = 64 \<and> list_all is_hex s)"

definition account_pattern :: "string \<Rightarrow> bool" where
  "account_pattern s = (length s = 12 \<and> list_all is_digit s)"

text \<open>\<open>^[a-z]{2,8}(?:-[a-z0-9]+){1,6}-[0-9]+$\<close>: no part holds the separator.\<close>

definition region_pattern :: "string \<Rightarrow> bool" where
  "region_pattern s =
     (let ps = split_on (CHR ''-'') s
      in 3 \<le> length ps \<and> length ps \<le> 8 \<and>
         2 \<le> length (hd ps) \<and> length (hd ps) \<le> 8 \<and> list_all is_lower (hd ps) \<and>
         list_all (\<lambda>p. p \<noteq> [] \<and> list_all (\<lambda>c. is_lower c \<or> is_digit c) p) (butlast (tl ps)) \<and>
         last ps \<noteq> [] \<and> list_all is_digit (last ps))"

definition role_char :: "char \<Rightarrow> bool" where
  "role_char c = (is_lower c \<or> is_upper c \<or> is_digit c \<or> c \<in> set ''+=,.@_-'')"

definition partitions :: "string list" where
  "partitions = [''aws'', ''aws-cn'', ''aws-us-gov'']"

text \<open>
  The role ARN: six colon-separated parts, the last one \<open>role/\<close>, path segments, a name of
  1 to 64 characters. No part can hold a colon and no segment a slash.
\<close>

definition role_arn_pattern :: "string \<Rightarrow> bool" where
  "role_arn_pattern s =
     (case split_on (CHR '':'') s of
        [a, part, svc, reg, acct, res] \<Rightarrow>
          a = ''arn'' \<and> part \<in> set partitions \<and> svc = ''iam'' \<and> reg = [] \<and> account_pattern acct \<and>
          (case split_on (CHR ''/'') res of
             r # segs \<Rightarrow>
               r = ''role'' \<and> segs \<noteq> [] \<and>
               list_all (\<lambda>g. g \<noteq> [] \<and> list_all role_char g) segs \<and> length (last segs) \<le> 64
           | [] \<Rightarrow> False)
      | _ \<Rightarrow> False)"

definition request_id_pattern :: "string \<Rightarrow> bool" where
  "request_id_pattern s =
     (1 \<le> length s \<and> length s \<le> 128 \<and>
      list_all (\<lambda>c. is_lower c \<or> is_upper c \<or> is_digit c \<or> c = CHR ''-'') s)"

text \<open>\<open>Reason\<close> with its validator: bounded length, then stripped and not blank.\<close>

definition validate_reason :: "string \<Rightarrow> string option" where
  "validate_reason s =
     (if 1 \<le> length s \<and> length s \<le> 2000 \<and> strip_ws s \<noteq> [] then Some (strip_ws s) else None)"

section \<open>Enumerations\<close>

datatype decision_kind = DK_APPROVE | DK_REJECT | DK_REVOKE

datatype approval_status = AS_PROPOSED | AS_APPROVED | AS_REJECTED | AS_REVOKED

text \<open>
  The blocking reasons of the proposal (BlockingReason), of the execution
  (ExecutionBlockingReason) and of the worker (WorkerBlockingReason), in this order.
\<close>

datatype blocking_reason =
    BR_EXPIRED | BR_STALE_TARGET | BR_STALE_GOVERNANCE | BR_INELIGIBLE_FINDING
  | BR_ACTIVE_EXCEPTION | BR_INVALID_PROVENANCE
  | BR_EXECUTION_EXPIRED | BR_APPROVAL_REVOKED
  | BR_PRECONDITION_CHANGED | BR_READ_UNAVAILABLE | BR_WRITER_SCOPE_MISMATCH
  | BR_READ_BUDGET_EXHAUSTED | BR_WRITE_UNCERTAIN | BR_LATE_DISPATCH | BR_RECOVERY_UNCERTAIN

definition human_reason :: "blocking_reason \<Rightarrow> bool" where
  "human_reason r = (r \<in> {BR_EXPIRED, BR_STALE_TARGET, BR_STALE_GOVERNANCE,
     BR_INELIGIBLE_FINDING, BR_ACTIVE_EXCEPTION, BR_INVALID_PROVENANCE,
     BR_EXECUTION_EXPIRED, BR_APPROVAL_REVOKED})"

datatype phase =
    PH_QUEUED | PH_EXPIRED | PH_BLOCKED | PH_CLAIMED
  | PH_WRITE_INTENT | PH_NO_WRITE | PH_ACKNOWLEDGED | PH_QUARANTINED

text \<open>ExecutionEventKind (the first three) and WorkerEventKind.\<close>

datatype event_kind =
    EK_REQUESTED | EK_EXPIRED | EK_BLOCKED
  | EK_CLAIMED | EK_WRITE_INTENT | EK_NO_WRITE | EK_ACKNOWLEDGED | EK_QUARANTINED
  | EK_OBSERVED | EK_OBSERVATION_FAILED

definition human_kind :: "event_kind \<Rightarrow> bool" where
  "human_kind k = (k \<in> {EK_REQUESTED, EK_EXPIRED, EK_BLOCKED})"

section \<open>Proposal contracts\<close>

record actor_context =
  ac_issuer :: string
  ac_subject :: string
  ac_roles :: "string list"
  ac_capability :: capability

definition valid_actor :: "actor_context \<Rightarrow> bool" where
  "valid_actor a = (ac_issuer a \<noteq> [] \<and> ac_subject a \<noteq> [])"

definition actor_key :: "actor_context \<Rightarrow> string \<times> string" where
  "actor_key a = (ac_issuer a, ac_subject a)"

record source_binding =
  sb_outcome_id :: uuid
  sb_artifact_id :: uuid
  sb_reference :: string
  sb_sha :: digest

record evidence_binding =
  eb_evidence_id :: uuid
  eb_payload_sha :: digest

record baseline =
  bl_occurrence_id :: uuid
  bl_assessment_id :: uuid
  bl_scan_id :: uuid
  bl_snapshot_id :: uuid
  bl_state_sha :: digest
  bl_observed_at :: time
  bl_profile_id :: string
  bl_profile_version :: string
  bl_profile_sha :: digest
  bl_catalog_id :: string
  bl_catalog_version :: string
  bl_catalog_sha :: digest
  bl_control_version_id :: uuid
  bl_control_definition_sha :: digest
  bl_inventory_sha :: digest
  bl_evidence :: "evidence_binding list"
  bl_encryption_source :: source_binding
  bl_kms_source :: source_binding
  bl_kms_key_id :: "string option"
  bl_kms_absence :: bool

definition valid_baseline :: "baseline \<Rightarrow> bool" where
  "valid_baseline b =
     (sha256_pattern (bl_state_sha b) \<and> sha256_pattern (bl_profile_sha b) \<and>
      sha256_pattern (bl_catalog_sha b) \<and> sha256_pattern (bl_control_definition_sha b) \<and>
      sha256_pattern (bl_inventory_sha b) \<and>
      list_all (\<lambda>e. sha256_pattern (eb_payload_sha e)) (bl_evidence b) \<and>
      sha256_pattern (sb_sha (bl_encryption_source b)) \<and>
      sha256_pattern (sb_sha (bl_kms_source b)))"

record proposal_request =
  pq_finding_id :: uuid
  pq_occurrence_id :: uuid
  pq_reason :: string

record decision_request =
  dq_proposal_sha :: digest
  dq_decision :: decision_kind
  dq_reason :: string

text \<open>RevocationRequest and ExecutionRequest have the same fields.\<close>

record binding_request =
  bq_proposal_sha :: digest
  bq_approval_id :: uuid
  bq_reason :: string

record proposal_content =
  pc_proposal_id :: uuid
  pc_finding_id :: uuid
  pc_resource_id :: uuid
  pc_control_id :: uuid
  pc_account_id :: string
  pc_region :: string
  pc_expected_encryption :: bool
  pc_desired_encryption :: bool
  pc_baseline :: baseline
  pc_governance_sha :: digest
  pc_proposer :: actor_context
  pc_reason :: string
  pc_created_at :: time
  pc_expires_at :: time

record decision_view =
  dv_decision_id :: uuid
  dv_proposal_id :: uuid
  dv_kind :: decision_kind
  dv_proposal_sha :: digest
  dv_approval_id :: "uuid option"
  dv_actor :: actor_context
  dv_reason :: string
  dv_created_at :: time

record proposal_view =
  pv_content :: proposal_content
  pv_proposal_sha :: digest
  pv_status :: approval_status
  pv_blocking :: "blocking_reason list"
  pv_checked_at :: time
  pv_decisions :: "decision_view list"

definition validate_proposal_request :: "proposal_request \<Rightarrow> proposal_request option" where
  "validate_proposal_request q =
     map_option (\<lambda>r. q\<lparr>pq_reason := r\<rparr>) (validate_reason (pq_reason q))"

definition validate_decision_request :: "decision_request \<Rightarrow> decision_request option" where
  "validate_decision_request q =
     (if sha256_pattern (dq_proposal_sha q) \<and> dq_decision q \<in> {DK_APPROVE, DK_REJECT}
      then map_option (\<lambda>r. q\<lparr>dq_reason := r\<rparr>) (validate_reason (dq_reason q)) else None)"

definition validate_binding_request :: "binding_request \<Rightarrow> binding_request option" where
  "validate_binding_request q =
     (if sha256_pattern (bq_proposal_sha q)
      then map_option (\<lambda>r. q\<lparr>bq_reason := r\<rparr>) (validate_reason (bq_reason q)) else None)"

text \<open>Construction of a ProposalContent, a DecisionView: the checked and stripped record.\<close>

definition make_proposal_content :: "proposal_content \<Rightarrow> proposal_content option" where
  "make_proposal_content c =
     (if account_pattern (pc_account_id c) \<and> 1 \<le> length (pc_region c) \<and>
         length (pc_region c) \<le> 64 \<and> valid_baseline (pc_baseline c) \<and>
         sha256_pattern (pc_governance_sha c) \<and> valid_actor (pc_proposer c)
      then map_option (\<lambda>r. c\<lparr>pc_reason := r\<rparr>) (validate_reason (pc_reason c)) else None)"

definition make_decision_view :: "decision_view \<Rightarrow> decision_view option" where
  "make_decision_view d =
     (if sha256_pattern (dv_proposal_sha d) \<and> valid_actor (dv_actor d)
      then map_option (\<lambda>r. d\<lparr>dv_reason := r\<rparr>) (validate_reason (dv_reason d)) else None)"

end
