(* ===== verification/Execution_Contracts.thy ===== *)
theory Execution_Contracts
  imports Remediation_Contracts
begin

text \<open>
  Execution and worker journal contracts, the two operator scopes, the closed worker phase
  machine (\<open>worker_phase\<close>), the validation of one worker entry, and the JSON documents whose
  canonical digest the services store.
\<close>

section \<open>Clock readings\<close>

text \<open>A datetime of a caller may be naive; only an aware one has a time.\<close>

datatype reading = Aware time | Naive

section \<open>Operator scopes\<close>

record admission_scope =
  as_enabled :: bool
  as_account_id :: "string option"
  as_region :: "string option"

definition valid_admission_scope :: "admission_scope \<Rightarrow> bool" where
  "valid_admission_scope s =
     ((case as_account_id s of None \<Rightarrow> True | Some a \<Rightarrow> account_pattern a) \<and>
      (case as_region s of None \<Rightarrow> True | Some r \<Rightarrow> length r \<le> 64 \<and> region_pattern r) \<and>
      \<not> (as_enabled s \<and> (as_account_id s = None \<or> as_region s = None)))"

record worker_scope =
  ws_enabled :: bool
  ws_account_id :: "string option"
  ws_region :: "string option"
  ws_role_arn :: "string option"

definition role_partition :: "string \<Rightarrow> string" where
  "role_partition arn = split_on (CHR '':'') arn ! 1"

definition role_account :: "string \<Rightarrow> string" where
  "role_account arn = split_on (CHR '':'') arn ! 4"

definition region_partition :: "string \<Rightarrow> string" where
  "region_partition r =
     (if starts_with ''cn-'' r then ''aws-cn''
      else if starts_with ''us-gov-'' r then ''aws-us-gov''
      else ''aws'')"

definition valid_worker_scope :: "worker_scope \<Rightarrow> bool" where
  "valid_worker_scope s =
     ((case ws_account_id s of None \<Rightarrow> True | Some a \<Rightarrow> account_pattern a) \<and>
      (case ws_region s of None \<Rightarrow> True | Some r \<Rightarrow> length r \<le> 64 \<and> region_pattern r) \<and>
      (case ws_role_arn s of None \<Rightarrow> True | Some a \<Rightarrow> length a \<le> 2048 \<and> role_arn_pattern a) \<and>
      \<not> (ws_enabled s \<and>
          (ws_account_id s = None \<or> ws_region s = None \<or> ws_role_arn s = None)) \<and>
      (case ws_role_arn s of
         None \<Rightarrow> True
       | Some arn \<Rightarrow>
           (case ws_account_id s of None \<Rightarrow> True | Some a \<Rightarrow> role_account arn = a) \<and>
           (case ws_region s of None \<Rightarrow> True | Some r \<Rightarrow> role_partition arn = region_partition r)))"

section \<open>Execution and journal contracts\<close>

record execution_content =
  xc_execution_id :: uuid
  xc_proposal :: proposal_content
  xc_proposal_sha :: digest
  xc_approval :: decision_view
  xc_approval_sha :: digest
  xc_requested_by :: actor_context
  xc_idempotency_key :: uuid
  xc_reason :: string
  xc_created_at :: time
  xc_expires_at :: time

record human_event =
  he_event_id :: uuid
  he_execution_id :: uuid
  he_execution_sha :: digest
  he_sequence :: nat
  he_kind :: event_kind
  he_phase :: phase
  he_previous :: "digest option"
  he_actor :: actor_context
  he_created_at :: time
  he_reasons :: "blocking_reason list"

record regional_observation =
  ro_encryption :: bool
  ro_kms_key_id :: "string option"
  ro_kms_absence :: bool

definition valid_observation :: "regional_observation \<Rightarrow> bool" where
  "valid_observation r =
     (ro_kms_absence r = (ro_kms_key_id r = None) \<and>
      (case ro_kms_key_id r of None \<Rightarrow> True | Some k \<Rightarrow> strip_ws k \<noteq> []))"

record worker_event =
  we_event_id :: uuid
  we_execution_id :: uuid
  we_execution_sha :: digest
  we_sequence :: nat
  we_kind :: event_kind
  we_phase :: phase
  we_previous :: digest
  we_role_arn :: string
  we_created_at :: time
  we_reasons :: "blocking_reason list"
  we_observation :: "regional_observation option"
  we_observed_at :: "reading option"
  we_request_id :: "string option"
  we_polls :: nat

text \<open>\<open>ExecutionContent\<close>, the two event contents: what construction and validation check.\<close>

definition make_execution_content :: "execution_content \<Rightarrow> execution_content option" where
  "make_execution_content c =
     (if sha256_pattern (xc_proposal_sha c) \<and> sha256_pattern (xc_approval_sha c) \<and>
         valid_actor (xc_requested_by c)
      then (case (make_proposal_content (xc_proposal c), make_decision_view (xc_approval c),
                  validate_reason (xc_reason c)) of
              (Some p, Some d, Some r) \<Rightarrow>
                Some (c\<lparr>xc_proposal := p, xc_approval := d, xc_reason := r\<rparr>)
            | _ \<Rightarrow> None)
      else None)"

definition valid_human_event :: "human_event \<Rightarrow> bool" where
  "valid_human_event e =
     (sha256_pattern (he_execution_sha e) \<and> 1 \<le> he_sequence e \<and> he_sequence e \<le> 2 \<and>
      human_kind (he_kind e) \<and> he_phase e \<in> {PH_QUEUED, PH_EXPIRED, PH_BLOCKED} \<and>
      (case he_previous e of None \<Rightarrow> True | Some d \<Rightarrow> sha256_pattern d) \<and>
      valid_actor (he_actor e) \<and> list_all human_reason (he_reasons e))"

definition valid_worker_event :: "worker_event \<Rightarrow> bool" where
  "valid_worker_event e =
     (sha256_pattern (we_execution_sha e) \<and> 2 \<le> we_sequence e \<and>
      \<not> human_kind (we_kind e) \<and> sha256_pattern (we_previous e) \<and>
      length (we_role_arn e) \<le> 2048 \<and> role_arn_pattern (we_role_arn e) \<and>
      (case we_observation e of None \<Rightarrow> True | Some r \<Rightarrow> valid_observation r) \<and>
      (case we_request_id e of None \<Rightarrow> True | Some q \<Rightarrow> request_id_pattern q) \<and>
      we_polls e \<le> 3)"

text \<open>The journal holds both kinds of entry, told apart by their schema version.\<close>

datatype journal_entry = HumanEntry human_event | WorkerEntry worker_event

fun je_event_id :: "journal_entry \<Rightarrow> uuid" where
  "je_event_id (HumanEntry e) = he_event_id e" | "je_event_id (WorkerEntry e) = we_event_id e"

fun je_execution_id :: "journal_entry \<Rightarrow> uuid" where
  "je_execution_id (HumanEntry e) = he_execution_id e"
| "je_execution_id (WorkerEntry e) = we_execution_id e"

fun je_execution_sha :: "journal_entry \<Rightarrow> digest" where
  "je_execution_sha (HumanEntry e) = he_execution_sha e"
| "je_execution_sha (WorkerEntry e) = we_execution_sha e"

fun je_sequence :: "journal_entry \<Rightarrow> nat" where
  "je_sequence (HumanEntry e) = he_sequence e" | "je_sequence (WorkerEntry e) = we_sequence e"

fun je_kind :: "journal_entry \<Rightarrow> event_kind" where
  "je_kind (HumanEntry e) = he_kind e" | "je_kind (WorkerEntry e) = we_kind e"

fun je_phase :: "journal_entry \<Rightarrow> phase" where
  "je_phase (HumanEntry e) = he_phase e" | "je_phase (WorkerEntry e) = we_phase e"

fun je_previous :: "journal_entry \<Rightarrow> digest option" where
  "je_previous (HumanEntry e) = he_previous e"
| "je_previous (WorkerEntry e) = Some (we_previous e)"

fun je_created_at :: "journal_entry \<Rightarrow> time" where
  "je_created_at (HumanEntry e) = he_created_at e"
| "je_created_at (WorkerEntry e) = we_created_at e"

fun worker_entry :: "journal_entry \<Rightarrow> worker_event option" where
  "worker_entry (HumanEntry e) = None" | "worker_entry (WorkerEntry e) = Some e"

record event_view =
  ev_content :: journal_entry
  ev_sha :: digest
  ev_audit_id :: uuid

record execution_view =
  xv_content :: execution_content
  xv_execution_sha :: digest
  xv_phase :: phase
  xv_blocking :: "blocking_reason list"
  xv_checked_at :: time
  xv_held :: bool
  xv_events :: "event_view list"

section \<open>The worker phase machine\<close>

fun kind_allowed :: "event_kind \<Rightarrow> phase list" where
  "kind_allowed EK_CLAIMED = [PH_QUEUED, PH_CLAIMED]"
| "kind_allowed EK_WRITE_INTENT = [PH_CLAIMED]"
| "kind_allowed EK_NO_WRITE = [PH_QUEUED, PH_CLAIMED]"
| "kind_allowed EK_ACKNOWLEDGED = [PH_WRITE_INTENT, PH_QUARANTINED]"
| "kind_allowed EK_QUARANTINED = [PH_WRITE_INTENT, PH_QUARANTINED]"
| "kind_allowed EK_OBSERVED = [PH_ACKNOWLEDGED, PH_QUARANTINED]"
| "kind_allowed EK_OBSERVATION_FAILED = [PH_ACKNOWLEDGED, PH_QUARANTINED]"
| "kind_allowed _ = []"

fun phase_of_kind :: "event_kind \<Rightarrow> phase option" where
  "phase_of_kind EK_CLAIMED = Some PH_CLAIMED"
| "phase_of_kind EK_WRITE_INTENT = Some PH_WRITE_INTENT"
| "phase_of_kind EK_NO_WRITE = Some PH_NO_WRITE"
| "phase_of_kind EK_ACKNOWLEDGED = Some PH_ACKNOWLEDGED"
| "phase_of_kind EK_QUARANTINED = Some PH_QUARANTINED"
| "phase_of_kind _ = None"

text \<open>\<open>worker_phase\<close>: None is the ValueError of a transition that is not allowed.\<close>

definition worker_phase :: "event_kind \<Rightarrow> phase \<Rightarrow> phase option" where
  "worker_phase k prev =
     (if prev \<notin> set (kind_allowed k) then None
      else if k = EK_OBSERVED \<or> k = EK_OBSERVATION_FAILED then Some prev
      else if k = EK_ACKNOWLEDGED \<and> prev = PH_QUARANTINED then Some prev
      else phase_of_kind k)"

definition held_phase :: "phase \<Rightarrow> bool" where
  "held_phase p = (p \<in> {PH_QUEUED, PH_CLAIMED, PH_WRITE_INTENT, PH_QUARANTINED})"

text \<open>\<open>validate_worker_entry\<close>: the ValueErrors in the order the code raises them.\<close>

definition check_observed_at :: "worker_event \<Rightarrow> bool" where
  "check_observed_at e =
     (case we_observed_at e of
        None \<Rightarrow> True
      | Some Naive \<Rightarrow> False
      | Some (Aware t) \<Rightarrow> t \<le> we_created_at e)"

definition observation_matches :: "regional_observation \<Rightarrow> baseline \<Rightarrow> bool" where
  "observation_matches r b =
     (\<not> ro_encryption r \<and> ro_kms_key_id r = bl_kms_key_id b \<and> ro_kms_absence r = bl_kms_absence b)"

definition check_observation :: "worker_event \<Rightarrow> execution_content \<Rightarrow> string + unit" where
  "check_observation e c =
     (if we_kind e = EK_WRITE_INTENT then
        (case we_observation e of
           Some r \<Rightarrow> if observation_matches r (pc_baseline (xc_proposal c)) then Inr ()
                     else Inl ''intent precondition mismatch''
         | None \<Rightarrow> Inl ''intent precondition mismatch'')
      else if we_kind e = EK_OBSERVED then
        (if we_observation e = None \<or> we_reasons e \<noteq> [] then Inl ''invalid readback observation''
         else Inr ())
      else if we_kind e \<noteq> EK_NO_WRITE \<and> we_observation e \<noteq> None
      then Inl ''unexpected observation''
      else Inr ())"

definition check_outcome :: "worker_event \<Rightarrow> string + unit" where
  "check_outcome e =
     (if (we_request_id e \<noteq> None) \<noteq> (we_kind e = EK_ACKNOWLEDGED)
      then Inl ''acknowledgment receipt mismatch''
      else if we_kind e \<in> {EK_NO_WRITE, EK_QUARANTINED, EK_OBSERVATION_FAILED} \<and> we_reasons e = []
      then Inl ''missing outcome classification''
      else if we_kind e \<notin> {EK_NO_WRITE, EK_QUARANTINED, EK_OBSERVATION_FAILED} \<and> we_reasons e \<noteq> []
      then Inl ''unexpected blockers''
      else if we_kind e \<in> {EK_OBSERVED, EK_OBSERVATION_FAILED} then
        (if 1 \<le> we_polls e \<and> we_polls e \<le> 3 then Inr () else Inl ''invalid readback budget'')
      else if we_polls e \<noteq> 0 then Inl ''unexpected readback budget''
      else Inr ())"

definition validate_worker_entry ::
    "worker_event \<Rightarrow> phase \<Rightarrow> execution_content \<Rightarrow> string + unit" where
  "validate_worker_entry e prev c =
     (case worker_phase (we_kind e) prev of
        None \<Rightarrow> Inl ''invalid worker transition''
      | Some ph \<Rightarrow>
          if we_phase e \<noteq> ph then Inl ''worker phase mismatch''
          else if role_account (we_role_arn e) \<noteq> pc_account_id (xc_proposal c)
          then Inl ''worker actor scope mismatch''
          else if (we_observation e = None) \<noteq> (we_observed_at e = None)
          then Inl ''observation time mismatch''
          else if \<not> check_observed_at e then Inl ''invalid observation time''
          else if we_kind e \<in> {EK_CLAIMED, EK_WRITE_INTENT} \<and>
                  (we_created_at e \<ge> xc_expires_at c \<or> we_reasons e \<noteq> [])
          then Inl ''invalid pre-intent authority time''
          else res_bind (check_observation e c) (\<lambda>_. check_outcome e))"

section \<open>Facts on the contracts\<close>

lemma strip_ws_idem: "strip_ws (strip_ws s) = strip_ws s"
proof -
  have tail: "dropWhile is_ws (rev (dropWhile is_ws (rev t))) =
      rev (dropWhile is_ws (rev (dropWhile is_ws t)))" for t
    by (induction t) (auto simp: dropWhile_append dest: set_dropWhileD split: if_splits)
  show ?thesis by (simp add: strip_ws_def tail)
qed

lemma length_strip_ws: "length (strip_ws s) \<le> length s"
proof -
  have "length (strip_ws s) \<le> length (rev (dropWhile is_ws s))"
    unfolding strip_ws_def length_rev using length_dropWhile_le [of is_ws "rev (dropWhile is_ws s)"]
    by simp
  also have "\<dots> \<le> length s" by (simp add: length_dropWhile_le)
  finally show ?thesis .
qed

lemma validate_reason_Some:
  "validate_reason s = Some r \<longleftrightarrow> length s \<le> 2000 \<and> r = strip_ws s \<and> r \<noteq> []"
proof -
  have "strip_ws [] = []" by (simp add: strip_ws_def)
  then have "strip_ws s \<noteq> [] \<Longrightarrow> 1 \<le> length s" by (cases s) auto
  then show ?thesis by (auto simp: validate_reason_def)
qed

lemma validate_reason_stable: "validate_reason s = Some r \<Longrightarrow> validate_reason r = Some r"
  unfolding validate_reason_Some using length_strip_ws [of s] strip_ws_idem [of s] by auto

section \<open>The phase machine is ranked\<close>

fun phase_rank :: "phase \<Rightarrow> nat" where
  "phase_rank PH_QUEUED = 0"
| "phase_rank PH_CLAIMED = 1"
| "phase_rank PH_WRITE_INTENT = 2"
| "phase_rank PH_QUARANTINED = 3"
| "phase_rank _ = 4"

lemma worker_phase_Some:
  "worker_phase k p = Some q \<longleftrightarrow>
     (k, p, q) \<in> {(EK_CLAIMED, PH_QUEUED, PH_CLAIMED), (EK_CLAIMED, PH_CLAIMED, PH_CLAIMED),
       (EK_WRITE_INTENT, PH_CLAIMED, PH_WRITE_INTENT),
       (EK_NO_WRITE, PH_QUEUED, PH_NO_WRITE), (EK_NO_WRITE, PH_CLAIMED, PH_NO_WRITE),
       (EK_ACKNOWLEDGED, PH_WRITE_INTENT, PH_ACKNOWLEDGED),
       (EK_ACKNOWLEDGED, PH_QUARANTINED, PH_QUARANTINED),
       (EK_QUARANTINED, PH_WRITE_INTENT, PH_QUARANTINED),
       (EK_QUARANTINED, PH_QUARANTINED, PH_QUARANTINED),
       (EK_OBSERVED, PH_ACKNOWLEDGED, PH_ACKNOWLEDGED), (EK_OBSERVED, PH_QUARANTINED, PH_QUARANTINED),
       (EK_OBSERVATION_FAILED, PH_ACKNOWLEDGED, PH_ACKNOWLEDGED),
       (EK_OBSERVATION_FAILED, PH_QUARANTINED, PH_QUARANTINED)}"
  by (cases k; cases p) (auto simp: worker_phase_def)

interpretation intents: ranked_machine worker_phase phase_rank EK_WRITE_INTENT 2
  by unfold_locales (auto simp: worker_phase_Some)

text \<open>Without the acknowledgment of a quarantined execution the receipts would be ranked too.\<close>

interpretation no_writes: ranked_machine worker_phase phase_rank EK_NO_WRITE 4
  by unfold_locales (auto simp: worker_phase_Some)

lemma worker_phase_final: "p \<in> {PH_NO_WRITE, PH_EXPIRED, PH_BLOCKED} \<Longrightarrow> worker_phase k p = None"
  by (cases k) (auto simp: worker_phase_def)

lemma validate_worker_entry_phase:
  "validate_worker_entry e p c = Inr () \<Longrightarrow> worker_phase (we_kind e) p = Some (we_phase e)"
  by (auto simp: validate_worker_entry_def split: option.splits if_splits)

end
