(* ===== verification/Verification_Contracts.thy ===== *)
theory Verification_Contracts
  imports Execution_Contracts
begin

text \<open>
  app/remediation/verification_contracts.py: the closed contracts of a read-only verification, its
  linked request, the evidence of the postcondition and the terminal receipt. VerificationScope
  has the fields of AdmissionScope. The enumerations of assessments and scans stand here because
  receipts carry them.
\<close>

section \<open>Enumerations\<close>

datatype assessment_result = PASS | FAIL | INSUFFICIENT_EVIDENCE | NOT_APPLICABLE

datatype scan_status = SC_RUNNING | SC_COMPLETED | SC_PARTIAL | SC_FAILED

datatype verification_outcome = VERIFIED | NOT_VERIFIED | INCONCLUSIVE

datatype verification_reason =
    VR_POSTCONDITION_PASS | VR_POSTCONDITION_FAIL | VR_SCAN_INCOMPLETE
  | VR_PROVENANCE_UNAVAILABLE | VR_OBSERVATION_NOT_LATER | VR_KMS_CONTEXT_CHANGED

definition max_verification_attempts :: nat where
  "max_verification_attempts = 3"

section \<open>Contracts\<close>

record verification_content =
  vc_verification_id :: uuid
  vc_execution_id :: uuid
  vc_execution_sha :: digest
  vc_ack_event_id :: uuid
  vc_ack_sha :: digest
  vc_acknowledged_at :: time
  vc_baseline_scan_id :: uuid
  vc_scan_id :: uuid
  vc_attempt :: nat
  vc_account :: string
  vc_region :: string
  vc_services :: "string list"
  vc_collectors :: "string list"
  vc_types :: "string list"
  vc_profile_id :: string
  vc_profile_version :: string
  vc_profile_sha :: digest
  vc_catalog_id :: string
  vc_catalog_version :: string
  vc_catalog_sha :: digest
  vc_requested_by :: actor_context
  vc_key :: uuid
  vc_reason :: string
  vc_created_at :: time

text \<open>Construction of a VerificationContent: the checked record with its stripped reason.\<close>

definition make_verification_content :: "verification_content \<Rightarrow> verification_content option" where
  "make_verification_content c =
     (if list_all sha256_pattern [vc_execution_sha c, vc_ack_sha c, vc_profile_sha c, vc_catalog_sha c] \<and>
         1 \<le> vc_attempt c \<and> vc_attempt c \<le> max_verification_attempts \<and> account_pattern (vc_account c) \<and>
         1 \<le> length (vc_region c) \<and> length (vc_region c) \<le> 64 \<and> valid_actor (vc_requested_by c)
      then map_option (\<lambda>r. c\<lparr>vc_reason := r\<rparr>) (validate_reason (vc_reason c)) else None)"

record verification_evidence =
  ve_resource_id :: uuid
  ve_snapshot_id :: uuid
  ve_state_sha :: digest
  ve_assessment_id :: uuid
  ve_control_version_id :: uuid
  ve_control_definition_sha :: digest
  ve_observed_at :: time
  ve_result :: assessment_result
  ve_evidence :: "evidence_binding list"
  ve_encryption_source :: source_binding
  ve_kms_source :: source_binding

definition valid_verification_evidence :: "verification_evidence \<Rightarrow> bool" where
  "valid_verification_evidence e =
     (sha256_pattern (ve_state_sha e) \<and> sha256_pattern (ve_control_definition_sha e) \<and>
      ve_result e \<in> {PASS, FAIL} \<and>
      list_all (\<lambda>b. sha256_pattern (eb_payload_sha b)) (ve_evidence e) \<and>
      sha256_pattern (sb_sha (ve_encryption_source e)) \<and> sha256_pattern (sb_sha (ve_kms_source e)))"

record verification_receipt =
  vr_verification_id :: uuid
  vr_verification_sha :: digest
  vr_scan_id :: uuid
  vr_scan_status :: scan_status
  vr_result_sha :: digest
  vr_inventory_sha :: "digest option"
  vr_outcome :: verification_outcome
  vr_reason :: verification_reason
  vr_evidence :: "verification_evidence option"
  vr_created_at :: time

definition valid_verification_receipt :: "verification_receipt \<Rightarrow> bool" where
  "valid_verification_receipt r =
     (sha256_pattern (vr_verification_sha r) \<and> vr_scan_status r \<noteq> SC_RUNNING \<and>
      sha256_pattern (vr_result_sha r) \<and>
      (case vr_inventory_sha r of None \<Rightarrow> True | Some d \<Rightarrow> sha256_pattern d) \<and>
      (case vr_evidence r of None \<Rightarrow> True | Some e \<Rightarrow> valid_verification_evidence e))"

record verification_view =
  vv_content :: verification_content
  vv_sha :: digest
  vv_request_audit_id :: uuid
  vv_receipt :: "verification_receipt option"
  vv_receipt_sha :: "digest option"
  vv_receipt_audit_id :: "uuid option"

definition valid_verification_view :: "verification_view \<Rightarrow> bool" where
  "valid_verification_view v =
     (sha256_pattern (vv_sha v) \<and>
      (case vv_receipt_sha v of None \<Rightarrow> True | Some d \<Rightarrow> sha256_pattern d))"

text \<open>\<open>VerificationRequest(reason=...)\<close>.\<close>

definition validate_verification_request :: "string \<Rightarrow> string option" where
  "validate_verification_request reason = validate_reason reason"

end
