(* ===== verification/Evidence_Records.thy ===== *)
theory Evidence_Records
  imports Verification_Contracts Json
begin

text \<open>
  The records of an evidence graph as app/assessment/source_outcomes.py, relationships.py and
  evidence_graph.py declare them: declared sources, their outcomes, normalized artifacts and typed
  relationships. Fields of a Literal type carry no information and are left out; the validators
  are in the theories Source_Outcomes, Relationships and Evidence_Graph.
\<close>

section \<open>Sources and outcomes\<close>

datatype resource_scope = SCOPE_GLOBAL | SCOPE_REGIONAL

datatype collection_phase = DISCOVERY | ENRICHMENT

datatype source_state =
    ST_PRESENT | ST_EXPECTED_ABSENCE | ST_UNAVAILABLE | ST_MALFORMED | ST_CONFLICT
  | ST_RESOURCE_DISAPPEARED

datatype failure_category =
    FC_ACCESS_DENIED | FC_AUTHENTICATION_FAILED | FC_THROTTLED | FC_TIMEOUT | FC_SERVICE_ERROR
  | FC_UNSUPPORTED_OPERATION | FC_MALFORMED_RESPONSE | FC_CONFLICTING_EVIDENCE | FC_RESOURCE_NOT_FOUND

text \<open>The subject of a source: an account in a scope, or one observed resource.\<close>

record resource_subject =
  sj_account :: string
  sj_service :: string
  sj_type :: string
  sj_aws_id :: string
  sj_scope :: resource_scope
  sj_region :: "string option"
  sj_stable_id :: uuid
  sj_snapshot_id :: uuid

datatype subject =
    AccountSubject string resource_scope "string option"
  | ResourceSubject resource_subject

record source_outcome =
  so_id :: uuid
  so_scan_id :: uuid
  so_account :: string
  so_phase :: collection_phase
  so_subject :: subject
  so_kind :: string
  so_state :: source_state
  so_failure :: "failure_category option"
  so_collector :: string
  so_collector_version :: string
  so_api :: string
  so_collected_at :: time
  so_reference :: string
  so_sha :: digest

datatype cardinality = CARD_SINGLE | CARD_COLLECTION

datatype owner_mode = OWN_COLLECTION_ACCOUNT | OWN_AWS_MANAGED | OWN_EXTERNAL_ACCOUNT

text \<open>A declared source of the scan, bound to the outcome it promises.\<close>

record source_contract =
  sd_key :: string
  sd_contract_version :: string
  sd_outcome_id :: uuid
  sd_scan_id :: uuid
  sd_account :: string
  sd_phase :: collection_phase
  sd_subject :: subject
  sd_kind :: string
  sd_collector :: string
  sd_version :: string
  sd_api :: string
  sd_cardinality :: cardinality
  sd_owner_mode :: owner_mode
  sd_authoritative :: bool
  sd_supplemental :: bool

record graph_artifact =
  ga_id :: uuid
  ga_scan_id :: uuid
  ga_account :: string
  ga_reference :: string
  ga_sha :: digest
  ga_schema :: string
  ga_schema_version :: string
  ga_collected_at :: time
  ga_payload :: json

section \<open>Relationships\<close>

datatype relationship_type =
    RT_USES_VOLUME | RT_ATTACHED_TO_SECURITY_GROUP | RT_IN_SUBNET | RT_IN_VPC | RT_CONTAINS_SUBNET
  | RT_HAS_FLOW_LOG | RT_MEMBER_OF_GROUP | RT_HAS_ACCESS_KEY | RT_HAS_MFA_DEVICE
  | RT_ATTACHED_MANAGED_POLICY | RT_ATTACHED_INLINE_POLICY | RT_PERMISSIONS_BOUNDARY
  | RT_SELECTS_DEFAULT_VERSION | RT_REFERENCES_RESOURCE | RT_ENCRYPTED_WITH | RT_DELIVERS_TO_BUCKET

datatype relationship_resolution =
    RR_RESOLVED | RR_TARGET_NOT_COLLECTED | RR_TARGET_OUTSIDE_SCAN_SCOPE | RR_TARGET_ACCESS_DENIED
  | RR_TARGET_EVIDENCE_INCOMPLETE | RR_TARGET_IDENTITY_INCOMPLETE

record endpoint =
  ep_account :: string
  ep_service :: string
  ep_type :: string
  ep_aws_id :: string
  ep_scope :: resource_scope
  ep_region :: "string option"
  ep_stable_id :: uuid
  ep_snapshot_id :: "uuid option"

record partial_target =
  pt_account :: "string option"
  pt_service :: string
  pt_type :: string
  pt_aws_id :: string
  pt_scope :: "resource_scope option"
  pt_region :: "string option"
  pt_reference_id :: uuid

datatype relationship_target = StableTarget endpoint | PartialTarget partial_target

record edge_provenance =
  xp_collector :: string
  xp_collector_version :: string
  xp_api :: string
  xp_reference :: string
  xp_collected_at :: time

record relationship =
  xr_relationship_id :: uuid
  xr_observation_id :: uuid
  xr_scan_id :: uuid
  xr_account :: string
  xr_type :: relationship_type
  xr_source :: endpoint
  xr_target :: relationship_target
  xr_resolution :: relationship_resolution
  xr_provenance :: edge_provenance

section \<open>The graph\<close>

record evidence_graph =
  eg_scan_id :: uuid
  eg_account :: string
  eg_collected_at :: time
  eg_sources :: "source_contract list"
  eg_artifacts :: "graph_artifact list"
  eg_outcomes :: "source_outcome list"
  eg_relationships :: "relationship list"

end
