(* ===== verification/Database.thy ===== *)
theory Database
  imports Evidence_Records
begin

text \<open>
  The rows of the tables the remediation services read and write (app/models/), the JSON
  documents they store or hash, the environment of one call (clock, uuid4, dialect, session
  state) and the state-and-exception monad in which a transaction runs.
\<close>

section \<open>Findings and governance rows\<close>

datatype finding_status = FS_OPEN | FS_ACKNOWLEDGED | FS_RESOLVED | FS_FALSE_POSITIVE | FS_ACCEPTED_RISK

datatype exception_status = XS_ACTIVE | XS_EXPIRED | XS_REVOKED

record finding_row =
  fd_id :: uuid
  fd_fingerprint :: digest
  fd_account :: string
  fd_resource_id :: uuid
  fd_control_id :: uuid
  fd_region :: "string option"
  fd_status :: finding_status
  fd_first_detected :: time
  fd_last_detected :: time
  fd_resolved_at :: "time option"

record exception_row =
  fe_id :: uuid
  fe_finding_id :: uuid
  fe_resource_id :: uuid
  fe_control_id :: uuid
  fe_reason :: string
  fe_approved_by :: string
  fe_created_at :: time
  fe_expires_at :: time
  fe_status :: exception_status
  fe_revoked_at :: "time option"

section \<open>Assessment history rows\<close>

record occurrence_row =
  oc_id :: uuid
  oc_finding_id :: uuid
  oc_assessment_id :: uuid
  oc_scan_id :: uuid
  oc_snapshot_id :: uuid
  oc_resource_id :: uuid
  oc_control_version_id :: uuid
  oc_control_id :: uuid
  oc_detected_at :: time

record assessment_row =
  ca_id :: uuid
  ca_scan_id :: uuid
  ca_snapshot_id :: uuid
  ca_resource_id :: uuid
  ca_control_version_id :: uuid
  ca_control_id :: uuid
  ca_profile_row_id :: uuid
  ca_result :: assessment_result
  ca_missing :: "string list"

text \<open>
  The coverage one scan claims (ScanScopeManifestInput): what was requested, what succeeded, and
  one outcome per requested collector.
\<close>

datatype collection_status = COL_SUCCEEDED | COL_FAILED | COL_PARTIAL

record scan_scope =
  ss_account :: string
  ss_requested_regions :: "string list"
  ss_successful_regions :: "string list"
  ss_requested_services :: "string list"
  ss_requested_collectors :: "string list"
  ss_outcomes :: "(string \<times> collection_status) list"
  ss_resource_types :: "string list"
  ss_enabled_controls :: "string list"
  ss_profile_id :: string
  ss_profile_version :: string
  ss_profile_sha :: digest
  ss_catalog_id :: string
  ss_catalog_version :: string

text \<open>A scan with its scope manifest (\<open>scan.scope_manifest\<close>), absent while it is RUNNING.\<close>

record scan_row =
  sc_id :: uuid
  sc_account :: "string option"
  sc_status :: scan_status
  sc_profile_id :: string
  sc_profile_version :: string
  sc_profile_sha :: digest
  sc_catalog_id :: string
  sc_catalog_version :: string
  sc_inventory_sha :: "digest option"
  sc_requested_regions :: "string list"
  sc_successful_regions :: "string list"
  sc_requested_services :: "string list"
  sc_successful_collectors :: "string list"
  sc_started_at :: time
  sc_completed_at :: "time option"
  sc_scanner_version :: string
  sc_result_sha :: "digest option"
  sc_manifest :: "scan_scope option"

record snapshot_row =
  sn_id :: uuid
  sn_resource_id :: uuid
  sn_scan_id :: uuid
  sn_scope :: resource_scope
  sn_region :: "string option"
  sn_arn :: "string option"
  sn_name :: "string option"
  sn_tags :: json
  sn_configuration :: json
  sn_state_sha :: digest
  sn_observed_at :: time

record resource_row =
  rs_id :: uuid
  rs_provider :: string
  rs_account :: string
  rs_aws_id :: string
  rs_service :: string
  rs_type :: string
  rs_scope :: resource_scope
  rs_region :: string

record control_row =
  ct_id :: uuid
  ct_key :: string

text \<open>A control version with the columns of its catalog row (\<open>version.catalog\<close>).\<close>

record version_row =
  cv_id :: uuid
  cv_control_id :: uuid
  cv_definition_sha :: digest
  cv_catalog_key :: string
  cv_catalog_version :: string
  cv_catalog_sha :: digest

record evidence_row =
  er_id :: uuid
  er_assessment_id :: uuid
  er_collector :: string
  er_source :: string
  er_source_api :: string
  er_collected_at :: time
  er_schema_name :: string
  er_schema_version :: string
  er_evidence_key :: string
  er_payload :: json
  er_payload_sha :: digest

record profile_row =
  pf_row_id :: uuid
  pf_id :: string
  pf_version :: string
  pf_sha :: digest

text \<open>What the loaders of app/database return: a validated profile, a catalog, a graph.\<close>

record loaded_profile =
  lp_id :: string
  lp_version :: string
  lp_sha :: digest
  lp_controls :: "string list"

record history =
  hs_occurrences :: "occurrence_row list"
  hs_assessments :: "assessment_row list"
  hs_scans :: "scan_row list"
  hs_snapshots :: "snapshot_row list"
  hs_resources :: "resource_row list"
  hs_controls :: "control_row list"
  hs_versions :: "version_row list"
  hs_evidence :: "evidence_row list"
  hs_profiles :: "profile_row list"
  hs_load_profile :: "string \<Rightarrow> string \<Rightarrow> digest \<Rightarrow> loaded_profile option"
  hs_catalog :: "string \<Rightarrow> string \<Rightarrow> (string \<times> string) option"
  hs_load_graph :: "uuid \<Rightarrow> evidence_graph option"

section \<open>Documents\<close>

text \<open>
  Every JSON document that is stored or hashed, one constructor per shape, and the text a finding
  fingerprint hashes. The requests to
  revoke and to execute have the same keys, so they are one shape.
\<close>

datatype document =
    IdentityDoc string string
  | ProposeRequestDoc proposal_request
  | DecideRequestDoc uuid decision_request
  | BindRequestDoc uuid binding_request
  | ProposalDoc proposal_content
  | DecisionDoc decision_view
  | ExecutionDoc execution_content
  | HumanEventDoc human_event
  | WorkerEventDoc worker_event
  | WorkerActorDoc string
  | TokenDoc uuid
  | GovernanceDoc finding_status "uuid list" "(uuid \<times> exception_status \<times> time \<times> time option) list"
  | StateDoc "string option" "string option" resource_scope "string option" json json
  | PayloadDoc json
  | FingerprintText string
  | ScanFailureDoc uuid time time string
  | VerifyRequestDoc uuid string
  | VerificationDoc verification_content
  | ReceiptDoc verification_receipt

section \<open>Audit and remediation rows\<close>

datatype audit_type =
    AT_FINDING_OPENED | AT_FINDING_UPDATED | AT_FINDING_REOPENED | AT_FINDING_ACKNOWLEDGED
  | AT_FINDING_RESOLVED | AT_FINDING_FALSE_POSITIVE | AT_FINDING_ACCEPTED_RISK
  | AT_EXCEPTION_CREATED | AT_EXCEPTION_EXPIRED | AT_EXCEPTION_REVOKED
  | AT_SCAN_STARTED | AT_SCAN_COMPLETED | AT_SCAN_FAILED
  | AT_REMEDIATION_PROPOSED | AT_REMEDIATION_DECISION decision_kind
  | AT_REMEDIATION_EXECUTION event_kind
  | AT_REMEDIATION_VERIFICATION_REQUESTED | AT_REMEDIATION_VERIFICATION_COMPLETED

datatype event_actor = HumanActor actor_context | ServiceActor string

datatype audit_metadata =
    MetaRemediation actor_context uuid digest "uuid option"
  | MetaExecution event_actor uuid digest uuid digest nat event_kind
  | MetaFindingOpened uuid
  | MetaFindingStatus uuid uuid finding_status finding_status
  | MetaDisposition finding_status finding_status
  | MetaException uuid uuid uuid exception_status time "string option"
  | MetaScanStarted
  | MetaScanCompleted scan_status nat
  | MetaScanFailed string string
  | MetaVerification actor_context uuid digest uuid uuid nat
  | MetaVerificationStart actor_context uuid digest uuid uuid nat "string list"
  | MetaReceipt uuid digest uuid digest verification_outcome verification_reason digest

datatype target_type =
    TargetFinding | TargetException | TargetRemediation | TargetExecution | TargetScan | TargetVerification

datatype actor_type = ActorHuman | ActorService | ActorUser | ActorSystem

record audit_row =
  au_id :: uuid
  au_type :: audit_type
  au_actor_type :: actor_type
  au_actor_id :: string
  au_target_type :: target_type
  au_target_id :: uuid
  au_time :: time
  au_metadata :: audit_metadata

record proposal_row =
  rp_id :: uuid
  rp_finding_id :: uuid
  rp_occurrence_id :: uuid
  rp_account_id :: string
  rp_actor_issuer :: string
  rp_actor_subject :: string
  rp_actor_roles :: "string list"
  rp_content :: document
  rp_sha :: digest
  rp_created_at :: time
  rp_expires_at :: time

record decision_row =
  de_id :: uuid
  de_proposal_id :: uuid
  de_kind :: decision_kind
  de_proposal_sha :: digest
  de_approval_id :: "uuid option"
  de_actor_issuer :: string
  de_actor_subject :: string
  de_actor_roles :: "string list"
  de_reason :: string
  de_created_at :: time

datatype operation = OP_CREATE | OP_DECIDE | OP_REVOKE

record request_row =
  rq_id :: uuid
  rq_identity_sha :: digest
  rq_actor_issuer :: string
  rq_actor_subject :: string
  rq_operation :: operation
  rq_key :: uuid
  rq_request_sha :: digest
  rq_proposal_id :: uuid
  rq_decision_id :: "uuid option"

record execution_row =
  ex_id :: uuid
  ex_proposal_id :: uuid
  ex_approval_id :: uuid
  ex_identity_sha :: digest
  ex_actor_issuer :: string
  ex_actor_subject :: string
  ex_key :: uuid
  ex_request_sha :: digest
  ex_content :: document
  ex_sha :: digest
  ex_created_at :: time
  ex_expires_at :: time

record event_row =
  ee_id :: uuid
  ee_execution_id :: uuid
  ee_audit_id :: uuid
  ee_sequence :: nat
  ee_kind :: event_kind
  ee_content :: document
  ee_sha :: digest
  ee_previous :: "digest option"
  ee_created_at :: time

record reservation_row =
  rv_id :: uuid
  rv_resource_id :: uuid
  rv_account_id :: string
  rv_region :: string
  rv_execution_id :: "uuid option"

record claim_row =
  wc_execution_id :: uuid
  wc_token_sha :: digest
  wc_role_arn :: string
  wc_generation :: nat
  wc_read_attempts :: nat
  wc_readback_attempts :: nat
  wc_readback_started :: "time option"
  wc_lease_until :: time
  wc_intent_event_id :: "uuid option"

record verification_row =
  vf_id :: uuid
  vf_execution_id :: uuid
  vf_ack_event_id :: uuid
  vf_scan_id :: uuid
  vf_audit_id :: uuid
  vf_attempt :: nat
  vf_identity_sha :: digest
  vf_actor_issuer :: string
  vf_actor_subject :: string
  vf_key :: uuid
  vf_request_sha :: digest
  vf_content :: document
  vf_sha :: digest
  vf_created_at :: time

record receipt_row =
  rt_verification_id :: uuid
  rt_audit_id :: uuid
  rt_outcome :: verification_outcome
  rt_content :: document
  rt_sha :: digest
  rt_created_at :: time

text \<open>
  The database. \<open>action_id\<close> is the same constant in every proposal and reservation, so a
  target is its account and Region.
\<close>

record db =
  db_findings :: "finding_row list"
  db_exceptions :: "exception_row list"
  db_history :: history
  db_audits :: "audit_row list"
  db_proposals :: "proposal_row list"
  db_decisions :: "decision_row list"
  db_requests :: "request_row list"
  db_executions :: "execution_row list"
  db_events :: "event_row list"
  db_reservations :: "reservation_row list"
  db_claims :: "claim_row list"
  db_guard :: bool
  db_verifications :: "verification_row list"
  db_receipts :: "receipt_row list"
  db_verification_guard :: bool

section \<open>The environment of a call and the transaction monad\<close>

datatype dialect = SQLITE | POSTGRESQL | OTHER_DIALECT

text \<open>
  \<open>sha\<close> is the canonical JSON digest, \<open>uuid5_of\<close> the name-based UUID, \<open>tick i\<close> the i-th clock reading and \<open>fresh i\<close> the i-th
  uuid4 of the call, \<open>in_tx\<close> and \<open>pending\<close> whether the session has an open transaction or
  unflushed objects, \<open>down\<close>
  whether the first statement of the transaction raises OperationalError.
\<close>

record env =
  sha :: "document \<Rightarrow> digest"
  uuid5_of :: "uuid \<Rightarrow> string \<Rightarrow> uuid"
  tick :: "nat \<Rightarrow> reading"
  fresh :: "nat \<Rightarrow> uuid"
  in_tx :: bool
  pending :: bool
  dialect_of :: dialect
  down :: bool

record work =
  wk_db :: db
  wk_ticks :: nat
  wk_ids :: nat

type_synonym 'a act = "work \<Rightarrow> failure + ('a \<times> work)"

definition ret :: "'a \<Rightarrow> 'a act" where
  "ret a w = Inr (a, w)"

definition raise :: "failure \<Rightarrow> 'a act" where
  "raise e w = Inl e"

definition bnd :: "'a act \<Rightarrow> ('a \<Rightarrow> 'b act) \<Rightarrow> 'b act" where
  "bnd m f w = (case m w of Inl e \<Rightarrow> Inl e | Inr (a, w') \<Rightarrow> f a w')"

definition guard :: "bool \<Rightarrow> failure \<Rightarrow> unit act" where
  "guard b e w = (if b then Inr ((), w) else Inl e)"

definition get_db :: "db act" where
  "get_db w = Inr (wk_db w, w)"

definition change :: "(db \<Rightarrow> db) \<Rightarrow> unit act" where
  "change f w = Inr ((), w\<lparr>wk_db := f (wk_db w)\<rparr>)"

definition lift_res :: "failure + 'a \<Rightarrow> 'a act" where
  "lift_res r w = (case r of Inl e \<Rightarrow> Inl e | Inr a \<Rightarrow> Inr (a, w))"

text \<open>\<open>_now\<close>: a naive clock is a ValueError.\<close>

definition now :: "env \<Rightarrow> time act" where
  "now env w =
     (case tick env (wk_ticks w) of
        Aware t \<Rightarrow> Inr (t, w\<lparr>wk_ticks := Suc (wk_ticks w)\<rparr>)
      | Naive \<Rightarrow> Inl (ValueErr ''remediation clock must be timezone-aware''))"

definition uuid4 :: "env \<Rightarrow> uuid act" where
  "uuid4 env w = Inr (fresh env (wk_ids w), w\<lparr>wk_ids := Suc (wk_ids w)\<rparr>)"

definition initial_work :: "db \<Rightarrow> work" where
  "initial_work d = \<lparr>wk_db = d, wk_ticks = 0, wk_ids = 0\<rparr>"

text \<open>A loop over a list inside a transaction.\<close>

fun for_each :: "('a \<Rightarrow> unit act) \<Rightarrow> 'a list \<Rightarrow> unit act" where
  "for_each f [] = ret ()"
| "for_each f (x # xs) = bnd (f x) (\<lambda>_. for_each f xs)"

text \<open>
  Running a transaction: commit gives the changed tables, any exception rolls back. What the
  wrappers do with the exception afterwards differs, so they receive it.
\<close>

definition transact :: "'a act \<Rightarrow> db \<Rightarrow> (failure + 'a) \<times> db" where
  "transact m d =
     (case m (initial_work d) of Inl e \<Rightarrow> (Inl e, d) | Inr (a, w) \<Rightarrow> (Inr a, wk_db w))"

text \<open>The \<open>except IntegrityError\<close> of the execution services.\<close>

definition commit_or_conflict :: "'a act \<Rightarrow> db \<Rightarrow> (failure + 'a) \<times> db" where
  "commit_or_conflict m d =
     (case transact m d of
        (Inl IntegrityErr, _) \<Rightarrow> (Inl (RemErr StateConflict), d)
      | r \<Rightarrow> r)"

lemma bnd_Inr_iff: "bnd m f w = Inr r \<longleftrightarrow> (\<exists>a w'. m w = Inr (a, w') \<and> f a w' = Inr r)"
  by (auto simp: bnd_def split: sum.splits)

lemma guard_Inr_iff [simp]: "guard b e w = Inr (u, w') \<longleftrightarrow> b \<and> w' = w"
  by (auto simp: guard_def)

lemma ret_Inr_iff [simp]: "ret a w = Inr (b, w') \<longleftrightarrow> b = a \<and> w' = w"
  by (auto simp: ret_def)

lemma raise_not_Inr [simp]: "raise e w \<noteq> Inr r"
  by (simp add: raise_def)

lemma get_db_Inr_iff [simp]: "get_db w = Inr (d, w') \<longleftrightarrow> d = wk_db w \<and> w' = w"
  by (auto simp: get_db_def)

lemma change_Inr_iff [simp]:
  "change f w = Inr (u, w') \<longleftrightarrow> w' = w\<lparr>wk_db := f (wk_db w)\<rparr>"
  by (auto simp: change_def)

lemma lift_res_Inr_iff [simp]: "lift_res r w = Inr (a, w') \<longleftrightarrow> r = Inr a \<and> w' = w"
  by (auto simp: lift_res_def split: sum.splits)

lemma now_Inr_db: "now env w = Inr (t, w') \<Longrightarrow> wk_db w' = wk_db w"
  by (auto simp: now_def split: reading.splits)

lemma uuid4_Inr_db: "uuid4 env w = Inr (u, w') \<Longrightarrow> wk_db w' = wk_db w"
  by (auto simp: uuid4_def)

lemma uuid4_Inr_iff [simp]:
  "uuid4 env w = Inr (u, w') \<longleftrightarrow> u = fresh env (wk_ids w) \<and> w' = w\<lparr>wk_ids := Suc (wk_ids w)\<rparr>"
  by (auto simp: uuid4_def)

lemma now_Inr_iff [simp]:
  "now env w = Inr (t, w') \<longleftrightarrow>
     tick env (wk_ticks w) = Aware t \<and> w' = w\<lparr>wk_ticks := Suc (wk_ticks w)\<rparr>"
  by (auto simp: now_def split: reading.splits)

lemma for_each_invariant:
  assumes "for_each f xs w = Inr (u, w')" "P w"
    and "\<And>x w u w'. x \<in> set xs \<Longrightarrow> P w \<Longrightarrow> f x w = Inr (u, w') \<Longrightarrow> P w'"
  shows "P w'"
  using assms
proof (induction xs arbitrary: w)
  case Nil
  then show ?case by simp
next
  case (Cons x xs)
  from Cons.prems(1) obtain v w1 where "f x w = Inr (v, w1)" "for_each f xs w1 = Inr (u, w')"
    by (auto simp: bnd_Inr_iff)
  then show ?case using Cons by (meson list.set_intros)
qed

lemma transact_Inl: "transact m d = (Inl e, d') \<Longrightarrow> d' = d"
  by (auto simp: transact_def split: sum.splits prod.splits)

lemma transact_Inr:
  "transact m d = (Inr a, d') \<longleftrightarrow> (\<exists>w. m (initial_work d) = Inr (a, w) \<and> d' = wk_db w)"
  by (auto simp: transact_def split: sum.splits prod.splits)

lemma commit_or_conflict_Inr [simp]:
  "commit_or_conflict m d = (Inr a, d') \<longleftrightarrow> transact m d = (Inr a, d')"
  by (auto simp: commit_or_conflict_def split: prod.splits sum.splits failure.splits)

lemma commit_or_conflict_Inl: "commit_or_conflict m d = (Inl e, d') \<Longrightarrow> d' = d"
  using transact_Inl [of m d]
  by (auto simp: commit_or_conflict_def split: prod.splits sum.splits failure.splits)

interpretation tables: transactional transact
  by unfold_locales (rule transact_Inl)

interpretation commits: transactional commit_or_conflict
  by unfold_locales (rule commit_or_conflict_Inl)

section \<open>Inserts with their constraints\<close>

text \<open>SQL \<open>length(trim(x)) > 0\<close>: trim removes spaces only.\<close>

definition sql_trim :: "string \<Rightarrow> string" where
  "sql_trim s = rev (dropWhile (\<lambda>c. c = CHR '' '') (rev (dropWhile (\<lambda>c. c = CHR '' '') s)))"

definition sql_nonblank :: "string \<Rightarrow> bool" where
  "sql_nonblank s = (sql_trim s \<noteq> [])"

definition new_key :: "('r \<Rightarrow> 'k) \<Rightarrow> 'k \<Rightarrow> 'r list \<Rightarrow> bool" where
  "new_key key k rows = (\<forall>r\<in>set rows. key r \<noteq> k)"

definition insert_audit :: "audit_row \<Rightarrow> unit act" where
  "insert_audit a =
     bnd get_db (\<lambda>d.
     bnd (guard (new_key au_id (au_id a) (db_audits d) \<and> sql_nonblank (au_actor_id a)) IntegrityErr) (\<lambda>_.
     change (\<lambda>d. d\<lparr>db_audits := db_audits d @ [a]\<rparr>)))"

definition append_audit_event ::
    "env \<Rightarrow> audit_type \<Rightarrow> target_type \<Rightarrow> uuid \<Rightarrow> time \<Rightarrow> actor_type \<Rightarrow> string \<Rightarrow> audit_metadata \<Rightarrow>
     audit_row act" where
  "append_audit_event env ty tt tid at aty aid meta =
     bnd (uuid4 env) (\<lambda>u.
     let a = \<lparr>au_id = u, au_type = ty, au_actor_type = aty, au_actor_id = aid,
              au_target_type = tt, au_target_id = tid, au_time = at, au_metadata = meta\<rparr>
     in bnd (insert_audit a) (\<lambda>_. ret a))"

definition insert_proposal :: "proposal_row \<Rightarrow> unit act" where
  "insert_proposal p =
     bnd get_db (\<lambda>d.
     bnd (guard (new_key rp_id (rp_id p) (db_proposals d) \<and> length (rp_sha p) = 64 \<and>
         rp_created_at p < rp_expires_at p \<and> length (rp_account_id p) = 12 \<and>
         sql_nonblank (rp_actor_issuer p) \<and> sql_nonblank (rp_actor_subject p)) IntegrityErr) (\<lambda>_.
     change (\<lambda>d. d\<lparr>db_proposals := db_proposals d @ [p]\<rparr>)))"

definition initial_decision :: "decision_row \<Rightarrow> bool" where
  "initial_decision r = (de_kind r \<in> {DK_APPROVE, DK_REJECT})"

text \<open>The two partial unique indexes: one initial decision, one revocation per proposal.\<close>

definition decision_slot_free :: "decision_row \<Rightarrow> decision_row list \<Rightarrow> bool" where
  "decision_slot_free r rows =
     (\<forall>q\<in>set rows. de_proposal_id q = de_proposal_id r \<longrightarrow> initial_decision q \<noteq> initial_decision r)"

definition insert_decision :: "decision_row \<Rightarrow> unit act" where
  "insert_decision r =
     bnd get_db (\<lambda>d.
     bnd (guard (new_key de_id (de_id r) (db_decisions d) \<and>
         (de_kind r = DK_REVOKE) = (de_approval_id r \<noteq> None) \<and>
         1 \<le> length (sql_trim (de_reason r)) \<and> length (sql_trim (de_reason r)) \<le> 2000 \<and>
         length (de_proposal_sha r) = 64 \<and> sql_nonblank (de_actor_issuer r) \<and>
         sql_nonblank (de_actor_subject r) \<and> decision_slot_free r (db_decisions d))
       IntegrityErr) (\<lambda>_.
     change (\<lambda>d. d\<lparr>db_decisions := db_decisions d @ [r]\<rparr>)))"

definition insert_request :: "request_row \<Rightarrow> unit act" where
  "insert_request r =
     bnd get_db (\<lambda>d.
     bnd (guard (new_key rq_id (rq_id r) (db_requests d) \<and>
         new_key (\<lambda>q. (rq_identity_sha q, rq_operation q, rq_key q))
           (rq_identity_sha r, rq_operation r, rq_key r) (db_requests d) \<and>
         (rq_operation r = OP_CREATE) = (rq_decision_id r = None) \<and>
         length (rq_request_sha r) = 64 \<and> length (rq_identity_sha r) = 64 \<and>
         sql_nonblank (rq_actor_issuer r) \<and> sql_nonblank (rq_actor_subject r)) IntegrityErr) (\<lambda>_.
     change (\<lambda>d. d\<lparr>db_requests := db_requests d @ [r]\<rparr>)))"

definition insert_execution :: "execution_row \<Rightarrow> unit act" where
  "insert_execution r =
     bnd get_db (\<lambda>d.
     bnd (guard (new_key ex_id (ex_id r) (db_executions d) \<and>
         new_key ex_proposal_id (ex_proposal_id r) (db_executions d) \<and>
         new_key (\<lambda>q. (ex_identity_sha q, ex_key q)) (ex_identity_sha r, ex_key r)
           (db_executions d) \<and>
         length (ex_sha r) = 64 \<and> length (ex_request_sha r) = 64 \<and>
         length (ex_identity_sha r) = 64 \<and> sql_nonblank (ex_actor_issuer r) \<and>
         sql_nonblank (ex_actor_subject r) \<and> ex_created_at r < ex_expires_at r) IntegrityErr) (\<lambda>_.
     change (\<lambda>d. d\<lparr>db_executions := db_executions d @ [r]\<rparr>)))"

text \<open>The journal: unique sequence and audit event, one intent and one receipt, the transition check.\<close>

definition event_checks :: "event_row \<Rightarrow> bool" where
  "event_checks e =
     (1 \<le> ee_sequence e \<and> length (ee_sha e) = 64 \<and>
      (ee_sequence e = 1 \<and> ee_kind e = EK_REQUESTED \<and> ee_previous e = None \<or>
       ee_sequence e \<ge> 2 \<and> ee_kind e \<noteq> EK_REQUESTED \<and>
       (case ee_previous e of None \<Rightarrow> False | Some p \<Rightarrow> length p = 64) \<and>
       (ee_kind e \<in> {EK_EXPIRED, EK_BLOCKED} \<longrightarrow> ee_sequence e = 2)))"

definition insert_event :: "event_row \<Rightarrow> unit act" where
  "insert_event e =
     bnd get_db (\<lambda>d.
     bnd (guard (new_key ee_id (ee_id e) (db_events d) \<and>
         new_key (\<lambda>q. (ee_execution_id q, ee_sequence q)) (ee_execution_id e, ee_sequence e)
           (db_events d) \<and>
         new_key ee_audit_id (ee_audit_id e) (db_events d) \<and>
         (ee_kind e \<in> {EK_WRITE_INTENT, EK_ACKNOWLEDGED} \<longrightarrow>
            new_key (\<lambda>q. (ee_execution_id q, ee_kind q)) (ee_execution_id e, ee_kind e)
              (db_events d)) \<and>
         event_checks e) IntegrityErr) (\<lambda>_.
     change (\<lambda>d. d\<lparr>db_events := db_events d @ [e]\<rparr>)))"

text \<open>
  The reservation and claim tables are mutable: their constraints are checked on the whole
  table when the changes are flushed. An execution holds at most one target.
\<close>

definition reservations_ok :: "reservation_row list \<Rightarrow> bool" where
  "reservations_ok rows =
     (distinct (map rv_id rows) \<and> distinct (map (\<lambda>r. (rv_account_id r, rv_region r)) rows) \<and>
      distinct (map rv_execution_id (filter (\<lambda>r. rv_execution_id r \<noteq> None) rows)) \<and>
      list_all (\<lambda>r. length (rv_account_id r) = 12 \<and> 1 \<le> length (sql_trim (rv_region r)) \<and>
        length (sql_trim (rv_region r)) \<le> 64) rows)"

definition claim_ok :: "claim_row \<Rightarrow> bool" where
  "claim_ok c =
     (length (wc_token_sha c) = 64 \<and> 1 \<le> wc_generation c \<and> wc_read_attempts c \<le> 3 \<and>
      wc_readback_attempts c \<le> 3 \<and>
      (wc_readback_attempts c = 0) = (wc_readback_started c = None) \<and>
      sql_nonblank (wc_role_arn c))"

definition claims_ok :: "claim_row list \<Rightarrow> bool" where
  "claims_ok rows = (distinct (map wc_execution_id rows) \<and> list_all claim_ok rows)"

definition flush :: "unit act" where
  "flush =
     bnd get_db (\<lambda>d.
     guard (reservations_ok (db_reservations d) \<and> claims_ok (db_claims d)) IntegrityErr)"

text \<open>\<open>reservation.execution_id = e\<close> on a loaded row; the attributes of a loaded claim.\<close>

definition set_reservation :: "uuid \<Rightarrow> uuid option \<Rightarrow> unit act" where
  "set_reservation rid e =
     change (\<lambda>d. d\<lparr>db_reservations :=
       modify_rows rv_id rid (\<lambda>r. r\<lparr>rv_execution_id := e\<rparr>) (db_reservations d)\<rparr>)"

definition set_claim :: "uuid \<Rightarrow> (claim_row \<Rightarrow> claim_row) \<Rightarrow> unit act" where
  "set_claim eid f =
     change (\<lambda>d. d\<lparr>db_claims := modify_rows wc_execution_id eid f (db_claims d)\<rparr>)"

end
