(* ===== verification/Provenance.thy ===== *)
theory Provenance
  imports Database
begin

text \<open>
  app/remediation/provenance.py over the accepted assessment history: \<open>baseline_for\<close> (None is
  any of its ValueError, KeyError, TypeError and CatalogPersistenceError, which every caller
  treats alike), \<open>governance_state\<close> and \<open>has_newer_assessment\<close>; the deterministic identifiers
  of app/assessment/identities.py and of EvidenceArtifact.
\<close>

section \<open>Deterministic identifiers\<close>

definition unit_separator :: string where
  "unit_separator = [char_of (31 :: nat)]"

fun scope_text :: "resource_scope \<Rightarrow> string" where
  "scope_text SCOPE_GLOBAL = ''global''"
| "scope_text SCOPE_REGIONAL = ''regional''"

definition or_global :: "string \<Rightarrow> string" where
  "or_global r = (if r = [] then ''global'' else r)"

definition resource_namespace :: uuid where
  "resource_namespace = 0x32d096cd4a2754fba61101bcf7678bb4"

definition assessment_namespace :: uuid where
  "assessment_namespace = 0xe62d55d7baea57d682cdb8ea6c1d23d6"

definition evidence_namespace :: uuid where
  "evidence_namespace = 0x51240b6004755f64a84041c9e05288c7"

definition stable_resource_id ::
    "env \<Rightarrow> string \<Rightarrow> string \<Rightarrow> string \<Rightarrow> string \<Rightarrow> resource_scope \<Rightarrow> string \<Rightarrow> string \<Rightarrow> uuid" where
  "stable_resource_id env provider account service rtype scope region aws_id =
     uuid5_of env resource_namespace
       (join_with unit_separator
         [provider, account, service, rtype, scope_text scope, or_global region, aws_id])"

definition resource_snapshot_id ::
    "env \<Rightarrow> uuid \<Rightarrow> string \<Rightarrow> string \<Rightarrow> string \<Rightarrow> resource_scope \<Rightarrow> string \<Rightarrow> string \<Rightarrow> uuid" where
  "resource_snapshot_id env scan account service rtype scope region aws_id =
     uuid5_of env assessment_namespace
       (join_with unit_separator
         [uuid_text scan, account, service, rtype, scope_text scope, or_global region, aws_id])"

definition build_evidence_id :: "env \<Rightarrow> string list \<Rightarrow> uuid" where
  "build_evidence_id env parts = uuid5_of env evidence_namespace (join_with unit_separator parts)"

section \<open>The retained baseline\<close>

definition require :: "bool \<Rightarrow> unit option" where
  "require b = (if b then Some () else None)"

text \<open>The rows of one occurrence, all present.\<close>

record baseline_rows =
  br_assessment :: assessment_row
  br_scan :: scan_row
  br_snapshot :: snapshot_row
  br_resource :: resource_row
  br_control :: control_row
  br_version :: version_row

definition load_rows :: "history \<Rightarrow> occurrence_row \<Rightarrow> baseline_rows option" where
  "load_rows h oc =
     (case (find_row ca_id (oc_assessment_id oc) (hs_assessments h),
            find_row sc_id (oc_scan_id oc) (hs_scans h),
            find_row sn_id (oc_snapshot_id oc) (hs_snapshots h),
            find_row rs_id (oc_resource_id oc) (hs_resources h),
            find_row ct_id (oc_control_id oc) (hs_controls h),
            find_row cv_id (oc_control_version_id oc) (hs_versions h)) of
        (Some a, Some s, Some sn, Some r, Some c, Some v) \<Rightarrow>
          Some \<lparr>br_assessment = a, br_scan = s, br_snapshot = sn, br_resource = r,
                br_control = c, br_version = v\<rparr>
      | _ \<Rightarrow> None)"

definition rows_agree :: "finding_row \<Rightarrow> occurrence_row \<Rightarrow> baseline_rows \<Rightarrow> bool" where
  "rows_agree f oc b =
     (let a = br_assessment b; s = br_scan b; sn = br_snapshot b; r = br_resource b;
          v = br_version b
      in sc_status s = SC_COMPLETED \<and> ca_result a = FAIL \<and>
         ct_key (br_control b) = ''EC2-004'' \<and> ca_missing a = [] \<and>
         oc_resource_id oc = fd_resource_id f \<and> fd_resource_id f = ca_resource_id a \<and>
         ca_resource_id a = sn_resource_id sn \<and>
         oc_control_id oc = fd_control_id f \<and> fd_control_id f = ca_control_id a \<and>
         ca_control_id a = cv_control_id v \<and>
         ca_scan_id a = sc_id s \<and> sc_id s = sn_scan_id sn \<and>
         rs_provider r = ''aws'' \<and> rs_service r = ''ec2'' \<and> rs_type r = ''aws_account'' \<and>
         rs_scope r = SCOPE_REGIONAL \<and> rs_scope r = sn_scope sn \<and>
         Some (rs_region r) = sn_region sn \<and> sn_region sn = fd_region f \<and>
         rs_account r = rs_aws_id r \<and> rs_aws_id r = fd_account f \<and>
         Some (fd_account f) = sc_account s)"

definition identities_agree :: "env \<Rightarrow> baseline_rows \<Rightarrow> bool" where
  "identities_agree env b =
     (let s = br_scan b; sn = br_snapshot b; r = br_resource b
      in resource_snapshot_id env (sc_id s) (rs_account r) (rs_service r) (rs_type r)
           (rs_scope r) (rs_region r) (rs_aws_id r) = sn_id sn \<and>
         stable_resource_id env ''aws'' (rs_account r) (rs_service r) (rs_type r)
           (rs_scope r) (rs_region r) (rs_aws_id r) = rs_id r \<and>
         sha env (StateDoc (sn_arn sn) (sn_name sn) (sn_scope sn) (sn_region sn)
           (canon (sn_tags sn)) (canon (sn_configuration sn))) = sn_state_sha sn)"

text \<open>The profile and catalog the scan ran with.\<close>

definition load_policy :: "history \<Rightarrow> baseline_rows \<Rightarrow> (loaded_profile \<times> string \<times> string) option" where
  "load_policy h b =
     (case hs_load_profile h (sc_profile_id (br_scan b)) (sc_profile_version (br_scan b))
             (sc_profile_sha (br_scan b)) of
        None \<Rightarrow> None
      | Some p \<Rightarrow>
          (case find_row pf_row_id (ca_profile_row_id (br_assessment b)) (hs_profiles h) of
             None \<Rightarrow> None
           | Some row \<Rightarrow>
               if pf_id row = lp_id p \<and> pf_version row = lp_version p \<and>
                  ''EC2-004'' \<in> set (lp_controls p)
               then (case hs_catalog h (sc_catalog_id (br_scan b)) (sc_catalog_version (br_scan b)) of
                       None \<Rightarrow> None
                     | Some (cid, cver) \<Rightarrow>
                         if cv_catalog_key (br_version b) = cid \<and>
                            cv_catalog_version (br_version b) = cver
                         then Some (p, cid, cver) else None)
               else None))"

text \<open>The nested \<open>source(kind, api)\<close>: exactly one outcome, its artifact and binding.\<close>

definition source_matches :: "resource_row \<Rightarrow> string \<Rightarrow> string \<Rightarrow> source_outcome \<Rightarrow> bool" where
  "source_matches r kind api so =
     (so_kind so = kind \<and> so_api so = api \<and> so_collector so = ''ec2.ebs-defaults'' \<and>
      so_collector_version so = ''1.0.0'' \<and>
      so_subject so = AccountSubject (rs_account r) SCOPE_REGIONAL (Some (rs_region r)))"

definition load_source ::
    "evidence_graph \<Rightarrow> baseline_rows \<Rightarrow> string \<Rightarrow> string \<Rightarrow>
     (source_outcome \<times> json \<times> source_binding) option" where
  "load_source g b kind api =
     (case filter (source_matches (br_resource b) kind api) (eg_outcomes g) of
        [so] \<Rightarrow>
          (case find_row ga_reference (so_reference so) (rev (eg_artifacts g)) of
             None \<Rightarrow> None
           | Some art \<Rightarrow>
               let p = ga_payload art
               in if jget ''account_id'' p = JStr (rs_account (br_resource b)) \<and>
                     jget ''region'' p = JStr (rs_region (br_resource b)) \<and>
                     jget ''complete'' p = JBool True \<and> jget ''failure_category'' p = JNull \<and>
                     ga_collected_at art = sn_observed_at (br_snapshot b)
                  then Some (so, p, \<lparr>sb_outcome_id = so_id so, sb_artifact_id = ga_id art,
                                     sb_reference = ga_reference art, sb_sha = ga_sha art\<rparr>)
                  else None)
      | _ \<Rightarrow> None)"

definition kms_context :: "source_outcome \<Rightarrow> json \<Rightarrow> (string option \<times> bool) option" where
  "kms_context so p =
     (case (jget ''default_kms_key_id'' p, jget ''expected_absence'' p) of
        (JNull, JBool True) \<Rightarrow> if so_state so = ST_EXPECTED_ABSENCE then Some (None, True) else None
      | (JStr k, JBool False) \<Rightarrow>
          if so_state so = ST_PRESENT \<and> strip_ws k \<noteq> [] then Some (Some k, False) else None
      | _ \<Rightarrow> None)"

definition expected_payload :: "scan_row \<Rightarrow> source_binding \<Rightarrow> json" where
  "expected_payload s sb =
     JObj [(''evaluation_version'', JStr ''1.0.0''),
           (''ebs_encryption_by_default'', JBool False),
           (''source_proof'', JObj
             [(''schema_version'', JStr ''1.0.0''),
              (''scan_id'', JStr (uuid_text (sc_id s))),
              (''sources'', JList [JObj
                [(''source_outcome_id'', JStr (uuid_text (sb_outcome_id sb))),
                 (''artifact_id'', JStr (uuid_text (sb_artifact_id sb))),
                 (''evidence_sha256'', JStr (sb_sha sb))]]),
              (''relationship_observation_ids'', JList [])])]"

text \<open>\<open>DomainEvidenceArtifact.for_assessment\<close>: stripped non-empty provenance, then the identifier.\<close>

definition plain_text :: "string \<Rightarrow> bool" where
  "plain_text s = (s \<noteq> [] \<and> trim_text s = s)"

definition expected_evidence :: "env \<Rightarrow> baseline_rows \<Rightarrow> json \<Rightarrow> (uuid \<times> digest) option" where
  "expected_evidence env b payload =
     (let s = br_scan b; sn = br_snapshot b; r = br_resource b;
          d = sha env (PayloadDoc (canon payload));
          arn = (case sn_arn sn of None \<Rightarrow> [] | Some a \<Rightarrow> a)
      in if plain_text (rs_account r) \<and> plain_text (rs_aws_id r) \<and> plain_text (rs_region r) \<and>
            trim_text arn = arn
         then Some (build_evidence_id env
                [uuid_text (sc_id s), uuid_text (sn_id sn), ''EC2-004'', rs_account r, ''ec2'',
                 ''aws_account'', scope_text (rs_scope r), or_global (rs_region r), rs_aws_id r,
                 arn, ''ec2.ebs-defaults'', ''normalized-inventory'',
                 ''ec2:GetEbsEncryptionByDefault'', iso_text (sn_observed_at sn),
                 ''control.ec2-004.evidence'', ''1.0.0'', ''primary'', d], d)
         else None)"

definition check_evidence ::
    "env \<Rightarrow> history \<Rightarrow> baseline_rows \<Rightarrow> source_binding \<Rightarrow> evidence_row option" where
  "check_evidence env h b sb =
     (case filter (\<lambda>e. er_assessment_id e = ca_id (br_assessment b)) (hs_evidence h) of
        [rec] \<Rightarrow>
          (case expected_evidence env b (expected_payload (br_scan b) sb) of
             None \<Rightarrow> None
           | Some (eid, d) \<Rightarrow>
               if er_id rec = eid \<and> er_payload_sha rec = d \<and>
                  sha env (PayloadDoc (canon (er_payload rec))) = d \<and>
                  er_collector rec = ''ec2.ebs-defaults'' \<and>
                  er_source rec = ''normalized-inventory'' \<and>
                  er_source_api rec = ''ec2:GetEbsEncryptionByDefault'' \<and>
                  er_schema_name rec = ''control.ec2-004.evidence'' \<and>
                  er_schema_version rec = ''1.0.0'' \<and> er_evidence_key rec = ''primary'' \<and>
                  er_collected_at rec = sn_observed_at (br_snapshot b)
               then Some rec else None)
      | _ \<Rightarrow> None)"

definition make_baseline ::
    "occurrence_row \<Rightarrow> baseline_rows \<Rightarrow> loaded_profile \<Rightarrow> string \<Rightarrow> string \<Rightarrow> digest \<Rightarrow> evidence_row \<Rightarrow>
     source_binding \<Rightarrow> source_binding \<Rightarrow> string option \<Rightarrow> bool \<Rightarrow> baseline" where
  "make_baseline oc b p cid cver isha rec enc kms key absent =
     \<lparr>bl_occurrence_id = oc_id oc, bl_assessment_id = ca_id (br_assessment b),
      bl_scan_id = sc_id (br_scan b), bl_snapshot_id = sn_id (br_snapshot b),
      bl_state_sha = sn_state_sha (br_snapshot b), bl_observed_at = sn_observed_at (br_snapshot b),
      bl_profile_id = lp_id p, bl_profile_version = lp_version p, bl_profile_sha = lp_sha p,
      bl_catalog_id = cid, bl_catalog_version = cver,
      bl_catalog_sha = cv_catalog_sha (br_version b),
      bl_control_version_id = cv_id (br_version b),
      bl_control_definition_sha = cv_definition_sha (br_version b), bl_inventory_sha = isha,
      bl_evidence = [\<lparr>eb_evidence_id = er_id rec, eb_payload_sha = er_payload_sha rec\<rparr>],
      bl_encryption_source = enc, bl_kms_source = kms,
      bl_kms_key_id = key, bl_kms_absence = absent\<rparr>"

text \<open>\<open>baseline_for\<close>: the retained FAIL and everything it rests on must agree.\<close>

definition baseline_for ::
    "env \<Rightarrow> history \<Rightarrow> finding_row \<Rightarrow> occurrence_row \<Rightarrow> baseline option" where
  "baseline_for env h f oc =
     Option.bind (require (oc_finding_id oc = fd_id f)) (\<lambda>_.
     Option.bind (load_rows h oc) (\<lambda>b.
     Option.bind (require (rows_agree f oc b \<and> identities_agree env b)) (\<lambda>_.
     Option.bind (load_policy h b) (\<lambda>(p, cid, cver).
     Option.bind (hs_load_graph h (sc_id (br_scan b))) (\<lambda>g.
     Option.bind (load_source g b ''ec2.ebs-encryption-default'' ''ec2:GetEbsEncryptionByDefault'')
       (\<lambda>(so, pay, enc).
     Option.bind (require (so_state so = ST_PRESENT \<and>
         jget ''ebs_encryption_by_default'' pay = JBool False)) (\<lambda>_.
     Option.bind (load_source g b ''ec2.ebs-default-kms-key'' ''ec2:GetEbsDefaultKmsKeyId'')
       (\<lambda>(kso, kpay, kms).
     Option.bind (kms_context kso kpay) (\<lambda>(key, absent).
     Option.bind (check_evidence env h b enc) (\<lambda>rec.
     Option.bind (sc_inventory_sha (br_scan b)) (\<lambda>isha.
     let bl = make_baseline oc b p cid cver isha rec enc kms key absent
     in if valid_baseline bl then Some bl else None)))))))))))"

section \<open>Governance and newer assessments\<close>

definition exceptions_of :: "db \<Rightarrow> finding_row \<Rightarrow> exception_row list" where
  "exceptions_of d f =
     sort_key fe_id (filter (\<lambda>e. fe_finding_id e = fd_id f \<and> fe_resource_id e = fd_resource_id f \<and>
       fe_control_id e = fd_control_id f) (db_exceptions d))"

definition finding_event_ids :: "db \<Rightarrow> finding_row \<Rightarrow> uuid list" where
  "finding_event_ids d f =
     sort (map au_id (filter (\<lambda>a. au_target_type a = TargetFinding \<and> au_target_id a = fd_id f)
       (db_audits d)))"

definition governance_state ::
    "env \<Rightarrow> db \<Rightarrow> finding_row \<Rightarrow> time \<Rightarrow> digest \<times> blocking_reason list" where
  "governance_state env d f at =
     (let xs = exceptions_of d f
      in (sha env (GovernanceDoc (fd_status f) (finding_event_ids d f)
            (map (\<lambda>x. (fe_id x, fe_status x, fe_expires_at x, fe_revoked_at x)) xs)),
          (if fd_status f \<in> {FS_OPEN, FS_ACKNOWLEDGED} then [] else [BR_INELIGIBLE_FINDING]) @
          (if \<exists>x\<in>set xs. fe_status x = XS_ACTIVE \<and> at < fe_expires_at x
           then [BR_ACTIVE_EXCEPTION] else [])))"

definition has_newer_assessment :: "history \<Rightarrow> finding_row \<Rightarrow> baseline \<Rightarrow> bool" where
  "has_newer_assessment h f bl =
     (\<exists>a\<in>set (hs_assessments h). \<exists>sn\<in>set (hs_snapshots h).
        sn_id sn = ca_snapshot_id a \<and> ca_resource_id a = fd_resource_id f \<and>
        ca_control_id a = fd_control_id f \<and> ca_id a \<noteq> bl_assessment_id bl \<and>
        bl_observed_at bl \<le> sn_observed_at sn)"

section \<open>What a baseline proves\<close>

lemma require_Some [simp]: "require b = Some u \<longleftrightarrow> b"
  by (simp add: require_def)

lemma load_rows_Some:
  assumes "load_rows h oc = Some b"
  shows "br_assessment b \<in> set (hs_assessments h) \<and> ca_id (br_assessment b) = oc_assessment_id oc"
    "br_scan b \<in> set (hs_scans h) \<and> sc_id (br_scan b) = oc_scan_id oc"
    "br_snapshot b \<in> set (hs_snapshots h) \<and> sn_id (br_snapshot b) = oc_snapshot_id oc"
  using assms
  by (auto simp: load_rows_def dest!: find_row_Some split: option.splits)

lemma baseline_for_SomeD:
  assumes "baseline_for env h f oc = Some bl"
  obtains b where "load_rows h oc = Some b" "rows_agree f oc b" "identities_agree env b"
    "bl_occurrence_id bl = oc_id oc" "bl_assessment_id bl = ca_id (br_assessment b)"
    "bl_scan_id bl = sc_id (br_scan b)" "bl_observed_at bl = sn_observed_at (br_snapshot b)"
    "bl_state_sha bl = sn_state_sha (br_snapshot b)" "valid_baseline bl"
    "oc_finding_id oc = fd_id f"
  using assms unfolding baseline_for_def
  by (auto simp: Let_def make_baseline_def bind_eq_Some_conv split: if_splits)

end
