(* ===== verification/Remediation_Authority.thy ===== *)
theory Remediation_Authority
  imports Provenance
begin

text \<open>
  app/services/remediation_service.py: proposals, decisions and revocations of verified human
  principals, their idempotency ledger, the derived approval status and blocking reasons.
  Reads return a result, mutations run in one serial transaction.
\<close>

section \<open>Actors\<close>

definition actor_of :: "principal \<Rightarrow> capability \<Rightarrow> failure + actor_context" where
  "actor_of p c =
     (if c \<notin> capabilities_for p \<or> pr_issuer p = [] \<or> pr_subject p = []
      then Inl (RemErr InsufficientCapability)
      else Inr \<lparr>ac_issuer = pr_issuer p, ac_subject = pr_subject p,
                ac_roles = sort (remdups (pr_role_names p)), ac_capability = c\<rparr>)"

definition identity_sha :: "(document \<Rightarrow> digest) \<Rightarrow> actor_context \<Rightarrow> digest" where
  "identity_sha h a = h (IdentityDoc (ac_issuer a) (ac_subject a))"

section \<open>Reading proposals\<close>

definition finding_of :: "db \<Rightarrow> uuid \<Rightarrow> failure + finding_row" where
  "finding_of d fid =
     (case find_row fd_id fid (db_findings d) of
        None \<Rightarrow> Inl (NotFound ''finding'' fid)
      | Some f \<Rightarrow> Inr f)"

text \<open>\<open>_proposal\<close>: with the lock the finding of the proposal is read first.\<close>

definition proposal_of :: "db \<Rightarrow> uuid \<Rightarrow> bool \<Rightarrow> failure + proposal_row" where
  "proposal_of d pid lock =
     (case find_row rp_id pid (db_proposals d) of
        None \<Rightarrow> Inl (NotFound ''remediation'' pid)
      | Some p \<Rightarrow>
          if lock then res_bind (finding_of d (rp_finding_id p)) (\<lambda>_. Inr p) else Inr p)"

fun validate_proposal_doc :: "document \<Rightarrow> proposal_content option" where
  "validate_proposal_doc (ProposalDoc c) = make_proposal_content c"
| "validate_proposal_doc _ = None"

definition proposal_ttl :: int where
  "proposal_ttl = seconds (24 * 3600)"

text \<open>\<open>_content\<close>: the digest, the contract and every column of the row must agree.\<close>

definition content_agrees :: "proposal_row \<Rightarrow> proposal_content \<Rightarrow> bool" where
  "content_agrees r c =
     (pc_proposal_id c = rp_id r \<and> pc_finding_id c = rp_finding_id r \<and>
      bl_occurrence_id (pc_baseline c) = rp_occurrence_id r \<and>
      pc_account_id c = rp_account_id r \<and>
      ac_issuer (pc_proposer c) = rp_actor_issuer r \<and>
      ac_subject (pc_proposer c) = rp_actor_subject r \<and>
      ac_roles (pc_proposer c) = rp_actor_roles r \<and>
      ac_capability (pc_proposer c) = CAP_PROPOSE \<and>
      pc_created_at c = rp_created_at r \<and> pc_expires_at c = rp_expires_at r \<and>
      pc_expires_at c = pc_created_at c + proposal_ttl \<and>
      \<not> pc_expected_encryption c \<and> pc_desired_encryption c)"

definition proposal_content_of :: "(document \<Rightarrow> digest) \<Rightarrow> proposal_row \<Rightarrow> failure + proposal_content" where
  "proposal_content_of h r =
     (if h (rp_content r) \<noteq> rp_sha r then Inl (RemErr ProvenanceConflict)
      else (case validate_proposal_doc (rp_content r) of
              None \<Rightarrow> Inl (RemErr ProvenanceConflict)
            | Some c \<Rightarrow> if content_agrees r c then Inr c else Inl (RemErr ProvenanceConflict)))"

text \<open>\<open>_blocking\<close>: every reason at the given time, in the order the code lists them.\<close>

definition baseline_current :: "env \<Rightarrow> db \<Rightarrow> finding_row \<Rightarrow> proposal_content \<Rightarrow> time \<Rightarrow> bool" where
  "baseline_current env d f c at =
     (case find_row oc_id (bl_occurrence_id (pc_baseline c)) (hs_occurrences (db_history d)) of
        None \<Rightarrow> False
      | Some oc \<Rightarrow>
          (case baseline_for env (db_history d) f oc of
             None \<Rightarrow> False
           | Some cur \<Rightarrow>
               cur = pc_baseline c \<and> pc_resource_id c = fd_resource_id f \<and>
               pc_control_id c = fd_control_id f \<and> pc_account_id c = fd_account f \<and>
               Some (pc_region c) = fd_region f \<and> bl_observed_at (pc_baseline c) \<le> at))"

definition blocking_of ::
    "env \<Rightarrow> db \<Rightarrow> proposal_content \<Rightarrow> time \<Rightarrow> failure + blocking_reason list" where
  "blocking_of env d c at =
     res_bind (finding_of d (pc_finding_id c)) (\<lambda>f.
     let (gsha, gov) = governance_state env d f at
     in Inr ((if pc_expires_at c \<le> at then [BR_EXPIRED] else []) @
             (if gsha \<noteq> pc_governance_sha c then [BR_STALE_GOVERNANCE] else []) @ gov @
             (if has_newer_assessment (db_history d) f (pc_baseline c) then [BR_STALE_TARGET] else []) @
             (if baseline_current env d f c at then [] else [BR_INVALID_PROVENANCE])))"

definition decisions_of :: "db \<Rightarrow> uuid \<Rightarrow> decision_row list" where
  "decisions_of d pid =
     sort_key (\<lambda>r. (de_created_at r, de_id r)) (filter (\<lambda>r. de_proposal_id r = pid) (db_decisions d))"

definition decision_view_of :: "decision_row \<Rightarrow> failure + decision_view" where
  "decision_view_of r =
     (case make_decision_view
        \<lparr>dv_decision_id = de_id r, dv_proposal_id = de_proposal_id r, dv_kind = de_kind r,
         dv_proposal_sha = de_proposal_sha r, dv_approval_id = de_approval_id r,
         dv_actor = \<lparr>ac_issuer = de_actor_issuer r, ac_subject = de_actor_subject r,
                     ac_roles = de_actor_roles r, ac_capability = CAP_APPROVE\<rparr>,
         dv_reason = de_reason r, dv_created_at = de_created_at r\<rparr> of
        None \<Rightarrow> Inl (ValueErr ''DecisionView'')
      | Some v \<Rightarrow> Inr v)"

definition approval_status_of :: "decision_kind set \<Rightarrow> approval_status" where
  "approval_status_of kinds =
     (if DK_REVOKE \<in> kinds then AS_REVOKED
      else if DK_REJECT \<in> kinds then AS_REJECTED
      else if DK_APPROVE \<in> kinds then AS_APPROVED
      else AS_PROPOSED)"

definition view_of :: "env \<Rightarrow> proposal_row \<Rightarrow> proposal_view act" where
  "view_of env r =
     bnd (lift_res (proposal_content_of (sha env) r)) (\<lambda>c.
     bnd get_db (\<lambda>d.
     let rows = decisions_of d (rp_id r) in
     bnd (now env) (\<lambda>at.
     bnd (lift_res (blocking_of env d c at)) (\<lambda>reasons.
     bnd (lift_res (res_map decision_view_of rows)) (\<lambda>views.
     ret \<lparr>pv_content = c, pv_proposal_sha = rp_sha r,
          pv_status = approval_status_of (de_kind ` set rows), pv_blocking = reasons,
          pv_checked_at = at, pv_decisions = views\<rparr>)))))"

text \<open>Reads: a READ principal and a clean session; nothing is written.\<close>

definition get_proposal :: "env \<Rightarrow> uuid \<Rightarrow> principal \<Rightarrow> db \<Rightarrow> failure + proposal_view" where
  "get_proposal env pid p d =
     res_bind (actor_of p CAP_READ) (\<lambda>_.
     if pending env then Inl (RemErr StateConflict)
     else fst (transact (bnd (lift_res (proposal_of d pid False)) (view_of env)) d))"

record 'v page =
  pg_items :: "'v list"
  pg_total :: nat
  pg_limit :: int
  pg_offset :: int

fun act_map :: "('a \<Rightarrow> 'b act) \<Rightarrow> 'a list \<Rightarrow> 'b list act" where
  "act_map f [] = ret []"
| "act_map f (x # xs) = bnd (f x) (\<lambda>y. bnd (act_map f xs) (\<lambda>ys. ret (y # ys)))"

definition list_proposals ::
    "env \<Rightarrow> principal \<Rightarrow> uuid option \<Rightarrow> string option \<Rightarrow> int \<Rightarrow> int \<Rightarrow> db \<Rightarrow>
     failure + proposal_view page" where
  "list_proposals env p fid acct lim off d =
     res_bind (actor_of p CAP_READ) (\<lambda>_.
     if pending env then Inl (RemErr StateConflict)
     else if \<not> (1 \<le> lim \<and> lim \<le> 100) \<or> off < 0 then Inl (ValueErr ''invalid remediation page'')
     else
       let rows = filter (\<lambda>r. (case fid of None \<Rightarrow> True | Some f \<Rightarrow> rp_finding_id r = f) \<and>
                              (case acct of None \<Rightarrow> True | Some a \<Rightarrow> rp_account_id r = a))
                    (db_proposals d);
           sorted_rows = sort_key (\<lambda>r. (- rp_created_at r, rp_id r)) rows
       in fst (transact
            (bnd (act_map (view_of env) (take (nat lim) (drop (nat off) sorted_rows))) (\<lambda>items.
             ret \<lparr>pg_items = items, pg_total = length rows, pg_limit = lim, pg_offset = off\<rparr>)) d))"

section \<open>Idempotent mutations\<close>

datatype mutation_value = ViewResult proposal_view | DecisionResult decision_view

text \<open>A MutationResult: the value and whether it was replayed.\<close>

type_synonym mutation_result = "mutation_value \<times> bool"

definition replay :: "env \<Rightarrow> actor_context \<Rightarrow> operation \<Rightarrow> uuid \<Rightarrow> digest \<Rightarrow> mutation_result option act" where
  "replay env a op key digest =
     bnd get_db (\<lambda>d.
     case find_row (\<lambda>r. (rq_identity_sha r, rq_operation r, rq_key r))
            (identity_sha (sha env) a, op, key) (db_requests d) of
       None \<Rightarrow> ret None
     | Some l \<Rightarrow>
         if rq_actor_issuer l \<noteq> ac_issuer a \<or> rq_actor_subject l \<noteq> ac_subject a \<or>
            rq_request_sha l \<noteq> digest
         then raise (RemErr IdempotencyConflict)
         else if op = OP_CREATE then
           bnd (lift_res (proposal_of d (rq_proposal_id l) False)) (\<lambda>p.
           bnd (view_of env p) (\<lambda>v. ret (Some (ViewResult v, True))))
         else
           (case Option.bind (rq_decision_id l) (\<lambda>i. find_row de_id i (db_decisions d)) of
              None \<Rightarrow> raise (RemErr ProvenanceConflict)
            | Some r \<Rightarrow>
                if de_proposal_id r \<noteq> rq_proposal_id l then raise (RemErr ProvenanceConflict)
                else bnd (lift_res (decision_view_of r)) (\<lambda>v. ret (Some (DecisionResult v, True)))))"

text \<open>What a write callback gives: a replayed result, or the rows it wrote.\<close>

datatype written = Replayed mutation_result | Wrote proposal_row "decision_row option"

definition record_request ::
    "env \<Rightarrow> actor_context \<Rightarrow> operation \<Rightarrow> uuid \<Rightarrow> digest \<Rightarrow> proposal_row \<Rightarrow> decision_row option \<Rightarrow>
     mutation_result act" where
  "record_request env a op key digest p dec =
     bnd (uuid4 env) (\<lambda>u.
     bnd (insert_request
        \<lparr>rq_id = u, rq_identity_sha = identity_sha (sha env) a, rq_actor_issuer = ac_issuer a,
         rq_actor_subject = ac_subject a, rq_operation = op, rq_key = key,
         rq_request_sha = digest, rq_proposal_id = rp_id p,
         rq_decision_id = map_option de_id dec\<rparr>) (\<lambda>_.
     case dec of
       Some r \<Rightarrow> bnd (lift_res (decision_view_of r)) (\<lambda>v. ret (DecisionResult v, False))
     | None \<Rightarrow> bnd (view_of env p) (\<lambda>v. ret (ViewResult v, False))))"

definition mutate_body ::
    "env \<Rightarrow> operation \<Rightarrow> uuid \<Rightarrow> digest \<Rightarrow> actor_context \<Rightarrow>
     (actor_context \<Rightarrow> mutation_result option act \<Rightarrow> written act) \<Rightarrow> mutation_result act" where
  "mutate_body env op key digest a wr =
     bnd (replay env a op key digest) (\<lambda>prev.
     case prev of
       Some r \<Rightarrow> ret r
     | None \<Rightarrow>
         bnd (wr a (replay env a op key digest)) (\<lambda>out.
         case out of
           Replayed r \<Rightarrow> ret r
         | Wrote p dec \<Rightarrow> record_request env a op key digest p dec))"

text \<open>
  \<open>_mutate\<close>: an IntegrityError rolls back and answers from the ledger if it now can, an
  OperationalError is the sanitized unavailability, everything else rolls back and propagates.
\<close>

definition mutate ::
    "env \<Rightarrow> operation \<Rightarrow> uuid \<Rightarrow> document \<Rightarrow> principal \<Rightarrow> capability \<Rightarrow>
     (actor_context \<Rightarrow> mutation_result option act \<Rightarrow> written act) \<Rightarrow>
     db \<Rightarrow> (failure + mutation_result) \<times> db" where
  "mutate env op key doc p c wr d =
     (case actor_of p c of
        Inl e \<Rightarrow> (Inl e, d)
      | Inr a \<Rightarrow>
          if in_tx env \<or> pending env then (Inl (RemErr StateConflict), d)
          else if down env then (Inl (RemErr DatabaseUnavailable), d)
          else
            (case transact (mutate_body env op key (sha env doc) a wr) d of
               (Inl IntegrityErr, _) \<Rightarrow>
                 (case transact (replay env a op key (sha env doc)) d of
                    (Inr (Some r), d') \<Rightarrow> (Inr r, d')
                  | (Inr None, _) \<Rightarrow> (Inl (RemErr StateConflict), d)
                  | (Inl e, _) \<Rightarrow> (Inl e, d))
             | r \<Rightarrow> r))"

definition audit_remediation ::
    "env \<Rightarrow> audit_type \<Rightarrow> proposal_row \<Rightarrow> actor_context \<Rightarrow> time \<Rightarrow> decision_row option \<Rightarrow> unit act" where
  "audit_remediation env ty p a at dec =
     bnd (append_audit_event env ty TargetRemediation (rp_id p) at ActorHuman (identity_sha (sha env) a)
        (MetaRemediation a (rp_id p) (rp_sha p) (map_option de_id dec))) (\<lambda>_. ret ())"

section \<open>The three mutations\<close>

definition new_content ::
    "uuid \<Rightarrow> finding_row \<Rightarrow> string \<Rightarrow> baseline \<Rightarrow> digest \<Rightarrow> actor_context \<Rightarrow> string \<Rightarrow> time \<Rightarrow> proposal_content" where
  "new_content pid f region bl gsha a reason at =
     \<lparr>pc_proposal_id = pid, pc_finding_id = fd_id f, pc_resource_id = fd_resource_id f,
      pc_control_id = fd_control_id f, pc_account_id = fd_account f, pc_region = region,
      pc_expected_encryption = False, pc_desired_encryption = True, pc_baseline = bl,
      pc_governance_sha = gsha, pc_proposer = a, pc_reason = reason, pc_created_at = at,
      pc_expires_at = at + proposal_ttl\<rparr>"

definition proposal_row_for ::
    "env \<Rightarrow> proposal_content \<Rightarrow> occurrence_row \<Rightarrow> actor_context \<Rightarrow> proposal_row" where
  "proposal_row_for env c oc a =
     \<lparr>rp_id = pc_proposal_id c, rp_finding_id = pc_finding_id c, rp_occurrence_id = oc_id oc,
      rp_account_id = pc_account_id c, rp_actor_issuer = ac_issuer a,
      rp_actor_subject = ac_subject a, rp_actor_roles = ac_roles a, rp_content = ProposalDoc c,
      rp_sha = sha env (ProposalDoc c), rp_created_at = pc_created_at c,
      rp_expires_at = pc_expires_at c\<rparr>"

text \<open>The write callback of \<open>propose\<close>; \<open>propose_new\<close> is its part after the second ledger look-up.\<close>

definition propose_new ::
    "env \<Rightarrow> proposal_request \<Rightarrow> actor_context \<Rightarrow> db \<Rightarrow> finding_row \<Rightarrow> occurrence_row \<Rightarrow> baseline \<Rightarrow> written act" where
  "propose_new env q a d f oc bl =
     bnd (now env) (\<lambda>at.
     bnd (uuid4 env) (\<lambda>pid.
     case Option.bind (fd_region f) (\<lambda>region. make_proposal_content
            (new_content pid f region bl (fst (governance_state env d f at)) a (pq_reason q) at)) of
       None \<Rightarrow> raise (ValueErr ''ProposalContent'')
     | Some c \<Rightarrow>
         bnd (lift_res (blocking_of env d c at)) (\<lambda>reasons.
         bnd (guard (reasons = []) (RemErr Ineligible)) (\<lambda>_.
         let row = proposal_row_for env c oc a in
         bnd (insert_proposal row) (\<lambda>_.
         bnd (audit_remediation env AT_REMEDIATION_PROPOSED row a at None) (\<lambda>_.
         ret (Wrote row None)))))))"

definition propose_write ::
    "env \<Rightarrow> proposal_request \<Rightarrow> actor_context \<Rightarrow> mutation_result option act \<Rightarrow> written act" where
  "propose_write env q a rep =
     bnd get_db (\<lambda>d.
     bnd (lift_res (finding_of d (pq_finding_id q))) (\<lambda>f.
     bnd rep (\<lambda>prev.
     case prev of
       Some r \<Rightarrow> ret (Replayed r)
     | None \<Rightarrow>
         (case find_row oc_id (pq_occurrence_id q) (hs_occurrences (db_history d)) of
            None \<Rightarrow> raise (NotFound ''finding_occurrence'' (pq_occurrence_id q))
          | Some oc \<Rightarrow>
              (case baseline_for env (db_history d) f oc of
                 None \<Rightarrow> raise (RemErr ProvenanceConflict)
               | Some bl \<Rightarrow> propose_new env q a d f oc bl)))))"

definition propose ::
    "env \<Rightarrow> proposal_request \<Rightarrow> principal \<Rightarrow> uuid \<Rightarrow> db \<Rightarrow> (failure + mutation_result) \<times> db" where
  "propose env q p key d =
     (case validate_proposal_request q of
        None \<Rightarrow> (Inl (ValueErr ''ProposalRequest''), d)
      | Some q \<Rightarrow>
          mutate env OP_CREATE key (ProposeRequestDoc q) p CAP_PROPOSE (propose_write env q) d)"

definition write_decision ::
    "env \<Rightarrow> proposal_row \<Rightarrow> actor_context \<Rightarrow> decision_kind \<Rightarrow> string \<Rightarrow> time \<Rightarrow> uuid option \<Rightarrow>
     decision_row act" where
  "write_decision env p a kind reason at approval =
     bnd (uuid4 env) (\<lambda>u.
     let row = \<lparr>de_id = u, de_proposal_id = rp_id p, de_kind = kind, de_proposal_sha = rp_sha p,
                de_approval_id = approval, de_actor_issuer = ac_issuer a,
                de_actor_subject = ac_subject a, de_actor_roles = ac_roles a,
                de_reason = reason, de_created_at = at\<rparr> in
     bnd (insert_decision row) (\<lambda>_.
     bnd (audit_remediation env (AT_REMEDIATION_DECISION kind) p a at (Some row)) (\<lambda>_.
     ret row)))"

definition decide_write ::
    "env \<Rightarrow> uuid \<Rightarrow> decision_request \<Rightarrow> actor_context \<Rightarrow> mutation_result option act \<Rightarrow> written act" where
  "decide_write env pid q a rep =
     bnd get_db (\<lambda>d.
     bnd (lift_res (proposal_of d pid True)) (\<lambda>p.
     bnd rep (\<lambda>prev.
     case prev of
       Some r \<Rightarrow> ret (Replayed r)
     | None \<Rightarrow>
         bnd (lift_res (proposal_content_of (sha env) p)) (\<lambda>c.
         bnd (guard (dq_proposal_sha q = rp_sha p) (RemErr ProvenanceConflict)) (\<lambda>_.
         bnd (guard (actor_key a \<noteq> actor_key (pc_proposer c)) (RemErr SeparationRequired)) (\<lambda>_.
         bnd (guard (decisions_of d pid = []) (RemErr StateConflict)) (\<lambda>_.
         bnd (now env) (\<lambda>at.
         bnd (guard (pc_created_at c \<le> at) (RemErr StateConflict)) (\<lambda>_.
         bnd (if dq_decision q = DK_APPROVE
              then bnd (lift_res (blocking_of env d c at)) (\<lambda>rs. guard (rs = []) (RemErr Ineligible))
              else ret ()) (\<lambda>_.
         bnd (write_decision env p a (dq_decision q) (dq_reason q) at None) (\<lambda>row.
         ret (Wrote p (Some row)))))))))))))"

definition decide ::
    "env \<Rightarrow> uuid \<Rightarrow> decision_request \<Rightarrow> principal \<Rightarrow> uuid \<Rightarrow> db \<Rightarrow> (failure + mutation_result) \<times> db" where
  "decide env pid q p key d =
     (case validate_decision_request q of
        None \<Rightarrow> (Inl (ValueErr ''DecisionRequest''), d)
      | Some q \<Rightarrow>
          mutate env OP_DECIDE key (DecideRequestDoc pid q) p CAP_APPROVE (decide_write env pid q) d)"

definition revoke_write ::
    "env \<Rightarrow> uuid \<Rightarrow> binding_request \<Rightarrow> actor_context \<Rightarrow> mutation_result option act \<Rightarrow> written act" where
  "revoke_write env pid q a rep =
     bnd get_db (\<lambda>d.
     bnd (lift_res (proposal_of d pid True)) (\<lambda>p.
     bnd rep (\<lambda>prev.
     case prev of
       Some r \<Rightarrow> ret (Replayed r)
     | None \<Rightarrow>
         bnd (lift_res (proposal_content_of (sha env) p)) (\<lambda>_.
         bnd (guard (bq_proposal_sha q = rp_sha p) (RemErr ProvenanceConflict)) (\<lambda>_.
         case decisions_of d pid of
           [approval] \<Rightarrow>
             bnd (guard (de_kind approval = DK_APPROVE) (RemErr StateConflict)) (\<lambda>_.
             bnd (now env) (\<lambda>at.
             bnd (guard (de_id approval = bq_approval_id q \<and> de_created_at approval \<le> at)
                    (RemErr StateConflict)) (\<lambda>_.
             bnd (write_decision env p a DK_REVOKE (bq_reason q) at (Some (de_id approval))) (\<lambda>row.
             ret (Wrote p (Some row))))))
         | _ \<Rightarrow> raise (RemErr StateConflict))))))"

definition revoke ::
    "env \<Rightarrow> uuid \<Rightarrow> binding_request \<Rightarrow> principal \<Rightarrow> uuid \<Rightarrow> db \<Rightarrow> (failure + mutation_result) \<times> db" where
  "revoke env pid q p key d =
     (case validate_binding_request q of
        None \<Rightarrow> (Inl (ValueErr ''RevocationRequest''), d)
      | Some q \<Rightarrow>
          mutate env OP_REVOKE key (BindRequestDoc pid q) p CAP_APPROVE (revoke_write env pid q) d)"

end
