(* ===== verification/Execution_Admission.thy ===== *)
theory Execution_Admission
  imports Remediation_Authority
begin

text \<open>
  app/services/remediation_execution_service.py: admission of an execution by a third human,
  the validation of a retained execution and of its hash-chained journal, the reaping of
  expired requests, the views. Reads return a result, \<open>admit\<close> runs in one serial transaction.
\<close>

section \<open>The retained execution\<close>

definition execution_row_of :: "db \<Rightarrow> uuid \<Rightarrow> failure + execution_row" where
  "execution_row_of d eid =
     (case find_row ex_id eid (db_executions d) of
        None \<Rightarrow> Inl (NotFound ''remediation_execution'' eid)
      | Some r \<Rightarrow> Inr r)"

fun validate_execution_doc :: "document \<Rightarrow> execution_content option" where
  "validate_execution_doc (ExecutionDoc c) = make_execution_content c"
| "validate_execution_doc _ = None"

definition execution_ttl :: int where
  "execution_ttl = seconds (5 * 60)"

definition stored_principal :: "actor_context \<Rightarrow> principal" where
  "stored_principal a =
     \<lparr>pr_subject = ac_subject a, pr_role_names = ac_roles a, pr_issuer = ac_issuer a\<rparr>"

text \<open>The conjuncts of \<open>_content\<close>, grouped by what they bind.\<close>

definition binds_approval ::
    "(document \<Rightarrow> digest) \<Rightarrow> execution_content \<Rightarrow> proposal_row \<Rightarrow> proposal_content \<Rightarrow> decision_view \<Rightarrow> bool" where
  "binds_approval h c p acc v =
     (xc_proposal c = acc \<and> xc_proposal_sha c = rp_sha p \<and> xc_approval c = v \<and>
      dv_kind (xc_approval c) = DK_APPROVE \<and>
      dv_proposal_sha (xc_approval c) = xc_proposal_sha c \<and>
      xc_approval_sha c = h (DecisionDoc v))"

definition binds_requester ::
    "(document \<Rightarrow> digest) \<Rightarrow> execution_row \<Rightarrow> execution_content \<Rightarrow> proposal_content \<Rightarrow> decision_row \<Rightarrow> bool" where
  "binds_requester h r c acc ap =
     (let a = xc_requested_by c
      in ac_capability a = CAP_EXECUTE \<and> CAP_EXECUTE \<in> capabilities_for (stored_principal a) \<and>
         actor_key a \<notin> {actor_key (pc_proposer acc), (de_actor_issuer ap, de_actor_subject ap)} \<and>
         ac_issuer a = ex_actor_issuer r \<and> ac_subject a = ex_actor_subject r \<and>
         identity_sha h a = ex_identity_sha r \<and> xc_idempotency_key c = ex_key r)"

definition binds_times :: "execution_row \<Rightarrow> execution_content \<Rightarrow> proposal_content \<Rightarrow> decision_view \<Rightarrow> bool" where
  "binds_times r c acc v =
     (xc_created_at c = ex_created_at r \<and> xc_expires_at c = ex_expires_at r \<and>
      dv_created_at v \<le> xc_created_at c \<and> xc_created_at c < pc_expires_at acc \<and>
      xc_expires_at c = min (pc_expires_at acc) (xc_created_at c + execution_ttl))"

definition rebuilt_request :: "execution_content \<Rightarrow> binding_request option" where
  "rebuilt_request c =
     validate_binding_request \<lparr>bq_proposal_sha = xc_proposal_sha c,
       bq_approval_id = dv_decision_id (xc_approval c), bq_reason = xc_reason c\<rparr>"

definition execution_content_of :: "(document \<Rightarrow> digest) \<Rightarrow> db \<Rightarrow> execution_row \<Rightarrow> failure + execution_content" where
  "execution_content_of h d r =
     (case validate_execution_doc (ex_content r) of
        None \<Rightarrow> Inl (RemErr ProvenanceConflict)
      | Some c \<Rightarrow>
          res_bind (proposal_of d (ex_proposal_id r) False) (\<lambda>p.
          res_bind (proposal_content_of h p) (\<lambda>acc.
          case find_row de_id (ex_approval_id r) (decisions_of d (ex_proposal_id r)) of
            None \<Rightarrow> Inl (RemErr ProvenanceConflict)
          | Some ap \<Rightarrow>
              (case (decision_view_of ap, rebuilt_request c) of
                 (Inr v, Some q) \<Rightarrow>
                   if h (ex_content r) = ex_sha r \<and> xc_execution_id c = ex_id r \<and>
                      binds_approval h c p acc v \<and> binds_requester h r c acc ap \<and>
                      h (BindRequestDoc (ex_proposal_id r) q) = ex_request_sha r \<and>
                      binds_times r c acc v
                   then Inr c else Inl (RemErr ProvenanceConflict)
               | _ \<Rightarrow> Inl (RemErr ProvenanceConflict)))))"

section \<open>The journal\<close>

fun validate_event_doc :: "document \<Rightarrow> journal_entry option" where
  "validate_event_doc (HumanEventDoc e) = (if valid_human_event e then Some (HumanEntry e) else None)"
| "validate_event_doc (WorkerEventDoc e) = (if valid_worker_event e then Some (WorkerEntry e) else None)"
| "validate_event_doc _ = None"

fun phase_of_human_kind :: "event_kind \<Rightarrow> phase" where
  "phase_of_human_kind EK_REQUESTED = PH_QUEUED"
| "phase_of_human_kind EK_EXPIRED = PH_EXPIRED"
| "phase_of_human_kind _ = PH_BLOCKED"

text \<open>The checks of a human entry at 1-based position \<open>i\<close> after the entry \<open>last\<close>.\<close>

definition human_entry_ok ::
    "execution_content \<Rightarrow> nat \<Rightarrow> event_view option \<Rightarrow> human_event \<Rightarrow> bool" where
  "human_entry_ok c i prev e =
     (he_phase e = phase_of_human_kind (he_kind e) \<and>
      ac_capability (he_actor e) = CAP_EXECUTE \<and>
      (i = 1 \<longrightarrow> he_kind e = EK_REQUESTED \<and> he_reasons e = [] \<and>
                 he_actor e = xc_requested_by c \<and> he_created_at e = xc_created_at c) \<and>
      (i = 2 \<longrightarrow> he_kind e \<noteq> EK_REQUESTED \<and> he_reasons e \<noteq> [] \<and>
                 map_option (je_phase \<circ> ev_content) prev = Some PH_QUEUED) \<and>
      (he_kind e = EK_EXPIRED \<longrightarrow>
         xc_expires_at c \<le> he_created_at e \<and> BR_EXECUTION_EXPIRED \<in> set (he_reasons e)))"

definition entry_ok ::
    "execution_content \<Rightarrow> nat \<Rightarrow> event_view option \<Rightarrow> journal_entry \<Rightarrow> bool" where
  "entry_ok c i prev je =
     (case je of
        HumanEntry e \<Rightarrow> human_entry_ok c i prev e
      | WorkerEntry e \<Rightarrow>
          (case prev of
             None \<Rightarrow> False
           | Some v \<Rightarrow> validate_worker_entry e (je_phase (ev_content v)) c = Inr ()))"

definition entry_actor :: "(document \<Rightarrow> digest) \<Rightarrow> journal_entry \<Rightarrow> actor_type \<times> string" where
  "entry_actor h je =
     (case je of
        HumanEntry e \<Rightarrow> (ActorHuman, identity_sha h (he_actor e))
      | WorkerEntry e \<Rightarrow> (ActorService, h (WorkerActorDoc (we_role_arn e))))"

definition audit_metadata_of :: "journal_entry \<Rightarrow> digest \<Rightarrow> audit_metadata" where
  "audit_metadata_of je digest =
     MetaExecution (case je of HumanEntry e \<Rightarrow> HumanActor (he_actor e)
                             | WorkerEntry e \<Rightarrow> ServiceActor (we_role_arn e))
       (je_execution_id je) (je_execution_sha je) (je_event_id je) digest (je_sequence je) (je_kind je)"

definition audit_agrees :: "(document \<Rightarrow> digest) \<Rightarrow> db \<Rightarrow> event_row \<Rightarrow> journal_entry \<Rightarrow> bool" where
  "audit_agrees h d ev je =
     (case find_row au_id (ee_audit_id ev) (db_audits d) of
        None \<Rightarrow> False
      | Some a \<Rightarrow>
          (au_actor_type a, au_actor_id a) = entry_actor h je \<and>
          au_target_type a = TargetExecution \<and> au_target_id a = ee_execution_id ev \<and>
          au_type a = AT_REMEDIATION_EXECUTION (je_kind je) \<and> au_time a = je_created_at je \<and>
          au_metadata a = audit_metadata_of je (ee_sha ev))"

definition row_agrees ::
    "(document \<Rightarrow> digest) \<Rightarrow> execution_row \<Rightarrow> execution_content \<Rightarrow> nat \<Rightarrow> event_view option \<Rightarrow> event_row \<Rightarrow>
     journal_entry \<Rightarrow> bool" where
  "row_agrees h r c i prev ev je =
     (h (ee_content ev) = ee_sha ev \<and> je_event_id je = ee_id ev \<and>
      je_execution_id je = ex_id r \<and> je_execution_sha je = ex_sha r \<and>
      je_sequence je = i \<and> ee_sequence ev = i \<and> je_kind je = ee_kind ev \<and>
      je_previous je = map_option ev_sha prev \<and> ee_previous ev = map_option ev_sha prev \<and>
      je_created_at je = ee_created_at ev \<and>
      (case prev of None \<Rightarrow> xc_created_at c | Some v \<Rightarrow> je_created_at (ev_content v))
        \<le> je_created_at je)"

definition check_entry ::
    "(document \<Rightarrow> digest) \<Rightarrow> db \<Rightarrow> execution_row \<Rightarrow> execution_content \<Rightarrow> nat \<Rightarrow> event_view option \<Rightarrow> event_row \<Rightarrow>
     event_view option" where
  "check_entry h d r c i prev ev =
     (case validate_event_doc (ee_content ev) of
        None \<Rightarrow> None
      | Some je \<Rightarrow>
          if entry_ok c i prev je \<and> row_agrees h r c i prev ev je \<and> audit_agrees h d ev je
          then Some \<lparr>ev_content = je, ev_sha = ee_sha ev, ev_audit_id = ee_audit_id ev\<rparr>
          else None)"

fun check_events ::
    "(document \<Rightarrow> digest) \<Rightarrow> db \<Rightarrow> execution_row \<Rightarrow> execution_content \<Rightarrow> nat \<Rightarrow> event_view option \<Rightarrow> event_row list \<Rightarrow>
     event_view list option" where
  "check_events h d r c i prev [] = Some []"
| "check_events h d r c i prev (ev # evs) =
     (case check_entry h d r c i prev ev of
        None \<Rightarrow> None
      | Some v \<Rightarrow> map_option ((#) v) (check_events h d r c (Suc i) (Some v) evs))"

definition events_with_kind :: "event_kind \<Rightarrow> event_view list \<Rightarrow> event_view list" where
  "events_with_kind k vs = filter (\<lambda>v. je_kind (ev_content v) = k) vs"

definition worker_entries :: "event_view list \<Rightarrow> worker_event list" where
  "worker_entries vs = List.map_filter (worker_entry \<circ> ev_content) vs"

definition observed_entries :: "event_view list \<Rightarrow> worker_event list" where
  "observed_entries vs =
     filter (\<lambda>e. we_kind e \<in> {EK_OBSERVED, EK_OBSERVATION_FAILED}) (worker_entries vs)"

definition readback_window :: int where
  "readback_window = seconds 30"

definition claim_matches :: "claim_row option \<Rightarrow> event_view list \<Rightarrow> bool" where
  "claim_matches cl vs =
     (let claimed = events_with_kind EK_CLAIMED vs; intents = events_with_kind EK_WRITE_INTENT vs
      in (claimed \<noteq> []) = (cl \<noteq> None) \<and> length intents \<le> 1 \<and>
         (case cl of
            None \<Rightarrow> True
          | Some w \<Rightarrow>
              wc_generation w = length claimed \<and>
              (intents \<noteq> []) = (wc_intent_event_id w \<noteq> None) \<and>
              (intents \<noteq> [] \<longrightarrow>
                 wc_intent_event_id w = Some (je_event_id (ev_content (hd intents)))) \<and>
              list_all (\<lambda>e. we_role_arn e = wc_role_arn w) (worker_entries vs)))"

definition readback_matches :: "claim_row option \<Rightarrow> event_view list \<Rightarrow> bool" where
  "readback_matches cl vs =
     (let obs = observed_entries vs
      in obs = [] \<or>
         (case cl of
            None \<Rightarrow> False
          | Some w \<Rightarrow>
              (case wc_readback_started w of
                 None \<Rightarrow> False
               | Some s \<Rightarrow>
                   distinct (map we_polls obs) \<and>
                   list_all (\<lambda>e. we_polls e \<le> wc_readback_attempts w \<and>
                     (case we_observed_at e of
                        None \<Rightarrow> True
                      | Some Naive \<Rightarrow> False
                      | Some (Aware t) \<Rightarrow> s \<le> t \<and> t < s + readback_window)) obs)))"

definition event_rows_of :: "db \<Rightarrow> uuid \<Rightarrow> event_row list" where
  "event_rows_of d eid =
     sort_key ee_sequence (filter (\<lambda>e. ee_execution_id e = eid) (db_events d))"

definition claim_of :: "db \<Rightarrow> uuid \<Rightarrow> claim_row option" where
  "claim_of d eid = find_row wc_execution_id eid (db_claims d)"

definition events_of ::
    "(document \<Rightarrow> digest) \<Rightarrow> db \<Rightarrow> execution_row \<Rightarrow> execution_content \<Rightarrow> failure + event_view list" where
  "events_of h d r c =
     (case event_rows_of d (ex_id r) of
        [] \<Rightarrow> Inl (RemErr ProvenanceConflict)
      | rows \<Rightarrow>
          (case check_events h d r c (Suc 0) None rows of
             None \<Rightarrow> Inl (RemErr ProvenanceConflict)
           | Some vs \<Rightarrow>
               if claim_matches (claim_of d (ex_id r)) vs \<and>
                  readback_matches (claim_of d (ex_id r)) vs
               then Inr vs else Inl (RemErr ProvenanceConflict)))"

definition last_phase :: "event_view list \<Rightarrow> phase" where
  "last_phase vs = je_phase (ev_content (last vs))"

section \<open>Views\<close>

definition execution_blocking ::
    "env \<Rightarrow> db \<Rightarrow> execution_content \<Rightarrow> time \<Rightarrow> failure + blocking_reason list" where
  "execution_blocking env d c at =
     (if at < xc_created_at c then Inl (RemErr StateConflict)
      else res_bind (blocking_of env d (xc_proposal c) at) (\<lambda>reasons.
        Inr (reasons @
             (if xc_expires_at c \<le> at then [BR_EXECUTION_EXPIRED] else []) @
             (if \<exists>r\<in>set (decisions_of d (pc_proposal_id (xc_proposal c))). de_kind r = DK_REVOKE
              then [BR_APPROVAL_REVOKED] else []))))"

definition reservation_of :: "db \<Rightarrow> string \<Rightarrow> string \<Rightarrow> reservation_row option" where
  "reservation_of d acct region =
     find_row (\<lambda>r. (rv_account_id r, rv_region r)) (acct, region) (db_reservations d)"

definition execution_view_of :: "env \<Rightarrow> execution_row \<Rightarrow> execution_view act" where
  "execution_view_of env r =
     bnd get_db (\<lambda>d.
     bnd (lift_res (execution_content_of (sha env) d r)) (\<lambda>c.
     bnd (lift_res (events_of (sha env) d r c)) (\<lambda>vs.
     bnd (now env) (\<lambda>at.
     case reservation_of d (pc_account_id (xc_proposal c)) (pc_region (xc_proposal c)) of
       None \<Rightarrow> raise (RemErr ProvenanceConflict)
     | Some rv \<Rightarrow>
         bnd (guard (rv_resource_id rv = pc_resource_id (xc_proposal c)) (RemErr ProvenanceConflict)) (\<lambda>_.
         let held = (rv_execution_id rv = Some (ex_id r)) in
         bnd (guard (held = held_phase (last_phase vs)) (RemErr ProvenanceConflict)) (\<lambda>_.
         bnd (lift_res (execution_blocking env d c at)) (\<lambda>reasons.
         ret \<lparr>xv_content = c, xv_execution_sha = ex_sha r, xv_phase = last_phase vs,
              xv_blocking = reasons, xv_checked_at = at, xv_held = held, xv_events = vs\<rparr>)))))))"

definition get_execution :: "env \<Rightarrow> uuid \<Rightarrow> principal \<Rightarrow> db \<Rightarrow> failure + execution_view" where
  "get_execution env eid p d =
     res_bind (actor_of p CAP_READ) (\<lambda>_.
     if pending env then Inl (RemErr StateConflict)
     else fst (transact (bnd (lift_res (execution_row_of d eid)) (execution_view_of env)) d))"

definition list_executions ::
    "env \<Rightarrow> principal \<Rightarrow> uuid option \<Rightarrow> int \<Rightarrow> int \<Rightarrow> db \<Rightarrow> failure + execution_view page" where
  "list_executions env p pid lim off d =
     res_bind (actor_of p CAP_READ) (\<lambda>_.
     if pending env then Inl (RemErr StateConflict)
     else if \<not> (1 \<le> lim \<and> lim \<le> 100) \<or> off < 0 then Inl (ValueErr ''invalid execution page'')
     else
       let rows = filter (\<lambda>r. case pid of None \<Rightarrow> True | Some i \<Rightarrow> ex_proposal_id r = i) (db_executions d);
           sorted_rows = sort_key (\<lambda>r. (- ex_created_at r, ex_id r)) rows
       in fst (transact
            (bnd (act_map (execution_view_of env) (take (nat lim) (drop (nat off) sorted_rows))) (\<lambda>items.
             ret \<lparr>pg_items = items, pg_total = length rows, pg_limit = lim, pg_offset = off\<rparr>)) d))"

section \<open>Appending human events\<close>

definition human_entry_for ::
    "uuid \<Rightarrow> execution_row \<Rightarrow> event_view list \<Rightarrow> actor_context \<Rightarrow> time \<Rightarrow> event_kind \<Rightarrow>
     blocking_reason list \<Rightarrow> human_event" where
  "human_entry_for u r hist a at kind reasons =
     \<lparr>he_event_id = u, he_execution_id = ex_id r, he_execution_sha = ex_sha r,
      he_sequence = length hist + 1, he_kind = kind, he_phase = phase_of_human_kind kind,
      he_previous = (if hist = [] then None else Some (ev_sha (last hist))),
      he_actor = a, he_created_at = at, he_reasons = reasons\<rparr>"

definition event_row_for ::
    "execution_row \<Rightarrow> journal_entry \<Rightarrow> document \<Rightarrow> digest \<Rightarrow> audit_row \<Rightarrow> event_row" where
  "event_row_for r je doc digest audit =
     \<lparr>ee_id = je_event_id je, ee_execution_id = ex_id r, ee_audit_id = au_id audit,
      ee_sequence = je_sequence je, ee_kind = je_kind je, ee_content = doc, ee_sha = digest,
      ee_previous = je_previous je, ee_created_at = je_created_at je\<rparr>"

text \<open>The audit event and the journal row of one entry, in the order both services write them.\<close>

definition write_entry ::
    "env \<Rightarrow> execution_row \<Rightarrow> journal_entry \<Rightarrow> document \<Rightarrow> unit act" where
  "write_entry env r je doc =
     (let digest = sha env doc in
      bnd (append_audit_event env (AT_REMEDIATION_EXECUTION (je_kind je)) TargetExecution (ex_id r)
             (je_created_at je) (fst (entry_actor (sha env) je)) (snd (entry_actor (sha env) je))
             (audit_metadata_of je digest)) (\<lambda>audit.
      insert_event (event_row_for r je doc digest audit)))"

definition journal ::
    "env \<Rightarrow> execution_row \<Rightarrow> actor_context \<Rightarrow> time \<Rightarrow> event_kind \<Rightarrow> blocking_reason list \<Rightarrow> unit act" where
  "journal env r a at kind reasons =
     bnd get_db (\<lambda>d.
     bnd (if kind = EK_REQUESTED then ret []
          else bnd (lift_res (execution_content_of (sha env) d r)) (\<lambda>c. lift_res (events_of (sha env) d r c))) (\<lambda>hist.
     bnd (guard (hist = [] \<or> last_phase hist = PH_QUEUED) (RemErr StateConflict)) (\<lambda>_.
     bnd (uuid4 env) (\<lambda>u.
     let e = human_entry_for u r hist a at kind reasons in
     bnd (guard (valid_human_event e) (ValueErr ''ExecutionEventContent'')) (\<lambda>_.
     write_entry env r (HumanEntry e) (HumanEventDoc e))))))"

section \<open>Admission\<close>

definition reap_one :: "env \<Rightarrow> actor_context \<Rightarrow> time \<Rightarrow> reservation_row \<Rightarrow> unit act" where
  "reap_one env a at rv =
     (case rv_execution_id rv of
        None \<Rightarrow> ret ()
      | Some eid \<Rightarrow>
          bnd get_db (\<lambda>d.
          bnd (lift_res (execution_row_of d eid)) (\<lambda>r.
          bnd (lift_res (execution_content_of (sha env) d r)) (\<lambda>c.
          bnd (guard (rv_resource_id rv = pc_resource_id (xc_proposal c) \<and>
                 rv_account_id rv = pc_account_id (xc_proposal c) \<and>
                 rv_region rv = pc_region (xc_proposal c)) (RemErr ProvenanceConflict)) (\<lambda>_.
          bnd (lift_res (events_of (sha env) d r c)) (\<lambda>vs.
          if last_phase vs \<noteq> PH_QUEUED then ret ()
          else
            bnd (journal env r a at EK_EXPIRED [BR_EXECUTION_EXPIRED]) (\<lambda>_.
            bnd (set_reservation (rv_id rv) None) (\<lambda>_. flush))))))))"

definition expired_reservations :: "db \<Rightarrow> time \<Rightarrow> reservation_row list" where
  "expired_reservations d at =
     filter (\<lambda>rv. case rv_execution_id rv of
        None \<Rightarrow> False
      | Some eid \<Rightarrow> (\<exists>r\<in>set (db_executions d). ex_id r = eid \<and> ex_expires_at r \<le> at))
      (db_reservations d)"

definition reap_expired :: "env \<Rightarrow> actor_context \<Rightarrow> time \<Rightarrow> unit act" where
  "reap_expired env a at =
     bnd get_db (\<lambda>d. for_each (reap_one env a at) (expired_reservations d at))"

definition admission_capacity :: nat where
  "admission_capacity = 32"

type_synonym execution_result = "execution_view \<times> bool"

definition replay_execution ::
    "env \<Rightarrow> actor_context \<Rightarrow> uuid \<Rightarrow> digest \<Rightarrow> execution_result option act" where
  "replay_execution env a key digest =
     bnd get_db (\<lambda>d.
     case find_row (\<lambda>r. (ex_identity_sha r, ex_key r)) (identity_sha (sha env) a, key) (db_executions d) of
       None \<Rightarrow> ret None
     | Some r \<Rightarrow>
         if ex_actor_issuer r \<noteq> ac_issuer a \<or> ex_actor_subject r \<noteq> ac_subject a \<or>
            ex_request_sha r \<noteq> digest
         then raise (RemErr IdempotencyConflict)
         else bnd (execution_view_of env r) (\<lambda>v. ret (Some (v, True))))"

text \<open>The authority checks of \<open>admit\<close> on the proposal view; the approval on success.\<close>

definition check_authority ::
    "env \<Rightarrow> admission_scope \<Rightarrow> binding_request \<Rightarrow> actor_context \<Rightarrow> proposal_row \<Rightarrow> proposal_view \<Rightarrow>
     time \<Rightarrow> decision_view act" where
  "check_authority env s q a p v at =
     bnd get_db (\<lambda>d.
     bnd (guard (bq_proposal_sha q = rp_sha p) (RemErr ProvenanceConflict)) (\<lambda>_.
     case pv_decisions v of
       [ap] \<Rightarrow>
         bnd (guard (dv_kind ap = DK_APPROVE \<and> dv_decision_id ap = bq_approval_id q)
                (RemErr Ineligible)) (\<lambda>_.
         bnd (lift_res (blocking_of env d (pv_content v) at)) (\<lambda>reasons.
         bnd (guard (reasons = []) (RemErr Ineligible)) (\<lambda>_.
         bnd (guard (actor_key a \<notin> {actor_key (pc_proposer (pv_content v)), actor_key (dv_actor ap)})
                (RemErr SeparationRequired)) (\<lambda>_.
         bnd (guard (dv_created_at ap \<le> at) (RemErr StateConflict)) (\<lambda>_.
         bnd (guard (Some (pc_account_id (pv_content v)) = as_account_id s \<and>
                Some (pc_region (pv_content v)) = as_region s) (RemErr ExecutionScopeConflict)) (\<lambda>_.
         ret ap))))))
     | _ \<Rightarrow> raise (RemErr Ineligible)))"

text \<open>An occupied target is released only when its queued request is blocked.\<close>

definition release_target ::
    "env \<Rightarrow> actor_context \<Rightarrow> time \<Rightarrow> proposal_content \<Rightarrow> reservation_row option \<Rightarrow> unit act" where
  "release_target env a at c rvo =
     (case rvo of
        None \<Rightarrow> ret ()
      | Some rv \<Rightarrow>
          bnd (guard (rv_resource_id rv = pc_resource_id c) (RemErr ProvenanceConflict)) (\<lambda>_.
          case rv_execution_id rv of
            None \<Rightarrow> ret ()
          | Some eid \<Rightarrow>
              bnd get_db (\<lambda>d.
              bnd (lift_res (execution_row_of d eid)) (\<lambda>prev.
              bnd (lift_res (execution_content_of (sha env) d prev)) (\<lambda>pc.
              bnd (lift_res (events_of (sha env) d prev pc)) (\<lambda>vs.
              bnd (guard (last_phase vs = PH_QUEUED) (RemErr ExecutionTargetReserved)) (\<lambda>_.
              bnd (lift_res (execution_blocking env d pc at)) (\<lambda>reasons.
              bnd (guard (reasons \<noteq> []) (RemErr ExecutionTargetReserved)) (\<lambda>_.
              bnd (journal env prev a at EK_BLOCKED reasons) (\<lambda>_.
              bnd (set_reservation (rv_id rv) None) (\<lambda>_. flush)))))))))))"

definition execution_row_for ::
    "env \<Rightarrow> execution_content \<Rightarrow> uuid \<Rightarrow> actor_context \<Rightarrow> digest \<Rightarrow> execution_row" where
  "execution_row_for env c pid a digest =
     \<lparr>ex_id = xc_execution_id c, ex_proposal_id = pid,
      ex_approval_id = dv_decision_id (xc_approval c), ex_identity_sha = identity_sha (sha env) a,
      ex_actor_issuer = ac_issuer a, ex_actor_subject = ac_subject a,
      ex_key = xc_idempotency_key c, ex_request_sha = digest, ex_content = ExecutionDoc c,
      ex_sha = sha env (ExecutionDoc c), ex_created_at = xc_created_at c,
      ex_expires_at = xc_expires_at c\<rparr>"

definition new_execution ::
    "env \<Rightarrow> uuid \<Rightarrow> proposal_content \<Rightarrow> digest \<Rightarrow> decision_view \<Rightarrow> actor_context \<Rightarrow> uuid \<Rightarrow> string \<Rightarrow>
     time \<Rightarrow> execution_content" where
  "new_execution env u c psha ap a key reason at =
     \<lparr>xc_execution_id = u, xc_proposal = c, xc_proposal_sha = psha, xc_approval = ap,
      xc_approval_sha = sha env (DecisionDoc ap), xc_requested_by = a, xc_idempotency_key = key,
      xc_reason = reason, xc_created_at = at,
      xc_expires_at = min (pc_expires_at c) (at + execution_ttl)\<rparr>"

definition reserve_target ::
    "env \<Rightarrow> reservation_row option \<Rightarrow> proposal_content \<Rightarrow> uuid \<Rightarrow> unit act" where
  "reserve_target env rvo c eid =
     (case rvo of
        Some rv \<Rightarrow> bnd (set_reservation (rv_id rv) (Some eid)) (\<lambda>_. flush)
      | None \<Rightarrow>
          bnd (uuid4 env) (\<lambda>u.
          bnd (change (\<lambda>d. d\<lparr>db_reservations := db_reservations d @
                 [\<lparr>rv_id = u, rv_resource_id = pc_resource_id c, rv_account_id = pc_account_id c,
                   rv_region = pc_region c, rv_execution_id = Some eid\<rparr>]\<rparr>)) (\<lambda>_. flush)))"

definition held_count :: "db \<Rightarrow> nat" where
  "held_count d = length (filter (\<lambda>r. rv_execution_id r \<noteq> None) (db_reservations d))"

text \<open>The last part of \<open>admit\<close>, after the target is free.\<close>

definition admit_new ::
    "env \<Rightarrow> uuid \<Rightarrow> actor_context \<Rightarrow> time \<Rightarrow> digest \<Rightarrow> reservation_row option \<Rightarrow> proposal_content \<Rightarrow>
     execution_content \<Rightarrow> execution_result act" where
  "admit_new env pid a at digest rvo c x =
     (let row = execution_row_for env x pid a digest in
      bnd (insert_execution row) (\<lambda>_.
      bnd (journal env row a at EK_REQUESTED []) (\<lambda>_.
      bnd (reserve_target env rvo c (ex_id row)) (\<lambda>_.
      bnd (execution_view_of env row) (\<lambda>xv. ret (xv, False))))))"

definition admit_body ::
    "env \<Rightarrow> admission_scope \<Rightarrow> uuid \<Rightarrow> binding_request \<Rightarrow> actor_context \<Rightarrow> uuid \<Rightarrow> digest \<Rightarrow>
     execution_result act" where
  "admit_body env s pid q a key digest =
     bnd get_db (\<lambda>d0.
     bnd (guard (db_guard d0) (RemErr DatabaseUnavailable)) (\<lambda>_.
     bnd (replay_execution env a key digest) (\<lambda>prev.
     case prev of
       Some r \<Rightarrow> ret r
     | None \<Rightarrow>
         bnd (guard (as_enabled s) (RemErr ExecutionDisabled)) (\<lambda>_.
         bnd (now env) (\<lambda>at0.
         bnd (reap_expired env a at0) (\<lambda>_.
         bnd get_db (\<lambda>d1.
         bnd (lift_res (proposal_of d1 pid True)) (\<lambda>p.
         bnd (view_of env p) (\<lambda>v.
         bnd (now env) (\<lambda>at.
         bnd (check_authority env s q a p v at) (\<lambda>ap.
         bnd (guard (find_row ex_proposal_id pid (db_executions d1) = None)
                (RemErr StateConflict)) (\<lambda>_.
         let c = pv_content v; rvo = reservation_of d1 (pc_account_id c) (pc_region c) in
         bnd (release_target env a at c rvo) (\<lambda>_.
         bnd get_db (\<lambda>d2.
         bnd (guard (held_count d2 < admission_capacity) (RemErr ExecutionCapacity)) (\<lambda>_.
         bnd (uuid4 env) (\<lambda>u.
         case make_execution_content (new_execution env u c (rp_sha p) ap a key (bq_reason q) at) of
           None \<Rightarrow> raise (ValueErr ''ExecutionContent'')
         | Some x \<Rightarrow> admit_new env pid a at digest rvo c x))))))))))))))))"

definition admit ::
    "env \<Rightarrow> admission_scope \<Rightarrow> uuid \<Rightarrow> binding_request \<Rightarrow> principal \<Rightarrow> uuid \<Rightarrow> db \<Rightarrow>
     (failure + execution_result) \<times> db" where
  "admit env s pid q p key d =
     (if \<not> valid_admission_scope s then (Inl (ValueErr ''AdmissionScope''), d)
      else (case validate_binding_request q of
        None \<Rightarrow> (Inl (ValueErr ''ExecutionRequest''), d)
      | Some q \<Rightarrow>
          (case actor_of p CAP_EXECUTE of
             Inl e \<Rightarrow> (Inl e, d)
           | Inr a \<Rightarrow>
               if in_tx env \<or> pending env then (Inl (RemErr StateConflict), d)
               else if down env then (Inl (RemErr DatabaseUnavailable), d)
               else commit_or_conflict
                      (admit_body env s pid q a key (sha env (BindRequestDoc pid q))) d)))"

end
