(* ===== verification/Worker_Service.thy ===== *)
theory Worker_Service
  imports Execution_Admission
begin

text \<open>
  app/services/remediation_worker_service.py: the guard-first transactions of the single-job
  worker. Every operation runs in \<open>locked\<close>, which validates the retained history before the
  work and again after it.
\<close>

section \<open>The transaction wrapper\<close>

definition worker_role :: "worker_scope \<Rightarrow> string" where
  "worker_role s = (case ws_role_arn s of None \<Rightarrow> [] | Some a \<Rightarrow> a)"

type_synonym 'a worker_work =
  "execution_row \<Rightarrow> execution_content \<Rightarrow> event_view list \<Rightarrow> claim_row option \<Rightarrow> reservation_row \<Rightarrow>
   time \<Rightarrow> 'a act"

definition locked_body ::
    "env \<Rightarrow> worker_scope \<Rightarrow> uuid \<Rightarrow> 'a worker_work \<Rightarrow> 'a act" where
  "locked_body env s eid wrk =
     bnd (guard (dialect_of env \<noteq> OTHER_DIALECT) (RemErr DatabaseUnavailable)) (\<lambda>_.
     bnd get_db (\<lambda>d.
     bnd (guard (db_guard d) (RemErr DatabaseUnavailable)) (\<lambda>_.
     bnd (lift_res (execution_row_of d eid)) (\<lambda>r.
     bnd (lift_res (proposal_of d (ex_proposal_id r) True)) (\<lambda>_.
     bnd (lift_res (execution_content_of (sha env) d r)) (\<lambda>c.
     bnd (guard (Some (pc_account_id (xc_proposal c)) = ws_account_id s \<and>
                 Some (pc_region (xc_proposal c)) = ws_region s) (RemErr ExecutionScopeConflict)) (\<lambda>_.
     bnd (lift_res (events_of (sha env) d r c)) (\<lambda>hist.
     case reservation_of d (pc_account_id (xc_proposal c)) (pc_region (xc_proposal c)) of
       None \<Rightarrow> raise (RemErr ProvenanceConflict)
     | Some rv \<Rightarrow>
         bnd (guard (rv_resource_id rv = pc_resource_id (xc_proposal c) \<and>
                (rv_execution_id rv = Some eid) = held_phase (last_phase hist))
                (RemErr ProvenanceConflict)) (\<lambda>_.
         bnd (guard (case claim_of d eid of None \<Rightarrow> True | Some w \<Rightarrow> Some (wc_role_arn w) = ws_role_arn s)
                (RemErr ExecutionScopeConflict)) (\<lambda>_.
         bnd (now env) (\<lambda>at.
         bnd (wrk r c hist (claim_of d eid) rv at) (\<lambda>result.
         bnd flush (\<lambda>_.
         bnd get_db (\<lambda>d'.
         bnd (lift_res (events_of (sha env) d' r c)) (\<lambda>_. ret result)))))))))))))))"

definition locked ::
    "env \<Rightarrow> worker_scope \<Rightarrow> uuid \<Rightarrow> 'a worker_work \<Rightarrow> db \<Rightarrow> (failure + 'a) \<times> db" where
  "locked env s eid wrk d =
     (if \<not> valid_worker_scope s then (Inl (ValueErr ''WorkerScope''), d)
      else if \<not> ws_enabled s then (Inl (RemErr ExecutionDisabled), d)
      else if in_tx env \<or> pending env then (Inl (RemErr StateConflict), d)
      else if down env then (Inl (RemErr DatabaseUnavailable), d)
      else commit_or_conflict (locked_body env s eid wrk) d)"

section \<open>Appending worker events\<close>

text \<open>The keyword arguments of \<open>_append\<close>.\<close>

record append_args =
  aa_reasons :: "blocking_reason list"
  aa_observation :: "regional_observation option"
  aa_observed_at :: "reading option"
  aa_request_id :: "string option"
  aa_polls :: nat

definition no_args :: append_args where
  "no_args = \<lparr>aa_reasons = [], aa_observation = None, aa_observed_at = None,
              aa_request_id = None, aa_polls = 0\<rparr>"

definition worker_entry_for ::
    "uuid \<Rightarrow> execution_row \<Rightarrow> event_view list \<Rightarrow> string \<Rightarrow> event_kind \<Rightarrow> phase \<Rightarrow> time \<Rightarrow> append_args \<Rightarrow>
     worker_event" where
  "worker_entry_for u r hist role kind ph at args =
     \<lparr>we_event_id = u, we_execution_id = ex_id r, we_execution_sha = ex_sha r,
      we_sequence = length hist + 1, we_kind = kind, we_phase = ph,
      we_previous = ev_sha (last hist), we_role_arn = role, we_created_at = at,
      we_reasons = aa_reasons args, we_observation = aa_observation args,
      we_observed_at = aa_observed_at args, we_request_id = aa_request_id args,
      we_polls = aa_polls args\<rparr>"

definition append_entry ::
    "env \<Rightarrow> worker_scope \<Rightarrow> execution_row \<Rightarrow> execution_content \<Rightarrow> event_kind \<Rightarrow> time \<Rightarrow> append_args \<Rightarrow>
     worker_event act" where
  "append_entry env s r c kind at args =
     bnd get_db (\<lambda>d.
     bnd (lift_res (events_of (sha env) d r c)) (\<lambda>hist.
     bnd (uuid4 env) (\<lambda>u.
     case worker_phase kind (last_phase hist) of
       None \<Rightarrow> raise (ValueErr ''invalid worker transition'')
     | Some ph \<Rightarrow>
         let e = worker_entry_for u r hist (worker_role s) kind ph at args in
         bnd (guard (valid_worker_event e) (ValueErr ''WorkerEventContent'')) (\<lambda>_.
         bnd (guard (validate_worker_entry e (last_phase hist) c = Inr ()) (ValueErr ''worker entry'')) (\<lambda>_.
         bnd (write_entry env r (WorkerEntry e) (WorkerEventDoc e)) (\<lambda>_. ret e))))))"

text \<open>A terminal NO_WRITE releases the target.\<close>

definition finish_no_write ::
    "env \<Rightarrow> worker_scope \<Rightarrow> execution_row \<Rightarrow> execution_content \<Rightarrow> reservation_row \<Rightarrow> time \<Rightarrow>
     append_args \<Rightarrow> unit act" where
  "finish_no_write env s r c rv at args =
     bnd (append_entry env s r c EK_NO_WRITE at args) (\<lambda>_. set_reservation (rv_id rv) None)"

text \<open>
  The authority reevaluation shared by \<open>claim\<close>, \<open>begin_read\<close> and \<open>write_intent\<close>: the blocking
  reasons at the transaction time, then a fresh reading for the expiry.
\<close>

definition reevaluate :: "env \<Rightarrow> execution_content \<Rightarrow> time \<Rightarrow> (blocking_reason list \<times> time) act" where
  "reevaluate env c at =
     bnd get_db (\<lambda>d.
     bnd (lift_res (execution_blocking env d c at)) (\<lambda>reasons.
     bnd (now env) (\<lambda>at'.
     ret (if xc_expires_at c \<le> at' \<and> reasons = [] then [BR_EXECUTION_EXPIRED] else reasons, at'))))"

section \<open>Claims\<close>

text \<open>WorkerClaim: the private ownership token.\<close>

record worker_token =
  wt_execution_id :: uuid
  wt_token :: uuid
  wt_content :: execution_content
  wt_lease_until :: time

definition owned :: "env \<Rightarrow> worker_token \<Rightarrow> claim_row option \<Rightarrow> bool" where
  "owned env t cl =
     (case cl of None \<Rightarrow> False | Some w \<Rightarrow> wc_token_sha w = sha env (TokenDoc (wt_token t)))"

definition lease_time :: int where
  "lease_time = seconds 30"

definition store_claim :: "env \<Rightarrow> worker_scope \<Rightarrow> uuid \<Rightarrow> uuid \<Rightarrow> time \<Rightarrow> claim_row option \<Rightarrow> unit act" where
  "store_claim env s eid token until cl =
     (case cl of
        None \<Rightarrow>
          change (\<lambda>d. d\<lparr>db_claims := db_claims d @
            [\<lparr>wc_execution_id = eid, wc_token_sha = sha env (TokenDoc token),
              wc_role_arn = worker_role s, wc_generation = 1, wc_read_attempts = 0,
              wc_readback_attempts = 0, wc_readback_started = None, wc_lease_until = until,
              wc_intent_event_id = None\<rparr>]\<rparr>)
      | Some _ \<Rightarrow>
          set_claim eid (\<lambda>w. w\<lparr>wc_token_sha := sha env (TokenDoc token),
            wc_generation := Suc (wc_generation w), wc_lease_until := until\<rparr>))"

definition claim_work :: "env \<Rightarrow> worker_scope \<Rightarrow> uuid \<Rightarrow> worker_token option worker_work" where
  "claim_work env s eid r c hist cl rv at =
     (if last_phase hist \<notin> {PH_QUEUED, PH_CLAIMED} then ret None
      else
        bnd (reevaluate env c at) (\<lambda>(reasons, at').
        if reasons \<noteq> [] then
          bnd (finish_no_write env s r c rv at' (no_args\<lparr>aa_reasons := reasons\<rparr>)) (\<lambda>_. ret None)
        else if (case cl of None \<Rightarrow> False | Some w \<Rightarrow> at' < wc_lease_until w) then ret None
        else if (case cl of None \<Rightarrow> False | Some w \<Rightarrow> 3 \<le> wc_read_attempts w) then
          bnd (finish_no_write env s r c rv at'
                 (no_args\<lparr>aa_reasons := [BR_READ_BUDGET_EXHAUSTED]\<rparr>)) (\<lambda>_. ret None)
        else
          bnd (uuid4 env) (\<lambda>token.
          let until = min (xc_expires_at c) (at' + lease_time) in
          bnd (append_entry env s r c EK_CLAIMED at' no_args) (\<lambda>_.
          bnd (store_claim env s eid token until cl) (\<lambda>_.
          ret (Some \<lparr>wt_execution_id = eid, wt_token = token, wt_content = c,
                     wt_lease_until = until\<rparr>))))))"

definition claim :: "env \<Rightarrow> worker_scope \<Rightarrow> uuid \<Rightarrow> db \<Rightarrow> (failure + worker_token option) \<times> db" where
  "claim env s eid = locked env s eid (claim_work env s eid)"

section \<open>Before the intent\<close>

definition begin_read_work :: "env \<Rightarrow> worker_scope \<Rightarrow> worker_token \<Rightarrow> bool worker_work" where
  "begin_read_work env s t r c hist cl rv at =
     (case cl of
        None \<Rightarrow> ret False
      | Some w \<Rightarrow>
          if \<not> owned env t cl \<or> last_phase hist \<noteq> PH_CLAIMED then ret False
          else
            bnd (reevaluate env c at) (\<lambda>(reasons0, at').
            let reasons = (if reasons0 = [] \<and> 3 \<le> wc_read_attempts w
                           then [BR_READ_BUDGET_EXHAUSTED] else reasons0) in
            if reasons \<noteq> [] then
              bnd (finish_no_write env s r c rv at' (no_args\<lparr>aa_reasons := reasons\<rparr>)) (\<lambda>_. ret False)
            else if wc_lease_until w \<le> at' then ret False
            else
              bnd (set_claim (wc_execution_id w)
                     (\<lambda>w. w\<lparr>wc_read_attempts := Suc (wc_read_attempts w)\<rparr>)) (\<lambda>_. ret True)))"

definition begin_read :: "env \<Rightarrow> worker_scope \<Rightarrow> worker_token \<Rightarrow> db \<Rightarrow> (failure + bool) \<times> db" where
  "begin_read env s t = locked env s (wt_execution_id t) (begin_read_work env s t)"

definition no_write_work ::
    "env \<Rightarrow> worker_scope \<Rightarrow> worker_token \<Rightarrow> blocking_reason \<Rightarrow> regional_observation option \<Rightarrow>
     reading option \<Rightarrow> bool worker_work" where
  "no_write_work env s t reason obs obs_at r c hist cl rv at =
     (if \<not> owned env t cl \<or> last_phase hist \<noteq> PH_CLAIMED then ret False
      else
        bnd (finish_no_write env s r c rv at
               (no_args\<lparr>aa_reasons := [reason], aa_observation := obs, aa_observed_at := obs_at\<rparr>)) (\<lambda>_.
        ret True))"

definition no_write ::
    "env \<Rightarrow> worker_scope \<Rightarrow> worker_token \<Rightarrow> blocking_reason \<Rightarrow> regional_observation option \<Rightarrow>
     reading option \<Rightarrow> db \<Rightarrow> (failure + bool) \<times> db" where
  "no_write env s t reason obs obs_at =
     locked env s (wt_execution_id t) (no_write_work env s t reason obs obs_at)"

text \<open>Comparing a naive datetime with an aware one is a TypeError.\<close>

definition observed_before :: "reading \<Rightarrow> time \<Rightarrow> failure + bool" where
  "observed_before x t =
     (case x of Naive \<Rightarrow> Inl (TypeErr ''can't compare offset-naive and offset-aware datetimes'')
              | Aware o' \<Rightarrow> Inr (o' < t))"

definition write_intent_work ::
    "env \<Rightarrow> worker_scope \<Rightarrow> worker_token \<Rightarrow> regional_observation \<Rightarrow> reading \<Rightarrow> bool worker_work" where
  "write_intent_work env s t obs obs_at r c hist cl rv at =
     (case cl of
        None \<Rightarrow> ret False
      | Some w \<Rightarrow>
          if \<not> owned env t cl \<or> last_phase hist \<noteq> PH_CLAIMED then ret False
          else
            bnd (reevaluate env c at) (\<lambda>(reasons, at').
            if reasons \<noteq> [] then
              bnd (finish_no_write env s r c rv at' (no_args\<lparr>aa_reasons := reasons\<rparr>)) (\<lambda>_. ret False)
            else if wc_lease_until w \<le> at' then ret False
            else if wc_read_attempts w = 0 then raise (RemErr StateConflict)
            else
              bnd (lift_res (observed_before obs_at (je_created_at (ev_content (last hist))))) (\<lambda>early.
              bnd (guard (\<not> early) (RemErr StateConflict)) (\<lambda>_.
              if \<not> observation_matches obs (pc_baseline (xc_proposal c)) then
                bnd (finish_no_write env s r c rv at'
                       (no_args\<lparr>aa_reasons := [BR_PRECONDITION_CHANGED], aa_observation := Some obs,
                                aa_observed_at := Some obs_at\<rparr>)) (\<lambda>_. ret False)
              else
                bnd (append_entry env s r c EK_WRITE_INTENT at'
                       (no_args\<lparr>aa_observation := Some obs, aa_observed_at := Some obs_at\<rparr>)) (\<lambda>e.
                bnd (set_claim (wc_execution_id w)
                       (\<lambda>w. w\<lparr>wc_intent_event_id := Some (we_event_id e)\<rparr>)) (\<lambda>_. ret True))))))"

definition write_intent ::
    "env \<Rightarrow> worker_scope \<Rightarrow> worker_token \<Rightarrow> regional_observation \<Rightarrow> reading \<Rightarrow> db \<Rightarrow> (failure + bool) \<times> db" where
  "write_intent env s t obs obs_at d =
     (if \<not> valid_observation obs then (Inl (ValueErr ''RegionalObservation''), d)
      else locked env s (wt_execution_id t) (write_intent_work env s t obs obs_at) d)"

section \<open>After the intent\<close>

definition acknowledge_work ::
    "env \<Rightarrow> worker_scope \<Rightarrow> worker_token \<Rightarrow> string \<Rightarrow> bool worker_work" where
  "acknowledge_work env s t rid r c hist cl rv at =
     (if \<not> owned env t cl \<or> Option.bind cl wc_intent_event_id = None then ret False
      else if \<exists>v\<in>set hist. je_kind (ev_content v) = EK_ACKNOWLEDGED then ret False
      else
        bnd (append_entry env s r c EK_ACKNOWLEDGED at (no_args\<lparr>aa_request_id := Some rid\<rparr>)) (\<lambda>e.
        bnd (if we_phase e = PH_ACKNOWLEDGED then set_reservation (rv_id rv) None else ret ()) (\<lambda>_.
        ret True)))"

definition acknowledge ::
    "env \<Rightarrow> worker_scope \<Rightarrow> worker_token \<Rightarrow> string \<Rightarrow> db \<Rightarrow> (failure + bool) \<times> db" where
  "acknowledge env s t rid = locked env s (wt_execution_id t) (acknowledge_work env s t rid)"

definition quarantine_work :: "env \<Rightarrow> worker_scope \<Rightarrow> blocking_reason \<Rightarrow> bool worker_work" where
  "quarantine_work env s reason r c hist cl rv at =
     (if last_phase hist \<noteq> PH_WRITE_INTENT then ret False
      else bnd (append_entry env s r c EK_QUARANTINED at (no_args\<lparr>aa_reasons := [reason]\<rparr>)) (\<lambda>_. ret True))"

definition quarantine ::
    "env \<Rightarrow> worker_scope \<Rightarrow> uuid \<Rightarrow> blocking_reason \<Rightarrow> db \<Rightarrow> (failure + bool) \<times> db" where
  "quarantine env s eid reason = locked env s eid (quarantine_work env s reason)"

definition begin_readback_work :: "env \<Rightarrow> (nat \<times> time) option worker_work" where
  "begin_readback_work env r c hist cl rv at =
     (case cl of
        None \<Rightarrow> ret None
      | Some w \<Rightarrow>
          if last_phase hist \<notin> {PH_ACKNOWLEDGED, PH_QUARANTINED} \<or> 3 \<le> wc_readback_attempts w
          then ret None
          else
            let started = (case wc_readback_started w of None \<Rightarrow> at | Some t \<Rightarrow> t);
                deadline = started + readback_window in
            bnd (set_claim (wc_execution_id w) (\<lambda>w. w\<lparr>wc_readback_started := Some started\<rparr>)) (\<lambda>_.
            if deadline \<le> at then ret None
            else
              bnd (set_claim (wc_execution_id w)
                     (\<lambda>w. w\<lparr>wc_readback_attempts := Suc (wc_readback_attempts w)\<rparr>)) (\<lambda>_.
              ret (Some (Suc (wc_readback_attempts w), deadline)))))"

definition begin_readback ::
    "env \<Rightarrow> worker_scope \<Rightarrow> uuid \<Rightarrow> db \<Rightarrow> (failure + (nat \<times> time) option) \<times> db" where
  "begin_readback env s eid = locked env s eid (begin_readback_work env)"

fun entry_polls :: "journal_entry \<Rightarrow> nat" where
  "entry_polls (HumanEntry e) = 0"
| "entry_polls (WorkerEntry e) = we_polls e"

definition record_observation_work ::
    "env \<Rightarrow> worker_scope \<Rightarrow> (regional_observation \<times> reading) option \<Rightarrow> nat \<Rightarrow> bool worker_work" where
  "record_observation_work env s obs polls r c hist cl rv at =
     (case cl of
        None \<Rightarrow> ret False
      | Some w \<Rightarrow>
          if last_phase hist \<notin> {PH_ACKNOWLEDGED, PH_QUARANTINED} \<or> wc_readback_attempts w < polls
          then ret False
          else if \<exists>v\<in>set hist. entry_polls (ev_content v) = polls then ret False
          else
            (case obs of
               None \<Rightarrow>
                 bnd (append_entry env s r c EK_OBSERVATION_FAILED at
                        (no_args\<lparr>aa_reasons := [BR_READ_UNAVAILABLE], aa_polls := polls\<rparr>)) (\<lambda>_. ret True)
             | Some (ob, ob_at) \<Rightarrow>
                 bnd (append_entry env s r c EK_OBSERVED at
                        (no_args\<lparr>aa_observation := Some ob, aa_observed_at := Some ob_at,
                                 aa_polls := polls\<rparr>)) (\<lambda>_. ret True)))"

definition record_observation ::
    "env \<Rightarrow> worker_scope \<Rightarrow> uuid \<Rightarrow> (regional_observation \<times> reading) option \<Rightarrow> nat \<Rightarrow> db \<Rightarrow>
     (failure + bool) \<times> db" where
  "record_observation env s eid obs polls = locked env s eid (record_observation_work env s obs polls)"

definition inspect_work :: "(phase \<times> execution_content) worker_work" where
  "inspect_work r c hist cl rv at = ret (last_phase hist, c)"

definition inspect :: "env \<Rightarrow> worker_scope \<Rightarrow> uuid \<Rightarrow> db \<Rightarrow> (failure + (phase \<times> execution_content)) \<times> db" where
  "inspect env s eid = locked env s eid inspect_work"

end
