(* ===== verification/Worker_AWS.thy ===== *)
theory Worker_AWS
  imports Json Worker_Service
begin

text \<open>
  app/remediation/worker_aws.py: the closed AWS adapter of the worker. The SDK is a parameter:
  what a client call returned or raised is an \<open>aws_call\<close>, what creating the session, credentials
  and clients did is an \<open>ecs_session\<close>. The definitions are the code's own decisions on them: the
  fixed classifications, the identity check, the complete observation, the single receipt.
\<close>

section \<open>Outcomes of SDK calls\<close>

text \<open>
  A call returns a parsed response or raises: ClientError with its code, a connect, read or
  endpoint timeout, another BotoCoreError, one of ValueError, TypeError, KeyError, or anything
  else.
\<close>

datatype aws_call =
    Reply json
  | ClientFault "string option"
  | NetworkFault
  | BotoFault
  | OrdinaryFault
  | OtherFault

datatype aws_code =
    AWS_DISABLED
  | AWS_INVALID_SOURCE
  | AWS_SOURCE_UNAVAILABLE
  | AWS_SCOPE_MISMATCH
  | AWS_READ_TRANSIENT
  | AWS_READ_DENIED
  | AWS_INCOMPLETE_RESPONSE
  | AWS_WRITE_UNCERTAIN

text \<open>What leaves the adapter: a WorkerAwsError with its code, or another exception.\<close>

datatype adapter_exn = WorkerAws aws_code | OtherExn

definition transient_codes :: "string list" where
  "transient_codes =
     [''RequestLimitExceeded'', ''Throttling'', ''ThrottlingException'', ''ServiceUnavailable'',
      ''InternalError'', ''InternalFailure'', ''RequestTimeout'']"

definition aws_success :: "json \<Rightarrow> adapter_exn + json" where
  "aws_success response =
     (if \<not> is_obj response then Inl (WorkerAws AWS_INCOMPLETE_RESPONSE)
      else
        let metadata = jget ''ResponseMetadata'' response in
        if \<not> is_obj metadata \<or> jget ''HTTPStatusCode'' metadata \<noteq> JInt 200
        then Inl (WorkerAws AWS_INCOMPLETE_RESPONSE)
        else Inr response)"

fun aws_read :: "aws_call \<Rightarrow> adapter_exn + json" where
  "aws_read (Reply response) = aws_success response"
| "aws_read (ClientFault code) =
     Inl (WorkerAws (case code of
                       None \<Rightarrow> AWS_READ_DENIED
                     | Some c \<Rightarrow> if c \<in> set transient_codes then AWS_READ_TRANSIENT else AWS_READ_DENIED))"
| "aws_read NetworkFault = Inl (WorkerAws AWS_READ_TRANSIENT)"
| "aws_read BotoFault = Inl (WorkerAws AWS_READ_DENIED)"
| "aws_read OrdinaryFault = Inl OtherExn"
| "aws_read OtherFault = Inl OtherExn"

section \<open>The credential source\<close>

definition forbidden_source_variables :: "string list" where
  "forbidden_source_variables =
     [''AWS_ACCESS_KEY_ID'', ''AWS_SECRET_ACCESS_KEY'', ''AWS_SESSION_TOKEN'', ''AWS_SECURITY_TOKEN'',
      ''AWS_PROFILE'', ''AWS_DEFAULT_PROFILE'', ''AWS_CONFIG_FILE'', ''AWS_SHARED_CREDENTIALS_FILE'',
      ''BOTO_CONFIG'', ''AWS_ROLE_ARN'', ''AWS_ROLE_SESSION_NAME'', ''AWS_WEB_IDENTITY_TOKEN_FILE'',
      ''AWS_CONTAINER_CREDENTIALS_FULL_URI'', ''AWS_CONTAINER_AUTHORIZATION_TOKEN'',
      ''AWS_CONTAINER_AUTHORIZATION_TOKEN_FILE'', ''AWS_CA_BUNDLE'', ''AWS_DATA_PATH'']"

text \<open>
  \<open>str.upper()\<close> on code points below 256: U+00DF becomes SS, the accented small letters lose the
  bit 32, U+00B5 and U+00FF leave the range and stay themselves here (never an ASCII letter).
\<close>

definition upper_char :: "char \<Rightarrow> string" where
  "upper_char c =
     (let n = of_char c :: nat in
      if n = 223 then ''SS''
      else if 97 \<le> n \<and> n \<le> 122 \<or> 224 \<le> n \<and> n \<le> 254 \<and> n \<noteq> 247 then [char_of (n - 32)]
      else [c])"

definition upper :: "string \<Rightarrow> string" where
  "upper s = concat (map upper_char s)"

definition relative_uri_pattern :: "string \<Rightarrow> bool" where
  "relative_uri_pattern s =
     (let p = ''/v2/credentials/''; rest = drop (length p) s in
      starts_with p s \<and> 1 \<le> length rest \<and> length rest \<le> 128 \<and>
      list_all (\<lambda>c. is_lower c \<or> is_upper c \<or> is_digit c \<or> c = CHR ''_'' \<or> c = CHR ''-'') rest)"

definition hostile_environment :: "string list \<Rightarrow> bool" where
  "hostile_environment names =
     list_ex (\<lambda>n. n \<in> set forbidden_source_variables \<or> n = ''AWS_ENDPOINT_URL'' \<or>
                 starts_with ''AWS_ENDPOINT_URL_'' n) names"

text \<open>
  The task metadata fetcher: what the HTTP send gave (a status, the length of the body and the
  parsed body, None when it is not JSON), or the fault it raised.
\<close>

record metadata_response =
  mr_status :: int
  mr_length :: nat
  mr_body :: "json option"

datatype fetch_result = Fetched json | RetrievalError | FetchEscaped

fun nonblank_str :: "json \<Rightarrow> bool" where
  "nonblank_str (JStr s) = (strip_ws s \<noteq> [])"
| "nonblank_str _ = False"

definition safe_get_response :: "aws_call + metadata_response \<Rightarrow> fetch_result" where
  "safe_get_response sent =
     (case sent of
        Inl fault \<Rightarrow>
          (case fault of NetworkFault \<Rightarrow> RetrievalError | BotoFault \<Rightarrow> RetrievalError
           | OrdinaryFault \<Rightarrow> RetrievalError | _ \<Rightarrow> FetchEscaped)
      | Inr r \<Rightarrow>
          if mr_status r \<noteq> 200 \<or> 65536 < mr_length r then RetrievalError
          else (case mr_body r of
                  None \<Rightarrow> RetrievalError
                | Some body \<Rightarrow>
                    if \<not> is_obj body \<or>
                       list_ex (\<lambda>k. \<not> nonblank_str (jget k body))
                         [''AccessKeyId'', ''SecretAccessKey'', ''Token'', ''Expiration'']
                    then RetrievalError
                    else Fetched body))"

text \<open>
  What the SDK did when the session was set up: the credentials' method (None: no credentials),
  and whether creating each client raised.
\<close>

datatype 'a built = Made 'a | SetupFault | SetupEscaped

record ecs_session =
  es_credentials :: "string option built"
  es_sts :: "unit built"
  es_ec2 :: "unit built"

datatype aws_client = STS_CLIENT | EC2_CLIENT

record construction =
  cn_result :: "adapter_exn + unit"
  cn_opened :: "aws_client list"
  cn_closed :: "aws_client list"

definition from_ecs :: "worker_scope \<Rightarrow> (string \<times> string) list \<Rightarrow> ecs_session \<Rightarrow> construction" where
  "from_ecs scope environ session =
     (let done = (\<lambda>r opened closed. \<lparr>cn_result = r, cn_opened = opened, cn_closed = closed\<rparr>);
          failed = (\<lambda>code. done (Inl (WorkerAws code)) [] []) in
      if \<not> valid_worker_scope scope then done (Inl OtherExn) [] []
      else if \<not> ws_enabled scope then failed AWS_DISABLED
      else if hostile_environment (map (upper \<circ> fst) environ) then failed AWS_INVALID_SOURCE
      else (case map_of environ ''AWS_CONTAINER_CREDENTIALS_RELATIVE_URI'' of
              None \<Rightarrow> failed AWS_INVALID_SOURCE
            | Some relative \<Rightarrow>
                if \<not> relative_uri_pattern relative then failed AWS_INVALID_SOURCE
                else (case es_credentials session of
                        SetupFault \<Rightarrow> failed AWS_SOURCE_UNAVAILABLE
                      | SetupEscaped \<Rightarrow> done (Inl OtherExn) [] []
                      | Made credentials \<Rightarrow>
                          if credentials \<noteq> Some ''container-role'' then failed AWS_INVALID_SOURCE
                          else (case es_sts session of
                                  SetupFault \<Rightarrow> failed AWS_SOURCE_UNAVAILABLE
                                | SetupEscaped \<Rightarrow> done (Inl OtherExn) [] []
                                | Made _ \<Rightarrow>
                                    (case es_ec2 session of
                                       SetupFault \<Rightarrow>
                                         done (Inl (WorkerAws AWS_SOURCE_UNAVAILABLE)) [STS_CLIENT] [STS_CLIENT]
                                     | SetupEscaped \<Rightarrow> done (Inl OtherExn) [STS_CLIENT] []
                                     | Made _ \<Rightarrow> done (Inr ()) [STS_CLIENT, EC2_CLIENT] [])))))"

section \<open>The fixed operations\<close>

definition session_name_pattern :: "string \<Rightarrow> bool" where
  "session_name_pattern s = (2 \<le> length s \<and> length s \<le> 64 \<and> list_all role_char s)"

definition assumed_role_prefix :: "string \<Rightarrow> string \<Rightarrow> string" where
  "assumed_role_prefix account role_arn =
     (let parts = split_on (CHR '':'') role_arn;
          role_name = last (split_on (CHR ''/'') (parts ! 5)) in
      ''arn:'' @ parts ! 1 @ '':sts::'' @ account @ '':assumed-role/'' @ role_name @ ''/'')"

text \<open>The two client Regions are \<open>meta.region_name\<close> of the clients.\<close>

definition identity_accepted :: "string \<Rightarrow> string \<Rightarrow> string \<Rightarrow> string \<Rightarrow> string \<Rightarrow> json \<Rightarrow> bool" where
  "identity_accepted account region role_arn sts_region ec2_region response =
     (let prefix = assumed_role_prefix account role_arn in
      jget ''Account'' response = JStr account \<and>
      (case jget ''Arn'' response of
         JStr arn \<Rightarrow> starts_with prefix arn \<and> session_name_pattern (drop (length prefix) arn)
       | _ \<Rightarrow> False) \<and>
      nonblank_str (jget ''UserId'' response) \<and>
      sts_region = region \<and> ec2_region = region)"

definition verify_identity ::
    "worker_scope \<Rightarrow> string \<Rightarrow> string \<Rightarrow> aws_call \<Rightarrow> adapter_exn + unit" where
  "verify_identity scope sts_region ec2_region caller =
     res_bind (aws_read caller) (\<lambda>response.
     case (ws_account_id scope, ws_region scope, ws_role_arn scope) of
       (Some account, Some region, Some role_arn) \<Rightarrow>
         if identity_accepted account region role_arn sts_region ec2_region response then Inr ()
         else Inl (WorkerAws AWS_SCOPE_MISMATCH)
     | _ \<Rightarrow> Inl OtherExn)"

text \<open>The second read is only made when the first one gave a boolean.\<close>

definition observe :: "aws_call \<Rightarrow> aws_call \<Rightarrow> adapter_exn + regional_observation" where
  "observe encryption_call key_call =
     res_bind (aws_read encryption_call) (\<lambda>r1.
     case jget ''EbsEncryptionByDefault'' r1 of
       JBool encryption \<Rightarrow>
         res_bind (aws_read key_call) (\<lambda>r2.
         case jget ''KmsKeyId'' r2 of
           JNull \<Rightarrow> Inr \<lparr>ro_encryption = encryption, ro_kms_key_id = None, ro_kms_absence = True\<rparr>
         | JStr key \<Rightarrow>
             if strip_ws key = [] then Inl (WorkerAws AWS_INCOMPLETE_RESPONSE)
             else Inr \<lparr>ro_encryption = encryption, ro_kms_key_id = Some key, ro_kms_absence = False\<rparr>
         | _ \<Rightarrow> Inl (WorkerAws AWS_INCOMPLETE_RESPONSE))
     | _ \<Rightarrow> Inl (WorkerAws AWS_INCOMPLETE_RESPONSE))"

fun enable :: "aws_call \<Rightarrow> adapter_exn + string" where
  "enable (Reply r) =
     (case aws_success r of
        Inl _ \<Rightarrow> Inl (WorkerAws AWS_WRITE_UNCERTAIN)
      | Inr response \<Rightarrow>
          if jget ''EbsEncryptionByDefault'' response \<noteq> JBool True
          then Inl (WorkerAws AWS_WRITE_UNCERTAIN)
          else (case jget ''RequestId'' (jget ''ResponseMetadata'' response) of
                  JStr rid \<Rightarrow>
                    if request_id_pattern rid then Inr rid else Inl (WorkerAws AWS_WRITE_UNCERTAIN)
                | _ \<Rightarrow> Inl (WorkerAws AWS_WRITE_UNCERTAIN)))"
| "enable OtherFault = Inl OtherExn"
| "enable _ = Inl (WorkerAws AWS_WRITE_UNCERTAIN)"

section \<open>The port the driver uses\<close>

text \<open>
  RemediationAWS: the fixed operations. The n-th use of the port is answered by index n, so
  that one port describes every answer the SDK may give in a run.
\<close>

record aws_port =
  ap_factory :: "nat \<Rightarrow> adapter_exn + unit"
  ap_verify :: "nat \<Rightarrow> adapter_exn + unit"
  ap_observe :: "nat \<Rightarrow> adapter_exn + regional_observation"
  ap_enable :: "nat \<Rightarrow> adapter_exn + string"
  ap_close :: "nat \<Rightarrow> adapter_exn + unit"

text \<open>What the SDK does on the n-th use: the answers of the calls and the clients' Regions.\<close>

record aws_script =
  sc_environ :: "(string \<times> string) list"
  sc_session :: "nat \<Rightarrow> ecs_session"
  sc_caller :: "nat \<Rightarrow> aws_call"
  sc_encryption :: "nat \<Rightarrow> aws_call"
  sc_key :: "nat \<Rightarrow> aws_call"
  sc_enable :: "nat \<Rightarrow> aws_call"
  sc_close :: "nat \<Rightarrow> adapter_exn + unit"
  sc_sts_region :: string
  sc_ec2_region :: string

definition ebs_port :: "worker_scope \<Rightarrow> aws_script \<Rightarrow> aws_port" where
  "ebs_port scope sc =
     \<lparr>ap_factory = (\<lambda>n. cn_result (from_ecs scope (sc_environ sc) (sc_session sc n))),
      ap_verify = (\<lambda>n. verify_identity scope (sc_sts_region sc) (sc_ec2_region sc) (sc_caller sc n)),
      ap_observe = (\<lambda>n. observe (sc_encryption sc n) (sc_key sc n)),
      ap_enable = (\<lambda>n. enable (sc_enable sc n)),
      ap_close = sc_close sc\<rparr>"

section \<open>What the adapter lets through\<close>

lemma aws_success_Inr:
  "aws_success r = Inr r' \<longleftrightarrow>
     r' = r \<and> is_obj r \<and> is_obj (jget ''ResponseMetadata'' r) \<and>
     jget ''HTTPStatusCode'' (jget ''ResponseMetadata'' r) = JInt 200"
  by (auto simp: aws_success_def Let_def)

lemma aws_read_Inr:
  "aws_read call = Inr r \<longleftrightarrow> call = Reply r \<and> aws_success r = Inr r"
  by (cases call) (auto simp: aws_success_Inr split: option.splits)

lemma observe_InrE:
  assumes "observe ec kc = Inr ob"
  obtains r1 r2 b k where "ec = Reply r1" "kc = Reply r2" "aws_success r1 = Inr r1" "aws_success r2 = Inr r2"
    "jget ''EbsEncryptionByDefault'' r1 = JBool b"
    "jget ''KmsKeyId'' r2 = (case k of None \<Rightarrow> JNull | Some t \<Rightarrow> JStr t)"
    "case k of None \<Rightarrow> True | Some t \<Rightarrow> strip_ws t \<noteq> []"
    "ob = \<lparr>ro_encryption = b, ro_kms_key_id = k, ro_kms_absence = (k = None)\<rparr>"
proof -
  from assms obtain r1 where r1: "ec = Reply r1" "aws_success r1 = Inr r1"
    by (cases "aws_read ec") (auto simp: observe_def aws_read_Inr)
  then obtain b where b: "jget ''EbsEncryptionByDefault'' r1 = JBool b"
    using assms by (cases "jget ''EbsEncryptionByDefault'' r1") (auto simp: observe_def)
  obtain r2 where r2: "kc = Reply r2" "aws_success r2 = Inr r2"
    using assms r1 b by (cases "aws_read kc") (auto simp: observe_def aws_read_Inr)
  show thesis
  proof (cases "jget ''KmsKeyId'' r2")
    case JNull
    then show thesis using assms r1 r2 b that [of r1 r2 b None] by (auto simp: observe_def)
  next
    case (JStr t)
    then show thesis
      using assms r1 r2 b that [of r1 r2 b "Some t"] by (auto simp: observe_def split: if_splits)
  qed (use assms r1 r2 b in \<open>auto simp: observe_def\<close>)
qed

text \<open>C38. An observation is reported only for two complete successful responses, the first with a
  genuine boolean and the second with an explicit absence or a nonblank key; the observation says
  exactly that, and it satisfies its own contract.\<close>

theorem observation_is_complete:
  "observe ec kc = Inr ob \<longleftrightarrow>
     (\<exists>r1 r2. ec = Reply r1 \<and> kc = Reply r2 \<and> aws_success r1 = Inr r1 \<and> aws_success r2 = Inr r2 \<and>
        jget ''EbsEncryptionByDefault'' r1 = JBool (ro_encryption ob) \<and> valid_observation ob \<and>
        jget ''KmsKeyId'' r2 = (case ro_kms_key_id ob of None \<Rightarrow> JNull | Some k \<Rightarrow> JStr k))"
proof
  assume "observe ec kc = Inr ob"
  then show "\<exists>r1 r2. ec = Reply r1 \<and> kc = Reply r2 \<and> aws_success r1 = Inr r1 \<and> aws_success r2 = Inr r2 \<and>
        jget ''EbsEncryptionByDefault'' r1 = JBool (ro_encryption ob) \<and> valid_observation ob \<and>
        jget ''KmsKeyId'' r2 = (case ro_kms_key_id ob of None \<Rightarrow> JNull | Some k \<Rightarrow> JStr k)"
    by (elim observe_InrE) (simp add: valid_observation_def)
next
  assume "\<exists>r1 r2. ec = Reply r1 \<and> kc = Reply r2 \<and> aws_success r1 = Inr r1 \<and> aws_success r2 = Inr r2 \<and>
        jget ''EbsEncryptionByDefault'' r1 = JBool (ro_encryption ob) \<and> valid_observation ob \<and>
        jget ''KmsKeyId'' r2 = (case ro_kms_key_id ob of None \<Rightarrow> JNull | Some k \<Rightarrow> JStr k)"
  then show "observe ec kc = Inr ob"
    by (cases ob) (auto simp: observe_def aws_read_Inr valid_observation_def split: option.splits)
qed


end
