(* ===== verification/Journal_Facts.thy ===== *)
theory Journal_Facts
  imports Worker_Service "HOL-Library.Sublist"
begin

text \<open>
  Facts on the retained journal of an execution: how the validation of a journal splits at its
  last entry, that appended audits, proposals and decisions never invalidate it, and the frame
  rules of the transaction monad.
\<close>

section \<open>Relations every transaction step respects\<close>

text \<open>
  A reflexive and transitive relation between databases that every primitive respects is
  respected by every operation. The locale has one rule per combinator.
\<close>

locale act_frame =
  fixes R :: "db \<Rightarrow> db \<Rightarrow> bool"
  assumes frame_refl: "R d d"
    and frame_trans: "R d1 d2 \<Longrightarrow> R d2 d3 \<Longrightarrow> R d1 d3"
begin

definition keeps :: "'a act \<Rightarrow> bool" where
  "keeps m \<longleftrightarrow> (\<forall>w a w'. m w = Inr (a, w') \<longrightarrow> R (wk_db w) (wk_db w'))"

lemma keepsD: "keeps m \<Longrightarrow> m w = Inr (a, w') \<Longrightarrow> R (wk_db w) (wk_db w')"
  by (auto simp: keeps_def)

lemma keeps_bnd [intro]:
  assumes "keeps m" "\<And>a. keeps (f a)"
  shows "keeps (bnd m f)"
proof -
  have "R (wk_db w) (wk_db w')" if "bnd m f w = Inr (b, w')" for w b w'
  proof -
    from that obtain a w1 where "m w = Inr (a, w1)" "f a w1 = Inr (b, w')"
      by (auto simp: bnd_Inr_iff)
    then show ?thesis using assms frame_trans unfolding keeps_def by metis
  qed
  then show ?thesis by (auto simp: keeps_def)
qed

lemma keeps_pure [intro]:
  "keeps (ret a)" "keeps (raise e)" "keeps (guard b e)" "keeps get_db" "keeps (lift_res r)"
  "keeps (now env)" "keeps (uuid4 env)"
  by (auto simp: keeps_def frame_refl dest: now_Inr_db uuid4_Inr_db)

lemma keeps_change: "(\<And>d. R d (f d)) \<Longrightarrow> keeps (change f)"
  by (auto simp: keeps_def)

lemma keeps_for_each: "(\<And>x. keeps (f x)) \<Longrightarrow> keeps (for_each f xs)"
  by (induction xs) auto

lemma keeps_transact: "keeps m \<Longrightarrow> transact m d = (r, d') \<Longrightarrow> R d d'"
  using keepsD [of m "initial_work d"]
  by (auto simp: transact_def initial_work_def frame_refl split: sum.splits prod.splits)

end

section \<open>Splitting a journal\<close>

lemma check_events_append:
  "check_events h d r c i prev (xs @ ys) =
     (case check_events h d r c i prev xs of
        None \<Rightarrow> None
      | Some vs \<Rightarrow> map_option ((@) vs)
          (check_events h d r c (i + length xs) (if vs = [] then prev else Some (last vs)) ys))"
proof (induction xs arbitrary: i prev)
  case Nil
  then show ?case by (cases "check_events h d r c i prev ys") auto
next
  case (Cons x xs)
  show ?case
    by (auto simp: Cons.IH option.map_comp intro!: option.map_cong split: option.splits)
qed

lemma check_events_snoc:
  assumes "check_events h d r c i prev (xs @ [y]) = Some ws"
    and "check_events h d r c i prev xs = Some vs" "vs \<noteq> []"
  obtains v where "ws = vs @ [v]" "check_entry h d r c (i + length xs) (Some (last vs)) y = Some v"
  using assms by (auto simp: check_events_append split: option.splits)

lemma check_events_length: "check_events h d r c i prev rows = Some vs \<Longrightarrow> length vs = length rows"
  by (induction rows arbitrary: i prev vs) (auto split: option.splits)

lemma check_entry_SomeD:
  assumes "check_entry h d r c i prev ev = Some v"
  shows "entry_ok c i prev (ev_content v)" "row_agrees h r c i prev ev (ev_content v)"
    "audit_agrees h d ev (ev_content v)" "ev_sha v = ee_sha ev"
    "validate_event_doc (ee_content ev) = Some (ev_content v)" "ev_audit_id v = ee_audit_id ev"
  using assms by (auto simp: check_entry_def split: option.splits if_splits)

lemma check_events_seq:
  "check_events h d r c i prev rows = Some vs \<Longrightarrow> map ee_sequence rows = [i..<i + length rows]"
proof (induction rows arbitrary: i prev vs)
  case Nil
  then show ?case by simp
next
  case (Cons ev rows)
  then obtain v ws where v: "check_entry h d r c i prev ev = Some v"
    "check_events h d r c (Suc i) (Some v) rows = Some ws"
    by (auto split: option.splits)
  then have "ee_sequence ev = i" by (auto dest!: check_entry_SomeD(2) simp: row_agrees_def)
  then show ?case using Cons.IH [OF v(2)] by (simp add: upt_conv_Cons del: upt_Suc)
qed

lemma audit_agrees_mono:
  assumes "audit_agrees h d ev je" "db_audits d' = db_audits d @ as"
  shows "audit_agrees h d' ev je"
  using assms by (auto simp: audit_agrees_def find_row_append split: option.splits)

lemma check_events_mono:
  assumes "check_events h d r c i prev rows = Some vs" "db_audits d' = db_audits d @ as"
  shows "check_events h d' r c i prev rows = Some vs"
  using assms
proof (induction rows arbitrary: i prev vs)
  case Nil
  then show ?case by simp
next
  case (Cons ev rows)
  then obtain v ws where v: "check_entry h d r c i prev ev = Some v"
    "check_events h d r c (Suc i) (Some v) rows = Some ws" "vs = v # ws"
    by (auto split: option.splits)
  have "check_entry h d' r c i prev ev = Some v"
    using v(1) audit_agrees_mono [OF _ Cons.prems(2)]
    by (auto simp: check_entry_def split: option.splits if_splits)
  then show ?case using Cons.IH [OF v(2) Cons.prems(2)] v(3) by simp
qed

lemma events_ofD:
  assumes "events_of h d r c = Inr vs"
  shows "check_events h d r c (Suc 0) None (event_rows_of d (ex_id r)) = Some vs" "vs \<noteq> []"
    "claim_matches (claim_of d (ex_id r)) vs" "readback_matches (claim_of d (ex_id r)) vs"
  using assms check_events_length [of h d r c "Suc 0" None "event_rows_of d (ex_id r)"]
  by (auto simp: events_of_def split: list.splits option.splits if_splits)

lemma events_ofI:
  assumes "check_events h d r c (Suc 0) None (event_rows_of d (ex_id r)) = Some vs" "vs \<noteq> []"
    "claim_matches (claim_of d (ex_id r)) vs" "readback_matches (claim_of d (ex_id r)) vs"
  shows "events_of h d r c = Inr vs"
  using assms by (auto simp: events_of_def split: list.splits)

text \<open>A journal row with the next sequence number comes last in the validated order.\<close>

lemma event_rows_of_snoc:
  assumes "map ee_sequence (event_rows_of d e) = [Suc 0..<Suc n]"
    and "db_events d' = db_events d @ [ev]" "ee_execution_id ev = e" "ee_sequence ev = Suc n"
  shows "event_rows_of d' e = event_rows_of d e @ [ev]"
proof -
  let ?old = "filter (\<lambda>x. ee_execution_id x = e) (db_events d)"
  have n: "\<forall>x\<in>set ?old. ee_sequence x \<le> n"
  proof
    fix x assume "x \<in> set ?old"
    then have "ee_sequence x \<in> set (map ee_sequence (event_rows_of d e))"
      by (simp add: event_rows_of_def)
    then have "ee_sequence x \<in> set [Suc 0..<Suc n]" by (simp only: assms(1))
    then show "ee_sequence x \<le> n" by auto
  qed
  have "sort_key ee_sequence (?old @ [ev]) = sort_key ee_sequence ?old @ [ev]"
  proof (rule properties_for_sort_key)
    show "mset (sort_key ee_sequence ?old @ [ev]) = mset (?old @ [ev])" by simp
    show "sorted (map ee_sequence (sort_key ee_sequence ?old @ [ev]))"
      using n assms(4) by (auto simp: sorted_append)
    fix k assume "k \<in> set (sort_key ee_sequence ?old @ [ev])"
    have "[x \<leftarrow> sort_key ee_sequence ?old . ee_sequence x = ee_sequence k] =
        [x \<leftarrow> ?old . ee_sequence x = ee_sequence k]" by (rule sort_key_stable)
    then show "[x \<leftarrow> sort_key ee_sequence ?old @ [ev] . ee_sequence k = ee_sequence x] =
        [x \<leftarrow> ?old @ [ev] . ee_sequence k = ee_sequence x]"
      by (simp only: filter_append eq_commute [of "ee_sequence k"])
  qed
  then show ?thesis using assms(2,3) by (simp add: event_rows_of_def)
qed

lemma event_rows_of_other:
  "db_events d' = db_events d @ [ev] \<Longrightarrow> ee_execution_id ev \<noteq> e \<Longrightarrow>
   event_rows_of d' e = event_rows_of d e"
  by (simp add: event_rows_of_def)

lemma events_of_snoc:
  assumes "events_of h d r c = Inr vs" "events_of h d' r c = Inr vs'"
    and "db_audits d' = db_audits d @ as" "db_events d' = db_events d @ [ev]"
    and "ee_execution_id ev = ex_id r" "ee_sequence ev = Suc (length vs)"
  obtains v where "vs' = vs @ [v]" "validate_event_doc (ee_content ev) = Some (ev_content v)"
    "entry_ok c (Suc (length vs)) (Some (last vs)) (ev_content v)"
proof -
  let ?rows = "event_rows_of d (ex_id r)"
  note old = events_ofD [OF assms(1)]
  have len: "length ?rows = length vs" using check_events_length [OF old(1)] by simp
  have "map ee_sequence ?rows = [Suc 0..<Suc (length vs)]" using check_events_seq [OF old(1)] len by simp
  then have rows: "event_rows_of d' (ex_id r) = ?rows @ [ev]"
    by (rule event_rows_of_snoc [OF _ assms(4-6)])
  have c1: "check_events h d' r c (Suc 0) None ?rows = Some vs"
    by (rule check_events_mono [OF old(1) assms(3)])
  have c2: "check_events h d' r c (Suc 0) None (?rows @ [ev]) = Some vs'"
    using events_ofD(1) [OF assms(2)] unfolding rows .
  obtain v where v: "vs' = vs @ [v]"
    "check_entry h d' r c (Suc 0 + length ?rows) (Some (last vs)) ev = Some v"
    by (rule check_events_snoc [OF c2 c1 old(2)])
  show thesis
  proof (rule that)
    show "vs' = vs @ [v]" by (rule v(1))
    show "validate_event_doc (ee_content ev) = Some (ev_content v)"
      by (rule check_entry_SomeD(5) [OF v(2)])
    show "entry_ok c (Suc (length vs)) (Some (last vs)) (ev_content v)"
      using check_entry_SomeD(1) [OF v(2)] len by simp
  qed
qed

lemma events_of_frame:
  assumes "events_of h d r c = Inr vs" "db_audits d' = db_audits d @ as"
    and "event_rows_of d' (ex_id r) = event_rows_of d (ex_id r)"
    and "claim_of d' (ex_id r) = claim_of d (ex_id r)"
  shows "events_of h d' r c = Inr vs"
proof (rule events_ofI)
  note old = events_ofD [OF assms(1)]
  show "check_events h d' r c (Suc 0) None (event_rows_of d' (ex_id r)) = Some vs"
    unfolding assms(3) by (rule check_events_mono [OF old(1) assms(2)])
  show "vs \<noteq> []" by (rule old(2))
  show "claim_matches (claim_of d' (ex_id r)) vs" unfolding assms(4) by (rule old(3))
  show "readback_matches (claim_of d' (ex_id r)) vs" unfolding assms(4) by (rule old(4))
qed

section \<open>Writing one entry\<close>

text \<open>The audit event a journal entry comes with.\<close>

definition audit_for :: "(document \<Rightarrow> digest) \<Rightarrow> execution_row \<Rightarrow> journal_entry \<Rightarrow> digest \<Rightarrow> uuid \<Rightarrow> audit_row" where
  "audit_for h r je digest u =
     \<lparr>au_id = u, au_type = AT_REMEDIATION_EXECUTION (je_kind je),
      au_actor_type = fst (entry_actor h je), au_actor_id = snd (entry_actor h je),
      au_target_type = TargetExecution, au_target_id = ex_id r, au_time = je_created_at je,
      au_metadata = audit_metadata_of je digest\<rparr>"

definition add_entry :: "event_row \<Rightarrow> audit_row \<Rightarrow> db \<Rightarrow> db" where
  "add_entry ev au d = d\<lparr>db_audits := db_audits d @ [au], db_events := db_events d @ [ev]\<rparr>"

lemma add_entry_simps [simp]:
  "db_audits (add_entry ev au d) = db_audits d @ [au]"
  "db_events (add_entry ev au d) = db_events d @ [ev]"
  "db_claims (add_entry ev au d) = db_claims d"
  "db_reservations (add_entry ev au d) = db_reservations d"
  "db_executions (add_entry ev au d) = db_executions d"
  "db_proposals (add_entry ev au d) = db_proposals d"
  "db_decisions (add_entry ev au d) = db_decisions d"
  "db_requests (add_entry ev au d) = db_requests d"
  "db_findings (add_entry ev au d) = db_findings d"
  "db_exceptions (add_entry ev au d) = db_exceptions d"
  "db_history (add_entry ev au d) = db_history d"
  "db_guard (add_entry ev au d) = db_guard d"
  "claim_of (add_entry ev au d) e = claim_of d e"
  by (simp_all add: add_entry_def claim_of_def)

lemma write_entry_Inr:
  assumes "write_entry env r je doc w = Inr (x, w')"
  obtains u ev au where "au = audit_for (sha env) r je (sha env doc) u"
    "ev = event_row_for r je doc (sha env doc) au"
    "wk_db w' = add_entry ev au (wk_db w)" "new_key au_id u (db_audits (wk_db w))" "event_checks ev"
    "new_key ee_id (je_event_id je) (db_events (wk_db w))"
  using assms
  by (auto simp: write_entry_def Let_def append_audit_event_def insert_audit_def insert_event_def
      bnd_Inr_iff audit_for_def add_entry_def event_row_for_def)

lemma append_entry_Inr:
  assumes "append_entry env s r c kind at args w = Inr (e, w')"
    and "events_of (sha env) (wk_db w) r c = Inr hist"
  obtains u ph ev au where "e = worker_entry_for u r hist (worker_role s) kind ph at args"
    "worker_phase kind (last_phase hist) = Some ph" "valid_worker_event e"
    "validate_worker_entry e (last_phase hist) c = Inr ()"
    "wk_db w' = add_entry ev au (wk_db w)" "ee_execution_id ev = ex_id r"
    "ee_sequence ev = Suc (length hist)" "ee_content ev = WorkerEventDoc e" "ee_id ev = we_event_id e"
    "ee_kind ev = kind"
proof -
  let ?u = "fresh env (wk_ids w)" and ?w1 = "w\<lparr>wk_ids := Suc (wk_ids w)\<rparr>"
  from assms obtain ph where w: "worker_phase kind (last_phase hist) = Some ph"
    "e = worker_entry_for ?u r hist (worker_role s) kind ph at args" "valid_worker_event e"
    "validate_worker_entry e (last_phase hist) c = Inr ()"
    "write_entry env r (WorkerEntry e) (WorkerEventDoc e) ?w1 = Inr ((), w')"
    by (auto simp: append_entry_def bnd_Inr_iff Let_def split: option.splits)
  from write_entry_Inr [OF w(5)] obtain v au ev where v:
    "ev = event_row_for r (WorkerEntry e) (WorkerEventDoc e) (sha env (WorkerEventDoc e)) au"
    "wk_db w' = add_entry ev au (wk_db ?w1)" by metis
  show thesis
    by (rule that [OF w(2,1,3,4), of ev au]) (simp_all add: v w event_row_for_def worker_entry_for_def)
qed

text \<open>A human entry written by \<open>journal\<close> extends a valid journal to a valid journal.\<close>

lemma worker_entries_snoc:
  "worker_entries (vs @ [v]) =
     worker_entries vs @ (case worker_entry (ev_content v) of None \<Rightarrow> [] | Some e \<Rightarrow> [e])"
  by (simp add: worker_entries_def List.map_filter_def split: option.splits)

lemma claim_matches_human:
  assumes "ev_content v = HumanEntry e" "human_kind (he_kind e)"
  shows "claim_matches cl (vs @ [v]) = claim_matches cl vs"
    "readback_matches cl (vs @ [v]) = readback_matches cl vs"
proof -
  have we: "worker_entries (vs @ [v]) = worker_entries vs"
    by (simp add: worker_entries_snoc assms(1))
  have k: "k \<in> {EK_CLAIMED, EK_WRITE_INTENT} \<Longrightarrow> events_with_kind k (vs @ [v]) = events_with_kind k vs" for k
    using assms by (auto simp: events_with_kind_def human_kind_def)
  show "claim_matches cl (vs @ [v]) = claim_matches cl vs" by (cases cl) (simp_all add: claim_matches_def k we)
  show "readback_matches cl (vs @ [v]) = readback_matches cl vs"
    by (simp add: readback_matches_def observed_entries_def we)
qed

lemma valid_journal_queued:
  assumes "check_events h d r c (Suc 0) None rows = Some vs" "vs \<noteq> []" "last_phase vs = PH_QUEUED"
  shows "\<exists>v e. vs = [v] \<and> ev_content v = HumanEntry e \<and> he_created_at e = xc_created_at c"
proof -
  obtain ini row where rows: "rows = ini @ [row]"
    using assms(1,2) by (cases rows rule: rev_cases) auto
  from assms(1) obtain ws where ws: "check_events h d r c (Suc 0) None ini = Some ws"
    by (auto simp: rows check_events_append split: option.splits)
  have len: "length ini = length ws" using check_events_length [OF ws] by simp
  from assms(1) obtain v where v: "vs = ws @ [v]"
    "check_entry h d r c (Suc (length ini)) (if ws = [] then None else Some (last ws)) row = Some v"
    by (auto simp: rows check_events_append ws split: option.splits if_splits)
  note ok = check_entry_SomeD(1,2,5) [OF v(2)]
  have ph: "je_phase (ev_content v) = PH_QUEUED" using assms(3) v(1) by (simp add: last_phase_def)
  show ?thesis
  proof (cases "ev_content v")
    case (HumanEntry e)
    have "he_sequence e \<le> 2"
      using ok(3) HumanEntry
      by (cases "ee_content row") (auto simp: valid_human_event_def split: if_splits)
    moreover have "he_sequence e = Suc (length ini)" using ok(2) HumanEntry by (simp add: row_agrees_def)
    moreover have "length ini \<noteq> 1"
    proof
      assume "length ini = 1"
      then have "human_entry_ok c 2 (if ws = [] then None else Some (last ws)) e"
        using ok(1) HumanEntry by (simp add: entry_ok_def numeral_2_eq_2)
      then have "he_kind e \<noteq> EK_REQUESTED" "he_phase e = phase_of_human_kind (he_kind e)"
        by (auto simp: human_entry_ok_def)
      then show False using ph HumanEntry by (cases "he_kind e") auto
    qed
    ultimately have "ws = []" using len by (cases ws) auto
    then show ?thesis using ok(1) HumanEntry v(1) len by (auto simp: entry_ok_def human_entry_ok_def)
  next
    case (WorkerEntry e)
    then obtain p where "validate_worker_entry e p c = Inr ()"
      using ok(1) by (auto simp: entry_ok_def split: option.splits if_splits)
    then have "worker_phase (we_kind e) p = Some (we_phase e)" by (rule validate_worker_entry_phase)
    then show ?thesis using ph WorkerEntry by (auto simp: worker_phase_Some)
  qed
qed

lemma journal_extends:
  assumes "journal env r a at kind reasons w = Inr (x, w')"
    and "execution_content_of (sha env) (wk_db w) r = Inr c"
    and "events_of (sha env) (wk_db w) r c = Inr vs"
    and "kind \<in> {EK_EXPIRED, EK_BLOCKED}" "reasons \<noteq> []" "ac_capability a = CAP_EXECUTE"
    and "xc_created_at c \<le> at"
    and "kind = EK_EXPIRED \<longrightarrow> xc_expires_at c \<le> at \<and> BR_EXECUTION_EXPIRED \<in> set reasons"
  obtains ev au v where "wk_db w' = add_entry ev au (wk_db w)" "ee_execution_id ev = ex_id r"
    "events_of (sha env) (wk_db w') r c = Inr (vs @ [v])"
    "last_phase (vs @ [v]) = phase_of_human_kind kind" "last_phase vs = PH_QUEUED"
proof -
  let ?h = "sha env" and ?w1 = "w\<lparr>wk_ids := Suc (wk_ids w)\<rparr>"
  let ?e = "human_entry_for (fresh env (wk_ids w)) r vs a at kind reasons"
  note old = events_ofD [OF assms(3)]
  have kind: "kind \<noteq> EK_REQUESTED" "human_kind kind" using assms(4) by (auto simp: human_kind_def)
  have q: "last_phase vs = PH_QUEUED" and valid: "valid_human_event ?e"
    and wr: "write_entry env r (HumanEntry ?e) (HumanEventDoc ?e) ?w1 = Inr (x, w')"
    using assms(1-3) kind(1) old(2) by (auto simp: journal_def bnd_Inr_iff Let_def)
  obtain v0 e0 where v0: "vs = [v0]" "ev_content v0 = HumanEntry e0" "he_created_at e0 = xc_created_at c"
    using valid_journal_queued [OF old(1,2) q] by blast
  obtain u ev au where w: "au = audit_for ?h r (HumanEntry ?e) (?h (HumanEventDoc ?e)) u"
    "ev = event_row_for r (HumanEntry ?e) (HumanEventDoc ?e) (?h (HumanEventDoc ?e)) au"
    "wk_db w' = add_entry ev au (wk_db ?w1)" "new_key au_id u (db_audits (wk_db ?w1))"
    using write_entry_Inr [OF wr] by metis
  let ?v = "\<lparr>ev_content = HumanEntry ?e, ev_sha = ee_sha ev, ev_audit_id = ee_audit_id ev\<rparr>"
  have rows: "event_rows_of (wk_db w') (ex_id r) = event_rows_of (wk_db w) (ex_id r) @ [ev]"
  proof (rule event_rows_of_snoc)
    show "map ee_sequence (event_rows_of (wk_db w) (ex_id r)) = [Suc 0..<Suc (length vs)]"
      using check_events_seq [OF old(1)] check_events_length [OF old(1)] by simp
  qed (simp_all add: w(2,3) event_row_for_def human_entry_for_def)
  have audit: "audit_agrees ?h (wk_db w') ev (HumanEntry ?e)"
  proof -
    have "find_row au_id u (db_audits (wk_db w)) = None"
      using w(4) by (auto simp: find_row_None_iff new_key_def)
    then show ?thesis
      by (simp add: audit_agrees_def w(1-3) find_row_append audit_for_def event_row_for_def)
  qed
  have len: "length (event_rows_of (wk_db w) (ex_id r)) = 1"
    using check_events_length [OF old(1)] v0(1) by simp
  have human: "human_entry_ok c 2 (Some (last vs)) ?e"
    using kind q assms(5-8)
    by (auto simp: human_entry_ok_def human_entry_for_def last_phase_def)
  have "row_agrees ?h r c 2 (Some (last vs)) ev (HumanEntry ?e)"
    using v0 assms(7) by (simp add: row_agrees_def w(2) event_row_for_def human_entry_for_def)
  then have entry: "check_entry ?h (wk_db w') r c (Suc 1) (Some (last vs)) ev = Some ?v"
    using human audit valid
    by (simp add: check_entry_def entry_ok_def w(2) event_row_for_def numeral_2_eq_2)
  have "events_of ?h (wk_db w') r c = Inr (vs @ [?v])"
  proof (rule events_ofI)
    have "check_events ?h (wk_db w') r c (Suc 0) None (event_rows_of (wk_db w) (ex_id r)) = Some vs"
      by (rule check_events_mono [OF old(1), where as = "[au]"]) (simp add: w(3))
    then show "check_events ?h (wk_db w') r c (Suc 0) None (event_rows_of (wk_db w') (ex_id r)) =
        Some (vs @ [?v])"
      using entry len old(2) by (simp add: rows check_events_append)
    have cl: "claim_of (wk_db w') (ex_id r) = claim_of (wk_db w) (ex_id r)" by (simp add: w(3))
    have hk: "human_kind (he_kind ?e)" using kind(2) by (simp add: human_entry_for_def)
    show "claim_matches (claim_of (wk_db w') (ex_id r)) (vs @ [?v])"
      using old(3) by (simp add: cl claim_matches_human(1) [OF _ hk])
    show "readback_matches (claim_of (wk_db w') (ex_id r)) (vs @ [?v])"
      using old(4) by (simp add: cl claim_matches_human(2) [OF _ hk])
  qed simp
  moreover have "last_phase (vs @ [?v]) = phase_of_human_kind kind"
    by (simp add: last_phase_def human_entry_for_def)
  moreover have "wk_db w' = add_entry ev au (wk_db w)" by (simp add: w(3))
  moreover have "ee_execution_id ev = ex_id r" by (simp add: w(2) event_row_for_def)
  ultimately show thesis using that q by blast
qed

end
