(* ===== verification/Worker_Effects.thy ===== *)
theory Worker_Effects
  imports Journal_Facts
begin

text \<open>
  What one worker transaction can change: nothing but the claim and at most one journal entry
  of its own execution, and the release of the target exactly when the entry ends a held phase.
\<close>

section \<open>The effect of the work of a transaction\<close>

definition worker_frame :: "execution_row \<Rightarrow> db \<Rightarrow> db \<Rightarrow> bool" where
  "worker_frame r d d' =
     (db_findings d' = db_findings d \<and> db_exceptions d' = db_exceptions d \<and>
      db_history d' = db_history d \<and> db_proposals d' = db_proposals d \<and>
      db_decisions d' = db_decisions d \<and> db_requests d' = db_requests d \<and>
      db_executions d' = db_executions d \<and> db_guard d' = db_guard d \<and>
      (\<forall>e. e \<noteq> ex_id r \<longrightarrow> claim_of d' e = claim_of d e))"

definition no_entry :: "db \<Rightarrow> db \<Rightarrow> bool" where
  "no_entry d d' =
     (db_events d' = db_events d \<and> db_audits d' = db_audits d \<and>
      db_reservations d' = db_reservations d)"

definition released :: "reservation_row \<Rightarrow> reservation_row list \<Rightarrow> reservation_row list" where
  "released rv rows = modify_rows rv_id (rv_id rv) (\<lambda>r. r\<lparr>rv_execution_id := None\<rparr>) rows"

definition one_entry ::
    "execution_row \<Rightarrow> execution_content \<Rightarrow> reservation_row \<Rightarrow> event_view list \<Rightarrow> worker_event \<Rightarrow>
     db \<Rightarrow> db \<Rightarrow> bool" where
  "one_entry r c rv hist e d d' =
     (validate_worker_entry e (last_phase hist) c = Inr () \<and>
      (\<exists>ev au. db_events d' = db_events d @ [ev] \<and> db_audits d' = db_audits d @ [au] \<and>
         ee_execution_id ev = ex_id r \<and> ee_sequence ev = Suc (length hist) \<and>
         ee_content ev = WorkerEventDoc e \<and> ee_id ev = we_event_id e) \<and>
      valid_worker_event e \<and>
      db_reservations d' =
        (if held_phase (last_phase hist) \<and> \<not> held_phase (we_phase e)
         then released rv (db_reservations d) else db_reservations d))"

text \<open>The precondition \<open>locked\<close> establishes before it calls the work.\<close>

definition work_pre ::
    "(document \<Rightarrow> digest) \<Rightarrow> execution_row \<Rightarrow> execution_content \<Rightarrow> event_view list \<Rightarrow>
     claim_row option \<Rightarrow> reservation_row \<Rightarrow> db \<Rightarrow> bool" where
  "work_pre h r c hist cl rv d =
     (execution_content_of h d r = Inr c \<and> events_of h d r c = Inr hist \<and>
      cl = claim_of d (ex_id r) \<and>
      reservation_of d (pc_account_id (xc_proposal c)) (pc_region (xc_proposal c)) = Some rv \<and>
      (rv_execution_id rv = Some (ex_id r)) = held_phase (last_phase hist))"

definition work_effect ::
    "execution_row \<Rightarrow> execution_content \<Rightarrow> reservation_row \<Rightarrow> event_view list \<Rightarrow> db \<Rightarrow> db \<Rightarrow> bool" where
  "work_effect r c rv hist d d' =
     (worker_frame r d d' \<and> (no_entry d d' \<or> (\<exists>e. one_entry r c rv hist e d d')))"

lemma work_effect_refl: "work_effect r c rv hist d d"
  by (simp add: work_effect_def worker_frame_def no_entry_def)

lemma claim_of_key: "claim_of d e = Some w \<Longrightarrow> wc_execution_id w = e"
  by (auto simp: claim_of_def dest: find_row_Some)

text \<open>One appended entry, then changes of the claim of the same execution only.\<close>

lemma append_effect:
  assumes "append_entry env s r c kind at args w = Inr (e, w')"
    and "work_pre (sha env) r c hist cl rv (wk_db w)"
  shows "worker_frame r (wk_db w) (wk_db w')" "we_kind e = kind"
    "worker_phase kind (last_phase hist) = Some (we_phase e)"
    "held_phase (last_phase hist) = held_phase (we_phase e) \<Longrightarrow>
       one_entry r c rv hist e (wk_db w) (wk_db w')"
    "held_phase (last_phase hist) \<Longrightarrow> \<not> held_phase (we_phase e) \<Longrightarrow>
       db_reservations d' = released rv (db_reservations (wk_db w)) \<Longrightarrow>
       db_events d' = db_events (wk_db w') \<Longrightarrow> db_audits d' = db_audits (wk_db w') \<Longrightarrow>
       one_entry r c rv hist e (wk_db w) d'"
    "db_reservations (wk_db w') = db_reservations (wk_db w)"
proof -
  from assms(2) have "events_of (sha env) (wk_db w) r c = Inr hist" by (simp add: work_pre_def)
  from append_entry_Inr [OF assms(1) this] obtain u ph ev au where
    w: "e = worker_entry_for u r hist (worker_role s) kind ph at args"
    "worker_phase kind (last_phase hist) = Some ph" "valid_worker_event e"
    "validate_worker_entry e (last_phase hist) c = Inr ()"
    "wk_db w' = add_entry ev au (wk_db w)" "ee_execution_id ev = ex_id r"
    "ee_sequence ev = Suc (length hist)" "ee_content ev = WorkerEventDoc e"
    "ee_id ev = we_event_id e"
    by metis
  show "worker_frame r (wk_db w) (wk_db w')" by (simp add: w(5) worker_frame_def)
  show "db_reservations (wk_db w') = db_reservations (wk_db w)" by (simp add: w(5))
  show "we_kind e = kind" by (simp add: w(1) worker_entry_for_def)
  show "worker_phase kind (last_phase hist) = Some (we_phase e)"
    using w(2) by (simp add: w(1) worker_entry_for_def)
  show "one_entry r c rv hist e (wk_db w) (wk_db w')"
    if "held_phase (last_phase hist) = held_phase (we_phase e)"
    using that w(3-9) by (auto simp: one_entry_def)
  show "one_entry r c rv hist e (wk_db w) d'"
    if "held_phase (last_phase hist)" "\<not> held_phase (we_phase e)"
      "db_reservations d' = released rv (db_reservations (wk_db w))"
      "db_events d' = db_events (wk_db w')" "db_audits d' = db_audits (wk_db w')"
    using that w(3-9) by (auto simp: one_entry_def)
qed

lemma finish_no_write_effect:
  assumes "finish_no_write env s r c rv at args w = Inr (u, w')"
    and "work_pre (sha env) r c hist cl rv (wk_db w)"
  shows "work_effect r c rv hist (wk_db w) (wk_db w')"
proof -
  from assms(1) obtain e w1 where e: "append_entry env s r c EK_NO_WRITE at args w = Inr (e, w1)"
    "wk_db w' = (wk_db w1)\<lparr>db_reservations := released rv (db_reservations (wk_db w1))\<rparr>"
    by (auto simp: finish_no_write_def bnd_Inr_iff set_reservation_def released_def)
  note eff = append_effect [OF e(1) assms(2)]
  have ph: "held_phase (last_phase hist)" "\<not> held_phase (we_phase e)"
    using eff(3) by (auto simp: worker_phase_Some held_phase_def)
  have rv: "db_reservations (wk_db w1) = db_reservations (wk_db w)"
    by (rule eff(6))
  have "one_entry r c rv hist e (wk_db w) (wk_db w')"
    by (rule eff(5) [OF ph]) (simp_all add: e(2) rv)
  moreover have "worker_frame r (wk_db w) (wk_db w')"
    using eff(1) by (simp add: e(2) worker_frame_def claim_of_def)
  ultimately show ?thesis by (auto simp: work_effect_def)
qed

lemma reevaluate_db:
  "reevaluate env c at w = Inr (x, w') \<Longrightarrow> wk_db w' = wk_db w"
  by (auto simp: reevaluate_def bnd_Inr_iff)

lemma set_claim_frame:
  assumes "worker_frame r d d1" "\<And>x. wc_execution_id (f x) = wc_execution_id x"
    and "d2 = d1\<lparr>db_claims := modify_rows wc_execution_id (ex_id r) f (db_claims d1)\<rparr>"
  shows "worker_frame r d d2"
  using assms by (auto simp: worker_frame_def claim_of_def find_row_modify)

lemma frame_then_claim:
  assumes "worker_frame r d d1" "no_entry d d1 \<or> one_entry r c rv hist e d d1"
    and "worker_frame r d1 d2" "no_entry d1 d2"
  shows "work_effect r c rv hist d d2"
proof -
  have "worker_frame r d d2" using assms(1,3) by (auto simp: worker_frame_def)
  moreover have "no_entry d d2 \<or> one_entry r c rv hist e d d2"
    using assms(2,4) unfolding no_entry_def one_entry_def by (elim disjE) simp_all
  ultimately show ?thesis by (auto simp: work_effect_def)
qed

lemma append_keeps_phase_effect:
  assumes "append_entry env s r c kind at args w = Inr (e, w')"
    and "work_pre (sha env) r c hist cl rv (wk_db w)"
    and "kind \<in> {EK_CLAIMED, EK_WRITE_INTENT, EK_QUARANTINED, EK_OBSERVED, EK_OBSERVATION_FAILED}"
  shows "worker_frame r (wk_db w) (wk_db w')" "one_entry r c rv hist e (wk_db w) (wk_db w')"
proof -
  note eff = append_effect [OF assms(1,2)]
  have "held_phase (last_phase hist) = held_phase (we_phase e)"
    using eff(3) assms(3) by (auto simp: worker_phase_Some held_phase_def)
  then show "one_entry r c rv hist e (wk_db w) (wk_db w')" by (rule eff(4))
  show "worker_frame r (wk_db w) (wk_db w')" by (rule eff(1))
qed

lemma append_work_effect:
  assumes "append_entry env s r c kind at args w = Inr (e, w')"
    and "work_pre (sha env) r c hist cl rv (wk_db w)"
    and "kind \<in> {EK_CLAIMED, EK_WRITE_INTENT, EK_QUARANTINED, EK_OBSERVED, EK_OBSERVATION_FAILED}"
  shows "work_effect r c rv hist (wk_db w) (wk_db w')"
  using append_keeps_phase_effect [OF assms] unfolding work_effect_def by blast

lemma store_claim_frame:
  assumes "store_claim env s (ex_id r) token until (claim_of (wk_db w0) (ex_id r)) w = Inr (u, w')"
  shows "worker_frame r (wk_db w) (wk_db w')" "no_entry (wk_db w) (wk_db w')"
  using assms
  by (auto simp: store_claim_def set_claim_def worker_frame_def no_entry_def claim_of_def
      find_row_modify find_row_append split: option.splits)

section \<open>Every operation of the worker is effective\<close>

lemma claim_effective:
  assumes "work_pre (sha env) r c hist cl rv (wk_db w)"
    and "claim_work env s (ex_id r) r c hist cl rv at w = Inr (a, w')"
  shows "work_effect r c rv hist (wk_db w) (wk_db w')"
proof (cases "last_phase hist \<notin> {PH_QUEUED, PH_CLAIMED}")
  case True
  then show ?thesis using assms(2) by (auto simp: claim_work_def work_effect_refl)
next
  case False
  then obtain reasons at' w1 where re: "reevaluate env c at w = Inr ((reasons, at'), w1)"
    and rest: "(if reasons \<noteq> [] then
          bnd (finish_no_write env s r c rv at' (no_args\<lparr>aa_reasons := reasons\<rparr>)) (\<lambda>_. ret None)
        else if (case cl of None \<Rightarrow> False | Some w \<Rightarrow> at' < wc_lease_until w) then ret None
        else if (case cl of None \<Rightarrow> False | Some w \<Rightarrow> 3 \<le> wc_read_attempts w) then
          bnd (finish_no_write env s r c rv at'
                 (no_args\<lparr>aa_reasons := [BR_READ_BUDGET_EXHAUSTED]\<rparr>)) (\<lambda>_. ret None)
        else
          bnd (uuid4 env) (\<lambda>token.
          let until = min (xc_expires_at c) (at' + lease_time) in
          bnd (append_entry env s r c EK_CLAIMED at' no_args) (\<lambda>_.
          bnd (store_claim env s (ex_id r) token until cl) (\<lambda>_.
          ret (Some \<lparr>wt_execution_id = ex_id r, wt_token = token, wt_content = c,
                     wt_lease_until = until\<rparr>))))) w1 = Inr (a, w')"
    using assms(2) by (auto simp: claim_work_def bnd_Inr_iff)
  have db1: "wk_db w1 = wk_db w" by (rule reevaluate_db [OF re])
  have pre1: "work_pre (sha env) r c hist cl rv (wk_db w1)" using assms(1) db1 by simp
  have cl: "cl = claim_of (wk_db w) (ex_id r)" using assms(1) by (simp add: work_pre_def)
  show ?thesis
  proof (cases "reasons \<noteq> [] \<or> (case cl of None \<Rightarrow> False | Some w \<Rightarrow> at' < wc_lease_until w) \<or>
      (case cl of None \<Rightarrow> False | Some w \<Rightarrow> 3 \<le> wc_read_attempts w)")
    case True
    then consider (same) "w' = w1" | (nw) args u where
      "finish_no_write env s r c rv at' args w1 = Inr (u, w')"
      using rest by (auto simp: bnd_Inr_iff split: if_splits)
    then show ?thesis
    proof cases
      case same
      then show ?thesis by (simp add: db1 work_effect_refl)
    next
      case nw
      then show ?thesis using finish_no_write_effect [OF nw pre1] by (simp add: db1)
    qed
  next
    case False
    then obtain token e w2 u until where
      w2: "append_entry env s r c EK_CLAIMED at' no_args (w1\<lparr>wk_ids := Suc (wk_ids w1)\<rparr>) = Inr (e, w2)"
      and st: "store_claim env s (ex_id r) token until cl w2 = Inr (u, w')"
      using rest by (auto simp: bnd_Inr_iff Let_def)
    have pre2: "work_pre (sha env) r c hist cl rv (wk_db (w1\<lparr>wk_ids := Suc (wk_ids w1)\<rparr>))"
      using pre1 by simp
    note ap = append_keeps_phase_effect [OF w2 pre2]
    note sc = store_claim_frame [OF st [unfolded cl]]
    show ?thesis using ap sc db1 by (intro frame_then_claim [where e = e]) auto
  qed
qed

lemma set_claim_effect:
  assumes "set_claim (ex_id r) f w = Inr (u, w')" "\<And>x. wc_execution_id (f x) = wc_execution_id x"
  shows "worker_frame r (wk_db w) (wk_db w')" "no_entry (wk_db w) (wk_db w')"
  using assms
  by (auto simp: set_claim_def worker_frame_def no_entry_def claim_of_def find_row_modify)

lemma claim_only_effect:
  assumes "worker_frame r d d'" "no_entry d d'"
  shows "work_effect r c rv hist d d'"
  using assms by (simp add: work_effect_def)

lemma begin_read_effective:
  assumes "work_pre (sha env) r c hist cl rv (wk_db w)"
    and "begin_read_work env s t r c hist cl rv at w = Inr (a, w')"
  shows "work_effect r c rv hist (wk_db w) (wk_db w')"
proof (cases "\<exists>k. cl = Some k \<and> owned env t cl \<and> last_phase hist = PH_CLAIMED")
  case False
  then show ?thesis
    using assms(2) by (auto simp: begin_read_work_def work_effect_refl split: option.splits if_splits)
next
  case True
  then obtain k reasons0 at' w1 where k: "cl = Some k" and re: "reevaluate env c at w = Inr ((reasons0, at'), w1)"
    and rest: "(let reasons = (if reasons0 = [] \<and> 3 \<le> wc_read_attempts k
                           then [BR_READ_BUDGET_EXHAUSTED] else reasons0) in
            if reasons \<noteq> [] then
              bnd (finish_no_write env s r c rv at' (no_args\<lparr>aa_reasons := reasons\<rparr>)) (\<lambda>_. ret False)
            else if wc_lease_until k \<le> at' then ret False
            else
              bnd (set_claim (wc_execution_id k)
                     (\<lambda>w. w\<lparr>wc_read_attempts := Suc (wc_read_attempts w)\<rparr>)) (\<lambda>_. ret True)) w1 = Inr (a, w')"
    using assms(2) by (auto simp: begin_read_work_def bnd_Inr_iff)
  have db1: "wk_db w1 = wk_db w" by (rule reevaluate_db [OF re])
  have pre1: "work_pre (sha env) r c hist cl rv (wk_db w1)" using assms(1) db1 by simp
  have key: "wc_execution_id k = ex_id r" using assms(1) k claim_of_key by (auto simp: work_pre_def)
  from rest consider (same) "w' = w1" | (nw) args u where "finish_no_write env s r c rv at' args w1 = Inr (u, w')"
    | (cl) u where "set_claim (ex_id r) (\<lambda>w. w\<lparr>wc_read_attempts := Suc (wc_read_attempts w)\<rparr>) w1 = Inr (u, w')"
    by (auto simp: Let_def bnd_Inr_iff key split: if_splits)
  then show ?thesis
  proof cases
    case same
    then show ?thesis by (simp add: db1 work_effect_refl)
  next
    case nw
    then show ?thesis using finish_no_write_effect [OF nw pre1] by (simp add: db1)
  next
    case cl
    then show ?thesis using set_claim_effect [OF cl] by (simp add: db1 claim_only_effect)
  qed
qed

lemma no_write_effective:
  assumes "work_pre (sha env) r c hist cl rv (wk_db w)"
    and "no_write_work env s t reason obs obs_at r c hist cl rv at w = Inr (a, w')"
  shows "work_effect r c rv hist (wk_db w) (wk_db w')"
  using assms(2) finish_no_write_effect [OF _ assms(1)]
  by (auto simp: no_write_work_def bnd_Inr_iff work_effect_refl split: if_splits)

lemma write_intent_effective:
  assumes "work_pre (sha env) r c hist cl rv (wk_db w)"
    and "write_intent_work env s t obs obs_at r c hist cl rv at w = Inr (a, w')"
  shows "work_effect r c rv hist (wk_db w) (wk_db w')"
proof (cases "\<exists>k. cl = Some k \<and> owned env t cl \<and> last_phase hist = PH_CLAIMED")
  case False
  then show ?thesis
    using assms(2) by (auto simp: write_intent_work_def work_effect_refl split: option.splits if_splits)
next
  case True
  then obtain k where k: "cl = Some k" by blast
  then have key: "wc_execution_id k = ex_id r" using assms(1) claim_of_key by (auto simp: work_pre_def)
  from True k assms(2) obtain reasons at' w1 where re: "reevaluate env c at w = Inr ((reasons, at'), w1)"
    and rest: "w' = w1 \<or> (\<exists>args u. finish_no_write env s r c rv at' args w1 = Inr (u, w')) \<or>
      (\<exists>args e w2 u. append_entry env s r c EK_WRITE_INTENT at' args w1 = Inr (e, w2) \<and>
         set_claim (ex_id r) (\<lambda>w. w\<lparr>wc_intent_event_id := Some (we_event_id e)\<rparr>) w2 = Inr (u, w'))"
    by (auto simp: write_intent_work_def bnd_Inr_iff key split: if_splits) blast+
  have db1: "wk_db w1 = wk_db w" by (rule reevaluate_db [OF re])
  have pre1: "work_pre (sha env) r c hist cl rv (wk_db w1)" using assms(1) db1 by simp
  from rest consider (same) "w' = w1" | (nw) args u where "finish_no_write env s r c rv at' args w1 = Inr (u, w')"
    | (ap) args e w2 u where "append_entry env s r c EK_WRITE_INTENT at' args w1 = Inr (e, w2)"
      "set_claim (ex_id r) (\<lambda>w. w\<lparr>wc_intent_event_id := Some (we_event_id e)\<rparr>) w2 = Inr (u, w')"
    by blast
  then show ?thesis
  proof cases
    case same
    then show ?thesis by (simp add: db1 work_effect_refl)
  next
    case nw
    then show ?thesis using finish_no_write_effect [OF nw pre1] by (simp add: db1)
  next
    case ap
    show ?thesis
      using append_keeps_phase_effect [OF ap(1) pre1] set_claim_effect [OF ap(2)] db1
      by (intro frame_then_claim [where e = e]) auto
  qed
qed

lemma acknowledge_effective:
  assumes pre: "work_pre (sha env) r c hist cl rv (wk_db w)"
    and "acknowledge_work env s t rid r c hist cl rv at w = Inr (a, w')"
  shows "work_effect r c rv hist (wk_db w) (wk_db w')"
proof (cases "w' = w")
  case True
  then show ?thesis by (simp add: work_effect_refl)
next
  case False
  with assms(2) obtain args e w1 u where ap: "append_entry env s r c EK_ACKNOWLEDGED at args w = Inr (e, w1)"
    and st: "(if we_phase e = PH_ACKNOWLEDGED then set_reservation (rv_id rv) None else ret ()) w1 = Inr (u, w')"
    unfolding acknowledge_work_def by (auto simp: bnd_Inr_iff simp del: change_Inr_iff split: if_split_asm)
  have w': "wk_db w' = (if we_phase e = PH_ACKNOWLEDGED
      then (wk_db w1)\<lparr>db_reservations := released rv (db_reservations (wk_db w1))\<rparr> else wk_db w1)"
    using st by (cases "we_phase e = PH_ACKNOWLEDGED") (simp_all add: set_reservation_def released_def)
  note eff = append_effect [OF ap pre]
  show ?thesis
  proof (cases "we_phase e = PH_ACKNOWLEDGED")
    case True
    then have ph: "held_phase (last_phase hist)" "\<not> held_phase (we_phase e)"
      using eff(3) by (auto simp: worker_phase_Some held_phase_def)
    have "one_entry r c rv hist e (wk_db w) (wk_db w')"
      by (rule eff(5) [OF ph]) (simp_all add: w' True eff(6))
    moreover have "worker_frame r (wk_db w) (wk_db w')"
      using eff(1) by (simp add: w' True worker_frame_def claim_of_def)
    ultimately show ?thesis by (auto simp: work_effect_def)
  next
    case False
    then have "held_phase (last_phase hist) = held_phase (we_phase e)"
      using eff(3) by (auto simp: worker_phase_Some held_phase_def)
    then show ?thesis using eff(1,4) False by (auto simp: w' work_effect_def)
  qed
qed

lemma quarantine_effective:
  assumes "work_pre (sha env) r c hist cl rv (wk_db w)"
    and "quarantine_work env s reason r c hist cl rv at w = Inr (a, w')"
  shows "work_effect r c rv hist (wk_db w) (wk_db w')"
  using assms(2) append_work_effect [OF _ assms(1)]
  by (auto simp: quarantine_work_def bnd_Inr_iff work_effect_refl split: if_splits)

lemma begin_readback_effective:
  assumes "work_pre (sha env) r c hist cl rv (wk_db w)"
    and "begin_readback_work env r c hist cl rv at w = Inr (a, w')"
  shows "work_effect r c rv hist (wk_db w) (wk_db w')"
proof (cases "w' = w")
  case True
  then show ?thesis by (simp add: work_effect_refl)
next
  case False
  then obtain k where k: "cl = Some k"
    using assms(2) by (auto simp: begin_readback_work_def split: option.splits)
  have key: "wc_execution_id k = ex_id r" using assms(1) k claim_of_key by (auto simp: work_pre_def)
  from False k assms(2) obtain u w1 f where w1: "set_claim (ex_id r) f w = Inr (u, w1)"
    "\<And>x. wc_execution_id (f x) = wc_execution_id x"
    and rest: "w' = w1 \<or> (\<exists>u. set_claim (ex_id r)
        (\<lambda>w. w\<lparr>wc_readback_attempts := Suc (wc_readback_attempts w)\<rparr>) w1 = Inr (u, w'))"
    by (auto simp: begin_readback_work_def Let_def bnd_Inr_iff key split: if_splits)
  note e1 = set_claim_effect [OF w1]
  show ?thesis
  proof (cases "w' = w1")
    case True
    then show ?thesis using e1 by (simp add: claim_only_effect)
  next
    case False
    then obtain u where "set_claim (ex_id r)
        (\<lambda>w. w\<lparr>wc_readback_attempts := Suc (wc_readback_attempts w)\<rparr>) w1 = Inr (u, w')" using rest by blast
    from set_claim_effect [OF this] e1 show ?thesis
      by (intro frame_then_claim) auto
  qed
qed

lemma record_observation_effective:
  assumes "work_pre (sha env) r c hist cl rv (wk_db w)"
    and "record_observation_work env s obs polls r c hist cl rv at w = Inr (a, w')"
  shows "work_effect r c rv hist (wk_db w) (wk_db w')"
  using assms(2) append_work_effect [OF _ assms(1)]
  by (auto simp: record_observation_work_def bnd_Inr_iff work_effect_refl
      split: option.splits if_splits prod.splits)

lemma inspect_effective:
  "inspect_work r c hist cl rv at w = Inr (a, w') \<Longrightarrow> work_effect r c rv hist (wk_db w) (wk_db w')"
  by (auto simp: inspect_work_def work_effect_refl)

end
