(* ===== verification/Remediation_Invariant.thy ===== *)
theory Remediation_Invariant
  imports Worker_Effects
begin

text \<open>
  The invariant of the remediation database: every retained execution validates, reservations
  and journals agree, the capacity is respected, and decisions separate their humans. Every
  operation of the three services preserves it.
\<close>

section \<open>The invariant\<close>

definition target_of :: "execution_content \<Rightarrow> string \<times> string" where
  "target_of c = (pc_account_id (xc_proposal c), pc_region (xc_proposal c))"

definition reservation_at :: "db \<Rightarrow> string \<times> string \<Rightarrow> reservation_row option" where
  "reservation_at d t = find_row (\<lambda>r. (rv_account_id r, rv_region r)) t (db_reservations d)"

lemma reservation_of_at: "reservation_of d a r = reservation_at d (a, r)"
  by (simp add: reservation_of_def reservation_at_def)

definition valid_execution ::
    "(document \<Rightarrow> digest) \<Rightarrow> db \<Rightarrow> execution_row \<Rightarrow> execution_content \<Rightarrow> event_view list \<Rightarrow> bool" where
  "valid_execution h d r c vs =
     (execution_content_of h d r = Inr c \<and> events_of h d r c = Inr vs \<and>
      (\<exists>rv. reservation_at d (target_of c) = Some rv \<and>
         rv_resource_id rv = pc_resource_id (xc_proposal c) \<and>
         (rv_execution_id rv = Some (ex_id r)) = held_phase (last_phase vs)))"

definition reservations_backed :: "(document \<Rightarrow> digest) \<Rightarrow> db \<Rightarrow> bool" where
  "reservations_backed h d =
     (\<forall>rv\<in>set (db_reservations d). \<forall>e. rv_execution_id rv = Some e \<longrightarrow>
        (\<exists>r\<in>set (db_executions d). \<exists>c. ex_id r = e \<and> execution_content_of h d r = Inr c \<and>
           target_of c = (rv_account_id rv, rv_region rv)))"

definition decision_separated :: "(document \<Rightarrow> digest) \<Rightarrow> db \<Rightarrow> decision_row \<Rightarrow> bool" where
  "decision_separated h d r =
     (\<exists>p c v. find_row rp_id (de_proposal_id r) (db_proposals d) = Some p \<and>
        proposal_content_of h p = Inr c \<and> de_proposal_sha r = rp_sha p \<and>
        pc_created_at c \<le> de_created_at r \<and> decision_view_of r = Inr v \<and>
        (initial_decision r \<longrightarrow> (de_actor_issuer r, de_actor_subject r) \<noteq> actor_key (pc_proposer c)))"

definition authority_inv :: "(document \<Rightarrow> digest) \<Rightarrow> db \<Rightarrow> bool" where
  "authority_inv h d =
     (distinct (map rp_id (db_proposals d)) \<and> distinct (map de_id (db_decisions d)) \<and>
      distinct (map (\<lambda>r. (de_proposal_id r, initial_decision r)) (db_decisions d)) \<and>
      (\<forall>p\<in>set (db_proposals d). \<exists>c. proposal_content_of h p = Inr c) \<and>
      (\<forall>r\<in>set (db_decisions d). decision_separated h d r))"

definition execution_inv :: "(document \<Rightarrow> digest) \<Rightarrow> db \<Rightarrow> bool" where
  "execution_inv h d =
     (distinct (map ex_id (db_executions d)) \<and> distinct (map ex_proposal_id (db_executions d)) \<and>
      reservations_ok (db_reservations d) \<and> claims_ok (db_claims d) \<and>
      held_count d \<le> admission_capacity \<and>
      (\<forall>r\<in>set (db_executions d). \<exists>c vs. valid_execution h d r c vs) \<and> reservations_backed h d)"

definition system_inv :: "(document \<Rightarrow> digest) \<Rightarrow> db \<Rightarrow> bool" where
  "system_inv h d = (authority_inv h d \<and> execution_inv h d)"

section \<open>Frames\<close>

lemma find_row_distinct_iff:
  "distinct (map key rows) \<Longrightarrow> find_row key k rows = Some r \<longleftrightarrow> r \<in> set rows \<and> key r = k"
  using find_row_distinct find_row_Some by metis

lemma find_row_append_Some: "find_row key k xs = Some r \<Longrightarrow> find_row key k (xs @ ys) = Some r"
  by (simp add: find_row_append)

lemma distinct_decisions_of:
  "distinct (map de_id (db_decisions d)) \<Longrightarrow> distinct (map de_id (decisions_of d p))"
  by (simp add: decisions_of_def distinct_map inj_on_def)

lemma find_decision:
  assumes "distinct (map de_id (db_decisions d))"
  shows "find_row de_id k (decisions_of d p) = Some r \<longleftrightarrow>
    r \<in> set (db_decisions d) \<and> de_proposal_id r = p \<and> de_id r = k"
  using find_row_distinct_iff [OF distinct_decisions_of [OF assms]]
  by (auto simp: decisions_of_def)

lemma execution_content_Inr_iff:
  "execution_content_of h d r = Inr c \<longleftrightarrow>
     (\<exists>p acc ap v q. validate_execution_doc (ex_content r) = Some c \<and>
        proposal_of d (ex_proposal_id r) False = Inr p \<and> proposal_content_of h p = Inr acc \<and>
        find_row de_id (ex_approval_id r) (decisions_of d (ex_proposal_id r)) = Some ap \<and>
        decision_view_of ap = Inr v \<and> rebuilt_request c = Some q \<and>
        h (ex_content r) = ex_sha r \<and> xc_execution_id c = ex_id r \<and>
        binds_approval h c p acc v \<and> binds_requester h r c acc ap \<and>
        h (BindRequestDoc (ex_proposal_id r) q) = ex_request_sha r \<and> binds_times r c acc v)"
  (is "?l \<longleftrightarrow> ?r")
proof
  assume l: ?l
  then obtain c' p acc ap where s: "validate_execution_doc (ex_content r) = Some c'"
    "proposal_of d (ex_proposal_id r) False = Inr p" "proposal_content_of h p = Inr acc"
    "find_row de_id (ex_approval_id r) (decisions_of d (ex_proposal_id r)) = Some ap"
    unfolding execution_content_of_def res_bind_def by (fastforce split: option.splits sum.splits)
  with l obtain v q where "decision_view_of ap = Inr v" "rebuilt_request c' = Some q"
    unfolding execution_content_of_def by (auto split: option.splits sum.splits)
  with s l show ?r
    unfolding execution_content_of_def by (auto split: if_splits)
next
  assume ?r
  then show ?l by (auto simp: execution_content_of_def)
qed

text \<open>What every operation leaves of the authority tables: they only grow.\<close>

definition authority_grows :: "db \<Rightarrow> db \<Rightarrow> bool" where
  "authority_grows d d' =
     ((\<exists>ps. db_proposals d' = db_proposals d @ ps) \<and> (\<exists>ds. db_decisions d' = db_decisions d @ ds))"

lemma content_frame:
  assumes "execution_content_of h d r = Inr c" "authority_grows d d'"
    and "distinct (map de_id (db_decisions d'))"
  shows "execution_content_of h d' r = Inr c"
proof -
  from assms(2) obtain ps ds where g: "db_proposals d' = db_proposals d @ ps"
    "db_decisions d' = db_decisions d @ ds" by (auto simp: authority_grows_def)
  have dd: "distinct (map de_id (db_decisions d))" using assms(3) by (simp add: g)
  have p: "proposal_of d' pid False = Inr p" if "proposal_of d pid False = Inr p" for pid p
    using that by (auto simp: proposal_of_def g find_row_append split: option.splits)
  have a: "find_row de_id k (decisions_of d' q) = Some x"
    if "find_row de_id k (decisions_of d q) = Some x" for k q x
    using that unfolding find_decision [OF dd] find_decision [OF assms(3)] by (simp add: g)
  from assms(1) show ?thesis
    unfolding execution_content_Inr_iff using p a by blast
qed

lemma valid_execution_frame:
  assumes "valid_execution h d r c vs" "authority_grows d d'"
    and "distinct (map de_id (db_decisions d'))" "db_audits d' = db_audits d @ as"
    and "event_rows_of d' (ex_id r) = event_rows_of d (ex_id r)"
    and "claim_of d' (ex_id r) = claim_of d (ex_id r)"
    and "\<And>rv. reservation_at d (target_of c) = Some rv \<Longrightarrow>
      \<exists>rv'. reservation_at d' (target_of c) = Some rv' \<and> rv_resource_id rv' = rv_resource_id rv \<and>
        (rv_execution_id rv' = Some (ex_id r)) = (rv_execution_id rv = Some (ex_id r))"
  shows "valid_execution h d' r c vs"
  using assms(1,7) content_frame [OF _ assms(2,3)] events_of_frame [OF _ assms(4-6)]
  unfolding valid_execution_def by metis

section \<open>Releasing a reservation\<close>

lemma find_row_map:
  "(\<And>r. key (g r) = key r) \<Longrightarrow> find_row key k (map g rows) = map_option g (find_row key k rows)"
  by (induction rows) auto

lemma find_released:
  "find_row (\<lambda>r. (rv_account_id r, rv_region r)) t (released rv rows) =
     map_option (\<lambda>r. if rv_id r = rv_id rv then r\<lparr>rv_execution_id := None\<rparr> else r)
       (find_row (\<lambda>r. (rv_account_id r, rv_region r)) t rows)"
  unfolding released_def modify_rows_def by (rule find_row_map) simp

lemma held_released:
  "length (filter (\<lambda>r. rv_execution_id r \<noteq> None) (released rv rows)) \<le>
   length (filter (\<lambda>r. rv_execution_id r \<noteq> None) rows)"
  by (induction rows) (auto simp: released_def modify_rows_def)

lemma released_occupied:
  "x \<in> set (released rv rows) \<Longrightarrow> rv_execution_id x = Some e \<Longrightarrow> x \<in> set rows"
  by (auto simp: released_def modify_rows_def split: if_splits)

lemma reservation_same_id:
  assumes "reservations_ok rows" "x \<in> set rows" "y \<in> set rows" "rv_id x = rv_id y"
  shows "x = y"
  using assms by (auto simp: reservations_ok_def distinct_map inj_on_def)

text \<open>
  The step of one execution: its journal may gain an entry, its claim may change, its target is
  released exactly when it leaves the held phases.
\<close>

definition execution_step ::
    "(document \<Rightarrow> digest) \<Rightarrow> execution_row \<Rightarrow> execution_content \<Rightarrow> reservation_row \<Rightarrow>
     event_view list \<Rightarrow> event_view list \<Rightarrow> db \<Rightarrow> db \<Rightarrow> bool" where
  "execution_step h r c rv vs vs' d d' =
     (worker_frame r d d' \<and> (\<exists>as. db_audits d' = db_audits d @ as) \<and>
      (\<forall>e. e \<noteq> ex_id r \<longrightarrow> event_rows_of d' e = event_rows_of d e) \<and>
      reservations_ok (db_reservations d') \<and> claims_ok (db_claims d') \<and>
      events_of h d' r c = Inr vs' \<and>
      (\<not> held_phase (last_phase vs) \<longrightarrow> \<not> held_phase (last_phase vs')) \<and>
      db_reservations d' =
        (if held_phase (last_phase vs) \<and> \<not> held_phase (last_phase vs')
         then released rv (db_reservations d) else db_reservations d))"

lemma execution_step_inv:
  assumes inv: "execution_inv h d" and dd: "distinct (map de_id (db_decisions d))"
    and r: "r \<in> set (db_executions d)" and val: "valid_execution h d r c vs"
    and rv: "reservation_at d (target_of c) = Some rv" and st: "execution_step h r c rv vs vs' d d'"
  shows "execution_inv h d'" "valid_execution h d' r c vs'"
proof -
  let ?rel = "held_phase (last_phase vs) \<and> \<not> held_phase (last_phase vs')"
  from st have same: "db_proposals d' = db_proposals d" "db_decisions d' = db_decisions d"
    "db_executions d' = db_executions d" by (auto simp: execution_step_def worker_frame_def)
  have grows: "authority_grows d d'" by (simp add: authority_grows_def same)
  have res: "db_reservations d' = (if ?rel then released rv (db_reservations d) else db_reservations d)"
    using st by (simp add: execution_step_def)
  have ok: "reservations_ok (db_reservations d)" using inv by (simp add: execution_inv_def)
  have rvin: "rv \<in> set (db_reservations d)"
    using rv find_row_Some by (fastforce simp: reservation_at_def)
  have owner: "(rv_execution_id rv = Some (ex_id r)) = held_phase (last_phase vs)"
    "rv_resource_id rv = pc_resource_id (xc_proposal c)"
    using val rv by (auto simp: valid_execution_def)
  have at': "reservation_at d' t = (if ?rel then
      map_option (\<lambda>x. if rv_id x = rv_id rv then x\<lparr>rv_execution_id := None\<rparr> else x) (reservation_at d t)
      else reservation_at d t)" for t
    by (simp add: reservation_at_def res find_released)
  show mine: "valid_execution h d' r c vs'"
  proof -
    have "execution_content_of h d' r = Inr c"
      using val dd content_frame [OF _ grows] by (simp add: valid_execution_def same)
    moreover have "events_of h d' r c = Inr vs'" using st by (simp add: execution_step_def)
    moreover have "\<exists>x. reservation_at d' (target_of c) = Some x \<and>
        rv_resource_id x = pc_resource_id (xc_proposal c) \<and>
        (rv_execution_id x = Some (ex_id r)) = held_phase (last_phase vs')"
      using rv owner st by (auto simp: at' execution_step_def)
    ultimately show ?thesis by (simp add: valid_execution_def)
  qed
  have others: "\<exists>c0 vs0. valid_execution h d' r0 c0 vs0" if r0: "r0 \<in> set (db_executions d)" "r0 \<noteq> r" for r0
  proof -
    have ne: "ex_id r0 \<noteq> ex_id r"
      using r r0 inv by (auto simp: execution_inv_def distinct_map inj_on_def)
    from r0 inv obtain c0 vs0 where v0: "valid_execution h d r0 c0 vs0" by (auto simp: execution_inv_def)
    obtain as where as: "db_audits d' = db_audits d @ as" using st by (auto simp: execution_step_def)
    have "valid_execution h d' r0 c0 vs0"
    proof (rule valid_execution_frame [OF v0 grows _ as])
      show "distinct (map de_id (db_decisions d'))" using dd by (simp add: same)
      show "event_rows_of d' (ex_id r0) = event_rows_of d (ex_id r0)"
        "claim_of d' (ex_id r0) = claim_of d (ex_id r0)"
        using st ne by (auto simp: execution_step_def worker_frame_def)
      fix x assume x: "reservation_at d (target_of c0) = Some x"
      then have xin: "x \<in> set (db_reservations d)" using find_row_Some by (fastforce simp: reservation_at_def)
      show "\<exists>x'. reservation_at d' (target_of c0) = Some x' \<and> rv_resource_id x' = rv_resource_id x \<and>
          (rv_execution_id x' = Some (ex_id r0)) = (rv_execution_id x = Some (ex_id r0))"
      proof (cases "?rel \<and> rv_id x = rv_id rv")
        case True
        then have "x = rv" using reservation_same_id [OF ok xin rvin] by simp
        then show ?thesis using True x owner ne by (auto simp: at')
      next
        case False
        then show ?thesis using x by (auto simp: at')
      qed
    qed
    then show ?thesis by blast
  qed
  have cap: "held_count d' \<le> admission_capacity"
    using inv held_released [of rv "db_reservations d"]
    by (auto simp: execution_inv_def held_count_def res)
  have backed: "reservations_backed h d'"
    unfolding reservations_backed_def
  proof (intro ballI allI impI)
    fix x e assume "x \<in> set (db_reservations d')" "rv_execution_id x = Some e"
    then have "x \<in> set (db_reservations d)" using released_occupied by (auto simp: res split: if_splits)
    then obtain r0 c0 where "r0 \<in> set (db_executions d)" "ex_id r0 = e"
      "execution_content_of h d r0 = Inr c0" "target_of c0 = (rv_account_id x, rv_region x)"
      using inv \<open>rv_execution_id x = Some e\<close> unfolding execution_inv_def reservations_backed_def by blast
    then show "\<exists>r\<in>set (db_executions d'). \<exists>c. ex_id r = e \<and> execution_content_of h d' r = Inr c \<and>
        target_of c = (rv_account_id x, rv_region x)"
      using content_frame [OF _ grows] dd same by metis
  qed
  have "\<forall>r0\<in>set (db_executions d'). \<exists>c0 vs0. valid_execution h d' r0 c0 vs0"
    using others mine by (auto simp: same)
  moreover have "reservations_ok (db_reservations d')" "claims_ok (db_claims d')"
    using st unfolding execution_step_def by blast+
  ultimately show "execution_inv h d'"
    using inv cap backed by (simp add: execution_inv_def same)
qed

section \<open>The worker operations\<close>

lemma locked_body_Inr:
  assumes "locked_body env s eid wrk (initial_work d) = Inr (a, w')"
  obtains r c hist rv at wa vs where "execution_row_of d eid = Inr r" "ex_id r = eid"
    "r \<in> set (db_executions d)" "wk_db wa = d"
    "work_pre (sha env) r c hist (claim_of d eid) rv d"
    "rv_resource_id rv = pc_resource_id (xc_proposal c)"
    "Some (pc_account_id (xc_proposal c)) = ws_account_id s"
    "Some (pc_region (xc_proposal c)) = ws_region s"
    "wrk r c hist (claim_of d eid) rv at wa = Inr (a, w')"
    "reservations_ok (db_reservations (wk_db w'))" "claims_ok (db_claims (wk_db w'))"
    "events_of (sha env) (wk_db w') r c = Inr vs" "tick env 0 = Aware at"
    "wk_ticks wa = 1" "wk_ids wa = 0"
    "\<And>k. claim_of d eid = Some k \<Longrightarrow> Some (wc_role_arn k) = ws_role_arn s"
proof -
  let ?w1 = "\<lparr>wk_db = d, wk_ticks = 1, wk_ids = 0\<rparr>"
  from assms obtain r c hist rv where g: "execution_row_of d eid = Inr r"
    "execution_content_of (sha env) d r = Inr c" "events_of (sha env) d r c = Inr hist"
    "Some (pc_account_id (xc_proposal c)) = ws_account_id s"
    "Some (pc_region (xc_proposal c)) = ws_region s"
    "reservation_of d (pc_account_id (xc_proposal c)) (pc_region (xc_proposal c)) = Some rv"
    by (auto simp: locked_body_def bnd_Inr_iff initial_work_def split: option.split_asm)
  with assms obtain at vs where
    rest: "rv_resource_id rv = pc_resource_id (xc_proposal c)"
    "(rv_execution_id rv = Some eid) = held_phase (last_phase hist)"
    "case claim_of d eid of None \<Rightarrow> True | Some w \<Rightarrow> Some (wc_role_arn w) = ws_role_arn s"
    "tick env 0 = Aware at" "wrk r c hist (claim_of d eid) rv at ?w1 = Inr (a, w')"
    "reservations_ok (db_reservations (wk_db w'))" "claims_ok (db_claims (wk_db w'))"
    "events_of (sha env) (wk_db w') r c = Inr vs"
    by (auto simp: locked_body_def bnd_Inr_iff initial_work_def flush_def)
  have row: "ex_id r = eid" "r \<in> set (db_executions d)"
    using g(1) by (auto simp: execution_row_of_def dest: find_row_Some split: option.splits)
  show thesis
    by (rule that [where r = r and c = c and hist = hist and rv = rv and wa = ?w1 and at = at and vs = vs])
      (use g rest row in \<open>auto simp: work_pre_def\<close>)
qed

lemma locked_step:
  assumes run: "locked env s eid wrk d = (Inr a, d')" and inv: "system_inv (sha env) d"
    and eff: "\<And>r c hist cl rv at w w'. work_pre (sha env) r c hist cl rv (wk_db w) \<Longrightarrow> ex_id r = eid \<Longrightarrow>
      wrk r c hist cl rv at w = Inr (a, w') \<Longrightarrow> work_effect r c rv hist (wk_db w) (wk_db w')"
  obtains r c rv hist vs where "ex_id r = eid" "r \<in> set (db_executions d)"
    "valid_execution (sha env) d r c hist" "reservation_at d (target_of c) = Some rv"
    "execution_step (sha env) r c rv hist vs d d'" "work_effect r c rv hist d d'"
    "vs = hist \<or> (\<exists>v e. vs = hist @ [v] \<and> ev_content v = WorkerEntry e \<and>
        worker_phase (we_kind e) (last_phase hist) = Some (we_phase e))"
proof -
  from run obtain w' where body: "locked_body env s eid wrk (initial_work d) = Inr (a, w')"
    and d': "d' = wk_db w'"
    by (auto simp: locked_def transact_Inr split: if_splits)
  show thesis
  proof (rule locked_body_Inr [OF body])
    fix r c hist rv at w1 vs
    assume g: "ex_id r = eid" "r \<in> set (db_executions d)" "wk_db w1 = d"
      "work_pre (sha env) r c hist (claim_of d eid) rv d"
      "rv_resource_id rv = pc_resource_id (xc_proposal c)"
      "wrk r c hist (claim_of d eid) rv at w1 = Inr (a, w')"
      "reservations_ok (db_reservations (wk_db w'))" "claims_ok (db_claims (wk_db w'))"
      "events_of (sha env) (wk_db w') r c = Inr vs"
    have we: "work_effect r c rv hist d d'" using eff [OF _ g(1,6)] g(3,4) d' by simp
    have pre: "execution_content_of (sha env) d r = Inr c" "events_of (sha env) d r c = Inr hist"
      "reservation_at d (target_of c) = Some rv"
      "(rv_execution_id rv = Some (ex_id r)) = held_phase (last_phase hist)"
      using g(4) by (auto simp: work_pre_def reservation_of_at target_of_def)
    have val: "valid_execution (sha env) d r c hist"
      using pre g(5) by (simp add: valid_execution_def)
    have vs': "events_of (sha env) d' r c = Inr vs" using g(9) d' by simp
    show thesis
    proof (cases "no_entry d d'")
      case True
      then have rows: "event_rows_of d' e = event_rows_of d e" for e
        by (simp add: event_rows_of_def no_entry_def)
      have "check_events (sha env) d' r c (Suc 0) None (event_rows_of d (ex_id r)) = Some hist"
        by (rule check_events_mono [OF events_ofD(1) [OF pre(2)], where as = "[]"])
          (use True in \<open>simp add: no_entry_def\<close>)
      then have "vs = hist" using events_ofD(1) [OF vs'] by (simp add: rows)
      then have "execution_step (sha env) r c rv hist vs d d'"
        using True we g(7,8) vs' d' rows
        by (auto simp: execution_step_def work_effect_def no_entry_def)
      then show thesis using that g(1,2) val pre(3) we \<open>vs = hist\<close> by blast
    next
      case False
      then obtain e where e: "one_entry r c rv hist e d d'" using we by (auto simp: work_effect_def)
      then obtain ev au where ev: "db_events d' = db_events d @ [ev]" "db_audits d' = db_audits d @ [au]"
        "ee_execution_id ev = ex_id r" "ee_sequence ev = Suc (length hist)"
        "ee_content ev = WorkerEventDoc e" by (auto simp: one_entry_def)
      obtain v where v: "vs = hist @ [v]" "validate_event_doc (ee_content ev) = Some (ev_content v)"
        by (rule events_of_snoc [OF pre(2) vs' ev(2,1,3,4)])
      have ve: "ev_content v = WorkerEntry e" using v(2) ev(5) e by (simp add: one_entry_def)
      have ph: "worker_phase (we_kind e) (last_phase hist) = Some (we_phase e)"
        using e validate_worker_entry_phase by (auto simp: one_entry_def)
      have lp: "last_phase vs = we_phase e" by (simp add: last_phase_def v(1) ve)
      have "\<not> held_phase (last_phase hist) \<longrightarrow> \<not> held_phase (last_phase vs)"
        using ph unfolding lp by (auto simp: worker_phase_Some held_phase_def)
      moreover have "event_rows_of d' x = event_rows_of d x" if "x \<noteq> ex_id r" for x
        using event_rows_of_other [OF ev(1)] ev(3) that by simp
      ultimately have "execution_step (sha env) r c rv hist vs d d'"
        using we e g(7,8) vs' d' ev(2) lp
        by (auto simp: execution_step_def work_effect_def one_entry_def)
      then show thesis using that g(1,2) val pre(3) we v(1) ve ph by blast
    qed
  qed
qed

lemma locked_inv:
  assumes "locked env s eid wrk d = (a, d')" "system_inv (sha env) d"
    and "\<And>r c hist cl rv at w x w'. work_pre (sha env) r c hist cl rv (wk_db w) \<Longrightarrow> ex_id r = eid \<Longrightarrow>
      wrk r c hist cl rv at w = Inr (x, w') \<Longrightarrow> work_effect r c rv hist (wk_db w) (wk_db w')"
  shows "system_inv (sha env) d'"
proof (cases a)
  case (Inl e)
  then have "d' = d"
    using assms(1) by (auto simp: locked_def dest: commit_or_conflict_Inl split: if_splits)
  then show ?thesis using assms(2) by simp
next
  case (Inr x)
  then have run: "locked env s eid wrk d = (Inr x, d')" using assms(1) by simp
  show ?thesis
  proof (rule locked_step [OF run assms(2)])
    fix r c rv hist vs
    assume st: "r \<in> set (db_executions d)" "valid_execution (sha env) d r c hist"
      "reservation_at d (target_of c) = Some rv" "execution_step (sha env) r c rv hist vs d d'"
    have "authority_inv (sha env) d" using assms(2) by (simp add: system_inv_def)
    then have "authority_inv (sha env) d'"
      using st(4) by (simp add: authority_inv_def decision_separated_def execution_step_def worker_frame_def)
    moreover have "execution_inv (sha env) d'"
      using execution_step_inv(1) [OF _ _ st] assms(2) by (simp add: system_inv_def authority_inv_def)
    ultimately show ?thesis by (simp add: system_inv_def)
  qed (use assms(3) in blast)
qed

lemma claim_inv: "claim env s eid d = (a, d') \<Longrightarrow> system_inv (sha env) d \<Longrightarrow> system_inv (sha env) d'"
  unfolding claim_def by (rule locked_inv) (auto intro: claim_effective)

lemma begin_read_inv: "begin_read env s t d = (a, d') \<Longrightarrow> system_inv (sha env) d \<Longrightarrow> system_inv (sha env) d'"
  unfolding begin_read_def by (rule locked_inv) (auto intro: begin_read_effective)

lemma no_write_inv:
  "no_write env s t reason obs oat d = (a, d') \<Longrightarrow> system_inv (sha env) d \<Longrightarrow> system_inv (sha env) d'"
  unfolding no_write_def by (rule locked_inv) (auto intro: no_write_effective)

lemma write_intent_inv:
  assumes "write_intent env s t obs oat d = (a, d')" "system_inv (sha env) d"
  shows "system_inv (sha env) d'"
proof (cases "valid_observation obs")
  case True
  then have "locked env s (wt_execution_id t) (write_intent_work env s t obs oat) d = (a, d')"
    using assms(1) by (simp add: write_intent_def)
  then show ?thesis using assms(2) by (rule locked_inv) (auto intro: write_intent_effective)
qed (use assms in \<open>auto simp: write_intent_def\<close>)

lemma acknowledge_inv:
  "acknowledge env s t rid d = (a, d') \<Longrightarrow> system_inv (sha env) d \<Longrightarrow> system_inv (sha env) d'"
  unfolding acknowledge_def by (rule locked_inv) (auto intro: acknowledge_effective)

lemma quarantine_inv:
  "quarantine env s eid reason d = (a, d') \<Longrightarrow> system_inv (sha env) d \<Longrightarrow> system_inv (sha env) d'"
  unfolding quarantine_def by (rule locked_inv) (auto intro: quarantine_effective)

lemma begin_readback_inv:
  "begin_readback env s eid d = (a, d') \<Longrightarrow> system_inv (sha env) d \<Longrightarrow> system_inv (sha env) d'"
  unfolding begin_readback_def by (rule locked_inv) (auto intro: begin_readback_effective)

lemma record_observation_inv:
  "record_observation env s eid obs polls d = (a, d') \<Longrightarrow> system_inv (sha env) d \<Longrightarrow> system_inv (sha env) d'"
  unfolding record_observation_def by (rule locked_inv) (auto intro: record_observation_effective)

section \<open>Reads\<close>

interpretation reads: act_frame "(=)"
  by unfold_locales auto

lemma view_of_reads: "view_of env r w = Inr (v, w') \<Longrightarrow> wk_db w' = wk_db w"
  by (auto simp: view_of_def bnd_Inr_iff Let_def)

lemma execution_view_reads: "execution_view_of env r w = Inr (v, w') \<Longrightarrow> wk_db w' = wk_db w"
  by (auto simp: execution_view_of_def bnd_Inr_iff Let_def split: option.split_asm)

lemma replay_reads: "replay env a op key digest w = Inr (v, w') \<Longrightarrow> wk_db w' = wk_db w"
  by (auto simp: replay_def bnd_Inr_iff dest: view_of_reads split: option.split_asm if_split_asm)

lemma replay_execution_reads: "replay_execution env a key digest w = Inr (v, w') \<Longrightarrow> wk_db w' = wk_db w"
  by (auto simp: replay_execution_def bnd_Inr_iff dest: execution_view_reads split: option.split_asm if_split_asm)

section \<open>Ending a queued request\<close>

lemma journal_ends_request:
  assumes inv: "execution_inv h d" and h: "h = sha env" and dd: "distinct (map de_id (db_decisions d))"
    and r: "r \<in> set (db_executions d)" and val: "valid_execution h d r c vs" and d: "wk_db w = d"
    and rv: "reservation_at d (target_of c) = Some rv"
    and run: "journal env r a at kind reasons w = Inr (x, w')"
    and kind: "kind \<in> {EK_EXPIRED, EK_BLOCKED}" "reasons \<noteq> []" "ac_capability a = CAP_EXECUTE"
      "xc_created_at c \<le> at"
      "kind = EK_EXPIRED \<longrightarrow> xc_expires_at c \<le> at \<and> BR_EXECUTION_EXPIRED \<in> set reasons"
    and d': "d' = (wk_db w')\<lparr>db_reservations := released rv (db_reservations (wk_db w'))\<rparr>"
    and ok: "reservations_ok (db_reservations d')" "claims_ok (db_claims d')"
  shows "execution_inv h d'" "worker_frame r d d'"
    "db_reservations d' = released rv (db_reservations d)"
proof -
  have ev0: "execution_content_of (sha env) (wk_db w) r = Inr c" "events_of (sha env) (wk_db w) r c = Inr vs"
    using val by (simp_all add: valid_execution_def h d)
  obtain ev au v where e: "wk_db w' = add_entry ev au (wk_db w)" "ee_execution_id ev = ex_id r"
    "events_of (sha env) (wk_db w') r c = Inr (vs @ [v])"
    "last_phase (vs @ [v]) = phase_of_human_kind kind" "last_phase vs = PH_QUEUED"
    by (rule journal_extends [OF run ev0 kind])
  show res: "db_reservations d' = released rv (db_reservations d)" by (simp add: d' e(1) d)
  show fr: "worker_frame r d d'" by (simp add: d' e(1) d worker_frame_def claim_of_def)
  have ph: "held_phase (last_phase vs)" "\<not> held_phase (last_phase (vs @ [v]))"
    using e(4,5) kind(1) by (auto simp: held_phase_def)
  have "events_of h d' r c = Inr (vs @ [v])"
  proof (rule events_of_frame [where as = "[]"])
    show "events_of h (wk_db w') r c = Inr (vs @ [v])" using e(3) by (simp add: h)
  qed (simp_all add: d' event_rows_of_def claim_of_def)
  moreover have "event_rows_of d' x = event_rows_of d x" if "x \<noteq> ex_id r" for x
    using that e(2) by (simp add: d' e(1) d event_rows_of_def)
  ultimately have "execution_step h r c rv vs (vs @ [v]) d d'"
    using fr ph res ok by (auto simp: execution_step_def d' e(1) d)
  then show "execution_inv h d'" using execution_step_inv(1) [OF inv dd r val rv] by blast
qed

end
