(* ===== verification/Admission_Invariant.thy ===== *)
theory Admission_Invariant
  imports Remediation_Invariant
begin

text \<open>
  Admission preserves the invariant of the remediation database: the reaping loop, the release
  of a blocked target, and the admission of the new execution.
\<close>

section \<open>The reaping loop\<close>

lemma execution_times:
  assumes "execution_content_of h d r = Inr c"
  shows "xc_created_at c < xc_expires_at c" "xc_expires_at c = ex_expires_at r"
    "xc_created_at c = ex_created_at r"
proof -
  obtain acc v where "binds_times r c acc v" using assms by (auto simp: execution_content_Inr_iff)
  then show "xc_created_at c < xc_expires_at c" "xc_expires_at c = ex_expires_at r"
    "xc_created_at c = ex_created_at r"
    by (auto simp: binds_times_def execution_ttl_def seconds_def)
qed

definition same_target :: "reservation_row \<Rightarrow> reservation_row \<Rightarrow> bool" where
  "same_target x y =
     (rv_id x = rv_id y \<and> rv_account_id x = rv_account_id y \<and> rv_region x = rv_region y)"

text \<open>What the loop keeps: the invariant, the executions and the targets of the reservations.\<close>

definition reaping :: "(document \<Rightarrow> digest) \<Rightarrow> db \<Rightarrow> db \<Rightarrow> bool" where
  "reaping h d0 d =
     (system_inv h d \<and> db_executions d = db_executions d0 \<and> db_proposals d = db_proposals d0 \<and>
      db_decisions d = db_decisions d0 \<and> db_guard d = db_guard d0 \<and>
      (\<forall>x\<in>set (db_reservations d0). \<exists>y\<in>set (db_reservations d). same_target y x))"

lemma released_same_target:
  "x \<in> set rows \<Longrightarrow> \<exists>y\<in>set (released rv rows). same_target y x"
  by (rule bexI [of _ "if rv_id x = rv_id rv then x\<lparr>rv_execution_id := None\<rparr> else x"])
    (auto simp: same_target_def released_def modify_rows_def)

lemma reservation_at_in:
  assumes "reservations_ok (db_reservations d)" "y \<in> set (db_reservations d)"
  shows "reservation_at d (rv_account_id y, rv_region y) = Some y"
  using assms find_row_distinct [of "\<lambda>r. (rv_account_id r, rv_region r)" "db_reservations d" y]
  by (simp add: reservation_at_def reservations_ok_def)

lemma execution_unique:
  "distinct (map ex_id (db_executions d)) \<Longrightarrow> r \<in> set (db_executions d) \<Longrightarrow>
   r' \<in> set (db_executions d) \<Longrightarrow> ex_id r = ex_id r' \<Longrightarrow> r = r'"
  by (auto simp: distinct_map inj_on_def)

lemma execution_row_of_Inr: "execution_row_of d e = Inr r \<Longrightarrow> r \<in> set (db_executions d) \<and> ex_id r = e"
  by (auto simp: execution_row_of_def dest: find_row_Some split: option.splits)

lemma authority_inv_cong:
  "db_proposals d' = db_proposals d \<Longrightarrow> db_decisions d' = db_decisions d \<Longrightarrow>
   authority_inv h d' = authority_inv h d"
  by (simp add: authority_inv_def decision_separated_def)

lemma reaping_ends:
  assumes "reaping h d0 d" "worker_frame r d d'" "db_reservations d' = released rv (db_reservations d)"
    and "execution_inv h d'"
  shows "reaping h d0 d'"
proof -
  have "authority_inv h d'"
    using assms(1,2) authority_inv_cong [of d' d h] by (simp add: reaping_def system_inv_def worker_frame_def)
  moreover have "\<exists>y\<in>set (db_reservations d'). same_target y x" if x: "x \<in> set (db_reservations d0)" for x
  proof -
    obtain y where "y \<in> set (db_reservations d)" "same_target y x"
      using assms(1) x unfolding reaping_def by blast
    then show ?thesis
      using released_same_target [of y "db_reservations d" rv] assms(3)
      by (auto simp: same_target_def)
  qed
  ultimately show ?thesis
    using assms by (simp add: reaping_def system_inv_def worker_frame_def)
qed

lemma reap_one_inv:
  assumes run: "reap_one env a at rv w = Inr (x, w')" and a: "ac_capability a = CAP_EXECUTE"
    and inv: "reaping (sha env) d0 (wk_db w)" and rv: "rv \<in> set (expired_reservations d0 at)"
  shows "reaping (sha env) d0 (wk_db w')"
proof -
  let ?d = "wk_db w"
  obtain eid r0 where eid: "rv_execution_id rv = Some eid" "rv \<in> set (db_reservations d0)"
    "r0 \<in> set (db_executions d0)" "ex_id r0 = eid" "ex_expires_at r0 \<le> at"
    using rv by (auto simp: expired_reservations_def split: option.splits)
  from run eid(1) obtain r c vs where r: "execution_row_of ?d eid = Inr r"
    "execution_content_of (sha env) ?d r = Inr c"
    "target_of c = (rv_account_id rv, rv_region rv)" "events_of (sha env) ?d r c = Inr vs"
    and rest: "(if last_phase vs \<noteq> PH_QUEUED then ret ()
          else bnd (journal env r a at EK_EXPIRED [BR_EXECUTION_EXPIRED]) (\<lambda>_.
            bnd (set_reservation (rv_id rv) None) (\<lambda>_. flush))) w = Inr (x, w')"
    by (auto simp: reap_one_def bnd_Inr_iff target_of_def)
  show ?thesis
  proof (cases "last_phase vs = PH_QUEUED")
    case False
    then show ?thesis using rest inv by simp
  next
    case True
    then obtain u w1 where j: "journal env r a at EK_EXPIRED [BR_EXECUTION_EXPIRED] w = Inr (u, w1)"
      and w': "wk_db w' = (wk_db w1)\<lparr>db_reservations := released rv (db_reservations (wk_db w1))\<rparr>"
      "reservations_ok (db_reservations (wk_db w'))" "claims_ok (db_claims (wk_db w'))"
      using rest by (auto simp: bnd_Inr_iff set_reservation_def released_def flush_def)
    have ei: "execution_inv (sha env) ?d" and dd: "distinct (map de_id (db_decisions ?d))"
      using inv by (auto simp: reaping_def system_inv_def authority_inv_def)
    have rin: "r \<in> set (db_executions ?d)" "ex_id r = eid" using execution_row_of_Inr [OF r(1)] by auto
    have "r = r0"
      using execution_unique [of ?d r r0] ei rin eid(3,4) inv by (simp add: reaping_def execution_inv_def)
    then have exp: "xc_expires_at c \<le> at" "xc_created_at c \<le> at"
      using execution_times [OF r(2)] eid(5) by auto
    obtain c' vs' where val: "valid_execution (sha env) ?d r c' vs'" using ei rin by (auto simp: execution_inv_def)
    then have val: "valid_execution (sha env) ?d r c vs" using r by (simp add: valid_execution_def)
    obtain y where y: "y \<in> set (db_reservations ?d)" "same_target y rv"
      using inv eid(2) unfolding reaping_def by blast
    have at: "reservation_at ?d (target_of c) = Some y"
      using reservation_at_in [OF _ y(1)] ei y(2) by (simp add: execution_inv_def r(3) same_target_def)
    have rel: "released rv = released y" using y(2) by (simp add: released_def same_target_def fun_eq_iff)
    note e = journal_ends_request [OF ei refl dd rin(1) val refl at j _ _ a _ _ w'(1) [unfolded rel] w'(2,3)]
    show ?thesis
      by (rule reaping_ends [OF inv e(2,3,1)]) (use exp in auto)
  qed
qed

lemma reap_expired_inv:
  assumes "reap_expired env a at w = Inr (x, w')" "ac_capability a = CAP_EXECUTE"
    and "system_inv (sha env) (wk_db w)"
  shows "reaping (sha env) (wk_db w) (wk_db w')"
proof -
  let ?rs = "expired_reservations (wk_db w) at"
  have "for_each (reap_one env a at) ?rs w = Inr (x, w')"
    using assms(1) by (auto simp: reap_expired_def bnd_Inr_iff)
  then show ?thesis
  proof (rule for_each_invariant)
    show "reaping (sha env) (wk_db w) (wk_db w)"
      using assms(3) by (auto simp: reaping_def same_target_def)
  qed (use reap_one_inv assms(2) in blast)
qed

section \<open>Releasing an occupied target\<close>

lemma find_reservation_modified:
  assumes "reservation_at d t = Some rv" "db_reservations d' = released rv (db_reservations d)"
  shows "reservation_at d' t = Some (rv\<lparr>rv_execution_id := None\<rparr>)"
  using assms by (simp add: reservation_at_def find_released)

lemma release_target_inv:
  assumes run: "release_target env a at c rvo w = Inr (x, w')" and a: "ac_capability a = CAP_EXECUTE"
    and inv: "system_inv (sha env) (wk_db w)"
    and rvo: "rvo = reservation_at (wk_db w) (pc_account_id c, pc_region c)"
  shows "system_inv (sha env) (wk_db w')" "db_executions (wk_db w') = db_executions (wk_db w)"
    "db_proposals (wk_db w') = db_proposals (wk_db w)" "db_decisions (wk_db w') = db_decisions (wk_db w)"
    "case rvo of None \<Rightarrow> reservation_at (wk_db w') (pc_account_id c, pc_region c) = None
     | Some rv \<Rightarrow> rv_resource_id rv = pc_resource_id c \<and>
         reservation_at (wk_db w') (pc_account_id c, pc_region c) = Some (rv\<lparr>rv_execution_id := None\<rparr>)"
proof -
  let ?d = "wk_db w" and ?t = "(pc_account_id c, pc_region c)" and ?d' = "wk_db w'"
  have "system_inv (sha env) ?d' \<and> db_executions ?d' = db_executions ?d \<and>
    db_proposals ?d' = db_proposals ?d \<and> db_decisions ?d' = db_decisions ?d \<and>
    (case rvo of None \<Rightarrow> reservation_at ?d' ?t = None
     | Some rv \<Rightarrow> rv_resource_id rv = pc_resource_id c \<and>
         reservation_at ?d' ?t = Some (rv\<lparr>rv_execution_id := None\<rparr>))"
  proof (cases "\<exists>rv e. rvo = Some rv \<and> rv_execution_id rv = Some e")
    case False
    then show ?thesis
      using run inv rvo by (auto simp: release_target_def bnd_Inr_iff split: option.splits)
  next
    case True
    then obtain rv eid where rv: "rvo = Some rv" "rv_execution_id rv = Some eid" by blast
    with run obtain prev pc vs reasons u w1 where p: "rv_resource_id rv = pc_resource_id c"
      "execution_row_of ?d eid = Inr prev" "execution_content_of (sha env) ?d prev = Inr pc"
      "events_of (sha env) ?d prev pc = Inr vs" "execution_blocking env ?d pc at = Inr reasons"
      "reasons \<noteq> []" "journal env prev a at EK_BLOCKED reasons w = Inr (u, w1)"
      and w': "?d' = (wk_db w1)\<lparr>db_reservations := released rv (db_reservations (wk_db w1))\<rparr>"
      "reservations_ok (db_reservations ?d')" "claims_ok (db_claims ?d')"
      by (auto simp: release_target_def bnd_Inr_iff set_reservation_def released_def flush_def)
    have ei: "execution_inv (sha env) ?d" and dd: "distinct (map de_id (db_decisions ?d))"
      using inv by (auto simp: system_inv_def authority_inv_def)
    have pin: "prev \<in> set (db_executions ?d)" "ex_id prev = eid" using execution_row_of_Inr [OF p(2)] by auto
    have at: "reservation_at ?d ?t = Some rv" using rvo rv(1) by simp
    then have rvin: "rv \<in> set (db_reservations ?d)" "?t = (rv_account_id rv, rv_region rv)"
      by (auto simp: reservation_at_def dest: find_row_Some)
    then obtain r' c' where r': "r' \<in> set (db_executions ?d)" "ex_id r' = eid"
      "execution_content_of (sha env) ?d r' = Inr c'" "target_of c' = (rv_account_id rv, rv_region rv)"
      using ei rv(2) unfolding execution_inv_def reservations_backed_def by blast
    have "r' = prev"
      using execution_unique [of ?d r' prev] r'(1,2) pin ei by (simp add: execution_inv_def)
    then have tgt: "target_of pc = ?t" using r'(3,4) p(3) rvin(2) by simp
    have val: "valid_execution (sha env) ?d prev pc vs"
      using ei pin p(3,4) unfolding execution_inv_def valid_execution_def by fastforce
    have "xc_created_at pc \<le> at" using p(5) by (auto simp: execution_blocking_def split: if_splits)
    note e = journal_ends_request [OF ei refl dd pin(1) val refl at [folded tgt] p(7) _ p(6) a this _ w'(1) w'(2,3)]
    have e: "execution_inv (sha env) ?d'" "worker_frame prev ?d ?d'"
      "db_reservations ?d' = released rv (db_reservations ?d)" using e by auto
    have "authority_inv (sha env) ?d'"
      using inv e(2) authority_inv_cong [of ?d' ?d] by (simp add: system_inv_def worker_frame_def)
    then show ?thesis
      using e p(1) find_reservation_modified [OF at e(3)] rv(1)
      by (simp add: system_inv_def worker_frame_def)
  qed
  then show "system_inv (sha env) ?d'" "db_executions ?d' = db_executions ?d"
    "db_proposals ?d' = db_proposals ?d" "db_decisions ?d' = db_decisions ?d"
    "case rvo of None \<Rightarrow> reservation_at ?d' ?t = None
     | Some rv \<Rightarrow> rv_resource_id rv = pc_resource_id c \<and>
         reservation_at ?d' ?t = Some (rv\<lparr>rv_execution_id := None\<rparr>)" by blast+
qed

section \<open>The admitted execution\<close>

text \<open>
  The new execution: one row, one journal entry of its own, and the free target now points to it.
\<close>

definition admission_step ::
    "string \<times> string \<Rightarrow> execution_row \<Rightarrow> db \<Rightarrow> db \<Rightarrow> bool" where
  "admission_step t r d d' =
     (db_executions d' = db_executions d @ [r] \<and> db_proposals d' = db_proposals d \<and>
      db_decisions d' = db_decisions d \<and> db_claims d' = db_claims d \<and> db_requests d' = db_requests d \<and>
      (\<exists>as. db_audits d' = db_audits d @ as) \<and>
      (\<forall>e. e \<noteq> ex_id r \<longrightarrow> event_rows_of d' e = event_rows_of d e) \<and>
      ex_id r \<notin> ex_id ` set (db_executions d) \<and>
      ex_proposal_id r \<notin> ex_proposal_id ` set (db_executions d) \<and>
      reservations_ok (db_reservations d') \<and> claims_ok (db_claims d') \<and>
      (case reservation_at d t of
         None \<Rightarrow> \<exists>x. db_reservations d' = db_reservations d @ [x] \<and>
           (rv_account_id x, rv_region x) = t \<and> rv_execution_id x = Some (ex_id r)
       | Some rv \<Rightarrow> rv_execution_id rv = None \<and>
           db_reservations d' = modify_rows rv_id (rv_id rv)
             (\<lambda>r'. r'\<lparr>rv_execution_id := Some (ex_id r)\<rparr>) (db_reservations d)))"

lemma find_set_reservation:
  "find_row (\<lambda>r. (rv_account_id r, rv_region r)) t
     (modify_rows rv_id k (\<lambda>r. r\<lparr>rv_execution_id := e\<rparr>) rows) =
   map_option (\<lambda>r. if rv_id r = k then r\<lparr>rv_execution_id := e\<rparr> else r)
     (find_row (\<lambda>r. (rv_account_id r, rv_region r)) t rows)"
  unfolding modify_rows_def by (rule find_row_map) simp

lemma occupied_after_admission:
  assumes "admission_step t r d d'" "reservations_ok (db_reservations d)"
    and "x \<in> set (db_reservations d')" "rv_execution_id x = Some e"
  shows "x \<in> set (db_reservations d) \<or> (e = ex_id r \<and> (rv_account_id x, rv_region x) = t)"
proof (cases "reservation_at d t")
  case None
  then show ?thesis using assms by (auto simp: admission_step_def)
next
  case (Some rv)
  then have rv: "rv \<in> set (db_reservations d)" "(rv_account_id rv, rv_region rv) = t"
    by (auto simp: reservation_at_def dest: find_row_Some)
  from assms(1) Some have "x \<in> set (modify_rows rv_id (rv_id rv)
      (\<lambda>r'. r'\<lparr>rv_execution_id := Some (ex_id r)\<rparr>) (db_reservations d))"
    using assms(3) by (simp add: admission_step_def)
  then obtain y where y: "y \<in> set (db_reservations d)"
    "x = (if rv_id y = rv_id rv then y\<lparr>rv_execution_id := Some (ex_id r)\<rparr> else y)"
    by (auto simp: in_modify_rows)
  then show ?thesis
    using reservation_same_id [OF assms(2) y(1) rv(1)] assms(4) rv(2) by (auto split: if_splits)
qed

lemma modify_occupied_length:
  assumes "distinct (map rv_id rows)"
  shows "length (filter (\<lambda>r. rv_execution_id r \<noteq> None) (modify_rows rv_id k
      (\<lambda>r'. r'\<lparr>rv_execution_id := Some e\<rparr>) rows)) \<le>
    Suc (length (filter (\<lambda>r. rv_execution_id r \<noteq> None) rows))"
  using assms
proof (induction rows)
  case Nil
  then show ?case by (simp add: modify_rows_def)
next
  case (Cons x rows)
  show ?case
  proof (cases "rv_id x = k")
    case True
    then have "k \<notin> rv_id ` set rows" using Cons.prems by auto
    then have "map (\<lambda>r'. if rv_id r' = k then r'\<lparr>rv_execution_id := Some e\<rparr> else r') rows = rows"
      by (intro map_idI) (auto simp: image_iff)
    with True show ?thesis by (simp add: modify_rows_def)
  next
    case False
    then show ?thesis using Cons by (simp add: modify_rows_def)
  qed
qed

lemma admission_step_inv:
  assumes inv: "system_inv h d" and st: "admission_step t r d d'"
    and new: "valid_execution h d' r c vs" "target_of c = t"
    and cap: "held_count d < admission_capacity"
  shows "system_inv h d'"
proof -
  have same: "db_proposals d' = db_proposals d" "db_decisions d' = db_decisions d"
    "db_executions d' = db_executions d @ [r]" using st by (auto simp: admission_step_def)
  have grows: "authority_grows d d'" by (simp add: authority_grows_def same)
  have dd: "distinct (map de_id (db_decisions d'))" using inv by (simp add: same system_inv_def authority_inv_def)
  have ok: "reservations_ok (db_reservations d)" and ei: "execution_inv h d"
    using inv by (auto simp: system_inv_def execution_inv_def)
  have others: "\<exists>c0 vs0. valid_execution h d' r0 c0 vs0" if r0: "r0 \<in> set (db_executions d)" for r0
  proof -
    from r0 ei obtain c0 vs0 where v0: "valid_execution h d r0 c0 vs0" by (auto simp: execution_inv_def)
    obtain as where as: "db_audits d' = db_audits d @ as" using st by (auto simp: admission_step_def)
    have ne: "ex_id r0 \<noteq> ex_id r" using st r0 unfolding admission_step_def by (metis imageI)
    have "valid_execution h d' r0 c0 vs0"
    proof (rule valid_execution_frame [OF v0 grows dd as])
      show "event_rows_of d' (ex_id r0) = event_rows_of d (ex_id r0)"
        "claim_of d' (ex_id r0) = claim_of d (ex_id r0)"
        using st ne by (auto simp: admission_step_def claim_of_def)
      fix x assume x: "reservation_at d (target_of c0) = Some x"
      show "\<exists>x'. reservation_at d' (target_of c0) = Some x' \<and> rv_resource_id x' = rv_resource_id x \<and>
          (rv_execution_id x' = Some (ex_id r0)) = (rv_execution_id x = Some (ex_id r0))"
      proof (cases "reservation_at d t")
        case None
        then obtain y where "db_reservations d' = db_reservations d @ [y]" using st by (auto simp: admission_step_def)
        then have "reservation_at d' (target_of c0) = Some x"
          using x by (simp add: reservation_at_def find_row_append)
        then show ?thesis by simp
      next
        case (Some rv)
        then have "db_reservations d' = modify_rows rv_id (rv_id rv)
            (\<lambda>r'. r'\<lparr>rv_execution_id := Some (ex_id r)\<rparr>) (db_reservations d)" "rv_execution_id rv = None"
          using st by (auto simp: admission_step_def)
        then have at': "reservation_at d' (target_of c0) =
            Some (if rv_id x = rv_id rv then x\<lparr>rv_execution_id := Some (ex_id r)\<rparr> else x)"
          using x by (simp add: reservation_at_def find_set_reservation)
        have "rv_id x = rv_id rv \<Longrightarrow> x = rv"
          using reservation_same_id [OF ok] x Some by (auto simp: reservation_at_def dest: find_row_Some)
        then show ?thesis using at' ne \<open>rv_execution_id rv = None\<close> by auto
      qed
    qed
    then show ?thesis by blast
  qed
  have cap': "held_count d' \<le> admission_capacity"
  proof (cases "reservation_at d t")
    case None
    then show ?thesis using cap st by (auto simp: admission_step_def held_count_def)
  next
    case (Some rv)
    then show ?thesis
      using cap st modify_occupied_length [of "db_reservations d" "rv_id rv" "ex_id r"] ok
      by (auto simp: admission_step_def held_count_def reservations_ok_def)
  qed
  have backed: "reservations_backed h d'"
    unfolding reservations_backed_def
  proof (intro ballI allI impI)
    fix x e assume x: "x \<in> set (db_reservations d')" "rv_execution_id x = Some e"
    show "\<exists>r\<in>set (db_executions d'). \<exists>c. ex_id r = e \<and> execution_content_of h d' r = Inr c \<and>
        target_of c = (rv_account_id x, rv_region x)"
    proof (cases "x \<in> set (db_reservations d)")
      case True
      then obtain r0 c0 where "r0 \<in> set (db_executions d)" "ex_id r0 = e"
        "execution_content_of h d r0 = Inr c0" "target_of c0 = (rv_account_id x, rv_region x)"
        using ei x(2) unfolding execution_inv_def reservations_backed_def by blast
      then show ?thesis using content_frame [OF _ grows dd] by (auto simp: same)
    next
      case False
      then have "e = ex_id r" "(rv_account_id x, rv_region x) = t"
        using occupied_after_admission [OF st ok x] by auto
      then show ?thesis using new by (auto simp: same valid_execution_def)
    qed
  qed
  have "\<forall>r0\<in>set (db_executions d'). \<exists>c0 vs0. valid_execution h d' r0 c0 vs0"
    using others new(1) by (auto simp: same)
  then have "execution_inv h d'"
    using ei st cap' backed by (auto simp: execution_inv_def same admission_step_def)
  moreover have "authority_inv h d'"
    using inv authority_inv_cong [OF same(1,2)] by (simp add: system_inv_def)
  ultimately show ?thesis by (simp add: system_inv_def)
qed

lemma journal_requested_Inr:
  assumes "journal env r a at EK_REQUESTED [] w = Inr (x, w')"
  obtains ev au where "wk_db w' = add_entry ev au (wk_db w)" "ee_execution_id ev = ex_id r"
proof -
  let ?e = "human_entry_for (fresh env (wk_ids w)) r [] a at EK_REQUESTED []"
  from assms have "write_entry env r (HumanEntry ?e) (HumanEventDoc ?e) (w\<lparr>wk_ids := Suc (wk_ids w)\<rparr>) = Inr (x, w')"
    by (auto simp: journal_def bnd_Inr_iff Let_def)
  from write_entry_Inr [OF this] obtain au ev where
    "ev = event_row_for r (HumanEntry ?e) (HumanEventDoc ?e) (sha env (HumanEventDoc ?e)) au"
    "wk_db w' = add_entry ev au (wk_db (w\<lparr>wk_ids := Suc (wk_ids w)\<rparr>))" by metis
  then show thesis using that [of ev au] by (simp add: event_row_for_def)
qed

lemma execution_view_Inr:
  assumes "execution_view_of env r w = Inr (v, w')"
  obtains c vs where "valid_execution (sha env) (wk_db w) r c vs" "xv_content v = c" "xv_events v = vs"
    "xv_phase v = last_phase vs" "xv_held v = held_phase (last_phase vs)"
  using assms
  by (auto simp: execution_view_of_def bnd_Inr_iff Let_def valid_execution_def reservation_of_at target_of_def
      split: option.split_asm)

lemma make_execution_content_target:
  assumes "make_execution_content c = Some x"
  shows "pc_account_id (xc_proposal x) = pc_account_id (xc_proposal c)"
    "pc_region (xc_proposal x) = pc_region (xc_proposal c)" "xc_execution_id x = xc_execution_id c"
    "xc_requested_by x = xc_requested_by c" "xc_created_at x = xc_created_at c"
    "xc_expires_at x = xc_expires_at c" "xc_idempotency_key x = xc_idempotency_key c"
  using assms
  by (auto simp: make_execution_content_def make_proposal_content_def
      split: option.split_asm if_split_asm)

lemma admit_new_inv:
  assumes run: "admit_new env pid a at digest rvo c x w = Inr (res, w')"
    and inv: "system_inv (sha env) (wk_db w)" and cap: "held_count (wk_db w) < admission_capacity"
    and tgt: "target_of x = (pc_account_id c, pc_region c)"
    and rvo: "case rvo of None \<Rightarrow> reservation_at (wk_db w) (pc_account_id c, pc_region c) = None
     | Some rv \<Rightarrow> reservation_at (wk_db w) (pc_account_id c, pc_region c) = Some (rv\<lparr>rv_execution_id := None\<rparr>)"
  shows "system_inv (sha env) (wk_db w')"
proof -
  let ?row = "execution_row_for env x pid a digest" and ?t = "(pc_account_id c, pc_region c)" and ?d = "wk_db w"
  from run obtain w1 w2 w3 u u' u'' where
    ins: "insert_execution ?row w = Inr (u, w1)" and jr: "journal env ?row a at EK_REQUESTED [] w1 = Inr (u', w2)"
    and rs: "reserve_target env rvo c (ex_id ?row) w2 = Inr (u'', w3)"
    and vw: "execution_view_of env ?row w3 = Inr (fst res, w')"
    by (auto simp: admit_new_def Let_def bnd_Inr_iff)
  have d1: "wk_db w1 = ?d\<lparr>db_executions := db_executions ?d @ [?row]\<rparr>"
    "ex_id ?row \<notin> ex_id ` set (db_executions ?d)"
    "ex_proposal_id ?row \<notin> ex_proposal_id ` set (db_executions ?d)"
    using ins by (auto simp: insert_execution_def bnd_Inr_iff new_key_def)
  obtain ev au where d2: "wk_db w2 = add_entry ev au (wk_db w1)" "ee_execution_id ev = ex_id ?row"
    by (rule journal_requested_Inr [OF jr])
  have d3: "reservations_ok (db_reservations (wk_db w3))" "claims_ok (db_claims (wk_db w3))"
    "\<exists>rows. wk_db w3 = (wk_db w2)\<lparr>db_reservations := rows\<rparr>"
    "case rvo of None \<Rightarrow> \<exists>y. db_reservations (wk_db w3) = db_reservations ?d @ [y] \<and>
           (rv_account_id y, rv_region y) = ?t \<and> rv_execution_id y = Some (ex_id ?row)
     | Some rv \<Rightarrow> db_reservations (wk_db w3) = modify_rows rv_id (rv_id rv)
             (\<lambda>r'. r'\<lparr>rv_execution_id := Some (ex_id ?row)\<rparr>) (db_reservations ?d)"
    using rs by (auto simp: reserve_target_def bnd_Inr_iff set_reservation_def flush_def d2(1) d1(1)
        split: option.splits)
  have w': "wk_db w' = wk_db w3" by (rule execution_view_reads [OF vw])
  have step: "admission_step ?t ?row ?d (wk_db w')"
  proof -
    from d3(3) obtain rows where rows: "wk_db w3 = (wk_db w2)\<lparr>db_reservations := rows\<rparr>" by blast
    have "event_rows_of (wk_db w3) e = event_rows_of ?d e" if "e \<noteq> ex_id ?row" for e
      using that d2(2) by (simp add: rows d2(1) d1(1) event_rows_of_def)
    moreover have "case reservation_at ?d ?t of
         None \<Rightarrow> \<exists>y. db_reservations (wk_db w3) = db_reservations ?d @ [y] \<and>
           (rv_account_id y, rv_region y) = ?t \<and> rv_execution_id y = Some (ex_id ?row)
       | Some rv \<Rightarrow> rv_execution_id rv = None \<and>
           db_reservations (wk_db w3) = modify_rows rv_id (rv_id rv)
             (\<lambda>r'. r'\<lparr>rv_execution_id := Some (ex_id ?row)\<rparr>) (db_reservations ?d)"
      using rvo d3(4) by (cases rvo) auto
    ultimately show ?thesis
      using d1(2,3) d3(1,2)
      by (cases "reservation_at ?d ?t") (simp_all add: admission_step_def w' rows d2(1) d1(1))
  qed
  obtain c' vs where val: "valid_execution (sha env) (wk_db w3) ?row c' vs"
    by (rule execution_view_Inr [OF vw])
  then have "validate_execution_doc (ex_content ?row) = Some c'"
    by (auto simp: valid_execution_def execution_content_Inr_iff)
  then have "make_execution_content x = Some c'" by (simp add: execution_row_for_def)
  then have "target_of c' = ?t" using make_execution_content_target(1,2) tgt by (simp add: target_of_def)
  then show ?thesis using admission_step_inv [OF inv step _ _ cap] val w' by simp
qed

lemma admit_body_inv:
  assumes run: "admit_body env s pid q a key digest w = Inr (res, w')" and a: "ac_capability a = CAP_EXECUTE"
    and inv: "system_inv (sha env) (wk_db w)"
  shows "system_inv (sha env) (wk_db w')"
proof -
  from run obtain prev w1 where rep: "replay_execution env a key digest w = Inr (prev, w1)"
    by (auto simp: admit_body_def bnd_Inr_iff)
  have db1: "wk_db w1 = wk_db w" by (rule replay_execution_reads [OF rep])
  show ?thesis
  proof (cases prev)
    case (Some r)
    then show ?thesis using run rep db1 inv by (auto simp: admit_body_def bnd_Inr_iff)
  next
    case None
    with run rep obtain at0 at u w2 w3 p v w4 ap u' w5 where
      reap: "reap_expired env a at0 (w1\<lparr>wk_ticks := Suc (wk_ticks w1)\<rparr>) = Inr (u, w2)"
      and view: "view_of env p w2 = Inr (v, w3)"
      and auth: "check_authority env s q a p v at (w3\<lparr>wk_ticks := Suc (wk_ticks w3)\<rparr>) = Inr (ap, w4)"
      and rel: "release_target env a at (pv_content v)
         (reservation_of (wk_db w2) (pc_account_id (pv_content v)) (pc_region (pv_content v))) w4 = Inr (u', w5)"
      and cap: "held_count (wk_db w5) < admission_capacity"
      and new: "(case make_execution_content (new_execution env (fresh env (wk_ids w5)) (pv_content v)
            (rp_sha p) ap a key (bq_reason q) at) of
           None \<Rightarrow> raise (ValueErr ''ExecutionContent'')
         | Some x \<Rightarrow> admit_new env pid a at digest
            (reservation_of (wk_db w2) (pc_account_id (pv_content v)) (pc_region (pv_content v)))
            (pv_content v) x) (w5\<lparr>wk_ids := Suc (wk_ids w5)\<rparr>) = Inr (res, w')"
      by (auto simp: admit_body_def bnd_Inr_iff Let_def)
    let ?c = "pv_content v"
    have inv2: "system_inv (sha env) (wk_db w2)"
      using reap_expired_inv [OF reap a] inv db1 by (simp add: reaping_def)
    have db4: "wk_db w4 = wk_db w2"
      using auth view_of_reads [OF view]
      by (auto simp: check_authority_def bnd_Inr_iff split: list.split_asm)
    note rt = release_target_inv [OF rel a, unfolded db4, OF inv2 reservation_of_at]
    obtain x where x: "make_execution_content (new_execution env (fresh env (wk_ids w5)) ?c
            (rp_sha p) ap a key (bq_reason q) at) = Some x" using new by (auto split: option.splits)
    have tgt: "target_of x = (pc_account_id ?c, pc_region ?c)"
      using make_execution_content_target(1,2) [OF x] by (simp add: target_of_def new_execution_def)
    show ?thesis
    proof (rule admit_new_inv)
      show "admit_new env pid a at digest (reservation_of (wk_db w2) (pc_account_id ?c) (pc_region ?c)) ?c x
         (w5\<lparr>wk_ids := Suc (wk_ids w5)\<rparr>) = Inr (res, w')" using new x by simp
      show "target_of x = (pc_account_id ?c, pc_region ?c)" by (rule tgt)
      show "case reservation_of (wk_db w2) (pc_account_id ?c) (pc_region ?c) of
          None \<Rightarrow> reservation_at (wk_db (w5\<lparr>wk_ids := Suc (wk_ids w5)\<rparr>)) (pc_account_id ?c, pc_region ?c) = None
        | Some rv \<Rightarrow> reservation_at (wk_db (w5\<lparr>wk_ids := Suc (wk_ids w5)\<rparr>)) (pc_account_id ?c, pc_region ?c) =
            Some (rv\<lparr>rv_execution_id := None\<rparr>)"
        using rt(5) by (auto split: option.splits)
    qed (use rt(1) cap in simp_all)
  qed
qed

lemma admit_inv:
  assumes "admit env s pid q p key d = (res, d')" "system_inv (sha env) d"
  shows "system_inv (sha env) d'"
proof (cases "d' = d")
  case False
  then obtain q' a x where "actor_of p CAP_EXECUTE = Inr a"
    "transact (admit_body env s pid q' a key (sha env (BindRequestDoc pid q'))) d = (Inr x, d')"
    using assms(1) commit_or_conflict_Inl [of _ d]
    by (cases res) (auto simp: admit_def split: if_splits option.splits sum.splits)
  moreover from this(1) have "ac_capability a = CAP_EXECUTE" by (auto simp: actor_of_def split: if_splits)
  ultimately show ?thesis
    using admit_body_inv [of env s pid q' a key _ "initial_work d"] assms(2)
    by (cases x) (auto simp: transact_Inr initial_work_def)
qed (use assms in simp)

end
