(* ===== verification/Authority_Invariant.thy ===== *)
theory Authority_Invariant
  imports Admission_Invariant
begin

text \<open>
  Proposals, decisions and revocations preserve the invariant of the remediation database;
  the three services and the rest of the application as one event system.
\<close>

section \<open>The frame of an authority mutation\<close>

definition authority_step :: "db \<Rightarrow> db \<Rightarrow> bool" where
  "authority_step d d' =
     (authority_grows d d' \<and> (\<exists>as. db_audits d' = db_audits d @ as) \<and>
      db_executions d' = db_executions d \<and> db_events d' = db_events d \<and>
      db_reservations d' = db_reservations d \<and> db_claims d' = db_claims d)"

lemma authority_step_execution_inv:
  assumes "execution_inv h d" "authority_step d d'" "distinct (map de_id (db_decisions d'))"
  shows "execution_inv h d'"
proof -
  from assms(2) obtain as where g: "authority_grows d d'" "db_audits d' = db_audits d @ as"
    and same: "db_executions d' = db_executions d" "db_events d' = db_events d"
      "db_reservations d' = db_reservations d" "db_claims d' = db_claims d"
    by (auto simp: authority_step_def)
  have val: "valid_execution h d' r c vs" if "valid_execution h d r c vs" for r c vs
    using that
    by (rule valid_execution_frame [OF _ g(1) assms(3) g(2)])
      (simp_all add: event_rows_of_def claim_of_def reservation_at_def same)
  have "reservations_backed h d'"
    using assms(1) content_frame [OF _ g(1) assms(3)]
    unfolding execution_inv_def reservations_backed_def same by blast
  then show ?thesis
    using assms(1) val unfolding execution_inv_def same held_count_def by blast
qed

text \<open>The authority tables after one new proposal, one new decision.\<close>

lemma authority_inv_proposal:
  assumes "authority_inv h d" "db_proposals d' = db_proposals d @ [p]" "db_decisions d' = db_decisions d"
    and "new_key rp_id (rp_id p) (db_proposals d)" "proposal_content_of h p = Inr c"
  shows "authority_inv h d'"
proof -
  have "decision_separated h d' r" if "r \<in> set (db_decisions d)" for r
    using assms(1) that unfolding authority_inv_def decision_separated_def assms(2)
    by (meson find_row_append_Some)
  then show ?thesis
    using assms by (auto simp: authority_inv_def new_key_def)
qed

lemma authority_inv_decision:
  assumes "authority_inv h d" "db_proposals d' = db_proposals d" "db_decisions d' = db_decisions d @ [r]"
    and "new_key de_id (de_id r) (db_decisions d)" "decision_slot_free r (db_decisions d)"
    and "decision_separated h d r"
  shows "authority_inv h d'"
proof -
  have "decision_separated h d' q = decision_separated h d q" for q
    by (simp add: decision_separated_def assms(2))
  moreover have "(de_proposal_id r, initial_decision r) \<notin>
      (\<lambda>q. (de_proposal_id q, initial_decision q)) ` set (db_decisions d)"
    using assms(5) by (auto simp: decision_slot_free_def)
  ultimately show ?thesis
    using assms by (auto simp: authority_inv_def new_key_def)
qed

section \<open>What the callbacks write\<close>

lemma audit_remediation_Inr:
  assumes "audit_remediation env ty p a at dec w = Inr (u, w')"
  shows "\<exists>au. wk_db w' = (wk_db w)\<lparr>db_audits := db_audits (wk_db w) @ [au]\<rparr>"
  using assms
  by (auto simp: audit_remediation_def append_audit_event_def insert_audit_def bnd_Inr_iff Let_def)

lemma insert_decision_Inr:
  assumes "insert_decision r w = Inr (u, w')"
  shows "wk_db w' = (wk_db w)\<lparr>db_decisions := db_decisions (wk_db w) @ [r]\<rparr>"
    "new_key de_id (de_id r) (db_decisions (wk_db w))" "decision_slot_free r (db_decisions (wk_db w))"
  using assms by (auto simp: insert_decision_def bnd_Inr_iff)

lemma write_decision_Inr:
  assumes "write_decision env p a kind reason at ap w = Inr (row, w')"
  obtains au where
    "wk_db w' = (wk_db w)\<lparr>db_decisions := db_decisions (wk_db w) @ [row],
       db_audits := db_audits (wk_db w) @ [au]\<rparr>"
    "new_key de_id (de_id row) (db_decisions (wk_db w))" "decision_slot_free row (db_decisions (wk_db w))"
    "de_proposal_id row = rp_id p" "de_kind row = kind" "de_proposal_sha row = rp_sha p"
    "de_actor_issuer row = ac_issuer a" "de_actor_subject row = ac_subject a" "de_created_at row = at"
    "de_approval_id row = ap"
proof -
  let ?row = "\<lparr>de_id = fresh env (wk_ids w), de_proposal_id = rp_id p, de_kind = kind, de_proposal_sha = rp_sha p,
                de_approval_id = ap, de_actor_issuer = ac_issuer a,
                de_actor_subject = ac_subject a, de_actor_roles = ac_roles a,
                de_reason = reason, de_created_at = at\<rparr>"
  from assms obtain w1 u u' where
    ins: "insert_decision ?row (w\<lparr>wk_ids := Suc (wk_ids w)\<rparr>) = Inr (u', w1)" and
    au: "audit_remediation env (AT_REMEDIATION_DECISION kind) p a at (Some ?row) w1 = Inr (u, w')" and
    row: "row = ?row"
    by (auto simp: write_decision_def bnd_Inr_iff Let_def)
  note w1 = insert_decision_Inr [OF ins]
  obtain au where "wk_db w' = (wk_db w1)\<lparr>db_audits := db_audits (wk_db w1) @ [au]\<rparr>"
    using audit_remediation_Inr [OF au] by blast
  then show thesis using that [of au] w1 by (simp add: row)
qed

lemma record_request_Inr:
  assumes "record_request env a op key digest p dec w = Inr (res, w')"
  obtains rq where "wk_db w' = (wk_db w)\<lparr>db_requests := db_requests (wk_db w) @ [rq]\<rparr>"
    "case dec of None \<Rightarrow> \<exists>c. proposal_content_of (sha env) p = Inr c
     | Some r \<Rightarrow> \<exists>v. decision_view_of r = Inr v"
proof -
  have pv: "wk_db w3 = wk_db w2 \<and> (\<exists>c. proposal_content_of (sha env) p = Inr c)"
    if "view_of env p w2 = Inr (v, w3)" for v w2 w3
    using that by (auto simp: view_of_def bnd_Inr_iff Let_def)
  from assms show thesis
    using that pv
    by (cases dec) (fastforce simp: record_request_def insert_request_def bnd_Inr_iff)+
qed

definition writes_proposal :: "(document \<Rightarrow> digest) \<Rightarrow> db \<Rightarrow> db \<Rightarrow> proposal_row \<Rightarrow> bool" where
  "writes_proposal h d d' p =
     (\<exists>au. d' = d\<lparr>db_proposals := db_proposals d @ [p], db_audits := db_audits d @ [au]\<rparr> \<and>
        new_key rp_id (rp_id p) (db_proposals d))"

lemma insert_proposal_Inr:
  assumes "insert_proposal r w = Inr (u, w')"
  shows "wk_db w' = (wk_db w)\<lparr>db_proposals := db_proposals (wk_db w) @ [r]\<rparr>"
    "new_key rp_id (rp_id r) (db_proposals (wk_db w))"
  using assms by (auto simp: insert_proposal_def bnd_Inr_iff)

text \<open>The outcome of a callback whose ledger look-up is the replay of the same request.\<close>

definition written_effect :: "(document \<Rightarrow> digest) \<Rightarrow> db \<Rightarrow> db \<Rightarrow> written \<Rightarrow> bool" where
  "written_effect h d d' out =
     (case out of
        Replayed r \<Rightarrow> d' = d
      | Wrote p None \<Rightarrow> writes_proposal h d d' p
      | Wrote p (Some r) \<Rightarrow>
          (\<exists>au. d' = d\<lparr>db_decisions := db_decisions d @ [r], db_audits := db_audits d @ [au]\<rparr>) \<and>
          new_key de_id (de_id r) (db_decisions d) \<and> decision_slot_free r (db_decisions d) \<and>
          (\<forall>v. decision_view_of r = Inr v \<longrightarrow> decision_separated h d r))"

definition callback_effect ::
    "env \<Rightarrow> (actor_context \<Rightarrow> mutation_result option act \<Rightarrow> written act) \<Rightarrow> bool" where
  "callback_effect env wr =
     (\<forall>a rep w out w'. system_inv (sha env) (wk_db w) \<longrightarrow>
        (\<forall>v x x'. rep x = Inr (v, x') \<longrightarrow> wk_db x' = wk_db x) \<longrightarrow> wr a rep w = Inr (out, w') \<longrightarrow>
        written_effect (sha env) (wk_db w) (wk_db w') out)"

lemma mutate_body_inv:
  assumes run: "mutate_body env op key digest a wr w = Inr (res, w')"
    and eff: "callback_effect env wr" and inv: "system_inv (sha env) (wk_db w)"
  shows "system_inv (sha env) (wk_db w')"
proof -
  from run obtain prev w1 where rep: "replay env a op key digest w = Inr (prev, w1)"
    by (auto simp: mutate_body_def bnd_Inr_iff)
  have db1: "wk_db w1 = wk_db w" by (rule replay_reads [OF rep])
  show ?thesis
  proof (cases prev)
    case (Some r)
    then show ?thesis using run rep db1 inv by (auto simp: mutate_body_def bnd_Inr_iff)
  next
    case None
    with run rep obtain out w2 where out: "wr a (replay env a op key digest) w1 = Inr (out, w2)"
      and rest: "(case out of Replayed r \<Rightarrow> ret r
         | Wrote p dec \<Rightarrow> record_request env a op key digest p dec) w2 = Inr (res, w')"
      by (auto simp: mutate_body_def bnd_Inr_iff)
    have "\<forall>v x x'. replay env a op key digest x = Inr (v, x') \<longrightarrow> wk_db x' = wk_db x"
      using replay_reads by blast
    then have e: "written_effect (sha env) (wk_db w) (wk_db w2) out"
      using eff [unfolded callback_effect_def, rule_format, OF _ _ out] inv db1 by simp
    have ai: "authority_inv (sha env) (wk_db w)" and ei: "execution_inv (sha env) (wk_db w)"
      using inv by (auto simp: system_inv_def)
    show ?thesis
    proof (cases out)
      case (Replayed r)
      then show ?thesis using rest e inv by (simp add: written_effect_def)
    next
      case (Wrote p dec)
      with rest have rr: "record_request env a op key digest p dec w2 = Inr (res, w')" by simp
      obtain rq where rq: "wk_db w' = (wk_db w2)\<lparr>db_requests := db_requests (wk_db w2) @ [rq]\<rparr>"
        "case dec of None \<Rightarrow> \<exists>c. proposal_content_of (sha env) p = Inr c
         | Some r \<Rightarrow> \<exists>v. decision_view_of r = Inr v"
        by (rule record_request_Inr [OF rr])
      have "authority_inv (sha env) (wk_db w') \<and> authority_step (wk_db w) (wk_db w')"
      proof (cases dec)
        case None
        then obtain au c where p: "wk_db w2 = (wk_db w)\<lparr>db_proposals := db_proposals (wk_db w) @ [p],
            db_audits := db_audits (wk_db w) @ [au]\<rparr>" "new_key rp_id (rp_id p) (db_proposals (wk_db w))"
          "proposal_content_of (sha env) p = Inr c"
          using e rq(2) Wrote by (auto simp: written_effect_def writes_proposal_def)
        have "authority_inv (sha env) (wk_db w')"
          by (rule authority_inv_proposal [OF ai _ _ p(2,3)]) (simp_all add: rq(1) p(1))
        then show ?thesis by (simp add: rq(1) p(1) authority_step_def authority_grows_def)
      next
        case (Some r)
        then obtain au where r: "wk_db w2 = (wk_db w)\<lparr>db_decisions := db_decisions (wk_db w) @ [r],
                db_audits := db_audits (wk_db w) @ [au]\<rparr>"
          "new_key de_id (de_id r) (db_decisions (wk_db w))" "decision_slot_free r (db_decisions (wk_db w))"
          "decision_separated (sha env) (wk_db w) r"
          using e rq(2) Wrote by (auto simp: written_effect_def)
        have "authority_inv (sha env) (wk_db w')"
          by (rule authority_inv_decision [OF ai _ _ r(2-4)]) (simp_all add: rq(1) r(1))
        then show ?thesis by (simp add: rq(1) r(1) authority_step_def authority_grows_def)
      qed
      then show ?thesis
        using authority_step_execution_inv [OF ei] by (simp add: system_inv_def authority_inv_def)
    qed
  qed
qed

lemma mutate_inv:
  assumes run: "mutate env op key doc p c wr d = (res, d')" and eff: "callback_effect env wr"
    and inv: "system_inv (sha env) d"
  shows "system_inv (sha env) d'"
proof (cases "d' = d")
  case False
  have rep: "d1 = d" if "transact (replay env a op key (sha env doc)) d = (r, d1)" for a r d1
    using that replay_reads [of env a op key "sha env doc" "initial_work d"]
    by (cases r) (auto simp: transact_Inr initial_work_def dest: transact_Inl)
  obtain a x where "transact (mutate_body env op key (sha env doc) a wr) d = (Inr x, d')"
    using run False transact_Inl [of _ d] rep
    by (auto simp: mutate_def split: sum.splits if_splits prod.splits failure.splits option.splits)
  then show ?thesis
    using mutate_body_inv [OF _ eff, of op key "sha env doc" a "initial_work d"] inv
    by (cases x) (auto simp: transact_Inr initial_work_def)
qed (use inv in simp)

section \<open>The three callbacks\<close>

lemma propose_new_Inr:
  assumes "propose_new env q a d f oc bl w = Inr (out, w')"
  obtains row c at where "out = Wrote row None" "row = proposal_row_for env c oc a"
    "blocking_of env d c at = Inr []" "writes_proposal (sha env) (wk_db w) (wk_db w') row"
    "tick env (wk_ticks w) = Aware at" "pc_created_at c = at" "pc_proposer c = a"
proof -
  from assms obtain at region c where
    c: "make_proposal_content (new_content (fresh env (wk_ids w)) f region bl
          (fst (governance_state env d f at)) a (pq_reason q) at) = Some c"
    and b: "blocking_of env d c at = Inr []" and t: "tick env (wk_ticks w) = Aware at"
    and rest: "(let row = proposal_row_for env c oc a in
         bnd (insert_proposal row) (\<lambda>_.
         bnd (audit_remediation env AT_REMEDIATION_PROPOSED row a at None) (\<lambda>_.
         ret (Wrote row None)))) (w\<lparr>wk_ticks := Suc (wk_ticks w), wk_ids := Suc (wk_ids w)\<rparr>) = Inr (out, w')"
    by (auto simp: propose_new_def bnd_Inr_iff Let_def bind_eq_Some_conv split: option.split_asm)
  let ?row = "proposal_row_for env c oc a"
  from rest obtain u w3 u' where
    ins: "insert_proposal ?row (w\<lparr>wk_ticks := Suc (wk_ticks w), wk_ids := Suc (wk_ids w)\<rparr>) = Inr (u, w3)"
    and au: "audit_remediation env AT_REMEDIATION_PROPOSED ?row a at None w3 = Inr (u', w')"
    and out: "out = Wrote ?row None"
    by (auto simp: bnd_Inr_iff Let_def)
  obtain x where "wk_db w' = (wk_db w3)\<lparr>db_audits := db_audits (wk_db w3) @ [x]\<rparr>"
    using audit_remediation_Inr [OF au] by blast
  then have "writes_proposal (sha env) (wk_db w) (wk_db w') ?row"
    using insert_proposal_Inr [OF ins] by (auto simp: writes_proposal_def)
  moreover have "pc_created_at c = at" "pc_proposer c = a"
    using c by (auto simp: make_proposal_content_def new_content_def split: if_split_asm)
  ultimately show thesis using that out b t by blast
qed

lemma propose_callback: "callback_effect env (propose_write env q)"
  unfolding callback_effect_def
proof (intro allI impI)
  fix a rep w out w'
  assume rep: "\<forall>v x x'. rep x = Inr (v, x') \<longrightarrow> wk_db x' = wk_db x"
    and run: "propose_write env q a rep w = Inr (out, w')"
  from run obtain f prev w1 where f: "finding_of (wk_db w) (pq_finding_id q) = Inr f"
    and r: "rep w = Inr (prev, w1)" by (auto simp: propose_write_def bnd_Inr_iff)
  have db1: "wk_db w1 = wk_db w" using rep r by blast
  show "written_effect (sha env) (wk_db w) (wk_db w') out"
  proof (cases prev)
    case (Some x)
    then show ?thesis using run f r db1 by (auto simp: propose_write_def bnd_Inr_iff written_effect_def)
  next
    case None
    with run f r obtain oc bl where "propose_new env q a (wk_db w) f oc bl w1 = Inr (out, w')"
      by (auto simp: propose_write_def bnd_Inr_iff split: option.split_asm)
    then obtain row where "out = Wrote row None" "writes_proposal (sha env) (wk_db w1) (wk_db w') row"
      by (rule propose_new_Inr)
    then show ?thesis by (simp add: written_effect_def db1)
  qed
qed

lemma proposal_of_Inr: "proposal_of d pid lock = Inr p \<Longrightarrow> find_row rp_id pid (db_proposals d) = Some p"
  by (auto simp: proposal_of_def res_bind_Inr_iff split: option.splits if_splits)

lemma decide_callback: "dq_decision q \<in> {DK_APPROVE, DK_REJECT} \<Longrightarrow> callback_effect env (decide_write env pid q)"
  unfolding callback_effect_def
proof (intro allI impI)
  fix a rep w out w'
  assume rep: "\<forall>v x x'. rep x = Inr (v, x') \<longrightarrow> wk_db x' = wk_db x"
    and run: "decide_write env pid q a rep w = Inr (out, w')"
  from run obtain p prev w1 where p: "proposal_of (wk_db w) pid True = Inr p" and r: "rep w = Inr (prev, w1)"
    by (auto simp: decide_write_def bnd_Inr_iff)
  have db1: "wk_db w1 = wk_db w" using rep r by blast
  note row = proposal_of_Inr [OF p]
  show "written_effect (sha env) (wk_db w) (wk_db w') out"
  proof (cases prev)
    case (Some x)
    then show ?thesis using run p r db1 by (auto simp: decide_write_def bnd_Inr_iff written_effect_def)
  next
    case None
    let ?w2 = "w1\<lparr>wk_ticks := Suc (wk_ticks w1)\<rparr>"
    from None run p r obtain c at dec where c: "proposal_content_of (sha env) p = Inr c"
      and sep: "actor_key a \<noteq> actor_key (pc_proposer c)" and at: "pc_created_at c \<le> at"
      and out: "out = Wrote p (Some dec)"
      and wd: "write_decision env p a (dq_decision q) (dq_reason q) at None ?w2 = Inr (dec, w')"
      by (auto simp: decide_write_def bnd_Inr_iff split: if_split_asm)
    obtain au where d: "wk_db w' = (wk_db ?w2)\<lparr>db_decisions := db_decisions (wk_db ?w2) @ [dec],
       db_audits := db_audits (wk_db ?w2) @ [au]\<rparr>"
      "new_key de_id (de_id dec) (db_decisions (wk_db ?w2))" "decision_slot_free dec (db_decisions (wk_db ?w2))"
      "de_proposal_id dec = rp_id p" "de_proposal_sha dec = rp_sha p"
      "de_actor_issuer dec = ac_issuer a" "de_actor_subject dec = ac_subject a" "de_created_at dec = at"
      by (rule write_decision_Inr [OF wd])
    have "find_row rp_id (rp_id p) (db_proposals (wk_db w)) = Some p"
      using row find_row_Some by fastforce
    then have "decision_view_of dec = Inr v \<Longrightarrow> decision_separated (sha env) (wk_db w) dec" for v
      using c sep at d(4-8) by (auto simp: decision_separated_def actor_key_def)
    then show ?thesis using d(1-3) db1 out by (auto simp: written_effect_def)
  qed
qed

lemma revoke_callback: "callback_effect env (revoke_write env pid q)"
  unfolding callback_effect_def
proof (intro allI impI)
  fix a rep w out w'
  assume inv: "system_inv (sha env) (wk_db w)" and rep: "\<forall>v x x'. rep x = Inr (v, x') \<longrightarrow> wk_db x' = wk_db x"
    and run: "revoke_write env pid q a rep w = Inr (out, w')"
  from run obtain p prev w1 where p: "proposal_of (wk_db w) pid True = Inr p" and r: "rep w = Inr (prev, w1)"
    by (auto simp: revoke_write_def bnd_Inr_iff)
  have db1: "wk_db w1 = wk_db w" using rep r by blast
  note row = proposal_of_Inr [OF p]
  show "written_effect (sha env) (wk_db w) (wk_db w') out"
  proof (cases prev)
    case (Some x)
    then show ?thesis using run p r db1 by (auto simp: revoke_write_def bnd_Inr_iff written_effect_def)
  next
    case None
    let ?w2 = "w1\<lparr>wk_ticks := Suc (wk_ticks w1)\<rparr>"
    from None run p r obtain c ap at dec where c: "proposal_content_of (sha env) p = Inr c"
      and ap: "decisions_of (wk_db w) pid = [ap]" "de_created_at ap \<le> at"
      and out: "out = Wrote p (Some dec)"
      and wd: "write_decision env p a DK_REVOKE (bq_reason q) at (Some (de_id ap)) ?w2 = Inr (dec, w')"
      by (auto simp: revoke_write_def bnd_Inr_iff split: list.split_asm)
    obtain au where d: "wk_db w' = (wk_db ?w2)\<lparr>db_decisions := db_decisions (wk_db ?w2) @ [dec],
       db_audits := db_audits (wk_db ?w2) @ [au]\<rparr>"
      "new_key de_id (de_id dec) (db_decisions (wk_db ?w2))" "decision_slot_free dec (db_decisions (wk_db ?w2))"
      "de_proposal_id dec = rp_id p" "de_kind dec = DK_REVOKE" "de_proposal_sha dec = rp_sha p"
      "de_created_at dec = at"
      by (rule write_decision_Inr [OF wd])
    have pk: "find_row rp_id (rp_id p) (db_proposals (wk_db w)) = Some p" "rp_id p = pid"
      using row find_row_Some by fastforce+
    have "ap \<in> set (decisions_of (wk_db w) pid)" using ap(1) by simp
    then have "ap \<in> set (db_decisions (wk_db w))" "de_proposal_id ap = pid" by (auto simp: decisions_of_def)
    then have "pc_created_at c \<le> de_created_at ap"
      using inv c row unfolding system_inv_def authority_inv_def decision_separated_def by fastforce
    then have "decision_view_of dec = Inr v \<Longrightarrow> decision_separated (sha env) (wk_db w) dec" for v
      using c pk ap(2) d(4-7) by (auto simp: decision_separated_def initial_decision_def)
    then show ?thesis using d(1-3) db1 out by (auto simp: written_effect_def)
  qed
qed

lemma propose_inv: "propose env q p key d = (res, d') \<Longrightarrow> system_inv (sha env) d \<Longrightarrow> system_inv (sha env) d'"
  using mutate_inv [OF _ propose_callback] by (auto simp: propose_def split: option.splits)

lemma decide_inv: "decide env pid q p key d = (res, d') \<Longrightarrow> system_inv (sha env) d \<Longrightarrow> system_inv (sha env) d'"
  using mutate_inv [OF _ decide_callback]
  by (auto simp: decide_def validate_decision_request_def split: option.splits if_splits)

lemma revoke_inv: "revoke env pid q p key d = (res, d') \<Longrightarrow> system_inv (sha env) d \<Longrightarrow> system_inv (sha env) d'"
  using mutate_inv [OF _ revoke_callback] by (auto simp: revoke_def split: option.splits)

end
