(* ===== verification/Scenario.thy ===== *)
theory Scenario
  imports Authority_Invariant
begin

text \<open>
  One complete run on concrete data: a regional finding, a proposal by an analyst, an approval
  by a second human, the admission by a third, and the worker's claim, read, intent and
  acknowledgment. The witnesses of the reachability properties are its states.
\<close>

section \<open>The accepted history\<close>

definition dig :: "char \<Rightarrow> digest" where
  "dig c = replicate 64 c"

abbreviation hex64 :: digest where
  "hex64 \<equiv> dig (CHR ''a'')"

lemma length_dig [simp]: "length (dig c) = 64"
  by (simp add: dig_def)

lemma sha256_dig [simp]: "sha256_pattern (dig c) = is_hex c"
  by (simp add: sha256_pattern_def dig_def list_all_iff)

lemma dig_eq_iff [simp]: "dig c = dig c' \<longleftrightarrow> c = c'"
  by (simp add: dig_def)

text \<open>A stand-in for the digest: one hexadecimal digit per shape, and per name of an identity.\<close>

definition demo_sha :: "document \<Rightarrow> digest" where
  "demo_sha doc = dig
     (case doc of
        IdentityDoc i s \<Rightarrow> hd s
      | ProposalDoc c \<Rightarrow> CHR ''d''
      | DecisionDoc v \<Rightarrow> CHR ''e''
      | ExecutionDoc c \<Rightarrow> CHR ''f''
      | HumanEventDoc e \<Rightarrow> CHR ''0''
      | WorkerEventDoc e \<Rightarrow> CHR ''1''
      | TokenDoc t \<Rightarrow> CHR ''2''
      | WorkerActorDoc r \<Rightarrow> CHR ''3''
      | GovernanceDoc st xs ys \<Rightarrow> CHR ''4''
      | ProposeRequestDoc q \<Rightarrow> CHR ''5''
      | DecideRequestDoc u q \<Rightarrow> CHR ''6''
      | BindRequestDoc u q \<Rightarrow> CHR ''7''
      | _ \<Rightarrow> CHR ''8'')"

lemma demo_sha_simps [simp]:
  "demo_sha (IdentityDoc i s) = dig (hd s)" "demo_sha (ProposalDoc c) = dig (CHR ''d'')"
  "demo_sha (DecisionDoc v) = dig (CHR ''e'')" "demo_sha (ExecutionDoc x) = dig (CHR ''f'')"
  "demo_sha (HumanEventDoc he) = dig (CHR ''0'')" "demo_sha (WorkerEventDoc we) = dig (CHR ''1'')"
  "demo_sha (TokenDoc t) = dig (CHR ''2'')" "demo_sha (WorkerActorDoc role) = dig (CHR ''3'')"
  "demo_sha (GovernanceDoc st xs ys) = dig (CHR ''4'')" "demo_sha (ProposeRequestDoc q) = dig (CHR ''5'')"
  "demo_sha (DecideRequestDoc u dq) = dig (CHR ''6'')" "demo_sha (BindRequestDoc u bq) = dig (CHR ''7'')"
  "demo_sha (StateDoc a b sc rg tags conf) = dig (CHR ''8'')" "demo_sha (PayloadDoc j) = dig (CHR ''8'')"
  by (simp_all add: demo_sha_def)

definition demo_account :: string where
  "demo_account = ''123456789012''"

definition demo_region :: string where
  "demo_region = ''us-east-1''"

definition demo_role :: string where
  "demo_role = ''arn:aws:iam::123456789012:role/worker''"

definition demo_finding :: finding_row where
  "demo_finding = \<lparr>fd_id = 6, fd_fingerprint = hex64, fd_account = demo_account, fd_resource_id = 10,
     fd_control_id = 20, fd_region = Some demo_region, fd_status = FS_OPEN, fd_first_detected = 0,
     fd_last_detected = 0, fd_resolved_at = None\<rparr>"

definition demo_artifact :: "uuid \<Rightarrow> string \<Rightarrow> (string \<times> json) list \<Rightarrow> graph_artifact" where
  "demo_artifact u ref kvs = \<lparr>ga_id = u, ga_scan_id = 4, ga_account = demo_account, ga_reference = ref, ga_sha = hex64,
     ga_schema = ''ec2.ebs-defaults'', ga_schema_version = ''1.0.0'', ga_collected_at = 0,
     ga_payload = JObj ([(''account_id'', JStr demo_account), (''region'', JStr demo_region),
       (''complete'', JBool True), (''failure_category'', JNull)] @ kvs)\<rparr>"

definition demo_outcome :: "uuid \<Rightarrow> string \<Rightarrow> string \<Rightarrow> source_state \<Rightarrow> string \<Rightarrow> source_outcome" where
  "demo_outcome u kind api st ref = \<lparr>so_id = u, so_scan_id = 4, so_account = demo_account, so_phase = DISCOVERY,
     so_subject = AccountSubject demo_account SCOPE_REGIONAL (Some demo_region), so_kind = kind, so_state = st,
     so_failure = None, so_collector = ''ec2.ebs-defaults'', so_collector_version = ''1.0.0'', so_api = api,
     so_collected_at = 0, so_reference = ref, so_sha = hex64\<rparr>"

definition demo_graph :: evidence_graph where
  "demo_graph = \<lparr>eg_scan_id = 4, eg_account = demo_account, eg_collected_at = 0, eg_sources = [],
     eg_artifacts =
       [demo_artifact 42 ''a'' [(''ebs_encryption_by_default'', JBool False)],
        demo_artifact 43 ''b'' [(''default_kms_key_id'', JNull), (''expected_absence'', JBool True)]],
     eg_outcomes =
       [demo_outcome 40 ''ec2.ebs-encryption-default'' ''ec2:GetEbsEncryptionByDefault'' ST_PRESENT ''a'',
        demo_outcome 41 ''ec2.ebs-default-kms-key'' ''ec2:GetEbsDefaultKmsKeyId'' ST_EXPECTED_ABSENCE ''b''],
     eg_relationships = []\<rparr>"

definition demo_occurrence :: occurrence_row where
  "demo_occurrence = \<lparr>oc_id = 2, oc_finding_id = 6, oc_assessment_id = 3, oc_scan_id = 4,
     oc_snapshot_id = 10, oc_resource_id = 10, oc_control_version_id = 21, oc_control_id = 20,
     oc_detected_at = 0\<rparr>"

definition demo_rows :: baseline_rows where
  "demo_rows = \<lparr>
     br_assessment = \<lparr>ca_id = 3, ca_scan_id = 4, ca_snapshot_id = 10, ca_resource_id = 10,
       ca_control_version_id = 21, ca_control_id = 20, ca_profile_row_id = 22, ca_result = FAIL,
       ca_missing = []\<rparr>,
     br_scan = \<lparr>sc_id = 4, sc_account = Some demo_account, sc_status = SC_COMPLETED,
       sc_profile_id = ''p'', sc_profile_version = ''1'', sc_profile_sha = hex64,
       sc_catalog_id = ''c'', sc_catalog_version = ''1'', sc_inventory_sha = Some hex64,
       sc_requested_regions = [demo_region], sc_successful_regions = [demo_region], sc_requested_services = [''ec2''],
       sc_successful_collectors = [''ec2_ebs''], sc_started_at = 0, sc_completed_at = Some 0,
       sc_scanner_version = ''1'', sc_result_sha = Some hex64, sc_manifest = None\<rparr>,
     br_snapshot = \<lparr>sn_id = 10, sn_resource_id = 10, sn_scan_id = 4, sn_scope = SCOPE_REGIONAL,
       sn_region = Some demo_region, sn_arn = None, sn_name = None, sn_tags = JObj [],
       sn_configuration = JObj [], sn_state_sha = dig (CHR ''8''), sn_observed_at = 0\<rparr>,
     br_resource = \<lparr>rs_id = 10, rs_provider = ''aws'', rs_account = demo_account,
       rs_aws_id = demo_account, rs_service = ''ec2'', rs_type = ''aws_account'',
       rs_scope = SCOPE_REGIONAL, rs_region = demo_region\<rparr>,
     br_control = \<lparr>ct_id = 20, ct_key = ''EC2-004''\<rparr>,
     br_version = \<lparr>cv_id = 21, cv_control_id = 20, cv_definition_sha = hex64,
       cv_catalog_key = ''c'', cv_catalog_version = ''1'', cv_catalog_sha = hex64\<rparr>\<rparr>"

definition demo_evidence :: evidence_row where
  "demo_evidence = \<lparr>er_id = 10, er_assessment_id = 3, er_collector = ''ec2.ebs-defaults'',
     er_source = ''normalized-inventory'', er_source_api = ''ec2:GetEbsEncryptionByDefault'',
     er_collected_at = 0, er_schema_name = ''control.ec2-004.evidence'', er_schema_version = ''1.0.0'',
     er_evidence_key = ''primary'', er_payload = JObj [], er_payload_sha = dig (CHR ''8'')\<rparr>"

definition demo_history :: history where
  "demo_history = \<lparr>
     hs_occurrences = [demo_occurrence], hs_assessments = [br_assessment demo_rows],
     hs_scans = [br_scan demo_rows], hs_snapshots = [br_snapshot demo_rows],
     hs_resources = [br_resource demo_rows], hs_controls = [br_control demo_rows],
     hs_versions = [br_version demo_rows], hs_evidence = [demo_evidence],
     hs_profiles = [\<lparr>pf_row_id = 22, pf_id = ''p'', pf_version = ''1'', pf_sha = hex64\<rparr>],
     hs_load_profile = (\<lambda>_ _ _. Some \<lparr>lp_id = ''p'', lp_version = ''1'', lp_sha = hex64,
       lp_controls = [''EC2-004'']\<rparr>),
     hs_catalog = (\<lambda>c v. Some (c, v)),
     hs_load_graph = (\<lambda>_. Some demo_graph)\<rparr>"

definition demo_start :: db where
  "demo_start = \<lparr>db_findings = [demo_finding], db_exceptions = [], db_history = demo_history,
     db_audits = [], db_proposals = [], db_decisions = [], db_requests = [], db_executions = [],
     db_events = [], db_reservations = [], db_claims = [], db_guard = True,
     db_verifications = [], db_receipts = [], db_verification_guard = True\<rparr>"

section \<open>The calls\<close>

text \<open>The n-th call: fresh identifiers from its own block, the clock in seconds from its start.\<close>

definition demo_env :: "nat \<Rightarrow> env" where
  "demo_env n = \<lparr>sha = demo_sha, uuid5_of = (\<lambda>_ _. 10),
     tick = (\<lambda>i. Aware (seconds (int (10 * n + i)))), fresh = (\<lambda>i. 10 * n + i),
     in_tx = False, pending = False, dialect_of = POSTGRESQL, down = False\<rparr>"

definition analyst :: principal where
  "analyst = \<lparr>pr_subject = ''ann'', pr_role_names = [''ANALYST''], pr_issuer = ''idp''\<rparr>"

definition approver :: principal where
  "approver = \<lparr>pr_subject = ''bob'', pr_role_names = [''APPROVER''], pr_issuer = ''idp''\<rparr>"

definition operator :: principal where
  "operator = \<lparr>pr_subject = ''cleo'', pr_role_names = [''ADMIN''], pr_issuer = ''idp''\<rparr>"

definition demo_worker :: worker_scope where
  "demo_worker = \<lparr>ws_enabled = True, ws_account_id = Some demo_account, ws_region = Some demo_region,
     ws_role_arn = Some demo_role\<rparr>"

definition demo_observation :: regional_observation where
  "demo_observation = \<lparr>ro_encryption = False, ro_kms_key_id = None, ro_kms_absence = True\<rparr>"

definition call_propose :: "db \<Rightarrow> (failure + mutation_result) \<times> db" where
  "call_propose = propose (demo_env 2) \<lparr>pq_finding_id = 6, pq_occurrence_id = 2, pq_reason = '' fix ''\<rparr> analyst 7"

definition call_approve :: "db \<Rightarrow> (failure + mutation_result) \<times> db" where
  "call_approve = decide (demo_env 3) 20
     \<lparr>dq_proposal_sha = dig (CHR ''d''), dq_decision = DK_APPROVE, dq_reason = ''ok''\<rparr> approver 8"

definition demo_admission :: "nat \<Rightarrow> principal \<Rightarrow> db \<Rightarrow> (failure + execution_result) \<times> db" where
  "demo_admission n p = admit (demo_env n)
     \<lparr>as_enabled = True, as_account_id = Some demo_account, as_region = Some demo_region\<rparr> 20
     \<lparr>bq_proposal_sha = dig (CHR ''d''), bq_approval_id = 30, bq_reason = ''run''\<rparr> p 9"

definition call_admit :: "db \<Rightarrow> (failure + execution_result) \<times> db" where
  "call_admit = demo_admission 4 operator"

definition call_claim :: "db \<Rightarrow> (failure + worker_token option) \<times> db" where
  "call_claim = claim (demo_env 5) demo_worker 40"

section \<open>The baseline\<close>

lemma demo_env_simps [simp]:
  "sha (demo_env n) = demo_sha" "uuid5_of (demo_env n) ns t = 10" "in_tx (demo_env n) = False"
  "tick (demo_env n) i = Aware (seconds (int (10 * n + i)))" "fresh (demo_env n) i = 10 * n + i"
  "pending (demo_env n) = False" "dialect_of (demo_env n) = POSTGRESQL" "down (demo_env n) = False"
  by (simp_all add: demo_env_def)

definition demo_baseline :: baseline where
  "demo_baseline = make_baseline demo_occurrence demo_rows
     \<lparr>lp_id = ''p'', lp_version = ''1'', lp_sha = hex64, lp_controls = [''EC2-004'']\<rparr>
     ''c'' ''1'' hex64 demo_evidence
     \<lparr>sb_outcome_id = 40, sb_artifact_id = 42, sb_reference = ''a'', sb_sha = hex64\<rparr>
     \<lparr>sb_outcome_id = 41, sb_artifact_id = 43, sb_reference = ''b'', sb_sha = hex64\<rparr> None True"

lemma demo_load_rows: "load_rows demo_history demo_occurrence = Some demo_rows"
  by (simp add: load_rows_def demo_history_def demo_occurrence_def demo_rows_def)

lemma demo_agree:
  "rows_agree demo_finding demo_occurrence demo_rows" "identities_agree (demo_env n) demo_rows"
  by (simp_all add: rows_agree_def identities_agree_def demo_occurrence_def demo_rows_def
    demo_finding_def Let_def resource_snapshot_id_def stable_resource_id_def)

lemma demo_sources:
  "load_source demo_graph demo_rows ''ec2.ebs-encryption-default'' ''ec2:GetEbsEncryptionByDefault'' =
     Some (hd (eg_outcomes demo_graph), ga_payload (hd (eg_artifacts demo_graph)),
       bl_encryption_source demo_baseline)"
  "load_source demo_graph demo_rows ''ec2.ebs-default-kms-key'' ''ec2:GetEbsDefaultKmsKeyId'' =
     Some (eg_outcomes demo_graph ! 1, ga_payload (eg_artifacts demo_graph ! 1),
       bl_kms_source demo_baseline)"
  by (simp_all add: load_source_def source_matches_def demo_graph_def demo_outcome_def
    demo_artifact_def demo_rows_def demo_baseline_def make_baseline_def Let_def obj_get_def)

lemma demo_policy:
  "load_policy demo_history demo_rows =
     Some (\<lparr>lp_id = ''p'', lp_version = ''1'', lp_sha = hex64, lp_controls = [''EC2-004'']\<rparr>, ''c'', ''1'')"
  by (simp add: load_policy_def demo_history_def demo_rows_def)

lemma demo_texts: "plain_text demo_account" "plain_text demo_region"
  by (simp_all add: plain_text_def demo_account_def demo_region_def trim_text_def is_white_def)

lemma demo_check_evidence: "check_evidence (demo_env n) demo_history demo_rows sb = Some demo_evidence"
  by (simp add: check_evidence_def expected_evidence_def Let_def demo_history_def demo_evidence_def
    demo_rows_def demo_texts build_evidence_id_def trim_text_def del: canon.simps)

lemma demo_baseline_for:
  "baseline_for (demo_env n) demo_history demo_finding demo_occurrence = Some demo_baseline"
proof -
  have "kms_context (eg_outcomes demo_graph ! 1) (ga_payload (eg_artifacts demo_graph ! 1)) = Some (None, True)"
    "so_state (hd (eg_outcomes demo_graph)) = ST_PRESENT"
    "jget ''ebs_encryption_by_default'' (ga_payload (hd (eg_artifacts demo_graph))) = JBool False"
    by (simp_all add: kms_context_def demo_graph_def demo_outcome_def demo_artifact_def obj_get_def)
  moreover have "hs_load_graph demo_history i = Some demo_graph" for i
    by (simp add: demo_history_def)
  moreover have "oc_finding_id demo_occurrence = fd_id demo_finding"
    by (simp add: demo_occurrence_def demo_finding_def)
  moreover have "valid_baseline demo_baseline"
    by (simp add: demo_baseline_def make_baseline_def valid_baseline_def demo_rows_def demo_evidence_def
      is_hex_def)
  moreover have "sc_inventory_sha (br_scan demo_rows) = Some hex64"
    by (simp add: demo_rows_def)
  ultimately show ?thesis
    by (simp add: baseline_for_def demo_load_rows demo_agree demo_policy demo_sources demo_check_evidence
      require_def demo_baseline_def make_baseline_def)
qed

section \<open>The proposal\<close>

definition human :: "string \<Rightarrow> string \<Rightarrow> capability \<Rightarrow> actor_context" where
  "human name r c = \<lparr>ac_issuer = ''idp'', ac_subject = name, ac_roles = [r], ac_capability = c\<rparr>"

lemma human_simps [simp]:
  "ac_issuer (human n r c) = ''idp''" "ac_subject (human n r c) = n" "ac_roles (human n r c) = [r]"
  "ac_capability (human n r c) = c"
  by (simp_all add: human_def)

abbreviation ann :: actor_context where "ann \<equiv> human ''ann'' ''ANALYST'' CAP_PROPOSE"
abbreviation bob :: actor_context where "bob \<equiv> human ''bob'' ''APPROVER'' CAP_APPROVE"
abbreviation cleo :: actor_context where "cleo \<equiv> human ''cleo'' ''ADMIN'' CAP_EXECUTE"

lemma demo_actors:
  "actor_of analyst CAP_PROPOSE = Inr ann" "actor_of approver CAP_APPROVE = Inr bob"
  "actor_of operator CAP_EXECUTE = Inr cleo"
  by (simp_all add: actor_of_def capabilities_for_def role_of_name_def human_def analyst_def
    approver_def operator_def)

definition demo_content :: proposal_content where
  "demo_content = new_content 20 demo_finding demo_region demo_baseline (dig (CHR ''4'')) ann ''fix'' (seconds 20)"

definition demo_proposal :: proposal_row where
  "demo_proposal = proposal_row_for (demo_env 2) demo_content demo_occurrence ann"

lemma demo_reasons: "validate_reason '' fix '' = Some ''fix''" "validate_reason ''fix'' = Some ''fix''"
  "validate_reason ''ok'' = Some ''ok''" "validate_reason ''run'' = Some ''run''"
  by (simp_all add: validate_reason_def strip_ws_def is_ws_def)

lemma demo_content_simps [simp]:
  "pc_proposal_id demo_content = 20" "pc_finding_id demo_content = 6" "pc_resource_id demo_content = 10"
  "pc_control_id demo_content = 20" "pc_account_id demo_content = demo_account"
  "pc_region demo_content = demo_region" "pc_baseline demo_content = demo_baseline"
  "pc_governance_sha demo_content = dig (CHR ''4'')" "pc_proposer demo_content = ann"
  "pc_reason demo_content = ''fix''" "pc_created_at demo_content = seconds 20"
  "pc_expires_at demo_content = seconds 86420" "\<not> pc_expected_encryption demo_content"
  "pc_desired_encryption demo_content"
  by (simp_all add: demo_content_def new_content_def demo_finding_def proposal_ttl_def seconds_def)

lemma demo_finding_simps [simp]:
  "fd_id demo_finding = 6" "fd_resource_id demo_finding = 10" "fd_control_id demo_finding = 20"
  "fd_account demo_finding = demo_account" "fd_region demo_finding = Some demo_region"
  "fd_status demo_finding = FS_OPEN"
  by (simp_all add: demo_finding_def)

lemma demo_baseline_simps [simp]:
  "bl_occurrence_id demo_baseline = 2" "bl_observed_at demo_baseline = 0" "bl_assessment_id demo_baseline = 3"
  "bl_kms_key_id demo_baseline = None" "bl_kms_absence demo_baseline" "oc_id demo_occurrence = 2"
  by (simp_all add: demo_baseline_def make_baseline_def demo_occurrence_def demo_rows_def)

lemma demo_proposal_simps [simp]:
  "rp_id demo_proposal = 20" "rp_finding_id demo_proposal = 6" "rp_sha demo_proposal = dig (CHR ''d'')"
  "rp_occurrence_id demo_proposal = 2" "rp_account_id demo_proposal = demo_account"
  "rp_actor_issuer demo_proposal = ''idp''" "rp_actor_subject demo_proposal = ''ann''"
  "rp_actor_roles demo_proposal = [''ANALYST'']" "rp_content demo_proposal = ProposalDoc demo_content"
  "rp_created_at demo_proposal = seconds 20" "rp_expires_at demo_proposal = seconds 86420"
  by (simp_all add: demo_proposal_def proposal_row_for_def)

lemma demo_baseline_valid: "valid_baseline demo_baseline"
  using demo_baseline_for [of 0] baseline_for_SomeD by metis

lemma demo_make_content: "make_proposal_content demo_content = Some demo_content"
  by (simp add: make_proposal_content_def demo_baseline_valid demo_reasons valid_actor_def is_hex_def)
    (simp add: demo_account_def demo_region_def account_pattern_def is_digit_def demo_content_def new_content_def)

lemma demo_proposal_content: "proposal_content_of demo_sha demo_proposal = Inr demo_content"
  by (simp add: proposal_content_of_def demo_make_content content_agrees_def seconds_def proposal_ttl_def)

text \<open>A database of the scenario keeps the accepted history and has the one finding.\<close>

definition demo_based :: "db \<Rightarrow> bool" where
  "demo_based d = (db_history d = demo_history \<and> db_findings d = [demo_finding] \<and> db_exceptions d = [])"

lemma demo_current:
  "hs_occurrences demo_history = [demo_occurrence]"
  "\<not> has_newer_assessment demo_history demo_finding demo_baseline"
  by (simp_all add: demo_history_def has_newer_assessment_def demo_rows_def)

lemma demo_blocking:
  assumes "demo_based d" "0 \<le> at" "at < seconds 86420"
  shows "blocking_of (demo_env n) d demo_content at = Inr []"
  using assms
  by (simp add: demo_based_def blocking_of_def finding_of_def governance_state_def Let_def exceptions_of_def
    demo_current baseline_current_def demo_baseline_for)

definition demo_request :: "nat \<Rightarrow> actor_context \<Rightarrow> operation \<Rightarrow> uuid \<Rightarrow> char \<Rightarrow> uuid option \<Rightarrow> request_row" where
  "demo_request u a op key c dec =
     \<lparr>rq_id = u, rq_identity_sha = identity_sha demo_sha a, rq_actor_issuer = ac_issuer a,
      rq_actor_subject = ac_subject a, rq_operation = op, rq_key = key, rq_request_sha = dig c,
      rq_proposal_id = 20, rq_decision_id = dec\<rparr>"

definition demo_audit :: "nat \<Rightarrow> audit_type \<Rightarrow> actor_context \<Rightarrow> time \<Rightarrow> uuid option \<Rightarrow> audit_row" where
  "demo_audit u ty a at dec =
     \<lparr>au_id = u, au_type = ty, au_actor_type = ActorHuman, au_actor_id = identity_sha demo_sha a,
      au_target_type = TargetRemediation, au_target_id = 20, au_time = at,
      au_metadata = MetaRemediation a 20 (dig (CHR ''d'')) dec\<rparr>"

definition demo_proposed :: db where
  "demo_proposed = demo_start\<lparr>
     db_audits := [demo_audit 21 AT_REMEDIATION_PROPOSED ann (seconds 20) None],
     db_proposals := [demo_proposal],
     db_requests := [demo_request 22 ann OP_CREATE 7 (CHR ''5'') None]\<rparr>"

lemma sql_nonblank_dig [simp]: "c \<noteq> CHR '' '' \<Longrightarrow> sql_nonblank (dig c)"
  by (simp add: sql_nonblank_def sql_trim_def dig_def dropWhile_replicate)

lemma demo_nonblank [simp]: "sql_nonblank ''idp''" "sql_nonblank ''ann''" "sql_nonblank ''bob''" "sql_nonblank ''cleo''"
  by (simp_all add: sql_nonblank_def sql_trim_def)

lemmas act_defs = bnd_def get_db_def ret_def change_def guard_def lift_res_def now_def uuid4_def raise_def

lemma demo_based_start: "demo_based demo_start"
  by (simp add: demo_based_def demo_start_def)

lemma demo_propose_new:
  "propose_new (demo_env 2) \<lparr>pq_finding_id = 6, pq_occurrence_id = 2, pq_reason = ''fix''\<rparr> ann demo_start
     demo_finding demo_occurrence demo_baseline (initial_work demo_start) =
   Inr (Wrote demo_proposal None, \<lparr>wk_db = demo_proposed\<lparr>db_requests := []\<rparr>, wk_ticks = 1, wk_ids = 2\<rparr>)"
proof -
  have c: "new_content 20 demo_finding demo_region demo_baseline
      (fst (governance_state (demo_env 2) demo_start demo_finding (seconds 20))) ann ''fix'' (seconds 20) = demo_content"
    by (simp add: demo_content_def governance_state_def Let_def)
  have b: "blocking_of (demo_env 2) demo_start demo_content (seconds 20) = Inr []"
    by (rule demo_blocking [OF demo_based_start]) (simp_all add: seconds_def)
  have l: "length demo_account = 12" by (simp add: demo_account_def)
  show ?thesis
    unfolding propose_new_def
    by (simp add: act_defs initial_work_def c demo_make_content b Let_def insert_proposal_def new_key_def
      l audit_remediation_def append_audit_event_def insert_audit_def demo_proposal_def [symmetric])
      (simp add: demo_start_def demo_proposed_def demo_audit_def identity_sha_def seconds_def l)
qed

lemma demo_propose: "\<exists>v. call_propose demo_start = (Inr v, demo_proposed)"
proof -
  have "validate_proposal_request \<lparr>pq_finding_id = 6, pq_occurrence_id = 2, pq_reason = '' fix ''\<rparr> =
      Some \<lparr>pq_finding_id = 6, pq_occurrence_id = 2, pq_reason = ''fix''\<rparr>"
    by (simp add: validate_proposal_request_def demo_reasons)
  moreover have "db_requests demo_start = []" "hs_occurrences (db_history demo_start) = [demo_occurrence]"
    "finding_of demo_start 6 = Inr demo_finding" "db_history demo_start = demo_history"
    by (simp_all add: demo_start_def demo_current finding_of_def)
  moreover have "wk_db (initial_work demo_start) = demo_start" by (simp add: initial_work_def)
  moreover have "insert_request (demo_request 22 ann OP_CREATE 7 (CHR ''5'') None)
      \<lparr>wk_db = demo_proposed\<lparr>db_requests := []\<rparr>, wk_ticks = 1, wk_ids = 3\<rparr> =
      Inr ((), \<lparr>wk_db = demo_proposed, wk_ticks = 1, wk_ids = 3\<rparr>)"
    by (simp add: insert_request_def act_defs new_key_def demo_request_def demo_proposed_def identity_sha_def)
  moreover have "blocking_of (demo_env 2) demo_proposed demo_content (seconds 21) = Inr []"
    by (rule demo_blocking) (simp_all add: demo_based_def demo_proposed_def demo_start_def seconds_def)
  moreover have "decisions_of demo_proposed 20 = []"
    by (simp add: decisions_of_def demo_proposed_def demo_start_def)
  ultimately show ?thesis
    by (simp add: call_propose_def propose_def mutate_def demo_actors transact_def mutate_body_def
      replay_def bnd_def get_db_def ret_def propose_write_def lift_res_def demo_baseline_for demo_propose_new
      record_request_def uuid4_def demo_request_def)
      (simp add: view_of_def act_defs demo_proposal_content Let_def, rule exI [of _ False], simp)
qed

section \<open>The approval\<close>

definition demo_decision :: decision_row where
  "demo_decision = \<lparr>de_id = 30, de_proposal_id = 20, de_kind = DK_APPROVE, de_proposal_sha = dig (CHR ''d''),
     de_approval_id = None, de_actor_issuer = ''idp'', de_actor_subject = ''bob'',
     de_actor_roles = [''APPROVER''], de_reason = ''ok'', de_created_at = seconds 30\<rparr>"

definition demo_approval :: decision_view where
  "demo_approval = \<lparr>dv_decision_id = 30, dv_proposal_id = 20, dv_kind = DK_APPROVE,
     dv_proposal_sha = dig (CHR ''d''), dv_approval_id = None, dv_actor = bob, dv_reason = ''ok'',
     dv_created_at = seconds 30\<rparr>"

definition demo_approved :: db where
  "demo_approved = demo_proposed\<lparr>
     db_audits := db_audits demo_proposed @
       [demo_audit 31 (AT_REMEDIATION_DECISION DK_APPROVE) bob (seconds 30) (Some 30)],
     db_decisions := [demo_decision],
     db_requests := db_requests demo_proposed @ [demo_request 32 bob OP_DECIDE 8 (CHR ''6'') (Some 30)]\<rparr>"

lemma demo_make_approval: "make_decision_view demo_approval = Some demo_approval"
  by (simp add: make_decision_view_def demo_approval_def demo_reasons valid_actor_def is_hex_def)

lemma demo_decision_view: "decision_view_of demo_decision = Inr demo_approval"
proof -
  have "\<lparr>dv_decision_id = 30, dv_proposal_id = 20, dv_kind = DK_APPROVE,
     dv_proposal_sha = dig (CHR ''d''), dv_approval_id = None,
     dv_actor = \<lparr>ac_issuer = ''idp'', ac_subject = ''bob'', ac_roles = [''APPROVER''], ac_capability = CAP_APPROVE\<rparr>,
     dv_reason = ''ok'', dv_created_at = seconds 30\<rparr> = demo_approval"
    by (simp add: demo_approval_def human_def)
  then show ?thesis by (simp add: decision_view_of_def demo_decision_def demo_make_approval)
qed

lemma demo_write_decision:
  "write_decision (demo_env 3) demo_proposal bob DK_APPROVE ''ok'' (seconds 30) None
     \<lparr>wk_db = demo_proposed, wk_ticks = t, wk_ids = 0\<rparr> =
   Inr (demo_decision, \<lparr>wk_db = demo_approved\<lparr>db_requests := db_requests demo_proposed\<rparr>,
     wk_ticks = t, wk_ids = 2\<rparr>)"
  by (simp add: write_decision_def act_defs Let_def insert_decision_def new_key_def initial_decision_def
      decision_slot_free_def audit_remediation_def append_audit_event_def insert_audit_def)
    (simp add: demo_decision_def demo_approved_def demo_proposed_def demo_start_def demo_audit_def
      identity_sha_def sql_trim_def)

lemma demo_approve: "\<exists>v. call_approve demo_proposed = (Inr v, demo_approved)"
proof -
  have "validate_decision_request \<lparr>dq_proposal_sha = dig (CHR ''d''), dq_decision = DK_APPROVE, dq_reason = ''ok''\<rparr> =
      Some \<lparr>dq_proposal_sha = dig (CHR ''d''), dq_decision = DK_APPROVE, dq_reason = ''ok''\<rparr>"
    by (simp add: validate_decision_request_def demo_reasons is_hex_def)
  moreover have "find_row (\<lambda>r. (rq_identity_sha r, rq_operation r, rq_key r))
      (identity_sha demo_sha bob, OP_DECIDE, 8) (db_requests demo_proposed) = None"
    by (simp add: demo_proposed_def demo_request_def)
  moreover have "proposal_of demo_proposed 20 True = Inr demo_proposal" "decisions_of demo_proposed 20 = []"
    by (simp_all add: proposal_of_def demo_proposed_def demo_start_def finding_of_def decisions_of_def)
  moreover have "blocking_of (demo_env 3) demo_proposed demo_content (seconds 30) = Inr []"
    by (rule demo_blocking) (simp_all add: demo_based_def demo_proposed_def demo_start_def seconds_def)
  moreover have "insert_request (demo_request 32 bob OP_DECIDE 8 (CHR ''6'') (Some 30))
      \<lparr>wk_db = demo_approved\<lparr>db_requests := db_requests demo_proposed\<rparr>, wk_ticks = Suc 0, wk_ids = 3\<rparr> =
      Inr ((), \<lparr>wk_db = demo_approved, wk_ticks = Suc 0, wk_ids = 3\<rparr>)"
    by (simp add: insert_request_def act_defs new_key_def demo_request_def demo_proposed_def
      demo_approved_def identity_sha_def)
  moreover have "seconds 20 \<le> seconds 30" "de_id demo_decision = 30"
    by (simp_all add: seconds_def demo_decision_def)
  ultimately show ?thesis
    by (simp add: call_approve_def decide_def mutate_def demo_actors transact_def mutate_body_def
      replay_def act_defs initial_work_def decide_write_def demo_proposal_content actor_key_def
      demo_write_decision record_request_def demo_decision_view demo_request_def) auto
qed

section \<open>The admission\<close>

definition demo_execution :: execution_content where
  "demo_execution = new_execution (demo_env 4) 40 demo_content (dig (CHR ''d'')) demo_approval cleo 9 ''run'' (seconds 42)"

definition demo_row :: execution_row where
  "demo_row = execution_row_for (demo_env 4) demo_execution 20 cleo (dig (CHR ''7''))"

definition demo_requested :: human_event where
  "demo_requested = human_entry_for 41 demo_row [] cleo (seconds 42) EK_REQUESTED []"

definition demo_view1 :: event_view where
  "demo_view1 = \<lparr>ev_content = HumanEntry demo_requested, ev_sha = dig (CHR ''0''), ev_audit_id = 42\<rparr>"

definition demo_event1 :: event_row where
  "demo_event1 = event_row_for demo_row (HumanEntry demo_requested) (HumanEventDoc demo_requested)
     (dig (CHR ''0'')) (audit_for demo_sha demo_row (HumanEntry demo_requested) (dig (CHR ''0'')) 42)"

definition demo_reservation :: "uuid option \<Rightarrow> reservation_row" where
  "demo_reservation e = \<lparr>rv_id = 43, rv_resource_id = 10, rv_account_id = demo_account,
     rv_region = demo_region, rv_execution_id = e\<rparr>"

definition demo_admitted :: db where
  "demo_admitted = demo_approved\<lparr>
     db_audits := db_audits demo_approved @
       [audit_for demo_sha demo_row (HumanEntry demo_requested) (dig (CHR ''0'')) 42],
     db_executions := [demo_row], db_events := [demo_event1],
     db_reservations := [demo_reservation (Some 40)]\<rparr>"

lemma demo_execution_simps [simp]:
  "xc_execution_id demo_execution = 40" "xc_proposal demo_execution = demo_content"
  "xc_proposal_sha demo_execution = dig (CHR ''d'')" "xc_approval demo_execution = demo_approval"
  "xc_approval_sha demo_execution = dig (CHR ''e'')" "xc_requested_by demo_execution = cleo"
  "xc_idempotency_key demo_execution = 9" "xc_reason demo_execution = ''run''"
  "xc_created_at demo_execution = seconds 42" "xc_expires_at demo_execution = seconds 342"
  by (simp_all add: demo_execution_def new_execution_def execution_ttl_def seconds_def)

lemma demo_approval_simps [simp]:
  "dv_decision_id demo_approval = 30" "dv_kind demo_approval = DK_APPROVE" "dv_actor demo_approval = bob"
  "dv_proposal_sha demo_approval = dig (CHR ''d'')" "dv_created_at demo_approval = seconds 30"
  by (simp_all add: demo_approval_def)

lemma demo_row_simps [simp]:
  "ex_id demo_row = 40" "ex_proposal_id demo_row = 20" "ex_approval_id demo_row = 30"
  "ex_identity_sha demo_row = dig (CHR ''c'')" "ex_actor_issuer demo_row = ''idp''"
  "ex_actor_subject demo_row = ''cleo''" "ex_key demo_row = 9" "ex_request_sha demo_row = dig (CHR ''7'')"
  "ex_content demo_row = ExecutionDoc demo_execution" "ex_sha demo_row = dig (CHR ''f'')"
  "ex_created_at demo_row = seconds 42" "ex_expires_at demo_row = seconds 342"
  by (simp_all add: demo_row_def execution_row_for_def identity_sha_def)

lemma demo_requested_simps [simp]:
  "he_event_id demo_requested = 41" "he_execution_id demo_requested = 40" "he_execution_sha demo_requested = dig (CHR ''f'')"
  "he_sequence demo_requested = Suc 0" "he_kind demo_requested = EK_REQUESTED" "he_phase demo_requested = PH_QUEUED"
  "he_previous demo_requested = None" "he_actor demo_requested = cleo" "he_created_at demo_requested = seconds 42"
  "he_reasons demo_requested = []"
  by (simp_all add: demo_requested_def human_entry_for_def)

lemma demo_make_execution: "make_execution_content demo_execution = Some demo_execution"
  by (simp add: make_execution_content_def demo_make_content demo_make_approval demo_reasons valid_actor_def is_hex_def)

text \<open>The retained execution validates in every later database of the scenario.\<close>

definition demo_authorized :: "db \<Rightarrow> bool" where
  "demo_authorized d = (demo_based d \<and> db_proposals d = [demo_proposal] \<and> db_decisions d = [demo_decision])"

lemma demo_decisions_of: "demo_authorized d \<Longrightarrow> decisions_of d 20 = [demo_decision]"
  by (simp add: demo_authorized_def decisions_of_def demo_decision_def)

lemma demo_execution_content:
  assumes "demo_authorized d"
  shows "execution_content_of demo_sha d demo_row = Inr demo_execution"
proof -
  have "rebuilt_request demo_execution = Some \<lparr>bq_proposal_sha = dig (CHR ''d''), bq_approval_id = 30, bq_reason = ''run''\<rparr>"
    by (simp add: rebuilt_request_def validate_binding_request_def demo_reasons is_hex_def)
  moreover have "proposal_of d 20 False = Inr demo_proposal"
    using assms by (simp add: demo_authorized_def proposal_of_def)
  moreover have "binds_requester demo_sha demo_row demo_execution demo_content demo_decision"
    by (simp add: binds_requester_def Let_def stored_principal_def capabilities_for_def role_of_name_def
      actor_key_def demo_decision_def identity_sha_def)
  moreover have "binds_times demo_row demo_execution demo_content demo_approval"
    by (simp add: binds_times_def execution_ttl_def seconds_def)
  moreover have "de_id demo_decision = 30" by (simp add: demo_decision_def)
  ultimately show ?thesis
    by (simp add: execution_content_of_def demo_make_execution demo_proposal_content demo_decision_view
      binds_approval_def demo_decisions_of [OF assms])
qed

lemma demo_execution_blocking:
  assumes "demo_authorized d" "42 \<le> t" "t < 342"
  shows "execution_blocking (demo_env n) d demo_execution (seconds t) = Inr []"
proof -
  have "blocking_of (demo_env n) d demo_content (seconds t) = Inr []"
    by (rule demo_blocking) (use assms in \<open>auto simp: demo_authorized_def seconds_def\<close>)
  then show ?thesis
    using assms by (simp add: execution_blocking_def demo_decisions_of demo_decision_def seconds_def)
qed

lemma demo_event1_simps [simp]:
  "ee_id demo_event1 = 41" "ee_execution_id demo_event1 = 40" "ee_audit_id demo_event1 = 42"
  "ee_sequence demo_event1 = Suc 0" "ee_kind demo_event1 = EK_REQUESTED"
  "ee_content demo_event1 = HumanEventDoc demo_requested" "ee_sha demo_event1 = dig (CHR ''0'')"
  "ee_previous demo_event1 = None" "ee_created_at demo_event1 = seconds 42"
  by (simp_all add: demo_event1_def event_row_for_def audit_for_def)

lemma demo_view1_simps [simp]:
  "ev_content demo_view1 = HumanEntry demo_requested" "ev_sha demo_view1 = dig (CHR ''0'')"
  by (simp_all add: demo_view1_def)

lemma demo_requested_valid: "valid_human_event demo_requested"
  by (simp add: valid_human_event_def is_hex_def human_kind_def valid_actor_def)

abbreviation demo_audit1 :: audit_row where
  "demo_audit1 \<equiv> audit_for demo_sha demo_row (HumanEntry demo_requested) (dig (CHR ''0'')) 42"

lemma demo_check1:
  assumes "find_row au_id 42 (db_audits d) = Some demo_audit1"
  shows "check_entry demo_sha d demo_row demo_execution (Suc 0) None demo_event1 = Some demo_view1"
  using assms
  by (simp add: check_entry_def demo_requested_valid entry_ok_def human_entry_ok_def row_agrees_def
    audit_agrees_def audit_for_def demo_view1_def)

lemma demo_events_admitted: "events_of demo_sha demo_admitted demo_row demo_execution = Inr [demo_view1]"
proof -
  have "check_entry demo_sha demo_admitted demo_row demo_execution (Suc 0) None demo_event1 = Some demo_view1"
    by (rule demo_check1) (simp add: demo_admitted_def demo_approved_def demo_proposed_def demo_audit_def audit_for_def)
  moreover have "event_rows_of demo_admitted 40 = [demo_event1]" "claim_of demo_admitted 40 = None"
    by (simp_all add: demo_admitted_def event_rows_of_def claim_of_def demo_approved_def demo_proposed_def demo_start_def)
  ultimately show ?thesis
    by (simp add: events_of_def claim_matches_def readback_matches_def observed_entries_def worker_entries_def
      events_with_kind_def List.map_filter_simps)
qed

lemma demo_approved_facts:
  "demo_authorized demo_approved" "db_executions demo_approved = []" "db_events demo_approved = []"
  "db_reservations demo_approved = []" "db_claims demo_approved = []" "db_guard demo_approved"
  "db_audits demo_approved = [demo_audit 21 AT_REMEDIATION_PROPOSED ann (seconds 20) None,
     demo_audit 31 (AT_REMEDIATION_DECISION DK_APPROVE) bob (seconds 30) (Some 30)]"
  by (simp_all add: demo_approved_def demo_proposed_def demo_start_def demo_authorized_def demo_based_def)

lemma demo_admitted_facts:
  "demo_authorized demo_admitted" "db_executions demo_admitted = [demo_row]" "db_events demo_admitted = [demo_event1]"
  "db_reservations demo_admitted = [demo_reservation (Some 40)]" "db_claims demo_admitted = []"
  "db_guard demo_admitted" "db_audits demo_admitted = db_audits demo_approved @ [demo_audit1]"
  using demo_approved_facts
  by (simp_all add: demo_admitted_def demo_authorized_def demo_based_def)

lemma demo_view_in_approved:
  "\<exists>v. view_of (demo_env 4) demo_proposal \<lparr>wk_db = demo_approved, wk_ticks = Suc 0, wk_ids = 0\<rparr> =
       Inr (v, \<lparr>wk_db = demo_approved, wk_ticks = 2, wk_ids = 0\<rparr>) \<and>
     pv_content v = demo_content \<and> pv_decisions v = [demo_approval]"
proof -
  have "blocking_of (demo_env 4) demo_approved demo_content (seconds 41) = Inr []"
    by (rule demo_blocking)
      (use demo_approved_facts(1) in \<open>simp_all add: demo_authorized_def seconds_def\<close>)
  then show ?thesis
    by (simp add: view_of_def act_defs demo_proposal_content Let_def demo_decisions_of [OF demo_approved_facts(1)]
      demo_decision_view)
qed

lemma demo_execution_view:
  "\<exists>v. execution_view_of (demo_env 4) demo_row \<lparr>wk_db = demo_admitted, wk_ticks = 3, wk_ids = 4\<rparr> =
       Inr (v, \<lparr>wk_db = demo_admitted, wk_ticks = 4, wk_ids = 4\<rparr>)"
  using demo_execution_blocking [OF demo_admitted_facts(1), of 43 4]
  by (simp add: execution_view_of_def act_defs demo_execution_content [OF demo_admitted_facts(1)]
    demo_events_admitted reservation_of_def demo_admitted_facts demo_reservation_def last_phase_def
    held_phase_def Let_def)

lemma demo_insert_execution:
  "insert_execution demo_row \<lparr>wk_db = demo_approved, wk_ticks = t, wk_ids = u\<rparr> =
     Inr ((), \<lparr>wk_db = demo_approved\<lparr>db_executions := [demo_row]\<rparr>, wk_ticks = t, wk_ids = u\<rparr>)"
  by (simp add: insert_execution_def act_defs new_key_def demo_approved_facts seconds_def)

lemma demo_journal_requested:
  "journal (demo_env 4) demo_row cleo (seconds 42) EK_REQUESTED []
     \<lparr>wk_db = demo_approved\<lparr>db_executions := [demo_row]\<rparr>, wk_ticks = t, wk_ids = Suc 0\<rparr> =
   Inr ((), \<lparr>wk_db = demo_admitted\<lparr>db_reservations := []\<rparr>, wk_ticks = t, wk_ids = 3\<rparr>)"
proof -
  have e: "human_entry_for 41 demo_row [] cleo (seconds 42) EK_REQUESTED [] = demo_requested"
    by (simp add: demo_requested_def)
  show ?thesis
    by (simp add: journal_def act_defs e Let_def demo_requested_valid write_entry_def append_audit_event_def
        entry_actor_def insert_audit_def insert_event_def new_key_def demo_approved_facts demo_audit_def
        event_row_for_def event_checks_def identity_sha_def)
      (simp add: demo_admitted_def demo_event1_def event_row_for_def audit_for_def entry_actor_def
        demo_approved_facts demo_audit_def identity_sha_def demo_approved_def demo_proposed_def demo_start_def)
qed

lemma demo_reserve:
  "reserve_target (demo_env 4) None demo_content 40
     \<lparr>wk_db = demo_admitted\<lparr>db_reservations := []\<rparr>, wk_ticks = t, wk_ids = 3\<rparr> =
   Inr ((), \<lparr>wk_db = demo_admitted, wk_ticks = t, wk_ids = 4\<rparr>)"
proof -
  have t: "sql_trim demo_region = demo_region" "length demo_region = 9" "length demo_account = 12"
    by (simp_all add: sql_trim_def demo_region_def demo_account_def)
  show ?thesis
    by (simp add: reserve_target_def act_defs flush_def reservations_ok_def claims_ok_def demo_admitted_facts t)
      (simp add: demo_admitted_def demo_reservation_def demo_approved_def demo_proposed_def demo_start_def)
qed

lemma demo_admit_new:
  "\<exists>v. admit_new (demo_env 4) 20 cleo (seconds 42) (dig (CHR ''7'')) None demo_content demo_execution
       \<lparr>wk_db = demo_approved, wk_ticks = 3, wk_ids = Suc 0\<rparr> =
     Inr ((v, False), \<lparr>wk_db = demo_admitted, wk_ticks = 4, wk_ids = 4\<rparr>)"
proof -
  have r: "execution_row_for (demo_env 4) demo_execution 20 cleo (dig (CHR ''7'')) = demo_row"
    by (simp add: demo_row_def)
  obtain v where v: "execution_view_of (demo_env 4) demo_row \<lparr>wk_db = demo_admitted, wk_ticks = 3, wk_ids = 4\<rparr> =
       Inr (v, \<lparr>wk_db = demo_admitted, wk_ticks = 4, wk_ids = 4\<rparr>)"
    using demo_execution_view by blast
  show ?thesis
    by (simp add: admit_new_def Let_def r bnd_def ret_def demo_insert_execution demo_journal_requested
      demo_reserve v)
qed

lemma demo_authority:
  assumes "pv_content v = demo_content" "pv_decisions v = [demo_approval]"
  shows "check_authority (demo_env 4)
      \<lparr>as_enabled = True, as_account_id = Some demo_account, as_region = Some demo_region\<rparr>
      \<lparr>bq_proposal_sha = dig (CHR ''d''), bq_approval_id = 30, bq_reason = ''run''\<rparr> cleo demo_proposal v
      (seconds 42) \<lparr>wk_db = demo_approved, wk_ticks = t, wk_ids = u\<rparr> =
    Inr (demo_approval, \<lparr>wk_db = demo_approved, wk_ticks = t, wk_ids = u\<rparr>)"
proof -
  have "blocking_of (demo_env 4) demo_approved demo_content (seconds 42) = Inr []"
    by (rule demo_blocking)
      (use demo_approved_facts(1) in \<open>simp_all add: demo_authorized_def seconds_def\<close>)
  then show ?thesis
    by (simp add: check_authority_def act_defs assms actor_key_def) (simp add: seconds_def)
qed

lemma demo_scope_ok:
  "valid_admission_scope \<lparr>as_enabled = True, as_account_id = Some demo_account, as_region = Some demo_region\<rparr>"
  by (simp add: valid_admission_scope_def demo_account_def demo_region_def account_pattern_def
    region_pattern_def is_digit_def is_lower_def Let_def)

lemma demo_admit: "\<exists>v. call_admit demo_approved = (Inr v, demo_admitted)"
proof -
  obtain v where v: "view_of (demo_env 4) demo_proposal \<lparr>wk_db = demo_approved, wk_ticks = Suc 0, wk_ids = 0\<rparr> =
       Inr (v, \<lparr>wk_db = demo_approved, wk_ticks = 2, wk_ids = 0\<rparr>)"
    "pv_content v = demo_content" "pv_decisions v = [demo_approval]"
    using demo_view_in_approved by blast
  obtain xv where xv: "admit_new (demo_env 4) 20 cleo (seconds 42) (dig (CHR ''7'')) None demo_content demo_execution
       \<lparr>wk_db = demo_approved, wk_ticks = 3, wk_ids = Suc 0\<rparr> =
     Inr ((xv, False), \<lparr>wk_db = demo_admitted, wk_ticks = 4, wk_ids = 4\<rparr>)"
    using demo_admit_new by blast
  have q: "validate_binding_request \<lparr>bq_proposal_sha = dig (CHR ''d''), bq_approval_id = 30, bq_reason = ''run''\<rparr> =
      Some \<lparr>bq_proposal_sha = dig (CHR ''d''), bq_approval_id = 30, bq_reason = ''run''\<rparr>"
    by (simp add: validate_binding_request_def demo_reasons is_hex_def)
  have p: "proposal_of demo_approved 20 True = Inr demo_proposal"
    using demo_approved_facts(1) by (simp add: proposal_of_def finding_of_def demo_authorized_def demo_based_def)
  have x: "new_execution (demo_env 4) 40 demo_content (dig (CHR ''d'')) demo_approval cleo 9 ''run'' (seconds 42) =
      demo_execution" by (simp add: demo_execution_def)
  show ?thesis
    by (simp add: call_admit_def demo_admission_def admit_def demo_scope_ok q demo_actors commit_or_conflict_def
      transact_def admit_body_def act_defs initial_work_def demo_approved_facts replay_execution_def
      reap_expired_def expired_reservations_def p v demo_authority Let_def reservation_of_def
      release_target_def held_count_def admission_capacity_def x demo_make_execution xv, rule exI [of _ False], simp)
qed

section \<open>The worker entries\<close>

definition demo_entry :: "uuid \<Rightarrow> event_view list \<Rightarrow> event_kind \<Rightarrow> phase \<Rightarrow> time \<Rightarrow> append_args \<Rightarrow> worker_event" where
  "demo_entry u hist kind ph at args = worker_entry_for u demo_row hist demo_role kind ph at args"

abbreviation demo_entry_audit :: "worker_event \<Rightarrow> uuid \<Rightarrow> audit_row" where
  "demo_entry_audit e u \<equiv> audit_for demo_sha demo_row (WorkerEntry e) (dig (CHR ''1'')) u"

definition demo_entry_row :: "worker_event \<Rightarrow> uuid \<Rightarrow> event_row" where
  "demo_entry_row e u =
     event_row_for demo_row (WorkerEntry e) (WorkerEventDoc e) (dig (CHR ''1'')) (demo_entry_audit e u)"

definition demo_entry_view :: "worker_event \<Rightarrow> uuid \<Rightarrow> event_view" where
  "demo_entry_view e u = \<lparr>ev_content = WorkerEntry e, ev_sha = dig (CHR ''1''), ev_audit_id = u\<rparr>"

lemma demo_entry_simps [simp]:
  "we_event_id (demo_entry u hist kind ph at args) = u" "we_execution_id (demo_entry u hist kind ph at args) = 40"
  "we_execution_sha (demo_entry u hist kind ph at args) = dig (CHR ''f'')"
  "we_sequence (demo_entry u hist kind ph at args) = Suc (length hist)"
  "we_kind (demo_entry u hist kind ph at args) = kind" "we_phase (demo_entry u hist kind ph at args) = ph"
  "we_previous (demo_entry u hist kind ph at args) = ev_sha (last hist)"
  "we_role_arn (demo_entry u hist kind ph at args) = demo_role"
  "we_created_at (demo_entry u hist kind ph at args) = at"
  "we_reasons (demo_entry u hist kind ph at args) = aa_reasons args"
  "we_observation (demo_entry u hist kind ph at args) = aa_observation args"
  "we_observed_at (demo_entry u hist kind ph at args) = aa_observed_at args"
  "we_request_id (demo_entry u hist kind ph at args) = aa_request_id args"
  "we_polls (demo_entry u hist kind ph at args) = aa_polls args"
  by (simp_all add: demo_entry_def worker_entry_for_def)

lemma demo_entry_row_simps [simp]:
  "ee_id (demo_entry_row e u) = we_event_id e" "ee_execution_id (demo_entry_row e u) = 40"
  "ee_audit_id (demo_entry_row e u) = u" "ee_sequence (demo_entry_row e u) = we_sequence e"
  "ee_kind (demo_entry_row e u) = we_kind e" "ee_content (demo_entry_row e u) = WorkerEventDoc e"
  "ee_sha (demo_entry_row e u) = dig (CHR ''1'')" "ee_previous (demo_entry_row e u) = Some (we_previous e)"
  "ee_created_at (demo_entry_row e u) = we_created_at e"
  by (simp_all add: demo_entry_row_def event_row_for_def audit_for_def)

lemma demo_entry_view_simps [simp]:
  "ev_content (demo_entry_view e u) = WorkerEntry e" "ev_sha (demo_entry_view e u) = dig (CHR ''1'')"
  by (simp_all add: demo_entry_view_def)

lemma no_args_simps [simp]:
  "aa_reasons no_args = []" "aa_observation no_args = None" "aa_observed_at no_args = None"
  "aa_request_id no_args = None" "aa_polls no_args = 0"
  by (simp_all add: no_args_def)

lemma demo_role_ok: "role_arn_pattern demo_role" "length demo_role \<le> 2048" "role_account demo_role = demo_account"
  "role_partition demo_role = ''aws''"
  by (simp_all add: role_arn_pattern_def demo_role_def demo_account_def role_account_def role_partition_def
    account_pattern_def is_digit_def partitions_def role_char_def is_lower_def)

lemma demo_entry_valid:
  assumes "e = demo_entry u hist kind ph at args" "hist \<noteq> []"
    and "ev_sha (last hist) \<in> {dig (CHR ''0''), dig (CHR ''1'')}" "\<not> human_kind kind"
    and "case aa_observation args of None \<Rightarrow> True | Some r \<Rightarrow> valid_observation r"
    and "case aa_request_id args of None \<Rightarrow> True | Some q \<Rightarrow> request_id_pattern q"
    and "aa_polls args \<le> 3"
  shows "valid_worker_event e"
proof -
  have "1 \<le> length hist" using assms(2) by (cases hist) auto
  then show ?thesis
    using assms by (auto simp: valid_worker_event_def demo_role_ok is_hex_def)
qed

lemma demo_check_entry:
  assumes "e = demo_entry u hist kind ph at args" "hist \<noteq> []" "valid_worker_event e"
    and "validate_worker_entry e (last_phase hist) demo_execution = Inr ()"
    and "je_created_at (ev_content (last hist)) \<le> at"
    and "find_row au_id v (db_audits d) = Some (demo_entry_audit e v)"
  shows "check_entry demo_sha d demo_row demo_execution (Suc (length hist)) (Some (last hist)) (demo_entry_row e v) =
       Some (demo_entry_view e v)"
  using assms
  by (simp add: check_entry_def entry_ok_def row_agrees_def audit_agrees_def audit_for_def demo_entry_view_def
    last_phase_def)

lemma demo_append:
  assumes "events_of demo_sha d demo_row demo_execution = Inr hist"
    and "worker_phase kind (last_phase hist) = Some ph" "e = demo_entry (10 * n + u) hist kind ph at args"
    and "valid_worker_event e" "validate_worker_entry e (last_phase hist) demo_execution = Inr ()"
    and "new_key au_id (10 * n + Suc u) (db_audits d)" "new_key ee_id (10 * n + u) (db_events d)"
    and "new_key (\<lambda>q. (ee_execution_id q, ee_sequence q)) (40, Suc (length hist)) (db_events d)"
    and "new_key ee_audit_id (10 * n + Suc u) (db_events d)"
    and "kind \<in> {EK_WRITE_INTENT, EK_ACKNOWLEDGED} \<Longrightarrow>
      new_key (\<lambda>q. (ee_execution_id q, ee_kind q)) (40, kind) (db_events d)"
    and "hist \<noteq> []" "ev_sha (last hist) \<in> {dig (CHR ''0''), dig (CHR ''1'')}" "\<not> human_kind kind"
  shows "append_entry (demo_env n) demo_worker demo_row demo_execution kind at args
      \<lparr>wk_db = d, wk_ticks = t, wk_ids = u\<rparr> =
    Inr (e, \<lparr>wk_db = add_entry (demo_entry_row e (10 * n + Suc u)) (demo_entry_audit e (10 * n + Suc u)) d,
      wk_ticks = t, wk_ids = Suc (Suc u)\<rparr>)"
proof -
  have e: "worker_entry_for (10 * n + u) demo_row hist (worker_role demo_worker) kind ph at args = e"
    by (simp add: assms(3) demo_entry_def worker_role_def demo_worker_def)
  have k: "we_kind e = kind" "we_event_id e = 10 * n + u" "we_sequence e = Suc (length hist)"
    "we_execution_id e = 40" "we_role_arn e = demo_role" "we_previous e = ev_sha (last hist)"
    by (simp_all add: assms(3))
  have "1 \<le> length hist" using assms(11) by (cases hist) auto
  moreover have "kind \<noteq> EK_REQUESTED" "kind \<noteq> EK_EXPIRED" "kind \<noteq> EK_BLOCKED"
    using assms(13) by (auto simp: human_kind_def)
  moreover have "length (ev_sha (last hist)) = 64" using assms(12) by auto
  ultimately have c: "event_checks (demo_entry_row e v)" for v
    by (simp add: event_checks_def k)
  have row: "event_row_for demo_row (WorkerEntry e) (WorkerEventDoc e) (dig (CHR ''1'')) (demo_entry_audit e v) =
      demo_entry_row e v" for v
    by (simp add: demo_entry_row_def)
  have au: "append_audit_event (demo_env n) (AT_REMEDIATION_EXECUTION kind) TargetExecution 40 (we_created_at e)
      ActorService (dig (CHR ''3'')) (audit_metadata_of (WorkerEntry e) (dig (CHR ''1'')))
      \<lparr>wk_db = d, wk_ticks = t, wk_ids = Suc u\<rparr> =
    Inr (demo_entry_audit e (10 * n + Suc u),
      \<lparr>wk_db = d\<lparr>db_audits := db_audits d @ [demo_entry_audit e (10 * n + Suc u)]\<rparr>,
       wk_ticks = t, wk_ids = Suc (Suc u)\<rparr>)"
    using assms(6) by (simp add: append_audit_event_def act_defs insert_audit_def Let_def audit_for_def
      entry_actor_def k)
  have ev: "insert_event (demo_entry_row e (10 * n + Suc u))
      \<lparr>wk_db = d\<lparr>db_audits := aus\<rparr>, wk_ticks = t, wk_ids = v\<rparr> =
    Inr ((), \<lparr>wk_db = d\<lparr>db_audits := aus, db_events := db_events d @ [demo_entry_row e (10 * n + Suc u)]\<rparr>,
      wk_ticks = t, wk_ids = v\<rparr>)" for aus v
    using assms(7-10) c by (auto simp: insert_event_def act_defs k)
  have "write_entry (demo_env n) demo_row (WorkerEntry e) (WorkerEventDoc e)
      \<lparr>wk_db = d, wk_ticks = t, wk_ids = Suc u\<rparr> =
    Inr ((), \<lparr>wk_db = add_entry (demo_entry_row e (10 * n + Suc u)) (demo_entry_audit e (10 * n + Suc u)) d,
      wk_ticks = t, wk_ids = Suc (Suc u)\<rparr>)"
    unfolding write_entry_def Let_def bnd_def using au ev row
    by (simp add: entry_actor_def k add_entry_def)
  then show ?thesis
    by (simp add: append_entry_def act_defs assms(1,2,4,5) Let_def e)
qed

definition demo_claimed_entry :: worker_event where
  "demo_claimed_entry = demo_entry 51 [demo_view1] EK_CLAIMED PH_CLAIMED (seconds 51) no_args"

definition demo_view2 :: event_view where
  "demo_view2 = demo_entry_view demo_claimed_entry 52"

definition intent_args :: append_args where
  "intent_args = no_args\<lparr>aa_observation := Some demo_observation, aa_observed_at := Some (Aware (seconds 65))\<rparr>"

definition demo_intent_entry :: worker_event where
  "demo_intent_entry =
     demo_entry 70 [demo_view1, demo_view2] EK_WRITE_INTENT PH_WRITE_INTENT (seconds 71) intent_args"

definition demo_view3 :: event_view where
  "demo_view3 = demo_entry_view demo_intent_entry 71"

definition demo_receipt_entry :: worker_event where
  "demo_receipt_entry = demo_entry 80 [demo_view1, demo_view2, demo_view3] EK_ACKNOWLEDGED PH_ACKNOWLEDGED
     (seconds 80) (no_args\<lparr>aa_request_id := Some ''req-1''\<rparr>)"

definition demo_view4 :: event_view where
  "demo_view4 = demo_entry_view demo_receipt_entry 81"

definition demo_claim :: "nat \<Rightarrow> uuid option \<Rightarrow> claim_row" where
  "demo_claim k intent = \<lparr>wc_execution_id = 40, wc_token_sha = dig (CHR ''2''), wc_role_arn = demo_role,
     wc_generation = 1, wc_read_attempts = k, wc_readback_attempts = 0, wc_readback_started = None,
     wc_lease_until = seconds 81, wc_intent_event_id = intent\<rparr>"

definition demo_claimed :: db where
  "demo_claimed = (add_entry (demo_entry_row demo_claimed_entry 52) (demo_entry_audit demo_claimed_entry 52)
     demo_admitted)\<lparr>db_claims := [demo_claim 0 None], db_reservations := [demo_reservation (Some 40)]\<rparr>"

definition demo_read :: db where
  "demo_read = demo_claimed\<lparr>db_claims := [demo_claim 1 None]\<rparr>"

definition demo_intended :: db where
  "demo_intended = (add_entry (demo_entry_row demo_intent_entry 71) (demo_entry_audit demo_intent_entry 71)
     demo_read)\<lparr>db_claims := [demo_claim 1 (Some 70)], db_reservations := [demo_reservation (Some 40)]\<rparr>"

definition demo_acknowledged :: db where
  "demo_acknowledged = (add_entry (demo_entry_row demo_receipt_entry 81) (demo_entry_audit demo_receipt_entry 81)
     demo_intended)\<lparr>db_claims := [demo_claim 1 (Some 70)], db_reservations := [demo_reservation None]\<rparr>"

definition demo_token :: worker_token where
  "demo_token = \<lparr>wt_execution_id = 40, wt_token = 50, wt_content = demo_execution, wt_lease_until = seconds 81\<rparr>"

section \<open>The states of the worker's run\<close>

definition demo_state :: "db \<Rightarrow> uuid option \<Rightarrow> event_view list \<Rightarrow> claim_row option \<Rightarrow> bool" where
  "demo_state d held hist cl =
     (demo_authorized d \<and> db_guard d \<and> db_executions d = [demo_row] \<and>
      events_of demo_sha d demo_row demo_execution = Inr hist \<and>
      db_reservations d = [demo_reservation held] \<and> (held = Some 40) = held_phase (last_phase hist) \<and>
      db_claims d = (case cl of None \<Rightarrow> [] | Some w \<Rightarrow> [w]) \<and>
      (\<forall>w. cl = Some w \<longrightarrow> wc_execution_id w = 40 \<and> wc_role_arn w = demo_role \<and> claim_ok w))"

lemma demo_worker_ok: "valid_worker_scope demo_worker" "ws_enabled demo_worker" "ws_role_arn demo_worker = Some demo_role"
  "ws_account_id demo_worker = Some demo_account" "ws_region demo_worker = Some demo_region"
  by (simp_all add: demo_worker_def valid_worker_scope_def demo_role_ok region_partition_def starts_with_def)
    (simp_all add: demo_account_def demo_region_def account_pattern_def region_pattern_def is_digit_def
      is_lower_def Let_def)

lemma demo_reservations_ok: "reservations_ok [demo_reservation held]"
proof -
  have "sql_trim demo_region = demo_region" "length demo_region = 9" "length demo_account = 12"
    by (simp_all add: sql_trim_def demo_region_def demo_account_def)
  then show ?thesis by (simp add: reservations_ok_def demo_reservation_def)
qed

lemma demo_locked:
  assumes "demo_state d held hist cl" "demo_state (wk_db w') held' hist' cl'"
    and "wrk demo_row demo_execution hist cl (demo_reservation held) (seconds (10 * int n))
      \<lparr>wk_db = d, wk_ticks = Suc 0, wk_ids = 0\<rparr> = Inr (a, w')"
  shows "locked (demo_env n) demo_worker 40 wrk d = (Inr a, wk_db w')"
proof -
  have au: "demo_authorized d" using assms(1) by (simp add: demo_state_def)
  have c: "claim_of d 40 = cl"
    using assms(1) by (cases cl) (simp_all add: demo_state_def claim_of_def)
  have p: "proposal_of d 20 True = Inr demo_proposal"
    using au by (simp add: proposal_of_def finding_of_def demo_authorized_def demo_based_def)
  have f: "flush w' = Inr ((), w')"
    using assms(2) by (simp add: demo_state_def flush_def act_defs demo_reservations_ok claims_ok_def split: option.splits)
  have role: "case cl of None \<Rightarrow> True | Some w \<Rightarrow> Some (wc_role_arn w) = ws_role_arn demo_worker"
    using assms(1) by (auto simp: demo_state_def demo_worker_ok split: option.splits)
  have rv: "reservation_of d demo_account demo_region = Some (demo_reservation held)"
    "rv_resource_id (demo_reservation held) = 10" "rv_execution_id (demo_reservation held) = held"
    using assms(1) by (simp_all add: demo_state_def reservation_of_def demo_reservation_def)
  have "locked_body (demo_env n) demo_worker 40 wrk (initial_work d) = Inr (a, w')"
    using assms f role rv
    by (simp add: locked_body_def act_defs initial_work_def demo_state_def execution_row_of_def p c
      demo_execution_content demo_worker_ok)
  then show ?thesis
    by (simp add: locked_def demo_worker_ok commit_or_conflict_def transact_def)
qed

lemma demo_events_next:
  assumes "events_of demo_sha d demo_row demo_execution = Inr hist"
    and "check_entry demo_sha d' demo_row demo_execution (Suc (length hist)) (Some (last hist)) (demo_entry_row e u) =
      Some (demo_entry_view e u)"
    and "we_sequence e = Suc (length hist)"
    and "db_events d' = db_events d @ [demo_entry_row e u]" "db_audits d' = db_audits d @ as"
    and "claim_matches (claim_of d' 40) (hist @ [demo_entry_view e u])"
    and "readback_matches (claim_of d' 40) (hist @ [demo_entry_view e u])"
  shows "events_of demo_sha d' demo_row demo_execution = Inr (hist @ [demo_entry_view e u])"
proof -
  note old = events_ofD [OF assms(1)]
  let ?rows = "event_rows_of d (ex_id demo_row)"
  have len: "length ?rows = length hist" using check_events_length [OF old(1)] by simp
  have "map ee_sequence ?rows = [Suc 0..<Suc (length hist)]" using check_events_seq [OF old(1)] len by simp
  then have rows: "event_rows_of d' (ex_id demo_row) = ?rows @ [demo_entry_row e u]"
    by (rule event_rows_of_snoc [OF _ assms(4)]) (simp_all add: assms(3))
  show ?thesis
  proof (rule events_ofI)
    have "check_events demo_sha d' demo_row demo_execution (Suc 0) None ?rows = Some hist"
      by (rule check_events_mono [OF old(1) assms(5)])
    then show "check_events demo_sha d' demo_row demo_execution (Suc 0) None (event_rows_of d' (ex_id demo_row)) =
        Some (hist @ [demo_entry_view e u])"
      unfolding rows using old(2) len assms(2) by (simp add: check_events_append)
  qed (use assms(6,7) in simp_all)
qed

lemma demo_state_admitted: "demo_state demo_admitted (Some 40) [demo_view1] None"
  using demo_admitted_facts demo_events_admitted
  by (simp add: demo_state_def last_phase_def held_phase_def)

text \<open>Each entry validates where it stands.\<close>

lemma demo_entries_valid:
  "valid_worker_event demo_claimed_entry" "valid_worker_event demo_intent_entry"
  "valid_worker_event demo_receipt_entry"
proof -
  show "valid_worker_event demo_claimed_entry"
    by (rule demo_entry_valid [OF demo_claimed_entry_def]) (simp_all add: human_kind_def)
  show "valid_worker_event demo_intent_entry"
    by (rule demo_entry_valid [OF demo_intent_entry_def])
      (simp_all add: human_kind_def demo_view2_def intent_args_def valid_observation_def demo_observation_def)
  show "valid_worker_event demo_receipt_entry"
    by (rule demo_entry_valid [OF demo_receipt_entry_def])
      (simp_all add: human_kind_def demo_view3_def request_id_pattern_def is_lower_def is_upper_def is_digit_def)
qed

lemma demo_entries_checked:
  "validate_worker_entry demo_claimed_entry PH_QUEUED demo_execution = Inr ()"
  "validate_worker_entry demo_intent_entry PH_CLAIMED demo_execution = Inr ()"
  "validate_worker_entry demo_receipt_entry PH_WRITE_INTENT demo_execution = Inr ()"
  by (simp_all add: demo_claimed_entry_def demo_intent_entry_def demo_receipt_entry_def intent_args_def
    validate_worker_entry_def worker_phase_def demo_role_ok check_observed_at_def check_observation_def
    check_outcome_def seconds_def observation_matches_def demo_observation_def)

lemma demo_last_phases:
  "last_phase [demo_view1] = PH_QUEUED" "last_phase [demo_view1, demo_view2] = PH_CLAIMED"
  "last_phase [demo_view1, demo_view2, demo_view3] = PH_WRITE_INTENT"
  "last_phase [demo_view1, demo_view2, demo_view3, demo_view4] = PH_ACKNOWLEDGED"
  by (simp_all add: last_phase_def demo_view2_def demo_view3_def demo_view4_def demo_claimed_entry_def
    demo_intent_entry_def demo_receipt_entry_def)

lemma demo_state_next:
  assumes st: "demo_state d held hist cl" and e: "e = demo_entry u hist kind ph at args" "valid_worker_event e"
    and ok: "validate_worker_entry e (last_phase hist) demo_execution = Inr ()"
    and time: "je_created_at (ev_content (last hist)) \<le> at" and new: "new_key au_id v (db_audits d)"
    and cl': "claim_matches (Some w) (hist @ [demo_entry_view e v])"
      "readback_matches (Some w) (hist @ [demo_entry_view e v])"
      "wc_execution_id w = 40" "wc_role_arn w = demo_role" "claim_ok w"
    and held': "(held' = Some 40) = held_phase ph"
  shows "demo_state ((add_entry (demo_entry_row e v) (demo_entry_audit e v) d)
      \<lparr>db_claims := [w], db_reservations := [demo_reservation held']\<rparr>) held' (hist @ [demo_entry_view e v]) (Some w)"
    (is "demo_state ?d _ _ _")
proof -
  have ev: "events_of demo_sha d demo_row demo_execution = Inr hist" using st by (simp add: demo_state_def)
  have "hist \<noteq> []" using events_ofD(2) [OF ev] .
  have f: "find_row au_id v (db_audits ?d) = Some (demo_entry_audit e v)"
    using new by (auto simp: find_row_append find_row_None_iff new_key_def audit_for_def split: option.split dest: find_row_Some)
  have "events_of demo_sha ?d demo_row demo_execution = Inr (hist @ [demo_entry_view e v])"
    by (rule demo_events_next [OF ev demo_check_entry [OF e(1) \<open>hist \<noteq> []\<close> e(2) ok time f]])
      (use cl' in \<open>simp_all add: e(1) claim_of_def\<close>)
  then show ?thesis
    using st cl' held' e(1) by (simp add: demo_state_def demo_authorized_def demo_based_def last_phase_def)
qed

lemma demo_claim_ok: "k \<le> 3 \<Longrightarrow> claim_ok (demo_claim k i)"
  by (simp add: claim_ok_def demo_claim_def sql_nonblank_def sql_trim_def demo_role_def)

lemma demo_claim_simps [simp]:
  "wc_execution_id (demo_claim k i) = 40" "wc_token_sha (demo_claim k i) = dig (CHR ''2'')"
  "wc_role_arn (demo_claim k i) = demo_role" "wc_generation (demo_claim k i) = Suc 0"
  "wc_read_attempts (demo_claim k i) = k" "wc_lease_until (demo_claim k i) = seconds 81"
  "wc_intent_event_id (demo_claim k i) = i"
  by (simp_all add: demo_claim_def)

lemmas matches_defs = claim_matches_def readback_matches_def observed_entries_def worker_entries_def
  events_with_kind_def List.map_filter_simps

lemma demo_claim_matches:
  "claim_matches (Some (demo_claim k None)) [demo_view1, demo_view2]"
  "claim_matches (Some (demo_claim k (Some 70))) [demo_view1, demo_view2, demo_view3]"
  "claim_matches (Some (demo_claim k (Some 70))) [demo_view1, demo_view2, demo_view3, demo_view4]"
  "readback_matches (Some w) [demo_view1, demo_view2]"
  "readback_matches (Some w) [demo_view1, demo_view2, demo_view3]"
  "readback_matches (Some w) [demo_view1, demo_view2, demo_view3, demo_view4]"
  by (simp_all add: matches_defs demo_claim_def demo_view2_def demo_view3_def demo_view4_def
    demo_claimed_entry_def demo_intent_entry_def demo_receipt_entry_def)

lemma demo_new_keys:
  "new_key au_id 52 (db_audits demo_admitted)" "new_key au_id 71 (db_audits demo_read)"
  "new_key au_id 81 (db_audits demo_intended)"
  by (simp_all add: demo_admitted_facts demo_approved_facts demo_read_def demo_claimed_def demo_intended_def
    new_key_def demo_audit_def audit_for_def)

lemma demo_state_claimed: "demo_state demo_claimed (Some 40) [demo_view1, demo_view2] (Some (demo_claim 0 None))"
  using demo_state_next [OF demo_state_admitted demo_claimed_entry_def demo_entries_valid(1), of 52 "demo_claim 0 None" "Some 40"]
  by (simp add: demo_claimed_def demo_entries_checked demo_last_phases demo_new_keys demo_claim_matches
    demo_claim_ok demo_view2_def [symmetric] held_phase_def)
    (simp add: seconds_def demo_claim_def)

lemma demo_state_read: "demo_state demo_read (Some 40) [demo_view1, demo_view2] (Some (demo_claim 1 None))"
proof -
  have "events_of demo_sha demo_read demo_row demo_execution = Inr [demo_view1, demo_view2]"
  proof (rule events_ofI)
    note old = events_ofD [of demo_sha demo_claimed demo_row demo_execution "[demo_view1, demo_view2]"]
    have ev: "events_of demo_sha demo_claimed demo_row demo_execution = Inr [demo_view1, demo_view2]"
      using demo_state_claimed by (simp add: demo_state_def)
    have rows: "event_rows_of demo_read e = event_rows_of demo_claimed e" for e
      by (simp add: demo_read_def event_rows_of_def)
    show "check_events demo_sha demo_read demo_row demo_execution (Suc 0) None (event_rows_of demo_read (ex_id demo_row)) =
        Some [demo_view1, demo_view2]"
      unfolding rows by (rule check_events_mono [OF old(1) [OF ev], where as = "[]"]) (simp add: demo_read_def)
  qed (simp_all add: demo_read_def claim_of_def demo_claim_matches)
  then show ?thesis
    using demo_state_claimed demo_claim_ok [of 1]
    by (simp add: demo_state_def demo_read_def demo_authorized_def demo_based_def)
qed

lemma demo_state_intended:
  "demo_state demo_intended (Some 40) [demo_view1, demo_view2, demo_view3] (Some (demo_claim 1 (Some 70)))"
  using demo_state_next [OF demo_state_read demo_intent_entry_def demo_entries_valid(2), of 71 "demo_claim 1 (Some 70)" "Some 40"]
  by (simp add: demo_intended_def demo_entries_checked demo_last_phases demo_new_keys demo_claim_matches
    demo_claim_ok demo_view3_def [symmetric] held_phase_def)
    (simp add: seconds_def demo_claim_def demo_view2_def demo_claimed_entry_def)

lemma demo_state_acknowledged:
  "demo_state demo_acknowledged None [demo_view1, demo_view2, demo_view3, demo_view4] (Some (demo_claim 1 (Some 70)))"
  using demo_state_next [OF demo_state_intended demo_receipt_entry_def demo_entries_valid(3), of 81 "demo_claim 1 (Some 70)" None]
  by (simp add: demo_acknowledged_def demo_entries_checked demo_last_phases demo_new_keys demo_claim_matches
    demo_claim_ok demo_view4_def [symmetric] held_phase_def)
    (simp add: seconds_def demo_claim_def demo_view3_def demo_intent_entry_def)

section \<open>The worker's run\<close>

lemma demo_event_rows:
  "db_events demo_admitted = [demo_event1]" "db_events demo_read = [demo_event1, demo_entry_row demo_claimed_entry 52]"
  "db_events demo_intended =
     [demo_event1, demo_entry_row demo_claimed_entry 52, demo_entry_row demo_intent_entry 71]"
  by (simp_all add: demo_read_def demo_claimed_def demo_intended_def demo_admitted_facts)

lemma demo_append_claimed:
  "append_entry (demo_env 5) demo_worker demo_row demo_execution EK_CLAIMED (seconds 51) no_args
     \<lparr>wk_db = demo_admitted, wk_ticks = t, wk_ids = Suc 0\<rparr> =
   Inr (demo_claimed_entry, \<lparr>wk_db = demo_claimed\<lparr>db_claims := []\<rparr>, wk_ticks = t, wk_ids = 3\<rparr>)"
proof -
  have ev: "events_of demo_sha demo_admitted demo_row demo_execution = Inr [demo_view1]"
    using demo_state_admitted by (simp add: demo_state_def)
  show ?thesis
    using demo_append [OF ev, of EK_CLAIMED PH_CLAIMED demo_claimed_entry 5 "Suc 0" "seconds 51" no_args t]
      demo_new_keys(1)
    by (simp add: demo_last_phases worker_phase_def demo_entries_valid demo_entries_checked demo_event_rows
      new_key_def human_kind_def demo_claimed_entry_def [symmetric])
      (simp add: demo_claimed_def demo_admitted_def add_entry_def demo_approved_def demo_proposed_def demo_start_def)
qed

lemma demo_claim_run: "call_claim demo_admitted = (Inr (Some demo_token), demo_claimed)"
proof -
  have "execution_blocking (demo_env 5) demo_admitted demo_execution (seconds 50) = Inr []"
    by (rule demo_execution_blocking [OF demo_admitted_facts(1)]) simp_all
  moreover have "min (seconds 342) (seconds 51 + lease_time) = seconds 81"
    by (simp add: seconds_def lease_time_def)
  moreover have "\<not> seconds 342 \<le> seconds 51" by (simp add: seconds_def)
  ultimately have "claim_work (demo_env 5) demo_worker 40 demo_row demo_execution [demo_view1] None
      (demo_reservation (Some 40)) (seconds 50) \<lparr>wk_db = demo_admitted, wk_ticks = Suc 0, wk_ids = 0\<rparr> =
    Inr (Some demo_token, \<lparr>wk_db = demo_claimed, wk_ticks = 2, wk_ids = 3\<rparr>)"
    by (simp add: claim_work_def demo_last_phases reevaluate_def act_defs demo_append_claimed Let_def
      store_claim_def demo_token_def)
      (simp add: demo_claimed_def demo_claim_def worker_role_def demo_worker_def)
  then show ?thesis
    unfolding call_claim_def claim_def
    using demo_locked [OF demo_state_admitted, of "\<lparr>wk_db = demo_claimed, wk_ticks = 2, wk_ids = 3\<rparr>"
        _ _ _ "claim_work (demo_env 5) demo_worker 40" 5] demo_state_claimed by simp
qed

lemma demo_authorized_states:
  "demo_authorized demo_claimed" "demo_authorized demo_read" "demo_authorized demo_intended"
  "demo_authorized demo_acknowledged"
  using demo_state_claimed demo_state_read demo_state_intended demo_state_acknowledged
  by (simp_all add: demo_state_def)

lemma demo_owned: "owned env demo_token (Some (demo_claim k i)) \<longleftrightarrow> sha env (TokenDoc 50) = dig (CHR ''2'')"
  by (auto simp: owned_def demo_token_def)

lemma demo_read_run: "begin_read (demo_env 6) demo_worker demo_token demo_claimed = (Inr True, demo_read)"
proof -
  have "execution_blocking (demo_env 6) demo_claimed demo_execution (seconds 60) = Inr []"
    by (rule demo_execution_blocking [OF demo_authorized_states(1)]) simp_all
  moreover have "\<not> seconds 342 \<le> seconds 61" "\<not> seconds 81 \<le> seconds 61" by (simp_all add: seconds_def)
  ultimately have "begin_read_work (demo_env 6) demo_worker demo_token demo_row demo_execution
      [demo_view1, demo_view2] (Some (demo_claim 0 None)) (demo_reservation (Some 40)) (seconds 60)
      \<lparr>wk_db = demo_claimed, wk_ticks = Suc 0, wk_ids = 0\<rparr> =
    Inr (True, \<lparr>wk_db = demo_read, wk_ticks = 2, wk_ids = 0\<rparr>)"
    by (simp add: begin_read_work_def demo_owned demo_last_phases reevaluate_def act_defs set_claim_def Let_def)
      (simp add: demo_read_def demo_claimed_def modify_rows_def demo_claim_def)
  then show ?thesis
    unfolding begin_read_def
    using demo_locked [OF demo_state_claimed, of "\<lparr>wk_db = demo_read, wk_ticks = 2, wk_ids = 0\<rparr>"
        _ _ _ "begin_read_work (demo_env 6) demo_worker demo_token" 6] demo_state_read
    by (simp add: demo_token_def)
qed

lemma demo_append_intent:
  "append_entry (demo_env 7) demo_worker demo_row demo_execution EK_WRITE_INTENT (seconds 71) intent_args
     \<lparr>wk_db = demo_read, wk_ticks = t, wk_ids = 0\<rparr> =
   Inr (demo_intent_entry, \<lparr>wk_db = demo_intended\<lparr>db_claims := [demo_claim 1 None]\<rparr>, wk_ticks = t, wk_ids = 2\<rparr>)"
proof -
  have ev: "events_of demo_sha demo_read demo_row demo_execution = Inr [demo_view1, demo_view2]"
    using demo_state_read by (simp add: demo_state_def)
  show ?thesis
    using demo_append [OF ev, of EK_WRITE_INTENT PH_WRITE_INTENT demo_intent_entry 7 0 "seconds 71" intent_args t]
      demo_new_keys(2)
    by (simp add: demo_last_phases worker_phase_def demo_entries_valid demo_entries_checked demo_event_rows
      new_key_def human_kind_def demo_intent_entry_def [symmetric])
      (simp add: demo_intended_def demo_read_def demo_claimed_def add_entry_def demo_claimed_entry_def demo_view2_def)
qed

lemma demo_intent_run:
  "write_intent (demo_env 7) demo_worker demo_token demo_observation (Aware (seconds 65)) demo_read =
     (Inr True, demo_intended)"
proof -
  have "execution_blocking (demo_env 7) demo_read demo_execution (seconds 70) = Inr []"
    by (rule demo_execution_blocking [OF demo_authorized_states(2)]) simp_all
  moreover have "\<not> seconds 342 \<le> seconds 71" "\<not> seconds 81 \<le> seconds 71" "\<not> seconds 65 < seconds 51"
    by (simp_all add: seconds_def)
  moreover have "je_created_at (ev_content demo_view2) = seconds 51"
    by (simp add: demo_view2_def demo_claimed_entry_def)
  moreover have "observation_matches demo_observation demo_baseline"
    by (simp add: observation_matches_def demo_observation_def)
  moreover have "we_event_id demo_intent_entry = 70" by (simp add: demo_intent_entry_def)
  ultimately have "write_intent_work (demo_env 7) demo_worker demo_token demo_observation (Aware (seconds 65))
      demo_row demo_execution [demo_view1, demo_view2] (Some (demo_claim 1 None)) (demo_reservation (Some 40))
      (seconds 70) \<lparr>wk_db = demo_read, wk_ticks = Suc 0, wk_ids = 0\<rparr> =
    Inr (True, \<lparr>wk_db = demo_intended, wk_ticks = 2, wk_ids = 2\<rparr>)"
    by (simp add: write_intent_work_def demo_owned demo_last_phases reevaluate_def act_defs set_claim_def
      observed_before_def intent_args_def [symmetric] demo_append_intent)
      (simp add: demo_intended_def modify_rows_def demo_claim_def)
  moreover have "valid_observation demo_observation"
    by (simp add: valid_observation_def demo_observation_def)
  ultimately show ?thesis
    unfolding write_intent_def
    using demo_locked [OF demo_state_read, of "\<lparr>wk_db = demo_intended, wk_ticks = 2, wk_ids = 2\<rparr>" _ _ _
        "write_intent_work (demo_env 7) demo_worker demo_token demo_observation (Aware (seconds 65))" 7]
      demo_state_intended
    by (simp add: demo_token_def)
qed

lemma demo_append_receipt:
  "append_entry (demo_env 8) demo_worker demo_row demo_execution EK_ACKNOWLEDGED (seconds 80)
     (no_args\<lparr>aa_request_id := Some ''req-1''\<rparr>) \<lparr>wk_db = demo_intended, wk_ticks = t, wk_ids = 0\<rparr> =
   Inr (demo_receipt_entry,
     \<lparr>wk_db = demo_acknowledged\<lparr>db_reservations := [demo_reservation (Some 40)]\<rparr>, wk_ticks = t, wk_ids = 2\<rparr>)"
proof -
  have ev: "events_of demo_sha demo_intended demo_row demo_execution = Inr [demo_view1, demo_view2, demo_view3]"
    using demo_state_intended by (simp add: demo_state_def)
  show ?thesis
    using demo_append [OF ev, of EK_ACKNOWLEDGED PH_ACKNOWLEDGED demo_receipt_entry 8 0 "seconds 80"
        "no_args\<lparr>aa_request_id := Some ''req-1''\<rparr>" t] demo_new_keys(3)
    by (simp add: demo_last_phases worker_phase_def demo_entries_valid demo_entries_checked demo_event_rows
      new_key_def human_kind_def demo_receipt_entry_def [symmetric])
      (simp add: demo_acknowledged_def demo_intended_def add_entry_def demo_claimed_entry_def
        demo_intent_entry_def demo_view2_def demo_view3_def)
qed

lemma demo_acknowledge_run:
  "acknowledge (demo_env 8) demo_worker demo_token ''req-1'' demo_intended = (Inr True, demo_acknowledged)"
proof -
  have "we_phase demo_receipt_entry = PH_ACKNOWLEDGED" by (simp add: demo_receipt_entry_def)
  then have "acknowledge_work (demo_env 8) demo_worker demo_token ''req-1'' demo_row demo_execution
      [demo_view1, demo_view2, demo_view3] (Some (demo_claim 1 (Some 70))) (demo_reservation (Some 40))
      (seconds 80) \<lparr>wk_db = demo_intended, wk_ticks = Suc 0, wk_ids = 0\<rparr> =
    Inr (True, \<lparr>wk_db = demo_acknowledged, wk_ticks = Suc 0, wk_ids = 2\<rparr>)"
    by (simp add: acknowledge_work_def demo_owned act_defs demo_append_receipt set_reservation_def
      demo_view2_def demo_view3_def demo_claimed_entry_def demo_intent_entry_def)
      (simp add: demo_acknowledged_def modify_rows_def demo_reservation_def)
  then show ?thesis
    unfolding acknowledge_def
    using demo_locked [OF demo_state_intended, of "\<lparr>wk_db = demo_acknowledged, wk_ticks = Suc 0, wk_ids = 2\<rparr>" _ _ _
        "acknowledge_work (demo_env 8) demo_worker demo_token ''req-1''" 8] demo_state_acknowledged
    by (simp add: demo_token_def)
qed

end
