(* ===== verification/Remediation_System.thy ===== *)
theory Remediation_System
  imports Scenario
begin

text \<open>
  The remediation system as a whole: its step relation (one rule per public operation of the
  three services, with any caller, clock and scope, and one rule for the rest of the
  application), the databases reachable from an empty workflow, and what holds in each of them.
\<close>

section \<open>Steps and reachable databases\<close>

text \<open>Before the first proposal: any accepted history, no workflow rows.\<close>

definition fresh_db :: "db \<Rightarrow> bool" where
  "fresh_db d =
     (db_proposals d = [] \<and> db_decisions d = [] \<and> db_requests d = [] \<and> db_executions d = [] \<and>
      db_events d = [] \<and> db_reservations d = [] \<and> db_claims d = [])"

text \<open>
  The rest of the application (scans, governance) rewrites findings, exceptions and history and
  appends audit events; no other module writes the workflow tables.
\<close>

definition application_step :: "db \<Rightarrow> db \<Rightarrow> bool" where
  "application_step d d' =
     (db_proposals d' = db_proposals d \<and> db_decisions d' = db_decisions d \<and>
      db_requests d' = db_requests d \<and> db_executions d' = db_executions d \<and>
      db_events d' = db_events d \<and> db_reservations d' = db_reservations d \<and>
      db_claims d' = db_claims d \<and> prefix (db_audits d) (db_audits d'))"

text \<open>
  A call of a service, with any caller, arguments, clock and scope; the flag says whether it
  raised.
\<close>

inductive service_call :: "(document \<Rightarrow> digest) \<Rightarrow> db \<Rightarrow> bool \<Rightarrow> db \<Rightarrow> bool" for h where
  call_propose: "sha env = h \<Longrightarrow> propose env q p key d = (res, d') \<Longrightarrow> service_call h d (isl res) d'"
| call_decide: "sha env = h \<Longrightarrow> decide env pid dq p key d = (res, d') \<Longrightarrow> service_call h d (isl res) d'"
| call_revoke: "sha env = h \<Longrightarrow> revoke env pid bq p key d = (res, d') \<Longrightarrow> service_call h d (isl res) d'"
| call_admit: "sha env = h \<Longrightarrow> admit env s pid bq p key d = (xres, d') \<Longrightarrow> service_call h d (isl xres) d'"
| call_claim: "sha env = h \<Longrightarrow> claim env ws eid d = (tres, d') \<Longrightarrow> service_call h d (isl tres) d'"
| call_begin_read: "sha env = h \<Longrightarrow> begin_read env ws t d = (bres, d') \<Longrightarrow> service_call h d (isl bres) d'"
| call_no_write: "sha env = h \<Longrightarrow> no_write env ws t rsn ob oat d = (bres, d') \<Longrightarrow> service_call h d (isl bres) d'"
| call_write_intent: "sha env = h \<Longrightarrow> write_intent env ws t obs at d = (bres, d') \<Longrightarrow> service_call h d (isl bres) d'"
| call_acknowledge: "sha env = h \<Longrightarrow> acknowledge env ws t rid d = (bres, d') \<Longrightarrow> service_call h d (isl bres) d'"
| call_quarantine: "sha env = h \<Longrightarrow> quarantine env ws eid rsn d = (bres, d') \<Longrightarrow> service_call h d (isl bres) d'"
| call_begin_readback: "sha env = h \<Longrightarrow> begin_readback env ws eid d = (rres, d') \<Longrightarrow> service_call h d (isl rres) d'"
| call_record: "sha env = h \<Longrightarrow> record_observation env ws eid obo polls d = (bres, d') \<Longrightarrow> service_call h d (isl bres) d'"

definition remediation_step :: "(document \<Rightarrow> digest) \<Rightarrow> db \<Rightarrow> db \<Rightarrow> bool" where
  "remediation_step h d d' = ((\<exists>failed. service_call h d failed d') \<or> application_step d d')"

definition reachable :: "(document \<Rightarrow> digest) \<Rightarrow> db \<Rightarrow> bool" where
  "reachable h d = (\<exists>s. fresh_db s \<and> (remediation_step h)\<^sup>*\<^sup>* s d)"

lemma fresh_inv: "fresh_db d \<Longrightarrow> system_inv h d"
  by (simp add: fresh_db_def system_inv_def authority_inv_def execution_inv_def reservations_ok_def
    claims_ok_def held_count_def reservations_backed_def)

lemma application_inv:
  assumes "application_step d d'" "system_inv h d"
  shows "system_inv h d'"
proof -
  from assms(1) obtain as where s: "db_proposals d' = db_proposals d" "db_decisions d' = db_decisions d"
    "db_executions d' = db_executions d" "db_events d' = db_events d"
    "db_reservations d' = db_reservations d" "db_claims d' = db_claims d" "db_audits d' = db_audits d @ as"
    by (auto simp: application_step_def prefix_def)
  have g: "authority_grows d d'" by (simp add: authority_grows_def s)
  have dd: "distinct (map de_id (db_decisions d'))"
    using assms(2) by (simp add: s system_inv_def authority_inv_def)
  have v: "valid_execution h d' r c vs" if "valid_execution h d r c vs" for r c vs
    by (rule valid_execution_frame [OF that g dd s(7)])
      (simp_all add: s event_rows_of_def claim_of_def reservation_at_def)
  have b: "reservations_backed h d'"
    using assms(2) content_frame [OF _ g dd]
    unfolding reservations_backed_def system_inv_def execution_inv_def s by meson
  show ?thesis
    using assms(2) v b
    unfolding system_inv_def authority_inv_def execution_inv_def decision_separated_def held_count_def s
    by blast
qed

lemma service_call_inv:
  assumes "service_call h d failed d'" "system_inv h d"
  shows "system_inv h d'"
  using assms(1)
  by cases (use assms(2) in \<open>blast intro: propose_inv decide_inv revoke_inv admit_inv claim_inv begin_read_inv
    no_write_inv write_intent_inv acknowledge_inv quarantine_inv begin_readback_inv record_observation_inv\<close>)+

lemma remediation_step_inv: "system_inv h d \<Longrightarrow> remediation_step h d d' \<Longrightarrow> system_inv h d'"
  using service_call_inv application_inv by (auto simp: remediation_step_def)

interpretation remediation: event_system fresh_db "remediation_step h" "system_inv h" for h
  by unfold_locales (fact fresh_inv, fact remediation_step_inv)

lemma reachable_inv: "reachable h d \<Longrightarrow> system_inv h d"
  using remediation.inv_reachable by (auto simp: reachable_def)

lemma call_step: "service_call h d failed d' \<Longrightarrow> remediation_step h d d'"
  by (auto simp: remediation_step_def)

lemma reachable_step: "reachable h d \<Longrightarrow> remediation_step h d d' \<Longrightarrow> reachable h d'"
  unfolding reachable_def by (meson rtranclp.rtrancl_into_rtrancl)

section \<open>The scenario is reachable\<close>

lemma demo_reachable:
  "reachable demo_sha demo_start" "reachable demo_sha demo_proposed" "reachable demo_sha demo_approved"
  "reachable demo_sha demo_admitted" "reachable demo_sha demo_claimed" "reachable demo_sha demo_read"
  "reachable demo_sha demo_intended" "reachable demo_sha demo_acknowledged"
proof -
  have sha: "sha (demo_env n) = demo_sha" for n by simp
  show 0: "reachable demo_sha demo_start"
    unfolding reachable_def by (rule exI [of _ demo_start]) (simp add: fresh_db_def demo_start_def)
  show 1: "reachable demo_sha demo_proposed"
    using demo_propose call_propose [OF sha] reachable_step [OF 0 call_step] unfolding call_propose_def by blast
  show 2: "reachable demo_sha demo_approved"
    using demo_approve call_decide [OF sha] reachable_step [OF 1 call_step] unfolding call_approve_def by blast
  show 3: "reachable demo_sha demo_admitted"
    using demo_admit call_admit [OF sha] reachable_step [OF 2 call_step]
    unfolding call_admit_def demo_admission_def by blast
  show 4: "reachable demo_sha demo_claimed"
    using demo_claim_run call_claim [OF sha] reachable_step [OF 3 call_step] unfolding call_claim_def by blast
  show 5: "reachable demo_sha demo_read"
    using demo_read_run call_begin_read [OF sha] reachable_step [OF 4 call_step] by blast
  show 6: "reachable demo_sha demo_intended"
    using demo_intent_run call_write_intent [OF sha] reachable_step [OF 5 call_step] by blast
  show "reachable demo_sha demo_acknowledged"
    using demo_acknowledge_run call_acknowledge [OF sha] reachable_step [OF 6 call_step] by blast
qed

section \<open>Facts on a valid execution\<close>

lemma check_events_kinds:
  "check_events h d r c i prev rows = Some vs \<Longrightarrow> map (\<lambda>v. je_kind (ev_content v)) vs = map ee_kind rows"
proof (induction rows arbitrary: i prev vs)
  case Nil
  then show ?case by simp
next
  case (Cons ev rows)
  then obtain v ws where v: "check_entry h d r c i prev ev = Some v"
    "check_events h d r c (Suc i) (Some v) rows = Some ws" "vs = v # ws"
    by (auto split: option.splits)
  then have "je_kind (ev_content v) = ee_kind ev"
    by (auto dest!: check_entry_SomeD(2) simp: row_agrees_def)
  then show ?case using Cons.IH [OF v(2)] v(3) by simp
qed

lemma events_count:
  assumes "events_of h d r c = Inr vs"
  shows "length (filter (\<lambda>e. ee_execution_id e = ex_id r \<and> ee_kind e = k) (db_events d)) =
    length (events_with_kind k vs)"
proof -
  have kinds: "count (mset (map ee_kind (filter (\<lambda>e. ee_execution_id e = i) xs))) k =
      length (filter (\<lambda>e. ee_execution_id e = i \<and> ee_kind e = k) xs)" for xs i
    by (induction xs) (auto simp: count_mset)
  have "length (events_with_kind k vs) = count_list (map (\<lambda>v. je_kind (ev_content v)) vs) k"
    unfolding events_with_kind_def by (induction vs) auto
  also have "\<dots> = count_list (map ee_kind (event_rows_of d (ex_id r))) k"
    by (simp only: check_events_kinds [OF events_ofD(1) [OF assms]])
  also have "\<dots> = count (mset (map ee_kind (event_rows_of d (ex_id r)))) k"
    by (simp only: count_mset count_list_eq_length_filter)
  also have "\<dots> = count (mset (map ee_kind (filter (\<lambda>e. ee_execution_id e = ex_id r) (db_events d)))) k"
    by (simp only: event_rows_of_def mset_map mset_sort)
  also have "\<dots> = length (filter (\<lambda>e. ee_execution_id e = ex_id r \<and> ee_kind e = k) (db_events d))"
    by (rule kinds)
  finally show ?thesis by simp
qed

text \<open>The three humans of an execution, from its own content and the decision it names.\<close>

lemma valid_execution_humans:
  assumes inv: "authority_inv h d" and c: "execution_content_of h d r = Inr c"
  shows "distinct [actor_key (pc_proposer (xc_proposal c)), actor_key (dv_actor (xc_approval c)),
    actor_key (xc_requested_by c)]"
proof -
  from c obtain p acc ap v where x: "proposal_of d (ex_proposal_id r) False = Inr p"
    "proposal_content_of h p = Inr acc"
    "find_row de_id (ex_approval_id r) (decisions_of d (ex_proposal_id r)) = Some ap"
    "decision_view_of ap = Inr v" "binds_approval h c p acc v" "binds_requester h r c acc ap"
    unfolding execution_content_Inr_iff by blast
  have ap: "ap \<in> set (db_decisions d)" "de_proposal_id ap = ex_proposal_id r"
    using x(3) find_decision inv by (auto simp: authority_inv_def)
  have v: "actor_key (dv_actor v) = (de_actor_issuer ap, de_actor_subject ap)" "dv_kind v = de_kind ap"
    using x(4) by (auto simp: decision_view_of_def make_decision_view_def actor_key_def split: if_splits option.splits)
  have "initial_decision ap" using x(5) v(2) by (auto simp: binds_approval_def initial_decision_def)
  moreover have "find_row rp_id (de_proposal_id ap) (db_proposals d) = Some p"
    using x(1) ap(2) by (auto simp: proposal_of_def split: option.splits)
  ultimately have "(de_actor_issuer ap, de_actor_subject ap) \<noteq> actor_key (pc_proposer acc)"
    using inv ap(1) x(2) unfolding authority_inv_def decision_separated_def by fastforce
  then show ?thesis
    using x(5,6) v(1) by (auto simp: binds_approval_def binds_requester_def Let_def)
qed

section \<open>Safety of every reachable database\<close>

text \<open>C4. Every execution of every reachable database passes the services' own revalidation: its
  content against its proposal and approval, its hash-chained journal against the claim and the
  audit events, and its target's reservation, which it holds exactly in the held phases.\<close>

theorem executions_always_validate:
  assumes "reachable h d" "r \<in> set (db_executions d)"
  shows "\<exists>c vs rv. execution_content_of h d r = Inr c \<and> events_of h d r c = Inr vs \<and> vs \<noteq> [] \<and>
    reservation_of d (pc_account_id (xc_proposal c)) (pc_region (xc_proposal c)) = Some rv \<and>
    rv_resource_id rv = pc_resource_id (xc_proposal c) \<and>
    (rv_execution_id rv = Some (ex_id r)) = held_phase (last_phase vs)"
proof -
  obtain c vs where "valid_execution h d r c vs"
    using reachable_inv [OF assms(1)] assms(2) by (auto simp: system_inv_def execution_inv_def)
  then show ?thesis
    using events_ofD(2) by (fastforce simp: valid_execution_def reservation_of_at target_of_def)
qed

lemma executions_always_validate_witness:
  "\<exists>c vs rv. execution_content_of demo_sha demo_intended demo_row = Inr c \<and>
    events_of demo_sha demo_intended demo_row c = Inr vs \<and> vs \<noteq> [] \<and>
    reservation_of demo_intended (pc_account_id (xc_proposal c)) (pc_region (xc_proposal c)) = Some rv \<and>
    rv_resource_id rv = pc_resource_id (xc_proposal c) \<and>
    (rv_execution_id rv = Some (ex_id demo_row)) = held_phase (last_phase vs)"
  using executions_always_validate [OF demo_reachable(7), of demo_row] demo_state_intended
  by (simp add: demo_state_def)

text \<open>C7. Separation of duties: the proposer, the approver and the requester of every retained
  execution are three different humans (issuer and subject).\<close>

theorem three_distinct_humans:
  assumes "reachable h d" "r \<in> set (db_executions d)" "execution_content_of h d r = Inr c"
  shows "distinct [actor_key (pc_proposer (xc_proposal c)), actor_key (dv_actor (xc_approval c)),
    actor_key (xc_requested_by c)]"
  by (rule valid_execution_humans [OF _ assms(3)])
    (use reachable_inv [OF assms(1)] in \<open>simp add: system_inv_def\<close>)

lemma three_distinct_humans_witness:
  "distinct [actor_key (pc_proposer (xc_proposal demo_execution)), actor_key (dv_actor (xc_approval demo_execution)),
    actor_key (xc_requested_by demo_execution)]"
proof (rule three_distinct_humans [OF demo_reachable(7)])
  show "demo_row \<in> set (db_executions demo_intended)" using demo_state_intended by (simp add: demo_state_def)
  show "execution_content_of demo_sha demo_intended demo_row = Inr demo_execution"
    by (rule demo_execution_content [OF demo_authorized_states(3)])
qed

lemma one_intent:
  assumes "reachable h d" "r \<in> set (db_executions d)"
  shows "length (filter (\<lambda>e. ee_execution_id e = ex_id r \<and> ee_kind e = EK_WRITE_INTENT) (db_events d)) \<le> 1"
proof -
  obtain c vs where "events_of h d r c = Inr vs"
    using reachable_inv [OF assms(1)] assms(2)
    by (auto simp: system_inv_def execution_inv_def valid_execution_def)
  then show ?thesis
    using events_count events_ofD(3) by (fastforce simp: claim_matches_def Let_def)
qed

text \<open>C6. No execution ever has two write intents in its journal, whatever the interleaving of
  claims, crashes, replacements and retries.\<close>

theorem at_most_one_write_intent:
  assumes "reachable h d" "r \<in> set (db_executions d)"
  shows "length (filter (\<lambda>e. ee_execution_id e = ex_id r \<and> ee_kind e = EK_WRITE_INTENT) (db_events d)) \<le> 1"
  by (rule one_intent [OF assms])

lemma at_most_one_write_intent_witness:
  "length (filter (\<lambda>e. ee_execution_id e = ex_id demo_row \<and> ee_kind e = EK_WRITE_INTENT)
    (db_events demo_acknowledged)) \<le> 1"
  by (rule at_most_one_write_intent [OF demo_reachable(8)])
    (use demo_state_acknowledged in \<open>simp add: demo_state_def\<close>)

text \<open>C9. Two executions of one target (account and Region) are never both in a held phase: while
  one is queued, claimed, intended or quarantined, no other can act on the target.\<close>

theorem target_held_by_one:
  assumes "reachable h d" "r1 \<in> set (db_executions d)" "r2 \<in> set (db_executions d)"
    and "execution_content_of h d r1 = Inr c1" "execution_content_of h d r2 = Inr c2"
    and "events_of h d r1 c1 = Inr vs1" "events_of h d r2 c2 = Inr vs2"
    and "held_phase (last_phase vs1)" "held_phase (last_phase vs2)"
    and "pc_account_id (xc_proposal c1) = pc_account_id (xc_proposal c2)"
    and "pc_region (xc_proposal c1) = pc_region (xc_proposal c2)"
  shows "r1 = r2"
proof -
  have inv: "execution_inv h d" using reachable_inv [OF assms(1)] by (simp add: system_inv_def)
  have v: "valid_execution h d r1 c1 vs1" "valid_execution h d r2 c2 vs2"
    using inv assms(2-7) by (auto simp: execution_inv_def valid_execution_def)
  have "target_of c1 = target_of c2" using assms(10,11) by (simp add: target_of_def)
  then have "ex_id r1 = ex_id r2" using v assms(8,9) unfolding valid_execution_def by fastforce
  then show ?thesis using inv assms(2,3) by (auto simp: execution_inv_def distinct_map inj_on_def)
qed

lemma target_held_by_one_witness:
  "\<exists>r1 \<in> set (db_executions demo_intended). \<exists>r2 \<in> set (db_executions demo_intended). r1 = r2"
proof -
  have m: "demo_row \<in> set (db_executions demo_intended)" using demo_state_intended by (simp add: demo_state_def)
  have c: "execution_content_of demo_sha demo_intended demo_row = Inr demo_execution"
    by (rule demo_execution_content [OF demo_authorized_states(3)])
  have e: "events_of demo_sha demo_intended demo_row demo_execution = Inr [demo_view1, demo_view2, demo_view3]"
    using demo_state_intended by (simp add: demo_state_def)
  have p: "held_phase (last_phase [demo_view1, demo_view2, demo_view3])"
    by (simp add: demo_last_phases held_phase_def)
  have "demo_row = demo_row"
    by (rule target_held_by_one [OF demo_reachable(7) m m c c e e p p]) simp_all
  then show ?thesis using m by blast
qed

text \<open>C22. At most 32 targets are reserved at any time, and every reserved target belongs to a
  retained, valid execution that is in a held phase.\<close>

theorem reservations_bounded_and_backed:
  assumes "reachable h d"
  shows "length (filter (\<lambda>v. rv_execution_id v \<noteq> None) (db_reservations d)) \<le> 32 \<and>
    (\<forall>v\<in>set (db_reservations d). \<forall>e. rv_execution_id v = Some e \<longrightarrow>
       (\<exists>r\<in>set (db_executions d). \<exists>c vs. ex_id r = e \<and> execution_content_of h d r = Inr c \<and>
          events_of h d r c = Inr vs \<and> held_phase (last_phase vs) \<and>
          pc_account_id (xc_proposal c) = rv_account_id v \<and> pc_region (xc_proposal c) = rv_region v))"
proof (intro conjI ballI allI impI)
  have inv: "execution_inv h d" using reachable_inv [OF assms] by (simp add: system_inv_def)
  then show "length (filter (\<lambda>v. rv_execution_id v \<noteq> None) (db_reservations d)) \<le> 32"
    by (simp add: execution_inv_def held_count_def admission_capacity_def)
  fix v e assume v: "v \<in> set (db_reservations d)" "rv_execution_id v = Some e"
  then obtain r c where r: "r \<in> set (db_executions d)" "ex_id r = e" "execution_content_of h d r = Inr c"
    "target_of c = (rv_account_id v, rv_region v)"
    using inv unfolding execution_inv_def reservations_backed_def by blast
  obtain vs where val: "valid_execution h d r c vs"
    using inv r(1,3) by (auto simp: execution_inv_def valid_execution_def)
  have "reservation_at d (target_of c) = Some v"
    using inv v(1) r(4) find_row_distinct [of "\<lambda>r. (rv_account_id r, rv_region r)" "db_reservations d" v]
    by (auto simp: execution_inv_def reservations_ok_def reservation_at_def)
  then have "held_phase (last_phase vs)" using val v(2) r(2) by (auto simp: valid_execution_def)
  then show "\<exists>r\<in>set (db_executions d). \<exists>c vs. ex_id r = e \<and> execution_content_of h d r = Inr c \<and>
      events_of h d r c = Inr vs \<and> held_phase (last_phase vs) \<and>
      pc_account_id (xc_proposal c) = rv_account_id v \<and> pc_region (xc_proposal c) = rv_region v"
    using r val by (auto simp: valid_execution_def target_of_def)
qed

lemma reservations_bounded_and_backed_witness:
  "length (filter (\<lambda>v. rv_execution_id v \<noteq> None) (db_reservations demo_intended)) = 1 \<and>
   length (filter (\<lambda>v. rv_execution_id v \<noteq> None) (db_reservations demo_intended)) \<le> 32"
  using reservations_bounded_and_backed [OF demo_reachable(7)] demo_state_intended
  by (simp add: demo_state_def demo_reservation_def)

end
