(* ===== verification/Service_History.thy ===== *)
theory Service_History
  imports Remediation_System
begin

text \<open>
  What every call of the three services leaves alone: a call that raises changes nothing; a
  call that returns appends to the retained tables and never edits a finding, an exception or
  the assessment history.
\<close>

section \<open>Frame rules for case distinctions\<close>

context act_frame
begin

lemma keeps_branches [intro]:
  "(b \<Longrightarrow> keeps m) \<Longrightarrow> (\<not> b \<Longrightarrow> keeps m') \<Longrightarrow> keeps (if b then m else m')"
  "(x = None \<Longrightarrow> keeps m) \<Longrightarrow> (\<And>y. keeps (f y)) \<Longrightarrow> keeps (case x of None \<Rightarrow> m | Some y \<Rightarrow> f y)"
  "(\<And>y z. keeps (g y z)) \<Longrightarrow> keeps (case p of (y, z) \<Rightarrow> g y z)"
  "keeps m \<Longrightarrow> (\<And>y ys. keeps (k y ys)) \<Longrightarrow> keeps (case xs of [] \<Rightarrow> m | y # ys \<Rightarrow> k y ys)"
  by (simp_all split: option.split prod.split list.split)

lemma keeps_flush [intro]: "keeps flush"
  unfolding flush_def by (intro keeps_bnd keeps_pure)

lemma keeps_act_map: "(\<And>x. keeps (f x)) \<Longrightarrow> keeps (act_map f xs)"
  by (induction xs) auto

end

section \<open>Relations every service respects\<close>

text \<open>The three ways a loaded claim row changes: counters only count up, the key stays.\<close>

definition claim_update :: "(claim_row \<Rightarrow> claim_row) \<Rightarrow> bool" where
  "claim_update f =
     (\<forall>w. wc_execution_id (f w) = wc_execution_id w \<and> wc_generation w \<le> wc_generation (f w) \<and>
          wc_read_attempts w \<le> wc_read_attempts (f w) \<and> wc_readback_attempts w \<le> wc_readback_attempts (f w))"

lemma claim_updates [simp]:
  "claim_update (\<lambda>w. w\<lparr>wc_read_attempts := Suc (wc_read_attempts w)\<rparr>)"
  "claim_update (\<lambda>w. w\<lparr>wc_intent_event_id := i\<rparr>)"
  "claim_update (\<lambda>w. w\<lparr>wc_readback_started := t\<rparr>)"
  "claim_update (\<lambda>w. w\<lparr>wc_readback_attempts := Suc (wc_readback_attempts w)\<rparr>)"
  "claim_update (\<lambda>w. w\<lparr>wc_token_sha := x, wc_generation := Suc (wc_generation w), wc_lease_until := u\<rparr>)"
  by (simp_all add: claim_update_def)

text \<open>
  The primitive writes of the services. A relation that they respect is respected by every public
  operation, and an operation that raises changes nothing.
\<close>

locale service_frame = act_frame R for R :: "db \<Rightarrow> db \<Rightarrow> bool" +
  assumes writes: "keeps (insert_audit a)" "keeps (insert_proposal p)" "keeps (insert_decision r)"
    "keeps (insert_request q)" "keeps (insert_execution x)" "keeps (insert_event e)" "keeps (set_reservation i o')"
    and claim_writes: "claim_update f \<Longrightarrow> keeps (set_claim i f)"
    and new_rows: "keeps (reserve_target env rvo c eid)" "keeps (store_claim env s eid token until cl)"
begin

lemma claim_counters [intro]:
  "keeps (set_claim i (\<lambda>w. w\<lparr>wc_read_attempts := Suc (wc_read_attempts w)\<rparr>))"
  "keeps (set_claim i (\<lambda>w. w\<lparr>wc_intent_event_id := e\<rparr>))"
  "keeps (set_claim i (\<lambda>w. w\<lparr>wc_readback_started := t\<rparr>))"
  "keeps (set_claim i (\<lambda>w. w\<lparr>wc_readback_attempts := Suc (wc_readback_attempts w)\<rparr>))"
  by (simp_all add: claim_writes)

lemmas keeps_intros = keeps_bnd keeps_pure keeps_branches writes claim_counters new_rows keeps_flush keeps_for_each

lemma keeps_views [intro]:
  "keeps (view_of env r)" "keeps (execution_view_of env x)"
  unfolding view_of_def execution_view_of_def Let_def by (intro keeps_intros)+

lemma keeps_audit [intro]:
  "keeps (append_audit_event env ty tt tid at aty aid meta)"
  unfolding append_audit_event_def Let_def by (intro keeps_intros)

lemma keeps_replay [intro]:
  "keeps (replay env a op key digest)" "keeps (replay_execution env a key digest)"
  unfolding replay_def replay_execution_def by (intro keeps_intros keeps_views)+

lemma keeps_callbacks [intro]:
  assumes "keeps rep"
  shows "keeps (propose_write env pq a rep)" "keeps (decide_write env pid dq a rep)"
    "keeps (revoke_write env pid bq a rep)"
  unfolding propose_write_def propose_new_def decide_write_def revoke_write_def write_decision_def
    audit_remediation_def Let_def
  by (intro keeps_intros keeps_views keeps_audit assms)+

lemma keeps_written [intro]: "(\<And>r. keeps (f r)) \<Longrightarrow> (\<And>p dec. keeps (g p dec)) \<Longrightarrow>
    keeps (case out of Replayed r \<Rightarrow> f r | Wrote p dec \<Rightarrow> g p dec)"
  by (cases out) auto

lemma keeps_mutate_body:
  assumes "\<And>rep. keeps rep \<Longrightarrow> keeps (wr a rep)"
  shows "keeps (mutate_body env op key digest a wr)"
  unfolding mutate_body_def record_request_def
  by (intro keeps_intros keeps_views keeps_replay keeps_written assms)

lemma mutate_kept:
  assumes "mutate env op key doc p c wr d = (res, d')"
    and "\<And>a rep. keeps rep \<Longrightarrow> keeps (wr a rep)"
  shows "R d d' \<and> (isl res \<longrightarrow> d' = d)"
proof (cases "actor_of p c")
  case (Inr a)
  let ?body = "mutate_body env op key (sha env doc) a wr" and ?rep = "replay env a op key (sha env doc)"
  have body: "transact ?body d = (r, e) \<Longrightarrow> R d e" for r e
    by (rule keeps_transact [OF keeps_mutate_body [OF assms(2)]])
  have rep: "transact ?rep d = (r, e) \<Longrightarrow> R d e" for r e
    by (rule keeps_transact [OF keeps_replay(1)])
  have "R d d" by (rule frame_refl)
  then show ?thesis
    using assms(1) Inr body rep tables.rollback
    by (fastforce simp: mutate_def split: sum.splits prod.splits failure.splits option.splits if_splits)
qed (use assms(1) frame_refl in \<open>auto simp: mutate_def\<close>)

lemma keeps_journal [intro]: "keeps (journal env r a at kind reasons)"
  unfolding journal_def write_entry_def Let_def by (intro keeps_intros keeps_audit)

lemma keeps_admission [intro]:
  "keeps (reap_expired env a at)" "keeps (check_authority env s q a p v at)"
  "keeps (release_target env a at c rvo)" "keeps (admit_new env pid a at digest rvo c x)"
proof -
  show "keeps (reap_expired env a at)"
    unfolding reap_expired_def reap_one_def by (intro keeps_intros keeps_journal)
  show "keeps (check_authority env s q a p v at)"
    unfolding check_authority_def by (intro keeps_intros)
  show "keeps (release_target env a at c rvo)"
    unfolding release_target_def by (intro keeps_intros keeps_journal)
  show "keeps (admit_new env pid a at digest rvo c x)"
    unfolding admit_new_def Let_def by (intro keeps_intros keeps_journal keeps_views)
qed

lemma keeps_admit_body: "keeps (admit_body env s pid q a key digest)"
  unfolding admit_body_def Let_def
  by (intro keeps_intros keeps_admission keeps_replay keeps_views)

lemma commit_kept:
  assumes "keeps m" "commit_or_conflict m d = (res, d')"
  shows "R d d' \<and> (isl res \<longrightarrow> d' = d)"
  using assms keeps_transact [OF assms(1)] commits.rollback frame_refl
  by (cases res) (fastforce simp: commit_or_conflict_Inr)+

lemma keeps_append [intro]:
  "keeps (append_entry env s r c kind at args)"
  "keeps (finish_no_write env s r c rv at args)" "keeps (reevaluate env c at)"
proof -
  show a: "keeps (append_entry env s r c kind at args)" for kind args
    unfolding append_entry_def write_entry_def Let_def by (intro keeps_intros keeps_audit)
  show "keeps (finish_no_write env s r c rv at args)"
    unfolding finish_no_write_def by (intro keeps_intros a)
  show "keeps (reevaluate env c at)"
    unfolding reevaluate_def by (intro keeps_intros)
qed

lemma keeps_work:
  "keeps (claim_work env s eid r c hist cl rv at)"
  "keeps (begin_read_work env s t r c hist cl rv at)"
  "keeps (no_write_work env s t rsn ob oat r c hist cl rv at)"
  "keeps (write_intent_work env s t obs oat' r c hist cl rv at)"
  "keeps (acknowledge_work env s t rid r c hist cl rv at)"
  "keeps (quarantine_work env s rsn r c hist cl rv at)"
  "keeps (begin_readback_work env r c hist cl rv at)"
  "keeps (record_observation_work env s obo polls r c hist cl rv at)"
  unfolding claim_work_def begin_read_work_def no_write_work_def write_intent_work_def acknowledge_work_def
    quarantine_work_def begin_readback_work_def record_observation_work_def Let_def
  by (intro keeps_intros keeps_append)+

lemma locked_kept:
  assumes "locked env s eid wrk d = (res, d')"
    and "\<And>r c hist cl rv at. keeps (wrk r c hist cl rv at)"
  shows "R d d' \<and> (isl res \<longrightarrow> d' = d)"
proof -
  have "keeps (locked_body env s eid wrk)"
    unfolding locked_body_def by (intro keeps_intros assms(2))
  then show ?thesis
    using assms(1) commit_kept [of "locked_body env s eid wrk" d res d'] frame_refl [of d]
    by (auto simp: locked_def split: if_splits)
qed

lemmas worker_kept = locked_kept [OF _ keeps_work(1)] locked_kept [OF _ keeps_work(2)]
  locked_kept [OF _ keeps_work(3)] locked_kept [OF _ keeps_work(5)] locked_kept [OF _ keeps_work(6)]
  locked_kept [OF _ keeps_work(7)] locked_kept [OF _ keeps_work(8)]

lemma service_kept:
  assumes "service_call h d failed d'"
  shows "R d d' \<and> (failed \<longrightarrow> d' = d)"
  using assms
proof cases
  case (call_propose env q p key res)
  then show ?thesis
    using mutate_kept keeps_callbacks(1) frame_refl [of d]
    by (fastforce simp: propose_def split: option.splits)
next
  case (call_decide env pid dq p key res)
  then show ?thesis
    using mutate_kept keeps_callbacks(2) frame_refl [of d]
    by (fastforce simp: decide_def split: option.splits)
next
  case (call_revoke env pid bq p key res)
  then show ?thesis
    using mutate_kept keeps_callbacks(3) frame_refl [of d]
    by (fastforce simp: revoke_def split: option.splits)
next
  case (call_admit env s pid bq p key res)
  then show ?thesis
    using commit_kept [OF keeps_admit_body] frame_refl [of d]
    by (auto simp: admit_def split: if_splits option.splits sum.splits)
next
  case (call_write_intent env ws t obs at bres)
  then show ?thesis
    using locked_kept [of env ws _ "write_intent_work env ws t obs at"] keeps_work(4) frame_refl [of d]
    by (auto simp: write_intent_def split: if_splits)
qed (auto simp: claim_def begin_read_def no_write_def acknowledge_def quarantine_def begin_readback_def
    record_observation_def dest!: worker_kept)

end

section \<open>The retained tables only grow\<close>

definition history_kept :: "db \<Rightarrow> db \<Rightarrow> bool" where
  "history_kept d d' =
     (prefix (db_audits d) (db_audits d') \<and> prefix (db_proposals d) (db_proposals d') \<and>
      prefix (db_decisions d) (db_decisions d') \<and> prefix (db_requests d) (db_requests d') \<and>
      prefix (db_executions d) (db_executions d') \<and> prefix (db_events d) (db_events d') \<and>
      db_findings d' = db_findings d \<and> db_exceptions d' = db_exceptions d \<and>
      db_history d' = db_history d \<and> db_guard d' = db_guard d)"

interpretation history_frame: act_frame history_kept
  by unfold_locales (auto simp: history_kept_def)

interpretation history: service_frame history_kept
proof unfold_locales
  show "history_frame.keeps (reserve_target env rvo c eid)" for env rvo c eid
    unfolding reserve_target_def set_reservation_def
    by (intro history_frame.keeps_bnd history_frame.keeps_pure history_frame.keeps_branches
        history_frame.keeps_flush history_frame.keeps_change; simp add: history_kept_def)
  show "history_frame.keeps (store_claim env s eid token until cl)" for env s eid token until cl
    unfolding store_claim_def set_claim_def
    by (intro history_frame.keeps_branches history_frame.keeps_change; simp add: history_kept_def)
qed (unfold insert_audit_def insert_proposal_def insert_decision_def insert_request_def
    insert_execution_def insert_event_def set_reservation_def set_claim_def,
    (intro history_frame.keeps_bnd history_frame.keeps_pure history_frame.keeps_change; simp add: history_kept_def)+)

lemmas service_call_kept = history.service_kept

section \<open>Claims only count up\<close>

definition claims_grow :: "db \<Rightarrow> db \<Rightarrow> bool" where
  "claims_grow d d' =
     (\<forall>e k. claim_of d e = Some k \<longrightarrow>
        (\<exists>k'. claim_of d' e = Some k' \<and> wc_generation k \<le> wc_generation k' \<and>
           wc_read_attempts k \<le> wc_read_attempts k' \<and> wc_readback_attempts k \<le> wc_readback_attempts k'))"

lemma claims_grow_same: "db_claims d' = db_claims d \<Longrightarrow> claims_grow d d'"
  by (simp add: claims_grow_def claim_of_def)

lemma claims_grow_update:
  assumes "claim_update f"
  shows "claims_grow d (d\<lparr>db_claims := modify_rows wc_execution_id i f (db_claims d)\<rparr>)"
  using assms by (auto simp: claims_grow_def claim_of_def claim_update_def find_row_modify)

interpretation claims_frame: act_frame claims_grow
proof
  show "claims_grow d d" for d by (rule claims_grow_same) simp
  show "claims_grow d1 d2 \<Longrightarrow> claims_grow d2 d3 \<Longrightarrow> claims_grow d1 d3" for d1 d2 d3
    unfolding claims_grow_def by (meson order_trans)
qed

interpretation claims: service_frame claims_grow
proof unfold_locales
  show "claims_frame.keeps (reserve_target env rvo c eid)" for env rvo c eid
    unfolding reserve_target_def set_reservation_def
    by (intro claims_frame.keeps_bnd claims_frame.keeps_pure claims_frame.keeps_branches
        claims_frame.keeps_flush claims_frame.keeps_change; simp add: claims_grow_same)
  show "claims_frame.keeps (store_claim env s eid token until cl)" for env s eid token until cl
    unfolding store_claim_def set_claim_def
    by (intro claims_frame.keeps_branches claims_frame.keeps_change claims_grow_update; simp)
      (auto simp: claims_grow_def claim_of_def find_row_append)
  show "claims_frame.keeps (set_claim i f)" if "claim_update f" for i f
    unfolding set_claim_def by (intro claims_frame.keeps_change claims_grow_update that)
qed (unfold insert_audit_def insert_proposal_def insert_decision_def insert_request_def
    insert_execution_def insert_event_def set_reservation_def,
    (intro claims_frame.keeps_bnd claims_frame.keeps_pure claims_frame.keeps_change; simp add: claims_grow_same)+)

section \<open>What a call leaves alone\<close>

text \<open>C27. Every step of the system, of the services or of the rest of the application, only appends
  to the audit log, the proposals, the decisions, the request ledger, the executions and the
  journal: no retained row is ever changed or removed.\<close>

theorem retained_history_only_grows:
  assumes "remediation_step h d d'"
  shows "prefix (db_audits d) (db_audits d') \<and> prefix (db_proposals d) (db_proposals d') \<and>
    prefix (db_decisions d) (db_decisions d') \<and> prefix (db_requests d) (db_requests d') \<and>
    prefix (db_executions d) (db_executions d') \<and> prefix (db_events d) (db_events d')"
  using assms service_call_kept
  by (fastforce simp: remediation_step_def history_kept_def application_step_def)

lemma retained_history_only_grows_witness:
  "prefix (db_events demo_read) (db_events demo_intended) \<and> db_events demo_read \<noteq> db_events demo_intended"
proof -
  have "service_call demo_sha demo_read False demo_intended"
    using call_write_intent [OF _ demo_intent_run, of demo_sha] by simp
  then have "remediation_step demo_sha demo_read demo_intended" by (rule call_step)
  from retained_history_only_grows [OF this] show ?thesis by (simp add: demo_event_rows)
qed

text \<open>C28. No call of the remediation services edits a finding, a governance exception or the
  accepted assessment history: remediation never writes a technical result.\<close>

theorem services_never_edit_results:
  assumes "service_call h d failed d'"
  shows "db_findings d' = db_findings d \<and> db_exceptions d' = db_exceptions d \<and> db_history d' = db_history d"
  using service_call_kept [OF assms] by (simp add: history_kept_def)

lemma services_never_edit_results_witness:
  "db_findings demo_acknowledged = db_findings demo_intended \<and>
   db_exceptions demo_acknowledged = db_exceptions demo_intended \<and>
   db_history demo_acknowledged = db_history demo_intended"
proof -
  have "service_call demo_sha demo_intended False demo_acknowledged"
    using call_acknowledge [OF _ demo_acknowledge_run, of demo_sha] by simp
  then show ?thesis by (rule services_never_edit_results)
qed

end
