(* ===== verification/Worker_Contracts.thy ===== *)
theory Worker_Contracts
  imports Service_History
begin

text \<open>
  The contracts of the worker operations: when an intent becomes durable, who may act on a
  claim, what an acknowledgment releases, and how far the read budgets reach.
\<close>

section \<open>Inside one transaction\<close>

lemma locked_InrE:
  assumes "locked env s eid wrk d = (Inr a, d')"
  obtains r c hist rv at wa w' where "r \<in> set (db_executions d)" "ex_id r = eid" "wk_db wa = d" "wk_db w' = d'"
    "execution_content_of (sha env) d r = Inr c" "events_of (sha env) d r c = Inr hist"
    "reservation_of d (pc_account_id (xc_proposal c)) (pc_region (xc_proposal c)) = Some rv"
    "(rv_execution_id rv = Some eid) = held_phase (last_phase hist)"
    "Some (pc_account_id (xc_proposal c)) = ws_account_id s"
    "Some (pc_region (xc_proposal c)) = ws_region s" "ws_enabled s" "tick env 0 = Aware at" "wk_ticks wa = 1"
    "wrk r c hist (claim_of d eid) rv at wa = Inr (a, w')"
    "\<And>k. claim_of d eid = Some k \<Longrightarrow> Some (wc_role_arn k) = ws_role_arn s"
proof -
  from assms obtain w' where b: "locked_body env s eid wrk (initial_work d) = Inr (a, w')" "d' = wk_db w'" "ws_enabled s"
    by (auto simp: locked_def transact_Inr split: if_splits)
  show thesis
    by (rule locked_body_Inr [OF b(1)], rule that) (use b in \<open>auto simp: work_pre_def\<close>)
qed

lemma reevaluate_clear:
  "reevaluate env c at w = Inr (([], at'), w') \<longleftrightarrow>
     execution_blocking env (wk_db w) c at = Inr [] \<and> tick env (wk_ticks w) = Aware at' \<and>
     at' < xc_expires_at c \<and> w' = w\<lparr>wk_ticks := Suc (wk_ticks w)\<rparr>"
  by (cases "execution_blocking env (wk_db w) c at"; cases "tick env (wk_ticks w)")
    (auto simp: reevaluate_def act_defs)

section \<open>The durable intent\<close>

text \<open>The grant of an intent: everything that was true when it became durable.\<close>

definition intent_granted ::
    "env \<Rightarrow> worker_scope \<Rightarrow> worker_token \<Rightarrow> regional_observation \<Rightarrow> reading \<Rightarrow> db \<Rightarrow> db \<Rightarrow> bool" where
  "intent_granted env s t obs oat d d' =
     (\<exists>r c hist k at at' e ev.
        r \<in> set (db_executions d) \<and> ex_id r = wt_execution_id t \<and>
        execution_content_of (sha env) d r = Inr c \<and> events_of (sha env) d r c = Inr hist \<and>
        last_phase hist = PH_CLAIMED \<and>
        claim_of d (ex_id r) = Some k \<and> wc_token_sha k = sha env (TokenDoc (wt_token t)) \<and>
        Some (wc_role_arn k) = ws_role_arn s \<and> 0 < wc_read_attempts k \<and>
        tick env 0 = Aware at \<and> tick env 1 = Aware at' \<and>
        execution_blocking env d c at = Inr [] \<and> at' < xc_expires_at c \<and> at' < wc_lease_until k \<and>
        (\<exists>o'. oat = Aware o' \<and> je_created_at (ev_content (last hist)) \<le> o' \<and> o' \<le> at') \<and>
        observation_matches obs (pc_baseline (xc_proposal c)) \<and>
        db_events d' = db_events d @ [ev] \<and> ee_execution_id ev = ex_id r \<and>
        ee_kind ev = EK_WRITE_INTENT \<and> ee_content ev = WorkerEventDoc e \<and> we_created_at e = at' \<and>
        we_observation e = Some obs \<and>
        claim_of d' (ex_id r) = Some (k\<lparr>wc_intent_event_id := Some (ee_id ev)\<rparr>))"

lemma check_observation_time:
  assumes "validate_worker_entry e p c = Inr ()" "we_observed_at e = Some oat"
  shows "\<exists>o'. oat = Aware o' \<and> o' \<le> we_created_at e"
proof -
  have "check_observed_at e"
    using assms(1) by (auto simp: validate_worker_entry_def split: option.splits if_splits)
  then show ?thesis using assms(2) by (auto simp: check_observed_at_def split: reading.splits)
qed

lemma write_intent_True:
  assumes "write_intent env s t obs oat d = (Inr True, d')"
  shows "intent_granted env s t obs oat d d'"
proof -
  have run: "locked env s (wt_execution_id t) (write_intent_work env s t obs oat) d = (Inr True, d')"
    using assms by (auto simp: write_intent_def split: if_splits)
  show ?thesis
  proof (rule locked_InrE [OF run])
    fix r c hist rv at wa w'
    let ?cl = "claim_of d (wt_execution_id t)"
    assume pre: "r \<in> set (db_executions d)" "ex_id r = wt_execution_id t" "wk_db wa = d" "wk_db w' = d'"
      "execution_content_of (sha env) d r = Inr c" "events_of (sha env) d r c = Inr hist"
      "tick env 0 = Aware at" "wk_ticks wa = 1"
      "write_intent_work env s t obs oat r c hist ?cl rv at wa = Inr (True, w')"
      "\<And>k. ?cl = Some k \<Longrightarrow> Some (wc_role_arn k) = ws_role_arn s"
    obtain k where k: "?cl = Some k" using pre(9) by (auto simp: write_intent_work_def split: option.split_asm)
    let ?w1 = "wa\<lparr>wk_ticks := Suc (wk_ticks wa)\<rparr>"
    let ?args = "no_args\<lparr>aa_observation := Some obs, aa_observed_at := Some oat\<rparr>"
    from pre(9) k obtain at' e w2 where re: "reevaluate env c at wa = Inr (([], at'), ?w1)"
      "owned env t ?cl" "last_phase hist = PH_CLAIMED" "at' < wc_lease_until k" "0 < wc_read_attempts k"
      "observed_before oat (je_created_at (ev_content (last hist))) = Inr False"
      "observation_matches obs (pc_baseline (xc_proposal c))"
      "append_entry env s r c EK_WRITE_INTENT at' ?args ?w1 = Inr (e, w2)"
      "w' = w2\<lparr>wk_db := (wk_db w2)\<lparr>db_claims := modify_rows wc_execution_id (wc_execution_id k)
         (\<lambda>w. w\<lparr>wc_intent_event_id := Some (we_event_id e)\<rparr>) (db_claims (wk_db w2))\<rparr>\<rparr>"
      unfolding write_intent_work_def
      by (auto simp: bnd_Inr_iff set_claim_def reevaluate_clear split: if_split_asm)
    have ev1: "events_of (sha env) (wk_db ?w1) r c = Inr hist" using pre(3,6) by simp
    obtain u ph ev au where a: "e = worker_entry_for u r hist (worker_role s) EK_WRITE_INTENT ph at' ?args"
      "validate_worker_entry e (last_phase hist) c = Inr ()" "wk_db w2 = add_entry ev au (wk_db ?w1)"
      "ee_execution_id ev = ex_id r" "ee_content ev = WorkerEventDoc e" "ee_id ev = we_event_id e"
      "ee_kind ev = EK_WRITE_INTENT"
      by (rule append_entry_Inr [OF re(8) ev1])
    obtain o' where o': "oat = Aware o'" "o' \<le> at'"
      using check_observation_time [OF a(2), of oat] by (auto simp: a(1) worker_entry_for_def)
    then have time: "je_created_at (ev_content (last hist)) \<le> o'"
      using re(6) by (simp add: observed_before_def)
    have key: "wc_execution_id k = wt_execution_id t" using k by (auto simp: claim_of_def dest: find_row_Some)
    have cl': "claim_of d' (ex_id r) = Some (k\<lparr>wc_intent_event_id := Some (ee_id ev)\<rparr>)"
      using k key pre(2-4) re(9) a(3,6)
      by (auto simp: claim_of_def find_row_modify)
    have evs: "db_events d' = db_events d @ [ev]" using pre(3,4) re(9) a(3) by auto
    show ?thesis
      unfolding intent_granted_def
      using evs pre k re(1-5,7) o' time cl' a
      by (rule_tac x = r in exI, rule_tac x = c in exI, rule_tac x = hist in exI, rule_tac x = k in exI,
          rule_tac x = at in exI, rule_tac x = at' in exI, rule_tac x = e in exI, rule_tac x = ev in exI)
        (auto simp: owned_def reevaluate_clear worker_entry_for_def)
  qed
qed

text \<open>C5. A write intent becomes durable only for the owner of the claim, in phase CLAIMED, with an
  unexpired lease and request, no blocking reason at a fresh clock reading, an observation made
  after the claim that equals the retained baseline; then exactly one journal entry is added and
  the claim is bound to it.\<close>

theorem durable_intent_is_authorized:
  assumes "write_intent env s t obs oat d = (Inr True, d')"
  shows "\<exists>r c hist k at at' e ev.
    r \<in> set (db_executions d) \<and> ex_id r = wt_execution_id t \<and>
    execution_content_of (sha env) d r = Inr c \<and> events_of (sha env) d r c = Inr hist \<and>
    last_phase hist = PH_CLAIMED \<and>
    claim_of d (ex_id r) = Some k \<and> wc_token_sha k = sha env (TokenDoc (wt_token t)) \<and>
    Some (wc_role_arn k) = ws_role_arn s \<and> 0 < wc_read_attempts k \<and>
    tick env 0 = Aware at \<and> tick env 1 = Aware at' \<and>
    execution_blocking env d c at = Inr [] \<and> at' < xc_expires_at c \<and> at' < wc_lease_until k \<and>
    (\<exists>o'. oat = Aware o' \<and> je_created_at (ev_content (last hist)) \<le> o' \<and> o' \<le> at') \<and>
    observation_matches obs (pc_baseline (xc_proposal c)) \<and>
    db_events d' = db_events d @ [ev] \<and> ee_execution_id ev = ex_id r \<and>
    ee_kind ev = EK_WRITE_INTENT \<and> ee_content ev = WorkerEventDoc e \<and> we_created_at e = at' \<and>
    we_observation e = Some obs \<and>
    claim_of d' (ex_id r) = Some (k\<lparr>wc_intent_event_id := Some (ee_id ev)\<rparr>)"
  using write_intent_True [OF assms] unfolding intent_granted_def .

lemma durable_intent_is_authorized_witness:
  "\<exists>ev. db_events demo_intended = db_events demo_read @ [ev] \<and> ee_kind ev = EK_WRITE_INTENT \<and>
    claim_of demo_intended 40 = Some ((demo_claim 1 None)\<lparr>wc_intent_event_id := Some (ee_id ev)\<rparr>)"
proof -
  have c: "claim_of demo_read 40 = Some (demo_claim 1 None)"
    by (simp add: claim_of_def demo_read_def)
  have t: "wt_execution_id demo_token = 40" by (simp add: demo_token_def)
  show ?thesis using durable_intent_is_authorized [OF demo_intent_run] c t by auto
qed

section \<open>Claims\<close>

text \<open>C17. A claim is only granted in phase QUEUED or CLAIMED, with no blocking reason and before the
  expiry at a fresh clock reading, when no earlier claim exists or its lease has run out with read
  attempts left. The token is new, bounded by the expiry and by a lease of 30 seconds; the claim row
  carries its digest and the next generation, and exactly one CLAIMED entry is journalled.\<close>

theorem claim_grants_exclusive_lease:
  assumes "claim env s eid d = (Inr (Some t), d')"
  shows "\<exists>r c hist at at' ev k' i.
    r \<in> set (db_executions d) \<and> ex_id r = eid \<and>
    execution_content_of (sha env) d r = Inr c \<and> events_of (sha env) d r c = Inr hist \<and>
    last_phase hist \<in> {PH_QUEUED, PH_CLAIMED} \<and> tick env 0 = Aware at \<and> tick env 1 = Aware at' \<and>
    execution_blocking env d c at = Inr [] \<and> at' < xc_expires_at c \<and>
    (\<forall>k. claim_of d eid = Some k \<longrightarrow> wc_lease_until k \<le> at' \<and> wc_read_attempts k < 3) \<and>
    t = \<lparr>wt_execution_id = eid, wt_token = fresh env i, wt_content = c,
         wt_lease_until = min (xc_expires_at c) (at' + seconds 30)\<rparr> \<and>
    db_events d' = db_events d @ [ev] \<and> ee_execution_id ev = eid \<and> ee_kind ev = EK_CLAIMED \<and>
    claim_of d' eid = Some k' \<and> wc_token_sha k' = sha env (TokenDoc (wt_token t)) \<and>
    wc_lease_until k' = wt_lease_until t \<and>
    wc_generation k' = (case claim_of d eid of None \<Rightarrow> 1 | Some k \<Rightarrow> Suc (wc_generation k))"
proof (rule locked_InrE [OF assms [unfolded claim_def]])
  fix r c hist rv at wa w'
  let ?cl = "claim_of d eid"
  assume pre: "r \<in> set (db_executions d)" "ex_id r = eid" "wk_db wa = d" "wk_db w' = d'"
    "execution_content_of (sha env) d r = Inr c" "events_of (sha env) d r c = Inr hist"
    "tick env 0 = Aware at" "wk_ticks wa = 1"
    "claim_work env s eid r c hist ?cl rv at wa = Inr (Some t, w')"
  let ?w1 = "wa\<lparr>wk_ticks := Suc (wk_ticks wa)\<rparr>" and ?w2 = "wa\<lparr>wk_ticks := Suc (wk_ticks wa), wk_ids := Suc (wk_ids wa)\<rparr>"
  from pre(9) obtain at' e w2 u where g: "last_phase hist \<in> {PH_QUEUED, PH_CLAIMED}"
    "reevaluate env c at wa = Inr (([], at'), ?w1)"
    "\<not> (case ?cl of None \<Rightarrow> False | Some w \<Rightarrow> at' < wc_lease_until w)"
    "\<not> (case ?cl of None \<Rightarrow> False | Some w \<Rightarrow> 3 \<le> wc_read_attempts w)"
    "append_entry env s r c EK_CLAIMED at' no_args ?w2 = Inr (e, w2)"
    "store_claim env s eid (fresh env (wk_ids wa)) (min (xc_expires_at c) (at' + lease_time)) ?cl w2 = Inr (u, w')"
    "t = \<lparr>wt_execution_id = eid, wt_token = fresh env (wk_ids wa), wt_content = c,
           wt_lease_until = min (xc_expires_at c) (at' + lease_time)\<rparr>"
    unfolding claim_work_def
    by (auto simp: bnd_Inr_iff reevaluate_clear Let_def split: if_split_asm)
  have w2: "events_of (sha env) (wk_db ?w2) r c = Inr hist" using pre(3,6) by simp
  obtain ev au where ev: "wk_db w2 = add_entry ev au (wk_db ?w2)" "ee_execution_id ev = ex_id r" "ee_kind ev = EK_CLAIMED"
    by (rule append_entry_Inr [OF g(5) w2])
  have evs: "db_events d' = db_events d @ [ev]"
    using g(6) ev(1) pre(3,4) by (auto simp: store_claim_def set_claim_def split: option.split_asm)
  have "\<exists>k'. claim_of d' eid = Some k' \<and> wc_token_sha k' = sha env (TokenDoc (wt_token t)) \<and>
    wc_lease_until k' = wt_lease_until t \<and>
    wc_generation k' = (case ?cl of None \<Rightarrow> 1 | Some k \<Rightarrow> Suc (wc_generation k))"
  proof (cases ?cl)
    case None
    then show ?thesis
      using g(6,7) ev(1) pre(3,4) by (auto simp: store_claim_def claim_of_def find_row_append)
  next
    case (Some k)
    then show ?thesis
      using g(6,7) ev(1) pre(3,4) by (auto simp: store_claim_def set_claim_def claim_of_def find_row_modify)
  qed
  then obtain k' where k': "claim_of d' eid = Some k'" "wc_token_sha k' = sha env (TokenDoc (wt_token t))"
    "wc_lease_until k' = wt_lease_until t"
    "wc_generation k' = (case ?cl of None \<Rightarrow> 1 | Some k \<Rightarrow> Suc (wc_generation k))" by blast
  have re: "execution_blocking env d c at = Inr []" "tick env 1 = Aware at'" "at' < xc_expires_at c"
    using g(2) pre(3,8) by (auto simp: reevaluate_clear)
  have lease: "\<forall>k. ?cl = Some k \<longrightarrow> wc_lease_until k \<le> at' \<and> wc_read_attempts k < 3"
    using g(3,4) by auto
  show ?thesis
    by (rule exI [of _ r], rule exI [of _ c], rule exI [of _ hist], rule exI [of _ at], rule exI [of _ at'],
        rule exI [of _ ev], rule exI [of _ k'], rule exI [of _ "wk_ids wa"])
      (use pre g(1,7) re lease evs ev(2,3) k' in \<open>simp add: lease_time_def\<close>)
qed

lemma claim_grants_exclusive_lease_witness:
  "claim_of demo_admitted 40 = None \<and>
   (\<exists>ev k. db_events demo_claimed = db_events demo_admitted @ [ev] \<and> ee_kind ev = EK_CLAIMED \<and>
      claim_of demo_claimed 40 = Some k \<and> wc_generation k = 1 \<and> wc_lease_until k = seconds 81)"
proof -
  have c: "claim_of demo_admitted 40 = None"
    by (simp add: claim_of_def demo_admitted_def demo_approved_def demo_proposed_def demo_start_def)
  have l: "wt_lease_until demo_token = seconds 81" by (simp add: demo_token_def)
  from claim_grants_exclusive_lease [OF demo_claim_run [unfolded call_claim_def]]
  obtain ev k where "db_events demo_claimed = db_events demo_admitted @ [ev]" "ee_kind ev = EK_CLAIMED"
    "claim_of demo_claimed 40 = Some k" "wc_lease_until k = wt_lease_until demo_token"
    "wc_generation k = (case claim_of demo_admitted 40 of None \<Rightarrow> 1 | Some k \<Rightarrow> Suc (wc_generation k))" by blast
  then show ?thesis using c l by auto
qed


lemma claim_token_of:
  assumes "claim env s eid d = (Inr (Some t), d')"
  shows "wt_execution_id t = eid"
proof (rule locked_InrE [OF assms [unfolded claim_def]])
  fix r c hist rv at wa w'
  assume "claim_work env s eid r c hist (claim_of d eid) rv at wa = Inr (Some t, w')"
  then show ?thesis
    unfolding claim_work_def by (auto simp: bnd_Inr_iff Let_def split: if_split_asm)
qed

lemma inspect_unchanged: "inspect env s eid d = (res, d') \<Longrightarrow> d' = d"
proof (cases res)
  case (Inl e)
  assume "inspect env s eid d = (res, d')"
  then show ?thesis
    using Inl commits.rollback by (auto simp: inspect_def locked_def split: if_splits)
next
  case (Inr a)
  assume "inspect env s eid d = (res, d')"
  then have "locked env s eid inspect_work d = (Inr a, d')" using Inr by (simp add: inspect_def)
  then show ?thesis by (rule locked_InrE) (auto simp: inspect_work_def)
qed

section \<open>Budgets\<close>

lemma step_claims: "remediation_step h d d' \<Longrightarrow> claims_grow d d'"
  unfolding remediation_step_def
proof (elim disjE exE)
  fix failed
  assume "service_call h d failed d'"
  from claims.service_kept [OF this] show ?thesis by simp
qed (simp add: application_step_def claims_grow_same)

lemma reachable_claims: "reachable h d \<Longrightarrow> claims_ok (db_claims d)"
  using reachable_inv by (auto simp: system_inv_def execution_inv_def)

text \<open>C23. A claim is never deleted or reset: its generation, its read attempts and its readback attempts
  never decrease, whatever step the system takes, and both budgets stay within three.\<close>

theorem claim_budgets_only_shrink:
  assumes "reachable h d" "remediation_step h d d'" "claim_of d e = Some k"
  shows "\<exists>k'. claim_of d' e = Some k' \<and> wc_generation k \<le> wc_generation k' \<and>
    wc_read_attempts k \<le> wc_read_attempts k' \<and> wc_read_attempts k' \<le> 3 \<and>
    wc_readback_attempts k \<le> wc_readback_attempts k' \<and> wc_readback_attempts k' \<le> 3"
proof -
  obtain k' where k': "claim_of d' e = Some k'" "wc_generation k \<le> wc_generation k'"
    "wc_read_attempts k \<le> wc_read_attempts k'" "wc_readback_attempts k \<le> wc_readback_attempts k'"
    using step_claims [OF assms(2)] assms(3) unfolding claims_grow_def by blast
  have "claim_ok k'"
    using reachable_claims [OF reachable_step [OF assms(1,2)]] k'(1)
    by (auto simp: claims_ok_def list_all_iff claim_of_def dest: find_row_Some)
  then show ?thesis using k' by (auto simp: claim_ok_def)
qed

lemma claim_budgets_only_shrink_witness:
  "\<exists>k'. claim_of demo_read 40 = Some k' \<and> 0 \<le> wc_read_attempts k' \<and> wc_read_attempts k' \<le> 3"
proof -
  have c: "claim_of demo_claimed 40 = Some (demo_claim 0 None)"
    by (simp add: claim_of_def demo_claimed_def)
  have "service_call demo_sha demo_claimed False demo_read"
    using call_begin_read [OF _ demo_read_run, of demo_sha] by simp
  then have "remediation_step demo_sha demo_claimed demo_read" by (rule call_step)
  from claim_budgets_only_shrink [OF demo_reachable(5) this c] show ?thesis by auto
qed

section \<open>Fencing\<close>

text \<open>With a token the claim was not issued for, every operation that takes a token is refused.\<close>

lemma not_owned_work:
  assumes "\<not> owned env t cl"
  shows "begin_read_work env s t r c hist cl rv at w = Inr (False, w)"
    "no_write_work env s t rsn ob oat r c hist cl rv at w = Inr (False, w)"
    "write_intent_work env s t obs oat' r c hist cl rv at w = Inr (False, w)"
    "acknowledge_work env s t rid r c hist cl rv at w = Inr (False, w)"
  using assms
  by (cases cl; simp add: begin_read_work_def no_write_work_def write_intent_work_def acknowledge_work_def ret_def)+

lemma locked_refused:
  assumes "\<And>r c hist rv at w. wrk r c hist (claim_of d eid) rv at w = Inr (False, w)"
    and "locked env s eid wrk d = (res, d')"
  shows "d' = d \<and> res \<noteq> Inr True"
proof (cases res)
  case (Inl e)
  then show ?thesis using assms(2) history.locked_kept commits.rollback by (auto simp: locked_def split: if_splits)
next
  case (Inr b)
  show ?thesis
    by (rule locked_InrE [OF assms(2) [unfolded Inr]]) (use Inr assms(1) in auto)
qed

text \<open>C21. Fencing: when the claim of the execution is not the one the caller's token was issued for
  (a newer generation replaced it, or there is none), begin_read, no_write, write_intent and
  acknowledge change nothing and do not succeed.\<close>

theorem stale_token_is_fenced:
  assumes "\<forall>k. claim_of d (wt_execution_id t) = Some k \<longrightarrow> wc_token_sha k \<noteq> sha env (TokenDoc (wt_token t))"
  shows "snd (begin_read env s t d) = d \<and> fst (begin_read env s t d) \<noteq> Inr True \<and>
    snd (no_write env s t rsn ob oat d) = d \<and> fst (no_write env s t rsn ob oat d) \<noteq> Inr True \<and>
    snd (write_intent env s t obs oat' d) = d \<and> fst (write_intent env s t obs oat' d) \<noteq> Inr True \<and>
    snd (acknowledge env s t rid d) = d \<and> fst (acknowledge env s t rid d) \<noteq> Inr True"
proof -
  have "\<not> owned env t (claim_of d (wt_execution_id t))"
    using assms by (auto simp: owned_def split: option.splits)
  note work = not_owned_work [OF this]
  have l: "snd (locked env s (wt_execution_id t) wrk d) = d \<and> fst (locked env s (wt_execution_id t) wrk d) \<noteq> Inr True"
    if "\<And>r c hist rv at w. wrk r c hist (claim_of d (wt_execution_id t)) rv at w = Inr (False, w)" for wrk
    using locked_refused [of wrk d _ env s, OF that] by (metis prod.collapse)
  show ?thesis
    using l [of "begin_read_work env s t"] l [of "no_write_work env s t rsn ob oat"]
      l [of "write_intent_work env s t obs oat'"] l [of "acknowledge_work env s t rid"]
    by (simp add: work begin_read_def no_write_def write_intent_def acknowledge_def)
qed

text \<open>The scenario after its claim, taken over by another worker: the same call that succeeds for the holder of
  the claim is refused.\<close>

definition taken_claim :: claim_row where
  "taken_claim = (demo_claim 1 None)\<lparr>wc_token_sha := dig (CHR ''9''), wc_generation := 2\<rparr>"

definition demo_taken :: db where
  "demo_taken = demo_read\<lparr>db_claims := [taken_claim]\<rparr>"

lemma stale_token_is_fenced_witness:
  "fst (write_intent (demo_env 7) demo_worker demo_token demo_observation (Aware (seconds 65)) demo_read) = Inr True \<and>
   claim_of demo_taken (wt_execution_id demo_token) = Some taken_claim \<and>
   snd (write_intent (demo_env 7) demo_worker demo_token demo_observation (Aware (seconds 65)) demo_taken) = demo_taken \<and>
   fst (write_intent (demo_env 7) demo_worker demo_token demo_observation (Aware (seconds 65)) demo_taken) \<noteq> Inr True"
proof -
  have claim: "claim_of demo_taken (wt_execution_id demo_token) = Some taken_claim"
    by (simp add: claim_of_def demo_taken_def taken_claim_def demo_claim_def demo_token_def)
  have "wc_token_sha taken_claim \<noteq> sha (demo_env 7) (TokenDoc (wt_token demo_token))"
    by (simp add: taken_claim_def demo_env_def dig_def)
  then show ?thesis
    using stale_token_is_fenced [of demo_taken demo_token "demo_env 7"] claim demo_intent_run by simp
qed

end
