(* ===== verification/Worker_Driver.thy ===== *)
theory Worker_Driver
  imports Worker_AWS Worker_Contracts
begin

text \<open>
  app/remediation/worker_driver.py: the orchestration of one job. Every database call is a
  completed transaction; between two of them other processes may change the database, and every
  answer of AWS and of the clocks is arbitrary. A run keeps a trace of what it did, in order.
\<close>

section \<open>The world of a run\<close>

datatype worker_op =
    OP_INSPECT | OP_CLAIM | OP_BEGIN_READ | OP_NO_WRITE | OP_WRITE_INTENT | OP_ACKNOWLEDGE
  | OP_QUARANTINE | OP_BEGIN_READBACK | OP_RECORD

datatype driver_event =
    DbCall worker_op db db
  | ClockRead reading
  | MonotonicRead int
  | FactoryCall
  | VerifyCall
  | ObserveCall
  | EnableCall
  | CloseCall
  | PauseCall

text \<open>
  What a run meets at its n-th action: the environment of a database call, what the other
  processes did to the database before it, the clock, the monotonic clock (in microseconds) and
  the answers of the AWS port.
\<close>

record driver_world =
  dw_env :: "nat \<Rightarrow> env"
  dw_others :: "nat \<Rightarrow> db \<Rightarrow> db"
  dw_clock :: "nat \<Rightarrow> reading"
  dw_monotonic :: "nat \<Rightarrow> int"
  dw_port :: aws_port

text \<open>The state: the database, the trace, and whether the local \<open>aws\<close> of \<open>run\<close> is set.\<close>

record driver =
  dr_db :: db
  dr_trace :: "driver_event list"
  dr_client :: bool

text \<open>
  An exception of a database call, a WorkerAwsError, any other exception; \<open>NoFuel\<close> is the model's
  own, raised when the bound of the readback loop is used up.
\<close>

datatype driver_exn = DbExn failure | AwsExn aws_code | OtherErr | NoFuel

type_synonym 'a drv = "driver \<Rightarrow> (driver_exn + 'a) \<times> driver"

definition drv_ret :: "'a \<Rightarrow> 'a drv" where
  "drv_ret a s = (Inr a, s)"

definition drv_raise :: "driver_exn \<Rightarrow> 'a drv" where
  "drv_raise e s = (Inl e, s)"

definition drv_bind :: "'a drv \<Rightarrow> ('a \<Rightarrow> 'b drv) \<Rightarrow> 'b drv" where
  "drv_bind m f s = (case m s of (Inl e, s') \<Rightarrow> (Inl e, s') | (Inr a, s') \<Rightarrow> f a s')"

definition drv_try :: "'a drv \<Rightarrow> (driver_exn \<Rightarrow> 'a drv) \<Rightarrow> 'a drv" where
  "drv_try m h s = (case m s of (Inl e, s') \<Rightarrow> h e s' | (Inr a, s') \<Rightarrow> (Inr a, s'))"

text \<open>\<open>try ... finally\<close>: an exception of the cleanup replaces the result.\<close>

definition drv_finally :: "'a drv \<Rightarrow> unit drv \<Rightarrow> 'a drv" where
  "drv_finally m c s =
     (case m s of (r, s') \<Rightarrow> (case c s' of (Inl e, s'') \<Rightarrow> (Inl e, s'') | (Inr _, s'') \<Rightarrow> (r, s'')))"

definition log_event :: "driver_event \<Rightarrow> driver \<Rightarrow> driver" where
  "log_event e s = s\<lparr>dr_trace := dr_trace s @ [e]\<rparr>"

definition index_of :: "driver \<Rightarrow> nat" where
  "index_of s = length (dr_trace s)"

definition set_client :: "unit drv" where
  "set_client s = (Inr (), s\<lparr>dr_client := True\<rparr>)"

definition get_client :: "bool drv" where
  "get_client s = (Inr (dr_client s), s)"

section \<open>The actions\<close>

text \<open>\<open>_db\<close>: one service method in its own session.\<close>

definition db_call :: "driver_world \<Rightarrow> worker_op \<Rightarrow> (env \<Rightarrow> db \<Rightarrow> (failure + 'a) \<times> db) \<Rightarrow> 'a drv" where
  "db_call w op f s =
     (let d = dw_others w (index_of s) (dr_db s) in
      case f (dw_env w (index_of s)) d of
        (r, d') \<Rightarrow>
          ((case r of Inl e \<Rightarrow> Inl (DbExn e) | Inr a \<Rightarrow> Inr a),
           log_event (DbCall op d d') (s\<lparr>dr_db := d'\<rparr>)))"

definition adapter_result :: "adapter_exn + 'a \<Rightarrow> driver_exn + 'a" where
  "adapter_result r =
     (case r of Inl (WorkerAws c) \<Rightarrow> Inl (AwsExn c) | Inl OtherExn \<Rightarrow> Inl OtherErr | Inr a \<Rightarrow> Inr a)"

definition port_call :: "driver_event \<Rightarrow> (nat \<Rightarrow> adapter_exn + 'a) \<Rightarrow> 'a drv" where
  "port_call e f s = (adapter_result (f (index_of s)), log_event e s)"

definition read_clock :: "driver_world \<Rightarrow> reading drv" where
  "read_clock w s = (let t = dw_clock w (index_of s) in (Inr t, log_event (ClockRead t) s))"

definition read_monotonic :: "driver_world \<Rightarrow> int drv" where
  "read_monotonic w s = (let t = dw_monotonic w (index_of s) in (Inr t, log_event (MonotonicRead t) s))"

definition pause :: "unit drv" where
  "pause s = (Inr (), log_event PauseCall s)"

text \<open>\<open>clock >= deadline\<close>; a naive reading is a TypeError.\<close>

definition reached :: "reading \<Rightarrow> time \<Rightarrow> bool drv" where
  "reached r t = (case r of Naive \<Rightarrow> drv_raise OtherErr | Aware at \<Rightarrow> drv_ret (t \<le> at))"

definition call_inspect :: "driver_world \<Rightarrow> worker_scope \<Rightarrow> uuid \<Rightarrow> (phase \<times> execution_content) drv" where
  "call_inspect w sc eid = db_call w OP_INSPECT (\<lambda>env. inspect env sc eid)"

definition call_quarantine :: "driver_world \<Rightarrow> worker_scope \<Rightarrow> uuid \<Rightarrow> blocking_reason \<Rightarrow> unit drv" where
  "call_quarantine w sc eid rsn =
     drv_bind (db_call w OP_QUARANTINE (\<lambda>env. quarantine env sc eid rsn)) (\<lambda>_. drv_ret ())"

definition call_no_write :: "driver_world \<Rightarrow> worker_scope \<Rightarrow> worker_token \<Rightarrow> blocking_reason \<Rightarrow> unit drv" where
  "call_no_write w sc t rsn =
     drv_bind (db_call w OP_NO_WRITE (\<lambda>env. no_write env sc t rsn None None)) (\<lambda>_. drv_ret ())"

definition call_begin_readback :: "driver_world \<Rightarrow> worker_scope \<Rightarrow> uuid \<Rightarrow> (nat \<times> time) option drv" where
  "call_begin_readback w sc eid = db_call w OP_BEGIN_READBACK (\<lambda>env. begin_readback env sc eid)"

definition call_record ::
    "driver_world \<Rightarrow> worker_scope \<Rightarrow> uuid \<Rightarrow> (regional_observation \<times> reading) option \<Rightarrow> nat \<Rightarrow> unit drv" where
  "call_record w sc eid obs polls =
     drv_bind (db_call w OP_RECORD (\<lambda>env. record_observation env sc eid obs polls)) (\<lambda>_. drv_ret ())"

section \<open>Readback\<close>

text \<open>
  One turn of the loop; True when \<open>_readback\<close> returns. The window and both deadlines are checked
  before the calls and again after the observation.
\<close>

definition readback_poll ::
    "driver_world \<Rightarrow> worker_scope \<Rightarrow> uuid \<Rightarrow> int \<Rightarrow> int \<Rightarrow> nat \<times> time \<Rightarrow> bool drv" where
  "readback_poll w sc eid started window budget =
     (let failed = call_record w sc eid None (fst budget) in
      drv_bind (read_monotonic w) (\<lambda>m.
      drv_bind (if window \<le> m - started then drv_ret True
                else drv_bind (read_clock w) (\<lambda>c. reached c (snd budget))) (\<lambda>late.
      if late then drv_bind failed (\<lambda>_. drv_ret True)
      else
        drv_try
          (drv_bind (port_call VerifyCall (ap_verify (dw_port w))) (\<lambda>_.
           drv_bind (port_call ObserveCall (ap_observe (dw_port w))) (\<lambda>observation.
           drv_bind (read_clock w) (\<lambda>observed_at.
           drv_bind (drv_bind (reached observed_at (snd budget)) (\<lambda>past.
               if past then drv_ret True
               else drv_bind (read_monotonic w) (\<lambda>m'. drv_ret (window \<le> m' - started)))) (\<lambda>late'.
           if late' then drv_bind failed (\<lambda>_. drv_ret True)
           else drv_bind (call_record w sc eid (Some (observation, observed_at)) (fst budget)) (\<lambda>_.
                drv_ret (ro_encryption observation)))))))
          (\<lambda>e. case e of
                 AwsExn code \<Rightarrow> drv_bind failed (\<lambda>_. drv_ret (code \<noteq> AWS_READ_TRANSIENT))
               | _ \<Rightarrow> drv_raise e))))"

fun readback_loop ::
    "driver_world \<Rightarrow> worker_scope \<Rightarrow> uuid \<Rightarrow> int \<Rightarrow> int \<Rightarrow> nat \<Rightarrow> (nat \<times> time) option \<Rightarrow> unit drv" where
  "readback_loop w sc eid started window k None = drv_ret ()"
| "readback_loop w sc eid started window 0 (Some budget) = drv_raise NoFuel"
| "readback_loop w sc eid started window (Suc k) (Some budget) =
     drv_bind (readback_poll w sc eid started window budget) (\<lambda>stop.
     if stop then drv_ret ()
     else drv_bind pause (\<lambda>_.
          drv_bind (call_begin_readback w sc eid) (\<lambda>budget'.
          readback_loop w sc eid started window k budget')))"

text \<open>The claim allows three readback attempts: that is the fuel.\<close>

definition readback_fuel :: nat where
  "readback_fuel = 3"

definition readback_window_left :: "time \<Rightarrow> time \<Rightarrow> int" where
  "readback_window_left deadline at = min (seconds 30) (max 0 (deadline - at))"

text \<open>
  \<open>_readback\<close> after its first budget; \<open>given\<close> says whether the caller passed its client. A client
  of its own is opened after the window is known and closed at the end.
\<close>

definition readback_within ::
    "driver_world \<Rightarrow> worker_scope \<Rightarrow> uuid \<Rightarrow> bool \<Rightarrow> nat \<times> time \<Rightarrow> int \<Rightarrow> reading \<Rightarrow> unit drv" where
  "readback_within w sc eid given budget started c =
     (case c of
        Naive \<Rightarrow> drv_raise OtherErr
      | Aware at \<Rightarrow>
          let window = readback_window_left (snd budget) at;
              failed = call_record w sc eid None (fst budget);
              polls = readback_loop w sc eid started window readback_fuel (Some budget) in
          if window = 0 then failed
          else if given then polls
          else
            drv_bind (drv_try (drv_bind (port_call FactoryCall (ap_factory (dw_port w))) (\<lambda>_. drv_ret True))
               (\<lambda>e. case e of AwsExn _ \<Rightarrow> drv_bind failed (\<lambda>_. drv_ret False) | _ \<Rightarrow> drv_raise e)) (\<lambda>opened.
            if opened then drv_finally polls (port_call CloseCall (ap_close (dw_port w)))
            else drv_ret ()))"

definition readback :: "driver_world \<Rightarrow> worker_scope \<Rightarrow> uuid \<Rightarrow> bool \<Rightarrow> unit drv" where
  "readback w sc eid given =
     drv_bind (call_begin_readback w sc eid) (\<lambda>budget.
     case budget of
       None \<Rightarrow> drv_ret ()
     | Some b \<Rightarrow>
         drv_bind (read_monotonic w) (\<lambda>started.
         drv_bind (read_clock w) (\<lambda>c. readback_within w sc eid given b started c)))"

section \<open>The run\<close>

datatype worker_result = WR_DISABLED | WR_NO_ACTION | WR_NO_WRITE | WR_ACKNOWLEDGED | WR_QUARANTINED

text \<open>After a refused claim, read or intent: the phase decides what is reported.\<close>

definition nothing_written :: "driver_world \<Rightarrow> worker_scope \<Rightarrow> uuid \<Rightarrow> worker_result drv" where
  "nothing_written w sc eid =
     drv_bind (call_inspect w sc eid) (\<lambda>(ph, _).
     drv_ret (if ph = PH_NO_WRITE then WR_NO_WRITE else WR_NO_ACTION))"

datatype read_exit = Returned worker_result | Observed regional_observation reading

definition read_failure_reason :: "aws_code \<Rightarrow> blocking_reason" where
  "read_failure_reason code =
     (if code \<in> {AWS_SCOPE_MISMATCH, AWS_INVALID_SOURCE} then BR_WRITER_SCOPE_MISMATCH
      else BR_READ_UNAVAILABLE)"

text \<open>One pre-write read; None is \<open>continue\<close>.\<close>

definition read_once :: "driver_world \<Rightarrow> worker_scope \<Rightarrow> worker_token \<Rightarrow> read_exit option drv" where
  "read_once w sc t =
     drv_try
       (drv_bind get_client (\<lambda>have.
        drv_bind (if have then drv_ret ()
                  else drv_bind (port_call FactoryCall (ap_factory (dw_port w))) (\<lambda>_. set_client)) (\<lambda>_.
        drv_bind (port_call VerifyCall (ap_verify (dw_port w))) (\<lambda>_.
        drv_bind (port_call ObserveCall (ap_observe (dw_port w))) (\<lambda>observation.
        drv_bind (read_clock w) (\<lambda>observed_at.
        drv_ret (Some (Observed observation observed_at))))))))
       (\<lambda>e. case e of
              AwsExn code \<Rightarrow>
                if code = AWS_READ_TRANSIENT then drv_bind pause (\<lambda>_. drv_ret None)
                else drv_bind (call_no_write w sc t (read_failure_reason code)) (\<lambda>_.
                     drv_ret (Some (Returned WR_NO_WRITE)))
            | _ \<Rightarrow> drv_raise e)"

fun read_loop :: "driver_world \<Rightarrow> worker_scope \<Rightarrow> uuid \<Rightarrow> worker_token \<Rightarrow> nat \<Rightarrow> read_exit drv" where
  "read_loop w sc eid t 0 =
     drv_bind (call_no_write w sc t BR_READ_BUDGET_EXHAUSTED) (\<lambda>_. drv_ret (Returned WR_NO_WRITE))"
| "read_loop w sc eid t (Suc k) =
     drv_bind (db_call w OP_BEGIN_READ (\<lambda>env. begin_read env sc t)) (\<lambda>ok.
     if \<not> ok then drv_bind (nothing_written w sc eid) (\<lambda>r. drv_ret (Returned r))
     else
       drv_bind (read_once w sc t) (\<lambda>r.
       case r of None \<Rightarrow> read_loop w sc eid t k | Some x \<Rightarrow> drv_ret x))"

text \<open>After a durable intent and the last deadline check: the one write call.\<close>

definition after_enable ::
    "driver_world \<Rightarrow> worker_scope \<Rightarrow> uuid \<Rightarrow> worker_token \<Rightarrow> string \<Rightarrow> worker_result drv" where
  "after_enable w sc eid t rid =
     drv_bind (db_call w OP_ACKNOWLEDGE (\<lambda>env. acknowledge env sc t rid)) (\<lambda>_.
     drv_bind (call_inspect w sc eid) (\<lambda>(ph, _).
     drv_bind (if ph = PH_WRITE_INTENT
               then drv_bind (call_quarantine w sc eid BR_RECOVERY_UNCERTAIN) (\<lambda>_. drv_ret PH_QUARANTINED)
               else drv_ret ph) (\<lambda>ph'.
     drv_bind (readback w sc eid True) (\<lambda>_.
     drv_ret (if ph' = PH_QUARANTINED then WR_QUARANTINED else WR_ACKNOWLEDGED)))))"

definition write_once :: "driver_world \<Rightarrow> worker_scope \<Rightarrow> uuid \<Rightarrow> worker_token \<Rightarrow> worker_result drv" where
  "write_once w sc eid t =
     drv_bind (drv_try
       (drv_bind (port_call EnableCall (ap_enable (dw_port w))) (\<lambda>rid. drv_ret (Some rid)))
       (\<lambda>_. drv_bind (call_quarantine w sc eid BR_WRITE_UNCERTAIN) (\<lambda>_.
            drv_bind (readback w sc eid True) (\<lambda>_. drv_ret None)))) (\<lambda>receipt.
     case receipt of
       None \<Rightarrow> drv_ret WR_QUARANTINED
     | Some rid \<Rightarrow> after_enable w sc eid t rid)"

definition dispatch ::
    "driver_world \<Rightarrow> worker_scope \<Rightarrow> uuid \<Rightarrow> worker_token \<Rightarrow> regional_observation \<Rightarrow> reading \<Rightarrow>
     worker_result drv" where
  "dispatch w sc eid t observation observed_at =
     drv_bind (db_call w OP_WRITE_INTENT (\<lambda>env. write_intent env sc t observation observed_at)) (\<lambda>granted.
     if \<not> granted then nothing_written w sc eid
     else
       drv_bind (read_clock w) (\<lambda>c.
       drv_bind (reached c (xc_expires_at (wt_content t))) (\<lambda>late.
       if late then drv_bind (call_quarantine w sc eid BR_LATE_DISPATCH) (\<lambda>_. drv_ret WR_QUARANTINED)
       else write_once w sc eid t)))"

definition claimed_run :: "driver_world \<Rightarrow> worker_scope \<Rightarrow> uuid \<Rightarrow> worker_token \<Rightarrow> worker_result drv" where
  "claimed_run w sc eid t =
     drv_finally
       (drv_bind (read_loop w sc eid t 3) (\<lambda>x.
        case x of Returned r \<Rightarrow> drv_ret r
        | Observed observation observed_at \<Rightarrow> dispatch w sc eid t observation observed_at))
       (drv_bind get_client (\<lambda>have.
        if have then port_call CloseCall (ap_close (dw_port w)) else drv_ret ()))"

definition run :: "driver_world \<Rightarrow> worker_scope \<Rightarrow> uuid \<Rightarrow> worker_result drv" where
  "run w sc eid =
     (if \<not> ws_enabled sc then drv_ret WR_DISABLED
      else
        drv_bind (call_inspect w sc eid) (\<lambda>(ph, _).
        if ph = PH_WRITE_INTENT then
          drv_bind (call_quarantine w sc eid BR_RECOVERY_UNCERTAIN) (\<lambda>_.
          drv_bind (readback w sc eid False) (\<lambda>_. drv_ret WR_QUARANTINED))
        else if ph = PH_QUARANTINED then
          drv_bind (readback w sc eid False) (\<lambda>_. drv_ret WR_QUARANTINED)
        else if ph = PH_ACKNOWLEDGED then
          drv_bind (readback w sc eid False) (\<lambda>_. drv_ret WR_ACKNOWLEDGED)
        else
          drv_bind (db_call w OP_CLAIM (\<lambda>env. claim env sc eid)) (\<lambda>cl.
          case cl of
            None \<Rightarrow> nothing_written w sc eid
          | Some t \<Rightarrow> claimed_run w sc eid t)))"

definition start_driver :: "db \<Rightarrow> driver" where
  "start_driver d = \<lparr>dr_db = d, dr_trace = [], dr_client = False\<rparr>"

text \<open>\<open>RemediationWorker(sessions, scope=...).run(execution_id)\<close>: the constructor validates the scope.\<close>

definition worker_run :: "driver_world \<Rightarrow> worker_scope \<Rightarrow> uuid \<Rightarrow> db \<Rightarrow> (driver_exn + worker_result) \<times> driver" where
  "worker_run w sc eid d =
     (if valid_worker_scope sc then run w sc eid (start_driver d) else (Inl OtherErr, start_driver d))"

end
