(* ===== verification/Driver_Safety.thy ===== *)
theory Driver_Safety
  imports Worker_Driver
begin

text \<open>
  What a run of the worker can do to AWS: at most one enable call, only right after its own
  durable intent and before the request expires; a bounded number of reads; and, whatever other
  processes do between its database calls, never a second enable for an execution.
\<close>

section \<open>Relations every action of a run respects\<close>

locale drv_frame =
  fixes R :: "driver \<Rightarrow> driver \<Rightarrow> bool"
  assumes drv_refl: "R s s"
    and drv_trans: "R s1 s2 \<Longrightarrow> R s2 s3 \<Longrightarrow> R s1 s3"
    and drv_client: "R s (s\<lparr>dr_client := True\<rparr>)"
begin

definition follows :: "'a drv \<Rightarrow> bool" where
  "follows m \<longleftrightarrow> (\<forall>s r s'. m s = (r, s') \<longrightarrow> R s s')"

lemma followsD: "follows m \<Longrightarrow> m s = (r, s') \<Longrightarrow> R s s'"
  by (auto simp: follows_def)

lemma follows_pure [intro]:
  "follows (drv_ret a)" "follows (drv_raise e)" "follows get_client" "follows set_client" "follows (reached c t)"
  by (auto simp: follows_def drv_ret_def drv_raise_def get_client_def set_client_def reached_def drv_refl drv_client
      split: reading.splits)

lemma follows_bind [intro]: "follows m \<Longrightarrow> (\<And>a. follows (f a)) \<Longrightarrow> follows (drv_bind m f)"
  by (fastforce simp: follows_def drv_bind_def split: prod.splits sum.splits intro: drv_trans)

lemma follows_try [intro]: "follows m \<Longrightarrow> (\<And>e. follows (h e)) \<Longrightarrow> follows (drv_try m h)"
  by (fastforce simp: follows_def drv_try_def split: prod.splits sum.splits intro: drv_trans)

lemma follows_finally [intro]: "follows m \<Longrightarrow> follows c \<Longrightarrow> follows (drv_finally m c)"
  by (fastforce simp: follows_def drv_finally_def split: prod.splits sum.splits intro: drv_trans)

lemma follows_branches [intro]:
  "(b \<Longrightarrow> follows m) \<Longrightarrow> (\<not> b \<Longrightarrow> follows m') \<Longrightarrow> follows (if b then m else m')"
  "follows n \<Longrightarrow> (\<And>y. follows (f y)) \<Longrightarrow> follows (case ob of None \<Rightarrow> n | Some y \<Rightarrow> f y)"
  "(\<And>y z. follows (g y z)) \<Longrightarrow> follows (case p of (y, z) \<Rightarrow> g y z)"
  "(\<And>c. follows (ea c)) \<Longrightarrow> follows eb \<Longrightarrow>
    follows (case e of AwsExn c \<Rightarrow> ea c | _ \<Rightarrow> eb)"
  "(\<And>t. follows (ra t)) \<Longrightarrow> follows rn \<Longrightarrow> follows (case rd of Aware t \<Rightarrow> ra t | Naive \<Rightarrow> rn)"
  "(\<And>r. follows (xa r)) \<Longrightarrow> (\<And>o' t. follows (xb o' t)) \<Longrightarrow>
    follows (case x of Returned r \<Rightarrow> xa r | Observed o' t \<Rightarrow> xb o' t)"
  by (simp_all split: option.split prod.split driver_exn.split reading.split read_exit.split)

end

lemmas driver_defs = call_inspect_def call_quarantine_def call_no_write_def call_begin_readback_def call_record_def

text \<open>What follows a write call that raised.\<close>

definition after_failure :: "driver_world \<Rightarrow> worker_scope \<Rightarrow> uuid \<Rightarrow> worker_result drv" where
  "after_failure w sc eid =
     drv_bind (call_quarantine w sc eid BR_WRITE_UNCERTAIN) (\<lambda>_.
     drv_bind (readback w sc eid True) (\<lambda>_. drv_ret WR_QUARANTINED))"

text \<open>
  The interface of a run: the nine database operations, the port without the write call, the two
  clocks and the pause. A relation that they respect is respected by everything before and after
  the write call; with the write call, by the whole run.
\<close>

locale drv_actions = drv_frame R for R :: "driver \<Rightarrow> driver \<Rightarrow> bool" +
  fixes w :: driver_world
  assumes db_inspect: "follows (db_call w OP_INSPECT (\<lambda>env. inspect env sc eid))"
    and db_claim: "follows (db_call w OP_CLAIM (\<lambda>env. claim env sc eid))"
    and db_begin_read: "follows (db_call w OP_BEGIN_READ (\<lambda>env. begin_read env sc t))"
    and db_no_write: "follows (db_call w OP_NO_WRITE (\<lambda>env. no_write env sc t rsn obo oto))"
    and db_write_intent: "follows (db_call w OP_WRITE_INTENT (\<lambda>env. write_intent env sc t obs oat))"
    and db_acknowledge: "follows (db_call w OP_ACKNOWLEDGE (\<lambda>env. acknowledge env sc t rid))"
    and db_quarantine: "follows (db_call w OP_QUARANTINE (\<lambda>env. quarantine env sc eid rsn))"
    and db_begin_readback: "follows (db_call w OP_BEGIN_READBACK (\<lambda>env. begin_readback env sc eid))"
    and db_record: "follows (db_call w OP_RECORD (\<lambda>env. record_observation env sc eid obo' polls))"
    and port_unit: "e \<in> {FactoryCall, VerifyCall, CloseCall} \<Longrightarrow> follows (port_call e (gu :: nat \<Rightarrow> adapter_exn + unit))"
    and port_observe: "follows (port_call ObserveCall (go :: nat \<Rightarrow> adapter_exn + regional_observation))"
    and clocks: "follows (read_clock w)" "follows (read_monotonic w)" "follows pause"
begin

lemma port_others [intro]:
  "follows (port_call FactoryCall (gf :: nat \<Rightarrow> adapter_exn + unit))"
  "follows (port_call VerifyCall (gv :: nat \<Rightarrow> adapter_exn + unit))"
  "follows (port_call CloseCall (gc :: nat \<Rightarrow> adapter_exn + unit))"
  by (simp_all add: port_unit)

lemmas events = db_inspect db_claim db_begin_read db_no_write db_write_intent db_acknowledge db_quarantine
  db_begin_readback db_record port_others port_observe clocks

lemmas follows_intros = follows_pure follows_bind follows_try follows_finally follows_branches events

lemma calls:
  "follows (call_inspect w sc eid)" "follows (call_quarantine w sc eid rsn)"
  "follows (call_no_write w sc t rsn)" "follows (call_begin_readback w sc eid)"
  "follows (call_record w sc eid obs polls)" "follows (nothing_written w sc eid)"
  unfolding driver_defs nothing_written_def by (intro follows_intros)+

lemma poll: "follows (readback_poll w sc eid st win b)"
  unfolding readback_poll_def Let_def by (intro follows_intros calls)

lemma loop: "follows (readback_loop w sc eid st win k b)"
proof (induction k arbitrary: b)
  case 0
  then show ?case by (cases b) (auto simp only: readback_loop.simps)
next
  case (Suc k)
  have "follows (readback_loop w sc eid st win (Suc k) (Some a))" for a
    unfolding readback_loop.simps by (intro follows_intros calls poll Suc.IH)
  then show ?case by (cases b) (auto simp only: readback_loop.simps(1))
qed

lemma whole_readback: "follows (readback w sc eid given)"
  unfolding readback_def readback_within_def Let_def by (intro follows_intros calls loop)

lemma reading_once: "follows (read_once w sc t)"
  unfolding read_once_def by (intro follows_intros calls)

lemma reading: "follows (read_loop w sc eid t k)"
proof (induction k)
  case (Suc k)
  show ?case
    unfolding read_loop.simps by (intro follows_intros calls reading_once Suc.IH)
qed (unfold read_loop.simps, intro follows_intros calls)

lemma acknowledging: "follows (after_enable w sc eid t rid)"
  unfolding after_enable_def by (intro follows_intros calls whole_readback)

lemma failing: "follows (after_failure w sc eid)"
  unfolding after_failure_def by (intro follows_intros calls whole_readback)

end

locale drv_writing = drv_actions R w for R w +
  assumes port_enable: "follows (port_call EnableCall (ge :: nat \<Rightarrow> adapter_exn + string))"
begin

lemma writing: "follows (write_once w sc eid t)"
  unfolding write_once_def by (intro follows_intros port_enable calls whole_readback acknowledging)

lemma whole_run: "follows (run w sc eid)"
  unfolding run_def claimed_run_def dispatch_def
  by (intro follows_intros calls whole_readback reading writing)

end

section \<open>Quiet actions\<close>

text \<open>The trace grows, without an enable call.\<close>

definition quiet :: "driver \<Rightarrow> driver \<Rightarrow> bool" where
  "quiet s s' = (\<exists>es. dr_trace s' = dr_trace s @ es \<and> EnableCall \<notin> set es)"

interpretation quiet_frame: drv_frame quiet
proof
  show "quiet s s" for s by (simp add: quiet_def)
  show "quiet s1 s2 \<Longrightarrow> quiet s2 s3 \<Longrightarrow> quiet s1 s3" for s1 s2 s3 by (auto simp: quiet_def)
  show "quiet s (s\<lparr>dr_client := True\<rparr>)" for s by (simp add: quiet_def)
qed

lemma quiet_events:
  "quiet_frame.follows (db_call w op f)" "e \<noteq> EnableCall \<Longrightarrow> quiet_frame.follows (port_call e g)"
  "quiet_frame.follows (read_clock w)" "quiet_frame.follows (read_monotonic w)" "quiet_frame.follows pause"
  by (auto simp: quiet_frame.follows_def quiet_def db_call_def port_call_def read_clock_def read_monotonic_def
      pause_def log_event_def Let_def split: prod.splits)

interpretation quiet: drv_actions quiet w for w
  by unfold_locales (auto intro: quiet_events)

section \<open>At most one enable call\<close>

lemma write_once_cases:
  "write_once w sc eid t s =
     (case adapter_result (ap_enable (dw_port w) (index_of s)) of
        Inl e \<Rightarrow> after_failure w sc eid (log_event EnableCall s)
      | Inr rid \<Rightarrow> after_enable w sc eid t rid (log_event EnableCall s))"
  by (simp add: write_once_def after_failure_def drv_bind_def drv_try_def port_call_def drv_ret_def
      split: sum.split prod.split)

lemma write_once_trace:
  assumes "write_once w sc eid t s = (r, s')"
  shows "\<exists>ys. dr_trace s' = dr_trace s @ EnableCall # ys \<and> EnableCall \<notin> set ys \<and>
    (r = Inr WR_ACKNOWLEDGED \<or> r = Inr WR_QUARANTINED \<or> isl r)"
proof -
  let ?s1 = "log_event EnableCall s"
  have "quiet ?s1 s' \<and> (r = Inr WR_ACKNOWLEDGED \<or> r = Inr WR_QUARANTINED \<or> isl r)"
  proof (cases "adapter_result (ap_enable (dw_port w) (index_of s))")
    case (Inr rid)
    then have run: "after_enable w sc eid t rid ?s1 = (r, s')"
      using assms by (simp add: write_once_cases)
    then have "r = Inr WR_ACKNOWLEDGED \<or> r = Inr WR_QUARANTINED \<or> isl r"
      by (auto simp: after_enable_def drv_bind_def drv_ret_def split: prod.splits sum.splits if_splits)
    with run show ?thesis using quiet_frame.followsD [OF quiet.acknowledging] by blast
  next
    case (Inl e)
    then have run: "after_failure w sc eid ?s1 = (r, s')"
      using assms by (simp add: write_once_cases)
    then have "r = Inr WR_QUARANTINED \<or> isl r"
      by (auto simp: after_failure_def drv_bind_def drv_ret_def split: prod.splits sum.splits)
    with run show ?thesis using quiet_frame.followsD [OF quiet.failing] by blast
  qed
  then show ?thesis by (auto simp: quiet_def log_event_def)
qed

text \<open>The events of a run: no enable call at all, or one with its intent and its clock reading.\<close>

definition one_authorized_enable ::
    "driver_world \<Rightarrow> worker_scope \<Rightarrow> worker_token \<Rightarrow> driver_event list \<Rightarrow> bool" where
  "one_authorized_enable w sc t es =
     (\<exists>xs ys d d' at n obs oat.
        es = xs @ [DbCall OP_WRITE_INTENT d d', ClockRead (Aware at), EnableCall] @ ys \<and>
        EnableCall \<notin> set xs \<and> EnableCall \<notin> set ys \<and>
        write_intent (dw_env w n) sc t obs oat d = (Inr True, d') \<and> at < xc_expires_at (wt_content t))"

lemma one_authorized_enable_within:
  assumes "one_authorized_enable w sc t es" "EnableCall \<notin> set zs" "EnableCall \<notin> set vs"
  shows "one_authorized_enable w sc t (zs @ es @ vs)"
proof -
  from assms(1) obtain xs ys d d' at n obs oat where e:
    "es = xs @ [DbCall OP_WRITE_INTENT d d', ClockRead (Aware at), EnableCall] @ ys"
    "EnableCall \<notin> set xs" "EnableCall \<notin> set ys"
    "write_intent (dw_env w n) sc t obs oat d = (Inr True, d')" "at < xc_expires_at (wt_content t)"
    unfolding one_authorized_enable_def by blast
  then have "zs @ es @ vs = (zs @ xs) @ [DbCall OP_WRITE_INTENT d d', ClockRead (Aware at), EnableCall] @ (ys @ vs)"
    by simp
  then show ?thesis
    unfolding one_authorized_enable_def using e(2-5) assms(2,3) by (metis Un_iff set_append)
qed

lemma dispatch_trace:
  assumes "dispatch w sc eid t obs oat s = (r, s')"
  shows "\<exists>es. dr_trace s' = dr_trace s @ es \<and>
    (EnableCall \<notin> set es \<or>
     one_authorized_enable w sc t es \<and> (r = Inr WR_ACKNOWLEDGED \<or> r = Inr WR_QUARANTINED \<or> isl r))"
proof -
  let ?d = "dw_others w (index_of s) (dr_db s)"
  obtain res d' where wi: "write_intent (dw_env w (index_of s)) sc t obs oat ?d = (res, d')" by fastforce
  let ?s1 = "log_event (DbCall OP_WRITE_INTENT ?d d') (s\<lparr>dr_db := d'\<rparr>)"
  let ?s2 = "log_event (ClockRead (dw_clock w (index_of ?s1))) ?s1"
  have s1: "dr_trace ?s1 = dr_trace s @ [DbCall OP_WRITE_INTENT ?d d']" by (simp add: log_event_def)
  consider (raised) e where "res = Inl e" | (refused) "res = Inr False" | (granted) "res = Inr True"
    by (cases res) auto
  then show ?thesis
  proof cases
    case raised
    then have "s' = ?s1" using assms by (simp add: dispatch_def drv_bind_def db_call_def wi Let_def)
    then show ?thesis using s1 by auto
  next
    case refused
    then have "nothing_written w sc eid ?s1 = (r, s')"
      using assms by (simp add: dispatch_def drv_bind_def db_call_def wi Let_def)
    then have "quiet ?s1 s'" using quiet_frame.followsD quiet.calls(6) by blast
    then show ?thesis using s1 by (auto simp: quiet_def)
  next
    case granted
    have s2: "dr_trace ?s2 = dr_trace s @ [DbCall OP_WRITE_INTENT ?d d', ClockRead (dw_clock w (index_of ?s1))]"
      by (simp add: log_event_def)
    show ?thesis
    proof (cases "dw_clock w (index_of ?s1)")
      case Naive
      then have "s' = ?s2" using assms granted
        by (simp add: dispatch_def drv_bind_def db_call_def wi Let_def read_clock_def reached_def drv_raise_def)
      then show ?thesis using s2 by auto
    next
      case (Aware at)
      show ?thesis
      proof (cases "xc_expires_at (wt_content t) \<le> at")
        case True
        then have "drv_bind (call_quarantine w sc eid BR_LATE_DISPATCH) (\<lambda>_. drv_ret WR_QUARANTINED) ?s2 = (r, s')"
          using assms granted Aware
          by (simp add: dispatch_def drv_bind_def db_call_def wi Let_def read_clock_def reached_def drv_ret_def)
        moreover have "quiet_frame.follows (drv_bind (call_quarantine w sc eid BR_LATE_DISPATCH) (\<lambda>_. drv_ret WR_QUARANTINED))"
          by (intro quiet.follows_intros quiet.calls)
        ultimately have "quiet ?s2 s'" using quiet_frame.followsD by blast
        then show ?thesis using s2 by (auto simp: quiet_def)
      next
        case False
        then have "write_once w sc eid t ?s2 = (r, s')"
          using assms granted Aware
          by (simp add: dispatch_def drv_bind_def db_call_def wi Let_def read_clock_def reached_def drv_ret_def)
        from write_once_trace [OF this] obtain ys where ys:
          "dr_trace s' = dr_trace ?s2 @ EnableCall # ys" "EnableCall \<notin> set ys"
          "r = Inr WR_ACKNOWLEDGED \<or> r = Inr WR_QUARANTINED \<or> isl r" by blast
        have "one_authorized_enable w sc t ([] @ [DbCall OP_WRITE_INTENT ?d d', ClockRead (Aware at), EnableCall] @ ys)"
          unfolding one_authorized_enable_def
          by (intro exI conjI, rule refl) (use ys False wi granted in \<open>auto simp: not_le\<close>)
        then show ?thesis using ys s2 Aware by auto
      qed
    qed
  qed
qed

lemma claimed_run_trace:
  assumes "claimed_run w sc eid t s = (r, s')"
  shows "\<exists>es. dr_trace s' = dr_trace s @ es \<and>
    (EnableCall \<notin> set es \<or>
     one_authorized_enable w sc t es \<and> (r = Inr WR_ACKNOWLEDGED \<or> r = Inr WR_QUARANTINED \<or> isl r))"
proof -
  let ?body = "drv_bind (read_loop w sc eid t 3) (\<lambda>x.
        case x of Returned r \<Rightarrow> drv_ret r
        | Observed observation observed_at \<Rightarrow> dispatch w sc eid t observation observed_at)"
  let ?close = "drv_bind get_client (\<lambda>have.
        if have then port_call CloseCall (ap_close (dw_port w)) else drv_ret ())"
  obtain r0 s0 where body: "?body s = (r0, s0)" by fastforce
  obtain rl s1 where loop: "read_loop w sc eid t 3 s = (rl, s1)" by fastforce
  have q1: "quiet s s1" using quiet_frame.followsD [OF quiet.reading loop] .
  have "\<exists>es. dr_trace s0 = dr_trace s1 @ es \<and> (EnableCall \<notin> set es \<or>
     one_authorized_enable w sc t es \<and> (r0 = Inr WR_ACKNOWLEDGED \<or> r0 = Inr WR_QUARANTINED \<or> isl r0))"
    using body loop dispatch_trace
    by (fastforce simp: drv_bind_def drv_ret_def split: sum.split_asm read_exit.split_asm)
  moreover obtain rc where "?close s0 = (rc, s')" "r = r0 \<or> isl r"
    using assms body
    by (auto simp: claimed_run_def drv_finally_def split: prod.split_asm sum.split_asm)
  moreover have "quiet_frame.follows ?close" by (intro quiet.follows_intros)
  ultimately obtain es xs ys where t: "dr_trace s0 = dr_trace s1 @ es" "dr_trace s1 = dr_trace s @ xs"
    "dr_trace s' = dr_trace s0 @ ys" "EnableCall \<notin> set xs" "EnableCall \<notin> set ys"
    "EnableCall \<notin> set es \<or>
     one_authorized_enable w sc t es \<and> (r = Inr WR_ACKNOWLEDGED \<or> r = Inr WR_QUARANTINED \<or> isl r)"
    using q1 quiet_frame.followsD unfolding quiet_def by blast
  then have "dr_trace s' = dr_trace s @ xs @ es @ ys" by simp
  moreover have "EnableCall \<notin> set es \<Longrightarrow> EnableCall \<notin> set (xs @ es @ ys)" using t by simp
  ultimately show ?thesis using t one_authorized_enable_within by blast
qed

lemma drv_bind_step: "m s = (Inr a, s1) \<Longrightarrow> drv_bind m f s = f a s1"
  by (simp add: drv_bind_def)

lemma run_trace:
  assumes "run w sc eid s = (r, s')"
  shows "\<exists>es. dr_trace s' = dr_trace s @ es \<and>
    (EnableCall \<notin> set es \<or>
     (\<exists>t n d d'. claim (dw_env w n) sc eid d = (Inr (Some t), d') \<and> one_authorized_enable w sc t es) \<and>
     (r = Inr WR_ACKNOWLEDGED \<or> r = Inr WR_QUARANTINED \<or> isl r))"
proof (cases "\<exists>es. dr_trace s' = dr_trace s @ es \<and> EnableCall \<notin> set es")
  case True
  then show ?thesis by blast
next
  case False
  have no: "\<not> quiet s s'" using False by (simp add: quiet_def)
  have en: "ws_enabled sc"
    using no assms by (auto simp: run_def drv_ret_def quiet_def split: if_splits)
  obtain x s1 where ins: "call_inspect w sc eid s = (x, s1)" by fastforce
  have q1: "quiet s s1" using quiet_frame.followsD [OF quiet.calls(1) ins] .
  obtain ph c where x: "x = Inr (ph, c)"
    using assms ins q1 no en by (cases x) (auto simp: run_def drv_bind_def)
  have rb: "quiet_frame.follows (drv_bind (call_quarantine w sc eid rsn) (\<lambda>_. drv_bind (readback w sc eid False) (\<lambda>_. drv_ret v)))"
    "quiet_frame.follows (drv_bind (readback w sc eid False) (\<lambda>_. drv_ret v))" for rsn v
    by (intro quiet.follows_intros quiet.calls quiet.whole_readback)+
  have not_rb: "drv_bind (call_quarantine w sc eid rsn) (\<lambda>_. drv_bind (readback w sc eid False) (\<lambda>_. drv_ret v)) s1 \<noteq> (r, s')"
    "drv_bind (readback w sc eid False) (\<lambda>_. drv_ret v) s1 \<noteq> (r, s')" for rsn v
    using no quiet_frame.drv_trans [OF q1] quiet_frame.followsD [OF rb(1)] quiet_frame.followsD [OF rb(2)] by metis+
  have "drv_bind (db_call w OP_CLAIM (\<lambda>env. claim env sc eid)) (\<lambda>cl.
          case cl of None \<Rightarrow> nothing_written w sc eid | Some t \<Rightarrow> claimed_run w sc eid t) s1 = (r, s')"
    using assms en not_rb
    by (auto simp: run_def drv_bind_step [of "call_inspect w sc eid", OF ins [unfolded x]] split: if_splits)
  moreover obtain y s2 where cl: "db_call w OP_CLAIM (\<lambda>env. claim env sc eid) s1 = (y, s2)" by fastforce
  moreover have q2: "quiet s1 s2" using quiet_frame.followsD [OF quiet_events(1) cl] .
  moreover have "nothing_written w sc eid s2 \<noteq> (r, s')"
    using no quiet_frame.drv_trans [OF q1 quiet_frame.drv_trans [OF q2]] quiet_frame.followsD [OF quiet.calls(6)] by metis
  ultimately obtain t where t: "y = Inr (Some t)" "claimed_run w sc eid t s2 = (r, s')"
    using no quiet_frame.drv_trans [OF q1 q2]
    by (cases y) (auto simp: drv_bind_def split: option.splits)
  have g: "\<exists>n d d'. claim (dw_env w n) sc eid d = (Inr (Some t), d')"
    using cl t(1) by (auto simp: db_call_def Let_def split: prod.split_asm sum.split_asm)
  obtain es xs where e: "dr_trace s' = dr_trace s2 @ es" "dr_trace s2 = dr_trace s @ xs" "EnableCall \<notin> set xs"
    "EnableCall \<notin> set es \<or>
     one_authorized_enable w sc t es \<and> (r = Inr WR_ACKNOWLEDGED \<or> r = Inr WR_QUARANTINED \<or> isl r)"
    using claimed_run_trace [OF t(2)] quiet_frame.drv_trans [OF q1 q2] unfolding quiet_def by blast
  then have "dr_trace s' = dr_trace s @ xs @ es @ []" by simp
  moreover have "EnableCall \<in> set es" using False e by force
  ultimately show ?thesis
    using e g one_authorized_enable_within [of w sc t es xs "[]"] by fastforce
qed

section \<open>Budgets\<close>

text \<open>How often an action logs an event of a kind, computed along its structure.\<close>

definition spends :: "(driver_event \<Rightarrow> bool) \<Rightarrow> nat \<Rightarrow> 'a drv \<Rightarrow> bool" where
  "spends P n m \<longleftrightarrow>
     (\<forall>s r s'. m s = (r, s') \<longrightarrow>
        length (filter P (dr_trace s')) \<le> length (filter P (dr_trace s)) + n)"

lemma spends_mono: "spends P i m \<Longrightarrow> i \<le> n \<Longrightarrow> spends P n m"
  by (fastforce simp: spends_def)

lemma spends_bind: "spends P i m \<Longrightarrow> (\<And>a. spends P j (f a)) \<Longrightarrow> spends P (i + j) (drv_bind m f)"
  by (fastforce simp: spends_def drv_bind_def split: prod.splits sum.splits)

lemma spends_try: "spends P i m \<Longrightarrow> (\<And>e. spends P j (h e)) \<Longrightarrow> spends P (i + j) (drv_try m h)"
  by (fastforce simp: spends_def drv_try_def split: prod.splits sum.splits)

lemma spends_finally: "spends P i m \<Longrightarrow> spends P j c \<Longrightarrow> spends P (i + j) (drv_finally m c)"
  by (fastforce simp: spends_def drv_finally_def split: prod.splits sum.splits)

lemma spends_pure:
  "spends P 0 (drv_ret a)" "spends P 0 (drv_raise e)" "spends P 0 get_client" "spends P 0 set_client"
  "spends P 0 (reached c t)"
  by (auto simp: spends_def drv_ret_def drv_raise_def get_client_def set_client_def reached_def split: reading.splits)

lemma spends_if: "spends P i m \<Longrightarrow> spends P j m' \<Longrightarrow> spends P (max i j) (if b then m else m')"
  by (auto elim: spends_mono)

lemma spends_option:
  "spends P i m \<Longrightarrow> (\<And>y. spends P j (f y)) \<Longrightarrow> spends P (max i j) (case ob of None \<Rightarrow> m | Some y \<Rightarrow> f y)"
  by (cases ob) (auto intro: spends_mono [OF _ max.cobounded1] spends_mono [OF _ max.cobounded2])

lemma spends_prod: "(\<And>y z. spends P i (g y z)) \<Longrightarrow> spends P i (case p of (y, z) \<Rightarrow> g y z)"
  by (cases p) simp

lemma spends_exn:
  "(\<And>c. spends P i (ea c)) \<Longrightarrow> spends P j eb \<Longrightarrow> spends P (max i j) (case e of AwsExn c \<Rightarrow> ea c | _ \<Rightarrow> eb)"
  by (cases e) (auto intro: spends_mono [OF _ max.cobounded1] spends_mono [OF _ max.cobounded2])

lemma spends_reading:
  "(\<And>t. spends P i (ra t)) \<Longrightarrow> spends P j rn \<Longrightarrow> spends P (max i j) (case rd of Aware t \<Rightarrow> ra t | Naive \<Rightarrow> rn)"
  by (cases rd) (auto intro: spends_mono [OF _ max.cobounded1] spends_mono [OF _ max.cobounded2])

lemma spends_exit:
  "(\<And>r. spends P i (xa r)) \<Longrightarrow> (\<And>o' t. spends P j (xb o' t)) \<Longrightarrow>
    spends P (max i j) (case x of Returned r \<Rightarrow> xa r | Observed o' t \<Rightarrow> xb o' t)"
  by (cases x) (auto intro: spends_mono [OF _ max.cobounded1] spends_mono [OF _ max.cobounded2])

definition is_observe :: "driver_event \<Rightarrow> bool" where
  "is_observe e = (e = ObserveCall)"

lemma spends_events:
  "spends is_observe 0 (db_call w op f)" "spends is_observe 0 (read_clock w)" "spends is_observe 0 (read_monotonic w)"
  "spends is_observe 0 pause" "spends is_observe 1 (port_call ObserveCall g)" "spends is_observe 0 (port_call VerifyCall g0)"
  "spends is_observe 0 (port_call FactoryCall g1)" "spends is_observe 0 (port_call EnableCall g2)"
  "spends is_observe 0 (port_call CloseCall g3)"
  by (auto simp: spends_def db_call_def port_call_def read_clock_def read_monotonic_def pause_def log_event_def
      is_observe_def Let_def split: prod.splits)

lemmas spends_intros = spends_bind spends_try spends_finally spends_pure spends_if spends_option spends_prod
  spends_exn spends_reading spends_exit spends_events

lemma spends_calls:
  "spends is_observe 0 (call_inspect w sc eid)" "spends is_observe 0 (call_quarantine w sc eid rsn)"
  "spends is_observe 0 (call_no_write w sc t rsn)" "spends is_observe 0 (call_begin_readback w sc eid)"
  "spends is_observe 0 (call_record w sc eid obs polls)" "spends is_observe 0 (nothing_written w sc eid)"
  unfolding driver_defs nothing_written_def
  by ((rule spends_mono, (rule spends_intros)+, simp)+)

lemma spends_poll: "spends is_observe 1 (readback_poll w sc eid st win b)"
  unfolding readback_poll_def Let_def by (rule spends_mono, (rule spends_intros spends_calls)+, simp)

lemma spends_readback_loop: "spends is_observe k (readback_loop w sc eid st win k b)"
proof (induction w sc eid st win k b rule: readback_loop.induct)
  case (1 w sc eid started window k)
  show ?case by (simp, rule spends_mono [OF spends_pure(1)], simp)
next
  case (3 w sc eid started window k budget)
  have ih: "spends is_observe k (readback_loop w sc eid started window k b)" for b
    using "3.IH" [of False] by simp
  show ?case
    unfolding readback_loop.simps
    by (rule spends_mono, (rule spends_intros spends_calls spends_poll ih)+, simp)
qed (auto intro: spends_pure)

lemma spends_readback: "spends is_observe 3 (readback w sc eid given)"
  unfolding readback_def readback_within_def Let_def
  by (rule spends_mono, (rule spends_intros spends_calls spends_readback_loop)+, simp add: readback_fuel_def)

lemma spends_read_once: "spends is_observe 1 (read_once w sc t)"
  unfolding read_once_def by (rule spends_mono, (rule spends_intros spends_calls)+, simp)

lemma spends_read_loop: "spends is_observe k (read_loop w sc eid t k)"
proof (induction k)
  case 0
  show ?case unfolding read_loop.simps by (rule spends_mono, (rule spends_intros spends_calls)+, simp)
next
  case (Suc k)
  show ?case
    unfolding read_loop.simps by (rule spends_mono, (rule spends_intros spends_calls spends_read_once Suc.IH)+, simp)
qed

lemma spends_write_once: "spends is_observe 3 (write_once w sc eid t)"
proof -
  have a: "spends is_observe 3 (after_enable w sc eid t rid)" for rid
    unfolding after_enable_def by (rule spends_mono, (rule spends_intros spends_calls spends_readback)+, simp)
  have f: "spends is_observe 3 (after_failure w sc eid)"
    unfolding after_failure_def by (rule spends_mono, (rule spends_intros spends_calls spends_readback)+, simp)
  show ?thesis
    unfolding spends_def write_once_cases
  proof (intro allI impI)
    fix s r s'
    assume "(case adapter_result (ap_enable (dw_port w) (index_of s)) of
        Inl e \<Rightarrow> after_failure w sc eid (log_event EnableCall s)
      | Inr rid \<Rightarrow> after_enable w sc eid t rid (log_event EnableCall s)) = (r, s')"
    then have "length (filter is_observe (dr_trace s')) \<le>
        length (filter is_observe (dr_trace (log_event EnableCall s))) + 3"
      using a f by (auto simp: spends_def split: sum.splits)
    then show "length (filter is_observe (dr_trace s')) \<le> length (filter is_observe (dr_trace s)) + 3"
      by (simp add: log_event_def is_observe_def)
  qed
qed

lemma spends_run: "spends is_observe 6 (run w sc eid)"
proof -
  have d: "spends is_observe 3 (dispatch w sc eid t obs oat)" for t obs oat
    unfolding dispatch_def by (rule spends_mono, (rule spends_intros spends_calls spends_write_once)+, simp)
  have c: "spends is_observe 6 (claimed_run w sc eid t)" for t
    unfolding claimed_run_def by (rule spends_mono, (rule spends_intros spends_calls spends_read_loop d)+, simp)
  show ?thesis
    unfolding run_def by (rule spends_mono, (rule spends_intros spends_calls spends_readback c)+, simp)
qed

section \<open>One run, whatever the world does\<close>

text \<open>A run observes the Region at most six times, three before the write and three after it, in
  every world: no answer of AWS, of the clocks or of the database makes it loop.\<close>

theorem observations_bounded:
  "length (filter (\<lambda>e. e = ObserveCall) (dr_trace (snd (worker_run w sc eid d)))) \<le> 6"
proof -
  have "length (filter is_observe (dr_trace (snd (run w sc eid (start_driver d))))) \<le> 6"
    using spends_run [of w sc eid] unfolding spends_def start_driver_def
    by (metis add_0 driver.select_convs(2) filter.simps(1) list.size(3) prod.collapse)
  then show ?thesis
    by (simp add: worker_run_def is_observe_def [abs_def] start_driver_def)
qed

end
