(* ===== verification/Driver_Scenario.thy ===== *)
theory Driver_Scenario
  imports Driver_Safety
begin

text \<open>
  The scenario's job as one run of the driver with the real adapter: inspect, claim, one read,
  the durable intent, one enable call, the receipt; then the database goes down before the
  readback. It shows that the properties of runs are about something that happens.
\<close>

definition demo_reply :: "(string \<times> json) list \<Rightarrow> aws_call" where
  "demo_reply extra =
     Reply (JObj ((''ResponseMetadata'',
       JObj [(''HTTPStatusCode'', JInt 200), (''RequestId'', JStr ''req-1'')]) # extra))"

definition demo_script :: aws_script where
  "demo_script =
     \<lparr>sc_environ = [(''AWS_CONTAINER_CREDENTIALS_RELATIVE_URI'', ''/v2/credentials/task-1'')],
      sc_session = (\<lambda>_. \<lparr>es_credentials = Made (Some ''container-role''), es_sts = Made (), es_ec2 = Made ()\<rparr>),
      sc_caller = (\<lambda>_. demo_reply [(''Account'', JStr demo_account),
        (''Arn'', JStr (assumed_role_prefix demo_account demo_role @ ''task-1'')), (''UserId'', JStr ''AROA:task-1'')]),
      sc_encryption = (\<lambda>_. demo_reply [(''EbsEncryptionByDefault'', JBool False)]),
      sc_key = (\<lambda>_. demo_reply []),
      sc_enable = (\<lambda>_. demo_reply [(''EbsEncryptionByDefault'', JBool True)]),
      sc_close = (\<lambda>_. Inr ()), sc_sts_region = demo_region, sc_ec2_region = demo_region\<rparr>"

text \<open>Action 0 is the inspection, 1 the claim, 2 the read attempt, 7 the intent, 10 the receipt.\<close>

definition demo_world :: driver_world where
  "demo_world =
     \<lparr>dw_env = (\<lambda>n. if n = 0 then demo_env 4 else if n = 1 then demo_env 5 else if n = 2 then demo_env 6
        else if n = 7 then demo_env 7 else if n = 10 then demo_env 8 else if n = 11 then demo_env 9
        else (demo_env 10)\<lparr>down := True\<rparr>),
      dw_others = (\<lambda>n d. d),
      dw_clock = (\<lambda>n. Aware (seconds (if n = 6 then 65 else 72))),
      dw_monotonic = (\<lambda>n. int n),
      dw_port = ebs_port demo_worker demo_script\<rparr>"

lemma demo_port:
  "ap_factory (dw_port demo_world) n = Inr ()" "ap_verify (dw_port demo_world) n = Inr ()"
  "ap_observe (dw_port demo_world) n = Inr demo_observation" "ap_enable (dw_port demo_world) n = Inr ''req-1''"
  "ap_close (dw_port demo_world) n = Inr ()"
proof -
  show "ap_factory (dw_port demo_world) n = Inr ()"
    by (simp add: demo_world_def ebs_port_def from_ecs_def demo_script_def demo_worker_ok hostile_environment_def
      forbidden_source_variables_def starts_with_def relative_uri_pattern_def upper_def upper_char_def Let_def
      is_lower_def is_upper_def is_digit_def char_of_def)
  show "ap_verify (dw_port demo_world) n = Inr ()"
    by (simp add: demo_world_def ebs_port_def verify_identity_def demo_script_def demo_worker_ok demo_reply_def
      aws_success_def obj_get_def identity_accepted_def starts_with_def session_name_pattern_def strip_ws_def is_ws_def
      role_char_def Let_def is_lower_def is_upper_def is_digit_def)
  show "ap_observe (dw_port demo_world) n = Inr demo_observation"
    by (simp add: demo_world_def ebs_port_def observe_def demo_script_def demo_reply_def aws_success_def obj_get_def
      demo_observation_def)
  show "ap_enable (dw_port demo_world) n = Inr ''req-1''"
    by (simp add: demo_world_def ebs_port_def demo_script_def demo_reply_def aws_success_def obj_get_def
      request_id_pattern_def is_lower_def is_upper_def is_digit_def Let_def)
qed (simp add: demo_world_def ebs_port_def demo_script_def)

lemma demo_inspections:
  "inspect (demo_env 4) demo_worker 40 demo_admitted = (Inr (PH_QUEUED, demo_execution), demo_admitted)"
  "inspect (demo_env 9) demo_worker 40 demo_acknowledged = (Inr (PH_ACKNOWLEDGED, demo_execution), demo_acknowledged)"
  using demo_locked [OF demo_state_admitted, of "\<lparr>wk_db = demo_admitted, wk_ticks = 1, wk_ids = 0\<rparr>" _ _ _ inspect_work 4]
    demo_locked [OF demo_state_acknowledged, of "\<lparr>wk_db = demo_acknowledged, wk_ticks = 1, wk_ids = 0\<rparr>" _ _ _ inspect_work 9]
    demo_state_admitted demo_state_acknowledged
  by (simp_all add: inspect_def inspect_work_def demo_last_phases)
    (simp add: last_phase_def)?

lemma demo_world_simps:
  "dw_others demo_world n d = d" "dw_env demo_world 0 = demo_env 4" "dw_env demo_world (Suc 0) = demo_env 5"
  "dw_env demo_world (Suc (Suc 0)) = demo_env 6" "dw_env demo_world (Suc (Suc (Suc (Suc (Suc (Suc (Suc 0))))))) = demo_env 7" "dw_env demo_world (Suc (Suc (Suc (Suc (Suc (Suc (Suc (Suc (Suc (Suc 0)))))))))) = demo_env 8"
  "dw_env demo_world (Suc (Suc (Suc (Suc (Suc (Suc (Suc (Suc (Suc (Suc (Suc 0))))))))))) = demo_env 9" "dw_env demo_world (Suc (Suc (Suc (Suc (Suc (Suc (Suc (Suc (Suc (Suc (Suc (Suc 0)))))))))))) = (demo_env 10)\<lparr>down := True\<rparr>"
  "dw_clock demo_world (Suc (Suc (Suc (Suc (Suc (Suc 0)))))) = Aware (seconds 65)" "dw_clock demo_world (Suc (Suc (Suc (Suc (Suc (Suc (Suc (Suc 0)))))))) = Aware (seconds 72)"
  by (simp_all add: demo_world_def)

lemma demo_no_readback:
  "begin_readback ((demo_env 10)\<lparr>down := True\<rparr>) demo_worker 40 d = (Inl (RemErr DatabaseUnavailable), d)"
  by (simp add: begin_readback_def locked_def demo_worker_ok)

lemmas driver_monad = drv_bind_def drv_ret_def drv_raise_def drv_try_def drv_finally_def get_client_def
  set_client_def reached_def port_call_def read_clock_def read_monotonic_def pause_def db_call_def log_event_def
  index_of_def adapter_result_def Let_def

definition demo_trace :: "driver_event list" where
  "demo_trace =
     [DbCall OP_INSPECT demo_admitted demo_admitted, DbCall OP_CLAIM demo_admitted demo_claimed,
      DbCall OP_BEGIN_READ demo_claimed demo_read, FactoryCall, VerifyCall, ObserveCall,
      ClockRead (Aware (seconds 65)), DbCall OP_WRITE_INTENT demo_read demo_intended,
      ClockRead (Aware (seconds 72)), EnableCall, DbCall OP_ACKNOWLEDGE demo_intended demo_acknowledged,
      DbCall OP_INSPECT demo_acknowledged demo_acknowledged,
      DbCall OP_BEGIN_READBACK demo_acknowledged demo_acknowledged, CloseCall]"

definition demo_end :: driver where
  "demo_end = \<lparr>dr_db = demo_acknowledged, dr_trace = demo_trace, dr_client = True\<rparr>"

lemma demo_run:
  "worker_run demo_world demo_worker 40 demo_admitted = (Inl (DbExn (RemErr DatabaseUnavailable)), demo_end)"
proof -
  have e: "wt_content demo_token = demo_execution" by (simp add: demo_token_def)
  have x: "\<not> seconds 342 \<le> seconds 72" by (simp add: seconds_def)
  have three: "(3 :: nat) = Suc (Suc (Suc 0))" by simp
  show ?thesis
    by (simp add: worker_run_def demo_worker_ok run_def start_driver_def driver_monad call_inspect_def demo_world_simps
      demo_inspections demo_claim_run [unfolded call_claim_def] claimed_run_def three demo_read_run read_once_def
      demo_port dispatch_def demo_intent_run e x write_once_def after_enable_def demo_acknowledge_run
      readback_def call_begin_readback_def demo_no_readback demo_end_def demo_trace_def)
qed

section \<open>Who may write\<close>

lemma starts_with_split: "starts_with p s \<Longrightarrow> s = p @ drop (length p) s"
  unfolding starts_with_def by (metis append_take_drop_id)

text \<open>C37. The identity check only passes for a session of the configured role in the configured account:
  the caller's ARN is an assumed-role session of exactly that role name, in the partition of the
  configured Region, with a well formed session name, and both clients are bound to that Region.\<close>

theorem identity_is_the_configured_role:
  assumes "valid_worker_scope scope" "verify_identity scope sts_region ec2_region call = Inr ()"
  shows "\<exists>account region role response session.
    ws_account_id scope = Some account \<and> ws_region scope = Some region \<and> ws_role_arn scope = Some role \<and>
    role_account role = account \<and> sts_region = region \<and> ec2_region = region \<and>
    call = Reply response \<and> jget ''Account'' response = JStr account \<and>
    jget ''Arn'' response = JStr (''arn:'' @ region_partition region @ '':sts::'' @ account @ '':assumed-role/'' @
      last (split_on (CHR ''/'') (split_on (CHR '':'') role ! 5)) @ ''/'' @ session) \<and>
    session_name_pattern session"
proof -
  obtain response where r: "call = Reply response" "aws_success response = Inr response"
    using assms(2) by (auto simp: verify_identity_def res_bind_Inr_iff aws_read_Inr)
  then obtain account region role where s: "ws_account_id scope = Some account" "ws_region scope = Some region"
    "ws_role_arn scope = Some role" "identity_accepted account region role sts_region ec2_region response"
    using assms(2) by (auto simp: verify_identity_def split: option.split_asm if_split_asm)
  have scope: "role_account role = account" "role_partition role = region_partition region"
    using assms(1) s(1-3) by (auto simp: valid_worker_scope_def)
  obtain arn where arn: "jget ''Arn'' response = JStr arn" "starts_with (assumed_role_prefix account role) arn"
    "session_name_pattern (drop (length (assumed_role_prefix account role)) arn)"
    using s(4) by (auto simp: identity_accepted_def Let_def split: json.split_asm)
  have "jget ''Account'' response = JStr account" "sts_region = region" "ec2_region = region"
    using s(4) by (simp_all add: identity_accepted_def Let_def)
  moreover have "arn = ''arn:'' @ region_partition region @ '':sts::'' @ account @ '':assumed-role/'' @
      last (split_on (CHR ''/'') (split_on (CHR '':'') role ! 5)) @ ''/'' @
      drop (length (assumed_role_prefix account role)) arn"
    using starts_with_split [OF arn(2)] scope(2)
    by (simp add: assumed_role_prefix_def Let_def role_partition_def)
  ultimately show ?thesis using r s(1-3) scope(1) arn(1,3) by metis
qed

lemma identity_is_the_configured_role_witness:
  "\<exists>session. jget ''Arn'' (JObj [(''Arn'', JStr (assumed_role_prefix demo_account demo_role @ ''task-1''))]) =
     JStr (''arn:aws:sts::123456789012:assumed-role/worker/'' @ session) \<and> session_name_pattern session"
proof -
  have v: "verify_identity demo_worker demo_region demo_region (sc_caller demo_script 0) = Inr ()"
    using demo_port(2) [of 0] by (simp add: demo_world_def ebs_port_def demo_script_def)
  from identity_is_the_configured_role [OF demo_worker_ok(1) v]
  show ?thesis
    by (auto simp: demo_worker_ok demo_script_def demo_reply_def obj_get_def demo_role_def demo_account_def
      demo_region_def region_partition_def starts_with_def)
qed

text \<open>C40. Construction never leaks: whenever the factory ends in a classified error, every client it
  opened has been closed, and it only succeeds in an enabled scope, without any forbidden or
  endpoint variable, with a well formed relative URI and container-role credentials.\<close>

theorem construction_is_closed:
  "(cn_result (from_ecs scope environ session) = Inl (WorkerAws code) \<longrightarrow>
      cn_closed (from_ecs scope environ session) = cn_opened (from_ecs scope environ session)) \<and>
   (cn_result (from_ecs scope environ session) = Inr () \<longleftrightarrow>
      valid_worker_scope scope \<and> ws_enabled scope \<and>
      \<not> hostile_environment (map (upper \<circ> fst) environ) \<and>
      (\<exists>uri. map_of environ ''AWS_CONTAINER_CREDENTIALS_RELATIVE_URI'' = Some uri \<and> relative_uri_pattern uri) \<and>
      session = \<lparr>es_credentials = Made (Some ''container-role''), es_sts = Made (), es_ec2 = Made ()\<rparr>)"
  by (cases session; cases "es_credentials session"; cases "es_sts session"; cases "es_ec2 session")
    (auto simp: from_ecs_def Let_def split: option.splits)

lemma construction_is_closed_witness:
  "cn_opened (from_ecs demo_worker (sc_environ demo_script)
      \<lparr>es_credentials = Made (Some ''container-role''), es_sts = Made (), es_ec2 = SetupFault\<rparr>) = [STS_CLIENT] \<and>
   cn_closed (from_ecs demo_worker (sc_environ demo_script)
      \<lparr>es_credentials = Made (Some ''container-role''), es_sts = Made (), es_ec2 = SetupFault\<rparr>) = [STS_CLIENT]"
proof -
  let ?c = "from_ecs demo_worker (sc_environ demo_script)
      \<lparr>es_credentials = Made (Some ''container-role''), es_sts = Made (), es_ec2 = SetupFault\<rparr>"
  have c: "cn_result ?c = Inl (WorkerAws AWS_SOURCE_UNAVAILABLE)" "cn_opened ?c = [STS_CLIENT]"
    by (simp_all add: from_ecs_def demo_script_def demo_worker_ok hostile_environment_def
      forbidden_source_variables_def starts_with_def relative_uri_pattern_def upper_def upper_char_def Let_def
      is_lower_def is_upper_def is_digit_def char_of_def)
  then show ?thesis using construction_is_closed by metis
qed

end
