(* ===== verification/Driver_System.thy ===== *)
theory Driver_System
  imports Driver_Scenario
begin

text \<open>
  A run of the worker inside the remediation system: its database calls are steps of the system,
  and so is everything other processes do between them. Every enable call is paid by a journal
  entry that no other run can produce again.
\<close>

section \<open>Steps of a run\<close>

definition system_steps :: "(document \<Rightarrow> digest) \<Rightarrow> db \<Rightarrow> db \<Rightarrow> bool" where
  "system_steps h = (remediation_step h)\<^sup>*\<^sup>*"

text \<open>The other processes only take steps of the system; all compute the same digest.\<close>

definition fair_world :: "(document \<Rightarrow> digest) \<Rightarrow> driver_world \<Rightarrow> bool" where
  "fair_world h w = (\<forall>n. sha (dw_env w n) = h \<and> (\<forall>d. system_steps h d (dw_others w n d)))"

lemma system_steps_refl [simp]: "system_steps h d d"
  by (simp add: system_steps_def)

lemma system_steps_trans [trans]: "system_steps h d1 d2 \<Longrightarrow> system_steps h d2 d3 \<Longrightarrow> system_steps h d1 d3"
  by (simp add: system_steps_def)

lemma reachable_steps: "reachable h d \<Longrightarrow> system_steps h d d' \<Longrightarrow> reachable h d'"
  unfolding reachable_def system_steps_def by (meson rtranclp_trans)

lemma service_steps: "service_call h d failed d' \<Longrightarrow> system_steps h d d'"
  unfolding system_steps_def using call_step by blast

text \<open>The database calls of a run in the order of its trace, joined by steps of the system.\<close>

definition chained :: "(document \<Rightarrow> digest) \<Rightarrow> driver \<Rightarrow> driver \<Rightarrow> bool" where
  "chained h s s' =
     (system_steps h (dr_db s) (dr_db s') \<and>
      (\<exists>es. dr_trace s' = dr_trace s @ es \<and>
         (\<forall>op d1 d2. DbCall op d1 d2 \<in> set es \<longrightarrow>
            system_steps h (dr_db s) d1 \<and> system_steps h d1 d2 \<and> system_steps h d2 (dr_db s'))))"

interpretation chained_frame: drv_frame "chained h" for h
proof
  show "chained h s s" for s by (simp add: chained_def)
  show "chained h s (s\<lparr>dr_client := True\<rparr>)" for s by (simp add: chained_def)
next
  fix s1 s2 s3
  assume "chained h s1 s2" "chained h s2 s3"
  then obtain xs ys where x: "dr_trace s2 = dr_trace s1 @ xs" "dr_trace s3 = dr_trace s2 @ ys"
    "system_steps h (dr_db s1) (dr_db s2)" "system_steps h (dr_db s2) (dr_db s3)"
    "\<forall>op d1 d2. DbCall op d1 d2 \<in> set xs \<longrightarrow>
       system_steps h (dr_db s1) d1 \<and> system_steps h d1 d2 \<and> system_steps h d2 (dr_db s2)"
    "\<forall>op d1 d2. DbCall op d1 d2 \<in> set ys \<longrightarrow>
       system_steps h (dr_db s2) d1 \<and> system_steps h d1 d2 \<and> system_steps h d2 (dr_db s3)"
    unfolding chained_def by blast
  then have "dr_trace s3 = dr_trace s1 @ xs @ ys" by simp
  then show "chained h s1 s3"
    unfolding chained_def
    using x(3-6) system_steps_trans [OF x(3)] system_steps_trans [OF _ x(4)] system_steps_trans [OF x(3,4)]
    by (intro conjI exI [of _ "xs @ ys"]) auto
qed

lemma chained_db:
  assumes "fair_world h w" "\<And>env d r d'. sha env = h \<Longrightarrow> f env d = (r, d') \<Longrightarrow> system_steps h d d'"
  shows "chained_frame.follows h (db_call w op f)"
proof -
  have "chained h s s'" if "db_call w op f s = (r, s')" for s r s'
  proof -
    let ?d = "dw_others w (index_of s) (dr_db s)"
    obtain x d' where x: "f (dw_env w (index_of s)) ?d = (x, d')" by fastforce
    have o: "system_steps h (dr_db s) ?d" "sha (dw_env w (index_of s)) = h"
      using assms(1) by (simp_all add: fair_world_def)
    have "system_steps h ?d d'" using assms(2) [OF o(2) x] .
    moreover have "s' = log_event (DbCall op ?d d') (s\<lparr>dr_db := d'\<rparr>)"
      using that x by (auto simp: db_call_def Let_def)
    ultimately show ?thesis
      using o(1) system_steps_trans by (auto simp: chained_def log_event_def)
  qed
  then show ?thesis by (auto simp: chained_frame.follows_def)
qed

lemma chained_others:
  "chained_frame.follows h (port_call e g)" if "e \<in> {FactoryCall, VerifyCall, ObserveCall, EnableCall, CloseCall}"
  using that by (auto simp: chained_frame.follows_def chained_def port_call_def log_event_def)

lemma chained_clocks:
  "chained_frame.follows h (read_clock w)" "chained_frame.follows h (read_monotonic w)" "chained_frame.follows h pause"
  by (auto simp: chained_frame.follows_def chained_def read_clock_def read_monotonic_def pause_def log_event_def Let_def)

lemma chained_writing: "fair_world h w \<Longrightarrow> drv_writing (chained h) w"
proof unfold_locales
  assume f: "fair_world h w"
  note db = chained_db [OF f]
  show "chained_frame.follows h (db_call w OP_INSPECT (\<lambda>env. inspect env sc eid))" for sc eid
    by (rule db) (auto dest: inspect_unchanged)
  show "chained_frame.follows h (db_call w OP_CLAIM (\<lambda>env. claim env sc eid))" for sc eid
    by (rule db) (rule service_steps, rule call_claim)
qed (auto intro: chained_others chained_clocks
      intro!: chained_db service_steps
      intro: call_begin_read call_no_write call_write_intent call_acknowledge call_quarantine call_begin_readback call_record)

text \<open>The trace of a run only grows: the write call included.\<close>

interpretation growing_frame: drv_frame "\<lambda>s s'. prefix (dr_trace s) (dr_trace s')"
  by unfold_locales auto

interpretation growing: drv_writing "\<lambda>s s'. prefix (dr_trace s) (dr_trace s')" w for w
  by unfold_locales
    (auto simp: growing_frame.follows_def db_call_def port_call_def read_clock_def read_monotonic_def pause_def
      log_event_def Let_def split: prod.splits)

section \<open>Enable calls are paid by intents\<close>

definition intents :: "uuid \<Rightarrow> db \<Rightarrow> nat" where
  "intents e d = length (filter (\<lambda>v. ee_execution_id v = e \<and> ee_kind v = EK_WRITE_INTENT) (db_events d))"

definition enables :: "driver \<Rightarrow> nat" where
  "enables s = length (filter (\<lambda>e. e = EnableCall) (dr_trace s))"

lemma step_events: "remediation_step h d d' \<Longrightarrow> prefix (db_events d) (db_events d') \<and> prefix (db_executions d) (db_executions d')"
  unfolding remediation_step_def
proof (elim disjE exE)
  fix failed
  assume "service_call h d failed d'"
  from service_call_kept [OF this] show ?thesis by (simp add: history_kept_def)
qed (simp add: application_step_def)

lemma steps_events:
  assumes "system_steps h d d'"
  shows "prefix (db_events d) (db_events d') \<and> prefix (db_executions d) (db_executions d')"
  using assms unfolding system_steps_def
proof (induction rule: rtranclp_induct)
  case (step y z)
  show ?case using step.IH step_events [OF step.hyps(2)] by (auto simp: prefix_def)
qed simp

lemma intents_mono:
  assumes "system_steps h d d'"
  shows "intents e d \<le> intents e d'"
proof -
  obtain es where "db_events d' = db_events d @ es"
    using steps_events [OF assms] by (auto simp: prefix_def)
  then show ?thesis by (simp add: intents_def)
qed

lemma run_chained:
  assumes "fair_world h w" "worker_run w sc eid d = (r, s')"
  shows "system_steps h d (dr_db s') \<and>
    (\<forall>op d1 d2. DbCall op d1 d2 \<in> set (dr_trace s') \<longrightarrow>
       system_steps h d d1 \<and> system_steps h d1 d2 \<and> system_steps h d2 (dr_db s'))"
proof (cases "valid_worker_scope sc")
  case True
  then have "run w sc eid (start_driver d) = (r, s')" using assms(2) by (simp add: worker_run_def)
  then have "chained h (start_driver d) s'"
    using chained_frame.followsD [OF drv_writing.whole_run [OF chained_writing [OF assms(1)]]] by blast
  then show ?thesis by (auto simp: chained_def start_driver_def)
next
  case False
  then show ?thesis using assms(2) by (auto simp: worker_run_def start_driver_def)
qed

lemma no_enables: "EnableCall \<notin> set xs \<Longrightarrow> filter (\<lambda>e. e = EnableCall) xs = []"
  by (induction xs) auto

lemma enables_paid:
  assumes "fair_world h w" "worker_run w sc eid d = (r, s')"
  shows "intents eid d + enables s' \<le> intents eid (dr_db s') \<and>
    (0 < enables s' \<longrightarrow> (\<exists>x\<in>set (db_executions (dr_db s')). ex_id x = eid))"
proof (cases "EnableCall \<in> set (dr_trace s')")
  case False
  then have "enables s' = 0" by (auto simp: enables_def filter_empty_conv)
  then show ?thesis using intents_mono run_chained [OF assms] by auto
next
  case True
  have "run w sc eid (start_driver d) = (r, s')"
    using assms(2) True by (auto simp: worker_run_def start_driver_def split: if_splits)
  from run_trace [OF this] True obtain t m d0 d0' where
    t: "claim (dw_env w m) sc eid d0 = (Inr (Some t), d0')" "one_authorized_enable w sc t (dr_trace s')"
    by (auto simp: start_driver_def)
  then obtain xs ys d1 d2 at n obs oat where e:
    "dr_trace s' = xs @ [DbCall OP_WRITE_INTENT d1 d2, ClockRead (Aware at), EnableCall] @ ys"
    "EnableCall \<notin> set xs" "EnableCall \<notin> set ys"
    "write_intent (dw_env w n) sc t obs oat d1 = (Inr True, d2)"
    unfolding one_authorized_enable_def by blast
  have c: "system_steps h d d1" "system_steps h d1 d2" "system_steps h d2 (dr_db s')"
    using run_chained [OF assms] e(1) by auto
  have "enables s' = 1"
    using e no_enables by (simp add: enables_def)
  moreover obtain x ev where x: "x \<in> set (db_executions d1)" "ex_id x = eid"
    "db_events d2 = db_events d1 @ [ev]" "ee_execution_id ev = eid" "ee_kind ev = EK_WRITE_INTENT"
    using write_intent_True [OF e(4)] claim_token_of [OF t(1)] unfolding intent_granted_def by metis
  then have "intents eid d2 = Suc (intents eid d1)" by (simp add: intents_def)
  moreover have "x \<in> set (db_executions (dr_db s'))"
    using steps_events [OF system_steps_trans [OF c(2,3)]] x(1) set_mono_prefix by blast
  ultimately show ?thesis
    using intents_mono [OF c(1), of eid] intents_mono [OF c(3), of eid] x(2) by auto
qed

text \<open>Runs one after the other, each in its own world (other processes included), and what they did.\<close>

fun runs :: "(driver_world \<times> worker_scope \<times> uuid) list \<Rightarrow> db \<Rightarrow> (uuid \<times> driver) list \<times> db" where
  "runs [] d = ([], d)"
| "runs ((w, sc, eid) # rest) d =
     (let s = snd (worker_run w sc eid d); (done_runs, d') = runs rest (dr_db s) in ((eid, s) # done_runs, d'))"

definition enables_for :: "uuid \<Rightarrow> (uuid \<times> driver) list \<Rightarrow> nat" where
  "enables_for e rs = sum_list (map (\<lambda>(i, s). if i = e then enables s else 0) rs)"

lemma runs_paid:
  assumes "runs jobs d = (rs, d')" "\<forall>(w, sc, eid)\<in>set jobs. fair_world h w"
  shows "system_steps h d d' \<and> intents e d + enables_for e rs \<le> intents e d' \<and>
    (0 < enables_for e rs \<longrightarrow> (\<exists>x\<in>set (db_executions d'). ex_id x = e))"
  using assms
proof (induction jobs arbitrary: d rs)
  case Nil
  then show ?case by (simp add: enables_for_def)
next
  case (Cons job jobs)
  obtain w sc eid where job: "job = (w, sc, eid)" by (cases job)
  obtain r s where s: "worker_run w sc eid d = (r, s)" by fastforce
  obtain rs' where rs: "runs jobs (dr_db s) = (rs', d')" "rs = (eid, s) # rs'"
    using Cons.prems(1) s by (auto simp: job Let_def split: prod.splits)
  have f: "fair_world h w" using Cons.prems(2) job by auto
  note ih = Cons.IH [OF rs(1)]
  have ih': "system_steps h (dr_db s) d'" "intents e (dr_db s) + enables_for e rs' \<le> intents e d'"
    "0 < enables_for e rs' \<longrightarrow> (\<exists>x\<in>set (db_executions d'). ex_id x = e)"
    using ih Cons.prems(2) by auto
  have one: "system_steps h d (dr_db s)" using run_chained [OF f s] by blast
  have sum: "enables_for e rs = (if eid = e then enables s else 0) + enables_for e rs'"
    by (simp add: rs(2) enables_for_def)
  have grow: "set (db_executions (dr_db s)) \<subseteq> set (db_executions d')"
    using steps_events [OF ih'(1)] set_mono_prefix by blast
  show ?case
  proof (cases "eid = e")
    case True
    then show ?thesis
      using enables_paid [OF f s] ih' sum grow system_steps_trans [OF one ih'(1)] by fastforce
  next
    case False
    then show ?thesis
      using intents_mono [OF one, of e] ih' sum system_steps_trans [OF one ih'(1)] by simp
  qed
qed

text \<open>C1. However often the worker is started for an execution, with every answer of AWS and of the
  clocks, exceptions at any database call, and any calls of the services by other processes in
  between: the enable call is made at most once for it, and never once its journal holds an intent.\<close>

theorem enable_at_most_once_ever:
  assumes "reachable h d" "runs jobs d = (rs, d')" "\<forall>(w, sc, eid)\<in>set jobs. fair_world h w"
  shows "reachable h d' \<and> enables_for e rs \<le> 1 \<and> (0 < intents e d \<longrightarrow> enables_for e rs = 0)"
proof -
  note paid = runs_paid [OF assms(2,3), of e]
  have r: "reachable h d'" using reachable_steps [OF assms(1)] paid by blast
  then have "0 < enables_for e rs \<Longrightarrow> intents e d' \<le> 1"
    using paid one_intent [OF r] unfolding intents_def by blast
  then show ?thesis using r paid by linarith
qed

section \<open>The scenario as a run\<close>

lemma demo_fair: "fair_world demo_sha demo_world"
  by (simp add: fair_world_def demo_world_def system_steps_def)

lemma enable_at_most_once_ever_witness:
  "enables_for 40 (fst (runs [(demo_world, demo_worker, 40)] demo_admitted)) = 1 \<and>
   enables_for 40 (fst (runs [(demo_world, demo_worker, 40)] demo_admitted)) \<le> 1"
proof -
  have r: "runs [(demo_world, demo_worker, 40)] demo_admitted = ([(40, demo_end)], demo_acknowledged)"
    by (simp add: demo_run demo_end_def)
  have "enables_for 40 [(40, demo_end)] \<le> 1"
    using enable_at_most_once_ever [OF demo_reachable(4) r, of 40] demo_fair by simp
  then show ?thesis
    by (simp only: r fst_conv) (simp add: enables_for_def enables_def demo_end_def demo_trace_def)
qed

text \<open>C2. Whatever AWS, the clocks and the other processes do, a run calls enable at most once. If it
  does, the call comes immediately after its own granted write_intent and one clock reading before
  the expiry of the claimed request, and the run ends acknowledged, quarantined or by an exception:
  a run that reports NO_WRITE, NO_ACTION or DISABLED never called enable.\<close>

theorem enable_only_after_durable_intent:
  assumes "worker_run w sc eid d = (r, s')" "EnableCall \<in> set (dr_trace s')"
  shows "\<exists>xs ys d1 d2 at n m t obs oat d0 d0'.
    dr_trace s' = xs @ [DbCall OP_WRITE_INTENT d1 d2, ClockRead (Aware at), EnableCall] @ ys \<and>
    EnableCall \<notin> set xs \<and> EnableCall \<notin> set ys \<and>
    claim (dw_env w m) sc eid d0 = (Inr (Some t), d0') \<and>
    write_intent (dw_env w n) sc t obs oat d1 = (Inr True, d2) \<and> at < xc_expires_at (wt_content t) \<and>
    (r = Inr WR_ACKNOWLEDGED \<or> r = Inr WR_QUARANTINED \<or> (\<exists>e. r = Inl e))"
proof -
  have "run w sc eid (start_driver d) = (r, s')"
    using assms by (auto simp: worker_run_def start_driver_def split: if_splits)
  from run_trace [OF this] obtain t m d0 d0' where
    "claim (dw_env w m) sc eid d0 = (Inr (Some t), d0')" "one_authorized_enable w sc t (dr_trace s')"
    "r = Inr WR_ACKNOWLEDGED \<or> r = Inr WR_QUARANTINED \<or> isl r"
    using assms(2) by (auto simp: start_driver_def)
  then show ?thesis
    unfolding one_authorized_enable_def isl_def by blast
qed

lemma enable_only_after_durable_intent_witness:
  "\<exists>xs ys d1 d2 at. demo_trace = xs @ [DbCall OP_WRITE_INTENT d1 d2, ClockRead (Aware at), EnableCall] @ ys \<and>
     EnableCall \<notin> set ys"
proof -
  have "EnableCall \<in> set (dr_trace demo_end)" by (simp add: demo_end_def demo_trace_def)
  from enable_only_after_durable_intent [OF demo_run this] show ?thesis
    by (simp only: demo_end_def driver.select_convs) blast
qed

end
