(* ===== verification/Driver_Termination.thy ===== *)
theory Driver_Termination
  imports Driver_System
begin

text \<open>
  The readback loop of a run ends within its fuel: every turn is paid by a readback attempt that
  the database counts, the count never goes down, and three is its bound.
\<close>

section \<open>Conditions on the state\<close>

text \<open>From a state with P an action does not run out of fuel, and its result leads to Q.\<close>

definition guarded :: "(driver \<Rightarrow> bool) \<Rightarrow> 'a drv \<Rightarrow> ('a \<Rightarrow> driver \<Rightarrow> bool) \<Rightarrow> bool" where
  "guarded P m Q \<longleftrightarrow>
     (\<forall>s r s'. P s \<longrightarrow> m s = (r, s') \<longrightarrow> (case r of Inl e \<Rightarrow> e \<noteq> NoFuel | Inr a \<Rightarrow> Q a s'))"

definition anything :: "'a \<Rightarrow> driver \<Rightarrow> bool" where
  "anything a s = True"

abbreviation fueled :: "'a drv \<Rightarrow> bool" where
  "fueled m \<equiv> guarded (anything ()) m anything"

lemma guarded_bind:
  assumes "guarded P m Q" "\<And>a. guarded (Q a) (f a) S"
  shows "guarded P (drv_bind m f) S"
  unfolding guarded_def
proof (intro allI impI)
  fix s r s'
  assume p: "P s" and run: "drv_bind m f s = (r, s')"
  obtain x s1 where x: "m s = (x, s1)" by fastforce
  then have q: "case x of Inl e \<Rightarrow> e \<noteq> NoFuel | Inr a \<Rightarrow> Q a s1"
    using assms(1) p unfolding guarded_def by blast
  show "case r of Inl e \<Rightarrow> e \<noteq> NoFuel | Inr a \<Rightarrow> S a s'"
  proof (cases x)
    case (Inl e)
    then show ?thesis using q run x by (auto simp: drv_bind_def)
  next
    case (Inr a)
    then have "f a s1 = (r, s')" "Q a s1" using q run x by (auto simp: drv_bind_def)
    then show ?thesis using assms(2) unfolding guarded_def by blast
  qed
qed

lemma fueled_bind: "fueled m \<Longrightarrow> (\<And>a. fueled (f a)) \<Longrightarrow> fueled (drv_bind m f)"
  by (rule guarded_bind [where Q = anything]) (auto simp: guarded_def anything_def)

lemma fueled_iff: "fueled m \<longleftrightarrow> (\<forall>s. fst (m s) \<noteq> Inl NoFuel)"
proof
  assume f: "fueled m"
  show "\<forall>s. fst (m s) \<noteq> Inl NoFuel"
  proof
    fix s
    obtain r s' where r: "m s = (r, s')" by fastforce
    then have "case r of Inl e \<Rightarrow> e \<noteq> NoFuel | Inr a \<Rightarrow> True"
      using f unfolding guarded_def anything_def by blast
    then show "fst (m s) \<noteq> Inl NoFuel" using r by auto
  qed
next
  assume "\<forall>s. fst (m s) \<noteq> Inl NoFuel"
  then show "fueled m" by (auto simp: guarded_def anything_def split: sum.split) (metis fst_conv)
qed

lemma fueled_try:
  assumes "fueled m" "\<And>e. e \<noteq> NoFuel \<Longrightarrow> fueled (h e)"
  shows "fueled (drv_try m h)"
  unfolding fueled_iff
proof
  fix s
  obtain x s1 where x: "m s = (x, s1)" by fastforce
  then have "x \<noteq> Inl NoFuel" using assms(1) [unfolded fueled_iff] by (metis fst_conv)
  then show "fst (drv_try m h s) \<noteq> Inl NoFuel"
    using x assms(2) [unfolded fueled_iff] by (cases x) (auto simp: drv_try_def)
qed

lemma fueled_finally:
  assumes "fueled m" "fueled c"
  shows "fueled (drv_finally m c)"
  unfolding fueled_iff
proof
  fix s
  obtain x s1 where x: "m s = (x, s1)" by fastforce
  obtain y s2 where y: "c s1 = (y, s2)" by fastforce
  have "x \<noteq> Inl NoFuel" "y \<noteq> Inl NoFuel"
    using assms [unfolded fueled_iff] x y by (metis fst_conv)+
  then show "fst (drv_finally m c s) \<noteq> Inl NoFuel"
    using x y by (cases y) (auto simp: drv_finally_def)
qed

lemma fueled_pure:
  "fueled (drv_ret a)" "fueled get_client" "fueled set_client" "fueled (reached c t)"
  "fueled (db_call w op f)" "fueled (port_call ev g)" "fueled (read_clock w)" "fueled (read_monotonic w)"
  "fueled pause" "e \<noteq> NoFuel \<Longrightarrow> fueled (drv_raise e)"
  by (auto simp: guarded_def anything_def drv_ret_def get_client_def set_client_def reached_def db_call_def
      port_call_def read_clock_def read_monotonic_def pause_def drv_raise_def adapter_result_def Let_def
      split: prod.splits sum.splits reading.splits adapter_exn.splits)

lemma fueled_branches:
  "(b \<Longrightarrow> fueled m) \<Longrightarrow> (\<not> b \<Longrightarrow> fueled m') \<Longrightarrow> fueled (if b then m else m')"
  "fueled n \<Longrightarrow> (\<And>y. fueled (f y)) \<Longrightarrow> fueled (case ob of None \<Rightarrow> n | Some y \<Rightarrow> f y)"
  "(\<And>y z. fueled (g y z)) \<Longrightarrow> fueled (case p of (y, z) \<Rightarrow> g y z)"
  "(\<And>c. fueled (ea c)) \<Longrightarrow> (e \<noteq> NoFuel \<Longrightarrow> fueled eb) \<Longrightarrow> e \<noteq> NoFuel \<Longrightarrow>
    fueled (case e of AwsExn c \<Rightarrow> ea c | _ \<Rightarrow> eb)"
  "(\<And>t. fueled (ra t)) \<Longrightarrow> fueled rn \<Longrightarrow> fueled (case rd of Aware t \<Rightarrow> ra t | Naive \<Rightarrow> rn)"
  "(\<And>r. fueled (xa r)) \<Longrightarrow> (\<And>o' t. fueled (xb o' t)) \<Longrightarrow>
    fueled (case x of Returned r \<Rightarrow> xa r | Observed o' t \<Rightarrow> xb o' t)"
  by (simp_all split: option.split prod.split driver_exn.split reading.split read_exit.split)

lemmas fueled_intros = fueled_bind fueled_try fueled_finally fueled_pure fueled_branches

lemma fueled_calls:
  "fueled (call_inspect w sc eid)" "fueled (call_quarantine w sc eid rsn)" "fueled (call_no_write w sc t rsn)"
  "fueled (call_begin_readback w sc eid)" "fueled (call_record w sc eid obs polls)" "fueled (nothing_written w sc eid)"
  unfolding driver_defs nothing_written_def by (intro fueled_intros)+

lemma fueled_poll: "fueled (readback_poll w sc eid st win b)"
  unfolding readback_poll_def Let_def by (intro fueled_intros fueled_calls; simp)

lemma fueled_read_loop: "fueled (read_loop w sc eid t k)"
proof (induction k)
  case (Suc k)
  have "fueled (read_once w sc t)"
    unfolding read_once_def by (intro fueled_intros fueled_calls; simp)
  then show ?case
    unfolding read_loop.simps by (intro fueled_intros fueled_calls Suc.IH)
qed (unfold read_loop.simps, intro fueled_intros fueled_calls)

section \<open>Readback attempts\<close>

text \<open>The database counts at least the attempt this budget was granted for.\<close>

definition attempt_counted :: "uuid \<Rightarrow> nat \<times> time \<Rightarrow> db \<Rightarrow> bool" where
  "attempt_counted eid b d =
     (fst b \<le> 3 \<and> (\<exists>k. claim_of d eid = Some k \<and> fst b \<le> wc_readback_attempts k))"

lemma begin_readback_Some:
  assumes "begin_readback env sc eid d = (Inr (Some b), d')"
  shows "attempt_counted eid b d' \<and>
    (\<exists>k. claim_of d eid = Some k \<and> fst b = Suc (wc_readback_attempts k) \<and> wc_readback_attempts k < 3)"
proof (rule locked_InrE [OF assms [unfolded begin_readback_def]])
  fix r c hist rv at wa w'
  assume w: "wk_db wa = d" "wk_db w' = d'"
    "begin_readback_work env r c hist (claim_of d eid) rv at wa = Inr (Some b, w')"
  obtain k where k: "claim_of d eid = Some k"
    using w(3) by (auto simp: begin_readback_work_def split: option.split_asm)
  have key: "wc_execution_id k = eid" using k by (rule claim_of_key)
  have "wc_readback_attempts k < 3 \<and> fst b = Suc (wc_readback_attempts k) \<and>
      (\<exists>k'. claim_of d' eid = Some k' \<and> wc_readback_attempts k' = Suc (wc_readback_attempts k))"
    using w k key
    by (auto simp: begin_readback_work_def set_claim_def Let_def bnd_Inr_iff claim_of_def find_row_modify
        split: if_split_asm)
  then show ?thesis using k by (auto simp: attempt_counted_def)
qed

lemma steps_claims: "system_steps h d d' \<Longrightarrow> claims_grow d d'"
  unfolding system_steps_def
proof (induction rule: rtranclp_induct)
  case base
  then show ?case by (rule claims_grow_same) simp
next
  case (step y z)
  then show ?case using step_claims claims_frame.frame_trans by blast
qed

lemma attempt_counted_mono: "system_steps h d d' \<Longrightarrow> attempt_counted eid b d \<Longrightarrow> attempt_counted eid b d'"
  using steps_claims unfolding attempt_counted_def claims_grow_def by (meson order_trans)

lemma counted_call_begin:
  assumes "fair_world h w"
  shows "guarded (\<lambda>s. case start of None \<Rightarrow> True | Some b \<Rightarrow> attempt_counted eid b (dr_db s))
    (call_begin_readback w sc eid)
    (\<lambda>r s. case r of None \<Rightarrow> True
       | Some b \<Rightarrow> attempt_counted eid b (dr_db s) \<and> (case start of None \<Rightarrow> 0 < fst b | Some b1 \<Rightarrow> fst b1 < fst b))"
  unfolding guarded_def
proof (intro allI impI)
  fix s r s'
  let ?d = "dw_others w (index_of s) (dr_db s)"
  assume pre: "case start of None \<Rightarrow> True | Some b \<Rightarrow> attempt_counted eid b (dr_db s)"
    and run: "call_begin_readback w sc eid s = (r, s')"
  obtain x d' where x: "begin_readback (dw_env w (index_of s)) sc eid ?d = (x, d')" by fastforce
  have r: "r = (case x of Inl e \<Rightarrow> Inl (DbExn e) | Inr a \<Rightarrow> Inr a)" "dr_db s' = d'"
    using run x by (auto simp: call_begin_readback_def db_call_def Let_def log_event_def)
  have o: "system_steps h (dr_db s) ?d" using assms by (simp add: fair_world_def)
  have "case start of None \<Rightarrow> True | Some b \<Rightarrow> attempt_counted eid b ?d"
    using pre attempt_counted_mono [OF o] by (auto split: option.splits)
  then show "case r of Inl e \<Rightarrow> e \<noteq> NoFuel
    | Inr a \<Rightarrow> (case a of None \<Rightarrow> True
       | Some b \<Rightarrow> attempt_counted eid b (dr_db s') \<and> (case start of None \<Rightarrow> 0 < fst b | Some b1 \<Rightarrow> fst b1 < fst b))"
    using r x begin_readback_Some [of "dw_env w (index_of s)" sc eid ?d _ d']
    by (fastforce simp: attempt_counted_def split: sum.splits option.splits)
qed

lemma counted_follows:
  assumes "chained_frame.follows h m" "fueled m"
  shows "guarded (\<lambda>s. attempt_counted eid b (dr_db s)) m (\<lambda>_ s. attempt_counted eid b (dr_db s))"
  unfolding guarded_def
proof (intro allI impI)
  fix s r s'
  assume c: "attempt_counted eid b (dr_db s)" and run: "m s = (r, s')"
  have "attempt_counted eid b (dr_db s')"
    using chained_frame.followsD [OF assms(1) run] attempt_counted_mono [OF _ c, of h] by (simp add: chained_def)
  moreover have "r \<noteq> Inl NoFuel"
    using assms(2) [unfolded fueled_iff] run by (metis fst_conv)
  ultimately show "case r of Inl e \<Rightarrow> e \<noteq> NoFuel | Inr a \<Rightarrow> attempt_counted eid b (dr_db s')"
    by (cases r) auto
qed

lemma guarded_weaken:
  "guarded P m Q \<Longrightarrow> (\<And>s. P' s \<Longrightarrow> P s) \<Longrightarrow> (\<And>a s. Q a s \<Longrightarrow> Q' a s) \<Longrightarrow> guarded P' m Q'"
  by (fastforce simp: guarded_def split: sum.splits)

lemma counted_loop:
  assumes "fair_world h w"
  shows "case start of None \<Rightarrow> True | Some b \<Rightarrow> 3 < fst b + k \<Longrightarrow>
    guarded (\<lambda>s. case start of None \<Rightarrow> True | Some b \<Rightarrow> attempt_counted eid b (dr_db s))
      (readback_loop w sc eid st win k start) anything"
proof (induction k arbitrary: start)
  case 0
  then show ?case
    by (cases start) (auto simp: guarded_def anything_def drv_ret_def attempt_counted_def)
next
  case (Suc k)
  show ?case
  proof (cases start)
    case None
    then show ?thesis by (auto simp: guarded_def anything_def drv_ret_def)
  next
    case (Some b)
    let ?P = "\<lambda>s. attempt_counted eid b (dr_db s)"
    have more: "3 < fst b + Suc k" using Suc.prems Some by simp
    note actions = drv_writing.axioms(1) [OF chained_writing [OF assms]]
    have turn: "guarded ?P (readback_poll w sc eid st win b) (\<lambda>_. ?P)"
      by (rule counted_follows [OF drv_actions.poll [OF actions] fueled_poll])
    have wait: "guarded ?P pause (\<lambda>_. ?P)"
      by (rule counted_follows [OF chained_clocks(3) fueled_pure(9)])
    have again: "guarded ?P (call_begin_readback w sc eid)
        (\<lambda>r s. case r of None \<Rightarrow> True | Some b' \<Rightarrow> attempt_counted eid b' (dr_db s) \<and> fst b < fst b')"
      by (rule guarded_weaken [OF counted_call_begin [OF assms, where start = "Some b"]]) (auto split: option.splits)
    have rest: "guarded
        (\<lambda>s. case r of None \<Rightarrow> True | Some b' \<Rightarrow> attempt_counted eid b' (dr_db s) \<and> fst b < fst b')
        (readback_loop w sc eid st win k r) anything" for r
    proof (cases "case r of None \<Rightarrow> True | Some b' \<Rightarrow> fst b < fst b'")
      case True
      then have "case r of None \<Rightarrow> True | Some b' \<Rightarrow> 3 < fst b' + k" using more by (auto split: option.splits)
      from Suc.IH [OF this] show ?thesis by (rule guarded_weaken) (auto split: option.splits)
    next
      case False
      then show ?thesis by (auto simp: guarded_def split: option.splits)
    qed
    have stop: "guarded ?P (drv_ret ()) anything" by (simp add: guarded_def drv_ret_def anything_def)
    have "guarded ?P (if b' then drv_ret () else drv_bind pause (\<lambda>_.
          drv_bind (call_begin_readback w sc eid) (readback_loop w sc eid st win k))) anything" for b'
      using stop guarded_bind [OF wait guarded_bind [OF again rest]] by simp
    then show ?thesis
      unfolding Some readback_loop.simps option.case by (rule guarded_bind [OF turn])
  qed
qed

section \<open>The whole run\<close>

lemma guarded_fueled: "fueled m \<Longrightarrow> guarded P m anything"
  by (auto simp: guarded_def anything_def)

lemma guarded_finally:
  assumes "guarded P m anything" "fueled c"
  shows "guarded P (drv_finally m c) anything"
  unfolding guarded_def
proof (intro allI impI)
  fix s r s'
  assume p: "P s" and run: "drv_finally m c s = (r, s')"
  obtain x s1 where x: "m s = (x, s1)" by fastforce
  obtain y s2 where y: "c s1 = (y, s2)" by fastforce
  have "x \<noteq> Inl NoFuel" using assms(1) p x unfolding guarded_def by (metis old.sum.simps(5))
  moreover have "y \<noteq> Inl NoFuel" using assms(2) [unfolded fueled_iff] y by (metis fst_conv)
  ultimately have "r \<noteq> Inl NoFuel" using run x y by (cases y) (auto simp: drv_finally_def)
  then show "case r of Inl e \<Rightarrow> e \<noteq> NoFuel | Inr a \<Rightarrow> anything a s'"
    by (auto simp: anything_def split: sum.split)
qed

definition granted_attempt :: "uuid \<Rightarrow> nat \<times> time \<Rightarrow> driver \<Rightarrow> bool" where
  "granted_attempt eid b s = (attempt_counted eid b (dr_db s) \<and> 0 < fst b)"

lemma granted_follows:
  assumes "chained_frame.follows h m" "fueled m"
  shows "guarded (granted_attempt eid b) m (\<lambda>_. granted_attempt eid b)"
  using counted_follows [OF assms, of eid b]
  by (auto simp: guarded_def granted_attempt_def split: sum.splits)

lemma granted_loop:
  assumes "fair_world h w"
  shows "guarded (granted_attempt eid b) (readback_loop w sc eid st win readback_fuel (Some b)) anything"
proof (cases "0 < fst b")
  case True
  then have "case Some b of None \<Rightarrow> True | Some b \<Rightarrow> 3 < fst b + readback_fuel"
    by (simp add: readback_fuel_def)
  from counted_loop [OF assms this, of eid sc st win] show ?thesis
    by (rule guarded_weaken) (auto simp: granted_attempt_def)
qed (simp add: guarded_def granted_attempt_def)

lemma granted_within:
  assumes "fair_world h w"
  shows "guarded (granted_attempt eid b) (readback_within w sc eid given b st c) anything"
proof -
  note f = drv_writing.axioms(1) [OF chained_writing [OF assms]]
  let ?open = "drv_try (drv_bind (port_call FactoryCall (ap_factory (dw_port w))) (\<lambda>_. drv_ret True))
      (\<lambda>e. case e of AwsExn _ \<Rightarrow> drv_bind (call_record w sc eid None (fst b)) (\<lambda>_. drv_ret False) | _ \<Rightarrow> drv_raise e)"
  have client: "guarded (granted_attempt eid b) ?open (\<lambda>_. granted_attempt eid b)"
  proof (rule granted_follows)
    show "chained_frame.follows h ?open"
      by (intro drv_actions.follows_intros [OF f] drv_actions.calls [OF f])
    show "fueled ?open" by (intro fueled_intros fueled_calls; simp)
  qed
  have rest: "guarded (granted_attempt eid b) (if opened then drv_finally
      (readback_loop w sc eid st win readback_fuel (Some b)) (port_call CloseCall (ap_close (dw_port w)))
      else drv_ret ()) anything" for opened win
    by (auto intro: guarded_finally [OF granted_loop [OF assms] fueled_pure(6)] guarded_fueled [OF fueled_pure(1)])
  show ?thesis
    unfolding readback_within_def Let_def
    by (cases c) (auto intro: guarded_bind [OF client rest] granted_loop [OF assms] guarded_fueled [OF fueled_calls(5)]
      guarded_fueled [OF fueled_pure(10)])
qed

lemma fueled_readback:
  assumes "fair_world h w"
  shows "fueled (readback w sc eid given)"
proof -
  note f = drv_writing.axioms(1) [OF chained_writing [OF assms]]
  have first: "guarded (anything ()) (call_begin_readback w sc eid)
      (\<lambda>r s. case r of None \<Rightarrow> True | Some b \<Rightarrow> granted_attempt eid b s)"
    by (rule guarded_weaken [OF counted_call_begin [OF assms, where start = None]])
      (auto simp: granted_attempt_def split: option.splits)
  have after: "guarded (granted_attempt eid b) (drv_bind (read_monotonic w) (\<lambda>started.
         drv_bind (read_clock w) (\<lambda>c. readback_within w sc eid given b started c))) anything" for b
    by (rule guarded_bind [OF granted_follows [OF chained_clocks(2) fueled_pure(8)]],
        rule guarded_bind [OF granted_follows [OF chained_clocks(1) fueled_pure(7)] granted_within [OF assms]])
  have "guarded (\<lambda>s. case r of None \<Rightarrow> True | Some b \<Rightarrow> granted_attempt eid b s)
      (case r of None \<Rightarrow> drv_ret () | Some b \<Rightarrow> drv_bind (read_monotonic w) (\<lambda>started.
         drv_bind (read_clock w) (\<lambda>c. readback_within w sc eid given b started c))) anything" for r
    by (cases r) (auto intro: after guarded_fueled [OF fueled_pure(1)])
  then show ?thesis
    unfolding readback_def by (rule guarded_bind [OF first])
qed

lemma fueled_run:
  assumes "fair_world h w"
  shows "fueled (run w sc eid)"
proof -
  note rb = fueled_readback [OF assms]
  have "fueled (after_enable w sc eid t rid)" for t rid
    unfolding after_enable_def by (intro fueled_intros fueled_calls rb)
  then have "fueled (write_once w sc eid t)" for t
    unfolding write_once_def by (intro fueled_intros fueled_calls rb) 
  then have "fueled (dispatch w sc eid t obs oat)" for t obs oat
    unfolding dispatch_def by (intro fueled_intros fueled_calls)
  then have "fueled (claimed_run w sc eid t)" for t
    unfolding claimed_run_def by (intro fueled_intros fueled_calls fueled_read_loop)
  then show ?thesis
    unfolding run_def by (intro fueled_intros fueled_calls rb)
qed

text \<open>C10. A run always ends: with other processes that only take steps of the system, the readback loop
  stops by itself before its fuel of three turns is used up, because each turn needs a readback
  attempt that the database grants at most three times and never takes back.\<close>

theorem readback_ends_by_itself:
  assumes "fair_world h w"
  shows "fst (worker_run w sc eid d) \<noteq> Inl NoFuel"
  using fueled_run [OF assms, unfolded fueled_iff] by (simp add: worker_run_def)

lemma readback_ends_by_itself_witness:
  "fst (worker_run demo_world demo_worker 40 demo_admitted) \<noteq> Inl NoFuel"
  by (rule readback_ends_by_itself [OF demo_fair])

end
