(* ===== verification/Finding_Governance.thy ===== *)
theory Finding_Governance
  imports Remediation_System
begin

text \<open>
  app/database/governance.py: exceptions and dispositions of findings, in the transaction of the
  caller, with the constraints of app/models/finding.py and app/models/exception.py; and what
  each operation and each sequence of calls does to findings and exceptions.
\<close>

section \<open>Row constraints\<close>

definition finding_ok :: "finding_row \<Rightarrow> bool" where
  "finding_ok f =
     (length (fd_fingerprint f) = 64 \<and> fd_first_detected f \<le> fd_last_detected f \<and>
      (fd_status f = FS_RESOLVED) = (fd_resolved_at f \<noteq> None) \<and>
      (case fd_resolved_at f of None \<Rightarrow> True | Some t \<Rightarrow> fd_last_detected f \<le> t))"

definition findings_ok :: "finding_row list \<Rightarrow> bool" where
  "findings_ok fs =
     (distinct (map fd_id fs) \<and> distinct (map fd_fingerprint fs) \<and> list_all finding_ok fs)"

definition exception_ok :: "exception_row \<Rightarrow> bool" where
  "exception_ok x =
     (sql_nonblank (fe_reason x) \<and> sql_nonblank (fe_approved_by x) \<and> fe_created_at x < fe_expires_at x \<and>
      (fe_status x = XS_REVOKED) = (fe_revoked_at x \<noteq> None) \<and>
      (case fe_revoked_at x of None \<Rightarrow> True | Some t \<Rightarrow> fe_created_at x \<le> t))"

definition exceptions_ok :: "exception_row list \<Rightarrow> bool" where
  "exceptions_ok xs = (distinct (map fe_id xs) \<and> list_all exception_ok xs)"

text \<open>\<open>session.flush()\<close> after a change of these two tables.\<close>

definition flush_findings :: "unit act" where
  "flush_findings =
     bnd get_db (\<lambda>d.
     guard (findings_ok (db_findings d) \<and> exceptions_ok (db_exceptions d)) IntegrityErr)"

definition set_finding :: "uuid \<Rightarrow> (finding_row \<Rightarrow> finding_row) \<Rightarrow> unit act" where
  "set_finding i f = change (\<lambda>d. d\<lparr>db_findings := modify_rows fd_id i f (db_findings d)\<rparr>)"

definition set_exception :: "uuid \<Rightarrow> (exception_row \<Rightarrow> exception_row) \<Rightarrow> unit act" where
  "set_exception i f = change (\<lambda>d. d\<lparr>db_exceptions := modify_rows fe_id i f (db_exceptions d)\<rparr>)"

section \<open>Arguments and locks\<close>

definition require_aware :: "reading \<Rightarrow> string \<Rightarrow> time act" where
  "require_aware r field =
     (case r of Naive \<Rightarrow> raise (ValueErr (field @ '' must be timezone-aware'')) | Aware t \<Rightarrow> ret t)"

definition gov_text :: "string \<Rightarrow> string \<Rightarrow> nat option \<Rightarrow> string act" where
  "gov_text s field maximum =
     (let normalized = strip_ws s in
      if normalized = [] then raise (ValueErr (field @ '' must not be blank''))
      else if (case maximum of None \<Rightarrow> False | Some m \<Rightarrow> m < length normalized)
      then raise (ValueErr (field @ '' is too long''))
      else ret normalized)"

definition lock_finding :: "uuid \<Rightarrow> finding_row act" where
  "lock_finding fid =
     bnd get_db (\<lambda>d.
     case find_row fd_id fid (db_findings d) of
       None \<Rightarrow> raise (ValueErr ''finding does not exist'')
     | Some f \<Rightarrow>
         bnd (guard (find_row rs_id (fd_resource_id f) (hs_resources (db_history d)) \<noteq> None)
                (ValueErr ''finding resource scope does not exist'')) (\<lambda>_.
         ret f))"

definition lock_exception :: "uuid \<Rightarrow> exception_row act" where
  "lock_exception xid =
     bnd get_db (\<lambda>d.
     case find_row fe_id xid (db_exceptions d) of
       None \<Rightarrow> raise (ValueErr ''exception does not exist'')
     | Some x \<Rightarrow>
         bnd (lock_finding (fe_finding_id x)) (\<lambda>f.
         bnd (guard (fe_finding_id x = fd_id f \<and> fe_resource_id x = fd_resource_id f \<and>
                     fe_control_id x = fd_control_id f)
                (ValueErr ''exception scope does not match its finding'')) (\<lambda>_.
         ret x)))"

definition exception_metadata :: "exception_row \<Rightarrow> string option \<Rightarrow> audit_metadata" where
  "exception_metadata x reason =
     MetaException (fe_finding_id x) (fe_resource_id x) (fe_control_id x) (fe_status x) (fe_expires_at x) reason"

definition audit_exception ::
    "env \<Rightarrow> audit_type \<Rightarrow> exception_row \<Rightarrow> string option \<Rightarrow> time \<Rightarrow> actor_type \<Rightarrow> string \<Rightarrow> unit act" where
  "audit_exception env ty x reason at aty actor =
     bnd (append_audit_event env ty TargetException (fe_id x) at aty actor (exception_metadata x reason)) (\<lambda>_.
     ret ())"

section \<open>Exceptions\<close>

definition create_finding_exception ::
    "env \<Rightarrow> uuid \<Rightarrow> string \<Rightarrow> string \<Rightarrow> reading \<Rightarrow> reading \<Rightarrow> exception_row act" where
  "create_finding_exception env fid reason0 approved0 created0 expires0 =
     bnd (require_aware created0 ''created_at'') (\<lambda>created.
     bnd (require_aware expires0 ''expires_at'') (\<lambda>expires.
     bnd (gov_text reason0 ''reason'' None) (\<lambda>reason.
     bnd (gov_text approved0 ''approved_by'' (Some 256)) (\<lambda>approved.
     bnd (guard (created < expires) (ValueErr ''expires_at must be after created_at'')) (\<lambda>_.
     bnd (lock_finding fid) (\<lambda>f.
     bnd (guard (fd_status f \<noteq> FS_RESOLVED)
            (ValueErr ''a resolved finding does not require an exception'')) (\<lambda>_.
     bnd (guard (fd_last_detected f \<le> created)
            (ValueErr ''created_at must not predate the latest finding observation'')) (\<lambda>_.
     bnd (uuid4 env) (\<lambda>u.
     let x = \<lparr>fe_id = u, fe_finding_id = fd_id f, fe_resource_id = fd_resource_id f,
              fe_control_id = fd_control_id f, fe_reason = reason, fe_approved_by = approved,
              fe_created_at = created, fe_expires_at = expires, fe_status = XS_ACTIVE,
              fe_revoked_at = None\<rparr> in
     bnd (change (\<lambda>d. d\<lparr>db_exceptions := db_exceptions d @ [x]\<rparr>)) (\<lambda>_.
     bnd (audit_exception env AT_EXCEPTION_CREATED x (Some reason) created ActorUser approved) (\<lambda>_.
     bnd flush_findings (\<lambda>_. ret x))))))))))))"

definition expire_exception :: "env \<Rightarrow> exception_row \<Rightarrow> time \<Rightarrow> string \<Rightarrow> actor_type \<Rightarrow> exception_row act" where
  "expire_exception env x at actor aty =
     (let x' = x\<lparr>fe_status := XS_EXPIRED\<rparr> in
      bnd (set_exception (fe_id x) (\<lambda>x. x\<lparr>fe_status := XS_EXPIRED\<rparr>)) (\<lambda>_.
      bnd (audit_exception env AT_EXCEPTION_EXPIRED x' None at aty actor) (\<lambda>_. ret x')))"

text \<open>The candidates are selected once, in a stable order; each is read again under its lock.\<close>

definition due_exceptions :: "time \<Rightarrow> exception_row list \<Rightarrow> uuid list" where
  "due_exceptions at xs =
     map fe_id (sort_key (\<lambda>x. (fe_resource_id x, fe_finding_id x, fe_id x))
       (filter (\<lambda>x. fe_status x = XS_ACTIVE \<and> fe_expires_at x \<le> at) xs))"

definition expire_one :: "env \<Rightarrow> time \<Rightarrow> string \<Rightarrow> uuid \<Rightarrow> exception_row list act" where
  "expire_one env at actor xid =
     bnd (lock_exception xid) (\<lambda>x.
     if fe_status x \<noteq> XS_ACTIVE \<or> at < fe_expires_at x then ret []
     else
       bnd (expire_exception env x at actor ActorSystem) (\<lambda>x'.
       bnd flush_findings (\<lambda>_. ret [x'])))"

fun expire_all :: "env \<Rightarrow> time \<Rightarrow> string \<Rightarrow> uuid list \<Rightarrow> exception_row list act" where
  "expire_all env at actor [] = ret []"
| "expire_all env at actor (i # is) =
     bnd (expire_one env at actor i) (\<lambda>xs. bnd (expire_all env at actor is) (\<lambda>ys. ret (xs @ ys)))"

definition expire_exceptions :: "env \<Rightarrow> reading \<Rightarrow> string \<Rightarrow> exception_row list act" where
  "expire_exceptions env at0 actor0 =
     bnd (require_aware at0 ''at'') (\<lambda>at.
     bnd (gov_text actor0 ''actor_id'' (Some 256)) (\<lambda>actor.
     bnd get_db (\<lambda>d.
     expire_all env at actor (due_exceptions at (db_exceptions d)))))"

definition revoke_exception :: "env \<Rightarrow> uuid \<Rightarrow> reading \<Rightarrow> string \<Rightarrow> exception_row act" where
  "revoke_exception env xid at0 actor0 =
     bnd (require_aware at0 ''at'') (\<lambda>at.
     bnd (gov_text actor0 ''actor_id'' (Some 256)) (\<lambda>actor.
     bnd (lock_exception xid) (\<lambda>x.
     bnd (guard (fe_created_at x \<le> at) (ValueErr ''at must not predate exception creation'')) (\<lambda>_.
     if fe_status x \<noteq> XS_ACTIVE then ret x
     else if fe_expires_at x \<le> at then
       bnd (expire_exception env x at actor ActorUser) (\<lambda>x'. bnd flush_findings (\<lambda>_. ret x'))
     else
       let x' = x\<lparr>fe_status := XS_REVOKED, fe_revoked_at := Some at\<rparr> in
       bnd (set_exception (fe_id x) (\<lambda>x. x\<lparr>fe_status := XS_REVOKED, fe_revoked_at := Some at\<rparr>)) (\<lambda>_.
       bnd (audit_exception env AT_EXCEPTION_REVOKED x' None at ActorUser actor) (\<lambda>_.
       bnd flush_findings (\<lambda>_. ret x')))))))"

section \<open>Dispositions\<close>

fun disposition_event :: "finding_status \<Rightarrow> audit_type option" where
  "disposition_event FS_OPEN = Some AT_FINDING_UPDATED"
| "disposition_event FS_ACKNOWLEDGED = Some AT_FINDING_ACKNOWLEDGED"
| "disposition_event FS_FALSE_POSITIVE = Some AT_FINDING_FALSE_POSITIVE"
| "disposition_event FS_ACCEPTED_RISK = Some AT_FINDING_ACCEPTED_RISK"
| "disposition_event FS_RESOLVED = None"

definition latest_action :: "uuid \<Rightarrow> audit_row list \<Rightarrow> time option" where
  "latest_action fid as =
     (case map au_time (filter (\<lambda>a. au_target_type a = TargetFinding \<and> au_target_id a = fid) as) of
        [] \<Rightarrow> None
      | ts \<Rightarrow> Some (Max (set ts)))"

definition exception_in_force :: "finding_row \<Rightarrow> time \<Rightarrow> exception_row \<Rightarrow> bool" where
  "exception_in_force f at x =
     (fe_finding_id x = fd_id f \<and> fe_resource_id x = fd_resource_id f \<and> fe_control_id x = fd_control_id f \<and>
      fe_status x = XS_ACTIVE \<and> fe_created_at x \<le> at \<and> at < fe_expires_at x)"

definition set_finding_disposition ::
    "env \<Rightarrow> uuid \<Rightarrow> finding_status \<Rightarrow> reading \<Rightarrow> string \<Rightarrow> finding_row act" where
  "set_finding_disposition env fid status at0 actor0 =
     bnd (require_aware at0 ''at'') (\<lambda>at.
     bnd (gov_text actor0 ''actor_id'' (Some 256)) (\<lambda>actor.
     case disposition_event status of
       None \<Rightarrow> raise (ValueErr ''technical RESOLVED is not a manual finding disposition'')
     | Some event \<Rightarrow>
     bnd (lock_finding fid) (\<lambda>f.
     bnd (guard (fd_status f \<noteq> FS_RESOLVED)
            (ValueErr ''a resolved finding can reopen only after a newer FAIL assessment'')) (\<lambda>_.
     bnd get_db (\<lambda>d.
     bnd (guard (fd_last_detected f \<le> at \<and>
            (case latest_action (fd_id f) (db_audits d) of None \<Rightarrow> True | Some t \<Rightarrow> t \<le> at))
            (ValueErr ''at must not predate the latest finding observation or action'')) (\<lambda>_.
     bnd (guard (status = FS_ACCEPTED_RISK \<longrightarrow> list_ex (exception_in_force f at) (db_exceptions d))
            (ValueErr ''ACCEPTED_RISK requires an active in-scope unexpired exception'')) (\<lambda>_.
     if fd_status f = status then ret f
     else
       let f' = f\<lparr>fd_status := status\<rparr> in
       bnd (set_finding (fd_id f) (\<lambda>f. f\<lparr>fd_status := status\<rparr>)) (\<lambda>_.
       bnd (append_audit_event env event TargetFinding (fd_id f) at ActorUser actor
              (MetaDisposition (fd_status f) status)) (\<lambda>_.
       bnd flush_findings (\<lambda>_. ret f'))))))))))"

section \<open>Effects of the operations\<close>

lemma lock_finding_Inr [simp]:
  "lock_finding fid w = Inr (f, w') \<longleftrightarrow>
     w' = w \<and> find_row fd_id fid (db_findings (wk_db w)) = Some f \<and>
     find_row rs_id (fd_resource_id f) (hs_resources (db_history (wk_db w))) \<noteq> None"
  by (auto simp: lock_finding_def bnd_Inr_iff split: option.splits)

lemma lock_exception_Inr:
  "lock_exception xid w = Inr (x, w') \<Longrightarrow>
     w' = w \<and> find_row fe_id xid (db_exceptions (wk_db w)) = Some x"
  by (auto simp: lock_exception_def bnd_Inr_iff split: option.split_asm)

lemma append_audit_Inr:
  "append_audit_event env ty tt tid at aty actor meta w = Inr (a, w') \<Longrightarrow>
     wk_db w' = (wk_db w)\<lparr>db_audits := db_audits (wk_db w) @ [a]\<rparr> \<and>
     au_type a = ty \<and> au_target_type a = tt \<and> au_target_id a = tid \<and> au_time a = at \<and>
     au_actor_type a = aty \<and> au_actor_id a = actor \<and> au_metadata a = meta"
  by (auto simp: append_audit_event_def insert_audit_def bnd_Inr_iff Let_def)

lemma require_aware_Inr [simp]: "require_aware r field w = Inr (t, w') \<longleftrightarrow> r = Aware t \<and> w' = w"
  by (auto simp: require_aware_def split: reading.splits)

lemma gov_text_Inr [simp]:
  "gov_text s field m w = Inr (t, w') \<longleftrightarrow>
     w' = w \<and> t = strip_ws s \<and> strip_ws s \<noteq> [] \<and> (case m of None \<Rightarrow> True | Some n \<Rightarrow> length t \<le> n)"
  by (auto simp: gov_text_def Let_def split: option.splits)

lemma flush_findings_Inr [simp]:
  "flush_findings w = Inr (u, w') \<longleftrightarrow>
     w' = w \<and> findings_ok (db_findings (wk_db w)) \<and> exceptions_ok (db_exceptions (wk_db w))"
  by (auto simp: flush_findings_def bnd_Inr_iff)

lemma set_exception_Inr [simp]:
  "set_exception i f w = Inr (u, w') \<longleftrightarrow>
     w' = w\<lparr>wk_db := (wk_db w)\<lparr>db_exceptions := modify_rows fe_id i f (db_exceptions (wk_db w))\<rparr>\<rparr>"
  by (auto simp: set_exception_def)

lemma set_finding_Inr [simp]:
  "set_finding i f w = Inr (u, w') \<longleftrightarrow>
     w' = w\<lparr>wk_db := (wk_db w)\<lparr>db_findings := modify_rows fd_id i f (db_findings (wk_db w))\<rparr>\<rparr>"
  by (auto simp: set_finding_def)

lemma expire_exception_Inr:
  assumes "expire_exception env x at actor aty w = Inr (x', w')"
  obtains a where "x' = x\<lparr>fe_status := XS_EXPIRED\<rparr>" "au_type a = AT_EXCEPTION_EXPIRED"
    "au_target_id a = fe_id x" "au_time a = at"
    "wk_db w' = (wk_db w)\<lparr>db_exceptions := modify_rows fe_id (fe_id x) (\<lambda>x. x\<lparr>fe_status := XS_EXPIRED\<rparr>)
       (db_exceptions (wk_db w)), db_audits := db_audits (wk_db w) @ [a]\<rparr>"
  using assms
  by (auto simp: expire_exception_def audit_exception_def bnd_Inr_iff Let_def dest!: append_audit_Inr)

section \<open>Expiry\<close>

text \<open>The reference: every due active exception is expired, every other row is untouched.\<close>

definition is_due :: "time \<Rightarrow> exception_row \<Rightarrow> bool" where
  "is_due at x = (fe_status x = XS_ACTIVE \<and> fe_expires_at x \<le> at)"

definition expire_due :: "time \<Rightarrow> exception_row \<Rightarrow> exception_row" where
  "expire_due at x = (if is_due at x then x\<lparr>fe_status := XS_EXPIRED\<rparr> else x)"

lemma expire_due_key [simp]: "fe_id (expire_due at x) = fe_id x"
  by (simp add: expire_due_def)

lemma modify_one:
  assumes "distinct (map key rows)" "find_row key k rows = Some r" "f r = g r"
  shows "modify_rows key k f rows = map (\<lambda>x. if key x = k then g x else x) rows"
proof -
  have "f x = g x" if "x \<in> set rows" "key x = k" for x
    using that assms find_row_distinct [OF assms(1) that(1)] by simp
  then show ?thesis by (auto simp: modify_rows_def)
qed

lemma filter_key:
  assumes "distinct (map key xs)" "x \<in> set xs"
  shows "filter (\<lambda>y. key y = key x \<and> P y) xs = (if P x then [x] else [])"
  using assms
proof (induction xs)
  case (Cons y ys)
  show ?case
  proof (cases "y = x")
    case True
    then have "\<forall>z\<in>set ys. \<not> (key z = key x \<and> P z)" using Cons.prems(1) by (auto simp: image_iff)
    then have "filter (\<lambda>y. key y = key x \<and> P y) ys = []" by (simp add: filter_empty_conv)
    then show ?thesis using True by simp
  next
    case False
    then have "x \<in> set ys" "key y \<noteq> key x" using Cons.prems by (auto simp: image_iff)
    then show ?thesis using Cons by simp
  qed
qed simp

lemma expire_one_Inr:
  assumes "expire_one env at actor i w = Inr (ys, w')" "distinct (map fe_id (db_exceptions (wk_db w)))"
  shows "\<exists>as. wk_db w' = (wk_db w)\<lparr>db_exceptions :=
      map (\<lambda>x. if fe_id x = i then expire_due at x else x) (db_exceptions (wk_db w)),
      db_audits := db_audits (wk_db w) @ as\<rparr> \<and> length as = length ys \<and>
    list_all (\<lambda>a. au_type a = AT_EXCEPTION_EXPIRED \<and> au_time a = at) as \<and>
    ys = map (expire_due at) (filter (\<lambda>x. fe_id x = i \<and> is_due at x) (db_exceptions (wk_db w)))"
proof -
  let ?xs = "db_exceptions (wk_db w)"
  obtain x w1 where lock: "lock_exception i w = Inr (x, w1)"
    using assms(1) by (auto simp: expire_one_def bnd_Inr_iff)
  have x: "w1 = w" "find_row fe_id i ?xs = Some x" using lock_exception_Inr [OF lock] by simp_all
  then have in_xs: "x \<in> set ?xs" "fe_id x = i" by (auto dest: find_row_Some)
  note only = filter_key [OF assms(2) in_xs(1), of "is_due at", unfolded in_xs(2)]
  have rest: "(if fe_status x \<noteq> XS_ACTIVE \<or> at < fe_expires_at x then ret []
     else bnd (expire_exception env x at actor ActorSystem) (\<lambda>x'. bnd flush_findings (\<lambda>_. ret [x']))) w = Inr (ys, w')"
    using assms(1) lock x(1) by (simp add: expire_one_def bnd_def)
  show ?thesis
  proof (cases "is_due at x")
    case False
    then have "ys = []" "w' = w" using rest by (auto simp: is_due_def split: if_splits)
    moreover have "map (\<lambda>x. if fe_id x = i then expire_due at x else x) ?xs = ?xs"
    proof (rule map_idI)
      fix y assume "y \<in> set ?xs"
      then show "(if fe_id y = i then expire_due at y else y) = y"
        using False find_row_distinct [OF assms(2)] x(2) by (auto simp: expire_due_def)
    qed
    ultimately show ?thesis using only False by (intro exI [of _ "[]"]) simp
  next
    case True
    then have "bnd (expire_exception env x at actor ActorSystem) (\<lambda>x'. bnd flush_findings (\<lambda>_. ret [x'])) w = Inr (ys, w')"
      using rest by (auto simp: is_due_def)
    then obtain x' where e: "expire_exception env x at actor ActorSystem w = Inr (x', w')" "ys = [x']"
      by (auto simp: bnd_Inr_iff)
    have x': "x' = expire_due at x" by (rule expire_exception_Inr [OF e(1)]) (simp add: expire_due_def True)
    have m: "modify_rows fe_id i (\<lambda>x. x\<lparr>fe_status := XS_EXPIRED\<rparr>) ?xs =
        map (\<lambda>x. if fe_id x = i then expire_due at x else x) ?xs"
      by (rule modify_one [OF assms(2) x(2)]) (simp add: True expire_due_def)
    obtain a where a: "au_type a = AT_EXCEPTION_EXPIRED" "au_time a = at"
      "wk_db w' = (wk_db w)\<lparr>db_exceptions := modify_rows fe_id (fe_id x) (\<lambda>x. x\<lparr>fe_status := XS_EXPIRED\<rparr>) ?xs,
         db_audits := db_audits (wk_db w) @ [a]\<rparr>"
      by (rule expire_exception_Inr [OF e(1)]) blast
    then show ?thesis using e(2) x' only True m in_xs(2) by (intro exI [of _ "[a]"]) simp
  qed
qed

lemma expire_all_Inr:
  assumes "expire_all env at actor is w = Inr (ys, w')" "distinct (map fe_id (db_exceptions (wk_db w)))" "distinct is"
  shows "\<exists>as. wk_db w' = (wk_db w)\<lparr>db_exceptions :=
      map (\<lambda>x. if fe_id x \<in> set is then expire_due at x else x) (db_exceptions (wk_db w)),
      db_audits := db_audits (wk_db w) @ as\<rparr> \<and> length as = length ys \<and>
    list_all (\<lambda>a. au_type a = AT_EXCEPTION_EXPIRED \<and> au_time a = at) as \<and>
    length ys = length (filter (\<lambda>x. fe_id x \<in> set is \<and> is_due at x) (db_exceptions (wk_db w))) \<and>
    set ys = expire_due at ` {x \<in> set (db_exceptions (wk_db w)). fe_id x \<in> set is \<and> is_due at x}"
  using assms
proof (induction "is" arbitrary: w ys)
  case Nil
  then show ?case by (intro exI [of _ "[]"]) auto
next
  case (Cons i "is")
  let ?xs = "db_exceptions (wk_db w)" and ?f = "\<lambda>x. if fe_id x = i then expire_due at x else x"
  obtain xs w1 zs where one: "expire_one env at actor i w = Inr (xs, w1)"
    and more: "expire_all env at actor is w1 = Inr (zs, w')" and ys: "ys = xs @ zs"
    using Cons.prems(1) by (auto simp: bnd_Inr_iff)
  obtain as where as: "wk_db w1 = (wk_db w)\<lparr>db_exceptions := map ?f ?xs, db_audits := db_audits (wk_db w) @ as\<rparr>"
    "length as = length xs" "list_all (\<lambda>a. au_type a = AT_EXCEPTION_EXPIRED \<and> au_time a = at) as"
    "xs = map (expire_due at) (filter (\<lambda>x. fe_id x = i \<and> is_due at x) ?xs)"
    using expire_one_Inr [OF one Cons.prems(2)] by blast
  have "map fe_id (db_exceptions (wk_db w1)) = map fe_id ?xs" by (simp add: as(1))
  then have d1: "distinct (map fe_id (db_exceptions (wk_db w1)))"
    using Cons.prems(2) by (simp only:)
  obtain bs where bs: "wk_db w' = (wk_db w1)\<lparr>db_exceptions :=
      map (\<lambda>x. if fe_id x \<in> set is then expire_due at x else x) (map ?f ?xs), db_audits := db_audits (wk_db w1) @ bs\<rparr>"
    "length bs = length zs" "list_all (\<lambda>a. au_type a = AT_EXCEPTION_EXPIRED \<and> au_time a = at) bs"
    "length zs = length (filter (\<lambda>x. fe_id x \<in> set is \<and> is_due at x) (map ?f ?xs))"
    "set zs = expire_due at ` {x \<in> set (map ?f ?xs). fe_id x \<in> set is \<and> is_due at x}"
    using Cons.IH [OF more d1] Cons.prems(3) as(1) by auto
  have i: "i \<notin> set is" using Cons.prems(3) by simp
  have "map (\<lambda>x. if fe_id x \<in> set is then expire_due at x else x) (map ?f ?xs) =
      map (\<lambda>x. if fe_id x \<in> set (i # is) then expire_due at x else x) ?xs"
    using i by auto
  moreover have "length (filter (\<lambda>x. fe_id x \<in> set (i # is) \<and> is_due at x) xs) =
      length (filter (\<lambda>x. fe_id x = i \<and> is_due at x) xs) +
      length (filter (\<lambda>x. fe_id x \<in> set is \<and> is_due at x) (map ?f xs))" for xs
    using i by (induction xs) (auto simp: expire_due_def)
  moreover have "{x \<in> set (map ?f ?xs). fe_id x \<in> set is \<and> is_due at x} = {x \<in> set ?xs. fe_id x \<in> set is \<and> is_due at x}"
    using i by (auto simp: image_iff)
  moreover have "{x \<in> set ?xs. fe_id x \<in> set (i # is) \<and> is_due at x} =
      {x \<in> set ?xs. fe_id x = i \<and> is_due at x} \<union> {x \<in> set ?xs. fe_id x \<in> set is \<and> is_due at x}"
    by auto
  ultimately show ?case
    using as bs ys by (intro exI [of _ "as @ bs"]) (simp add: image_Un)
qed

lemma due_exceptions_set:
  "set (due_exceptions at xs) = fe_id ` {x \<in> set xs. is_due at x}"
  by (auto simp: due_exceptions_def is_due_def)

lemma due_exceptions_distinct: "distinct (map fe_id xs) \<Longrightarrow> distinct (due_exceptions at xs)"
  unfolding due_exceptions_def
  by (auto simp: distinct_map intro: inj_on_subset)

lemma expire_exceptions_effect:
  assumes "transact (expire_exceptions env (Aware at) actor) d = (Inr ys, d')" "distinct (map fe_id (db_exceptions d))"
  shows "\<exists>as. d' = d\<lparr>db_exceptions := map (expire_due at) (db_exceptions d), db_audits := db_audits d @ as\<rparr> \<and>
    length as = length ys \<and> list_all (\<lambda>a. au_type a = AT_EXCEPTION_EXPIRED \<and> au_time a = at) as \<and>
    length ys = length (filter (is_due at) (db_exceptions d)) \<and>
    set ys = expire_due at ` {x \<in> set (db_exceptions d). is_due at x}"
proof -
  let ?xs = "db_exceptions d" and ?w = "initial_work d"
  obtain w' where w': "expire_all env at (strip_ws actor) (due_exceptions at ?xs) ?w = Inr (ys, w')" "d' = wk_db w'"
    using assms(1) by (auto simp: transact_Inr expire_exceptions_def bnd_Inr_iff initial_work_def)
  have db: "wk_db ?w = d" by (simp add: initial_work_def)
  have due: "fe_id x \<in> set (due_exceptions at ?xs) \<longleftrightarrow> is_due at x" if "x \<in> set ?xs" for x
    using that assms(2) by (auto simp: due_exceptions_set distinct_map dest: inj_onD)
  then have m: "map (\<lambda>x. if fe_id x \<in> set (due_exceptions at ?xs) then expire_due at x else x) ?xs =
      map (expire_due at) ?xs"
    by (auto simp: expire_due_def)
  have f: "filter (\<lambda>x. fe_id x \<in> set (due_exceptions at ?xs) \<and> is_due at x) ?xs = filter (is_due at) ?xs"
    using due by (auto intro: filter_cong)
  have s: "{x \<in> set ?xs. fe_id x \<in> set (due_exceptions at ?xs) \<and> is_due at x} = {x \<in> set ?xs. is_due at x}"
    using due by auto
  show ?thesis
    using expire_all_Inr [OF w'(1), unfolded db, OF assms(2) due_exceptions_distinct [OF assms(2)]] w'(2)
    unfolding m f s by blast
qed

section \<open>One governance call\<close>

inductive governance_call :: "db \<Rightarrow> db \<Rightarrow> bool" where
  gov_create: "transact (create_finding_exception env fid rsn who created expires) d = (Inr x, d') \<Longrightarrow> governance_call d d'"
| gov_expire: "transact (expire_exceptions env at who) d = (Inr xs, d') \<Longrightarrow> governance_call d d'"
| gov_revoke: "transact (revoke_exception env xid at who) d = (Inr x, d') \<Longrightarrow> governance_call d d'"
| gov_dispose: "transact (set_finding_disposition env fid status at who) d = (Inr f, d') \<Longrightarrow> governance_call d d'"

text \<open>What may happen to one exception and to one finding.\<close>

definition exception_step :: "exception_row \<Rightarrow> exception_row \<Rightarrow> bool" where
  "exception_step x x' =
     (x' = x \<or> fe_status x = XS_ACTIVE \<and>
        (x' = x\<lparr>fe_status := XS_EXPIRED\<rparr> \<or>
         (\<exists>at. fe_created_at x \<le> at \<and> at < fe_expires_at x \<and>
               x' = x\<lparr>fe_status := XS_REVOKED, fe_revoked_at := Some at\<rparr>)))"

definition finding_step :: "finding_row \<Rightarrow> finding_row \<Rightarrow> bool" where
  "finding_step f f' =
     (f' = f \<or> fd_status f \<noteq> FS_RESOLVED \<and> (\<exists>st. st \<noteq> FS_RESOLVED \<and> f' = f\<lparr>fd_status := st\<rparr>))"

definition governed :: "db \<Rightarrow> db \<Rightarrow> bool" where
  "governed d d' =
     (\<exists>as ys new. d' = d\<lparr>db_findings := db_findings d', db_exceptions := ys @ new, db_audits := db_audits d @ as\<rparr> \<and>
        list_all2 finding_step (db_findings d) (db_findings d') \<and>
        list_all2 exception_step (db_exceptions d) ys \<and> list_all (\<lambda>x. fe_status x = XS_ACTIVE) new)"

lemma steps_refl [simp]: "finding_step f f" "exception_step x x"
  by (simp_all add: finding_step_def exception_step_def)

lemma list_all2_map_step: "(\<And>x. x \<in> set xs \<Longrightarrow> P x (f x)) \<Longrightarrow> list_all2 P xs (map f xs)"
  by (simp add: list_all2_map2 list_all2_same)

lemma governed_exceptions:
  assumes "d' = d\<lparr>db_exceptions := map f (db_exceptions d), db_audits := db_audits d @ as\<rparr>"
    and "\<And>x. x \<in> set (db_exceptions d) \<Longrightarrow> exception_step x (f x)"
  shows "governed d d'"
  unfolding governed_def
  by (intro exI [of _ as] exI [of _ "map f (db_exceptions d)"] exI [of _ "[]"])
    (use assms in \<open>simp add: list_all2_map_step list_all2_same\<close>)

lemma governed_modified:
  assumes "distinct (map fe_id (db_exceptions d))" "find_row fe_id i (db_exceptions d) = Some x"
    and "exception_step x (f x)"
    and "d' = d\<lparr>db_exceptions := modify_rows fe_id i f (db_exceptions d), db_audits := db_audits d @ as\<rparr>"
  shows "governed d d'"
proof (rule governed_exceptions)
  show "d' = d\<lparr>db_exceptions := map (\<lambda>x. if fe_id x = i then f x else x) (db_exceptions d),
      db_audits := db_audits d @ as\<rparr>"
    by (simp add: assms(4) modify_rows_def)
  fix y assume "y \<in> set (db_exceptions d)"
  then show "exception_step y (if fe_id y = i then f y else y)"
    using find_row_distinct [OF assms(1)] assms(2,3) by auto
qed

lemma governed_refl [simp]: "governed d d"
  unfolding governed_def
  by (intro exI [of _ "[]"] exI [of _ "db_exceptions d"]) (simp add: list_all2_same)

lemma governed_finding:
  assumes "distinct (map fd_id (db_findings d))" "find_row fd_id i (db_findings d) = Some x"
    and "finding_step x (f x)"
    and "d' = d\<lparr>db_findings := modify_rows fd_id i f (db_findings d), db_audits := db_audits d @ as\<rparr>"
  shows "governed d d'"
proof -
  have "finding_step y (if fd_id y = i then f y else y)" if "y \<in> set (db_findings d)" for y
    using find_row_distinct [OF assms(1) that] assms(2,3) by auto
  then have "list_all2 finding_step (db_findings d) (db_findings d')"
    by (simp add: assms(4) modify_rows_def list_all2_map_step)
  then show ?thesis
    unfolding governed_def
    by (intro exI [of _ as] exI [of _ "db_exceptions d"] exI [of _ "[]"]) (use assms(4) in \<open>simp add: list_all2_same\<close>)
qed

text \<open>A disposition is set on an unresolved finding, not before its latest observation or action.\<close>

lemma set_finding_disposition_Inr:
  assumes "set_finding_disposition env fid status at who w = Inr (f', w')"
  obtains t f where "at = Aware t" "status \<noteq> FS_RESOLVED" "find_row fd_id fid (db_findings (wk_db w)) = Some f"
    "fd_status f \<noteq> FS_RESOLVED" "fd_last_detected f \<le> t"
    "case latest_action (fd_id f) (db_audits (wk_db w)) of None \<Rightarrow> True | Some u \<Rightarrow> u \<le> t"
    "status = FS_ACCEPTED_RISK \<Longrightarrow> list_ex (exception_in_force f t) (db_exceptions (wk_db w))"
    "f' = f\<lparr>fd_status := status\<rparr>"
    "fd_status f = status \<and> w' = w \<or>
     (\<exists>a. fd_status f \<noteq> status \<and> Some (au_type a) = disposition_event status \<and> au_target_id a = fid \<and> au_time a = t \<and>
        au_actor_id a = strip_ws who \<and> au_metadata a = MetaDisposition (fd_status f) status \<and>
        wk_db w' = (wk_db w)\<lparr>db_findings := modify_rows fd_id fid (\<lambda>f. f\<lparr>fd_status := status\<rparr>) (db_findings (wk_db w)),
          db_audits := db_audits (wk_db w) @ [a]\<rparr>)"
proof -
  obtain t f where t: "at = Aware t" and f: "find_row fd_id fid (db_findings (wk_db w)) = Some f"
    using assms by (auto simp: set_finding_disposition_def bnd_Inr_iff split: option.split_asm)
  have key: "fd_id f = fid" using f by (auto dest: find_row_Some)
  show ?thesis
    using assms unfolding set_finding_disposition_def t
    by (intro that [OF t _ f])
      (auto simp: bnd_Inr_iff f key Let_def split: option.split_asm if_split_asm dest!: append_audit_Inr)
qed

lemma governance_call_governed:
  assumes "governance_call d d'" "distinct (map fe_id (db_exceptions d))" "distinct (map fd_id (db_findings d))"
  shows "governed d d'"
  using assms(1)
proof cases
  case (gov_create env fid rsn who created expires x)
  then obtain as x where "d' = d\<lparr>db_exceptions := db_exceptions d @ [x], db_audits := db_audits d @ as\<rparr>"
    "fe_status x = XS_ACTIVE"
    by (auto simp: transact_Inr create_finding_exception_def audit_exception_def bnd_Inr_iff Let_def initial_work_def
        dest!: append_audit_Inr)
  then show ?thesis
    unfolding governed_def
    by (intro exI [of _ as] exI [of _ "db_exceptions d"] exI [of _ "[x]"]) (simp add: list_all2_same)
next
  case (gov_expire env at who xs)
  then obtain t where t: "at = Aware t"
    by (auto simp: transact_Inr expire_exceptions_def bnd_Inr_iff)
  obtain as where "d' = d\<lparr>db_exceptions := map (expire_due t) (db_exceptions d), db_audits := db_audits d @ as\<rparr>"
    using expire_exceptions_effect [OF gov_expire [unfolded t] assms(2)] by blast
  then show ?thesis
    by (rule governed_exceptions) (auto simp: expire_due_def is_due_def exception_step_def)
next
  case (gov_revoke env xid at who y)
  let ?xs = "db_exceptions d"
  obtain w where w: "revoke_exception env xid at who (initial_work d) = Inr (y, w)" "d' = wk_db w"
    using gov_revoke by (auto simp: transact_Inr)
  then obtain t x where t: "at = Aware t" and x: "lock_exception xid (initial_work d) = Inr (x, initial_work d)"
    "fe_created_at x \<le> t"
    using lock_exception_Inr by (fastforce simp: revoke_exception_def bnd_Inr_iff)
  then have row: "find_row fe_id xid ?xs = Some x" using lock_exception_Inr [OF x(1)] by (simp add: initial_work_def)
  then have key: "fe_id x = xid" by (auto dest: find_row_Some)
  note rest = w(1) [unfolded revoke_exception_def t bnd_def [of "lock_exception xid"] x(1)]
  consider (same) "d' = d"
    | (expired) a where "fe_status x = XS_ACTIVE" "d' = d\<lparr>db_exceptions := modify_rows fe_id xid (\<lambda>x. x\<lparr>fe_status := XS_EXPIRED\<rparr>) ?xs,
        db_audits := db_audits d @ [a]\<rparr>"
    | (revoked) a where "fe_status x = XS_ACTIVE" "t < fe_expires_at x"
        "d' = d\<lparr>db_exceptions := modify_rows fe_id xid (\<lambda>x. x\<lparr>fe_status := XS_REVOKED, fe_revoked_at := Some t\<rparr>) ?xs,
        db_audits := db_audits d @ [a]\<rparr>"
    using rest w(2) key x(1)
    by (fastforce simp: bnd_Inr_iff audit_exception_def Let_def initial_work_def not_le x
        split: if_split_asm elim!: expire_exception_Inr dest!: append_audit_Inr)
  then show ?thesis
  proof cases
    case same
    then show ?thesis by simp
  next
    case expired
    then show ?thesis
      by (intro governed_modified [OF assms(2) row, where as = "[a]"]) (auto simp: exception_step_def)
  next
    case revoked
    then show ?thesis
      by (intro governed_modified [OF assms(2) row, where as = "[a]"]) (use x(2) in \<open>auto simp: exception_step_def\<close>)
  qed
next
  case (gov_dispose env fid status at who f)
  let ?fs = "db_findings d"
  obtain w where w: "set_finding_disposition env fid status at who (initial_work d) = Inr (f, w)" "d' = wk_db w"
    using gov_dispose by (auto simp: transact_Inr)
  from w(1) obtain g where g: "find_row fd_id fid ?fs = Some g" "fd_status g \<noteq> FS_RESOLVED" "status \<noteq> FS_RESOLVED"
    and step: "d' = d \<or> (\<exists>a. d' = d\<lparr>db_findings := modify_rows fd_id fid (\<lambda>f. f\<lparr>fd_status := status\<rparr>) ?fs,
       db_audits := db_audits d @ [a]\<rparr>)"
    by (rule set_finding_disposition_Inr) (auto simp: w(2) initial_work_def)
  from step show ?thesis
  proof
    assume "d' = d" then show ?thesis by simp
  next
    assume "\<exists>a. d' = d\<lparr>db_findings := modify_rows fd_id fid (\<lambda>f. f\<lparr>fd_status := status\<rparr>) ?fs, db_audits := db_audits d @ [a]\<rparr>"
    then show ?thesis
      using governed_finding [OF assms(3) g(1), where f = "\<lambda>f. f\<lparr>fd_status := status\<rparr>"] g(2,3)
      by (auto simp: finding_step_def)
  qed
qed

end
