(* ===== verification/Scan_Persistence.thy ===== *)
theory Scan_Persistence
  imports Finding_Governance
begin

text \<open>
  app/database/persistence.py, from the validated bundle of one scan to its rows: the idempotent
  start, resources and snapshots, assessments and evidence, the reconciliation of findings, the
  completion, and the failure of a pending scan; and the scope contract of
  app/schemas/persistence.py. \<open>_validate_bundle\<close>, the profile and catalog rows and the result
  document are inputs: the bundle carries their results. Scans linked to a remediation
  verification are not part of the model.
\<close>

section \<open>The scope of a scan\<close>

definition valid_scope :: "scan_scope \<Rightarrow> bool" where
  "valid_scope s =
     (list_all (\<lambda>vs. distinct vs \<and> list_all (\<lambda>v. v \<noteq> []) vs)
        [ss_requested_regions s, ss_successful_regions s, ss_requested_services s, ss_requested_collectors s,
         ss_resource_types s, ss_enabled_controls s] \<and>
      ss_requested_regions s \<noteq> [] \<and> ss_requested_services s \<noteq> [] \<and> ss_requested_collectors s \<noteq> [] \<and>
      ss_outcomes s \<noteq> [] \<and> ss_resource_types s \<noteq> [] \<and> ss_enabled_controls s \<noteq> [] \<and>
      ss_account s \<noteq> [] \<and> ss_profile_id s \<noteq> [] \<and> ss_profile_version s \<noteq> [] \<and> sha256_pattern (ss_profile_sha s) \<and>
      ss_catalog_id s \<noteq> [] \<and> ss_catalog_version s \<noteq> [] \<and>
      set (ss_successful_regions s) \<subseteq> set (ss_requested_regions s) \<and>
      distinct (map fst (ss_outcomes s)) \<and> set (map fst (ss_outcomes s)) = set (ss_requested_collectors s))"

definition scope_complete :: "scan_scope \<Rightarrow> bool" where
  "scope_complete s =
     (set (ss_successful_regions s) = set (ss_requested_regions s) \<and>
      list_all (\<lambda>(_, st). st = COL_SUCCEEDED) (ss_outcomes s))"

definition successful_collectors :: "scan_scope \<Rightarrow> string list" where
  "successful_collectors s = sort (map fst (filter (\<lambda>(_, st). st = COL_SUCCEEDED) (ss_outcomes s)))"

definition outcome_document :: "scan_scope \<Rightarrow> (string \<times> collection_status) list" where
  "outcome_document s = sort_key fst (ss_outcomes s)"

definition completion_status :: "scan_scope \<Rightarrow> scan_status" where
  "completion_status s =
     (if list_all (\<lambda>(_, st). st = COL_FAILED) (ss_outcomes s) then SC_FAILED
      else if scope_complete s then SC_COMPLETED else SC_PARTIAL)"

section \<open>The validated bundle\<close>

record candidate =
  cd_snapshot_id :: uuid
  cd_control_key :: string
  cd_account :: string
  cd_region :: "string option"
  cd_result :: assessment_result
  cd_missing :: "string list"
  cd_artifacts :: "evidence_row list"

record scan_target =
  tg_snapshot_id :: uuid
  tg_account :: string
  tg_aws_id :: string
  tg_service :: string
  tg_type :: string
  tg_scope :: resource_scope
  tg_region :: "string option"
  tg_arn :: "string option"
  tg_name :: "string option"
  tg_tags :: json
  tg_configuration :: json

text \<open>
  The targets and candidates in the order of their identity, the rows of the profile and of the
  enabled control versions, and the digests of the inventory and of the whole result.
\<close>

record scan_bundle =
  bn_scan_id :: uuid
  bn_account :: string
  bn_observed_at :: time
  bn_scope :: scan_scope
  bn_targets :: "scan_target list"
  bn_candidates :: "candidate list"
  bn_graph :: "evidence_graph option"
  bn_profile_row_id :: uuid
  bn_versions :: "(string \<times> version_row) list"
  bn_inventory_sha :: digest
  bn_result_sha :: digest

definition region_key :: "string option \<Rightarrow> string" where
  "region_key r = or_global (case r of None \<Rightarrow> [] | Some s \<Rightarrow> s)"

definition finding_fingerprint :: "env \<Rightarrow> string \<Rightarrow> uuid \<Rightarrow> string \<Rightarrow> string option \<Rightarrow> digest" where
  "finding_fingerprint env account rid control region =
     sha env (FingerprintText (join_with unit_separator [account, uuid_text rid, control, region_key region]))"

definition control_assessment_namespace :: uuid where
  "control_assessment_namespace = 0xd3a00eb8f71c59d4a1dfc73ab9b7d85d"

definition control_assessment_id :: "env \<Rightarrow> uuid \<Rightarrow> uuid \<Rightarrow> string \<Rightarrow> uuid" where
  "control_assessment_id env scan snapshot control =
     uuid5_of env control_assessment_namespace
       (join_with unit_separator [uuid_text scan, uuid_text snapshot, control])"

section \<open>What the history says of a target\<close>

text \<open>The assessments joined with their snapshots and scans, and the decisive ones of a target.\<close>

definition joined :: "history \<Rightarrow> (assessment_row \<times> time \<times> scan_status) list" where
  "joined h =
     List.map_filter (\<lambda>a.
       case (find_row sn_id (ca_snapshot_id a) (hs_snapshots h), find_row sc_id (ca_scan_id a) (hs_scans h)) of
         (Some sn, Some s) \<Rightarrow> Some (a, sn_observed_at sn, sc_status s)
       | _ \<Rightarrow> None) (hs_assessments h)"

definition on_target :: "uuid \<Rightarrow> uuid \<Rightarrow> assessment_row \<Rightarrow> bool" where
  "on_target rid cid a = (ca_resource_id a = rid \<and> ca_control_id a = cid)"

definition decisive_rows :: "history \<Rightarrow> uuid \<Rightarrow> uuid \<Rightarrow> uuid option \<Rightarrow> (assessment_row \<times> time \<times> scan_status) list" where
  "decisive_rows h rid cid scan =
     filter (\<lambda>(a, _, st). on_target rid cid a \<and>
        (ca_result a = FAIL \<or> ca_result a = PASS \<and> (st = SC_COMPLETED \<or> scan = Some (ca_scan_id a)))) (joined h)"

definition decisive_key :: "assessment_row \<times> time \<times> scan_status \<Rightarrow> time \<times> nat \<times> uuid" where
  "decisive_key r = (case r of (a, t, _) \<Rightarrow> (t, if ca_result a = FAIL then 1 else 0, ca_id a))"

definition latest_decisive :: "(assessment_row \<times> time \<times> scan_status) list \<Rightarrow> (assessment_row \<times> time) option" where
  "latest_decisive rows =
     (case rev (sort_key decisive_key rows) of [] \<Rightarrow> None | (a, t, _) # _ \<Rightarrow> Some (a, t))"

definition fail_times :: "history \<Rightarrow> uuid \<Rightarrow> uuid \<Rightarrow> time list" where
  "fail_times h rid cid =
     List.map_filter (\<lambda>a. map_option sn_observed_at (find_row sn_id (ca_snapshot_id a) (hs_snapshots h)))
       (filter (\<lambda>a. on_target rid cid a \<and> ca_result a = FAIL) (hs_assessments h))"

section \<open>Reconciliation of one finding\<close>

definition open_finding ::
    "env \<Rightarrow> candidate \<Rightarrow> assessment_row \<Rightarrow> digest \<Rightarrow> time \<Rightarrow> actor_type \<Rightarrow> string \<Rightarrow> finding_row act" where
  "open_finding env c a fp observed aty actor =
     bnd (uuid4 env) (\<lambda>u.
     let f = \<lparr>fd_id = u, fd_fingerprint = fp, fd_account = cd_account c, fd_resource_id = ca_resource_id a,
              fd_control_id = ca_control_id a, fd_region = cd_region c, fd_status = FS_OPEN,
              fd_first_detected = observed, fd_last_detected = observed, fd_resolved_at = None\<rparr> in
     bnd (change (\<lambda>d. d\<lparr>db_findings := db_findings d @ [f]\<rparr>)) (\<lambda>_.
     bnd flush_findings (\<lambda>_.
     bnd (append_audit_event env AT_FINDING_OPENED TargetFinding u observed aty actor
            (MetaFindingOpened (ca_id a))) (\<lambda>_.
     ret f))))"

definition insert_occurrence :: "env \<Rightarrow> finding_row \<Rightarrow> assessment_row \<Rightarrow> time \<Rightarrow> unit act" where
  "insert_occurrence env f a observed =
     bnd (uuid4 env) (\<lambda>u.
     let oc = \<lparr>oc_id = u, oc_finding_id = fd_id f, oc_assessment_id = ca_id a, oc_scan_id = ca_scan_id a,
               oc_snapshot_id = ca_snapshot_id a, oc_resource_id = ca_resource_id a,
               oc_control_version_id = ca_control_version_id a, oc_control_id = ca_control_id a,
               oc_detected_at = observed\<rparr> in
     bnd get_db (\<lambda>d.
     bnd (guard (new_key oc_id u (hs_occurrences (db_history d)) \<and>
                 new_key oc_assessment_id (ca_id a) (hs_occurrences (db_history d))) IntegrityErr) (\<lambda>_.
     change (\<lambda>d. d\<lparr>db_history := (db_history d)\<lparr>hs_occurrences := hs_occurrences (db_history d) @ [oc]\<rparr>\<rparr>))))"

text \<open>The attributes written on the finding, and the event they call for.\<close>

definition settle :: "time \<Rightarrow> time \<Rightarrow> assessment_result \<Rightarrow> time \<Rightarrow> finding_row \<Rightarrow> finding_row" where
  "settle first_fail last_fail latest at f =
     (let f = f\<lparr>fd_first_detected := first_fail, fd_last_detected := last_fail\<rparr> in
      if latest = PASS then f\<lparr>fd_status := FS_RESOLVED, fd_resolved_at := Some at\<rparr>
      else if fd_status f = FS_RESOLVED then f\<lparr>fd_status := FS_OPEN, fd_resolved_at := None\<rparr>
      else f)"

definition settle_event :: "assessment_result \<Rightarrow> assessment_result \<Rightarrow> bool \<Rightarrow> finding_status \<Rightarrow> audit_type option" where
  "settle_event latest result created previous =
     (if latest = PASS then (if previous \<noteq> FS_RESOLVED then Some AT_FINDING_RESOLVED else None)
      else if previous = FS_RESOLVED then Some AT_FINDING_REOPENED
      else if result = FAIL \<and> \<not> created then Some AT_FINDING_UPDATED
      else None)"

definition settle_finding ::
    "env \<Rightarrow> candidate \<Rightarrow> assessment_row \<Rightarrow> time \<Rightarrow> actor_type \<Rightarrow> string \<Rightarrow> bool \<Rightarrow> bool \<Rightarrow> finding_row \<Rightarrow> unit act" where
  "settle_finding env c a observed aty actor complete created f =
     bnd (guard (fd_resource_id f = ca_resource_id a \<and> fd_control_id f = ca_control_id a \<and> fd_account f = cd_account c)
            (ValueErr ''finding fingerprint identity conflict'')) (\<lambda>_.
     bnd (if cd_result c = FAIL then insert_occurrence env f a observed else ret ()) (\<lambda>_.
     bnd get_db (\<lambda>d.
     case latest_decisive (decisive_rows (db_history d) (ca_resource_id a) (ca_control_id a)
            (if complete then Some (ca_scan_id a) else None)) of
       None \<Rightarrow> raise NoResultErr
     | Some (la, at) \<Rightarrow>
     (case fail_times (db_history d) (ca_resource_id a) (ca_control_id a) of
       [] \<Rightarrow> raise IntegrityErr
     | t # ts \<Rightarrow>
       let f' = settle (Min (set (t # ts))) (Max (set (t # ts))) (ca_result la) at f in
       bnd (set_finding (fd_id f) (\<lambda>_. f')) (\<lambda>_.
       bnd (case settle_event (ca_result la) (cd_result c) created (fd_status f) of
              None \<Rightarrow> ret ()
            | Some ty \<Rightarrow>
                bnd (append_audit_event env ty TargetFinding (fd_id f) observed aty actor
                       (MetaFindingStatus (ca_id a) (ca_id la) (fd_status f) (fd_status f'))) (\<lambda>_. ret ())) (\<lambda>_.
       flush_findings))))))"

definition reconcile_finding ::
    "env \<Rightarrow> candidate \<Rightarrow> assessment_row \<Rightarrow> time \<Rightarrow> actor_type \<Rightarrow> string \<Rightarrow> bool \<Rightarrow> unit act" where
  "reconcile_finding env c a observed aty actor complete =
     (if cd_result c \<notin> {PASS, FAIL} then ret ()
      else
        let fp = finding_fingerprint env (cd_account c) (ca_resource_id a) (cd_control_key c) (cd_region c) in
        bnd get_db (\<lambda>d.
        case find_row fd_fingerprint fp (db_findings d) of
          None \<Rightarrow>
            if cd_result c \<noteq> FAIL then ret ()
            else bnd (open_finding env c a fp observed aty actor) (settle_finding env c a observed aty actor complete True)
        | Some f \<Rightarrow> settle_finding env c a observed aty actor complete False f))"

section \<open>Resources and snapshots\<close>

definition set_history :: "(history \<Rightarrow> history) \<Rightarrow> unit act" where
  "set_history f = change (\<lambda>d. d\<lparr>db_history := f (db_history d)\<rparr>)"

definition target_resource :: "env \<Rightarrow> scan_target \<Rightarrow> resource_row" where
  "target_resource env t =
     (let region = (case tg_region t of None \<Rightarrow> [] | Some r \<Rightarrow> r) in
      \<lparr>rs_id = stable_resource_id env ''aws'' (tg_account t) (tg_service t) (tg_type t) (tg_scope t) region (tg_aws_id t),
       rs_provider = ''aws'', rs_account = tg_account t, rs_aws_id = tg_aws_id t, rs_service = tg_service t,
       rs_type = tg_type t, rs_scope = tg_scope t, rs_region = region_key (tg_region t)\<rparr>)"

definition resource_ok :: "resource_row \<Rightarrow> bool" where
  "resource_ok r =
     (list_all sql_nonblank [rs_provider r, rs_account r, rs_service r, rs_type r, rs_aws_id r, rs_region r] \<and>
      (rs_scope r = SCOPE_REGIONAL) = (rs_region r \<noteq> ''global''))"

text \<open>Insert on conflict do nothing, then the stored row must carry the same identity.\<close>

definition ensure_resource :: "env \<Rightarrow> scan_target \<Rightarrow> uuid act" where
  "ensure_resource env t =
     bnd get_db (\<lambda>d.
     let r = target_resource env t in
     case find_row rs_id (rs_id r) (hs_resources (db_history d)) of
       None \<Rightarrow>
         bnd (guard (resource_ok r) IntegrityErr) (\<lambda>_.
         bnd (set_history (\<lambda>h. h\<lparr>hs_resources := hs_resources h @ [r]\<rparr>)) (\<lambda>_. ret (rs_id r)))
     | Some q \<Rightarrow>
         bnd (guard (q = r) (ValueErr ''stable resource identity conflict'')) (\<lambda>_. ret (rs_id r)))"

fun ensure_resources :: "env \<Rightarrow> scan_target list \<Rightarrow> (uuid \<times> uuid) list act" where
  "ensure_resources env [] = ret []"
| "ensure_resources env (t # ts) =
     bnd (ensure_resource env t) (\<lambda>rid.
     bnd (ensure_resources env ts) (\<lambda>ids.
     ret ((tg_snapshot_id t, rid) # ids)))"

definition lookup_key :: "(uuid \<times> 'v) list \<Rightarrow> uuid \<Rightarrow> 'v act" where
  "lookup_key kvs k = (case map_of kvs k of None \<Rightarrow> raise KeyErr | Some v \<Rightarrow> ret v)"

definition add_resource_snapshot :: "env \<Rightarrow> uuid \<Rightarrow> time \<Rightarrow> (uuid \<times> uuid) list \<Rightarrow> scan_target \<Rightarrow> unit act" where
  "add_resource_snapshot env scan observed ids t =
     bnd (lookup_key ids (tg_snapshot_id t)) (\<lambda>rid.
     bnd get_db (\<lambda>d.
     let sn = \<lparr>sn_id = tg_snapshot_id t, sn_resource_id = rid, sn_scan_id = scan, sn_scope = tg_scope t,
               sn_region = tg_region t, sn_arn = tg_arn t, sn_name = tg_name t, sn_tags = tg_tags t,
               sn_configuration = tg_configuration t,
               sn_state_sha = sha env (StateDoc (tg_arn t) (tg_name t) (tg_scope t) (tg_region t)
                 (canon (tg_tags t)) (canon (tg_configuration t))), sn_observed_at = observed\<rparr> in
     bnd (guard (new_key sn_id (sn_id sn) (hs_snapshots (db_history d)) \<and>
                 new_key (\<lambda>q. (sn_scan_id q, sn_resource_id q)) (scan, rid) (hs_snapshots (db_history d)) \<and>
                 (sn_scope sn = SCOPE_REGIONAL) = (sn_region sn \<noteq> None) \<and>
                 (case sn_region sn of None \<Rightarrow> True | Some r \<Rightarrow> sql_nonblank r) \<and>
                 length (sn_state_sha sn) = 64) IntegrityErr) (\<lambda>_.
     set_history (\<lambda>h. h\<lparr>hs_snapshots := hs_snapshots h @ [sn]\<rparr>))))"

section \<open>Assessments and evidence\<close>

definition evidence_ok :: "evidence_row \<Rightarrow> bool" where
  "evidence_ok e =
     (list_all sql_nonblank [er_collector e, er_source e, er_source_api e, er_schema_name e, er_schema_version e,
        er_evidence_key e] \<and> length (er_payload_sha e) = 64)"

definition insert_evidence :: "uuid \<Rightarrow> evidence_row \<Rightarrow> unit act" where
  "insert_evidence aid e0 =
     (let e = e0\<lparr>er_assessment_id := aid\<rparr> in
      bnd get_db (\<lambda>d.
      bnd (guard (new_key er_id (er_id e) (hs_evidence (db_history d)) \<and>
                  new_key (\<lambda>q. (er_assessment_id q, er_evidence_key q)) (aid, er_evidence_key e)
                    (hs_evidence (db_history d)) \<and> evidence_ok e) IntegrityErr) (\<lambda>_.
      set_history (\<lambda>h. h\<lparr>hs_evidence := hs_evidence h @ [e]\<rparr>))))"

definition record_assessment ::
    "env \<Rightarrow> scan_bundle \<Rightarrow> (uuid \<times> uuid) list \<Rightarrow> candidate \<Rightarrow> (candidate \<times> assessment_row) act" where
  "record_assessment env b ids c =
     bnd (case map_of (bn_versions b) (cd_control_key c) of None \<Rightarrow> raise KeyErr | Some v \<Rightarrow> ret v) (\<lambda>v.
     bnd (lookup_key ids (cd_snapshot_id c)) (\<lambda>rid.
     bnd get_db (\<lambda>d.
     let a = \<lparr>ca_id = control_assessment_id env (bn_scan_id b) (cd_snapshot_id c) (cd_control_key c),
              ca_scan_id = bn_scan_id b, ca_snapshot_id = cd_snapshot_id c, ca_resource_id = rid,
              ca_control_version_id = cv_id v, ca_control_id = cv_control_id v, ca_profile_row_id = bn_profile_row_id b,
              ca_result = cd_result c, ca_missing = cd_missing c\<rparr> in
     bnd (guard (new_key ca_id (ca_id a) (hs_assessments (db_history d)) \<and>
                 new_key (\<lambda>q. (ca_scan_id q, ca_snapshot_id q, ca_control_version_id q))
                   (ca_scan_id a, ca_snapshot_id a, ca_control_version_id a) (hs_assessments (db_history d)))
            IntegrityErr) (\<lambda>_.
     bnd (set_history (\<lambda>h. h\<lparr>hs_assessments := hs_assessments h @ [a]\<rparr>)) (\<lambda>_.
     bnd (for_each (insert_evidence (ca_id a)) (cd_artifacts c)) (\<lambda>_.
     ret (c, a)))))))"

fun record_assessments ::
    "env \<Rightarrow> scan_bundle \<Rightarrow> (uuid \<times> uuid) list \<Rightarrow> candidate list \<Rightarrow> (candidate \<times> assessment_row) list act" where
  "record_assessments env b ids [] = ret []"
| "record_assessments env b ids (c # cs) =
     bnd (record_assessment env b ids c) (\<lambda>p.
     bnd (record_assessments env b ids cs) (\<lambda>ps.
     ret (p # ps)))"

section \<open>The scan row\<close>

text \<open>The constraints of the scan table, checked when a changed row is flushed.\<close>

definition scan_ok :: "scan_row \<Rightarrow> bool" where
  "scan_ok s =
     ((case sc_completed_at s of None \<Rightarrow> True | Some t \<Rightarrow> sc_started_at s \<le> t) \<and>
      (sc_status s = SC_RUNNING) = (sc_completed_at s = None) \<and>
      (sc_status s = SC_RUNNING) = (sc_result_sha s = None) \<and>
      (case sc_result_sha s of None \<Rightarrow> True | Some h \<Rightarrow> length h = 64) \<and>
      (case sc_inventory_sha s of None \<Rightarrow> True | Some h \<Rightarrow> length h = 64) \<and>
      length (sc_profile_sha s) = 64 \<and>
      (sc_status s \<in> {SC_COMPLETED, SC_PARTIAL} \<longrightarrow> sc_account s \<noteq> None \<and> sc_inventory_sha s \<noteq> None))"

definition set_scan :: "uuid \<Rightarrow> (scan_row \<Rightarrow> scan_row) \<Rightarrow> unit act" where
  "set_scan i f =
     bnd (set_history (\<lambda>h. h\<lparr>hs_scans := modify_rows sc_id i f (hs_scans h)\<rparr>)) (\<lambda>_.
     bnd get_db (\<lambda>d.
     guard (list_all scan_ok (hs_scans (db_history d))) IntegrityErr))"

definition validate_pending_scan :: "scan_row \<Rightarrow> scan_bundle \<Rightarrow> time \<Rightarrow> string \<Rightarrow> unit act" where
  "validate_pending_scan s b started version =
     (let p = bn_scope b in
      bnd (guard (sc_requested_regions s = sort (ss_requested_regions p) \<and>
                  sc_requested_services s = sort (ss_requested_services p) \<and> sc_scanner_version s = version \<and>
                  sc_catalog_id s = ss_catalog_id p \<and> sc_catalog_version s = ss_catalog_version p \<and>
                  sc_profile_id s = ss_profile_id p \<and> sc_profile_version s = ss_profile_version p \<and>
                  sc_profile_sha s = ss_profile_sha p)
             (ValueErr ''pending scan intent differs from the result bundle'')) (\<lambda>_.
      bnd (guard (sc_started_at s = started)
             (ValueErr ''pending scan start time differs from the result bundle'')) (\<lambda>_.
      bnd (guard (sc_account s = None \<and> sc_completed_at s = None \<and> sc_result_sha s = None \<and>
                  sc_inventory_sha s = None \<and> sc_successful_regions s = [] \<and> sc_successful_collectors s = [])
             (ValueErr ''pending scan contains result data before completion'')) (\<lambda>_.
      guard (sc_manifest s = None) (ValueErr ''pending scan already contains an immutable scope manifest'')))))"

definition new_scan :: "scan_bundle \<Rightarrow> time \<Rightarrow> string \<Rightarrow> scan_row" where
  "new_scan b started version =
     (let p = bn_scope b in
      \<lparr>sc_id = bn_scan_id b, sc_account = Some (bn_account b), sc_status = SC_RUNNING, sc_profile_id = ss_profile_id p,
       sc_profile_version = ss_profile_version p, sc_profile_sha = ss_profile_sha p, sc_catalog_id = ss_catalog_id p,
       sc_catalog_version = ss_catalog_version p, sc_inventory_sha = Some (bn_inventory_sha b),
       sc_requested_regions = sort (ss_requested_regions p), sc_successful_regions = sort (ss_successful_regions p),
       sc_requested_services = sort (ss_requested_services p), sc_successful_collectors = successful_collectors p,
       sc_started_at = started, sc_completed_at = None, sc_scanner_version = version, sc_result_sha = None,
       sc_manifest = None\<rparr>)"

section \<open>The result of a scan\<close>

definition record_result :: "env \<Rightarrow> scan_bundle \<Rightarrow> time \<Rightarrow> actor_type \<Rightarrow> string \<Rightarrow> unit act" where
  "record_result env b completed aty actor =
     (let p = bn_scope b; sid = bn_scan_id b; status = completion_status p in
      bnd (set_scan sid (\<lambda>s. s\<lparr>sc_account := Some (bn_account b),
             sc_successful_regions := sort (ss_successful_regions p), sc_successful_collectors := successful_collectors p,
             sc_inventory_sha := Some (bn_inventory_sha b)\<rparr>)) (\<lambda>_.
      bnd (set_scan sid (\<lambda>s. s\<lparr>sc_manifest := Some p\<rparr>)) (\<lambda>_.
      bnd (ensure_resources env (bn_targets b)) (\<lambda>ids.
      bnd (set_history (\<lambda>h. h\<lparr>hs_load_graph := (hs_load_graph h)(sid := bn_graph b)\<rparr>)) (\<lambda>_.
      bnd (for_each (add_resource_snapshot env sid (bn_observed_at b) ids) (bn_targets b)) (\<lambda>_.
      bnd (record_assessments env b ids (bn_candidates b)) (\<lambda>rows.
      bnd (for_each (\<lambda>(c, a). reconcile_finding env c a (bn_observed_at b) aty actor (scope_complete p)) rows) (\<lambda>_.
      bnd (append_audit_event env (if status = SC_FAILED then AT_SCAN_FAILED else AT_SCAN_COMPLETED) TargetScan sid
             completed aty actor (MetaScanCompleted status (length (bn_candidates b)))) (\<lambda>_.
      set_scan sid (\<lambda>s. s\<lparr>sc_status := status, sc_completed_at := Some completed,
        sc_result_sha := Some (bn_result_sha b)\<rparr>))))))))))"

definition persist_scan_result ::
    "env \<Rightarrow> scan_bundle \<Rightarrow> reading \<Rightarrow> reading \<Rightarrow> string \<Rightarrow> actor_type \<Rightarrow> string \<Rightarrow> unit act" where
  "persist_scan_result env b started0 completed0 version aty actor =
     bnd (require_aware started0 ''started_at'') (\<lambda>started.
     bnd (require_aware completed0 ''completed_at'') (\<lambda>completed.
     bnd (guard (started \<le> bn_observed_at b \<and> bn_observed_at b \<le> completed)
            (ValueErr ''scan timestamps must enclose the observation time'')) (\<lambda>_.
     bnd (guard (\<not> blank version \<and> \<not> blank actor)
            (ValueErr ''scanner version and audit actor must not be blank'')) (\<lambda>_.
     bnd get_db (\<lambda>d.
     case find_row sc_id (bn_scan_id b) (hs_scans (db_history d)) of
       Some s \<Rightarrow>
         if sc_status s \<noteq> SC_RUNNING then
           guard (sc_result_sha s = Some (bn_result_sha b))
             (ValueErr ''scan ID already exists with different content'')
         else
           bnd (validate_pending_scan s b started version) (\<lambda>_. record_result env b completed aty actor)
     | None \<Rightarrow>
         bnd (guard (scan_ok (new_scan b started version)) IntegrityErr) (\<lambda>_.
         bnd (set_history (\<lambda>h. h\<lparr>hs_scans := hs_scans h @ [new_scan b started version]\<rparr>)) (\<lambda>_.
         bnd (append_audit_event env AT_SCAN_STARTED TargetScan (bn_scan_id b) started aty actor MetaScanStarted) (\<lambda>_.
         record_result env b completed aty actor))))))))"

section \<open>A scan that cannot produce evidence\<close>

definition fail_pending_scan ::
    "env \<Rightarrow> uuid \<Rightarrow> reading \<Rightarrow> string \<Rightarrow> string \<Rightarrow> actor_type \<Rightarrow> string \<Rightarrow> unit act" where
  "fail_pending_scan env sid completed0 code message aty actor =
     bnd (require_aware completed0 ''completed_at'') (\<lambda>completed.
     bnd (guard (\<not> blank code \<and> \<not> blank message \<and> \<not> blank actor)
            (ValueErr ''failure details and audit actor must not be blank'')) (\<lambda>_.
     bnd (guard (length code \<le> 64 \<and> length message \<le> 256)
            (ValueErr ''failure details exceed their safe response bounds'')) (\<lambda>_.
     bnd get_db (\<lambda>d.
     case find_row sc_id sid (hs_scans (db_history d)) of
       None \<Rightarrow> raise (ValueErr ''pending scan does not exist'')
     | Some s \<Rightarrow>
         if sc_status s \<noteq> SC_RUNNING then ret ()
         else
           bnd (guard (sc_started_at s \<le> completed) (ValueErr ''scan completion cannot precede its start'')) (\<lambda>_.
           bnd (append_audit_event env AT_SCAN_FAILED TargetScan sid completed aty actor
                  (MetaScanFailed code message)) (\<lambda>_.
           set_scan sid (\<lambda>s. s\<lparr>sc_status := SC_FAILED, sc_completed_at := Some completed,
             sc_result_sha := Some (sha env (ScanFailureDoc sid (sc_started_at s) completed code))\<rparr>)))))))"

end
