(* ===== verification/Governance_Contracts.thy ===== *)
theory Governance_Contracts
  imports Finding_Governance
begin

text \<open>
  The contracts of finding governance: the row constraints are an invariant of its calls, no
  sequence of calls resolves a finding or revives an ended exception, expiry equals its reference
  definition and never fails, and a disposition is backed by what it claims.
\<close>

section \<open>The invariant of governance calls\<close>

definition governance_ok :: "db \<Rightarrow> bool" where
  "governance_ok d = (findings_ok (db_findings d) \<and> exceptions_ok (db_exceptions d))"

lemma governance_ok_keys:
  "governance_ok d \<Longrightarrow> distinct (map fe_id (db_exceptions d)) \<and> distinct (map fd_id (db_findings d))"
  by (simp add: governance_ok_def findings_ok_def exceptions_ok_def)

lemma expire_due_ok: "exceptions_ok xs \<Longrightarrow> exceptions_ok (map (expire_due at) xs)"
proof -
  assume ok: "exceptions_ok xs"
  have "map fe_id (map (expire_due at) xs) = map fe_id xs" by simp
  then have "distinct (map fe_id (map (expire_due at) xs))"
    using ok unfolding exceptions_ok_def by (simp only:)
  then show ?thesis
    using ok by (auto simp: exceptions_ok_def list_all_iff exception_ok_def expire_due_def is_due_def)
qed

lemma governance_call_ok:
  assumes "governance_ok d" "governance_call d d'"
  shows "governance_ok d'"
  using assms(2)
proof cases
  case (gov_create env fid rsn who created expires x)
  then show ?thesis
    by (auto simp: transact_Inr create_finding_exception_def bnd_Inr_iff Let_def governance_ok_def)
next
  case (gov_expire env at who xs)
  then obtain t where t: "at = Aware t"
    by (auto simp: transact_Inr expire_exceptions_def bnd_Inr_iff)
  have "\<exists>as. d' = d\<lparr>db_exceptions := map (expire_due t) (db_exceptions d), db_audits := as\<rparr>"
    using expire_exceptions_effect [OF gov_expire [unfolded t]] governance_ok_keys [OF assms(1)] by blast
  then show ?thesis
    using assms(1) by (auto simp: governance_ok_def expire_due_ok)
next
  case (gov_revoke env xid at who x)
  then show ?thesis
    using assms(1)
    by (auto simp: transact_Inr revoke_exception_def bnd_Inr_iff Let_def governance_ok_def initial_work_def
        split: if_split_asm dest!: lock_exception_Inr)
next
  case (gov_dispose env fid status at who f)
  then show ?thesis
    using assms(1)
    by (auto simp: transact_Inr set_finding_disposition_def bnd_Inr_iff Let_def governance_ok_def initial_work_def
        split: if_split_asm option.split_asm)
qed

interpretation governance: event_system governance_ok governance_call governance_ok
  by unfold_locales (auto intro: governance_call_ok)

section \<open>Sequences of governance calls\<close>

text \<open>What any sequence of calls may have done to one finding and to one exception.\<close>

definition finding_kept :: "finding_row \<Rightarrow> finding_row \<Rightarrow> bool" where
  "finding_kept f f' =
     (f' = f\<lparr>fd_status := fd_status f'\<rparr> \<and> (fd_status f = FS_RESOLVED \<or> fd_status f' = FS_RESOLVED \<longrightarrow> f' = f))"

definition exception_kept :: "exception_row \<Rightarrow> exception_row \<Rightarrow> bool" where
  "exception_kept x x' =
     (x' = x\<lparr>fe_status := fe_status x', fe_revoked_at := fe_revoked_at x'\<rparr> \<and> (fe_status x \<noteq> XS_ACTIVE \<longrightarrow> x' = x))"

lemma finding_kept_step: "finding_kept f g \<Longrightarrow> finding_step g h \<Longrightarrow> finding_kept f h"
  by (cases f; cases g; cases h) (auto simp: finding_kept_def finding_step_def)

lemma exception_kept_step: "exception_kept x y \<Longrightarrow> exception_step y z \<Longrightarrow> exception_kept x z"
  by (cases x; cases y; cases z) (auto simp: exception_kept_def exception_step_def)

definition governed_history :: "db \<Rightarrow> db \<Rightarrow> bool" where
  "governed_history d d' =
     (\<exists>as ys new. d' = d\<lparr>db_findings := db_findings d', db_exceptions := ys @ new, db_audits := db_audits d @ as\<rparr> \<and>
        list_all2 finding_kept (db_findings d) (db_findings d') \<and> list_all2 exception_kept (db_exceptions d) ys)"

lemma governed_history_refl: "governed_history d d"
  unfolding governed_history_def
  by (intro exI [of _ "[]"] exI [of _ "db_exceptions d"])
    (simp add: list_all2_same finding_kept_def exception_kept_def)

lemma governed_history_step:
  assumes "governed_history d e" "governed e e'"
  shows "governed_history d e'"
proof -
  obtain as ys new where e: "e = d\<lparr>db_findings := db_findings e, db_exceptions := ys @ new, db_audits := db_audits d @ as\<rparr>"
    "list_all2 finding_kept (db_findings d) (db_findings e)" "list_all2 exception_kept (db_exceptions d) ys"
    using assms(1) by (auto simp: governed_history_def)
  obtain bs zs more where e': "e' = e\<lparr>db_findings := db_findings e', db_exceptions := zs @ more, db_audits := db_audits e @ bs\<rparr>"
    "list_all2 finding_step (db_findings e) (db_findings e')" "list_all2 exception_step (db_exceptions e) zs"
    using assms(2) by (auto simp: governed_def)
  have fields: "db_exceptions e = ys @ new" "db_audits e = db_audits d @ as"
    by (subst e(1), simp)+
  then obtain ys' new' where zs: "zs = ys' @ new'" "list_all2 exception_step ys ys'"
    using e'(3) by (auto simp: list_all2_append1)
  have "e' = d\<lparr>db_findings := db_findings e', db_exceptions := ys' @ (new' @ more), db_audits := db_audits d @ (as @ bs)\<rparr>"
    by (subst e'(1), subst e(1)) (simp add: zs(1) fields)
  then show ?thesis
    using list_all2_trans [OF _ e(2) e'(2), of finding_kept] list_all2_trans [OF _ e(3) zs(2), of exception_kept]
      finding_kept_step exception_kept_step
    unfolding governed_history_def by blast
qed

lemma governance_history:
  "governance_call\<^sup>*\<^sup>* d d' \<Longrightarrow> governance_ok d \<Longrightarrow> governed_history d d'"
proof (induction rule: rtranclp_induct)
  case base
  show ?case by (rule governed_history_refl)
next
  case (step e e')
  then have "governance_ok e" using governance.inv_steps by blast
  then show ?case
    using step governance_ok_keys governance_call_governed governed_history_step by blast
qed

section \<open>Expiry never fails\<close>

text \<open>
  The composite foreign key of an exception: its finding exists with the same resource and
  control, and the resource exists. Generated identifiers are new ones.
\<close>

definition exception_scoped :: "db \<Rightarrow> exception_row \<Rightarrow> bool" where
  "exception_scoped d x =
     (case find_row fd_id (fe_finding_id x) (db_findings d) of
        None \<Rightarrow> False
      | Some f \<Rightarrow> fe_resource_id x = fd_resource_id f \<and> fe_control_id x = fd_control_id f \<and>
          find_row rs_id (fd_resource_id f) (hs_resources (db_history d)) \<noteq> None)"

definition fresh_from :: "env \<Rightarrow> work \<Rightarrow> bool" where
  "fresh_from env w =
     (inj (fresh env) \<and> (\<forall>a\<in>set (db_audits (wk_db w)). \<forall>n. wk_ids w \<le> n \<longrightarrow> fresh env n \<noteq> au_id a))"

definition expiry_ready :: "env \<Rightarrow> work \<Rightarrow> bool" where
  "expiry_ready env w =
     (governance_ok (wk_db w) \<and> list_all (exception_scoped (wk_db w)) (db_exceptions (wk_db w)) \<and> fresh_from env w)"

lemma trim_Nil:
  assumes "dropWhile P (rev (dropWhile P s)) = []"
  shows "list_all P s"
proof (rule ccontr)
  assume "\<not> list_all P s"
  then have ne: "dropWhile P s \<noteq> []" by (simp only: dropWhile_Nil_iff not_False_eq_True)
  have "hd (dropWhile P s) \<in> set (rev (dropWhile P s))" using ne by simp
  then have "P (hd (dropWhile P s))"
    using assms unfolding dropWhile_Nil_iff list_all_iff by (rule bspec [rotated])
  then show False using hd_dropWhile [OF ne] by contradiction
qed

lemma sql_trim_blank: "sql_trim s = [] \<Longrightarrow> blank s"
  unfolding sql_trim_def rev_is_Nil_conv blank_def
  by (drule trim_Nil, erule list.pred_mono_strong) (simp add: is_ws_def)

lemma stripped_nonblank: "strip_ws s \<noteq> [] \<Longrightarrow> sql_nonblank (strip_ws s)"
proof -
  let ?u = "rev (dropWhile is_ws s)"
  assume "strip_ws s \<noteq> []"
  then have "dropWhile is_ws ?u \<noteq> []" by (simp add: strip_ws_def)
  then have "\<not> is_ws (hd (dropWhile is_ws ?u))" "hd (dropWhile is_ws ?u) \<in> set (strip_ws s)"
    using hd_dropWhile [of is_ws ?u] by (simp_all add: strip_ws_def)
  then have "\<not> blank (strip_ws s)" by (auto simp: blank_def list_all_iff)
  then show ?thesis using sql_trim_blank by (auto simp: sql_nonblank_def)
qed

lemma modify_scoped:
  assumes "exception_scoped d x" "db_findings d' = db_findings d" "db_history d' = db_history d"
    and "fe_finding_id x' = fe_finding_id x" "fe_resource_id x' = fe_resource_id x" "fe_control_id x' = fe_control_id x"
  shows "exception_scoped d' x'"
  using assms by (auto simp: exception_scoped_def split: option.splits)

lemma lock_exception_scoped:
  assumes "find_row fe_id i (db_exceptions (wk_db w)) = Some x" "exception_scoped (wk_db w) x"
  shows "lock_exception i w = Inr (x, w)"
proof -
  obtain f where f: "find_row fd_id (fe_finding_id x) (db_findings (wk_db w)) = Some f"
    "fe_resource_id x = fd_resource_id f" "fe_control_id x = fd_control_id f"
    "find_row rs_id (fd_resource_id f) (hs_resources (db_history (wk_db w))) \<noteq> None"
    using assms(2) by (auto simp: exception_scoped_def split: option.split_asm)
  have "fd_id f = fe_finding_id x" using f(1) by (auto dest: find_row_Some)
  then show ?thesis
    using assms(1) f by (simp add: lock_exception_def lock_finding_def bnd_def get_db_def guard_def ret_def)
qed

lemma expire_one_total:
  assumes "expiry_ready env w" "i \<in> fe_id ` set (db_exceptions (wk_db w))" "sql_nonblank actor"
  obtains ys w' where "expire_one env at actor i w = Inr (ys, w')" "expiry_ready env w'"
    "fe_id ` set (db_exceptions (wk_db w')) = fe_id ` set (db_exceptions (wk_db w))"
proof -
  let ?d = "wk_db w"
  obtain x where x: "find_row fe_id i (db_exceptions ?d) = Some x"
    using assms(2) find_row_None_iff [of fe_id i "db_exceptions ?d"] by (cases "find_row fe_id i (db_exceptions ?d)") auto
  then have in_xs: "x \<in> set (db_exceptions ?d)" "fe_id x = i" by (auto dest: find_row_Some)
  have sc: "exception_scoped ?d x" using assms(1) in_xs(1) by (auto simp: expiry_ready_def list_all_iff)
  have ok: "governance_ok ?d" using assms(1) by (simp add: expiry_ready_def)
  show ?thesis
  proof (cases "is_due at x")
    case False
    then have "expire_one env at actor i w = Inr ([], w)"
      by (auto simp: expire_one_def bnd_def lock_exception_scoped [OF x sc] ret_def is_due_def)
    then show ?thesis using that assms(1) by blast
  next
    case True
    let ?x = "x\<lparr>fe_status := XS_EXPIRED\<rparr>"
    let ?es = "modify_rows fe_id i (\<lambda>x. x\<lparr>fe_status := XS_EXPIRED\<rparr>) (db_exceptions ?d)"
    let ?a = "\<lparr>au_id = fresh env (wk_ids w), au_type = AT_EXCEPTION_EXPIRED, au_actor_type = ActorSystem, au_actor_id = actor,
      au_target_type = TargetException, au_target_id = i, au_time = at, au_metadata = exception_metadata ?x None\<rparr>"
    let ?w = "w\<lparr>wk_db := ?d\<lparr>db_exceptions := ?es, db_audits := db_audits ?d @ [?a]\<rparr>, wk_ids := Suc (wk_ids w)\<rparr>"
    have es: "?es = map (\<lambda>y. if fe_id y = i then expire_due at y else y) (db_exceptions ?d)"
      by (rule modify_one) (use x True governance_ok_keys [OF ok] in \<open>auto simp: expire_due_def\<close>)
    have keys: "map fe_id ?es = map fe_id (db_exceptions ?d)" by (rule modify_rows_keys) simp
    have ok': "exceptions_ok ?es"
      using ok unfolding exceptions_ok_def keys unfolding es governance_ok_def
      by (auto simp: exceptions_ok_def list_all_iff exception_ok_def expire_due_def is_due_def)
    have new: "new_key au_id (fresh env (wk_ids w)) (db_audits ?d)"
      using assms(1) by (fastforce simp: expiry_ready_def fresh_from_def new_key_def)
    have run: "expire_one env at actor i w = Inr ([?x], ?w)"
      using True ok ok' new assms(3) in_xs(2)
      by (simp add: expire_one_def bnd_def lock_exception_scoped [OF x sc] is_due_def expire_exception_def Let_def
          set_exception_def change_def audit_exception_def append_audit_event_def uuid4_def insert_audit_def get_db_def
          guard_def ret_def flush_findings_def governance_ok_def not_less)
    have "fresh_from env ?w"
      using assms(1) by (fastforce simp: expiry_ready_def fresh_from_def inj_def)
    then have "expiry_ready env ?w"
      using assms(1) ok ok' unfolding expiry_ready_def
      by (auto simp: governance_ok_def list_all_iff es expire_due_def intro: modify_scoped [of ?d])
    moreover have "fe_id ` set ?es = fe_id ` set (db_exceptions ?d)" using keys by (metis set_map)
    ultimately show ?thesis using that [OF run] by simp
  qed
qed

lemma expire_all_total:
  assumes "expiry_ready env w" "set is \<subseteq> fe_id ` set (db_exceptions (wk_db w))" "sql_nonblank actor"
  shows "\<exists>ys w'. expire_all env at actor is w = Inr (ys, w')"
  using assms
proof (induction "is" arbitrary: w)
  case (Cons i "is")
  then obtain ys w1 where one: "expire_one env at actor i w = Inr (ys, w1)" "expiry_ready env w1"
    "fe_id ` set (db_exceptions (wk_db w1)) = fe_id ` set (db_exceptions (wk_db w))"
    by (metis expire_one_total insert_subset list.simps(15))
  then obtain zs w2 where "expire_all env at actor is w1 = Inr (zs, w2)"
    using Cons.IH [of w1] Cons.prems by auto
  then show ?case using one(1) by (simp add: bnd_def ret_def)
qed (simp add: ret_def)

lemma latest_action_upper:
  assumes "a \<in> set as" "au_target_type a = TargetFinding" "au_target_id a = fid"
  obtains t where "latest_action fid as = Some t" "au_time a \<le> t"
proof -
  let ?ts = "map au_time (filter (\<lambda>a. au_target_type a = TargetFinding \<and> au_target_id a = fid) as)"
  have mem: "au_time a \<in> set ?ts" using assms by auto
  then obtain t ts where ts: "?ts = t # ts" by (cases ?ts) auto
  have "latest_action fid as = Some (Max (set ?ts))" unfolding latest_action_def ts by simp
  then show ?thesis using that mem Max_ge [of "set ?ts" "au_time a"] by blast
qed

section \<open>A finding whose risk is accepted\<close>

definition demo_exception :: exception_row where
  "demo_exception = \<lparr>fe_id = 60, fe_finding_id = 6, fe_resource_id = 10, fe_control_id = 20, fe_reason = ''ok'',
     fe_approved_by = ''bob'', fe_created_at = 10, fe_expires_at = 100, fe_status = XS_ACTIVE, fe_revoked_at = None\<rparr>"

definition demo_excepted :: db where
  "demo_excepted = demo_start\<lparr>db_exceptions := [demo_exception]\<rparr>"

definition demo_accepted_audit :: audit_row where
  "demo_accepted_audit = \<lparr>au_id = 90, au_type = AT_FINDING_ACCEPTED_RISK, au_actor_type = ActorUser, au_actor_id = ''bob'',
     au_target_type = TargetFinding, au_target_id = 6, au_time = 50, au_metadata = MetaDisposition FS_OPEN FS_ACCEPTED_RISK\<rparr>"

definition demo_accepted :: db where
  "demo_accepted = demo_excepted\<lparr>db_findings := [demo_finding\<lparr>fd_status := FS_ACCEPTED_RISK\<rparr>],
     db_audits := [demo_accepted_audit]\<rparr>"

lemma nonblank_demo [simp]: "sql_nonblank ''bob''" "sql_nonblank ''ok''" "sql_nonblank ''system''"
  by (simp_all add: sql_nonblank_def sql_trim_def)

lemma strip_demo [simp]: "strip_ws ''bob'' = ''bob''" "strip_ws ''system'' = ''system''"
  by (simp_all add: strip_ws_def is_ws_def)

lemma demo_governance_ok: "governance_ok demo_excepted"
  by (simp add: governance_ok_def demo_excepted_def demo_start_def findings_ok_def exceptions_ok_def finding_ok_def
      exception_ok_def demo_finding_def demo_exception_def)

lemma demo_accept:
  "transact (set_finding_disposition (demo_env 9) 6 FS_ACCEPTED_RISK (Aware 50) ''bob'') demo_excepted =
     (Inr (demo_finding\<lparr>fd_status := FS_ACCEPTED_RISK\<rparr>), demo_accepted)"
  by (simp add: transact_def set_finding_disposition_def bnd_def require_aware_def gov_text_def ret_def initial_work_def
      lock_finding_def get_db_def guard_def demo_excepted_def demo_start_def demo_finding_def demo_history_def demo_rows_def
      latest_action_def exception_in_force_def demo_exception_def set_finding_def change_def append_audit_event_def uuid4_def
      insert_audit_def new_key_def demo_env_def Let_def flush_findings_def findings_ok_def finding_ok_def exceptions_ok_def
      exception_ok_def modify_rows_def demo_accepted_def demo_accepted_audit_def)

lemma demo_expiry_ready: "expiry_ready (demo_env 9) (initial_work demo_excepted)"
  using demo_governance_ok
  by (simp add: expiry_ready_def initial_work_def fresh_from_def demo_excepted_def demo_start_def exception_scoped_def
      demo_exception_def demo_finding_def demo_history_def demo_rows_def inj_def demo_env_def)

section \<open>Properties\<close>

text \<open>C29. No sequence of governance calls resolves a finding, changes a resolved one, edits
  anything of a finding but its disposition, revives or edits an ended exception, or touches the
  assessment history or the workflow tables; the audit log only grows.\<close>

theorem governance_never_resolves:
  assumes "governance_ok d" "governance_call\<^sup>*\<^sup>* d d'"
  shows "governance_ok d' \<and> application_step d d' \<and> db_history d' = db_history d \<and>
    list_all2 finding_kept (db_findings d) (db_findings d') \<and>
    (\<exists>ys new. db_exceptions d' = ys @ new \<and> list_all2 exception_kept (db_exceptions d) ys)"
proof -
  have "governed_history d d'" using governance_history assms by blast
  then obtain as ys new where g: "d' = d\<lparr>db_findings := db_findings d', db_exceptions := ys @ new, db_audits := db_audits d @ as\<rparr>"
    "list_all2 finding_kept (db_findings d) (db_findings d')" "list_all2 exception_kept (db_exceptions d) ys"
    by (auto simp: governed_history_def)
  have f: "db_exceptions d' = ys @ new" "db_history d' = db_history d" "application_step d d'"
    by (subst g(1), simp add: application_step_def)+
  show ?thesis
    using governance.inv_steps [OF assms(2,1)] f g(2,3) by blast
qed

theorem governance_never_resolves_witness:
  "governance_ok demo_accepted \<and> application_step demo_excepted demo_accepted \<and>
   list_all2 finding_kept (db_findings demo_excepted) (db_findings demo_accepted)"
  using governance_never_resolves [OF demo_governance_ok r_into_rtranclp, OF gov_dispose [OF demo_accept]] by simp

text \<open>C30. Expiry never fails on consistent tables and equals its reference: exactly the due active
  exceptions become expired, each is returned once and gets one audit event, nothing else changes;
  a second expiry at the same instant returns nothing and changes nothing.\<close>

theorem expiry_equals_reference:
  assumes "expiry_ready env (initial_work d)" "strip_ws who \<noteq> []" "length (strip_ws who) \<le> 256"
  shows "\<exists>ys as. transact (expire_exceptions env (Aware t) who) d =
      (Inr ys, d\<lparr>db_exceptions := map (expire_due t) (db_exceptions d), db_audits := db_audits d @ as\<rparr>) \<and>
    set ys = expire_due t ` {x \<in> set (db_exceptions d). is_due t x} \<and>
    length ys = length (filter (is_due t) (db_exceptions d)) \<and> length as = length ys \<and>
    list_all (\<lambda>a. au_type a = AT_EXCEPTION_EXPIRED \<and> au_time a = t) as \<and>
    transact (expire_exceptions env (Aware t) who)
      (d\<lparr>db_exceptions := map (expire_due t) (db_exceptions d), db_audits := db_audits d @ as\<rparr>) =
      (Inr [], d\<lparr>db_exceptions := map (expire_due t) (db_exceptions d), db_audits := db_audits d @ as\<rparr>)"
proof -
  have run: "transact (expire_exceptions env (Aware t) who) e =
      transact (expire_all env t (strip_ws who) (due_exceptions t (db_exceptions e))) e" for e
    using assms(2,3)
    by (simp add: transact_def expire_exceptions_def bnd_def require_aware_def gov_text_def Let_def ret_def get_db_def
        initial_work_def)
  have "\<exists>ys w. expire_all env t (strip_ws who) (due_exceptions t (db_exceptions d)) (initial_work d) = Inr (ys, w)"
    by (rule expire_all_total [OF assms(1) _ stripped_nonblank [OF assms(2)]])
      (auto simp: due_exceptions_set initial_work_def)
  then obtain ys d' where ran: "transact (expire_exceptions env (Aware t) who) d = (Inr ys, d')"
    unfolding run by (auto simp: transact_def)
  have "governance_ok d" using assms(1) by (simp add: expiry_ready_def initial_work_def)
  from expire_exceptions_effect [OF ran conjunct1 [OF governance_ok_keys [OF this]]] obtain as where
    as: "d' = d\<lparr>db_exceptions := map (expire_due t) (db_exceptions d), db_audits := db_audits d @ as\<rparr>"
    "length as = length ys" "list_all (\<lambda>a. au_type a = AT_EXCEPTION_EXPIRED \<and> au_time a = t) as"
    "length ys = length (filter (is_due t) (db_exceptions d))"
    "set ys = expire_due t ` {x \<in> set (db_exceptions d). is_due t x}"
    by blast
  have none: "due_exceptions t (map (expire_due t) (db_exceptions d)) = []"
  proof -
    have "set (due_exceptions t (map (expire_due t) (db_exceptions d))) = {}"
      by (auto simp: due_exceptions_set expire_due_def is_due_def)
    then show ?thesis by (simp only: set_empty)
  qed
  show ?thesis
    using as ran unfolding run by (intro exI [of _ ys] exI [of _ as]) (simp add: none transact_def ret_def initial_work_def)
qed

theorem expiry_equals_reference_witness:
  "\<exists>ys as. transact (expire_exceptions (demo_env 9) (Aware 100) ''system'') demo_excepted =
      (Inr ys, demo_excepted\<lparr>db_exceptions := [demo_exception\<lparr>fe_status := XS_EXPIRED\<rparr>], db_audits := as\<rparr>) \<and>
    length ys = 1 \<and> length as = 1"
  using expiry_equals_reference [OF demo_expiry_ready, of "''system''" 100]
  by (auto simp: demo_excepted_def demo_start_def demo_exception_def expire_due_def is_due_def)

text \<open>C31. A disposition succeeds only on an unresolved finding, never sets RESOLVED, at an instant
  not before its latest detection or action, and ACCEPTED_RISK only with an exception in force for
  the very finding; it changes the disposition of that finding alone, and every change appends one
  audit event with the actor, the previous and the new disposition.\<close>

theorem disposition_is_backed:
  assumes "transact (set_finding_disposition env fid st at who) d = (Inr f', d')"
  shows "\<exists>t f. at = Aware t \<and> st \<noteq> FS_RESOLVED \<and> find_row fd_id fid (db_findings d) = Some f \<and>
    fd_status f \<noteq> FS_RESOLVED \<and> fd_last_detected f \<le> t \<and>
    (\<forall>a\<in>set (db_audits d). au_target_type a = TargetFinding \<and> au_target_id a = fid \<longrightarrow> au_time a \<le> t) \<and>
    (st = FS_ACCEPTED_RISK \<longrightarrow> (\<exists>x\<in>set (db_exceptions d). exception_in_force f t x)) \<and>
    f' = f\<lparr>fd_status := st\<rparr> \<and>
    (d' = d \<and> fd_status f = st \<or>
     (\<exists>a. d' = d\<lparr>db_findings := modify_rows fd_id fid (\<lambda>f. f\<lparr>fd_status := st\<rparr>) (db_findings d),
            db_audits := db_audits d @ [a]\<rparr> \<and>
          Some (au_type a) = disposition_event st \<and> au_target_id a = fid \<and> au_time a = t \<and>
          au_actor_id a = strip_ws who \<and> au_metadata a = MetaDisposition (fd_status f) st))"
proof -
  obtain w where w: "set_finding_disposition env fid st at who (initial_work d) = Inr (f', w)" "d' = wk_db w"
    using assms by (auto simp: transact_Inr)
  from w(1) show ?thesis
  proof (rule set_finding_disposition_Inr)
    fix t f
    assume h: "at = Aware t" "st \<noteq> FS_RESOLVED" "find_row fd_id fid (db_findings (wk_db (initial_work d))) = Some f"
      "fd_status f \<noteq> FS_RESOLVED" "fd_last_detected f \<le> t"
      "case latest_action (fd_id f) (db_audits (wk_db (initial_work d))) of None \<Rightarrow> True | Some u \<Rightarrow> u \<le> t"
      "st = FS_ACCEPTED_RISK \<Longrightarrow> list_ex (exception_in_force f t) (db_exceptions (wk_db (initial_work d)))"
      "f' = f\<lparr>fd_status := st\<rparr>"
      "fd_status f = st \<and> w = initial_work d \<or>
       (\<exists>a. fd_status f \<noteq> st \<and> Some (au_type a) = disposition_event st \<and> au_target_id a = fid \<and> au_time a = t \<and>
          au_actor_id a = strip_ws who \<and> au_metadata a = MetaDisposition (fd_status f) st \<and>
          wk_db w = (wk_db (initial_work d))\<lparr>db_findings := modify_rows fd_id fid (\<lambda>f. f\<lparr>fd_status := st\<rparr>)
            (db_findings (wk_db (initial_work d))), db_audits := db_audits (wk_db (initial_work d)) @ [a]\<rparr>)"
    have key: "fd_id f = fid" using h(3) by (auto dest: find_row_Some)
    have db: "wk_db (initial_work d) = d" by (simp add: initial_work_def)
    note h = h [unfolded db]
    have late: "\<forall>a\<in>set (db_audits d). au_target_type a = TargetFinding \<and> au_target_id a = fid \<longrightarrow> au_time a \<le> t"
    proof (intro ballI impI, elim conjE)
      fix a assume a: "a \<in> set (db_audits d)" "au_target_type a = TargetFinding" "au_target_id a = fid"
      obtain u where "latest_action fid (db_audits d) = Some u" "au_time a \<le> u" by (rule latest_action_upper [OF a])
      then show "au_time a \<le> t" using h(6) by (simp add: key)
    qed
    have now: "d' = d \<and> fd_status f = st \<or>
     (\<exists>a. d' = d\<lparr>db_findings := modify_rows fd_id fid (\<lambda>f. f\<lparr>fd_status := st\<rparr>) (db_findings d),
            db_audits := db_audits d @ [a]\<rparr> \<and>
          Some (au_type a) = disposition_event st \<and> au_target_id a = fid \<and> au_time a = t \<and>
          au_actor_id a = strip_ws who \<and> au_metadata a = MetaDisposition (fd_status f) st)"
      using h(9) unfolding w(2) by (elim disjE) (simp add: db, blast)
    have backing: "st = FS_ACCEPTED_RISK \<longrightarrow> (\<exists>x\<in>set (db_exceptions d). exception_in_force f t x)"
      using h(7) by (simp add: list_ex_iff)
    show ?thesis
      using h(1-5,8) late backing now by blast
  qed
qed

theorem disposition_is_backed_witness:
  "\<exists>t f. Aware 50 = Aware t \<and> fd_status f \<noteq> FS_RESOLVED \<and> exception_in_force f t demo_exception"
  using disposition_is_backed [OF demo_accept] by (auto simp: demo_excepted_def)

end
