(* ===== verification/Finding_Reconciliation.thy ===== *)
theory Finding_Reconciliation
  imports Scan_Persistence Governance_Contracts
begin

text \<open>
  What reconciliation makes of a finding, against a reference: detection times are the first and
  the last FAIL of its target, and it is resolved exactly when an eligible PASS is later than every
  FAIL, at the time of the latest such PASS. The order in which scans arrive plays no part.
\<close>

section \<open>The reference\<close>

definition pass_times :: "history \<Rightarrow> uuid \<Rightarrow> uuid \<Rightarrow> uuid option \<Rightarrow> time list" where
  "pass_times h rid cid scan =
     map (\<lambda>(_, t, _). t) (filter (\<lambda>(a, _, st). on_target rid cid a \<and> ca_result a = PASS \<and>
       (st = SC_COMPLETED \<or> scan = Some (ca_scan_id a))) (joined h))"

lemma pass_times_decisive:
  "pass_times h rid cid scan =
     map (\<lambda>(_, t, _). t) (filter (\<lambda>(a, _, _). ca_result a = PASS) (decisive_rows h rid cid scan))"
  unfolding pass_times_def decisive_rows_def filter_filter
  by (intro arg_cong [where f = "map _"] filter_cong) auto

definition closed_at :: "time list \<Rightarrow> time list \<Rightarrow> time option" where
  "closed_at fails passes =
     (if passes \<noteq> [] \<and> list_all (\<lambda>t. t < Max (set passes)) fails then Some (Max (set passes)) else None)"

definition finding_reflects :: "history \<Rightarrow> uuid option \<Rightarrow> finding_row \<Rightarrow> bool" where
  "finding_reflects h scan f =
     (let fails = fail_times h (fd_resource_id f) (fd_control_id f);
          closed = closed_at fails (pass_times h (fd_resource_id f) (fd_control_id f) scan)
      in fails \<noteq> [] \<and> fd_first_detected f = Min (set fails) \<and> fd_last_detected f = Max (set fails) \<and>
         fd_resolved_at f = closed \<and> (fd_status f = FS_RESOLVED) = (closed \<noteq> None))"

section \<open>The decisive assessment\<close>

lemma last_sort_key:
  assumes "xs \<noteq> []"
  shows "last (sort_key k xs) \<in> set xs" "x \<in> set xs \<Longrightarrow> k x \<le> k (last (sort_key k xs))"
proof -
  let ?ys = "sort_key k xs"
  have ne: "?ys \<noteq> []" using assms by (metis set_empty set_sort)
  then show "last ?ys \<in> set xs" using last_in_set [OF ne] by simp
  assume "x \<in> set xs"
  then obtain i where i: "i < length ?ys" "?ys ! i = x" by (metis in_set_conv_nth set_sort)
  have "sorted (map k ?ys)" by simp
  then have "map k ?ys ! i \<le> map k ?ys ! (length ?ys - 1)"
    by (rule sorted_nth_mono) (use i(1) in auto)
  then show "k x \<le> k (last ?ys)" using i ne by (simp add: last_conv_nth)
qed

lemma decisive_result:
  "r \<in> set (decisive_rows h rid cid scan) \<Longrightarrow> ca_result (fst r) = FAIL \<or> ca_result (fst r) = PASS"
  by (auto simp: decisive_rows_def)

definition decisive_fails :: "history \<Rightarrow> uuid \<Rightarrow> uuid \<Rightarrow> uuid option \<Rightarrow> time list" where
  "decisive_fails h rid cid scan =
     map (\<lambda>(_, t, _). t) (filter (\<lambda>(a, _, _). ca_result a = FAIL) (decisive_rows h rid cid scan))"

lemma latest_decisive_None: "latest_decisive rows = None \<longleftrightarrow> rows = []"
  unfolding latest_decisive_def
  by (metis (no_types, lifting) list.case_eq_if option.distinct(1) rev_is_Nil_conv set_empty set_sort split_beta)

lemma latest_decisive_closed:
  assumes "latest_decisive (decisive_rows h rid cid scan) = Some (a, t)"
  shows "closed_at (decisive_fails h rid cid scan) (pass_times h rid cid scan) =
      (if ca_result a = PASS then Some t else None)"
    and "ca_result a = PASS \<or> ca_result a = FAIL"
proof -
  let ?rows = "decisive_rows h rid cid scan"
  let ?P = "pass_times h rid cid scan" and ?F = "decisive_fails h rid cid scan"
  have ne: "?rows \<noteq> []" using assms latest_decisive_None by (metis option.distinct(1))
  obtain st where l: "last (sort_key decisive_key ?rows) = (a, t, st)"
    using assms unfolding latest_decisive_def
    by (cases "rev (sort_key decisive_key ?rows)") (auto simp: last_rev hd_rev [symmetric])
  have mem: "(a, t, st) \<in> set ?rows" using last_sort_key(1) [OF ne, of decisive_key] by (simp add: l)
  have max: "decisive_key r \<le> decisive_key (a, t, st)" if "r \<in> set ?rows" for r
    using last_sort_key(2) [OF ne that, of decisive_key] by (simp add: l)
  show kind: "ca_result a = PASS \<or> ca_result a = FAIL" using decisive_result [OF mem] by auto
  have P: "t' \<le> t" if "t' \<in> set ?P" for t'
    using that max by (fastforce simp: pass_times_decisive decisive_key_def less_eq_prod_def)
  show "closed_at ?F ?P = (if ca_result a = PASS then Some t else None)"
  proof (cases "ca_result a = PASS")
    case True
    have "t \<in> set ?P" using mem True by (force simp: pass_times_decisive)
    then have "Max (set ?P) = t" using P by (intro Max_eqI) auto
    moreover have "t' < t" if "t' \<in> set ?F" for t'
      using that max True by (fastforce simp: decisive_fails_def decisive_key_def less_eq_prod_def)
    ultimately show ?thesis using True \<open>t \<in> set ?P\<close> by (auto simp: closed_at_def list_all_iff)
  next
    case False
    then have t: "t \<in> set ?F" using mem kind by (force simp: decisive_fails_def)
    have "\<not> t < Max (set ?P)" if "?P \<noteq> []"
      using P that by (metis List.finite_set Max_in leD set_empty)
    then show ?thesis using False t by (auto simp: closed_at_def list_all_iff)
  qed
qed

text \<open>When every assessment has its snapshot and scan, both queries see the same failures.\<close>

definition history_refs :: "history \<Rightarrow> bool" where
  "history_refs h =
     list_all (\<lambda>a. find_row sn_id (ca_snapshot_id a) (hs_snapshots h) \<noteq> None \<and>
       find_row sc_id (ca_scan_id a) (hs_scans h) \<noteq> None) (hs_assessments h)"

lemma decisive_fails_times:
  assumes "history_refs h"
  shows "decisive_fails h rid cid scan = fail_times h rid cid"
proof -
  have "map (\<lambda>(_, t, _). t) (filter (\<lambda>(a, _, _). ca_result a = FAIL) (filter (\<lambda>(a, _, st). on_target rid cid a \<and>
        (ca_result a = FAIL \<or> ca_result a = PASS \<and> (st = SC_COMPLETED \<or> scan = Some (ca_scan_id a))))
      (List.map_filter (\<lambda>a.
       case (find_row sn_id (ca_snapshot_id a) (hs_snapshots h), find_row sc_id (ca_scan_id a) (hs_scans h)) of
         (Some sn, Some s) \<Rightarrow> Some (a, sn_observed_at sn, sc_status s)
       | _ \<Rightarrow> None) as))) =
    List.map_filter (\<lambda>a. map_option sn_observed_at (find_row sn_id (ca_snapshot_id a) (hs_snapshots h)))
       (filter (\<lambda>a. on_target rid cid a \<and> ca_result a = FAIL) as)"
    if "list_all (\<lambda>a. find_row sn_id (ca_snapshot_id a) (hs_snapshots h) \<noteq> None \<and>
       find_row sc_id (ca_scan_id a) (hs_scans h) \<noteq> None) as" for as
    using that by (induction as) (auto simp: List.map_filter_simps)
  from this [OF assms [unfolded history_refs_def]] show ?thesis
    by (simp add: decisive_fails_def decisive_rows_def joined_def fail_times_def)
qed

section \<open>Settling one finding\<close>

text \<open>The new values reflect the history, whatever the finding said before, as long as it was consistent.\<close>

lemma settle_reflects:
  assumes refs: "history_refs h"
    and latest: "latest_decisive (decisive_rows h (fd_resource_id f) (fd_control_id f) scan) = Some (la, t)"
    and fails: "fail_times h (fd_resource_id f) (fd_control_id f) = fails" "fails \<noteq> []"
    and row: "(fd_status f = FS_RESOLVED) = (fd_resolved_at f \<noteq> None)"
  shows "finding_reflects h scan (settle (Min (set fails)) (Max (set fails)) (ca_result la) t f)"
proof -
  have c: "closed_at fails (pass_times h (fd_resource_id f) (fd_control_id f) scan) =
      (if ca_result la = PASS then Some t else None)"
    using latest_decisive_closed(1) [OF latest] decisive_fails_times [OF refs] fails(1) by simp
  show ?thesis
    using fails c row by (auto simp: finding_reflects_def settle_def Let_def)
qed

text \<open>Only occurrences, findings and audit events are written; the queried history stays.\<close>

definition same_evidence :: "history \<Rightarrow> history \<Rightarrow> bool" where
  "same_evidence h h' = (h' = h\<lparr>hs_occurrences := hs_occurrences h'\<rparr>)"

lemma same_evidence_refl [simp]: "same_evidence h h"
  by (simp add: same_evidence_def)

lemma same_evidence_trans: "same_evidence h g \<Longrightarrow> same_evidence g k \<Longrightarrow> same_evidence h k"
  by (cases h; cases g; cases k) (simp add: same_evidence_def)

lemma same_evidence_fields:
  assumes "same_evidence h h'"
  shows "hs_assessments h' = hs_assessments h" "hs_snapshots h' = hs_snapshots h" "hs_scans h' = hs_scans h"
    "hs_resources h' = hs_resources h" "hs_controls h' = hs_controls h"
  using assms by (cases h; cases h'; simp add: same_evidence_def)+

lemma same_evidence_queries:
  assumes "same_evidence h h'"
  shows "joined h' = joined h" "decisive_rows h' = decisive_rows h" "fail_times h' = fail_times h"
    "pass_times h' = pass_times h" "history_refs h' = history_refs h" "finding_reflects h' = finding_reflects h"
proof -
  note f = same_evidence_fields [OF assms]
  show "joined h' = joined h" by (simp add: joined_def f)
  then show d: "decisive_rows h' = decisive_rows h" by (intro ext) (simp add: decisive_rows_def)
  show t: "fail_times h' = fail_times h" by (intro ext) (simp add: fail_times_def f)
  show p: "pass_times h' = pass_times h" by (intro ext) (simp add: pass_times_decisive d)
  show "history_refs h' = history_refs h" by (simp add: history_refs_def f)
  show "finding_reflects h' = finding_reflects h" by (intro ext) (simp add: finding_reflects_def t p)
qed

lemma insert_occurrence_Inr:
  assumes "insert_occurrence env f a observed w = Inr (u, w')"
  shows "db_findings (wk_db w') = db_findings (wk_db w) \<and> db_exceptions (wk_db w') = db_exceptions (wk_db w) \<and>
    same_evidence (db_history (wk_db w)) (db_history (wk_db w'))"
  using assms by (auto simp: insert_occurrence_def bnd_Inr_iff Let_def same_evidence_def)

text \<open>The effect of settling: this finding alone is rewritten and now reflects the history.\<close>

lemma settle_keys [simp]:
  "fd_id (settle x y r t f) = fd_id f" "fd_fingerprint (settle x y r t f) = fd_fingerprint f"
  "fd_resource_id (settle x y r t f) = fd_resource_id f" "fd_control_id (settle x y r t f) = fd_control_id f"
  "fd_account (settle x y r t f) = fd_account f"
  by (simp_all add: settle_def Let_def)

definition settled :: "uuid option \<Rightarrow> finding_row \<Rightarrow> finding_row list \<Rightarrow> work \<Rightarrow> work \<Rightarrow> bool" where
  "settled scan f fs w w' =
     (\<exists>f'. db_findings (wk_db w') = modify_rows fd_id (fd_id f) (\<lambda>_. f') fs \<and> fd_id f' = fd_id f \<and>
        fd_fingerprint f' = fd_fingerprint f \<and> fd_resource_id f' = fd_resource_id f \<and>
        fd_control_id f' = fd_control_id f \<and> finding_reflects (db_history (wk_db w)) scan f' \<and>
        findings_ok (db_findings (wk_db w')) \<and> exceptions_ok (db_exceptions (wk_db w')) \<and>
        db_exceptions (wk_db w') = db_exceptions (wk_db w) \<and>
        same_evidence (db_history (wk_db w)) (db_history (wk_db w')))"

lemma settle_finding_Inr:
  assumes run: "settle_finding env c a observed aty actor complete created f w = Inr (u, w')"
    and refs: "history_refs (db_history (wk_db w))"
    and row: "(fd_status f = FS_RESOLVED) = (fd_resolved_at f \<noteq> None)"
  shows "fd_resource_id f = ca_resource_id a \<and> fd_control_id f = ca_control_id a \<and> fd_account f = cd_account c"
    and "settled (if complete then Some (ca_scan_id a) else None) f (db_findings (wk_db w)) w w'"
proof -
  let ?scan = "if complete then Some (ca_scan_id a) else None"
  let ?h = "db_history (wk_db w)"
  from run show id: "fd_resource_id f = ca_resource_id a \<and> fd_control_id f = ca_control_id a \<and> fd_account f = cd_account c"
    by (auto simp: settle_finding_def bnd_Inr_iff)
  from run obtain w1 where w1: "db_findings (wk_db w1) = db_findings (wk_db w)"
      "db_exceptions (wk_db w1) = db_exceptions (wk_db w)" "same_evidence ?h (db_history (wk_db w1))"
    and rest: "(case latest_decisive (decisive_rows (db_history (wk_db w1)) (ca_resource_id a) (ca_control_id a) ?scan) of
       None \<Rightarrow> raise NoResultErr
     | Some (la, at) \<Rightarrow>
     (case fail_times (db_history (wk_db w1)) (ca_resource_id a) (ca_control_id a) of
       [] \<Rightarrow> raise IntegrityErr
     | t # ts \<Rightarrow>
       let f' = settle (Min (set (t # ts))) (Max (set (t # ts))) (ca_result la) at f in
       bnd (set_finding (fd_id f) (\<lambda>_. f')) (\<lambda>_.
       bnd (case settle_event (ca_result la) (cd_result c) created (fd_status f) of
              None \<Rightarrow> ret ()
            | Some ty \<Rightarrow>
                bnd (append_audit_event env ty TargetFinding (fd_id f) observed aty actor
                       (MetaFindingStatus (ca_id a) (ca_id la) (fd_status f) (fd_status f'))) (\<lambda>_. ret ())) (\<lambda>_.
       flush_findings)))) w1 = Inr (u, w')"
    unfolding settle_finding_def
    by (auto simp: bnd_Inr_iff split: if_split_asm dest!: insert_occurrence_Inr)
  note q = same_evidence_queries [OF w1(3)]
  from rest obtain la at t ts where la: "latest_decisive (decisive_rows ?h (ca_resource_id a) (ca_control_id a) ?scan) = Some (la, at)"
    and ft: "fail_times ?h (ca_resource_id a) (ca_control_id a) = t # ts"
    by (auto simp: q split: option.split_asm list.split_asm)
  let ?f = "settle (Min (set (t # ts))) (Max (set (t # ts))) (ca_result la) at f"
  have "db_findings (wk_db w') = modify_rows fd_id (fd_id f) (\<lambda>_. ?f) (db_findings (wk_db w)) \<and>
      findings_ok (db_findings (wk_db w')) \<and> exceptions_ok (db_exceptions (wk_db w')) \<and>
      db_exceptions (wk_db w') = db_exceptions (wk_db w) \<and> db_history (wk_db w') = db_history (wk_db w1)"
    using rest w1 by (auto simp: q la ft bnd_Inr_iff Let_def split: option.split_asm dest!: append_audit_Inr)
  moreover have "finding_reflects ?h ?scan ?f"
    by (rule settle_reflects [OF refs _ _ _ row]) (use id la ft in auto)
  ultimately show "settled ?scan f (db_findings (wk_db w)) w w'"
    using w1(3) unfolding settled_def by (elim conjE, intro exI [of _ ?f]) simp
qed

section \<open>The loop over the results of a scan\<close>

text \<open>
  The fingerprint of a target is a function of its resource and control, and every finding carries
  the one of its target; so a target has at most one finding.
\<close>

definition target_key :: "(document \<Rightarrow> digest) \<Rightarrow> history \<Rightarrow> uuid \<Rightarrow> uuid \<Rightarrow> digest option" where
  "target_key sh h rid cid =
     (case (find_row rs_id rid (hs_resources h), find_row ct_id cid (hs_controls h)) of
        (Some r, Some c) \<Rightarrow>
          Some (sh (FingerprintText (join_with unit_separator
            [rs_account r, uuid_text rid, ct_key c, rs_region r])))
      | _ \<Rightarrow> None)"

definition keyed :: "(document \<Rightarrow> digest) \<Rightarrow> history \<Rightarrow> finding_row \<Rightarrow> bool" where
  "keyed sh h f = (target_key sh h (fd_resource_id f) (fd_control_id f) = Some (fd_fingerprint f))"

definition finding_target :: "finding_row \<Rightarrow> uuid \<times> uuid" where
  "finding_target f = (fd_resource_id f, fd_control_id f)"

text \<open>One result of the scan: the candidate and the assessment row stored for it.\<close>

definition result_ok :: "env \<Rightarrow> history \<Rightarrow> candidate \<times> assessment_row \<Rightarrow> bool" where
  "result_ok env h p =
     (case p of (c, a) \<Rightarrow> ca_result a = cd_result c \<and>
        target_key (sha env) h (ca_resource_id a) (ca_control_id a) =
          Some (finding_fingerprint env (cd_account c) (ca_resource_id a) (cd_control_key c) (cd_region c)))"

definition decisive :: "candidate \<times> assessment_row \<Rightarrow> bool" where
  "decisive p = (cd_result (fst p) \<in> {PASS, FAIL})"

definition targets_of :: "(candidate \<times> assessment_row) list \<Rightarrow> (uuid \<times> uuid) set" where
  "targets_of ps = (\<lambda>(c, a). (ca_resource_id a, ca_control_id a)) ` set (filter decisive ps)"

text \<open>
  The state of the loop: the findings of the targets already visited reflect the history with the
  new scan, the others still reflect the old one.
\<close>

definition loop_inv ::
    "env \<Rightarrow> history \<Rightarrow> history \<Rightarrow> uuid option \<Rightarrow> (candidate \<times> assessment_row) list \<Rightarrow> work \<Rightarrow> bool" where
  "loop_inv env h0 h scan ps w =
     (same_evidence h (db_history (wk_db w)) \<and>
      findings_ok (db_findings (wk_db w)) \<and> exceptions_ok (db_exceptions (wk_db w)) \<and>
      list_all (keyed (sha env) h) (db_findings (wk_db w)) \<and>
      list_all (\<lambda>f. if finding_target f \<in> targets_of ps then finding_reflects h scan f else finding_reflects h0 None f)
        (db_findings (wk_db w)) \<and>
      list_all (\<lambda>(c, a). cd_result c = FAIL \<longrightarrow> (ca_resource_id a, ca_control_id a) \<in> finding_target ` set (db_findings (wk_db w)))
        ps \<and>
      list_all (\<lambda>a. ca_result a = FAIL \<longrightarrow> (ca_resource_id a, ca_control_id a) \<in> finding_target ` set (db_findings (wk_db w)))
        (hs_assessments h0))"

lemma findings_okD:
  assumes "findings_ok fs" "f \<in> set fs"
  shows "finding_ok f" "(fd_status f = FS_RESOLVED) = (fd_resolved_at f \<noteq> None)"
  using assms by (auto simp: findings_ok_def list_all_iff finding_ok_def)

lemma same_target_same_row:
  assumes "findings_ok fs" "list_all (keyed sh h) fs" "f \<in> set fs" "g \<in> set fs" "finding_target f = finding_target g"
  shows "f = g"
proof -
  have "keyed sh h f" "keyed sh h g" using assms(2-4) by (auto simp: list_all_iff)
  then have "fd_fingerprint f = fd_fingerprint g"
    using assms(5) by (simp add: keyed_def finding_target_def)
  then show ?thesis
    using assms(1,3,4) by (auto simp: findings_ok_def distinct_map dest: inj_onD)
qed

lemma settled_rows:
  assumes ok: "findings_ok fs" "list_all (keyed sh h) fs" "f \<in> set fs"
    and st: "settled scan f fs w w'" and ev: "same_evidence h (db_history (wk_db w))"
  shows "same_evidence h (db_history (wk_db w'))" "findings_ok (db_findings (wk_db w'))"
    "exceptions_ok (db_exceptions (wk_db w'))" "list_all (keyed sh h) (db_findings (wk_db w'))"
    "finding_target ` set (db_findings (wk_db w')) = finding_target ` set fs"
    "g \<in> set (db_findings (wk_db w')) \<Longrightarrow>
       finding_target g = finding_target f \<and> finding_reflects h scan g \<or> g \<in> set fs \<and> finding_target g \<noteq> finding_target f"
proof -
  obtain f' where f': "db_findings (wk_db w') = modify_rows fd_id (fd_id f) (\<lambda>_. f') fs"
    "fd_id f' = fd_id f" "fd_fingerprint f' = fd_fingerprint f" "finding_target f' = finding_target f"
    "finding_reflects h scan f'" "findings_ok (db_findings (wk_db w'))" "exceptions_ok (db_exceptions (wk_db w'))"
    "same_evidence (db_history (wk_db w)) (db_history (wk_db w'))"
    using st same_evidence_queries(6) [OF ev] by (auto simp: settled_def finding_target_def)
  have fp: "fd_id x = fd_id f \<longleftrightarrow> x = f" if "x \<in> set fs" for x
    using ok(1,3) that by (auto simp: findings_ok_def distinct_map dest: inj_onD)
  have rows: "db_findings (wk_db w') = map (\<lambda>x. if x = f then f' else x) fs"
    using fp by (simp add: f'(1) modify_rows_def)
  show "same_evidence h (db_history (wk_db w'))" using same_evidence_trans [OF ev f'(8)] .
  show "findings_ok (db_findings (wk_db w'))" "exceptions_ok (db_exceptions (wk_db w'))" by (fact f'(6,7))+
  show "list_all (keyed sh h) (db_findings (wk_db w'))"
    using ok(2,3) f'(3,4) by (auto simp: rows list_all_iff keyed_def finding_target_def)
  show "finding_target ` set (db_findings (wk_db w')) = finding_target ` set fs"
    using ok(3) f'(4) by (auto simp: rows image_iff)
  assume "g \<in> set (db_findings (wk_db w'))"
  then show "finding_target g = finding_target f \<and> finding_reflects h scan g \<or> g \<in> set fs \<and> finding_target g \<noteq> finding_target f"
    using f'(4,5) same_target_same_row [OF ok(1,2) _ ok(3)] by (auto simp: rows split: if_split_asm)
qed

lemma open_finding_Inr:
  assumes "open_finding env c a fp observed aty actor w = Inr (f, w')"
  shows "fd_fingerprint f = fp \<and> finding_target f = (ca_resource_id a, ca_control_id a) \<and> fd_status f = FS_OPEN \<and>
    fd_resolved_at f = None \<and> db_findings (wk_db w') = db_findings (wk_db w) @ [f] \<and>
    db_history (wk_db w') = db_history (wk_db w) \<and> findings_ok (db_findings (wk_db w'))"
  using assms by (auto simp: open_finding_def bnd_Inr_iff Let_def finding_target_def dest!: append_audit_Inr)

lemma targets_of_snoc:
  "targets_of (ps @ [(c, a)]) =
     targets_of ps \<union> (if cd_result c \<in> {PASS, FAIL} then {(ca_resource_id a, ca_control_id a)} else {})"
  by (auto simp: targets_of_def decisive_def)

lemma settle_loop:
  assumes inv: "loop_inv env h0 h scan ps w0" and refs: "history_refs h" and ok: "result_ok env h (c, a)"
    and scan: "scan = (if complete then Some (ca_scan_id a) else None)" and dec: "cd_result c \<in> {PASS, FAIL}"
    and run: "settle_finding env c a observed aty actor complete created f w = Inr (u, w')"
    and fs: "findings_ok (db_findings (wk_db w))" "f \<in> set (db_findings (wk_db w))"
      "fd_fingerprint f = finding_fingerprint env (cd_account c) (ca_resource_id a) (cd_control_key c) (cd_region c)"
    and w: "db_history (wk_db w) = db_history (wk_db w0)"
      "set (db_findings (wk_db w)) = insert f (set (db_findings (wk_db w0)))"
  shows "loop_inv env h0 h scan (ps @ [(c, a)]) w'"
proof -
  let ?fs = "db_findings (wk_db w)"
  have ev: "same_evidence h (db_history (wk_db w))" using inv by (simp add: loop_inv_def w(1))
  have refs': "history_refs (db_history (wk_db w))" using refs same_evidence_queries(5) [OF ev] by simp
  note s = settle_finding_Inr [OF run refs' findings_okD(2) [OF fs(1,2)], folded scan]
  have t: "finding_target f = (ca_resource_id a, ca_control_id a)" using s(1) by (simp add: finding_target_def)
  have k: "list_all (keyed (sha env) h) ?fs"
    using inv ok s(1) fs(3) by (auto simp: loop_inv_def list_all_iff w(2) keyed_def result_ok_def)
  note r = settled_rows [OF fs(1) k fs(2) s(2) ev]
  have old: "if finding_target g \<in> targets_of ps then finding_reflects h scan g else finding_reflects h0 None g"
    if "g \<in> set ?fs" "finding_target g \<noteq> finding_target f" for g
    using inv that by (auto simp: loop_inv_def list_all_iff w(2))
  have "list_all (\<lambda>g. if finding_target g \<in> targets_of (ps @ [(c, a)]) then finding_reflects h scan g
      else finding_reflects h0 None g) (db_findings (wk_db w'))"
    unfolding list_all_iff
  proof
    fix g assume "g \<in> set (db_findings (wk_db w'))"
    from r(6) [OF this] show "if finding_target g \<in> targets_of (ps @ [(c, a)]) then finding_reflects h scan g
        else finding_reflects h0 None g"
    proof
      assume "finding_target g = finding_target f \<and> finding_reflects h scan g"
      then show ?thesis using t dec by (simp add: targets_of_snoc)
    next
      assume g: "g \<in> set ?fs \<and> finding_target g \<noteq> finding_target f"
      then show ?thesis using old [of g] t by (simp add: targets_of_snoc split: if_split_asm)
    qed
  qed
  moreover have "list_all (\<lambda>(c, a). cd_result c = FAIL \<longrightarrow>
      (ca_resource_id a, ca_control_id a) \<in> finding_target ` set (db_findings (wk_db w'))) (ps @ [(c, a)])"
    using inv fs(2) t unfolding r(5) by (fastforce simp: loop_inv_def list_all_iff w(2))
  moreover have "list_all (\<lambda>a. ca_result a = FAIL \<longrightarrow>
      (ca_resource_id a, ca_control_id a) \<in> finding_target ` set (db_findings (wk_db w'))) (hs_assessments h0)"
    using inv unfolding r(5) by (auto simp: loop_inv_def list_all_iff w(2))
  ultimately show ?thesis using r(1-4) by (simp add: loop_inv_def)
qed

lemma reconcile_loop:
  assumes inv: "loop_inv env h0 h scan ps w" and refs: "history_refs h" and ok: "result_ok env h (c, a)"
    and scan: "scan = (if complete then Some (ca_scan_id a) else None)"
    and run: "reconcile_finding env c a observed aty actor complete w = Inr (u, w')"
  shows "loop_inv env h0 h scan (ps @ [(c, a)]) w'"
proof (cases "cd_result c \<in> {PASS, FAIL}")
  case False
  then show ?thesis
    using inv run by (auto simp: reconcile_finding_def loop_inv_def targets_of_snoc)
next
  case dec: True
  let ?fp = "finding_fingerprint env (cd_account c) (ca_resource_id a) (cd_control_key c) (cd_region c)"
  let ?fs = "db_findings (wk_db w)"
  show ?thesis
  proof (cases "find_row fd_fingerprint ?fp ?fs")
    case (Some f)
    then have "settle_finding env c a observed aty actor complete False f w = Inr (u, w')" "f \<in> set ?fs" "fd_fingerprint f = ?fp"
      using run dec by (auto simp: reconcile_finding_def Let_def bnd_Inr_iff dest: find_row_Some)
    then show ?thesis
      using inv by (intro settle_loop [OF inv refs ok scan dec]) (auto simp: loop_inv_def)
  next
    case None
    have absent: "finding_target g \<noteq> (ca_resource_id a, ca_control_id a)" if "g \<in> set ?fs" for g
      using None inv ok that
      by (auto simp: find_row_None_iff loop_inv_def list_all_iff keyed_def result_ok_def finding_target_def)
    show ?thesis
    proof (cases "cd_result c = FAIL")
      case False
      then have "w' = w" using run dec None by (auto simp: reconcile_finding_def Let_def bnd_Inr_iff)
      then show ?thesis
        using inv absent False by (auto simp: loop_inv_def list_all_iff targets_of_snoc dec)
    next
      case True
      then obtain f w1 where f: "open_finding env c a ?fp observed aty actor w = Inr (f, w1)"
        and s: "settle_finding env c a observed aty actor complete True f w1 = Inr (u, w')"
        using run None by (auto simp: reconcile_finding_def Let_def bnd_Inr_iff)
      note o = open_finding_Inr [OF f]
      show ?thesis
        by (rule settle_loop [OF inv refs ok scan dec s]) (use o in auto)
    qed
  qed
qed

lemma reconcile_all:
  assumes "for_each (\<lambda>(c, a). reconcile_finding env c a observed aty actor complete) qs w = Inr (u, w')"
    and "loop_inv env h0 h scan ps w" "history_refs h"
    and "\<And>c a. (c, a) \<in> set qs \<Longrightarrow> result_ok env h (c, a) \<and> scan = (if complete then Some (ca_scan_id a) else None)"
  shows "loop_inv env h0 h scan (ps @ qs) w'"
  using assms
proof (induction qs arbitrary: ps w)
  case Nil
  then show ?case by simp
next
  case (Cons q qs)
  obtain c a where q: "q = (c, a)" by (cases q)
  from Cons.prems(1) obtain w1 where run: "reconcile_finding env c a observed aty actor complete w = Inr ((), w1)"
    and rest: "for_each (\<lambda>(c, a). reconcile_finding env c a observed aty actor complete) qs w1 = Inr (u, w')"
    by (auto simp: bnd_Inr_iff q)
  have "result_ok env h (c, a) \<and> scan = (if complete then Some (ca_scan_id a) else None)"
    by (rule Cons.prems(4)) (simp add: q)
  then have step: "loop_inv env h0 h scan (ps @ [(c, a)]) w1"
    using reconcile_loop [OF Cons.prems(2,3) _ _ run] by blast
  have "result_ok env h (c', a') \<and> scan = (if complete then Some (ca_scan_id a') else None)" if "(c', a') \<in> set qs" for c' a'
    by (rule Cons.prems(4)) (simp add: that)
  from Cons.IH [OF rest step Cons.prems(3) this] show ?case by (simp add: q)
qed

end
