(* ===== verification/Scan_Effects.thy ===== *)
theory Scan_Effects
  imports Finding_Reconciliation
begin

text \<open>
  What recording a scan writes before its findings are reconciled: resources, snapshots and
  assessments are appended, and the joined history grows by the rows of the new scan alone.
\<close>

section \<open>The queries over the joined history\<close>

lemma fail_times_joined:
  assumes "history_refs h"
  shows "fail_times h rid cid =
    map (\<lambda>(_, t, _). t) (filter (\<lambda>(a, _, _). on_target rid cid a \<and> ca_result a = FAIL) (joined h))"
  unfolding decisive_fails_times [OF assms, of rid cid None, symmetric] decisive_fails_def decisive_rows_def filter_filter
  by (intro arg_cong [where f = "map _"] filter_cong) auto

lemma reflects_cong:
  assumes "fail_times h' (fd_resource_id f) (fd_control_id f) = fail_times h (fd_resource_id f) (fd_control_id f)"
    and "pass_times h' (fd_resource_id f) (fd_control_id f) scan' = pass_times h (fd_resource_id f) (fd_control_id f) scan"
  shows "finding_reflects h' scan' f = finding_reflects h scan f"
  using assms by (simp add: finding_reflects_def)

text \<open>The status of a scan, as the join sees it.\<close>

definition status_in :: "history \<Rightarrow> uuid \<Rightarrow> scan_status option" where
  "status_in h i = map_option sc_status (find_row sc_id i (hs_scans h))"

definition join_row :: "history \<Rightarrow> assessment_row \<Rightarrow> (assessment_row \<times> time \<times> scan_status) option" where
  "join_row h a =
     (case (find_row sn_id (ca_snapshot_id a) (hs_snapshots h), status_in h (ca_scan_id a)) of
        (Some sn, Some st) \<Rightarrow> Some (a, sn_observed_at sn, st)
      | _ \<Rightarrow> None)"

lemma joined_rows: "joined h = List.map_filter (join_row h) (hs_assessments h)"
  unfolding joined_def
  by (rule arg_cong [where f = "\<lambda>g. List.map_filter g _"])
    (auto simp: join_row_def status_in_def fun_eq_iff split: option.splits)

lemma map_filter_cong:
  "(\<And>x. x \<in> set xs \<Longrightarrow> f x = g x) \<Longrightarrow> List.map_filter f xs = List.map_filter g xs"
  by (induction xs) (auto simp: List.map_filter_simps split: option.split)

lemma map_filter_append: "List.map_filter f (xs @ ys) = List.map_filter f xs @ List.map_filter f ys"
  by (induction xs) (auto simp: List.map_filter_simps split: option.splits)

lemma map_filter_Some: "(\<And>x. x \<in> set xs \<Longrightarrow> f x = Some (g x)) \<Longrightarrow> List.map_filter f xs = map g xs"
  by (induction xs) (simp_all add: List.map_filter_simps)

lemma map_filter_map_option: "List.map_filter (\<lambda>x. map_option g (f x)) xs = map g (List.map_filter f xs)"
  by (induction xs) (auto simp: List.map_filter_simps split: option.split)

section \<open>The new scan appended\<close>

definition scan_recorded :: "uuid \<Rightarrow> time \<Rightarrow> assessment_row list \<Rightarrow> history \<Rightarrow> history \<Rightarrow> bool" where
  "scan_recorded sid observed as h0 h =
     (hs_assessments h = hs_assessments h0 @ as \<and> (\<exists>sns. hs_snapshots h = hs_snapshots h0 @ sns) \<and>
      (\<exists>rs. hs_resources h = hs_resources h0 @ rs) \<and> hs_controls h = hs_controls h0 \<and>
      status_in h = status_in h0 \<and> status_in h0 sid = Some SC_RUNNING \<and>
      list_all (\<lambda>a. ca_scan_id a = sid \<and>
        map_option sn_observed_at (find_row sn_id (ca_snapshot_id a) (hs_snapshots h)) = Some observed) as)"

lemma recorded_joined:
  assumes rec: "scan_recorded sid observed as h0 h" and refs: "history_refs h0"
  shows "history_refs h" "joined h = joined h0 @ map (\<lambda>a. (a, observed, SC_RUNNING)) as"
proof -
  have st: "status_in h = status_in h0" and run: "status_in h0 sid = Some SC_RUNNING"
    and as: "hs_assessments h = hs_assessments h0 @ as"
    using rec by (simp_all add: scan_recorded_def)
  obtain sns where sns: "hs_snapshots h = hs_snapshots h0 @ sns" using rec by (auto simp: scan_recorded_def)
  have scans: "find_row sc_id i (hs_scans h) \<noteq> None \<longleftrightarrow> find_row sc_id i (hs_scans h0) \<noteq> None" for i
    using fun_cong [OF st, of i] by (metis map_option_is_None status_in_def)
  have old: "join_row h a = join_row h0 a \<and> find_row sn_id (ca_snapshot_id a) (hs_snapshots h) \<noteq> None \<and>
      find_row sc_id (ca_scan_id a) (hs_scans h) \<noteq> None" if "a \<in> set (hs_assessments h0)" for a
    using that refs scans [of "ca_scan_id a"]
    by (auto simp: history_refs_def list_all_iff join_row_def st sns find_row_append)
  have new: "join_row h a = Some (a, observed, SC_RUNNING) \<and> find_row sn_id (ca_snapshot_id a) (hs_snapshots h) \<noteq> None \<and>
      find_row sc_id (ca_scan_id a) (hs_scans h) \<noteq> None" if "a \<in> set as" for a
    using that rec run unfolding scan_recorded_def list_all_iff scans
    by (fastforce simp: join_row_def st status_in_def)
  show "history_refs h" using old new by (auto simp: history_refs_def as list_all_iff)
  show "joined h = joined h0 @ map (\<lambda>a. (a, observed, SC_RUNNING)) as"
    unfolding joined_rows as map_filter_append
    using old new by (auto intro: arg_cong2 [where f = "(@)"] map_filter_cong map_filter_Some)
qed

text \<open>A target without decisive result in the new scan looks as before.\<close>

lemma recorded_reflects:
  assumes rec: "scan_recorded sid observed as h0 h" and refs: "history_refs h0"
    and fresh: "list_all (\<lambda>(a, _, st). st \<noteq> SC_RUNNING) (joined h0)"
    and other: "\<And>a. a \<in> set as \<Longrightarrow> ca_result a \<in> {PASS, FAIL} \<Longrightarrow> \<not> on_target (fd_resource_id f) (fd_control_id f) a"
    and scan: "scan = None \<or> scan = Some sid"
  shows "finding_reflects h scan f = finding_reflects h0 None f"
proof (rule reflects_cong)
  let ?r = "fd_resource_id f" and ?c = "fd_control_id f"
  note j = recorded_joined [OF rec refs]
  show "fail_times h ?r ?c = fail_times h0 ?r ?c"
    unfolding fail_times_joined [OF j(1)] fail_times_joined [OF refs] j(2)
    using other by (auto simp: filter_empty_conv)
  have run: "status_in h0 sid = Some SC_RUNNING" using rec by (simp add: scan_recorded_def)
  have "ca_scan_id a \<noteq> sid" if "(a, t, st) \<in> set (joined h0)" for a t st
    using that fresh run
    by (fastforce simp: list_all_iff joined_rows List.map_filter_def join_row_def split: option.splits)
  then have "filter (\<lambda>(a, _, st). on_target ?r ?c a \<and> ca_result a = PASS \<and> (st = SC_COMPLETED \<or> scan = Some (ca_scan_id a)))
      (joined h0) = filter (\<lambda>(a, _, st). on_target ?r ?c a \<and> ca_result a = PASS \<and> (st = SC_COMPLETED \<or> None = Some (ca_scan_id a)))
      (joined h0)"
    using scan by (intro filter_cong) auto
  moreover have "filter (\<lambda>(a, _, st). on_target ?r ?c a \<and> ca_result a = PASS \<and> (st = SC_COMPLETED \<or> scan = Some (ca_scan_id a)))
      (map (\<lambda>a. (a, observed, SC_RUNNING)) as) = []"
    using other by (auto simp: filter_empty_conv)
  ultimately show "pass_times h ?r ?c scan = pass_times h0 ?r ?c None"
    unfolding pass_times_def j(2) by simp
qed

text \<open>Ending the scan: its PASS results count from now on exactly if it is complete.\<close>

lemma completed_reflects:
  assumes refs: "history_refs h" and run: "status_in h sid = Some SC_RUNNING"
    and h2: "hs_assessments h2 = hs_assessments h" "hs_snapshots h2 = hs_snapshots h"
      "status_in h2 = (status_in h)(sid := Some st)"
    and complete: "(st = SC_COMPLETED) = complete"
  shows "finding_reflects h2 None f = finding_reflects h (if complete then Some sid else None) f" "history_refs h2"
    "st \<noteq> SC_RUNNING \<Longrightarrow> (\<And>a t s. (a, t, s) \<in> set (joined h) \<Longrightarrow> ca_scan_id a \<noteq> sid \<Longrightarrow> s \<noteq> SC_RUNNING) \<Longrightarrow>
      list_all (\<lambda>(a, _, s). s \<noteq> SC_RUNNING) (joined h2)"
proof -
  let ?r = "fd_resource_id f" and ?c = "fd_control_id f"
  have scans: "find_row sc_id i (hs_scans h2) \<noteq> None \<longleftrightarrow> find_row sc_id i (hs_scans h) \<noteq> None" for i
    using fun_cong [OF h2(3), of i] run by (metis fun_upd_apply map_option_is_None option.distinct(1) status_in_def)
  then show refs2: "history_refs h2" using refs by (simp add: history_refs_def h2)
  have rows: "join_row h2 a = map_option (\<lambda>(a, t, s). (a, t, if ca_scan_id a = sid then st else s)) (join_row h a)" for a
    using run by (auto simp: join_row_def h2 split: option.splits)
  have j: "joined h2 = map (\<lambda>(a, t, s). (a, t, if ca_scan_id a = sid then st else s)) (joined h)"
    unfolding joined_rows h2(1) rows by (rule map_filter_map_option)
  show "finding_reflects h2 None f = finding_reflects h (if complete then Some sid else None) f"
  proof (rule reflects_cong)
    show "fail_times h2 ?r ?c = fail_times h ?r ?c" by (simp add: fail_times_def h2)
    have "s = SC_RUNNING" if "(a, t, s) \<in> set (joined h)" "ca_scan_id a = sid" for a t s
      using that run by (auto simp: joined_rows List.map_filter_def join_row_def split: option.split_asm)
    then show "pass_times h2 ?r ?c None = pass_times h ?r ?c (if complete then Some sid else None)"
      unfolding pass_times_def j filter_map map_map
      using complete by (intro arg_cong2 [where f = map] filter_cong) (fastforce simp: comp_def split: if_split_asm)+
  qed
  assume "st \<noteq> SC_RUNNING" and others: "\<And>a t s. (a, t, s) \<in> set (joined h) \<Longrightarrow> ca_scan_id a \<noteq> sid \<Longrightarrow> s \<noteq> SC_RUNNING"
  then show "list_all (\<lambda>(a, _, s). s \<noteq> SC_RUNNING) (joined h2)"
    unfolding j list_all_iff by (auto split: if_split_asm dest: others)
qed

section \<open>What the steps write\<close>

abbreviation hist :: "work \<Rightarrow> history" where
  "hist w \<equiv> db_history (wk_db w)"

lemma set_history_Inr [simp]:
  "set_history f w = Inr (u, w') \<longleftrightarrow> w' = w\<lparr>wk_db := (wk_db w)\<lparr>db_history := f (hist w)\<rparr>\<rparr>"
  by (auto simp: set_history_def)

lemma lookup_key_Inr [simp]: "lookup_key kvs k w = Inr (v, w') \<longleftrightarrow> w' = w \<and> map_of kvs k = Some v"
  by (auto simp: lookup_key_def split: option.splits)

lemma ensure_resource_Inr:
  assumes "ensure_resource env t w = Inr (rid, w')"
  shows "\<exists>rs. wk_db w' = (wk_db w)\<lparr>db_history := (hist w)\<lparr>hs_resources := hs_resources (hist w) @ rs\<rparr>\<rparr> \<and>
    rid = rs_id (target_resource env t) \<and> find_row rs_id rid (hs_resources (hist w')) = Some (target_resource env t)"
proof (cases "find_row rs_id (rs_id (target_resource env t)) (hs_resources (hist w))")
  case None
  then show ?thesis
    using assms by (intro exI [of _ "[target_resource env t]"])
      (auto simp: ensure_resource_def bnd_Inr_iff Let_def find_row_append)
next
  case (Some q)
  then show ?thesis
    using assms by (intro exI [of _ "[]"]) (auto simp: ensure_resource_def bnd_Inr_iff Let_def)
qed

lemma ensure_resources_Inr:
  assumes "ensure_resources env ts w = Inr (ids, w')"
  shows "\<exists>rs. wk_db w' = (wk_db w)\<lparr>db_history := (hist w)\<lparr>hs_resources := hs_resources (hist w) @ rs\<rparr>\<rparr> \<and>
    list_all2 (\<lambda>t (s, rid). s = tg_snapshot_id t \<and> rid = rs_id (target_resource env t) \<and>
      find_row rs_id rid (hs_resources (hist w')) = Some (target_resource env t)) ts ids"
  using assms
proof (induction ts arbitrary: ids w)
  case Nil
  then show ?case by (intro exI [of _ "[]"]) simp
next
  case (Cons t ts)
  then obtain rid w1 ids' where one: "ensure_resource env t w = Inr (rid, w1)"
    and more: "ensure_resources env ts w1 = Inr (ids', w')" and ids: "ids = (tg_snapshot_id t, rid) # ids'"
    by (auto simp: bnd_Inr_iff)
  obtain rs where rs: "wk_db w1 = (wk_db w)\<lparr>db_history := (hist w)\<lparr>hs_resources := hs_resources (hist w) @ rs\<rparr>\<rparr>"
    "rid = rs_id (target_resource env t)" "find_row rs_id rid (hs_resources (hist w1)) = Some (target_resource env t)"
    using ensure_resource_Inr [OF one] by blast
  obtain qs where qs: "wk_db w' = (wk_db w1)\<lparr>db_history := (hist w1)\<lparr>hs_resources := hs_resources (hist w1) @ qs\<rparr>\<rparr>"
    "list_all2 (\<lambda>t (s, rid). s = tg_snapshot_id t \<and> rid = rs_id (target_resource env t) \<and>
      find_row rs_id rid (hs_resources (hist w')) = Some (target_resource env t)) ts ids'"
    using Cons.IH [OF more] by blast
  have "find_row rs_id rid (hs_resources (hist w')) = Some (target_resource env t)"
    using rs(3) by (simp add: qs(1) find_row_append)
  then show ?case
    using rs(1,2) qs ids by (intro exI [of _ "rs @ qs"]) simp
qed

lemma add_snapshots_Inr:
  assumes "for_each (add_resource_snapshot env sid observed ids) ts w = Inr (u, w')"
  shows "\<exists>sns. wk_db w' = (wk_db w)\<lparr>db_history := (hist w)\<lparr>hs_snapshots := hs_snapshots (hist w) @ sns\<rparr>\<rparr> \<and>
    (\<forall>t\<in>set ts. \<exists>sn. find_row sn_id (tg_snapshot_id t) (hs_snapshots (hist w')) = Some sn \<and> sn_observed_at sn = observed)"
  using assms
proof (induction ts arbitrary: w)
  case Nil
  then show ?case by (intro exI [of _ "[]"]) simp
next
  case (Cons t ts)
  then obtain w1 where one: "add_resource_snapshot env sid observed ids t w = Inr ((), w1)"
    and more: "for_each (add_resource_snapshot env sid observed ids) ts w1 = Inr (u, w')"
    by (auto simp: bnd_Inr_iff)
  obtain sn where sn: "wk_db w1 = (wk_db w)\<lparr>db_history := (hist w)\<lparr>hs_snapshots := hs_snapshots (hist w) @ [sn]\<rparr>\<rparr>"
    "sn_id sn = tg_snapshot_id t" "sn_observed_at sn = observed" "new_key sn_id (sn_id sn) (hs_snapshots (hist w))"
    using one by (auto simp: add_resource_snapshot_def bnd_Inr_iff Let_def)
  obtain sns where sns: "wk_db w' = (wk_db w1)\<lparr>db_history := (hist w1)\<lparr>hs_snapshots := hs_snapshots (hist w1) @ sns\<rparr>\<rparr>"
    "\<forall>t\<in>set ts. \<exists>sn. find_row sn_id (tg_snapshot_id t) (hs_snapshots (hist w')) = Some sn \<and> sn_observed_at sn = observed"
    using Cons.IH [OF more] by blast
  have "find_row sn_id (sn_id sn) (hs_snapshots (hist w)) = None"
    using sn(4) by (auto simp: find_row_None_iff new_key_def)
  then have "find_row sn_id (tg_snapshot_id t) (hs_snapshots (hist w')) = Some sn"
    by (simp add: sns(1) sn(1) sn(2) [symmetric] find_row_append)
  then show ?case
    using sn sns by (intro exI [of _ "sn # sns"]) auto
qed

lemma insert_evidences_Inr:
  assumes "for_each (insert_evidence aid) es w = Inr (u, w')"
  shows "\<exists>ev. wk_db w' = (wk_db w)\<lparr>db_history := (hist w)\<lparr>hs_evidence := ev\<rparr>\<rparr>"
  using assms
proof (induction es arbitrary: w)
  case Nil
  then show ?case by (intro exI [of _ "hs_evidence (hist w)"]) simp
next
  case (Cons e es)
  then obtain w1 where one: "insert_evidence aid e w = Inr ((), w1)" and more: "for_each (insert_evidence aid) es w1 = Inr (u, w')"
    by (auto simp: bnd_Inr_iff)
  have "\<exists>ev. wk_db w1 = (wk_db w)\<lparr>db_history := (hist w)\<lparr>hs_evidence := ev\<rparr>\<rparr>"
    using one by (auto simp: insert_evidence_def bnd_Inr_iff Let_def)
  then show ?case
    using Cons.IH [OF more] by auto
qed

definition recorded_as :: "scan_bundle \<Rightarrow> (uuid \<times> uuid) list \<Rightarrow> candidate \<Rightarrow> candidate \<times> assessment_row \<Rightarrow> bool" where
  "recorded_as b ids c p =
     (case p of (c', a) \<Rightarrow> c' = c \<and> ca_result a = cd_result c \<and> ca_scan_id a = bn_scan_id b \<and>
        ca_snapshot_id a = cd_snapshot_id c \<and> map_of ids (cd_snapshot_id c) = Some (ca_resource_id a) \<and>
        (\<exists>v. map_of (bn_versions b) (cd_control_key c) = Some v \<and> ca_control_id a = cv_control_id v))"

lemma record_assessments_Inr:
  assumes "record_assessments env b ids cs w = Inr (ps, w')"
  shows "\<exists>ev. wk_db w' = (wk_db w)\<lparr>db_history := (hist w)\<lparr>hs_assessments := hs_assessments (hist w) @ map snd ps,
      hs_evidence := ev\<rparr>\<rparr> \<and> list_all2 (recorded_as b ids) cs ps"
  using assms
proof (induction cs arbitrary: ps w)
  case Nil
  then show ?case by (intro exI [of _ "hs_evidence (hist w)"]) simp
next
  case (Cons c cs)
  then obtain p w1 qs where one: "record_assessment env b ids c w = Inr (p, w1)"
    and more: "record_assessments env b ids cs w1 = Inr (qs, w')" and ps: "ps = p # qs"
    by (auto simp: bnd_Inr_iff)
  obtain ev where ev: "wk_db w1 = (wk_db w)\<lparr>db_history := (hist w)\<lparr>hs_assessments := hs_assessments (hist w) @ [snd p],
      hs_evidence := ev\<rparr>\<rparr>" "recorded_as b ids c p"
    using one by (auto simp: record_assessment_def bnd_Inr_iff Let_def recorded_as_def split: option.split_asm
        dest!: insert_evidences_Inr)
  show ?case
    using Cons.IH [OF more] ev ps by auto
qed

end
