(* ===== verification/Reconciliation_System.thy ===== *)
theory Reconciliation_System
  imports Scan_Effects
begin

text \<open>
  Scans and governance together: after any sequence of recorded scans, failed scans and governance
  calls, every finding says exactly what the history of its target says, and every failing target
  has its finding.
\<close>

section \<open>The invariant\<close>

definition results_reflected :: "(document \<Rightarrow> digest) \<Rightarrow> db \<Rightarrow> bool" where
  "results_reflected sh d =
     (let h = db_history d in
      governance_ok d \<and> history_refs h \<and> list_all (\<lambda>(a, _, st). st \<noteq> SC_RUNNING) (joined h) \<and>
      list_all (keyed sh h) (db_findings d) \<and> list_all (finding_reflects h None) (db_findings d) \<and>
      list_all (\<lambda>a. ca_result a = FAIL \<longrightarrow> (ca_resource_id a, ca_control_id a) \<in> finding_target ` set (db_findings d))
        (hs_assessments h))"

text \<open>
  What \<open>_validate_bundle\<close> and the catalog rows guarantee: each candidate names one of the targets,
  with its account and Region, and the version of a control is stored for the control of that key.
\<close>

definition bundle_valid :: "history \<Rightarrow> scan_bundle \<Rightarrow> bool" where
  "bundle_valid h b =
     (valid_scope (bn_scope b) \<and> distinct (map tg_snapshot_id (bn_targets b)) \<and>
      list_all (\<lambda>c. list_ex (\<lambda>t. tg_snapshot_id t = cd_snapshot_id c \<and> tg_account t = cd_account c \<and>
        tg_region t = cd_region c) (bn_targets b)) (bn_candidates b) \<and>
      list_all (\<lambda>(k, v). case find_row ct_id (cv_control_id v) (hs_controls h) of None \<Rightarrow> False | Some ct \<Rightarrow> ct_key ct = k)
        (bn_versions b))"

section \<open>Recording a result\<close>

lemma set_scan_Inr:
  assumes "set_scan i f w = Inr (u, w')"
  shows "wk_db w' = (wk_db w)\<lparr>db_history := (hist w)\<lparr>hs_scans := modify_rows sc_id i f (hs_scans (hist w))\<rparr>\<rparr>"
  using assms by (auto simp: set_scan_def bnd_Inr_iff)

lemma set_scan_status:
  assumes "set_scan i f w = Inr (u, w')" "\<And>s. sc_id (f s) = sc_id s" "\<And>s. sc_status (f s) = sc_status s"
  shows "status_in (hist w') = status_in (hist w)"
  by (rule ext) (simp add: set_scan_Inr [OF assms(1)] status_in_def
      find_row_modify [where key = sc_id and f = f, OF assms(2)] option.map_comp comp_def assms(3))

lemma status_in_set:
  assumes "\<And>s. sc_id (f s) = sc_id s" "\<And>s. sc_status (f s) = st" "status_in h i \<noteq> None"
  shows "status_in (h\<lparr>hs_scans := modify_rows sc_id i f (hs_scans h)\<rparr>) = (status_in h)(i := Some st)"
  using assms(3) by (auto simp: fun_eq_iff status_in_def find_row_modify [where key = sc_id and f = f, OF assms(1)] option.map_comp comp_def assms(2))

lemma completion_complete:
  assumes "valid_scope p"
  shows "(completion_status p = SC_COMPLETED) = scope_complete p" "completion_status p \<noteq> SC_RUNNING"
proof -
  have "ss_outcomes p \<noteq> []" using assms by (simp add: valid_scope_def)
  then show "(completion_status p = SC_COMPLETED) = scope_complete p"
    by (cases "ss_outcomes p") (auto simp: completion_status_def scope_complete_def)
  show "completion_status p \<noteq> SC_RUNNING" by (simp add: completion_status_def)
qed

lemma status_in_frame: "hs_scans h' = hs_scans h \<Longrightarrow> status_in h' = status_in h"
  by (simp add: status_in_def fun_eq_iff)

lemma record_result_Inr:
  assumes run: "record_result env b completed aty actor w = Inr (u, w')"
    and status: "status_in (hist w) (bn_scan_id b) = Some SC_RUNNING" and valid: "bundle_valid (hist w) b"
  obtains ps w1 w2 f where
    "scan_recorded (bn_scan_id b) (bn_observed_at b) (map snd ps) (hist w) (hist w1)"
    "db_findings (wk_db w1) = db_findings (wk_db w)" "db_exceptions (wk_db w1) = db_exceptions (wk_db w)"
    "\<And>c a. (c, a) \<in> set ps \<Longrightarrow> result_ok env (hist w1) (c, a) \<and> ca_scan_id a = bn_scan_id b"
    "for_each (\<lambda>(c, a). reconcile_finding env c a (bn_observed_at b) aty actor (scope_complete (bn_scope b))) ps w1 = Inr ((), w2)"
    "db_findings (wk_db w') = db_findings (wk_db w2)" "db_exceptions (wk_db w') = db_exceptions (wk_db w2)"
    "hist w' = (hist w2)\<lparr>hs_scans := modify_rows sc_id (bn_scan_id b) f (hs_scans (hist w2))\<rparr>"
    "\<And>s. sc_id (f s) = sc_id s" "\<And>s. sc_status (f s) = completion_status (bn_scope b)"
    "\<And>s. sc_result_sha (f s) = Some (bn_result_sha b)"
proof -
  let ?p = "bn_scope b" and ?sid = "bn_scan_id b" and ?obs = "bn_observed_at b"
  obtain xa wa xb wb ids wc xd wd xe we ps w1 x2 w2 ev w3
    where sa: "set_scan ?sid (\<lambda>s. s\<lparr>sc_account := Some (bn_account b), sc_successful_regions := sort (ss_successful_regions ?p),
        sc_successful_collectors := successful_collectors ?p, sc_inventory_sha := Some (bn_inventory_sha b)\<rparr>) w = Inr (xa, wa)"
      and sb: "set_scan ?sid (\<lambda>s. s\<lparr>sc_manifest := Some ?p\<rparr>) wa = Inr (xb, wb)"
      and sc: "ensure_resources env (bn_targets b) wb = Inr (ids, wc)"
      and sd: "set_history (\<lambda>h. h\<lparr>hs_load_graph := (hs_load_graph h)(?sid := bn_graph b)\<rparr>) wc = Inr (xd, wd)"
      and se: "for_each (add_resource_snapshot env ?sid ?obs ids) (bn_targets b) wd = Inr (xe, we)"
      and s1: "record_assessments env b ids (bn_candidates b) we = Inr (ps, w1)"
      and s2: "for_each (\<lambda>(c, a). reconcile_finding env c a ?obs aty actor (scope_complete ?p)) ps w1 = Inr (x2, w2)"
      and s3: "append_audit_event env (if completion_status ?p = SC_FAILED then AT_SCAN_FAILED else AT_SCAN_COMPLETED) TargetScan
        ?sid completed aty actor (MetaScanCompleted (completion_status ?p) (length (bn_candidates b))) w2 = Inr (ev, w3)"
      and s4: "set_scan ?sid (\<lambda>s. s\<lparr>sc_status := completion_status ?p, sc_completed_at := Some completed,
        sc_result_sha := Some (bn_result_sha b)\<rparr>) w3 = Inr (u, w')"
    using run unfolding record_result_def Let_def bnd_Inr_iff by blast
  note wb = set_scan_Inr [OF sb] and wa = set_scan_Inr [OF sa]
  obtain rs where rs: "wk_db wc = (wk_db wb)\<lparr>db_history := (hist wb)\<lparr>hs_resources := hs_resources (hist wb) @ rs\<rparr>\<rparr>"
    and ids: "list_all2 (\<lambda>t (s, rid). s = tg_snapshot_id t \<and> rid = rs_id (target_resource env t) \<and>
      find_row rs_id rid (hs_resources (hist wc)) = Some (target_resource env t)) (bn_targets b) ids"
    using ensure_resources_Inr [OF sc] by blast
  obtain sns where sns: "wk_db we = (wk_db wd)\<lparr>db_history := (hist wd)\<lparr>hs_snapshots := hs_snapshots (hist wd) @ sns\<rparr>\<rparr>"
    and seen: "\<forall>t\<in>set (bn_targets b). \<exists>sn. find_row sn_id (tg_snapshot_id t) (hs_snapshots (hist we)) = Some sn \<and> sn_observed_at sn = ?obs"
    using add_snapshots_Inr [OF se] by blast
  obtain evs where w1: "wk_db w1 = (wk_db we)\<lparr>db_history := (hist we)\<lparr>hs_assessments := hs_assessments (hist we) @ map snd ps,
      hs_evidence := evs\<rparr>\<rparr>" and ps: "list_all2 (recorded_as b ids) (bn_candidates b) ps"
    using record_assessments_Inr [OF s1] by blast
  have wd: "wk_db wd = (wk_db wc)\<lparr>db_history := (hist wc)\<lparr>hs_load_graph := (hs_load_graph (hist wc))(?sid := bn_graph b)\<rparr>\<rparr>"
    using sd by simp
  have res: "\<exists>t\<in>set (bn_targets b). tg_snapshot_id t = k \<and> rid = rs_id (target_resource env t) \<and>
      find_row rs_id rid (hs_resources (hist w1)) = Some (target_resource env t)" if "map_of ids k = Some rid" for k rid
    using map_of_SomeD [OF that] ids by (fastforce simp: list_all2_conv_all_nth in_set_conv_nth w1 sns wd)
  have rec: "recorded_as b ids c (c, a) \<and> c \<in> set (bn_candidates b)" if "(c, a) \<in> set ps" for c a
    using ps that by (fastforce simp: list_all2_conv_all_nth in_set_conv_nth recorded_as_def)
  have ctl: "hs_controls (hist w1) = hs_controls (hist w)" by (simp add: w1 sns wd rs wb wa)
  have recorded: "scan_recorded ?sid ?obs (map snd ps) (hist w) (hist w1)"
    unfolding scan_recorded_def
  proof (intro conjI)
    show "status_in (hist w1) = status_in (hist w)"
    proof -
      have "status_in (hist w1) = status_in (hist wb)" by (rule status_in_frame) (simp add: w1 sns wd rs)
      also have "\<dots> = status_in (hist wa)" by (rule set_scan_status [OF sb]) simp_all
      also have "\<dots> = status_in (hist w)" by (rule set_scan_status [OF sa]) simp_all
      finally show ?thesis .
    qed
    show "list_all (\<lambda>a. ca_scan_id a = ?sid \<and>
        map_option sn_observed_at (find_row sn_id (ca_snapshot_id a) (hs_snapshots (hist w1))) = Some ?obs) (map snd ps)"
      unfolding list_all_iff
    proof (intro ballI, elim imageE [unfolded set_map] | clarsimp)
      fix c a assume "(c, a) \<in> set ps"
      note r = rec [OF this]
      then obtain t where "t \<in> set (bn_targets b)" "tg_snapshot_id t = ca_snapshot_id a"
        using res by (auto simp: recorded_as_def)
      then show "ca_scan_id a = ?sid \<and> (\<exists>z. find_row sn_id (ca_snapshot_id a) (hs_snapshots (hist w1)) = Some z \<and> sn_observed_at z = ?obs)"
        using r seen by (auto simp: recorded_as_def w1)
    qed
  qed (use status in \<open>simp_all add: w1 sns wd rs wb wa\<close>)
  have ok: "result_ok env (hist w1) (c, a) \<and> ca_scan_id a = ?sid" if "(c, a) \<in> set ps" for c a
  proof -
    note r = rec [OF that]
    obtain v where v: "map_of (bn_versions b) (cd_control_key c) = Some v" "ca_control_id a = cv_control_id v"
      using r by (auto simp: recorded_as_def)
    then obtain ct where ct: "find_row ct_id (ca_control_id a) (hs_controls (hist w)) = Some ct" "ct_key ct = cd_control_key c"
      using valid map_of_SomeD [OF v(1)] by (fastforce simp: bundle_valid_def list_all_iff split: option.split_asm)
    obtain t where t: "t \<in> set (bn_targets b)" "tg_snapshot_id t = cd_snapshot_id c" "ca_resource_id a = rs_id (target_resource env t)"
      "find_row rs_id (ca_resource_id a) (hs_resources (hist w1)) = Some (target_resource env t)"
      using r res [of "cd_snapshot_id c" "ca_resource_id a"] by (auto simp: recorded_as_def)
    obtain t' where t': "t' \<in> set (bn_targets b)" "tg_snapshot_id t' = cd_snapshot_id c" "tg_account t' = cd_account c"
      "tg_region t' = cd_region c"
      using valid r by (auto simp: bundle_valid_def list_all_iff list_ex_iff)
    have "inj_on tg_snapshot_id (set (bn_targets b))" using valid by (simp add: bundle_valid_def distinct_map)
    then have "t' = t" using t(1,2) t'(1,2) by (simp add: inj_on_def)
    then show ?thesis
      using r t t' ct
      by (simp add: result_ok_def recorded_as_def target_key_def ctl finding_fingerprint_def target_resource_def Let_def)
  qed
  show thesis
    by (rule that [OF recorded _ _ ok, where f = "\<lambda>s. s\<lparr>sc_status := completion_status ?p, sc_completed_at := Some completed,
        sc_result_sha := Some (bn_result_sha b)\<rparr>"])
      (use s2 append_audit_Inr [OF s3] set_scan_Inr [OF s4] in \<open>auto simp: w1 sns wd rs wb wa\<close>)
qed

lemma keyed_mono:
  assumes "keyed sh h f" "hs_resources h' = hs_resources h @ rs" "hs_controls h' = hs_controls h"
  shows "keyed sh h' f"
  using assms by (auto simp: keyed_def target_key_def find_row_append split: option.splits)

lemma keyed_frame:
  "hs_resources h' = hs_resources h \<Longrightarrow> hs_controls h' = hs_controls h \<Longrightarrow> keyed sh h' = keyed sh h"
  by (intro ext) (simp add: keyed_def target_key_def)

text \<open>From a database that reflects its results the loop invariant holds at the end of the loop.\<close>

lemma record_result_loop:
  assumes run: "record_result env b completed aty actor w = Inr (u, w')"
    and inv: "results_reflected (sha env) (wk_db w)"
    and status: "status_in (hist w) (bn_scan_id b) = Some SC_RUNNING" and valid: "bundle_valid (hist w) b"
  obtains ps w1 w2 f where
    "scan_recorded (bn_scan_id b) (bn_observed_at b) (map snd ps) (hist w) (hist w1)"
    "\<And>c a. (c, a) \<in> set ps \<Longrightarrow> result_ok env (hist w1) (c, a) \<and> ca_scan_id a = bn_scan_id b"
    "loop_inv env (hist w) (hist w1) (if scope_complete (bn_scope b) then Some (bn_scan_id b) else None) ps w2"
    "db_findings (wk_db w') = db_findings (wk_db w2)" "db_exceptions (wk_db w') = db_exceptions (wk_db w2)"
    "hist w' = (hist w2)\<lparr>hs_scans := modify_rows sc_id (bn_scan_id b) f (hs_scans (hist w2))\<rparr>"
    "\<And>s. sc_id (f s) = sc_id s" "\<And>s. sc_status (f s) = completion_status (bn_scope b)"
    "\<And>s. sc_result_sha (f s) = Some (bn_result_sha b)"
proof -
  let ?sid = "bn_scan_id b" and ?complete = "scope_complete (bn_scope b)"
  let ?scan = "if ?complete then Some ?sid else None"
  obtain ps w1 w2 f where rec: "scan_recorded ?sid (bn_observed_at b) (map snd ps) (hist w) (hist w1)"
    and same: "db_findings (wk_db w1) = db_findings (wk_db w)" "db_exceptions (wk_db w1) = db_exceptions (wk_db w)"
    and ok: "\<And>c a. (c, a) \<in> set ps \<Longrightarrow> result_ok env (hist w1) (c, a) \<and> ca_scan_id a = ?sid"
    and loop: "for_each (\<lambda>(c, a). reconcile_finding env c a (bn_observed_at b) aty actor ?complete) ps w1 = Inr ((), w2)"
    and final: "db_findings (wk_db w') = db_findings (wk_db w2)" "db_exceptions (wk_db w') = db_exceptions (wk_db w2)"
      "hist w' = (hist w2)\<lparr>hs_scans := modify_rows sc_id ?sid f (hs_scans (hist w2))\<rparr>"
      "\<And>s. sc_id (f s) = sc_id s" "\<And>s. sc_status (f s) = completion_status (bn_scope b)"
      "\<And>s. sc_result_sha (f s) = Some (bn_result_sha b)"
    by (rule record_result_Inr [OF run status valid]) blast
  note i = inv [unfolded results_reflected_def Let_def]
  have refs0: "history_refs (hist w)" using i by blast
  have start: "loop_inv env (hist w) (hist w1) ?scan [] w1"
    using i same rec
    by (auto simp: loop_inv_def governance_ok_def targets_of_def list_all_iff scan_recorded_def intro: keyed_mono)
  have "loop_inv env (hist w) (hist w1) ?scan ([] @ ps) w2"
    by (rule reconcile_all [OF loop start recorded_joined(1) [OF rec refs0]]) (use ok in auto)
  then have "loop_inv env (hist w) (hist w1) ?scan ps w2" by simp
  from that [OF rec ok this final] show thesis by blast
qed

lemma record_result_keeps:
  assumes run: "record_result env b completed aty actor w = Inr (u, w')"
    and inv: "results_reflected (sha env) (wk_db w)"
    and status: "status_in (hist w) (bn_scan_id b) = Some SC_RUNNING" and valid: "bundle_valid (hist w) b"
  shows "results_reflected (sha env) (wk_db w')"
proof -
  let ?sid = "bn_scan_id b" and ?complete = "scope_complete (bn_scope b)"
  let ?scan = "if ?complete then Some ?sid else None"
  obtain ps w1 w2 f where rec: "scan_recorded ?sid (bn_observed_at b) (map snd ps) (hist w) (hist w1)"
    and ok: "\<And>c a. (c, a) \<in> set ps \<Longrightarrow> result_ok env (hist w1) (c, a) \<and> ca_scan_id a = ?sid"
    and fin: "loop_inv env (hist w) (hist w1) ?scan ps w2"
    and final: "db_findings (wk_db w') = db_findings (wk_db w2)" "db_exceptions (wk_db w') = db_exceptions (wk_db w2)"
      "hist w' = (hist w2)\<lparr>hs_scans := modify_rows sc_id ?sid f (hs_scans (hist w2))\<rparr>"
      "\<And>s. sc_id (f s) = sc_id s" "\<And>s. sc_status (f s) = completion_status (bn_scope b)"
    by (rule record_result_loop [OF run inv status valid]) blast
  note i = inv [unfolded results_reflected_def Let_def]
  have refs0: "history_refs (hist w)" using i by blast
  note j = recorded_joined [OF rec refs0]
  have ev: "same_evidence (hist w1) (hist w2)" using fin by (simp add: loop_inv_def)
  note evf = same_evidence_fields [OF ev]
  have reflects1: "list_all (finding_reflects (hist w1) ?scan) (db_findings (wk_db w2))"
    unfolding list_all_iff
  proof
    fix g assume g: "g \<in> set (db_findings (wk_db w2))"
    show "finding_reflects (hist w1) ?scan g"
    proof (cases "finding_target g \<in> targets_of ps")
      case False
      then have "\<not> on_target (fd_resource_id g) (fd_control_id g) a" if "a \<in> set (map snd ps)" "ca_result a \<in> {PASS, FAIL}" for a
        using that ok by (force simp: targets_of_def finding_target_def on_target_def decisive_def result_ok_def)
      then have "finding_reflects (hist w1) ?scan g = finding_reflects (hist w) None g"
        by (intro recorded_reflects [OF rec refs0]) (use i in auto)
      then show ?thesis using fin g False by (auto simp: loop_inv_def list_all_iff)
    qed (use fin g in \<open>auto simp: loop_inv_def list_all_iff\<close>)
  qed
  have valid_p: "valid_scope (bn_scope b)" using valid by (simp add: bundle_valid_def)
  have run1: "status_in (hist w1) ?sid = Some SC_RUNNING" using rec by (simp add: scan_recorded_def)
  have st2: "status_in (hist w') = (status_in (hist w1))(?sid := Some (completion_status (bn_scope b)))"
    using status_in_set [where h = "hist w2" and i = ?sid, OF final(4,5)] run1
    by (simp add: final(3) status_in_frame [OF evf(3)])
  note c = completed_reflects [OF j(1) run1 _ _ st2 completion_complete(1) [OF valid_p]]
  have h: "hs_assessments (hist w') = hs_assessments (hist w1)" "hs_snapshots (hist w') = hs_snapshots (hist w1)"
    "hs_resources (hist w') = hs_resources (hist w1)" "hs_controls (hist w') = hs_controls (hist w1)"
    by (simp_all add: final(3) evf)
  have covered: "(ca_resource_id a, ca_control_id a) \<in> finding_target ` set (db_findings (wk_db w2))"
    if a: "a \<in> set (hs_assessments (hist w1))" "ca_result a = FAIL" for a
  proof (cases "a \<in> set (hs_assessments (hist w))")
    case True
    then show ?thesis using fin a(2) by (auto simp: loop_inv_def list_all_iff)
  next
    case False
    then obtain c where "(c, a) \<in> set ps" using a(1) rec by (auto simp: scan_recorded_def)
    then show ?thesis using fin ok a(2) by (fastforce simp: loop_inv_def list_all_iff result_ok_def)
  qed
  show ?thesis
    unfolding results_reflected_def Let_def
  proof (intro conjI)
    show "list_all (\<lambda>(a, _, st). st \<noteq> SC_RUNNING) (joined (hist w'))"
      by (rule c(3) [OF h(1,2) completion_complete(2) [OF valid_p]]) (use i rec in \<open>auto simp: j(2) list_all_iff scan_recorded_def\<close>)
    show "list_all (finding_reflects (hist w') None) (db_findings (wk_db w'))"
      using reflects1 c(1) [OF h(1,2)] by (simp add: final(1) list_all_iff)
    show "list_all (keyed (sha env) (hist w')) (db_findings (wk_db w'))"
      using fin keyed_frame [OF h(3,4)] by (simp add: final(1) loop_inv_def)
    show "history_refs (hist w')" by (rule c(2) [OF h(1,2)])
  qed (use fin covered in \<open>auto simp: final(1,2) governance_ok_def loop_inv_def list_all_iff h(1)\<close>)
qed

section \<open>The calls\<close>

text \<open>The invariant depends on the evidence, the findings and the exceptions only.\<close>

lemma results_frame:
  assumes inv: "results_reflected sh d"
    and same: "db_findings d' = db_findings d" "db_exceptions d' = db_exceptions d"
    and h: "hs_assessments (db_history d') = hs_assessments (db_history d)"
      "hs_snapshots (db_history d') = hs_snapshots (db_history d)"
      "hs_resources (db_history d') = hs_resources (db_history d)" "hs_controls (db_history d') = hs_controls (db_history d)"
    and st: "\<And>a. a \<in> set (hs_assessments (db_history d)) \<Longrightarrow>
      status_in (db_history d') (ca_scan_id a) = status_in (db_history d) (ca_scan_id a)"
  shows "results_reflected sh d'"
proof -
  let ?h = "db_history d" and ?h' = "db_history d'"
  have refs: "history_refs ?h" using inv by (simp add: results_reflected_def Let_def)
  have "history_refs ?h'"
    using refs st unfolding history_refs_def list_all_iff h status_in_def by (metis map_option_is_None)
  moreover have "join_row ?h' a = join_row ?h a" if "a \<in> set (hs_assessments ?h)" for a
    using st [OF that] by (simp add: join_row_def h)
  then have j: "joined ?h' = joined ?h" unfolding joined_rows h(1) by (intro map_filter_cong) auto
  moreover have "finding_reflects ?h' None = finding_reflects ?h None"
    by (intro ext reflects_cong) (simp_all add: fail_times_def h pass_times_def j)
  ultimately show ?thesis
    using inv keyed_frame [OF h(3,4)] by (simp add: results_reflected_def Let_def governance_ok_def same h)
qed

text \<open>A call either replays a recorded result or records it, on a database with its RUNNING scan.\<close>

lemma persist_cases:
  assumes run: "transact (persist_scan_result env b started completed version aty actor) d = (Inr u, d')"
    and inv: "results_reflected (sha env) d" and valid: "bundle_valid (db_history d) b"
  obtains (replayed) s where "d' = d" "find_row sc_id (bn_scan_id b) (hs_scans (db_history d)) = Some s"
      "sc_status s \<noteq> SC_RUNNING" "sc_result_sha s = Some (bn_result_sha b)"
    | (recorded) w1 w ct where "record_result env b ct aty actor w1 = Inr (u, w)" "d' = wk_db w"
      "results_reflected (sha env) (wk_db w1)" "status_in (hist w1) (bn_scan_id b) = Some SC_RUNNING" "bundle_valid (hist w1) b"
proof -
  let ?w = "initial_work d" and ?sid = "bn_scan_id b"
  have db: "wk_db ?w = d" by (simp add: initial_work_def)
  obtain w where w: "persist_scan_result env b started completed version aty actor ?w = Inr (u, w)" "d' = wk_db w"
    using run by (auto simp: transact_Inr)
  from w(1) obtain st ct where "started = Aware st" "completed = Aware ct"
    and rest: "(case find_row sc_id ?sid (hs_scans (db_history d)) of
       Some s \<Rightarrow>
         if sc_status s \<noteq> SC_RUNNING then
           guard (sc_result_sha s = Some (bn_result_sha b)) (ValueErr ''scan ID already exists with different content'')
         else bnd (validate_pending_scan s b st version) (\<lambda>_. record_result env b ct aty actor)
     | None \<Rightarrow>
         bnd (guard (scan_ok (new_scan b st version)) IntegrityErr) (\<lambda>_.
         bnd (set_history (\<lambda>h. h\<lparr>hs_scans := hs_scans h @ [new_scan b st version]\<rparr>)) (\<lambda>_.
         bnd (append_audit_event env AT_SCAN_STARTED TargetScan ?sid st aty actor MetaScanStarted) (\<lambda>_.
         record_result env b ct aty actor)))) ?w = Inr (u, w)"
    by (auto simp: persist_scan_result_def bnd_Inr_iff db)
  show thesis
  proof (cases "find_row sc_id ?sid (hs_scans (db_history d))")
    case (Some s)
    show thesis
    proof (cases "sc_status s = SC_RUNNING")
      case False
      then show thesis using rest Some w(2) by (intro replayed [OF _ Some]) (simp_all add: db)
    next
      case True
      then have "record_result env b ct aty actor ?w = Inr (u, w)"
        using rest Some by (auto simp: bnd_Inr_iff validate_pending_scan_def Let_def)
      then show thesis
        by (rule recorded) (use inv valid True Some w(2) in \<open>simp_all add: db status_in_def\<close>)
    qed
  next
    case None
    let ?s = "new_scan b st version"
    obtain w1 a where w1: "wk_db w1 = d\<lparr>db_history := (db_history d)\<lparr>hs_scans := hs_scans (db_history d) @ [?s]\<rparr>,
        db_audits := db_audits d @ [a]\<rparr>" and rr: "record_result env b ct aty actor w1 = Inr (u, w)"
      using rest None by (auto simp: bnd_Inr_iff db dest!: append_audit_Inr)
    have sid: "sc_id ?s = ?sid" "sc_status ?s = SC_RUNNING" by (simp_all add: new_scan_def Let_def)
    have refs: "history_refs (db_history d)" using inv by (simp add: results_reflected_def Let_def)
    have old: "status_in (hist w1) (ca_scan_id a) = status_in (db_history d) (ca_scan_id a)"
      if "a \<in> set (hs_assessments (db_history d))" for a
      using that refs by (auto simp: history_refs_def list_all_iff w1 status_in_def find_row_append)
    have "results_reflected (sha env) (wk_db w1)"
      by (rule results_frame [OF inv _ _ _ _ _ _ old]) (simp_all add: w1)
    moreover have "status_in (hist w1) ?sid = Some SC_RUNNING"
      using None sid by (simp add: w1 status_in_def find_row_append)
    moreover have "bundle_valid (hist w1) b" using valid by (simp add: bundle_valid_def w1)
    ultimately show thesis using recorded [OF rr w(2)] by blast
  qed
qed

lemma persist_keeps:
  assumes run: "transact (persist_scan_result env b started completed version aty actor) d = (Inr u, d')"
    and inv: "results_reflected (sha env) d" and valid: "bundle_valid (db_history d) b"
  shows "results_reflected (sha env) d'"
  by (rule persist_cases [OF assms]) (use inv record_result_keeps in blast)+

lemma fail_pending_keeps:
  assumes run: "transact (fail_pending_scan env sid completed code message aty actor) d = (Inr u, d')"
    and inv: "results_reflected sh d"
  shows "results_reflected sh d'"
proof -
  let ?h = "db_history d"
  obtain w where w: "fail_pending_scan env sid completed code message aty actor (initial_work d) = Inr (u, w)" "d' = wk_db w"
    using run by (auto simp: transact_Inr)
  then obtain ct s where ct: "completed = Aware ct" and s: "find_row sc_id sid (hs_scans ?h) = Some s"
    by (auto simp: fail_pending_scan_def bnd_Inr_iff initial_work_def split: option.split_asm)
  show ?thesis
  proof (cases "sc_status s = SC_RUNNING")
    case False
    then have "d' = d" using w s ct by (auto simp: fail_pending_scan_def bnd_Inr_iff initial_work_def)
    then show ?thesis using inv by simp
  next
    case True
    obtain f where d': "db_findings d' = db_findings d" "db_exceptions d' = db_exceptions d"
      "db_history d' = ?h\<lparr>hs_scans := modify_rows sc_id sid f (hs_scans ?h)\<rparr>" and f: "\<And>q. sc_id (f q) = sc_id q"
    proof -
      obtain w1 a and f :: "scan_row \<Rightarrow> scan_row" where "append_audit_event env AT_SCAN_FAILED TargetScan sid ct aty actor (MetaScanFailed code message)
          (initial_work d) = Inr (a, w1)" "set_scan sid f w1 = Inr (u, w)" "\<And>q. sc_id (f q) = sc_id q"
        using w(1) s ct True by (auto simp: fail_pending_scan_def bnd_Inr_iff initial_work_def)
      then show thesis
        using that w(2) append_audit_Inr set_scan_Inr by (fastforce simp: initial_work_def)
    qed
    have i: "history_refs ?h" "list_all (\<lambda>(a, _, st). st \<noteq> SC_RUNNING) (joined ?h)"
      using inv by (simp_all add: results_reflected_def Let_def)
    have "ca_scan_id a \<noteq> sid" if a: "a \<in> set (hs_assessments ?h)" for a
    proof
      assume "ca_scan_id a = sid"
      then obtain t where "join_row ?h a = Some (a, t, SC_RUNNING)"
        using i(1) a s True by (auto simp: history_refs_def list_all_iff join_row_def status_in_def)
      then have "(a, t, SC_RUNNING) \<in> set (joined ?h)"
        using a unfolding joined_rows List.map_filter_def by force
      then show False using i(2) by (auto simp: list_all_iff)
    qed
    then show ?thesis
      by (intro results_frame [OF inv])
        (simp_all add: d' status_in_def find_row_modify [where key = sc_id and f = f, OF f])
  qed
qed

lemma finding_step_kept:
  assumes "finding_step f f'"
  shows "keyed sh h f' = keyed sh h f" "finding_reflects h scan f' = finding_reflects h scan f"
    "finding_target f' = finding_target f"
  using assms by (auto simp: finding_step_def keyed_def finding_reflects_def finding_target_def Let_def)

lemma list_all2_in_set1: "list_all2 P xs ys \<Longrightarrow> x \<in> set xs \<Longrightarrow> \<exists>y\<in>set ys. P x y"
  by (induction rule: list_all2_induct) auto

lemma list_all2_in_set2: "list_all2 P xs ys \<Longrightarrow> y \<in> set ys \<Longrightarrow> \<exists>x\<in>set xs. P x y"
  by (induction rule: list_all2_induct) auto

lemma governance_keeps:
  assumes call: "governance_call d d'" and inv: "results_reflected sh d"
  shows "results_reflected sh d'"
proof -
  have ok: "governance_ok d" using inv by (simp add: results_reflected_def Let_def)
  then have ok': "governance_ok d'" using call by (rule governance_call_ok)
  have "governed d d'" using governance_call_governed [OF call] governance_ok_keys [OF ok] by blast
  then obtain as ys new where g: "d' = d\<lparr>db_findings := db_findings d', db_exceptions := ys @ new, db_audits := db_audits d @ as\<rparr>"
    and steps: "list_all2 finding_step (db_findings d) (db_findings d')"
    by (auto simp: governed_def)
  have h: "db_history d' = db_history d" by (subst g) simp
  have steps_set: "\<forall>g\<in>set (db_findings d'). \<exists>f\<in>set (db_findings d). finding_step f g"
    "\<forall>f\<in>set (db_findings d). \<exists>g\<in>set (db_findings d'). finding_step f g"
    using list_all2_in_set2 [OF steps] list_all2_in_set1 [OF steps] by blast+
  have "finding_target ` set (db_findings d) \<subseteq> finding_target ` set (db_findings d')"
  proof (rule image_subsetI)
    fix f assume "f \<in> set (db_findings d)"
    then obtain g where "g \<in> set (db_findings d')" "finding_step f g" using steps_set(2) by blast
    then show "finding_target f \<in> finding_target ` set (db_findings d')"
      using finding_step_kept(3) by (intro image_eqI [of _ _ g]) auto
  qed
  moreover have "list_all (keyed sh (db_history d)) (db_findings d')"
    "list_all (finding_reflects (db_history d) None) (db_findings d')"
  proof -
    have old: "keyed sh (db_history d) f \<and> finding_reflects (db_history d) None f" if "f \<in> set (db_findings d)" for f
      using inv that by (simp add: results_reflected_def Let_def list_all_iff)
    have "keyed sh (db_history d) g \<and> finding_reflects (db_history d) None g" if g: "g \<in> set (db_findings d')" for g
    proof -
      obtain f where "f \<in> set (db_findings d)" "finding_step f g" using steps_set(1) g by blast
      then show ?thesis using old finding_step_kept(1,2) by blast
    qed
    then show "list_all (keyed sh (db_history d)) (db_findings d')"
      "list_all (finding_reflects (db_history d) None) (db_findings d')"
      by (simp_all add: list_all_iff)
  qed
  ultimately show ?thesis
    using inv ok' by (auto simp: results_reflected_def Let_def h list_all_iff)
qed

text \<open>One step of the application on findings and history, with any arguments and clock.\<close>

inductive results_step :: "(document \<Rightarrow> digest) \<Rightarrow> db \<Rightarrow> db \<Rightarrow> bool" for sh where
  step_persist: "sha env = sh \<Longrightarrow> bundle_valid (db_history d) b \<Longrightarrow>
     transact (persist_scan_result env b started completed version aty actor) d = (Inr u, d') \<Longrightarrow> results_step sh d d'"
| step_fail: "sha env = sh \<Longrightarrow>
     transact (fail_pending_scan env sid completed code message aty actor) d = (Inr u, d') \<Longrightarrow> results_step sh d d'"
| step_governance: "governance_call d d' \<Longrightarrow> results_step sh d d'"

lemma results_step_keeps: "results_reflected sh d \<Longrightarrow> results_step sh d d' \<Longrightarrow> results_reflected sh d'"
  by (erule results_step.cases) (auto intro: persist_keeps fail_pending_keeps governance_keeps)

text \<open>Before the first scan.\<close>

definition no_results :: "db \<Rightarrow> bool" where
  "no_results d = (db_findings d = [] \<and> db_exceptions d = [] \<and> hs_assessments (db_history d) = [])"

lemma no_results_reflected: "no_results d \<Longrightarrow> results_reflected sh d"
  by (simp add: no_results_def results_reflected_def Let_def governance_ok_def findings_ok_def exceptions_ok_def
      history_refs_def joined_def List.map_filter_simps)

interpretation results: event_system no_results "results_step sh" "results_reflected sh" for sh
  by unfold_locales (fact no_results_reflected, fact results_step_keeps)

end
