(* ===== verification/Reconciliation_Contracts.thy ===== *)
theory Reconciliation_Contracts
  imports Reconciliation_System
begin

text \<open>
  The contracts of scan persistence: findings are a function of the recorded history, in whatever
  order its scans arrived, a result is recorded once, and a human disposition lasts until an
  eligible PASS.
\<close>

section \<open>Two scans of one Region\<close>

definition demo_scope :: scan_scope where
  "demo_scope = \<lparr>ss_account = demo_account, ss_requested_regions = [demo_region], ss_successful_regions = [demo_region],
     ss_requested_services = [''ec2''], ss_requested_collectors = [''ec2_ebs''], ss_outcomes = [(''ec2_ebs'', COL_SUCCEEDED)],
     ss_resource_types = [''aws_account''], ss_enabled_controls = [''EC2-004''], ss_profile_id = ''p'',
     ss_profile_version = ''1'', ss_profile_sha = hex64, ss_catalog_id = ''c'', ss_catalog_version = ''1''\<rparr>"

definition demo_target :: "uuid \<Rightarrow> scan_target" where
  "demo_target s = \<lparr>tg_snapshot_id = s, tg_account = demo_account, tg_aws_id = demo_account, tg_service = ''ec2'',
     tg_type = ''aws_account'', tg_scope = SCOPE_REGIONAL, tg_region = Some demo_region, tg_arn = None, tg_name = None,
     tg_tags = JObj [], tg_configuration = JObj []\<rparr>"

definition demo_bundle :: "uuid \<Rightarrow> time \<Rightarrow> assessment_result \<Rightarrow> scan_bundle" where
  "demo_bundle s t r = \<lparr>bn_scan_id = s, bn_account = demo_account, bn_observed_at = t, bn_scope = demo_scope,
     bn_targets = [demo_target s], bn_candidates = [\<lparr>cd_snapshot_id = s, cd_control_key = ''EC2-004'', cd_account = demo_account,
       cd_region = Some demo_region, cd_result = r, cd_missing = [], cd_artifacts = []\<rparr>],
     bn_graph = None, bn_profile_row_id = 22,
     bn_versions = [(''EC2-004'', br_version demo_rows)], bn_inventory_sha = hex64, bn_result_sha = hex64\<rparr>"

text \<open>Identifiers of assessments depend on their scan; resources on nothing.\<close>

definition scan_env :: "nat \<Rightarrow> env" where
  "scan_env n = (demo_env n)\<lparr>uuid5_of := (\<lambda>ns s. if ns = control_assessment_namespace then n else 10)\<rparr>"

definition before_scans :: db where
  "before_scans = demo_start\<lparr>db_findings := [], db_history := demo_history\<lparr>hs_occurrences := [], hs_assessments := [],
     hs_scans := [], hs_snapshots := [], hs_resources := [], hs_evidence := []\<rparr>\<rparr>"

definition demo_persist :: "nat \<Rightarrow> time \<Rightarrow> assessment_result \<Rightarrow> db \<Rightarrow> (failure + unit) \<times> db" where
  "demo_persist n t r = transact (persist_scan_result (scan_env n) (demo_bundle n t r) (Aware 0) (Aware 99) ''1'' ActorSystem ''scanner'')"

definition failed_then_passed :: db where
  "failed_then_passed = snd (demo_persist 3 7 PASS (snd (demo_persist 2 5 FAIL before_scans)))"

definition passed_then_failed :: db where
  "passed_then_failed = snd (demo_persist 2 5 FAIL (snd (demo_persist 3 7 PASS before_scans)))"

lemma demo_scan_texts:
  "sql_nonblank demo_account" "sql_nonblank demo_region" "sql_nonblank ''ec2''" "sql_nonblank ''aws_account''"
  "sql_nonblank ''aws''" "sql_nonblank ''scanner''" "\<not> blank ''1''" "\<not> blank ''scanner''" "demo_region \<noteq> ''global''"
  "demo_region \<noteq> []"
  by (simp_all add: sql_nonblank_def sql_trim_def demo_account_def demo_region_def blank_def is_ws_def)

lemmas tx_defs = transact_def initial_work_def require_aware_def bnd_def guard_def ret_def raise_def get_db_def change_def
  set_history_def append_audit_event_def uuid4_def insert_audit_def new_key_def modify_rows_def lookup_key_def Let_def

lemmas demo_scan_defs = demo_persist_def demo_bundle_def demo_target_def demo_scope_def scan_env_def demo_env_def before_scans_def
  demo_start_def demo_history_def demo_rows_def demo_scan_texts demo_sha_def

lemmas persist_defs = persist_scan_result_def new_scan_def scan_ok_def record_result_def set_scan_def ensure_resource_def
  target_resource_def resource_ok_def region_key_def or_global_def stable_resource_id_def add_resource_snapshot_def
  record_assessment_def control_assessment_id_def resource_namespace_def control_assessment_namespace_def
  completion_status_def scope_complete_def successful_collectors_def

lemmas reconcile_defs = reconcile_finding_def finding_fingerprint_def open_finding_def flush_findings_def findings_ok_def
  exceptions_ok_def finding_ok_def settle_finding_def insert_occurrence_def latest_decisive_def decisive_rows_def joined_def
  List.map_filter_simps on_target_def fail_times_def settle_def settle_event_def set_finding_def decisive_key_def

lemma demo_first_run: "fst (demo_persist 2 5 FAIL before_scans) = Inr ()" "fst (demo_persist 3 7 PASS before_scans) = Inr ()"
  by (simp_all add: tx_defs demo_scan_defs persist_defs reconcile_defs)

lemma demo_second_run:
  "fst (demo_persist 3 7 PASS (snd (demo_persist 2 5 FAIL before_scans))) = Inr ()"
  "fst (demo_persist 2 5 FAIL (snd (demo_persist 3 7 PASS before_scans))) = Inr ()"
  by (simp_all add: tx_defs demo_scan_defs persist_defs reconcile_defs)

lemma demo_valid: "bundle_valid (db_history d) (demo_bundle n t r)" if "hs_controls (db_history d) = hs_controls demo_history"
  using that
  by (simp add: bundle_valid_def valid_scope_def demo_bundle_def demo_scope_def demo_target_def demo_history_def demo_rows_def
      demo_account_def demo_region_def is_hex_def)

lemma demo_step:
  assumes "fst (demo_persist n t r d) = Inr ()" "hs_controls (db_history d) = hs_controls demo_history"
  shows "results_step demo_sha d (snd (demo_persist n t r d))"
proof (rule step_persist [where env = "scan_env n" and b = "demo_bundle n t r"])
  show "transact (persist_scan_result (scan_env n) (demo_bundle n t r) (Aware 0) (Aware 99) ''1'' ActorSystem ''scanner'') d =
      (Inr (), snd (demo_persist n t r d))"
    using assms(1) by (simp add: demo_persist_def prod_eq_iff)
qed (use demo_valid [OF assms(2)] in \<open>simp_all add: scan_env_def demo_env_def\<close>)

lemma demo_controls:
  "hs_controls (db_history before_scans) = hs_controls demo_history"
  "hs_controls (db_history (snd (demo_persist 2 5 FAIL before_scans))) = hs_controls demo_history"
  "hs_controls (db_history (snd (demo_persist 3 7 PASS before_scans))) = hs_controls demo_history"
  by (simp_all add: tx_defs demo_scan_defs persist_defs reconcile_defs)

lemma demo_no_results: "no_results before_scans"
  by (simp add: no_results_def before_scans_def demo_start_def)

lemma demo_orders:
  "(results_step demo_sha)\<^sup>*\<^sup>* before_scans failed_then_passed" "(results_step demo_sha)\<^sup>*\<^sup>* before_scans passed_then_failed"
  unfolding failed_then_passed_def passed_then_failed_def
  using demo_step [OF demo_first_run(1) demo_controls(1)] demo_step [OF demo_second_run(1) demo_controls(2)]
    demo_step [OF demo_first_run(2) demo_controls(1)] demo_step [OF demo_second_run(2) demo_controls(3)]
  by (auto intro: rtranclp_trans)

section \<open>What the recorded history determines\<close>

definition evidence :: "history \<Rightarrow> (uuid \<times> uuid \<times> assessment_result \<times> time \<times> bool) set" where
  "evidence h = (\<lambda>(a, t, st). (ca_resource_id a, ca_control_id a, ca_result a, t, st = SC_COMPLETED)) ` set (joined h)"

lemma evidence_iff:
  "(rid, cid, r, t, c) \<in> evidence h \<longleftrightarrow>
     (\<exists>a st. (a, t, st) \<in> set (joined h) \<and> on_target rid cid a \<and> ca_result a = r \<and> c = (st = SC_COMPLETED))"
  by (auto simp: evidence_def on_target_def intro: rev_image_eqI)

lemma fail_times_evidence:
  assumes "history_refs h"
  shows "t \<in> set (fail_times h rid cid) \<longleftrightarrow> (\<exists>c. (rid, cid, FAIL, t, c) \<in> evidence h)"
  unfolding fail_times_joined [OF assms] evidence_iff by (auto simp: image_iff)

lemma pass_times_evidence:
  "t \<in> set (pass_times h rid cid None) \<longleftrightarrow> (rid, cid, PASS, t, True) \<in> evidence h"
  unfolding pass_times_def evidence_iff by (auto simp: image_iff)

lemma closed_at_sets:
  "set fails = set fails' \<Longrightarrow> set passes = set passes' \<Longrightarrow> closed_at fails passes = closed_at fails' passes'"
  by (auto simp: closed_at_def list_all_iff)

lemma closed_at_iff: "closed_at fails passes \<noteq> None \<longleftrightarrow> (\<exists>p\<in>set passes. \<forall>t\<in>set fails. t < p)"
proof
  assume "closed_at fails passes \<noteq> None"
  then have "passes \<noteq> []" "\<forall>t\<in>set fails. t < Max (set passes)"
    by (auto simp: closed_at_def list_all_iff split: if_split_asm)
  then show "\<exists>p\<in>set passes. \<forall>t\<in>set fails. t < p" by (intro bexI [of _ "Max (set passes)"]) auto
next
  assume "\<exists>p\<in>set passes. \<forall>t\<in>set fails. t < p"
  then obtain p where "p \<in> set passes" "\<forall>t\<in>set fails. t < p" by blast
  moreover from this have "p \<le> Max (set passes)" by simp
  ultimately have "passes \<noteq> []" "\<forall>t\<in>set fails. t < Max (set passes)" by (auto intro: less_le_trans)
  then show "closed_at fails passes \<noteq> None" by (simp add: closed_at_def list_all_iff)
qed

lemma reachable_results:
  "no_results s \<Longrightarrow> (results_step sh)\<^sup>*\<^sup>* s d \<Longrightarrow> results_reflected sh d"
  by (rule results.inv_reachable)

lemma target_finding:
  assumes "results_reflected sh d" "a \<in> set (hs_assessments (db_history d))" "ca_result a = FAIL"
  shows "\<exists>!f. f \<in> set (db_findings d) \<and> finding_target f = (ca_resource_id a, ca_control_id a)"
proof -
  note i = assms(1) [unfolded results_reflected_def Let_def]
  obtain f where f: "f \<in> set (db_findings d)" "finding_target f = (ca_resource_id a, ca_control_id a)"
    using i assms(2,3) by (fastforce simp: list_all_iff)
  have "g = f" if "g \<in> set (db_findings d)" "finding_target g = (ca_resource_id a, ca_control_id a)" for g
    by (rule same_target_same_row [of "db_findings d" sh "db_history d"]) (use i f that in \<open>auto simp: governance_ok_def\<close>)
  then show ?thesis using f by blast
qed

lemma status_in_Some: "status_in h i = Some st \<Longrightarrow> \<exists>s. find_row sc_id i (hs_scans h) = Some s \<and> sc_status s = st"
  by (auto simp: status_in_def)

lemma record_result_ends:
  assumes run: "record_result env b completed aty actor w = Inr (u, w')"
    and status: "status_in (hist w) (bn_scan_id b) = Some SC_RUNNING" and valid: "bundle_valid (hist w) b"
    and inv: "results_reflected (sha env) (wk_db w)"
  shows "\<exists>s. find_row sc_id (bn_scan_id b) (hs_scans (hist w')) = Some s \<and> sc_status s \<noteq> SC_RUNNING \<and>
    sc_result_sha s = Some (bn_result_sha b)"
proof -
  let ?sid = "bn_scan_id b"
  obtain ps w1 w2 f scan where rec: "scan_recorded ?sid (bn_observed_at b) (map snd ps) (hist w) (hist w1)"
    and fin: "loop_inv env (hist w) (hist w1) scan ps w2"
    and final: "hist w' = (hist w2)\<lparr>hs_scans := modify_rows sc_id ?sid f (hs_scans (hist w2))\<rparr>"
      "\<And>s. sc_id (f s) = sc_id s" "\<And>s. sc_status (f s) = completion_status (bn_scope b)"
      "\<And>s. sc_result_sha (f s) = Some (bn_result_sha b)"
    by (rule record_result_loop [OF run inv status valid]) blast
  have ev: "same_evidence (hist w1) (hist w2)" using fin by (simp add: loop_inv_def)
  have "status_in (hist w2) ?sid = Some SC_RUNNING"
    using rec by (simp add: scan_recorded_def status_in_frame [OF same_evidence_fields(3) [OF ev]])
  then obtain s where "find_row sc_id ?sid (hs_scans (hist w2)) = Some s" using status_in_Some by blast
  then show ?thesis
    using final(3,4) completion_complete(2) valid
    by (simp add: final(1) find_row_modify [where key = sc_id and f = f, OF final(2)] bundle_valid_def)
qed

lemma persist_ends:
  assumes inv: "results_reflected (sha env) d" and valid: "bundle_valid (db_history d) b"
    and run: "transact (persist_scan_result env b started completed version aty actor) d = (Inr u, d')"
  shows "\<exists>s. find_row sc_id (bn_scan_id b) (hs_scans (db_history d')) = Some s \<and> sc_status s \<noteq> SC_RUNNING \<and>
      sc_result_sha s = Some (bn_result_sha b)"
proof (rule persist_cases [OF run inv valid])
  fix w1 w ct
  assume "record_result env b ct aty actor w1 = Inr (u, w)" "d' = wk_db w" "results_reflected (sha env) (wk_db w1)"
    "status_in (hist w1) (bn_scan_id b) = Some SC_RUNNING" "bundle_valid (hist w1) b"
  then show ?thesis using record_result_ends by blast
qed blast

section \<open>Properties\<close>

text \<open>C11. After any sequence of recorded scans, failed scans and governance calls every finding is
  what the history of its target says: detected first and last at its first and last FAIL, resolved
  exactly if a PASS of a complete scan is later than every FAIL, at the latest such PASS; and every
  failing target has exactly one finding.\<close>

theorem findings_reflect_history:
  assumes "no_results s" "(results_step sh)\<^sup>*\<^sup>* s d"
  shows "(\<forall>f\<in>set (db_findings d).
      let F = set (fail_times (db_history d) (fd_resource_id f) (fd_control_id f));
          P = set (pass_times (db_history d) (fd_resource_id f) (fd_control_id f) None)
      in F \<noteq> {} \<and> fd_first_detected f = Min F \<and> fd_last_detected f = Max F \<and>
         (fd_status f = FS_RESOLVED) = (\<exists>p\<in>P. \<forall>t\<in>F. t < p) \<and>
         fd_resolved_at f = (if \<exists>p\<in>P. \<forall>t\<in>F. t < p then Some (Max P) else None)) \<and>
    (\<forall>a\<in>set (hs_assessments (db_history d)). ca_result a = FAIL \<longrightarrow>
      (\<exists>!f. f \<in> set (db_findings d) \<and> finding_target f = (ca_resource_id a, ca_control_id a)))"
    (is "(\<forall>f\<in>_. ?reflects f) \<and> ?covered")
proof
  have inv: "results_reflected sh d" using reachable_results assms by blast
  show "\<forall>f\<in>set (db_findings d). ?reflects f"
  proof
    fix f assume "f \<in> set (db_findings d)"
    then have "finding_reflects (db_history d) None f"
      using inv by (simp add: results_reflected_def Let_def list_all_iff)
    then show "?reflects f"
      unfolding finding_reflects_def Let_def closed_at_iff [symmetric]
      by (auto simp: closed_at_def)
  qed
  show ?covered using target_finding [OF inv] by blast
qed

theorem findings_reflect_history_witness:
  "\<exists>!f. f \<in> set (db_findings failed_then_passed) \<and> finding_target f = (10, 20)"
proof -
  have "list_ex (\<lambda>a. ca_result a = FAIL \<and> ca_resource_id a = 10 \<and> ca_control_id a = 20) (hs_assessments (db_history failed_then_passed))"
    by (simp add: failed_then_passed_def tx_defs demo_scan_defs persist_defs reconcile_defs)
  then obtain a where a: "a \<in> set (hs_assessments (db_history failed_then_passed))" "ca_result a = FAIL"
    "ca_resource_id a = 10" "ca_control_id a = 20"
    by (auto simp: list_ex_iff)
  from bspec [OF conjunct2 [OF findings_reflect_history [OF demo_no_results demo_orders(1)]] a(1)] show ?thesis
    using a(2-4) by simp
qed

text \<open>C16. The order in which scans arrive does not matter: two databases with the same evidence have
  findings for the same targets with the same detection times, the same resolution and the same
  resolution time.\<close>

theorem scan_order_is_irrelevant:
  assumes "no_results s" "(results_step sh)\<^sup>*\<^sup>* s d" "no_results s'" "(results_step sh')\<^sup>*\<^sup>* s' d'"
    and "evidence (db_history d) = evidence (db_history d')" "f \<in> set (db_findings d)"
  shows "\<exists>g\<in>set (db_findings d'). finding_target g = finding_target f \<and> fd_first_detected g = fd_first_detected f \<and>
    fd_last_detected g = fd_last_detected f \<and> fd_resolved_at g = fd_resolved_at f \<and>
    (fd_status g = FS_RESOLVED) = (fd_status f = FS_RESOLVED)"
proof -
  let ?h = "db_history d" and ?h' = "db_history d'" and ?r = "fd_resource_id f" and ?c = "fd_control_id f"
  have inv: "results_reflected sh d" "results_reflected sh' d'" using reachable_results assms by blast+
  note i = inv(1) [unfolded results_reflected_def Let_def] and i' = inv(2) [unfolded results_reflected_def Let_def]
  have F: "set (fail_times ?h rid cid) = set (fail_times ?h' rid cid)" for rid cid
    using i i' by (auto simp: fail_times_evidence assms(5))
  have P: "set (pass_times ?h rid cid None) = set (pass_times ?h' rid cid None)" for rid cid
    by (auto simp: pass_times_evidence assms(5))
  have f: "finding_reflects ?h None f" using i assms(6) by (auto simp: list_all_iff)
  then have "set (fail_times ?h' ?r ?c) \<noteq> {}" using F [of ?r ?c] by (auto simp: finding_reflects_def Let_def)
  then obtain t where "t \<in> set (fail_times ?h' ?r ?c)" by (metis ex_in_conv)
  then obtain a where a: "a \<in> set (hs_assessments ?h')" "ca_result a = FAIL" "on_target ?r ?c a"
    by (auto simp: fail_times_def List.map_filter_def)
  obtain g where g: "g \<in> set (db_findings d')" "finding_target g = (?r, ?c)"
    using ex1_implies_ex [OF target_finding [OF inv(2) a(1,2)]] a(3) by (auto simp: on_target_def)
  then have "finding_reflects ?h' None g" using i' by (auto simp: list_all_iff)
  then show ?thesis
    using f g F [of ?r ?c] closed_at_sets [OF F P, of ?r ?c ?r ?c]
    by (intro bexI [OF _ g(1)]) (auto simp: finding_reflects_def Let_def finding_target_def)
qed

theorem scan_order_is_irrelevant_witness:
  "\<exists>g\<in>set (db_findings passed_then_failed). fd_first_detected g = 5 \<and> fd_status g = FS_RESOLVED \<and> fd_resolved_at g = Some 7"
proof -
  have "evidence (db_history failed_then_passed) = evidence (db_history passed_then_failed)"
    by (simp add: evidence_def failed_then_passed_def passed_then_failed_def tx_defs demo_scan_defs persist_defs reconcile_defs insert_commute)
  moreover obtain f where "f \<in> set (db_findings failed_then_passed)" "fd_first_detected f = 5" "fd_status f = FS_RESOLVED"
    "fd_resolved_at f = Some 7"
    by (simp add: failed_then_passed_def tx_defs demo_scan_defs persist_defs reconcile_defs)
  ultimately show ?thesis
    using scan_order_is_irrelevant [OF demo_no_results demo_orders(1) demo_no_results demo_orders(2)] by metis
qed

text \<open>C32. A result is recorded once: repeating the same result changes nothing and succeeds, and the
  same scan with a different result is refused and changes nothing.\<close>

theorem result_recorded_once:
  assumes "results_reflected (sha env) d" "bundle_valid (db_history d) b"
    and "transact (persist_scan_result env b started completed version aty actor) d = (Inr u, d')"
    and "bn_scan_id b' = bn_scan_id b" "st \<le> bn_observed_at b'" "bn_observed_at b' \<le> ct" "\<not> blank v" "\<not> blank who"
  shows "transact (persist_scan_result env' b' (Aware st) (Aware ct) v aty' who) d' =
    (if bn_result_sha b' = bn_result_sha b then Inr ()
     else Inl (ValueErr ''scan ID already exists with different content''), d')"
proof -
  have "\<exists>s. find_row sc_id (bn_scan_id b) (hs_scans (db_history d')) = Some s \<and> sc_status s \<noteq> SC_RUNNING \<and>
      sc_result_sha s = Some (bn_result_sha b)"
    by (rule persist_ends [OF assms(1-3)])
  then show ?thesis
    using assms(4-8)
    by (auto simp: transact_def persist_scan_result_def bnd_def require_aware_def ret_def guard_def get_db_def initial_work_def)
qed

theorem result_recorded_once_witness:
  "transact (persist_scan_result (scan_env 5) (demo_bundle 2 5 FAIL) (Aware 0) (Aware 9) ''1'' ActorSystem ''x'')
     (snd (demo_persist 2 5 FAIL before_scans)) = (Inr (), snd (demo_persist 2 5 FAIL before_scans))"
proof -
  have "transact (persist_scan_result (scan_env 2) (demo_bundle 2 5 FAIL) (Aware 0) (Aware 99) ''1'' ActorSystem ''scanner'') before_scans =
      (Inr (), snd (demo_persist 2 5 FAIL before_scans))"
    using demo_first_run(1) by (simp add: demo_persist_def prod_eq_iff)
  from result_recorded_once [OF no_results_reflected [OF demo_no_results] demo_valid [OF demo_controls(1)] this,
      of "demo_bundle 2 5 FAIL" 0 9 "''1''" "''x''" "scan_env 5" ActorSystem]
  show ?thesis by (simp add: demo_bundle_def blank_def is_ws_def)
qed

end
