(* ===== verification/Results_History.thy ===== *)
theory Results_History
  imports Reconciliation_Contracts Service_History
begin

text \<open>
  The frame of scan persistence and governance: a relation that their few kinds of writes respect
  is respected by every call. Two instances: the workflow tables are never touched, which is what
  the remediation system assumes of the rest of the application, and the recorded history is only
  appended to.
\<close>

section \<open>Relations every scan and governance call respects\<close>

abbreviation map_history :: "(history \<Rightarrow> history) \<Rightarrow> db \<Rightarrow> db" where
  "map_history f d \<equiv> d\<lparr>db_history := f (db_history d)\<rparr>"

locale results_writes = act_frame R for R :: "db \<Rightarrow> db \<Rightarrow> bool" +
  assumes audit: "R d (d\<lparr>db_audits := db_audits d @ [a]\<rparr>)"
    and findings: "R d (d\<lparr>db_findings := fs\<rparr>)"
    and exceptions: "R d (d\<lparr>db_exceptions := xs\<rparr>)"
    and occurrence: "R d (map_history (\<lambda>h. h\<lparr>hs_occurrences := hs_occurrences h @ [oc]\<rparr>) d)"
    and resource: "R d (map_history (\<lambda>h. h\<lparr>hs_resources := hs_resources h @ [r]\<rparr>) d)"
    and snapshot: "R d (map_history (\<lambda>h. h\<lparr>hs_snapshots := hs_snapshots h @ [sn]\<rparr>) d)"
    and assessment: "R d (map_history (\<lambda>h. h\<lparr>hs_assessments := hs_assessments h @ [ca]\<rparr>) d)"
    and evidence_row: "R d (map_history (\<lambda>h. h\<lparr>hs_evidence := hs_evidence h @ [er]\<rparr>) d)"
    and scan: "R d (map_history (\<lambda>h. h\<lparr>hs_scans := hs_scans h @ [s]\<rparr>) d)"
    and scan_write: "(\<And>s. sc_id (f s) = sc_id s) \<Longrightarrow>
      R d (map_history (\<lambda>h. h\<lparr>hs_scans := modify_rows sc_id i f (hs_scans h)\<rparr>) d)"
    and graph: "R d (map_history (\<lambda>h. h\<lparr>hs_load_graph := g h\<rparr>) d)"
begin

lemma keeps_writes [intro]:
  "keeps (append_audit_event env ty tt tid at aty aid meta)" "keeps (set_finding i k)" "keeps (set_exception i x)"
  "keeps flush_findings"
  "keeps (change (\<lambda>d. d\<lparr>db_findings := p d\<rparr>))" "keeps (change (\<lambda>d. d\<lparr>db_exceptions := q d\<rparr>))"
  unfolding append_audit_event_def insert_audit_def set_finding_def set_exception_def flush_findings_def Let_def
  by (intro keeps_bnd keeps_pure keeps_change audit findings exceptions)+

lemma keeps_scan_writes [intro]:
  "(\<And>s. sc_id (k s) = sc_id s) \<Longrightarrow> keeps (set_scan i k)"
  "keeps (set_history (\<lambda>h. h\<lparr>hs_scans := hs_scans h @ [s]\<rparr>))"
  "keeps (set_history (\<lambda>h. h\<lparr>hs_load_graph := g h\<rparr>))"
  unfolding set_scan_def set_history_def
  by (intro keeps_bnd keeps_pure keeps_change scan_write scan graph; simp)+

lemmas results_intros = keeps_bnd keeps_pure keeps_branches keeps_for_each keeps_writes keeps_scan_writes

lemma keeps_reading: "keeps m \<Longrightarrow> (\<And>t. keeps (f t)) \<Longrightarrow> keeps (case r of Aware t \<Rightarrow> f t | Naive \<Rightarrow> m)"
  by (cases r) auto

lemma keeps_arguments [intro]:
  "keeps (require_aware r field)" "keeps (gov_text txt field m)" "keeps (lock_finding fid)" "keeps (lock_exception xid)"
  "keeps (lookup_key kvs k)" "keeps (validate_pending_scan s b st version)"
  unfolding require_aware_def gov_text_def lock_finding_def lock_exception_def lookup_key_def validate_pending_scan_def Let_def
  by (intro results_intros keeps_reading)+

lemma keeps_exceptions [intro]:
  "keeps (audit_exception env ty x rsn at aty actor)" "keeps (expire_exception env x at actor aty)"
  "keeps (expire_one env at actor xid)" "keeps (expire_all env at actor is)"
proof -
  show a: "keeps (audit_exception env ty x rsn at aty actor)" for env ty x rsn at aty actor
    unfolding audit_exception_def by (intro results_intros)
  show e: "keeps (expire_exception env x at actor aty)" for env x at actor aty
    unfolding expire_exception_def Let_def by (intro results_intros a)
  show o: "keeps (expire_one env at actor xid)" for xid
    unfolding expire_one_def by (intro results_intros keeps_arguments e)
  show "keeps (expire_all env at actor is)"
    by (induction "is") (auto intro: o)
qed

lemma keeps_governance:
  "keeps (create_finding_exception env fid rsn approved created expires)" "keeps (expire_exceptions env r actor)"
  "keeps (revoke_exception env xid r actor)" "keeps (set_finding_disposition env fid status r actor)"
  unfolding create_finding_exception_def expire_exceptions_def revoke_exception_def set_finding_disposition_def Let_def
  by (intro results_intros keeps_arguments keeps_exceptions)+

lemma keeps_reconcile [intro]:
  "keeps (insert_occurrence env f a observed)" "keeps (open_finding env c a fp observed aty actor)"
  "keeps (settle_finding env c a observed aty actor complete created f)"
  "keeps (reconcile_finding env c a observed aty actor complete)"
proof -
  show o: "keeps (insert_occurrence env f a observed)" for f
    unfolding insert_occurrence_def Let_def by (intro results_intros keeps_change occurrence)
  show n: "keeps (open_finding env c a fp observed aty actor)" for fp
    unfolding open_finding_def Let_def by (intro results_intros)
  show s: "keeps (settle_finding env c a observed aty actor complete created f)" for created f
    unfolding settle_finding_def Let_def by (intro results_intros o)
  show "keeps (reconcile_finding env c a observed aty actor complete)"
    unfolding reconcile_finding_def Let_def by (intro results_intros n s)
qed

lemma keeps_records [intro]:
  "keeps (ensure_resources env ts)" "keeps (add_resource_snapshot env sid observed ids t)"
  "keeps (insert_evidence aid e)" "keeps (record_assessments env b ids cs)"
proof -
  show "keeps (ensure_resources env ts)"
    by (induction ts) (auto simp: ensure_resource_def set_history_def Let_def intro!: results_intros keeps_change resource)
  show "keeps (add_resource_snapshot env sid observed ids t)"
    unfolding add_resource_snapshot_def set_history_def Let_def
    by (intro results_intros keeps_arguments keeps_change snapshot)
  show e: "keeps (insert_evidence aid e)" for aid e
    unfolding insert_evidence_def set_history_def Let_def by (intro results_intros keeps_change evidence_row)
  show "keeps (record_assessments env b ids cs)"
    by (induction cs) (auto simp: record_assessment_def set_history_def Let_def
        intro!: results_intros keeps_arguments keeps_change assessment e)
qed

lemma keeps_scans:
  "keeps (persist_scan_result env b st ct version aty actor)" "keeps (fail_pending_scan env sid ct code message aty actor)"
proof -
  have "keeps (record_result env b ct aty actor)" for ct
    unfolding record_result_def Let_def by (intro results_intros keeps_records keeps_reconcile) simp_all
  then show "keeps (persist_scan_result env b st ct version aty actor)"
    unfolding persist_scan_result_def by (intro results_intros keeps_arguments)
  show "keeps (fail_pending_scan env sid ct code message aty actor)"
    unfolding fail_pending_scan_def by (intro results_intros keeps_arguments) simp_all
qed

lemma governance_kept: "governance_call d d' \<Longrightarrow> R d d'"
  by (erule governance_call.cases) (auto intro: keeps_transact keeps_governance)

lemma step_kept: "results_step sh d d' \<Longrightarrow> R d d'"
  by (erule results_step.cases) (auto intro: keeps_transact keeps_scans governance_kept)

end

section \<open>The workflow tables\<close>

interpretation workflow_frame: act_frame application_step
  by unfold_locales (auto simp: application_step_def prefix_def)

interpretation workflow: results_writes application_step
  by unfold_locales (simp_all add: application_step_def)

section \<open>The recorded history\<close>

definition history_appended :: "db \<Rightarrow> db \<Rightarrow> bool" where
  "history_appended d d' =
     (let h = db_history d; h' = db_history d' in
      prefix (hs_assessments h) (hs_assessments h') \<and> prefix (hs_snapshots h) (hs_snapshots h') \<and>
      prefix (hs_evidence h) (hs_evidence h') \<and> prefix (hs_occurrences h) (hs_occurrences h') \<and>
      prefix (hs_resources h) (hs_resources h') \<and> prefix (map sc_id (hs_scans h)) (map sc_id (hs_scans h')) \<and>
      hs_controls h' = hs_controls h \<and> hs_versions h' = hs_versions h)"

interpretation appended_frame: act_frame history_appended
  by unfold_locales (auto simp: history_appended_def Let_def prefix_def)

interpretation appended: results_writes history_appended
  by unfold_locales (simp_all add: history_appended_def modify_rows_keys)

text \<open>C36. No recorded scan, failed scan or governance call touches the tables of the remediation
  workflow or rewrites an audit event, and none edits or removes an assessment, a snapshot, a piece
  of evidence, an occurrence or a resource.\<close>

theorem results_only_append:
  assumes "(results_step sh)\<^sup>*\<^sup>* d d'"
  shows "application_step d d' \<and> history_appended d d'"
  using assms
proof (induction rule: rtranclp_induct)
  case base
  show ?case by (simp add: workflow_frame.frame_refl appended_frame.frame_refl)
next
  case (step e e')
  then show ?case
    using workflow.step_kept [OF step(2)] appended.step_kept [OF step(2)] workflow_frame.frame_trans appended_frame.frame_trans
    by blast
qed

theorem results_only_append_witness:
  "application_step before_scans failed_then_passed \<and> history_appended before_scans failed_then_passed"
  by (rule results_only_append [OF demo_orders(1)])

end
