(* ===== verification/Ip_Network.thy ===== *)
theory Ip_Network
  imports Json
begin

text \<open>
  What the controls use of the standard library's \<open>ipaddress.ip_network(text, strict=False)\<close>:
  whether the text is a network, its version, prefix length and masked address. The address is
  an IPv4 dotted quad or an IPv6 text with \<open>::\<close>, an embedded IPv4 tail and a scope; the mask is a
  prefix length or, for IPv4, a netmask or a hostmask. Text is over the characters below 256.
\<close>

section \<open>Decimal numerals\<close>

fun decimal :: "nat \<Rightarrow> string" where
  "decimal n = (if n < 10 then [char_of (48 + n)] else decimal (n div 10) @ [char_of (48 + n mod 10)])"

declare decimal.simps [simp del]

definition ascii_digit :: "char \<Rightarrow> bool" where
  "ascii_digit c = (48 \<le> (of_char c :: nat) \<and> (of_char c :: nat) \<le> 57)"

definition digit_value :: "char \<Rightarrow> nat" where
  "digit_value c = of_char c - 48"

definition decimal_value :: "string \<Rightarrow> nat" where
  "decimal_value s = foldl (\<lambda>n c. 10 * n + digit_value c) 0 s"

lemma digit_chars [simp]:
  "char_of (48 :: nat) = CHR ''0''" "char_of (49 :: nat) = CHR ''1''" "char_of (50 :: nat) = CHR ''2''"
  "char_of (51 :: nat) = CHR ''3''" "char_of (52 :: nat) = CHR ''4''" "char_of (53 :: nat) = CHR ''5''"
  "char_of (54 :: nat) = CHR ''6''" "char_of (55 :: nat) = CHR ''7''" "char_of (56 :: nat) = CHR ''8''"
  "char_of (57 :: nat) = CHR ''9''"
  by code_simp+

lemma decimal_nonempty [simp]: "decimal n \<noteq> []"
  by (subst decimal.simps) simp

lemma ascii_digit_char_of: "n < 10 \<Longrightarrow> ascii_digit (char_of (48 + n :: nat))"
  by (simp add: ascii_digit_def)

lemma digit_value_char_of: "n < 10 \<Longrightarrow> digit_value (char_of (48 + n)) = n"
  by (simp add: digit_value_def)

lemma decimal_digits: "list_all ascii_digit (decimal n)"
proof (induction n rule: decimal.induct)
  case (1 n)
  then show ?case by (subst decimal.simps) (simp add: ascii_digit_char_of)
qed

lemma decimal_value_decimal [simp]: "decimal_value (decimal n) = n"
proof (induction n rule: decimal.induct)
  case (1 n)
  then show ?case
    by (subst decimal.simps) (auto simp: decimal_value_def digit_value_char_of)
qed

lemma decimal_inj: "decimal m = decimal n \<Longrightarrow> m = n"
  by (metis decimal_value_decimal)

text \<open>\<open>str(int)\<close>.\<close>

definition int_text :: "int \<Rightarrow> string" where
  "int_text i = (if i < 0 then ''-'' @ decimal (nat (- i)) else decimal (nat i))"

section \<open>IPv4\<close>

definition parse_octet :: "string \<Rightarrow> nat option" where
  "parse_octet s =
     (if s = [] \<or> \<not> list_all ascii_digit s \<or> length s > 3 \<or> (s \<noteq> ''0'' \<and> hd s = CHR ''0'') \<or>
         decimal_value s > 255
      then None else Some (decimal_value s))"

text \<open>Each part through the parser, None when one is refused.\<close>

fun all_parts :: "('a \<Rightarrow> 'b option) \<Rightarrow> 'a list \<Rightarrow> 'b list option" where
  "all_parts f [] = Some []"
| "all_parts f (x # xs) =
     (case f x of None \<Rightarrow> None
      | Some y \<Rightarrow> (case all_parts f xs of None \<Rightarrow> None | Some ys \<Rightarrow> Some (y # ys)))"

definition ipv4_int :: "string \<Rightarrow> nat option" where
  "ipv4_int s =
     (let octets = split_on (CHR ''.'') s
      in if s = [] \<or> length octets \<noteq> 4 then None
         else map_option (foldl (\<lambda>n b. 256 * n + b) 0) (all_parts parse_octet octets))"

text \<open>The prefix of a run of ones followed by zeros; \<open>int\<close> refuses more than 4300 digits.\<close>

fun trailing_zeros :: "nat \<Rightarrow> nat \<Rightarrow> nat" where
  "trailing_zeros 0 n = 0"
| "trailing_zeros (Suc w) n = (if odd n then 0 else Suc (trailing_zeros w (n div 2)))"

definition prefix_from_int :: "nat \<Rightarrow> nat \<Rightarrow> nat option" where
  "prefix_from_int w n =
     (let z = trailing_zeros w n; p = w - z
      in if n div 2 ^ z = 2 ^ p - 1 then Some p else None)"

definition prefix_from_text :: "nat \<Rightarrow> string \<Rightarrow> nat option" where
  "prefix_from_text w s =
     (if s = [] \<or> \<not> list_all ascii_digit s \<or> length s > 4300 \<or> decimal_value s > w
      then None else Some (decimal_value s))"

definition ipv4_mask :: "string \<Rightarrow> nat option" where
  "ipv4_mask s =
     (case prefix_from_text 32 s of
        Some p \<Rightarrow> Some p
      | None \<Rightarrow>
          (case ipv4_int s of
             None \<Rightarrow> None
           | Some n \<Rightarrow>
               (case prefix_from_int 32 n of
                  Some p \<Rightarrow> Some p
                | None \<Rightarrow> prefix_from_int 32 (2 ^ 32 - 1 - n))))"

text \<open>The address and the prefix length of a text with at most one slash.\<close>

definition ipv4_network :: "string \<Rightarrow> (nat \<times> nat) option" where
  "ipv4_network s =
     (case split_on (CHR ''/'') s of
        [a] \<Rightarrow> map_option (\<lambda>n. (n, 32)) (ipv4_int a)
      | [a, m] \<Rightarrow> (case (ipv4_int a, ipv4_mask m) of (Some n, Some p) \<Rightarrow> Some (n, p) | _ \<Rightarrow> None)
      | _ \<Rightarrow> None)"

section \<open>IPv6\<close>

definition hex_char :: "char \<Rightarrow> bool" where
  "hex_char c = (c \<in> set ''0123456789abcdefABCDEF'')"

definition hex_value :: "char \<Rightarrow> nat" where
  "hex_value c =
     (if ascii_digit c then digit_value c
      else if c \<in> set ''abcdef'' then of_char c - 87 else of_char c - 55)"

definition hextet :: "string \<Rightarrow> nat option" where
  "hextet s =
     (if s = [] \<or> \<not> list_all hex_char s \<or> length s > 4 then None
      else Some (foldl (\<lambda>n c. 16 * n + hex_value c) 0 s))"

text \<open>The scope after the first percent sign is not empty and has no further one.\<close>

definition split_scope :: "string \<Rightarrow> (string \<times> string option) option" where
  "split_scope s =
     (case split_on (CHR ''%'') s of
        [a] \<Rightarrow> Some (a, None)
      | [a, scope] \<Rightarrow> (if scope = [] then None else Some (a, Some scope))
      | _ \<Rightarrow> None)"

text \<open>An embedded IPv4 tail stands for two hextets.\<close>

definition ipv6_parts :: "string \<Rightarrow> string list option" where
  "ipv6_parts s =
     (let parts = split_on (CHR '':'') s
      in if s = [] \<or> length parts < 3 then None
         else if CHR ''.'' \<in> set (last parts)
         then map_option (\<lambda>n. butlast parts @ [hex_digits 4 (n div 65536), hex_digits 4 (n mod 65536)])
                (ipv4_int (last parts))
         else Some parts)"

text \<open>The hextets before and after the one empty part inside, where there is one.\<close>

definition ipv6_halves :: "string list \<Rightarrow> (string list \<times> string list) option" where
  "ipv6_halves parts =
     (case filter (\<lambda>i. parts ! i = []) [1..<length parts - 1] of
        [] \<Rightarrow> (if length parts = 8 then Some (parts, []) else None)
      | [k] \<Rightarrow>
          let hi = (if hd parts = [] then k - 1 else k);
              lo = (if last parts = [] then length parts - k - 2 else length parts - k - 1)
          in if (hd parts = [] \<and> hi \<noteq> 0) \<or> (last parts = [] \<and> lo \<noteq> 0) \<or> hi + lo > 7 then None
             else Some (take hi parts, drop (length parts - lo) parts)
      | _ \<Rightarrow> None)"

definition ipv6_int :: "string \<Rightarrow> nat option" where
  "ipv6_int s =
     (case ipv6_parts s of
        None \<Rightarrow> None
      | Some parts \<Rightarrow>
          if length parts > 9 then None
          else
            (case ipv6_halves parts of
               None \<Rightarrow> None
             | Some (hi, lo) \<Rightarrow>
                 (case (all_parts hextet hi, all_parts hextet lo) of
                    (Some hs, Some ls) \<Rightarrow>
                      Some (foldl (\<lambda>n h. 65536 * n + h) 0
                        (hs @ replicate (8 - length hs - length ls) 0 @ ls))
                  | _ \<Rightarrow> None)))"

definition ipv6_network :: "string \<Rightarrow> (nat \<times> string option \<times> nat) option" where
  "ipv6_network s =
     (let address = (\<lambda>a p. case split_scope a of
                              None \<Rightarrow> None
                            | Some (b, scope) \<Rightarrow> map_option (\<lambda>n. (n, scope, p)) (ipv6_int b))
      in case split_on (CHR ''/'') s of
           [a] \<Rightarrow> address a 128
         | [a, m] \<Rightarrow> (case prefix_from_text 128 m of Some p \<Rightarrow> address a p | None \<Rightarrow> None)
         | _ \<Rightarrow> None)"

section \<open>Networks\<close>

datatype ip_version = IPv4 | IPv6

record network =
  net_version :: ip_version
  net_prefix :: nat
  net_address :: nat
  net_scope :: "string option"

definition masked :: "nat \<Rightarrow> nat \<Rightarrow> nat \<Rightarrow> nat" where
  "masked w p n = n div 2 ^ (w - p) * 2 ^ (w - p)"

text \<open>A scope is lost when the mask changes the address.\<close>

definition ip_network :: "string \<Rightarrow> network option" where
  "ip_network s =
     (case ipv4_network s of
        Some (n, p) \<Rightarrow> Some \<lparr>net_version = IPv4, net_prefix = p, net_address = masked 32 p n, net_scope = None\<rparr>
      | None \<Rightarrow>
          map_option (\<lambda>(n, scope, p).
              let a = masked 128 p n
              in \<lparr>net_version = IPv6, net_prefix = p, net_address = a,
                  net_scope = (if a = n then scope else None)\<rparr>)
            (ipv6_network s))"

text \<open>\<open>str(network)\<close> of a network of prefix length 0, whose address is all zeros.\<close>

definition open_text :: "network \<Rightarrow> string" where
  "open_text n =
     (case net_version n of
        IPv4 \<Rightarrow> ''0.0.0.0/0''
      | IPv6 \<Rightarrow> ''::'' @ (case net_scope n of None \<Rightarrow> [] | Some sc \<Rightarrow> ''%'' @ sc) @ ''/0'')"

text \<open>A network of prefix length 0 holds every address of its version.\<close>

fun address_bits :: "ip_version \<Rightarrow> nat" where
  "address_bits IPv4 = 32"
| "address_bits IPv6 = 128"

definition net_contains :: "network \<Rightarrow> nat \<Rightarrow> bool" where
  "net_contains n a = (masked (address_bits (net_version n)) (net_prefix n) a = net_address n)"

lemmas ip_defs = ip_network_def ipv4_network_def ipv6_network_def ipv4_int_def ipv4_mask_def
  prefix_from_text_def prefix_from_int_def ipv6_int_def ipv6_parts_def ipv6_halves_def hextet_def
  split_scope_def parse_octet_def decimal_value_def digit_value_def ascii_digit_def hex_char_def
  hex_value_def masked_def

lemma prefix_from_text_bound: "prefix_from_text w s = Some p \<Longrightarrow> p \<le> w"
  by (auto simp: prefix_from_text_def split: if_splits)

lemma prefix_from_int_bound: "prefix_from_int w n = Some p \<Longrightarrow> p \<le> w"
  by (auto simp: prefix_from_int_def Let_def split: if_splits)

lemma ipv4_mask_bound: "ipv4_mask s = Some p \<Longrightarrow> p \<le> 32"
  by (auto simp: ipv4_mask_def split: option.splits
      dest: prefix_from_text_bound prefix_from_int_bound)

lemma all_parts_length: "all_parts f xs = Some ys \<Longrightarrow> length ys = length xs"
  by (induction xs arbitrary: ys) (auto split: option.splits)

lemma all_parts_in: "all_parts f xs = Some ys \<Longrightarrow> y \<in> set ys \<Longrightarrow> \<exists>x\<in>set xs. f x = Some y"
  by (induction xs arbitrary: ys) (auto split: option.splits)

lemma foldl_base_bound:
  "(\<And>x. x \<in> set xs \<Longrightarrow> x < b) \<Longrightarrow> n < m \<Longrightarrow> foldl (\<lambda>n x. b * n + x) n xs < b ^ length xs * (m :: nat)"
proof (induction xs arbitrary: n m)
  case Nil
  then show ?case by simp
next
  case (Cons x xs)
  have "b * n + x < b * m"
  proof -
    have "b * n + x < b * n + b" using Cons.prems(1) by simp
    also have "\<dots> = b * Suc n" by simp
    also have "\<dots> \<le> b * m" using Cons.prems(2) by (intro mult_le_mono2) simp
    finally show ?thesis .
  qed
  then have "foldl (\<lambda>n x. b * n + x) (b * n + x) xs < b ^ length xs * (b * m)"
    using Cons.IH Cons.prems(1) by simp
  then show ?case by (simp add: mult.assoc mult.left_commute)
qed

lemma ipv4_int_bound: "ipv4_int s = Some n \<Longrightarrow> n < 2 ^ 32"
proof -
  assume "ipv4_int s = Some n"
  then obtain bs where p: "all_parts parse_octet (split_on (CHR ''.'') s) = Some bs"
    "length (split_on (CHR ''.'') s) = 4" "n = foldl (\<lambda>n b. 256 * n + b) 0 bs"
    by (auto simp: ipv4_int_def Let_def split: if_splits)
  note b = p(1) all_parts_length [OF p(1), unfolded p(2)] p(3)
  have "x < 256" if "x \<in> set bs" for x
    using all_parts_in [OF b(1) that] by (auto simp: parse_octet_def split: if_splits)
  then have "n < 256 ^ length bs * 1" unfolding b(3) by (intro foldl_base_bound) auto
  then show "n < 2 ^ 32" by (simp add: b(2))
qed

lemma hextet_bound:
  assumes "hextet s = Some h"
  shows "h < 65536"
proof -
  have d: "list_all hex_char s" "length s \<le> 4" and h: "h = foldl (\<lambda>n c. 16 * n + hex_value c) 0 s"
    using assms by (simp_all add: hextet_def split: if_splits)
  have v: "hex_value c < 16" if "hex_char c" for c
  proof -
    have "list_all (\<lambda>c. hex_value c < 16) ''0123456789abcdefABCDEF''"
      by (simp add: hex_value_def ascii_digit_def digit_value_def)
    then show ?thesis using that by (simp only: hex_char_def list_all_iff)
  qed
  have f: "foldl (\<lambda>n c. 16 * n + hex_value c) k cs = foldl (\<lambda>n x. 16 * n + x) k (map hex_value cs)" for k cs
    by (induction cs arbitrary: k) auto
  have "h < 16 ^ length (map hex_value s) * 1" unfolding h f
    using d(1) v by (intro foldl_base_bound) (auto simp: list_all_iff)
  also have "\<dots> \<le> 16 ^ 4 * (1 :: nat)" using d(2) by (intro mult_le_mono power_increasing) auto
  finally show ?thesis by simp
qed

lemma ipv6_int_bound:
  assumes "ipv6_int s = Some n"
  shows "n < 2 ^ 128"
proof -
  obtain parts hi lo hs ls where p: "ipv6_halves parts = Some (hi, lo)"
    "all_parts hextet hi = Some hs" "all_parts hextet lo = Some ls"
    "n = foldl (\<lambda>n h. 65536 * n + h) 0 (hs @ replicate (8 - length hs - length ls) 0 @ ls)"
    using assms unfolding ipv6_int_def by (auto split: option.splits if_splits)
  have len: "length hi + length lo \<le> 8"
    using p(1) unfolding ipv6_halves_def by (auto simp: Let_def split: list.splits if_splits)
  let ?xs = "hs @ replicate (8 - length hs - length ls) 0 @ ls"
  have "x < 65536" if "x \<in> set ?xs" for x
    using that all_parts_in [OF p(2)] all_parts_in [OF p(3)] hextet_bound by fastforce
  then have "n < 65536 ^ length ?xs * 1" unfolding p(4) by (intro foldl_base_bound) auto
  moreover have "length ?xs = 8"
    using len all_parts_length [OF p(2)] all_parts_length [OF p(3)] by simp
  ultimately show ?thesis by simp
qed

lemma ipv4_network_prefix: "ipv4_network s = Some (n, p) \<Longrightarrow> p \<le> 32"
  unfolding ipv4_network_def by (auto split: list.splits option.splits dest: ipv4_mask_bound)

lemma ipv6_network_prefix: "ipv6_network s = Some (n, scope, p) \<Longrightarrow> p \<le> 128"
  unfolding ipv6_network_def Let_def
  by (auto split: list.splits option.splits prod.splits dest: prefix_from_text_bound)

lemma ip_network_prefix: "ip_network s = Some n \<Longrightarrow> net_prefix n \<le> address_bits (net_version n)"
proof (cases "ipv4_network s")
  case (Some q)
  moreover assume "ip_network s = Some n"
  ultimately show ?thesis using ipv4_network_prefix by (cases q) (auto simp: ip_network_def)
next
  case None
  moreover assume "ip_network s = Some n"
  ultimately show ?thesis
    using ipv6_network_prefix by (auto simp: ip_network_def Let_def split: prod.splits)
qed

text \<open>A network of prefix length 0 holds every address of its version, so it is open to all.\<close>

lemma ip_network_open:
  assumes "ip_network s = Some n" "net_prefix n = 0" "a < 2 ^ address_bits (net_version n)"
  shows "net_contains n a"
proof (cases "ipv4_network s")
  case (Some q)
  then obtain m p where q: "q = (m, p)" by (cases q)
  then have n: "net_version n = IPv4" "p = 0" "net_address n = masked 32 0 m"
    using assms(1,2) Some by (auto simp: ip_network_def)
  have "m < 2 ^ 32" using Some unfolding q ipv4_network_def
    by (auto split: list.splits option.splits dest: ipv4_int_bound)
  then show ?thesis using assms(2,3) n by (simp add: net_contains_def masked_def)
next
  case None
  then obtain m sc where m: "ipv6_network s = Some (m, sc, 0)" "net_version n = IPv6"
    "net_address n = masked 128 0 m"
    using assms(1,2) by (auto simp: ip_network_def Let_def)
  obtain b where "ipv6_int b = Some m" using m(1) unfolding ipv6_network_def Let_def
    by (auto split: list.splits option.splits prod.splits)
  then have "m < 2 ^ 128" by (rule ipv6_int_bound)
  then show ?thesis using assms(2,3) m by (simp add: net_contains_def masked_def)
qed

lemma numeral_steps:
  "hex_digits (numeral k) n = hex_digits (pred_numeral k) (n div 16) @ [hex_digit (n mod 16)]"
  "trailing_zeros (numeral k) n = (if odd n then 0 else Suc (trailing_zeros (pred_numeral k) (n div 2)))"
  "replicate (numeral k) x = x # replicate (pred_numeral k) x"
  using hex_digits.simps(2) [of "pred_numeral k" n] trailing_zeros.simps(2) [of "pred_numeral k" n]
    replicate.simps(2) [of "pred_numeral k" x]
  by (simp_all only: numeral_eq_Suc [symmetric])

lemma ip_network_examples:
  "map_option net_prefix (ip_network ''1.2.3.4/0.0.0.0'') = Some 0"
  "map_option net_prefix (ip_network ''2001:db8::1/64'') = Some 64"
  "map_option open_text (ip_network ''::%ab/0'') = Some ''::%ab/0''"
  "ip_network ''1::2::3/0'' = None"
  "ip_network ''01.2.3.4/8'' = None"
  "ip_network ''1.2.3.4/33'' = None"
  by (simp_all add: ip_defs open_text_def Let_def upt_rec numeral_steps hex_digit_def)

end
