(* ===== verification/Assessment_Models.thy ===== *)
theory Assessment_Models
  imports Scan_Persistence Ip_Network
begin

text \<open>
  app/schemas/resource.py, inventory.py and finding.py, app/assessment/models.py, identities.py
  and the checksum of profiles.py: normalized resources, the inventory snapshot, content-bound
  evidence artifacts and the four-state assessment candidate with their validators. Digests are
  the environment's; \<open>str_strip_whitespace\<close> strips every text field before it is checked.
\<close>

section \<open>Normalized resources\<close>

record resource =
  nr_account :: string
  nr_service :: string
  nr_type :: string
  nr_aws_id :: string
  nr_arn :: "string option"
  nr_name :: "string option"
  nr_scope :: resource_scope
  nr_region :: "string option"
  nr_tags :: "(string \<times> string) list"
  nr_configuration :: "(string \<times> json) list"
  nr_raw_configuration :: "(string \<times> json) list"

definition canonical_resource_scopes :: "((string \<times> string) \<times> resource_scope) list" where
  "canonical_resource_scopes =
     [((''access-analyzer'', ''access_analyzer_finding''), SCOPE_REGIONAL),
      ((''cloudtrail'', ''cloudtrail_trail''), SCOPE_REGIONAL),
      ((''ec2'', ''ebs_volume''), SCOPE_REGIONAL),
      ((''ec2'', ''ec2_instance''), SCOPE_REGIONAL),
      ((''ec2'', ''security_group''), SCOPE_REGIONAL),
      ((''ec2'', ''subnet''), SCOPE_REGIONAL),
      ((''ec2'', ''vpc''), SCOPE_REGIONAL),
      ((''ec2'', ''vpc_flow_log''), SCOPE_REGIONAL),
      ((''iam'', ''iam_access_key''), SCOPE_GLOBAL),
      ((''iam'', ''iam_aws_managed_policy''), SCOPE_GLOBAL),
      ((''iam'', ''iam_customer_managed_policy''), SCOPE_GLOBAL),
      ((''iam'', ''iam_group''), SCOPE_GLOBAL),
      ((''iam'', ''iam_inline_policy''), SCOPE_GLOBAL),
      ((''iam'', ''iam_managed_policy_version''), SCOPE_GLOBAL),
      ((''iam'', ''iam_mfa_device''), SCOPE_GLOBAL),
      ((''iam'', ''iam_role''), SCOPE_GLOBAL),
      ((''iam'', ''iam_user''), SCOPE_GLOBAL),
      ((''kms'', ''kms_key''), SCOPE_REGIONAL),
      ((''s3'', ''s3_bucket''), SCOPE_REGIONAL)]"

definition canonical_resource_scope :: "string \<Rightarrow> string \<Rightarrow> resource_scope option" where
  "canonical_resource_scope service rtype = map_of canonical_resource_scopes (service, rtype)"

definition separator_free :: "string \<Rightarrow> bool" where
  "separator_free s = (char_of (31 :: nat) \<notin> set s)"

text \<open>A regional target has a region that is not empty, a global one none at all.\<close>

definition scope_region_ok :: "resource_scope \<Rightarrow> string option \<Rightarrow> bool" where
  "scope_region_ok scope region =
     (case scope of
        SCOPE_REGIONAL \<Rightarrow> region \<noteq> None \<and> region \<noteq> Some []
      | SCOPE_GLOBAL \<Rightarrow> region = None)"

definition valid_resource :: "resource \<Rightarrow> bool" where
  "valid_resource r =
     ((account_pattern (nr_account r) \<or> nr_account r = ''aws'') \<and>
      nr_service r \<noteq> [] \<and> nr_type r \<noteq> [] \<and> nr_aws_id r \<noteq> [] \<and>
      separator_free (nr_service r) \<and> separator_free (nr_type r) \<and> separator_free (nr_aws_id r) \<and>
      (case nr_region r of None \<Rightarrow> True | Some s \<Rightarrow> separator_free s) \<and>
      scope_region_ok (nr_scope r) (nr_region r) \<and>
      ((nr_service r, nr_type r) = (''iam'', ''iam_aws_managed_policy'') \<longrightarrow> nr_account r = ''aws'') \<and>
      (nr_account r = ''aws'' \<longrightarrow>
         (nr_service r, nr_type r) \<in>
           {(''iam'', ''iam_aws_managed_policy''), (''iam'', ''iam_managed_policy_version'')}))"

type_synonym target_identity = "string \<times> string \<times> string \<times> string \<times> string \<times> string"

definition resource_identity :: "resource \<Rightarrow> target_identity" where
  "resource_identity r =
     (nr_account r, nr_service r, nr_type r, scope_text (nr_scope r), region_key (nr_region r), nr_aws_id r)"

section \<open>The inventory snapshot\<close>

record snapshot =
  iv_scan_id :: uuid
  iv_account :: string
  iv_region :: string
  iv_collected_at :: time
  iv_outcomes :: "(string \<times> collection_status) list"
  iv_resources :: "resource list"
  iv_graph :: "evidence_graph option"

definition snapshot_status :: "snapshot \<Rightarrow> string \<Rightarrow> collection_status option" where
  "snapshot_status s name = map_of (iv_outcomes s) name"

definition collector_succeeded :: "snapshot \<Rightarrow> string \<Rightarrow> bool" where
  "collector_succeeded s name = (snapshot_status s name = Some COL_SUCCEEDED)"

fun status_text :: "collection_status \<Rightarrow> string" where
  "status_text COL_SUCCEEDED = ''SUCCEEDED''"
| "status_text COL_FAILED = ''FAILED''"
| "status_text COL_PARTIAL = ''PARTIAL''"

text \<open>The resources of a family, in the order of their identity.\<close>

definition resources_of :: "snapshot \<Rightarrow> string \<Rightarrow> string \<Rightarrow> resource list" where
  "resources_of s service rtype =
     sort_key resource_identity
       (filter (\<lambda>r. nr_service r = service \<and> nr_type r = rtype) (iv_resources s))"

section \<open>Profiles\<close>

record profile =
  pr_id :: string
  pr_version :: string
  pr_controls :: "string list"
  pr_tags :: "string list"
  pr_stale_days :: int
  pr_cidrs :: "string list"
  pr_exceptions :: "string list"
  pr_kms :: bool

definition sorted_texts :: "string list \<Rightarrow> json" where
  "sorted_texts xs = JList (map JStr (sort xs))"

definition profile_content :: "profile \<Rightarrow> json" where
  "profile_content p =
     JObj [(''approved_management_cidrs'', sorted_texts (pr_cidrs p)),
           (''enabled_controls'', sorted_texts (pr_controls p)),
           (''profile_id'', JStr (pr_id p)),
           (''public_ec2_exceptions'', sorted_texts (pr_exceptions p)),
           (''required_tags'', sorted_texts (pr_tags p)),
           (''restricted_data_requires_kms'', JBool (pr_kms p)),
           (''stale_key_days'', JInt (pr_stale_days p)),
           (''version'', JStr (pr_version p))]"

definition json_digest :: "env \<Rightarrow> json \<Rightarrow> digest" where
  "json_digest env j = sha env (PayloadDoc (canon j))"

definition profile_checksum :: "env \<Rightarrow> profile \<Rightarrow> digest" where
  "profile_checksum env p = json_digest env (profile_content p)"

section \<open>Evidence artifacts\<close>

record artifact =
  ar_id :: uuid
  ar_snapshot_id :: uuid
  ar_scan_id :: uuid
  ar_control :: string
  ar_account :: string
  ar_service :: string
  ar_type :: string
  ar_aws_id :: string
  ar_arn :: "string option"
  ar_scope :: resource_scope
  ar_region :: "string option"
  ar_collector :: string
  ar_source :: string
  ar_source_api :: string
  ar_collected_at :: time
  ar_schema_name :: string
  ar_schema_version :: string
  ar_key :: string
  ar_payload :: json
  ar_sha :: digest

text \<open>The identifier binds the content and the provenance.\<close>

definition evidence_id :: "env \<Rightarrow> artifact \<Rightarrow> uuid" where
  "evidence_id env a =
     build_evidence_id env
       [uuid_text (ar_scan_id a), uuid_text (ar_snapshot_id a), ar_control a, ar_account a, ar_service a,
        ar_type a, scope_text (ar_scope a), region_key (ar_region a), ar_aws_id a,
        (case ar_arn a of None \<Rightarrow> [] | Some x \<Rightarrow> x), ar_collector a, ar_source a, ar_source_api a,
        iso_text (ar_collected_at a), ar_schema_name a, ar_schema_version a, ar_key a,
        json_digest env (ar_payload a)]"

definition verify_integrity :: "env \<Rightarrow> artifact \<Rightarrow> bool" where
  "verify_integrity env a =
     (ar_sha a \<noteq> [] \<and> ar_sha a = json_digest env (ar_payload a) \<and> ar_id a = evidence_id env a)"

text \<open>\<open>^[A-Z0-9]+-\d{3}$\<close>.\<close>

definition control_pattern :: "string \<Rightarrow> bool" where
  "control_pattern s =
     (let n = length s - 4
      in length s \<ge> 5 \<and> list_all (\<lambda>c. ascii_digit c \<or> c \<in> set ''ABCDEFGHIJKLMNOPQRSTUVWXYZ'') (take n s) \<and>
         s ! n = CHR ''-'' \<and> list_all ascii_digit (drop (Suc n) s))"

definition strip_artifact :: "artifact \<Rightarrow> artifact" where
  "strip_artifact a =
     a\<lparr>ar_control := trim_text (ar_control a), ar_account := trim_text (ar_account a),
       ar_service := trim_text (ar_service a), ar_type := trim_text (ar_type a),
       ar_aws_id := trim_text (ar_aws_id a), ar_arn := map_option trim_text (ar_arn a),
       ar_region := map_option trim_text (ar_region a), ar_collector := trim_text (ar_collector a),
       ar_source := trim_text (ar_source a), ar_source_api := trim_text (ar_source_api a),
       ar_schema_name := trim_text (ar_schema_name a), ar_schema_version := trim_text (ar_schema_version a),
       ar_key := trim_text (ar_key a), ar_sha := trim_text (ar_sha a)\<rparr>"

definition artifact_ok :: "env \<Rightarrow> artifact \<Rightarrow> bool" where
  "artifact_ok env a =
     (control_pattern (ar_control a) \<and>
      list_all (\<lambda>s. s \<noteq> []) [ar_account a, ar_service a, ar_type a, ar_aws_id a, ar_collector a, ar_source a,
        ar_source_api a, ar_schema_name a, ar_schema_version a, ar_key a] \<and>
      sha256_pattern (ar_sha a) \<and> scope_region_ok (ar_scope a) (ar_region a) \<and>
      ar_sha a = json_digest env (ar_payload a) \<and> ar_id a = evidence_id env a)"

definition make_artifact :: "env \<Rightarrow> artifact \<Rightarrow> artifact option" where
  "make_artifact env a = (let b = strip_artifact a in if artifact_ok env b then Some b else None)"

text \<open>\<open>for_assessment\<close>: the digest and the identifier of the given content, then the validators.\<close>

definition for_assessment :: "env \<Rightarrow> artifact \<Rightarrow> artifact option" where
  "for_assessment env a =
     (let b = a\<lparr>ar_sha := json_digest env (ar_payload a)\<rparr>
      in make_artifact env (b\<lparr>ar_id := evidence_id env b\<rparr>))"

section \<open>Assessment candidates\<close>

record assessment =
  ac_control :: string
  ac_result :: assessment_result
  ac_profile_id :: string
  ac_profile_version :: string
  ac_profile_sha :: digest
  ac_scan_id :: uuid
  ac_snapshot_id :: uuid
  ac_inventory_sha :: "digest option"
  ac_catalog_sha :: "digest option"
  ac_account :: string
  ac_service :: string
  ac_type :: string
  ac_aws_id :: string
  ac_arn :: "string option"
  ac_name :: "string option"
  ac_scope :: resource_scope
  ac_region :: "string option"
  ac_artifacts :: "artifact list"
  ac_missing :: "string list"
  ac_reason :: string

definition strip_assessment :: "assessment \<Rightarrow> assessment" where
  "strip_assessment c =
     c\<lparr>ac_control := trim_text (ac_control c), ac_profile_id := trim_text (ac_profile_id c),
       ac_profile_version := trim_text (ac_profile_version c), ac_profile_sha := trim_text (ac_profile_sha c),
       ac_account := trim_text (ac_account c), ac_service := trim_text (ac_service c),
       ac_type := trim_text (ac_type c), ac_aws_id := trim_text (ac_aws_id c),
       ac_arn := map_option trim_text (ac_arn c), ac_name := map_option trim_text (ac_name c),
       ac_region := map_option trim_text (ac_region c), ac_missing := map trim_text (ac_missing c),
       ac_reason := trim_text (ac_reason c)\<rparr>"

text \<open>An artifact of the candidate is intact and names the candidate's control, scan and target.\<close>

definition artifact_matches :: "env \<Rightarrow> assessment \<Rightarrow> artifact \<Rightarrow> bool" where
  "artifact_matches env c a =
     (verify_integrity env a \<and> ar_control a = ac_control c \<and> ar_scan_id a = ac_scan_id c \<and>
      ar_snapshot_id a = ac_snapshot_id c \<and> ar_account a = ac_account c \<and> ar_service a = ac_service c \<and>
      ar_type a = ac_type c \<and> ar_aws_id a = ac_aws_id c \<and> ar_arn a = ac_arn c \<and>
      ar_scope a = ac_scope c \<and> ar_region a = ac_region c)"

definition result_evidence_ok :: "assessment \<Rightarrow> bool" where
  "result_evidence_ok c =
     ((if ac_result c = INSUFFICIENT_EVIDENCE then ac_missing c \<noteq> [] else ac_missing c = []) \<and>
      (ac_result c \<in> {PASS, FAIL} \<longrightarrow> ac_artifacts c \<noteq> []) \<and>
      (ac_result c = NOT_APPLICABLE \<longrightarrow> ac_artifacts c = []))"

definition assessment_ok :: "env \<Rightarrow> assessment \<Rightarrow> bool" where
  "assessment_ok env c =
     (control_pattern (ac_control c) \<and> sha256_pattern (ac_profile_sha c) \<and>
      list_all (\<lambda>s. s \<noteq> []) ([ac_profile_id c, ac_profile_version c, ac_account c, ac_service c, ac_type c,
        ac_aws_id c, ac_reason c] @ ac_missing c) \<and>
      scope_region_ok (ac_scope c) (ac_region c) \<and> distinct (ac_missing c) \<and>
      distinct (map ar_id (ac_artifacts c)) \<and> list_all (artifact_matches env c) (ac_artifacts c) \<and>
      result_evidence_ok c)"

definition make_assessment :: "env \<Rightarrow> assessment \<Rightarrow> assessment option" where
  "make_assessment env c = (let d = strip_assessment c in if assessment_ok env d then Some d else None)"

definition assessment_identity :: "assessment \<Rightarrow> string \<times> target_identity" where
  "assessment_identity c =
     (ac_control c, ac_account c, ac_service c, ac_type c, scope_text (ac_scope c),
      region_key (ac_region c), ac_aws_id c)"

section \<open>Finding candidates\<close>

datatype severity = CRITICAL | HIGH | MEDIUM | LOW | INFO

datatype control_category = CAT_NETWORK | CAT_STORAGE | CAT_IDENTITY | CAT_LOGGING | CAT_GOVERNANCE

record finding =
  fc_control :: string
  fc_title :: string
  fc_category :: control_category
  fc_severity :: severity
  fc_account :: string
  fc_service :: string
  fc_type :: string
  fc_aws_id :: string
  fc_arn :: "string option"
  fc_name :: "string option"
  fc_scope :: resource_scope
  fc_region :: "string option"
  fc_evidence :: json
  fc_impact :: string
  fc_recommendation :: string

definition finding_ok :: "finding \<Rightarrow> bool" where
  "finding_ok f =
     (control_pattern (fc_control f) \<and>
      list_all (\<lambda>s. s \<noteq> []) [fc_title f, fc_account f, fc_service f, fc_type f, fc_aws_id f, fc_impact f,
        fc_recommendation f] \<and>
      scope_region_ok (fc_scope f) (fc_region f))"

definition make_finding :: "finding \<Rightarrow> finding option" where
  "make_finding f = (if finding_ok f then Some f else None)"

definition finding_identity :: "finding \<Rightarrow> string \<times> target_identity" where
  "finding_identity f =
     (fc_control f, fc_account f, fc_service f, fc_type f, scope_text (fc_scope f),
      region_key (fc_region f), fc_aws_id f)"

section \<open>Facts\<close>

text \<open>An artifact that the constructor returns is valid and intact.\<close>

lemma make_artifact_ok: "make_artifact env a = Some b \<Longrightarrow> artifact_ok env b"
  by (auto simp: make_artifact_def Let_def split: if_splits)

lemma artifact_ok_integrity: "artifact_ok env a \<Longrightarrow> verify_integrity env a"
  by (auto simp: artifact_ok_def verify_integrity_def sha256_pattern_def)

lemma for_assessment_ok: "for_assessment env a = Some b \<Longrightarrow> artifact_ok env b"
  unfolding for_assessment_def Let_def by (rule make_artifact_ok)

lemma make_assessment_ok: "make_assessment env c = Some d \<Longrightarrow> assessment_ok env d \<and> d = strip_assessment c"
  by (auto simp: make_assessment_def Let_def split: if_splits)

lemma sort_key_filter_id [simp]:
  "set (resources_of s service rtype) =
     {r \<in> set (iv_resources s). nr_service r = service \<and> nr_type r = rtype}"
  by (auto simp: resources_of_def)

lemma strip_artifact_simps [simp]:
  "ar_id (strip_artifact a) = ar_id a" "ar_payload (strip_artifact a) = ar_payload a"
  "ar_scan_id (strip_artifact a) = ar_scan_id a" "ar_snapshot_id (strip_artifact a) = ar_snapshot_id a"
  "ar_scope (strip_artifact a) = ar_scope a" "ar_collected_at (strip_artifact a) = ar_collected_at a"
  by (simp_all add: strip_artifact_def)

lemma strip_assessment_simps [simp]:
  "ac_result (strip_assessment c) = ac_result c" "ac_artifacts (strip_assessment c) = ac_artifacts c"
  "ac_scan_id (strip_assessment c) = ac_scan_id c" "ac_snapshot_id (strip_assessment c) = ac_snapshot_id c"
  "ac_scope (strip_assessment c) = ac_scope c"
  "ac_inventory_sha (strip_assessment c) = ac_inventory_sha c"
  "ac_catalog_sha (strip_assessment c) = ac_catalog_sha c"
  by (simp_all add: strip_assessment_def)

end
