(* ===== verification/Rule_Base.thy ===== *)
theory Rule_Base
  imports Assessment_Models
begin

text \<open>
  app/rules/base.py: the builders that every control uses, the exceptions of rules and of the
  engine, and the interface between a control's verdict on one resource and its two entry points,
  \<open>assess\<close> (four states) and the legacy \<open>evaluate\<close> (failures only, raising on gaps).
\<close>

section \<open>Rules and their exceptions\<close>

text \<open>
  RuleEvaluationError carries the control, the resource and the fact path; UnhashableError is the
  TypeError of a set lookup with a list or an object. IncompleteEvidence is the evidence reader's
  IncompleteAssessmentEvidence, MissingKey a KeyError of its indexes, MissingIndex an IndexError of a
  tuple of a contract.
\<close>

datatype rule_exn =
    RuleEvaluationError string string string
  | RuleContractError string
  | ValidationError
  | UnhashableError
  | UnknownControl
  | IncompleteEvidence
  | MissingKey
  | MissingIndex

record rule_info =
  rl_control :: string
  rl_title :: string
  rl_category :: control_category
  rl_severity :: severity
  rl_impact :: string
  rl_recommendation :: string

definition valid_info :: "rule_info \<Rightarrow> bool" where
  "valid_info i =
     (control_pattern (rl_control i) \<and> rl_title i \<noteq> [] \<and> rl_impact i \<noteq> [] \<and> rl_recommendation i \<noteq> [])"

text \<open>What a rule says of one target: result, evidence, missing facts and reason.\<close>

type_synonym verdict = "assessment_result \<times> json option \<times> string list \<times> string"

definition lift_validation :: "'a option \<Rightarrow> rule_exn + 'a" where
  "lift_validation m = (case m of None \<Rightarrow> Inl ValidationError | Some a \<Rightarrow> Inr a)"

lemma lift_validation_Inr [simp]: "lift_validation m = Inr a \<longleftrightarrow> m = Some a"
  by (auto simp: lift_validation_def split: option.splits)

section \<open>Builders\<close>

definition lower_ascii :: "string \<Rightarrow> string" where
  "lower_ascii s =
     map (\<lambda>c. if 65 \<le> (of_char c :: nat) \<and> (of_char c :: nat) \<le> 90 then char_of ((of_char c :: nat) + 32) else c) s"

definition snapshot_id_of :: "env \<Rightarrow> snapshot \<Rightarrow> resource \<Rightarrow> uuid" where
  "snapshot_id_of env s t =
     resource_snapshot_id env (iv_scan_id s) (nr_account t) (nr_service t) (nr_type t) (nr_scope t)
       (case nr_region t of None \<Rightarrow> [] | Some r \<Rightarrow> r) (nr_aws_id t)"

definition target_artifact ::
    "env \<Rightarrow> rule_info \<Rightarrow> snapshot \<Rightarrow> string \<Rightarrow> string \<Rightarrow> resource \<Rightarrow> json \<Rightarrow> artifact" where
  "target_artifact env i s collector api t payload =
     \<lparr>ar_id = 0, ar_snapshot_id = snapshot_id_of env s t, ar_scan_id = iv_scan_id s,
      ar_control = rl_control i, ar_account = nr_account t, ar_service = nr_service t, ar_type = nr_type t,
      ar_aws_id = nr_aws_id t, ar_arn = nr_arn t, ar_scope = nr_scope t, ar_region = nr_region t,
      ar_collector = collector, ar_source = ''normalized-inventory'', ar_source_api = api,
      ar_collected_at = iv_collected_at s,
      ar_schema_name = ''control.'' @ lower_ascii (rl_control i) @ ''.evidence'',
      ar_schema_version = ''1.0.0'', ar_key = ''primary'', ar_payload = payload, ar_sha = []\<rparr>"

definition target_assessment ::
    "env \<Rightarrow> rule_info \<Rightarrow> snapshot \<Rightarrow> profile \<Rightarrow> resource \<Rightarrow> artifact list \<Rightarrow> verdict \<Rightarrow> assessment" where
  "target_assessment env i s p t artifacts v =
     (case v of (result, _, missing, reason) \<Rightarrow>
        \<lparr>ac_control = rl_control i, ac_result = result, ac_profile_id = pr_id p,
         ac_profile_version = pr_version p, ac_profile_sha = profile_checksum env p,
         ac_scan_id = iv_scan_id s, ac_snapshot_id = snapshot_id_of env s t, ac_inventory_sha = None,
         ac_catalog_sha = None, ac_account = nr_account t, ac_service = nr_service t, ac_type = nr_type t,
         ac_aws_id = nr_aws_id t, ac_arn = nr_arn t, ac_name = nr_name t, ac_scope = nr_scope t,
         ac_region = nr_region t, ac_artifacts = artifacts, ac_missing = missing, ac_reason = reason\<rparr>)"

text \<open>\<open>assessment_for_target\<close>; the target carries what \<open>assessment_for_resource\<close> passes on.\<close>

definition assessment_for_target ::
    "env \<Rightarrow> rule_info \<Rightarrow> snapshot \<Rightarrow> profile \<Rightarrow> string \<Rightarrow> string \<Rightarrow> resource \<Rightarrow> verdict \<Rightarrow> rule_exn + assessment" where
  "assessment_for_target env i s p collector api t v =
     res_bind
       (case v of
          (_, None, _, _) \<Rightarrow> Inr []
        | (_, Some payload, _, _) \<Rightarrow>
            res_bind (lift_validation (for_assessment env (target_artifact env i s collector api t payload)))
              (\<lambda>a. Inr [a]))
       (\<lambda>artifacts. lift_validation (make_assessment env (target_assessment env i s p t artifacts v)))"

definition account_resource :: "snapshot \<Rightarrow> string \<Rightarrow> resource" where
  "account_resource s service =
     \<lparr>nr_account = iv_account s, nr_service = service, nr_type = ''aws_account'', nr_aws_id = iv_account s,
      nr_arn = None, nr_name = Some (iv_account s), nr_scope = SCOPE_GLOBAL, nr_region = None, nr_tags = [],
      nr_configuration = [], nr_raw_configuration = []\<rparr>"

definition assessment_for_account ::
    "env \<Rightarrow> rule_info \<Rightarrow> snapshot \<Rightarrow> profile \<Rightarrow> string \<Rightarrow> string \<Rightarrow> string \<Rightarrow> verdict \<Rightarrow> rule_exn + assessment" where
  "assessment_for_account env i s p service collector api v =
     assessment_for_target env i s p collector api (account_resource s service) v"

definition success_path :: "string \<Rightarrow> string" where
  "success_path collector = ''collector_outcomes.'' @ collector @ ''.SUCCEEDED''"

definition unavailable_collector ::
    "env \<Rightarrow> rule_info \<Rightarrow> snapshot \<Rightarrow> profile \<Rightarrow> string \<Rightarrow> string \<Rightarrow> string \<Rightarrow> rule_exn + assessment" where
  "unavailable_collector env i s p collector service api =
     (let label = (case snapshot_status s collector of None \<Rightarrow> ''NOT_REQUESTED'' | Some st \<Rightarrow> status_text st)
      in assessment_for_account env i s p service collector api
           (INSUFFICIENT_EVIDENCE, None, [success_path collector],
            ''Collector '' @ collector @ '' did not succeed (status='' @ label @ '').''))"

definition require_collector_success :: "rule_info \<Rightarrow> snapshot \<Rightarrow> string \<Rightarrow> rule_exn + unit" where
  "require_collector_success i s collector =
     (if collector_succeeded s collector then Inr ()
      else Inl (RuleEvaluationError (rl_control i) (iv_account s) (success_path collector)))"

definition finding_for_target :: "rule_info \<Rightarrow> resource \<Rightarrow> json \<Rightarrow> rule_exn + finding" where
  "finding_for_target i t evidence =
     lift_validation (make_finding
       \<lparr>fc_control = rl_control i, fc_title = rl_title i, fc_category = rl_category i,
        fc_severity = rl_severity i, fc_account = nr_account t, fc_service = nr_service t,
        fc_type = nr_type t, fc_aws_id = nr_aws_id t, fc_arn = nr_arn t, fc_name = nr_name t,
        fc_scope = nr_scope t, fc_region = nr_region t, fc_evidence = evidence,
        fc_impact = rl_impact i, fc_recommendation = rl_recommendation i\<rparr>)"

definition finding_for_account :: "rule_info \<Rightarrow> snapshot \<Rightarrow> string \<Rightarrow> json \<Rightarrow> rule_exn + finding" where
  "finding_for_account i s service evidence = finding_for_target i (account_resource s service) evidence"

section \<open>Rules over each resource of a family\<close>

text \<open>
  The loops the resource controls share. \<open>assess_each\<close>: one assessment per resource in the order
  of identity, one NOT_APPLICABLE for an empty family. \<open>evaluate_each\<close>: the first resource whose
  facts are invalid raises, a failing one gives a finding with its evidence.
\<close>

definition assess_each ::
    "env \<Rightarrow> rule_info \<Rightarrow> snapshot \<Rightarrow> profile \<Rightarrow> string \<Rightarrow> string \<Rightarrow> string \<Rightarrow> string \<Rightarrow>
     (resource \<Rightarrow> rule_exn + verdict) \<Rightarrow> resource list \<Rightarrow> rule_exn + assessment list" where
  "assess_each env i s p service collector api empty_reason check rs =
     (if rs = [] then
        res_bind (assessment_for_account env i s p service collector api
                    (NOT_APPLICABLE, None, [], empty_reason))
          (\<lambda>c. Inr [c])
      else res_map (\<lambda>r. res_bind (check r) (assessment_for_target env i s p collector api r)) rs)"

definition evaluate_one ::
    "rule_info \<Rightarrow> (resource \<Rightarrow> rule_exn + json option) \<Rightarrow> resource \<Rightarrow> rule_exn + finding list" where
  "evaluate_one i judge r =
     res_bind (judge r) (\<lambda>v.
     case v of
       None \<Rightarrow> Inr []
     | Some evidence \<Rightarrow> res_bind (finding_for_target i r evidence) (\<lambda>f. Inr [f]))"

definition evaluate_each ::
    "rule_info \<Rightarrow> (resource \<Rightarrow> rule_exn + json option) \<Rightarrow> resource list \<Rightarrow> rule_exn + finding list" where
  "evaluate_each i judge rs =
     res_bind (res_map (evaluate_one i judge) rs) (\<lambda>fss. Inr (concat fss))"

definition fact_error :: "rule_info \<Rightarrow> resource \<Rightarrow> string \<Rightarrow> rule_exn" where
  "fact_error i r path = RuleEvaluationError (rl_control i) (nr_aws_id r) path"

end
