(* ===== verification/Rules_Network.thy ===== *)
theory Rules_Network
  imports Rule_Base "HOL-Library.AList"
begin

text \<open>
  app/rules/network.py: NET-001 and NET-002, security groups that open an administrative TCP port
  to a network of prefix length 0. Matches are deduplicated by their identity and sorted.
\<close>

section \<open>Facts of one permission\<close>

text \<open>Case folding below U+0100; the micro sign, whose image lies outside, is left as it is.\<close>

definition casefold :: "string \<Rightarrow> string" where
  "casefold s =
     concat (map (\<lambda>c. let n = of_char c :: nat
                      in if 65 \<le> n \<and> n \<le> 90 \<or> 192 \<le> n \<and> n \<le> 222 \<and> n \<noteq> 215 then [char_of (n + 32)]
                         else if n = 223 then ''ss'' else [c]) s)"

definition required_list :: "string \<Rightarrow> (string \<times> json) list \<Rightarrow> string \<Rightarrow> string + json list" where
  "required_list base kvs key =
     (case obj_get key kvs of JList xs \<Rightarrow> Inr xs | _ \<Rightarrow> Inl (base @ ''.'' @ key))"

definition required_port :: "json \<Rightarrow> string \<Rightarrow> string + int" where
  "required_port v path =
     (case v of JInt i \<Rightarrow> (if 0 \<le> i \<and> i \<le> 65535 then Inr i else Inl path) | _ \<Rightarrow> Inl path)"

definition optional_port :: "json \<Rightarrow> string \<Rightarrow> string + int option" where
  "optional_port v path =
     (case v of JNull \<Rightarrow> Inr None | _ \<Rightarrow> res_bind (required_port v path) (\<lambda>i. Inr (Some i)))"

text \<open>Protocol, ports and, where the target port is covered, the coverage.\<close>

type_synonym coverage = "string \<times> int option \<times> int option \<times> string option"

definition port_coverage :: "int \<Rightarrow> string \<Rightarrow> (string \<times> json) list \<Rightarrow> string + coverage" where
  "port_coverage target path rule =
     (case obj_get ''protocol'' rule of
        JStr raw \<Rightarrow>
          if blank raw then Inl (path @ ''.protocol'')
          else
            (let protocol = casefold raw; f = obj_get ''from_port'' rule; t = obj_get ''to_port'' rule
             in if protocol = ''-1'' \<or> protocol = ''6''
                then res_bind (optional_port f (path @ ''.from_port'')) (\<lambda>a.
                     res_bind (optional_port t (path @ ''.to_port'')) (\<lambda>b.
                     Inr (protocol, a, b, Some ''all_ports'')))
                else if protocol \<noteq> ''tcp'' then Inr (protocol, None, None, None)
                else res_bind (required_port f (path @ ''.from_port'')) (\<lambda>a.
                     res_bind (required_port t (path @ ''.to_port'')) (\<lambda>b.
                     if a > b then Inl (path @ ''.port_range'')
                     else if a \<le> target \<and> target \<le> b
                     then Inr (protocol, Some a, Some b, Some (int_text a @ ''-'' @ int_text b))
                     else Inr (protocol, Some a, Some b, None))))
      | _ \<Rightarrow> Inl (path @ ''.protocol''))"

section \<open>Matches\<close>

record ingress_match =
  im_protocol :: string
  im_from :: "int option"
  im_to :: "int option"
  im_coverage :: string
  im_source :: string
  im_cidr :: string
  im_description :: "string option"

type_synonym match_key = "string \<times> string \<times> string \<times> int option \<times> int option \<times> string"

definition match_identity :: "ingress_match \<Rightarrow> match_key" where
  "match_identity m =
     (im_source m, im_cidr m, im_protocol m, im_from m, im_to m,
      case im_description m of None \<Rightarrow> [] | Some d \<Rightarrow> d)"

definition port_text :: "int option \<Rightarrow> string" where
  "port_text p = (case p of None \<Rightarrow> [] | Some i \<Rightarrow> int_text i)"

definition match_sort_key :: "match_key \<Rightarrow> string list" where
  "match_sort_key k =
     (case k of (source, cidr, protocol, f, t, description) \<Rightarrow>
        [source, cidr, protocol, port_text f, port_text t, description])"

definition json_port :: "int option \<Rightarrow> json" where
  "json_port p = (case p of None \<Rightarrow> JNull | Some i \<Rightarrow> JInt i)"

definition json_text :: "string option \<Rightarrow> json" where
  "json_text t = (case t of None \<Rightarrow> JNull | Some s \<Rightarrow> JStr s)"

definition match_json :: "ingress_match \<Rightarrow> json" where
  "match_json m =
     JObj [(''protocol'', JStr (im_protocol m)), (''from_port'', json_port (im_from m)),
           (''to_port'', json_port (im_to m)), (''effective_port_coverage'', JStr (im_coverage m)),
           (''source_type'', JStr (im_source m)), (''cidr'', JStr (im_cidr m)),
           (''description'', json_text (im_description m))]"

text \<open>The dict of matches by identity, as the list of its items.\<close>

type_synonym match_table = "(match_key \<times> ingress_match) list"

definition range_step ::
    "string \<Rightarrow> string \<Rightarrow> ip_version \<Rightarrow> string \<times> int option \<times> int option \<times> string \<Rightarrow> nat \<times> json \<Rightarrow>
     match_table \<Rightarrow> string + match_table" where
  "range_step path source version cov entry tab =
     (case (entry, cov) of ((n, raw), (protocol, f, t, covered)) \<Rightarrow>
        let here = path @ ''['' @ decimal n @ '']''
        in case raw of
             JObj kvs \<Rightarrow>
               (case obj_get ''cidr'' kvs of
                  JStr text \<Rightarrow>
                    (case ip_network text of
                       None \<Rightarrow> Inl (here @ ''.cidr'')
                     | Some net \<Rightarrow>
                         if net_version net \<noteq> version then Inl (here @ ''.cidr'')
                         else if net_prefix net \<noteq> 0 then Inr tab
                         else
                           (let add = (\<lambda>d. let m = \<lparr>im_protocol = protocol, im_from = f, im_to = t,
                                                     im_coverage = covered, im_source = source,
                                                     im_cidr = open_text net, im_description = d\<rparr>
                                           in Inr (AList.update (match_identity m) m tab))
                            in case obj_get ''description'' kvs of
                                 JNull \<Rightarrow> add None
                               | JStr d \<Rightarrow> add (Some d)
                               | _ \<Rightarrow> Inl (here @ ''.description'')))
                | _ \<Rightarrow> Inl (here @ ''.cidr''))
           | _ \<Rightarrow> Inl here)"

definition ranges_step ::
    "string \<Rightarrow> (string \<times> json) list \<Rightarrow> string \<times> int option \<times> int option \<times> string \<Rightarrow>
     string \<times> string \<times> ip_version \<Rightarrow> match_table \<Rightarrow> string + match_table" where
  "ranges_step path rule cov family tab =
     (case family of (source, name, version) \<Rightarrow>
        res_bind (required_list path rule name) (\<lambda>ranges.
        res_fold (range_step (path @ ''.'' @ name) source version cov) (enumerate 0 ranges) tab))"

definition address_families :: "(string \<times> string \<times> ip_version) list" where
  "address_families = [(''ipv4'', ''ipv4_ranges'', IPv4), (''ipv6'', ''ipv6_ranges'', IPv6)]"

definition ingress_path :: "nat \<Rightarrow> string" where
  "ingress_path n = ''configuration.ingress_rules['' @ decimal n @ '']''"

definition permission_step :: "int \<Rightarrow> nat \<times> json \<Rightarrow> match_table \<Rightarrow> string + match_table" where
  "permission_step target entry tab =
     (case entry of (n, raw) \<Rightarrow>
        let path = ingress_path n
        in case raw of
             JObj rule \<Rightarrow>
               res_bind (port_coverage target path rule) (\<lambda>(protocol, f, t, covered).
               case covered of
                 None \<Rightarrow> Inr tab
               | Some c \<Rightarrow> res_fold (ranges_step path rule (protocol, f, t, c)) address_families tab)
           | _ \<Rightarrow> Inl path)"

definition matching_ingress :: "int \<Rightarrow> resource \<Rightarrow> string + ingress_match list" where
  "matching_ingress target r =
     res_bind (required_list ''configuration'' (nr_configuration r) ''ingress_rules'') (\<lambda>rules.
     res_bind (res_fold (permission_step target) (enumerate 0 rules) []) (\<lambda>tab.
     Inr (map snd (sort_key (match_sort_key \<circ> fst) tab))))"

section \<open>The two controls\<close>

definition group_evidence :: "int \<Rightarrow> resource \<Rightarrow> ingress_match list \<Rightarrow> json" where
  "group_evidence target r ms =
     JObj [(''group_id'', JStr (nr_aws_id r)), (''vpc_id'', obj_get ''vpc_id'' (nr_configuration r)),
           (''region'', json_text (nr_region r)), (''target_port'', JInt target),
           (''matched_ingress'', JList (map match_json ms))]"

definition port_verdict :: "int \<Rightarrow> resource \<Rightarrow> rule_exn + verdict" where
  "port_verdict target r =
     Inr (case matching_ingress target r of
        Inl path \<Rightarrow>
          (INSUFFICIENT_EVIDENCE, None, [path],
           ''Required security-group ingress evidence is unavailable or invalid.'')
      | Inr ms \<Rightarrow>
          (if ms \<noteq> [] then FAIL else PASS, Some (group_evidence target r ms), [],
           if ms \<noteq> [] then ''Public ingress exposes TCP port '' @ int_text target @ ''.''
           else ''No public ingress exposes TCP port '' @ int_text target @ ''.''))"

definition port_judge :: "rule_info \<Rightarrow> int \<Rightarrow> resource \<Rightarrow> rule_exn + json option" where
  "port_judge i target r =
     (case matching_ingress target r of
        Inl path \<Rightarrow> Inl (fact_error i r path)
      | Inr ms \<Rightarrow> Inr (if ms = [] then None else Some (group_evidence target r ms)))"

definition port_assess ::
    "env \<Rightarrow> rule_info \<Rightarrow> int \<Rightarrow> snapshot \<Rightarrow> profile \<Rightarrow> rule_exn + assessment list" where
  "port_assess env i target s p =
     (if \<not> collector_succeeded s ''security_groups''
      then res_bind (unavailable_collector env i s p ''security_groups'' ''ec2'' ''ec2:DescribeSecurityGroups'')
             (\<lambda>c. Inr [c])
      else assess_each env i s p ''ec2'' ''security_groups'' ''ec2:DescribeSecurityGroups''
             ''The snapshot contains no EC2 security groups.'' (port_verdict target)
             (resources_of s ''ec2'' ''security_group''))"

definition port_evaluate :: "rule_info \<Rightarrow> int \<Rightarrow> snapshot \<Rightarrow> rule_exn + finding list" where
  "port_evaluate i target s =
     res_bind (require_collector_success i s ''security_groups'') (\<lambda>_.
     evaluate_each i (port_judge i target) (resources_of s ''ec2'' ''security_group''))"

definition ssh_info :: rule_info where
  "ssh_info =
     \<lparr>rl_control = ''NET-001'', rl_title = ''Public SSH Access'', rl_category = CAT_NETWORK,
      rl_severity = HIGH,
      rl_impact = ''Internet-exposed SSH can permit brute-force attempts and unauthorized administrative access.'',
      rl_recommendation = ''Restrict administrative access to approved management networks or use controlled remote-management mechanisms.''\<rparr>"

definition ssh_port :: int where
  "ssh_port = 22"

definition rdp_info :: rule_info where
  "rdp_info =
     \<lparr>rl_control = ''NET-002'', rl_title = ''Public RDP Access'', rl_category = CAT_NETWORK,
      rl_severity = HIGH,
      rl_impact = ''Internet-exposed RDP can permit brute-force attempts and unauthorized interactive access.'',
      rl_recommendation = ''Restrict RDP access to approved management networks or use a controlled remote-management service.''\<rparr>"

definition rdp_port :: int where
  "rdp_port = 3389"

section \<open>Reference: what opens a port to everyone\<close>

text \<open>A permission covers the port, and one of its ranges is a network of prefix length 0.\<close>

definition covers_port :: "int \<Rightarrow> (string \<times> json) list \<Rightarrow> bool" where
  "covers_port target rule =
     (case obj_get ''protocol'' rule of
        JStr raw \<Rightarrow>
          casefold raw \<in> {''-1'', ''6''} \<or>
          casefold raw = ''tcp'' \<and>
          (case (obj_get ''from_port'' rule, obj_get ''to_port'' rule) of
             (JInt a, JInt b) \<Rightarrow> a \<le> target \<and> target \<le> b
           | _ \<Rightarrow> False)
      | _ \<Rightarrow> False)"

definition open_range :: "ip_version \<Rightarrow> json \<Rightarrow> bool" where
  "open_range v raw =
     (case jget ''cidr'' raw of
        JStr text \<Rightarrow> (case ip_network text of Some n \<Rightarrow> net_version n = v \<and> net_prefix n = 0 | None \<Rightarrow> False)
      | _ \<Rightarrow> False)"

definition list_of :: "json \<Rightarrow> json list" where
  "list_of j = (case j of JList xs \<Rightarrow> xs | _ \<Rightarrow> [])"

definition opens_port :: "int \<Rightarrow> (string \<times> json) list \<Rightarrow> bool" where
  "opens_port target rule =
     (covers_port target rule \<and>
      (list_ex (open_range IPv4) (list_of (obj_get ''ipv4_ranges'' rule)) \<or>
       list_ex (open_range IPv6) (list_of (obj_get ''ipv6_ranges'' rule))))"

definition exposes_port :: "int \<Rightarrow> resource \<Rightarrow> bool" where
  "exposes_port target r =
     list_ex (\<lambda>raw. case raw of JObj rule \<Rightarrow> opens_port target rule | _ \<Rightarrow> False)
       (list_of (obj_get ''ingress_rules'' (nr_configuration r)))"

section \<open>The evaluator against the reference\<close>

lemma update_nonempty [simp]: "AList.update k v t \<noteq> []"
  by (cases t) auto

lemma range_step_nonempty:
  "range_step path source version cov (n, raw) tab = Inr tab' \<Longrightarrow>
     (tab' \<noteq> [] \<longleftrightarrow> tab \<noteq> [] \<or> open_range version raw)"
  by (cases cov; cases raw)
    (auto simp: range_step_def open_range_def Let_def
      split: json.splits option.splits if_splits)

lemma res_fold_nonempty:
  assumes "\<And>x t t'. x \<in> set xs \<Longrightarrow> f x t = Inr t' \<Longrightarrow> (t' \<noteq> [] \<longleftrightarrow> t \<noteq> [] \<or> P x)"
    and "res_fold f xs tab = Inr tab'"
  shows "tab' \<noteq> [] \<longleftrightarrow> tab \<noteq> [] \<or> list_ex P xs"
  using assms
proof (induction xs arbitrary: tab)
  case Nil
  then show ?case by simp
next
  case (Cons x xs)
  obtain u where u: "f x tab = Inr u" "res_fold f xs u = Inr tab'"
    using Cons.prems(2) by (auto simp: res_bind_Inr_iff)
  have "u \<noteq> [] \<longleftrightarrow> tab \<noteq> [] \<or> P x" by (rule Cons.prems(1) [OF _ u(1)]) simp
  moreover have "tab' \<noteq> [] \<longleftrightarrow> u \<noteq> [] \<or> list_ex P xs"
    by (rule Cons.IH [OF _ u(2)], rule Cons.prems(1)) simp_all
  ultimately show ?case by auto
qed

lemma list_ex_enumerate: "list_ex (\<lambda>(_, x). P x) (enumerate n xs) = list_ex P xs"
  by (induction xs arbitrary: n) auto

lemma ranges_step_nonempty:
  assumes "ranges_step path rule cov (source, name, version) tab = Inr tab'"
  shows "tab' \<noteq> [] \<longleftrightarrow> tab \<noteq> [] \<or> list_ex (open_range version) (list_of (obj_get name rule))"
proof -
  obtain rs where rs: "obj_get name rule = JList rs"
    and f: "res_fold (range_step (path @ ''.'' @ name) source version cov) (enumerate 0 rs) tab = Inr tab'"
    using assms by (auto simp: ranges_step_def required_list_def res_bind_Inr_iff split: json.splits)
  have "tab' \<noteq> [] \<longleftrightarrow> tab \<noteq> [] \<or> list_ex (\<lambda>(_, x). open_range version x) (enumerate 0 rs)"
    by (rule res_fold_nonempty [OF _ f]) (auto dest: range_step_nonempty)
  then show ?thesis by (simp add: list_ex_enumerate rs list_of_def)
qed

lemma port_coverage_covers:
  "port_coverage target path rule = Inr (protocol, f, t, c) \<Longrightarrow> (c \<noteq> None \<longleftrightarrow> covers_port target rule)"
  by (auto simp: port_coverage_def covers_port_def required_port_def res_bind_Inr_iff Let_def
      split: json.splits if_splits)

lemma permission_step_nonempty:
  assumes "permission_step target (n, raw) tab = Inr tab'"
  shows "tab' \<noteq> [] \<longleftrightarrow>
    tab \<noteq> [] \<or> (case raw of JObj rule \<Rightarrow> opens_port target rule | _ \<Rightarrow> False)"
proof -
  obtain rule protocol f t c where raw: "raw = JObj rule"
    and c: "port_coverage target (ingress_path n) rule = Inr (protocol, f, t, c)"
    and k: "(case c of None \<Rightarrow> Inr tab
             | Some c \<Rightarrow> res_fold (ranges_step (ingress_path n) rule (protocol, f, t, c)) address_families tab)
            = Inr tab'"
    using assms by (auto simp: permission_step_def Let_def res_bind_Inr_iff split: json.splits)
  note cov = port_coverage_covers [OF c]
  show ?thesis
  proof (cases c)
    case None
    then show ?thesis using k cov by (simp add: raw opens_port_def)
  next
    case (Some cv)
    then obtain u where "ranges_step (ingress_path n) rule (protocol, f, t, cv) (''ipv4'', ''ipv4_ranges'', IPv4) tab = Inr u"
      "ranges_step (ingress_path n) rule (protocol, f, t, cv) (''ipv6'', ''ipv6_ranges'', IPv6) u = Inr tab'"
      using k by (auto simp: address_families_def res_bind_Inr_iff)
    from ranges_step_nonempty [OF this(1)] ranges_step_nonempty [OF this(2)] show ?thesis
      using cov Some by (auto simp: raw opens_port_def)
  qed
qed

lemma matching_ingress_exposes:
  assumes "matching_ingress target r = Inr ms"
  shows "ms \<noteq> [] \<longleftrightarrow> exposes_port target r"
proof -
  obtain rules tab where rs: "obj_get ''ingress_rules'' (nr_configuration r) = JList rules"
    and f: "res_fold (permission_step target) (enumerate 0 rules) [] = Inr tab"
    and ms: "ms = map snd (sort_key (match_sort_key \<circ> fst) tab)"
    using assms by (auto simp: matching_ingress_def required_list_def res_bind_Inr_iff split: json.splits)
  have len: "ms \<noteq> [] \<longleftrightarrow> tab \<noteq> []"
    unfolding ms by (metis length_0_conv length_map length_sort)
  have "tab \<noteq> [] \<longleftrightarrow>
      [] \<noteq> ([] :: match_table) \<or>
      list_ex (\<lambda>(_, raw). case raw of JObj rule \<Rightarrow> opens_port target rule | _ \<Rightarrow> False) (enumerate 0 rules)"
    by (rule res_fold_nonempty [OF _ f]) (auto dest: permission_step_nonempty)
  then show ?thesis by (simp only: len list_ex_enumerate exposes_port_def rs list_of_def json.case simp_thms)
qed

end
