(* ===== verification/Rules_Inventory.thy ===== *)
theory Rules_Inventory
  imports Rules_Network
begin

text \<open>
  The other controls of the default registry: app/rules/storage.py (S3-900, explicit default
  encryption), identity.py (IAM-001, users without MFA) and audit_logging.py (LOG-001, no logging
  trail).
\<close>

section \<open>S3-900\<close>

definition encryption_algorithms :: "string list" where
  "encryption_algorithms = [''AES256'', ''aws:fsx'', ''aws:kms'', ''aws:kms:dsse'']"

definition encryption_path :: string where
  "encryption_path = ''configuration.default_encryption''"

definition encryption_rule_path :: "nat \<Rightarrow> string" where
  "encryption_rule_path n = encryption_path @ ''.Rules['' @ decimal n @ '']''"

text \<open>
  The first fault of one encryption rule: a path, or the TypeError of looking a list or an object
  up in the set of algorithms; None when it names a known algorithm.
\<close>

fun hashable :: "json \<Rightarrow> bool" where
  "hashable (JList _) = False"
| "hashable (JObj _) = False"
| "hashable _ = True"

definition encryption_rule_error :: "nat \<times> json \<Rightarrow> (rule_exn + string) option" where
  "encryption_rule_error entry =
     (case entry of (n, rule) \<Rightarrow>
        if \<not> is_obj rule then Some (Inr (encryption_rule_path n))
        else
          (case jget ''ApplyServerSideEncryptionByDefault'' rule of
             JObj defaults \<Rightarrow>
               let algorithm = obj_get ''SSEAlgorithm'' defaults
               in if \<not> hashable algorithm then Some (Inl UnhashableError)
                  else if algorithm \<in> set (map JStr encryption_algorithms) then None
                  else Some (Inr (encryption_rule_path n @ ''.ApplyServerSideEncryptionByDefault.SSEAlgorithm''))
           | _ \<Rightarrow> Some (Inr (encryption_rule_path n @ ''.ApplyServerSideEncryptionByDefault''))))"

definition encryption_error_path :: "(string \<times> json) list \<Rightarrow> rule_exn + string option" where
  "encryption_error_path configuration =
     (case map_of configuration ''default_encryption'' of
        None \<Rightarrow> Inr (Some encryption_path)
      | Some JNull \<Rightarrow> Inr None
      | Some (JObj enc) \<Rightarrow>
          (case obj_get ''Rules'' enc of
             JList (rule # rules) \<Rightarrow>
               (case List.map_filter encryption_rule_error (enumerate 0 (rule # rules)) of
                  [] \<Rightarrow> Inr None
                | Inl e # _ \<Rightarrow> Inl e
                | Inr path # _ \<Rightarrow> Inr (Some path))
           | _ \<Rightarrow> Inr (Some (encryption_path @ ''.Rules'')))
      | Some _ \<Rightarrow> Inr (Some encryption_path))"

definition bucket_name :: "resource \<Rightarrow> string" where
  "bucket_name r = (case nr_name r of None \<Rightarrow> nr_aws_id r | Some n \<Rightarrow> (if n = [] then nr_aws_id r else n))"

definition encryption_rules :: "resource \<Rightarrow> json list" where
  "encryption_rules r = list_of (jget ''Rules'' (obj_get ''default_encryption'' (nr_configuration r)))"

definition encryption_configured :: "resource \<Rightarrow> bool" where
  "encryption_configured r = (obj_get ''default_encryption'' (nr_configuration r) \<noteq> JNull)"

definition encryption_evidence :: "resource \<Rightarrow> json" where
  "encryption_evidence r =
     JObj [(''bucket_name'', JStr (bucket_name r)), (''region'', json_text (nr_region r)),
           (''default_encryption'', if encryption_configured r then JStr ''configured'' else JNull),
           (''encryption_rule_count'', JInt (int (length (encryption_rules r)))),
           (''encryption_algorithms'',
             JList (map (\<lambda>rule. jget ''SSEAlgorithm'' (jget ''ApplyServerSideEncryptionByDefault'' rule))
                      (encryption_rules r)))]"

definition encryption_verdict :: "resource \<Rightarrow> rule_exn + verdict" where
  "encryption_verdict r =
     res_bind (encryption_error_path (nr_configuration r)) (\<lambda>fault.
     Inr (case fault of
        Some path \<Rightarrow>
          (INSUFFICIENT_EVIDENCE, None, [path],
           ''Required S3 default-encryption evidence is unavailable or invalid.'')
      | None \<Rightarrow>
          (if encryption_configured r then PASS else FAIL, Some (encryption_evidence r), [],
           if encryption_configured r then ''A non-empty default-encryption rule set was collected.''
           else ''No explicit S3 default-encryption configuration was collected.'')))"

definition encryption_judge :: "rule_info \<Rightarrow> resource \<Rightarrow> rule_exn + json option" where
  "encryption_judge i r =
     res_bind (encryption_error_path (nr_configuration r)) (\<lambda>fault.
     case fault of
        Some path \<Rightarrow> Inl (fact_error i r path)
      | None \<Rightarrow>
          if encryption_configured r then Inr None
          else Inr (Some (JObj [(''bucket_name'', JStr (bucket_name r)), (''region'', json_text (nr_region r)),
                                (''default_encryption'', JNull)])))"

definition encryption_info :: rule_info where
  "encryption_info =
     \<lparr>rl_control = ''S3-900'', rl_title = ''Missing Bucket Encryption'', rl_category = CAT_STORAGE,
      rl_severity = MEDIUM,
      rl_impact = ''Without an explicit default encryption configuration, the bucket cannot demonstrate the intended encryption policy from its collected configuration.'',
      rl_recommendation = ''Configure default server-side encryption that meets the organization's key-management requirements.''\<rparr>"

definition encryption_assess :: "env \<Rightarrow> snapshot \<Rightarrow> profile \<Rightarrow> rule_exn + assessment list" where
  "encryption_assess env s p =
     (if \<not> collector_succeeded s ''s3_buckets''
      then res_bind (unavailable_collector env encryption_info s p ''s3_buckets'' ''s3'' ''s3:GetBucketEncryption'')
             (\<lambda>c. Inr [c])
      else assess_each env encryption_info s p ''s3'' ''s3_buckets'' ''s3:GetBucketEncryption''
             ''The snapshot contains no S3 buckets.'' encryption_verdict (resources_of s ''s3'' ''s3_bucket''))"

definition encryption_evaluate :: "snapshot \<Rightarrow> rule_exn + finding list" where
  "encryption_evaluate s =
     res_bind (require_collector_success encryption_info s ''s3_buckets'') (\<lambda>_.
     evaluate_each encryption_info (encryption_judge encryption_info) (resources_of s ''s3'' ''s3_bucket''))"

section \<open>IAM-001\<close>

definition mfa_path :: string where
  "mfa_path = ''configuration.mfa_devices''"

definition device_path :: "nat \<Rightarrow> string" where
  "device_path n = mfa_path @ ''['' @ decimal n @ '']''"

definition device_error :: "nat \<times> json \<Rightarrow> string option" where
  "device_error entry =
     (case entry of (n, device) \<Rightarrow>
        if \<not> is_obj device then Some (device_path n)
        else (case jget ''SerialNumber'' device of
                JStr serial \<Rightarrow> (if blank serial then Some (device_path n @ ''.SerialNumber'') else None)
              | _ \<Rightarrow> Some (device_path n @ ''.SerialNumber'')))"

definition mfa_devices_error_path :: "json \<Rightarrow> string option" where
  "mfa_devices_error_path devices =
     (case devices of
        JList ds \<Rightarrow>
          (case List.map_filter device_error (enumerate 0 ds) of [] \<Rightarrow> None | path # _ \<Rightarrow> Some path)
      | _ \<Rightarrow> Some mfa_path)"

definition graph_outcomes :: "snapshot \<Rightarrow> source_outcome list" where
  "graph_outcomes s = (case iv_graph s of None \<Rightarrow> [] | Some g \<Rightarrow> eg_outcomes g)"

definition users_discovered :: "snapshot \<Rightarrow> bool" where
  "users_discovered s =
     list_ex (\<lambda>so. so_kind so = ''iam.users.discovery'' \<and> so_collector so = ''iam.users'' \<and>
                   so_api so = ''iam:ListUsers'' \<and> so_state so = ST_PRESENT) (graph_outcomes s)"

definition subject_is :: "subject \<Rightarrow> resource \<Rightarrow> bool" where
  "subject_is j r =
     (case j of
        AccountSubject _ _ _ \<Rightarrow> False
      | ResourceSubject k \<Rightarrow>
          sj_account k = nr_account r \<and> sj_service k = nr_service r \<and> sj_type k = nr_type r \<and>
          sj_aws_id k = nr_aws_id r \<and> sj_scope k = nr_scope r \<and> sj_region k = nr_region r)"

definition mfa_evidence_present :: "snapshot \<Rightarrow> resource \<Rightarrow> bool" where
  "mfa_evidence_present s r =
     list_ex (\<lambda>so. so_kind so = ''iam.user.mfa-devices'' \<and> so_collector so = ''iam.users'' \<and>
                   so_api so = ''iam:ListMFADevices'' \<and> so_state so = ST_PRESENT \<and>
                   subject_is (so_subject so) r) (graph_outcomes s)"

definition mfa_available :: "snapshot \<Rightarrow> resource \<Rightarrow> bool" where
  "mfa_available s r = (collector_succeeded s ''iam_users'' \<or> mfa_evidence_present s r)"

definition mfa_devices :: "resource \<Rightarrow> json" where
  "mfa_devices r = obj_get ''mfa_devices'' (nr_configuration r)"

definition mfa_evidence :: "resource \<Rightarrow> json" where
  "mfa_evidence r =
     JObj [(''user_id'', JStr (nr_aws_id r)), (''user_name'', json_text (nr_name r)),
           (''mfa_device_count'', JInt (int (length (list_of (mfa_devices r))))),
           (''privilege_assessment'', JStr ''not_implemented'')]"

definition mfa_verdict :: "snapshot \<Rightarrow> resource \<Rightarrow> rule_exn + verdict" where
  "mfa_verdict s r =
     Inr (if \<not> mfa_available s r
      then (INSUFFICIENT_EVIDENCE, None, [''source_outcomes.iam.user.mfa-devices.PRESENT''],
            ''Required IAM MFA-device evidence is unavailable or invalid.'')
      else
        (case mfa_devices_error_path (mfa_devices r) of
           Some path \<Rightarrow>
             (INSUFFICIENT_EVIDENCE, None, [path],
              ''Required IAM MFA-device evidence is unavailable or invalid.'')
         | None \<Rightarrow>
             (if list_of (mfa_devices r) \<noteq> [] then PASS else FAIL, Some (mfa_evidence r), [],
              if list_of (mfa_devices r) \<noteq> [] then ''At least one MFA device is assigned to the IAM user.''
              else ''No MFA device is assigned to the IAM user.'')))"

definition mfa_judge :: "rule_info \<Rightarrow> snapshot \<Rightarrow> resource \<Rightarrow> rule_exn + json option" where
  "mfa_judge i s r =
     (if \<not> mfa_available s r then Inl (fact_error i r ''evidence_graph.iam.user.mfa-devices'')
      else
        (case mfa_devices_error_path (mfa_devices r) of
           Some path \<Rightarrow> Inl (fact_error i r path)
         | None \<Rightarrow> Inr (if list_of (mfa_devices r) \<noteq> [] then None else Some (mfa_evidence r))))"

definition mfa_info :: rule_info where
  "mfa_info =
     \<lparr>rl_control = ''IAM-001'', rl_title = ''IAM User Without MFA'', rl_category = CAT_IDENTITY,
      rl_severity = MEDIUM,
      rl_impact = ''A password-authenticated IAM user without MFA is more exposed to account takeover when a credential is compromised.'',
      rl_recommendation = ''Enroll the IAM user in MFA, migrate workforce access to IAM Identity Center where appropriate, or remove the user if it is no longer required.''\<rparr>"

definition mfa_assess :: "env \<Rightarrow> snapshot \<Rightarrow> profile \<Rightarrow> rule_exn + assessment list" where
  "mfa_assess env s p =
     (if \<not> collector_succeeded s ''iam_users'' \<and> \<not> users_discovered s
      then res_bind (unavailable_collector env mfa_info s p ''iam_users'' ''iam'' ''iam:ListMFADevices'')
             (\<lambda>c. Inr [c])
      else assess_each env mfa_info s p ''iam'' ''iam_users'' ''iam:ListMFADevices''
             ''The snapshot contains no IAM users.'' (mfa_verdict s) (resources_of s ''iam'' ''iam_user''))"

definition mfa_evaluate :: "snapshot \<Rightarrow> rule_exn + finding list" where
  "mfa_evaluate s =
     res_bind
       (if \<not> collector_succeeded s ''iam_users'' \<and> \<not> users_discovered s
        then require_collector_success mfa_info s ''iam_users'' else Inr ()) (\<lambda>_.
     evaluate_each mfa_info (mfa_judge mfa_info s) (resources_of s ''iam'' ''iam_user''))"

section \<open>LOG-001\<close>

definition trail_logging :: "resource \<Rightarrow> bool option" where
  "trail_logging r = (case obj_get ''is_logging'' (nr_configuration r) of JBool b \<Rightarrow> Some b | _ \<Rightarrow> None)"

definition trails_of :: "snapshot \<Rightarrow> resource list" where
  "trails_of s = resources_of s ''cloudtrail'' ''cloudtrail_trail''"

definition missing_trail_facts :: "resource list \<Rightarrow> string list" where
  "missing_trail_facts trails =
     map (\<lambda>r. ''resources['' @ nr_aws_id r @ ''].configuration.is_logging'')
       (filter (\<lambda>r. trail_logging r = None) trails)"

definition active_trails :: "resource list \<Rightarrow> nat" where
  "active_trails trails = length (filter (\<lambda>r. trail_logging r = Some True) trails)"

definition inactive_trail :: "resource \<Rightarrow> json" where
  "inactive_trail r =
     JObj [(''trail_arn'', json_text (nr_arn r)), (''trail_name'', json_text (nr_name r)),
           (''home_region'', json_text (nr_region r)), (''is_logging'', JBool False)]"

definition trail_evidence :: "snapshot \<Rightarrow> resource list \<Rightarrow> json" where
  "trail_evidence s trails =
     JObj [(''account_id'', JStr (iv_account s)), (''requested_region'', JStr (iv_region s)),
           (''trail_count'', JInt (int (length trails))),
           (''active_trail_count'', JInt (int (active_trails trails))),
           (''reason'', JStr (if active_trails trails \<noteq> 0 then ''active_trail_found''
                              else if trails = [] then ''no_trails'' else ''no_active_trails'')),
           (''inactive_trails'', JList (map inactive_trail (filter (\<lambda>r. trail_logging r = Some False) trails)))]"

definition trail_info :: rule_info where
  "trail_info =
     \<lparr>rl_control = ''LOG-001'', rl_title = ''CloudTrail Missing'', rl_category = CAT_LOGGING,
      rl_severity = HIGH,
      rl_impact = ''Without an actively logging CloudTrail trail, security investigations and audit reconstruction can have material visibility gaps.'',
      rl_recommendation = ''Configure and continuously monitor an actively logging CloudTrail trail; prefer a multi-Region trail that includes global service events.''\<rparr>"

definition trail_api :: string where
  "trail_api = ''cloudtrail:ListTrails,cloudtrail:GetTrailStatus''"

definition trail_verdict :: "snapshot \<Rightarrow> verdict" where
  "trail_verdict s =
     (let trails = trails_of s; missing = missing_trail_facts trails
      in if missing \<noteq> []
         then (INSUFFICIENT_EVIDENCE, None, missing,
               ''One or more CloudTrail logging-status facts are unavailable or invalid.'')
         else (if active_trails trails \<noteq> 0 then PASS else FAIL, Some (trail_evidence s trails), [],
               if active_trails trails \<noteq> 0 then ''At least one collected CloudTrail trail is actively logging.''
               else ''No collected CloudTrail trail is actively logging.''))"

definition trail_assess :: "env \<Rightarrow> snapshot \<Rightarrow> profile \<Rightarrow> rule_exn + assessment list" where
  "trail_assess env s p =
     res_bind
       (if \<not> collector_succeeded s ''cloudtrail_trails''
        then unavailable_collector env trail_info s p ''cloudtrail_trails'' ''cloudtrail'' trail_api
        else assessment_for_account env trail_info s p ''cloudtrail'' ''cloudtrail_trails'' trail_api
               (trail_verdict s))
       (\<lambda>c. Inr [c])"

text \<open>The legacy loop raises at the first trail without the fact, before it counts the rest.\<close>

definition trail_evaluate :: "snapshot \<Rightarrow> rule_exn + finding list" where
  "trail_evaluate s =
     res_bind (require_collector_success trail_info s ''cloudtrail_trails'') (\<lambda>_.
     let trails = trails_of s
     in case find (\<lambda>r. trail_logging r = None) trails of
          Some r \<Rightarrow> Inl (fact_error trail_info r ''configuration.is_logging'')
        | None \<Rightarrow>
            if active_trails trails \<noteq> 0 then Inr []
            else res_bind (finding_for_account trail_info s ''cloudtrail'' (trail_evidence s trails))
                   (\<lambda>f. Inr [f]))"

end
