(* ===== verification/Rules_Contracts.thy ===== *)
theory Rules_Contracts
  imports Rules_Inventory
begin

text \<open>
  The contract of a resource control: its four-state verdict, its legacy judgement and a
  reference predicate agree. From it follow, for every control once, what \<open>assess\<close> and \<open>evaluate\<close>
  return; the controls of the default registry are instances.
\<close>

section \<open>The interface\<close>

text \<open>The verdict on a resource carries evidence exactly when it is decisive.\<close>

definition decisive :: "assessment_result \<Rightarrow> bool" where
  "decisive x = (x = PASS \<or> x = FAIL)"

definition well_formed_verdict :: "verdict \<Rightarrow> bool" where
  "well_formed_verdict v =
     (case v of (result, evidence, missing, reason) \<Rightarrow>
        (evidence \<noteq> None \<longleftrightarrow> decisive result) \<and> (missing \<noteq> [] \<longleftrightarrow> result = INSUFFICIENT_EVIDENCE))"

locale resource_control =
  fixes check :: "resource \<Rightarrow> rule_exn + verdict"
    and judge :: "resource \<Rightarrow> rule_exn + json option"
    and fails :: "resource \<Rightarrow> bool"
  assumes check_formed: "check r = Inr v \<Longrightarrow> well_formed_verdict v \<and> fst v \<noteq> NOT_APPLICABLE"
    and judge_pass: "judge r = Inr None \<longleftrightarrow> (\<exists>v. check r = Inr v \<and> fst v = PASS)"
    and judge_fail: "(\<exists>ev. judge r = Inr (Some ev)) \<longleftrightarrow> (\<exists>v. check r = Inr v \<and> fst v = FAIL)"
    and pass_sound: "check r = Inr v \<Longrightarrow> fst v = PASS \<Longrightarrow> \<not> fails r"
    and fail_sound: "check r = Inr v \<Longrightarrow> fst v = FAIL \<Longrightarrow> fails r"

definition finding_target_id :: "env \<Rightarrow> snapshot \<Rightarrow> finding \<Rightarrow> uuid" where
  "finding_target_id env s f =
     resource_snapshot_id env (iv_scan_id s) (fc_account f) (fc_service f) (fc_type f) (fc_scope f)
       (case fc_region f of None \<Rightarrow> [] | Some r \<Rightarrow> r) (fc_aws_id f)"

section \<open>Facts of the builders\<close>

lemma assessment_for_target_facts:
  assumes "assessment_for_target env i s p collector api t v = Inr c"
  shows "ac_result c = fst v \<and> ac_snapshot_id c = snapshot_id_of env s t \<and> ac_scan_id c = iv_scan_id s \<and>
    ac_control c = trim_text (rl_control i) \<and> ac_inventory_sha c = None \<and> ac_catalog_sha c = None \<and>
    assessment_ok env c"
proof -
  obtain result evidence missing reason where v: "v = (result, evidence, missing, reason)"
    by (cases v)
  obtain artifacts where m: "make_assessment env (target_assessment env i s p t artifacts v) = Some c"
    using assms by (auto simp: assessment_for_target_def res_bind_Inr_iff)
  have ok: "assessment_ok env c" and c: "c = strip_assessment (target_assessment env i s p t artifacts v)"
    using make_assessment_ok [OF m] by blast+
  show ?thesis
    by (intro conjI; (rule ok | simp add: c v target_assessment_def strip_assessment_def))
qed

lemma finding_for_target_no_gap: "finding_for_target i t ev \<noteq> Inl (RuleEvaluationError a b path)"
  by (simp add: finding_for_target_def lift_validation_def split: option.splits)

lemma finding_for_target_facts:
  assumes "finding_for_target i t evidence = Inr f"
  shows "finding_target_id env s f = snapshot_id_of env s t \<and> fc_control f = rl_control i \<and> finding_ok f \<and>
    finding_identity f = (rl_control i, resource_identity t)"
  using assms
  by (auto simp: finding_for_target_def make_finding_def finding_target_id_def snapshot_id_of_def
      finding_identity_def resource_identity_def split: if_splits)

lemma unavailable_collector_facts:
  assumes "unavailable_collector env i s p collector service api = Inr c"
  shows "ac_result c = INSUFFICIENT_EVIDENCE \<and> assessment_ok env c \<and> ac_scan_id c = iv_scan_id s"
  using assms assessment_for_target_facts
  by (fastforce simp: unavailable_collector_def assessment_for_account_def Let_def)

section \<open>What every resource control guarantees\<close>

context resource_control
begin

definition reflects :: "env \<Rightarrow> snapshot \<Rightarrow> resource \<Rightarrow> assessment \<Rightarrow> bool" where
  "reflects env s r c =
     (ac_snapshot_id c = snapshot_id_of env s r \<and> assessment_ok env c \<and>
      (ac_result c = PASS \<longrightarrow> \<not> fails r \<and> judge r = Inr None) \<and>
      (ac_result c = FAIL \<longrightarrow> fails r \<and> (\<exists>ev. judge r = Inr (Some ev))) \<and>
      (ac_result c = INSUFFICIENT_EVIDENCE \<longrightarrow> (\<exists>e. judge r = Inl e)) \<and>
      ac_result c \<noteq> NOT_APPLICABLE)"

lemma judge_gap:
  assumes "check r = Inr v" "fst v = INSUFFICIENT_EVIDENCE"
  shows "\<exists>e. judge r = Inl e"
proof (cases "judge r")
  case (Inr x)
  then show ?thesis using judge_pass judge_fail assms
    by (cases x) (metis assessment_result.distinct(3) assessment_result.distinct(7) sum.sel(2))+
qed auto

lemma target_reflects:
  assumes "res_bind (check r) (assessment_for_target env i s p collector api r) = Inr c"
  shows "reflects env s r c"
proof -
  obtain v where v: "check r = Inr v" "assessment_for_target env i s p collector api r v = Inr c"
    using assms by (auto simp: res_bind_Inr_iff)
  note f = assessment_for_target_facts [OF v(2)]
  have "fst v = PASS \<Longrightarrow> judge r = Inr None" using judge_pass v(1) by blast
  moreover have "fst v = FAIL \<Longrightarrow> \<exists>ev. judge r = Inr (Some ev)" using judge_fail v(1) by blast
  ultimately show ?thesis
    using f pass_sound [OF v(1)] fail_sound [OF v(1)] judge_gap [OF v(1)] check_formed [OF v(1)]
    by (simp add: reflects_def)
qed

text \<open>One assessment per resource, in the order of identity, each reflecting its resource.\<close>

lemma assess_each_reflects:
  assumes "assess_each env i s p service collector api why check rs = Inr cs"
  shows "(rs \<noteq> [] \<longrightarrow> list_all2 (reflects env s) rs cs) \<and>
    (rs = [] \<longrightarrow> (\<exists>c. cs = [c] \<and> ac_result c = NOT_APPLICABLE \<and> assessment_ok env c))"
proof (cases "rs = []")
  case True
  then show ?thesis using assms assessment_for_target_facts
    by (fastforce simp: assess_each_def assessment_for_account_def res_bind_Inr_iff)
next
  case False
  then have "list_all2 (\<lambda>r c. res_bind (check r) (assessment_for_target env i s p collector api r) = Inr c) rs cs"
    using assms by (simp add: assess_each_def res_map_Inr_iff_list_all2)
  then show ?thesis using False target_reflects by (auto elim: list_all2_mono)
qed

lemma evaluate_one_cases:
  assumes "evaluate_one i judge r = Inr fs"
  shows "(judge r = Inr None \<and> fs = []) \<or>
    (\<exists>ev f. judge r = Inr (Some ev) \<and> fs = [f] \<and> finding_target_id env s f = snapshot_id_of env s r)"
  using assms finding_for_target_facts
  by (fastforce simp: evaluate_one_def res_bind_Inr_iff split: option.splits)

lemma evaluate_matches:
  assumes "list_all2 (reflects env s) rs cs" "res_map (evaluate_one i judge) rs = Inr fss"
  shows "map (finding_target_id env s) (concat fss) =
      map ac_snapshot_id (filter (\<lambda>c. ac_result c = FAIL) cs) \<and>
    (\<forall>c\<in>set cs. ac_result c \<noteq> INSUFFICIENT_EVIDENCE)"
  using assms
proof (induction arbitrary: fss rule: list_all2_induct)
  case Nil
  then show ?case by simp
next
  case (Cons r rs c cs)
  obtain fs gss where g: "evaluate_one i judge r = Inr fs" "res_map (evaluate_one i judge) rs = Inr gss"
    "fss = fs # gss" using Cons.prems by (auto simp: res_bind_Inr_iff)
  have k: "ac_snapshot_id c = snapshot_id_of env s r" using Cons.hyps(1) by (simp add: reflects_def)
  have "map (finding_target_id env s) fs = (if ac_result c = FAIL then [ac_snapshot_id c] else []) \<and>
      ac_result c \<noteq> INSUFFICIENT_EVIDENCE"
    using evaluate_one_cases [OF g(1), of env s] Cons.hyps(1) k
    by (cases "ac_result c") (auto simp: reflects_def)
  then show ?case using Cons.IH [OF g(2)] g(3) by simp
qed

lemma evaluate_gap:
  assumes "list_all2 (reflects env s) rs cs"
    and "res_map (evaluate_one i judge) rs = Inl (RuleEvaluationError a b path)"
  shows "\<exists>c\<in>set cs. ac_result c = INSUFFICIENT_EVIDENCE"
proof -
  obtain r where r: "r \<in> set rs" "evaluate_one i judge r = Inl (RuleEvaluationError a b path)"
    using res_map_Inl_witness [OF assms(2)] by blast
  then have gap: "\<exists>e. judge r = Inl e"
    by (cases "judge r")
      (auto simp: evaluate_one_def res_bind_Inl_iff finding_for_target_no_gap split: option.splits)
  obtain c where c: "c \<in> set cs" "reflects env s r c"
    using assms(1) r(1) by (metis in_set_conv_nth list_all2_conv_all_nth nth_mem)
  then have "ac_result c \<notin> {PASS, FAIL, NOT_APPLICABLE}" using gap by (auto simp: reflects_def)
  then have "ac_result c = INSUFFICIENT_EVIDENCE" by (cases "ac_result c") auto
  then show ?thesis using c(1) by blast
qed

end

section \<open>The controls as instances\<close>

interpretation port: resource_control "port_verdict target" "port_judge i target"
  "exposes_port target" for i target
proof unfold_locales
  fix r :: resource and v :: verdict
  show "port_verdict target r = Inr v \<Longrightarrow> well_formed_verdict v \<and> fst v \<noteq> NOT_APPLICABLE"
    by (cases "matching_ingress target r")
      (auto simp: port_verdict_def well_formed_verdict_def decisive_def split: if_splits)
  show "port_judge i target r = Inr None \<longleftrightarrow> (\<exists>v. port_verdict target r = Inr v \<and> fst v = PASS)"
    by (cases "matching_ingress target r") (auto simp: port_verdict_def port_judge_def)
  show "(\<exists>ev. port_judge i target r = Inr (Some ev)) \<longleftrightarrow> (\<exists>v. port_verdict target r = Inr v \<and> fst v = FAIL)"
    by (cases "matching_ingress target r") (auto simp: port_verdict_def port_judge_def)
  assume v: "port_verdict target r = Inr v"
  show "fst v = PASS \<Longrightarrow> \<not> exposes_port target r" "fst v = FAIL \<Longrightarrow> exposes_port target r"
    using v matching_ingress_exposes [of target r]
    by (cases "matching_ingress target r"; auto simp: port_verdict_def split: if_splits)+
qed

interpretation encryption: resource_control encryption_verdict "encryption_judge i"
  "\<lambda>r. \<not> encryption_configured r" for i
proof unfold_locales
  fix r :: resource and v :: verdict
  let ?e = "encryption_error_path (nr_configuration r)"
  show "encryption_verdict r = Inr v \<Longrightarrow> well_formed_verdict v \<and> fst v \<noteq> NOT_APPLICABLE"
    by (cases ?e)
      (auto simp: encryption_verdict_def well_formed_verdict_def decisive_def split: option.splits if_splits)
  show "encryption_judge i r = Inr None \<longleftrightarrow> (\<exists>v. encryption_verdict r = Inr v \<and> fst v = PASS)"
    by (cases ?e) (auto simp: encryption_verdict_def encryption_judge_def split: option.splits)
  show "(\<exists>ev. encryption_judge i r = Inr (Some ev)) \<longleftrightarrow> (\<exists>v. encryption_verdict r = Inr v \<and> fst v = FAIL)"
    by (cases ?e) (auto simp: encryption_verdict_def encryption_judge_def split: option.splits)
  assume v: "encryption_verdict r = Inr v"
  show "fst v = PASS \<Longrightarrow> \<not> \<not> encryption_configured r" "fst v = FAIL \<Longrightarrow> \<not> encryption_configured r"
    using v by (cases ?e; auto simp: encryption_verdict_def split: option.splits if_splits)+
qed

interpretation mfa: resource_control "mfa_verdict s" "mfa_judge i s"
  "\<lambda>r. list_of (mfa_devices r) = []" for i s
proof unfold_locales
  fix r :: resource and v :: verdict
  show "mfa_verdict s r = Inr v \<Longrightarrow> well_formed_verdict v \<and> fst v \<noteq> NOT_APPLICABLE"
    by (auto simp: mfa_verdict_def well_formed_verdict_def decisive_def split: option.splits if_splits)
  show "mfa_judge i s r = Inr None \<longleftrightarrow> (\<exists>v. mfa_verdict s r = Inr v \<and> fst v = PASS)"
    by (auto simp: mfa_verdict_def mfa_judge_def split: option.splits)
  show "(\<exists>ev. mfa_judge i s r = Inr (Some ev)) \<longleftrightarrow> (\<exists>v. mfa_verdict s r = Inr v \<and> fst v = FAIL)"
    by (auto simp: mfa_verdict_def mfa_judge_def split: option.splits)
  assume v: "mfa_verdict s r = Inr v"
  show "fst v = PASS \<Longrightarrow> list_of (mfa_devices r) \<noteq> []" "fst v = FAIL \<Longrightarrow> list_of (mfa_devices r) = []"
    using v by (auto simp: mfa_verdict_def split: option.splits if_splits)
qed

end
