(* ===== verification/Evidence_Reader.thy ===== *)
theory Evidence_Reader
  imports Rules_Contracts
begin

text \<open>
  app/assessment/execution.py for contracts that observe resources or an account, and
  evidence_reader.py for those without required relationships (schema 1.0.0): which targets a
  contract assesses, how a required source is resolved in the evidence graph, and the proof that
  binds the verdict to outcomes, artifacts and digests.
\<close>

section \<open>Execution contracts\<close>

datatype source_subject = TARGET_SUBJECT | GLOBAL_ACCOUNT_SUBJECT | REGIONAL_ACCOUNT_SUBJECT

text \<open>\<open>rq_admitted\<close> is the completion \<open>admitted_resource_v1\<close>, otherwise \<open>payload_flags_v1\<close>.\<close>

record required_source =
  rq_collector :: string
  rq_kind :: string
  rq_api :: string
  rq_subject :: source_subject
  rq_version :: string
  rq_fields :: "string list"
  rq_admitted :: bool
  rq_absence :: bool

definition valid_source :: "required_source \<Rightarrow> bool" where
  "valid_source q =
     ((\<not> rq_admitted q \<longrightarrow> rq_fields q \<noteq> []) \<and>
      (rq_admitted q \<longrightarrow> rq_subject q = TARGET_SUBJECT \<and> rq_fields q = [] \<and> \<not> rq_absence q) \<and>
      distinct (rq_fields q))"

datatype target_kind = GLOBAL_ACCOUNT | REGIONAL_ACCOUNT | RESOURCES

record execution_contract =
  ex_kind :: target_kind
  ex_service :: string
  ex_families :: "(string \<times> string) list"
  ex_sources :: "required_source list"

definition source_key :: "required_source \<Rightarrow> string \<times> string \<times> string \<times> source_subject" where
  "source_key q = (rq_collector q, rq_kind q, rq_api q, rq_subject q)"

definition valid_contract :: "execution_contract \<Rightarrow> bool" where
  "valid_contract x =
     (distinct (ex_families x) \<and> (ex_kind x = RESOURCES \<longleftrightarrow> ex_families x \<noteq> []) \<and>
      list_all (\<lambda>f. snd f \<noteq> ''aws_account'') (ex_families x) \<and>
      (ex_kind x = REGIONAL_ACCOUNT \<longrightarrow> ex_service x = ''ec2'') \<and>
      (ex_kind x \<noteq> RESOURCES \<longrightarrow> list_all (\<lambda>q. \<not> rq_admitted q) (ex_sources x)) \<and>
      distinct (map source_key (ex_sources x)) \<and> ex_sources x \<noteq> [] \<and> list_all valid_source (ex_sources x) \<and>
      (ex_kind x = RESOURCES \<longrightarrow> list_ex (\<lambda>q. rq_subject q \<noteq> TARGET_SUBJECT) (ex_sources x)))"

definition account_target :: "snapshot \<Rightarrow> execution_contract \<Rightarrow> resource" where
  "account_target s x =
     (if ex_kind x = REGIONAL_ACCOUNT
      then (account_resource s (ex_service x))\<lparr>nr_scope := SCOPE_REGIONAL, nr_region := Some (iv_region s)\<rparr>
      else account_resource s (ex_service x))"

definition assessment_targets :: "snapshot \<Rightarrow> execution_contract \<Rightarrow> rule_exn + resource list" where
  "assessment_targets s x =
     (if ex_kind x \<noteq> RESOURCES then Inr [account_target s x]
      else
        (let rs = sort_key resource_identity
                    (filter (\<lambda>r. (nr_service r, nr_type r) \<in> set (ex_families x)) (iv_resources s))
         in if distinct (map resource_identity rs) then Inr rs else Inl ValidationError))"

text \<open>\<open>assessment_targets(...) or (account_target(...),)\<close>.\<close>

definition targets_or_account :: "snapshot \<Rightarrow> execution_contract \<Rightarrow> rule_exn + resource list" where
  "targets_or_account s x =
     res_bind (assessment_targets s x) (\<lambda>rs. Inr (if rs = [] then [account_target s x] else rs))"

text \<open>The candidates cover the targets exactly; an empty family needs one explicit non-decision.\<close>

definition validate_execution_targets ::
    "snapshot \<Rightarrow> execution_contract \<Rightarrow> assessment list \<Rightarrow> rule_exn + unit" where
  "validate_execution_targets s x cs =
     res_bind (assessment_targets s x) (\<lambda>targets.
     if targets = [] \<and> (length cs \<noteq> 1 \<or> ac_result (hd cs) \<notin> {NOT_APPLICABLE, INSUFFICIENT_EVIDENCE})
     then Inl ValidationError
     else
       (let targets = (if targets = [] then [account_target s x] else targets);
            actual = map (\<lambda>c. snd (assessment_identity c)) cs
        in if distinct actual \<and> set actual = set (map resource_identity targets) then Inr ()
           else Inl ValidationError))"

section \<open>The reader\<close>

definition reader_resource :: "env \<Rightarrow> snapshot \<Rightarrow> resource \<Rightarrow> resource option" where
  "reader_resource env s t = find_row (snapshot_id_of env s) (snapshot_id_of env s t) (rev (iv_resources s))"

definition source_scope :: "required_source \<Rightarrow> resource \<Rightarrow> resource_scope" where
  "source_scope q t =
     (case rq_subject q of
        TARGET_SUBJECT \<Rightarrow> nr_scope t
      | GLOBAL_ACCOUNT_SUBJECT \<Rightarrow> SCOPE_GLOBAL
      | REGIONAL_ACCOUNT_SUBJECT \<Rightarrow> SCOPE_REGIONAL)"

definition subject_matches :: "env \<Rightarrow> snapshot \<Rightarrow> subject \<Rightarrow> required_source \<Rightarrow> resource \<Rightarrow> bool" where
  "subject_matches env s j q t =
     (if rq_subject q = TARGET_SUBJECT \<and> nr_type t \<noteq> ''aws_account''
      then (case j of ResourceSubject k \<Rightarrow> sj_snapshot_id k = snapshot_id_of env s t | _ \<Rightarrow> False)
      else
        (case j of
           AccountSubject account scope region \<Rightarrow>
             account = iv_account s \<and> scope = source_scope q t \<and>
             region = (if source_scope q t = SCOPE_REGIONAL then Some (iv_region s) else None)
         | ResourceSubject _ \<Rightarrow> False))"

definition declared_sources ::
    "env \<Rightarrow> snapshot \<Rightarrow> evidence_graph \<Rightarrow> required_source \<Rightarrow> resource \<Rightarrow> source_contract list" where
  "declared_sources env s g q t =
     filter (\<lambda>d. sd_collector d = rq_collector q \<and> sd_kind d = rq_kind q \<and> sd_api d = rq_api q \<and>
                 sd_contract_version d = rq_version q \<and> subject_matches env s (sd_subject d) q t) (eg_sources g)"

definition outcome_of :: "evidence_graph \<Rightarrow> uuid \<Rightarrow> source_outcome option" where
  "outcome_of g u = find_row so_id u (rev (eg_outcomes g))"

definition artifact_of :: "evidence_graph \<Rightarrow> source_outcome \<Rightarrow> graph_artifact option" where
  "artifact_of g so = find_row ga_reference (so_reference so) (rev (eg_artifacts g))"

text \<open>The completeness attestations of a normalized payload.\<close>

definition payload_complete :: "json \<Rightarrow> string list \<Rightarrow> bool" where
  "payload_complete payload flags =
     (list_all (\<lambda>f. jget f payload = JBool True) flags \<and>
      (''admission_complete'' \<in> set (json_keys payload) \<longrightarrow> jget ''admission_complete'' payload = JBool True) \<and>
      (''discarded_item_count'' \<in> set (json_keys payload) \<longrightarrow>
         jget ''discarded_item_count'' payload \<in> {JInt 0, JBool False}))"

definition citation_json :: "source_outcome \<Rightarrow> graph_artifact \<Rightarrow> json" where
  "citation_json so a =
     JObj [(''source_outcome_id'', JStr (uuid_text (so_id so))), (''artifact_id'', JStr (uuid_text (ga_id a))),
           (''evidence_sha256'', JStr (ga_sha a))]"

definition citation ::
    "evidence_graph \<Rightarrow> source_outcome \<Rightarrow> string list \<Rightarrow> bool \<Rightarrow> rule_exn + (graph_artifact \<times> json)" where
  "citation g so flags allow_absence =
     (case artifact_of g so of
        None \<Rightarrow> Inl MissingKey
      | Some a \<Rightarrow>
          if (so_state so = ST_PRESENT \<or> allow_absence \<and> so_state so = ST_EXPECTED_ABSENCE) \<and>
             payload_complete (ga_payload a) flags
          then Inr (a, citation_json so a) else Inl IncompleteEvidence)"

definition is_resource_subject :: "subject \<Rightarrow> bool" where
  "is_resource_subject j = (case j of ResourceSubject _ \<Rightarrow> True | _ \<Rightarrow> False)"

text \<open>One required source: declared exactly once, admitted where it must be, complete.\<close>

definition resolve ::
    "env \<Rightarrow> snapshot \<Rightarrow> evidence_graph \<Rightarrow> required_source \<Rightarrow> resource \<Rightarrow> bool \<Rightarrow>
     rule_exn + (source_outcome \<times> graph_artifact \<times> json)" where
  "resolve env s g q t typed =
     (case declared_sources env s g q t of
        [d] \<Rightarrow>
          if rq_admitted q \<and> \<not> (sd_authoritative d \<and> (typed \<longrightarrow> is_resource_subject (sd_subject d)))
          then Inl IncompleteEvidence
          else
            (case outcome_of g (sd_outcome_id d) of
               None \<Rightarrow> Inl MissingKey
             | Some so \<Rightarrow>
                 res_bind (citation g so (rq_fields q) (rq_absence q)) (\<lambda>(a, c). Inr (so, a, c)))
      | _ \<Rightarrow> Inl IncompleteEvidence)"

text \<open>\<open>resolve_source\<close>, on a reader without a graph too: no source is declared there.\<close>

definition resolve_source :: "env \<Rightarrow> snapshot \<Rightarrow> required_source \<Rightarrow> resource \<Rightarrow> rule_exn + json" where
  "resolve_source env s q t =
     (case iv_graph s of
        None \<Rightarrow> Inl IncompleteEvidence
      | Some g \<Rightarrow> res_bind (resolve env s g q t False) (\<lambda>(so, a, c). Inr (ga_payload a)))"

definition empty_fallback :: "execution_contract \<Rightarrow> resource \<Rightarrow> bool" where
  "empty_fallback x t = (ex_kind x = RESOURCES \<and> nr_type t = ''aws_account'')"

definition proof_sources :: "execution_contract \<Rightarrow> resource \<Rightarrow> required_source list" where
  "proof_sources x t =
     filter (\<lambda>q. \<not> (empty_fallback x t \<and> rq_subject q = TARGET_SUBJECT)) (ex_sources x)"

definition source_proof :: "env \<Rightarrow> snapshot \<Rightarrow> execution_contract \<Rightarrow> resource \<Rightarrow> rule_exn + json" where
  "source_proof env s x t =
     (case iv_graph s of
        None \<Rightarrow> Inl IncompleteEvidence
      | Some g \<Rightarrow>
          res_bind (res_map (\<lambda>q. resolve env s g q t True) (proof_sources x t)) (\<lambda>found.
          let citations = foldl (\<lambda>m (so, a, c). AList.update (uuid_text (so_id so)) c m) [] found
          in Inr (JObj [(''schema_version'', JStr ''1.0.0''), (''scan_id'', JStr (uuid_text (iv_scan_id s))),
                        (''sources'', JList (map snd (sort_key fst citations))),
                        (''relationship_observation_ids'', JList [])])))"

section \<open>Facts\<close>

text \<open>What a proof cites was declared for the target, collected with success and complete.\<close>

lemma citation_Inr:
  assumes "citation g so flags absence = Inr (a, c)"
  shows "artifact_of g so = Some a \<and> c = citation_json so a \<and> payload_complete (ga_payload a) flags \<and>
    (so_state so = ST_PRESENT \<or> absence \<and> so_state so = ST_EXPECTED_ABSENCE)"
  using assms by (auto simp: citation_def split: option.splits if_splits)

lemma resolve_Inr:
  assumes "resolve env s g q t typed = Inr (so, a, c)"
  obtains d where "declared_sources env s g q t = [d]" "outcome_of g (sd_outcome_id d) = Some so"
    "artifact_of g so = Some a" "c = citation_json so a" "payload_complete (ga_payload a) (rq_fields q)"
    "so_state so = ST_PRESENT \<or> rq_absence q \<and> so_state so = ST_EXPECTED_ABSENCE"
    "rq_admitted q \<longrightarrow> sd_authoritative d"
proof -
  obtain d where d: "declared_sources env s g q t = [d]"
    using assms by (auto simp: resolve_def split: list.splits)
  obtain o' where o': "outcome_of g (sd_outcome_id d) = Some o'"
    "citation g o' (rq_fields q) (rq_absence q) = Inr (a, c)" "o' = so"
    "rq_admitted q \<longrightarrow> sd_authoritative d"
    using assms d by (auto simp: resolve_def res_bind_Inr_iff split: option.splits if_splits)
  show thesis using that [OF d] o' citation_Inr by blast
qed

lemma resolve_typed_weaker:
  "resolve env s g q t True = Inr x \<Longrightarrow> resolve env s g q t False = Inr x"
  by (auto simp: resolve_def split: list.splits if_splits)

lemma resolve_source_Inr:
  assumes "iv_graph s = Some g" "resolve env s g q t typed = Inr (so, a, c)"
  shows "resolve_source env s q t = Inr (ga_payload a)"
proof (cases typed)
  case True
  then show ?thesis using resolve_typed_weaker assms by (fastforce simp: resolve_source_def)
next
  case False
  then show ?thesis using assms by (simp add: resolve_source_def)
qed

end
