(* ===== verification/Rules_EC2.thy ===== *)
theory Rules_EC2
  imports Evidence_Reader
begin

text \<open>
  app/assessment/ec2_evidence.py, ec2_controls.py (the execution contracts) and app/rules/ec2.py:
  EC2-001 (IMDSv2), EC2-002 (public IPv4), EC2-003 (volume encryption) and EC2-004 (encryption by
  default, the control the remediation acts on), decided from retained source evidence.
\<close>

section \<open>Contracts\<close>

datatype ec2_control = EC2_001 | EC2_002 | EC2_003 | EC2_004

fun ec2_id :: "ec2_control \<Rightarrow> string" where
  "ec2_id EC2_001 = ''EC2-001''"
| "ec2_id EC2_002 = ''EC2-002''"
| "ec2_id EC2_003 = ''EC2-003''"
| "ec2_id EC2_004 = ''EC2-004''"

definition discovery_source :: "ec2_control \<Rightarrow> required_source" where
  "discovery_source k =
     \<lparr>rq_collector = (case k of EC2_004 \<Rightarrow> ''ec2.ebs-defaults'' | EC2_003 \<Rightarrow> ''ec2.volumes'' | _ \<Rightarrow> ''ec2.instances''),
      rq_kind = (case k of EC2_004 \<Rightarrow> ''ec2.ebs-encryption-default'' | EC2_003 \<Rightarrow> ''ec2.volumes.discovery''
                 | _ \<Rightarrow> ''ec2.instances.discovery''),
      rq_api = (case k of EC2_004 \<Rightarrow> ''ec2:GetEbsEncryptionByDefault'' | EC2_003 \<Rightarrow> ''ec2:DescribeVolumes''
                | _ \<Rightarrow> ''ec2:DescribeInstances''),
      rq_subject = REGIONAL_ACCOUNT_SUBJECT, rq_version = ''1.0.0'', rq_fields = [''complete''],
      rq_admitted = False, rq_absence = False\<rparr>"

definition facts_source :: "ec2_control \<Rightarrow> required_source" where
  "facts_source k =
     \<lparr>rq_collector = rq_collector (discovery_source k),
      rq_kind = (if k = EC2_003 then ''ec2.volume'' else ''ec2.instance''),
      rq_api = rq_api (discovery_source k), rq_subject = TARGET_SUBJECT, rq_version = ''1.0.0'',
      rq_fields = [], rq_admitted = True, rq_absence = False\<rparr>"

definition ec2_family :: "ec2_control \<Rightarrow> string \<times> string" where
  "ec2_family k = (''ec2'', if k = EC2_003 then ''ebs_volume'' else ''ec2_instance'')"

definition ec2_execution :: "ec2_control \<Rightarrow> execution_contract" where
  "ec2_execution k =
     \<lparr>ex_kind = (if k = EC2_004 then REGIONAL_ACCOUNT else RESOURCES), ex_service = ''ec2'',
      ex_families = (if k = EC2_004 then [] else [ec2_family k]),
      ex_sources = discovery_source k # (if k = EC2_004 then [] else [facts_source k])\<rparr>"

lemma ec2_execution_valid: "valid_contract (ec2_execution k)"
  by (cases k)
    (simp_all add: ec2_execution_def valid_contract_def valid_source_def discovery_source_def
      facts_source_def ec2_family_def source_key_def)

section \<open>Facts\<close>

definition need :: "bool \<Rightarrow> rule_exn + unit" where
  "need b = (if b then Inr () else Inl IncompleteEvidence)"

lemma need_Inr [simp]: "need b = Inr u \<longleftrightarrow> b"
  by (simp add: need_def)

text \<open>\<open>canonical(a) == canonical(b)\<close>: the same JSON up to the order of keys.\<close>

definition same_json :: "json \<Rightarrow> json \<Rightarrow> bool" where
  "same_json a b = (canon a = canon b)"

definition facts_payload :: "resource \<Rightarrow> json" where
  "facts_payload r =
     JObj [(''account_id'', JStr (nr_account r)), (''region'', json_text (nr_region r)),
           (''resource_type'', JStr (nr_type r)), (''resource_id'', JStr (nr_aws_id r)),
           (''arn'', json_text (nr_arn r)),
           (''tags'', JList (map (\<lambda>(k, v). JObj [(''key'', JStr k), (''value'', JStr v)]) (sort (nr_tags r)))),
           (''configuration'', JObj (nr_configuration r))]"

definition population :: "snapshot \<Rightarrow> string \<times> string \<Rightarrow> resource list" where
  "population s family = filter (\<lambda>r. (nr_service r, nr_type r) = family) (iv_resources s)"

definition imds_facts :: "(string \<times> json) list \<Rightarrow> rule_exn + (string \<times> json) list" where
  "imds_facts configuration =
     (let options = obj_get ''metadata_options'' configuration
      in res_bind (need (is_obj options)) (\<lambda>_.
         res_bind (need (jget ''state'' options = JStr ''applied'')) (\<lambda>_.
         res_bind (need (jget ''http_endpoint'' options \<in> {JStr ''enabled'', JStr ''disabled''})) (\<lambda>_.
         res_bind (need (jget ''http_tokens'' options \<in> {JStr ''required'', JStr ''optional''})) (\<lambda>_.
         Inr [(''metadata_options'', options)])))))"

definition json_strings :: "json \<Rightarrow> string list option" where
  "json_strings j =
     (case j of JList xs \<Rightarrow> all_parts (\<lambda>x. case x of JStr s \<Rightarrow> Some s | _ \<Rightarrow> None) xs | _ \<Rightarrow> None)"

definition stable_id_of :: "env \<Rightarrow> resource \<Rightarrow> uuid" where
  "stable_id_of env r =
     stable_resource_id env ''aws'' (nr_account r) (nr_service r) (nr_type r) (nr_scope r)
       (case nr_region r of None \<Rightarrow> [] | Some x \<Rightarrow> x) (nr_aws_id r)"

text \<open>A dotted quad that parses is its own text, as octets take no leading zeros.\<close>

definition public_address_facts :: "env \<Rightarrow> resource \<Rightarrow> rule_exn + (string \<times> json) list" where
  "public_address_facts env r =
     (case json_strings (obj_get ''public_ipv4_addresses'' (nr_configuration r)) of
        None \<Rightarrow> Inl IncompleteEvidence
      | Some xs \<Rightarrow>
          res_bind (need (list_all (\<lambda>a. ipv4_int a \<noteq> None) xs)) (\<lambda>_.
          res_bind (need (xs = sort (remdups xs))) (\<lambda>_.
          Inr [(''public_ipv4_addresses'', JList (map JStr xs)),
               (''stable_resource_id'', JStr (uuid_text (stable_id_of env r)))])))"

definition boolean_facts :: "string \<Rightarrow> json \<Rightarrow> rule_exn + (string \<times> json) list" where
  "boolean_facts name v = (case v of JBool b \<Rightarrow> Inr [(name, JBool b)] | _ \<Rightarrow> Inl IncompleteEvidence)"

definition resource_facts :: "env \<Rightarrow> ec2_control \<Rightarrow> resource \<Rightarrow> rule_exn + (string \<times> json) list" where
  "resource_facts env k r =
     (case k of
        EC2_001 \<Rightarrow> imds_facts (nr_configuration r)
      | EC2_002 \<Rightarrow> public_address_facts env r
      | _ \<Rightarrow> boolean_facts ''encrypted'' (obj_get ''encrypted'' (nr_configuration r)))"

text \<open>An index of a tuple of the contract; the contract is an argument and need not be the control's own.\<close>

definition tuple_item :: "'a list \<Rightarrow> nat \<Rightarrow> rule_exn + 'a" where
  "tuple_item xs i = (if i < length xs then Inr (xs ! i) else Inl MissingIndex)"

lemma tuple_item_simps [simp]:
  "tuple_item (x # xs) 0 = Inr x" "tuple_item (x # y # xs) (Suc 0) = Inr y" "tuple_item (x # y # xs) 1 = Inr y"
  by (simp_all add: tuple_item_def)

definition ec2_facts ::
    "env \<Rightarrow> snapshot \<Rightarrow> execution_contract \<Rightarrow> ec2_control \<Rightarrow> resource \<Rightarrow> rule_exn + (string \<times> json) list" where
  "ec2_facts env s x k t =
     res_bind (tuple_item (ex_sources x) 0) (\<lambda>discovery.
     res_bind (resolve_source env s discovery t) (\<lambda>payload.
     res_bind (need (jget ''account_id'' payload = JStr (iv_account s))) (\<lambda>_.
     res_bind (need (jget ''region'' payload = JStr (iv_region s))) (\<lambda>_.
     if k = EC2_004 then boolean_facts ''ebs_encryption_by_default'' (jget ''ebs_encryption_by_default'' payload)
     else
       res_bind (tuple_item (ex_families x) 0) (\<lambda>family.
       (let rs = population s family; ids = sort (map nr_aws_id rs)
        in res_bind (need (list_all (\<lambda>r. nr_account r = iv_account s \<and> nr_scope r = SCOPE_REGIONAL \<and>
                                         nr_region r = Some (iv_region s)) rs)) (\<lambda>_.
           res_bind (need (same_json (jget ''resource_ids'' payload) (JList (map JStr ids)))) (\<lambda>_.
           res_bind (need (jget ''resource_count'' payload = JInt (int (length ids)))) (\<lambda>_.
           if nr_type t = ''aws_account''
           then res_bind (need (rs = [])) (\<lambda>_. Inr [(''empty_population'', JBool True)])
           else
             (case reader_resource env s t of
                None \<Rightarrow> Inl IncompleteEvidence
              | Some r \<Rightarrow>
                  res_bind (tuple_item (ex_sources x) 1) (\<lambda>second.
                  res_bind (resolve_source env s second t) (\<lambda>facts.
                  res_bind (need (same_json facts (facts_payload r))) (\<lambda>_.
                  resource_facts env k r)))))))))))))"

definition ec2_not_applicable :: "(string \<times> json) list \<Rightarrow> bool" where
  "ec2_not_applicable facts =
     (obj_get ''empty_population'' facts = JBool True \<or>
      jget ''http_endpoint'' (obj_get ''metadata_options'' facts) = JStr ''disabled'')"

section \<open>The rule\<close>

definition ec2_info :: "ec2_control \<Rightarrow> rule_info" where
  "ec2_info k =
     (case k of
        EC2_001 \<Rightarrow>
          \<lparr>rl_control = ec2_id k, rl_title = ''EC2 instance does not require IMDSv2'',
           rl_category = CAT_IDENTITY, rl_severity = HIGH,
           rl_impact = ''Optional metadata tokens lack the IMDSv2-only safeguard; this does not prove credential theft.'',
           rl_recommendation = ''Check application compatibility before an authorized operator requires IMDSv2 through an approved change.''\<rparr>
      | EC2_002 \<Rightarrow>
          \<lparr>rl_control = ec2_id k, rl_title = ''EC2 instance has an unapproved public IPv4 address'',
           rl_category = CAT_NETWORK, rl_severity = MEDIUM,
           rl_impact = ''Unapproved public IPv4 assignment increases potential exposure, not proof of reachability.'',
           rl_recommendation = ''Review business need and network dependencies before an authorized operator removes public addressing or approves the exact resource identity.''\<rparr>
      | EC2_003 \<Rightarrow>
          \<lparr>rl_control = ec2_id k, rl_title = ''EBS volume is not encrypted'',
           rl_category = CAT_STORAGE, rl_severity = MEDIUM,
           rl_impact = ''Unencrypted volume data lacks the EBS encryption safeguard.'',
           rl_recommendation = ''Plan and test an authorized encrypted replacement or migration with backups; this is not an in-place conversion.''\<rparr>
      | EC2_004 \<Rightarrow>
          \<lparr>rl_control = ec2_id k, rl_title = ''EBS encryption by default is disabled'',
           rl_category = CAT_STORAGE, rl_severity = MEDIUM,
           rl_impact = ''A disabled Regional default can allow new unencrypted volumes.'',
           rl_recommendation = ''Review workloads and key access before an authorized operator enables the Regional default; existing volumes are unaffected.''\<rparr>)"

text \<open>A UUID in canonical text, of version 5 and the RFC 4122 variant.\<close>

definition lower_hex :: "char \<Rightarrow> bool" where
  "lower_hex c = (c \<in> set ''0123456789abcdef'')"

definition canonical_uuid5 :: "string \<Rightarrow> bool" where
  "canonical_uuid5 s =
     (length s = 36 \<and>
      list_all (\<lambda>i. if i \<in> {8, 13, 18, 23} then s ! i = CHR ''-'' else lower_hex (s ! i)) [0..<36] \<and>
      s ! 14 = CHR ''5'' \<and> s ! 19 \<in> set ''89ab'')"

definition ec2_passes :: "ec2_control \<Rightarrow> profile \<Rightarrow> (string \<times> json) list \<Rightarrow> bool" where
  "ec2_passes k p facts =
     (case k of
        EC2_001 \<Rightarrow> jget ''http_tokens'' (obj_get ''metadata_options'' facts) = JStr ''required''
      | EC2_002 \<Rightarrow>
          obj_get ''public_ipv4_addresses'' facts = JList [] \<or>
          obj_get ''stable_resource_id'' facts \<in> set (map JStr (pr_exceptions p))
      | EC2_003 \<Rightarrow> obj_get ''encrypted'' facts = JBool True
      | EC2_004 \<Rightarrow> obj_get ''ebs_encryption_by_default'' facts = JBool True)"

definition ec2_verdict :: "env \<Rightarrow> snapshot \<Rightarrow> profile \<Rightarrow> ec2_control \<Rightarrow> resource \<Rightarrow> rule_exn + verdict" where
  "ec2_verdict env s p k t =
     (case res_bind (source_proof env s (ec2_execution k) t) (\<lambda>proof.
           res_bind (ec2_facts env s (ec2_execution k) k t) (\<lambda>facts. Inr (proof, facts))) of
        Inl IncompleteEvidence \<Rightarrow>
          Inr (INSUFFICIENT_EVIDENCE, None, [''ec2.required_evidence''],
               ''Required EC2 evidence is unavailable, incomplete, pending or inconsistent.'')
      | Inl e \<Rightarrow> Inl e
      | Inr (proof, facts) \<Rightarrow>
          if ec2_not_applicable facts
          then Inr (NOT_APPLICABLE, None, [],
                    ''Complete evidence proves no applicable target or an explicitly disabled metadata endpoint.'')
          else
            (let passing = ec2_passes k p facts;
                 evidence = JObj ([(''source_proof'', proof), (''evaluation_version'', JStr ''1.0.0'')] @ facts)
             in Inr (if passing then PASS else FAIL, Some evidence, [],
                     if passing then ''Complete EC2 evidence satisfies the selected control policy.''
                     else ''Complete EC2 evidence violates the selected control policy.'')))"

definition ec2_assess ::
    "env \<Rightarrow> ec2_control \<Rightarrow> snapshot \<Rightarrow> profile \<Rightarrow> rule_exn + assessment list" where
  "ec2_assess env k s p =
     (if k = EC2_002 \<and> \<not> list_all canonical_uuid5 (pr_exceptions p) then Inl ValidationError
      else
        res_bind (targets_or_account s (ec2_execution k)) (\<lambda>targets.
        res_map (\<lambda>t. res_bind (ec2_verdict env s p k t)
                       (assessment_for_target env (ec2_info k) s p (rq_collector (discovery_source k))
                          (rq_api (discovery_source k)) t)) targets))"

end
