(* ===== verification/EC2_Contracts.thy ===== *)
theory EC2_Contracts
  imports Rules_EC2
begin

text \<open>
  What the EC2 controls guarantee: a decision is the retained fact, and the evidence of a failing
  EC2-004 assessment is exactly the evidence that the remediation baseline recomputes.
\<close>

section \<open>One assessment\<close>

lemma assessment_for_target_artifact:
  assumes "assessment_for_target env i s p collector api t (result, Some payload, missing, reason) = Inr c"
  shows "\<exists>a. ac_artifacts c = [strip_artifact a] \<and> artifact_ok env (strip_artifact a) \<and>
    a = (let b = (target_artifact env i s collector api t payload)\<lparr>ar_sha := json_digest env payload\<rparr>
         in b\<lparr>ar_id := evidence_id env b\<rparr>)"
proof -
  let ?t = "target_artifact env i s collector api t payload"
  obtain b where b: "for_assessment env ?t = Some b"
    and m: "make_assessment env (target_assessment env i s p t [b] (result, Some payload, missing, reason)) = Some c"
    using assms by (auto simp: assessment_for_target_def res_bind_Inr_iff)
  have "ac_artifacts c = [b]" using make_assessment_ok [OF m] by (simp add: target_assessment_def)
  moreover have "ar_payload ?t = payload" by (simp add: target_artifact_def)
  ultimately show ?thesis using b for_assessment_ok [OF b]
    by (simp add: for_assessment_def make_artifact_def Let_def split: if_splits)
qed

lemma ec2_verdict_decisive:
  assumes "ec2_verdict env s p k t = Inr (result, evidence, missing, reason)" "result = FAIL \<or> result = PASS"
  obtains proof_json facts where "source_proof env s (ec2_execution k) t = Inr proof_json"
    "ec2_facts env s (ec2_execution k) k t = Inr facts" "\<not> ec2_not_applicable facts" "result = FAIL \<longleftrightarrow> \<not> ec2_passes k p facts"
    "evidence = Some (JObj ([(''source_proof'', proof_json), (''evaluation_version'', JStr ''1.0.0'')] @ facts))"
proof -
  let ?m = "res_bind (source_proof env s (ec2_execution k) t) (\<lambda>proof.
      res_bind (ec2_facts env s (ec2_execution k) k t) (\<lambda>facts. Inr (proof, facts)))"
  show thesis
  proof (cases ?m)
    case (Inl e)
    then show ?thesis using assms by (cases e) (auto simp: ec2_verdict_def)
  next
    case (Inr x)
    then obtain pr facts where x: "x = (pr, facts)" "source_proof env s (ec2_execution k) t = Inr pr"
      "ec2_facts env s (ec2_execution k) k t = Inr facts" by (auto simp: res_bind_Inr_iff)
    then show ?thesis using assms Inr that [OF x(2,3)]
      by (auto simp: ec2_verdict_def Let_def split: if_splits)
  qed
qed

section \<open>EC2-004 and the baseline\<close>

lemma ec2_004_proof:
  assumes "source_proof env s (ec2_execution EC2_004) t = Inr pr"
  obtains g so a where "iv_graph s = Some g" "resolve env s g (discovery_source EC2_004) t True = Inr (so, a, citation_json so a)"
    "pr = JObj [(''schema_version'', JStr ''1.0.0''), (''scan_id'', JStr (uuid_text (iv_scan_id s))),
      (''sources'', JList [citation_json so a]), (''relationship_observation_ids'', JList [])]"
proof -
  have q: "proof_sources (ec2_execution EC2_004) t = [discovery_source EC2_004]"
    by (simp add: proof_sources_def empty_fallback_def ec2_execution_def)
  obtain g where g: "iv_graph s = Some g"
    using assms by (auto simp: source_proof_def split: option.splits)
  obtain so a c where r: "resolve env s g (discovery_source EC2_004) t True = Inr (so, a, c)"
    "pr = JObj [(''schema_version'', JStr ''1.0.0''), (''scan_id'', JStr (uuid_text (iv_scan_id s))),
      (''sources'', JList [c]), (''relationship_observation_ids'', JList [])]"
    using assms by (auto simp: source_proof_def g q res_bind_Inr_iff)
  moreover have "c = citation_json so a" using r(1) by (rule resolve_Inr)
  ultimately show thesis using that [OF g] by blast
qed

lemma ec2_004_facts:
  assumes "ec2_facts env s (ec2_execution EC2_004) EC2_004 t = Inr facts" "iv_graph s = Some g"
    and "resolve env s g (discovery_source EC2_004) t True = Inr (so, a, c)"
  obtains b where "facts = [(''ebs_encryption_by_default'', JBool b)]"
    "jget ''ebs_encryption_by_default'' (ga_payload a) = JBool b"
    "jget ''account_id'' (ga_payload a) = JStr (iv_account s)" "jget ''region'' (ga_payload a) = JStr (iv_region s)"
  using assms(1) resolve_source_Inr [OF assms(2,3)] that
  by (auto simp: ec2_facts_def ec2_execution_def res_bind_Inr_iff boolean_facts_def split: json.splits)

definition binding_of :: "source_outcome \<Rightarrow> graph_artifact \<Rightarrow> source_binding" where
  "binding_of so a =
     \<lparr>sb_outcome_id = so_id so, sb_artifact_id = ga_id a, sb_reference = ga_reference a, sb_sha = ga_sha a\<rparr>"

lemma ec2_004_payload:
  assumes "sc_id sc = iv_scan_id s"
  shows "json_digest env
      (JObj [(''source_proof'', JObj [(''schema_version'', JStr ''1.0.0''),
          (''scan_id'', JStr (uuid_text (iv_scan_id s))), (''sources'', JList [citation_json so a]),
          (''relationship_observation_ids'', JList [])]),
        (''evaluation_version'', JStr ''1.0.0''), (''ebs_encryption_by_default'', JBool False)]) =
    sha env (PayloadDoc (canon (expected_payload sc (binding_of so a))))"
    (is "json_digest env (JObj ?xs) = _")
proof -
  let ?ys = "[(''evaluation_version'', JStr ''1.0.0''), (''ebs_encryption_by_default'', JBool False), hd ?xs]"
  have e: "expected_payload sc (binding_of so a) = JObj ?ys"
    by (simp add: expected_payload_def binding_of_def citation_json_def assms)
  have "canon (JObj ?xs) = canon (JObj ?ys)" by (rule canon_perm) simp_all
  then show ?thesis by (simp only: json_digest_def e)
qed

text \<open>The rows that a scan of the snapshot stores for the Regional account target.\<close>

definition rows_of_target :: "env \<Rightarrow> snapshot \<Rightarrow> baseline_rows \<Rightarrow> bool" where
  "rows_of_target env s b =
     (sc_id (br_scan b) = iv_scan_id s \<and> sn_observed_at (br_snapshot b) = iv_collected_at s \<and>
      sn_arn (br_snapshot b) = None \<and> rs_account (br_resource b) = iv_account s \<and>
      rs_aws_id (br_resource b) = iv_account s \<and> rs_region (br_resource b) = iv_region s \<and>
      rs_scope (br_resource b) = SCOPE_REGIONAL \<and>
      sn_id (br_snapshot b) = snapshot_id_of env s (account_target s (ec2_execution EC2_004)))"

lemma ec2_004_schema: "lower_ascii ''EC2-004'' = ''ec2-004''"
  by code_simp

lemma ec2_004_evidence:
  assumes "ec2_assess env EC2_004 s p = Inr cs" "c \<in> set cs" "ac_result c = FAIL"
    and rows: "rows_of_target env s b" and plain: "plain_text (iv_account s)" "plain_text (iv_region s)"
  shows "cs = [c] \<and> (\<exists>g so a ev. iv_graph s = Some g \<and> artifact_of g so = Some a \<and> so_state so = ST_PRESENT \<and>
    jget ''ebs_encryption_by_default'' (ga_payload a) = JBool False \<and> ac_artifacts c = [ev] \<and>
    expected_evidence env b (expected_payload (br_scan b) (binding_of so a)) = Some (ar_id ev, ar_sha ev))"
proof -
  let ?t = "account_target s (ec2_execution EC2_004)"
  have t: "?t = \<lparr>nr_account = iv_account s, nr_service = ''ec2'', nr_type = ''aws_account'',
      nr_aws_id = iv_account s, nr_arn = None, nr_name = Some (iv_account s), nr_scope = SCOPE_REGIONAL,
      nr_region = Some (iv_region s), nr_tags = [], nr_configuration = [], nr_raw_configuration = []\<rparr>"
    by (simp add: account_target_def ec2_execution_def account_resource_def)
  have cs: "cs = [c]" and c: "res_bind (ec2_verdict env s p EC2_004 ?t)
      (assessment_for_target env (ec2_info EC2_004) s p (rq_collector (discovery_source EC2_004))
        (rq_api (discovery_source EC2_004)) ?t) = Inr c"
    using assms(1,2) by (auto simp: ec2_assess_def targets_or_account_def assessment_targets_def
        ec2_execution_def res_bind_Inr_iff)
  obtain result evidence missing reason where v: "ec2_verdict env s p EC2_004 ?t = Inr (result, evidence, missing, reason)"
    and tgt: "assessment_for_target env (ec2_info EC2_004) s p (rq_collector (discovery_source EC2_004))
        (rq_api (discovery_source EC2_004)) ?t (result, evidence, missing, reason) = Inr c"
    using c by (auto simp: res_bind_Inr_iff)
  have res: "result = FAIL" using assessment_for_target_facts [OF tgt] assms(3) by simp
  obtain pr facts where d: "source_proof env s (ec2_execution EC2_004) ?t = Inr pr"
    "ec2_facts env s (ec2_execution EC2_004) EC2_004 ?t = Inr facts" "\<not> ec2_passes EC2_004 p facts"
    "evidence = Some (JObj ([(''source_proof'', pr), (''evaluation_version'', JStr ''1.0.0'')] @ facts))"
    using ec2_verdict_decisive [OF v] res by blast
  obtain g so a where g: "iv_graph s = Some g"
    and r: "resolve env s g (discovery_source EC2_004) ?t True = Inr (so, a, citation_json so a)"
    and pr: "pr = JObj [(''schema_version'', JStr ''1.0.0''), (''scan_id'', JStr (uuid_text (iv_scan_id s))),
      (''sources'', JList [citation_json so a]), (''relationship_observation_ids'', JList [])]"
    using ec2_004_proof [OF d(1)] by blast
  obtain x where x: "facts = [(''ebs_encryption_by_default'', JBool x)]"
    "jget ''ebs_encryption_by_default'' (ga_payload a) = JBool x"
    using ec2_004_facts [OF d(2) g r] by blast
  have "\<not> x" using d(3) x(1) by (simp add: ec2_passes_def obj_get_def)
  then have facts: "facts = [(''ebs_encryption_by_default'', JBool False)]"
    "jget ''ebs_encryption_by_default'' (ga_payload a) = JBool False" using x by simp_all
  have src: "artifact_of g so = Some a" "so_state so = ST_PRESENT"
    using resolve_Inr [OF r] by (auto simp: discovery_source_def)
  let ?payload = "JObj [(''source_proof'', pr), (''evaluation_version'', JStr ''1.0.0''),
    (''ebs_encryption_by_default'', JBool False)]"
  let ?e = "target_artifact env (ec2_info EC2_004) s (rq_collector (discovery_source EC2_004))
    (rq_api (discovery_source EC2_004)) ?t ?payload"
  let ?d = "json_digest env ?payload"
  obtain ev where ev: "ac_artifacts c = [ev]" "artifact_ok env ev"
    "ev = strip_artifact (?e\<lparr>ar_sha := ?d, ar_id := evidence_id env (?e\<lparr>ar_sha := ?d\<rparr>)\<rparr>)"
    using assessment_for_target_artifact [OF tgt [unfolded d(4) facts(1), simplified]]
    by (auto simp: Let_def)
  have dig: "?d = sha env (PayloadDoc (canon (expected_payload (br_scan b) (binding_of so a))))"
    using ec2_004_payload rows unfolding pr rows_of_target_def by blast
  have pay: "ar_payload ev = ?payload" by (simp add: ev(3) target_artifact_def)
  have sha: "ar_sha ev = ?d" using ev(2) by (simp add: artifact_ok_def pay)
  have ident: "ar_id ev = evidence_id env ev" using ev(2) by (simp add: artifact_ok_def)
  have "evidence_id env ev = build_evidence_id env
     [uuid_text (iv_scan_id s), uuid_text (snapshot_id_of env s ?t), ''EC2-004'', iv_account s, ''ec2'',
      ''aws_account'', scope_text SCOPE_REGIONAL, or_global (iv_region s), iv_account s, [], ''ec2.ebs-defaults'',
      ''normalized-inventory'', ''ec2:GetEbsEncryptionByDefault'', iso_text (iv_collected_at s),
      ''control.ec2-004.evidence'', ''1.0.0'', ''primary'', ?d]"
    using plain unfolding evidence_id_def pay
    by (simp add: ev(3) strip_artifact_def target_artifact_def t plain_text_def region_key_def discovery_source_def
        ec2_info_def trim_text_def ec2_004_schema is_white_def)
  then have "expected_evidence env b (expected_payload (br_scan b) (binding_of so a)) = Some (ar_id ev, ar_sha ev)"
    using rows plain
    by (simp add: expected_evidence_def Let_def rows_of_target_def ident sha dig [symmetric] trim_text_def)
  then show ?thesis using cs g src facts(2) ev(1) by blast
qed

end
