(* ===== verification/Rule_Engine.thy ===== *)
theory Rule_Engine
  imports EC2_Contracts
begin

text \<open>
  app/rules/registry.py and engine.py with the order of app/assessment/composition.py, the
  inventory digest of identities.py and the candidate validation of evidence_reader.py, for
  catalogs whose execution contracts have no assessment dependency (all but LOG-004) and schema
  1.0.0. Rules are arbitrary: the engine checks everything they return.
\<close>

section \<open>The registry\<close>

record security_rule =
  ru_control :: string
  ru_evaluate :: "snapshot \<Rightarrow> rule_exn + finding list"
  ru_assess :: "snapshot \<Rightarrow> profile \<Rightarrow> rule_exn + assessment list"

text \<open>The dict of rules in registration order.\<close>

type_synonym registry = "security_rule list"

definition register :: "registry \<Rightarrow> security_rule \<Rightarrow> rule_exn + registry" where
  "register reg r =
     (if ru_control r \<in> set (map ru_control reg) then Inl ValidationError else Inr (reg @ [r]))"

definition build_registry :: "security_rule list \<Rightarrow> rule_exn + registry" where
  "build_registry rs = res_fold (\<lambda>r reg. register reg r) rs []"

definition registry_rules :: "registry \<Rightarrow> security_rule list" where
  "registry_rules reg = sort_key ru_control reg"

definition registry_get :: "registry \<Rightarrow> string \<Rightarrow> security_rule option" where
  "registry_get reg k = find_row ru_control k reg"

section \<open>Digests and owners\<close>

definition resource_json :: "resource \<Rightarrow> json" where
  "resource_json r =
     JObj [(''account_id'', JStr (nr_account r)), (''service'', JStr (nr_service r)),
           (''resource_type'', JStr (nr_type r)), (''aws_resource_id'', JStr (nr_aws_id r)),
           (''arn'', json_text (nr_arn r)), (''name'', json_text (nr_name r)),
           (''scope'', JStr (scope_text (nr_scope r))), (''region'', json_text (nr_region r)),
           (''tags'', JObj (map (\<lambda>(k, v). (k, JStr v)) (nr_tags r))),
           (''configuration'', JObj (nr_configuration r))]"

text \<open>\<open>graph_doc\<close> is the canonical document of an evidence graph.\<close>

definition inventory_digest :: "env \<Rightarrow> (evidence_graph \<Rightarrow> json) \<Rightarrow> snapshot \<Rightarrow> digest" where
  "inventory_digest env graph_doc s =
     json_digest env (JObj
       ([(''scan_id'', JStr (uuid_text (iv_scan_id s))), (''account_id'', JStr (iv_account s)),
         (''requested_region'', JStr (iv_region s)), (''collected_at'', JStr (iso_text (iv_collected_at s))),
         (''collector_outcomes'', JObj (map (\<lambda>(n, st). (n, JStr (status_text st))) (iv_outcomes s))),
         (''resources'', JList (map resource_json (sort_key resource_identity (iv_resources s))))] @
        (case iv_graph s of
           None \<Rightarrow> []
         | Some g \<Rightarrow> [(''inventory_schema_version'', JStr ''2.0.0''), (''evidence_graph'', graph_doc g)])))"

text \<open>A foreign owner is admitted only for an exact resource of a validated inventory.\<close>

definition owner_admitted ::
    "snapshot \<Rightarrow> string \<Rightarrow> string \<Rightarrow> string \<Rightarrow> string \<Rightarrow> resource_scope \<Rightarrow> string option \<Rightarrow> bool" where
  "owner_admitted s account service rtype aws_id scope region =
     (account = iv_account s \<or>
      iv_graph s \<noteq> None \<and>
      list_ex (\<lambda>r. nr_account r = account \<and> nr_service r = service \<and> nr_type r = rtype \<and>
                   nr_aws_id r = aws_id \<and> nr_scope r = scope \<and> nr_region r = region) (iv_resources s))"

definition contract_error :: "string \<Rightarrow> rule_exn + 'a" where
  "contract_error why = Inl (RuleContractError why)"

section \<open>The legacy entry point\<close>

definition admit_finding ::
    "snapshot \<Rightarrow> security_rule \<Rightarrow> finding \<Rightarrow> finding list \<Rightarrow> rule_exn + finding list" where
  "admit_finding s r f acc =
     (if fc_control f \<noteq> ru_control r then contract_error ''control''
      else if \<not> owner_admitted s (fc_account f) (fc_service f) (fc_type f) (fc_aws_id f) (fc_scope f) (fc_region f)
      then contract_error ''owner''
      else if finding_identity f \<in> set (map finding_identity acc) then contract_error ''duplicate''
      else Inr (acc @ [f]))"

definition engine_evaluate :: "registry \<Rightarrow> snapshot \<Rightarrow> rule_exn + finding list" where
  "engine_evaluate reg s =
     res_bind
       (res_fold (\<lambda>r acc. res_bind (ru_evaluate r s) (\<lambda>fs. res_fold (admit_finding s r) fs acc))
          (registry_rules reg) [])
       (\<lambda>fs. Inr (sort_key finding_identity fs))"

section \<open>Catalogs\<close>

record catalog_entry =
  ce_control :: string
  ce_execution :: "execution_contract option"
  ce_parameters :: "string list"

record catalog =
  ct_entries :: "catalog_entry list"
  ct_digest :: digest

definition catalog_ids :: "catalog \<Rightarrow> string list" where
  "catalog_ids k = map ce_control (ct_entries k)"

definition profile_fields :: "string list" where
  "profile_fields =
     [''profile_id'', ''version'', ''enabled_controls'', ''required_tags'', ''stale_key_days'',
      ''approved_management_cidrs'', ''public_ec2_exceptions'', ''restricted_data_requires_kms'',
      ''content_checksum'']"

text \<open>A profile of the base class has none of the inputs that GOV-001 or an extension requires.\<close>

definition validate_profile_inputs :: "catalog \<Rightarrow> profile \<Rightarrow> bool" where
  "validate_profile_inputs k p =
     (''GOV-001'' \<notin> set (pr_controls p) \<and>
      (''EC2-002'' \<in> set (pr_controls p) \<longrightarrow> list_all canonical_uuid5 (pr_exceptions p)) \<and>
      list_all (\<lambda>c. case find_row ce_control c (ct_entries k) of
                      None \<Rightarrow> False
                    | Some e \<Rightarrow> set (ce_parameters e) \<subseteq> set profile_fields) (pr_controls p))"

definition assessment_order :: "string list \<Rightarrow> string list" where
  "assessment_order enabled =
     (let ordered = sort enabled
      in if ''LOG-004'' \<in> set ordered \<and> ''S3-002'' \<in> set ordered
         then (let rest = remove1 ''S3-002'' ordered
               in takeWhile (\<lambda>c. c \<noteq> ''LOG-004'') rest @ [''S3-002''] @ dropWhile (\<lambda>c. c \<noteq> ''LOG-004'') rest)
         else ordered)"

section \<open>Validation of one source-aware candidate\<close>

definition candidate_target :: "assessment \<Rightarrow> resource" where
  "candidate_target c =
     \<lparr>nr_account = ac_account c, nr_service = ac_service c, nr_type = ac_type c, nr_aws_id = ac_aws_id c,
      nr_arn = None, nr_name = None, nr_scope = ac_scope c, nr_region = ac_region c, nr_tags = [],
      nr_configuration = [], nr_raw_configuration = []\<rparr>"

definition ec2_of_id :: "string \<Rightarrow> ec2_control option" where
  "ec2_of_id c = find (\<lambda>k. ec2_id k = c) [EC2_001, EC2_002, EC2_003, EC2_004]"

definition expected_facts ::
    "env \<Rightarrow> snapshot \<Rightarrow> execution_contract \<Rightarrow> assessment \<Rightarrow> rule_exn + (json \<times> (string \<times> json) list option)" where
  "expected_facts env s x c =
     res_bind (source_proof env s x (candidate_target c)) (\<lambda>proof.
     case ec2_of_id (ac_control c) of
       None \<Rightarrow> Inr (proof, None)
     | Some k \<Rightarrow> res_bind (ec2_facts env s x k (candidate_target c)) (\<lambda>facts. Inr (proof, Some facts)))"

definition artifact_agrees :: "json \<Rightarrow> (string \<times> json) list option \<Rightarrow> artifact \<Rightarrow> bool" where
  "artifact_agrees proof facts a =
     (same_json (jget ''source_proof'' (ar_payload a)) proof \<and>
      (case facts of
         None \<Rightarrow> True
       | Some fs \<Rightarrow>
           list_all (\<lambda>(k, v). same_json (jget k (ar_payload a)) v) fs \<and>
           jget ''evaluation_version'' (ar_payload a) = JStr ''1.0.0''))"

definition validate_candidate ::
    "env \<Rightarrow> snapshot \<Rightarrow> execution_contract \<Rightarrow> assessment \<Rightarrow> rule_exn + unit" where
  "validate_candidate env s x c =
     (if \<not> valid_resource (candidate_target c) then Inl ValidationError
      else
        (case expected_facts env s x c of
           Inl IncompleteEvidence \<Rightarrow>
             if ac_result c = INSUFFICIENT_EVIDENCE \<and> ac_artifacts c = [] then Inr () else Inl ValidationError
         | Inl e \<Rightarrow> Inl e
         | Inr (proof, facts) \<Rightarrow>
             if (ac_result c \<in> {PASS, FAIL} \<and> ac_artifacts c = []) \<or>
                (ac_result c = NOT_APPLICABLE \<and> ac_control c \<in> {''IAM-005'', ''IAM-006''}) \<or>
                \<not> list_all (artifact_agrees proof facts) (ac_artifacts c) \<or>
                (case facts of
                   None \<Rightarrow> False
                 | Some fs \<Rightarrow> (ac_result c = NOT_APPLICABLE) \<noteq> ec2_not_applicable fs)
             then Inl ValidationError else Inr ()))"

text \<open>A ValueError inside the contract checks becomes a RuleContractError, others pass.\<close>

definition as_contract_error :: "rule_exn + 'a \<Rightarrow> rule_exn + 'a" where
  "as_contract_error m =
     (case m of
        Inl ValidationError \<Rightarrow> contract_error ''execution''
      | Inl IncompleteEvidence \<Rightarrow> contract_error ''execution''
      | Inl e \<Rightarrow> Inl e
      | Inr a \<Rightarrow> Inr a)"

definition validate_execution ::
    "env \<Rightarrow> snapshot \<Rightarrow> execution_contract option \<Rightarrow> assessment list \<Rightarrow> rule_exn + unit" where
  "validate_execution env s x cs =
     (case x of
        None \<Rightarrow> Inr ()
      | Some x \<Rightarrow>
          as_contract_error
            (res_bind (validate_execution_targets s x cs) (\<lambda>_.
             res_bind (res_map (validate_candidate env s x) cs) (\<lambda>_. Inr ()))))"

section \<open>The four-state entry point\<close>

record engine_input =
  ei_snapshot :: snapshot
  ei_profile :: profile
  ei_inventory_sha :: digest
  ei_catalog_sha :: digest

definition admit_assessment ::
    "env \<Rightarrow> engine_input \<Rightarrow> security_rule \<Rightarrow> assessment \<Rightarrow> assessment list \<Rightarrow> rule_exn + assessment list" where
  "admit_assessment env ei r c acc =
     (let s = ei_snapshot ei; p = ei_profile ei
      in if ac_control c \<noteq> ru_control r then contract_error ''control''
         else if \<not> owner_admitted s (ac_account c) (ac_service c) (ac_type c) (ac_aws_id c) (ac_scope c) (ac_region c)
         then contract_error ''owner''
         else if ac_scan_id c \<noteq> iv_scan_id s then contract_error ''scan''
         else if ac_inventory_sha c \<notin> {None, Some (ei_inventory_sha ei)} then contract_error ''inventory''
         else if ac_catalog_sha c \<notin> {None, Some (ei_catalog_sha ei)} then contract_error ''catalog''
         else if ac_snapshot_id c \<noteq> snapshot_id_of env s (candidate_target c) then contract_error ''snapshot''
         else if ac_profile_id c \<noteq> pr_id p \<or> ac_profile_version c \<noteq> pr_version p \<or>
                 ac_profile_sha c \<noteq> profile_checksum env p
         then contract_error ''profile''
         else if assessment_identity c \<in> set (map assessment_identity acc) then contract_error ''duplicate''
         else Inr (acc @ [c\<lparr>ac_inventory_sha := Some (ei_inventory_sha ei),
                            ac_catalog_sha := Some (ei_catalog_sha ei)\<rparr>]))"

definition assess_control ::
    "env \<Rightarrow> engine_input \<Rightarrow> registry \<Rightarrow> catalog \<Rightarrow> string \<Rightarrow> assessment list \<Rightarrow> rule_exn + assessment list" where
  "assess_control env ei reg k control acc =
     (case (registry_get reg control, find_row ce_control control (ct_entries k)) of
        (Some r, Some e) \<Rightarrow>
          res_bind (ru_assess r (ei_snapshot ei) (ei_profile ei)) (\<lambda>cs.
          if cs = [] then contract_error ''empty''
          else
            res_bind (validate_execution env (ei_snapshot ei) (ce_execution e) cs) (\<lambda>_.
            res_fold (admit_assessment env ei r) cs acc))
      | _ \<Rightarrow> Inl UnknownControl)"

definition engine_assess ::
    "env \<Rightarrow> (evidence_graph \<Rightarrow> json) \<Rightarrow> registry \<Rightarrow> catalog \<Rightarrow> snapshot \<Rightarrow> profile \<Rightarrow> rule_exn + assessment list" where
  "engine_assess env graph_doc reg k s p =
     (if \<not> set (pr_controls p) \<subseteq> set (map ru_control reg) then contract_error ''unregistered''
      else if \<not> validate_profile_inputs k p then Inl ValidationError
      else if \<not> set (pr_controls p) \<subseteq> set (catalog_ids k) then contract_error ''catalog contract''
      else
        (let ei = \<lparr>ei_snapshot = s, ei_profile = p, ei_inventory_sha = inventory_digest env graph_doc s,
                   ei_catalog_sha = ct_digest k\<rparr>
         in res_bind (res_fold (assess_control env ei reg k) (assessment_order (pr_controls p)) []) (\<lambda>cs.
            Inr (sort_key assessment_identity cs))))"

section \<open>The default registry\<close>

definition default_rules :: "env \<Rightarrow> security_rule list" where
  "default_rules env =
     [\<lparr>ru_control = rl_control ssh_info, ru_evaluate = port_evaluate ssh_info ssh_port,
       ru_assess = port_assess env ssh_info ssh_port\<rparr>,
      \<lparr>ru_control = rl_control rdp_info, ru_evaluate = port_evaluate rdp_info rdp_port,
       ru_assess = port_assess env rdp_info rdp_port\<rparr>,
      \<lparr>ru_control = rl_control encryption_info, ru_evaluate = encryption_evaluate,
       ru_assess = encryption_assess env\<rparr>,
      \<lparr>ru_control = rl_control mfa_info, ru_evaluate = mfa_evaluate, ru_assess = mfa_assess env\<rparr>,
      \<lparr>ru_control = rl_control trail_info, ru_evaluate = trail_evaluate, ru_assess = trail_assess env\<rparr>]"

text \<open>The EC2 rules of catalog 0.5.0, whose legacy entry point only raises.\<close>

definition ec2_rule :: "env \<Rightarrow> ec2_control \<Rightarrow> security_rule" where
  "ec2_rule env k =
     \<lparr>ru_control = ec2_id k, ru_evaluate = (\<lambda>_. Inl ValidationError), ru_assess = ec2_assess env k\<rparr>"

lemma default_registry: "build_registry (default_rules env) = Inr (default_rules env)"
  by (simp add: build_registry_def register_def default_rules_def ssh_info_def rdp_info_def
      encryption_info_def mfa_info_def trail_info_def)

end
