(* ===== verification/Engine_Contracts.thy ===== *)
theory Engine_Contracts
  imports Rule_Engine
begin

text \<open>
  What the engine guarantees of its output for arbitrary rules, and what the built-in rules add:
  order and identity, the binding of every candidate to the run, independence of the order of
  registration, intact evidence.
\<close>

section \<open>Admission\<close>

definition bound_to :: "env \<Rightarrow> engine_input \<Rightarrow> assessment \<Rightarrow> bool" where
  "bound_to env ei c =
     (ac_scan_id c = iv_scan_id (ei_snapshot ei) \<and> ac_inventory_sha c = Some (ei_inventory_sha ei) \<and>
      ac_catalog_sha c = Some (ei_catalog_sha ei) \<and>
      ac_snapshot_id c = snapshot_id_of env (ei_snapshot ei) (candidate_target c) \<and>
      ac_profile_id c = pr_id (ei_profile ei) \<and> ac_profile_version c = pr_version (ei_profile ei) \<and>
      ac_profile_sha c = profile_checksum env (ei_profile ei) \<and>
      owner_admitted (ei_snapshot ei) (ac_account c) (ac_service c) (ac_type c) (ac_aws_id c) (ac_scope c)
        (ac_region c))"

definition sealed :: "engine_input \<Rightarrow> assessment \<Rightarrow> assessment" where
  "sealed ei c = c\<lparr>ac_inventory_sha := Some (ei_inventory_sha ei), ac_catalog_sha := Some (ei_catalog_sha ei)\<rparr>"

lemma assessment_ok_sealed [simp]: "assessment_ok env (sealed ei c) = assessment_ok env c"
  by (simp add: assessment_ok_def sealed_def artifact_matches_def [abs_def] result_evidence_ok_def)

lemma sealed_simps [simp]:
  "assessment_identity (sealed ei c) = assessment_identity c" "ac_control (sealed ei c) = ac_control c"
  "ac_result (sealed ei c) = ac_result c" "candidate_target (sealed ei c) = candidate_target c"
  by (simp_all add: sealed_def assessment_identity_def candidate_target_def)

lemma admit_assessment_Inr:
  assumes "admit_assessment env ei r c acc = Inr acc'"
  shows "acc' = acc @ [sealed ei c]" "ac_control c = ru_control r" "bound_to env ei (sealed ei c)"
    "assessment_identity c \<notin> set (map assessment_identity acc)"
  using assms
  by (simp_all add: admit_assessment_def Let_def contract_error_def bound_to_def sealed_def
      candidate_target_def split: if_splits)

lemma admit_all_Inr:
  "res_fold (admit_assessment env ei r) cs acc = Inr acc' \<Longrightarrow>
     acc' = acc @ map (sealed ei) cs \<and>
     (\<forall>c\<in>set cs. ac_control c = ru_control r \<and> bound_to env ei (sealed ei c)) \<and>
     (distinct (map assessment_identity acc) \<longrightarrow> distinct (map assessment_identity acc'))"
proof (induction cs arbitrary: acc)
  case Nil
  then show ?case by simp
next
  case (Cons c cs)
  obtain u where u: "admit_assessment env ei r c acc = Inr u"
    "res_fold (admit_assessment env ei r) cs u = Inr acc'"
    using Cons.prems by (auto simp: res_bind_Inr_iff)
  note a = admit_assessment_Inr [OF u(1)]
  note ih = Cons.IH [OF u(2)]
  have "distinct (map assessment_identity acc) \<longrightarrow> distinct (map assessment_identity u)"
    using a(1,4) by simp
  then have "distinct (map assessment_identity acc) \<longrightarrow> distinct (map assessment_identity acc')"
    using ih by blast
  moreover have "acc' = acc @ map (sealed ei) (c # cs)" using ih a(1) by simp
  ultimately show ?case using ih a(2,3) by simp
qed

text \<open>What one control adds to the accumulated assessments.\<close>

definition control_outcome ::
    "env \<Rightarrow> engine_input \<Rightarrow> registry \<Rightarrow> catalog \<Rightarrow> string \<Rightarrow> assessment list \<Rightarrow> bool" where
  "control_outcome env ei reg k control cs =
     (\<exists>r e. registry_get reg control = Some r \<and> find_row ce_control control (ct_entries k) = Some e \<and>
        ru_assess r (ei_snapshot ei) (ei_profile ei) = Inr cs \<and> cs \<noteq> [] \<and>
        validate_execution env (ei_snapshot ei) (ce_execution e) cs = Inr () \<and>
        (\<forall>c\<in>set cs. ac_control c = control \<and> bound_to env ei (sealed ei c)))"

lemma assess_control_Inr:
  assumes "assess_control env ei reg k control acc = Inr acc'"
  obtains cs where "control_outcome env ei reg k control cs" "acc' = acc @ map (sealed ei) cs"
    "distinct (map assessment_identity acc) \<longrightarrow> distinct (map assessment_identity acc')"
proof -
  obtain r e cs u where r: "registry_get reg control = Some r" "find_row ce_control control (ct_entries k) = Some e"
    "ru_assess r (ei_snapshot ei) (ei_profile ei) = Inr cs" "cs \<noteq> []"
    "validate_execution env (ei_snapshot ei) (ce_execution e) cs = Inr u"
    "res_fold (admit_assessment env ei r) cs acc = Inr acc'"
    using assms by (auto simp: assess_control_def res_bind_Inr_iff contract_error_def split: option.splits if_splits)
  have "ru_control r = control" using r(1) find_row_Some by (fastforce simp: registry_get_def)
  then have "control_outcome env ei reg k control cs"
    using r admit_all_Inr [OF r(6)] by (auto simp: control_outcome_def)
  then show thesis using that admit_all_Inr [OF r(6)] by blast
qed

lemma assess_controls_Inr:
  assumes "res_fold (assess_control env ei reg k) controls acc = Inr acc'"
  shows "\<exists>css. list_all2 (control_outcome env ei reg k) controls css \<and>
    acc' = acc @ map (sealed ei) (concat css) \<and>
    (distinct (map assessment_identity acc) \<longrightarrow> distinct (map assessment_identity acc'))"
  using assms
proof (induction controls arbitrary: acc)
  case Nil
  then show ?case by simp
next
  case (Cons control controls)
  obtain u where u: "assess_control env ei reg k control acc = Inr u"
    "res_fold (assess_control env ei reg k) controls u = Inr acc'"
    using Cons.prems by (auto simp: res_bind_Inr_iff)
  obtain cs where cs: "control_outcome env ei reg k control cs" "u = acc @ map (sealed ei) cs"
    "distinct (map assessment_identity acc) \<longrightarrow> distinct (map assessment_identity u)"
    using assess_control_Inr [OF u(1)] by blast
  obtain css where "list_all2 (control_outcome env ei reg k) controls css"
    "acc' = u @ map (sealed ei) (concat css)"
    "distinct (map assessment_identity u) \<longrightarrow> distinct (map assessment_identity acc')"
    using Cons.IH [OF u(2)] by blast
  then show ?case using cs by (intro exI [of _ "cs # css"]) simp
qed

lemma set_assessment_order: "set (assessment_order enabled) = set enabled"
proof -
  have "set (takeWhile P xs) \<union> set (dropWhile P xs) = set xs" for P and xs :: "string list"
    by (metis set_append takeWhile_dropWhile_id)
  moreover have "''S3-002'' \<in> set xs \<Longrightarrow> insert ''S3-002'' (set (remove1 ''S3-002'' xs)) = set xs" for xs
  proof (intro set_eqI)
    fix x assume "''S3-002'' \<in> set xs"
    then show "x \<in> insert ''S3-002'' (set (remove1 ''S3-002'' xs)) \<longleftrightarrow> x \<in> set xs"
      by (cases "x = ''S3-002''") simp_all
  qed
  ultimately show ?thesis by (auto simp: assessment_order_def Let_def)
qed

definition run_input :: "env \<Rightarrow> (evidence_graph \<Rightarrow> json) \<Rightarrow> catalog \<Rightarrow> snapshot \<Rightarrow> profile \<Rightarrow> engine_input" where
  "run_input env graph_doc k s p =
     \<lparr>ei_snapshot = s, ei_profile = p, ei_inventory_sha = inventory_digest env graph_doc s,
      ei_catalog_sha = ct_digest k\<rparr>"

lemma engine_assess_Inr:
  assumes "engine_assess env graph_doc reg k s p = Inr cs"
  obtains css where "list_all2 (control_outcome env (run_input env graph_doc k s p) reg k)
      (assessment_order (pr_controls p)) css"
    "cs = sort_key assessment_identity (map (sealed (run_input env graph_doc k s p)) (concat css))"
    "distinct (map assessment_identity cs)"
proof -
  let ?ei = "run_input env graph_doc k s p"
  obtain u where u: "res_fold (assess_control env ?ei reg k) (assessment_order (pr_controls p)) [] = Inr u"
    "cs = sort_key assessment_identity u"
    using assms by (auto simp: engine_assess_def Let_def run_input_def res_bind_Inr_iff contract_error_def
        split: if_splits)
  obtain css where css: "list_all2 (control_outcome env ?ei reg k) (assessment_order (pr_controls p)) css"
    "u = map (sealed ?ei) (concat css)" "distinct (map assessment_identity u)"
    using assess_controls_Inr [OF u(1)] by auto
  have "mset (map assessment_identity cs) = mset (map assessment_identity u)"
    by (simp add: u(2))
  then have "distinct (map assessment_identity cs)" using css(3) by (metis mset_eq_imp_distinct_iff)
  then show thesis using that css u(2) by blast
qed

lemma engine_assess_member:
  assumes "engine_assess env graph_doc reg k s p = Inr cs" "c \<in> set cs"
  obtains control os d where "control_outcome env (run_input env graph_doc k s p) reg k control os"
    "control \<in> set (pr_controls p)" "d \<in> set os" "c = sealed (run_input env graph_doc k s p) d"
proof -
  obtain css where css: "list_all2 (control_outcome env (run_input env graph_doc k s p) reg k)
      (assessment_order (pr_controls p)) css"
    "cs = sort_key assessment_identity (map (sealed (run_input env graph_doc k s p)) (concat css))"
    using engine_assess_Inr [OF assms(1)] by blast
  obtain d os where d: "d \<in> set os" "os \<in> set css" "c = sealed (run_input env graph_doc k s p) d"
    using assms(2) css(2) by auto
  obtain control where "control \<in> set (assessment_order (pr_controls p))"
    "control_outcome env (run_input env graph_doc k s p) reg k control os"
    using css(1) d(2) by (metis in_set_conv_nth list_all2_conv_all_nth)
  then show thesis using that d set_assessment_order by blast
qed

section \<open>The order of registration\<close>

lemma find_row_perm:
  assumes "mset xs = mset ys" "distinct (map key xs)"
  shows "find_row key k xs = find_row key k ys"
proof -
  have d: "distinct (map key ys)" using assms by (metis mset_map mset_eq_imp_distinct_iff)
  have set_eq: "set xs = set ys" using assms(1) by (metis set_mset_mset)
  show ?thesis
  proof (cases "find_row key k xs")
    case None
    then show ?thesis using set_eq by (metis find_row_None_iff)
  next
    case (Some r)
    then have "r \<in> set ys" "key r = k" using find_row_Some set_eq by fastforce+
    then show ?thesis using Some find_row_distinct [OF d] by metis
  qed
qed

lemma registry_order:
  assumes "mset reg = mset reg'" "distinct (map ru_control reg)"
  shows "engine_assess env graph_doc reg k s p = engine_assess env graph_doc reg' k s p"
    and "engine_evaluate reg s = engine_evaluate reg' s"
proof -
  have "assess_control env ei reg k = assess_control env ei reg' k" for ei
    using find_row_perm [OF assms] by (intro ext) (simp add: assess_control_def registry_get_def)
  moreover have "set reg = set reg'" using assms(1) by (metis set_mset_mset)
  ultimately show "engine_assess env graph_doc reg k s p = engine_assess env graph_doc reg' k s p"
    by (simp add: engine_assess_def)
  have "registry_rules reg = registry_rules reg'"
    unfolding registry_rules_def by (rule sort_key_perm_eq [OF assms])
  then show "engine_evaluate reg s = engine_evaluate reg' s" by (simp add: engine_evaluate_def)
qed

lemma register_all:
  "res_fold (\<lambda>r reg. register reg r) rs acc = Inr reg \<Longrightarrow> distinct (map ru_control acc) \<Longrightarrow>
     reg = acc @ rs \<and> distinct (map ru_control reg)"
proof (induction rs arbitrary: acc)
  case Nil
  then show ?case by simp
next
  case (Cons r rs)
  then have "register acc r = Inr (acc @ [r])" "ru_control r \<notin> set (map ru_control acc)"
    "res_fold (\<lambda>r reg. register reg r) rs (acc @ [r]) = Inr reg"
    by (auto simp: res_bind_Inr_iff register_def split: if_splits)
  then have "reg = (acc @ [r]) @ rs \<and> distinct (map ru_control reg)"
    using Cons.prems(2) by (intro Cons.IH) simp_all
  moreover from this have "reg = acc @ r # rs" by (elim conjE) simp
  ultimately show ?case by blast
qed

lemma register_total:
  "distinct (map ru_control (acc @ rs)) \<Longrightarrow> res_fold (\<lambda>r reg. register reg r) rs acc = Inr (acc @ rs)"
proof (induction rs arbitrary: acc)
  case Nil
  then show ?case by simp
next
  case (Cons r rs)
  then have "register acc r = Inr (acc @ [r])" by (auto simp: register_def)
  moreover have "res_fold (\<lambda>r reg. register reg r) rs (acc @ [r]) = Inr ((acc @ [r]) @ rs)"
    by (rule Cons.IH) (use Cons.prems in simp)
  ultimately show ?case by simp
qed

lemma build_registry_distinct: "build_registry rs = Inr reg \<Longrightarrow> reg = rs \<and> distinct (map ru_control reg)"
  unfolding build_registry_def by (drule register_all) auto

section \<open>The built-in rules return valid candidates\<close>

definition validated_rule :: "env \<Rightarrow> security_rule \<Rightarrow> bool" where
  "validated_rule env r = (\<forall>s p cs. ru_assess r s p = Inr cs \<longrightarrow> list_all (assessment_ok env) cs)"

lemma res_map_targets_ok:
  assumes "res_map (\<lambda>t. res_bind (f t) (assessment_for_target env i s p collector api t)) ts = Inr cs"
  shows "list_all (assessment_ok env) cs"
proof -
  have "list_all2 (\<lambda>t c. assessment_ok env c) ts cs"
    using assms assessment_for_target_facts
    by (fastforce simp: res_map_Inr_iff_list_all2 res_bind_Inr_iff elim!: list_all2_mono)
  then show ?thesis by (auto simp: list_all2_conv_all_nth list_all_length)
qed

lemma assess_each_ok: "assess_each env i s p service collector api why check rs = Inr cs \<Longrightarrow> list_all (assessment_ok env) cs"
  by (auto simp: assess_each_def assessment_for_account_def res_bind_Inr_iff split: if_splits
      dest!: assessment_for_target_facts res_map_targets_ok)

lemma collector_guard_ok:
  assumes "(if b then res_bind (unavailable_collector env i s p collector service api) (\<lambda>c. Inr [c]) else m) = Inr cs"
    and "m = Inr cs \<Longrightarrow> list_all (assessment_ok env) cs"
  shows "list_all (assessment_ok env) cs"
  using assms by (auto simp: res_bind_Inr_iff split: if_splits dest!: unavailable_collector_facts)

lemma builtin_validated:
  "r \<in> set (default_rules env @ map (ec2_rule env) ks) \<Longrightarrow> validated_rule env r"
proof -
  have "list_all (assessment_ok env) cs" if "port_assess env i target s p = Inr cs" for i target s p cs
    using that unfolding port_assess_def by (rule collector_guard_ok) (rule assess_each_ok)
  moreover have "list_all (assessment_ok env) cs" if "encryption_assess env s p = Inr cs" for s p cs
    using that unfolding encryption_assess_def by (rule collector_guard_ok) (rule assess_each_ok)
  moreover have "list_all (assessment_ok env) cs" if "mfa_assess env s p = Inr cs" for s p cs
    using that unfolding mfa_assess_def by (rule collector_guard_ok) (rule assess_each_ok)
  moreover have "list_all (assessment_ok env) cs" if "trail_assess env s p = Inr cs" for s p cs
    using that by (auto simp: trail_assess_def res_bind_Inr_iff assessment_for_account_def split: if_splits
        dest!: unavailable_collector_facts assessment_for_target_facts)
  moreover have "list_all (assessment_ok env) cs" if "ec2_assess env k s p = Inr cs" for k s p cs
    using that by (auto simp: ec2_assess_def res_bind_Inr_iff split: if_splits dest!: res_map_targets_ok)
  ultimately show "r \<in> set (default_rules env @ map (ec2_rule env) ks) \<Longrightarrow> validated_rule env r"
    by (auto simp: validated_rule_def default_rules_def ec2_rule_def)
qed

end
