(* ===== verification/Rules_Total.thy ===== *)
theory Rules_Total
  imports Engine_Contracts
begin

text \<open>
  The built-in controls always answer: on plain text and valid targets every builder succeeds,
  so the engine returns an assessment for each enabled control. The one exception of the code is
  an encryption algorithm that is a list or an object.
\<close>

section \<open>Stripped text\<close>

lemma trim_text_id:
  assumes "s \<noteq> []" "\<not> is_white (hd s)" "\<not> is_white (last s)"
  shows "trim_text s = s"
proof -
  have "dropWhile is_white s = s" using assms(1,2) by (cases s) auto
  moreover have "dropWhile is_white (rev s) = rev s"
    using assms(1,3) by (cases s rule: rev_cases) auto
  ultimately show ?thesis by (simp add: trim_text_def)
qed

lemma plain_textI: "s \<noteq> [] \<Longrightarrow> \<not> is_white (hd s) \<Longrightarrow> \<not> is_white (last s) \<Longrightarrow> plain_text s"
  by (simp add: plain_text_def trim_text_id)

lemma is_hex_not_white: "is_hex c \<Longrightarrow> \<not> is_white c"
  by (auto simp: is_hex_def is_white_def)

lemma sha_plain: "sha256_pattern d \<Longrightarrow> plain_text d"
  by (cases d rule: rev_cases)
    (auto simp: sha256_pattern_def list_all_iff is_hex_not_white hd_append intro!: plain_textI split: if_splits
      dest: hd_in_set)

section \<open>The builders succeed\<close>

definition plain_option :: "string option \<Rightarrow> bool" where
  "plain_option x = (case x of None \<Rightarrow> True | Some s \<Rightarrow> trim_text s = s)"

definition plain_target :: "resource \<Rightarrow> bool" where
  "plain_target t =
     (list_all plain_text [nr_account t, nr_service t, nr_type t, nr_aws_id t] \<and>
      plain_option (nr_arn t) \<and> plain_option (nr_name t) \<and> plain_option (nr_region t) \<and>
      scope_region_ok (nr_scope t) (nr_region t))"

definition plain_run :: "env \<Rightarrow> profile \<Rightarrow> bool" where
  "plain_run env p = ((\<forall>j. sha256_pattern (json_digest env j)) \<and> plain_text (pr_id p) \<and> plain_text (pr_version p))"

definition plain_rule :: "rule_info \<Rightarrow> bool" where
  "plain_rule i = (valid_info i \<and> plain_text (rl_control i))"

definition plain_verdict :: "verdict \<Rightarrow> bool" where
  "plain_verdict v =
     (well_formed_verdict v \<and>
      (case v of (_, _, missing, reason) \<Rightarrow>
         trim_text reason \<noteq> [] \<and> list_all (\<lambda>m. trim_text m \<noteq> []) missing \<and> distinct (map trim_text missing)))"

lemma plain_option_map: "plain_option x \<Longrightarrow> map_option trim_text x = x"
  by (cases x) (simp_all add: plain_option_def)

lemma for_assessment_total:
  assumes t: "plain_target t" and r: "plain_run env p" and i: "plain_rule i"
    and c: "plain_text collector" "plain_text api"
  obtains a where "for_assessment env (target_artifact env i s collector api t payload) = Some a"
    "verify_integrity env a" "ar_control a = rl_control i" "ar_scan_id a = iv_scan_id s"
    "ar_snapshot_id a = snapshot_id_of env s t" "ar_account a = nr_account t" "ar_service a = nr_service t"
    "ar_type a = nr_type t" "ar_aws_id a = nr_aws_id t" "ar_arn a = nr_arn t" "ar_scope a = nr_scope t"
    "ar_region a = nr_region t"
proof -
  let ?b = "(target_artifact env i s collector api t payload)\<lparr>ar_sha := json_digest env payload\<rparr>"
  let ?a = "?b\<lparr>ar_id := evidence_id env ?b\<rparr>"
  have sha: "plain_text (json_digest env payload)" using r sha_plain by (simp add: plain_run_def)
  have schema: "plain_text (''control.'' @ lower_ascii (rl_control i) @ ''.evidence'')"
    by (rule plain_textI) (simp_all add: is_white_def)
  have texts: "plain_text ''normalized-inventory''" "plain_text ''1.0.0''" "plain_text ''primary''"
    by (simp_all add: plain_text_def trim_text_def is_white_def)
  have strip: "strip_artifact ?a = ?a"
    using t i c sha schema texts
    by (simp add: strip_artifact_def target_artifact_def plain_target_def plain_rule_def plain_text_def
        plain_option_map)
  have id: "ar_id ?a = evidence_id env ?a" by (simp add: evidence_id_def)
  have "artifact_ok env ?a"
    using t r i c sha schema texts id unfolding artifact_ok_def
    by (simp add: target_artifact_def plain_target_def plain_rule_def valid_info_def plain_text_def plain_run_def)
  then have "make_artifact env ?a = Some ?a" by (simp only: make_artifact_def Let_def strip if_True)
  moreover have "ar_payload (target_artifact env i s collector api t payload) = payload"
    by (simp add: target_artifact_def)
  ultimately have "for_assessment env (target_artifact env i s collector api t payload) = Some ?a"
    by (simp only: for_assessment_def Let_def)
  moreover have "verify_integrity env ?a" using \<open>artifact_ok env ?a\<close> by (rule artifact_ok_integrity)
  ultimately show thesis by (rule that) (simp_all add: target_artifact_def)
qed

lemma assessment_for_target_total:
  assumes t: "plain_target t" and r: "plain_run env p" and i: "plain_rule i"
    and c: "plain_text collector" "plain_text api" and v: "plain_verdict v"
  shows "\<exists>c. assessment_for_target env i s p collector api t v = Inr c \<and> ac_account c = nr_account t \<and>
    ac_service c = nr_service t \<and> ac_type c = nr_type t \<and> ac_aws_id c = nr_aws_id t \<and> ac_scope c = nr_scope t \<and>
    ac_region c = nr_region t \<and> ac_profile_id c = pr_id p \<and> ac_profile_version c = pr_version p \<and>
    ac_profile_sha c = profile_checksum env p"
proof -
  obtain result evidence missing reason where v': "v = (result, evidence, missing, reason)" by (cases v)
  have vf: "missing \<noteq> [] \<longleftrightarrow> result = INSUFFICIENT_EVIDENCE" "trim_text reason \<noteq> []"
    "list_all (\<lambda>m. trim_text m \<noteq> []) missing" "distinct (map trim_text missing)"
    "evidence \<noteq> None \<longleftrightarrow> decisive result"
    using v by (auto simp: v' plain_verdict_def well_formed_verdict_def)
  have sha: "plain_text (profile_checksum env p)" "sha256_pattern (profile_checksum env p)"
    using r sha_plain by (auto simp: plain_run_def profile_checksum_def)
  have made: "\<exists>c. make_assessment env (target_assessment env i s p t as v) = Some c \<and> ac_account c = nr_account t \<and>
    ac_service c = nr_service t \<and> ac_type c = nr_type t \<and> ac_aws_id c = nr_aws_id t \<and> ac_scope c = nr_scope t \<and>
    ac_region c = nr_region t \<and> ac_profile_id c = pr_id p \<and> ac_profile_version c = pr_version p \<and>
    ac_profile_sha c = profile_checksum env p"
    if as: "length as \<le> 1" "as \<noteq> [] \<longleftrightarrow> decisive result"
      "list_all (\<lambda>a. verify_integrity env a \<and> ar_control a = rl_control i \<and> ar_scan_id a = iv_scan_id s \<and>
        ar_snapshot_id a = snapshot_id_of env s t \<and> ar_account a = nr_account t \<and> ar_service a = nr_service t \<and>
        ar_type a = nr_type t \<and> ar_aws_id a = nr_aws_id t \<and> ar_arn a = nr_arn t \<and> ar_scope a = nr_scope t \<and>
        ar_region a = nr_region t) as" for as
  proof -
    define d where "d = strip_assessment (target_assessment env i s p t as v)"
    have f: "ac_control d = rl_control i" "ac_account d = nr_account t" "ac_service d = nr_service t"
      "ac_type d = nr_type t" "ac_aws_id d = nr_aws_id t" "ac_arn d = nr_arn t" "ac_scope d = nr_scope t"
      "ac_region d = nr_region t" "ac_profile_id d = pr_id p" "ac_profile_version d = pr_version p"
      "ac_profile_sha d = profile_checksum env p" "ac_scan_id d = iv_scan_id s"
      "ac_snapshot_id d = snapshot_id_of env s t" "ac_artifacts d = as" "ac_result d = result"
      "ac_missing d = map trim_text missing" "ac_reason d = trim_text reason"
      using t r i sha
      by (simp_all add: d_def v' strip_assessment_def target_assessment_def plain_target_def plain_rule_def
          plain_text_def plain_option_map plain_run_def)
    have "distinct (map ar_id as)" using as(1) by (cases as) auto
    moreover have "list_all (artifact_matches env d) as"
      using as(3) unfolding artifact_matches_def by (simp add: f list_all_iff)
    moreover have "result_evidence_ok d"
      using vf as(2) by (auto simp: result_evidence_ok_def f decisive_def)
    ultimately have "assessment_ok env d"
      using t r i vf sha unfolding assessment_ok_def
      by (simp add: f plain_target_def plain_rule_def valid_info_def plain_text_def plain_run_def list_all_iff)
    then have "make_assessment env (target_assessment env i s p t as v) = Some d"
      by (simp add: make_assessment_def Let_def d_def)
    then show ?thesis using f by blast
  qed
  show ?thesis
  proof (cases evidence)
    case None
    then show ?thesis using made [of "[]"] v
      by (auto simp: assessment_for_target_def v' plain_verdict_def well_formed_verdict_def)
  next
    case (Some payload)
    obtain a where a: "for_assessment env (target_artifact env i s collector api t payload) = Some a"
      "verify_integrity env a" "ar_control a = rl_control i" "ar_scan_id a = iv_scan_id s"
      "ar_snapshot_id a = snapshot_id_of env s t" "ar_account a = nr_account t" "ar_service a = nr_service t"
      "ar_type a = nr_type t" "ar_aws_id a = nr_aws_id t" "ar_arn a = nr_arn t" "ar_scope a = nr_scope t"
      "ar_region a = nr_region t" using for_assessment_total [OF t r i c] by blast
    have "decisive result" using v Some by (simp add: v' plain_verdict_def well_formed_verdict_def)
    then show ?thesis using made [of "[a]"] a
      by (auto simp: assessment_for_target_def v' Some lift_validation_def)
  qed
qed

section \<open>Verdicts are plain\<close>

lemma res_fold_Inl_witness: "res_fold f xs s = Inl e \<Longrightarrow> \<exists>x\<in>set xs. \<exists>t. f x t = Inl e"
  by (induction xs arbitrary: s) (auto simp: res_bind_Inl_iff)

lemma range_step_path: "range_step path source v cov x tab = Inl e \<Longrightarrow> \<exists>q. e = path @ q"
  by (cases x; cases cov)
    (auto simp: range_step_def Let_def split: json.splits option.splits if_splits)

lemma ranges_step_path: "ranges_step path rule cov x tab = Inl e \<Longrightarrow> \<exists>q. e = path @ q"
  by (cases x)
    (auto simp: ranges_step_def required_list_def res_bind_Inl_iff split: json.splits
      dest!: res_fold_Inl_witness range_step_path)

lemma port_coverage_path: "port_coverage target path rule = Inl e \<Longrightarrow> \<exists>q. e = path @ q"
  by (auto simp: port_coverage_def Let_def optional_port_def required_port_def res_bind_Inl_iff
      split: json.splits if_splits)

lemma permission_step_path: "permission_step target (n, raw) tab = Inl e \<Longrightarrow> \<exists>q. e = ingress_path n @ q"
  by (auto simp: permission_step_def Let_def res_bind_Inl_iff split: json.splits option.splits
      dest!: port_coverage_path res_fold_Inl_witness ranges_step_path)

lemma matching_ingress_path: "matching_ingress target r = Inl e \<Longrightarrow> \<exists>q. e = ''configuration'' @ q"
  by (auto simp: matching_ingress_def required_list_def res_bind_Inl_iff ingress_path_def split: json.splits
      dest!: res_fold_Inl_witness permission_step_path)

lemma nonblank_configuration [simp]: "trim_text (''configuration'' @ q) \<noteq> []"
  by (simp add: trim_text_Nil_iff is_white_def)

lemma nonblank_word: "w \<noteq> [] \<Longrightarrow> \<not> is_white (hd w) \<Longrightarrow> trim_text w \<noteq> []"
  by (cases w) (auto simp: trim_text_Nil_iff)

lemma port_verdict_plain: "\<exists>v. port_verdict target r = Inr v \<and> plain_verdict v"
proof (cases "matching_ingress target r")
  case (Inl e)
  then obtain q where "e = ''configuration'' @ q" using matching_ingress_path by blast
  then have "trim_text e \<noteq> []" by (simp only: nonblank_configuration not_False_eq_True)
  then show ?thesis
    by (simp add: port_verdict_def Inl plain_verdict_def well_formed_verdict_def decisive_def nonblank_word is_white_def)
next
  case (Inr ms)
  then show ?thesis
    by (simp add: port_verdict_def plain_verdict_def well_formed_verdict_def decisive_def nonblank_word is_white_def)
qed

lemma map_filter_in: "y \<in> set (List.map_filter f xs) \<Longrightarrow> \<exists>x\<in>set xs. f x = Some y"
  by (induction xs) (auto simp: map_filter_simps split: option.splits)

lemma encryption_rule_nonblank: "encryption_rule_error x = Some (Inr path) \<Longrightarrow> trim_text path \<noteq> []"
  by (auto simp: encryption_rule_error_def Let_def encryption_rule_path_def encryption_path_def nonblank_word is_white_def
      split: json.splits if_splits prod.splits)

lemma encryption_rules_nonblank:
  "List.map_filter encryption_rule_error xs = Inr path # ys \<Longrightarrow> trim_text path \<noteq> []"
  using map_filter_in [of "Inr path" encryption_rule_error xs] encryption_rule_nonblank by auto

lemma encryption_error_nonblank:
  assumes "encryption_error_path k = Inr (Some path)"
  shows "trim_text path \<noteq> []"
proof -
  have e: "trim_text encryption_path \<noteq> []" "trim_text (encryption_path @ ''.Rules'') \<noteq> []"
    by (simp_all add: encryption_path_def nonblank_word is_white_def)
  have "path = encryption_path \<or> path = encryption_path @ ''.Rules'' \<or>
      (\<exists>xs ys. List.map_filter encryption_rule_error xs = Inr path # ys)"
    using assms unfolding encryption_error_path_def
    by (auto simp del: enumerate_simps split: option.splits json.splits list.splits sum.splits)
  then show ?thesis using e encryption_rules_nonblank by blast
qed

lemma encryption_verdict_plain:
  assumes "\<not> isl (encryption_error_path (nr_configuration r))"
  shows "\<exists>v. encryption_verdict r = Inr v \<and> plain_verdict v"
proof -
  obtain fault where f: "encryption_error_path (nr_configuration r) = Inr fault"
    using assms by (cases "encryption_error_path (nr_configuration r)") auto
  show ?thesis
  proof (cases fault)
    case None
    then show ?thesis
      by (simp add: encryption_verdict_def f plain_verdict_def well_formed_verdict_def decisive_def nonblank_word is_white_def)
  next
    case (Some path)
    then show ?thesis using encryption_error_nonblank f
      by (simp add: encryption_verdict_def plain_verdict_def well_formed_verdict_def decisive_def nonblank_word is_white_def)
  qed
qed

lemma mfa_error_nonblank: "mfa_devices_error_path d = Some path \<Longrightarrow> trim_text path \<noteq> []"
proof -
  have "\<And>x path. device_error x = Some path \<Longrightarrow> trim_text path \<noteq> []"
    by (auto simp: device_error_def device_path_def mfa_path_def nonblank_word is_white_def split: json.splits if_splits prod.splits)
  moreover have "path \<in> set (List.map_filter device_error xs) \<Longrightarrow> \<exists>x. device_error x = Some path" for xs
    using map_filter_in by fast
  ultimately show "mfa_devices_error_path d = Some path \<Longrightarrow> trim_text path \<noteq> []"
    unfolding mfa_devices_error_path_def
    by (auto simp: mfa_path_def nonblank_word is_white_def split: json.splits list.splits) (metis list.set_intros(1))
qed

lemma mfa_verdict_plain: "\<exists>v. mfa_verdict s r = Inr v \<and> plain_verdict v"
  using mfa_error_nonblank [of "mfa_devices r"]
  by (auto simp: mfa_verdict_def plain_verdict_def well_formed_verdict_def decisive_def nonblank_word is_white_def
      split: option.splits)

section \<open>Every built-in rule answers\<close>

definition answer :: "env \<Rightarrow> string \<Rightarrow> snapshot \<Rightarrow> profile \<Rightarrow> resource \<Rightarrow> assessment \<Rightarrow> bool" where
  "answer env control s p t c =
     (ac_control c = control \<and> ac_scan_id c = iv_scan_id s \<and> ac_inventory_sha c = None \<and> ac_catalog_sha c = None \<and>
      ac_snapshot_id c = snapshot_id_of env s t \<and> ac_account c = nr_account t \<and> ac_service c = nr_service t \<and>
      ac_type c = nr_type t \<and> ac_aws_id c = nr_aws_id t \<and> ac_scope c = nr_scope t \<and> ac_region c = nr_region t \<and>
      ac_profile_id c = pr_id p \<and> ac_profile_version c = pr_version p \<and>
      ac_profile_sha c = profile_checksum env p)"

lemma target_answer:
  assumes "plain_target t" "plain_run env p" "plain_rule i" "plain_text collector" "plain_text api" "plain_verdict v"
  shows "\<exists>c. assessment_for_target env i s p collector api t v = Inr c \<and> answer env (rl_control i) s p t c"
proof -
  obtain c where c: "assessment_for_target env i s p collector api t v = Inr c" "ac_account c = nr_account t"
    "ac_service c = nr_service t" "ac_type c = nr_type t" "ac_aws_id c = nr_aws_id t" "ac_scope c = nr_scope t"
    "ac_region c = nr_region t" "ac_profile_id c = pr_id p" "ac_profile_version c = pr_version p"
    "ac_profile_sha c = profile_checksum env p"
    using assessment_for_target_total [OF assms] by blast
  moreover have "trim_text (rl_control i) = rl_control i" using assms(3) by (simp add: plain_rule_def plain_text_def)
  ultimately show ?thesis using assessment_for_target_facts [OF c(1)] by (auto simp: answer_def)
qed

definition plain_snapshot :: "snapshot \<Rightarrow> bool" where
  "plain_snapshot s =
     (plain_text (iv_account s) \<and> list_all plain_target (iv_resources s) \<and>
      distinct (map resource_identity (iv_resources s)) \<and>
      list_all (\<lambda>r. nr_account r = iv_account s \<or> iv_graph s \<noteq> None) (iv_resources s) \<and>
      distinct (map nr_aws_id (trails_of s)) \<and>
      list_all (\<lambda>r. \<not> isl (encryption_error_path (nr_configuration r))) (resources_of s ''s3'' ''s3_bucket''))"

text \<open>The targets a rule may answer for: one account target, or distinct admitted resources.\<close>

definition target_list :: "snapshot \<Rightarrow> resource list \<Rightarrow> bool" where
  "target_list s ts =
     (ts \<noteq> [] \<and> distinct (map resource_identity ts) \<and>
      list_all (\<lambda>t. owner_admitted s (nr_account t) (nr_service t) (nr_type t) (nr_aws_id t) (nr_scope t) (nr_region t)) ts)"

definition rule_answers :: "env \<Rightarrow> snapshot \<Rightarrow> profile \<Rightarrow> security_rule \<Rightarrow> bool" where
  "rule_answers env s p r =
     (\<exists>ts cs. ru_assess r s p = Inr cs \<and> target_list s ts \<and> list_all2 (answer env (ru_control r) s p) ts cs)"

lemma account_target_list: "target_list s [account_resource s service]"
  by (simp add: target_list_def owner_admitted_def account_resource_def)

lemma plain_account: "plain_text (iv_account s) \<Longrightarrow> plain_text service \<Longrightarrow> plain_target (account_resource s service)"
  by (simp add: plain_target_def account_resource_def plain_text_def plain_option_def scope_region_ok_def trim_text_def is_white_def)

lemma family_target_list:
  assumes "plain_snapshot s" "resources_of s service rtype \<noteq> []"
  shows "target_list s (resources_of s service rtype)"
proof -
  have m: "mset (map resource_identity (resources_of s service rtype)) =
      mset (map resource_identity (filter (\<lambda>r. nr_service r = service \<and> nr_type r = rtype) (iv_resources s)))"
    by (simp add: resources_of_def)
  have d: "distinct (map resource_identity (filter (\<lambda>r. nr_service r = service \<and> nr_type r = rtype) (iv_resources s)))"
    using assms(1) by (simp add: plain_snapshot_def distinct_map_filter)
  have "distinct (map resource_identity (resources_of s service rtype))"
    using mset_eq_imp_distinct_iff [OF m] d by (simp only:)
  moreover have "owner_admitted s (nr_account t) (nr_service t) (nr_type t) (nr_aws_id t) (nr_scope t) (nr_region t)"
    if "t \<in> set (resources_of s service rtype)" for t
    using assms(1) that by (auto simp: owner_admitted_def plain_snapshot_def list_all_iff list_ex_iff)
  ultimately show ?thesis using assms(2) by (simp add: target_list_def list_all_iff del: sort_key_filter_id)
qed

lemma assess_each_answers:
  assumes "plain_snapshot s" "plain_run env p" "plain_rule i" "plain_text collector" "plain_text api" "plain_text service"
    and "trim_text why \<noteq> []"
    and "\<And>r. r \<in> set (resources_of s service rtype) \<Longrightarrow> \<exists>v. check r = Inr v \<and> plain_verdict v"
  shows "\<exists>ts cs. assess_each env i s p service collector api why check (resources_of s service rtype) = Inr cs \<and>
    target_list s ts \<and> list_all2 (answer env (rl_control i) s p) ts cs"
proof (cases "resources_of s service rtype = []")
  case True
  have "plain_target (account_resource s service)"
    using assms(1,6) by (simp add: plain_account plain_snapshot_def)
  moreover have "plain_verdict (NOT_APPLICABLE, None, [], why)"
    using assms(7) by (simp add: plain_verdict_def well_formed_verdict_def decisive_def)
  ultimately obtain c where "assessment_for_account env i s p service collector api (NOT_APPLICABLE, None, [], why) = Inr c"
    "answer env (rl_control i) s p (account_resource s service) c"
    using target_answer assms(2,3,4,5) unfolding assessment_for_account_def by blast
  then show ?thesis using True account_target_list by (auto simp: assess_each_def)
next
  case False
  let ?rs = "resources_of s service rtype"
  have "\<exists>c. res_bind (check r) (assessment_for_target env i s p collector api r) = Inr c \<and>
      answer env (rl_control i) s p r c" if "r \<in> set ?rs" for r
  proof -
    note formed = assms(8) [OF that]
    obtain v where v: "check r = Inr v" "plain_verdict v" using formed by blast
    have "plain_target r" using that assms(1) by (auto simp: plain_snapshot_def list_all_iff)
    then show ?thesis using target_answer [OF _ assms(2-5) v(2)] v(1) by simp
  qed
  then obtain g where g: "\<And>r. r \<in> set ?rs \<Longrightarrow> res_bind (check r) (assessment_for_target env i s p collector api r) = Inr (g r)"
    "\<And>r. r \<in> set ?rs \<Longrightarrow> answer env (rl_control i) s p r (g r)" by metis
  have "res_map (\<lambda>r. res_bind (check r) (assessment_for_target env i s p collector api r)) ?rs = Inr (map g ?rs)"
    by (rule res_map_total) (rule g(1))
  moreover have "list_all2 (answer env (rl_control i) s p) ?rs (map g ?rs)"
    using g(2) by (simp add: list.rel_map list_all2_same)
  ultimately show ?thesis using False family_target_list [OF assms(1) False] by (auto simp: assess_each_def)
qed

lemma unavailable_answers:
  assumes "plain_snapshot s" "plain_run env p" "plain_rule i" "plain_text collector" "plain_text api" "plain_text service"
  shows "\<exists>c. unavailable_collector env i s p collector service api = Inr c \<and>
    answer env (rl_control i) s p (account_resource s service) c"
proof -
  have "trim_text (success_path collector) \<noteq> []" by (simp add: success_path_def nonblank_word is_white_def)
  then have "plain_verdict (INSUFFICIENT_EVIDENCE, None, [success_path collector], ''Collector '' @ collector @ x)" for x
    by (simp add: plain_verdict_def well_formed_verdict_def decisive_def nonblank_word is_white_def)
  moreover have "plain_target (account_resource s service)"
    using assms(1,6) by (simp add: plain_account plain_snapshot_def)
  ultimately show ?thesis using target_answer [OF _ assms(2-5)]
    unfolding unavailable_collector_def assessment_for_account_def Let_def by blast
qed


lemma account_answers:
  "answer env control s p (account_resource s service) c \<Longrightarrow>
     \<exists>ts. target_list s ts \<and> list_all2 (answer env control s p) ts [c]"
  using account_target_list by (intro exI [of _ "[account_resource s service]"]) simp

lemma port_answers:
  assumes "plain_snapshot s" "plain_run env p" "plain_rule i"
  shows "\<exists>ts cs. port_assess env i target s p = Inr cs \<and> target_list s ts \<and>
    list_all2 (answer env (rl_control i) s p) ts cs"
proof (cases "collector_succeeded s ''security_groups''")
  case True
  have "\<exists>ts cs. assess_each env i s p ''ec2'' ''security_groups'' ''ec2:DescribeSecurityGroups''
      ''The snapshot contains no EC2 security groups.'' (port_verdict target)
      (resources_of s ''ec2'' ''security_group'') = Inr cs \<and> target_list s ts \<and>
      list_all2 (answer env (rl_control i) s p) ts cs"
    by (rule assess_each_answers [OF assms])
      ((rule port_verdict_plain | simp add: plain_textI nonblank_word is_white_def)+)
  then show ?thesis using True by (simp add: port_assess_def)
next
  case False
  have "\<exists>c. unavailable_collector env i s p ''security_groups'' ''ec2'' ''ec2:DescribeSecurityGroups'' = Inr c \<and>
      answer env (rl_control i) s p (account_resource s ''ec2'') c"
    by (rule unavailable_answers [OF assms]) (simp_all add: plain_textI is_white_def)
  then show ?thesis using False account_answers by (fastforce simp: port_assess_def)
qed

lemma encryption_answers:
  assumes "plain_snapshot s" "plain_run env p" "plain_rule encryption_info"
  shows "\<exists>ts cs. encryption_assess env s p = Inr cs \<and> target_list s ts \<and>
    list_all2 (answer env (rl_control encryption_info) s p) ts cs"
proof (cases "collector_succeeded s ''s3_buckets''")
  case True
  have "\<exists>v. encryption_verdict r = Inr v \<and> plain_verdict v" if "r \<in> set (resources_of s ''s3'' ''s3_bucket'')" for r
    using assms(1) that by (intro encryption_verdict_plain) (auto simp: plain_snapshot_def list_all_iff)
  then have "\<exists>ts cs. assess_each env encryption_info s p ''s3'' ''s3_buckets'' ''s3:GetBucketEncryption''
      ''The snapshot contains no S3 buckets.'' encryption_verdict (resources_of s ''s3'' ''s3_bucket'') = Inr cs \<and>
      target_list s ts \<and> list_all2 (answer env (rl_control encryption_info) s p) ts cs"
    by (intro assess_each_answers [OF assms]) (simp_all add: plain_textI nonblank_word is_white_def)
  then show ?thesis using True by (simp add: encryption_assess_def)
next
  case False
  have "\<exists>c. unavailable_collector env encryption_info s p ''s3_buckets'' ''s3'' ''s3:GetBucketEncryption'' = Inr c \<and>
      answer env (rl_control encryption_info) s p (account_resource s ''s3'') c"
    by (rule unavailable_answers [OF assms]) (simp_all add: plain_textI is_white_def)
  then show ?thesis using False account_answers by (fastforce simp: encryption_assess_def)
qed

lemma mfa_answers:
  assumes "plain_snapshot s" "plain_run env p" "plain_rule mfa_info"
  shows "\<exists>ts cs. mfa_assess env s p = Inr cs \<and> target_list s ts \<and>
    list_all2 (answer env (rl_control mfa_info) s p) ts cs"
proof (cases "collector_succeeded s ''iam_users'' \<or> users_discovered s")
  case True
  have "\<exists>ts cs. assess_each env mfa_info s p ''iam'' ''iam_users'' ''iam:ListMFADevices''
      ''The snapshot contains no IAM users.'' (mfa_verdict s) (resources_of s ''iam'' ''iam_user'') = Inr cs \<and>
      target_list s ts \<and> list_all2 (answer env (rl_control mfa_info) s p) ts cs"
    by (rule assess_each_answers [OF assms])
      ((rule mfa_verdict_plain | simp add: plain_textI nonblank_word is_white_def)+)
  then show ?thesis using True by (auto simp: mfa_assess_def)
next
  case False
  have "\<exists>c. unavailable_collector env mfa_info s p ''iam_users'' ''iam'' ''iam:ListMFADevices'' = Inr c \<and>
      answer env (rl_control mfa_info) s p (account_resource s ''iam'') c"
    by (rule unavailable_answers [OF assms]) (simp_all add: plain_textI is_white_def)
  then show ?thesis using False account_answers by (fastforce simp: mfa_assess_def)
qed

lemma trail_verdict_plain:
  assumes "plain_snapshot s"
  shows "plain_verdict (trail_verdict s)"
proof -
  let ?path = "\<lambda>r. ''resources['' @ nr_aws_id r @ ''].configuration.is_logging''"
  have strip: "trim_text (?path r) = ?path r" for r
    by (rule trim_text_id) (simp_all add: is_white_def)
  have "distinct (map nr_aws_id (filter (\<lambda>r. trail_logging r = None) (trails_of s)))"
    using assms by (simp add: plain_snapshot_def distinct_map_filter)
  then have "distinct (map ?path (filter (\<lambda>r. trail_logging r = None) (trails_of s)))"
    by (auto simp: distinct_map inj_on_def)
  moreover have "map trim_text (missing_trail_facts (trails_of s)) = missing_trail_facts (trails_of s)"
    unfolding missing_trail_facts_def map_map comp_def by (rule map_cong [OF refl]) (rule strip)
  moreover have "list_all (\<lambda>m. trim_text m \<noteq> []) (missing_trail_facts (trails_of s))"
    by (auto simp: missing_trail_facts_def list_all_iff nonblank_word is_white_def)
  moreover have "distinct (missing_trail_facts (trails_of s))"
    using calculation(1) by (simp only: missing_trail_facts_def)
  moreover have "list_all (\<lambda>m. trim_text m \<noteq> []) (missing_trail_facts (trails_of s)) \<and>
      distinct (map trim_text (missing_trail_facts (trails_of s)))"
    using calculation by (simp only:)
  ultimately show ?thesis
    by (simp add: trail_verdict_def Let_def plain_verdict_def well_formed_verdict_def decisive_def nonblank_word
        is_white_def)
qed

lemma trail_answers:
  assumes "plain_snapshot s" "plain_run env p" "plain_rule trail_info"
  shows "\<exists>ts cs. trail_assess env s p = Inr cs \<and> target_list s ts \<and>
    list_all2 (answer env (rl_control trail_info) s p) ts cs"
proof -
  have api: "plain_text trail_api" by (simp add: plain_textI trail_api_def is_white_def)
  have t: "plain_target (account_resource s ''cloudtrail'')"
    using assms(1) by (intro plain_account) (simp_all add: plain_snapshot_def plain_textI is_white_def)
  have "\<exists>c. unavailable_collector env trail_info s p ''cloudtrail_trails'' ''cloudtrail'' trail_api = Inr c \<and>
      answer env (rl_control trail_info) s p (account_resource s ''cloudtrail'') c"
    by (rule unavailable_answers [OF assms]) (simp_all add: api plain_textI is_white_def)
  moreover have "\<exists>c. assessment_for_account env trail_info s p ''cloudtrail'' ''cloudtrail_trails'' trail_api (trail_verdict s) = Inr c \<and>
      answer env (rl_control trail_info) s p (account_resource s ''cloudtrail'') c"
    unfolding assessment_for_account_def
    by (rule target_answer [OF t assms(2,3) _ api trail_verdict_plain [OF assms(1)]]) (simp add: plain_textI is_white_def)
  ultimately show ?thesis using account_answers by (fastforce simp: trail_assess_def)
qed

lemma plain_infos:
  "plain_rule ssh_info" "plain_rule rdp_info" "plain_rule encryption_info" "plain_rule mfa_info" "plain_rule trail_info"
  by (simp_all add: plain_rule_def valid_info_def control_pattern_def ascii_digit_def Let_def plain_textI is_white_def
      ssh_info_def rdp_info_def encryption_info_def mfa_info_def trail_info_def)

lemma default_rules_answer:
  assumes "plain_snapshot s" "plain_run env p" "r \<in> set (default_rules env)"
  shows "rule_answers env s p r"
  using assms(3) port_answers [OF assms(1,2)] encryption_answers [OF assms(1,2)] mfa_answers [OF assms(1,2)]
    trail_answers [OF assms(1,2)] plain_infos
  by (auto simp: default_rules_def rule_answers_def)

end
