(* ===== verification/Engine_Total.thy ===== *)
theory Engine_Total
  imports Rules_Total
begin

text \<open>
  The engine returns. Every contract check of the engine accepts what a rule that answers its
  targets returns, so a run over such rules ends with assessments for every enabled control.
\<close>

section \<open>Admission never rejects an answer\<close>

lemma admit_answer:
  assumes a: "answer env (ru_control r) (ei_snapshot ei) (ei_profile ei) t c"
    and o: "owner_admitted (ei_snapshot ei) (nr_account t) (nr_service t) (nr_type t) (nr_aws_id t)
      (nr_scope t) (nr_region t)"
    and fresh: "(ru_control r, resource_identity t) \<notin> set (map assessment_identity acc)"
  shows "admit_assessment env ei r c acc = Inr (acc @ [sealed ei c])"
proof -
  have "assessment_identity c = (ru_control r, resource_identity t)"
    using a by (simp add: answer_def assessment_identity_def resource_identity_def)
  moreover have "snapshot_id_of env (ei_snapshot ei) (candidate_target c) = snapshot_id_of env (ei_snapshot ei) t"
    using a by (simp add: answer_def snapshot_id_of_def candidate_target_def)
  ultimately show ?thesis using a o fresh
    unfolding admit_assessment_def Let_def by (simp add: answer_def sealed_def)
qed

lemma answer_identity:
  "answer env control s p t c \<Longrightarrow> assessment_identity c = (control, resource_identity t)"
  by (simp add: answer_def assessment_identity_def resource_identity_def)

lemma admit_answers:
  assumes "list_all2 (answer env (ru_control r) (ei_snapshot ei) (ei_profile ei)) ts cs"
    and "distinct (map resource_identity ts)"
    and "list_all (\<lambda>t. owner_admitted (ei_snapshot ei) (nr_account t) (nr_service t) (nr_type t) (nr_aws_id t)
      (nr_scope t) (nr_region t)) ts"
    and "\<forall>t\<in>set ts. (ru_control r, resource_identity t) \<notin> set (map assessment_identity acc)"
  shows "res_fold (admit_assessment env ei r) cs acc = Inr (acc @ map (sealed ei) cs)"
  using assms
proof (induction arbitrary: acc rule: list_all2_induct)
  case Nil
  then show ?case by simp
next
  case (Cons t ts c cs)
  have "admit_assessment env ei r c acc = Inr (acc @ [sealed ei c])"
    using Cons.prems by (intro admit_answer [OF Cons.hyps(1)]) simp_all
  moreover have "\<forall>u\<in>set ts. resource_identity u \<noteq> resource_identity t"
    using Cons.prems(1) by (metis distinct.simps(2) image_eqI list.set_map list.simps(9))
  then have "res_fold (admit_assessment env ei r) cs (acc @ [sealed ei c]) =
      Inr ((acc @ [sealed ei c]) @ map (sealed ei) cs)"
    using Cons.prems answer_identity [OF Cons.hyps(1)] by (intro Cons.IH) auto
  ultimately show ?case by simp
qed

section \<open>The run over the enabled controls\<close>

definition answers_control :: "env \<Rightarrow> engine_input \<Rightarrow> registry \<Rightarrow> catalog \<Rightarrow> string \<Rightarrow> bool" where
  "answers_control env ei reg k control =
     (\<exists>r e. registry_get reg control = Some r \<and> ru_control r = control \<and>
        find_row ce_control control (ct_entries k) = Some e \<and> ce_execution e = None \<and>
        rule_answers env (ei_snapshot ei) (ei_profile ei) r)"

lemma control_answers:
  assumes "answers_control env ei reg k control" "control \<notin> set (map ac_control acc)"
  shows "\<exists>cs. assess_control env ei reg k control acc = Inr (acc @ cs) \<and> cs \<noteq> [] \<and>
    list_all (\<lambda>c. ac_control c = control) cs"
proof -
  obtain r e where r: "registry_get reg control = Some r" "ru_control r = control"
    "find_row ce_control control (ct_entries k) = Some e" "ce_execution e = None"
    "rule_answers env (ei_snapshot ei) (ei_profile ei) r"
    using assms(1) by (auto simp: answers_control_def)
  obtain ts cs where c: "ru_assess r (ei_snapshot ei) (ei_profile ei) = Inr cs" "target_list (ei_snapshot ei) ts"
    "list_all2 (answer env (ru_control r) (ei_snapshot ei) (ei_profile ei)) ts cs"
    using r(5) by (auto simp: rule_answers_def)
  have "\<forall>t\<in>set ts. (ru_control r, resource_identity t) \<notin> set (map assessment_identity acc)"
    using assms(2) by (auto simp: r(2) assessment_identity_def)
  then have "res_fold (admit_assessment env ei r) cs acc = Inr (acc @ map (sealed ei) cs)"
    using c(2,3) by (intro admit_answers) (simp_all add: target_list_def)
  moreover have "cs \<noteq> []" using c(2,3) by (auto simp: target_list_def)
  moreover have "list_all (\<lambda>c. ac_control c = control) cs"
    using c(3) by (auto simp: answer_def r(2) list_all2_conv_all_nth list_all_length)
  ultimately show ?thesis
    by (intro exI [of _ "map (sealed ei) cs"])
      (simp add: assess_control_def r c(1) validate_execution_def list_all_iff)
qed

lemma controls_answer:
  assumes "list_all (answers_control env ei reg k) controls" "distinct controls"
    and "set controls \<inter> set (map ac_control acc) = {}"
  shows "\<exists>cs. res_fold (assess_control env ei reg k) controls acc = Inr (acc @ cs) \<and>
    set (map ac_control cs) = set controls"
  using assms
proof (induction controls arbitrary: acc)
  case Nil
  then show ?case by simp
next
  case (Cons control controls)
  obtain cs where c: "assess_control env ei reg k control acc = Inr (acc @ cs)" "cs \<noteq> []"
    "list_all (\<lambda>c. ac_control c = control) cs"
    using control_answers [of env ei reg k control acc] Cons.prems by auto
  have controls: "set (map ac_control cs) = {control}" using c(2,3) by (cases cs) (auto simp: list_all_iff)
  obtain ds where "res_fold (assess_control env ei reg k) controls (acc @ cs) = Inr ((acc @ cs) @ ds)"
    "set (map ac_control ds) = set controls"
    using Cons.IH [of "acc @ cs"] Cons.prems controls by auto
  then show ?case using c(1) controls by (intro exI [of _ "cs @ ds"]) simp
qed

lemma distinct_assessment_order: "distinct enabled \<Longrightarrow> distinct (assessment_order enabled)"
proof -
  assume "distinct enabled"
  then have d: "distinct (sort enabled)" by simp
  have "distinct (takeWhile P xs @ [x] @ dropWhile P xs)" if "distinct xs" "x \<notin> set xs" for P xs and x :: string
  proof -
    have m: "mset (takeWhile P xs @ [x] @ dropWhile P xs) = mset (x # takeWhile P xs @ dropWhile P xs)"
      by (simp del: takeWhile_dropWhile_id)
    show ?thesis using mset_eq_imp_distinct_iff [OF m] that by (simp only: takeWhile_dropWhile_id distinct.simps simp_thms)
  qed
  then show "distinct (assessment_order enabled)" using d
    by (auto simp: assessment_order_def Let_def simp del: distinct_append)
qed

section \<open>The built-in rules\<close>

text \<open>A catalog that enables the enabled controls with the inventory evaluators, without execution contracts.\<close>

definition inventory_catalog :: "catalog \<Rightarrow> profile \<Rightarrow> bool" where
  "inventory_catalog k p =
     (list_all (\<lambda>c. case find_row ce_control c (ct_entries k) of
         None \<Rightarrow> False
       | Some e \<Rightarrow> ce_execution e = None \<and> set (ce_parameters e) \<subseteq> set profile_fields) (pr_controls p))"

lemma default_controls:
  "map ru_control (default_rules env) = [''NET-001'', ''NET-002'', ''S3-900'', ''IAM-001'', ''LOG-001'']"
  by (simp add: default_rules_def ssh_info_def rdp_info_def encryption_info_def mfa_info_def trail_info_def)

lemma find_row_member: "k \<in> set (map key rows) \<Longrightarrow> \<exists>r. find_row key k rows = Some r \<and> r \<in> set rows \<and> key r = k"
  using find_row_None_iff [of key k rows] find_row_Some [of key k rows] by (cases "find_row key k rows") fastforce+

theorem engine_total:
  assumes "plain_snapshot s" "plain_run env p" "inventory_catalog k p"
    and "distinct (pr_controls p)" "set (pr_controls p) \<subseteq> set (map ru_control (default_rules env))"
  shows "\<exists>cs. engine_assess env graph_doc (default_rules env) k s p = Inr cs \<and>
    set (map ac_control cs) = set (pr_controls p)"
proof -
  let ?ei = "run_input env graph_doc k s p"
  have answers: "answers_control env ?ei (default_rules env) k c" if c: "c \<in> set (pr_controls p)" for c
  proof -
    obtain r where r: "registry_get (default_rules env) c = Some r" "r \<in> set (default_rules env)" "ru_control r = c"
      using find_row_member [of c ru_control "default_rules env"] c assms(5) by (auto simp: registry_get_def)
    have "rule_answers env s p r" by (rule default_rules_answer [OF assms(1,2) r(2)])
    then show ?thesis using r assms(3) c
      by (auto simp: answers_control_def run_input_def inventory_catalog_def list_all_iff split: option.splits)
  qed
  obtain cs where cs: "res_fold (assess_control env ?ei (default_rules env) k) (assessment_order (pr_controls p)) [] = Inr cs"
    "set (map ac_control cs) = set (pr_controls p)"
    using controls_answer [of env ?ei "default_rules env" k "assessment_order (pr_controls p)" "[]"] answers
      distinct_assessment_order [OF assms(4)] set_assessment_order by (auto simp: list_all_iff)
  have "validate_profile_inputs k p"
    using assms(3,5) unfolding default_controls
    by (auto simp: validate_profile_inputs_def inventory_catalog_def list_all_iff split: option.splits)
  moreover have "set (pr_controls p) \<subseteq> set (catalog_ids k)"
    using assms(3) find_row_Some [of ce_control]
    by (fastforce simp: inventory_catalog_def catalog_ids_def list_all_iff split: option.splits)
  ultimately have "engine_assess env graph_doc (default_rules env) k s p = Inr (sort_key assessment_identity cs)"
    using assms(5) cs(1) by (simp add: engine_assess_def run_input_def)
  then show ?thesis using cs(2) by simp
qed

end
