(* ===== verification/Control_Properties.thy ===== *)
theory Control_Properties
  imports Engine_Total
begin

text \<open>
  The properties of the controls and of the engine, with a small inventory on which they are
  applied.
\<close>

section \<open>A small inventory\<close>

definition demo_env0 :: env where
  "demo_env0 = demo_env 0"

lemma demo_digest [simp]: "json_digest demo_env0 j = dig (CHR ''8'')"
  by (simp add: json_digest_def demo_env0_def demo_env_def demo_sha_def)

lemma demo_uuid [simp]: "uuid5_of demo_env0 n s = 10"
  by (simp add: demo_env0_def demo_env_def)

lemma dig_pattern [simp]: "sha256_pattern (dig (CHR ''8''))"
  by code_simp

lemma dig_strip [simp]: "trim_text (dig (CHR ''8'')) = dig (CHR ''8'')"
  by code_simp

definition demo_open_group :: resource where
  "demo_open_group =
     \<lparr>nr_account = ''123456789012'', nr_service = ''ec2'', nr_type = ''security_group'', nr_aws_id = ''sg-2'',
      nr_arn = None, nr_name = None, nr_scope = SCOPE_REGIONAL, nr_region = Some ''us-east-1'', nr_tags = [],
      nr_configuration = [(''ingress_rules'', JList [JObj
        [(''protocol'', JStr ''tcp''), (''from_port'', JInt 20), (''to_port'', JInt 30),
         (''ipv4_ranges'', JList [JObj [(''cidr'', JStr ''1.2.3.4/0'')]]), (''ipv6_ranges'', JList [])]])],
      nr_raw_configuration = []\<rparr>"

definition demo_snapshot :: snapshot where
  "demo_snapshot =
     \<lparr>iv_scan_id = 4, iv_account = ''123456789012'', iv_region = ''us-east-1'', iv_collected_at = 0,
      iv_outcomes = [(''security_groups'', COL_SUCCEEDED)], iv_resources = [demo_open_group], iv_graph = None\<rparr>"

definition demo_profile :: profile where
  "demo_profile =
     \<lparr>pr_id = ''default'', pr_version = ''1.0.0'', pr_controls = [''NET-001''], pr_tags = [], pr_stale_days = 90,
      pr_cidrs = [], pr_exceptions = [], pr_kms = True\<rparr>"

lemma demo_ipv4: "ip_network ''1.2.3.4/0'' =
    Some \<lparr>net_version = IPv4, net_prefix = 0, net_address = 0, net_scope = None\<rparr>"
  by (simp add: ip_defs Let_def)

lemma demo_matches: "matching_ingress ssh_port demo_open_group = Inr
    [\<lparr>im_protocol = ''tcp'', im_from = Some 20, im_to = Some 30, im_coverage = ''20-30'', im_source = ''ipv4'',
      im_cidr = ''0.0.0.0/0'', im_description = None\<rparr>]"
  by (simp add: matching_ingress_def required_list_def demo_open_group_def obj_get_def permission_step_def
      ingress_path_def port_coverage_def blank_def is_ws_def is_white_def casefold_def Let_def required_port_def ssh_port_def
      int_text_def decimal.simps address_families_def ranges_step_def range_step_def demo_ipv4 open_text_def)

lemma demo_groups: "resources_of demo_snapshot ''ec2'' ''security_group'' = [demo_open_group]"
  by (simp add: resources_of_def demo_snapshot_def demo_open_group_def)

lemma demo_collected: "collector_succeeded demo_snapshot ''security_groups''"
  by (simp add: collector_succeeded_def snapshot_status_def demo_snapshot_def)

lemma demo_plain_run: "plain_run demo_env0 demo_profile"
  by (simp add: plain_run_def demo_profile_def plain_textI is_white_def is_hex_def)

lemma demo_plain: "plain_snapshot demo_snapshot"
proof -
  have "resources_of demo_snapshot service rtype = []" if "service \<noteq> ''ec2''" for service rtype
    using that by (simp add: resources_of_def demo_snapshot_def demo_open_group_def)
  moreover have "plain_target demo_open_group"
    by (simp add: plain_target_def demo_open_group_def plain_textI plain_option_def is_white_def scope_region_ok_def trim_text_def)
  moreover have "plain_text (iv_account demo_snapshot)" "iv_resources demo_snapshot = [demo_open_group]"
    "iv_account demo_snapshot = nr_account demo_open_group"
    by (simp_all add: demo_snapshot_def plain_textI is_white_def demo_open_group_def)
  ultimately show ?thesis by (simp add: plain_snapshot_def trails_of_def)
qed

definition demo_catalog :: catalog where
  "demo_catalog = \<lparr>ct_entries = [\<lparr>ce_control = ''NET-001'', ce_execution = None, ce_parameters = []\<rparr>],
     ct_digest = dig (CHR ''8'')\<rparr>"

lemma demo_inventory_catalog: "inventory_catalog demo_catalog demo_profile"
  by (simp add: inventory_catalog_def demo_catalog_def demo_profile_def find_row_def)

lemma demo_engine:
  "\<exists>cs. engine_assess demo_env0 gd (default_rules demo_env0) demo_catalog demo_snapshot demo_profile = Inr cs \<and>
     set (map ac_control cs) = {''NET-001''}"
  using engine_total [OF demo_plain demo_plain_run demo_inventory_catalog]
  by (simp add: demo_profile_def default_controls)

lemma demo_control_port: "\<exists>cs. port_assess demo_env0 ssh_info ssh_port demo_snapshot demo_profile = Inr cs"
  using port_answers [OF demo_plain demo_plain_run plain_infos(1)] by blast

section \<open>The controls\<close>

text \<open>C14. The port controls decide exposure. When the collector succeeded and security groups exist, NET-001 and NET-002 return one assessment per group in the order of identity; FAIL exactly for groups whose readable rules open the port to everyone by the reference definition, PASS exactly for readable groups that do not, INSUFFICIENT_EVIDENCE exactly for unreadable ones.\<close>

theorem port_control_decides_exposure:
  assumes "port_assess env i target s p = Inr cs" "collector_succeeded s ''security_groups''"
    and "resources_of s ''ec2'' ''security_group'' \<noteq> []"
  shows "list_all2 (\<lambda>r c. ac_snapshot_id c = snapshot_id_of env s r \<and>
      ac_result c = (if isl (matching_ingress target r) then INSUFFICIENT_EVIDENCE
                     else if exposes_port target r then FAIL else PASS))
    (resources_of s ''ec2'' ''security_group'') cs"
proof -
  have "assess_each env i s p ''ec2'' ''security_groups'' ''ec2:DescribeSecurityGroups''
      ''The snapshot contains no EC2 security groups.'' (port_verdict target)
      (resources_of s ''ec2'' ''security_group'') = Inr cs"
    using assms(1,2) by (simp add: port_assess_def)
  then have "list_all2 (port.reflects i target env s) (resources_of s ''ec2'' ''security_group'') cs"
    using port.assess_each_reflects assms(3) by blast
  then show ?thesis
  proof (rule list_all2_mono)
    fix r c assume r: "port.reflects i target env s r c"
    show "ac_snapshot_id c = snapshot_id_of env s r \<and>
      ac_result c = (if isl (matching_ingress target r) then INSUFFICIENT_EVIDENCE
                     else if exposes_port target r then FAIL else PASS)"
      using r matching_ingress_exposes [of target r]
      by (cases "ac_result c"; cases "matching_ingress target r")
        (auto simp: port.reflects_def port_judge_def split: if_splits)
  qed
qed

theorem port_control_decides_exposure_witness:
  "\<exists>cs. port_assess demo_env0 ssh_info ssh_port demo_snapshot demo_profile = Inr cs \<and> map ac_result cs = [FAIL]"
proof -
  obtain cs where cs: "port_assess demo_env0 ssh_info ssh_port demo_snapshot demo_profile = Inr cs"
    using demo_control_port by blast
  have "exposes_port ssh_port demo_open_group" using matching_ingress_exposes [OF demo_matches] by simp
  then have "map ac_result cs = [FAIL]"
    using port_control_decides_exposure [OF cs demo_collected] demo_matches
    by (auto simp: demo_groups list_all2_Cons1)
  then show ?thesis using cs by (intro exI [of _ cs]) simp
qed

text \<open>What the legacy entry point says, compared with the assessments of the same snapshot.\<close>

definition agrees :: "env \<Rightarrow> snapshot \<Rightarrow> assessment list \<Rightarrow> rule_exn + finding list \<Rightarrow> bool" where
  "agrees env s cs m =
     ((\<forall>fs. m = Inr fs \<longrightarrow>
        map (finding_target_id env s) fs = map ac_snapshot_id (filter (\<lambda>c. ac_result c = FAIL) cs) \<and>
        (\<forall>c\<in>set cs. ac_result c \<noteq> INSUFFICIENT_EVIDENCE)) \<and>
      (\<forall>a b path. m = Inl (RuleEvaluationError a b path) \<longrightarrow>
        (\<exists>c\<in>set cs. ac_result c = INSUFFICIENT_EVIDENCE)))"

lemma agrees_gap: "ac_result c = INSUFFICIENT_EVIDENCE \<Longrightarrow> agrees env s [c] (Inl e)"
  by (simp add: agrees_def)

lemma evaluate_each_agrees:
  assumes "resource_control check judge fails"
    and "assess_each env i s p service collector api why check rs = Inr cs"
  shows "agrees env s cs (evaluate_each j judge rs)"
proof -
  note r = resource_control.assess_each_reflects [OF assms]
  show ?thesis
  proof (cases "rs = []")
    case True
    then show ?thesis using r by (auto simp: agrees_def evaluate_each_def)
  next
    case False
    then have "list_all2 (resource_control.reflects judge fails env s) rs cs" using r by blast
    then show ?thesis
      using resource_control.evaluate_matches [OF assms(1)] resource_control.evaluate_gap [OF assms(1)]
      by (fastforce simp: agrees_def evaluate_each_def res_bind_Inr_iff res_bind_Inl_iff)
  qed
qed

lemma trail_agrees:
  assumes "trail_assess env s p = Inr cs"
  shows "agrees env s cs (trail_evaluate s)"
proof (cases "collector_succeeded s ''cloudtrail_trails''")
  case False
  then show ?thesis using assms unavailable_collector_facts
    by (fastforce simp: trail_assess_def trail_evaluate_def require_collector_success_def res_bind_Inr_iff
        intro: agrees_gap)
next
  case True
  then obtain c where c: "cs = [c]" "ac_result c = fst (trail_verdict s)"
    "ac_snapshot_id c = snapshot_id_of env s (account_resource s ''cloudtrail'')"
    using assms assessment_for_target_facts
    by (fastforce simp: trail_assess_def res_bind_Inr_iff assessment_for_account_def)
  have gap: "missing_trail_facts (trails_of s) = [] \<longleftrightarrow> find (\<lambda>r. trail_logging r = None) (trails_of s) = None"
    by (auto simp: missing_trail_facts_def find_None_iff filter_empty_conv)
  show ?thesis
  proof (cases "find (\<lambda>r. trail_logging r = None) (trails_of s)")
    case None
    then have "missing_trail_facts (trails_of s) = []" using gap by blast
    then show ?thesis using c None True finding_for_target_facts finding_for_target_no_gap
      by (fastforce simp: agrees_def trail_evaluate_def require_collector_success_def trail_verdict_def Let_def
          res_bind_Inr_iff res_bind_Inl_iff finding_for_account_def)
  next
    case (Some r)
    then have "missing_trail_facts (trails_of s) \<noteq> []" using gap by simp
    then show ?thesis using c Some True
      by (simp add: agrees_def trail_evaluate_def require_collector_success_def trail_verdict_def Let_def)
  qed
qed

text \<open>C18. The two entry points of every built-in control agree. Where \<open>assess\<close> succeeds, the findings of \<open>evaluate\<close> are exactly the targets of the FAIL assessments, in their order, and no assessment is inconclusive; and \<open>evaluate\<close> raises a RuleEvaluationError only where an assessment is INSUFFICIENT_EVIDENCE.\<close>

theorem entry_points_agree:
  assumes "r \<in> set (default_rules env)" "ru_assess r s p = Inr cs"
  shows "agrees env s cs (ru_evaluate r s)"
proof -
  have guarded: "agrees env s cs (res_bind (require_collector_success i s collector) (\<lambda>_. m))"
    if "res_bind (unavailable_collector env i s p collector service api) (\<lambda>c. Inr [c]) = Inr cs"
      "\<not> collector_succeeded s collector" for i collector service api m
    using that unavailable_collector_facts
    by (fastforce simp: res_bind_Inr_iff require_collector_success_def intro: agrees_gap)
  have "agrees env s cs (port_evaluate i target s)" if "port_assess env i target s p = Inr cs" for i target
    using that guarded evaluate_each_agrees [OF port.resource_control_axioms]
    by (auto simp: port_assess_def port_evaluate_def require_collector_success_def split: if_splits)
  moreover have "agrees env s cs (encryption_evaluate s)" if "encryption_assess env s p = Inr cs"
    using that guarded evaluate_each_agrees [OF encryption.resource_control_axioms]
    by (auto simp: encryption_assess_def encryption_evaluate_def require_collector_success_def split: if_splits)
  moreover have "agrees env s cs (mfa_evaluate s)" if "mfa_assess env s p = Inr cs"
    using that guarded evaluate_each_agrees [OF mfa.resource_control_axioms]
    by (auto simp: mfa_assess_def mfa_evaluate_def require_collector_success_def split: if_splits)
  moreover note trail_agrees
  ultimately show ?thesis using assms by (auto simp: default_rules_def)
qed

theorem entry_points_agree_witness:
  "\<exists>cs. port_assess demo_env0 ssh_info ssh_port demo_snapshot demo_profile = Inr cs \<and>
     agrees demo_env0 demo_snapshot cs (port_evaluate ssh_info ssh_port demo_snapshot)"
proof -
  obtain cs where cs: "port_assess demo_env0 ssh_info ssh_port demo_snapshot demo_profile = Inr cs"
    using demo_control_port by blast
  let ?r = "\<lparr>ru_control = rl_control ssh_info, ru_evaluate = port_evaluate ssh_info ssh_port,
    ru_assess = port_assess demo_env0 ssh_info ssh_port\<rparr>"
  have "?r \<in> set (default_rules demo_env0)" by (simp add: default_rules_def)
  then show ?thesis using cs entry_points_agree [of ?r demo_env0 demo_snapshot demo_profile cs] by auto
qed

section \<open>The engine\<close>

text \<open>C19. A run with the built-in rules is well typed: every assessment it returns passes the validators of the model, so decisions carry evidence, gaps name what is missing, and each artifact is intact (digest and identifier recompute from its content), and names the assessment's control, scan, snapshot and target.\<close>

theorem engine_output_is_valid:
  assumes "engine_assess env graph_doc reg k s p = Inr cs"
    and "set reg \<subseteq> set (default_rules env @ map (ec2_rule env) ks)" "c \<in> set cs"
  shows "assessment_ok env c \<and> (ac_result c \<in> {PASS, FAIL} \<longrightarrow> ac_artifacts c \<noteq> []) \<and>
    list_all (\<lambda>a. verify_integrity env a \<and> ar_control a = ac_control c \<and> ar_scan_id a = iv_scan_id s \<and>
      ar_snapshot_id a = ac_snapshot_id c) (ac_artifacts c)"
proof -
  obtain control os d where o: "control_outcome env (run_input env graph_doc k s p) reg k control os"
    "d \<in> set os" "c = sealed (run_input env graph_doc k s p) d"
    using engine_assess_member [OF assms(1,3)] by blast
  obtain r where r: "registry_get reg control = Some r" "ru_assess r s p = Inr os"
    and b: "bound_to env (run_input env graph_doc k s p) c"
    using o by (auto simp: control_outcome_def run_input_def)
  have "r \<in> set reg" using r(1) find_row_Some by (fastforce simp: registry_get_def)
  then have "validated_rule env r" using assms(2) builtin_validated by blast
  then have "assessment_ok env c" using r(2) o(2,3) by (auto simp: validated_rule_def list_all_iff)
  moreover have "ac_scan_id c = iv_scan_id s" using b by (simp add: bound_to_def run_input_def)
  ultimately show ?thesis
    by (auto simp: assessment_ok_def result_evidence_ok_def artifact_matches_def list_all_iff)
qed

theorem engine_output_is_valid_witness:
  "\<exists>cs. engine_assess demo_env0 (\<lambda>_. JNull) (default_rules demo_env0) demo_catalog demo_snapshot demo_profile = Inr cs \<and>
     cs \<noteq> [] \<and> list_all (assessment_ok demo_env0) cs"
proof -
  obtain cs where cs: "engine_assess demo_env0 (\<lambda>_. JNull) (default_rules demo_env0) demo_catalog demo_snapshot demo_profile = Inr cs"
    "set (map ac_control cs) = {''NET-001''}" using demo_engine by blast
  have "assessment_ok demo_env0 c" if c: "c \<in> set cs" for c
    by (rule conjunct1 [OF engine_output_is_valid [OF cs(1) _ c, of "[]"]]) simp
  then have "list_all (assessment_ok demo_env0) cs" unfolding list_all_iff by blast
  moreover have "cs \<noteq> []" using cs(2) by (cases cs) simp_all
  ultimately show ?thesis using cs(1) by (intro exI conjI)
qed

text \<open>C15. What the engine returns for arbitrary rules is canonical: sorted by identity without duplicates, every assessment bound to the scan, the inventory and catalog digests, the profile and an admitted owner, each enabled control answered by its own rule and no other control present.\<close>

theorem engine_output_is_canonical:
  assumes "engine_assess env graph_doc reg k s p = Inr cs"
  shows "sorted (map assessment_identity cs) \<and> distinct (map assessment_identity cs) \<and>
    list_all (bound_to env (run_input env graph_doc k s p)) cs \<and> set (map ac_control cs) = set (pr_controls p)"
proof -
  let ?ei = "run_input env graph_doc k s p"
  obtain css where css: "list_all2 (control_outcome env ?ei reg k) (assessment_order (pr_controls p)) css"
    "cs = sort_key assessment_identity (map (sealed ?ei) (concat css))" "distinct (map assessment_identity cs)"
    using engine_assess_Inr [OF assms] by blast
  have out: "\<exists>control\<in>set (pr_controls p). ac_control c = control \<and> bound_to env ?ei c" if c: "c \<in> set cs" for c
  proof -
    obtain control os d where "control_outcome env ?ei reg k control os" "control \<in> set (pr_controls p)"
      "d \<in> set os" "c = sealed ?ei d" using engine_assess_member [OF assms c] by blast
    then show ?thesis by (auto simp: control_outcome_def)
  qed
  have "control \<in> set (map ac_control cs)" if c: "control \<in> set (pr_controls p)" for control
  proof -
    have "control \<in> set (assessment_order (pr_controls p))" using c set_assessment_order by blast
    then obtain os where os: "os \<in> set css" "control_outcome env ?ei reg k control os"
      using css(1) by (metis in_set_conv_nth list_all2_conv_all_nth)
    then obtain d where "d \<in> set os" "ac_control d = control"
      by (metis control_outcome_def list.set_intros(1) neq_Nil_conv)
    then have "sealed ?ei d \<in> set cs" "ac_control (sealed ?ei d) = control" using os(1) css(2) by auto
    then show ?thesis by (metis image_eqI list.set_map)
  qed
  then have "set (map ac_control cs) = set (pr_controls p)" using out by fastforce
  then show ?thesis using css(2,3) out by (auto simp: list_all_iff)
qed

theorem engine_output_is_canonical_witness:
  "\<exists>cs. engine_assess demo_env0 (\<lambda>_. JNull) (default_rules demo_env0) demo_catalog demo_snapshot demo_profile = Inr cs \<and>
     sorted (map assessment_identity cs) \<and> list_all (bound_to demo_env0 (run_input demo_env0 (\<lambda>_. JNull) demo_catalog demo_snapshot demo_profile)) cs"
proof -
  obtain cs where cs: "engine_assess demo_env0 (\<lambda>_. JNull) (default_rules demo_env0) demo_catalog demo_snapshot demo_profile = Inr cs"
    using demo_engine by blast
  show ?thesis using engine_output_is_canonical [OF cs] cs by (elim conjE, intro exI conjI)
qed

text \<open>The order in which rules are registered is irrelevant: two registries with the same rules give the same assessments, errors included, and the same findings; a registry that can be built at all has one rule per control.\<close>

theorem registration_order_is_irrelevant:
  assumes "build_registry rs = Inr reg" "mset rs' = mset rs"
  shows "build_registry rs' = Inr rs' \<and> engine_assess env graph_doc rs' k s p = engine_assess env graph_doc reg k s p \<and>
    engine_evaluate rs' s = engine_evaluate reg s"
proof -
  have reg: "reg = rs" "distinct (map ru_control rs)" using build_registry_distinct [OF assms(1)] by auto
  have m: "mset (map ru_control rs') = mset (map ru_control rs)" using assms(2) by simp
  have "distinct (map ru_control rs')" using mset_eq_imp_distinct_iff [OF m] reg(2) by (simp only:)
  then have "build_registry rs' = Inr rs'" using register_total [of "[]" rs'] by (simp add: build_registry_def)
  then show ?thesis using registry_order [OF assms(2) [symmetric] reg(2)] reg(1) by metis
qed

theorem registration_order_is_irrelevant_witness:
  "engine_evaluate (rev (default_rules demo_env0)) demo_snapshot = engine_evaluate (default_rules demo_env0) demo_snapshot"
  using registration_order_is_irrelevant [OF default_registry, of "rev (default_rules demo_env0)"] by simp

text \<open>C20. The engine answers: on an inventory of plain text with distinct admitted resources whose bucket algorithms are hashable, every profile that enables distinct built-in controls of a catalog without execution contracts gets an assessment for each of them; no contract check of the engine ever rejects a built-in rule.\<close>

theorem builtin_run_returns:
  assumes "plain_snapshot s" "plain_run env p" "inventory_catalog k p"
    and "distinct (pr_controls p)" "set (pr_controls p) \<subseteq> set (map ru_control (default_rules env))"
  shows "\<exists>cs. engine_assess env graph_doc (default_rules env) k s p = Inr cs \<and>
    set (map ac_control cs) = set (pr_controls p)"
  by (rule engine_total [OF assms])

theorem builtin_run_returns_witness:
  "\<exists>cs. engine_assess demo_env0 (\<lambda>_. JNull) (default_rules demo_env0) demo_catalog demo_snapshot demo_profile = Inr cs \<and>
     set (map ac_control cs) = {''NET-001''}"
  using builtin_run_returns [OF demo_plain demo_plain_run demo_inventory_catalog]
  by (simp add: demo_profile_def default_controls)

end
