(* ===== verification/Verification_Evidence.thy ===== *)
theory Verification_Evidence
  imports Assessment_Models
begin

text \<open>
  app/remediation/verification_evidence.py: the read-only proof of the EC2-004 postcondition. A
  retained scan is classified from its rows alone; every missing or inconsistent row ends in
  INCONCLUSIVE. Exceptions of \<open>_proof\<close> (all caught) are \<open>None\<close>.
\<close>

text \<open>\<open>_require(len(matches) == 1)\<close>.\<close>

definition the_only :: "'a list \<Rightarrow> 'a option" where
  "the_only xs = (case xs of [x] \<Rightarrow> Some x | _ \<Rightarrow> None)"

lemma the_only_Some [simp]: "the_only xs = Some x \<longleftrightarrow> xs = [x]"
  by (cases xs rule: remdups_adj.cases) (auto simp: the_only_def)

lemma filter_single: "filter P xs = [x] \<Longrightarrow> x \<in> set xs \<and> P x"
  using set_filter [of P xs] by auto

section \<open>The scan, its target and its assessment\<close>

definition proof_scan_ok :: "scan_row \<Rightarrow> verification_content \<Rightarrow> proposal_content \<Rightarrow> bool" where
  "proof_scan_ok s i p =
     (sc_id s = vc_scan_id i \<and> sc_account s = Some (vc_account i) \<and> vc_account i = pc_account_id p \<and>
      sc_requested_regions s = sc_successful_regions s \<and> sc_successful_regions s = [vc_region i] \<and>
      sc_requested_services s = vc_services i \<and>
      (case sc_manifest s of
         None \<Rightarrow> False
       | Some m \<Rightarrow>
           ss_requested_collectors m = vc_collectors i \<and> set (ss_resource_types m) = set (vc_types i) \<and>
           set (map fst (ss_outcomes m)) = set (vc_collectors i) \<and>
           list_all (\<lambda>(_, st). st = COL_SUCCEEDED) (ss_outcomes m) \<and>
           ''EC2-004'' \<in> set (ss_enabled_controls m)) \<and>
      sc_inventory_sha s \<noteq> None \<and> sc_result_sha s \<noteq> None)"

definition proof_snapshot_id :: "env \<Rightarrow> scan_row \<Rightarrow> proposal_content \<Rightarrow> uuid" where
  "proof_snapshot_id env s p =
     resource_snapshot_id env (sc_id s) (pc_account_id p) ''ec2'' ''aws_account'' SCOPE_REGIONAL (pc_region p)
       (pc_account_id p)"

definition proof_target_ok ::
    "env \<Rightarrow> scan_row \<Rightarrow> proposal_content \<Rightarrow> resource_row \<Rightarrow> snapshot_row \<Rightarrow> bool" where
  "proof_target_ok env s p r sn =
     (rs_id r = stable_resource_id env ''aws'' (pc_account_id p) ''ec2'' ''aws_account'' SCOPE_REGIONAL (pc_region p)
        (pc_account_id p) \<and>
      rs_provider r = ''aws'' \<and> rs_service r = ''ec2'' \<and> rs_type r = ''aws_account'' \<and>
      rs_account r = rs_aws_id r \<and> rs_aws_id r = pc_account_id p \<and> rs_scope r = SCOPE_REGIONAL \<and>
      rs_region r = pc_region p \<and> sn_resource_id sn = rs_id r \<and> sn_scan_id sn = sc_id s \<and>
      sn_scope sn = SCOPE_REGIONAL \<and> sn_region sn = Some (pc_region p) \<and> sc_started_at s \<le> sn_observed_at sn \<and>
      (case sc_completed_at s of None \<Rightarrow> False | Some t \<Rightarrow> sn_observed_at sn \<le> t) \<and>
      sha env (StateDoc (sn_arn sn) (sn_name sn) (sn_scope sn) (sn_region sn) (canon (sn_tags sn))
        (canon (sn_configuration sn))) = sn_state_sha sn)"

definition proof_assessment_ok ::
    "proposal_content \<Rightarrow> resource_row \<Rightarrow> uuid \<Rightarrow> assessment_row \<Rightarrow> version_row \<Rightarrow> bool" where
  "proof_assessment_ok p r sid a v =
     (ca_missing a = [] \<and> ca_result a \<in> {PASS, FAIL} \<and> ca_resource_id a = rs_id r \<and> ca_snapshot_id a = sid \<and>
      ca_control_id a = pc_control_id p \<and> ca_control_version_id a = bl_control_version_id (pc_baseline p) \<and>
      cv_definition_sha v = bl_control_definition_sha (pc_baseline p))"

section \<open>Sources\<close>

definition proof_source_matches :: "proposal_content \<Rightarrow> string \<Rightarrow> string \<Rightarrow> source_outcome \<Rightarrow> bool" where
  "proof_source_matches p kind api so =
     (so_kind so = kind \<and> so_api so = api \<and> so_collector so = ''ec2.ebs-defaults'' \<and>
      so_collector_version so = ''1.0.0'' \<and>
      so_subject so = AccountSubject (pc_account_id p) SCOPE_REGIONAL (Some (pc_region p)))"

text \<open>The nested \<open>source\<close>: exactly one outcome, its artifact collected with the snapshot.\<close>

definition proof_source ::
    "evidence_graph \<Rightarrow> proposal_content \<Rightarrow> snapshot_row \<Rightarrow> string \<Rightarrow> string \<Rightarrow>
     (source_outcome \<times> json \<times> source_binding) option" where
  "proof_source g p sn kind api =
     Option.bind (the_only (filter (proof_source_matches p kind api) (eg_outcomes g))) (\<lambda>so.
     Option.bind (find_row ga_reference (so_reference so) (rev (eg_artifacts g))) (\<lambda>a.
     Option.bind (require
       (jget ''account_id'' (ga_payload a) = JStr (pc_account_id p) \<and>
        jget ''region'' (ga_payload a) = JStr (pc_region p) \<and>
        jget ''complete'' (ga_payload a) = JBool True \<and> jget ''failure_category'' (ga_payload a) = JNull \<and>
        ga_collected_at a = sn_observed_at sn)) (\<lambda>_.
     Some (so, ga_payload a,
       \<lparr>sb_outcome_id = so_id so, sb_artifact_id = ga_id a, sb_reference = ga_reference a, sb_sha = ga_sha a\<rparr>))))"

text \<open>What the source says of the default: a genuine boolean that agrees with the verdict.\<close>

definition proof_enabled :: "source_outcome \<Rightarrow> json \<Rightarrow> assessment_row \<Rightarrow> bool option" where
  "proof_enabled so payload a =
     (case jget ''ebs_encryption_by_default'' payload of
        JBool b \<Rightarrow> if so_state so = ST_PRESENT \<and> (ca_result a = PASS) = b then Some b else None
      | _ \<Rightarrow> None)"

section \<open>The retained evidence\<close>

definition proof_payload :: "uuid \<Rightarrow> source_binding \<Rightarrow> bool \<Rightarrow> json" where
  "proof_payload scan sb enabled =
     JObj [(''evaluation_version'', JStr ''1.0.0''), (''ebs_encryption_by_default'', JBool enabled),
           (''source_proof'', JObj
             [(''schema_version'', JStr ''1.0.0''), (''scan_id'', JStr (uuid_text scan)),
              (''sources'', JList [JObj
                [(''source_outcome_id'', JStr (uuid_text (sb_outcome_id sb))),
                 (''artifact_id'', JStr (uuid_text (sb_artifact_id sb))),
                 (''evidence_sha256'', JStr (sb_sha sb))]]),
              (''relationship_observation_ids'', JList [])])]"

definition proof_artifact :: "scan_row \<Rightarrow> proposal_content \<Rightarrow> snapshot_row \<Rightarrow> uuid \<Rightarrow> json \<Rightarrow> artifact" where
  "proof_artifact s p sn sid payload =
     \<lparr>ar_id = 0, ar_snapshot_id = sid, ar_scan_id = sc_id s, ar_control = ''EC2-004'',
      ar_account = pc_account_id p, ar_service = ''ec2'', ar_type = ''aws_account'', ar_aws_id = pc_account_id p,
      ar_arn = sn_arn sn, ar_scope = SCOPE_REGIONAL, ar_region = Some (pc_region p),
      ar_collector = ''ec2.ebs-defaults'', ar_source = ''normalized-inventory'',
      ar_source_api = ''ec2:GetEbsEncryptionByDefault'', ar_collected_at = sn_observed_at sn,
      ar_schema_name = ''control.ec2-004.evidence'', ar_schema_version = ''1.0.0'', ar_key = ''primary'',
      ar_payload = payload, ar_sha = []\<rparr>"

definition proof_record_ok :: "env \<Rightarrow> snapshot_row \<Rightarrow> artifact \<Rightarrow> evidence_row \<Rightarrow> bool" where
  "proof_record_ok env sn x e =
     (er_id e = ar_id x \<and> er_payload_sha e = sha env (PayloadDoc (canon (er_payload e))) \<and>
      er_payload_sha e = ar_sha x \<and> er_collector e = ar_collector x \<and> er_source e = ar_source x \<and>
      er_source_api e = ar_source_api x \<and> er_schema_name e = ar_schema_name x \<and>
      er_schema_version e = ar_schema_version x \<and> er_evidence_key e = ar_key x \<and>
      er_collected_at e = sn_observed_at sn)"

definition proof_record ::
    "env \<Rightarrow> history \<Rightarrow> scan_row \<Rightarrow> proposal_content \<Rightarrow> snapshot_row \<Rightarrow> assessment_row \<Rightarrow> json \<Rightarrow>
     evidence_row option" where
  "proof_record env h s p sn a payload =
     Option.bind (for_assessment env (proof_artifact s p sn (proof_snapshot_id env s p) payload)) (\<lambda>x.
     Option.bind (the_only (filter (\<lambda>e. er_assessment_id e = ca_id a) (hs_evidence h))) (\<lambda>e.
     Option.bind (require (proof_record_ok env sn x e)) (\<lambda>_. Some e)))"

section \<open>The proof\<close>

definition make_evidence ::
    "resource_row \<Rightarrow> snapshot_row \<Rightarrow> uuid \<Rightarrow> assessment_row \<Rightarrow> version_row \<Rightarrow> evidence_row \<Rightarrow> source_binding \<Rightarrow>
     source_binding \<Rightarrow> verification_evidence" where
  "make_evidence r sn sid a v e enc kms =
     \<lparr>ve_resource_id = rs_id r, ve_snapshot_id = sid, ve_state_sha = sn_state_sha sn, ve_assessment_id = ca_id a,
      ve_control_version_id = cv_id v, ve_control_definition_sha = cv_definition_sha v,
      ve_observed_at = sn_observed_at sn, ve_result = ca_result a,
      ve_evidence = [\<lparr>eb_evidence_id = er_id e, eb_payload_sha = er_payload_sha e\<rparr>],
      ve_encryption_source = enc, ve_kms_source = kms\<rparr>"

type_synonym kms_state = "string option \<times> bool"

definition verification_proof ::
    "env \<Rightarrow> history \<Rightarrow> scan_row \<Rightarrow> verification_content \<Rightarrow> proposal_content \<Rightarrow>
     (verification_evidence \<times> kms_state) option" where
  "verification_proof env h s i p =
     (let sid = proof_snapshot_id env s p in
      Option.bind (require (proof_scan_ok s i p)) (\<lambda>_.
      Option.bind (find_row rs_id (pc_resource_id p) (hs_resources h)) (\<lambda>r.
      Option.bind (find_row sn_id sid (hs_snapshots h)) (\<lambda>sn.
      Option.bind (require (proof_target_ok env s p r sn)) (\<lambda>_.
      Option.bind (find_row ca_id (control_assessment_id env (sc_id s) sid ''EC2-004'') (hs_assessments h)) (\<lambda>a.
      Option.bind (find_row cv_id (bl_control_version_id (pc_baseline p)) (hs_versions h)) (\<lambda>v.
      Option.bind (require (proof_assessment_ok p r sid a v)) (\<lambda>_.
      Option.bind (find_row pf_row_id (ca_profile_row_id a) (hs_profiles h)) (\<lambda>pf.
      Option.bind (require (pf_id pf = vc_profile_id i \<and> pf_version pf = vc_profile_version i \<and>
        pf_sha pf = vc_profile_sha i)) (\<lambda>_.
      Option.bind (hs_load_graph h (sc_id s)) (\<lambda>g.
      Option.bind (require (eg_account g = pc_account_id p)) (\<lambda>_.
      Option.bind (proof_source g p sn ''ec2.ebs-encryption-default'' ''ec2:GetEbsEncryptionByDefault'')
        (\<lambda>(so, pay, enc).
      Option.bind (proof_enabled so pay a) (\<lambda>enabled.
      Option.bind (proof_source g p sn ''ec2.ebs-default-kms-key'' ''ec2:GetEbsDefaultKmsKeyId'') (\<lambda>(kso, kpay, kms).
      Option.bind (kms_context kso kpay) (\<lambda>ctx.
      Option.bind (proof_record env h s p sn a (proof_payload (sc_id s) enc enabled)) (\<lambda>e.
      let ev = make_evidence r sn sid a v e enc kms
      in if valid_verification_evidence ev then Some (ev, ctx) else None)))))))))))))))))"

text \<open>\<open>postcondition_for\<close>: the classification of one terminal scan.\<close>

definition postcondition_for ::
    "env \<Rightarrow> history \<Rightarrow> scan_row \<Rightarrow> verification_content \<Rightarrow> proposal_content \<Rightarrow>
     verification_outcome \<times> verification_reason \<times> verification_evidence option" where
  "postcondition_for env h s i p =
     (if sc_status s \<noteq> SC_COMPLETED then (INCONCLUSIVE, VR_SCAN_INCOMPLETE, None)
      else
        (case verification_proof env h s i p of
           None \<Rightarrow> (INCONCLUSIVE, VR_PROVENANCE_UNAVAILABLE, None)
         | Some (ev, ctx) \<Rightarrow>
             if ve_observed_at ev \<le> max (vc_acknowledged_at i) (bl_observed_at (pc_baseline p))
             then (INCONCLUSIVE, VR_OBSERVATION_NOT_LATER, Some ev)
             else if ctx \<noteq> (bl_kms_key_id (pc_baseline p), bl_kms_absence (pc_baseline p))
             then (INCONCLUSIVE, VR_KMS_CONTEXT_CHANGED, Some ev)
             else if ve_result ev = PASS then (VERIFIED, VR_POSTCONDITION_PASS, Some ev)
             else (NOT_VERIFIED, VR_POSTCONDITION_FAIL, Some ev)))"

section \<open>What a proof establishes\<close>

text \<open>The facts behind a proof, stated on the rows alone.\<close>

definition proven :: "env \<Rightarrow> history \<Rightarrow> scan_row \<Rightarrow> verification_content \<Rightarrow> proposal_content \<Rightarrow> verification_evidence \<Rightarrow> bool" where
  "proven env h s i p ev =
     (\<exists>sn a g so art e.
        sn \<in> set (hs_snapshots h) \<and> sn_id sn = ve_snapshot_id ev \<and> sn_scan_id sn = vc_scan_id i \<and>
        sn_observed_at sn = ve_observed_at ev \<and> sc_started_at s \<le> sn_observed_at sn \<and>
        a \<in> set (hs_assessments h) \<and> ca_id a = ve_assessment_id ev \<and> ca_result a = ve_result ev \<and>
        ca_control_id a = pc_control_id p \<and> ca_missing a = [] \<and>
        hs_load_graph h (vc_scan_id i) = Some g \<and> so \<in> set (eg_outcomes g) \<and> so_state so = ST_PRESENT \<and>
        so_subject so = AccountSubject (pc_account_id p) SCOPE_REGIONAL (Some (pc_region p)) \<and>
        art \<in> set (eg_artifacts g) \<and> ga_reference art = so_reference so \<and>
        ga_collected_at art = ve_observed_at ev \<and> jget ''complete'' (ga_payload art) = JBool True \<and>
        jget ''ebs_encryption_by_default'' (ga_payload art) = JBool (ve_result ev = PASS) \<and>
        e \<in> set (hs_evidence h) \<and> er_assessment_id e = ca_id a \<and>
        er_payload_sha e = sha env (PayloadDoc (canon (er_payload e))) \<and>
        er_payload_sha e = sha env (PayloadDoc (canon
          (proof_payload (vc_scan_id i) (ve_encryption_source ev) (ve_result ev = PASS)))))"

lemma proof_source_Some:
  assumes "proof_source g p sn kind api = Some (so, pay, sb)"
  obtains a where "so \<in> set (eg_outcomes g)" "proof_source_matches p kind api so" "a \<in> set (eg_artifacts g)"
    "ga_reference a = so_reference so" "ga_payload a = pay" "jget ''complete'' pay = JBool True"
    "ga_collected_at a = sn_observed_at sn"
proof -
  obtain a where a: "filter (proof_source_matches p kind api) (eg_outcomes g) = [so]"
    "find_row ga_reference (so_reference so) (rev (eg_artifacts g)) = Some a" "ga_payload a = pay"
    "jget ''complete'' pay = JBool True" "ga_collected_at a = sn_observed_at sn"
    using assms unfolding proof_source_def by (auto simp: bind_eq_Some_conv)
  have "a \<in> set (eg_artifacts g)" "ga_reference a = so_reference so" using find_row_Some [OF a(2)] by simp_all
  then show thesis using filter_single [OF a(1)] a(3-5) that by blast
qed

lemma proof_record_Some:
  assumes "proof_record env h s p sn a payload = Some e"
  shows "e \<in> set (hs_evidence h)" "er_assessment_id e = ca_id a"
    "er_payload_sha e = sha env (PayloadDoc (canon (er_payload e)))"
    "er_payload_sha e = sha env (PayloadDoc (canon payload))"
proof -
  obtain x where x: "for_assessment env (proof_artifact s p sn (proof_snapshot_id env s p) payload) = Some x"
    "filter (\<lambda>e. er_assessment_id e = ca_id a) (hs_evidence h) = [e]" "proof_record_ok env sn x e"
    using assms by (auto simp: proof_record_def bind_eq_Some_conv)
  show "e \<in> set (hs_evidence h)" "er_assessment_id e = ca_id a" using filter_single [OF x(2)] by auto
  have "ar_payload x = payload"
    using x(1) by (auto simp: for_assessment_def make_artifact_def Let_def proof_artifact_def split: if_splits)
  then have "ar_sha x = sha env (PayloadDoc (canon payload))"
    using for_assessment_ok [OF x(1)] by (simp add: artifact_ok_def json_digest_def)
  then show "er_payload_sha e = sha env (PayloadDoc (canon (er_payload e)))"
    "er_payload_sha e = sha env (PayloadDoc (canon payload))"
    using x(3) by (auto simp: proof_record_ok_def)
qed

lemma verification_proof_proven:
  assumes "verification_proof env h s i p = Some (ev, ctx)"
  shows "proven env h s i p ev" "proof_scan_ok s i p" "valid_verification_evidence ev"
proof -
  let ?sid = "proof_snapshot_id env s p"
  obtain r sn a v g so pay enc enabled kso kpay kms e where
    scan: "proof_scan_ok s i p" and sn: "find_row sn_id ?sid (hs_snapshots h) = Some sn"
    and tgt: "proof_target_ok env s p r sn"
    and a: "find_row ca_id (control_assessment_id env (sc_id s) ?sid ''EC2-004'') (hs_assessments h) = Some a"
    and ca: "proof_assessment_ok p r ?sid a v" and g: "hs_load_graph h (sc_id s) = Some g"
    and enc: "proof_source g p sn ''ec2.ebs-encryption-default'' ''ec2:GetEbsEncryptionByDefault'' = Some (so, pay, enc)"
    and en: "proof_enabled so pay a = Some enabled"
    and e: "proof_record env h s p sn a (proof_payload (sc_id s) enc enabled) = Some e"
    and ev: "ev = make_evidence r sn ?sid a v e enc kms" "valid_verification_evidence ev"
    using assms by (auto simp: verification_proof_def Let_def bind_eq_Some_conv split: if_splits)
  show "proof_scan_ok s i p" "valid_verification_evidence ev" by (rule scan, rule ev(2))
  obtain art where art: "so \<in> set (eg_outcomes g)" "proof_source_matches p ''ec2.ebs-encryption-default'' ''ec2:GetEbsEncryptionByDefault'' so"
    "art \<in> set (eg_artifacts g)" "ga_reference art = so_reference so" "ga_payload art = pay"
    "jget ''complete'' pay = JBool True" "ga_collected_at art = sn_observed_at sn"
    using proof_source_Some [OF enc] by blast
  have b: "jget ''ebs_encryption_by_default'' pay = JBool enabled" "so_state so = ST_PRESENT" "enabled = (ca_result a = PASS)"
    using en by (auto simp: proof_enabled_def split: json.splits if_splits)
  have id: "sc_id s = vc_scan_id i" using scan by (simp add: proof_scan_ok_def)
  show "proven env h s i p ev" unfolding proven_def
    using find_row_Some [OF sn] find_row_Some [OF a] tgt ca g art b proof_record_Some [OF e] id
    by (intro exI [of _ sn] exI [of _ a] exI [of _ g] exI [of _ so] exI [of _ art] exI [of _ e])
      (simp add: ev(1) make_evidence_def proof_target_ok_def proof_assessment_ok_def proof_source_matches_def)
qed

lemma postcondition_cases:
  assumes "postcondition_for env h s i p = (outcome, reason, evidence)"
  obtains (incomplete) "sc_status s \<noteq> SC_COMPLETED" "outcome = INCONCLUSIVE" "evidence = None"
  | (unproven) "verification_proof env h s i p = None" "outcome = INCONCLUSIVE" "evidence = None"
  | (inconclusive) ev ctx where "verification_proof env h s i p = Some (ev, ctx)" "outcome = INCONCLUSIVE"
      "evidence = Some ev"
  | (decided) ev where "sc_status s = SC_COMPLETED"
      "verification_proof env h s i p = Some (ev, bl_kms_key_id (pc_baseline p), bl_kms_absence (pc_baseline p))"
      "vc_acknowledged_at i < ve_observed_at ev" "bl_observed_at (pc_baseline p) < ve_observed_at ev"
      "evidence = Some ev" "outcome = (if ve_result ev = PASS then VERIFIED else NOT_VERIFIED)"
  using assms by (fastforce simp: postcondition_for_def split: if_splits option.splits prod.splits)

end
