(* ===== verification/Verification_Service.thy ===== *)
theory Verification_Service
  imports Verification_Evidence Execution_Admission
begin

text \<open>
  app/services/remediation_verification_service.py with the scope table of
  app/services/scan_executor.py: requests for a read-only verification of an acknowledged
  execution, the link between a scan and its verification, the terminal receipt and the views that
  revalidate everything they return. The schema is the current one (the guard table exists).
\<close>

section \<open>The scan scopes\<close>

definition requested_services :: "string list" where
  "requested_services = [''access-analyzer'', ''cloudtrail'', ''cloudtrail-evidence'', ''ec2'', ''iam'', ''kms'', ''s3'']"

definition requested_collectors :: "string list" where
  "requested_collectors =
     [''access_analyzer_evidence'', ''cloudtrail_evidence'', ''cloudtrail_trails'', ''ec2_ebs_evidence'',
      ''iam_account_evidence'', ''iam_users'', ''s3_buckets'', ''s3_evidence'', ''security_groups'',
      ''vpc_network_evidence'']"

definition scan_resource_types :: "string list" where
  "scan_resource_types =
     [''access_analyzer_finding'', ''aws_account'', ''cloudtrail_trail'', ''ebs_volume'', ''ec2_instance'',
      ''iam_access_key'', ''iam_aws_managed_policy'', ''iam_customer_managed_policy'', ''iam_group'',
      ''iam_inline_policy'', ''iam_managed_policy_version'', ''iam_mfa_device'', ''iam_role'', ''iam_user'',
      ''kms_key'', ''s3_bucket'', ''security_group'', ''subnet'', ''vpc'', ''vpc_flow_log'']"

definition execution_scope_for :: "string list \<Rightarrow> (string list \<times> string list) option" where
  "execution_scope_for services =
     (let c1 = filter (\<lambda>c. c \<noteq> ''cloudtrail_evidence'') requested_collectors;
          c2 = filter (\<lambda>c. c \<noteq> ''s3_evidence'') c1;
          c3 = filter (\<lambda>c. c \<noteq> ''access_analyzer_evidence'') c2;
          t2 = filter (\<lambda>t. t \<noteq> ''kms_key'') scan_resource_types;
          t3 = filter (\<lambda>t. t \<noteq> ''access_analyzer_finding'') t2
      in if services = requested_services then Some (requested_collectors, scan_resource_types)
         else if services = [''access-analyzer'', ''cloudtrail'', ''ec2'', ''iam'', ''kms'', ''s3''] then Some (c1, scan_resource_types)
         else if services = [''access-analyzer'', ''cloudtrail'', ''ec2'', ''iam'', ''s3''] then Some (c2, t2)
         else if services = [''cloudtrail'', ''ec2'', ''iam'', ''s3''] then Some (c3, t3)
         else None)"

section \<open>The retained authority\<close>

text \<open>\<open>except (ValueError, TypeError, KeyError, ...)\<close>: the sanitized provenance conflict.\<close>

definition shield :: "failure + 'a \<Rightarrow> failure + 'a" where
  "shield m =
     (case m of
        Inl (ValueErr _) \<Rightarrow> Inl (RemErr ProvenanceConflict)
      | Inl (TypeErr _) \<Rightarrow> Inl (RemErr ProvenanceConflict)
      | Inl KeyErr \<Rightarrow> Inl (RemErr ProvenanceConflict)
      | _ \<Rightarrow> m)"

definition conflict_unless :: "bool \<Rightarrow> failure + unit" where
  "conflict_unless b = (if b then Inr () else Inl (RemErr ProvenanceConflict))"

definition need_some :: "'a option \<Rightarrow> failure + 'a" where
  "need_some m = (case m of None \<Rightarrow> Inl (RemErr ProvenanceConflict) | Some a \<Rightarrow> Inr a)"

record retained =
  rn_row :: execution_row
  rn_content :: execution_content
  rn_ack :: event_view
  rn_scan :: scan_row
  rn_collectors :: "string list"
  rn_types :: "string list"

definition acknowledgments :: "event_view list \<Rightarrow> event_view list" where
  "acknowledgments vs = filter (\<lambda>v. je_kind (ev_content v) = EK_ACKNOWLEDGED) vs"

definition acknowledged :: "event_view list \<Rightarrow> failure + event_view" where
  "acknowledged vs =
     (case acknowledgments vs of
        [v] \<Rightarrow>
          if last_phase vs = PH_ACKNOWLEDGED \<and> je_phase (ev_content v) = PH_ACKNOWLEDGED then Inr v
          else Inl (RemErr VerificationIneligible)
      | _ \<Rightarrow> Inl (RemErr VerificationIneligible))"

text \<open>The scan of the baseline with the collectors and types its services stand for.\<close>

definition original_scan :: "history \<Rightarrow> proposal_content \<Rightarrow> failure + (scan_row \<times> string list \<times> string list)" where
  "original_scan h p =
     res_bind (need_some (find_row sc_id (bl_scan_id (pc_baseline p)) (hs_scans h))) (\<lambda>s.
     res_bind (need_some (execution_scope_for (sc_requested_services s))) (\<lambda>(collectors, types).
     res_bind (need_some (sc_manifest s)) (\<lambda>m.
     res_bind (conflict_unless (ss_requested_collectors m = collectors \<and> set (ss_resource_types m) = set types \<and>
       sc_requested_regions s = [pc_region p])) (\<lambda>_.
     Inr (s, collectors, types)))))"

definition retained_history :: "env \<Rightarrow> db \<Rightarrow> uuid \<Rightarrow> failure + retained" where
  "retained_history env d eid =
     res_bind (execution_row_of d eid) (\<lambda>r.
     res_bind (execution_content_of (sha env) d r) (\<lambda>x.
     res_bind (events_of (sha env) d r x) (\<lambda>vs.
     res_bind (acknowledged vs) (\<lambda>ack.
     res_bind (finding_of d (pc_finding_id (xc_proposal x))) (\<lambda>f.
     res_bind (need_some (find_row oc_id (bl_occurrence_id (pc_baseline (xc_proposal x)))
       (hs_occurrences (db_history d)))) (\<lambda>oc.
     res_bind (conflict_unless (baseline_for env (db_history d) f oc = Some (pc_baseline (xc_proposal x)))) (\<lambda>_.
     res_bind (original_scan (db_history d) (xc_proposal x)) (\<lambda>(s, collectors, types).
     Inr \<lparr>rn_row = r, rn_content = x, rn_ack = ack, rn_scan = s, rn_collectors = collectors,
          rn_types = types\<rparr>))))))))"

definition authority_history :: "env \<Rightarrow> db \<Rightarrow> uuid \<Rightarrow> failure + retained" where
  "authority_history env d eid = shield (retained_history env d eid)"

section \<open>Validation of a retained verification\<close>

fun validate_verification_doc :: "document \<Rightarrow> verification_content option" where
  "validate_verification_doc (VerificationDoc c) = make_verification_content c"
| "validate_verification_doc _ = None"

definition binds_retained :: "verification_content \<Rightarrow> verification_row \<Rightarrow> retained \<Rightarrow> bool" where
  "binds_retained c row n =
     (let ack = ev_content (rn_ack n); p = xc_proposal (rn_content n); s = rn_scan n
      in vc_execution_sha c = ex_sha (rn_row n) \<and> vc_ack_event_id c = vf_ack_event_id row \<and>
         vc_ack_event_id c = je_event_id ack \<and> vc_ack_sha c = ev_sha (rn_ack n) \<and>
         vc_acknowledged_at c = je_created_at ack \<and> vc_baseline_scan_id c = sc_id s \<and>
         vc_account c = pc_account_id p \<and> vc_region c = pc_region p \<and> vc_services c = sc_requested_services s \<and>
         vc_collectors c = rn_collectors n \<and> vc_types c = rn_types n \<and>
         vc_profile_id c = sc_profile_id s \<and> vc_profile_version c = sc_profile_version s \<and>
         vc_profile_sha c = sc_profile_sha s \<and> vc_catalog_id c = sc_catalog_id s \<and>
         vc_catalog_version c = sc_catalog_version s \<and> vc_catalog_sha c = bl_catalog_sha (pc_baseline p))"

definition binds_row :: "env \<Rightarrow> verification_content \<Rightarrow> verification_row \<Rightarrow> bool" where
  "binds_row env c row =
     (let a = vc_requested_by c
      in sha env (vf_content row) = vf_sha row \<and> vc_verification_id c = vf_id row \<and>
         vc_execution_id c = vf_execution_id row \<and> vc_scan_id c = vf_scan_id row \<and> vc_attempt c = vf_attempt row \<and>
         ac_capability a = CAP_EXECUTE \<and> CAP_EXECUTE \<in> capabilities_for (stored_principal a) \<and>
         ac_issuer a = vf_actor_issuer row \<and> ac_subject a = vf_actor_subject row \<and>
         identity_sha (sha env) a = vf_identity_sha row \<and> vc_key c = vf_key row \<and>
         (case validate_verification_request (vc_reason c) of
            None \<Rightarrow> False
          | Some q \<Rightarrow> vf_request_sha row = sha env (VerifyRequestDoc (vf_execution_id row) q)) \<and>
         vc_created_at c = vf_created_at row \<and> vc_acknowledged_at c \<le> vc_created_at c)"

definition binds_scan :: "verification_content \<Rightarrow> scan_row \<Rightarrow> bool" where
  "binds_scan c s =
     (sc_started_at s = vc_created_at c \<and> sc_requested_regions s = [vc_region c] \<and>
      sc_requested_services s = vc_services c \<and> sc_profile_id s = vc_profile_id c \<and>
      sc_profile_version s = vc_profile_version c \<and> sc_profile_sha s = vc_profile_sha c \<and>
      sc_catalog_id s = vc_catalog_id c \<and> sc_catalog_version s = vc_catalog_version c)"

definition request_metadata :: "verification_content \<Rightarrow> digest \<Rightarrow> audit_metadata" where
  "request_metadata c digest =
     MetaVerification (vc_requested_by c) (vc_verification_id c) digest (vc_execution_id c) (vc_scan_id c) (vc_attempt c)"

definition start_metadata :: "verification_content \<Rightarrow> digest \<Rightarrow> audit_metadata" where
  "start_metadata c digest =
     MetaVerificationStart (vc_requested_by c) (vc_verification_id c) digest (vc_execution_id c) (vc_scan_id c)
       (vc_attempt c) [vc_region c]"

definition scan_starts :: "db \<Rightarrow> uuid \<Rightarrow> audit_row list" where
  "scan_starts d sid =
     filter (\<lambda>a. au_target_type a = TargetScan \<and> au_target_id a = sid \<and> au_type a = AT_SCAN_STARTED) (db_audits d)"

definition binds_audit :: "env \<Rightarrow> db \<Rightarrow> verification_content \<Rightarrow> verification_row \<Rightarrow> bool" where
  "binds_audit env d c row =
     (let who = identity_sha (sha env) (vc_requested_by c)
      in (case find_row au_id (vf_audit_id row) (db_audits d) of
            None \<Rightarrow> False
          | Some a \<Rightarrow>
              au_actor_type a = ActorHuman \<and> au_actor_id a = who \<and> au_target_type a = TargetVerification \<and>
              au_target_id a = vf_id row \<and> au_type a = AT_REMEDIATION_VERIFICATION_REQUESTED \<and>
              au_time a = vc_created_at c \<and> au_metadata a = request_metadata c (vf_sha row)) \<and>
         (case scan_starts d (vc_scan_id c) of
            [a] \<Rightarrow>
              au_actor_type a = ActorHuman \<and> au_actor_id a = who \<and> au_time a = vc_created_at c \<and>
              au_metadata a = start_metadata c (vf_sha row)
          | _ \<Rightarrow> False))"

definition verification_content_of ::
    "env \<Rightarrow> db \<Rightarrow> verification_row \<Rightarrow> failure + (verification_content \<times> proposal_content \<times> scan_row)" where
  "verification_content_of env d row =
     res_bind (need_some (validate_verification_doc (vf_content row))) (\<lambda>c.
     res_bind (authority_history env d (vf_execution_id row)) (\<lambda>n.
     res_bind (need_some (find_row sc_id (vf_scan_id row) (hs_scans (db_history d)))) (\<lambda>s.
     res_bind (conflict_unless (binds_row env c row \<and> binds_retained c row n \<and> binds_scan c s)) (\<lambda>_.
     res_bind (conflict_unless (binds_audit env d c row)) (\<lambda>_.
     Inr (c, xc_proposal (rn_content n), s))))))"

section \<open>Receipts\<close>

definition build_receipt ::
    "env \<Rightarrow> history \<Rightarrow> verification_row \<Rightarrow> verification_content \<Rightarrow> proposal_content \<Rightarrow> scan_row \<Rightarrow>
     failure + verification_receipt" where
  "build_receipt env h row c p s =
     (case (sc_status s, sc_result_sha s, sc_completed_at s) of
        (SC_RUNNING, _, _) \<Rightarrow> Inl (RemErr ProvenanceConflict)
      | (_, Some rsha, Some t) \<Rightarrow>
          (case postcondition_for env h s c p of
             (outcome, reason, evidence) \<Rightarrow>
               let r = \<lparr>vr_verification_id = vf_id row, vr_verification_sha = vf_sha row, vr_scan_id = sc_id s,
                        vr_scan_status = sc_status s, vr_result_sha = rsha, vr_inventory_sha = sc_inventory_sha s,
                        vr_outcome = outcome, vr_reason = reason, vr_evidence = evidence, vr_created_at = t\<rparr>
               in if valid_verification_receipt r then Inr r else Inl (ValueErr ''VerificationReceipt''))
      | _ \<Rightarrow> Inl (RemErr ProvenanceConflict))"

fun validate_receipt_doc :: "document \<Rightarrow> verification_receipt option" where
  "validate_receipt_doc (ReceiptDoc r) = (if valid_verification_receipt r then Some r else None)"
| "validate_receipt_doc _ = None"

definition receipt_metadata :: "verification_receipt \<Rightarrow> digest \<Rightarrow> audit_metadata" where
  "receipt_metadata r digest =
     MetaReceipt (vr_verification_id r) (vr_verification_sha r) (vr_scan_id r) digest (vr_outcome r) (vr_reason r)
       (vr_result_sha r)"

definition scan_executor_actor :: string where
  "scan_executor_actor = ''scan-executor''"

definition binds_receipt :: "env \<Rightarrow> db \<Rightarrow> verification_row \<Rightarrow> receipt_row \<Rightarrow> verification_receipt \<Rightarrow> bool" where
  "binds_receipt env d row rt r =
     (rt_sha rt = sha env (rt_content rt) \<and> rt_outcome rt = vr_outcome r \<and> rt_created_at rt = vr_created_at r \<and>
      (case find_row au_id (rt_audit_id rt) (db_audits d) of
         None \<Rightarrow> False
       | Some a \<Rightarrow>
           au_actor_type a = ActorSystem \<and> au_actor_id a = scan_executor_actor \<and>
           au_target_type a = TargetVerification \<and> au_target_id a = vf_id row \<and>
           au_type a = AT_REMEDIATION_VERIFICATION_COMPLETED \<and> au_time a = vr_created_at r \<and>
           au_metadata a = receipt_metadata r (rt_sha rt)))"

text \<open>\<open>_receipt\<close>: the stored receipt must be the one the rows give now.\<close>

definition receipt_of ::
    "env \<Rightarrow> db \<Rightarrow> verification_row \<Rightarrow> verification_content \<Rightarrow> proposal_content \<Rightarrow> scan_row \<Rightarrow>
     failure + (verification_receipt \<times> digest \<times> uuid) option" where
  "receipt_of env d row c p s =
     (case find_row rt_verification_id (vf_id row) (db_receipts d) of
        None \<Rightarrow> if sc_status s = SC_RUNNING then Inr None else Inl (RemErr ProvenanceConflict)
      | Some rt \<Rightarrow>
          res_bind (need_some (validate_receipt_doc (rt_content rt))) (\<lambda>r.
          res_bind (shield (build_receipt env (db_history d) row c p s)) (\<lambda>expected.
          res_bind (conflict_unless (r = expected \<and> binds_receipt env d row rt r)) (\<lambda>_.
          Inr (Some (r, rt_sha rt, rt_audit_id rt))))))"

section \<open>Views\<close>

definition verification_view_of :: "env \<Rightarrow> db \<Rightarrow> verification_row \<Rightarrow> failure + verification_view" where
  "verification_view_of env d row =
     res_bind (verification_content_of env d row) (\<lambda>(c, p, s).
     res_bind (receipt_of env d row c p s) (\<lambda>rc.
     let v = \<lparr>vv_content = c, vv_sha = vf_sha row, vv_request_audit_id = vf_audit_id row,
              vv_receipt = map_option fst rc, vv_receipt_sha = map_option (fst \<circ> snd) rc,
              vv_receipt_audit_id = map_option (snd \<circ> snd) rc\<rparr>
     in if valid_verification_view v then Inr v else Inl (ValueErr ''VerificationView'')))"

definition verification_row_of :: "db \<Rightarrow> uuid \<Rightarrow> failure + verification_row" where
  "verification_row_of d vid =
     (case find_row vf_id vid (db_verifications d) of
        None \<Rightarrow> Inl (NotFound ''remediation_verification'' vid)
      | Some row \<Rightarrow> Inr row)"

definition get_verification :: "env \<Rightarrow> uuid \<Rightarrow> principal \<Rightarrow> db \<Rightarrow> failure + verification_view" where
  "get_verification env vid p d =
     res_bind (actor_of p CAP_READ) (\<lambda>_.
     if pending env then Inl (RemErr StateConflict)
     else if \<not> db_verification_guard d then Inl (RemErr ProvenanceConflict)
     else res_bind (verification_row_of d vid) (verification_view_of env d))"

definition list_verifications ::
    "env \<Rightarrow> principal \<Rightarrow> uuid option \<Rightarrow> int \<Rightarrow> int \<Rightarrow> db \<Rightarrow> failure + verification_view page" where
  "list_verifications env p eid lim off d =
     res_bind (actor_of p CAP_READ) (\<lambda>_.
     if pending env then Inl (RemErr StateConflict)
     else if \<not> (1 \<le> lim \<and> lim \<le> 100) \<or> off < 0 then Inl (ValueErr ''invalid verification page'')
     else if \<not> db_verification_guard d then Inl (RemErr ProvenanceConflict)
     else
       let rows = filter (\<lambda>r. case eid of None \<Rightarrow> True | Some i \<Rightarrow> vf_execution_id r = i) (db_verifications d);
           sorted_rows = sort_key (\<lambda>r. (- vf_created_at r, vf_id r)) rows
       in res_bind (res_map (verification_view_of env d) (take (nat lim) (drop (nat off) sorted_rows))) (\<lambda>items.
          Inr \<lparr>pg_items = items, pg_total = length rows, pg_limit = lim, pg_offset = off\<rparr>))"

end
