(* ===== verification/Verification_Requests.thy ===== *)
theory Verification_Requests
  imports Verification_Service
begin

text \<open>
  The writing half of app/services/remediation_verification_service.py and its hooks in
  app/database/persistence.py: \<open>load_link\<close> and \<open>seal_receipt\<close> around the recording or the failure of
  a scan, and the admission of a request, whose scan is committed before it is submitted.
\<close>

section \<open>The link between a scan and its verification\<close>

definition marks_verification :: "audit_metadata \<Rightarrow> bool" where
  "marks_verification m =
     (case m of
        MetaVerification _ _ _ _ _ _ \<Rightarrow> True
      | MetaVerificationStart _ _ _ _ _ _ _ \<Rightarrow> True
      | MetaReceipt _ _ _ _ _ _ _ \<Rightarrow> True
      | _ \<Rightarrow> False)"

type_synonym link = "verification_row \<times> verification_content \<times> proposal_content"

definition load_link :: "env \<Rightarrow> db \<Rightarrow> uuid \<Rightarrow> failure + link option" where
  "load_link env d sid =
     (let starts = scan_starts d sid; marked = filter (\<lambda>a. marks_verification (au_metadata a)) starts
      in if marked = [] then Inr None
         else if \<not> db_verification_guard d \<or> length marked \<noteq> 1 \<or> length starts \<noteq> 1
         then Inl (RemErr ProvenanceConflict)
         else
           res_bind (need_some (find_row vf_scan_id sid (db_verifications d))) (\<lambda>row.
           res_bind (verification_content_of env d row) (\<lambda>(c, p, _).
           Inr (Some (row, c, p)))))"

text \<open>The constraints of the receipt table: one receipt per verification and per audit event.\<close>

definition insert_receipt :: "receipt_row \<Rightarrow> unit act" where
  "insert_receipt rt =
     bnd get_db (\<lambda>d.
     bnd (guard (new_key rt_verification_id (rt_verification_id rt) (db_receipts d) \<and>
                 new_key rt_audit_id (rt_audit_id rt) (db_receipts d) \<and> length (rt_sha rt) = 64) IntegrityErr) (\<lambda>_.
     change (\<lambda>d. d\<lparr>db_receipts := db_receipts d @ [rt]\<rparr>)))"

definition write_receipt :: "env \<Rightarrow> verification_row \<Rightarrow> verification_receipt \<Rightarrow> unit act" where
  "write_receipt env row r =
     (let digest = sha env (ReceiptDoc r) in
      bnd (append_audit_event env AT_REMEDIATION_VERIFICATION_COMPLETED TargetVerification (vf_id row)
             (vr_created_at r) ActorSystem scan_executor_actor (receipt_metadata r digest)) (\<lambda>audit.
      insert_receipt \<lparr>rt_verification_id = vf_id row, rt_audit_id = au_id audit, rt_outcome = vr_outcome r,
        rt_content = ReceiptDoc r, rt_sha = digest, rt_created_at = vr_created_at r\<rparr>))"

text \<open>The scan of the link is the row of the same session, so it is read again here.\<close>

definition seal_receipt :: "env \<Rightarrow> link option \<Rightarrow> unit act" where
  "seal_receipt env link =
     (case link of
        None \<Rightarrow> ret ()
      | Some (row, c, p) \<Rightarrow>
          bnd get_db (\<lambda>d.
          bnd (lift_res (need_some (find_row sc_id (vf_scan_id row) (hs_scans (db_history d))))) (\<lambda>s.
          if find_row rt_verification_id (vf_id row) (db_receipts d) \<noteq> None
          then bnd (lift_res (receipt_of env d row c p s)) (\<lambda>_. ret ())
          else bnd (lift_res (build_receipt env (db_history d) row c p s)) (write_receipt env row))))"

section \<open>Recording a linked scan\<close>

text \<open>The result must be the one the retained intent asked for; ordinary scans have no link.\<close>

definition result_matches :: "scan_bundle \<Rightarrow> string \<Rightarrow> digest \<Rightarrow> link option \<Rightarrow> bool" where
  "result_matches b region catalog_sha link =
     (case link of
        None \<Rightarrow> True
      | Some (_, c, _) \<Rightarrow>
          (let m = bn_scope b
           in bn_account b = vc_account c \<and> region = vc_region c \<and> ss_requested_services m = vc_services c \<and>
              ss_requested_collectors m = vc_collectors c \<and> set (ss_resource_types m) = set (vc_types c) \<and>
              ss_requested_regions m = [vc_region c] \<and> ss_profile_id m = vc_profile_id c \<and>
              ss_profile_version m = vc_profile_version c \<and> ss_profile_sha m = vc_profile_sha c \<and>
              catalog_sha = vc_catalog_sha c))"

text \<open>
  \<open>persist_scan_result\<close> with its verification: the checks on the arguments, the link, the intent,
  the recording, the receipt.
\<close>

definition persist_linked_result ::
    "env \<Rightarrow> scan_bundle \<Rightarrow> string \<Rightarrow> digest \<Rightarrow> reading \<Rightarrow> reading \<Rightarrow> string \<Rightarrow> actor_type \<Rightarrow> string \<Rightarrow> unit act" where
  "persist_linked_result env b region catalog_sha started0 completed0 version aty actor =
     bnd (require_aware started0 ''started_at'') (\<lambda>started.
     bnd (require_aware completed0 ''completed_at'') (\<lambda>completed.
     bnd (guard (started \<le> bn_observed_at b \<and> bn_observed_at b \<le> completed)
            (ValueErr ''scan timestamps must enclose the observation time'')) (\<lambda>_.
     bnd (guard (\<not> blank version \<and> \<not> blank actor)
            (ValueErr ''scanner version and audit actor must not be blank'')) (\<lambda>_.
     bnd get_db (\<lambda>d.
     bnd (lift_res (load_link env d (bn_scan_id b))) (\<lambda>link.
     bnd (guard (result_matches b region catalog_sha link)
            (ValueErr ''verification result does not match its retained intent'')) (\<lambda>_.
     bnd (persist_scan_result env b started0 completed0 version aty actor) (\<lambda>_.
     seal_receipt env link))))))))"

definition fail_linked_scan ::
    "env \<Rightarrow> uuid \<Rightarrow> reading \<Rightarrow> string \<Rightarrow> string \<Rightarrow> actor_type \<Rightarrow> string \<Rightarrow> unit act" where
  "fail_linked_scan env sid completed0 code message aty actor =
     bnd (require_aware completed0 ''completed_at'') (\<lambda>completed.
     bnd (guard (\<not> blank code \<and> \<not> blank message \<and> \<not> blank actor)
            (ValueErr ''failure details and audit actor must not be blank'')) (\<lambda>_.
     bnd (guard (length code \<le> 64 \<and> length message \<le> 256)
            (ValueErr ''failure details exceed their safe response bounds'')) (\<lambda>_.
     bnd get_db (\<lambda>d.
     bnd (lift_res (load_link env d sid)) (\<lambda>link.
     bnd (fail_pending_scan env sid completed0 code message aty actor) (\<lambda>_.
     seal_receipt env link))))))"

section \<open>Requesting a verification\<close>

definition insert_verification :: "verification_row \<Rightarrow> unit act" where
  "insert_verification r =
     bnd get_db (\<lambda>d.
     bnd (guard (new_key vf_id (vf_id r) (db_verifications d) \<and>
         new_key vf_scan_id (vf_scan_id r) (db_verifications d) \<and>
         new_key (\<lambda>q. (vf_execution_id q, vf_attempt q)) (vf_execution_id r, vf_attempt r) (db_verifications d) \<and>
         new_key (\<lambda>q. (vf_identity_sha q, vf_key q)) (vf_identity_sha r, vf_key r) (db_verifications d) \<and>
         new_key vf_audit_id (vf_audit_id r) (db_verifications d) \<and> 1 \<le> vf_attempt r \<and> vf_attempt r \<le> 3 \<and>
         length (vf_sha r) = 64 \<and> length (vf_request_sha r) = 64 \<and> length (vf_identity_sha r) = 64 \<and>
         sql_nonblank (vf_actor_issuer r) \<and> sql_nonblank (vf_actor_subject r)) IntegrityErr) (\<lambda>_.
     change (\<lambda>d. d\<lparr>db_verifications := db_verifications d @ [r]\<rparr>)))"

definition new_verification ::
    "uuid \<Rightarrow> uuid \<Rightarrow> uuid \<Rightarrow> retained \<Rightarrow> nat \<Rightarrow> actor_context \<Rightarrow> uuid \<Rightarrow> string \<Rightarrow> time \<Rightarrow> verification_content" where
  "new_verification vid sid eid n prior a key reason at =
     (let ack = ev_content (rn_ack n); p = xc_proposal (rn_content n); s = rn_scan n
      in \<lparr>vc_verification_id = vid, vc_execution_id = eid, vc_execution_sha = ex_sha (rn_row n),
          vc_ack_event_id = je_event_id ack, vc_ack_sha = ev_sha (rn_ack n), vc_acknowledged_at = je_created_at ack,
          vc_baseline_scan_id = sc_id s, vc_scan_id = sid, vc_attempt = prior + 1, vc_account = pc_account_id p,
          vc_region = pc_region p, vc_services = sc_requested_services s, vc_collectors = rn_collectors n,
          vc_types = rn_types n, vc_profile_id = sc_profile_id s, vc_profile_version = sc_profile_version s,
          vc_profile_sha = sc_profile_sha s, vc_catalog_id = sc_catalog_id s,
          vc_catalog_version = sc_catalog_version s, vc_catalog_sha = bl_catalog_sha (pc_baseline p),
          vc_requested_by = a, vc_key = key, vc_reason = reason, vc_created_at = at\<rparr>)"

definition pending_scan :: "verification_content \<Rightarrow> string \<Rightarrow> scan_row" where
  "pending_scan c version =
     \<lparr>sc_id = vc_scan_id c, sc_account = None, sc_status = SC_RUNNING, sc_profile_id = vc_profile_id c,
      sc_profile_version = vc_profile_version c, sc_profile_sha = vc_profile_sha c, sc_catalog_id = vc_catalog_id c,
      sc_catalog_version = vc_catalog_version c, sc_inventory_sha = None, sc_requested_regions = [vc_region c],
      sc_successful_regions = [], sc_requested_services = vc_services c, sc_successful_collectors = [],
      sc_started_at = vc_created_at c, sc_completed_at = None, sc_scanner_version = version, sc_result_sha = None,
      sc_manifest = None\<rparr>"

definition insert_scan :: "scan_row \<Rightarrow> unit act" where
  "insert_scan s =
     bnd get_db (\<lambda>d.
     bnd (guard (new_key sc_id (sc_id s) (hs_scans (db_history d)) \<and> scan_ok s) IntegrityErr) (\<lambda>_.
     set_history (\<lambda>h. h\<lparr>hs_scans := hs_scans h @ [s]\<rparr>)))"

definition verification_row_for ::
    "env \<Rightarrow> verification_content \<Rightarrow> actor_context \<Rightarrow> digest \<Rightarrow> audit_row \<Rightarrow> verification_row" where
  "verification_row_for env c a digest audit =
     \<lparr>vf_id = vc_verification_id c, vf_execution_id = vc_execution_id c, vf_ack_event_id = vc_ack_event_id c,
      vf_scan_id = vc_scan_id c, vf_audit_id = au_id audit, vf_attempt = vc_attempt c,
      vf_identity_sha = identity_sha (sha env) a, vf_actor_issuer = ac_issuer a, vf_actor_subject = ac_subject a,
      vf_key = vc_key c, vf_request_sha = digest, vf_content = VerificationDoc c,
      vf_sha = sha env (VerificationDoc c), vf_created_at = vc_created_at c\<rparr>"

text \<open>The scan, its start event, the request event and the row, in this order.\<close>

definition store_verification ::
    "env \<Rightarrow> string \<Rightarrow> verification_content \<Rightarrow> actor_context \<Rightarrow> digest \<Rightarrow> unit act" where
  "store_verification env version c a digest =
     (let who = identity_sha (sha env) a; vsha = sha env (VerificationDoc c) in
      bnd (insert_scan (pending_scan c version)) (\<lambda>_.
      bnd (append_audit_event env AT_SCAN_STARTED TargetScan (vc_scan_id c) (vc_created_at c) ActorHuman who
             (start_metadata c vsha)) (\<lambda>_.
      bnd (append_audit_event env AT_REMEDIATION_VERIFICATION_REQUESTED TargetVerification (vc_verification_id c)
             (vc_created_at c) ActorHuman who (request_metadata c vsha)) (\<lambda>audit.
      insert_verification (verification_row_for env c a digest audit)))))"

definition prior_rows :: "db \<Rightarrow> uuid \<Rightarrow> verification_row list" where
  "prior_rows d eid = sort_key vf_attempt (filter (\<lambda>r. vf_execution_id r = eid) (db_verifications d))"

datatype admitted = ReplayedVerification verification_view | NewVerification verification_content

definition replay_verification ::
    "env \<Rightarrow> db \<Rightarrow> actor_context \<Rightarrow> uuid \<Rightarrow> digest \<Rightarrow> failure + verification_view option" where
  "replay_verification env d a key digest =
     (case find_row (\<lambda>r. (vf_identity_sha r, vf_key r)) (identity_sha (sha env) a, key) (db_verifications d) of
        None \<Rightarrow> Inr None
      | Some r \<Rightarrow>
          if vf_request_sha r \<noteq> digest \<or> (vf_actor_issuer r, vf_actor_subject r) \<noteq> actor_key a
          then Inl (RemErr IdempotencyConflict)
          else res_bind (verification_view_of env d r) (\<lambda>v. Inr (Some v)))"

text \<open>Every prior attempt is validated and sealed, and fewer than three exist.\<close>

definition check_prior :: "env \<Rightarrow> db \<Rightarrow> uuid \<Rightarrow> failure + nat" where
  "check_prior env d eid =
     res_bind (res_map (verification_view_of env d) (prior_rows d eid)) (\<lambda>views.
     if list_ex (\<lambda>v. vv_receipt v = None) views then Inl (RemErr VerificationActive)
     else if max_verification_attempts \<le> length (prior_rows d eid) then Inl (RemErr VerificationLimit)
     else Inr (length (prior_rows d eid)))"

definition request_body ::
    "env \<Rightarrow> admission_scope \<Rightarrow> bool \<Rightarrow> string \<Rightarrow> uuid \<Rightarrow> string \<Rightarrow> actor_context \<Rightarrow> uuid \<Rightarrow> digest \<Rightarrow> admitted act" where
  "request_body env scope executor version eid reason a key digest =
     bnd get_db (\<lambda>d.
     bnd (guard (db_verification_guard d) (RemErr ProvenanceConflict)) (\<lambda>_.
     bnd (lift_res (replay_verification env d a key digest)) (\<lambda>previous.
     case previous of
       Some v \<Rightarrow> ret (ReplayedVerification v)
     | None \<Rightarrow>
         bnd (guard (as_enabled scope) (RemErr VerificationDisabled)) (\<lambda>_.
         bnd (guard executor (RemErr VerificationExecutorUnavailable)) (\<lambda>_.
         bnd (lift_res (authority_history env d eid)) (\<lambda>n.
         bnd (guard (as_account_id scope = Some (pc_account_id (xc_proposal (rn_content n))) \<and>
                     as_region scope = Some (pc_region (xc_proposal (rn_content n)))) (RemErr VerificationScopeConflict)) (\<lambda>_.
         bnd (lift_res (check_prior env d eid)) (\<lambda>prior.
         bnd (now env) (\<lambda>at.
         bnd (guard (je_created_at (ev_content (rn_ack n)) \<le> at) (RemErr StateConflict)) (\<lambda>_.
         bnd (uuid4 env) (\<lambda>vid.
         bnd (uuid4 env) (\<lambda>sid.
         case make_verification_content (new_verification vid sid eid n prior a key reason at) of
           None \<Rightarrow> raise (ValueErr ''VerificationContent'')
         | Some c \<Rightarrow> bnd (store_verification env version c a digest) (\<lambda>_. ret (NewVerification c))))))))))))))"

text \<open>The transaction of the request: constraint and connection errors are sanitized.\<close>

definition commit_request :: "admitted act \<Rightarrow> db \<Rightarrow> (failure + admitted) \<times> db" where
  "commit_request m d =
     (case transact m d of
        (Inl IntegrityErr, _) \<Rightarrow> (Inl (RemErr DatabaseUnavailable), d)
      | r \<Rightarrow> r)"

text \<open>
  The executor is a parameter: whether it accepted the scan, and the tables after everything that
  happened until it answered. A rejected scan is failed in its own transaction, whose errors are
  dropped; \<open>late\<close> is the environment of that transaction.
\<close>

type_synonym executor = "uuid \<Rightarrow> db \<Rightarrow> bool \<times> db"

definition reject_scan :: "env \<Rightarrow> uuid \<Rightarrow> db \<Rightarrow> db" where
  "reject_scan late sid d =
     snd (transact (fail_linked_scan late sid (tick late 0) ''EXECUTOR_SUBMISSION_FAILED''
       ''The configured executor rejected this scan request.'' ActorSystem scan_executor_actor) d)"

definition submit_verification ::
    "env \<Rightarrow> env \<Rightarrow> executor \<Rightarrow> principal \<Rightarrow> verification_content \<Rightarrow> db \<Rightarrow> (failure + verification_view \<times> bool) \<times> db" where
  "submit_verification env late executor p c d =
     (case executor (vc_scan_id c) d of
        (True, d') \<Rightarrow> (res_bind (get_verification env (vc_verification_id c) p d') (\<lambda>v. Inr (v, False)), d')
      | (False, d') \<Rightarrow>
          (Inl (SubmissionErr (vc_verification_id c) (vc_scan_id c)), reject_scan late (vc_scan_id c) d'))"

definition request_verification ::
    "env \<Rightarrow> env \<Rightarrow> admission_scope \<Rightarrow> executor option \<Rightarrow> string \<Rightarrow> uuid \<Rightarrow> string \<Rightarrow> principal \<Rightarrow> uuid \<Rightarrow> db \<Rightarrow>
     (failure + verification_view \<times> bool) \<times> db" where
  "request_verification env late scope executor version eid reason p key d =
     (if \<not> valid_admission_scope scope then (Inl (ValueErr ''VerificationScope''), d)
      else
        (case actor_of p CAP_EXECUTE of
           Inl e \<Rightarrow> (Inl e, d)
         | Inr a \<Rightarrow>
             (case validate_verification_request reason of
                None \<Rightarrow> (Inl (ValueErr ''VerificationRequest''), d)
              | Some q \<Rightarrow>
                  if in_tx env \<or> pending env then (Inl (RemErr StateConflict), d)
                  else if down env then (Inl (RemErr DatabaseUnavailable), d)
                  else
                    (case commit_request (request_body env scope (executor \<noteq> None) version eid q a key
                            (sha env (VerifyRequestDoc eid q))) d of
                       (Inl e, _) \<Rightarrow> (Inl e, d)
                     | (Inr (ReplayedVerification v), d') \<Rightarrow> (Inr (v, True), d')
                     | (Inr (NewVerification c), d') \<Rightarrow> submit_verification env late (the executor) p c d'))))"

end
