(* ===== verification/Verification_History.thy ===== *)
theory Verification_History
  imports Verification_Requests Results_History
begin

text \<open>
  The verification tables over time: what one request commits, the calls that leave the table of
  requests alone, and the invariant of the attempts of an execution.
\<close>

section \<open>What a request commits\<close>

lemma insert_scan_Inr:
  "insert_scan s w = Inr ((), w') \<Longrightarrow>
   wk_db w' = map_history (\<lambda>h. h\<lparr>hs_scans := hs_scans h @ [s]\<rparr>) (wk_db w) \<and>
   sc_id s \<notin> sc_id ` set (hs_scans (db_history (wk_db w))) \<and> scan_ok s"
  by (auto simp: insert_scan_def bnd_Inr_iff set_history_def new_key_def)

lemma insert_verification_Inr:
  "insert_verification r w = Inr ((), w') \<Longrightarrow> wk_db w' = (wk_db w)\<lparr>db_verifications := db_verifications (wk_db w) @ [r]\<rparr>"
  by (auto simp: insert_verification_def bnd_Inr_iff)

text \<open>One RUNNING scan, two audit events and one row, all with the same instant.\<close>

lemma store_verification_Inr:
  assumes "store_verification env version c a digest w = Inr ((), w')"
  obtains started requested where
    "au_type started = AT_SCAN_STARTED" "au_type requested = AT_REMEDIATION_VERIFICATION_REQUESTED"
    "au_target_id started = vc_scan_id c" "au_metadata started = start_metadata c (sha env (VerificationDoc c))"
    "au_metadata requested = request_metadata c (sha env (VerificationDoc c))"
    "wk_db w' = (map_history (\<lambda>h. h\<lparr>hs_scans := hs_scans h @ [pending_scan c version]\<rparr>) (wk_db w))
       \<lparr>db_audits := db_audits (wk_db w) @ [started, requested],
        db_verifications := db_verifications (wk_db w) @ [verification_row_for env c a digest requested]\<rparr>"
proof -
  let ?who = "identity_sha (sha env) a" and ?vsha = "sha env (VerificationDoc c)"
  obtain w1 w2 w3 started requested where
    s: "insert_scan (pending_scan c version) w = Inr ((), w1)"
    and a1: "append_audit_event env AT_SCAN_STARTED TargetScan (vc_scan_id c) (vc_created_at c) ActorHuman ?who
      (start_metadata c ?vsha) w1 = Inr (started, w2)"
    and a2: "append_audit_event env AT_REMEDIATION_VERIFICATION_REQUESTED TargetVerification (vc_verification_id c)
      (vc_created_at c) ActorHuman ?who (request_metadata c ?vsha) w2 = Inr (requested, w3)"
    and v: "insert_verification (verification_row_for env c a digest requested) w3 = Inr ((), w')"
    using assms by (auto simp: store_verification_def Let_def bnd_Inr_iff)
  show thesis
    by (rule that [of started requested])
      (use insert_scan_Inr [OF s] append_audit_Inr [OF a1] append_audit_Inr [OF a2] insert_verification_Inr [OF v]
       in simp_all)
qed

text \<open>What the transaction of a request found and did.\<close>

lemma request_body_Inr:
  assumes "request_body env scope executor version eid reason a key digest w = Inr (r, w')"
  obtains (replayed) v where "r = ReplayedVerification v" "wk_db w' = wk_db w"
      "replay_verification env (wk_db w) a key digest = Inr (Some v)"
  | (admitted) n prior at vid sid c w1 where "r = NewVerification c" "as_enabled scope" executor
      "authority_history env (wk_db w) eid = Inr n" "check_prior env (wk_db w) eid = Inr prior"
      "je_created_at (ev_content (rn_ack n)) \<le> at"
      "as_account_id scope = Some (pc_account_id (xc_proposal (rn_content n)))"
      "as_region scope = Some (pc_region (xc_proposal (rn_content n)))"
      "make_verification_content (new_verification vid sid eid n prior a key reason at) = Some c"
      "store_verification env version c a digest w1 = Inr ((), w')" "wk_db w1 = wk_db w"
proof -
  obtain previous where "replay_verification env (wk_db w) a key digest = Inr previous"
    "(case previous of
       Some v \<Rightarrow> ret (ReplayedVerification v)
     | None \<Rightarrow>
         bnd (guard (as_enabled scope) (RemErr VerificationDisabled)) (\<lambda>_.
         bnd (guard executor (RemErr VerificationExecutorUnavailable)) (\<lambda>_.
         bnd (lift_res (authority_history env (wk_db w) eid)) (\<lambda>n.
         bnd (guard (as_account_id scope = Some (pc_account_id (xc_proposal (rn_content n))) \<and>
                     as_region scope = Some (pc_region (xc_proposal (rn_content n)))) (RemErr VerificationScopeConflict)) (\<lambda>_.
         bnd (lift_res (check_prior env (wk_db w) eid)) (\<lambda>prior.
         bnd (now env) (\<lambda>at.
         bnd (guard (je_created_at (ev_content (rn_ack n)) \<le> at) (RemErr StateConflict)) (\<lambda>_.
         bnd (uuid4 env) (\<lambda>vid.
         bnd (uuid4 env) (\<lambda>sid.
         case make_verification_content (new_verification vid sid eid n prior a key reason at) of
           None \<Rightarrow> raise (ValueErr ''VerificationContent'')
         | Some c \<Rightarrow> bnd (store_verification env version c a digest) (\<lambda>_. ret (NewVerification c))))))))))))
       w = Inr (r, w')"
    using assms unfolding request_body_def by (auto simp: bnd_Inr_iff)
  note p = this
  show thesis
  proof (cases previous)
    case (Some v)
    then show thesis using p by (intro replayed) auto
  next
    case None
    obtain n prior at vid sid c w1 where "as_enabled scope" executor
      "authority_history env (wk_db w) eid = Inr n" "check_prior env (wk_db w) eid = Inr prior"
      "je_created_at (ev_content (rn_ack n)) \<le> at"
      "as_account_id scope = Some (pc_account_id (xc_proposal (rn_content n)))"
      "as_region scope = Some (pc_region (xc_proposal (rn_content n)))"
      "make_verification_content (new_verification vid sid eid n prior a key reason at) = Some c"
      "store_verification env version c a digest w1 = Inr ((), w')" "wk_db w1 = wk_db w" "r = NewVerification c"
      using p(2) None by (auto simp: bnd_Inr_iff dest: now_Inr_db uuid4_Inr_db split: option.splits)
    then show thesis by (intro admitted)
  qed
qed

lemma make_verification_content_fields:
  assumes "make_verification_content c0 = Some c"
  shows "vc_execution_id c = vc_execution_id c0" "vc_attempt c = vc_attempt c0" "vc_scan_id c = vc_scan_id c0"
    "vc_attempt c \<le> 3" "vc_services c = vc_services c0" "vc_collectors c = vc_collectors c0"
    "vc_types c = vc_types c0" "vc_region c = vc_region c0" "vc_account c = vc_account c0"
    "vc_created_at c = vc_created_at c0" "vc_acknowledged_at c = vc_acknowledged_at c0"
    "vc_verification_id c = vc_verification_id c0"
  using assms by (auto simp: make_verification_content_def max_verification_attempts_def split: if_splits)

section \<open>The calls that request nothing\<close>

definition requests_kept :: "db \<Rightarrow> db \<Rightarrow> bool" where
  "requests_kept d d' = (db_verifications d' = db_verifications d \<and> prefix (db_receipts d) (db_receipts d'))"

interpretation requests_frame: act_frame requests_kept
  by unfold_locales (auto simp: requests_kept_def prefix_def)

interpretation requests_services: service_frame requests_kept
proof unfold_locales
  show "requests_frame.keeps (reserve_target env rvo c eid)" for env rvo c eid
    unfolding reserve_target_def set_reservation_def
    by (intro requests_frame.keeps_bnd requests_frame.keeps_pure requests_frame.keeps_branches
        requests_frame.keeps_flush requests_frame.keeps_change; simp add: requests_kept_def)
  show "requests_frame.keeps (store_claim env s eid token until cl)" for env s eid token until cl
    unfolding store_claim_def set_claim_def
    by (intro requests_frame.keeps_branches requests_frame.keeps_change; simp add: requests_kept_def)
qed (unfold insert_audit_def insert_proposal_def insert_decision_def insert_request_def
    insert_execution_def insert_event_def set_reservation_def set_claim_def,
    (intro requests_frame.keeps_bnd requests_frame.keeps_pure requests_frame.keeps_change; simp add: requests_kept_def)+)

interpretation requests_results: results_writes requests_kept
  by unfold_locales (simp_all add: requests_kept_def)

lemma keeps_seal: "requests_frame.keeps (seal_receipt env l)"
proof -
  have i: "requests_frame.keeps (insert_receipt rt)" for rt
    unfolding insert_receipt_def
    by (intro requests_frame.keeps_bnd requests_frame.keeps_pure requests_frame.keeps_change) (simp add: requests_kept_def)
  show ?thesis
    unfolding seal_receipt_def write_receipt_def Let_def
    by (intro requests_results.results_intros i)
qed

lemma keeps_linked:
  "requests_frame.keeps (persist_linked_result env b region csha st ct version aty actor)"
  "requests_frame.keeps (fail_linked_scan env sid ct code message aty actor)"
  unfolding persist_linked_result_def fail_linked_scan_def
  by (intro requests_results.results_intros requests_results.keeps_arguments requests_results.keeps_scans keeps_seal)+

section \<open>The system with verifications\<close>

text \<open>
  Every committed change of the tables: a request, the recording or the failure of a scan with its
  receipt, a governance call, or a call of the remediation services.
\<close>

inductive verification_step :: "(document \<Rightarrow> digest) \<Rightarrow> db \<Rightarrow> db \<Rightarrow> bool" for sh where
  vs_request: "sha env = sh \<Longrightarrow> commit_request (request_body env scope executor version eid reason a key digest) d = (Inr r, d') \<Longrightarrow>
     verification_step sh d d'"
| vs_persist: "sha env = sh \<Longrightarrow>
     transact (persist_linked_result env b region csha started completed version aty actor) d = (Inr u, d') \<Longrightarrow>
     verification_step sh d d'"
| vs_fail: "sha env = sh \<Longrightarrow> transact (fail_linked_scan env sid completed code message aty actor) d = (Inr u, d') \<Longrightarrow>
     verification_step sh d d'"
| vs_governance: "governance_call d d' \<Longrightarrow> verification_step sh d d'"
| vs_service: "service_call sh d failed d' \<Longrightarrow> verification_step sh d d'"

text \<open>The attempts of one execution in the order of their requests.\<close>

definition attempts_of :: "db \<Rightarrow> uuid \<Rightarrow> verification_row list" where
  "attempts_of d eid = filter (\<lambda>r. vf_execution_id r = eid) (db_verifications d)"

definition unsealed :: "db \<Rightarrow> verification_row \<Rightarrow> bool" where
  "unsealed d r = (find_row rt_verification_id (vf_id r) (db_receipts d) = None)"

definition attempts_ok :: "db \<Rightarrow> bool" where
  "attempts_ok d =
     (\<forall>eid. map vf_attempt (attempts_of d eid) = [1..<Suc (length (attempts_of d eid))] \<and>
        length (attempts_of d eid) \<le> 3 \<and> (\<forall>r\<in>set (butlast (attempts_of d eid)). \<not> unsealed d r))"

lemma requests_kept_attempts:
  assumes "requests_kept d d'" "attempts_ok d"
  shows "attempts_ok d'"
proof -
  obtain rs where rs: "db_receipts d' = db_receipts d @ rs"
    using assms(1) by (auto simp: requests_kept_def prefix_def)
  have "attempts_of d' = attempts_of d" using assms(1) by (simp add: requests_kept_def attempts_of_def fun_eq_iff)
  moreover have "\<not> unsealed d r \<Longrightarrow> \<not> unsealed d' r" for r
    by (auto simp: unsealed_def rs find_row_append)
  ultimately show ?thesis using assms(2) by (auto simp: attempts_ok_def)
qed

lemma check_prior_sealed:
  assumes "check_prior env d eid = Inr n"
  shows "n = length (attempts_of d eid)" "n < 3" "\<forall>r\<in>set (attempts_of d eid). \<not> unsealed d r"
proof -
  obtain views where v: "res_map (verification_view_of env d) (prior_rows d eid) = Inr views"
    "\<not> list_ex (\<lambda>v. vv_receipt v = None) views" "n = length (prior_rows d eid)" "n < 3"
    using assms by (auto simp: check_prior_def res_bind_Inr_iff max_verification_attempts_def split: if_splits)
  show "n = length (attempts_of d eid)" "n < 3"
    using v(3,4) by (simp_all add: prior_rows_def attempts_of_def)
  have "\<not> unsealed d r" if r: "r \<in> set (prior_rows d eid)" for r
  proof -
    obtain v where "verification_view_of env d r = Inr v" "v \<in> set views"
      using r v(1) unfolding res_map_Inr_iff_list_all2 list_all2_conv_all_nth in_set_conv_nth [of r] by (metis nth_mem)
    moreover have "vv_receipt v \<noteq> None" using v(2) calculation(2) by (auto simp: list_ex_iff)
    ultimately show ?thesis
      by (auto simp: verification_view_of_def res_bind_Inr_iff receipt_of_def unsealed_def Let_def
          split: if_splits option.splits)
  qed
  then show "\<forall>r\<in>set (attempts_of d eid). \<not> unsealed d r"
    by (simp add: prior_rows_def attempts_of_def)
qed

lemma commit_request_Inr:
  assumes "commit_request m d = (Inr r, d')"
  obtains w where "m (initial_work d) = Inr (r, w)" "d' = wk_db w"
  using assms by (auto simp: commit_request_def transact_def split: sum.splits prod.splits failure.splits)

lemma request_attempts:
  assumes "commit_request (request_body env scope executor version eid reason a key digest) d = (Inr r, d')"
    and "attempts_ok d"
  shows "attempts_ok d'"
proof -
  obtain w where w: "request_body env scope executor version eid reason a key digest (initial_work d) = Inr (r, w)" "d' = wk_db w"
    using commit_request_Inr [OF assms(1)] .
  from w(1) show ?thesis
  proof (cases rule: request_body_Inr)
    case (replayed v)
    then show ?thesis using w(2) assms(2) by (simp add: initial_work_def)
  next
    case (admitted n prior at vid sid c w1)
    let ?rows = "attempts_of d eid"
    have d: "wk_db w1 = d" "wk_db (initial_work d) = d" using admitted(11) by (simp_all add: initial_work_def)
    note prior = check_prior_sealed [OF admitted(5) [unfolded d(2)]]
    obtain row where row: "db_verifications d' = db_verifications d @ [row]" "db_receipts d' = db_receipts d"
      "vf_execution_id row = vc_execution_id c" "vf_attempt row = vc_attempt c"
    proof -
      obtain started requested where
        "wk_db w = (map_history (\<lambda>h. h\<lparr>hs_scans := hs_scans h @ [pending_scan c version]\<rparr>) d)
           \<lparr>db_audits := db_audits d @ [started, requested],
            db_verifications := db_verifications d @ [verification_row_for env c a digest requested]\<rparr>"
        by (rule store_verification_Inr [OF admitted(10), unfolded d(1)])
      then show thesis
        by (intro that [of "verification_row_for env c a digest requested"])
          (simp_all add: w(2) verification_row_for_def)
    qed
    have c: "vc_execution_id c = eid" "vc_attempt c = Suc (length ?rows)"
      using make_verification_content_fields [OF admitted(9)] prior(1) by (simp_all add: new_verification_def Let_def)
    have a: "attempts_of d' e = (if e = eid then attempts_of d e @ [row] else attempts_of d e)" for e
      using row c by (simp add: attempts_of_def)
    have u: "unsealed d' = unsealed d" using row by (simp add: unsealed_def fun_eq_iff)
    show ?thesis
      unfolding attempts_ok_def
    proof (intro allI)
      fix e
      have "map vf_attempt (attempts_of d e) = [1..<Suc (length (attempts_of d e))]" "length (attempts_of d e) \<le> 3"
        "\<forall>r\<in>set (butlast (attempts_of d e)). \<not> unsealed d r"
        using assms(2) by (simp_all add: attempts_ok_def del: upt_Suc)
      then show "map vf_attempt (attempts_of d' e) = [1..<Suc (length (attempts_of d' e))] \<and>
          length (attempts_of d' e) \<le> 3 \<and> (\<forall>r\<in>set (butlast (attempts_of d' e)). \<not> unsealed d' r)"
        using prior row(4) c by (cases "e = eid") (simp_all add: a u del: upt_Suc, simp)
    qed
  qed
qed

lemma verification_step_attempts:
  assumes "verification_step sh d d'" "attempts_ok d"
  shows "attempts_ok d'"
  using assms
proof cases
  case vs_request
  then show ?thesis using request_attempts assms(2) by blast
next
  case vs_persist
  then show ?thesis using requests_frame.keeps_transact [OF keeps_linked(1)] requests_kept_attempts assms(2) by blast
next
  case vs_fail
  then show ?thesis using requests_frame.keeps_transact [OF keeps_linked(2)] requests_kept_attempts assms(2) by blast
next
  case vs_governance
  then show ?thesis using requests_results.governance_kept requests_kept_attempts assms(2) by blast
next
  case vs_service
  then show ?thesis using requests_services.service_kept requests_kept_attempts assms(2) by blast
qed

interpretation attempts: event_system "\<lambda>d. db_verifications d = []" "verification_step sh" attempts_ok for sh
  by unfold_locales (simp add: attempts_ok_def attempts_of_def, rule verification_step_attempts)

end
