(* ===== verification/Verification_Scenario.thy ===== *)
theory Verification_Scenario
  imports Verification_History
begin

text \<open>
  The acknowledged run of the scenario, verified: a request, its scan with the default turned on,
  and the sealed receipt.
\<close>

section \<open>The retained history\<close>

definition ver_services :: "string list" where
  "ver_services = [''cloudtrail'', ''ec2'', ''iam'', ''s3'']"

definition ver_collectors :: "string list" where
  "ver_collectors = [''cloudtrail_trails'', ''ec2_ebs_evidence'', ''iam_account_evidence'', ''iam_users'',
     ''s3_buckets'', ''security_groups'', ''vpc_network_evidence'']"

definition ver_types :: "string list" where
  "ver_types = filter (\<lambda>t. t \<noteq> ''kms_key'' \<and> t \<noteq> ''access_analyzer_finding'') scan_resource_types"

definition ver_manifest :: scan_scope where
  "ver_manifest =
     \<lparr>ss_account = demo_account, ss_requested_regions = [demo_region], ss_successful_regions = [demo_region],
      ss_requested_services = ver_services, ss_requested_collectors = ver_collectors,
      ss_outcomes = map (\<lambda>c. (c, COL_SUCCEEDED)) ver_collectors, ss_resource_types = ver_types,
      ss_enabled_controls = [''EC2-004''], ss_profile_id = ''p'', ss_profile_version = ''1'', ss_profile_sha = hex64,
      ss_catalog_id = ''c'', ss_catalog_version = ''1''\<rparr>"

definition ver_scan :: scan_row where
  "ver_scan = (br_scan demo_rows)\<lparr>sc_requested_services := ver_services, sc_manifest := Some ver_manifest\<rparr>"

definition ver_history :: history where
  "ver_history = demo_history\<lparr>hs_scans := [ver_scan]\<rparr>"

definition ver_start :: db where
  "ver_start = demo_acknowledged\<lparr>db_history := ver_history\<rparr>"

text \<open>Identifiers of the later scan differ from those of the first.\<close>

definition ver_env :: "nat \<Rightarrow> env" where
  "ver_env n = (demo_env n)\<lparr>uuid5_of := \<lambda>ns t. if ns \<noteq> resource_namespace \<and> take 36 t = uuid_text 91 then 11 else 10\<rparr>"

lemma ver_env_simps [simp]:
  "sha (ver_env n) = demo_sha" "in_tx (ver_env n) = False" "down (ver_env n) = False"
  "tick (ver_env n) i = Aware (seconds (int (10 * n + i)))" "fresh (ver_env n) i = 10 * n + i"
  "pending (ver_env n) = False" "dialect_of (ver_env n) = POSTGRESQL"
  by (simp_all add: ver_env_def)

lemma ver_scan_texts: "uuid_text 4 \<noteq> uuid_text 91"
  by code_simp

lemma ver_take: "take 36 (join_with sep (uuid_text u # t # ts)) = uuid_text u"
  by (simp add: length_uuid_text)

lemma ver_snapshot_ids:
  "resource_snapshot_id (ver_env n) 4 a b c d e f = 10" "resource_snapshot_id (ver_env n) 91 a b c d e f = 11"
  "stable_resource_id (ver_env n) p a b c d e f = 10"
  "control_assessment_id (ver_env n) 91 s k = 11"
  by (simp_all add: resource_snapshot_id_def stable_resource_id_def control_assessment_id_def ver_env_def ver_take
      ver_scan_texts assessment_namespace_def resource_namespace_def control_assessment_namespace_def
      del: join_with.simps)

text \<open>The histories in which the first scan is the retained one.\<close>

definition ver_rows :: baseline_rows where
  "ver_rows = demo_rows\<lparr>br_scan := ver_scan\<rparr>"

definition ver_based :: "history \<Rightarrow> bool" where
  "ver_based h =
     (hs_occurrences h = [demo_occurrence] \<and> load_rows h demo_occurrence = Some ver_rows \<and>
      find_row sc_id 4 (hs_scans h) = Some ver_scan \<and> hs_load_graph h 4 = Some demo_graph \<and>
      filter (\<lambda>e. er_assessment_id e = 3) (hs_evidence h) = [demo_evidence] \<and>
      hs_profiles h = hs_profiles demo_history \<and> hs_load_profile h = hs_load_profile demo_history \<and>
      hs_catalog h = hs_catalog demo_history)"

lemma ver_based_start: "ver_based ver_history"
  by (simp add: ver_based_def ver_history_def demo_history_def load_rows_def ver_rows_def ver_scan_def)
    (simp add: demo_rows_def demo_occurrence_def demo_evidence_def)

lemma ver_rows_simps [simp]:
  "br_assessment ver_rows = br_assessment demo_rows" "br_scan ver_rows = ver_scan"
  "br_snapshot ver_rows = br_snapshot demo_rows" "br_resource ver_rows = br_resource demo_rows"
  "br_control ver_rows = br_control demo_rows" "br_version ver_rows = br_version demo_rows"
  by (simp_all add: ver_rows_def)

lemma ver_scan_simps [simp]:
  "sc_id ver_scan = 4" "sc_status ver_scan = SC_COMPLETED" "sc_account ver_scan = Some demo_account"
  "sc_requested_services ver_scan = ver_services" "sc_manifest ver_scan = Some ver_manifest"
  "sc_requested_regions ver_scan = [demo_region]" "sc_inventory_sha ver_scan = Some hex64"
  "sc_profile_id ver_scan = ''p''" "sc_profile_version ver_scan = ''1''" "sc_profile_sha ver_scan = hex64"
  "sc_catalog_id ver_scan = ''c''" "sc_catalog_version ver_scan = ''1''"
  by (simp_all add: ver_scan_def demo_rows_def)

lemma ver_agree: "rows_agree demo_finding demo_occurrence ver_rows" "identities_agree (ver_env n) ver_rows"
  by (simp_all add: rows_agree_def identities_agree_def Let_def ver_snapshot_ids)
    (simp_all add: demo_rows_def demo_finding_def demo_occurrence_def)

lemma ver_sources:
  "load_source demo_graph ver_rows kind api = load_source demo_graph demo_rows kind api"
  by (simp only: load_source_def ver_rows_simps)

lemma ver_policy:
  assumes "ver_based h"
  shows "load_policy h ver_rows =
     Some (\<lparr>lp_id = ''p'', lp_version = ''1'', lp_sha = hex64, lp_controls = [''EC2-004'']\<rparr>, ''c'', ''1'')"
  using assms by (simp add: ver_based_def load_policy_def demo_history_def) (simp add: demo_rows_def)

lemma ver_evidence_id: "build_evidence_id (ver_env n) (uuid_text 4 # t # ts) = 10"
  by (simp add: build_evidence_id_def ver_env_def ver_take ver_scan_texts del: join_with.simps)

lemma ver_check_evidence:
  assumes "ver_based h"
  shows "check_evidence (ver_env n) h ver_rows sb = Some demo_evidence"
proof -
  have "ca_id (br_assessment demo_rows) = 3" by (simp add: demo_rows_def)
  then show ?thesis using assms
    by (simp add: ver_based_def check_evidence_def expected_evidence_def Let_def ver_evidence_id del: canon.simps)
      (simp add: demo_rows_def demo_texts trim_text_def demo_evidence_def del: canon.simps)
qed

lemma ver_baseline:
  assumes "ver_based h"
  shows "baseline_for (ver_env n) h demo_finding demo_occurrence = Some demo_baseline"
proof -
  have "kms_context (eg_outcomes demo_graph ! 1) (ga_payload (eg_artifacts demo_graph ! 1)) = Some (None, True)"
    "so_state (hd (eg_outcomes demo_graph)) = ST_PRESENT"
    "jget ''ebs_encryption_by_default'' (ga_payload (hd (eg_artifacts demo_graph))) = JBool False"
    by (simp_all add: kms_context_def demo_graph_def demo_outcome_def demo_artifact_def obj_get_def)
  moreover have "oc_finding_id demo_occurrence = fd_id demo_finding"
    by (simp add: demo_occurrence_def demo_finding_def)
  moreover have "make_baseline demo_occurrence ver_rows p cid cver i e enc kms k b =
      make_baseline demo_occurrence demo_rows p cid cver i e enc kms k b" for p cid cver i e enc kms k b
    by (simp add: make_baseline_def) (simp add: demo_rows_def)
  ultimately show ?thesis using assms demo_baseline_valid
    by (simp add: ver_based_def baseline_for_def ver_agree ver_policy ver_sources demo_sources ver_check_evidence
      require_def) (simp add: demo_baseline_def make_baseline_def Let_def)
qed

section \<open>The acknowledged authority\<close>

text \<open>The databases of the run: the tables of the acknowledged execution, a history of the first scan.\<close>

definition ver_state :: "db \<Rightarrow> bool" where
  "ver_state d =
     (ver_based (db_history d) \<and> db_findings d = [demo_finding] \<and> db_proposals d = [demo_proposal] \<and>
      db_decisions d = [demo_decision] \<and> db_executions d = [demo_row] \<and>
      db_events d = db_events demo_acknowledged \<and> db_claims d = db_claims demo_acknowledged \<and>
      (\<exists>as. db_audits d = db_audits demo_acknowledged @ as) \<and> db_verification_guard d)"

definition ver_views :: "event_view list" where
  "ver_views = [demo_view1, demo_view2, demo_view3, demo_view4]"

lemma execution_content_frame:
  assumes "db_proposals d' = db_proposals d" "db_decisions d' = db_decisions d"
  shows "execution_content_of h d' r = execution_content_of h d r"
proof -
  have "proposal_of d' i False = proposal_of d i False" "decisions_of d' i = decisions_of d i" for i
    using assms by (simp_all add: proposal_of_def decisions_of_def split: option.split)
  then show ?thesis by (simp only: execution_content_of_def)
qed

lemma demo_acknowledged_rows:
  "db_proposals demo_acknowledged = [demo_proposal]" "db_decisions demo_acknowledged = [demo_decision]"
  "db_executions demo_acknowledged = [demo_row]" "db_findings demo_acknowledged = [demo_finding]"
  "db_history demo_acknowledged = demo_history"
  using demo_state_acknowledged by (simp_all add: demo_state_def demo_authorized_def demo_based_def)

lemma ver_execution: "ver_state d \<Longrightarrow> execution_content_of demo_sha d demo_row = Inr demo_execution"
  using demo_execution_content [OF demo_authorized_states(4)] execution_content_frame [of d demo_acknowledged demo_sha demo_row]
  by (simp add: ver_state_def demo_acknowledged_rows)

lemma ver_events: "ver_state d \<Longrightarrow> events_of demo_sha d demo_row demo_execution = Inr ver_views"
proof -
  assume d: "ver_state d"
  then obtain as where as: "db_audits d = db_audits demo_acknowledged @ as" by (auto simp: ver_state_def)
  have "events_of demo_sha demo_acknowledged demo_row demo_execution = Inr ver_views"
    using demo_state_acknowledged by (simp add: demo_state_def ver_views_def)
  then show ?thesis
    by (rule events_of_frame [OF _ as]) (use d in \<open>simp_all add: ver_state_def event_rows_of_def claim_of_def\<close>)
qed

lemma ver_kinds:
  "je_kind (ev_content demo_view2) = EK_CLAIMED" "je_kind (ev_content demo_view3) = EK_WRITE_INTENT"
  "je_kind (ev_content demo_view4) = EK_ACKNOWLEDGED" "je_phase (ev_content demo_view4) = PH_ACKNOWLEDGED"
  "je_created_at (ev_content demo_view4) = seconds 80" "je_event_id (ev_content demo_view4) = 80"
  "ev_sha demo_view4 = dig (CHR ''1'')"
  by (simp_all add: demo_view2_def demo_view3_def demo_view4_def demo_claimed_entry_def demo_intent_entry_def
    demo_receipt_entry_def)

lemma ver_acknowledged: "acknowledged ver_views = Inr demo_view4"
  by (simp add: acknowledged_def acknowledgments_def ver_views_def demo_last_phases ver_kinds)

lemma ver_scope: "execution_scope_for ver_services = Some (ver_collectors, ver_types)"
proof -
  have c: "filter (\<lambda>c. c \<noteq> ''access_analyzer_evidence'')
      (filter (\<lambda>c. c \<noteq> ''s3_evidence'') (filter (\<lambda>c. c \<noteq> ''cloudtrail_evidence'') requested_collectors)) =
      ver_collectors"
    by (simp add: requested_collectors_def ver_collectors_def)
  have t: "filter (\<lambda>t. t \<noteq> ''access_analyzer_finding'') (filter (\<lambda>t. t \<noteq> ''kms_key'') scan_resource_types) = ver_types"
    by (simp add: ver_types_def)
  have n: "ver_services \<noteq> requested_services"
    "ver_services \<noteq> [''access-analyzer'', ''cloudtrail'', ''ec2'', ''iam'', ''kms'', ''s3'']"
    "ver_services \<noteq> [''access-analyzer'', ''cloudtrail'', ''ec2'', ''iam'', ''s3'']"
    "ver_services = [''cloudtrail'', ''ec2'', ''iam'', ''s3'']"
    by (simp_all add: ver_services_def requested_services_def)
  show ?thesis
    unfolding execution_scope_for_def Let_def c t using n by (simp only: if_False if_True simp_thms)
qed

definition ver_retained :: retained where
  "ver_retained = \<lparr>rn_row = demo_row, rn_content = demo_execution, rn_ack = demo_view4, rn_scan = ver_scan,
     rn_collectors = ver_collectors, rn_types = ver_types\<rparr>"

lemma ver_baseline_scan: "bl_scan_id demo_baseline = 4"
  by (simp add: demo_baseline_def make_baseline_def demo_rows_def)

lemma ver_original: "ver_based h \<Longrightarrow> original_scan h demo_content = Inr (ver_scan, ver_collectors, ver_types)"
  by (simp add: original_scan_def ver_baseline_scan ver_based_def need_some_def ver_scope conflict_unless_def)
    (simp add: ver_manifest_def)

lemma ver_authority: "ver_state d \<Longrightarrow> authority_history (ver_env n) d 40 = Inr ver_retained"
proof -
  assume d: "ver_state d"
  then have "execution_row_of d 40 = Inr demo_row" "finding_of d 6 = Inr demo_finding"
    by (simp_all add: ver_state_def execution_row_of_def finding_of_def)
  moreover have "find_row oc_id 2 (hs_occurrences (db_history d)) = Some demo_occurrence" "ver_based (db_history d)"
    using d by (simp_all add: ver_state_def ver_based_def)
  ultimately have "retained_history (ver_env n) d 40 = Inr ver_retained"
    using ver_execution [OF d] ver_events [OF d]
    by (simp add: retained_history_def ver_acknowledged need_some_def conflict_unless_def ver_baseline ver_original
      ver_retained_def)
  then show ?thesis by (simp add: authority_history_def shield_def)
qed

section \<open>The request\<close>

definition ver_content :: verification_content where
  "ver_content = new_verification 90 91 40 ver_retained 0 cleo 12 ''check'' (seconds 90)"

definition ver_started :: audit_row where
  "ver_started = \<lparr>au_id = 92, au_type = AT_SCAN_STARTED, au_actor_type = ActorHuman, au_actor_id = dig (CHR ''c''),
     au_target_type = TargetScan, au_target_id = 91, au_time = seconds 90,
     au_metadata = start_metadata ver_content (dig (CHR ''8''))\<rparr>"

definition ver_requested :: audit_row where
  "ver_requested = \<lparr>au_id = 93, au_type = AT_REMEDIATION_VERIFICATION_REQUESTED, au_actor_type = ActorHuman,
     au_actor_id = dig (CHR ''c''), au_target_type = TargetVerification, au_target_id = 90, au_time = seconds 90,
     au_metadata = request_metadata ver_content (dig (CHR ''8''))\<rparr>"

definition ver_row :: verification_row where
  "ver_row = verification_row_for (ver_env 9) ver_content cleo (dig (CHR ''8'')) ver_requested"

definition ver_pending :: db where
  "ver_pending = ver_start\<lparr>
     db_history := ver_history\<lparr>hs_scans := [ver_scan, pending_scan ver_content ''1'']\<rparr>,
     db_audits := db_audits demo_acknowledged @ [ver_started, ver_requested],
     db_verifications := [ver_row]\<rparr>"

definition ver_request :: "db \<Rightarrow> (failure + admitted) \<times> db" where
  "ver_request = commit_request (request_body (ver_env 9)
     \<lparr>as_enabled = True, as_account_id = Some demo_account, as_region = Some demo_region\<rparr> True ''1'' 40 ''check''
     cleo 12 (dig (CHR ''8'')))"

lemma ver_state_start: "ver_state ver_start"
  by (simp add: ver_state_def ver_start_def ver_based_start demo_acknowledged_rows)
    (simp add: demo_acknowledged_def demo_intended_def demo_read_def demo_claimed_def demo_admitted_def demo_approved_def
      demo_proposed_def demo_start_def add_entry_def)

lemma ver_content_simps [simp]:
  "vc_verification_id ver_content = 90" "vc_scan_id ver_content = 91" "vc_execution_id ver_content = 40"
  "vc_execution_sha ver_content = dig (CHR ''f'')" "vc_ack_event_id ver_content = 80"
  "vc_ack_sha ver_content = dig (CHR ''1'')" "vc_acknowledged_at ver_content = seconds 80"
  "vc_baseline_scan_id ver_content = 4" "vc_attempt ver_content = 1" "vc_account ver_content = demo_account"
  "vc_region ver_content = demo_region" "vc_services ver_content = ver_services"
  "vc_collectors ver_content = ver_collectors" "vc_types ver_content = ver_types" "vc_profile_id ver_content = ''p''"
  "vc_profile_version ver_content = ''1''" "vc_profile_sha ver_content = hex64" "vc_catalog_id ver_content = ''c''"
  "vc_catalog_version ver_content = ''1''" "vc_catalog_sha ver_content = hex64" "vc_requested_by ver_content = cleo"
  "vc_key ver_content = 12" "vc_reason ver_content = ''check''" "vc_created_at ver_content = seconds 90"
proof -
  have "bl_catalog_sha demo_baseline = hex64" by (simp add: demo_baseline_def make_baseline_def demo_rows_def)
  then show "vc_catalog_sha ver_content = hex64"
    by (simp add: ver_content_def new_verification_def Let_def ver_retained_def)
qed (simp_all add: ver_content_def new_verification_def Let_def ver_retained_def ver_kinds)

lemma ver_reason: "validate_reason ''check'' = Some ''check''"
  by (simp add: validate_reason_def strip_ws_def is_ws_def)

lemma ver_make: "make_verification_content ver_content = Some ver_content"
proof -
  have "account_pattern demo_account" "1 \<le> length demo_region" "length demo_region \<le> 64"
    by (simp_all add: demo_account_def demo_region_def account_pattern_def is_digit_def)
  moreover have "ver_content\<lparr>vc_reason := ''check''\<rparr> = ver_content"
    by (simp add: ver_content_def new_verification_def Let_def)
  ultimately show ?thesis
    by (simp add: make_verification_content_def ver_reason is_hex_def valid_actor_def max_verification_attempts_def)
qed

lemma ver_start_rows:
  "db_verifications ver_start = []" "db_receipts ver_start = []" "db_verification_guard ver_start"
  "db_history ver_start = ver_history" "db_audits ver_start = db_audits demo_acknowledged"
  by (simp_all add: ver_start_def demo_acknowledged_def demo_intended_def demo_read_def demo_claimed_def
      demo_admitted_def demo_approved_def demo_proposed_def demo_start_def add_entry_def)

lemma ver_audit_keys: "au_id ` set (db_audits demo_acknowledged) = {21, 31, 42, 52, 71, 81}"
  by (simp add: demo_acknowledged_def demo_intended_def demo_read_def demo_claimed_def demo_admitted_facts
      demo_approved_facts demo_audit_def audit_for_def)

lemma ver_insert_scan:
  "insert_scan (pending_scan ver_content ''1'') \<lparr>wk_db = ver_start, wk_ticks = t, wk_ids = u\<rparr> =
     Inr ((), \<lparr>wk_db = ver_start\<lparr>db_history := ver_history\<lparr>hs_scans := [ver_scan, pending_scan ver_content ''1'']\<rparr>\<rparr>,
       wk_ticks = t, wk_ids = u\<rparr>)"
  by (simp add: insert_scan_def act_defs new_key_def ver_start_rows set_history_def ver_history_def)
    (simp add: pending_scan_def scan_ok_def ver_start_def)

lemma ver_store:
  "store_verification (ver_env 9) ''1'' ver_content cleo (dig (CHR ''8''))
     \<lparr>wk_db = ver_start, wk_ticks = t, wk_ids = 2\<rparr> = Inr ((), \<lparr>wk_db = ver_pending, wk_ticks = t, wk_ids = 4\<rparr>)"
proof -
  have v: "demo_sha (VerificationDoc ver_content) = dig (CHR ''8'')" by (simp add: demo_sha_def)
  have k: "\<forall>r\<in>set (db_audits demo_acknowledged). au_id r \<noteq> 92" "\<forall>r\<in>set (db_audits demo_acknowledged). au_id r \<noteq> 93"
    using ver_audit_keys by (force dest: arg_cong [of _ _ "\<lambda>S. 92 \<in> S"], force dest: arg_cong [of _ _ "\<lambda>S. 93 \<in> S"])
  let ?d = "ver_start\<lparr>db_history := ver_history\<lparr>hs_scans := [ver_scan, pending_scan ver_content ''1'']\<rparr>,
    db_audits := db_audits demo_acknowledged @ [ver_started, ver_requested]\<rparr>"
  have u: "au_id ver_started = 92" by (simp add: ver_started_def)
  have i: "insert_verification ver_row \<lparr>wk_db = ?d, wk_ticks = t, wk_ids = 4\<rparr> =
      Inr ((), \<lparr>wk_db = ver_pending, wk_ticks = t, wk_ids = 4\<rparr>)"
    by (simp add: insert_verification_def act_defs new_key_def ver_row_def verification_row_for_def identity_sha_def
        ver_start_rows v)
      (simp add: ver_pending_def ver_row_def verification_row_for_def identity_sha_def v)
  show ?thesis
    using i u
    by (simp add: store_verification_def Let_def bnd_def ver_insert_scan v identity_sha_def
        append_audit_event_def insert_audit_def act_defs k ver_start_rows new_key_def
        ver_started_def [symmetric] ver_requested_def [symmetric] ver_row_def [symmetric])
qed

lemma ver_request_run: "ver_request ver_start = (Inr (NewVerification ver_content), ver_pending)"
proof -
  let ?w = "\<lambda>t u. \<lparr>wk_db = ver_start, wk_ticks = t, wk_ids = u\<rparr>"
  have n: "new_verification 90 91 40 ver_retained 0 cleo 12 ''check'' (seconds 90) = ver_content"
    by (simp add: ver_content_def)
  have "check_prior (ver_env 9) ver_start 40 = Inr 0"
    by (simp add: check_prior_def prior_rows_def ver_start_rows max_verification_attempts_def)
  moreover have "replay_verification (ver_env 9) ver_start cleo 12 (dig (CHR ''8'')) = Inr None"
    by (simp add: replay_verification_def ver_start_rows)
  moreover have "rn_content ver_retained = demo_execution" "rn_ack ver_retained = demo_view4" "seconds 80 \<le> seconds 90"
    by (simp_all add: ver_retained_def seconds_def)
  ultimately show ?thesis
    using ver_authority [OF ver_state_start, of 9] ver_store [of 1]
    by (simp add: ver_request_def commit_request_def transact_def request_body_def act_defs initial_work_def
      ver_start_rows ver_kinds n ver_make numeral_2_eq_2)
qed

section \<open>The verified scan\<close>

definition ver_artifact :: "uuid \<Rightarrow> string \<Rightarrow> (string \<times> json) list \<Rightarrow> graph_artifact" where
  "ver_artifact u ref kvs = (demo_artifact u ref kvs)\<lparr>ga_scan_id := 91, ga_collected_at := seconds 94\<rparr>"

definition ver_outcome :: "uuid \<Rightarrow> string \<Rightarrow> string \<Rightarrow> source_state \<Rightarrow> string \<Rightarrow> source_outcome" where
  "ver_outcome u kind api st ref = (demo_outcome u kind api st ref)\<lparr>so_scan_id := 91, so_collected_at := seconds 94\<rparr>"

definition ver_graph :: evidence_graph where
  "ver_graph = \<lparr>eg_scan_id = 91, eg_account = demo_account, eg_collected_at = seconds 94, eg_sources = [],
     eg_artifacts =
       [ver_artifact 102 ''a'' [(''ebs_encryption_by_default'', JBool True)],
        ver_artifact 103 ''b'' [(''default_kms_key_id'', JNull), (''expected_absence'', JBool True)]],
     eg_outcomes =
       [ver_outcome 100 ''ec2.ebs-encryption-default'' ''ec2:GetEbsEncryptionByDefault'' ST_PRESENT ''a'',
        ver_outcome 101 ''ec2.ebs-default-kms-key'' ''ec2:GetEbsDefaultKmsKeyId'' ST_EXPECTED_ABSENCE ''b''],
     eg_relationships = []\<rparr>"

definition ver_snapshot :: snapshot_row where
  "ver_snapshot = (br_snapshot demo_rows)\<lparr>sn_id := 11, sn_scan_id := 91, sn_observed_at := seconds 94\<rparr>"

definition ver_assessment :: assessment_row where
  "ver_assessment = (br_assessment demo_rows)\<lparr>ca_id := 11, ca_scan_id := 91, ca_snapshot_id := 11, ca_result := PASS\<rparr>"

definition ver_evidence_row :: evidence_row where
  "ver_evidence_row = demo_evidence\<lparr>er_id := 11, er_assessment_id := 11, er_collected_at := seconds 94\<rparr>"

definition ver_completed :: scan_row where
  "ver_completed = (pending_scan ver_content ''1'')\<lparr>sc_status := SC_COMPLETED, sc_account := Some demo_account,
     sc_inventory_sha := Some hex64, sc_successful_regions := [demo_region], sc_successful_collectors := ver_collectors,
     sc_completed_at := Some (seconds 95), sc_result_sha := Some hex64, sc_manifest := Some ver_manifest\<rparr>"

definition ver_later :: history where
  "ver_later = ver_history\<lparr>hs_scans := [ver_scan, ver_completed],
     hs_snapshots := [br_snapshot demo_rows, ver_snapshot],
     hs_assessments := [br_assessment demo_rows, ver_assessment],
     hs_evidence := [demo_evidence, ver_evidence_row],
     hs_load_graph := (\<lambda>i. if i = 4 then Some demo_graph else Some ver_graph)\<rparr>"

definition ver_encryption :: source_binding where
  "ver_encryption = \<lparr>sb_outcome_id = 100, sb_artifact_id = 102, sb_reference = ''a'', sb_sha = hex64\<rparr>"

definition ver_kms :: source_binding where
  "ver_kms = \<lparr>sb_outcome_id = 101, sb_artifact_id = 103, sb_reference = ''b'', sb_sha = hex64\<rparr>"

definition ver_proof :: verification_evidence where
  "ver_proof = make_evidence (br_resource demo_rows) ver_snapshot 11 ver_assessment (br_version demo_rows)
     ver_evidence_row ver_encryption ver_kms"

definition ver_receipt :: verification_receipt where
  "ver_receipt = \<lparr>vr_verification_id = 90, vr_verification_sha = dig (CHR ''8''), vr_scan_id = 91,
     vr_scan_status = SC_COMPLETED, vr_result_sha = hex64, vr_inventory_sha = Some hex64, vr_outcome = VERIFIED,
     vr_reason = VR_POSTCONDITION_PASS, vr_evidence = Some ver_proof, vr_created_at = seconds 95\<rparr>"

definition ver_sealed :: audit_row where
  "ver_sealed = \<lparr>au_id = 110, au_type = AT_REMEDIATION_VERIFICATION_COMPLETED, au_actor_type = ActorSystem,
     au_actor_id = scan_executor_actor, au_target_type = TargetVerification, au_target_id = 90, au_time = seconds 95,
     au_metadata = receipt_metadata ver_receipt (dig (CHR ''8''))\<rparr>"

definition ver_receipt_row :: receipt_row where
  "ver_receipt_row = \<lparr>rt_verification_id = 90, rt_audit_id = 110, rt_outcome = VERIFIED,
     rt_content = ReceiptDoc ver_receipt, rt_sha = dig (CHR ''8''), rt_created_at = seconds 95\<rparr>"

definition ver_verified :: db where
  "ver_verified = ver_pending\<lparr>db_history := ver_later,
     db_audits := db_audits demo_acknowledged @ [ver_started, ver_requested, ver_sealed],
     db_receipts := [ver_receipt_row]\<rparr>"

lemma ver_based_later: "ver_based ver_later"
proof -
  have "filter (\<lambda>e. er_assessment_id e = 3) [demo_evidence, ver_evidence_row] = [demo_evidence]"
    by (simp add: demo_evidence_def ver_evidence_row_def)
  moreover have "load_rows ver_later demo_occurrence = Some ver_rows"
    by (simp add: load_rows_def ver_later_def ver_history_def demo_history_def ver_rows_def)
      (simp add: demo_rows_def demo_occurrence_def)
  ultimately show ?thesis
    by (simp add: ver_based_def ver_later_def ver_history_def) (simp add: demo_history_def)
qed

lemma ver_state_verified: "ver_state ver_verified"
  using ver_state_start by (simp add: ver_state_def ver_verified_def ver_pending_def ver_based_later ver_start_rows)

lemma ver_completed_simps [simp]:
  "sc_id ver_completed = 91" "sc_status ver_completed = SC_COMPLETED" "sc_account ver_completed = Some demo_account"
  "sc_requested_regions ver_completed = [demo_region]" "sc_successful_regions ver_completed = [demo_region]"
  "sc_requested_services ver_completed = ver_services" "sc_manifest ver_completed = Some ver_manifest"
  "sc_inventory_sha ver_completed = Some hex64" "sc_result_sha ver_completed = Some hex64"
  "sc_started_at ver_completed = seconds 90" "sc_completed_at ver_completed = Some (seconds 95)"
  "sc_profile_id ver_completed = ''p''" "sc_profile_version ver_completed = ''1''" "sc_profile_sha ver_completed = hex64"
  "sc_catalog_id ver_completed = ''c''" "sc_catalog_version ver_completed = ''1''"
  by (simp_all add: ver_completed_def pending_scan_def)

lemma ver_later_rows:
  "find_row sn_id 11 (hs_snapshots ver_later) = Some ver_snapshot"
  "find_row ca_id 11 (hs_assessments ver_later) = Some ver_assessment"
  "find_row rs_id 10 (hs_resources ver_later) = Some (br_resource demo_rows)"
  "find_row cv_id 21 (hs_versions ver_later) = Some (br_version demo_rows)"
  "find_row pf_row_id 22 (hs_profiles ver_later) = Some \<lparr>pf_row_id = 22, pf_id = ''p'', pf_version = ''1'', pf_sha = hex64\<rparr>"
  "find_row sc_id 91 (hs_scans ver_later) = Some ver_completed"
  "hs_load_graph ver_later 91 = Some ver_graph"
  "filter (\<lambda>e. er_assessment_id e = 11) (hs_evidence ver_later) = [ver_evidence_row]"
  by (simp_all add: ver_later_def ver_history_def demo_history_def)
    (simp_all add: ver_snapshot_def demo_rows_def ver_assessment_def demo_evidence_def ver_evidence_row_def)

lemma ver_proof_sources:
  "proof_source ver_graph demo_content ver_snapshot ''ec2.ebs-encryption-default'' ''ec2:GetEbsEncryptionByDefault'' =
     Some (hd (eg_outcomes ver_graph), ga_payload (hd (eg_artifacts ver_graph)), ver_encryption)"
  "proof_source ver_graph demo_content ver_snapshot ''ec2.ebs-default-kms-key'' ''ec2:GetEbsDefaultKmsKeyId'' =
     Some (eg_outcomes ver_graph ! 1, ga_payload (eg_artifacts ver_graph ! 1), ver_kms)"
  by (simp_all add: proof_source_def proof_source_matches_def ver_graph_def ver_outcome_def ver_artifact_def
    demo_outcome_def demo_artifact_def the_only_def require_def obj_get_def ver_snapshot_def ver_encryption_def ver_kms_def)

lemma ver_scan_proved: "proof_scan_ok ver_completed ver_content demo_content"
  by (simp add: proof_scan_ok_def) (simp add: ver_manifest_def list_all_iff image_image)

lemma ver_target_proved: "proof_target_ok (ver_env n) ver_completed demo_content (br_resource demo_rows) ver_snapshot"
  by (simp add: proof_target_ok_def ver_snapshot_ids)
    (simp add: demo_rows_def ver_snapshot_def seconds_def)

lemma ver_assessment_proved:
  "proof_assessment_ok demo_content (br_resource demo_rows) 11 ver_assessment (br_version demo_rows)"
  by (simp add: proof_assessment_ok_def ver_assessment_def) (simp add: demo_rows_def demo_baseline_def make_baseline_def)

lemma ver_record:
  "proof_record (ver_env n) ver_later ver_completed demo_content ver_snapshot ver_assessment payload = Some ver_evidence_row"
proof -
  have i: "evidence_id (ver_env n) x = 11" if "ar_scan_id x = 91" for x
    using that by (simp add: evidence_id_def build_evidence_id_def ver_env_def ver_take evidence_namespace_def
      resource_namespace_def del: join_with.simps)
  have ver_ids: "sc_id ver_completed = 91" "ca_id ver_assessment = 11" by (simp_all add: ver_assessment_def)
  have j: "json_digest (ver_env n) p = dig (CHR ''8'')" for p by (simp add: json_digest_def)
  have c: "trim_text ''EC2-004'' = ''EC2-004''" "control_pattern ''EC2-004''" "trim_text (dig (CHR ''8'')) = dig (CHR ''8'')"
    "trim_text ''ec2:GetEbsEncryptionByDefault'' = ''ec2:GetEbsEncryptionByDefault''"
    "trim_text ''control.ec2-004.evidence'' = ''control.ec2-004.evidence''" "trim_text ''ec2'' = ''ec2''"
    "trim_text ''normalized-inventory'' = ''normalized-inventory''" "trim_text ''aws_account'' = ''aws_account''"
    "trim_text ''ec2.ebs-defaults'' = ''ec2.ebs-defaults''" "trim_text ''1.0.0'' = ''1.0.0''" "trim_text ''primary'' = ''primary''"
    by code_simp+
  have t: "trim_text demo_account = demo_account" "trim_text demo_region = demo_region" "demo_account \<noteq> []" "demo_region \<noteq> []"
    using demo_texts by (simp_all add: plain_text_def)
  have a: "sn_arn ver_snapshot = None" by (simp add: ver_snapshot_def demo_rows_def)
  let ?x = "proof_artifact ver_completed demo_content ver_snapshot 11 payload"
  have "for_assessment (ver_env n) ?x = Some (?x\<lparr>ar_sha := dig (CHR ''8''), ar_id := 11\<rparr>)"
    by (simp add: for_assessment_def make_artifact_def Let_def j i)
      (simp add: proof_artifact_def strip_artifact_def artifact_ok_def j i c t a
        scope_region_ok_def is_hex_def)
  then show ?thesis
    using ver_later_rows(8)
    by (simp add: proof_record_def proof_snapshot_id_def ver_snapshot_ids ver_ids require_def proof_record_ok_def the_only_def)
      (simp add: proof_artifact_def ver_evidence_row_def demo_evidence_def ver_snapshot_def del: canon.simps)
qed

lemma ver_proof_run:
  "verification_proof (ver_env n) ver_later ver_completed ver_content demo_content = Some (ver_proof, None, True)"
proof -
  have p: "proof_enabled (hd (eg_outcomes ver_graph)) (ga_payload (hd (eg_artifacts ver_graph))) ver_assessment = Some True"
    by (simp add: proof_enabled_def ver_graph_def ver_outcome_def ver_artifact_def demo_outcome_def demo_artifact_def
      obj_get_def ver_assessment_def)
  have k: "kms_context (eg_outcomes ver_graph ! 1) (ga_payload (eg_artifacts ver_graph ! 1)) = Some (None, True)"
    by (simp add: kms_context_def ver_graph_def ver_outcome_def ver_artifact_def demo_outcome_def demo_artifact_def obj_get_def)
  have v: "valid_verification_evidence ver_proof"
    by (simp add: valid_verification_evidence_def ver_proof_def make_evidence_def ver_assessment_def ver_encryption_def
      ver_kms_def is_hex_def)
      (simp add: ver_snapshot_def demo_rows_def ver_evidence_row_def demo_evidence_def is_hex_def)
  have g: "eg_account ver_graph = demo_account" "ca_profile_row_id ver_assessment = 22"
    "bl_control_version_id demo_baseline = 21"
    by (simp_all add: ver_graph_def ver_assessment_def demo_rows_def demo_baseline_def make_baseline_def)
  have e: "make_evidence (br_resource demo_rows) ver_snapshot 11 ver_assessment (br_version demo_rows) ver_evidence_row
      ver_encryption ver_kms = ver_proof"
    by (simp add: ver_proof_def)
  have s: "proof_snapshot_id (ver_env n) ver_completed demo_content = 11"
    by (simp add: proof_snapshot_id_def ver_snapshot_ids)
  show ?thesis
    by (simp add: verification_proof_def s ver_scan_proved ver_target_proved ver_later_rows ver_snapshot_ids
      ver_assessment_proved ver_proof_sources p k [simplified] v g ver_record require_def Let_def e)
qed

lemma ver_postcondition:
  "postcondition_for (ver_env n) ver_later ver_completed ver_content demo_content =
     (VERIFIED, VR_POSTCONDITION_PASS, Some ver_proof)"
proof -
  have "ve_observed_at ver_proof = seconds 94" "ve_result ver_proof = PASS" "seconds 80 < seconds 94" "0 < seconds 94"
    by (simp_all add: ver_proof_def make_evidence_def ver_snapshot_def ver_assessment_def seconds_def)
  then show ?thesis by (simp add: postcondition_for_def ver_proof_run)
qed

section \<open>Reading it back\<close>

definition ver_view :: verification_view where
  "ver_view = \<lparr>vv_content = ver_content, vv_sha = dig (CHR ''8''), vv_request_audit_id = 93,
     vv_receipt = Some ver_receipt, vv_receipt_sha = Some (dig (CHR ''8'')), vv_receipt_audit_id = Some 110\<rparr>"

lemma ver_docs: "demo_sha (VerificationDoc c) = dig (CHR ''8'')" "demo_sha (ReceiptDoc r) = dig (CHR ''8'')"
  "demo_sha (VerifyRequestDoc u t) = dig (CHR ''8'')"
  by (simp_all add: demo_sha_def)

lemma ver_row_simps [simp]:
  "vf_id ver_row = 90" "vf_execution_id ver_row = 40" "vf_ack_event_id ver_row = 80" "vf_scan_id ver_row = 91"
  "vf_audit_id ver_row = 93" "vf_attempt ver_row = 1" "vf_identity_sha ver_row = dig (CHR ''c'')"
  "vf_actor_issuer ver_row = ''idp''" "vf_actor_subject ver_row = ''cleo''" "vf_key ver_row = 12"
  "vf_request_sha ver_row = dig (CHR ''8'')" "vf_content ver_row = VerificationDoc ver_content"
  "vf_sha ver_row = dig (CHR ''8'')" "vf_created_at ver_row = seconds 90"
  by (simp_all add: ver_row_def verification_row_for_def identity_sha_def ver_docs ver_requested_def)

lemma ver_bound:
  "binds_row (ver_env n) ver_content ver_row" "binds_retained ver_content ver_row ver_retained"
  "binds_scan ver_content ver_completed"
proof -
  have "CAP_EXECUTE \<in> capabilities_for (stored_principal cleo)"
    by (simp add: stored_principal_def capabilities_for_def role_of_name_def)
  then show "binds_row (ver_env n) ver_content ver_row"
    by (simp add: binds_row_def Let_def ver_docs identity_sha_def validate_verification_request_def ver_reason seconds_def)
  have "bl_catalog_sha demo_baseline = hex64" by (simp add: demo_baseline_def make_baseline_def demo_rows_def)
  then show "binds_retained ver_content ver_row ver_retained"
    by (simp add: binds_retained_def ver_retained_def Let_def ver_kinds)
  show "binds_scan ver_content ver_completed"
    by (simp add: binds_scan_def)
qed

lemma ver_audit_bound: "binds_audit (ver_env n) ver_verified ver_content ver_row"
proof -
  have a: "au_id ` set (db_audits demo_acknowledged) = {21, 31, 42, 52, 71, 81}" by (rule ver_audit_keys)
  then have "find_row au_id 93 (db_audits demo_acknowledged) = None" by (simp add: find_row_None_iff)
  then have "find_row au_id 93 (db_audits ver_verified) = Some ver_requested"
    by (simp add: ver_verified_def find_row_append) (simp add: ver_started_def ver_requested_def)
  moreover have "filter (\<lambda>a. au_target_type a = TargetScan \<and> au_target_id a = 91 \<and> au_type a = AT_SCAN_STARTED)
      (db_audits demo_acknowledged) = []"
    by (simp add: demo_acknowledged_def demo_intended_def demo_read_def demo_claimed_def demo_admitted_facts
      demo_approved_facts demo_audit_def audit_for_def)
  then have "scan_starts ver_verified 91 = [ver_started]"
    by (simp add: scan_starts_def ver_verified_def) (simp add: ver_started_def ver_requested_def ver_sealed_def)
  ultimately show ?thesis
    by (simp add: binds_audit_def Let_def identity_sha_def) (simp add: ver_started_def ver_requested_def)
qed

lemma ver_receipt_run:
  "receipt_of (ver_env n) ver_verified ver_row ver_content demo_content ver_completed =
     Inr (Some (ver_receipt, dig (CHR ''8''), 110))"
proof -
  have v: "valid_verification_receipt ver_receipt"
  proof -
    have "valid_verification_evidence ver_proof" using verification_proof_proven(3) [OF ver_proof_run] .
    then show ?thesis by (simp add: valid_verification_receipt_def ver_receipt_def is_hex_def)
  qed
  have b: "build_receipt (ver_env n) ver_later ver_row ver_content demo_content ver_completed = Inr ver_receipt"
    using v by (simp add: build_receipt_def ver_postcondition Let_def ver_receipt_def)
  have r: "find_row rt_verification_id 90 (db_receipts ver_verified) = Some ver_receipt_row" "db_history ver_verified = ver_later"
    by (simp_all add: ver_verified_def ver_receipt_row_def)
  have "find_row au_id 110 (db_audits demo_acknowledged) = None" using ver_audit_keys by (simp add: find_row_None_iff)
  then have a: "find_row au_id 110 (db_audits ver_verified) = Some ver_sealed"
    by (simp add: ver_verified_def find_row_append) (simp add: ver_started_def ver_requested_def ver_sealed_def)
  have "binds_receipt (ver_env n) ver_verified ver_row ver_receipt_row ver_receipt"
    using a by (simp add: binds_receipt_def ver_receipt_row_def ver_docs) (simp add: ver_sealed_def ver_receipt_def)
  then show ?thesis
    by (simp add: receipt_of_def r b need_some_def conflict_unless_def shield_def) (simp add: ver_receipt_row_def v)
qed

lemma ver_reader: "actor_of analyst CAP_READ = Inr (human ''ann'' ''ANALYST'' CAP_READ)"
  by (simp add: actor_of_def capabilities_for_def role_of_name_def human_def analyst_def)

lemma ver_view_run: "get_verification (ver_env 12) 90 analyst ver_verified = Inr ver_view"
proof -
  have r: "find_row vf_id 90 (db_verifications ver_verified) = Some ver_row" "db_verification_guard ver_verified"
    "db_history ver_verified = ver_later" "rn_content ver_retained = demo_execution"
    by (simp_all add: ver_verified_def ver_pending_def ver_start_rows ver_retained_def)
  have "verification_content_of (ver_env 12) ver_verified ver_row = Inr (ver_content, demo_content, ver_completed)"
    using ver_authority [OF ver_state_verified, of 12]
    by (simp add: verification_content_of_def ver_make need_some_def r ver_later_rows conflict_unless_def ver_bound
      ver_audit_bound)
  then show ?thesis
    by (simp add: get_verification_def ver_reader r verification_row_of_def verification_view_of_def ver_receipt_run
      ver_view_def valid_verification_view_def Let_def is_hex_def)
qed

end
