(* ===== verification/Verification_Rejection.thy ===== *)
theory Verification_Rejection
  imports Verification_Scenario
begin

text \<open>
  A request whose scan the executor rejects: the attempt is committed before it is submitted, so the
  rejection is recorded in a transaction of its own that fails the scan and seals the attempt. What
  that transaction does, and the scenario's request with an executor that rejects it.
\<close>

section \<open>What a request has linked\<close>

lemma store_verification_links:
  assumes "store_verification env version c a digest w = Inr ((), w')"
  shows "filter (\<lambda>a. marks_verification (au_metadata a)) (scan_starts (wk_db w') (vc_scan_id c)) \<noteq> []"
    "find_row sc_id (vc_scan_id c) (hs_scans (db_history (wk_db w'))) = Some (pending_scan c version)"
    "\<exists>audit. find_row vf_scan_id (vc_scan_id c) (db_verifications (wk_db w')) = Some (verification_row_for env c a digest audit) \<and>
      db_verifications (wk_db w') = db_verifications (wk_db w) @ [verification_row_for env c a digest audit]"
    "db_receipts (wk_db w') = db_receipts (wk_db w)"
proof -
  let ?who = "identity_sha (sha env) a" and ?vsha = "sha env (VerificationDoc c)"
  obtain w1 w2 w3 started requested where
    s: "insert_scan (pending_scan c version) w = Inr ((), w1)"
    and a1: "append_audit_event env AT_SCAN_STARTED TargetScan (vc_scan_id c) (vc_created_at c) ActorHuman ?who
      (start_metadata c ?vsha) w1 = Inr (started, w2)"
    and a2: "append_audit_event env AT_REMEDIATION_VERIFICATION_REQUESTED TargetVerification (vc_verification_id c)
      (vc_created_at c) ActorHuman ?who (request_metadata c ?vsha) w2 = Inr (requested, w3)"
    and v: "insert_verification (verification_row_for env c a digest requested) w3 = Inr ((), w')"
    using assms by (auto simp: store_verification_def Let_def bnd_Inr_iff)
  let ?row = "verification_row_for env c a digest requested"
  have row: "vf_scan_id ?row = vc_scan_id c" by (simp add: verification_row_for_def)
  have w': "wk_db w' = (wk_db w3)\<lparr>db_verifications := db_verifications (wk_db w3) @ [?row]\<rparr>"
    "vc_scan_id c \<notin> vf_scan_id ` set (db_verifications (wk_db w3))"
    using v by (auto simp: insert_verification_def bnd_Inr_iff new_key_def row)
  note e = insert_scan_Inr [OF s] append_audit_Inr [OF a1] append_audit_Inr [OF a2]
  have "au_metadata started = start_metadata c ?vsha" using e(2) by simp
  then have "marks_verification (au_metadata started)" by (simp add: marks_verification_def start_metadata_def)
  moreover have "started \<in> set (scan_starts (wk_db w') (vc_scan_id c))"
    using e w'(1) by (simp add: scan_starts_def)
  ultimately show "filter (\<lambda>a. marks_verification (au_metadata a)) (scan_starts (wk_db w') (vc_scan_id c)) \<noteq> []"
    by (auto simp: filter_empty_conv)
  have sid: "sc_id (pending_scan c version) = vc_scan_id c" by (simp add: pending_scan_def)
  have "find_row sc_id (vc_scan_id c) (hs_scans (db_history (wk_db w))) = None"
    using e(1) by (simp add: find_row_None_iff sid)
  then show "find_row sc_id (vc_scan_id c) (hs_scans (db_history (wk_db w'))) = Some (pending_scan c version)"
    using e w'(1) by (simp add: find_row_append sid)
  have "find_row vf_scan_id (vc_scan_id c) (db_verifications (wk_db w')) = Some ?row"
    using w' by (simp add: find_row_append row find_row_None_iff [symmetric])
  then show "\<exists>audit. find_row vf_scan_id (vc_scan_id c) (db_verifications (wk_db w')) = Some (verification_row_for env c a digest audit) \<and>
      db_verifications (wk_db w') = db_verifications (wk_db w) @ [verification_row_for env c a digest audit]"
    using e w'(1) by (intro exI [of _ requested] conjI) simp_all
  show "db_receipts (wk_db w') = db_receipts (wk_db w)" using e w'(1) by simp
qed

section \<open>What the failure of a scan records\<close>

lemma build_receipt_inconclusive:
  assumes "build_receipt env h row c p s = Inr r" "sc_status s \<noteq> SC_COMPLETED"
  shows "vr_outcome r = INCONCLUSIVE"
  using assms by (auto simp: build_receipt_def postcondition_for_def Let_def split: scan_status.splits option.splits if_splits)

lemma fail_pending_running:
  assumes "fail_pending_scan env sid t code message aty actor w = Inr ((), w')"
    "find_row sc_id sid (hs_scans (db_history (wk_db w))) = Some s" "sc_status s = SC_RUNNING"
  shows "\<exists>s'. find_row sc_id sid (hs_scans (db_history (wk_db w'))) = Some s' \<and> sc_status s' = SC_FAILED"
  using assms
  by (auto simp: fail_pending_scan_def bnd_Inr_iff set_scan_def set_history_def find_row_modify dest!: append_audit_Inr)

lemma seal_receipt_failed:
  assumes "seal_receipt env (Some (row, c, p)) w = Inr ((), w')"
    "find_row sc_id (vf_scan_id row) (hs_scans (db_history (wk_db w))) = Some s" "sc_status s = SC_FAILED"
  shows "db_history (wk_db w') = db_history (wk_db w) \<and>
    (\<exists>rt. find_row rt_verification_id (vf_id row) (db_receipts (wk_db w')) = Some rt \<and> rt_outcome rt = INCONCLUSIVE)"
proof (cases "find_row rt_verification_id (vf_id row) (db_receipts (wk_db w))")
  case None
  obtain r where r: "build_receipt env (db_history (wk_db w)) row c p s = Inr r" "write_receipt env row r w = Inr ((), w')"
    using assms(1,2) None by (auto simp: seal_receipt_def bnd_Inr_iff need_some_def)
  then have "vr_outcome r = INCONCLUSIVE" using build_receipt_inconclusive assms(3) by fastforce
  then show ?thesis using r(2) None
    by (auto simp: write_receipt_def insert_receipt_def Let_def bnd_Inr_iff find_row_append dest!: append_audit_Inr)
next
  case (Some rt)
  obtain rc where rc: "receipt_of env (wk_db w) row c p s = Inr rc" "w' = w"
    using assms(1,2) Some by (auto simp: seal_receipt_def bnd_Inr_iff need_some_def)
  obtain r where r: "build_receipt env (db_history (wk_db w)) row c p s = Inr r" "binds_receipt env (wk_db w) row rt r"
    using rc(1) Some by (auto simp: receipt_of_def res_bind_Inr_iff shield_def conflict_unless_def need_some_def
        split: sum.splits failure.splits option.splits if_splits)
  have "vr_outcome r = INCONCLUSIVE" using build_receipt_inconclusive [OF r(1)] assms(3) by simp
  then show ?thesis using r(2) Some rc(2) by (simp add: binds_receipt_def)
qed

text \<open>The failure of a scan that a verification started, when its transaction commits.\<close>

lemma fail_linked_seals:
  assumes "transact (fail_linked_scan env sid t code message aty actor) d = (Inr u, d')"
    "filter (\<lambda>a. marks_verification (au_metadata a)) (scan_starts d sid) \<noteq> []"
    "find_row sc_id sid (hs_scans (db_history d)) = Some s" "sc_status s = SC_RUNNING"
    "find_row vf_scan_id sid (db_verifications d) = Some row"
  shows "(\<exists>s'. find_row sc_id sid (hs_scans (db_history d')) = Some s' \<and> sc_status s' = SC_FAILED) \<and>
    (\<exists>rt. find_row rt_verification_id (vf_id row) (db_receipts d') = Some rt \<and> rt_outcome rt = INCONCLUSIVE)"
proof -
  obtain link w w' where w: "load_link env d sid = Inr link"
    "fail_pending_scan env sid t code message aty actor (initial_work d) = Inr ((), w)"
    "seal_receipt env link w = Inr ((), w')" "d' = wk_db w'"
    using assms(1) by (auto simp: transact_Inr fail_linked_scan_def bnd_Inr_iff initial_work_def)
  obtain c p where link: "link = Some (row, c, p)"
    using w(1) assms(2,5) by (auto simp: load_link_def Let_def res_bind_Inr_iff need_some_def split: if_splits)
  have sid: "vf_scan_id row = sid" using find_row_Some [OF assms(5)] by simp
  obtain s' where s': "find_row sc_id sid (hs_scans (db_history (wk_db w))) = Some s'" "sc_status s' = SC_FAILED"
    using fail_pending_running [OF w(2)] assms(3,4) by (auto simp: initial_work_def)
  then show ?thesis
    using seal_receipt_failed [OF w(3) [unfolded link], unfolded sid] w(4) by auto
qed

section \<open>The scenario's request, rejected\<close>

definition rejected_scan :: scan_row where
  "rejected_scan = (pending_scan ver_content ''1'')\<lparr>sc_status := SC_FAILED, sc_completed_at := Some (seconds 100),
     sc_result_sha := Some (dig (CHR ''8''))\<rparr>"

definition rejected_audit :: audit_row where
  "rejected_audit = \<lparr>au_id = 100, au_type = AT_SCAN_FAILED, au_actor_type = ActorSystem, au_actor_id = scan_executor_actor,
     au_target_type = TargetScan, au_target_id = 91, au_time = seconds 100,
     au_metadata = MetaScanFailed ''EXECUTOR_SUBMISSION_FAILED'' ''The configured executor rejected this scan request.''\<rparr>"

definition rejected_receipt :: verification_receipt where
  "rejected_receipt = \<lparr>vr_verification_id = 90, vr_verification_sha = dig (CHR ''8''), vr_scan_id = 91,
     vr_scan_status = SC_FAILED, vr_result_sha = dig (CHR ''8''), vr_inventory_sha = None, vr_outcome = INCONCLUSIVE,
     vr_reason = VR_SCAN_INCOMPLETE, vr_evidence = None, vr_created_at = seconds 100\<rparr>"

definition rejected_db :: db where
  "rejected_db = ver_pending\<lparr>db_history := ver_history\<lparr>hs_scans := [ver_scan, rejected_scan]\<rparr>,
     db_audits := db_audits ver_pending @ [rejected_audit]\<rparr>"

lemma ver_pending_rows:
  "db_verifications ver_pending = [ver_row]" "db_receipts ver_pending = []" "db_verification_guard ver_pending"
  "db_history ver_pending = ver_history\<lparr>hs_scans := [ver_scan, pending_scan ver_content ''1'']\<rparr>"
  "db_audits ver_pending = db_audits demo_acknowledged @ [ver_started, ver_requested]"
  by (simp_all add: ver_pending_def ver_start_rows)

lemma ver_scan_ids: "sc_id ver_scan = 4" "sc_id (pending_scan c v) = vc_scan_id c"
  "sc_status (pending_scan c v) = SC_RUNNING" "sc_started_at (pending_scan c v) = vc_created_at c"
  by (simp_all add: ver_scan_def demo_rows_def pending_scan_def)

lemma ver_state_pending: "ver_state ver_pending"
proof -
  have "oc_scan_id demo_occurrence = 4" by (simp add: demo_occurrence_def)
  then have "load_rows (db_history ver_pending) demo_occurrence = load_rows ver_history demo_occurrence"
    by (simp add: ver_pending_rows load_rows_def ver_scan_ids ver_history_def)
  then have "ver_based (db_history ver_pending)"
    using ver_based_start by (simp add: ver_based_def ver_pending_rows ver_scan_ids ver_history_def)
  then show ?thesis
    using ver_state_start by (simp add: ver_state_def ver_pending_rows) (simp add: ver_pending_def)
qed

lemma ver_pending_starts: "scan_starts ver_pending 91 = [ver_started]"
proof -
  have "filter (\<lambda>a. au_target_type a = TargetScan \<and> au_target_id a = 91 \<and> au_type a = AT_SCAN_STARTED)
      (db_audits demo_acknowledged) = []"
    by (simp add: demo_acknowledged_def demo_intended_def demo_read_def demo_claimed_def demo_admitted_facts
      demo_approved_facts demo_audit_def audit_for_def)
  then show ?thesis
    by (simp add: scan_starts_def ver_pending_rows) (simp add: ver_started_def ver_requested_def)
qed

lemma ver_pending_link: "load_link (ver_env n) ver_pending 91 = Inr (Some (ver_row, ver_content, demo_content))"
proof -
  have "find_row au_id 93 (db_audits demo_acknowledged) = None" using ver_audit_keys by (simp add: find_row_None_iff)
  then have "find_row au_id 93 (db_audits ver_pending) = Some ver_requested"
    by (simp add: ver_pending_rows find_row_append) (simp add: ver_started_def ver_requested_def)
  then have audit: "binds_audit (ver_env n) ver_pending ver_content ver_row"
    by (simp add: binds_audit_def Let_def identity_sha_def ver_pending_starts) (simp add: ver_started_def ver_requested_def)
  have scan: "binds_scan ver_content (pending_scan ver_content ''1'')"
    by (simp add: binds_scan_def pending_scan_def)
  have "rn_content ver_retained = demo_execution" by (simp add: ver_retained_def)
  then have "verification_content_of (ver_env n) ver_pending ver_row = Inr (ver_content, demo_content, pending_scan ver_content ''1'')"
    using ver_authority [OF ver_state_pending, of n]
    by (simp add: verification_content_of_def ver_make need_some_def ver_pending_rows ver_scan_ids conflict_unless_def
      ver_bound audit scan)
  moreover have "marks_verification (au_metadata ver_started)"
    by (simp add: marks_verification_def ver_started_def start_metadata_def)
  ultimately show ?thesis
    by (simp add: load_link_def ver_pending_starts ver_pending_rows need_some_def)
qed

lemma ver_audit_free: "a \<in> {100, 101} \<Longrightarrow> \<forall>r\<in>set (db_audits ver_pending). au_id r \<noteq> a"
proof -
  have "au_id ` set (db_audits ver_pending) = {21, 31, 42, 52, 71, 81, 92, 93}"
    by (simp add: ver_pending_rows image_Un ver_audit_keys) (auto simp: ver_started_def ver_requested_def)
  then show "a \<in> {100, 101} \<Longrightarrow> ?thesis" by (force dest: arg_cong [of _ _ "\<lambda>S. a \<in> S"])
qed

lemma append_audit_run:
  assumes "\<forall>r\<in>set (db_audits d). au_id r \<noteq> fresh env i" "sql_nonblank actor"
  shows "append_audit_event env ty tt tid at aty actor meta \<lparr>wk_db = d, wk_ticks = t, wk_ids = i\<rparr> =
    (let a = \<lparr>au_id = fresh env i, au_type = ty, au_actor_type = aty, au_actor_id = actor, au_target_type = tt,
       au_target_id = tid, au_time = at, au_metadata = meta\<rparr>
     in Inr (a, \<lparr>wk_db = d\<lparr>db_audits := db_audits d @ [a]\<rparr>, wk_ticks = t, wk_ids = Suc i\<rparr>))"
  using assms by (simp add: append_audit_event_def insert_audit_def act_defs new_key_def Let_def)

lemma executor_actor: "sql_nonblank scan_executor_actor" "\<not> blank scan_executor_actor"
  by code_simp+

lemma ver_fail_run:
  "fail_pending_scan (ver_env 10) 91 (Aware (seconds 100)) ''EXECUTOR_SUBMISSION_FAILED''
     ''The configured executor rejected this scan request.'' ActorSystem scan_executor_actor
     \<lparr>wk_db = ver_pending, wk_ticks = t, wk_ids = 0\<rparr> = Inr ((), \<lparr>wk_db = rejected_db, wk_ticks = t, wk_ids = Suc 0\<rparr>)"
proof -
  have texts: "\<not> blank ''EXECUTOR_SUBMISSION_FAILED''" "\<not> blank ''The configured executor rejected this scan request.''"
    by code_simp+
  have d: "demo_sha (ScanFailureDoc a b c e) = dig (CHR ''8'')" for a b c e by (simp add: demo_sha_def)
  have ok: "scan_ok ver_scan" "scan_ok rejected_scan"
    by (simp_all add: scan_ok_def ver_scan_def demo_rows_def rejected_scan_def pending_scan_def seconds_def)
  have le: "seconds 90 \<le> seconds 100" by (simp add: seconds_def)
  have audit: "append_audit_event (ver_env 10) AT_SCAN_FAILED TargetScan 91 (seconds 100) ActorSystem scan_executor_actor
      (MetaScanFailed ''EXECUTOR_SUBMISSION_FAILED'' ''The configured executor rejected this scan request.'')
      \<lparr>wk_db = ver_pending, wk_ticks = t, wk_ids = 0\<rparr> =
    Inr (rejected_audit, \<lparr>wk_db = ver_pending\<lparr>db_audits := db_audits ver_pending @ [rejected_audit]\<rparr>, wk_ticks = t, wk_ids = Suc 0\<rparr>)"
    using append_audit_run [of ver_pending "ver_env 10" 0] ver_audit_free [of 100] executor_actor
    by (simp add: rejected_audit_def Let_def)
  have set: "set_scan 91 (\<lambda>s. s\<lparr>sc_status := SC_FAILED, sc_completed_at := Some (seconds 100),
      sc_result_sha := Some (dig (CHR ''8''))\<rparr>) \<lparr>wk_db = ver_pending\<lparr>db_audits := as\<rparr>, wk_ticks = t, wk_ids = Suc 0\<rparr> =
    Inr ((), \<lparr>wk_db = ver_pending\<lparr>db_audits := as, db_history := ver_history\<lparr>hs_scans := [ver_scan, rejected_scan]\<rparr>\<rparr>,
      wk_ticks = t, wk_ids = Suc 0\<rparr>)" for as
    using ok by (simp add: set_scan_def set_history_def act_defs ver_pending_rows ver_scan_ids modify_rows_def rejected_scan_def [symmetric])
  have db: "ver_pending\<lparr>db_audits := db_audits ver_pending @ [rejected_audit],
      db_history := ver_history\<lparr>hs_scans := [ver_scan, rejected_scan]\<rparr>\<rparr> = rejected_db"
    by (simp add: rejected_db_def)
  have row: "find_row sc_id 91 (hs_scans (db_history ver_pending)) = Some (pending_scan ver_content ''1'')"
    by (simp add: ver_pending_rows ver_scan_ids)
  show ?thesis
    using texts executor_actor le
    by (simp add: fail_pending_scan_def bnd_def get_db_def guard_def ret_def require_aware_def row ver_scan_ids d audit)
      (simp add: set db)
qed

lemma ver_seal_run: "\<exists>w. seal_receipt (ver_env 10) (Some (ver_row, ver_content, demo_content)) \<lparr>wk_db = rejected_db, wk_ticks = t, wk_ids = Suc 0\<rparr> = Inr ((), w)"
proof -
  have rows: "find_row sc_id 91 (hs_scans (db_history rejected_db)) = Some rejected_scan"
    "db_receipts rejected_db = []" "db_audits rejected_db = db_audits ver_pending @ [rejected_audit]"
    by (simp_all add: rejected_db_def ver_pending_rows ver_scan_ids rejected_scan_def)
  have "valid_verification_receipt rejected_receipt"
    by (simp add: valid_verification_receipt_def rejected_receipt_def is_hex_def)
  then have built: "build_receipt (ver_env 10) (db_history rejected_db) ver_row ver_content demo_content rejected_scan = Inr rejected_receipt"
    by (simp add: build_receipt_def rejected_scan_def ver_scan_ids postcondition_for_def)
      (simp add: rejected_receipt_def Let_def pending_scan_def)
  have "\<forall>r\<in>set (db_audits rejected_db). au_id r \<noteq> fresh (ver_env 10) (Suc 0)"
    using ver_audit_free [of 101] by (simp add: rows rejected_audit_def)
  note audit = append_audit_run [OF this executor_actor(1)]
  show ?thesis
    by (simp add: seal_receipt_def bnd_def get_db_def lift_res_def need_some_def rows built write_receipt_def audit Let_def
        insert_receipt_def guard_def new_key_def ver_docs ret_def change_def)
qed

lemma ver_reject_run: "\<exists>d. transact (fail_linked_scan (ver_env 10) 91 (tick (ver_env 10) 0) ''EXECUTOR_SUBMISSION_FAILED''
    ''The configured executor rejected this scan request.'' ActorSystem scan_executor_actor) ver_pending = (Inr (), d)"
proof -
  obtain w where seal: "seal_receipt (ver_env 10) (Some (ver_row, ver_content, demo_content))
      \<lparr>wk_db = rejected_db, wk_ticks = 0, wk_ids = Suc 0\<rparr> = Inr ((), w)" using ver_seal_run by blast
  have texts: "\<not> blank ''EXECUTOR_SUBMISSION_FAILED''" "\<not> blank ''The configured executor rejected this scan request.''"
    by code_simp+
  show ?thesis
    using texts executor_actor seal
    by (simp add: transact_def fail_linked_scan_def initial_work_def bnd_def get_db_def guard_def ret_def require_aware_def
        lift_res_def ver_pending_link ver_fail_run)
qed

end
