(* ===== verification/Verification_Properties.thy ===== *)
theory Verification_Properties
  imports Verification_Rejection
begin

text \<open>
  The properties of the verification service, with the verified run as their witnesses.
\<close>

section \<open>What VERIFIED means\<close>

lemma get_verification_Inr:
  assumes "get_verification env vid p d = Inr v"
  obtains row pc s where "verification_content_of env d row = Inr (vv_content v, pc, s)"
    "receipt_of env d row (vv_content v) pc s = Inr None \<longleftrightarrow> vv_receipt v = None"
    "\<And>r. vv_receipt v = Some r \<Longrightarrow> \<exists>sh au. receipt_of env d row (vv_content v) pc s = Inr (Some (r, sh, au))"
proof -
  obtain row where "verification_view_of env d row = Inr v"
    using assms by (auto simp: get_verification_def res_bind_Inr_iff split: if_splits)
  then obtain c pc s rc where rc: "verification_content_of env d row = Inr (c, pc, s)"
    "receipt_of env d row c pc s = Inr rc" "vv_content v = c" "vv_receipt v = map_option fst rc"
    by (auto simp: verification_view_of_def res_bind_Inr_iff Let_def split: if_splits)
  show thesis
    by (rule that [of row pc s]) (use rc in auto)
qed

lemma verification_content_Inr:
  assumes "verification_content_of env d row = Inr (c, p, s)"
  obtains n where "authority_history env d (vc_execution_id c) = Inr n" "p = xc_proposal (rn_content n)"
    "s \<in> set (hs_scans (db_history d))" "sc_id s = vc_scan_id c" "binds_row env c row" "binds_retained c row n"
proof -
  obtain n where n: "authority_history env d (vf_execution_id row) = Inr n"
    "find_row sc_id (vf_scan_id row) (hs_scans (db_history d)) = Some s" "p = xc_proposal (rn_content n)"
    "binds_row env c row" "binds_retained c row n"
    using assms by (auto simp: verification_content_of_def res_bind_Inr_iff need_some_def conflict_unless_def
        split: option.splits if_splits)
  moreover have "vc_execution_id c = vf_execution_id row" "vc_scan_id c = vf_scan_id row"
    using n(4) by (simp_all add: binds_row_def Let_def)
  ultimately show thesis using find_row_Some [OF n(2)] that by metis
qed

lemma authority_acknowledged:
  assumes "authority_history env d eid = Inr n"
  shows "je_kind (ev_content (rn_ack n)) = EK_ACKNOWLEDGED"
proof -
  obtain vs where "acknowledged vs = Inr (rn_ack n)"
    using assms by (auto simp: authority_history_def shield_def retained_history_def res_bind_Inr_iff
        split: sum.splits failure.splits)
  then have "rn_ack n \<in> set (acknowledgments vs)"
    by (auto simp: acknowledged_def split: list.splits if_splits)
  then show ?thesis by (simp add: acknowledgments_def)
qed

lemma receipt_of_build:
  assumes "receipt_of env d row c p s = Inr (Some (r, sh, au))"
  shows "build_receipt env (db_history d) row c p s = Inr r"
  using assms
  by (auto simp: receipt_of_def res_bind_Inr_iff shield_def conflict_unless_def split: option.splits if_splits
      sum.splits failure.splits)

lemma build_receipt_verified:
  assumes "build_receipt env h row c p s = Inr r" "vr_outcome r = VERIFIED"
  obtains ev where "vr_evidence r = Some ev" "ve_result ev = PASS" "vc_acknowledged_at c < ve_observed_at ev"
    "bl_observed_at (pc_baseline p) < ve_observed_at ev" "proven env h s c p ev" "sc_status s = SC_COMPLETED"
proof -
  obtain outcome reason evidence where post: "postcondition_for env h s c p = (outcome, reason, evidence)"
    by (cases "postcondition_for env h s c p") auto
  then have r: "vr_outcome r = outcome" "vr_evidence r = evidence"
    using assms(1) by (auto simp: build_receipt_def Let_def split: scan_status.splits option.splits if_splits)
  from post show thesis
  proof (cases rule: postcondition_cases)
    case (decided ev)
    then show thesis
      using r assms(2) verification_proof_proven(1) [OF decided(2)] by (intro that [of ev]) (auto split: if_splits)
  qed (use r assms(2) in simp_all)
qed

text \<open>C3. A verification whose receipt says VERIFIED names an execution that AWS acknowledged, a completed scan and an observation made after the acknowledgment and after the retained failure, in which the control passed; a present source outcome of that scan for the same account and region says the default is on, and the retained evidence carries the digest of exactly that reading.\<close>

theorem verified_means_proven:
  assumes "get_verification env vid p d = Inr v" "vv_receipt v = Some r" "vr_outcome r = VERIFIED"
  shows "\<exists>n s ev. authority_history env d (vc_execution_id (vv_content v)) = Inr n \<and>
    je_kind (ev_content (rn_ack n)) = EK_ACKNOWLEDGED \<and> s \<in> set (hs_scans (db_history d)) \<and>
    sc_id s = vc_scan_id (vv_content v) \<and> sc_status s = SC_COMPLETED \<and> vr_evidence r = Some ev \<and>
    ve_result ev = PASS \<and> je_created_at (ev_content (rn_ack n)) < ve_observed_at ev \<and>
    bl_observed_at (pc_baseline (xc_proposal (rn_content n))) < ve_observed_at ev \<and>
    proven env (db_history d) s (vv_content v) (xc_proposal (rn_content n)) ev"
proof -
  obtain row pc s sh au where c: "verification_content_of env d row = Inr (vv_content v, pc, s)"
    and r: "receipt_of env d row (vv_content v) pc s = Inr (Some (r, sh, au))"
    using get_verification_Inr [OF assms(1)] assms(2) by metis
  obtain n where n: "authority_history env d (vc_execution_id (vv_content v)) = Inr n"
    "pc = xc_proposal (rn_content n)" "s \<in> set (hs_scans (db_history d))" "sc_id s = vc_scan_id (vv_content v)"
    "binds_retained (vv_content v) row n"
    using verification_content_Inr [OF c] by metis
  obtain ev where ev: "vr_evidence r = Some ev" "ve_result ev = PASS"
    "vc_acknowledged_at (vv_content v) < ve_observed_at ev" "bl_observed_at (pc_baseline pc) < ve_observed_at ev"
    "proven env (db_history d) s (vv_content v) pc ev" "sc_status s = SC_COMPLETED"
    by (rule build_receipt_verified [OF receipt_of_build [OF r] assms(3)])
  have "vc_acknowledged_at (vv_content v) = je_created_at (ev_content (rn_ack n))"
    using n(5) by (simp add: binds_retained_def Let_def)
  then show ?thesis using n ev authority_acknowledged [OF n(1)] by auto
qed

theorem verified_means_proven_witness:
  "get_verification (ver_env 12) 90 analyst ver_verified = Inr ver_view \<and>
   (\<exists>n s ev. authority_history (ver_env 12) ver_verified 40 = Inr n \<and> s \<in> set (hs_scans ver_later) \<and>
      proven (ver_env 12) ver_later s ver_content (xc_proposal (rn_content n)) ev)"
proof -
  have v: "vv_receipt ver_view = Some ver_receipt" "vr_outcome ver_receipt = VERIFIED" "vv_content ver_view = ver_content"
    "db_history ver_verified = ver_later"
    by (simp_all add: ver_view_def ver_receipt_def ver_verified_def)
  show ?thesis
    using verified_means_proven [OF ver_view_run v(1,2)] ver_view_run unfolding v(3,4) by (simp only: ver_content_simps) blast
qed

section \<open>Attempts\<close>

text \<open>C8. In every order of requests, recorded or failed scans, governance calls and service calls, the verifications of an execution are numbered 1, 2, 3 without a gap, there are never more than three, and all but the newest carry a receipt.\<close>

theorem verification_attempts_bounded:
  assumes "(verification_step sh)\<^sup>*\<^sup>* d0 d" "db_verifications d0 = []"
  shows "map vf_attempt (attempts_of d eid) = [1..<Suc (length (attempts_of d eid))] \<and>
    length (attempts_of d eid) \<le> 3 \<and> (\<forall>r\<in>set (butlast (attempts_of d eid)). \<not> unsealed d r)"
  using attempts.inv_reachable [OF assms(2,1)] by (simp add: attempts_ok_def del: upt_Suc)

lemma ver_request_step: "(verification_step demo_sha)\<^sup>*\<^sup>* ver_start ver_pending"
proof -
  have "verification_step demo_sha ver_start ver_pending"
    using vs_request [OF _ ver_request_run [unfolded ver_request_def]] by simp
  then show ?thesis by blast
qed

theorem verification_attempts_bounded_witness:
  "attempts_of ver_pending 40 = [ver_row] \<and> map vf_attempt (attempts_of ver_pending 40) = [1]"
proof -
  have a: "attempts_of ver_pending 40 = [ver_row]" by (simp add: attempts_of_def ver_pending_def)
  have "map vf_attempt (attempts_of ver_pending 40) = [1..<Suc (length (attempts_of ver_pending 40))]"
    using verification_attempts_bounded [OF ver_request_step ver_start_rows(1), of 40] by blast
  then show ?thesis using a by simp
qed

section \<open>Requests\<close>

text \<open>C24. A request that is admitted finds an acknowledged execution in the configured account and region whose earlier attempts are all sealed; it commits one RUNNING scan with the scope of the first one, two audit events and one row that carries the next attempt number, no earlier than the acknowledgment, and changes nothing else.\<close>

theorem admitted_request_commits_scan:
  assumes "commit_request (request_body env scope executor version eid reason a key digest) d = (Inr (NewVerification c), d')"
  shows "\<exists>n started requested. authority_history env d eid = Inr n \<and>
    je_kind (ev_content (rn_ack n)) = EK_ACKNOWLEDGED \<and> je_created_at (ev_content (rn_ack n)) \<le> vc_created_at c \<and>
    as_account_id scope = Some (vc_account c) \<and> as_region scope = Some (vc_region c) \<and>
    vc_services c = sc_requested_services (rn_scan n) \<and> vc_collectors c = rn_collectors n \<and>
    vc_attempt c = Suc (length (attempts_of d eid)) \<and> (\<forall>r\<in>set (attempts_of d eid). \<not> unsealed d r) \<and>
    d' = (map_history (\<lambda>h. h\<lparr>hs_scans := hs_scans h @ [pending_scan c version]\<rparr>) d)
      \<lparr>db_audits := db_audits d @ [started, requested],
       db_verifications := db_verifications d @ [verification_row_for env c a digest requested]\<rparr>"
proof -
  obtain w where w: "request_body env scope executor version eid reason a key digest (initial_work d) = Inr (NewVerification c, w)"
    "d' = wk_db w"
    using commit_request_Inr [OF assms] .
  from w(1) show ?thesis
  proof (cases rule: request_body_Inr)
    case (admitted n prior at vid sid c' w1)
    have c: "c' = c" using admitted(1) by simp
    have d: "wk_db w1 = d" "wk_db (initial_work d) = d" using admitted(11) by (simp_all add: initial_work_def)
    note prior = check_prior_sealed [OF admitted(5) [unfolded d(2)]]
    note fields = make_verification_content_fields [OF admitted(9)]
    obtain started requested where
      "wk_db w = (map_history (\<lambda>h. h\<lparr>hs_scans := hs_scans h @ [pending_scan c version]\<rparr>) d)
         \<lparr>db_audits := db_audits d @ [started, requested],
          db_verifications := db_verifications d @ [verification_row_for env c a digest requested]\<rparr>"
      by (rule store_verification_Inr [OF admitted(10), unfolded d(1) c])
    then show ?thesis
      using admitted(4,6-8) prior authority_acknowledged [OF admitted(4)] fields
      unfolding c d w(2)
      by (intro exI [of _ n] exI [of _ started] exI [of _ requested] conjI) (simp_all add: new_verification_def Let_def)
  qed simp
qed

theorem admitted_request_commits_scan_witness:
  "ver_request ver_start = (Inr (NewVerification ver_content), ver_pending) \<and>
   (\<exists>n. authority_history (ver_env 9) ver_start 40 = Inr n \<and>
      je_created_at (ev_content (rn_ack n)) \<le> vc_created_at ver_content)"
  using admitted_request_commits_scan [OF ver_request_run [unfolded ver_request_def]] ver_request_run by blast

text \<open>The tables after the commit of a new verification, as far as a rejection needs them.\<close>

lemma committed_attempt:
  assumes "commit_request (request_body env scope executor version eid reason a key digest) d = (Inr (NewVerification c), d1)"
  obtains row where "vf_id row = vc_verification_id c" "attempts_of d1 eid = attempts_of d eid @ [row]"
    "\<forall>r\<in>set (attempts_of d1 eid). unsealed d1 r \<longrightarrow> r = row"
    "filter (\<lambda>a. marks_verification (au_metadata a)) (scan_starts d1 (vc_scan_id c)) \<noteq> []"
    "find_row sc_id (vc_scan_id c) (hs_scans (db_history d1)) = Some (pending_scan c version)"
    "find_row vf_scan_id (vc_scan_id c) (db_verifications d1) = Some row"
proof -
  obtain w where w: "request_body env scope executor version eid reason a key digest (initial_work d) = Inr (NewVerification c, w)"
    "d1 = wk_db w"
    using commit_request_Inr [OF assms] .
  from w(1) show thesis
  proof (cases rule: request_body_Inr)
    case (admitted n prior at vid sid c' w1)
    have c: "c' = c" and d: "wk_db w1 = d" "wk_db (initial_work d) = d"
      using admitted(1,11) by (simp_all add: initial_work_def)
    note links = store_verification_links [OF admitted(10) [unfolded c]]
    obtain audit where row: "find_row vf_scan_id (vc_scan_id c) (db_verifications d1) = Some (verification_row_for env c a digest audit)"
      "db_verifications d1 = db_verifications d @ [verification_row_for env c a digest audit]"
      using links(3) unfolding w(2) d(1) by blast
    let ?row = "verification_row_for env c a digest audit"
    have eid: "vf_execution_id ?row = eid" "vf_id ?row = vc_verification_id c"
      using make_verification_content_fields [OF admitted(9)] c
      by (simp_all add: verification_row_for_def new_verification_def Let_def)
    have attempts: "attempts_of d1 eid = attempts_of d eid @ [?row]" using row(2) eid by (simp add: attempts_of_def)
    have "unsealed d1 = unsealed d" using links(4) by (simp add: unsealed_def w(2) d(1) fun_eq_iff)
    then have "\<forall>r\<in>set (attempts_of d1 eid). unsealed d1 r \<longrightarrow> r = ?row"
      using check_prior_sealed(3) [OF admitted(5) [unfolded d(2)]] attempts by auto
    then show thesis using that [of ?row] eid(2) attempts links(1,2) row(1) unfolding w(2) by blast
  qed simp
qed

text \<open>C26. When the executor rejects a committed request without touching the tables, the caller gets an error that names the verification and its scan, and one of two things has happened: the transaction that records the rejection failed, and the tables are those of the commit; or it committed, and the scan is FAILED, its verification has an INCONCLUSIVE receipt, and no attempt of the execution is left open, so that it can be requested again.\<close>

theorem rejected_submission_is_sealed:
  assumes "request_verification env late scope (Some ex) version eid reason p key d = (res, d')"
    "valid_admission_scope scope" "\<not> in_tx env \<and> \<not> pending env \<and> \<not> down env"
    "actor_of p CAP_EXECUTE = Inr a" "validate_verification_request reason = Some q"
    "commit_request (request_body env scope True version eid q a key (sha env (VerifyRequestDoc eid q))) d =
       (Inr (NewVerification c), d1)"
    "ex (vc_scan_id c) d1 = (False, d1)"
  shows "res = Inl (SubmissionErr (vc_verification_id c) (vc_scan_id c)) \<and>
    (case transact (fail_linked_scan late (vc_scan_id c) (tick late 0) ''EXECUTOR_SUBMISSION_FAILED''
        ''The configured executor rejected this scan request.'' ActorSystem scan_executor_actor) d1 of
       (Inl e, _) \<Rightarrow> d' = d1
     | (Inr u, _) \<Rightarrow>
         (\<exists>s. find_row sc_id (vc_scan_id c) (hs_scans (db_history d')) = Some s \<and> sc_status s = SC_FAILED) \<and>
         (\<exists>rt. find_row rt_verification_id (vc_verification_id c) (db_receipts d') = Some rt \<and>
            rt_outcome rt = INCONCLUSIVE) \<and>
         (\<forall>r\<in>set (attempts_of d' eid). \<not> unsealed d' r))"
proof -
  let ?m = "fail_linked_scan late (vc_scan_id c) (tick late 0) ''EXECUTOR_SUBMISSION_FAILED''
    ''The configured executor rejected this scan request.'' ActorSystem scan_executor_actor"
  have run: "res = Inl (SubmissionErr (vc_verification_id c) (vc_scan_id c))" "d' = snd (transact ?m d1)"
    using assms by (auto simp: request_verification_def submit_verification_def reject_scan_def)
  obtain row where row: "vf_id row = vc_verification_id c"
    "\<forall>r\<in>set (attempts_of d1 eid). unsealed d1 r \<longrightarrow> r = row"
    "filter (\<lambda>a. marks_verification (au_metadata a)) (scan_starts d1 (vc_scan_id c)) \<noteq> []"
    "find_row sc_id (vc_scan_id c) (hs_scans (db_history d1)) = Some (pending_scan c version)"
    "find_row vf_scan_id (vc_scan_id c) (db_verifications d1) = Some row"
    using committed_attempt [OF assms(6)] by metis
  show ?thesis
  proof (cases "transact ?m d1")
    case (Pair r d2)
    show ?thesis
    proof (cases r)
      case (Inl e)
      then show ?thesis using run Pair transact_Inl [of ?m d1 e d2] by simp
    next
      case (Inr u)
      have t: "transact ?m d1 = (Inr u, d')" using Pair run(2) by (simp add: Inr)
      have sealed: "(\<exists>s. find_row sc_id (vc_scan_id c) (hs_scans (db_history d')) = Some s \<and> sc_status s = SC_FAILED) \<and>
        (\<exists>rt. find_row rt_verification_id (vf_id row) (db_receipts d') = Some rt \<and> rt_outcome rt = INCONCLUSIVE)"
        by (rule fail_linked_seals [OF t row(3,4) _ row(5)]) (simp add: pending_scan_def)
      have kept: "requests_kept d1 d'" using requests_frame.keeps_transact [OF keeps_linked(2) t] .
      have "\<not> unsealed d' r" if "r \<in> set (attempts_of d' eid)" for r
      proof -
        have "r \<in> set (attempts_of d1 eid)" using that kept by (simp add: requests_kept_def attempts_of_def)
        moreover have "\<not> unsealed d' row" using sealed by (auto simp: unsealed_def)
        moreover have "\<not> unsealed d1 x \<Longrightarrow> \<not> unsealed d' x" for x
          using kept by (auto simp: requests_kept_def prefix_def unsealed_def find_row_append)
        ultimately show ?thesis using row(2) by blast
      qed
      then show ?thesis using run(1) sealed t unfolding row(1) by simp
    qed
  qed
qed

theorem rejected_submission_is_sealed_witness:
  "\<exists>d'. request_verification (ver_env 9) (ver_env 10)
      \<lparr>as_enabled = True, as_account_id = Some demo_account, as_region = Some demo_region\<rparr>
      (Some (\<lambda>_ d. (False, d))) ''1'' 40 ''check'' operator 12 ver_start = (Inl (SubmissionErr 90 91), d') \<and>
    (\<exists>s. find_row sc_id 91 (hs_scans (db_history d')) = Some s \<and> sc_status s = SC_FAILED) \<and>
    (\<exists>rt. find_row rt_verification_id 90 (db_receipts d') = Some rt \<and> rt_outcome rt = INCONCLUSIVE) \<and>
    (\<forall>r\<in>set (attempts_of d' 40). \<not> unsealed d' r)"
proof -
  let ?scope = "\<lparr>as_enabled = True, as_account_id = Some demo_account, as_region = Some demo_region\<rparr>"
  obtain res d' where run: "request_verification (ver_env 9) (ver_env 10) ?scope (Some (\<lambda>_ d. (False, d))) ''1'' 40 ''check''
      operator 12 ver_start = (res, d')" by (rule prod.exhaust)
  obtain d2 where failed: "transact (fail_linked_scan (ver_env 10) 91 (tick (ver_env 10) 0) ''EXECUTOR_SUBMISSION_FAILED''
      ''The configured executor rejected this scan request.'' ActorSystem scan_executor_actor) ver_pending = (Inr (), d2)"
    using ver_reject_run by blast
  have region: "region_pattern ''us-east-1''" by code_simp
  have pre: "valid_admission_scope ?scope" "\<not> in_tx (ver_env 9) \<and> \<not> pending (ver_env 9) \<and> \<not> down (ver_env 9)"
    "actor_of operator CAP_EXECUTE = Inr cleo" "validate_verification_request ''check'' = Some ''check''"
    by (simp_all add: valid_admission_scope_def demo_actors validate_verification_request_def ver_reason
      demo_account_def demo_region_def account_pattern_def is_digit_def region)
  have commit: "commit_request (request_body (ver_env 9) ?scope True ''1'' 40 ''check'' cleo 12
      (sha (ver_env 9) (VerifyRequestDoc 40 ''check''))) ver_start = (Inr (NewVerification ver_content), ver_pending)"
    using ver_request_run by (simp add: ver_request_def ver_docs)
  show ?thesis
    using rejected_submission_is_sealed [OF run pre commit refl] run failed by (simp only: ver_content_simps) auto
qed

section \<open>The request as steps\<close>

lemma reject_scan_steps: "sha late = sh \<Longrightarrow> (verification_step sh)\<^sup>*\<^sup>* d (reject_scan late sid d)"
proof -
  assume late: "sha late = sh"
  let ?m = "fail_linked_scan late sid (tick late 0) ''EXECUTOR_SUBMISSION_FAILED''
    ''The configured executor rejected this scan request.'' ActorSystem scan_executor_actor"
  show ?thesis
  proof (cases "transact ?m d")
    case (Pair r d')
    then have "reject_scan late sid d = d'" by (simp add: reject_scan_def)
    moreover have "d' = d" if "r = Inl e" for e using Pair that by (auto simp: transact_def split: sum.splits)
    ultimately show ?thesis using vs_fail [OF late] Pair by (cases r) auto
  qed
qed

lemma request_verification_changed:
  assumes "request_verification env late scope exo version eid reason p key d = (res, d')" "d' \<noteq> d"
  obtains a q r d1 where
    "commit_request (request_body env scope (exo \<noteq> None) version eid q a key (sha env (VerifyRequestDoc eid q))) d = (Inr r, d1)"
    "case r of ReplayedVerification v \<Rightarrow> d' = d1
      | NewVerification c \<Rightarrow> submit_verification env late (the exo) p c d1 = (res, d')"
proof -
  obtain a where a: "actor_of p CAP_EXECUTE = Inr a"
    using assms by (cases "actor_of p CAP_EXECUTE") (auto simp: request_verification_def split: if_split_asm)
  obtain q where q: "validate_verification_request reason = Some q"
    using assms a by (cases "validate_verification_request reason") (auto simp: request_verification_def split: if_split_asm)
  let ?c = "commit_request (request_body env scope (exo \<noteq> None) version eid q a key (sha env (VerifyRequestDoc eid q))) d"
  have r: "(case ?c of
       (Inl e, _) \<Rightarrow> (Inl e, d)
     | (Inr (ReplayedVerification v), d') \<Rightarrow> (Inr (v, True), d')
     | (Inr (NewVerification c), d') \<Rightarrow> submit_verification env late (the exo) p c d') = (res, d')"
    using assms a q by (simp add: request_verification_def split: if_split_asm)
  show thesis
  proof (cases ?c)
    case (Pair res1 d1)
    note c = this
    show thesis
    proof (cases res1)
      case (Inl e)
      then show thesis using r assms(2) unfolding c by simp
    next
      case (Inr x)
      have "case x of ReplayedVerification v \<Rightarrow> d' = d1
        | NewVerification c \<Rightarrow> submit_verification env late (the exo) p c d1 = (res, d')"
        using r unfolding c Inr by (cases x) simp_all
      then show thesis using that [of q a x d1] c unfolding Inr by blast
    qed
  qed
qed

text \<open>C25. When everything the executor does until it answers is itself made of committed steps, a whole call of request_verification is a sequence of committed steps, so what holds in every reachable state of the tables holds after it.\<close>

theorem request_refines_steps:
  assumes "request_verification env late scope exo version eid reason p key d = (res, d')"
    and "\<And>ex sid e. exo = Some ex \<Longrightarrow> (verification_step (sha env))\<^sup>*\<^sup>* e (snd (ex sid e))" "sha late = sha env"
  shows "(verification_step (sha env))\<^sup>*\<^sup>* d d'"
proof (cases "d' = d")
  case False
  obtain a q r d1 where c: "commit_request (request_body env scope (exo \<noteq> None) version eid q a key
      (sha env (VerifyRequestDoc eid q))) d = (Inr r, d1)"
    and rest: "case r of ReplayedVerification v \<Rightarrow> d' = d1
      | NewVerification c \<Rightarrow> submit_verification env late (the exo) p c d1 = (res, d')"
    by (rule request_verification_changed [OF assms(1) False])
  have first: "verification_step (sha env) d d1" using vs_request [OF refl c] .
  show ?thesis
  proof (cases r)
    case (ReplayedVerification v)
    then show ?thesis using rest first by auto
  next
    case (NewVerification c')
    have "exo \<noteq> None"
    proof -
      obtain w where "request_body env scope (exo \<noteq> None) version eid q a key (sha env (VerifyRequestDoc eid q))
          (initial_work d) = Inr (NewVerification c', w)"
        using commit_request_Inr [OF c] NewVerification by metis
      then show ?thesis by (cases rule: request_body_Inr) simp_all
    qed
    then obtain ex where ex: "exo = Some ex" by blast
    obtain ok d2 where d2: "ex (vc_scan_id c') d1 = (ok, d2)" by (cases "ex (vc_scan_id c') d1")
    have "(verification_step (sha env))\<^sup>*\<^sup>* d1 d2" using assms(2) [OF ex, of d1 "vc_scan_id c'"] d2 by simp
    moreover have "(verification_step (sha env))\<^sup>*\<^sup>* d2 d'"
      using rest NewVerification ex d2 reject_scan_steps [OF assms(3)]
      by (cases ok) (auto simp: submit_verification_def)
    ultimately show ?thesis using first by (meson converse_rtranclp_into_rtranclp rtranclp_trans)
  qed
qed simp

theorem request_refines_steps_witness:
  "\<exists>res. request_verification (ver_env 9) (ver_env 10)
     \<lparr>as_enabled = True, as_account_id = Some demo_account, as_region = Some demo_region\<rparr>
     (Some (\<lambda>_ d. (True, d))) ''1'' 40 ''check'' operator 12 ver_start = (res, ver_pending) \<and>
   (verification_step demo_sha)\<^sup>*\<^sup>* ver_start ver_pending"
proof -
  let ?run = "request_verification (ver_env 9) (ver_env 10)
     \<lparr>as_enabled = True, as_account_id = Some demo_account, as_region = Some demo_region\<rparr>
     (Some (\<lambda>_ d. (True, d))) ''1'' 40 ''check'' operator 12 ver_start"
  have "snd ?run = ver_pending"
    using ver_request_run
    by (simp add: ver_request_def request_verification_def demo_scope_ok demo_actors validate_verification_request_def
      ver_reason ver_docs submit_verification_def)
  then have run: "?run = (fst ?run, ver_pending)" by (simp add: prod_eq_iff)
  have "(verification_step (sha (ver_env 9)))\<^sup>*\<^sup>* ver_start ver_pending"
    by (rule request_refines_steps [OF run]) auto
  then show ?thesis using run by auto
qed

end
