(* ===== verification/Json_Text.thy ===== *)
theory Json_Text
  imports Ip_Network Remediation_Contracts
begin

text \<open>
  Texts that carry values: the canonical JSON text of app/database/integrity.py and of the
  identifiers of the evidence graph (\<open>json.dumps\<close> with sorted keys, compact separators and
  \<open>ensure_ascii\<close>), the text form of a UUID and its parser, and the contract of a value that is
  stored in one form and read back from it.
\<close>

section \<open>Stored forms\<close>

text \<open>
  The interface of a value and its stored form: on the values that are written, reading gives back
  what was written.
\<close>

locale codec =
  fixes ok :: "'a \<Rightarrow> bool"
    and encode :: "'a \<Rightarrow> 'b"
    and decode :: "'b \<Rightarrow> 'a option"
  assumes decode_encode: "ok x \<Longrightarrow> decode (encode x) = Some x"
begin

lemma encode_inj: "ok x \<Longrightarrow> ok y \<Longrightarrow> encode x = encode y \<Longrightarrow> x = y"
  by (metis decode_encode option.inject)

lemma decode_all: "list_all ok xs \<Longrightarrow> those (map (decode \<circ> encode) xs) = Some xs"
  by (induction xs) (simp_all add: decode_encode)

lemma decode_option: "pred_option ok x \<Longrightarrow> map_option (decode \<circ> encode) x = map_option Some x"
  by (cases x) (simp_all add: decode_encode)

end

section \<open>JSON text\<close>

text \<open>A character of a JSON string under \<open>ensure_ascii\<close>.\<close>

definition escape_char :: "char \<Rightarrow> string" where
  "escape_char c =
     (let n = of_char c :: nat in
      if c = CHR 0x22 then [CHR 0x5C, CHR 0x22] else if c = CHR 0x5C then [CHR 0x5C, CHR 0x5C]
      else if n = 8 then [CHR 0x5C, CHR ''b''] else if n = 9 then [CHR 0x5C, CHR ''t'']
      else if n = 10 then [CHR 0x5C, CHR ''n''] else if n = 12 then [CHR 0x5C, CHR ''f'']
      else if n = 13 then [CHR 0x5C, CHR ''r'']
      else if n < 32 \<or> 127 \<le> n then [CHR 0x5C, CHR ''u''] @ hex_digits 4 n
      else [c])"

definition json_quote :: "string \<Rightarrow> string" where
  "json_quote s = [CHR 0x22] @ concat (map escape_char s) @ [CHR 0x22]"

fun compact_text :: "json \<Rightarrow> string" where
  "compact_text JNull = ''null''"
| "compact_text (JBool b) = (if b then ''true'' else ''false'')"
| "compact_text (JInt i) = int_text i"
| "compact_text (JStr s) = json_quote s"
| "compact_text (JList xs) = ''['' @ join_with '','' (map compact_text xs) @ '']''"
| "compact_text (JObj kvs) =
     ''{'' @ join_with '','' (map (\<lambda>(k, v). json_quote k @ '':'' @ compact_text v) kvs) @ ''}''"

text \<open>\<open>json.dumps(value, sort_keys=True, separators=(",", ":"), ensure_ascii=True)\<close>.\<close>

definition canonical_text :: "json \<Rightarrow> string" where
  "canonical_text j = compact_text (canon j)"

lemma canonical_text_example:
  "canonical_text (JObj [(''b'', JList [JInt (- 2), JBool True]), (''a'', JStr [CHR 0x0A, CHR 0xE9])]) =
   ''{'' @ json_quote ''a'' @ '':'' @ [CHR 0x22, CHR 0x5C, CHR ''n'', CHR 0x5C] @ ''u00e9'' @ [CHR 0x22] @
   '','' @ json_quote ''b'' @ '':[-2,true]}''"
  by code_simp

lemma canon_idem [simp]: "canon (canon j) = canon j"
proof (induction j)
  case (JList xs)
  then show ?case by (simp add: comp_def)
next
  case (JObj kvs)
  let ?g = "\<lambda>(k, v). (k, canon v)"
  have fixed: "map ?g (sort_key fst (map ?g kvs)) = sort_key fst (map ?g kvs)"
  proof (rule map_idI)
    fix x assume "x \<in> set (sort_key fst (map ?g kvs))"
    then obtain k v where kv: "(k, v) \<in> set kvs" "x = (k, canon v)" by auto
    have "canon (canon v) = canon v" using JObj.IH kv(1) by (simp add: snds.intros fsts.intros)
    then show "?g x = x" using kv(2) by simp
  qed
  have "canon (JObj (sort_key fst (map ?g kvs))) = JObj (sort_key fst (sort_key fst (map ?g kvs)))"
    unfolding canon.simps fixed ..
  moreover have "sort_key fst (sort_key fst (map ?g kvs)) = sort_key fst (map ?g kvs)"
    by (rule sort_key_id_if_sorted) simp
  ultimately show ?case by simp
qed simp_all

section \<open>UUID text\<close>

definition hex_value :: "char \<Rightarrow> nat" where
  "hex_value c =
     (let n = of_char c :: nat
      in if n < 58 then n - 48 else if n < 71 then n - 55 else n - 87)"

definition hex_char :: "char \<Rightarrow> bool" where
  "hex_char c = (is_hex c \<or> c \<in> set ''ABCDEF'')"

definition hex_number :: "string \<Rightarrow> nat" where
  "hex_number s = foldl (\<lambda>n c. 16 * n + hex_value c) 0 s"

text \<open>
  The parser of pydantic for a UUID in a JSON document: 32 digits, the hyphenated form, and the
  hyphenated form in braces or after \<open>urn:uuid:\<close>, with digits of either case.
\<close>

definition hyphenated_uuid :: "string \<Rightarrow> nat option" where
  "hyphenated_uuid s =
     (case split_on (CHR ''-'') s of
        [a, b, c, d, e] \<Rightarrow>
          if map length [a, b, c, d, e] = [8, 4, 4, 4, 12] \<and> list_all hex_char (a @ b @ c @ d @ e)
          then Some (hex_number (a @ b @ c @ d @ e)) else None
      | _ \<Rightarrow> None)"

definition uuid_of_text :: "string \<Rightarrow> nat option" where
  "uuid_of_text s =
     (if length s = 32 then (if list_all hex_char s then Some (hex_number s) else None)
      else if length s = 36 then hyphenated_uuid s
      else if length s = 38 \<and> hd s = CHR ''{'' \<and> last s = CHR ''}'' then hyphenated_uuid (butlast (tl s))
      else if length s = 45 \<and> take 9 s = ''urn:uuid:'' then hyphenated_uuid (drop 9 s)
      else None)"

lemma hex_digit_value:
  assumes "n < 16"
  shows "hex_value (hex_digit n) = n \<and> hex_char (hex_digit n) \<and> hex_digit n \<noteq> CHR ''-''"
proof -
  let ?m = "if n < 10 then 48 + n else 87 + n"
  have d: "hex_digit n = char_of ?m" by (simp add: hex_digit_def)
  have m: "of_char (hex_digit n) = ?m" using assms by (simp add: d)
  have "hex_value (hex_digit n) = n" using assms by (simp add: hex_value_def m Let_def)
  moreover have "is_hex (hex_digit n)" using assms by (simp add: is_hex_def m)
  moreover have "hex_digit n \<noteq> CHR ''-''"
  proof
    assume "hex_digit n = CHR ''-''"
    then have "?m = (45 :: nat)" using m by simp
    then show False by (simp split: if_splits)
  qed
  ultimately show ?thesis by (simp add: hex_char_def)
qed

lemma hex_number_digits: "hex_number (hex_digits k n) = n mod 16 ^ k"
proof (induction k arbitrary: n)
  case 0
  then show ?case by (simp add: hex_number_def)
next
  case (Suc k)
  have "hex_number (hex_digits (Suc k) n) = 16 * (n div 16 mod 16 ^ k) + n mod 16"
    using Suc.IH [of "n div 16"] hex_digit_value [of "n mod 16"] by (simp add: hex_number_def)
  also have "\<dots> = n mod 16 ^ Suc k"
    unfolding power_Suc mod_mult2_eq ..
  finally show ?case .
qed

lemma hex_digits_chars: "c \<in> set (hex_digits k n) \<Longrightarrow> hex_char c \<and> c \<noteq> CHR ''-''"
  by (induction k arbitrary: n) (auto simp: hex_digit_value)

lemma split_on_parts:
  "CHR ''-'' \<notin> set p \<Longrightarrow> split_on (CHR ''-'') (p @ CHR ''-'' # s) = p # split_on (CHR ''-'') s"
  by (induction p) auto

lemma split_on_whole: "c \<notin> set p \<Longrightarrow> split_on c p = [p]"
  by (induction p) auto

lemma split_on_five:
  assumes "CHR ''-'' \<notin> set a" "CHR ''-'' \<notin> set b" "CHR ''-'' \<notin> set c" "CHR ''-'' \<notin> set d" "CHR ''-'' \<notin> set e"
  shows "split_on (CHR ''-'') (a @ CHR ''-'' # b @ CHR ''-'' # c @ CHR ''-'' # d @ CHR ''-'' # e) = [a, b, c, d, e]"
  by (simp add: assms split_on_parts split_on_whole)

lemma uuid_of_text_uuid_text:
  assumes "u < 2 ^ 128"
  shows "uuid_of_text (uuid_text u) = Some u"
proof -
  let ?h = "hex_digits 32 u"
  let ?a = "take 8 ?h" and ?b = "take 4 (drop 8 ?h)" and ?c = "take 4 (drop 12 ?h)"
    and ?d = "take 4 (drop 16 ?h)" and ?e = "drop 20 ?h"
  have free: "CHR ''-'' \<notin> set ?a" "CHR ''-'' \<notin> set ?b" "CHR ''-'' \<notin> set ?c" "CHR ''-'' \<notin> set ?d" "CHR ''-'' \<notin> set ?e"
    using hex_digits_chars [of _ 32 u] by (blast dest: in_set_takeD in_set_dropD)+
  have "uuid_text u = ?a @ CHR ''-'' # ?b @ CHR ''-'' # ?c @ CHR ''-'' # ?d @ CHR ''-'' # ?e"
    by (simp add: uuid_text_def Let_def)
  then have split: "split_on (CHR ''-'') (uuid_text u) = [?a, ?b, ?c, ?d, ?e]"
    using split_on_five [OF free] by (simp only:)
  have parts: "?a @ ?b @ ?c @ ?d @ ?e = ?h"
  proof -
    have "drop 8 ?h = ?b @ drop 12 ?h" using append_take_drop_id [of 4 "drop 8 ?h"] by simp
    moreover have "drop 12 ?h = ?c @ drop 16 ?h" using append_take_drop_id [of 4 "drop 12 ?h"] by simp
    moreover have "drop 16 ?h = ?d @ ?e" using append_take_drop_id [of 4 "drop 16 ?h"] by simp
    ultimately show ?thesis by (metis append_take_drop_id)
  qed
  have "list_all hex_char ?h" using hex_digits_chars [of _ 32 u] by (simp add: list_all_iff)
  moreover have "hex_number ?h = u" using assms by (simp add: hex_number_digits)
  ultimately have "hyphenated_uuid (uuid_text u) = Some u"
    unfolding hyphenated_uuid_def split by (simp only: list.case parts) simp
  then show ?thesis by (simp add: uuid_of_text_def length_uuid_text)
qed

interpretation uuid_codec: codec "\<lambda>u. u < 2 ^ 128" uuid_text uuid_of_text
  by unfold_locales (rule uuid_of_text_uuid_text)

end
