(* ===== verification/Source_Outcomes.thy ===== *)
theory Source_Outcomes
  imports Assessment_Models Json_Text
begin

text \<open>
  app/assessment/source_outcomes.py: the subject of a source (an account in a scope or one observed
  resource), its JSON document and the reader of that document, the outcome of a source with its
  validators, and the identifier that binds a source to its scan. A constructor is an option:
  \<open>None\<close> is pydantic's validation error.
\<close>

section \<open>Validated models\<close>

text \<open>
  The interface of a pydantic model: construction strips the texts and then checks the content, so
  what it returns is a fixed point of both, and constructing it again changes nothing.
\<close>

locale validated_model =
  fixes make :: "'m \<Rightarrow> 'm option"
    and strip :: "'m \<Rightarrow> 'm"
    and ok :: "'m \<Rightarrow> bool"
  assumes strip_idem: "strip (strip m) = strip m"
    and make_unfold: "make m = (if ok (strip m) then Some (strip m) else None)"
begin

lemma made_ok: "make m = Some x \<Longrightarrow> ok x \<and> strip x = x"
  by (auto simp: make_unfold strip_idem split: if_splits)

lemma make_fixed: "ok x \<Longrightarrow> strip x = x \<Longrightarrow> make x = Some x"
  by (simp add: make_unfold)

lemma make_again: "make m = Some x \<Longrightarrow> make x = Some x"
  using made_ok make_fixed by blast

end

section \<open>Text patterns\<close>

definition ident_pattern :: "(char \<Rightarrow> bool) \<Rightarrow> (char \<Rightarrow> bool) \<Rightarrow> string \<Rightarrow> bool" where
  "ident_pattern first rest s = (case s of [] \<Rightarrow> False | c # cs \<Rightarrow> first c \<and> list_all rest cs)"

definition is_letter :: "char \<Rightarrow> bool" where
  "is_letter c = (is_lower c \<or> is_upper c)"

definition is_alnum :: "char \<Rightarrow> bool" where
  "is_alnum c = (is_letter c \<or> is_digit c)"

text \<open>\<open>^[a-z][a-z0-9_.-]*$\<close>, \<open>^[A-Za-z][A-Za-z0-9_.-]*$\<close> and \<open>^[A-Za-z0-9][A-Za-z0-9_.+-]*$\<close>.\<close>

definition kind_pattern :: "string \<Rightarrow> bool" where
  "kind_pattern = ident_pattern is_lower (\<lambda>c. is_lower c \<or> is_digit c \<or> c \<in> set ''_.-'')"

definition collector_pattern :: "string \<Rightarrow> bool" where
  "collector_pattern = ident_pattern is_letter (\<lambda>c. is_alnum c \<or> c \<in> set ''_.-'')"

definition version_pattern :: "string \<Rightarrow> bool" where
  "version_pattern s = (length s \<le> 64 \<and> ident_pattern is_alnum (\<lambda>c. is_alnum c \<or> c \<in> set ''_.+-'') s)"

definition service_pattern :: "string \<Rightarrow> bool" where
  "service_pattern = ident_pattern is_lower (\<lambda>c. is_lower c \<or> is_digit c \<or> c = CHR ''-'')"

definition type_pattern :: "string \<Rightarrow> bool" where
  "type_pattern = ident_pattern is_lower (\<lambda>c. is_lower c \<or> is_digit c \<or> c = CHR ''_'')"

text \<open>\<open>^[a-z0-9-]+:[A-Za-z][A-Za-z0-9]*$\<close>.\<close>

definition api_pattern :: "string \<Rightarrow> bool" where
  "api_pattern s =
     (case split_on (CHR '':'') s of
        [p, q] \<Rightarrow> p \<noteq> [] \<and> list_all (\<lambda>c. is_lower c \<or> is_digit c \<or> c = CHR ''-'') p \<and>
          ident_pattern is_letter is_alnum q
      | _ \<Rightarrow> False)"

definition reference_pattern :: "string \<Rightarrow> bool" where
  "reference_pattern s = (s \<noteq> [] \<and> length s \<le> 512 \<and> list_all (\<lambda>c. c \<noteq> CHR 0x0A \<and> c \<noteq> CHR 0x0D) s)"

definition owner_pattern :: "string \<Rightarrow> bool" where
  "owner_pattern s = (account_pattern s \<or> s = ''aws'')"

section \<open>Subjects\<close>

text \<open>Regional sources name their Region, global ones none; the scope of a known type is fixed.\<close>

definition canonical_scope_ok :: "string \<Rightarrow> string \<Rightarrow> resource_scope \<Rightarrow> bool" where
  "canonical_scope_ok service rtype scope =
     (case canonical_resource_scope service rtype of None \<Rightarrow> True | Some c \<Rightarrow> scope = c)"

definition aws_owned_types :: "(string \<times> string) list" where
  "aws_owned_types = [(''iam'', ''iam_aws_managed_policy''), (''iam'', ''iam_managed_policy_version'')]"

definition resource_owner_ok :: "string \<Rightarrow> string \<Rightarrow> string \<Rightarrow> bool" where
  "resource_owner_ok service rtype account =
     ((service = ''iam'' \<and> rtype = ''iam_aws_managed_policy'' \<longrightarrow> account = ''aws'') \<and>
      (account = ''aws'' \<longrightarrow> (service, rtype) \<in> set aws_owned_types))"

definition region_text :: "string option \<Rightarrow> string" where
  "region_text r = (case r of None \<Rightarrow> [] | Some s \<Rightarrow> s)"

text \<open>The parts of a resource identity that subjects and endpoints share.\<close>

definition resource_identity_ok ::
    "env \<Rightarrow> string \<Rightarrow> string \<Rightarrow> string \<Rightarrow> string \<Rightarrow> resource_scope \<Rightarrow> string option \<Rightarrow> uuid \<Rightarrow> bool" where
  "resource_identity_ok env account service rtype aws_id scope region sid =
     (owner_pattern account \<and> service_pattern service \<and> type_pattern rtype \<and> aws_id \<noteq> [] \<and>
      separator_free aws_id \<and> separator_free (region_text region) \<and> scope_region_ok scope region \<and>
      canonical_scope_ok service rtype scope \<and> resource_owner_ok service rtype account \<and>
      sid = stable_resource_id env ''aws'' account service rtype scope (region_text region) aws_id)"

definition resource_subject_ok :: "env \<Rightarrow> resource_subject \<Rightarrow> bool" where
  "resource_subject_ok env j =
     resource_identity_ok env (sj_account j) (sj_service j) (sj_type j) (sj_aws_id j) (sj_scope j)
       (sj_region j) (sj_stable_id j)"

definition subject_ok :: "env \<Rightarrow> subject \<Rightarrow> bool" where
  "subject_ok env j =
     (case j of
        AccountSubject account scope region \<Rightarrow> account_pattern account \<and> scope_region_ok scope region
      | ResourceSubject r \<Rightarrow> resource_subject_ok env r)"

definition trim_subject :: "subject \<Rightarrow> subject" where
  "trim_subject j =
     (case j of
        AccountSubject account scope region \<Rightarrow>
          AccountSubject (trim_text account) scope (map_option trim_text region)
      | ResourceSubject r \<Rightarrow>
          ResourceSubject (r\<lparr>sj_account := trim_text (sj_account r), sj_service := trim_text (sj_service r),
            sj_type := trim_text (sj_type r), sj_aws_id := trim_text (sj_aws_id r),
            sj_region := map_option trim_text (sj_region r)\<rparr>))"

definition make_subject :: "env \<Rightarrow> subject \<Rightarrow> subject option" where
  "make_subject env j = (let k = trim_subject j in if subject_ok env k then Some k else None)"

text \<open>\<open>subject_snapshot_id\<close> is the snapshot of the subject's resource in a scan.\<close>

definition subject_snapshot_id :: "env \<Rightarrow> uuid \<Rightarrow> resource_subject \<Rightarrow> uuid" where
  "subject_snapshot_id env scan r =
     resource_snapshot_id env scan (sj_account r) (sj_service r) (sj_type r) (sj_scope r)
       (region_text (sj_region r)) (sj_aws_id r)"

text \<open>\<open>ResourceEvidenceSubject.for_aws_resource\<close>.\<close>

definition subject_for_resource ::
    "env \<Rightarrow> uuid \<Rightarrow> string \<Rightarrow> string \<Rightarrow> string \<Rightarrow> string \<Rightarrow> resource_scope \<Rightarrow> string option \<Rightarrow> subject option" where
  "subject_for_resource env scan account service rtype aws_id scope region =
     make_subject env (ResourceSubject
       \<lparr>sj_account = account, sj_service = service, sj_type = rtype, sj_aws_id = aws_id, sj_scope = scope,
        sj_region = region,
        sj_stable_id = stable_resource_id env ''aws'' account service rtype scope (region_text region) aws_id,
        sj_snapshot_id = resource_snapshot_id env scan account service rtype scope (region_text region) aws_id\<rparr>)"

section \<open>Documents of subjects\<close>

definition optional_text :: "string option \<Rightarrow> json" where
  "optional_text x = (case x of None \<Rightarrow> JNull | Some s \<Rightarrow> JStr s)"

text \<open>\<open>subject.model_dump(mode="json")\<close>, in the order of the fields.\<close>

definition subject_document :: "subject \<Rightarrow> (string \<times> json) list" where
  "subject_document j =
     (case j of
        AccountSubject account scope region \<Rightarrow>
          [(''subject_kind'', JStr ''account''), (''provider'', JStr ''aws''),
           (''aws_account_id'', JStr account), (''scope'', JStr (scope_text scope)),
           (''region'', optional_text region)]
      | ResourceSubject r \<Rightarrow>
          [(''subject_kind'', JStr ''resource''), (''provider'', JStr ''aws''),
           (''aws_account_id'', JStr (sj_account r)), (''service'', JStr (sj_service r)),
           (''resource_type'', JStr (sj_type r)), (''aws_resource_id'', JStr (sj_aws_id r)),
           (''scope'', JStr (scope_text (sj_scope r))), (''region'', optional_text (sj_region r)),
           (''stable_resource_id'', JStr (uuid_text (sj_stable_id r))),
           (''resource_snapshot_id'', JStr (uuid_text (sj_snapshot_id r)))])"

text \<open>Typed fields of a JSON document: strict strings, a null or absent optional, enumerations.\<close>

fun text_field :: "json \<Rightarrow> string option" where
  "text_field (JStr s) = Some s"
| "text_field _ = None"

fun optional_text_field :: "json \<Rightarrow> string option option" where
  "optional_text_field JNull = Some None"
| "optional_text_field (JStr s) = Some (Some s)"
| "optional_text_field _ = None"

definition scope_of_text :: "string \<Rightarrow> resource_scope option" where
  "scope_of_text s =
     (if s = ''global'' then Some SCOPE_GLOBAL else if s = ''regional'' then Some SCOPE_REGIONAL else None)"

text \<open>A field with a Literal type and a default: absent or exactly its value.\<close>

definition literal_field :: "string \<Rightarrow> string \<Rightarrow> (string \<times> json) list \<Rightarrow> bool" where
  "literal_field k v d = (case map_of d k of None \<Rightarrow> True | Some x \<Rightarrow> x = JStr v)"

definition account_fields :: "string list" where
  "account_fields = [''subject_kind'', ''provider'', ''aws_account_id'', ''scope'', ''region'']"

definition resource_fields :: "string list" where
  "resource_fields =
     [''subject_kind'', ''provider'', ''aws_account_id'', ''service'', ''resource_type'', ''aws_resource_id'',
      ''scope'', ''region'', ''stable_resource_id'', ''resource_snapshot_id'']"

definition parse_account_subject :: "(string \<times> json) list \<Rightarrow> subject option" where
  "parse_account_subject d =
     (if set (map fst d) \<subseteq> set account_fields \<and> literal_field ''provider'' ''aws'' d
      then Option.bind (text_field (obj_get ''aws_account_id'' d)) (\<lambda>account.
           Option.bind (Option.bind (text_field (obj_get ''scope'' d)) scope_of_text) (\<lambda>scope.
           map_option (AccountSubject account scope) (optional_text_field (obj_get ''region'' d))))
      else None)"

definition uuid_field :: "json \<Rightarrow> uuid option" where
  "uuid_field j = Option.bind (text_field j) uuid_of_text"

definition parse_resource_subject :: "(string \<times> json) list \<Rightarrow> subject option" where
  "parse_resource_subject d =
     (if set (map fst d) \<subseteq> set resource_fields \<and> literal_field ''provider'' ''aws'' d
      then Option.bind (text_field (obj_get ''aws_account_id'' d)) (\<lambda>account.
           Option.bind (text_field (obj_get ''service'' d)) (\<lambda>service.
           Option.bind (text_field (obj_get ''resource_type'' d)) (\<lambda>rtype.
           Option.bind (text_field (obj_get ''aws_resource_id'' d)) (\<lambda>aws_id.
           Option.bind (Option.bind (text_field (obj_get ''scope'' d)) scope_of_text) (\<lambda>scope.
           Option.bind (optional_text_field (obj_get ''region'' d)) (\<lambda>region.
           Option.bind (uuid_field (obj_get ''stable_resource_id'' d)) (\<lambda>sid.
           map_option (\<lambda>snapshot. ResourceSubject
               \<lparr>sj_account = account, sj_service = service, sj_type = rtype, sj_aws_id = aws_id,
                sj_scope = scope, sj_region = region, sj_stable_id = sid, sj_snapshot_id = snapshot\<rparr>)
             (uuid_field (obj_get ''resource_snapshot_id'' d)))))))))
      else None)"

text \<open>\<open>_subject\<close> of app/database/evidence_graph.py.\<close>

definition subject_of_document :: "env \<Rightarrow> (string \<times> json) list \<Rightarrow> subject option" where
  "subject_of_document env d =
     (if obj_get ''subject_kind'' d = JStr ''account'' then Option.bind (parse_account_subject d) (make_subject env)
      else if obj_get ''subject_kind'' d = JStr ''resource''
      then Option.bind (parse_resource_subject d) (make_subject env)
      else None)"

section \<open>Outcomes\<close>

fun phase_text :: "collection_phase \<Rightarrow> string" where
  "phase_text DISCOVERY = ''DISCOVERY''"
| "phase_text ENRICHMENT = ''ENRICHMENT''"

definition source_outcome_namespace :: uuid where
  "source_outcome_namespace = 0x7906fb56bcb4528c939da1cc9bdccd70"

text \<open>The subject without its snapshot: one source keeps its identifier whatever it yields.\<close>

definition source_outcome_seed ::
    "uuid \<Rightarrow> string \<Rightarrow> collection_phase \<Rightarrow> subject \<Rightarrow> string \<Rightarrow> string \<Rightarrow> string \<Rightarrow> string \<Rightarrow> string" where
  "source_outcome_seed scan account phase j kind collector version api =
     canonical_text (JObj
       [(''collector'', JStr collector), (''collector_version'', JStr version),
        (''collection_account_id'', JStr account), (''evidence_kind'', JStr kind),
        (''phase'', JStr (phase_text phase)), (''scan_id'', JStr (uuid_text scan)),
        (''source_api'', JStr api),
        (''subject'', JObj (filter (\<lambda>kv. fst kv \<noteq> ''resource_snapshot_id'') (subject_document j)))])"

definition source_outcome_id ::
    "env \<Rightarrow> uuid \<Rightarrow> string \<Rightarrow> collection_phase \<Rightarrow> subject \<Rightarrow> string \<Rightarrow> string \<Rightarrow> string \<Rightarrow> string \<Rightarrow> uuid" where
  "source_outcome_id env scan account phase j kind collector version api =
     uuid5_of env source_outcome_namespace (source_outcome_seed scan account phase j kind collector version api)"

definition unavailable_categories :: "failure_category list" where
  "unavailable_categories =
     [FC_ACCESS_DENIED, FC_AUTHENTICATION_FAILED, FC_THROTTLED, FC_TIMEOUT, FC_SERVICE_ERROR,
      FC_UNSUPPORTED_OPERATION]"

fun failure_matches :: "source_state \<Rightarrow> failure_category option \<Rightarrow> bool" where
  "failure_matches ST_PRESENT c = (c = None)"
| "failure_matches ST_EXPECTED_ABSENCE c = (c = None)"
| "failure_matches ST_UNAVAILABLE c = (c \<in> Some ` set unavailable_categories)"
| "failure_matches ST_MALFORMED c = (c = Some FC_MALFORMED_RESPONSE)"
| "failure_matches ST_CONFLICT c = (c = Some FC_CONFLICTING_EVIDENCE)"
| "failure_matches ST_RESOURCE_DISAPPEARED c = (c = Some FC_RESOURCE_NOT_FOUND)"

text \<open>
  Discovery observes the collection account, enrichment one resource at its snapshot in the scan:
  what outcomes and declared sources have in common.
\<close>

definition phase_subject_ok :: "env \<Rightarrow> uuid \<Rightarrow> string \<Rightarrow> collection_phase \<Rightarrow> subject \<Rightarrow> bool" where
  "phase_subject_ok env scan account phase j =
     (case j of
        AccountSubject a _ _ \<Rightarrow> phase = DISCOVERY \<and> a = account
      | ResourceSubject r \<Rightarrow> phase = ENRICHMENT \<and> sj_snapshot_id r = subject_snapshot_id env scan r)"

definition outcome_ok :: "env \<Rightarrow> source_outcome \<Rightarrow> bool" where
  "outcome_ok env so =
     (account_pattern (so_account so) \<and> subject_ok env (so_subject so) \<and> kind_pattern (so_kind so) \<and>
      collector_pattern (so_collector so) \<and> version_pattern (so_collector_version so) \<and>
      api_pattern (so_api so) \<and> reference_pattern (so_reference so) \<and> sha256_pattern (so_sha so) \<and>
      phase_subject_ok env (so_scan_id so) (so_account so) (so_phase so) (so_subject so) \<and>
      failure_matches (so_state so) (so_failure so) \<and>
      (so_state so = ST_RESOURCE_DISAPPEARED \<longrightarrow> so_phase so = ENRICHMENT) \<and>
      so_id so = source_outcome_id env (so_scan_id so) (so_account so) (so_phase so) (so_subject so) (so_kind so)
        (so_collector so) (so_collector_version so) (so_api so))"

definition trim_outcome :: "source_outcome \<Rightarrow> source_outcome" where
  "trim_outcome so =
     so\<lparr>so_account := trim_text (so_account so), so_subject := trim_subject (so_subject so),
       so_kind := trim_text (so_kind so), so_collector := trim_text (so_collector so),
       so_collector_version := trim_text (so_collector_version so), so_api := trim_text (so_api so),
       so_reference := trim_text (so_reference so), so_sha := trim_text (so_sha so)\<rparr>"

definition make_outcome :: "env \<Rightarrow> source_outcome \<Rightarrow> source_outcome option" where
  "make_outcome env so = (let x = trim_outcome so in if outcome_ok env x then Some x else None)"

text \<open>\<open>SourceEvidenceOutcome.for_observation\<close>: the identifier of the given fields, then the validators.\<close>

definition outcome_for_observation :: "env \<Rightarrow> source_outcome \<Rightarrow> source_outcome option" where
  "outcome_for_observation env so =
     make_outcome env (so\<lparr>so_id := source_outcome_id env (so_scan_id so) (so_account so) (so_phase so)
       (so_subject so) (so_kind so) (so_collector so) (so_collector_version so) (so_api so)\<rparr>)"

section \<open>Facts\<close>

lemma map_option_trim_idem [simp]: "map_option trim_text (map_option trim_text x) = map_option trim_text x"
  by (cases x) simp_all

lemma trim_subject_idem [simp]: "trim_subject (trim_subject j) = trim_subject j"
  by (simp add: trim_subject_def split: subject.splits)

lemma trim_outcome_idem: "trim_outcome (trim_outcome so) = trim_outcome so"
  by (simp add: trim_outcome_def)

interpretation subjects: validated_model "make_subject env" trim_subject "subject_ok env" for env
  by unfold_locales (simp_all add: make_subject_def Let_def)

interpretation outcomes: validated_model "make_outcome env" trim_outcome "outcome_ok env" for env
  by unfold_locales (simp_all add: make_outcome_def Let_def trim_outcome_idem)

text \<open>A valid subject is read back from its document, when \<open>uuid5\<close> yields 128 bits.\<close>

lemma scope_of_scope_text [simp]: "scope_of_text (scope_text s) = Some s"
  by (cases s) (simp_all add: scope_of_text_def)

lemma optional_text_field_text [simp]: "optional_text_field (optional_text x) = Some x"
  by (cases x) (simp_all add: optional_text_def)

lemma uuid_field_text [simp]: "u < 2 ^ 128 \<Longrightarrow> uuid_field (JStr (uuid_text u)) = Some u"
  by (simp add: uuid_field_def uuid_of_text_uuid_text)

definition bounded_uuids :: "env \<Rightarrow> bool" where
  "bounded_uuids env = (\<forall>ns name. uuid5_of env ns name < 2 ^ 128)"

definition readable_subject :: "env \<Rightarrow> subject \<Rightarrow> bool" where
  "readable_subject env j =
     (subject_ok env j \<and> trim_subject j = j \<and>
      (case j of ResourceSubject r \<Rightarrow> sj_stable_id r < 2 ^ 128 \<and> sj_snapshot_id r < 2 ^ 128 | _ \<Rightarrow> True))"

lemma subject_of_document_document:
  assumes "readable_subject env j"
  shows "subject_of_document env (subject_document j) = Some j"
proof -
  have make: "make_subject env j = Some j"
    using assms subjects.make_fixed by (simp add: readable_subject_def)
  show ?thesis
  proof (cases j)
    case (AccountSubject account scope region)
    then show ?thesis using make
      by (simp add: subject_of_document_def subject_document_def parse_account_subject_def account_fields_def
          literal_field_def obj_get_def)
  next
    case (ResourceSubject r)
    then have u: "sj_stable_id r < 2 ^ 128" "sj_snapshot_id r < 2 ^ 128"
      using assms by (simp_all add: readable_subject_def)
    have "parse_resource_subject (subject_document j) = Some j"
      unfolding ResourceSubject
      by (simp add: subject_document_def parse_resource_subject_def resource_fields_def literal_field_def obj_get_def u
          del: power_numeral)
    then show ?thesis using make
      by (simp add: subject_of_document_def) (simp add: ResourceSubject subject_document_def obj_get_def)
  qed
qed

interpretation subject_documents: codec "readable_subject env" subject_document "subject_of_document env" for env
  by unfold_locales (rule subject_of_document_document)

text \<open>What the checks of an outcome say about a subject in a scan.\<close>

lemma phase_subject_readable:
  assumes "bounded_uuids env" "subject_ok env j" "trim_subject j = j" "phase_subject_ok env scan account phase j"
  shows "readable_subject env j"
proof (cases j)
  case (AccountSubject account' scope region)
  then show ?thesis using assms(2,3) by (simp add: readable_subject_def)
next
  case (ResourceSubject r)
  have b: "uuid5_of env ns name < 2 ^ 128" for ns name using assms(1) unfolding bounded_uuids_def by blast
  have "sj_stable_id r < 2 ^ 128"
    using assms(2) b unfolding ResourceSubject subject_ok_def
    by (simp only: subject.case resource_subject_ok_def resource_identity_ok_def stable_resource_id_def)
  moreover have "sj_snapshot_id r < 2 ^ 128"
    using assms(4) b unfolding ResourceSubject phase_subject_ok_def
    by (simp only: subject.case subject_snapshot_id_def resource_snapshot_id_def)
  ultimately show ?thesis using assms(2,3) unfolding readable_subject_def ResourceSubject
    by (simp only: subject.case)
qed

lemma outcome_subject_readable:
  assumes "bounded_uuids env" "make_outcome env x = Some so"
  shows "readable_subject env (so_subject so)"
proof -
  have so: "outcome_ok env so" "trim_outcome so = so" using outcomes.made_ok [OF assms(2)] by blast+
  have "so_subject (trim_outcome so) = trim_subject (so_subject so)" by (simp add: trim_outcome_def)
  then have "trim_subject (so_subject so) = so_subject so" unfolding so(2) by (rule sym)
  then show ?thesis using phase_subject_readable [OF assms(1)] so(1) unfolding outcome_ok_def by blast
qed

end
