(* ===== verification/Relationships.thy ===== *)
theory Relationships
  imports Source_Outcomes
begin

text \<open>
  app/assessment/relationships.py: the closed vocabulary of typed relationships and their
  directions, the endpoints (a stable identity, or a partial one with a reference of its own), the
  validators of a relationship, its identifiers, and the coalescing of duplicate observations.
\<close>

section \<open>Directions\<close>

type_synonym signature = "string \<times> string"

definition iam_identity_types :: "signature list" where
  "iam_identity_types = [(''iam'', ''iam_user''), (''iam'', ''iam_group''), (''iam'', ''iam_role'')]"

definition iam_boundary_types :: "signature list" where
  "iam_boundary_types = [(''iam'', ''iam_user''), (''iam'', ''iam_role'')]"

definition iam_managed_policy_types :: "signature list" where
  "iam_managed_policy_types = [(''iam'', ''iam_aws_managed_policy''), (''iam'', ''iam_customer_managed_policy'')]"

text \<open>The source types and the target types of a relationship; \<open>None\<close> admits every target type.\<close>

fun relationship_direction :: "relationship_type \<Rightarrow> signature list \<times> signature list option" where
  "relationship_direction RT_USES_VOLUME = ([(''ec2'', ''ec2_instance'')], Some [(''ec2'', ''ebs_volume'')])"
| "relationship_direction RT_ATTACHED_TO_SECURITY_GROUP =
     ([(''ec2'', ''ec2_instance'')], Some [(''ec2'', ''security_group'')])"
| "relationship_direction RT_IN_SUBNET = ([(''ec2'', ''ec2_instance'')], Some [(''ec2'', ''subnet'')])"
| "relationship_direction RT_IN_VPC =
     ([(''ec2'', ''ec2_instance''), (''ec2'', ''security_group'')], Some [(''ec2'', ''vpc'')])"
| "relationship_direction RT_CONTAINS_SUBNET = ([(''ec2'', ''vpc'')], Some [(''ec2'', ''subnet'')])"
| "relationship_direction RT_HAS_FLOW_LOG = ([(''ec2'', ''vpc'')], Some [(''ec2'', ''vpc_flow_log'')])"
| "relationship_direction RT_MEMBER_OF_GROUP = ([(''iam'', ''iam_user'')], Some [(''iam'', ''iam_group'')])"
| "relationship_direction RT_HAS_ACCESS_KEY = ([(''iam'', ''iam_user'')], Some [(''iam'', ''iam_access_key'')])"
| "relationship_direction RT_HAS_MFA_DEVICE = ([(''iam'', ''iam_user'')], Some [(''iam'', ''iam_mfa_device'')])"
| "relationship_direction RT_ATTACHED_MANAGED_POLICY = (iam_identity_types, Some iam_managed_policy_types)"
| "relationship_direction RT_ATTACHED_INLINE_POLICY = (iam_identity_types, Some [(''iam'', ''iam_inline_policy'')])"
| "relationship_direction RT_PERMISSIONS_BOUNDARY = (iam_boundary_types, Some iam_managed_policy_types)"
| "relationship_direction RT_SELECTS_DEFAULT_VERSION =
     (iam_managed_policy_types, Some [(''iam'', ''iam_managed_policy_version'')])"
| "relationship_direction RT_REFERENCES_RESOURCE = ([(''access-analyzer'', ''access_analyzer_finding'')], None)"
| "relationship_direction RT_ENCRYPTED_WITH =
     ([(''s3'', ''s3_bucket''), (''cloudtrail'', ''cloudtrail_trail'')], Some [(''kms'', ''kms_key'')])"
| "relationship_direction RT_DELIVERS_TO_BUCKET =
     ([(''cloudtrail'', ''cloudtrail_trail'')], Some [(''s3'', ''s3_bucket'')])"

fun relationship_type_text :: "relationship_type \<Rightarrow> string" where
  "relationship_type_text RT_USES_VOLUME = ''uses_volume''"
| "relationship_type_text RT_ATTACHED_TO_SECURITY_GROUP = ''attached_to_security_group''"
| "relationship_type_text RT_IN_SUBNET = ''in_subnet''"
| "relationship_type_text RT_IN_VPC = ''in_vpc''"
| "relationship_type_text RT_CONTAINS_SUBNET = ''contains_subnet''"
| "relationship_type_text RT_HAS_FLOW_LOG = ''has_flow_log''"
| "relationship_type_text RT_MEMBER_OF_GROUP = ''member_of_group''"
| "relationship_type_text RT_HAS_ACCESS_KEY = ''has_access_key''"
| "relationship_type_text RT_HAS_MFA_DEVICE = ''has_mfa_device''"
| "relationship_type_text RT_ATTACHED_MANAGED_POLICY = ''attached_managed_policy''"
| "relationship_type_text RT_ATTACHED_INLINE_POLICY = ''attached_inline_policy''"
| "relationship_type_text RT_PERMISSIONS_BOUNDARY = ''permissions_boundary''"
| "relationship_type_text RT_SELECTS_DEFAULT_VERSION = ''selects_default_version''"
| "relationship_type_text RT_REFERENCES_RESOURCE = ''references_resource''"
| "relationship_type_text RT_ENCRYPTED_WITH = ''encrypted_with''"
| "relationship_type_text RT_DELIVERS_TO_BUCKET = ''delivers_to_bucket''"

section \<open>Endpoints\<close>

definition endpoint_ok :: "env \<Rightarrow> endpoint \<Rightarrow> bool" where
  "endpoint_ok env e =
     resource_identity_ok env (ep_account e) (ep_service e) (ep_type e) (ep_aws_id e) (ep_scope e)
       (ep_region e) (ep_stable_id e)"

definition trim_endpoint :: "endpoint \<Rightarrow> endpoint" where
  "trim_endpoint e =
     e\<lparr>ep_account := trim_text (ep_account e), ep_service := trim_text (ep_service e),
       ep_type := trim_text (ep_type e), ep_aws_id := trim_text (ep_aws_id e),
       ep_region := map_option trim_text (ep_region e)\<rparr>"

definition make_endpoint :: "env \<Rightarrow> endpoint \<Rightarrow> endpoint option" where
  "make_endpoint env e = (let x = trim_endpoint e in if endpoint_ok env x then Some x else None)"

definition endpoint_snapshot_id :: "env \<Rightarrow> uuid \<Rightarrow> endpoint \<Rightarrow> uuid" where
  "endpoint_snapshot_id env scan e =
     resource_snapshot_id env scan (ep_account e) (ep_service e) (ep_type e) (ep_scope e)
       (region_text (ep_region e)) (ep_aws_id e)"

text \<open>\<open>RelationshipEndpoint.for_aws_resource\<close>: a snapshot only when the resource was observed.\<close>

definition endpoint_for_resource ::
    "env \<Rightarrow> string \<Rightarrow> string \<Rightarrow> string \<Rightarrow> string \<Rightarrow> resource_scope \<Rightarrow> string option \<Rightarrow> uuid option \<Rightarrow>
     endpoint option" where
  "endpoint_for_resource env account service rtype aws_id scope region observed =
     make_endpoint env
       \<lparr>ep_account = account, ep_service = service, ep_type = rtype, ep_aws_id = aws_id, ep_scope = scope,
        ep_region = region,
        ep_stable_id = stable_resource_id env ''aws'' account service rtype scope (region_text region) aws_id,
        ep_snapshot_id = map_option (\<lambda>scan. resource_snapshot_id env scan account service rtype scope
          (region_text region) aws_id) observed\<rparr>"

definition unresolved_namespace :: uuid where
  "unresolved_namespace = 0xd45bfac3cba35aa9b6c04bf094b39bcb"

definition unresolved_reference_id ::
    "env \<Rightarrow> string option \<Rightarrow> string \<Rightarrow> string \<Rightarrow> string \<Rightarrow> resource_scope option \<Rightarrow> string option \<Rightarrow> uuid" where
  "unresolved_reference_id env account service rtype aws_id scope region =
     uuid5_of env unresolved_namespace
       (canonical_text (JObj
         [(''aws_account_id'', optional_text account), (''aws_resource_id'', JStr aws_id),
          (''provider'', JStr ''aws''), (''region'', optional_text region), (''resource_type'', JStr rtype),
          (''scope'', optional_text (map_option scope_text scope)), (''service'', JStr service)]))"

text \<open>An identity that is complete must be an endpoint, so a partial target lacks a component.\<close>

definition identity_complete :: "string option \<Rightarrow> resource_scope option \<Rightarrow> string option \<Rightarrow> bool" where
  "identity_complete account scope region =
     (account \<noteq> None \<and> (scope = Some SCOPE_GLOBAL \<or> scope = Some SCOPE_REGIONAL \<and> region \<noteq> None))"

definition partial_ok :: "env \<Rightarrow> partial_target \<Rightarrow> bool" where
  "partial_ok env p =
     (pred_option owner_pattern (pt_account p) \<and> service_pattern (pt_service p) \<and> type_pattern (pt_type p) \<and>
      pt_aws_id p \<noteq> [] \<and> pt_region p \<noteq> Some [] \<and> separator_free (pt_aws_id p) \<and>
      separator_free (region_text (pt_region p)) \<and> \<not> (pt_scope p = Some SCOPE_GLOBAL \<and> pt_region p \<noteq> None) \<and>
      (case canonical_resource_scope (pt_service p) (pt_type p) of None \<Rightarrow> True | c \<Rightarrow> pt_scope p = c) \<and>
      \<not> (pt_region p \<noteq> None \<and> pt_scope p = None) \<and>
      pred_option (resource_owner_ok (pt_service p) (pt_type p)) (pt_account p) \<and>
      \<not> identity_complete (pt_account p) (pt_scope p) (pt_region p) \<and>
      pt_reference_id p = unresolved_reference_id env (pt_account p) (pt_service p) (pt_type p) (pt_aws_id p)
        (pt_scope p) (pt_region p))"

definition trim_partial :: "partial_target \<Rightarrow> partial_target" where
  "trim_partial p =
     p\<lparr>pt_account := map_option trim_text (pt_account p), pt_service := trim_text (pt_service p),
       pt_type := trim_text (pt_type p), pt_aws_id := trim_text (pt_aws_id p),
       pt_region := map_option trim_text (pt_region p)\<rparr>"

definition make_partial :: "env \<Rightarrow> partial_target \<Rightarrow> partial_target option" where
  "make_partial env p = (let x = trim_partial p in if partial_ok env x then Some x else None)"

text \<open>\<open>UnresolvedRelationshipTarget.for_aws_reference\<close>.\<close>

definition partial_for_reference ::
    "env \<Rightarrow> string \<Rightarrow> string \<Rightarrow> string \<Rightarrow> string option \<Rightarrow> resource_scope option \<Rightarrow> string option \<Rightarrow>
     partial_target option" where
  "partial_for_reference env service rtype aws_id account scope region =
     make_partial env
       \<lparr>pt_account = account, pt_service = service, pt_type = rtype, pt_aws_id = aws_id, pt_scope = scope,
        pt_region = region,
        pt_reference_id = unresolved_reference_id env account service rtype aws_id scope region\<rparr>"

definition provenance_ok :: "edge_provenance \<Rightarrow> bool" where
  "provenance_ok p =
     (collector_pattern (xp_collector p) \<and> version_pattern (xp_collector_version p) \<and> api_pattern (xp_api p) \<and>
      reference_pattern (xp_reference p))"

definition trim_provenance :: "edge_provenance \<Rightarrow> edge_provenance" where
  "trim_provenance p =
     p\<lparr>xp_collector := trim_text (xp_collector p), xp_collector_version := trim_text (xp_collector_version p),
       xp_api := trim_text (xp_api p), xp_reference := trim_text (xp_reference p)\<rparr>"

section \<open>Relationships\<close>

definition relationship_namespace :: uuid where
  "relationship_namespace = 0xa8ce7ebd11415bb8b82848e9a70174c4"

definition observation_namespace :: uuid where
  "observation_namespace = 0x1f23e82f4e5d5fa8b27a012eecebe2fb"

definition target_identity_text :: "relationship_target \<Rightarrow> string" where
  "target_identity_text t =
     (case t of
        StableTarget e \<Rightarrow> ''stable:'' @ uuid_text (ep_stable_id e)
      | PartialTarget p \<Rightarrow> ''unresolved:'' @ uuid_text (pt_reference_id p))"

definition relationship_id :: "env \<Rightarrow> uuid \<Rightarrow> relationship_type \<Rightarrow> relationship_target \<Rightarrow> uuid" where
  "relationship_id env source ty t =
     uuid5_of env relationship_namespace
       (join_with unit_separator [uuid_text source, relationship_type_text ty, target_identity_text t])"

definition observation_id :: "env \<Rightarrow> uuid \<Rightarrow> uuid \<Rightarrow> uuid" where
  "observation_id env scan rid =
     uuid5_of env observation_namespace (join_with unit_separator [uuid_text scan, uuid_text rid])"

definition target_signature :: "relationship_target \<Rightarrow> signature" where
  "target_signature t =
     (case t of StableTarget e \<Rightarrow> (ep_service e, ep_type e) | PartialTarget p \<Rightarrow> (pt_service p, pt_type p))"

definition target_owner :: "relationship_target \<Rightarrow> string option" where
  "target_owner t = (case t of StableTarget e \<Rightarrow> Some (ep_account e) | PartialTarget p \<Rightarrow> pt_account p)"

definition direction_ok :: "relationship \<Rightarrow> bool" where
  "direction_ok x =
     (let (sources, targets) = relationship_direction (xr_type x) in
      (ep_service (xr_source x), ep_type (xr_source x)) \<in> set sources \<and>
      pred_option (\<lambda>ts. target_signature (xr_target x) \<in> set ts) targets \<and>
      (xr_type x = RT_SELECTS_DEFAULT_VERSION \<longrightarrow>
         pred_option (\<lambda>owner. ep_account (xr_source x) = owner) (target_owner (xr_target x))))"

text \<open>A target has a snapshot exactly when it was resolved in the scan of the relationship.\<close>

definition resolution_ok :: "env \<Rightarrow> relationship \<Rightarrow> bool" where
  "resolution_ok env x =
     (case xr_target x of
        PartialTarget _ \<Rightarrow> xr_resolution x = RR_TARGET_IDENTITY_INCOMPLETE
      | StableTarget e \<Rightarrow>
          xr_resolution x \<noteq> RR_TARGET_IDENTITY_INCOMPLETE \<and>
          ep_snapshot_id e =
            (if xr_resolution x = RR_RESOLVED then Some (endpoint_snapshot_id env (xr_scan_id x) e) else None))"

definition relationship_ok :: "env \<Rightarrow> relationship \<Rightarrow> bool" where
  "relationship_ok env x =
     (account_pattern (xr_account x) \<and> endpoint_ok env (xr_source x) \<and> provenance_ok (xr_provenance x) \<and>
      (case xr_target x of
         StableTarget e \<Rightarrow> endpoint_ok env e \<and> ep_stable_id (xr_source x) \<noteq> ep_stable_id e
       | PartialTarget p \<Rightarrow> partial_ok env p) \<and>
      direction_ok x \<and>
      ep_snapshot_id (xr_source x) = Some (endpoint_snapshot_id env (xr_scan_id x) (xr_source x)) \<and>
      resolution_ok env x \<and>
      xr_relationship_id x = relationship_id env (ep_stable_id (xr_source x)) (xr_type x) (xr_target x) \<and>
      xr_observation_id x = observation_id env (xr_scan_id x) (xr_relationship_id x))"

definition trim_target :: "relationship_target \<Rightarrow> relationship_target" where
  "trim_target t =
     (case t of StableTarget e \<Rightarrow> StableTarget (trim_endpoint e) | PartialTarget p \<Rightarrow> PartialTarget (trim_partial p))"

definition trim_relationship :: "relationship \<Rightarrow> relationship" where
  "trim_relationship x =
     x\<lparr>xr_account := trim_text (xr_account x), xr_source := trim_endpoint (xr_source x),
       xr_target := trim_target (xr_target x), xr_provenance := trim_provenance (xr_provenance x)\<rparr>"

definition make_relationship :: "env \<Rightarrow> relationship \<Rightarrow> relationship option" where
  "make_relationship env x = (let y = trim_relationship x in if relationship_ok env y then Some y else None)"

text \<open>\<open>ResourceRelationship.for_observation\<close>: both identifiers from the given fields.\<close>

definition relationship_for_observation :: "env \<Rightarrow> relationship \<Rightarrow> relationship option" where
  "relationship_for_observation env x =
     (let rid = relationship_id env (ep_stable_id (xr_source x)) (xr_type x) (xr_target x)
      in make_relationship env
           (x\<lparr>xr_relationship_id := rid, xr_observation_id := observation_id env (xr_scan_id x) rid\<rparr>))"

definition is_resolved :: "relationship \<Rightarrow> bool" where
  "is_resolved x = (xr_resolution x = RR_RESOLVED)"

section \<open>Duplicates\<close>

text \<open>
  Records with one identifier coalesce when they are equal and are an error otherwise; the result
  is in the order of the identifiers. The order of \<open>uuid.hex\<close> is that of the numbers.
\<close>

fun coalesce :: "('a \<Rightarrow> uuid) \<Rightarrow> 'a list \<Rightarrow> 'a list \<Rightarrow> 'a list option" where
  "coalesce key seen [] = Some seen"
| "coalesce key seen (x # xs) =
     (case find_row key (key x) seen of
        None \<Rightarrow> coalesce key (seen @ [x]) xs
      | Some y \<Rightarrow> if y = x then coalesce key seen xs else None)"

definition deduplicate :: "('a \<Rightarrow> uuid) \<Rightarrow> 'a list \<Rightarrow> 'a list option" where
  "deduplicate key xs = map_option (sort_key key) (coalesce key [] xs)"

definition deduplicate_relationships :: "relationship list \<Rightarrow> relationship list option" where
  "deduplicate_relationships = deduplicate xr_observation_id"

section \<open>Facts\<close>

lemma trim_endpoint_idem [simp]: "trim_endpoint (trim_endpoint e) = trim_endpoint e"
  by (simp add: trim_endpoint_def)

lemma trim_partial_idem [simp]: "trim_partial (trim_partial p) = trim_partial p"
  by (simp add: trim_partial_def)

lemma trim_target_idem [simp]: "trim_target (trim_target t) = trim_target t"
  by (simp add: trim_target_def split: relationship_target.splits)

lemma trim_provenance_idem [simp]: "trim_provenance (trim_provenance p) = trim_provenance p"
  by (simp add: trim_provenance_def)

lemma trim_relationship_idem: "trim_relationship (trim_relationship x) = trim_relationship x"
  by (simp add: trim_relationship_def)

interpretation endpoints: validated_model "make_endpoint env" trim_endpoint "endpoint_ok env" for env
  by unfold_locales (simp_all add: make_endpoint_def Let_def)

interpretation partials: validated_model "make_partial env" trim_partial "partial_ok env" for env
  by unfold_locales (simp_all add: make_partial_def Let_def)

interpretation relationships: validated_model "make_relationship env" trim_relationship "relationship_ok env" for env
  by unfold_locales (simp_all add: make_relationship_def Let_def trim_relationship_idem)

text \<open>Coalescing keeps the records and leaves one per identifier; a canonical list is a fixed point.\<close>

lemma coalesce_Some:
  "coalesce key seen xs = Some ys \<Longrightarrow> distinct (map key seen) \<Longrightarrow>
   distinct (map key ys) \<and> set ys = set seen \<union> set xs"
proof (induction xs arbitrary: seen)
  case Nil
  then show ?case by simp
next
  case (Cons x xs)
  show ?case
  proof (cases "find_row key (key x) seen")
    case None
    then have "distinct (map key (seen @ [x]))" using Cons.prems(2) by (auto simp: find_row_None_iff)
    then show ?thesis using Cons.IH [of "seen @ [x]"] Cons.prems(1) None by simp
  next
    case (Some y)
    then have "y \<in> set seen" using find_row_Some by fastforce
    then show ?thesis using Cons.IH [of seen] Cons.prems Some by (auto split: if_splits)
  qed
qed

lemma coalesce_distinct:
  "distinct (map key (seen @ xs)) \<Longrightarrow> coalesce key seen xs = Some (seen @ xs)"
proof (induction xs arbitrary: seen)
  case Nil
  then show ?case by simp
next
  case (Cons x xs)
  then have "find_row key (key x) seen = None" by (auto simp: find_row_None_iff)
  then show ?case using Cons by simp
qed

lemma deduplicate_Some:
  assumes "deduplicate key xs = Some ys"
  shows "sorted (map key ys)" "distinct (map key ys)" "set ys = set xs"
proof -
  obtain zs where z: "coalesce key [] xs = Some zs" "ys = sort_key key zs"
    using assms by (auto simp: deduplicate_def)
  have zs: "distinct (map key zs)" "set zs = set xs" using coalesce_Some [OF z(1)] by simp_all
  show "sorted (map key ys)" unfolding z(2) by simp
  have "mset (map key ys) = mset (map key zs)" unfolding z(2) by (simp only: mset_map mset_sort)
  then show "distinct (map key ys)" using zs(1) by (metis mset_eq_imp_distinct_iff)
  show "set ys = set xs" unfolding z(2) using zs(2) by simp
qed

lemma deduplicate_canonical:
  assumes "sorted (map key xs)" "distinct (map key xs)"
  shows "deduplicate key xs = Some xs"
  using coalesce_distinct [of key "[]" xs] assms by (simp add: deduplicate_def sort_key_id_if_sorted)

lemma deduplicate_again: "deduplicate key xs = Some ys \<Longrightarrow> deduplicate key ys = Some ys"
  using deduplicate_Some deduplicate_canonical by metis

end
