(* ===== verification/Source_Contracts.thy ===== *)
theory Source_Contracts
  imports Relationships
begin

text \<open>
  app/assessment/evidence_graph.py, declared sources (\<open>ScanSourceContract\<close>) and normalized artifacts
  (\<open>SourceEvidenceArtifact\<close>): their validators, identifiers and digests.
\<close>

section \<open>Declared sources\<close>

fun cardinality_text :: "cardinality \<Rightarrow> string" where
  "cardinality_text CARD_SINGLE = ''SINGLE''"
| "cardinality_text CARD_COLLECTION = ''COLLECTION''"

definition cardinality_of_text :: "string \<Rightarrow> cardinality option" where
  "cardinality_of_text s =
     (if s = ''SINGLE'' then Some CARD_SINGLE else if s = ''COLLECTION'' then Some CARD_COLLECTION else None)"

fun owner_mode_text :: "owner_mode \<Rightarrow> string" where
  "owner_mode_text OWN_COLLECTION_ACCOUNT = ''COLLECTION_ACCOUNT''"
| "owner_mode_text OWN_AWS_MANAGED = ''AWS_MANAGED''"
| "owner_mode_text OWN_EXTERNAL_ACCOUNT = ''EXTERNAL_ACCOUNT''"

definition owner_mode_of_text :: "string \<Rightarrow> owner_mode option" where
  "owner_mode_of_text s =
     (if s = ''COLLECTION_ACCOUNT'' then Some OWN_COLLECTION_ACCOUNT
      else if s = ''AWS_MANAGED'' then Some OWN_AWS_MANAGED
      else if s = ''EXTERNAL_ACCOUNT'' then Some OWN_EXTERNAL_ACCOUNT else None)"

definition expected_owner_mode :: "string \<Rightarrow> subject \<Rightarrow> owner_mode" where
  "expected_owner_mode account j =
     (case j of
        AccountSubject _ _ _ \<Rightarrow> OWN_COLLECTION_ACCOUNT
      | ResourceSubject r \<Rightarrow>
          if sj_account r = ''aws'' then OWN_AWS_MANAGED
          else if sj_account r \<noteq> account then OWN_EXTERNAL_ACCOUNT else OWN_COLLECTION_ACCOUNT)"

text \<open>\<open>value.removeprefix(prefix)\<close> with the test of the digest that follows it.\<close>

definition digest_after :: "string \<Rightarrow> string \<Rightarrow> bool" where
  "digest_after pre s = (starts_with pre s \<and> sha256_pattern (drop (length pre) s))"

definition access_analyzer_discovery :: "source_contract \<Rightarrow> bool" where
  "access_analyzer_discovery d =
     (case sd_subject d of
        AccountSubject _ scope _ \<Rightarrow>
          scope = SCOPE_REGIONAL \<and> sd_version d = ''1.0.0'' \<and>
          (sd_key d = ''access-analyzer.analyzers.discovery'' \<and> sd_kind d = sd_key d \<and>
             sd_collector d = ''access-analyzer.analyzers'' \<and> sd_api d = ''access-analyzer:ListAnalyzers'' \<or>
           sd_key d = sd_kind d \<and> digest_after ''access-analyzer.findings.discovery.'' (sd_kind d) \<and>
             sd_collector d = ''access-analyzer.findings'' \<and> sd_api d = ''access-analyzer:ListFindings'')
      | ResourceSubject _ \<Rightarrow> False)"

text \<open>The closed sources of CloudTrail: collector, API, phase, cardinality, authority.\<close>

definition cloudtrail_sources ::
    "(string \<times> string \<times> string \<times> collection_phase \<times> cardinality \<times> bool) list" where
  "cloudtrail_sources =
     [(''cloudtrail.trails.discovery'', ''cloudtrail.trails'', ''cloudtrail:ListTrails'', DISCOVERY, CARD_COLLECTION, False),
      (''cloudtrail.trail.identity'', ''cloudtrail.trails'', ''cloudtrail:ListTrails'', ENRICHMENT, CARD_SINGLE, True),
      (''cloudtrail.trail.configuration'', ''cloudtrail.trail-configuration'', ''cloudtrail:GetTrail'',
         ENRICHMENT, CARD_SINGLE, False),
      (''cloudtrail.trail.status'', ''cloudtrail.trail-status'', ''cloudtrail:GetTrailStatus'', ENRICHMENT, CARD_SINGLE, False),
      (''cloudtrail.trail.event-selectors'', ''cloudtrail.trail-event-selectors'', ''cloudtrail:GetEventSelectors'',
         ENRICHMENT, CARD_SINGLE, False),
      (''cloudtrail.trail.tags'', ''cloudtrail.trail-tags'', ''cloudtrail:ListTags'', ENRICHMENT, CARD_SINGLE, False)]"

definition cloudtrail_resource_kinds :: "string list" where
  "cloudtrail_resource_kinds = filter (\<lambda>k. k \<noteq> ''cloudtrail.trails.discovery'') (map fst cloudtrail_sources)"

definition cloudtrail_enrichment_kinds :: "string list" where
  "cloudtrail_enrichment_kinds = filter (\<lambda>k. k \<noteq> ''cloudtrail.trail.identity'') cloudtrail_resource_kinds"

definition cloudtrail_external_enrichment :: "source_contract \<Rightarrow> bool" where
  "cloudtrail_external_enrichment d =
     (sd_kind d \<in> set cloudtrail_enrichment_kinds \<and>
      (case map_of cloudtrail_sources (sd_kind d) of
         None \<Rightarrow> False
       | Some (collector, api, phase, cty, auth) \<Rightarrow>
           sd_phase d = phase \<and> sd_cardinality d = cty \<and> sd_collector d = collector \<and>
           sd_version d = ''1.0.0'' \<and> sd_api d = api) \<and>
      sd_key d = sd_kind d \<and> sd_contract_version d = ''1.0.0'' \<and>
      (case sd_subject d of
         ResourceSubject r \<Rightarrow>
           sj_service r = ''cloudtrail'' \<and> sj_type r = ''cloudtrail_trail'' \<and> sj_scope r = SCOPE_REGIONAL
       | AccountSubject _ _ _ \<Rightarrow> False) \<and>
      sd_owner_mode d = OWN_EXTERNAL_ACCOUNT \<and> \<not> sd_authoritative d \<and> \<not> sd_supplemental d)"

definition contract_key_pattern :: "string \<Rightarrow> bool" where
  "contract_key_pattern s = (length s \<le> 128 \<and> kind_pattern s)"

definition contract_ok :: "env \<Rightarrow> source_contract \<Rightarrow> bool" where
  "contract_ok env d =
     (contract_key_pattern (sd_key d) \<and> version_pattern (sd_contract_version d) \<and> account_pattern (sd_account d) \<and>
      subject_ok env (sd_subject d) \<and> kind_pattern (sd_kind d) \<and> collector_pattern (sd_collector d) \<and>
      version_pattern (sd_version d) \<and> api_pattern (sd_api d) \<and>
      phase_subject_ok env (sd_scan_id d) (sd_account d) (sd_phase d) (sd_subject d) \<and>
      sd_owner_mode d = expected_owner_mode (sd_account d) (sd_subject d) \<and>
      (sd_owner_mode d \<noteq> OWN_COLLECTION_ACCOUNT \<longrightarrow>
         sd_authoritative d \<or> cloudtrail_external_enrichment d) \<and>
      (sd_phase d = DISCOVERY \<and> sd_supplemental d \<longrightarrow> access_analyzer_discovery d) \<and>
      sd_outcome_id d = source_outcome_id env (sd_scan_id d) (sd_account d) (sd_phase d) (sd_subject d)
        (sd_kind d) (sd_collector d) (sd_version d) (sd_api d))"

definition trim_contract :: "source_contract \<Rightarrow> source_contract" where
  "trim_contract d =
     d\<lparr>sd_key := trim_text (sd_key d), sd_contract_version := trim_text (sd_contract_version d),
       sd_account := trim_text (sd_account d), sd_subject := trim_subject (sd_subject d),
       sd_kind := trim_text (sd_kind d), sd_collector := trim_text (sd_collector d),
       sd_version := trim_text (sd_version d), sd_api := trim_text (sd_api d)\<rparr>"

definition make_contract :: "env \<Rightarrow> source_contract \<Rightarrow> source_contract option" where
  "make_contract env d = (let x = trim_contract d in if contract_ok env x then Some x else None)"

text \<open>\<open>ScanSourceContract.for_scan\<close>.\<close>

definition contract_for_scan :: "env \<Rightarrow> source_contract \<Rightarrow> source_contract option" where
  "contract_for_scan env d =
     make_contract env (d\<lparr>sd_outcome_id := source_outcome_id env (sd_scan_id d) (sd_account d) (sd_phase d)
       (sd_subject d) (sd_kind d) (sd_collector d) (sd_version d) (sd_api d)\<rparr>)"

definition matches_outcome :: "source_contract \<Rightarrow> source_outcome \<Rightarrow> bool" where
  "matches_outcome d so =
     (so_id so = sd_outcome_id d \<and> so_scan_id so = sd_scan_id d \<and> so_account so = sd_account d \<and>
      so_phase so = sd_phase d \<and> so_subject so = sd_subject d \<and> so_kind so = sd_kind d \<and>
      so_collector so = sd_collector d \<and> so_collector_version so = sd_version d \<and> so_api so = sd_api d)"

section \<open>Artifacts\<close>

text \<open>
  \<open>key.casefold()\<close> reduced to letters and digits: of the characters below 256 only the capital
  letters and the sharp s have a case folding with ASCII letters.
\<close>

definition folded_key :: "string \<Rightarrow> string" where
  "folded_key k =
     concat (map (\<lambda>c.
       let n = of_char c :: nat in
       if is_lower c \<or> is_digit c then [c] else if is_upper c then [char_of (n + 32)]
       else if n = 223 then ''ss'' else []) k)"

definition sensitive_keys :: "string list" where
  "sensitive_keys =
     [''accesskeyid'', ''accesstoken'', ''authorization'', ''authorizationtoken'', ''authtoken'',
      ''awsaccesskeyid'', ''awssecretaccesskey'', ''awssecuritytoken'', ''awssessiontoken'',
      ''clientsecret'', ''idtoken'', ''password'', ''privatekey'', ''refreshtoken'', ''secretaccesskey'',
      ''secretkey'', ''securitytoken'', ''sessiontoken'']"

fun sensitive_free :: "json \<Rightarrow> bool" where
  "sensitive_free (JObj kvs) =
     list_all (\<lambda>(k, v). folded_key k \<notin> set sensitive_keys \<and> sensitive_free v) kvs"
| "sensitive_free (JList xs) = list_all sensitive_free xs"
| "sensitive_free _ = True"

definition artifact_namespace :: uuid where
  "artifact_namespace = 0xa524b9a2bd8757f0831703e43a36e260"

definition graph_artifact_id :: "env \<Rightarrow> uuid \<Rightarrow> string \<Rightarrow> uuid" where
  "graph_artifact_id env scan reference =
     uuid5_of env artifact_namespace
       (canonical_text (JObj [(''evidence_reference'', JStr reference), (''scan_id'', JStr (uuid_text scan))]))"

definition normalized_reference :: "string \<Rightarrow> bool" where
  "normalized_reference s =
     (14 \<le> length s \<and> length s \<le> 512 \<and> starts_with ''normalized://'' s \<and>
      list_all (\<lambda>c. c \<noteq> CHR 0x0A \<and> c \<noteq> CHR 0x0D) s)"

definition graph_artifact_ok :: "env \<Rightarrow> graph_artifact \<Rightarrow> bool" where
  "graph_artifact_ok env a =
     (account_pattern (ga_account a) \<and> normalized_reference (ga_reference a) \<and> sha256_pattern (ga_sha a) \<and>
      length (ga_schema a) \<le> 128 \<and> kind_pattern (ga_schema a) \<and> version_pattern (ga_schema_version a) \<and>
      is_obj (ga_payload a) \<and> sensitive_free (ga_payload a) \<and>
      ga_id a = graph_artifact_id env (ga_scan_id a) (ga_reference a) \<and>
      ga_sha a = json_digest env (ga_payload a))"

text \<open>Texts are stripped and the payload takes its canonical form, which freezes it.\<close>

definition trim_graph_artifact :: "graph_artifact \<Rightarrow> graph_artifact" where
  "trim_graph_artifact a =
     a\<lparr>ga_account := trim_text (ga_account a), ga_reference := trim_text (ga_reference a),
       ga_sha := trim_text (ga_sha a), ga_schema := trim_text (ga_schema a),
       ga_schema_version := trim_text (ga_schema_version a), ga_payload := canon (ga_payload a)\<rparr>"

definition make_graph_artifact :: "env \<Rightarrow> graph_artifact \<Rightarrow> graph_artifact option" where
  "make_graph_artifact env a =
     (let x = trim_graph_artifact a in if graph_artifact_ok env x then Some x else None)"

text \<open>\<open>SourceEvidenceArtifact.for_payload\<close>.\<close>

definition artifact_for_payload :: "env \<Rightarrow> graph_artifact \<Rightarrow> graph_artifact option" where
  "artifact_for_payload env a =
     make_graph_artifact env (a\<lparr>ga_id := graph_artifact_id env (ga_scan_id a) (ga_reference a),
       ga_sha := json_digest env (ga_payload a)\<rparr>)"

text \<open>\<open>contract.model_dump(mode="json")\<close>.\<close>

definition contract_document :: "source_contract \<Rightarrow> json" where
  "contract_document d =
     JObj [(''contract_key'', JStr (sd_key d)), (''contract_version'', JStr (sd_contract_version d)),
           (''source_outcome_id'', JStr (uuid_text (sd_outcome_id d))), (''scan_id'', JStr (uuid_text (sd_scan_id d))),
           (''collection_account_id'', JStr (sd_account d)), (''phase'', JStr (phase_text (sd_phase d))),
           (''subject'', JObj (subject_document (sd_subject d))), (''evidence_kind'', JStr (sd_kind d)),
           (''collector'', JStr (sd_collector d)), (''collector_version'', JStr (sd_version d)),
           (''source_api'', JStr (sd_api d)), (''cardinality'', JStr (cardinality_text (sd_cardinality d))),
           (''owner_mode'', JStr (owner_mode_text (sd_owner_mode d))),
           (''identity_authoritative'', JBool (sd_authoritative d)),
           (''allows_supplemental_region'', JBool (sd_supplemental d)), (''schema_version'', JStr ''1.0.0'')]"

section \<open>Facts\<close>

lemma trim_contract_idem: "trim_contract (trim_contract d) = trim_contract d"
  by (simp add: trim_contract_def)

lemma trim_graph_artifact_idem: "trim_graph_artifact (trim_graph_artifact a) = trim_graph_artifact a"
  by (simp add: trim_graph_artifact_def)

interpretation contracts: validated_model "make_contract env" trim_contract "contract_ok env" for env
  by unfold_locales (simp_all add: make_contract_def Let_def trim_contract_idem)

interpretation graph_artifacts: validated_model "make_graph_artifact env" trim_graph_artifact "graph_artifact_ok env" for env
  by unfold_locales (simp_all add: make_graph_artifact_def Let_def trim_graph_artifact_idem)

end
