(* ===== verification/Source_Payloads.thy ===== *)
theory Source_Payloads
  imports Source_Contracts
begin

text \<open>
  What the validators of app/assessment/evidence_graph.py and app/collectors/base.py share when they
  read a normalized payload: equality of Python values, texts, exact key sets, sorted lists, Regions,
  ARNs, the artifact that an outcome cites and the completion attestation. A check that raises
  (ValueError, TypeError or KeyError) is \<open>False\<close> or \<open>None\<close>.
\<close>

section \<open>Values\<close>

text \<open>\<open>==\<close> on JSON values: dicts without order, and a bool equals the integer it is.\<close>

fun unbool :: "json \<Rightarrow> json" where
  "unbool (JBool b) = JInt (if b then 1 else 0)"
| "unbool (JList xs) = JList (map unbool xs)"
| "unbool (JObj kvs) = JObj (map (\<lambda>(k, v). (k, unbool v)) kvs)"
| "unbool j = j"

definition json_eq :: "json \<Rightarrow> json \<Rightarrow> bool" where
  "json_eq a b = (canon (unbool a) = canon (unbool b))"

definition is_bool :: "json \<Rightarrow> bool" where
  "is_bool j = (case j of JBool _ \<Rightarrow> True | _ \<Rightarrow> False)"

definition is_list :: "json \<Rightarrow> bool" where
  "is_list j = (case j of JList _ \<Rightarrow> True | _ \<Rightarrow> False)"

fun list_items :: "json \<Rightarrow> json list" where
  "list_items (JList xs) = xs"
| "list_items _ = []"

definition null_or :: "(json \<Rightarrow> bool) \<Rightarrow> json \<Rightarrow> bool" where
  "null_or ok j = (j = JNull \<or> ok j)"

text \<open>A JSON object with exactly these keys.\<close>

definition has_keys :: "string list \<Rightarrow> json \<Rightarrow> bool" where
  "has_keys ks j = (is_obj j \<and> set (json_keys j) = set ks)"

text \<open>The separators that no retained identity may hold; \<open>_is_safe_non_empty_string\<close>.\<close>

definition separators_free :: "string \<Rightarrow> bool" where
  "separators_free s = list_all (\<lambda>c. of_char c \<notin> {0, 10, 13, 31 :: nat}) s"

fun nonempty_text :: "json \<Rightarrow> bool" where
  "nonempty_text (JStr s) = (s \<noteq> [])"
| "nonempty_text _ = False"

fun safe_text :: "json \<Rightarrow> bool" where
  "safe_text (JStr s) = (s \<noteq> [] \<and> separators_free s)"
| "safe_text _ = False"

text \<open>A list of texts equal to \<open>sorted(set(...))\<close> of itself.\<close>

definition texts_of :: "json \<Rightarrow> string list option" where
  "texts_of j = (case j of JList xs \<Rightarrow> those (map text_field xs) | _ \<Rightarrow> None)"

definition sorted_texts_of :: "json \<Rightarrow> string list option" where
  "sorted_texts_of j =
     (case texts_of j of None \<Rightarrow> None | Some ts \<Rightarrow> if sorted_wrt (<) ts then Some ts else None)"

text \<open>Objects in the strict order of their canonical text.\<close>

definition canonical_objects :: "json list \<Rightarrow> bool" where
  "canonical_objects xs = sorted_wrt (<) (map canonical_text xs)"

section \<open>Regions and ARNs\<close>

text \<open>\<open>value.split(separator, n)\<close>.\<close>

fun split_max :: "char \<Rightarrow> nat \<Rightarrow> string \<Rightarrow> string list" where
  "split_max c 0 s = [s]"
| "split_max c (Suc n) s =
     (if c \<in> set s then takeWhile (\<lambda>x. x \<noteq> c) s # split_max c n (tl (dropWhile (\<lambda>x. x \<noteq> c) s)) else [s])"

definition lower_or_digit :: "char \<Rightarrow> bool" where
  "lower_or_digit c = (is_lower c \<or> is_digit c)"

text \<open>\<open>^[a-z0-9]+(?:-[a-z0-9]+)+-[0-9]+$\<close> and \<open>aws(?:-[a-z0-9]+)*\<close>.\<close>

definition aws_region_text :: "string \<Rightarrow> bool" where
  "aws_region_text s =
     (let ps = split_on (CHR ''-'') s
      in 3 \<le> length ps \<and> list_all (\<lambda>p. p \<noteq> [] \<and> list_all lower_or_digit p) ps \<and> list_all is_digit (last ps))"

definition aws_partition_text :: "string \<Rightarrow> bool" where
  "aws_partition_text s =
     (let ps = split_on (CHR ''-'') s
      in hd ps = ''aws'' \<and> list_all (\<lambda>p. p \<noteq> [] \<and> list_all lower_or_digit p) (tl ps))"

definition valid_region :: "json \<Rightarrow> bool" where
  "valid_region j = (case j of JStr s \<Rightarrow> aws_region_text s \<and> separators_free s | _ \<Rightarrow> False)"

text \<open>The name of an ARN with six parts and the resource prefix: partition, Region, owner, name.\<close>

type_synonym arn_parts = "string \<times> string \<times> string \<times> string"

definition parse_arn :: "string \<Rightarrow> string \<Rightarrow> (string \<Rightarrow> bool) \<Rightarrow> string \<Rightarrow> arn_parts option" where
  "parse_arn service pre name_ok value =
     (case split_max (CHR '':'') 5 value of
        [a, part, svc, region, owner, res] \<Rightarrow>
          let name = drop (length pre) res in
          if a = ''arn'' \<and> aws_partition_text part \<and> svc = service \<and> valid_region (JStr region) \<and>
             account_pattern owner \<and> starts_with pre res \<and> name_ok name
          then Some (part, region, owner, name) else None
      | _ \<Rightarrow> None)"

text \<open>\<open>_parse_kms_key_arn\<close>.\<close>

definition parse_kms_key_arn :: "json \<Rightarrow> arn_parts option" where
  "parse_kms_key_arn j =
     (case j of
        JStr value \<Rightarrow> parse_arn ''kms'' ''key/'' (\<lambda>name. safe_text (JStr name)) value
      | _ \<Rightarrow> None)"

section \<open>Sources and their artifacts\<close>

definition complete_state :: "source_state \<Rightarrow> bool" where
  "complete_state s = (s \<in> {ST_PRESENT, ST_EXPECTED_ABSENCE})"

fun failure_text :: "failure_category \<Rightarrow> string" where
  "failure_text FC_ACCESS_DENIED = ''ACCESS_DENIED''"
| "failure_text FC_AUTHENTICATION_FAILED = ''AUTHENTICATION_FAILED''"
| "failure_text FC_THROTTLED = ''THROTTLED''"
| "failure_text FC_TIMEOUT = ''TIMEOUT''"
| "failure_text FC_SERVICE_ERROR = ''SERVICE_ERROR''"
| "failure_text FC_UNSUPPORTED_OPERATION = ''UNSUPPORTED_OPERATION''"
| "failure_text FC_MALFORMED_RESPONSE = ''MALFORMED_RESPONSE''"
| "failure_text FC_CONFLICTING_EVIDENCE = ''CONFLICTING_EVIDENCE''"
| "failure_text FC_RESOURCE_NOT_FOUND = ''RESOURCE_NOT_FOUND''"

definition failure_attested :: "source_outcome \<Rightarrow> json \<Rightarrow> bool" where
  "failure_attested so p =
     (jget ''failure_category'' p = optional_text (map_option failure_text (so_failure so)))"

text \<open>\<open>_validate_s3_completion_metadata\<close> and \<open>_validate_source_completion_metadata\<close>.\<close>

definition completion_attested :: "source_outcome \<Rightarrow> json \<Rightarrow> bool" where
  "completion_attested so p =
     (jget ''complete'' p = JBool (complete_state (so_state so)) \<and> failure_attested so p)"

text \<open>The dict of artifacts by reference: ambiguous references raise.\<close>

definition unique_references :: "graph_artifact list \<Rightarrow> bool" where
  "unique_references as = distinct (map ga_reference as)"

text \<open>\<open>_matching_s3_artifact\<close>, \<open>_cloudtrail_payload\<close>, \<open>_require_matching_source_artifact\<close>: the payload.\<close>

definition cited_payload :: "graph_artifact list \<Rightarrow> string \<Rightarrow> source_outcome \<Rightarrow> json option" where
  "cited_payload as schema so =
     (case find_row ga_reference (so_reference so) as of
        None \<Rightarrow> None
      | Some a \<Rightarrow>
          if ga_schema a = schema \<and> ga_schema_version a = ''1.0.0'' \<and> ga_scan_id a = so_scan_id so \<and>
             ga_account a = so_account so \<and> ga_collected_at a = so_collected_at so \<and> ga_sha a = so_sha so \<and>
             is_obj (ga_payload a)
          then Some (ga_payload a) else None)"

definition resource_of :: "source_outcome \<Rightarrow> resource_subject option" where
  "resource_of so = (case so_subject so of ResourceSubject r \<Rightarrow> Some r | _ \<Rightarrow> None)"

text \<open>The collection account as the subject, in the global scope.\<close>

definition global_account_source :: "source_outcome \<Rightarrow> bool" where
  "global_account_source so =
     (case so_subject so of
        AccountSubject account scope _ \<Rightarrow> account = so_account so \<and> scope = SCOPE_GLOBAL
      | ResourceSubject _ \<Rightarrow> False)"

text \<open>A resource of a Regional type.\<close>

definition regional_resource :: "string \<Rightarrow> string \<Rightarrow> resource_subject \<Rightarrow> bool" where
  "regional_resource service rtype r =
     (sj_service r = service \<and> sj_type r = rtype \<and> sj_scope r = SCOPE_REGIONAL)"

section \<open>Facts\<close>

text \<open>A comprehension whose body may raise.\<close>

lemma those_map_Some:
  "those (map f xs) = Some ys \<longleftrightarrow> list_all2 (\<lambda>x y. f x = Some y) xs ys"
  by (induction xs arbitrary: ys) (auto simp: list_all2_Cons1 split: option.splits)

lemma those_map_fixed: "(\<And>x. x \<in> set xs \<Longrightarrow> f x = Some x) \<Longrightarrow> those (map f xs) = Some xs"
  by (induction xs) simp_all

lemma those_map_in:
  assumes "those (map f xs) = Some ys" "y \<in> set ys"
  obtains x where "x \<in> set xs" "f x = Some y"
proof -
  have "list_all2 (\<lambda>x y. f x = Some y) xs ys" using assms(1) by (simp add: those_map_Some)
  then have "\<exists>x\<in>set xs. f x = Some y" using assms(2)
    by (induction rule: list_all2_induct) auto
  then show thesis using that by blast
qed

lemma those_map_again:
  assumes "those (map f xs) = Some ys" "\<And>x y. f x = Some y \<Longrightarrow> f y = Some y" "y \<in> set ys"
  shows "f y = Some y"
  using those_map_in [OF assms(1,3)] assms(2) by metis

lemma cited_payload_Some:
  assumes "cited_payload as schema so = Some p"
  obtains a where "a \<in> set as" "ga_reference a = so_reference so" "ga_sha a = so_sha so" "ga_payload a = p"
    "ga_schema a = schema"
  using assms that find_row_Some by (fastforce simp: cited_payload_def split: option.splits if_splits)

lemma sorted_texts_of_distinct: "sorted_texts_of j = Some ts \<Longrightarrow> distinct ts"
  using sorted_wrt_strict_distinct by (auto simp: sorted_texts_of_def split: option.splits if_splits)

end
