(* ===== verification/S3_Values.thy ===== *)
theory S3_Values
  imports Source_Payloads
begin

text \<open>
  The normalized values of the S3 and KMS sources in app/assessment/evidence_graph.py: one predicate
  per source, the states in which a value may be retained, and the coherence of the policy and ACL
  sources, whose contradictions must be retained as conflicts.
\<close>

section \<open>Values of one source\<close>

definition object_of :: "string list \<Rightarrow> (json \<Rightarrow> bool) \<Rightarrow> json \<Rightarrow> bool" where
  "object_of ks ok v = (has_keys ks v \<and> list_all (\<lambda>k. ok (jget k v)) ks)"

definition one_of :: "string list \<Rightarrow> json \<Rightarrow> bool" where
  "one_of xs j = (j \<in> JStr ` set xs)"

definition s3_tag_ok :: "json \<Rightarrow> bool" where
  "s3_tag_ok v = (has_keys [''key'', ''value''] v \<and> nonempty_text (jget ''key'' v) \<and> is_str (jget ''value'' v))"

text \<open>Distinct keys in their order.\<close>

definition s3_tags_ok :: "json \<Rightarrow> bool" where
  "s3_tags_ok v =
     (is_list v \<and> list_all s3_tag_ok (list_items v) \<and>
      sorted_texts_of (JList (map (jget ''key'') (list_items v))) \<noteq> None)"

definition public_access_block_fields :: "string list" where
  "public_access_block_fields = [''BlockPublicAcls'', ''IgnorePublicAcls'', ''BlockPublicPolicy'', ''RestrictPublicBuckets'']"

definition s3_public_access_block_ok :: "json \<Rightarrow> bool" where
  "s3_public_access_block_ok v = object_of public_access_block_fields is_bool v"

definition s3_policy_status_ok :: "json \<Rightarrow> bool" where
  "s3_policy_status_ok v = object_of [''policy_present'', ''is_public''] is_bool v"

text \<open>The fields of a grantee by its type.\<close>

definition grantee_fields :: "(string \<times> string list list) list" where
  "grantee_fields =
     [(''CanonicalUser'', [[''type'', ''id''], [''type'', ''id'', ''display_name'']]),
      (''AmazonCustomerByEmail'', [[''type'', ''email_address'']]), (''Group'', [[''type'', ''uri'']])]"

definition grantee_ok :: "json \<Rightarrow> bool" where
  "grantee_ok v =
     (case jget ''type'' v of
        JStr ty \<Rightarrow>
          (case map_of grantee_fields ty of
             None \<Rightarrow> False
           | Some shapes \<Rightarrow> list_ex (\<lambda>ks. has_keys ks v) shapes) \<and>
          list_all (\<lambda>k. k = ''type'' \<or> safe_text (jget k v)) (json_keys v)
      | _ \<Rightarrow> False)"

definition acl_permissions :: "string list" where
  "acl_permissions = [''FULL_CONTROL'', ''WRITE'', ''WRITE_ACP'', ''READ'', ''READ_ACP'']"

definition grant_ok :: "json \<Rightarrow> bool" where
  "grant_ok v =
     (has_keys [''grantee'', ''permission''] v \<and> grantee_ok (jget ''grantee'' v) \<and>
      one_of acl_permissions (jget ''permission'' v))"

definition s3_acl_ok :: "json \<Rightarrow> bool" where
  "s3_acl_ok v =
     (let owner = jget ''owner'' v; grants = jget ''grants'' v in
      has_keys [''owner'', ''grants''] v \<and> has_keys [''id'', ''display_name''] owner \<and>
      safe_text (jget ''id'' owner) \<and> null_or is_str (jget ''display_name'' owner) \<and>
      is_list grants \<and> list_all grant_ok (list_items grants) \<and> sorted (map canonical_text (list_items grants)))"

definition s3_versioning_ok :: "json \<Rightarrow> bool" where
  "s3_versioning_ok v =
     (let status = jget ''status'' v; mfa = jget ''mfa_delete'' v in
      has_keys [''status'', ''mfa_delete''] v \<and> null_or (one_of [''Enabled'', ''Suspended'']) status \<and>
      null_or (one_of [''Enabled'', ''Disabled'']) mfa \<and> (status = JNull \<longrightarrow> mfa = JNull))"

definition s3_ownership_ok :: "json \<Rightarrow> bool" where
  "s3_ownership_ok v =
     (has_keys [''rules''] v \<and>
      (case list_items (jget ''rules'' v) of
         [rule] \<Rightarrow> has_keys [''object_ownership''] rule \<and>
           one_of [''BucketOwnerPreferred'', ''ObjectWriter'', ''BucketOwnerEnforced''] (jget ''object_ownership'' rule)
       | _ \<Rightarrow> False))"

section \<open>Encryption\<close>

definition encryption_algorithms :: "string list" where
  "encryption_algorithms = [''AES256'', ''aws:backup'', ''aws:fsx'', ''aws:kms'', ''aws:kms:dsse'']"

definition kms_algorithms :: "string list" where
  "kms_algorithms = [''aws:kms'', ''aws:kms:dsse'']"

definition blocked_types :: "string list" where
  "blocked_types = [''NONE'', ''SSE-C'']"

text \<open>Who manages the key, from the algorithm and the presence of a reference.\<close>

definition key_management :: "json \<Rightarrow> json \<Rightarrow> json" where
  "key_management algorithm reference =
     (if algorithm = JNull then JNull
      else if algorithm = JStr ''AES256'' then JStr ''S3_MANAGED''
      else if one_of kms_algorithms algorithm
      then (if reference = JNull then JStr ''IMPLICIT_AWS_MANAGED_KMS'' else JStr ''EXPLICIT_KMS_REFERENCE'')
      else JStr ''SERVICE_SPECIFIC'')"

text \<open>A bucket key is a boolean or absent, and enabled for one algorithm alone.\<close>

definition bucket_key_ok :: "json \<Rightarrow> json \<Rightarrow> bool" where
  "bucket_key_ok algorithm enabled =
     (null_or is_bool enabled \<and> (enabled = JBool True \<longrightarrow> algorithm = JStr ''aws:kms''))"

definition encryption_rule_ok :: "json \<Rightarrow> bool" where
  "encryption_rule_ok v =
     (let algorithm = jget ''sse_algorithm'' v; reference = jget ''kms_key_reference'' v;
          blocked = jget ''blocked_encryption_types'' v in
      has_keys [''sse_algorithm'', ''kms_key_reference'', ''kms_reference_explicit'', ''key_management'',
        ''bucket_key_enabled'', ''blocked_encryption_types''] v \<and>
      null_or (one_of encryption_algorithms) algorithm \<and> null_or safe_text reference \<and>
      is_list blocked \<and> list_all (one_of blocked_types) (list_items blocked) \<and>
      length (list_items blocked) \<le> 1 \<and> (algorithm = JNull \<longrightarrow> list_items blocked \<noteq> []) \<and>
      (reference \<noteq> JNull \<longrightarrow> one_of kms_algorithms algorithm) \<and>
      jget ''kms_reference_explicit'' v = JBool (reference \<noteq> JNull) \<and>
      jget ''key_management'' v = key_management algorithm reference \<and>
      bucket_key_ok algorithm (jget ''bucket_key_enabled'' v))"

definition s3_encryption_ok :: "json \<Rightarrow> bool" where
  "s3_encryption_ok v =
     (let rules = list_items (jget ''rules'' v) in
      has_keys [''rules''] v \<and> rules \<noteq> [] \<and> list_all encryption_rule_ok rules \<and>
      sorted (map canonical_text rules))"

text \<open>\<open>s3_encryption_kms_references\<close>: the explicit references, sorted and unique.\<close>

definition kms_references :: "json \<Rightarrow> string list option" where
  "kms_references v =
     (if s3_encryption_ok v
      then Some (sort (remdups (List.map_filter (\<lambda>r. text_field (jget ''kms_key_reference'' r))
        (list_items (jget ''rules'' v)))))
      else None)"

text \<open>One rule of the accepted legacy response in the normalized form.\<close>

definition legacy_rule :: "json \<Rightarrow> json option" where
  "legacy_rule v =
     (let defaults = jget ''ApplyServerSideEncryptionByDefault'' v;
          algorithm = jget ''SSEAlgorithm'' defaults; reference = jget ''KMSMasterKeyID'' defaults;
          blocked = jget ''BlockedEncryptionTypes'' v; types = list_items (jget ''EncryptionType'' blocked);
          enabled = jget ''BucketKeyEnabled'' v in
      if is_obj v \<and>
         (defaults \<noteq> JNull \<longrightarrow> is_obj defaults \<and> one_of encryption_algorithms algorithm \<and> null_or safe_text reference) \<and>
         (reference \<noteq> JNull \<longrightarrow> one_of kms_algorithms algorithm) \<and>
         (blocked \<noteq> JNull \<longrightarrow> has_keys [''EncryptionType''] blocked \<and> length types = 1 \<and> list_all (one_of blocked_types) types) \<and>
         (algorithm = JNull \<longrightarrow> types \<noteq> []) \<and> bucket_key_ok algorithm enabled
      then Some (JObj [(''sse_algorithm'', algorithm), (''kms_key_reference'', reference),
                       (''kms_reference_explicit'', JBool (reference \<noteq> JNull)),
                       (''key_management'', key_management algorithm reference),
                       (''bucket_key_enabled'', enabled), (''blocked_encryption_types'', JList types)])
      else None)"

definition normalize_legacy_encryption :: "json \<Rightarrow> json option" where
  "normalize_legacy_encryption v =
     (let rules = list_items (jget ''Rules'' v) in
      if is_obj v \<and> rules \<noteq> []
      then map_option (\<lambda>rs. JObj [(''rules'', JList (sort_key canonical_text rs))]) (those (map legacy_rule rules))
      else None)"

section \<open>Policies\<close>

definition policy_texts_ok :: "json \<Rightarrow> bool" where
  "policy_texts_ok v =
     (nonempty_text v \<or> list_items v \<noteq> [] \<and> list_all nonempty_text (list_items v))"

definition exactly_one_key :: "string \<Rightarrow> string \<Rightarrow> json \<Rightarrow> bool" where
  "exactly_one_key a b v = ((a \<in> set (json_keys v)) \<noteq> (b \<in> set (json_keys v)))"

definition either_key :: "string \<Rightarrow> string \<Rightarrow> json \<Rightarrow> json" where
  "either_key a b v = (if a \<in> set (json_keys v) then jget a v else jget b v)"

text \<open>A nonempty object of nonempty keys whose values satisfy the predicate.\<close>

definition entries_ok :: "(json \<Rightarrow> bool) \<Rightarrow> json \<Rightarrow> bool" where
  "entries_ok ok v = (is_obj v \<and> json_keys v \<noteq> [] \<and> list_all (\<lambda>k. k \<noteq> [] \<and> ok (jget k v)) (json_keys v))"

definition principal_ok :: "json \<Rightarrow> bool" where
  "principal_ok v = (if is_obj v then entries_ok policy_texts_ok v else nonempty_text v)"

definition policy_statement_ok :: "json \<Rightarrow> bool" where
  "policy_statement_ok v =
     (is_obj v \<and>
      set (json_keys v) \<subseteq> {''Sid'', ''Effect'', ''Principal'', ''NotPrincipal'', ''Action'', ''NotAction'',
        ''Resource'', ''NotResource'', ''Condition''} \<and>
      one_of [''Allow'', ''Deny''] (jget ''Effect'' v) \<and>
      exactly_one_key ''Principal'' ''NotPrincipal'' v \<and> exactly_one_key ''Action'' ''NotAction'' v \<and>
      exactly_one_key ''Resource'' ''NotResource'' v \<and>
      (''Sid'' \<in> set (json_keys v) \<longrightarrow> nonempty_text (jget ''Sid'' v)) \<and>
      principal_ok (either_key ''Principal'' ''NotPrincipal'' v) \<and>
      policy_texts_ok (either_key ''Action'' ''NotAction'' v) \<and>
      policy_texts_ok (either_key ''Resource'' ''NotResource'' v) \<and>
      (''Condition'' \<in> set (json_keys v) \<longrightarrow> entries_ok (entries_ok policy_texts_ok) (jget ''Condition'' v)))"

definition s3_policy_ok :: "env \<Rightarrow> json \<Rightarrow> bool" where
  "s3_policy_ok env v =
     (let doc = jget ''document'' v; statements = list_items (jget ''Statement'' doc) in
      has_keys [''document'', ''sha256''] v \<and> has_keys [''Version'', ''Id'', ''Statement''] doc \<and>
      (case jget ''sha256'' v of JStr d \<Rightarrow> sha256_pattern d \<and> d = json_digest env doc | _ \<Rightarrow> False) \<and>
      null_or is_str (jget ''Version'' doc) \<and> null_or is_str (jget ''Id'' doc) \<and>
      statements \<noteq> [] \<and> list_all policy_statement_ok statements)"

definition policy_values :: "json \<Rightarrow> string list" where
  "policy_values v =
     (case v of JStr s \<Rightarrow> [s] | JList xs \<Rightarrow> (case those (map text_field xs) of None \<Rightarrow> [] | Some ts \<Rightarrow> ts) | _ \<Rightarrow> [])"

definition s3_action :: "string \<Rightarrow> bool" where
  "s3_action a = (a = ''*'' \<or> take 3 a \<in> {''s3:'', ''S3:''})"

definition contains_text :: "string \<Rightarrow> string \<Rightarrow> bool" where
  "contains_text part s = list_ex (\<lambda>i. starts_with part (drop i s)) [0..<Suc (length s)]"

definition s3_resource_arn :: "string \<Rightarrow> bool" where
  "s3_resource_arn r = (r = ''*'' \<or> starts_with ''arn:'' r \<and> contains_text '':s3:::'' r)"

definition public_grant_statement :: "json \<Rightarrow> bool" where
  "public_grant_statement v =
     (let principal = jget ''Principal'' v in
      jget ''Effect'' v = JStr ''Allow'' \<and> ''Condition'' \<notin> set (json_keys v) \<and>
      {''Principal'', ''Action'', ''Resource''} \<subseteq> set (json_keys v) \<and>
      ''*'' \<in> set (policy_values (if is_obj principal then jget ''AWS'' principal else principal)) \<and>
      list_ex s3_action (policy_values (jget ''Action'' v)) \<and>
      list_ex s3_resource_arn (policy_values (jget ''Resource'' v)))"

definition public_grant :: "json \<Rightarrow> bool" where
  "public_grant v = list_ex public_grant_statement (list_items (jget ''Statement'' (jget ''document'' v)))"

text \<open>\<open>s3_policy_evidence_conflicts\<close>.\<close>

definition policy_conflicts :: "env \<Rightarrow> json \<Rightarrow> json \<Rightarrow> bool option" where
  "policy_conflicts env policy status =
     (if null_or (s3_policy_ok env) policy \<and> s3_policy_status_ok status
      then Some (if policy = JNull then jget ''is_public'' status = JBool True
                 else jget ''policy_present'' status = JBool False \<or>
                   jget ''is_public'' status = JBool False \<and> public_grant policy)
      else None)"

text \<open>
  Coherence of two sources: contradictions must be conflicts on both, and conflicts must be
  contradictions. The comparison is only made on complete sources.
\<close>

definition policy_sources_coherent :: "env \<Rightarrow> source_state \<Rightarrow> json \<Rightarrow> source_state \<Rightarrow> json \<Rightarrow> bool" where
  "policy_sources_coherent env ps policy ss status =
     (if ps = ST_CONFLICT \<or> ss = ST_CONFLICT
      then ps = ST_CONFLICT \<and> ss = ST_CONFLICT \<and> policy_conflicts env policy status = Some True
      else complete_state ps \<and> complete_state ss \<longrightarrow> policy_conflicts env policy status = Some False)"

section \<open>Access control lists\<close>

definition public_group_uris :: "string list" where
  "public_group_uris =
     [''http://acs.amazonaws.com/groups/global/AllUsers'', ''http://acs.amazonaws.com/groups/global/AuthenticatedUsers'']"

definition acl_public_group :: "json \<Rightarrow> bool" where
  "acl_public_group v =
     list_ex (\<lambda>g. jget ''type'' (jget ''grantee'' g) = JStr ''Group'' \<and>
         one_of public_group_uris (jget ''uri'' (jget ''grantee'' g)))
       (list_items (jget ''grants'' v))"

text \<open>A value of an incomplete source is not compared: \<open>JNull\<close>.\<close>

definition acl_ignored_conflict :: "json \<Rightarrow> json list \<Rightarrow> bool option" where
  "acl_ignored_conflict acl blocks =
     (if s3_acl_ok acl \<and> list_all (null_or s3_public_access_block_ok) blocks
      then Some (acl_public_group acl \<and> list_ex (\<lambda>b. jget ''IgnorePublicAcls'' b = JBool True) blocks)
      else None)"

text \<open>With bucket-owner-enforced ownership the owner's full control is the only grant.\<close>

definition owner_only_grant :: "json \<Rightarrow> bool" where
  "owner_only_grant acl =
     (case list_items (jget ''grants'' acl) of
        [g] \<Rightarrow> jget ''type'' (jget ''grantee'' g) = JStr ''CanonicalUser'' \<and>
          jget ''id'' (jget ''grantee'' g) = jget ''id'' (jget ''owner'' acl) \<and>
          jget ''permission'' g = JStr ''FULL_CONTROL''
      | _ \<Rightarrow> False)"

definition acl_ownership_conflict :: "json \<Rightarrow> json \<Rightarrow> bool option" where
  "acl_ownership_conflict acl ownership =
     (if ownership = JNull then Some False
      else if s3_acl_ok acl \<and> s3_ownership_ok ownership
      then Some (list_ex (\<lambda>r. jget ''object_ownership'' r = JStr ''BucketOwnerEnforced'') (list_items (jget ''rules'' ownership)) \<and>
                 \<not> owner_only_grant acl)
      else None)"

definition if_complete :: "source_state \<times> json \<Rightarrow> json" where
  "if_complete s = (if complete_state (fst s) then snd s else JNull)"

text \<open>\<open>validate_s3_acl_source_coherence\<close>; \<open>or\<close> does not look at ownership after a conflict.\<close>

definition acl_sources_coherent ::
    "source_state \<times> json \<Rightarrow> source_state \<times> json \<Rightarrow> source_state \<times> json \<Rightarrow> source_state \<times> json \<Rightarrow> bool" where
  "acl_sources_coherent acl account_block bucket_block ownership =
     (case acl_ignored_conflict (snd acl) [if_complete account_block, if_complete bucket_block] of
        None \<Rightarrow> False
      | Some ignored \<Rightarrow>
          (case (if ignored then Some True else acl_ownership_conflict (snd acl) (if_complete ownership)) of
             None \<Rightarrow> False
           | Some conflict \<Rightarrow>
               (fst acl = ST_CONFLICT \<longrightarrow> conflict) \<and> (fst acl = ST_PRESENT \<longrightarrow> \<not> conflict)))"

section \<open>Values by source and state\<close>

definition bucket_value_validators :: "env \<Rightarrow> (string \<times> (json \<Rightarrow> bool)) list" where
  "bucket_value_validators env =
     [(''s3.bucket-acl'', s3_acl_ok), (''s3.bucket-encryption'', s3_encryption_ok),
      (''s3.bucket-ownership-controls'', s3_ownership_ok), (''s3.bucket-policy'', s3_policy_ok env),
      (''s3.bucket-policy-status'', s3_policy_status_ok), (''s3.bucket-public-access-block'', s3_public_access_block_ok),
      (''s3.bucket-tags'', s3_tags_ok), (''s3.bucket-versioning'', s3_versioning_ok)]"

definition expected_absence_values :: "(string \<times> json) list" where
  "expected_absence_values =
     [(''s3.bucket-encryption'', JNull), (''s3.bucket-ownership-controls'', JNull), (''s3.bucket-policy'', JNull),
      (''s3.bucket-policy-status'', JObj [(''policy_present'', JBool False), (''is_public'', JBool False)]),
      (''s3.bucket-public-access-block'', JObj (map (\<lambda>k. (k, JBool False)) public_access_block_fields)),
      (''s3.bucket-tags'', JList []), (''s3.bucket-versioning'', JObj [(''status'', JNull), (''mfa_delete'', JNull)])]"

definition retains_failed_value :: "string \<Rightarrow> source_state \<Rightarrow> bool" where
  "retains_failed_value kind state =
     (kind = ''s3.bucket-encryption'' \<and> state = ST_MALFORMED \<or>
      kind \<in> {''s3.bucket-acl'', ''s3.bucket-policy'', ''s3.bucket-policy-status''} \<and> state = ST_CONFLICT)"

definition present_value_ok :: "string \<Rightarrow> json \<Rightarrow> bool" where
  "present_value_ok kind v =
     ((kind = ''s3.bucket-policy-status'' \<longrightarrow> jget ''policy_present'' v = JBool True) \<and>
      (kind = ''s3.bucket-versioning'' \<longrightarrow> jget ''status'' v \<noteq> JNull \<or> jget ''mfa_delete'' v \<noteq> JNull))"

text \<open>\<open>validate_s3_bucket_evidence_value\<close>.\<close>

definition bucket_value_ok :: "env \<Rightarrow> string \<Rightarrow> source_state \<Rightarrow> json \<Rightarrow> bool" where
  "bucket_value_ok env kind state v =
     (case map_of (bucket_value_validators env) kind of
        None \<Rightarrow> False
      | Some ok \<Rightarrow>
          if state = ST_EXPECTED_ABSENCE
          then (case map_of expected_absence_values kind of None \<Rightarrow> False | Some x \<Rightarrow> json_eq v x) \<and> null_or ok v
          else if v = JNull then state \<noteq> ST_PRESENT
          else (state = ST_PRESENT \<or> retains_failed_value kind state) \<and> ok v \<and>
            (state = ST_PRESENT \<longrightarrow> present_value_ok kind v))"

section \<open>KMS keys\<close>

text \<open>Texts that \<open>isoformat()\<close> gives for an aware UTC time, in the years 1 to 9999.\<close>

definition number_of :: "string \<Rightarrow> nat" where
  "number_of s = decimal_value s"

definition days_in_month :: "nat \<Rightarrow> nat \<Rightarrow> nat" where
  "days_in_month y m =
     (if m = 2 then (if y mod 4 = 0 \<and> (y mod 100 \<noteq> 0 \<or> y mod 400 = 0) then 29 else 28)
      else if m \<in> {4, 6, 9, 11} then 30 else 31)"

definition iso_utc_text :: "string \<Rightarrow> bool" where
  "iso_utc_text s =
     (let y = take 4 s; m = take 2 (drop 5 s); d = take 2 (drop 8 s); h = take 2 (drop 11 s);
          n = take 2 (drop 14 s); sec = take 2 (drop 17 s); rest = drop 19 s in
      25 \<le> length s \<and> list_all is_digit (y @ m @ d @ h @ n @ sec) \<and>
      [s ! 4, s ! 7, s ! 10, s ! 13, s ! 16] = ''--T::'' \<and>
      1 \<le> number_of y \<and> 1 \<le> number_of m \<and> number_of m \<le> 12 \<and> 1 \<le> number_of d \<and>
      number_of d \<le> days_in_month (number_of y) (number_of m) \<and> number_of h < 24 \<and> number_of n < 60 \<and>
      number_of sec < 60 \<and>
      (rest = ''+00:00'' \<or>
       length rest = 13 \<and> hd rest = CHR ''.'' \<and> list_all is_digit (take 6 (tl rest)) \<and>
       number_of (take 6 (tl rest)) \<noteq> 0 \<and> drop 7 rest = ''+00:00''))"

definition canonical_utc_or_null :: "json \<Rightarrow> bool" where
  "canonical_utc_or_null v = null_or (\<lambda>j. case j of JStr s \<Rightarrow> iso_utc_text s | _ \<Rightarrow> False) v"

definition kms_key_states :: "string list" where
  "kms_key_states =
     [''Creating'', ''Enabled'', ''Disabled'', ''PendingDeletion'', ''PendingImport'', ''PendingReplicaDeletion'',
      ''Unavailable'', ''Updating'']"

definition kms_key_usages :: "string list" where
  "kms_key_usages = [''SIGN_VERIFY'', ''ENCRYPT_DECRYPT'', ''GENERATE_VERIFY_MAC'', ''KEY_AGREEMENT'']"

definition kms_spec_usages :: "(string \<times> string list) list" where
  "kms_spec_usages =
     [(''SYMMETRIC_DEFAULT'', [''ENCRYPT_DECRYPT'']), (''HMAC_224'', [''GENERATE_VERIFY_MAC'']),
      (''HMAC_256'', [''GENERATE_VERIFY_MAC'']), (''HMAC_384'', [''GENERATE_VERIFY_MAC'']),
      (''HMAC_512'', [''GENERATE_VERIFY_MAC'']), (''RSA_2048'', [''ENCRYPT_DECRYPT'', ''SIGN_VERIFY'']),
      (''RSA_3072'', [''ENCRYPT_DECRYPT'', ''SIGN_VERIFY'']), (''RSA_4096'', [''ENCRYPT_DECRYPT'', ''SIGN_VERIFY'']),
      (''ECC_NIST_P256'', [''SIGN_VERIFY'', ''KEY_AGREEMENT'']), (''ECC_NIST_P384'', [''SIGN_VERIFY'', ''KEY_AGREEMENT'']),
      (''ECC_NIST_P521'', [''SIGN_VERIFY'', ''KEY_AGREEMENT'']), (''ECC_SECG_P256K1'', [''SIGN_VERIFY'']),
      (''ECC_NIST_EDWARDS25519'', [''SIGN_VERIFY'']), (''ML_DSA_44'', [''SIGN_VERIFY'']), (''ML_DSA_65'', [''SIGN_VERIFY'']),
      (''ML_DSA_87'', [''SIGN_VERIFY'']), (''SM2'', [''ENCRYPT_DECRYPT'', ''SIGN_VERIFY'', ''KEY_AGREEMENT''])]"

definition kms_key_fields :: "string list" where
  "kms_key_fields =
     [''aws_account_id'', ''region'', ''key_id'', ''arn'', ''key_manager'', ''enabled'', ''multi_region'',
      ''creation_date'', ''key_state'', ''origin'', ''key_usage'', ''key_spec'']"

text \<open>The ARN of the key repeats its Region, account and identifier.\<close>

definition kms_key_identity_ok :: "json \<Rightarrow> bool" where
  "kms_key_identity_ok v =
     (case (jget ''aws_account_id'' v, jget ''region'' v, jget ''key_id'' v, jget ''arn'' v) of
        (JStr account, JStr region, JStr key, JStr arn) \<Rightarrow>
          account_pattern account \<and> list_all (\<lambda>s. safe_text (JStr s)) [region, key, arn] \<and>
          (case split_max (CHR '':'') 5 arn of
             [a, part, svc, reg, acct, res] \<Rightarrow>
               a = ''arn'' \<and> part \<noteq> [] \<and> svc = ''kms'' \<and> reg = region \<and> acct = account \<and> res = ''key/'' @ key
           | _ \<Rightarrow> False)
      | _ \<Rightarrow> False)"

definition kms_usage_ok :: "json \<Rightarrow> json \<Rightarrow> bool" where
  "kms_usage_ok key_spec usage =
     (case (key_spec, usage) of
        (JStr s, JStr u) \<Rightarrow> (case map_of kms_spec_usages s of None \<Rightarrow> False | Some us \<Rightarrow> u \<in> set us)
      | _ \<Rightarrow> True)"

text \<open>\<open>validate_kms_key_evidence_value\<close>.\<close>

definition kms_key_value_ok :: "source_state \<Rightarrow> json \<Rightarrow> bool" where
  "kms_key_value_ok state v =
     (if state \<noteq> ST_PRESENT then v = JNull
      else has_keys kms_key_fields v \<and> kms_key_identity_ok v \<and> one_of [''AWS'', ''CUSTOMER''] (jget ''key_manager'' v) \<and>
        list_all (\<lambda>k. null_or is_bool (jget k v)) [''enabled'', ''multi_region''] \<and>
        canonical_utc_or_null (jget ''creation_date'' v) \<and>
        null_or (one_of kms_key_states) (jget ''key_state'' v) \<and>
        null_or (one_of [''AWS_KMS'', ''EXTERNAL'', ''AWS_CLOUDHSM'', ''EXTERNAL_KEY_STORE'']) (jget ''origin'' v) \<and>
        null_or (one_of kms_key_usages) (jget ''key_usage'' v) \<and>
        null_or (one_of (map fst kms_spec_usages)) (jget ''key_spec'' v) \<and>
        (jget ''enabled'' v \<noteq> JNull \<and> jget ''key_state'' v \<noteq> JNull \<longrightarrow>
           jget ''enabled'' v = JBool (jget ''key_state'' v = JStr ''Enabled'')) \<and>
        kms_usage_ok (jget ''key_spec'' v) (jget ''key_usage'' v))"

section \<open>References to KMS keys\<close>

text \<open>\<open>kms_reference_matches_key_identity\<close> on text arguments: an ARN or alias ARN of the key, or, in
  the collection account, its identifier or an alias.\<close>

definition arn_reference_ok :: "string \<Rightarrow> string \<Rightarrow> string \<Rightarrow> string \<Rightarrow> string \<Rightarrow> bool" where
  "arn_reference_ok reference region part account key_arn =
     (case split_max (CHR '':'') 5 reference of
        [a, p, svc, reg, acct, res] \<Rightarrow>
          a = ''arn'' \<and> p = part \<and> svc = ''kms'' \<and> reg = region \<and> acct = account \<and>
          (case split_max (CHR ''/'') 1 res of
             [k, name] \<Rightarrow> name \<noteq> [] \<and> (k = ''alias'' \<or> k = ''key'' \<and> reference = key_arn)
           | _ \<Rightarrow> False)
      | _ \<Rightarrow> False)"

definition kms_reference_matches ::
    "string \<Rightarrow> string \<Rightarrow> string \<Rightarrow> string \<Rightarrow> string \<Rightarrow> string \<Rightarrow> string \<Rightarrow> bool" where
  "kms_reference_matches reference region account part key_arn key_id key_account =
     (list_all (\<lambda>s. safe_text (JStr s)) [reference, region, account, part, key_arn, key_id, key_account] \<and>
      account_pattern account \<and> account_pattern key_account \<and>
      split_max (CHR '':'') 5 key_arn = [''arn'', part, ''kms'', region, key_account, ''key/'' @ key_id] \<and>
      (if starts_with ''arn:'' reference then arn_reference_ok reference region part key_account key_arn
       else key_account = account \<and>
         (if starts_with ''alias/'' reference then 6 < length reference else reference = key_id)))"

text \<open>\<open>_s3_kms_reference_region\<close>: the Region in which a reference is looked up.\<close>

definition reference_region :: "string \<Rightarrow> string \<Rightarrow> string \<Rightarrow> string option" where
  "reference_region reference bucket_region part =
     (if \<not> separators_free reference then None
      else if \<not> starts_with ''arn:'' reference then Some bucket_region
      else
        (case split_max (CHR '':'') 5 reference of
           [a, p, svc, reg, acct, res] \<Rightarrow>
             if a = ''arn'' \<and> p = part \<and> svc = ''kms'' \<and> reg \<noteq> [] \<and> account_pattern acct \<and>
                (case split_max (CHR ''/'') 1 res of [k, name] \<Rightarrow> k \<in> {''alias'', ''key''} \<and> name \<noteq> [] | _ \<Rightarrow> False)
             then Some reg else None
         | _ \<Rightarrow> None))"

definition has_invalid_reference :: "json \<Rightarrow> string \<Rightarrow> string \<Rightarrow> bool" where
  "has_invalid_reference v bucket_region part =
     (case kms_references v of
        None \<Rightarrow> False
      | Some rs \<Rightarrow> list_ex (\<lambda>r. reference_region r bucket_region part = None) rs)"

section \<open>Facts\<close>

text \<open>A matching reference is looked up where the key is.\<close>

lemma reference_region_of_match:
  assumes "kms_reference_matches reference region account part key_arn key_id key_account"
  shows "reference_region reference region part = Some region"
  using assms
  by (auto simp: kms_reference_matches_def reference_region_def arn_reference_ok_def split: if_splits list.splits)

end
