(* ===== verification/S3_Sources.thy ===== *)
theory S3_Sources
  imports S3_Values
begin

text \<open>
  The S3 source family of app/assessment/evidence_graph.py: which states and identities its sources
  may have, the declared manifest, the reconstruction of the Regions of the listed buckets, and the
  artifacts of the complete family.
\<close>

section \<open>Source identities\<close>

definition per_bucket_apis :: "(string \<times> string) list" where
  "per_bucket_apis =
     [(''s3.bucket-acl'', ''s3:GetBucketAcl''), (''s3.bucket-encryption'', ''s3:GetEncryptionConfiguration''),
      (''s3.bucket-ownership-controls'', ''s3:GetBucketOwnershipControls''), (''s3.bucket-policy'', ''s3:GetBucketPolicy''),
      (''s3.bucket-policy-status'', ''s3:GetBucketPolicyStatus''),
      (''s3.bucket-public-access-block'', ''s3:GetBucketPublicAccessBlock''), (''s3.bucket-tags'', ''s3:GetBucketTagging''),
      (''s3.bucket-versioning'', ''s3:GetBucketVersioning'')]"

definition s3_collectors :: "string list" where
  "s3_collectors =
     [''kms.keys'', ''s3.account-public-access-block'', ''s3.bucket-location'', ''s3.buckets''] @ map fst per_bucket_apis"

text \<open>\<open>validate_s3_source_state\<close>.\<close>

definition s3_state_ok :: "source_outcome \<Rightarrow> bool" where
  "s3_state_ok so =
     (let c = so_collector so; failures = {ST_UNAVAILABLE, ST_MALFORMED, ST_RESOURCE_DISAPPEARED} in
      so_state so \<in>
        (if c = ''kms.keys'' then {ST_PRESENT, ST_UNAVAILABLE, ST_MALFORMED, ST_CONFLICT}
         else if c \<in> {''s3.buckets'', ''s3.bucket-location'', ''s3.bucket-acl''} then {ST_PRESENT, ST_CONFLICT} \<union> failures
         else if c \<in> {''s3.bucket-policy'', ''s3.bucket-policy-status''}
         then {ST_PRESENT, ST_EXPECTED_ABSENCE, ST_CONFLICT} \<union> failures
         else if c \<in> {''s3.account-public-access-block'', ''s3.bucket-encryption'', ''s3.bucket-ownership-controls'',
           ''s3.bucket-public-access-block'', ''s3.bucket-tags'', ''s3.bucket-versioning''}
         then {ST_PRESENT, ST_EXPECTED_ABSENCE} \<union> failures
         else {}))"

definition bucket_source :: "source_outcome \<Rightarrow> bool" where
  "bucket_source so =
     (case resource_of so of
        None \<Rightarrow> False
      | Some r \<Rightarrow> sj_account r = so_account so \<and> regional_resource ''s3'' ''s3_bucket'' r)"

definition s3_source_is :: "source_outcome \<Rightarrow> collection_phase \<Rightarrow> string \<Rightarrow> string \<Rightarrow> bool" where
  "s3_source_is so phase kind api =
     (so_phase so = phase \<and> so_kind so = kind \<and> so_collector_version so = ''1.0.0'' \<and> so_api so = api)"

text \<open>\<open>validate_s3_source_identity\<close>; locations that failed have no bucket to name.\<close>

definition s3_identity_ok :: "source_outcome \<Rightarrow> bool" where
  "s3_identity_ok so =
     (let c = so_collector so in
      if c = ''s3.buckets''
      then s3_source_is so DISCOVERY ''s3.buckets.discovery'' ''s3:ListAllMyBuckets'' \<and> global_account_source so
      else if c = ''s3.account-public-access-block''
      then s3_source_is so DISCOVERY c ''s3:GetAccountPublicAccessBlock'' \<and> global_account_source so
      else if c = ''s3.bucket-location''
      then
        (if so_state so \<in> {ST_PRESENT, ST_RESOURCE_DISAPPEARED}
         then s3_source_is so ENRICHMENT c ''s3:GetBucketLocation'' \<and> bucket_source so
         else s3_source_is so DISCOVERY (so_kind so) ''s3:GetBucketLocation'' \<and> global_account_source so \<and>
           digest_after ''s3.bucket-location.'' (so_kind so))
      else if c = ''kms.keys''
      then s3_source_is so ENRICHMENT (so_kind so) ''kms:DescribeKey'' \<and> digest_after ''kms.key.'' (so_kind so) \<and>
        (if so_state so = ST_PRESENT
         then (case resource_of so of None \<Rightarrow> False | Some r \<Rightarrow> regional_resource ''kms'' ''kms_key'' r)
         else bucket_source so)
      else
        (case map_of per_bucket_apis c of
           None \<Rightarrow> False
         | Some api \<Rightarrow> s3_source_is so ENRICHMENT c api \<and> bucket_source so))"

text \<open>\<open>validate_s3_source_contract_manifest\<close>.\<close>

definition s3_contract_ok :: "source_outcome \<Rightarrow> source_contract \<Rightarrow> bool" where
  "s3_contract_ok so d =
     (matches_outcome d so \<and> sd_key d = so_kind so \<and> sd_contract_version d = ''1.0.0'' \<and>
      sd_cardinality d = (if so_collector so = ''s3.buckets'' then CARD_COLLECTION else CARD_SINGLE) \<and>
      sd_owner_mode d = expected_owner_mode (so_account so) (so_subject so) \<and>
      sd_authoritative d = (so_state so = ST_PRESENT \<and> so_collector so \<in> {''kms.keys'', ''s3.bucket-location''}) \<and>
      \<not> sd_supplemental d)"

definition s3_contracts_ok :: "source_outcome list \<Rightarrow> source_contract list \<Rightarrow> bool" where
  "s3_contracts_ok outcomes ds =
     (let selected = filter (\<lambda>so. so_collector so \<in> set s3_collectors) outcomes;
          declared = filter (\<lambda>d. sd_outcome_id d \<in> set (map so_id selected)) ds in
      selected \<noteq> [] \<and> distinct (map so_id selected) \<and> length declared = length selected \<and>
      distinct (map sd_outcome_id declared) \<and>
      list_all (\<lambda>so. s3_state_ok so \<and> s3_identity_ok so \<and>
          (case find_row sd_outcome_id (so_id so) declared of None \<Rightarrow> False | Some d \<Rightarrow> s3_contract_ok so d))
        selected)"

section \<open>The Regions of the buckets\<close>

definition bucket_arn_partition :: "json \<Rightarrow> string \<Rightarrow> string option" where
  "bucket_arn_partition j bucket =
     (case j of
        JStr arn \<Rightarrow>
          (case split_max (CHR '':'') 5 arn of
             [a, part, svc, reg, acct, res] \<Rightarrow>
               if a = ''arn'' \<and> part \<noteq> [] \<and> svc = ''s3'' \<and> reg = [] \<and> acct = [] \<and> res = bucket then Some part else None
           | _ \<Rightarrow> None)
      | _ \<Rightarrow> None)"

text \<open>The stricter form of the manifests: the partition has lower-case letters, digits and hyphens;
  \<open>islower\<close> and \<open>isdigit\<close> of one ASCII character.\<close>

definition strict_bucket_arn :: "json \<Rightarrow> string \<Rightarrow> string option" where
  "strict_bucket_arn j bucket =
     (case bucket_arn_partition j bucket of
        None \<Rightarrow> None
      | Some part \<Rightarrow> if list_all (\<lambda>c. lower_or_digit c \<or> c = CHR ''-'') part then Some part else None)"

definition listed_bucket :: "json \<Rightarrow> (string \<times> json \<times> json) option" where
  "listed_bucket v =
     (case jget ''bucket_name'' v of
        JStr name \<Rightarrow>
          if has_keys [''bucket_name'', ''bucket_arn'', ''creation_date'', ''list_bucket_region''] v \<and>
             safe_text (JStr name) \<and> strict_bucket_arn (jget ''bucket_arn'' v) name \<noteq> None \<and>
             null_or valid_region (jget ''list_bucket_region'' v) \<and> canonical_utc_or_null (jget ''creation_date'' v)
          then Some (name, jget ''bucket_arn'' v, jget ''list_bucket_region'' v) else None
      | _ \<Rightarrow> None)"

definition count_is :: "json \<Rightarrow> nat \<Rightarrow> bool" where
  "count_is j n = (j = JInt (int n))"

definition nonnegative :: "json \<Rightarrow> bool" where
  "nonnegative j = (case j of JInt i \<Rightarrow> 0 \<le> i | _ \<Rightarrow> False)"

text \<open>The listing of the buckets: names with their ARN and listed Region.\<close>

definition bucket_listing :: "source_outcome \<Rightarrow> json \<Rightarrow> (string \<times> json \<times> json) list option" where
  "bucket_listing so p =
     (case (sorted_texts_of (jget ''bucket_names'' p), those (map listed_bucket (list_items (jget ''buckets'' p)))) of
        (Some names, Some listed) \<Rightarrow>
          if has_keys [''account_id'', ''buckets'', ''bucket_names'', ''resource_count'', ''discarded_item_count'',
               ''complete'', ''failure_category''] p \<and>
             jget ''account_id'' p = JStr (so_account so) \<and> list_all (\<lambda>n. n \<noteq> []) names \<and> is_list (jget ''buckets'' p) \<and>
             length listed = length names \<and> count_is (jget ''resource_count'' p) (length names) \<and>
             nonnegative (jget ''discarded_item_count'' p) \<and>
             (so_state so = ST_PRESENT \<longrightarrow> jget ''discarded_item_count'' p = JInt 0) \<and>
             sort (map fst listed) = names \<and> distinct (map fst listed) \<and> completion_attested so p
          then Some listed else None
      | _ \<Rightarrow> None)"

text \<open>The location constraint that S3 returns for a Region.\<close>

definition constraint_matches :: "json \<Rightarrow> string \<Rightarrow> bool" where
  "constraint_matches v region =
     (case v of
        JNull \<Rightarrow> region = ''us-east-1''
      | JStr s \<Rightarrow>
          s \<noteq> ''us-east-1'' \<and> s \<noteq> [] \<and> separators_free s \<and>
          (if s = ''EU'' then region = ''eu-west-1'' else s = region)
      | _ \<Rightarrow> False)"

definition failed_constraint_ok :: "json \<Rightarrow> source_state \<Rightarrow> bool" where
  "failed_constraint_ok v state =
     (v = JNull \<or> state = ST_CONFLICT \<and>
        (case v of JStr s \<Rightarrow> s = ''EU'' \<or> aws_region_text s \<and> separators_free s | _ \<Rightarrow> False))"

definition location_keys :: "string list" where
  "location_keys =
     [''account_id'', ''bucket_name'', ''bucket_arn'', ''list_bucket_region'', ''legacy_bucket_region'',
      ''location_constraint'', ''bucket_region'', ''resource_not_found'', ''complete'', ''failure_category'']"

definition bucket_named :: "source_outcome \<Rightarrow> string \<Rightarrow> bool" where
  "bucket_named so name =
     (bucket_source so \<and> (case resource_of so of None \<Rightarrow> False | Some r \<Rightarrow> sj_aws_id r = name))"

text \<open>The contract of a location, when contracts are given: authoritative exactly on success.\<close>

definition location_contract_ok :: "source_contract list \<Rightarrow> source_outcome \<Rightarrow> bool \<Rightarrow> bool" where
  "location_contract_ok ds so auth =
     (ds \<noteq> [] \<longrightarrow>
        (case find_row sd_outcome_id (so_id so) (rev ds) of
           None \<Rightarrow> False
         | Some d \<Rightarrow> sd_authoritative d = auth \<and> sd_subject d = so_subject so))"

definition subject_region :: "source_outcome \<Rightarrow> json" where
  "subject_region so = (case resource_of so of None \<Rightarrow> JNull | Some r \<Rightarrow> optional_text (sj_region r))"

definition present_location_ok :: "source_contract list \<Rightarrow> source_outcome \<Rightarrow> json \<Rightarrow> string \<Rightarrow> bool" where
  "present_location_ok ds so p name =
     (let region = subject_region so in
      s3_source_is so ENRICHMENT ''s3.bucket-location'' ''s3:GetBucketLocation'' \<and> bucket_named so name \<and>
      valid_region region \<and> jget ''bucket_region'' p = region \<and>
      null_or (\<lambda>x. x = region) (jget ''legacy_bucket_region'' p) \<and>
      (case region of JStr s \<Rightarrow> constraint_matches (jget ''location_constraint'' p) s | _ \<Rightarrow> False) \<and>
      null_or (\<lambda>x. x = region) (jget ''list_bucket_region'' p) \<and> location_contract_ok ds so True)"

definition disappeared_location_ok :: "source_contract list \<Rightarrow> source_outcome \<Rightarrow> json \<Rightarrow> string \<Rightarrow> bool" where
  "disappeared_location_ok ds so p name =
     (jget ''resource_not_found'' p = JBool True \<and>
      s3_source_is so ENRICHMENT ''s3.bucket-location'' ''s3:GetBucketLocation'' \<and> bucket_named so name \<and>
      subject_region so = jget ''legacy_bucket_region'' p \<and> jget ''location_constraint'' p = JNull \<and>
      jget ''bucket_region'' p = JNull \<and> location_contract_ok ds so False)"

text \<open>\<open>utf8_sha\<close> is the digest of a text, the same function that hashes fingerprints.\<close>

definition text_digest :: "env \<Rightarrow> string \<Rightarrow> digest" where
  "text_digest env s = sha env (FingerprintText s)"

definition failed_location_ok :: "env \<Rightarrow> source_outcome \<Rightarrow> json \<Rightarrow> string \<Rightarrow> bool" where
  "failed_location_ok env so p name =
     (so_state so \<noteq> ST_EXPECTED_ABSENCE \<and>
      s3_source_is so DISCOVERY (''s3.bucket-location.'' @ text_digest env name) ''s3:GetBucketLocation'' \<and>
      global_account_source so \<and> failed_constraint_ok (jget ''location_constraint'' p) (so_state so) \<and>
      jget ''bucket_region'' p = JNull)"

text \<open>One location source: its bucket, and the Region when it was found.\<close>

definition bucket_location ::
    "env \<Rightarrow> source_contract list \<Rightarrow> graph_artifact list \<Rightarrow> (string \<times> json \<times> json) list \<Rightarrow> source_outcome \<Rightarrow>
     (string \<times> string option) option" where
  "bucket_location env ds as listed so =
     (case cited_payload as ''s3.bucket-location'' so of
        None \<Rightarrow> None
      | Some p \<Rightarrow>
          (case jget ''bucket_name'' p of
             JStr name \<Rightarrow>
               if has_keys location_keys p \<and> jget ''account_id'' p = JStr (so_account so) \<and>
                  map_of listed name = Some (jget ''bucket_arn'' p, jget ''list_bucket_region'' p) \<and>
                  completion_attested so p \<and> null_or valid_region (jget ''legacy_bucket_region'' p) \<and>
                  null_or (\<lambda>x. jget ''legacy_bucket_region'' p = x) (jget ''list_bucket_region'' p) \<and>
                  is_bool (jget ''resource_not_found'' p) \<and>
                  (jget ''resource_not_found'' p = JBool True \<longrightarrow> so_state so \<in> {ST_RESOURCE_DISAPPEARED, ST_CONFLICT}) \<and>
                  (if so_state so = ST_PRESENT then present_location_ok ds so p name
                   else if so_state so = ST_RESOURCE_DISAPPEARED then disappeared_location_ok ds so p name
                   else failed_location_ok env so p name)
               then Some (name, if so_state so = ST_PRESENT then text_field (subject_region so) else None)
               else None
           | _ \<Rightarrow> None))"

text \<open>\<open>S3BucketRegionEvidence\<close>: completeness and the Region of every located bucket, by name.\<close>

type_synonym region_evidence = "bool \<times> (string \<times> string) list"

text \<open>
  \<open>reconstruct_s3_bucket_region_evidence\<close>: \<open>None\<close> raises, \<open>Some None\<close> is a graph without S3 sources.
\<close>

definition bucket_regions_of ::
    "env \<Rightarrow> source_outcome list \<Rightarrow> graph_artifact list \<Rightarrow> source_contract list \<Rightarrow> region_evidence option option" where
  "bucket_regions_of env outcomes as ds =
     (let locations = filter (\<lambda>so. so_collector so = ''s3.bucket-location'') outcomes in
      case filter (\<lambda>so. so_collector so = ''s3.buckets'') outcomes of
        [] \<Rightarrow> if locations = [] then Some None else None
      | [disc] \<Rightarrow>
          if \<not> (unique_references as \<and> so_state disc \<noteq> ST_EXPECTED_ABSENCE \<and>
                s3_source_is disc DISCOVERY ''s3.buckets.discovery'' ''s3:ListAllMyBuckets'' \<and> global_account_source disc)
          then None
          else
            Option.bind (cited_payload as ''s3.buckets.discovery'' disc) (\<lambda>p.
            Option.bind (bucket_listing disc p) (\<lambda>listed.
            Option.bind (those (map (bucket_location env ds as listed) locations)) (\<lambda>found.
            if distinct (map fst found) \<and> set (map fst found) = set (map fst listed)
            then
              (let located = sort_key fst (List.map_filter (\<lambda>(n, r). map_option (Pair n) r) found)
               in Some (Some (so_state disc = ST_PRESENT \<and> length located = length listed, located)))
            else None)))
      | _ \<Rightarrow> None)"

section \<open>The complete family\<close>

text \<open>\<open>validate_s3_account_public_access_block_artifact\<close>.\<close>

definition account_block_ok :: "env \<Rightarrow> source_outcome \<Rightarrow> json \<Rightarrow> bool" where
  "account_block_ok env so p =
     (has_keys [''account_id'', ''configured'', ''public_access_block'', ''complete'', ''expected_absence'',
        ''failure_category''] p \<and>
      completion_attested so p \<and>
      bucket_value_ok env ''s3.bucket-public-access-block'' (so_state so) (jget ''public_access_block'' p) \<and>
      jget ''account_id'' p = JStr (so_account so) \<and> jget ''configured'' p = JBool (so_state so = ST_PRESENT) \<and>
      jget ''expected_absence'' p = JBool (so_state so = ST_EXPECTED_ABSENCE))"

text \<open>The legacy projection of a source agrees with its normalized value.\<close>

definition legacy_projection_ok :: "string \<Rightarrow> source_state \<Rightarrow> json \<Rightarrow> json \<Rightarrow> bool" where
  "legacy_projection_ok kind state v legacy =
     (if kind \<notin> {''s3.bucket-encryption'', ''s3.bucket-public-access-block''} \<or> state = ST_EXPECTED_ABSENCE
      then legacy = JNull
      else if state = ST_PRESENT
      then (if kind = ''s3.bucket-encryption''
            then (case normalize_legacy_encryption legacy of None \<Rightarrow> False | Some n \<Rightarrow> json_eq n v)
            else is_obj legacy \<and> list_all (\<lambda>f. json_eq (jget f legacy) (jget f v)) public_access_block_fields)
      else state = ST_MALFORMED \<or> legacy = JNull)"

text \<open>\<open>validate_s3_per_bucket_source_artifact\<close>: the bucket, its collector, state and value.\<close>

type_synonym bucket_value = "(string \<times> string) \<times> source_state \<times> json"

definition per_bucket_value ::
    "env \<Rightarrow> graph_artifact list \<Rightarrow> (string \<times> string) list \<Rightarrow> source_outcome \<Rightarrow> bucket_value option" where
  "per_bucket_value env as regions so =
     (case (cited_payload as (so_kind so) so, resource_of so) of
        (Some p, Some r) \<Rightarrow>
          (case strict_bucket_arn (jget ''bucket_arn'' p) (sj_aws_id r) of
             None \<Rightarrow> None
           | Some part \<Rightarrow>
               if has_keys [''account_id'', ''bucket_name'', ''bucket_arn'', ''bucket_region'', ''value'',
                    ''legacy_projection'', ''complete'', ''expected_absence'', ''failure_category''] p \<and>
                  jget ''account_id'' p = JStr (sj_account r) \<and> jget ''bucket_name'' p = JStr (sj_aws_id r) \<and>
                  jget ''bucket_region'' p = optional_text (sj_region r) \<and> map_of regions (sj_aws_id r) = sj_region r \<and>
                  completion_attested so p \<and> jget ''expected_absence'' p = JBool (so_state so = ST_EXPECTED_ABSENCE) \<and>
                  bucket_value_ok env (so_kind so) (so_state so) (jget ''value'' p) \<and>
                  legacy_projection_ok (so_kind so) (so_state so) (jget ''value'' p) (jget ''legacy_projection'' p) \<and>
                  (so_kind so = ''s3.bucket-encryption'' \<and> so_state so = ST_MALFORMED \<and> jget ''value'' p \<noteq> JNull \<longrightarrow>
                     (case sj_region r of None \<Rightarrow> False | Some region \<Rightarrow> has_invalid_reference (jget ''value'' p) region part))
               then Some ((sj_aws_id r, so_collector so), so_state so, jget ''value'' p) else None)
      | _ \<Rightarrow> None)"

text \<open>The policy and ACL sources of one bucket are coherent.\<close>

definition bucket_coherent :: "env \<Rightarrow> source_state \<times> json \<Rightarrow> bucket_value list \<Rightarrow> string \<Rightarrow> bool" where
  "bucket_coherent env account_block vals bucket =
     (case (map_of vals (bucket, ''s3.bucket-policy''), map_of vals (bucket, ''s3.bucket-policy-status''),
            map_of vals (bucket, ''s3.bucket-acl''), map_of vals (bucket, ''s3.bucket-public-access-block''),
            map_of vals (bucket, ''s3.bucket-ownership-controls'')) of
        (Some (ps, policy), Some (ss, status), Some acl, Some block, Some ownership) \<Rightarrow>
          policy_sources_coherent env ps policy ss status \<and>
          (snd acl \<noteq> JNull \<longrightarrow> acl_sources_coherent acl account_block block ownership)
      | _ \<Rightarrow> False)"

text \<open>\<open>_validate_complete_s3_source_artifacts\<close>.\<close>

definition s3_artifacts_ok ::
    "env \<Rightarrow> source_outcome list \<Rightarrow> source_contract list \<Rightarrow> graph_artifact list \<Rightarrow> bool" where
  "s3_artifacts_ok env outcomes ds as =
     (case (filter (\<lambda>so. so_collector so = ''s3.account-public-access-block'') outcomes,
            bucket_regions_of env outcomes as ds) of
        ([account], Some (Some (whole, regions))) \<Rightarrow>
          (case (cited_payload as ''s3.account-public-access-block'' account,
                 those (map (per_bucket_value env as regions)
                   (filter (\<lambda>so. so_collector so \<in> set (map fst per_bucket_apis)) outcomes))) of
             (Some p, Some vals) \<Rightarrow>
               account_block_ok env account p \<and> distinct (map fst vals) \<and>
               set (map fst vals) = set (List.product (map fst regions) (map fst per_bucket_apis)) \<and>
               list_all (bucket_coherent env (so_state account, jget ''public_access_block'' p) vals) (map fst regions)
           | _ \<Rightarrow> False)
      | _ \<Rightarrow> False)"

definition s3_family_ok :: "env \<Rightarrow> source_outcome list \<Rightarrow> source_contract list \<Rightarrow> graph_artifact list \<Rightarrow> bool" where
  "s3_family_ok env outcomes ds as = (s3_contracts_ok outcomes ds \<and> s3_artifacts_ok env outcomes ds as)"

end
