(* ===== verification/CloudTrail_Sources.thy ===== *)
theory CloudTrail_Sources
  imports Source_Payloads
begin

text \<open>
  The CloudTrail source family of app/assessment/evidence_graph.py: one global discovery and five
  sources per admitted trail, with the exact normalized values of each. \<open>cloudtrail_manifest\<close> is the
  whole validator; \<open>None\<close> is its ValueError or TypeError.
\<close>

section \<open>Trail ARNs\<close>

text \<open>Three to 128 characters, letters and digits with single separators between them.\<close>

fun separators_followed :: "string \<Rightarrow> bool" where
  "separators_followed [] = True"
| "separators_followed [c] = is_alnum c"
| "separators_followed (c # d # cs) =
     ((is_alnum c \<or> c \<in> set ''._-'' \<and> is_alnum d) \<and> separators_followed (d # cs))"

definition trail_name :: "string \<Rightarrow> bool" where
  "trail_name s =
     (3 \<le> length s \<and> length s \<le> 128 \<and> is_alnum (hd s) \<and> is_alnum (last s) \<and> separators_followed s)"

definition ip_shaped :: "string \<Rightarrow> bool" where
  "ip_shaped s =
     (let ps = split_on (CHR ''.'') s in length ps = 4 \<and> list_all (\<lambda>p. p \<noteq> [] \<and> list_all is_digit p) ps)"

definition parse_trail_arn :: "string \<Rightarrow> arn_parts option" where
  "parse_trail_arn value =
     parse_arn ''cloudtrail'' ''trail/'' (\<lambda>name. trail_name name \<and> \<not> ip_shaped name) value"

section \<open>Values\<close>

definition optional_texts_ok :: "string list \<Rightarrow> json \<Rightarrow> bool" where
  "optional_texts_ok ks v = list_all (\<lambda>k. null_or is_str (jget k v)) ks"

definition optional_bools_ok :: "string list \<Rightarrow> json \<Rightarrow> bool" where
  "optional_bools_ok ks v = list_all (\<lambda>k. null_or is_bool (jget k v)) ks"

definition trail_configuration_keys :: "string list" where
  "trail_configuration_keys =
     [''name'', ''s3_bucket_name'', ''s3_key_prefix'', ''include_global_service_events'',
      ''is_multi_region_trail'', ''log_file_validation_enabled'', ''cloudwatch_logs_log_group_arn'',
      ''cloudwatch_logs_role_arn'', ''kms_key_id'', ''is_organization_trail'']"

definition trail_configuration_ok :: "json \<Rightarrow> bool" where
  "trail_configuration_ok v =
     (has_keys trail_configuration_keys v \<and> null_or safe_text (jget ''name'' v) \<and>
      optional_texts_ok [''s3_bucket_name'', ''s3_key_prefix'', ''cloudwatch_logs_log_group_arn'',
        ''cloudwatch_logs_role_arn'', ''kms_key_id''] v \<and>
      optional_bools_ok [''include_global_service_events'', ''is_multi_region_trail'',
        ''log_file_validation_enabled'', ''is_organization_trail''] v \<and>
      null_or safe_text (jget ''s3_bucket_name'' v) \<and>
      null_or (\<lambda>k. parse_kms_key_arn k \<noteq> None) (jget ''kms_key_id'' v))"

definition trail_status_ok :: "json \<Rightarrow> bool" where
  "trail_status_ok v =
     (has_keys [''is_logging'', ''status''] v \<and> is_bool (jget ''is_logging'' v) \<and> is_obj (jget ''status'' v) \<and>
      ''ResponseMetadata'' \<notin> set (json_keys (jget ''status'' v)) \<and>
      jget ''IsLogging'' (jget ''status'' v) = jget ''is_logging'' v)"

definition data_resource_ok :: "json \<Rightarrow> bool" where
  "data_resource_ok v =
     (has_keys [''type'', ''values''] v \<and> safe_text (jget ''type'' v) \<and> list_items (jget ''values'' v) \<noteq> [] \<and>
      sorted_texts_of (jget ''values'' v) \<noteq> None \<and> list_all safe_text (list_items (jget ''values'' v)))"

definition basic_presence_keys :: "string list" where
  "basic_presence_keys =
     [''include_management_events'', ''read_write_type'', ''exclude_management_event_sources'', ''data_resources'']"

definition basic_selector_defaults :: "(string \<times> json) list" where
  "basic_selector_defaults =
     [(''include_management_events'', JBool True), (''read_write_type'', JStr ''All''),
      (''exclude_management_event_sources'', JList []), (''data_resources'', JList [])]"

definition basic_selector_ok :: "json \<Rightarrow> bool" where
  "basic_selector_ok v =
     (let presence = jget ''raw_presence'' v; resources = jget ''data_resources'' v in
      has_keys (''raw_presence'' # basic_presence_keys) v \<and>
      has_keys basic_presence_keys presence \<and> list_all (\<lambda>k. is_bool (jget k presence)) basic_presence_keys \<and>
      is_bool (jget ''include_management_events'' v) \<and>
      jget ''read_write_type'' v \<in> JStr ` {''All'', ''ReadOnly'', ''WriteOnly''} \<and>
      (case sorted_texts_of (jget ''exclude_management_event_sources'' v) of
         None \<Rightarrow> False
       | Some xs \<Rightarrow> list_all (\<lambda>x. x \<in> {''kms.amazonaws.com'', ''rdsdata.amazonaws.com''}) xs) \<and>
      is_list resources \<and>
      list_all (\<lambda>(k, default). jget k presence = JBool True \<or> json_eq (jget k v) default) basic_selector_defaults \<and>
      list_all data_resource_ok (list_items resources) \<and> canonical_objects (list_items resources))"

definition advanced_operators :: "string list" where
  "advanced_operators =
     [''equals'', ''starts_with'', ''ends_with'', ''not_equals'', ''not_starts_with'', ''not_ends_with'']"

definition field_selector_ok :: "json \<Rightarrow> bool" where
  "field_selector_ok v =
     (has_keys (''field'' # advanced_operators) v \<and> safe_text (jget ''field'' v) \<and>
      list_all (\<lambda>k. sorted_texts_of (jget k v) \<noteq> None \<and> list_all safe_text (list_items (jget k v))) advanced_operators \<and>
      list_ex (\<lambda>k. list_items (jget k v) \<noteq> []) advanced_operators)"

definition advanced_selector_ok :: "json \<Rightarrow> bool" where
  "advanced_selector_ok v =
     (let fields = list_items (jget ''field_selectors'' v) in
      has_keys [''name'', ''field_selectors''] v \<and> null_or safe_text (jget ''name'' v) \<and> fields \<noteq> [] \<and>
      list_all field_selector_ok fields \<and> canonical_objects fields)"

definition trail_selectors_ok :: "json \<Rightarrow> bool" where
  "trail_selectors_ok v =
     (let basic = list_items (jget ''basic_selectors'' v); advanced = list_items (jget ''advanced_selectors'' v) in
      has_keys [''selector_form'', ''basic_selectors'', ''advanced_selectors''] v \<and>
      jget ''selector_form'' v \<in> JStr ` {''BASIC'', ''ADVANCED''} \<and>
      is_list (jget ''basic_selectors'' v) \<and> is_list (jget ''advanced_selectors'' v) \<and>
      (jget ''selector_form'' v = JStr ''BASIC'') = (basic \<noteq> []) \<and> (basic = []) \<noteq> (advanced = []) \<and>
      list_all basic_selector_ok basic \<and> list_all advanced_selector_ok advanced \<and>
      canonical_objects basic \<and> canonical_objects advanced)"

definition tag_entry_ok :: "json \<Rightarrow> bool" where
  "tag_entry_ok v =
     (has_keys [''key'', ''value''] v \<and> safe_text (jget ''key'' v) \<and> is_str (jget ''value'' v))"

text \<open>Tags are unique by key and in the order of their keys.\<close>

definition trail_tags_ok :: "json \<Rightarrow> bool" where
  "trail_tags_ok v =
     (is_list v \<and> list_all tag_entry_ok (list_items v) \<and>
      sorted_texts_of (JList (map (jget ''key'') (list_items v))) \<noteq> None)"

section \<open>Payloads\<close>

definition cloudtrail_completion :: "source_outcome \<Rightarrow> json \<Rightarrow> bool" where
  "cloudtrail_completion so p =
     (jget ''complete'' p = JBool (so_state so = ST_PRESENT) \<and> failure_attested so p)"

text \<open>The configuration names its trail, both or neither of the CloudWatch targets, a key of its partition.\<close>

definition trail_configuration_bound :: "arn_parts \<Rightarrow> json \<Rightarrow> bool" where
  "trail_configuration_bound parts v =
     (let (part, region, owner, name) = parts;
          group = jget ''cloudwatch_logs_log_group_arn'' v; role = jget ''cloudwatch_logs_role_arn'' v in
      jget ''name'' v = JStr name \<and> (group = JNull) = (role = JNull) \<and>
      null_or safe_text group \<and> null_or safe_text role \<and>
      (jget ''kms_key_id'' v \<noteq> JNull \<longrightarrow>
         (case parse_kms_key_arn (jget ''kms_key_id'' v) of
            None \<Rightarrow> False
          | Some (key_part, _) \<Rightarrow> key_part = part)))"

definition trail_value_ok :: "string \<Rightarrow> arn_parts \<Rightarrow> json \<Rightarrow> bool" where
  "trail_value_ok kind parts v =
     (if kind = ''cloudtrail.trail.configuration''
      then trail_configuration_ok v \<and> trail_configuration_bound parts v
      else if kind = ''cloudtrail.trail.status'' then trail_status_ok v
      else if kind = ''cloudtrail.trail.event-selectors'' then trail_selectors_ok v
      else kind = ''cloudtrail.trail.tags'' \<and> trail_tags_ok v)"

definition trail_enrichment_ok :: "string \<Rightarrow> source_outcome \<Rightarrow> json \<Rightarrow> string \<Rightarrow> arn_parts \<Rightarrow> bool" where
  "trail_enrichment_ok kind so p arn parts =
     (let (part, region, owner, name) = parts; v = jget ''value'' p in
      has_keys [''trail_arn'', ''home_region'', ''value'', ''complete'', ''failure_category''] p \<and>
      jget ''trail_arn'' p = JStr arn \<and> jget ''home_region'' p = JStr region \<and> cloudtrail_completion so p \<and>
      (if so_state so = ST_PRESENT then v \<noteq> JNull \<and> trail_value_ok kind parts v else v = JNull))"

definition trail_identity_ok :: "string \<Rightarrow> source_outcome \<Rightarrow> json \<Rightarrow> string \<Rightarrow> arn_parts \<Rightarrow> bool" where
  "trail_identity_ok account so p arn parts =
     (let (part, region, owner, name) = parts in
      so_state so = ST_PRESENT \<and>
      has_keys [''collection_account_id'', ''owner_account_id'', ''partition'', ''trail_arn'', ''name'',
        ''home_region'', ''complete'', ''failure_category''] p \<and>
      jget ''collection_account_id'' p = JStr account \<and> jget ''owner_account_id'' p = JStr owner \<and>
      jget ''partition'' p = JStr part \<and> jget ''trail_arn'' p = JStr arn \<and> jget ''name'' p = JStr name \<and>
      jget ''home_region'' p = JStr region \<and> cloudtrail_completion so p)"

section \<open>The manifest\<close>

definition cloudtrail_source_ok :: "string \<Rightarrow> source_outcome \<Rightarrow> source_contract \<Rightarrow> bool" where
  "cloudtrail_source_ok account so d =
     (case map_of cloudtrail_sources (so_kind so) of
        None \<Rightarrow> False
      | Some (collector, api, phase, cty, auth) \<Rightarrow>
          sd_key d = so_kind so \<and> sd_contract_version d = ''1.0.0'' \<and> sd_kind d = so_kind so \<and>
          sd_collector d = collector \<and> sd_version d = ''1.0.0'' \<and> sd_api d = api \<and> sd_phase d = phase \<and>
          sd_cardinality d = cty \<and> sd_authoritative d = auth \<and> \<not> sd_supplemental d \<and>
          so_collector so = collector \<and> so_collector_version so = ''1.0.0'' \<and> so_api so = api \<and>
          so_phase so = phase \<and> so_account so = account \<and>
          so_state so \<in> {ST_PRESENT, ST_UNAVAILABLE, ST_MALFORMED, ST_CONFLICT, ST_RESOURCE_DISAPPEARED} \<and>
          (so_kind so = ''cloudtrail.trails.discovery'' \<longrightarrow> so_state so \<noteq> ST_RESOURCE_DISAPPEARED))"

definition contract_of :: "source_contract list \<Rightarrow> source_outcome \<Rightarrow> source_contract option" where
  "contract_of ds so = find_row sd_outcome_id (so_id so) (rev ds)"

definition declared_cloudtrail_source :: "string \<Rightarrow> source_contract list \<Rightarrow> source_outcome \<Rightarrow> bool" where
  "declared_cloudtrail_source account ds so =
     (case contract_of ds so of None \<Rightarrow> False | Some d \<Rightarrow> cloudtrail_source_ok account so d)"

definition discovery_keys :: "string list" where
  "discovery_keys =
     [''collection_account_id'', ''invocation_region'', ''trail_arns'', ''trail_count'', ''discarded_item_count'',
      ''admission_complete'', ''unadmitted_resources'', ''complete'', ''failure_category'']"

text \<open>The discovery payload yields the listed trails.\<close>

definition discovery_arns :: "source_outcome \<Rightarrow> json \<Rightarrow> string list option" where
  "discovery_arns so p =
     (case (sorted_texts_of (jget ''trail_arns'' p), jget ''discarded_item_count'' p) of
        (Some arns, JInt n) \<Rightarrow>
          if has_keys discovery_keys p \<and> jget ''collection_account_id'' p = JStr (so_account so) \<and>
             valid_region (jget ''invocation_region'' p) \<and> list_all (\<lambda>a. safe_text (JStr a)) arns \<and>
             json_eq (jget ''trail_count'' p) (JInt (int (length arns))) \<and> 0 \<le> n \<and>
             is_bool (jget ''admission_complete'' p) \<and> is_list (jget ''unadmitted_resources'' p) \<and>
             cloudtrail_completion so p \<and> (so_state so = ST_PRESENT \<longrightarrow> n = 0) \<and>
             list_all (\<lambda>a. parse_trail_arn a \<noteq> None) arns
          then Some arns else None
      | _ \<Rightarrow> None)"

definition unadmitted_item :: "string \<Rightarrow> arn_parts \<Rightarrow> json" where
  "unadmitted_item arn parts =
     (let (part, region, owner, name) = parts in
      JObj [(''account_id'', JStr owner), (''service'', JStr ''cloudtrail''),
            (''resource_type'', JStr ''cloudtrail_trail''), (''scope'', JStr ''regional''),
            (''region'', JStr region), (''resource_id'', JStr arn)])"

text \<open>A discovered trail of another account that was not admitted: its order key.\<close>

definition unadmitted_trail :: "string \<Rightarrow> string list \<Rightarrow> json \<Rightarrow> (string \<times> string \<times> string) option" where
  "unadmitted_trail account arns item =
     (case jget ''resource_id'' item of
        JStr arn \<Rightarrow>
          (case parse_trail_arn arn of
             None \<Rightarrow> None
           | Some (part, region, owner, name) \<Rightarrow>
               if has_keys [''account_id'', ''service'', ''resource_type'', ''scope'', ''region'', ''resource_id''] item \<and>
                  arn \<in> set arns \<and> json_eq item (unadmitted_item arn (part, region, owner, name)) \<and> owner \<noteq> account
               then Some (owner, region, arn) else None)
      | _ \<Rightarrow> None)"

definition unadmitted_arns :: "source_outcome \<Rightarrow> string list \<Rightarrow> json \<Rightarrow> string list option" where
  "unadmitted_arns so arns p =
     (case those (map (unadmitted_trail (so_account so) arns) (list_items (jget ''unadmitted_resources'' p))) of
        None \<Rightarrow> None
      | Some us \<Rightarrow>
          let out = map (\<lambda>(owner, region, arn). arn) us in
          if distinct out \<and> sorted us \<and> jget ''admission_complete'' p = JBool (out = [])
          then Some out else None)"

type_synonym trail_source = "(string \<times> string) \<times> source_outcome \<times> json"

text \<open>One source of an admitted trail: its trail, kind, outcome and payload.\<close>

definition trail_source_of ::
    "string \<Rightarrow> source_contract list \<Rightarrow> graph_artifact list \<Rightarrow> string list \<Rightarrow> source_outcome \<Rightarrow> trail_source option" where
  "trail_source_of account ds as admitted so =
     (case resource_of so of
        None \<Rightarrow> None
      | Some r \<Rightarrow>
          (case parse_trail_arn (sj_aws_id r) of
             None \<Rightarrow> None
           | Some (part, region, owner, name) \<Rightarrow>
               if declared_cloudtrail_source account ds so \<and> sj_aws_id r \<in> set admitted \<and> sj_account r = owner \<and>
                  regional_resource ''cloudtrail'' ''cloudtrail_trail'' r \<and> sj_region r = Some region
               then map_option (\<lambda>p. ((sj_aws_id r, so_kind so), so, p)) (cited_payload as (so_kind so) so)
               else None))"

text \<open>
  The five sources of one trail: present identity, well-formed enrichments; a trail of another
  account must be an organization trail and rely on its identity source alone.
\<close>

definition external_trail_ok :: "source_contract list \<Rightarrow> (string \<Rightarrow> (source_outcome \<times> json) option) \<Rightarrow> bool" where
  "external_trail_ok ds src =
     ((case src ''cloudtrail.trail.configuration'' of
         Some (so, p) \<Rightarrow>
           so_state so = ST_PRESENT \<longrightarrow> jget ''is_organization_trail'' (jget ''value'' p) = JBool True
       | None \<Rightarrow> False) \<and>
      list_all (\<lambda>k. case src k of
          Some (so, p) \<Rightarrow> pred_option (\<lambda>d. \<not> sd_authoritative d) (contract_of ds so)
        | None \<Rightarrow> False) cloudtrail_enrichment_kinds)"

definition trail_ok :: "string \<Rightarrow> source_contract list \<Rightarrow> trail_source list \<Rightarrow> string \<Rightarrow> bool" where
  "trail_ok account ds sources arn =
     (let src = \<lambda>kind. map_of sources (arn, kind) in
      set (map (snd \<circ> fst) (filter (\<lambda>s. fst (fst s) = arn) sources)) = set cloudtrail_resource_kinds \<and>
      (case parse_trail_arn arn of
         None \<Rightarrow> False
       | Some parts \<Rightarrow>
           (case src ''cloudtrail.trail.identity'' of
              None \<Rightarrow> False
            | Some (so, p) \<Rightarrow> trail_identity_ok account so p arn parts) \<and>
           list_all (\<lambda>k. case src k of
               None \<Rightarrow> False
             | Some (so, p) \<Rightarrow> trail_enrichment_ok k so p arn parts) cloudtrail_enrichment_kinds \<and>
           (fst (snd (snd parts)) \<noteq> account \<longrightarrow> external_trail_ok ds src)))"

definition cloudtrail_collectors :: "string list" where
  "cloudtrail_collectors = map (\<lambda>(_, c, _). c) cloudtrail_sources"

record cloudtrail_manifest =
  cm_discovery :: source_outcome
  cm_region :: json
  cm_admitted :: "string list"
  cm_sources :: "trail_source list"
  cm_incomplete :: bool

definition cloudtrail_manifest_of ::
    "source_outcome list \<Rightarrow> source_contract list \<Rightarrow> graph_artifact list \<Rightarrow> cloudtrail_manifest option" where
  "cloudtrail_manifest_of outcomes ds as =
     (let selected = filter (\<lambda>so. so_collector so \<in> set cloudtrail_collectors) outcomes in
      case filter (\<lambda>so. so_kind so = ''cloudtrail.trails.discovery'') selected of
        [disc] \<Rightarrow>
          let account = so_account disc in
          if \<not> (unique_references as \<and> declared_cloudtrail_source account ds disc \<and>
                (case so_subject disc of AccountSubject _ scope _ \<Rightarrow> scope = SCOPE_GLOBAL | _ \<Rightarrow> False))
          then None
          else
            Option.bind (cited_payload as (so_kind disc) disc) (\<lambda>p.
            Option.bind (discovery_arns disc p) (\<lambda>arns.
            Option.bind (unadmitted_arns disc arns p) (\<lambda>out.
            let admitted = filter (\<lambda>a. a \<notin> set out) arns in
            Option.bind (those (map (trail_source_of account ds as admitted)
                (filter (\<lambda>so. so_kind so \<noteq> ''cloudtrail.trails.discovery'') selected))) (\<lambda>sources.
            if distinct (map fst sources) \<and> set (map (fst \<circ> fst) sources) = set admitted \<and>
               list_all (trail_ok account ds sources) admitted
            then Some \<lparr>cm_discovery = disc, cm_region = jget ''invocation_region'' p, cm_admitted = admitted,
                       cm_sources = sources, cm_incomplete = (out \<noteq> [])\<rparr>
            else None))))
      | _ \<Rightarrow> None)"

section \<open>Facts\<close>

text \<open>What a validated manifest says of every admitted trail.\<close>

lemma cloudtrail_manifest_admitted:
  assumes "cloudtrail_manifest_of outcomes ds as = Some m" "arn \<in> set (cm_admitted m)"
  obtains so p parts where "map_of (cm_sources m) (arn, ''cloudtrail.trail.identity'') = Some (so, p)"
    "so_state so = ST_PRESENT" "parse_trail_arn arn = Some parts"
    "jget ''owner_account_id'' p = JStr (fst (snd (snd parts)))"
proof -
  have ok: "trail_ok (so_account (cm_discovery m)) ds (cm_sources m) arn"
    using assms by (auto simp: cloudtrail_manifest_of_def Let_def bind_eq_Some_conv list_all_iff
        split: list.splits if_splits)
  then obtain parts where parts: "parse_trail_arn arn = Some parts"
    by (auto simp: trail_ok_def Let_def split: option.splits)
  with ok obtain so p where "map_of (cm_sources m) (arn, ''cloudtrail.trail.identity'') = Some (so, p)"
    "trail_identity_ok (so_account (cm_discovery m)) so p arn parts"
    by (auto simp: trail_ok_def Let_def split: option.splits)
  then show thesis using that parts by (auto simp: trail_identity_ok_def split: prod.splits)
qed

end
