(* ===== verification/Evidence_Edges.thy ===== *)
theory Evidence_Edges
  imports S3_Sources CloudTrail_Sources
begin

text \<open>
  The relationships that the S3 and CloudTrail sources of a graph imply
  (app/assessment/evidence_graph.py): every explicit encryption reference of a bucket has exactly its
  edge to a KMS key, every destination of a trail has exactly its edge to a bucket or a key.
\<close>

section \<open>Encryption references\<close>

text \<open>A reference that a bucket's encryption makes, with the Region in which it is looked up.\<close>

record encryption_reference =
  rf_outcome :: source_outcome
  rf_subject :: resource_subject
  rf_partition :: string
  rf_region :: string
  rf_reference :: string

definition kms_kind :: "env \<Rightarrow> string \<Rightarrow> string \<Rightarrow> string" where
  "kms_kind env region reference = ''kms.key.'' @ text_digest env (region @ [char_of (0 :: nat)] @ reference)"

definition encryption_outcomes :: "source_outcome list \<Rightarrow> source_outcome list" where
  "encryption_outcomes outcomes = filter (\<lambda>so. so_collector so = ''s3.bucket-encryption'') outcomes"

definition regional_subject :: "source_outcome \<Rightarrow> (resource_subject \<times> string) option" where
  "regional_subject so =
     (case resource_of so of
        None \<Rightarrow> None
      | Some r \<Rightarrow> (case sj_region r of None \<Rightarrow> None | Some region \<Rightarrow> Some (r, region)))"

text \<open>The references of one encryption source; an incomplete source makes none.\<close>

definition references_of :: "env \<Rightarrow> graph_artifact list \<Rightarrow> source_outcome \<Rightarrow> encryption_reference list option" where
  "references_of env as so =
     (case (regional_subject so, cited_payload as ''s3.bucket-encryption'' so) of
        (Some (r, region), Some p) \<Rightarrow>
          if \<not> bucket_value_ok env ''s3.bucket-encryption'' (so_state so) (jget ''value'' p) then None
          else if so_state so \<noteq> ST_PRESENT then Some []
          else
            Option.bind (bucket_arn_partition (jget ''bucket_arn'' p) (sj_aws_id r)) (\<lambda>part.
            Option.bind (kms_references (jget ''value'' p)) (\<lambda>refs.
            those (map (\<lambda>reference. map_option (\<lambda>lookup.
                \<lparr>rf_outcome = so, rf_subject = r, rf_partition = part, rf_region = lookup, rf_reference = reference\<rparr>)
              (reference_region reference region part)) refs)))
      | _ \<Rightarrow> None)"

definition all_references ::
    "env \<Rightarrow> source_outcome list \<Rightarrow> graph_artifact list \<Rightarrow> encryption_reference list option" where
  "all_references env outcomes as =
     map_option concat (those (map (references_of env as) (encryption_outcomes outcomes)))"

definition referring_buckets :: "env \<Rightarrow> encryption_reference list \<Rightarrow> string \<Rightarrow> string list" where
  "referring_buckets env refs kind =
     sort (remdups (map (\<lambda>f. sj_aws_id (rf_subject f))
       (filter (\<lambda>f. kms_kind env (rf_region f) (rf_reference f) = kind) refs)))"

section \<open>KMS sources\<close>

definition kms_payload_keys :: "string list" where
  "kms_payload_keys =
     [''region'', ''supplied_reference'', ''source_bucket_names'', ''key'', ''complete'', ''failure_category'']"

text \<open>
  A DescribeKey source with its payload: it answers a reference that buckets make, and a failed one
  is held by the first of those buckets.
\<close>

definition bucket_subject :: "source_outcome list \<Rightarrow> string \<Rightarrow> subject option" where
  "bucket_subject outcomes bucket =
     map_option so_subject (find_row (\<lambda>so. map_option sj_aws_id (resource_of so)) (Some bucket)
       (rev (encryption_outcomes outcomes)))"

definition kms_source ::
    "env \<Rightarrow> source_outcome list \<Rightarrow> graph_artifact list \<Rightarrow> encryption_reference list \<Rightarrow> source_outcome \<Rightarrow>
     (source_outcome \<times> json) option" where
  "kms_source env outcomes as refs so =
     (case cited_payload as ''kms.key'' so of
        None \<Rightarrow> None
      | Some p \<Rightarrow>
          let buckets = referring_buckets env refs (so_kind so) in
          (case (jget ''region'' p, jget ''supplied_reference'' p) of
             (JStr region, JStr reference) \<Rightarrow>
               if so_state so \<in> {ST_PRESENT, ST_UNAVAILABLE, ST_MALFORMED, ST_CONFLICT} \<and>
                  has_keys kms_payload_keys p \<and> completion_attested so p \<and> valid_region (JStr region) \<and>
                  safe_text (JStr reference) \<and> jget ''source_bucket_names'' p = JList (map JStr buckets) \<and>
                  buckets \<noteq> [] \<and> so_kind so = kms_kind env region reference \<and>
                  (so_state so \<noteq> ST_PRESENT \<longrightarrow> Some (so_subject so) = bucket_subject outcomes (hd buckets)) \<and>
                  kms_key_value_ok (so_state so) (jget ''key'' p)
               then Some (so, p) else None
           | _ \<Rightarrow> None))"

text \<open>The present key sources under the identity of their key.\<close>

definition canonical_keys :: "(source_outcome \<times> json) list \<Rightarrow> ((string \<times> string) \<times> resource_subject \<times> json) list" where
  "canonical_keys sources =
     List.map_filter (\<lambda>(so, p).
       case regional_subject so of
         Some (r, region) \<Rightarrow>
           if so_state so = ST_PRESENT \<and> sj_service r = ''kms'' \<and> sj_type r = ''kms_key''
           then Some ((region, sj_aws_id r), r, jget ''key'' p) else None
       | None \<Rightarrow> None) sources"

definition keys_agree :: "((string \<times> string) \<times> resource_subject \<times> json) list \<Rightarrow> bool" where
  "keys_agree ks =
     list_all (\<lambda>(i, r, k). list_all (\<lambda>(i', r', k'). i = i' \<longrightarrow> json_eq k k') ks) ks"

section \<open>Expected edges of the buckets\<close>

definition endpoint_for_subject :: "env \<Rightarrow> uuid \<Rightarrow> resource_subject \<Rightarrow> endpoint option" where
  "endpoint_for_subject env scan r =
     endpoint_for_resource env (sj_account r) (sj_service r) (sj_type r) (sj_aws_id r) (sj_scope r) (sj_region r)
       (Some scan)"

definition provenance_of :: "source_outcome \<Rightarrow> edge_provenance" where
  "provenance_of so =
     \<lparr>xp_collector = so_collector so, xp_collector_version = so_collector_version so, xp_api = so_api so,
      xp_reference = so_reference so, xp_collected_at = so_collected_at so\<rparr>"

text \<open>The successful answer names the key that the reference means.\<close>

definition present_key_target ::
    "env \<Rightarrow> uuid \<Rightarrow> string \<Rightarrow> encryption_reference \<Rightarrow> source_outcome \<Rightarrow> json \<Rightarrow> endpoint option" where
  "present_key_target env scan account f so p =
     (case (resource_of so, jget ''arn'' (jget ''key'' p), jget ''key_id'' (jget ''key'' p),
            jget ''aws_account_id'' (jget ''key'' p)) of
        (Some r, JStr arn, JStr key, JStr owner) \<Rightarrow>
          if sj_service r = ''kms'' \<and> sj_type r = ''kms_key'' \<and> sj_region r = Some (rf_region f) \<and> sj_aws_id r = arn \<and>
             sj_account r = owner \<and>
             kms_reference_matches (rf_reference f) (rf_region f) account (rf_partition f) arn key owner
          then endpoint_for_subject env scan r else None
      | _ \<Rightarrow> None)"

text \<open>A reference whose lookup failed still means a key that another lookup found under its ARN.\<close>

definition failed_key_target ::
    "env \<Rightarrow> uuid \<Rightarrow> encryption_reference \<Rightarrow> ((string \<times> string) \<times> resource_subject \<times> json) list \<Rightarrow>
     (relationship_target \<times> relationship_resolution) option" where
  "failed_key_target env scan f keys =
     (let candidates = map (fst \<circ> snd) (filter (\<lambda>k. fst k = (rf_region f, rf_reference f)) keys) in
      case remdups (map sj_snapshot_id candidates) of
        [] \<Rightarrow> map_option (\<lambda>t. (PartialTarget t, RR_TARGET_IDENTITY_INCOMPLETE))
                (partial_for_reference env ''kms'' ''kms_key'' (rf_reference f) None (Some SCOPE_REGIONAL) (Some (rf_region f)))
      | [_] \<Rightarrow> map_option (\<lambda>e. (StableTarget e, RR_RESOLVED)) (endpoint_for_subject env scan (last candidates))
      | _ \<Rightarrow> None)"

definition key_target ::
    "env \<Rightarrow> uuid \<Rightarrow> string \<Rightarrow> (source_outcome \<times> json) list \<Rightarrow> encryption_reference \<Rightarrow>
     (relationship_target \<times> relationship_resolution) option" where
  "key_target env scan account sources f =
     (case filter (\<lambda>(so, p). so_kind so = kms_kind env (rf_region f) (rf_reference f)) sources of
        [(so, p)] \<Rightarrow>
          if so_api so = ''kms:DescribeKey'' \<and> so_collector_version so = ''1.0.0'' \<and>
             jget ''region'' p = JStr (rf_region f) \<and> jget ''supplied_reference'' p = JStr (rf_reference f) \<and>
             JStr (sj_aws_id (rf_subject f)) \<in> set (list_items (jget ''source_bucket_names'' p))
          then (if so_state so = ST_PRESENT
                then map_option (\<lambda>e. (StableTarget e, RR_RESOLVED)) (present_key_target env scan account f so p)
                else failed_key_target env scan f (canonical_keys sources))
          else None
      | _ \<Rightarrow> None)"

definition encryption_edge ::
    "env \<Rightarrow> uuid \<Rightarrow> string \<Rightarrow> (source_outcome \<times> json) list \<Rightarrow> encryption_reference \<Rightarrow> relationship option" where
  "encryption_edge env scan account sources f =
     Option.bind (endpoint_for_subject env scan (rf_subject f)) (\<lambda>source.
     Option.bind (key_target env scan account sources f) (\<lambda>(target, resolution).
     relationship_for_observation env
       \<lparr>xr_relationship_id = 0, xr_observation_id = 0, xr_scan_id = scan, xr_account = account,
        xr_type = RT_ENCRYPTED_WITH, xr_source = source, xr_target = target, xr_resolution = resolution,
        xr_provenance = provenance_of (rf_outcome f)\<rparr>))"

text \<open>Every expected edge, one per reference: two references may mean one key.\<close>

definition expected_encryption_edges ::
    "env \<Rightarrow> uuid \<Rightarrow> string \<Rightarrow> source_outcome list \<Rightarrow> graph_artifact list \<Rightarrow> relationship list option" where
  "expected_encryption_edges env scan account outcomes as =
     Option.bind (all_references env outcomes as) (\<lambda>refs.
     Option.bind (those (map (kms_source env outcomes as refs)
       (filter (\<lambda>so. so_collector so = ''kms.keys'') outcomes))) (\<lambda>sources.
     if keys_agree (canonical_keys sources)
     then those (map (encryption_edge env scan account sources) refs) else None))"

definition is_encryption_edge :: "relationship \<Rightarrow> bool" where
  "is_encryption_edge x =
     (xr_type x = RT_ENCRYPTED_WITH \<and> ep_service (xr_source x) = ''s3'' \<and> ep_type (xr_source x) = ''s3_bucket'' \<and>
      target_signature (xr_target x) = (''kms'', ''kms_key''))"

text \<open>\<open>_validate_s3_kms_relationship_manifest\<close>.\<close>

definition encryption_edges_ok ::
    "env \<Rightarrow> uuid \<Rightarrow> string \<Rightarrow> source_outcome list \<Rightarrow> graph_artifact list \<Rightarrow> relationship list \<Rightarrow>
     relationship list \<Rightarrow> bool" where
  "encryption_edges_ok env scan account outcomes as edges raw =
     (if \<not> list_ex (\<lambda>so. so_collector so = ''s3.buckets'' \<and> so_kind so = ''s3.buckets.discovery'') outcomes then True
      else unique_references as \<and>
        (case expected_encryption_edges env scan account outcomes as of
           None \<Rightarrow> False
         | Some expected \<Rightarrow>
             deduplicate_relationships expected \<noteq> None \<and>
             list_all (\<lambda>x. is_encryption_edge x \<longrightarrow>
                 count_list (map xr_observation_id (filter is_encryption_edge raw)) (xr_observation_id x)
                   \<le> count_list (map xr_observation_id expected) (xr_observation_id x)) raw \<and>
             set (filter is_encryption_edge edges) = set expected))"

section \<open>Edges of the trails\<close>

definition is_trail_edge :: "relationship \<Rightarrow> bool" where
  "is_trail_edge x = (ep_service (xr_source x) = ''cloudtrail'' \<and> ep_type (xr_source x) = ''cloudtrail_trail'')"

type_synonym trail_edge = "(string \<times> relationship_type) \<times> source_outcome \<times> json"

text \<open>The destinations of one trail with a present configuration.\<close>

definition trail_destinations :: "cloudtrail_manifest \<Rightarrow> string \<Rightarrow> trail_edge list" where
  "trail_destinations m arn =
     (case map_of (cm_sources m) (arn, ''cloudtrail.trail.configuration'') of
        None \<Rightarrow> []
      | Some (so, p) \<Rightarrow>
          let v = jget ''value'' p in
          if so_state so \<noteq> ST_PRESENT then []
          else (if jget ''s3_bucket_name'' v = JNull then []
                else [((arn, RT_DELIVERS_TO_BUCKET), so, jget ''s3_bucket_name'' v)]) @
               (if jget ''kms_key_id'' v = JNull then [] else [((arn, RT_ENCRYPTED_WITH), so, jget ''kms_key_id'' v)]))"

definition expected_trail_edges :: "cloudtrail_manifest \<Rightarrow> trail_edge list" where
  "expected_trail_edges m = concat (map (trail_destinations m) (cm_admitted m))"

definition endpoint_matches_subject :: "endpoint \<Rightarrow> resource_subject \<Rightarrow> bool" where
  "endpoint_matches_subject e r =
     (ep_account e = sj_account r \<and> ep_service e = sj_service r \<and> ep_type e = sj_type r \<and>
      ep_aws_id e = sj_aws_id r \<and> ep_scope e = sj_scope r \<and> ep_region e = sj_region r)"

text \<open>A bucket is resolved, or known by its name alone.\<close>

definition bucket_edge_ok :: "relationship \<Rightarrow> json \<Rightarrow> bool" where
  "bucket_edge_ok x bucket =
     (case xr_target x of
        StableTarget e \<Rightarrow>
          ep_service e = ''s3'' \<and> ep_type e = ''s3_bucket'' \<and> JStr (ep_aws_id e) = bucket \<and> ep_scope e = SCOPE_REGIONAL \<and>
          xr_resolution x = RR_RESOLVED
      | PartialTarget p \<Rightarrow>
          pt_service p = ''s3'' \<and> pt_type p = ''s3_bucket'' \<and> JStr (pt_aws_id p) = bucket \<and>
          pt_scope p = Some SCOPE_REGIONAL \<and> pt_account p = None \<and> pt_region p = None \<and>
          xr_resolution x = RR_TARGET_IDENTITY_INCOMPLETE)"

definition present_key_of :: "arn_parts \<Rightarrow> string \<Rightarrow> source_outcome \<Rightarrow> bool" where
  "present_key_of parts arn so =
     (so_collector so = ''kms.keys'' \<and> so_state so = ST_PRESENT \<and>
      (case resource_of so of
         None \<Rightarrow> False
       | Some r \<Rightarrow> sj_account r = fst (snd (snd parts)) \<and> regional_resource ''kms'' ''kms_key'' r \<and>
           sj_aws_id r = arn \<and> sj_region r = Some (fst (snd parts))))"

text \<open>\<open>_cloudtrail_kms_resolution_from_outcomes\<close>: how the key of a trail was resolved in this scan.\<close>

definition trail_key_resolution ::
    "env \<Rightarrow> string \<Rightarrow> source_contract list \<Rightarrow> graph_artifact list \<Rightarrow> source_outcome list \<Rightarrow>
     relationship_resolution option" where
  "trail_key_resolution env arn ds as outcomes =
     Option.bind (parse_kms_key_arn (JStr arn)) (\<lambda>parts.
     let s3 = filter (\<lambda>so. so_collector so \<in> set s3_collectors) outcomes;
         lookups = filter (\<lambda>so. so_kind so = kms_kind env (fst (snd parts)) arn) outcomes in
     Option.bind (if s3 = [] then Some True
                  else (case bucket_regions_of env outcomes as ds of Some (Some (whole, _)) \<Rightarrow> Some whole | _ \<Rightarrow> None)) (\<lambda>whole.
     if list_ex (present_key_of parts arn) outcomes then Some RR_RESOLVED
     else if list_ex (\<lambda>so. so_collector so \<noteq> ''kms.keys'') lookups \<or> 1 < length lookups then None
     else
       (case lookups of
          so # _ \<Rightarrow>
            if so_state so = ST_PRESENT then None
            else if so_failure so = Some FC_ACCESS_DENIED then Some RR_TARGET_ACCESS_DENIED
            else Some RR_TARGET_EVIDENCE_INCOMPLETE
        | [] \<Rightarrow>
            if list_all (\<lambda>so. complete_state (so_state so)) s3 \<and> whole then Some RR_TARGET_NOT_COLLECTED
            else Some RR_TARGET_EVIDENCE_INCOMPLETE)))"

definition key_edge_ok ::
    "env \<Rightarrow> source_contract list \<Rightarrow> graph_artifact list \<Rightarrow> source_outcome list \<Rightarrow> relationship \<Rightarrow> json \<Rightarrow> bool" where
  "key_edge_ok env ds as outcomes x key =
     (case (xr_target x, key, parse_kms_key_arn key) of
        (StableTarget e, JStr arn, Some (part, region, owner, name)) \<Rightarrow>
          ep_account e = owner \<and> ep_service e = ''kms'' \<and> ep_type e = ''kms_key'' \<and> ep_aws_id e = arn \<and>
          ep_scope e = SCOPE_REGIONAL \<and> ep_region e = Some region \<and>
          trail_key_resolution env arn ds as outcomes = Some (xr_resolution x) \<and>
          (xr_resolution x = RR_RESOLVED) = (ep_snapshot_id e \<noteq> None)
      | _ \<Rightarrow> False)"

definition trail_edge_ok ::
    "env \<Rightarrow> uuid \<Rightarrow> string \<Rightarrow> source_contract list \<Rightarrow> graph_artifact list \<Rightarrow> source_outcome list \<Rightarrow> trail_edge list \<Rightarrow>
     relationship \<Rightarrow> bool" where
  "trail_edge_ok env scan account ds as outcomes expected x =
     (case map_of expected (ep_aws_id (xr_source x), xr_type x) of
        None \<Rightarrow> False
      | Some (so, reference) \<Rightarrow>
          (case resource_of so of
             None \<Rightarrow> False
           | Some r \<Rightarrow>
               xr_scan_id x = scan \<and> xr_account x = account \<and>
               ep_snapshot_id (xr_source x) = Some (sj_snapshot_id r) \<and> endpoint_matches_subject (xr_source x) r \<and>
               xr_provenance x = provenance_of so \<and>
               (if xr_type x = RT_DELIVERS_TO_BUCKET then bucket_edge_ok x reference
                else key_edge_ok env ds as outcomes x reference)))"

text \<open>\<open>_validate_cloudtrail_relationship_manifest\<close>.\<close>

definition trail_edges_ok ::
    "env \<Rightarrow> uuid \<Rightarrow> string \<Rightarrow> cloudtrail_manifest \<Rightarrow> source_contract list \<Rightarrow> graph_artifact list \<Rightarrow>
     source_outcome list \<Rightarrow> relationship list \<Rightarrow> relationship list \<Rightarrow> bool" where
  "trail_edges_ok env scan account m ds as outcomes edges raw =
     (let actual = filter is_trail_edge edges; expected = expected_trail_edges m;
          keys = map (\<lambda>x. (ep_aws_id (xr_source x), xr_type x)) actual in
      distinct (map xr_observation_id (filter is_trail_edge raw)) \<and> distinct keys \<and>
      list_all (trail_edge_ok env scan account ds as outcomes expected) actual \<and>
      set keys = set (map fst expected))"

text \<open>The manifest of the trails with their edges.\<close>

definition cloudtrail_ok ::
    "env \<Rightarrow> uuid \<Rightarrow> string \<Rightarrow> source_outcome list \<Rightarrow> source_contract list \<Rightarrow> graph_artifact list \<Rightarrow>
     relationship list \<Rightarrow> relationship list \<Rightarrow> bool" where
  "cloudtrail_ok env scan account outcomes ds as edges raw =
     (case cloudtrail_manifest_of outcomes ds as of
        None \<Rightarrow> False
      | Some m \<Rightarrow> trail_edges_ok env scan account m ds as outcomes edges raw)"

section \<open>Facts\<close>

text \<open>Both manifests hold of the deduplicated edges when they hold of the raw ones.\<close>

lemma count_list_distinct: "distinct xs \<Longrightarrow> count_list xs x \<le> 1"
  by (induction xs) (auto simp: count_list_0_iff)

lemma count_list_member: "x \<in> set xs \<Longrightarrow> 1 \<le> count_list xs x"
  by (induction xs) auto

lemma encryption_edges_deduplicated:
  assumes "encryption_edges_ok env scan account outcomes as edges raw" "distinct (map xr_observation_id edges)"
  shows "encryption_edges_ok env scan account outcomes as edges edges"
proof (cases "list_ex (\<lambda>so. so_collector so = ''s3.buckets'' \<and> so_kind so = ''s3.buckets.discovery'') outcomes")
  case False
  then show ?thesis by (simp add: encryption_edges_ok_def)
next
  case True
  then obtain expected where e: "expected_encryption_edges env scan account outcomes as = Some expected"
    "unique_references as" "deduplicate_relationships expected \<noteq> None"
    "set (filter is_encryption_edge edges) = set expected"
    using assms(1) by (auto simp: encryption_edges_ok_def split: option.splits if_splits)
  have "count_list (map xr_observation_id (filter is_encryption_edge edges)) (xr_observation_id x)
      \<le> count_list (map xr_observation_id expected) (xr_observation_id x)"
    if x: "x \<in> set edges" "is_encryption_edge x" for x
  proof -
    have "x \<in> set (filter is_encryption_edge edges)" using x by simp
    then have "x \<in> set expected" by (simp only: e(4))
    then have "xr_observation_id x \<in> set (map xr_observation_id expected)" by (simp only: set_map imageI)
    then have "1 \<le> count_list (map xr_observation_id expected) (xr_observation_id x)" by (rule count_list_member)
    with count_list_distinct [OF distinct_map_filter [OF assms(2)]] show ?thesis by (rule order_trans)
  qed
  then show ?thesis using e True by (simp add: encryption_edges_ok_def list_all_iff)
qed

lemma cloudtrail_deduplicated:
  assumes "cloudtrail_ok env scan account outcomes ds as edges raw" "distinct (map xr_observation_id edges)"
  shows "cloudtrail_ok env scan account outcomes ds as edges edges"
proof -
  have "distinct (map xr_observation_id (filter is_trail_edge edges))" using assms(2) by (rule distinct_map_filter)
  then show ?thesis using assms(1)
    by (auto simp: cloudtrail_ok_def trail_edges_ok_def Let_def split: option.splits)
qed

end
