(* ===== verification/Evidence_Graph.thy ===== *)
theory Evidence_Graph
  imports Evidence_Edges
begin

text \<open>
  app/assessment/evidence_graph.py, the graph itself: declared sources, normalized artifacts, and
  the validator that binds sources, outcomes, artifacts and relationships of one scan to each
  other and leaves them deduplicated in the order of their identifiers.
\<close>

section \<open>The graph\<close>

type_synonym provenance_key = "string \<times> string \<times> string \<times> string \<times> time"

text \<open>\<open>source_provenance_key\<close> without the constant source; the outcomes that an edge rests on.\<close>

definition outcome_provenance :: "source_outcome \<Rightarrow> provenance_key" where
  "outcome_provenance so =
     (so_collector so, so_collector_version so, so_api so, so_reference so, so_collected_at so)"

definition edge_provenance_key :: "edge_provenance \<Rightarrow> provenance_key" where
  "edge_provenance_key p =
     (xp_collector p, xp_collector_version p, xp_api p, xp_reference p, xp_collected_at p)"

definition outcomes_for_provenance :: "source_outcome list \<Rightarrow> edge_provenance \<Rightarrow> source_outcome list" where
  "outcomes_for_provenance outcomes p =
     filter (\<lambda>so. outcome_provenance so = edge_provenance_key p) outcomes"

definition has_s3_discovery :: "source_outcome list \<Rightarrow> bool" where
  "has_s3_discovery outcomes =
     list_ex (\<lambda>so. so_collector so = ''s3.buckets'' \<and> so_kind so = ''s3.buckets.discovery'') outcomes"

definition has_cloudtrail :: "source_outcome list \<Rightarrow> bool" where
  "has_cloudtrail outcomes = list_ex (\<lambda>so. so_collector so \<in> set cloudtrail_collectors) outcomes"

text \<open>Every record of the graph names its scan, its account and its collection time.\<close>

definition common_observation :: "evidence_graph \<Rightarrow> uuid \<Rightarrow> string \<Rightarrow> time option \<Rightarrow> bool" where
  "common_observation g scan account at =
     (scan = eg_scan_id g \<and> account = eg_account g \<and> pred_option (\<lambda>t. t = eg_collected_at g) at)"

text \<open>One declared source, its outcome and the artifact the outcome cites.\<close>

definition source_bound :: "evidence_graph \<Rightarrow> source_contract \<Rightarrow> bool" where
  "source_bound g d =
     (common_observation g (sd_scan_id d) (sd_account d) None \<and>
      (case find_row so_id (sd_outcome_id d) (eg_outcomes g) of
         None \<Rightarrow> False
       | Some so \<Rightarrow>
           common_observation g (so_scan_id so) (so_account so) (Some (so_collected_at so)) \<and>
           matches_outcome d so \<and>
           (case find_row ga_reference (so_reference so) (eg_artifacts g) of
              None \<Rightarrow> False
            | Some a \<Rightarrow> ga_sha a = so_sha so \<and> ga_collected_at a = so_collected_at so)))"

definition edge_bound :: "evidence_graph \<Rightarrow> relationship \<Rightarrow> bool" where
  "edge_bound g x =
     (common_observation g (xr_scan_id x) (xr_account x) None \<and>
      (case outcomes_for_provenance (eg_outcomes g) (xr_provenance x) of
         [so] \<Rightarrow> so_state so = ST_PRESENT
       | _ \<Rightarrow> False))"

definition graph_ok :: "env \<Rightarrow> evidence_graph \<Rightarrow> relationship list \<Rightarrow> bool" where
  "graph_ok env g raw =
     (account_pattern (eg_account g) \<and> eg_sources g \<noteq> [] \<and> eg_artifacts g \<noteq> [] \<and> eg_outcomes g \<noteq> [] \<and>
      set (map sd_outcome_id (eg_sources g)) = set (map so_id (eg_outcomes g)) \<and>
      list_all (\<lambda>a. common_observation g (ga_scan_id a) (ga_account a) (Some (ga_collected_at a))) (eg_artifacts g) \<and>
      distinct (map ga_reference (eg_artifacts g)) \<and>
      list_all (source_bound g) (eg_sources g) \<and>
      list_all (\<lambda>a. ga_reference a \<in> set (map so_reference (eg_outcomes g))) (eg_artifacts g) \<and>
      (has_s3_discovery (eg_outcomes g) \<longrightarrow> s3_family_ok env (eg_outcomes g) (eg_sources g) (eg_artifacts g)) \<and>
      list_all (edge_bound g) (eg_relationships g) \<and>
      encryption_edges_ok env (eg_scan_id g) (eg_account g) (eg_outcomes g) (eg_artifacts g) (eg_relationships g) raw \<and>
      (has_cloudtrail (eg_outcomes g) \<longrightarrow>
         cloudtrail_ok env (eg_scan_id g) (eg_account g) (eg_outcomes g) (eg_sources g) (eg_artifacts g)
           (eg_relationships g) raw))"

text \<open>The four lists in canonical order, or a conflict between duplicates.\<close>

definition canonical_graph :: "evidence_graph \<Rightarrow> evidence_graph option" where
  "canonical_graph g =
     Option.bind (deduplicate sd_outcome_id (eg_sources g)) (\<lambda>ds.
     Option.bind (deduplicate ga_id (eg_artifacts g)) (\<lambda>as.
     Option.bind (deduplicate so_id (eg_outcomes g)) (\<lambda>sos.
     map_option (\<lambda>xs. g\<lparr>eg_sources := ds, eg_artifacts := as, eg_outcomes := sos, eg_relationships := xs\<rparr>)
       (deduplicate_relationships (eg_relationships g)))))"

text \<open>\<open>those\<close> over the constructors of the records, the account stripped, then the validator.\<close>

definition make_graph :: "env \<Rightarrow> evidence_graph \<Rightarrow> evidence_graph option" where
  "make_graph env g =
     Option.bind (those (map (make_contract env) (eg_sources g))) (\<lambda>ds.
     Option.bind (those (map (make_graph_artifact env) (eg_artifacts g))) (\<lambda>as.
     Option.bind (those (map (make_outcome env) (eg_outcomes g))) (\<lambda>sos.
     Option.bind (those (map (make_relationship env) (eg_relationships g))) (\<lambda>xs.
     Option.bind (canonical_graph
        (g\<lparr>eg_account := trim_text (eg_account g), eg_sources := ds, eg_artifacts := as, eg_outcomes := sos,
           eg_relationships := xs\<rparr>)) (\<lambda>h.
     if graph_ok env h xs then Some h else None)))))"

section \<open>The manifest of declared sources\<close>

definition source_manifest_sha :: "env \<Rightarrow> evidence_graph \<Rightarrow> digest" where
  "source_manifest_sha env g =
     json_digest env (JObj [(''schema_version'', JStr ''1.0.0''),
       (''source_contracts'', JList (map contract_document (eg_sources g)))])"

text \<open>\<open>contracts_for_relationship\<close>.\<close>

definition contracts_for_relationship :: "evidence_graph \<Rightarrow> relationship \<Rightarrow> source_contract list" where
  "contracts_for_relationship g x =
     filter (\<lambda>d. sd_outcome_id d \<in> set (map so_id (outcomes_for_provenance (eg_outcomes g) (xr_provenance x))))
       (eg_sources g)"

section \<open>Facts\<close>

text \<open>
  A graph is settled when its records are what their constructors return, its lists are in
  canonical order and its account is stripped: what the constructor of the graph returns.
\<close>

definition settled_graph :: "env \<Rightarrow> evidence_graph \<Rightarrow> bool" where
  "settled_graph env g =
     ((\<forall>d\<in>set (eg_sources g). make_contract env d = Some d) \<and>
      (\<forall>a\<in>set (eg_artifacts g). make_graph_artifact env a = Some a) \<and>
      (\<forall>so\<in>set (eg_outcomes g). make_outcome env so = Some so) \<and>
      (\<forall>x\<in>set (eg_relationships g). make_relationship env x = Some x) \<and>
      trim_text (eg_account g) = eg_account g \<and>
      deduplicate sd_outcome_id (eg_sources g) = Some (eg_sources g) \<and>
      deduplicate ga_id (eg_artifacts g) = Some (eg_artifacts g) \<and>
      deduplicate so_id (eg_outcomes g) = Some (eg_outcomes g) \<and>
      deduplicate_relationships (eg_relationships g) = Some (eg_relationships g))"

lemma canonical_graph_Some:
  assumes "canonical_graph g = Some h"
  shows "deduplicate sd_outcome_id (eg_sources g) = Some (eg_sources h)"
    "deduplicate ga_id (eg_artifacts g) = Some (eg_artifacts h)"
    "deduplicate so_id (eg_outcomes g) = Some (eg_outcomes h)"
    "deduplicate_relationships (eg_relationships g) = Some (eg_relationships h)"
    "eg_account h = eg_account g" "eg_scan_id h = eg_scan_id g" "eg_collected_at h = eg_collected_at g"
  using assms by (auto simp: canonical_graph_def bind_eq_Some_conv)

lemma make_graph_settled:
  assumes "make_graph env x = Some g"
  shows "settled_graph env g"
proof -
  obtain ds as sos xs where parts: "those (map (make_contract env) (eg_sources x)) = Some ds"
    "those (map (make_graph_artifact env) (eg_artifacts x)) = Some as"
    "those (map (make_outcome env) (eg_outcomes x)) = Some sos"
    "those (map (make_relationship env) (eg_relationships x)) = Some xs"
    and canonical: "canonical_graph (x\<lparr>eg_account := trim_text (eg_account x), eg_sources := ds, eg_artifacts := as,
      eg_outcomes := sos, eg_relationships := xs\<rparr>) = Some g"
    using assms by (auto simp: make_graph_def bind_eq_Some_conv split: if_splits)
  note c = canonical_graph_Some [OF canonical, simplified]
  have same: "set (eg_sources g) = set ds" "set (eg_artifacts g) = set as" "set (eg_outcomes g) = set sos"
    "set (eg_relationships g) = set xs"
    using deduplicate_Some(3) [OF c(1)] deduplicate_Some(3) [OF c(2)] deduplicate_Some(3) [OF c(3)]
      deduplicate_Some(3) [OF c(4) [unfolded deduplicate_relationships_def]] by simp_all
  show ?thesis unfolding settled_graph_def same
  proof (intro conjI ballI)
    show "\<And>d. d \<in> set ds \<Longrightarrow> make_contract env d = Some d"
      using those_map_again [OF parts(1)] contracts.make_again by blast
    show "\<And>a. a \<in> set as \<Longrightarrow> make_graph_artifact env a = Some a"
      using those_map_again [OF parts(2)] graph_artifacts.make_again by blast
    show "\<And>so. so \<in> set sos \<Longrightarrow> make_outcome env so = Some so"
      using those_map_again [OF parts(3)] outcomes.make_again by blast
    show "\<And>r. r \<in> set xs \<Longrightarrow> make_relationship env r = Some r"
      using those_map_again [OF parts(4)] relationships.make_again by blast
    show "trim_text (eg_account g) = eg_account g" using c(5) by simp
  qed (use c(1-4) deduplicate_again in \<open>auto simp: deduplicate_relationships_def\<close>)
qed

text \<open>On a settled graph construction is the check alone: it returns the graph itself or nothing.\<close>

lemma make_graph_of_settled:
  assumes "settled_graph env g"
  shows "make_graph env g = (if graph_ok env g (eg_relationships g) then Some g else None)"
proof -
  have parts: "those (map (make_contract env) (eg_sources g)) = Some (eg_sources g)"
    "those (map (make_graph_artifact env) (eg_artifacts g)) = Some (eg_artifacts g)"
    "those (map (make_outcome env) (eg_outcomes g)) = Some (eg_outcomes g)"
    "those (map (make_relationship env) (eg_relationships g)) = Some (eg_relationships g)"
    using assms by (simp_all add: settled_graph_def those_map_fixed)
  have "canonical_graph g = Some g" "trim_text (eg_account g) = eg_account g"
    using assms by (simp_all add: settled_graph_def canonical_graph_def)
  then show ?thesis by (simp add: make_graph_def parts)
qed

text \<open>Constructing a graph from the records of a valid graph changes nothing.\<close>

lemma make_graph_ok:
  assumes "make_graph env x = Some g"
  shows "\<exists>raw. graph_ok env g raw"
  using assms by (auto simp: make_graph_def bind_eq_Some_conv split: if_splits)

lemma graph_ok_deduplicated:
  assumes "graph_ok env g raw" "settled_graph env g"
  shows "graph_ok env g (eg_relationships g)"
proof -
  have d: "distinct (map xr_observation_id (eg_relationships g))"
    using assms(2) deduplicate_Some(2) by (auto simp: settled_graph_def deduplicate_relationships_def)
  have "encryption_edges_ok env (eg_scan_id g) (eg_account g) (eg_outcomes g) (eg_artifacts g) (eg_relationships g) raw"
    using assms(1) unfolding graph_ok_def by (elim conjE)
  then have e: "encryption_edges_ok env (eg_scan_id g) (eg_account g) (eg_outcomes g) (eg_artifacts g)
      (eg_relationships g) (eg_relationships g)"
    using d by (rule encryption_edges_deduplicated)
  have c: "cloudtrail_ok env (eg_scan_id g) (eg_account g) (eg_outcomes g) (eg_sources g) (eg_artifacts g)
      (eg_relationships g) raw \<Longrightarrow> cloudtrail_ok env (eg_scan_id g) (eg_account g) (eg_outcomes g) (eg_sources g)
      (eg_artifacts g) (eg_relationships g) (eg_relationships g)"
    by (rule cloudtrail_deduplicated [OF _ d])
  show ?thesis using assms(1) e c unfolding graph_ok_def by (elim conjE, intro conjI impI) (assumption | blast)+
qed

lemma make_graph_again:
  assumes "make_graph env x = Some g"
  shows "make_graph env g = Some g" "graph_ok env g (eg_relationships g)"
proof -
  have settled: "settled_graph env g" using assms by (rule make_graph_settled)
  obtain raw where "graph_ok env g raw" using make_graph_ok [OF assms] ..
  then show "graph_ok env g (eg_relationships g)" using settled by (rule graph_ok_deduplicated)
  then show "make_graph env g = Some g" using make_graph_of_settled [OF settled] by simp
qed

text \<open>The digest of an artifact is the digest of its payload.\<close>

lemma artifact_digest:
  assumes "make_graph env x = Some g" "a \<in> set (eg_artifacts g)"
  shows "ga_sha a = json_digest env (ga_payload a)"
  using make_graph_settled [OF assms(1)] assms(2) graph_artifacts.made_ok
  by (fastforce simp: settled_graph_def graph_artifact_ok_def)

text \<open>Every outcome of a valid graph cites an artifact with its digest.\<close>

lemma outcome_has_artifact:
  assumes "make_graph env x = Some g" "so \<in> set (eg_outcomes g)"
  shows "\<exists>a\<in>set (eg_artifacts g). ga_reference a = so_reference so \<and> so_sha so = json_digest env (ga_payload a)"
proof -
  have ok: "graph_ok env g (eg_relationships g)" and settled: "settled_graph env g"
    using assms(1) make_graph_again(2) make_graph_settled by blast+
  then have bound: "list_all (source_bound g) (eg_sources g)"
    "set (map sd_outcome_id (eg_sources g)) = set (map so_id (eg_outcomes g))"
    by (simp_all add: graph_ok_def)
  have "so_id so \<in> set (map sd_outcome_id (eg_sources g))" unfolding bound(2) using assms(2) by simp
  then obtain d where d: "d \<in> set (eg_sources g)" "sd_outcome_id d = so_id so" by auto
  have "distinct (map so_id (eg_outcomes g))" using settled deduplicate_Some(2) by (auto simp: settled_graph_def)
  then have "find_row so_id (sd_outcome_id d) (eg_outcomes g) = Some so"
    unfolding d(2) using assms(2) by (rule find_row_distinct)
  then obtain a where a: "find_row ga_reference (so_reference so) (eg_artifacts g) = Some a" "ga_sha a = so_sha so"
    using bound(1) d(1) by (auto simp: list_all_iff source_bound_def split: option.splits)
  then have "a \<in> set (eg_artifacts g)" "ga_reference a = so_reference so" using find_row_Some by fastforce+
  moreover have "ga_sha a = json_digest env (ga_payload a)" using artifact_digest [OF assms(1) calculation(1)] .
  ultimately show ?thesis using a(2) by metis
qed

end
