(* ===== verification/Graph_Rows.thy ===== *)
theory Graph_Rows
  imports Evidence_Graph
begin

text \<open>
  The append-only rows of an evidence graph (app/models/evidence_graph.py) and the conversion between
  the graph and its rows (app/database/evidence_graph.py). Enumerations that a row stores as plain
  text are texts here; a reader of a row is an option, \<open>None\<close> being its ValueError or TypeError.
\<close>

section \<open>Rows\<close>

record contract_row =
  cr_outcome_id :: uuid
  cr_scan_id :: uuid
  cr_account :: string
  cr_key :: string
  cr_version :: string
  cr_phase :: collection_phase
  cr_subject_kind :: string
  cr_subject :: json
  cr_resource_id :: "uuid option"
  cr_snapshot_id :: "uuid option"
  cr_kind :: string
  cr_collector :: string
  cr_collector_version :: string
  cr_api :: string
  cr_cardinality :: string
  cr_owner_mode :: string
  cr_authoritative :: bool
  cr_supplemental :: bool
  cr_schema :: string

record artifact_row =
  ay_id :: uuid
  ay_scan_id :: uuid
  ay_account :: string
  ay_reference :: string
  ay_sha :: digest
  ay_schema :: string
  ay_schema_version :: string
  ay_collected_at :: time
  ay_payload :: json
  ay_record_schema :: string

record outcome_row =
  oy_id :: uuid
  oy_scan_id :: uuid
  oy_account :: string
  oy_phase :: collection_phase
  oy_subject_kind :: string
  oy_subject :: json
  oy_resource_id :: "uuid option"
  oy_snapshot_id :: "uuid option"
  oy_scope :: resource_scope
  oy_region :: "string option"
  oy_kind :: string
  oy_state :: source_state
  oy_failure :: "failure_category option"
  oy_collector :: string
  oy_collector_version :: string
  oy_source :: string
  oy_api :: string
  oy_collected_at :: time
  oy_artifact_id :: uuid
  oy_reference :: string
  oy_sha :: digest
  oy_schema :: string

record edge_row =
  ey_observation_id :: uuid
  ey_relationship_id :: uuid
  ey_scan_id :: uuid
  ey_account :: string
  ey_type :: relationship_type
  ey_resolution :: relationship_resolution
  ey_source_provider :: string
  ey_source_account :: string
  ey_source_service :: string
  ey_source_type :: string
  ey_source_aws_id :: string
  ey_source_scope :: resource_scope
  ey_source_region :: "string option"
  ey_source_id :: uuid
  ey_source_snapshot :: "uuid option"
  ey_identity_state :: string
  ey_target_provider :: string
  ey_target_account :: "string option"
  ey_target_service :: string
  ey_target_type :: string
  ey_target_aws_id :: string
  ey_target_scope :: "string option"
  ey_target_region :: "string option"
  ey_target_id :: "uuid option"
  ey_target_snapshot :: "uuid option"
  ey_target_reference :: "uuid option"
  ey_outcome_id :: uuid
  ey_collector :: string
  ey_collector_version :: string
  ey_provenance_source :: string
  ey_api :: string
  ey_reference :: string
  ey_collected_at :: time
  ey_schema :: string

text \<open>The four tables, with the identifiers of the stored scans that their foreign keys name.\<close>

record graph_tables =
  gt_scans :: "uuid list"
  gt_contracts :: "contract_row list"
  gt_artifacts :: "artifact_row list"
  gt_outcomes :: "outcome_row list"
  gt_edges :: "edge_row list"

section \<open>Constraints\<close>

text \<open>\<open>length(trim(x)) > 0\<close> in SQL: \<open>trim\<close> removes spaces only.\<close>

definition not_blank :: "string \<Rightarrow> bool" where
  "not_blank s = list_ex (\<lambda>c. c \<noteq> CHR '' '') s"

definition phase_row_ok :: "collection_phase \<Rightarrow> string \<Rightarrow> uuid option \<Rightarrow> uuid option \<Rightarrow> bool" where
  "phase_row_ok phase kind res snap =
     (phase = DISCOVERY \<and> kind = ''account'' \<and> res = None \<and> snap = None \<or>
      phase = ENRICHMENT \<and> kind = ''resource'' \<and> res \<noteq> None \<and> snap \<noteq> None)"

definition contract_row_ok :: "contract_row \<Rightarrow> bool" where
  "contract_row_ok r =
     (cr_cardinality r \<in> {''SINGLE'', ''COLLECTION''} \<and>
      cr_owner_mode r \<in> {''COLLECTION_ACCOUNT'', ''AWS_MANAGED'', ''EXTERNAL_ACCOUNT''} \<and> length (cr_account r) = 12 \<and>
      list_all not_blank [cr_key r, cr_version r, cr_kind r, cr_collector r, cr_collector_version r, cr_api r, cr_schema r] \<and>
      phase_row_ok (cr_phase r) (cr_subject_kind r) (cr_resource_id r) (cr_snapshot_id r) \<and>
      (cr_owner_mode r = ''COLLECTION_ACCOUNT'' \<or> cr_authoritative r))"

definition artifact_row_ok :: "artifact_row \<Rightarrow> bool" where
  "artifact_row_ok r =
     (length (ay_account r) = 12 \<and> length (ay_sha r) = 64 \<and>
      list_all not_blank [ay_reference r, ay_schema r, ay_schema_version r, ay_record_schema r])"

definition scope_row_ok :: "resource_scope \<Rightarrow> string option \<Rightarrow> bool" where
  "scope_row_ok scope region =
     (scope = SCOPE_REGIONAL \<and> region \<noteq> None \<or> scope = SCOPE_GLOBAL \<and> region = None)"

definition outcome_row_ok :: "outcome_row \<Rightarrow> bool" where
  "outcome_row_ok r =
     (length (oy_account r) = 12 \<and> length (oy_sha r) = 64 \<and> oy_source r = ''aws-api'' \<and>
      list_all not_blank [oy_kind r, oy_collector r, oy_collector_version r, oy_api r, oy_reference r, oy_schema r] \<and>
      phase_row_ok (oy_phase r) (oy_subject_kind r) (oy_resource_id r) (oy_snapshot_id r) \<and>
      scope_row_ok (oy_scope r) (oy_region r) \<and>
      (oy_state r \<in> {ST_PRESENT, ST_EXPECTED_ABSENCE}) = (oy_failure r = None) \<and>
      (oy_state r = ST_RESOURCE_DISAPPEARED \<longrightarrow> oy_phase r = ENRICHMENT))"

definition target_row_ok :: "edge_row \<Rightarrow> bool" where
  "target_row_ok r =
     ((case ey_target_scope r of
         None \<Rightarrow> True
       | Some s \<Rightarrow>
           s = ''regional'' \<and> (ey_target_region r \<noteq> None \<or> ey_identity_state r = ''unresolved'') \<or>
           s = ''global'' \<and> ey_target_region r = None) \<and>
      (ey_identity_state r = ''stable'' \<and> ey_target_id r \<noteq> None \<and> ey_target_reference r = None \<or>
       ey_identity_state r = ''unresolved'' \<and> ey_target_id r = None \<and> ey_target_snapshot r = None \<and>
         ey_target_reference r \<noteq> None) \<and>
      (if ey_resolution r = RR_RESOLVED then ey_identity_state r = ''stable'' \<and> ey_target_snapshot r \<noteq> None
       else ey_target_snapshot r = None) \<and>
      (ey_resolution r = RR_TARGET_IDENTITY_INCOMPLETE) = (ey_identity_state r = ''unresolved'') \<and>
      ey_target_id r \<noteq> Some (ey_source_id r))"

definition edge_row_ok :: "edge_row \<Rightarrow> bool" where
  "edge_row_ok r =
     (length (ey_account r) = 12 \<and> ey_source_provider r = ''aws'' \<and> ey_target_provider r = ''aws'' \<and>
      ey_provenance_source r = ''aws-api'' \<and> scope_row_ok (ey_source_scope r) (ey_source_region r) \<and>
      ey_source_snapshot r \<noteq> None \<and> target_row_ok r \<and>
      list_all not_blank [ey_collector r, ey_collector_version r, ey_api r, ey_reference r, ey_schema r])"

text \<open>One flush: the checks of the new rows and the unique keys of the whole table.\<close>

definition insert_rows :: "('r \<Rightarrow> bool) \<Rightarrow> ('r list \<Rightarrow> bool) \<Rightarrow> 'r list \<Rightarrow> 'r list \<Rightarrow> 'r list option" where
  "insert_rows ok unique new rows =
     (if list_all ok new \<and> unique (rows @ new) then Some (rows @ new) else None)"

definition unique_contracts :: "contract_row list \<Rightarrow> bool" where
  "unique_contracts rows = distinct (map cr_outcome_id rows)"

definition unique_artifacts :: "artifact_row list \<Rightarrow> bool" where
  "unique_artifacts rows = (distinct (map ay_id rows) \<and> distinct (map (\<lambda>r. (ay_scan_id r, ay_reference r)) rows))"

definition unique_outcomes :: "outcome_row list \<Rightarrow> bool" where
  "unique_outcomes rows = distinct (map oy_id rows)"

definition unique_edges :: "edge_row list \<Rightarrow> bool" where
  "unique_edges rows =
     (distinct (map ey_observation_id rows) \<and> distinct (map (\<lambda>r. (ey_scan_id r, ey_relationship_id r)) rows))"

text \<open>The immediate foreign keys of an outcome and of an edge.\<close>

definition outcome_parents :: "contract_row list \<Rightarrow> artifact_row list \<Rightarrow> outcome_row \<Rightarrow> bool" where
  "outcome_parents cs as r =
     ((oy_id r, oy_scan_id r) \<in> set (map (\<lambda>c. (cr_outcome_id c, cr_scan_id c)) cs) \<and>
      (oy_artifact_id r, oy_scan_id r, oy_reference r, oy_sha r) \<in>
        set (map (\<lambda>a. (ay_id a, ay_scan_id a, ay_reference a, ay_sha a)) as))"

definition edge_parents :: "outcome_row list \<Rightarrow> edge_row \<Rightarrow> bool" where
  "edge_parents os r =
     ((ey_outcome_id r, ey_scan_id r, ey_reference r) \<in> set (map (\<lambda>x. (oy_id x, oy_scan_id x, oy_reference x)) os))"

section \<open>From the graph to its rows\<close>

fun subject_kind_text :: "subject \<Rightarrow> string" where
  "subject_kind_text (AccountSubject _ _ _) = ''account''"
| "subject_kind_text (ResourceSubject _) = ''resource''"

definition subject_resource :: "subject \<Rightarrow> resource_subject option" where
  "subject_resource j = (case j of ResourceSubject r \<Rightarrow> Some r | _ \<Rightarrow> None)"

fun subject_scope :: "subject \<Rightarrow> resource_scope \<times> string option" where
  "subject_scope (AccountSubject _ scope region) = (scope, region)"
| "subject_scope (ResourceSubject r) = (sj_scope r, sj_region r)"

definition row_of_contract :: "source_contract \<Rightarrow> contract_row" where
  "row_of_contract d =
     \<lparr>cr_outcome_id = sd_outcome_id d, cr_scan_id = sd_scan_id d, cr_account = sd_account d, cr_key = sd_key d,
      cr_version = sd_contract_version d, cr_phase = sd_phase d, cr_subject_kind = subject_kind_text (sd_subject d),
      cr_subject = JObj (subject_document (sd_subject d)),
      cr_resource_id = map_option sj_stable_id (subject_resource (sd_subject d)),
      cr_snapshot_id = map_option sj_snapshot_id (subject_resource (sd_subject d)),
      cr_kind = sd_kind d, cr_collector = sd_collector d, cr_collector_version = sd_version d, cr_api = sd_api d,
      cr_cardinality = cardinality_text (sd_cardinality d), cr_owner_mode = owner_mode_text (sd_owner_mode d),
      cr_authoritative = sd_authoritative d, cr_supplemental = sd_supplemental d, cr_schema = ''1.0.0''\<rparr>"

definition row_of_artifact :: "graph_artifact \<Rightarrow> artifact_row" where
  "row_of_artifact a =
     \<lparr>ay_id = ga_id a, ay_scan_id = ga_scan_id a, ay_account = ga_account a, ay_reference = ga_reference a,
      ay_sha = ga_sha a, ay_schema = ga_schema a, ay_schema_version = ga_schema_version a,
      ay_collected_at = ga_collected_at a, ay_payload = ga_payload a, ay_record_schema = ''1.0.0''\<rparr>"

definition row_of_source :: "uuid \<Rightarrow> source_outcome \<Rightarrow> outcome_row" where
  "row_of_source artifact so =
     \<lparr>oy_id = so_id so, oy_scan_id = so_scan_id so, oy_account = so_account so, oy_phase = so_phase so,
      oy_subject_kind = subject_kind_text (so_subject so), oy_subject = JObj (subject_document (so_subject so)),
      oy_resource_id = map_option sj_stable_id (subject_resource (so_subject so)),
      oy_snapshot_id = map_option sj_snapshot_id (subject_resource (so_subject so)),
      oy_scope = fst (subject_scope (so_subject so)), oy_region = snd (subject_scope (so_subject so)),
      oy_kind = so_kind so, oy_state = so_state so, oy_failure = so_failure so, oy_collector = so_collector so,
      oy_collector_version = so_collector_version so, oy_source = ''aws-api'', oy_api = so_api so,
      oy_collected_at = so_collected_at so, oy_artifact_id = artifact, oy_reference = so_reference so,
      oy_sha = so_sha so, oy_schema = ''1.0.0''\<rparr>"

text \<open>The artifact under the reference of an outcome; a missing one is a KeyError.\<close>

definition row_of_outcome :: "graph_artifact list \<Rightarrow> source_outcome \<Rightarrow> outcome_row option" where
  "row_of_outcome as so =
     map_option (\<lambda>a. row_of_source (ga_id a) so) (find_row ga_reference (so_reference so) (rev as))"

definition row_of_edge :: "uuid \<Rightarrow> relationship \<Rightarrow> edge_row" where
  "row_of_edge outcome x =
     (let s = xr_source x; p = xr_provenance x;
          base = \<lparr>ey_observation_id = xr_observation_id x, ey_relationship_id = xr_relationship_id x,
            ey_scan_id = xr_scan_id x, ey_account = xr_account x, ey_type = xr_type x, ey_resolution = xr_resolution x,
            ey_source_provider = ''aws'', ey_source_account = ep_account s, ey_source_service = ep_service s,
            ey_source_type = ep_type s, ey_source_aws_id = ep_aws_id s, ey_source_scope = ep_scope s,
            ey_source_region = ep_region s, ey_source_id = ep_stable_id s,
            ey_source_snapshot = ep_snapshot_id s,
            ey_identity_state = ''stable'', ey_target_provider = ''aws'', ey_target_account = None,
            ey_target_service = [], ey_target_type = [], ey_target_aws_id = [], ey_target_scope = None,
            ey_target_region = None, ey_target_id = None, ey_target_snapshot = None, ey_target_reference = None,
            ey_outcome_id = outcome, ey_collector = xp_collector p, ey_collector_version = xp_collector_version p,
            ey_provenance_source = ''aws-api'', ey_api = xp_api p, ey_reference = xp_reference p,
            ey_collected_at = xp_collected_at p, ey_schema = ''1.0.0''\<rparr> in
      case xr_target x of
        StableTarget e \<Rightarrow>
          base\<lparr>ey_identity_state := ''stable'', ey_target_account := Some (ep_account e),
            ey_target_service := ep_service e, ey_target_type := ep_type e, ey_target_aws_id := ep_aws_id e,
            ey_target_scope := Some (scope_text (ep_scope e)), ey_target_region := ep_region e,
            ey_target_id := Some (ep_stable_id e), ey_target_snapshot := ep_snapshot_id e\<rparr>
      | PartialTarget t \<Rightarrow>
          base\<lparr>ey_identity_state := ''unresolved'', ey_target_account := pt_account t,
            ey_target_service := pt_service t, ey_target_type := pt_type t, ey_target_aws_id := pt_aws_id t,
            ey_target_scope := map_option scope_text (pt_scope t), ey_target_region := pt_region t,
            ey_target_reference := Some (pt_reference_id t)\<rparr>)"

section \<open>Persistence\<close>

text \<open>
  How persistence fails: the graph is not valid, a Python error on the way to the rows, provenance
  that matches no or several outcomes, or a constraint of the database.
\<close>

datatype persist_error = InvalidGraph | MissingArtifact | AmbiguousProvenance | IntegrityFailure

text \<open>The rows of the edges, each bound to the one outcome of its provenance.\<close>

definition row_of_relationship :: "source_outcome list \<Rightarrow> relationship \<Rightarrow> edge_row option" where
  "row_of_relationship outcomes x =
     (case outcomes_for_provenance outcomes (xr_provenance x) of
        [so] \<Rightarrow> Some (row_of_edge (so_id so) x)
      | _ \<Rightarrow> None)"

text \<open>The three flushes; the scan is a parent of contracts and artifacts.\<close>

definition insert_sources :: "contract_row list \<Rightarrow> artifact_row list \<Rightarrow> graph_tables \<Rightarrow> graph_tables option" where
  "insert_sources ds as t =
     (if set (map cr_scan_id ds @ map ay_scan_id as) \<subseteq> set (gt_scans t)
      then Option.bind (insert_rows contract_row_ok unique_contracts ds (gt_contracts t)) (\<lambda>cs.
           map_option (\<lambda>rs. t\<lparr>gt_contracts := cs, gt_artifacts := rs\<rparr>)
             (insert_rows artifact_row_ok unique_artifacts as (gt_artifacts t)))
      else None)"

definition insert_outcomes :: "outcome_row list \<Rightarrow> graph_tables \<Rightarrow> graph_tables option" where
  "insert_outcomes rows t =
     map_option (\<lambda>os. t\<lparr>gt_outcomes := os\<rparr>)
       (insert_rows (\<lambda>r. outcome_row_ok r \<and> outcome_parents (gt_contracts t) (gt_artifacts t) r) unique_outcomes rows
         (gt_outcomes t))"

definition insert_edges :: "edge_row list \<Rightarrow> graph_tables \<Rightarrow> graph_tables option" where
  "insert_edges rows t =
     map_option (\<lambda>es. t\<lparr>gt_edges := es\<rparr>)
       (insert_rows (\<lambda>r. edge_row_ok r \<and> edge_parents (gt_outcomes t) r) unique_edges rows (gt_edges t))"

definition or_raise :: "'e \<Rightarrow> 'a option \<Rightarrow> 'e + 'a" where
  "or_raise e x = (case x of None \<Rightarrow> Inl e | Some a \<Rightarrow> Inr a)"

definition persist_evidence_graph :: "env \<Rightarrow> evidence_graph \<Rightarrow> graph_tables \<Rightarrow> persist_error + graph_tables" where
  "persist_evidence_graph env g t =
     res_bind (or_raise InvalidGraph (make_graph env g)) (\<lambda>v.
     res_bind (or_raise IntegrityFailure
       (insert_sources (map row_of_contract (eg_sources v)) (map row_of_artifact (eg_artifacts v)) t)) (\<lambda>t1.
     res_bind (or_raise MissingArtifact (those (map (row_of_outcome (eg_artifacts v)) (eg_outcomes v)))) (\<lambda>os.
     res_bind (or_raise IntegrityFailure (insert_outcomes os t1)) (\<lambda>t2.
     res_bind (or_raise AmbiguousProvenance (those (map (row_of_relationship (eg_outcomes v)) (eg_relationships v)))) (\<lambda>es.
     or_raise IntegrityFailure (insert_edges es t2))))))"

section \<open>From rows to records\<close>

text \<open>\<open>_subject(dict(record.subject))\<close>.\<close>

definition stored_subject :: "env \<Rightarrow> json \<Rightarrow> subject option" where
  "stored_subject env j = (case j of JObj d \<Rightarrow> subject_of_document env d | _ \<Rightarrow> None)"

definition artifact_from_row :: "env \<Rightarrow> artifact_row \<Rightarrow> graph_artifact option" where
  "artifact_from_row env r =
     (if ay_record_schema r \<noteq> ''1.0.0'' then None
      else make_graph_artifact env
        \<lparr>ga_id = ay_id r, ga_scan_id = ay_scan_id r, ga_account = ay_account r, ga_reference = ay_reference r,
         ga_sha = ay_sha r, ga_schema = ay_schema r, ga_schema_version = ay_schema_version r,
         ga_collected_at = ay_collected_at r, ga_payload = ay_payload r\<rparr>)"

definition outcome_from_row :: "env \<Rightarrow> outcome_row \<Rightarrow> source_outcome option" where
  "outcome_from_row env r =
     (if oy_schema r \<noteq> ''1.0.0'' \<or> oy_source r \<noteq> ''aws-api'' then None
      else
        Option.bind (stored_subject env (oy_subject r)) (\<lambda>j.
        make_outcome env
          \<lparr>so_id = oy_id r, so_scan_id = oy_scan_id r, so_account = oy_account r, so_phase = oy_phase r, so_subject = j,
           so_kind = oy_kind r, so_state = oy_state r, so_failure = oy_failure r, so_collector = oy_collector r,
           so_collector_version = oy_collector_version r, so_api = oy_api r, so_collected_at = oy_collected_at r,
           so_reference = oy_reference r, so_sha = oy_sha r\<rparr>))"

definition contract_from_row :: "env \<Rightarrow> contract_row \<Rightarrow> source_contract option" where
  "contract_from_row env r =
     (if cr_schema r \<noteq> ''1.0.0'' then None
      else
        Option.bind (stored_subject env (cr_subject r)) (\<lambda>j.
        Option.bind (cardinality_of_text (cr_cardinality r)) (\<lambda>cty.
        Option.bind (owner_mode_of_text (cr_owner_mode r)) (\<lambda>owner.
        make_contract env
          \<lparr>sd_key = cr_key r, sd_contract_version = cr_version r, sd_outcome_id = cr_outcome_id r,
           sd_scan_id = cr_scan_id r, sd_account = cr_account r, sd_phase = cr_phase r, sd_subject = j,
           sd_kind = cr_kind r, sd_collector = cr_collector r, sd_version = cr_collector_version r, sd_api = cr_api r,
           sd_cardinality = cty, sd_owner_mode = owner, sd_authoritative = cr_authoritative r,
           sd_supplemental = cr_supplemental r\<rparr>))))"

text \<open>The source endpoint, then the target in the form its identity state names.\<close>

definition row_source :: "env \<Rightarrow> edge_row \<Rightarrow> endpoint option" where
  "row_source env r =
     (if ey_source_provider r \<noteq> ''aws'' then None
      else make_endpoint env
        \<lparr>ep_account = ey_source_account r, ep_service = ey_source_service r, ep_type = ey_source_type r,
         ep_aws_id = ey_source_aws_id r, ep_scope = ey_source_scope r, ep_region = ey_source_region r,
         ep_stable_id = ey_source_id r, ep_snapshot_id = ey_source_snapshot r\<rparr>)"

definition row_stable_target :: "env \<Rightarrow> edge_row \<Rightarrow> relationship_target option" where
  "row_stable_target env r =
     Option.bind (Option.bind (ey_target_scope r) scope_of_text) (\<lambda>scope.
     Option.bind (ey_target_id r) (\<lambda>sid.
     Option.bind (ey_target_account r) (\<lambda>account.
     map_option StableTarget (make_endpoint env
       \<lparr>ep_account = account, ep_service = ey_target_service r, ep_type = ey_target_type r,
        ep_aws_id = ey_target_aws_id r, ep_scope = scope, ep_region = ey_target_region r, ep_stable_id = sid,
        ep_snapshot_id = ey_target_snapshot r\<rparr>))))"

text \<open>An enumeration column that may be null.\<close>

definition optional_scope :: "string option \<Rightarrow> resource_scope option option" where
  "optional_scope x = (case x of None \<Rightarrow> Some None | Some s \<Rightarrow> map_option Some (scope_of_text s))"

definition row_partial_target :: "env \<Rightarrow> edge_row \<Rightarrow> relationship_target option" where
  "row_partial_target env r =
     Option.bind (ey_target_reference r) (\<lambda>reference.
     Option.bind (optional_scope (ey_target_scope r)) (\<lambda>scope.
     map_option PartialTarget (make_partial env
       \<lparr>pt_account = ey_target_account r, pt_service = ey_target_service r, pt_type = ey_target_type r,
        pt_aws_id = ey_target_aws_id r, pt_scope = scope, pt_region = ey_target_region r,
        pt_reference_id = reference\<rparr>)))"

definition row_target :: "env \<Rightarrow> edge_row \<Rightarrow> relationship_target option" where
  "row_target env r =
     (if ey_target_provider r \<noteq> ''aws'' then None
      else if ey_identity_state r = ''stable'' then row_stable_target env r else row_partial_target env r)"

definition make_provenance :: "edge_provenance \<Rightarrow> edge_provenance option" where
  "make_provenance p = (let x = trim_provenance p in if provenance_ok x then Some x else None)"

definition relationship_from_row :: "env \<Rightarrow> edge_row \<Rightarrow> relationship option" where
  "relationship_from_row env r =
     (if ey_schema r \<noteq> ''1.0.0'' \<or> ey_provenance_source r \<noteq> ''aws-api'' then None
      else
        Option.bind (row_source env r) (\<lambda>source.
        Option.bind (row_target env r) (\<lambda>target.
        Option.bind (make_provenance
          \<lparr>xp_collector = ey_collector r, xp_collector_version = ey_collector_version r, xp_api = ey_api r,
           xp_reference = ey_reference r, xp_collected_at = ey_collected_at r\<rparr>) (\<lambda>p.
        make_relationship env
          \<lparr>xr_relationship_id = ey_relationship_id r, xr_observation_id = ey_observation_id r,
           xr_scan_id = ey_scan_id r, xr_account = ey_account r, xr_type = ey_type r, xr_source = source,
           xr_target = target, xr_resolution = ey_resolution r, xr_provenance = p\<rparr>))))"

section \<open>Facts\<close>

text \<open>A record rebuilt from its fields.\<close>

lemma source_contract_eta: "\<lparr>sd_key = sd_key d, sd_contract_version = sd_contract_version d, sd_outcome_id = sd_outcome_id d,
    sd_scan_id = sd_scan_id d, sd_account = sd_account d, sd_phase = sd_phase d,
    sd_subject = sd_subject d, sd_kind = sd_kind d, sd_collector = sd_collector d,
    sd_version = sd_version d, sd_api = sd_api d, sd_cardinality = sd_cardinality d,
    sd_owner_mode = sd_owner_mode d, sd_authoritative = sd_authoritative d,
    sd_supplemental = sd_supplemental d\<rparr> = d"
  by (cases d) simp

lemma graph_artifact_eta: "\<lparr>ga_id = ga_id a, ga_scan_id = ga_scan_id a, ga_account = ga_account a, ga_reference = ga_reference a,
    ga_sha = ga_sha a, ga_schema = ga_schema a, ga_schema_version = ga_schema_version a,
    ga_collected_at = ga_collected_at a, ga_payload = ga_payload a\<rparr> = a"
  by (cases a) simp

lemma source_outcome_eta: "\<lparr>so_id = so_id so, so_scan_id = so_scan_id so, so_account = so_account so, so_phase = so_phase so,
    so_subject = so_subject so, so_kind = so_kind so, so_state = so_state so, so_failure = so_failure so,
    so_collector = so_collector so, so_collector_version = so_collector_version so, so_api = so_api so,
    so_collected_at = so_collected_at so, so_reference = so_reference so, so_sha = so_sha so\<rparr> = so"
  by (cases so) simp

lemma endpoint_eta: "\<lparr>ep_account = ep_account e, ep_service = ep_service e, ep_type = ep_type e, ep_aws_id = ep_aws_id e,
    ep_scope = ep_scope e, ep_region = ep_region e, ep_stable_id = ep_stable_id e,
    ep_snapshot_id = ep_snapshot_id e\<rparr> = e"
  by (cases e) simp

lemma partial_target_eta: "\<lparr>pt_account = pt_account q, pt_service = pt_service q, pt_type = pt_type q, pt_aws_id = pt_aws_id q,
    pt_scope = pt_scope q, pt_region = pt_region q, pt_reference_id = pt_reference_id q\<rparr> = q"
  by (cases q) simp

lemma edge_provenance_eta: "\<lparr>xp_collector = xp_collector p, xp_collector_version = xp_collector_version p, xp_api = xp_api p,
    xp_reference = xp_reference p, xp_collected_at = xp_collected_at p\<rparr> = p"
  by (cases p) simp

lemma relationship_eta: "\<lparr>xr_relationship_id = xr_relationship_id x, xr_observation_id = xr_observation_id x,
    xr_scan_id = xr_scan_id x, xr_account = xr_account x, xr_type = xr_type x, xr_source = xr_source x,
    xr_target = xr_target x, xr_resolution = xr_resolution x, xr_provenance = xr_provenance x\<rparr> = x"
  by (cases x) simp

lemmas record_etas = source_contract_eta graph_artifact_eta source_outcome_eta endpoint_eta partial_target_eta edge_provenance_eta relationship_eta

text \<open>Every record is read back from its row.\<close>

interpretation provenances: validated_model make_provenance trim_provenance provenance_ok
  by unfold_locales (simp_all add: make_provenance_def Let_def)

lemma contract_subject_readable:
  assumes "bounded_uuids env" "make_contract env d = Some d"
  shows "readable_subject env (sd_subject d)"
proof -
  have d: "contract_ok env d" "trim_contract d = d" using contracts.made_ok [OF assms(2)] by blast+
  have "sd_subject (trim_contract d) = trim_subject (sd_subject d)" by (simp add: trim_contract_def)
  then have "trim_subject (sd_subject d) = sd_subject d" unfolding d(2) by (rule sym)
  then show ?thesis using phase_subject_readable [OF assms(1)] d(1) unfolding contract_ok_def by blast
qed

lemma cardinality_of_cardinality_text [simp]: "cardinality_of_text (cardinality_text c) = Some c"
  by (cases c) (simp_all add: cardinality_of_text_def)

lemma owner_mode_of_owner_mode_text [simp]: "owner_mode_of_text (owner_mode_text c) = Some c"
  by (cases c) (simp_all add: owner_mode_of_text_def)

interpretation contract_rows: codec "\<lambda>d. bounded_uuids env \<and> make_contract env d = Some d" row_of_contract
  "contract_from_row env" for env
  by unfold_locales
    (simp add: contract_from_row_def row_of_contract_def stored_subject_def subject_of_document_document contract_subject_readable record_etas)

interpretation artifact_rows: codec "\<lambda>a. make_graph_artifact env a = Some a" row_of_artifact "artifact_from_row env" for env
  by unfold_locales (simp add: artifact_from_row_def row_of_artifact_def record_etas)

lemma outcome_readable_subject:
  "bounded_uuids env \<Longrightarrow> make_outcome env so = Some so \<Longrightarrow> readable_subject env (so_subject so)"
  by (rule outcome_subject_readable)

interpretation outcome_rows: codec "\<lambda>so. bounded_uuids env \<and> make_outcome env so = Some so" "row_of_source artifact"
  "outcome_from_row env" for env artifact
  by unfold_locales
    (simp add: outcome_from_row_def row_of_source_def stored_subject_def subject_of_document_document outcome_readable_subject record_etas)

text \<open>The parts of a valid relationship are what their own constructors return.\<close>

lemma relationship_parts:
  assumes "make_relationship env x = Some x"
  shows "make_endpoint env (xr_source x) = Some (xr_source x)" "make_provenance (xr_provenance x) = Some (xr_provenance x)"
    "xr_target x = StableTarget e \<Longrightarrow> make_endpoint env e = Some e"
    "xr_target x = PartialTarget q \<Longrightarrow> make_partial env q = Some q"
proof -
  have x: "relationship_ok env x" "trim_relationship x = x" using relationships.made_ok [OF assms] by blast+
  have trims: "xr_source (trim_relationship x) = trim_endpoint (xr_source x)"
    "xr_provenance (trim_relationship x) = trim_provenance (xr_provenance x)"
    "xr_target (trim_relationship x) = trim_target (xr_target x)"
    by (simp_all add: trim_relationship_def)
  have ok: "endpoint_ok env (xr_source x)" "provenance_ok (xr_provenance x)"
    "case xr_target x of StableTarget e \<Rightarrow> endpoint_ok env e \<and> ep_stable_id (xr_source x) \<noteq> ep_stable_id e
      | PartialTarget p \<Rightarrow> partial_ok env p"
    using x(1) by (simp_all add: relationship_ok_def)
  show "make_endpoint env (xr_source x) = Some (xr_source x)"
    using endpoints.make_fixed [OF ok(1)] trims(1) unfolding x(2) by simp
  show "make_provenance (xr_provenance x) = Some (xr_provenance x)"
    using provenances.make_fixed [OF ok(2)] trims(2) unfolding x(2) by simp
  show "make_endpoint env e = Some e" if "xr_target x = StableTarget e"
    using ok(3) trims(3) that unfolding x(2) by (intro endpoints.make_fixed) (simp_all add: trim_target_def)
  show "make_partial env q = Some q" if "xr_target x = PartialTarget q"
    using ok(3) trims(3) that unfolding x(2) by (intro partials.make_fixed) (simp_all add: trim_target_def)
qed

lemma optional_scope_text [simp]: "optional_scope (map_option scope_text x) = Some x"
  by (cases x) (simp_all add: optional_scope_def)

lemma edge_row_fields:
  "ey_observation_id (row_of_edge i x) = xr_observation_id x" "ey_relationship_id (row_of_edge i x) = xr_relationship_id x"
  "ey_scan_id (row_of_edge i x) = xr_scan_id x" "ey_account (row_of_edge i x) = xr_account x"
  "ey_type (row_of_edge i x) = xr_type x" "ey_resolution (row_of_edge i x) = xr_resolution x"
  "ey_provenance_source (row_of_edge i x) = ''aws-api''" "ey_schema (row_of_edge i x) = ''1.0.0''"
  "ey_collector (row_of_edge i x) = xp_collector (xr_provenance x)"
  "ey_collector_version (row_of_edge i x) = xp_collector_version (xr_provenance x)"
  "ey_api (row_of_edge i x) = xp_api (xr_provenance x)" "ey_reference (row_of_edge i x) = xp_reference (xr_provenance x)"
  "ey_collected_at (row_of_edge i x) = xp_collected_at (xr_provenance x)" "ey_outcome_id (row_of_edge i x) = i"
  by (cases "xr_target x"; simp add: row_of_edge_def Let_def)+

lemma relationship_from_row_of_edge:
  assumes "make_relationship env x = Some x"
  shows "relationship_from_row env (row_of_edge outcome x) = Some x"
proof -
  note parts = relationship_parts [OF assms]
  have source: "row_source env (row_of_edge outcome x) = Some (xr_source x)"
    using parts(1) by (cases "xr_target x") (simp_all add: row_source_def row_of_edge_def Let_def record_etas)
  have target: "row_target env (row_of_edge outcome x) = Some (xr_target x)"
    using parts(3,4) by (cases "xr_target x")
      (simp_all add: row_target_def row_stable_target_def row_partial_target_def row_of_edge_def Let_def record_etas)
  show ?thesis
    by (simp add: relationship_from_row_def edge_row_fields source target record_etas parts(2) assms)
qed

interpretation edge_rows: codec "\<lambda>x. make_relationship env x = Some x" "row_of_edge outcome" "relationship_from_row env"
  for env outcome
  by unfold_locales (rule relationship_from_row_of_edge)

end
