(* ===== verification/Analyzer_Coverage.thy ===== *)
theory Analyzer_Coverage
  imports S3_Sources
begin

text \<open>
  Coverage of the Access Analyzer collector (app/collectors/base.py): one discovery of analyzers per
  Region, one discovery of findings per analyzer, and a summary and a detail per finding. The
  validator returns whether the Regions were incomplete; \<open>None\<close> is its ValueError.
\<close>

section \<open>Identities\<close>

definition analyzer_discovery_source :: "source_outcome \<Rightarrow> bool" where
  "analyzer_discovery_source so =
     (so_collector so = ''access-analyzer.analyzers'' \<and> so_phase so = DISCOVERY \<and>
      so_kind so = ''access-analyzer.analyzers.discovery'' \<and> so_collector_version so = ''1.0.0'' \<and>
      so_api so = ''access-analyzer:ListAnalyzers'')"

definition findings_discovery_source :: "source_outcome \<Rightarrow> bool" where
  "findings_discovery_source so =
     (so_collector so = ''access-analyzer.findings'' \<and> so_phase so = DISCOVERY \<and>
      digest_after ''access-analyzer.findings.discovery.'' (so_kind so) \<and> so_collector_version so = ''1.0.0'' \<and>
      so_api so = ''access-analyzer:ListFindings'')"

definition finding_summary_source :: "source_outcome \<Rightarrow> bool" where
  "finding_summary_source so =
     (so_collector so = ''access-analyzer.findings'' \<and> so_phase so = ENRICHMENT \<and>
      so_kind so = ''access-analyzer.finding-summary'' \<and> so_collector_version so = ''1.0.0'' \<and>
      so_api so = ''access-analyzer:ListFindings'')"

definition finding_details_source :: "source_outcome \<Rightarrow> bool" where
  "finding_details_source so =
     (so_collector so = ''access-analyzer.finding-details'' \<and> so_phase so = ENRICHMENT \<and>
      so_kind so = ''access-analyzer.finding-details'' \<and> so_collector_version so = ''1.0.0'' \<and>
      so_api so = ''access-analyzer:GetFinding'')"

definition known_analyzer_source :: "source_outcome \<Rightarrow> bool" where
  "known_analyzer_source so =
     (analyzer_discovery_source so \<or> findings_discovery_source so \<or> finding_summary_source so \<or>
      finding_details_source so)"

text \<open>The Region of a Regional account subject.\<close>

definition regional_account :: "source_outcome \<Rightarrow> string option" where
  "regional_account so =
     (case so_subject so of AccountSubject _ SCOPE_REGIONAL (Some region) \<Rightarrow> Some region | _ \<Rightarrow> None)"

text \<open>A list of nonempty texts, and one that is also sorted and free of duplicates.\<close>

definition named_texts_of :: "json \<Rightarrow> string list option" where
  "named_texts_of j =
     (case texts_of j of None \<Rightarrow> None | Some ts \<Rightarrow> if [] \<in> set ts then None else Some ts)"

definition sorted_names_of :: "json \<Rightarrow> string list option" where
  "sorted_names_of j =
     (case named_texts_of j of None \<Rightarrow> None | Some ts \<Rightarrow> if sorted_wrt (<) ts then Some ts else None)"

section \<open>Discovery\<close>

text \<open>One discovery of analyzers: its Region, all required Regions, their completeness, the ARNs.\<close>

record analyzer_discovery =
  an_region :: string
  an_required :: "string list"
  an_complete :: bool
  an_arns :: "string list"

definition analyzer_discovery_of :: "graph_artifact list \<Rightarrow> source_outcome \<Rightarrow> analyzer_discovery option" where
  "analyzer_discovery_of as so =
     (case (regional_account so, cited_payload as (so_kind so) so) of
        (Some region, Some p) \<Rightarrow>
          (case (sorted_names_of (jget ''required_regions'' p), jget ''s3_region_discovery_complete'' p,
                 sorted_names_of (jget ''relevant_analyzer_arns'' p)) of
             (Some required, JBool whole, Some arns) \<Rightarrow>
               if jget ''account_id'' p = JStr (so_account so) \<and> jget ''region'' p = JStr region \<and> required \<noteq> [] \<and>
                  is_list (jget ''analyzers'' p) \<and> completion_attested so p
               then Some \<lparr>an_region = region, an_required = required, an_complete = whole, an_arns = arns\<rparr> else None
           | _ \<Rightarrow> None)
      | _ \<Rightarrow> None)"

text \<open>The Regional manifests agree, cover exactly the required Regions and share no analyzer.\<close>

definition analyzer_regions :: "analyzer_discovery list \<Rightarrow> (bool \<times> (string \<times> string) list) option" where
  "analyzer_regions ds =
     (case ds of
        [] \<Rightarrow> None
      | d # _ \<Rightarrow>
          let relevant = concat (map (\<lambda>x. map (\<lambda>arn. (arn, an_region x)) (an_arns x)) ds) in
          if list_all (\<lambda>x. an_required x = an_required d \<and> an_complete x = an_complete d) ds \<and>
             sort (map an_region ds) = an_required d \<and> distinct (map fst relevant)
          then Some (an_complete d, relevant) else None)"

text \<open>One discovery of findings: the analyzer, its Region and the identifiers of the findings.\<close>

record findings_discovery =
  fd_arn :: string
  fd_region :: string
  fd_ids :: "string list"

definition findings_discovery_of :: "env \<Rightarrow> graph_artifact list \<Rightarrow> source_outcome \<Rightarrow> findings_discovery option" where
  "findings_discovery_of env as so =
     (case (regional_account so, cited_payload as ''access-analyzer.findings.discovery'' so) of
        (Some region, Some p) \<Rightarrow>
          (case (jget ''arn'' (jget ''analyzer'' p), sorted_names_of (jget ''finding_ids'' p),
                 named_texts_of (jget ''resource_arns'' p)) of
             (JStr arn, Some ids, Some resources) \<Rightarrow>
               if jget ''account_id'' p = JStr (so_account so) \<and> jget ''region'' p = JStr region \<and> arn \<noteq> [] \<and>
                  length resources = length ids \<and>
                  so_kind so = ''access-analyzer.findings.discovery.'' @ text_digest env arn \<and> completion_attested so p
               then Some \<lparr>fd_arn = arn, fd_region = region, fd_ids = ids\<rparr> else None
           | _ \<Rightarrow> None)
      | _ \<Rightarrow> None)"

definition expected_findings :: "findings_discovery list \<Rightarrow> ((string \<times> string) \<times> string) list" where
  "expected_findings fs =
     concat (map (\<lambda>f. map (\<lambda>i. ((fd_arn f, i), fd_region f)) (fd_ids f)) fs)"

section \<open>Findings\<close>

text \<open>The finding that an enrichment describes, with the snapshot of its subject.\<close>

definition finding_subject ::
    "graph_artifact list \<Rightarrow> ((string \<times> string) \<times> string) list \<Rightarrow> string \<Rightarrow> source_outcome \<Rightarrow>
     ((string \<times> string) \<times> uuid) option" where
  "finding_subject as expected schema so =
     (case (resource_of so, cited_payload as schema so) of
        (Some r, Some p) \<Rightarrow>
          (case (jget ''analyzer_arn'' p, jget ''finding_id'' p) of
             (JStr arn, JStr i) \<Rightarrow>
               (case map_of expected (arn, i) of
                  None \<Rightarrow> None
                | Some region \<Rightarrow>
                    if regional_resource ''access-analyzer'' ''access_analyzer_finding'' r \<and> sj_region r = Some region
                    then Some ((arn, i), sj_snapshot_id r) else None)
           | _ \<Rightarrow> None)
      | _ \<Rightarrow> None)"

definition finding_subjects ::
    "graph_artifact list \<Rightarrow> ((string \<times> string) \<times> string) list \<Rightarrow> string \<Rightarrow> source_outcome list \<Rightarrow>
     ((string \<times> string) \<times> uuid) list option" where
  "finding_subjects as expected schema outcomes =
     (case those (map (finding_subject as expected schema) outcomes) of
        None \<Rightarrow> None
      | Some subjects \<Rightarrow> if distinct (map fst subjects) then Some subjects else None)"

text \<open>\<open>_access_analyzer_coverage_is_incomplete\<close>.\<close>

definition analyzer_coverage :: "env \<Rightarrow> source_outcome list \<Rightarrow> graph_artifact list \<Rightarrow> bool option" where
  "analyzer_coverage env outcomes as =
     (if \<not> list_all known_analyzer_source outcomes then None
      else
        Option.bind (those (map (analyzer_discovery_of as) (filter analyzer_discovery_source outcomes))) (\<lambda>ds.
        Option.bind (analyzer_regions ds) (\<lambda>(whole, relevant).
        Option.bind (those (map (findings_discovery_of env as) (filter findings_discovery_source outcomes))) (\<lambda>fs.
        let expected = expected_findings fs in
        if \<not> (distinct (map fd_arn fs) \<and> set (map (\<lambda>f. (fd_arn f, fd_region f)) fs) = set relevant) then None
        else
          Option.bind (finding_subjects as expected ''access-analyzer.finding-summary''
            (filter finding_summary_source outcomes)) (\<lambda>summaries.
          Option.bind (finding_subjects as expected ''access-analyzer.finding-details''
            (filter finding_details_source outcomes)) (\<lambda>details.
          if set summaries = set details \<and> set (map fst summaries) = set (map fst expected)
          then Some (\<not> whole) else None))))))"

section \<open>Facts\<close>

text \<open>Every discovered finding has exactly one summary and one detail on one snapshot.\<close>

lemma finding_subjects_distinct:
  "finding_subjects as expected schema outcomes = Some subjects \<Longrightarrow> distinct (map fst subjects)"
  by (auto simp: finding_subjects_def split: option.splits if_splits)

lemma analyzer_coverage_known:
  "analyzer_coverage env outcomes as = Some b \<Longrightarrow> so \<in> set outcomes \<Longrightarrow> known_analyzer_source so"
  by (auto simp: analyzer_coverage_def list_all_iff split: if_splits)

end
