(* ===== verification/S3_Coverage.thy ===== *)
theory S3_Coverage
  imports Evidence_Edges
begin

text \<open>
  \<open>_validate_s3_evidence_manifest\<close> of app/collectors/base.py: the dynamic set of S3 and KMS sources
  that the coverage of the S3 collector rests on, checked again from persisted evidence without the
  relationships.
\<close>

section \<open>The account block\<close>

definition coverage_account_block :: "source_state \<Rightarrow> json \<Rightarrow> bool" where
  "coverage_account_block state block =
     (if complete_state state
      then has_keys public_access_block_fields block \<and>
        list_all (\<lambda>f. is_bool (jget f block)) public_access_block_fields \<and>
        (state = ST_EXPECTED_ABSENCE \<longrightarrow> list_all (\<lambda>f. jget f block = JBool False) public_access_block_fields)
      else block = JNull)"

definition coverage_account_ok :: "graph_artifact list \<Rightarrow> source_outcome \<Rightarrow> json option" where
  "coverage_account_ok as so =
     (case cited_payload as ''s3.account-public-access-block'' so of
        None \<Rightarrow> None
      | Some p \<Rightarrow>
          if s3_source_is so DISCOVERY ''s3.account-public-access-block'' ''s3:GetAccountPublicAccessBlock'' \<and>
             global_account_source so \<and> so_state so \<noteq> ST_CONFLICT \<and> completion_attested so p \<and>
             jget ''account_id'' p = JStr (so_account so) \<and> jget ''configured'' p = JBool (so_state so = ST_PRESENT) \<and>
             jget ''expected_absence'' p = JBool (so_state so = ST_EXPECTED_ABSENCE) \<and>
             coverage_account_block (so_state so) (jget ''public_access_block'' p)
          then Some (jget ''public_access_block'' p) else None)"

section \<open>Sources per bucket\<close>

definition per_bucket_outcomes :: "source_outcome list \<Rightarrow> source_outcome list" where
  "per_bucket_outcomes = filter (\<lambda>so. so_collector so \<in> set (map fst per_bucket_apis))"

definition coverage_state_ok :: "source_outcome \<Rightarrow> bool" where
  "coverage_state_ok so =
     (let c = so_collector so; s = so_state so in
      if c = ''s3.bucket-acl'' then s \<noteq> ST_EXPECTED_ABSENCE
      else if c \<in> {''s3.bucket-policy'', ''s3.bucket-policy-status''} then True
      else s \<noteq> ST_CONFLICT)"

definition coverage_bucket_value ::
    "env \<Rightarrow> graph_artifact list \<Rightarrow> (string \<times> string) list \<Rightarrow> source_outcome \<Rightarrow> bucket_value option" where
  "coverage_bucket_value env as regions so =
     (case (map_of per_bucket_apis (so_collector so), resource_of so, cited_payload as (so_kind so) so) of
        (Some api, Some r, Some p) \<Rightarrow>
          if s3_source_is so ENRICHMENT (so_collector so) api \<and> bucket_source so \<and>
             map_of regions (sj_aws_id r) = sj_region r \<and> coverage_state_ok so \<and> completion_attested so p \<and>
             jget ''account_id'' p = JStr (sj_account r) \<and> jget ''bucket_name'' p = JStr (sj_aws_id r) \<and>
             jget ''bucket_region'' p = optional_text (sj_region r) \<and>
             strict_bucket_arn (jget ''bucket_arn'' p) (sj_aws_id r) \<noteq> None \<and>
             jget ''expected_absence'' p = JBool (so_state so = ST_EXPECTED_ABSENCE) \<and>
             bucket_value_ok env (so_kind so) (so_state so) (jget ''value'' p) \<and>
             ''legacy_projection'' \<in> set (json_keys p) \<and>
             legacy_projection_ok (so_kind so) (so_state so) (jget ''value'' p) (jget ''legacy_projection'' p)
          then Some ((sj_aws_id r, so_collector so), so_state so, jget ''value'' p) else None
      | _ \<Rightarrow> None)"

section \<open>Expected KMS sources\<close>

text \<open>The kind of the DescribeKey source of a reference, with the bucket and its partition.\<close>

type_synonym expected_key = "string \<times> string \<times> string"

definition expected_key_of :: "env \<Rightarrow> string \<Rightarrow> string \<Rightarrow> string \<Rightarrow> string \<Rightarrow> expected_key option" where
  "expected_key_of env bucket region part reference =
     (case reference_region reference region part of
        None \<Rightarrow> None
      | Some lookup \<Rightarrow>
          if separators_free lookup then Some (kms_kind env lookup reference, bucket, part) else None)"

definition expected_keys_of :: "env \<Rightarrow> graph_artifact list \<Rightarrow> source_outcome \<Rightarrow> expected_key list option" where
  "expected_keys_of env as so =
     (case (regional_subject so, cited_payload as ''s3.bucket-encryption'' so) of
        (Some (r, region), Some p) \<Rightarrow>
          Option.bind (strict_bucket_arn (jget ''bucket_arn'' p) (sj_aws_id r)) (\<lambda>part.
            if so_state so \<noteq> ST_PRESENT then Some []
            else Option.bind (kms_references (jget ''value'' p)) (\<lambda>refs.
              those (map (expected_key_of env (sj_aws_id r) region part) refs)))
      | _ \<Rightarrow> None)"

definition expected_keys :: "env \<Rightarrow> source_outcome list \<Rightarrow> graph_artifact list \<Rightarrow> expected_key list option" where
  "expected_keys env outcomes as =
     map_option concat (those (map (expected_keys_of env as) (encryption_outcomes outcomes)))"

section \<open>KMS sources\<close>

definition coverage_key_identity :: "source_outcome \<Rightarrow> bool" where
  "coverage_key_identity so =
     (s3_source_is so ENRICHMENT (so_kind so) ''kms:DescribeKey'' \<and> digest_after ''kms.key.'' (so_kind so) \<and>
      so_state so \<in> {ST_PRESENT, ST_UNAVAILABLE, ST_MALFORMED, ST_CONFLICT} \<and> resource_of so \<noteq> None)"

definition line_free :: "string \<Rightarrow> bool" where
  "line_free s = list_all (\<lambda>c. of_char c \<notin> {10, 13, 31 :: nat}) s"

text \<open>The successful answer: the subject is the key, in the partition of every referring bucket.\<close>

definition coverage_present_key ::
    "source_outcome \<Rightarrow> resource_subject \<Rightarrow> expected_key list \<Rightarrow> string \<Rightarrow> string \<Rightarrow> json \<Rightarrow> bool" where
  "coverage_present_key so r keys region reference key =
     (case (jget ''arn'' key, jget ''key_id'' key, jget ''aws_account_id'' key) of
        (JStr arn, JStr i, JStr owner) \<Rightarrow>
          (case split_max (CHR '':'') 5 arn of
             [a, part, svc, reg, acct, res] \<Rightarrow>
               regional_resource ''kms'' ''kms_key'' r \<and> sj_region r = Some region \<and> i \<noteq> [] \<and>
               account_pattern owner \<and> jget ''region'' key = JStr region \<and>
               jget ''key_manager'' key \<in> {JStr ''AWS'', JStr ''CUSTOMER''} \<and> a = ''arn'' \<and> part \<noteq> [] \<and>
               line_free i \<and> line_free arn \<and>
               set (map (snd \<circ> snd) (filter (\<lambda>k. fst k = so_kind so) keys)) = {part} \<and>
               [svc, reg, acct, res] = [''kms'', region, owner, ''key/'' @ i] \<and>
               sj_account r = owner \<and> sj_aws_id r = arn \<and>
               kms_reference_matches reference region (so_account so) part arn i owner
           | _ \<Rightarrow> False)
      | _ \<Rightarrow> False)"

text \<open>A KMS source: its kind and buckets, and the identity and value of the key when present.\<close>

type_synonym key_source = "(string \<times> string list) \<times> ((string \<times> string) \<times> json) option"

definition coverage_key_source ::
    "env \<Rightarrow> source_outcome list \<Rightarrow> graph_artifact list \<Rightarrow> (string \<times> string) list \<Rightarrow> expected_key list \<Rightarrow>
     source_outcome \<Rightarrow> key_source option" where
  "coverage_key_source env outcomes as regions keys so =
     (case (resource_of so, cited_payload as ''kms.key'' so) of
        (Some r, Some p) \<Rightarrow>
          (case (jget ''region'' p, jget ''supplied_reference'' p, sorted_texts_of (jget ''source_bucket_names'' p)) of
             (JStr region, JStr reference, Some buckets) \<Rightarrow>
               let key = jget ''key'' p in
               if coverage_key_identity so \<and> completion_attested so p \<and> safe_text (JStr region) \<and>
                  safe_text (JStr reference) \<and> buckets \<noteq> [] \<and> [] \<notin> set buckets \<and>
                  set buckets \<subseteq> set (map fst regions) \<and> so_kind so = kms_kind env region reference \<and>
                  kms_key_value_ok (so_state so) key \<and>
                  (if so_state so = ST_PRESENT then coverage_present_key so r keys region reference key
                   else Some (so_subject so) =
                       map_option so_subject (find_row (\<lambda>x. map_option sj_aws_id (resource_of x)) (Some (hd buckets))
                         (rev (per_bucket_outcomes outcomes))) \<and>
                     key = JNull)
               then Some ((so_kind so, buckets),
                 if so_state so = ST_PRESENT then Some ((region, sj_aws_id r), key) else None)
               else None
           | _ \<Rightarrow> None)
      | _ \<Rightarrow> None)"

definition same_keys :: "((string \<times> string) \<times> json) list \<Rightarrow> bool" where
  "same_keys ks = list_all (\<lambda>(i, k). list_all (\<lambda>(i', k'). i = i' \<longrightarrow> json_eq k k') ks) ks"

text \<open>The dict of KMS sources equals the expected one: for each kind the same set of buckets.\<close>

definition key_manifest_ok :: "(string \<times> string list) list \<Rightarrow> expected_key list \<Rightarrow> bool" where
  "key_manifest_ok sources keys =
     (distinct (map fst sources) \<and>
      set (concat (map (\<lambda>(kind, buckets). map (Pair kind) buckets) sources)) = set (map (\<lambda>(kind, b, _). (kind, b)) keys))"

section \<open>The manifest\<close>

definition s3_coverage_ok ::
    "env \<Rightarrow> source_outcome list \<Rightarrow> graph_artifact list \<Rightarrow> (string \<times> string) list \<Rightarrow> bool" where
  "s3_coverage_ok env outcomes as regions =
     (case filter (\<lambda>so. so_collector so = ''s3.account-public-access-block'') outcomes of
        [account] \<Rightarrow>
          (case (coverage_account_ok as account,
                 those (map (coverage_bucket_value env as regions) (per_bucket_outcomes outcomes)),
                 expected_keys env outcomes as) of
             (Some block, Some vals, Some keys) \<Rightarrow>
               distinct (map fst vals) \<and>
               set (map fst vals) = set (List.product (map fst regions) (map fst per_bucket_apis)) \<and>
               list_all (bucket_coherent env (so_state account, block) vals) (map fst regions) \<and>
               (case those (map (coverage_key_source env outcomes as regions keys)
                       (filter (\<lambda>so. so_collector so = ''kms.keys'') outcomes)) of
                  None \<Rightarrow> False
                | Some sources \<Rightarrow>
                    same_keys (List.map_filter snd sources) \<and> key_manifest_ok (map fst sources) keys) \<and>
               list_all (\<lambda>so. so_collector so \<in> set s3_collectors) outcomes
           | _ \<Rightarrow> False)
      | _ \<Rightarrow> False)"

section \<open>Facts\<close>

text \<open>Under the manifest a bucket has the eight sources and no other.\<close>

lemma s3_coverage_buckets:
  assumes "s3_coverage_ok env outcomes as regions" "(bucket, region) \<in> set regions" "(collector, api) \<in> set per_bucket_apis"
  obtains so r where "so \<in> set outcomes" "so_collector so = collector" "resource_of so = Some r" "sj_aws_id r = bucket"
proof -
  obtain vals where vals: "those (map (coverage_bucket_value env as regions) (per_bucket_outcomes outcomes)) = Some vals"
    "set (map fst vals) = set (List.product (map fst regions) (map fst per_bucket_apis))"
    using assms(1) by (auto simp: s3_coverage_ok_def split: list.splits option.splits)
  have "(bucket, collector) \<in> set (map fst vals)"
    unfolding vals(2) using assms(2,3) by force
  then obtain v where v: "((bucket, collector), v) \<in> set vals" by auto
  obtain so where so: "so \<in> set (per_bucket_outcomes outcomes)"
    "coverage_bucket_value env as regions so = Some ((bucket, collector), v)"
    using those_map_in [OF vals(1) v] .
  then obtain r where "resource_of so = Some r" "sj_aws_id r = bucket" "so_collector so = collector"
    by (auto simp: coverage_bucket_value_def split: option.splits if_splits)
  then show thesis using that so(1) by (auto simp: per_bucket_outcomes_def)
qed

end
