(* ===== verification/Graph_Coverage.thy ===== *)
theory Graph_Coverage
  imports Analyzer_Coverage S3_Coverage
begin

text \<open>
  app/collectors/base.py, the coverage of the graph-aware collectors: which sources each of them
  owns, how the states of sources roll up into one collection status, and the reconstruction of that
  status from persisted evidence alone. \<open>None\<close> is a ValueError.
\<close>

section \<open>Failures\<close>

text \<open>
  What a collector may catch: evidence errors of its own, an AWS error with its code, a timeout of
  the transport, another botocore error. Every other exception is a TypeError of the mapping.
\<close>

datatype source_error =
    EvidenceConflict | EvidenceMalformed | AwsError "string option" | TransportTimeout | BotocoreError | OtherError

definition access_denied_codes :: "string list" where
  "access_denied_codes = [''AccessDenied'', ''AccessDeniedException'', ''AuthorizationError'', ''UnauthorizedOperation'']"

definition authentication_codes :: "string list" where
  "authentication_codes =
     [''AuthFailure'', ''ExpiredToken'', ''ExpiredTokenException'', ''InvalidClientTokenId'',
      ''InvalidSignatureException'', ''SignatureDoesNotMatch'', ''UnrecognizedClientException'']"

definition throttling_codes :: "string list" where
  "throttling_codes =
     [''RequestLimitExceeded'', ''SlowDown'', ''ThrottledException'', ''Throttling'', ''ThrottlingException'',
      ''TooManyRequestsException'']"

definition unsupported_codes :: "string list" where
  "unsupported_codes = [''InvalidAction'', ''NotImplemented'', ''UnsupportedOperation'', ''UnsupportedOperationException'']"

definition aws_failure :: "string option \<Rightarrow> failure_category" where
  "aws_failure code =
     (if code \<in> Some ` set access_denied_codes then FC_ACCESS_DENIED
      else if code \<in> Some ` set authentication_codes then FC_AUTHENTICATION_FAILED
      else if code \<in> Some ` set throttling_codes then FC_THROTTLED
      else if code \<in> Some ` set unsupported_codes then FC_UNSUPPORTED_OPERATION
      else FC_SERVICE_ERROR)"

fun source_failure :: "source_error \<Rightarrow> (source_state \<times> failure_category) option" where
  "source_failure EvidenceConflict = Some (ST_CONFLICT, FC_CONFLICTING_EVIDENCE)"
| "source_failure EvidenceMalformed = Some (ST_MALFORMED, FC_MALFORMED_RESPONSE)"
| "source_failure (AwsError code) = Some (ST_UNAVAILABLE, aws_failure code)"
| "source_failure TransportTimeout = Some (ST_UNAVAILABLE, FC_TIMEOUT)"
| "source_failure BotocoreError = Some (ST_UNAVAILABLE, FC_SERVICE_ERROR)"
| "source_failure OtherError = None"

section \<open>Rollup\<close>

definition collection_status_for :: "source_outcome list \<Rightarrow> collection_status" where
  "collection_status_for outcomes =
     (let states = map so_state outcomes in
      if states \<noteq> [] \<and> list_all complete_state states then COL_SUCCEEDED
      else if states \<noteq> [] \<and> list_all (\<lambda>s. s = ST_UNAVAILABLE) states then COL_FAILED
      else COL_PARTIAL)"

section \<open>Sources of the collectors\<close>

definition graph_collector_sources :: "(string \<times> string list) list" where
  "graph_collector_sources =
     [(''access_analyzer_evidence'',
         [''access-analyzer.analyzers'', ''access-analyzer.finding-details'', ''access-analyzer.findings'']),
      (''cloudtrail_evidence'',
         [''cloudtrail.trails'', ''cloudtrail.trail-configuration'', ''cloudtrail.trail-status'',
          ''cloudtrail.trail-event-selectors'', ''cloudtrail.trail-tags'']),
      (''ec2_ebs_evidence'', [''ec2.instances'', ''ec2.volumes'', ''ec2.ebs-defaults'']),
      (''iam_account_evidence'', [''iam.account-summary'']),
      (''iam_users'', [''iam.users'', ''iam.groups'', ''iam.roles'', ''iam.policies'']),
      (''s3_evidence'', s3_collectors),
      (''security_groups'', [''ec2.security-groups'']),
      (''vpc_network_evidence'', [''ec2.vpcs'', ''ec2.subnets'', ''ec2.flow-logs''])]"

definition graph_aware_collectors :: "string list" where
  "graph_aware_collectors = map fst graph_collector_sources"

type_synonym discovery_source = "string \<times> string \<times> string \<times> string"

text \<open>The discoveries that the collectors with a fixed manifest declare.\<close>

definition required_discoveries :: "(string \<times> discovery_source list) list" where
  "required_discoveries =
     [(''ec2_ebs_evidence'',
         [(''ec2.instances.discovery'', ''ec2.instances'', ''1.0.0'', ''ec2:DescribeInstances''),
          (''ec2.volumes.discovery'', ''ec2.volumes'', ''1.0.0'', ''ec2:DescribeVolumes''),
          (''ec2.ebs-encryption-default'', ''ec2.ebs-defaults'', ''1.0.0'', ''ec2:GetEbsEncryptionByDefault''),
          (''ec2.ebs-default-kms-key'', ''ec2.ebs-defaults'', ''1.0.0'', ''ec2:GetEbsDefaultKmsKeyId'')]),
      (''security_groups'',
         [(''ec2.security-groups.discovery'', ''ec2.security-groups'', ''2.0.0'', ''ec2:DescribeSecurityGroups'')]),
      (''iam_account_evidence'',
         [(''iam.account-summary'', ''iam.account-summary'', ''1.0.0'', ''iam:GetAccountSummary'')]),
      (''iam_users'',
         [(''iam.users.discovery'', ''iam.users'', ''2.0.0'', ''iam:ListUsers''),
          (''iam.groups.discovery'', ''iam.groups'', ''2.0.0'', ''iam:ListGroups''),
          (''iam.roles.discovery'', ''iam.roles'', ''2.0.0'', ''iam:ListRoles''),
          (''iam.customer-managed-policies.discovery'', ''iam.policies'', ''2.0.0'', ''iam:ListPolicies'')]),
      (''vpc_network_evidence'',
         [(''ec2.vpcs.discovery'', ''ec2.vpcs'', ''1.0.0'', ''ec2:DescribeVpcs''),
          (''ec2.subnets.discovery'', ''ec2.subnets'', ''1.0.0'', ''ec2:DescribeSubnets''),
          (''ec2.flow-logs.discovery'', ''ec2.flow-logs'', ''1.0.0'', ''ec2:DescribeFlowLogs'')])]"

text \<open>The discoveries whose payload says which resources were not admitted.\<close>

definition admission_sources :: "(string \<times> string \<times> string \<times> string) list" where
  "admission_sources =
     [(''ec2.security-groups.discovery'', ''security_group'', ''ec2.security-groups'', ''ec2:DescribeSecurityGroups''),
      (''ec2.vpcs.discovery'', ''vpc'', ''ec2.vpcs'', ''ec2:DescribeVpcs''),
      (''ec2.subnets.discovery'', ''subnet'', ''ec2.subnets'', ''ec2:DescribeSubnets''),
      (''ec2.flow-logs.discovery'', ''vpc_flow_log'', ''ec2.flow-logs'', ''ec2:DescribeFlowLogs'')]"

definition owned_outcomes :: "string \<Rightarrow> source_outcome list \<Rightarrow> source_outcome list" where
  "owned_outcomes name outcomes =
     (case map_of graph_collector_sources name of
        None \<Rightarrow> []
      | Some sources \<Rightarrow> filter (\<lambda>so. so_collector so \<in> set sources) outcomes)"

section \<open>Admission\<close>

definition unadmitted_keys :: "string list" where
  "unadmitted_keys = [''account_id'', ''service'', ''resource_type'', ''scope'', ''region'', ''resource_id'']"

text \<open>One resource that discovery saw and did not admit: it belongs to another account.\<close>

definition unadmitted_resource :: "source_outcome \<Rightarrow> string \<Rightarrow> string \<Rightarrow> string list \<Rightarrow> json \<Rightarrow> string list option" where
  "unadmitted_resource so rtype region ids j =
     (if \<not> has_keys unadmitted_keys j then None
      else
        (case those (map (\<lambda>k. text_field (jget k j)) unadmitted_keys) of
           Some [account, service, ty, scope, reg, i] \<Rightarrow>
             if account_pattern account \<and> account \<noteq> so_account so \<and> service = ''ec2'' \<and> ty = rtype \<and>
                scope = ''regional'' \<and> reg = region \<and> i \<noteq> [] \<and> line_free i \<and> i \<in> set ids
             then Some [account, service, ty, scope, reg, i] else None
         | _ \<Rightarrow> None))"

text \<open>\<open>_admission_projection_is_incomplete\<close>.\<close>

definition admission_incomplete :: "source_outcome \<Rightarrow> json \<Rightarrow> string \<Rightarrow> bool option" where
  "admission_incomplete so p rtype =
     (case (regional_account so, sorted_names_of (jget ''resource_ids'' p), jget ''admission_complete'' p) of
        (Some region, Some ids, JBool admitted) \<Rightarrow>
          if \<not> (count_is (jget ''resource_count'' p) (length ids) \<and> nonnegative (jget ''discarded_item_count'' p) \<and>
                is_list (jget ''unadmitted_resources'' p) \<and> completion_attested so p \<and>
                jget ''account_id'' p = JStr (so_account so) \<and> jget ''region'' p = JStr region)
          then None
          else
            (case those (map (unadmitted_resource so rtype region ids) (list_items (jget ''unadmitted_resources'' p))) of
               None \<Rightarrow> None
             | Some out \<Rightarrow>
                 if sorted_wrt (<) out \<and> distinct (map last out) \<and> admitted = (out = []) then Some (\<not> admitted) else None)
      | _ \<Rightarrow> None)"

text \<open>An outcome with an admission-aware kind has the identity of its source.\<close>

definition outcome_admission :: "graph_artifact list \<Rightarrow> source_outcome \<Rightarrow> bool option" where
  "outcome_admission as so =
     (case map_of admission_sources (so_kind so) of
        None \<Rightarrow> Some False
      | Some (rtype, collector, api) \<Rightarrow>
          if so_phase so = DISCOVERY \<and> resource_of so = None \<and> so_collector so = collector \<and> so_api so = api
          then Option.bind (cited_payload as (so_kind so) so) (\<lambda>p. admission_incomplete so p rtype) else None)"

section \<open>Status of a collector\<close>

definition discovery_source_of :: "source_outcome \<Rightarrow> discovery_source" where
  "discovery_source_of so = (so_kind so, so_collector so, so_collector_version so, so_api so)"

definition fixed_manifest_ok :: "discovery_source list \<Rightarrow> source_outcome list \<Rightarrow> bool" where
  "fixed_manifest_ok required outcomes =
     (let actual = map discovery_source_of (filter (\<lambda>so. so_phase so = DISCOVERY) outcomes) in
      set actual = set required \<and> length actual = length required)"

text \<open>Whether the manifest of the collector is incomplete; \<open>None\<close> when it is invalid.\<close>

definition manifest_incomplete ::
    "env \<Rightarrow> string \<Rightarrow> source_outcome list \<Rightarrow> graph_artifact list \<Rightarrow> source_contract list \<Rightarrow> bool option" where
  "manifest_incomplete env name selected as ds =
     (if name = ''access_analyzer_evidence'' then analyzer_coverage env selected as
      else if name = ''cloudtrail_evidence'' then map_option cm_incomplete (cloudtrail_manifest_of selected ds as)
      else if name = ''s3_evidence''
      then
        (if \<not> s3_contracts_ok selected ds then None
         else
           (case bucket_regions_of env selected as ds of
              Some (Some (whole, regions)) \<Rightarrow>
                if s3_coverage_ok env selected as regions then Some (\<not> whole) else None
            | _ \<Rightarrow> None))
      else
        (case map_of required_discoveries name of
           None \<Rightarrow> None
         | Some required \<Rightarrow> if fixed_manifest_ok required selected then Some False else None))"

definition graph_collection_status_for ::
    "env \<Rightarrow> string \<Rightarrow> source_outcome list \<Rightarrow> graph_artifact list \<Rightarrow> source_contract list \<Rightarrow>
     collection_status option" where
  "graph_collection_status_for env name outcomes as ds =
     (let selected = owned_outcomes name outcomes in
      if name \<notin> set graph_aware_collectors \<or> selected = [] \<or> \<not> unique_references as then None
      else
        Option.bind (manifest_incomplete env name selected as ds) (\<lambda>incomplete.
        Option.bind (those (map (outcome_admission as) selected)) (\<lambda>unadmitted.
        let status = collection_status_for selected in
        Some (if status = COL_SUCCEEDED \<and> (incomplete \<or> True \<in> set unadmitted) then COL_PARTIAL else status))))"

text \<open>
  \<open>validate_access_analyzer_s3_region_source_status\<close>: the Regions of Access Analyzer are complete
  exactly when the buckets are, or when the S3 collector of an older graph succeeded.
\<close>

definition analyzer_agrees_with_s3 ::
    "env \<Rightarrow> source_outcome list \<Rightarrow> graph_artifact list \<Rightarrow> collection_status \<Rightarrow> source_contract list \<Rightarrow> bool option" where
  "analyzer_agrees_with_s3 env outcomes as status ds =
     (let selected = owned_outcomes ''access_analyzer_evidence'' outcomes in
      if selected = [] \<or> \<not> unique_references as then None
      else
        Option.bind (analyzer_coverage env selected as) (\<lambda>incomplete.
        Option.bind (bucket_regions_of env outcomes as ds) (\<lambda>regions.
        let expected = (case regions of Some (whole, _) \<Rightarrow> whole | None \<Rightarrow> status = COL_SUCCEEDED) in
        if (\<not> incomplete) = expected then Some (\<not> incomplete) else None)))"

definition graph_collectors_for_outcomes :: "source_outcome list \<Rightarrow> string list" where
  "graph_collectors_for_outcomes outcomes = filter (\<lambda>name. owned_outcomes name outcomes \<noteq> []) graph_aware_collectors"

text \<open>Which collectors of a graph are validated: history before a producer was integrated is kept.\<close>

definition coverage_required :: "string \<Rightarrow> string list \<Rightarrow> source_outcome list \<Rightarrow> bool" where
  "coverage_required name requested outcomes =
     (name \<in> set graph_aware_collectors \<and>
      (owned_outcomes name outcomes \<noteq> [] \<or>
       (if name \<in> {''access_analyzer_evidence'', ''cloudtrail_evidence'', ''ec2_ebs_evidence'', ''iam_account_evidence'',
            ''s3_evidence'', ''vpc_network_evidence''}
        then name \<in> set requested
        else if name = ''iam_users'' then ''iam_account_evidence'' \<in> set requested
        else name = ''security_groups'' \<and> ''vpc_network_evidence'' \<in> set requested)))"

section \<open>Facts\<close>

lemma aws_failure_unavailable: "aws_failure code \<in> set unavailable_categories"
  by (simp add: aws_failure_def unavailable_categories_def)

lemma source_failure_matches: "source_failure e = Some (state, category) \<Longrightarrow> failure_matches state (Some category)"
  using aws_failure_unavailable by (cases e) (auto simp: unavailable_categories_def)

lemma collection_status_succeeded:
  "collection_status_for outcomes = COL_SUCCEEDED \<longleftrightarrow>
     outcomes \<noteq> [] \<and> (\<forall>so\<in>set outcomes. complete_state (so_state so))"
  by (auto simp: collection_status_for_def Let_def list_all_iff)

text \<open>A collector has SUCCEEDED only on complete sources, a whole manifest and full admission.\<close>

lemma graph_status_succeeded:
  assumes "graph_collection_status_for env name outcomes as ds = Some COL_SUCCEEDED"
  shows "owned_outcomes name outcomes \<noteq> []"
    "so \<in> set (owned_outcomes name outcomes) \<Longrightarrow> complete_state (so_state so)"
    "manifest_incomplete env name (owned_outcomes name outcomes) as ds = Some False"
    "so \<in> set (owned_outcomes name outcomes) \<Longrightarrow> outcome_admission as so = Some False"
proof -
  let ?s = "owned_outcomes name outcomes"
  obtain incomplete flags where f: "manifest_incomplete env name ?s as ds = Some incomplete"
    "those (map (outcome_admission as) ?s) = Some flags" "collection_status_for ?s = COL_SUCCEEDED"
    "\<not> incomplete" "True \<notin> set flags" "?s \<noteq> []"
    using assms by (auto simp: graph_collection_status_for_def Let_def bind_eq_Some_conv split: if_splits)
  show "?s \<noteq> []" "so \<in> set ?s \<Longrightarrow> complete_state (so_state so)"
    using f(3) unfolding collection_status_succeeded by blast+
  show "manifest_incomplete env name ?s as ds = Some False" using f(1,4) by simp
  assume so: "so \<in> set ?s"
  have "list_all2 (\<lambda>x y. outcome_admission as x = Some y) ?s flags" using f(2) by (simp only: those_map_Some)
  then have "\<exists>y\<in>set flags. outcome_admission as so = Some y" using so by (induction rule: list_all2_induct) auto
  then show "outcome_admission as so = Some False" using f(5) by (metis (full_types))
qed

end
