(* ===== verification/Graph_History.thy ===== *)
theory Graph_History
  imports Graph_Rows Graph_Coverage
begin

text \<open>
  \<open>load_evidence_graph\<close> of app/database/evidence_graph.py: the graph of one scan is rebuilt from its
  rows, validated again, and checked against the scope manifest of the scan: the digest of its declared
  sources and the collection status that each collector claimed. What was stored is what is loaded.
\<close>

section \<open>Loading\<close>

text \<open>The columns of \<open>ScanScopeManifest\<close> that the reader uses; the digest is absent for a scan without a graph.\<close>

record scope_manifest =
  mf_scan_id :: uuid
  mf_schema_version :: "string option"
  mf_checksum :: "digest option"
  mf_requested :: json
  mf_outcomes :: json

datatype graph_error =
    ManifestWithoutRecords | NoScopeManifest | IncompleteDigest | NoSourceManifest | ContractViolated
  | SchemaMismatch | ChecksumMismatch | InvalidCollectorScope | InconsistentCollectorScope | UncoveredSources
  | NoCoverageOutcome | CoverageUnreadable | CoverageDisagrees

definition rows_of_scan :: "('r \<Rightarrow> uuid) \<Rightarrow> ('r \<Rightarrow> uuid) \<Rightarrow> uuid \<Rightarrow> 'r list \<Rightarrow> 'r list" where
  "rows_of_scan scan_of key scan rows = sort_key key (filter (\<lambda>r. scan_of r = scan) rows)"

text \<open>The graph of the rows; without artifacts the collection time is an IndexError.\<close>

definition graph_of_rows ::
    "env \<Rightarrow> uuid \<Rightarrow> contract_row list \<Rightarrow> artifact_row list \<Rightarrow> outcome_row list \<Rightarrow> edge_row list \<Rightarrow>
     evidence_graph option" where
  "graph_of_rows env scan cs as os es =
     (case (cs, as) of
        (c # _, a # _) \<Rightarrow>
          Option.bind (those (map (contract_from_row env) cs)) (\<lambda>ds.
          Option.bind (those (map (artifact_from_row env) as)) (\<lambda>ars.
          Option.bind (those (map (outcome_from_row env) os)) (\<lambda>sos.
          Option.bind (those (map (relationship_from_row env) es)) (\<lambda>xs.
          make_graph env
            \<lparr>eg_scan_id = scan, eg_account = cr_account c, eg_collected_at = ay_collected_at a, eg_sources = ds,
             eg_artifacts = ars, eg_outcomes = sos, eg_relationships = xs\<rparr>))))
      | _ \<Rightarrow> None)"

section \<open>Collector coverage\<close>

definition collection_status_of_text :: "string \<Rightarrow> collection_status option" where
  "collection_status_of_text s =
     (if s = ''SUCCEEDED'' then Some COL_SUCCEEDED else if s = ''FAILED'' then Some COL_FAILED
      else if s = ''PARTIAL'' then Some COL_PARTIAL else None)"

text \<open>The requested collectors: a JSON list of distinct names, for which exactly an outcome is stored.\<close>

definition requested_names :: "json \<Rightarrow> string list option" where
  "requested_names j =
     (case named_texts_of j of None \<Rightarrow> None | Some ns \<Rightarrow> if distinct ns then Some ns else None)"

definition analyzer_status_ok :: "env \<Rightarrow> scope_manifest \<Rightarrow> evidence_graph \<Rightarrow> bool" where
  "analyzer_status_ok env m g =
     (case Option.bind (text_field (jget ''s3_buckets'' (mf_outcomes m))) collection_status_of_text of
        None \<Rightarrow> False
      | Some s3 \<Rightarrow> analyzer_agrees_with_s3 env (eg_outcomes g) (eg_artifacts g) s3 (eg_sources g) \<noteq> None)"

text \<open>One graph-aware collector: its stored status is the one its evidence gives.\<close>

definition collector_checked :: "env \<Rightarrow> scope_manifest \<Rightarrow> string list \<Rightarrow> evidence_graph \<Rightarrow> string \<Rightarrow> graph_error option" where
  "collector_checked env m requested g name =
     (if \<not> coverage_required name requested (eg_outcomes g) then None
      else if jget name (mf_outcomes m) = JNull then Some NoCoverageOutcome
      else if name = ''access_analyzer_evidence'' \<and> \<not> analyzer_status_ok env m g then Some CoverageUnreadable
      else
        (case graph_collection_status_for env name (eg_outcomes g) (eg_artifacts g) (eg_sources g) of
           None \<Rightarrow> Some CoverageUnreadable
         | Some status \<Rightarrow>
             if jget name (mf_outcomes m) = JStr (status_text status) then None else Some CoverageDisagrees))"

definition coverage_error :: "env \<Rightarrow> scope_manifest \<Rightarrow> evidence_graph \<Rightarrow> graph_error option" where
  "coverage_error env m g =
     (case requested_names (mf_requested m) of
        None \<Rightarrow> Some InvalidCollectorScope
      | Some requested \<Rightarrow>
          if \<not> is_obj (mf_outcomes m) \<or> [] \<in> set (json_keys (mf_outcomes m)) then Some InvalidCollectorScope
          else if set requested \<noteq> set (json_keys (mf_outcomes m)) then Some InconsistentCollectorScope
          else if \<not> set (graph_collectors_for_outcomes (eg_outcomes g)) \<subseteq> set requested then Some UncoveredSources
          else
            (case List.map_filter (collector_checked env m requested g) graph_aware_collectors of
               [] \<Rightarrow> None
             | e # _ \<Rightarrow> Some e))"

text \<open>
  The checks in the order of the code. It visits the collectors in the order of a frozenset; here it
  is the order of their table, so of several failing collectors the reported one may differ.
\<close>

definition load_evidence_graph ::
    "env \<Rightarrow> scope_manifest list \<Rightarrow> graph_tables \<Rightarrow> uuid \<Rightarrow> graph_error + evidence_graph option" where
  "load_evidence_graph env manifests t scan =
     (let manifest = find_row mf_scan_id scan manifests;
          cs = rows_of_scan cr_scan_id cr_outcome_id scan (gt_contracts t);
          as = rows_of_scan ay_scan_id ay_id scan (gt_artifacts t);
          os = rows_of_scan oy_scan_id oy_id scan (gt_outcomes t);
          es = rows_of_scan ey_scan_id ey_observation_id scan (gt_edges t) in
      if cs = [] \<and> as = [] \<and> os = [] \<and> es = []
      then (case manifest of
              Some m \<Rightarrow> if mf_schema_version m \<noteq> None \<or> mf_checksum m \<noteq> None then Inl ManifestWithoutRecords else Inr None
            | None \<Rightarrow> Inr None)
      else
        (case manifest of
           None \<Rightarrow> Inl NoScopeManifest
         | Some m \<Rightarrow>
             if mf_schema_version m = None \<or> mf_checksum m = None then Inl IncompleteDigest
             else if cs = [] then Inl NoSourceManifest
             else
               (case graph_of_rows env scan cs as os es of
                  None \<Rightarrow> Inl ContractViolated
                | Some g \<Rightarrow>
                    if mf_schema_version m \<noteq> Some ''1.0.0'' then Inl SchemaMismatch
                    else if mf_checksum m \<noteq> Some (source_manifest_sha env g) then Inl ChecksumMismatch
                    else (case coverage_error env m g of Some e \<Rightarrow> Inl e | None \<Rightarrow> Inr (Some g)))))"

section \<open>Facts\<close>

text \<open>What a successful load says of the graph.\<close>

lemma load_evidence_graph_Some:
  assumes "load_evidence_graph env manifests t scan = Inr (Some g)"
  obtains m x where "find_row mf_scan_id scan manifests = Some m" "make_graph env x = Some g" "eg_scan_id g = scan"
    "mf_checksum m = Some (source_manifest_sha env g)" "coverage_error env m g = None"
proof -
  let ?cs = "rows_of_scan cr_scan_id cr_outcome_id scan (gt_contracts t)"
  let ?as = "rows_of_scan ay_scan_id ay_id scan (gt_artifacts t)"
  let ?os = "rows_of_scan oy_scan_id oy_id scan (gt_outcomes t)"
  let ?es = "rows_of_scan ey_scan_id ey_observation_id scan (gt_edges t)"
  obtain m where m: "find_row mf_scan_id scan manifests = Some m" "graph_of_rows env scan ?cs ?as ?os ?es = Some g"
    "mf_checksum m = Some (source_manifest_sha env g)" "coverage_error env m g = None"
    using assms by (auto simp: load_evidence_graph_def Let_def split: if_splits option.splits)
  then obtain x where x: "make_graph env x = Some g" "eg_scan_id x = scan"
    by (auto simp: graph_of_rows_def bind_eq_Some_conv split: list.splits)
  then have "eg_scan_id g = scan"
    using canonical_graph_Some(6) by (fastforce simp: make_graph_def bind_eq_Some_conv split: if_splits)
  with m x that show thesis by blast
qed

text \<open>What a successful persistence appends.\<close>

lemma insert_rows_Some: "insert_rows ok unique new rows = Some t \<longleftrightarrow> list_all ok new \<and> unique (rows @ new) \<and> t = rows @ new"
  by (auto simp: insert_rows_def)

lemma persisted_rows:
  assumes "persist_evidence_graph env x t = Inr t'" "make_graph env x = Some g"
  obtains os es where
    "those (map (row_of_outcome (eg_artifacts g)) (eg_outcomes g)) = Some os"
    "those (map (row_of_relationship (eg_outcomes g)) (eg_relationships g)) = Some es"
    "gt_contracts t' = gt_contracts t @ map row_of_contract (eg_sources g)"
    "gt_artifacts t' = gt_artifacts t @ map row_of_artifact (eg_artifacts g)"
    "gt_outcomes t' = gt_outcomes t @ os" "gt_edges t' = gt_edges t @ es"
  using assms
  by (auto simp: persist_evidence_graph_def or_raise_def res_bind_Inr_iff insert_sources_def insert_outcomes_def
      insert_edges_def bind_eq_Some_conv insert_rows_Some split: option.splits if_splits)

lemma row_of_outcome_Some: "row_of_outcome as so = Some r \<Longrightarrow> \<exists>i. r = row_of_source i so"
  by (auto simp: row_of_outcome_def)

lemma row_of_relationship_Some: "row_of_relationship outcomes x = Some r \<Longrightarrow> \<exists>i. r = row_of_edge i x"
  by (auto simp: row_of_relationship_def split: list.splits)

text \<open>A list of rows made from records, when every row is made by a form of one codec.\<close>

lemma those_rows:
  assumes "those (map f xs) = Some rows" "\<And>x r. f x = Some r \<Longrightarrow> \<exists>i. r = enc i x"
    and "\<And>i x. x \<in> set xs \<Longrightarrow> decode (enc i x) = Some x" "\<And>i x. key (enc i x) = k x" "\<And>i x. sc (enc i x) = s x"
  shows "those (map decode rows) = Some xs" "map key rows = map k xs" "map sc rows = map s xs"
proof -
  have "list_all2 (\<lambda>x r. f x = Some r) xs rows" using assms(1) by (simp only: those_map_Some)
  then have "those (map decode rows) = Some xs \<and> map key rows = map k xs \<and> map sc rows = map s xs"
    using assms(3)
  proof (induction rule: list_all2_induct)
    case Nil
    then show ?case by simp
  next
    case (Cons x xs r rows)
    obtain i where "r = enc i x" using assms(2) [OF Cons.hyps(1)] ..
    then show ?case using Cons.IH Cons.prems assms(4,5) by simp
  qed
  then show "those (map decode rows) = Some xs" "map key rows = map k xs" "map sc rows = map s xs" by blast+
qed

text \<open>Rows of one scan behind rows of others.\<close>

lemma rows_of_scan_appended:
  assumes "filter (\<lambda>r. scan_of r = scan) old = []" "map scan_of new = map (\<lambda>_. scan) new" "sorted (map key new)"
  shows "rows_of_scan scan_of key scan (old @ new) = new"
proof -
  have "filter (\<lambda>r. scan_of r = scan) new = new" using assms(2) by (simp add: map_eq_conv)
  then show ?thesis using assms(1,3) by (simp add: rows_of_scan_def sort_key_id_if_sorted)
qed

lemma rows_of_other_scan:
  assumes "map scan_of new = map (\<lambda>_. other) new" "scan \<noteq> other"
  shows "rows_of_scan scan_of key scan (old @ new) = rows_of_scan scan_of key scan old"
proof -
  have "filter (\<lambda>r. scan_of r = scan) new = []" using assms by (auto simp: map_eq_conv filter_empty_conv)
  then show ?thesis by (simp add: rows_of_scan_def)
qed

text \<open>The records of a valid graph name its scan, and there is a source and an artifact.\<close>

lemma graph_ok_scans:
  assumes "graph_ok env g raw" "settled_graph env g"
  shows "\<And>d. d \<in> set (eg_sources g) \<Longrightarrow> sd_scan_id d = eg_scan_id g \<and> sd_account d = eg_account g"
    "\<And>a. a \<in> set (eg_artifacts g) \<Longrightarrow> ga_scan_id a = eg_scan_id g \<and> ga_collected_at a = eg_collected_at g"
    "\<And>so. so \<in> set (eg_outcomes g) \<Longrightarrow> so_scan_id so = eg_scan_id g"
    "\<And>x. x \<in> set (eg_relationships g) \<Longrightarrow> xr_scan_id x = eg_scan_id g"
    "eg_sources g \<noteq> []" "eg_artifacts g \<noteq> []"
proof -
  have ok: "list_all (\<lambda>a. common_observation g (ga_scan_id a) (ga_account a) (Some (ga_collected_at a))) (eg_artifacts g)"
    "list_all (source_bound g) (eg_sources g)" "list_all (edge_bound g) (eg_relationships g)"
    "set (map sd_outcome_id (eg_sources g)) = set (map so_id (eg_outcomes g))"
    using assms(1) by (simp_all add: graph_ok_def)
  show "eg_sources g \<noteq> []" "eg_artifacts g \<noteq> []" using assms(1) by (simp_all add: graph_ok_def)
  show "sd_scan_id d = eg_scan_id g \<and> sd_account d = eg_account g" if "d \<in> set (eg_sources g)" for d
    using ok(2) that by (simp add: list_all_iff source_bound_def common_observation_def)
  show "ga_scan_id a = eg_scan_id g \<and> ga_collected_at a = eg_collected_at g" if "a \<in> set (eg_artifacts g)" for a
    using ok(1) that by (simp add: list_all_iff common_observation_def)
  show "xr_scan_id x = eg_scan_id g" if "x \<in> set (eg_relationships g)" for x
    using ok(3) that by (simp add: list_all_iff edge_bound_def common_observation_def)
  show "so_scan_id so = eg_scan_id g" if so: "so \<in> set (eg_outcomes g)" for so
  proof -
    have "so_id so \<in> set (map sd_outcome_id (eg_sources g))" unfolding ok(4) using so by simp
    then obtain d where d: "d \<in> set (eg_sources g)" "sd_outcome_id d = so_id so" by auto
    have "distinct (map so_id (eg_outcomes g))" using assms(2) deduplicate_Some(2) by (auto simp: settled_graph_def)
    then have "find_row so_id (so_id so) (eg_outcomes g) = Some so" using so by (rule find_row_distinct)
    then show ?thesis using ok(2) d by (auto simp: list_all_iff source_bound_def common_observation_def)
  qed
qed

text \<open>What the scan of a graph finds in the tables after its persistence, and what every other scan finds.\<close>

definition scan_stored :: "uuid \<Rightarrow> graph_tables \<Rightarrow> bool" where
  "scan_stored scan t =
     (scan \<in> set (map cr_scan_id (gt_contracts t) @ map ay_scan_id (gt_artifacts t) @ map oy_scan_id (gt_outcomes t) @
        map ey_scan_id (gt_edges t)))"

lemma not_stored_filters:
  assumes "\<not> scan_stored scan t"
  shows "filter (\<lambda>r. cr_scan_id r = scan) (gt_contracts t) = []" "filter (\<lambda>r. ay_scan_id r = scan) (gt_artifacts t) = []"
    "filter (\<lambda>r. oy_scan_id r = scan) (gt_outcomes t) = []" "filter (\<lambda>r. ey_scan_id r = scan) (gt_edges t) = []"
  using assms by (auto simp: scan_stored_def filter_empty_conv)

lemma evidence_graph_eta:
  "\<lparr>eg_scan_id = eg_scan_id g, eg_account = eg_account g, eg_collected_at = eg_collected_at g,
    eg_sources = eg_sources g, eg_artifacts = eg_artifacts g, eg_outcomes = eg_outcomes g,
    eg_relationships = eg_relationships g\<rparr> = g"
  by (cases g) simp

lemma persisted_scan:
  assumes "make_graph env x = Some g" "bounded_uuids env" "persist_evidence_graph env x t = Inr t'"
  obtains cs as os es where
    "gt_contracts t' = gt_contracts t @ cs" "gt_artifacts t' = gt_artifacts t @ as"
    "gt_outcomes t' = gt_outcomes t @ os" "gt_edges t' = gt_edges t @ es"
    "map cr_scan_id cs = map (\<lambda>_. eg_scan_id g) cs" "map ay_scan_id as = map (\<lambda>_. eg_scan_id g) as"
    "map oy_scan_id os = map (\<lambda>_. eg_scan_id g) os" "map ey_scan_id es = map (\<lambda>_. eg_scan_id g) es"
    "sorted (map cr_outcome_id cs)" "sorted (map ay_id as)" "sorted (map oy_id os)" "sorted (map ey_observation_id es)"
    "graph_of_rows env (eg_scan_id g) cs as os es = Some g" "cs \<noteq> []"
proof -
  have settled: "settled_graph env g" using assms(1) by (rule make_graph_settled)
  note scans = graph_ok_scans [OF make_graph_again(2) [OF assms(1)] settled]
  obtain os es where rows: "those (map (row_of_outcome (eg_artifacts g)) (eg_outcomes g)) = Some os"
    "those (map (row_of_relationship (eg_outcomes g)) (eg_relationships g)) = Some es"
    "gt_contracts t' = gt_contracts t @ map row_of_contract (eg_sources g)"
    "gt_artifacts t' = gt_artifacts t @ map row_of_artifact (eg_artifacts g)"
    "gt_outcomes t' = gt_outcomes t @ os" "gt_edges t' = gt_edges t @ es"
    using persisted_rows [OF assms(3,1)] .
  have o: "those (map (outcome_from_row env) os) = Some (eg_outcomes g)" "map oy_id os = map so_id (eg_outcomes g)"
    "map oy_scan_id os = map so_scan_id (eg_outcomes g)"
    using those_rows [OF rows(1), where enc = row_of_source and decode = "outcome_from_row env" and key = oy_id and k = so_id
        and sc = oy_scan_id and s = so_scan_id] row_of_outcome_Some outcome_rows.decode_encode settled assms(2)
    by (auto simp: settled_graph_def row_of_source_def)
  have e: "those (map (relationship_from_row env) es) = Some (eg_relationships g)"
    "map ey_observation_id es = map xr_observation_id (eg_relationships g)"
    "map ey_scan_id es = map xr_scan_id (eg_relationships g)"
    using those_rows [OF rows(2), where enc = row_of_edge and decode = "relationship_from_row env" and key = ey_observation_id
        and k = xr_observation_id and sc = ey_scan_id and s = xr_scan_id] row_of_relationship_Some edge_rows.decode_encode settled
    by (auto simp: settled_graph_def edge_row_fields)
  have c: "those (map (contract_from_row env) (map row_of_contract (eg_sources g))) = Some (eg_sources g)"
    using contract_rows.decode_all [of env "eg_sources g"] settled assms(2) by (simp add: settled_graph_def list_all_iff)
  have a: "those (map (artifact_from_row env) (map row_of_artifact (eg_artifacts g))) = Some (eg_artifacts g)"
    using artifact_rows.decode_all [of env "eg_artifacts g"] settled by (simp add: settled_graph_def list_all_iff)
  have scan_maps: "map so_scan_id (eg_outcomes g) = map (\<lambda>_. eg_scan_id g) (eg_outcomes g)"
    "map xr_scan_id (eg_relationships g) = map (\<lambda>_. eg_scan_id g) (eg_relationships g)"
    using scans(3,4) by simp_all
  have len: "length os = length (eg_outcomes g)" "length es = length (eg_relationships g)"
    using o(2) e(2) by (metis length_map)+
  have sorted_keys: "sorted (map sd_outcome_id (eg_sources g))" "sorted (map ga_id (eg_artifacts g))"
    "sorted (map so_id (eg_outcomes g))" "sorted (map xr_observation_id (eg_relationships g))"
    using settled deduplicate_Some(1) by (auto simp: settled_graph_def deduplicate_relationships_def)
  obtain d ds where ds: "eg_sources g = d # ds" using scans(5) by (cases "eg_sources g") auto
  obtain b bs where bs: "eg_artifacts g = b # bs" using scans(6) by (cases "eg_artifacts g") auto
  have "cr_account (row_of_contract d) = eg_account g" "ay_collected_at (row_of_artifact b) = eg_collected_at g"
    using scans(1) [of d] scans(2) [of b] ds bs by (simp_all add: row_of_contract_def row_of_artifact_def)
  then have graph: "graph_of_rows env (eg_scan_id g) (map row_of_contract (eg_sources g)) (map row_of_artifact (eg_artifacts g))
      os es = Some g"
    using c a o(1) e(1) make_graph_again(1) [OF assms(1)]
    by (simp add: graph_of_rows_def ds bs) (simp add: ds [symmetric] bs [symmetric] evidence_graph_eta)
  show thesis
  proof (rule that [OF rows(3-6)])
    show "map cr_scan_id (map row_of_contract (eg_sources g)) = map (\<lambda>_. eg_scan_id g) (map row_of_contract (eg_sources g))"
      using scans(1) by (simp add: row_of_contract_def)
    show "map ay_scan_id (map row_of_artifact (eg_artifacts g)) = map (\<lambda>_. eg_scan_id g) (map row_of_artifact (eg_artifacts g))"
      using scans(2) by (simp add: row_of_artifact_def)
    show "map oy_scan_id os = map (\<lambda>_. eg_scan_id g) os" "map ey_scan_id es = map (\<lambda>_. eg_scan_id g) es"
      using o(3) e(3) len by (simp_all add: scan_maps map_replicate_const)
    show "sorted (map cr_outcome_id (map row_of_contract (eg_sources g)))" "sorted (map ay_id (map row_of_artifact (eg_artifacts g)))"
      using sorted_keys(1,2) by (simp_all add: row_of_contract_def row_of_artifact_def comp_def)
    show "sorted (map oy_id os)" "sorted (map ey_observation_id es)" using sorted_keys(3,4) by (simp_all add: o(2) e(2))
    show "map row_of_contract (eg_sources g) \<noteq> []" using ds by simp
  qed (rule graph)
qed

text \<open>The declared-source digest and the collector coverage that a manifest must carry for a graph.\<close>

definition manifest_agrees :: "env \<Rightarrow> scope_manifest \<Rightarrow> evidence_graph \<Rightarrow> bool" where
  "manifest_agrees env m g =
     (mf_schema_version m = Some ''1.0.0'' \<and> mf_checksum m = Some (source_manifest_sha env g) \<and>
      coverage_error env m g = None)"

section \<open>Coverage of a loaded graph\<close>

lemma status_text_inj: "status_text a = status_text b \<Longrightarrow> a = b"
  by (cases a; cases b) simp_all

text \<open>A collector with sources has the status of its evidence in the manifest.\<close>

lemma covered_status:
  assumes "coverage_error env m g = None" "name \<in> set graph_aware_collectors" "so \<in> set (owned_outcomes name (eg_outcomes g))"
  obtains status where
    "graph_collection_status_for env name (eg_outcomes g) (eg_artifacts g) (eg_sources g) = Some status"
    "jget name (mf_outcomes m) = JStr (status_text status)"
proof -
  obtain requested where r: "List.map_filter (collector_checked env m requested g) graph_aware_collectors = []"
    using assms(1) by (auto simp: coverage_error_def split: option.splits if_splits list.splits)
  then have "collector_checked env m requested g name = None"
    using assms(2) by (auto simp: map_filter_def filter_empty_conv)
  moreover have "coverage_required name requested (eg_outcomes g)"
    using assms(2,3) by (auto simp: coverage_required_def)
  ultimately show thesis
    using that by (auto simp: collector_checked_def split: option.splits if_splits)
qed

section \<open>Trails of other accounts\<close>

lemma external_row_refused: "cloudtrail_external_enrichment d \<Longrightarrow> \<not> contract_row_ok (row_of_contract d)"
  by (simp add: cloudtrail_external_enrichment_def contract_row_ok_def row_of_contract_def)

lemma external_graph_refused:
  assumes "make_graph env x = Some g" "d \<in> set (eg_sources g)" "cloudtrail_external_enrichment d"
  shows "persist_evidence_graph env x t = Inl IntegrityFailure"
proof -
  have "\<not> list_all contract_row_ok (map row_of_contract (eg_sources g))"
    using assms(2) external_row_refused [OF assms(3)] by (auto simp: list_all_iff)
  then have "insert_sources (map row_of_contract (eg_sources g)) as t = None" for as
    by (simp add: insert_sources_def insert_rows_def)
  then show ?thesis by (simp add: persist_evidence_graph_def or_raise_def assms(1))
qed

end
