(* ===== verification/Graph_Scenario.thy ===== *)
theory Graph_Scenario
  imports Graph_History
begin

text \<open>
  A concrete scan with an evidence graph: the discovery of one security group, its artifact and an
  edge to the VPC that the scan did not collect, with the manifest of the scan.
\<close>

definition graph_env :: env where
  "graph_env = \<lparr>sha = (\<lambda>_. replicate 64 (CHR ''a'')), uuid5_of = (\<lambda>_ name. if last name = CHR ''2'' then 2 else 1),
     tick = (\<lambda>_. Naive), fresh = (\<lambda>i. i), in_tx = False, pending = False, dialect_of = POSTGRESQL, down = False\<rparr>"

definition graph_time :: time where
  "graph_time = seconds 1000"

definition group_subject :: subject where
  "group_subject = AccountSubject ''111122223333'' SCOPE_REGIONAL (Some ''us-east-1'')"

definition group_payload :: json where
  "group_payload =
     JObj [(''account_id'', JStr ''111122223333''), (''admission_complete'', JBool True), (''complete'', JBool True),
           (''discarded_item_count'', JInt 0), (''failure_category'', JNull), (''region'', JStr ''us-east-1''),
           (''resource_count'', JInt 1), (''resource_ids'', JList [JStr ''sg-1'']), (''unadmitted_resources'', JList [])]"

definition group_outcome_id :: uuid where
  "group_outcome_id =
     source_outcome_id graph_env 5 ''111122223333'' DISCOVERY group_subject ''ec2.security-groups.discovery''
       ''ec2.security-groups'' ''2.0.0'' ''ec2:DescribeSecurityGroups''"

definition group_contract :: source_contract where
  "group_contract =
     \<lparr>sd_key = ''ec2.security-groups.discovery'', sd_contract_version = ''1.0.0'', sd_outcome_id = group_outcome_id,
      sd_scan_id = 5, sd_account = ''111122223333'', sd_phase = DISCOVERY, sd_subject = group_subject,
      sd_kind = ''ec2.security-groups.discovery'', sd_collector = ''ec2.security-groups'', sd_version = ''2.0.0'',
      sd_api = ''ec2:DescribeSecurityGroups'', sd_cardinality = CARD_COLLECTION, sd_owner_mode = OWN_COLLECTION_ACCOUNT,
      sd_authoritative = False, sd_supplemental = False\<rparr>"

definition group_artifact :: graph_artifact where
  "group_artifact =
     \<lparr>ga_id = graph_artifact_id graph_env 5 ''normalized://groups'', ga_scan_id = 5, ga_account = ''111122223333'',
      ga_reference = ''normalized://groups'', ga_sha = replicate 64 (CHR ''a''),
      ga_schema = ''ec2.security-groups.discovery'', ga_schema_version = ''1.0.0'', ga_collected_at = graph_time,
      ga_payload = group_payload\<rparr>"

definition group_outcome :: source_outcome where
  "group_outcome =
     \<lparr>so_id = group_outcome_id, so_scan_id = 5, so_account = ''111122223333'', so_phase = DISCOVERY,
      so_subject = group_subject, so_kind = ''ec2.security-groups.discovery'', so_state = ST_PRESENT, so_failure = None,
      so_collector = ''ec2.security-groups'', so_collector_version = ''2.0.0'', so_api = ''ec2:DescribeSecurityGroups'',
      so_collected_at = graph_time, so_reference = ''normalized://groups'', so_sha = replicate 64 (CHR ''a'')\<rparr>"

definition group_endpoint :: endpoint where
  "group_endpoint =
     \<lparr>ep_account = ''111122223333'', ep_service = ''ec2'', ep_type = ''security_group'', ep_aws_id = ''sg-1'',
      ep_scope = SCOPE_REGIONAL, ep_region = Some ''us-east-1'', ep_stable_id = 1, ep_snapshot_id = Some 1\<rparr>"

definition vpc_endpoint :: endpoint where
  "vpc_endpoint =
     \<lparr>ep_account = ''111122223333'', ep_service = ''ec2'', ep_type = ''vpc'', ep_aws_id = ''vpc-2'',
      ep_scope = SCOPE_REGIONAL, ep_region = Some ''us-east-1'', ep_stable_id = 2, ep_snapshot_id = None\<rparr>"

definition group_edge_id :: uuid where
  "group_edge_id = relationship_id graph_env 1 RT_IN_VPC (StableTarget vpc_endpoint)"

definition group_edge :: relationship where
  "group_edge =
     \<lparr>xr_relationship_id = group_edge_id, xr_observation_id = observation_id graph_env 5 group_edge_id, xr_scan_id = 5,
      xr_account = ''111122223333'', xr_type = RT_IN_VPC, xr_source = group_endpoint,
      xr_target = StableTarget vpc_endpoint, xr_resolution = RR_TARGET_NOT_COLLECTED,
      xr_provenance = provenance_of group_outcome\<rparr>"

definition group_graph :: evidence_graph where
  "group_graph =
     \<lparr>eg_scan_id = 5, eg_account = ''111122223333'', eg_collected_at = graph_time, eg_sources = [group_contract],
      eg_artifacts = [group_artifact], eg_outcomes = [group_outcome], eg_relationships = [group_edge]\<rparr>"

definition group_tables :: graph_tables where
  "group_tables = \<lparr>gt_scans = [5], gt_contracts = [], gt_artifacts = [], gt_outcomes = [], gt_edges = []\<rparr>"

definition group_manifest :: scope_manifest where
  "group_manifest =
     \<lparr>mf_scan_id = 5, mf_schema_version = Some ''1.0.0'', mf_checksum = Some (replicate 64 (CHR ''a'')),
      mf_requested = JList [JStr ''security_groups''], mf_outcomes = JObj [(''security_groups'', JStr ''SUCCEEDED'')]\<rparr>"

section \<open>Its records are valid\<close>

lemma graph_env_bounded: "bounded_uuids graph_env"
  by (simp add: bounded_uuids_def graph_env_def)

lemma graph_texts:
  "trim_text ''111122223333'' = ''111122223333''" "trim_text ''us-east-1'' = ''us-east-1''"
  "trim_text ''ec2.security-groups.discovery'' = ''ec2.security-groups.discovery''" "trim_text ''1.0.0'' = ''1.0.0''"
  "trim_text ''ec2.security-groups'' = ''ec2.security-groups''" "trim_text ''2.0.0'' = ''2.0.0''"
  "trim_text ''ec2:DescribeSecurityGroups'' = ''ec2:DescribeSecurityGroups''"
  "trim_text ''normalized://groups'' = ''normalized://groups''" "trim_text ''ec2'' = ''ec2''"
  "trim_text ''security_group'' = ''security_group''" "trim_text ''sg-1'' = ''sg-1''" "trim_text ''vpc'' = ''vpc''"
  "trim_text ''vpc-2'' = ''vpc-2''" "trim_text (replicate 64 (CHR ''a'')) = replicate 64 (CHR ''a'')"
  by code_simp+

lemma graph_patterns:
  "account_pattern ''111122223333''" "owner_pattern ''111122223333''" "kind_pattern ''ec2.security-groups.discovery''"
  "version_pattern ''1.0.0''" "version_pattern ''2.0.0''" "collector_pattern ''ec2.security-groups''"
  "api_pattern ''ec2:DescribeSecurityGroups''" "contract_key_pattern ''ec2.security-groups.discovery''"
  "reference_pattern ''normalized://groups''" "normalized_reference ''normalized://groups''"
  "sha256_pattern (replicate 64 (CHR ''a''))" "service_pattern ''ec2''" "type_pattern ''security_group''" "type_pattern ''vpc''"
  "separator_free ''sg-1''" "separator_free ''vpc-2''" "separator_free ''us-east-1''"
  by code_simp+

lemma group_digest: "json_digest graph_env j = replicate 64 (CHR ''a'')"
  by (simp add: json_digest_def graph_env_def)

lemma group_contract_made: "make_contract graph_env group_contract = Some group_contract"
proof (rule contracts.make_fixed)
  show "trim_contract group_contract = group_contract"
    by (simp add: trim_contract_def trim_subject_def group_contract_def group_subject_def graph_texts)
  show "contract_ok graph_env group_contract"
    by (simp add: contract_ok_def group_contract_def group_outcome_id_def graph_patterns subject_ok_def group_subject_def
        phase_subject_ok_def expected_owner_mode_def scope_region_ok_def)
qed

lemma group_artifact_made: "make_graph_artifact graph_env group_artifact = Some group_artifact"
proof (rule graph_artifacts.make_fixed)
  have "canon group_payload = group_payload" by code_simp
  then show "trim_graph_artifact group_artifact = group_artifact"
    by (simp add: trim_graph_artifact_def group_artifact_def graph_texts)
  have "sensitive_free group_payload" "is_obj group_payload" by code_simp+
  then show "graph_artifact_ok graph_env group_artifact"
    by (simp add: graph_artifact_ok_def group_artifact_def graph_patterns group_digest)
qed

lemma group_outcome_made: "make_outcome graph_env group_outcome = Some group_outcome"
proof (rule outcomes.make_fixed)
  show "trim_outcome group_outcome = group_outcome"
    by (simp add: trim_outcome_def trim_subject_def group_outcome_def group_subject_def graph_texts)
  show "outcome_ok graph_env group_outcome"
    by (simp add: outcome_ok_def group_outcome_def group_outcome_id_def graph_patterns subject_ok_def group_subject_def
        phase_subject_ok_def scope_region_ok_def)
qed

lemma group_edge_made: "make_relationship graph_env group_edge = Some group_edge"
proof (rule relationships.make_fixed)
  have p: "provenance_of group_outcome = \<lparr>xp_collector = ''ec2.security-groups'', xp_collector_version = ''2.0.0'',
      xp_api = ''ec2:DescribeSecurityGroups'', xp_reference = ''normalized://groups'', xp_collected_at = graph_time\<rparr>"
    by (simp add: provenance_of_def group_outcome_def)
  show "trim_relationship group_edge = group_edge"
    by (simp add: trim_relationship_def trim_target_def trim_endpoint_def trim_provenance_def group_edge_def
        group_endpoint_def vpc_endpoint_def p graph_texts)
  have ids: "stable_resource_id graph_env ''aws'' ''111122223333'' ''ec2'' ''security_group'' SCOPE_REGIONAL ''us-east-1'' ''sg-1'' = 1"
    "stable_resource_id graph_env ''aws'' ''111122223333'' ''ec2'' ''vpc'' SCOPE_REGIONAL ''us-east-1'' ''vpc-2'' = 2"
    "resource_snapshot_id graph_env 5 ''111122223333'' ''ec2'' ''security_group'' SCOPE_REGIONAL ''us-east-1'' ''sg-1'' = 1"
    by (simp_all add: stable_resource_id_def resource_snapshot_id_def graph_env_def)
  have ends: "endpoint_ok graph_env group_endpoint" "endpoint_ok graph_env vpc_endpoint"
    by (simp_all add: endpoint_ok_def resource_identity_ok_def group_endpoint_def vpc_endpoint_def graph_patterns region_text_def
        ids scope_region_ok_def canonical_scope_ok_def canonical_resource_scope_def canonical_resource_scopes_def resource_owner_ok_def)
  have "direction_ok group_edge" "resolution_ok graph_env group_edge"
    by (simp_all add: direction_ok_def resolution_ok_def group_edge_def group_endpoint_def vpc_endpoint_def target_signature_def)
  then show "relationship_ok graph_env group_edge"
    by (simp add: relationship_ok_def group_edge_def graph_patterns ends provenance_ok_def p)
      (simp add: group_endpoint_def vpc_endpoint_def endpoint_snapshot_id_def region_text_def ids group_edge_id_def)
qed

section \<open>The graph is valid, is stored and agrees with its manifest\<close>

lemma group_graph_settled: "settled_graph graph_env group_graph"
  by (simp add: settled_graph_def group_graph_def group_contract_made group_artifact_made group_outcome_made group_edge_made
      graph_texts deduplicate_canonical deduplicate_relationships_def)

lemma group_graph_ok: "graph_ok graph_env group_graph [group_edge]"
proof -
  have match: "matches_outcome group_contract group_outcome"
    by (simp add: matches_outcome_def group_contract_def group_outcome_def)
  have key: "outcome_provenance group_outcome = edge_provenance_key (xr_provenance group_edge)"
    by (simp add: outcome_provenance_def edge_provenance_key_def group_edge_def provenance_of_def)
  have bound: "source_bound group_graph group_contract" "edge_bound group_graph group_edge"
    using match key
    by (simp_all add: source_bound_def edge_bound_def outcomes_for_provenance_def common_observation_def group_graph_def)
      (simp_all add: group_contract_def group_outcome_def group_artifact_def group_edge_def)
  have "\<not> has_s3_discovery [group_outcome]" "\<not> has_cloudtrail [group_outcome]"
    by (simp_all add: has_s3_discovery_def has_cloudtrail_def cloudtrail_collectors_def cloudtrail_sources_def group_outcome_def)
  then show ?thesis
    using bound
    by (simp add: graph_ok_def group_graph_def graph_patterns encryption_edges_ok_def has_s3_discovery_def)
      (simp add: common_observation_def group_contract_def group_outcome_def group_artifact_def)
qed

lemma group_graph_made: "make_graph graph_env group_graph = Some group_graph"
  using make_graph_of_settled [OF group_graph_settled] group_graph_ok by (simp add: group_graph_def)

definition stored_tables :: graph_tables where
  "stored_tables =
     group_tables\<lparr>gt_contracts := [row_of_contract group_contract], gt_artifacts := [row_of_artifact group_artifact],
       gt_outcomes := [row_of_source (ga_id group_artifact) group_outcome],
       gt_edges := [row_of_edge group_outcome_id group_edge]\<rparr>"

lemma graph_blanks: "list_all not_blank [''ec2.security-groups.discovery'', ''1.0.0'', ''2.0.0'', ''ec2.security-groups'',
    ''ec2:DescribeSecurityGroups'', ''normalized://groups'']"
  by code_simp

lemma group_rows_ok:
  "contract_row_ok (row_of_contract group_contract)" "artifact_row_ok (row_of_artifact group_artifact)"
  "outcome_row_ok (row_of_source i group_outcome)" "edge_row_ok (row_of_edge i group_edge)"
  using graph_blanks
  by (simp_all add: contract_row_ok_def row_of_contract_def group_contract_def phase_row_ok_def group_subject_def
      subject_resource_def artifact_row_ok_def row_of_artifact_def group_artifact_def outcome_row_ok_def row_of_source_def
      group_outcome_def scope_row_ok_def edge_row_ok_def row_of_edge_def group_edge_def target_row_ok_def group_endpoint_def
      vpc_endpoint_def provenance_of_def Let_def)

lemma group_persisted: "persist_evidence_graph graph_env group_graph group_tables = Inr stored_tables"
proof -
  have lists: "eg_sources group_graph = [group_contract]" "eg_artifacts group_graph = [group_artifact]"
    "eg_outcomes group_graph = [group_outcome]" "eg_relationships group_graph = [group_edge]"
    by (simp_all add: group_graph_def)
  have src: "insert_sources [row_of_contract group_contract] [row_of_artifact group_artifact] group_tables =
      Some (group_tables\<lparr>gt_contracts := [row_of_contract group_contract], gt_artifacts := [row_of_artifact group_artifact]\<rparr>)"
    by (simp add: insert_sources_def insert_rows_def group_rows_ok unique_contracts_def unique_artifacts_def group_tables_def)
      (simp add: row_of_contract_def row_of_artifact_def group_contract_def group_artifact_def)
  have out: "row_of_outcome [group_artifact] group_outcome = Some (row_of_source (ga_id group_artifact) group_outcome)"
    by (simp add: row_of_outcome_def) (simp add: group_artifact_def group_outcome_def)
  have parents: "outcome_parents [row_of_contract group_contract] [row_of_artifact group_artifact]
      (row_of_source (ga_id group_artifact) group_outcome)"
    by (simp add: outcome_parents_def row_of_contract_def row_of_artifact_def row_of_source_def)
      (simp add: group_contract_def group_artifact_def group_outcome_def)
  have "outcomes_for_provenance [group_outcome] (xr_provenance group_edge) = [group_outcome]"
    by (simp add: outcomes_for_provenance_def outcome_provenance_def edge_provenance_key_def group_edge_def provenance_of_def)
  then have edge: "row_of_relationship [group_outcome] group_edge = Some (row_of_edge group_outcome_id group_edge)"
    by (simp add: row_of_relationship_def) (simp add: group_outcome_def)
  have edge_parent: "edge_parents [row_of_source (ga_id group_artifact) group_outcome] (row_of_edge group_outcome_id group_edge)"
    by (simp add: edge_parents_def edge_row_fields) (simp add: row_of_source_def group_outcome_def group_edge_def provenance_of_def)
  show ?thesis
    by (simp add: persist_evidence_graph_def or_raise_def group_graph_made lists src out edge insert_outcomes_def
        insert_edges_def insert_rows_def group_rows_ok parents edge_parent unique_outcomes_def unique_edges_def)
      (simp add: group_tables_def stored_tables_def edge_parent)
qed

lemma group_coverage: "graph_collection_status_for graph_env ''security_groups'' [group_outcome] [group_artifact] ds = Some COL_SUCCEEDED"
proof -
  have owned: "owned_outcomes ''security_groups'' [group_outcome] = [group_outcome]"
    by (simp add: owned_outcomes_def graph_collector_sources_def group_outcome_def)
  have manifest: "manifest_incomplete graph_env ''security_groups'' [group_outcome] [group_artifact] ds = Some False"
    by (simp add: manifest_incomplete_def required_discoveries_def fixed_manifest_ok_def discovery_source_of_def group_outcome_def)
  have payload: "cited_payload [group_artifact] ''ec2.security-groups.discovery'' group_outcome = Some group_payload"
    by (simp add: cited_payload_def group_artifact_def group_outcome_def) (simp add: group_payload_def)
  have attested: "completion_attested group_outcome group_payload"
    by (simp add: completion_attested_def failure_attested_def complete_state_def group_outcome_def group_payload_def
        obj_get_def optional_text_def)
  have ids: "sorted_names_of (jget ''resource_ids'' group_payload) = Some [''sg-1'']" by code_simp
  have "admission_incomplete group_outcome group_payload ''security_group'' = Some False"
    using attested ids
    by (simp add: admission_incomplete_def regional_account_def group_outcome_def group_subject_def)
      (simp add: group_payload_def obj_get_def count_is_def nonnegative_def is_list_def)
  then have "outcome_admission [group_artifact] group_outcome = Some False"
    using payload by (simp add: outcome_admission_def admission_sources_def)
      (simp add: group_outcome_def resource_of_def group_subject_def)
  then show ?thesis
    by (simp add: graph_collection_status_for_def graph_aware_collectors_def graph_collector_sources_def owned manifest
        unique_references_def collection_status_for_def complete_state_def)
      (simp add: group_outcome_def)
qed

lemma group_manifest_agrees: "manifest_agrees graph_env group_manifest group_graph"
proof -
  have lists: "eg_sources group_graph = [group_contract]" "eg_artifacts group_graph = [group_artifact]"
    "eg_outcomes group_graph = [group_outcome]"
    by (simp_all add: group_graph_def)
  have requested: "requested_names (mf_requested group_manifest) = Some [''security_groups'']"
    by (simp add: requested_names_def named_texts_of_def texts_of_def group_manifest_def)
  have own: "graph_collectors_for_outcomes [group_outcome] = [''security_groups'']"
    by (simp add: graph_collectors_for_outcomes_def graph_aware_collectors_def graph_collector_sources_def owned_outcomes_def
        group_outcome_def s3_collectors_def per_bucket_apis_def)
  have req: "coverage_required name [''security_groups''] [group_outcome] = (name = ''security_groups'')"
    if "name \<in> set graph_aware_collectors" for name
  proof -
    have "owned_outcomes name [group_outcome] \<noteq> [] \<longleftrightarrow> name = ''security_groups''"
    proof -
      have "set (graph_collectors_for_outcomes [group_outcome]) = {''security_groups''}" by (simp add: own)
      then show ?thesis using that by (auto simp: graph_collectors_for_outcomes_def)
    qed
    then show ?thesis using that by (auto simp: coverage_required_def)
  qed
  have "collector_checked graph_env group_manifest [''security_groups''] group_graph name = None"
    if "name \<in> set graph_aware_collectors" for name
    using req [OF that] group_coverage
    by (auto simp: collector_checked_def lists group_manifest_def obj_get_def)
  then have "List.map_filter (collector_checked graph_env group_manifest [''security_groups''] group_graph)
      graph_aware_collectors = []"
    by (simp add: map_filter_def filter_empty_conv)
  then have "coverage_error graph_env group_manifest group_graph = None"
    by (simp add: coverage_error_def requested own lists) (simp add: group_manifest_def)
  moreover have "source_manifest_sha graph_env group_graph = replicate 64 (CHR ''a'')"
    by (simp only: source_manifest_sha_def group_digest)
  ultimately show ?thesis by (simp add: manifest_agrees_def) (simp add: group_manifest_def)
qed

end
