(* ===== verification/Graph_Properties.thy ===== *)
theory Graph_Properties
  imports Graph_Scenario
begin

text \<open>
  The properties of stored evidence graphs: what is persisted is loaded again, a collector that is
  stored as successful has complete evidence, and the declared sources that the domain accepts and
  the database refuses.
\<close>

section \<open>Round trip\<close>

text \<open>C12. What is stored is what is loaded. When a valid graph is persisted for a scan that had no
  graph rows, and the manifest of the scan carries the digest and the collector outcomes of the graph,
  loading the scan rebuilds exactly the validated graph: every declared source, artifact, outcome and
  relationship, in canonical order. For every other scan nothing changes.\<close>

theorem graph_round_trip:
  assumes "make_graph env x = Some g" "bounded_uuids env" "\<not> scan_stored (eg_scan_id g) t"
    "persist_evidence_graph env x t = Inr t'"
    "find_row mf_scan_id (eg_scan_id g) manifests = Some m" "manifest_agrees env m g"
  shows "load_evidence_graph env manifests t' (eg_scan_id g) = Inr (Some g) \<and>
    (\<forall>scan. scan \<noteq> eg_scan_id g \<longrightarrow> load_evidence_graph env manifests t' scan = load_evidence_graph env manifests t scan)"
proof -
  obtain cs as os es where p: "gt_contracts t' = gt_contracts t @ cs" "gt_artifacts t' = gt_artifacts t @ as"
    "gt_outcomes t' = gt_outcomes t @ os" "gt_edges t' = gt_edges t @ es"
    and scans: "map cr_scan_id cs = map (\<lambda>_. eg_scan_id g) cs" "map ay_scan_id as = map (\<lambda>_. eg_scan_id g) as"
    "map oy_scan_id os = map (\<lambda>_. eg_scan_id g) os" "map ey_scan_id es = map (\<lambda>_. eg_scan_id g) es"
    and keys: "sorted (map cr_outcome_id cs)" "sorted (map ay_id as)" "sorted (map oy_id os)" "sorted (map ey_observation_id es)"
    and graph: "graph_of_rows env (eg_scan_id g) cs as os es = Some g" "cs \<noteq> []"
    using persisted_scan [OF assms(1,2,4)] .
  note old = not_stored_filters [OF assms(3)]
  have "load_evidence_graph env manifests t' (eg_scan_id g) = Inr (Some g)"
    using graph assms(5,6) unfolding load_evidence_graph_def p rows_of_scan_appended [OF old(1) scans(1) keys(1)]
      rows_of_scan_appended [OF old(2) scans(2) keys(2)] rows_of_scan_appended [OF old(3) scans(3) keys(3)]
      rows_of_scan_appended [OF old(4) scans(4) keys(4)]
    by (simp add: manifest_agrees_def)
  moreover have "load_evidence_graph env manifests t' scan = load_evidence_graph env manifests t scan"
    if "scan \<noteq> eg_scan_id g" for scan
    unfolding load_evidence_graph_def p rows_of_other_scan [OF scans(1) that] rows_of_other_scan [OF scans(2) that]
      rows_of_other_scan [OF scans(3) that] rows_of_other_scan [OF scans(4) that] ..
  ultimately show ?thesis by blast
qed

text \<open>The security group of the scenario with its edge goes through the tables and comes back.\<close>

theorem graph_round_trip_witness:
  "make_graph graph_env group_graph = Some group_graph \<and>
   persist_evidence_graph graph_env group_graph group_tables = Inr stored_tables \<and>
   load_evidence_graph graph_env [group_manifest] stored_tables 5 = Inr (Some group_graph)"
proof -
  have "eg_scan_id group_graph = 5" by (simp add: group_graph_def)
  moreover have "\<not> scan_stored 5 group_tables" by (simp add: scan_stored_def group_tables_def)
  moreover have "find_row mf_scan_id 5 [group_manifest] = Some group_manifest" by (simp add: group_manifest_def)
  ultimately show ?thesis
    using graph_round_trip [OF group_graph_made graph_env_bounded _ group_persisted, of "[group_manifest]" group_manifest]
      group_manifest_agrees group_graph_made group_persisted by simp
qed

section \<open>Coverage\<close>

text \<open>The stored scenario loads; the round trip is a property, so this evaluates the tables.\<close>

lemma group_graph_loads: "load_evidence_graph graph_env [group_manifest] stored_tables 5 = Inr (Some group_graph)"
proof -
  have decode: "contract_from_row graph_env (row_of_contract group_contract) = Some group_contract"
    "artifact_from_row graph_env (row_of_artifact group_artifact) = Some group_artifact"
    "outcome_from_row graph_env (row_of_source i group_outcome) = Some group_outcome"
    "relationship_from_row graph_env (row_of_edge i group_edge) = Some group_edge" for i
    using contract_rows.decode_encode artifact_rows.decode_encode outcome_rows.decode_encode edge_rows.decode_encode
      group_contract_made group_artifact_made group_outcome_made group_edge_made graph_env_bounded by blast+
  have heads: "cr_account (row_of_contract group_contract) = ''111122223333''"
    "ay_collected_at (row_of_artifact group_artifact) = graph_time" "cr_scan_id (row_of_contract group_contract) = 5"
    "ay_scan_id (row_of_artifact group_artifact) = 5" "oy_scan_id (row_of_source i group_outcome) = 5"
    "ey_scan_id (row_of_edge i group_edge) = 5" for i
    by (simp_all add: row_of_contract_def row_of_artifact_def row_of_source_def edge_row_fields group_contract_def
        group_artifact_def group_outcome_def group_edge_def)
  have "make_graph graph_env \<lparr>eg_scan_id = 5, eg_account = ''111122223333'', eg_collected_at = graph_time,
      eg_sources = [group_contract], eg_artifacts = [group_artifact], eg_outcomes = [group_outcome],
      eg_relationships = [group_edge]\<rparr> = Some group_graph"
    using group_graph_made by (simp only: group_graph_def)
  then have "graph_of_rows graph_env 5 [row_of_contract group_contract] [row_of_artifact group_artifact]
      [row_of_source i group_outcome] [row_of_edge j group_edge] = Some group_graph" for i j
    by (simp add: graph_of_rows_def decode heads)
  then show ?thesis using group_manifest_agrees
    by (simp add: load_evidence_graph_def stored_tables_def rows_of_scan_def heads manifest_agrees_def Let_def)
      (simp add: group_manifest_def)
qed

text \<open>C13. A collector that is stored as SUCCEEDED has complete evidence. Whatever the tables and the
  manifests hold, when the graph of a scan loads and the manifest says SUCCEEDED for a graph-aware
  collector, every source the collector owns was PRESENT or an EXPECTED_ABSENCE, an artifact under its
  reference has the digest that the source names, all discovered resources were admitted, and the
  manifest of the collector is whole.\<close>

theorem stored_success_is_evidenced:
  assumes "load_evidence_graph env manifests t scan = Inr (Some g)"
    "find_row mf_scan_id scan manifests = Some m" "name \<in> set graph_aware_collectors"
    "jget name (mf_outcomes m) = JStr ''SUCCEEDED''" "so \<in> set (owned_outcomes name (eg_outcomes g))"
  shows "complete_state (so_state so) \<and>
    (\<exists>a\<in>set (eg_artifacts g). ga_reference a = so_reference so \<and> so_sha so = json_digest env (ga_payload a)) \<and>
    outcome_admission (eg_artifacts g) so = Some False \<and>
    manifest_incomplete env name (owned_outcomes name (eg_outcomes g)) (eg_artifacts g) (eg_sources g) = Some False"
proof -
  obtain x where x: "make_graph env x = Some g" "coverage_error env m g = None"
    using load_evidence_graph_Some [OF assms(1)] assms(2) by (metis option.inject)
  have status: "graph_collection_status_for env name (eg_outcomes g) (eg_artifacts g) (eg_sources g) = Some COL_SUCCEEDED"
    using covered_status [OF x(2) assms(3,5)] assms(4) by (metis json.inject(3) status_text_inj status_text.simps(1))
  have "so \<in> set (eg_outcomes g)" using assms(5) by (auto simp: owned_outcomes_def split: option.splits)
  then show ?thesis
    using graph_status_succeeded [OF status] assms(5) outcome_has_artifact [OF x(1)] by blast
qed

text \<open>The stored security group is present, cited and fully admitted.\<close>

theorem stored_success_is_evidenced_witness:
  "load_evidence_graph graph_env [group_manifest] stored_tables 5 = Inr (Some group_graph) \<and>
   jget ''security_groups'' (mf_outcomes group_manifest) = JStr ''SUCCEEDED'' \<and>
   owned_outcomes ''security_groups'' (eg_outcomes group_graph) = [group_outcome] \<and>
   complete_state (so_state group_outcome) \<and> outcome_admission (eg_artifacts group_graph) group_outcome = Some False"
proof -
  have load: "load_evidence_graph graph_env [group_manifest] stored_tables 5 = Inr (Some group_graph)"
    by (rule group_graph_loads)
  have owned: "owned_outcomes ''security_groups'' (eg_outcomes group_graph) = [group_outcome]"
    by (simp add: owned_outcomes_def graph_collector_sources_def group_graph_def group_outcome_def)
  have manifest: "find_row mf_scan_id 5 [group_manifest] = Some group_manifest"
    "jget ''security_groups'' (mf_outcomes group_manifest) = JStr ''SUCCEEDED''"
    by (simp_all add: group_manifest_def obj_get_def)
  have "''security_groups'' \<in> set graph_aware_collectors"
    by (simp add: graph_aware_collectors_def graph_collector_sources_def)
  from stored_success_is_evidenced [OF load manifest(1) this manifest(2), of group_outcome] owned load manifest(2)
  show ?thesis by simp
qed

section \<open>Trails of other accounts\<close>

text \<open>C33. The domain accepts declared sources that the database refuses. A declared enrichment of a
  CloudTrail trail that another account owns satisfies every validator without being authoritative, but
  the check of its table demands authority of every foreign owner: no graph that declares one is ever
  persisted, and the scan that collected it fails with a constraint violation.\<close>

theorem external_trail_is_never_stored:
  assumes "contract_ok env d" "cloudtrail_external_enrichment d"
  shows "\<not> contract_row_ok (row_of_contract d) \<and>
    (\<forall>x g t. make_graph env x = Some g \<and> d \<in> set (eg_sources g) \<longrightarrow>
       persist_evidence_graph env x t = Inl IntegrityFailure)"
  using external_row_refused [OF assms(2)] external_graph_refused [OF _ _ assms(2)] by blast

text \<open>The configuration of an organization trail of another account is a valid declared source.\<close>

definition organization_trail :: source_contract where
  "organization_trail =
     \<lparr>sd_key = ''cloudtrail.trail.configuration'', sd_contract_version = ''1.0.0'',
      sd_outcome_id = source_outcome_id graph_env 5 ''111122223333'' ENRICHMENT (ResourceSubject
        \<lparr>sj_account = ''444455556666'', sj_service = ''cloudtrail'', sj_type = ''cloudtrail_trail'', sj_aws_id = ''trail-1'',
         sj_scope = SCOPE_REGIONAL, sj_region = Some ''us-east-1'', sj_stable_id = 1, sj_snapshot_id = 1\<rparr>)
        ''cloudtrail.trail.configuration'' ''cloudtrail.trail-configuration'' ''1.0.0'' ''cloudtrail:GetTrail'',
      sd_scan_id = 5, sd_account = ''111122223333'', sd_phase = ENRICHMENT,
      sd_subject = ResourceSubject
        \<lparr>sj_account = ''444455556666'', sj_service = ''cloudtrail'', sj_type = ''cloudtrail_trail'', sj_aws_id = ''trail-1'',
         sj_scope = SCOPE_REGIONAL, sj_region = Some ''us-east-1'', sj_stable_id = 1, sj_snapshot_id = 1\<rparr>,
      sd_kind = ''cloudtrail.trail.configuration'', sd_collector = ''cloudtrail.trail-configuration'',
      sd_version = ''1.0.0'', sd_api = ''cloudtrail:GetTrail'', sd_cardinality = CARD_SINGLE,
      sd_owner_mode = OWN_EXTERNAL_ACCOUNT, sd_authoritative = False, sd_supplemental = False\<rparr>"

lemma organization_trail_patterns:
  "account_pattern ''111122223333''" "owner_pattern ''444455556666''" "kind_pattern ''cloudtrail.trail.configuration''"
  "contract_key_pattern ''cloudtrail.trail.configuration''" "collector_pattern ''cloudtrail.trail-configuration''"
  "api_pattern ''cloudtrail:GetTrail''" "service_pattern ''cloudtrail''" "type_pattern ''cloudtrail_trail''"
  "separator_free ''trail-1''" "separator_free ''us-east-1''" "version_pattern ''1.0.0''"
  by code_simp+

lemma organization_trail_external: "cloudtrail_external_enrichment organization_trail"
  by (simp add: cloudtrail_external_enrichment_def organization_trail_def cloudtrail_enrichment_kinds_def
      cloudtrail_resource_kinds_def cloudtrail_sources_def)

lemma organization_trail_valid: "contract_ok graph_env organization_trail"
proof -
  have ids: "stable_resource_id graph_env ''aws'' ''444455556666'' ''cloudtrail'' ''cloudtrail_trail'' SCOPE_REGIONAL
      ''us-east-1'' ''trail-1'' = 1"
    "resource_snapshot_id graph_env 5 ''444455556666'' ''cloudtrail'' ''cloudtrail_trail'' SCOPE_REGIONAL ''us-east-1''
      ''trail-1'' = 1"
    by (simp_all add: stable_resource_id_def resource_snapshot_id_def graph_env_def)
  have j: "subject_ok graph_env (sd_subject organization_trail)"
    by (simp add: organization_trail_def subject_ok_def resource_subject_ok_def resource_identity_ok_def ids region_text_def
        organization_trail_patterns scope_region_ok_def canonical_scope_ok_def canonical_resource_scope_def
        canonical_resource_scopes_def resource_owner_ok_def)
  have p: "phase_subject_ok graph_env 5 ''111122223333'' ENRICHMENT (sd_subject organization_trail)"
    by (simp add: organization_trail_def phase_subject_ok_def subject_snapshot_id_def region_text_def ids)
  have o: "expected_owner_mode ''111122223333'' (sd_subject organization_trail) = OWN_EXTERNAL_ACCOUNT"
    by (simp add: organization_trail_def expected_owner_mode_def)
  have "sd_outcome_id organization_trail = source_outcome_id graph_env 5 ''111122223333'' ENRICHMENT
      (sd_subject organization_trail) ''cloudtrail.trail.configuration'' ''cloudtrail.trail-configuration'' ''1.0.0''
      ''cloudtrail:GetTrail''"
    by (simp add: organization_trail_def)
  moreover have fields: "sd_key organization_trail = ''cloudtrail.trail.configuration''"
    "sd_contract_version organization_trail = ''1.0.0''" "sd_scan_id organization_trail = 5"
    "sd_account organization_trail = ''111122223333''" "sd_phase organization_trail = ENRICHMENT"
    "sd_kind organization_trail = ''cloudtrail.trail.configuration''"
    "sd_collector organization_trail = ''cloudtrail.trail-configuration''" "sd_version organization_trail = ''1.0.0''"
    "sd_api organization_trail = ''cloudtrail:GetTrail''" "sd_owner_mode organization_trail = OWN_EXTERNAL_ACCOUNT"
    "\<not> sd_supplemental organization_trail"
    by (simp_all add: organization_trail_def)
  ultimately show ?thesis
    using j p o organization_trail_external by (simp add: contract_ok_def organization_trail_patterns)
qed

theorem external_trail_is_never_stored_witness:
  "contract_ok graph_env organization_trail \<and> cloudtrail_external_enrichment organization_trail \<and>
   \<not> contract_row_ok (row_of_contract organization_trail)"
  using external_trail_is_never_stored [OF organization_trail_valid organization_trail_external]
    organization_trail_valid organization_trail_external by simp

end
