(* ===== verification/Graph_Resources.thy ===== *)
theory Graph_Resources
  imports Evidence_Graph "HOL-Library.AList"
begin

text \<open>
  \<open>validate_graph_resources\<close> of app/assessment/evidence_graph.py: the resources that the rules of a
  scan read are bound to its evidence graph. Subjects and endpoints need their exact resource,
  resources of other owners or Regions need their proof, and the configuration of buckets, keys and
  trails is rebuilt from the artifacts. A check that raises is \<open>False\<close> or \<open>None\<close>.
\<close>

section \<open>Resources by snapshot\<close>

definition resource_snapshot :: "env \<Rightarrow> uuid \<Rightarrow> resource \<Rightarrow> uuid" where
  "resource_snapshot env scan r =
     resource_snapshot_id env scan (nr_account r) (nr_service r) (nr_type r) (nr_scope r)
       (region_text (nr_region r)) (nr_aws_id r)"

definition tags_object :: "(string \<times> string) list \<Rightarrow> json" where
  "tags_object tags = JObj (map (\<lambda>(k, v). (k, JStr v)) tags)"

definition configuration_of :: "resource \<Rightarrow> json" where
  "configuration_of r = JObj (nr_configuration r)"

text \<open>The identity that a subject, an endpoint and a resource share; equality of two resources.\<close>

type_synonym resource_key =
  "string \<times> string \<times> string \<times> string \<times> resource_scope \<times> string option"

definition resource_key :: "resource \<Rightarrow> resource_key" where
  "resource_key r = (nr_account r, nr_service r, nr_type r, nr_aws_id r, nr_scope r, nr_region r)"

definition subject_key :: "resource_subject \<Rightarrow> resource_key" where
  "subject_key r = (sj_account r, sj_service r, sj_type r, sj_aws_id r, sj_scope r, sj_region r)"

definition endpoint_key :: "endpoint \<Rightarrow> resource_key" where
  "endpoint_key e = (ep_account e, ep_service e, ep_type e, ep_aws_id e, ep_scope e, ep_region e)"

definition resource_eq :: "resource \<Rightarrow> resource \<Rightarrow> bool" where
  "resource_eq a b =
     (resource_key a = resource_key b \<and> nr_arn a = nr_arn b \<and> nr_name a = nr_name b \<and>
      json_eq (tags_object (nr_tags a)) (tags_object (nr_tags b)) \<and>
      json_eq (configuration_of a) (configuration_of b) \<and>
      json_eq (JObj (nr_raw_configuration a)) (JObj (nr_raw_configuration b)))"

text \<open>Equality of resources is an equivalence.\<close>

lemma resource_eq_refl [simp]: "resource_eq r r"
  by (simp add: resource_eq_def json_eq_def)

lemma resource_eq_trans: "resource_eq a b \<Longrightarrow> resource_eq b c \<Longrightarrow> resource_eq a c"
  by (simp add: resource_eq_def json_eq_def)

definition resource_scope_ok :: "resource \<Rightarrow> bool" where
  "resource_scope_ok r =
     pred_option (\<lambda>s. nr_scope r = s) (canonical_resource_scope (nr_service r) (nr_type r))"

text \<open>The dict of resources by snapshot: an equal duplicate replaces, another one conflicts.\<close>

type_synonym resource_index = "(uuid \<times> resource) list"

fun index_resources :: "env \<Rightarrow> uuid \<Rightarrow> resource list \<Rightarrow> resource_index \<Rightarrow> resource_index option" where
  "index_resources env scan [] index = Some index"
| "index_resources env scan (r # rs) index =
     (let i = resource_snapshot env scan r in
      if resource_scope_ok r \<and> pred_option (\<lambda>old. resource_eq old r) (map_of index i)
      then index_resources env scan rs (AList.update i r index) else None)"

text \<open>\<open>_require_resource_subject\<close> and \<open>_require_relationship_endpoint\<close>.\<close>

definition subject_observed :: "resource_index \<Rightarrow> resource_subject \<Rightarrow> bool" where
  "subject_observed index s =
     (case map_of index (sj_snapshot_id s) of None \<Rightarrow> False | Some r \<Rightarrow> resource_key r = subject_key s)"

definition endpoint_observed :: "resource_index \<Rightarrow> endpoint \<Rightarrow> bool" where
  "endpoint_observed index e =
     (case Option.bind (ep_snapshot_id e) (map_of index) of None \<Rightarrow> False | Some r \<Rightarrow> resource_key r = endpoint_key e)"

definition is_bucket :: "resource \<Rightarrow> bool" where
  "is_bucket r = (nr_service r = ''s3'' \<and> nr_type r = ''s3_bucket'')"

definition is_key :: "resource \<Rightarrow> bool" where
  "is_key r = (nr_service r = ''kms'' \<and> nr_type r = ''kms_key'')"

definition is_trail :: "resource \<Rightarrow> bool" where
  "is_trail r = (nr_service r = ''cloudtrail'' \<and> nr_type r = ''cloudtrail_trail'')"

section \<open>Authoritative sources\<close>

text \<open>\<open>_is_authoritative_kms_key_source\<close>, \<open>_is_authoritative_cloudtrail_identity_source\<close>.\<close>

definition authoritative_key_source :: "source_contract \<Rightarrow> bool" where
  "authoritative_key_source d =
     (sd_phase d = ENRICHMENT \<and>
      (case sd_subject d of
         ResourceSubject r \<Rightarrow> sj_service r = ''kms'' \<and> sj_type r = ''kms_key''
       | AccountSubject _ _ _ \<Rightarrow> False) \<and>
      sd_key d = sd_kind d \<and> digest_after ''kms.key.'' (sd_kind d) \<and> sd_collector d = ''kms.keys'' \<and>
      sd_version d = ''1.0.0'' \<and> sd_api d = ''kms:DescribeKey'' \<and> sd_authoritative d)"

definition authoritative_trail_source :: "source_contract \<Rightarrow> bool" where
  "authoritative_trail_source d =
     ((case sd_subject d of
         ResourceSubject r \<Rightarrow> regional_resource ''cloudtrail'' ''cloudtrail_trail'' r
       | AccountSubject _ _ _ \<Rightarrow> False) \<and>
      sd_key d = ''cloudtrail.trail.identity'' \<and> sd_contract_version d = ''1.0.0'' \<and>
      sd_kind d = ''cloudtrail.trail.identity'' \<and>
      (case map_of cloudtrail_sources ''cloudtrail.trail.identity'' of
         None \<Rightarrow> False
       | Some (collector, api, _) \<Rightarrow> sd_collector d = collector \<and> sd_api d = api) \<and>
      sd_version d = ''1.0.0'' \<and> sd_phase d = ENRICHMENT \<and> sd_cardinality d = CARD_SINGLE \<and>
      sd_authoritative d \<and> \<not> sd_supplemental d)"

text \<open>\<open>_is_s3_encryption_reference_source\<close>.\<close>

definition encryption_reference_source :: "source_outcome \<Rightarrow> bool" where
  "encryption_reference_source so =
     (so_state so = ST_PRESENT \<and> so_phase so = ENRICHMENT \<and>
      (case resource_of so of None \<Rightarrow> False | Some r \<Rightarrow> sj_service r = ''s3'' \<and> sj_type r = ''s3_bucket'') \<and>
      so_kind so = ''s3.bucket-encryption'' \<and> so_collector so = ''s3.bucket-encryption'' \<and>
      so_collector_version so = ''1.0.0'' \<and> so_api so = ''s3:GetEncryptionConfiguration'')"

section \<open>Admission\<close>

text \<open>\<open>_validate_resource_admission\<close>: what a resource needs to be part of the scan.\<close>

definition owner_mode_of :: "string \<Rightarrow> resource \<Rightarrow> owner_mode" where
  "owner_mode_of account r =
     (if nr_account r = ''aws'' then OWN_AWS_MANAGED
      else if nr_account r \<noteq> account then OWN_EXTERNAL_ACCOUNT else OWN_COLLECTION_ACCOUNT)"

definition owner_proven :: "string \<Rightarrow> source_contract list \<Rightarrow> bool \<Rightarrow> resource \<Rightarrow> bool" where
  "owner_proven account ds resolved r =
     (let mode = owner_mode_of account r in
      (mode \<noteq> OWN_COLLECTION_ACCOUNT \<longrightarrow> list_ex (\<lambda>d. sd_authoritative d \<and> sd_owner_mode d = mode) ds) \<and>
      (mode = OWN_EXTERNAL_ACCOUNT \<longrightarrow> resolved))"

definition key_admitted :: "source_contract list \<Rightarrow> bool \<Rightarrow> resource \<Rightarrow> bool" where
  "key_admitted ds encrypts r = (is_key r \<longrightarrow> list_ex authoritative_key_source ds \<and> encrypts)"

definition located :: "region_evidence option \<Rightarrow> resource \<Rightarrow> string option" where
  "located regions r = (case regions of None \<Rightarrow> None | Some (_, found) \<Rightarrow> map_of found (nr_aws_id r))"

definition bucket_admitted ::
    "string \<Rightarrow> source_contract list \<Rightarrow> region_evidence option \<Rightarrow> resource \<Rightarrow> bool" where
  "bucket_admitted account ds regions r =
     (regions \<noteq> None \<and> nr_account r = account \<and> is_bucket r \<longrightarrow>
        (case located regions r of None \<Rightarrow> ds = [] | Some region \<Rightarrow> nr_region r = Some region))"

definition region_admitted ::
    "string \<Rightarrow> string \<Rightarrow> source_contract list \<Rightarrow> bool \<Rightarrow> region_evidence option \<Rightarrow> resource \<Rightarrow> bool" where
  "region_admitted account requested ds encrypts regions r =
     (nr_scope r \<noteq> SCOPE_REGIONAL \<or> nr_region r = Some requested \<or>
      ds = [] \<and> (is_trail r \<or> is_bucket r) \<or>
      is_bucket r \<and> nr_account r = account \<and> regions \<noteq> None \<and> located regions r = nr_region r \<or>
      is_key r \<and> list_ex authoritative_key_source ds \<and> encrypts \<or>
      is_trail r \<and> list_ex authoritative_trail_source ds \<or>
      list_ex sd_supplemental ds)"

definition resource_admitted ::
    "string \<Rightarrow> string \<Rightarrow> source_contract list \<Rightarrow> bool \<Rightarrow> bool \<Rightarrow> region_evidence option \<Rightarrow> resource \<Rightarrow> bool" where
  "resource_admitted account requested ds resolved encrypts regions r =
     (owner_proven account ds resolved r \<and> key_admitted ds encrypts r \<and>
      bucket_admitted account ds regions r \<and> region_admitted account requested ds encrypts regions r)"

end
