(* ===== verification/Graph_Readback.thy ===== *)
theory Graph_Readback
  imports Graph_Resources
begin

text \<open>
  The readback of app/assessment/evidence_graph.py: the configuration that the rules read of a trail,
  a bucket or a key is rebuilt from the artifacts of its sources and must be the same value.
\<close>

section \<open>Trails\<close>

fun state_text :: "source_state \<Rightarrow> string" where
  "state_text ST_PRESENT = ''PRESENT''"
| "state_text ST_EXPECTED_ABSENCE = ''EXPECTED_ABSENCE''"
| "state_text ST_UNAVAILABLE = ''UNAVAILABLE''"
| "state_text ST_MALFORMED = ''MALFORMED''"
| "state_text ST_CONFLICT = ''CONFLICT''"
| "state_text ST_RESOURCE_DISAPPEARED = ''RESOURCE_DISAPPEARED''"

text \<open>The state and the value of one source of an admitted trail; \<open>None\<close> for values of failed sources.\<close>

definition trail_state :: "cloudtrail_manifest \<Rightarrow> string \<Rightarrow> string \<Rightarrow> json" where
  "trail_state m arn kind =
     (case map_of (cm_sources m) (arn, kind) of
        None \<Rightarrow> JNull
      | Some (so, p) \<Rightarrow> JStr (state_text (so_state so)))"

definition trail_value :: "cloudtrail_manifest \<Rightarrow> string \<Rightarrow> string \<Rightarrow> json" where
  "trail_value m arn kind =
     (case map_of (cm_sources m) (arn, kind) of
        None \<Rightarrow> JNull
      | Some (so, p) \<Rightarrow> if so_state so = ST_PRESENT then jget ''value'' p else JNull)"

definition trail_identity :: "cloudtrail_manifest \<Rightarrow> string \<Rightarrow> json" where
  "trail_identity m arn =
     (case map_of (cm_sources m) (arn, ''cloudtrail.trail.identity'') of None \<Rightarrow> JNull | Some (so, p) \<Rightarrow> p)"

definition expected_trail_configuration :: "cloudtrail_manifest \<Rightarrow> string \<Rightarrow> json" where
  "expected_trail_configuration m arn =
     (let cfg = trail_value m arn ''cloudtrail.trail.configuration'';
          status = trail_value m arn ''cloudtrail.trail.status'' in
      JObj ([(''home_region'', jget ''home_region'' (trail_identity m arn))] @
        map (\<lambda>k. (k, jget k cfg))
          [''s3_bucket_name'', ''s3_key_prefix'', ''include_global_service_events'', ''is_multi_region_trail'',
           ''log_file_validation_enabled'', ''cloudwatch_logs_log_group_arn'', ''cloudwatch_logs_role_arn'',
           ''kms_key_id'', ''is_organization_trail''] @
        [(''is_logging'', jget ''is_logging'' status), (''status'', jget ''status'' status),
         (''event_selectors'', trail_value m arn ''cloudtrail.trail.event-selectors''),
         (''source_states'', JObj
            [(''identity'', trail_state m arn ''cloudtrail.trail.identity''),
             (''configuration'', trail_state m arn ''cloudtrail.trail.configuration''),
             (''status'', trail_state m arn ''cloudtrail.trail.status''),
             (''event_selectors'', trail_state m arn ''cloudtrail.trail.event-selectors''),
             (''tags'', trail_state m arn ''cloudtrail.trail.tags'')])]))"

definition expected_trail_raw :: "cloudtrail_manifest \<Rightarrow> string \<Rightarrow> json" where
  "expected_trail_raw m arn =
     (let p = trail_identity m arn in
      JObj [(''summary'', JObj [(''TrailARN'', JStr arn), (''Name'', jget ''name'' p), (''HomeRegion'', jget ''home_region'' p)]),
            (''trail'', trail_value m arn ''cloudtrail.trail.configuration''),
            (''status'', jget ''status'' (trail_value m arn ''cloudtrail.trail.status'')),
            (''event_selectors'', trail_value m arn ''cloudtrail.trail.event-selectors'')])"

text \<open>The dict of a list of tag entries; \<open>None\<close> gives the empty dict.\<close>

definition tag_entries :: "json \<Rightarrow> json" where
  "tag_entries v =
     JObj (List.map_filter (\<lambda>e. case jget ''key'' e of JStr k \<Rightarrow> Some (k, jget ''value'' e) | _ \<Rightarrow> None) (list_items v))"

definition trail_read_back :: "cloudtrail_manifest \<Rightarrow> resource \<Rightarrow> bool" where
  "trail_read_back m r =
     (let arn = nr_aws_id r; p = trail_identity m arn in
      JStr (nr_account r) = jget ''owner_account_id'' p \<and> nr_scope r = SCOPE_REGIONAL \<and>
      optional_text (nr_region r) = jget ''home_region'' p \<and> nr_arn r = Some arn \<and>
      optional_text (nr_name r) = jget ''name'' p \<and>
      json_eq (tags_object (nr_tags r)) (tag_entries (trail_value m arn ''cloudtrail.trail.tags'')) \<and>
      json_eq (configuration_of r) (expected_trail_configuration m arn) \<and>
      json_eq (JObj (nr_raw_configuration r)) (expected_trail_raw m arn))"

text \<open>\<open>_validate_cloudtrail_resource_readback\<close>: exactly the admitted trails, each as its sources say.\<close>

definition trails_read_back :: "evidence_graph \<Rightarrow> resource_index \<Rightarrow> string \<Rightarrow> bool" where
  "trails_read_back g index requested =
     (has_cloudtrail (eg_outcomes g) \<longrightarrow>
       (case cloudtrail_manifest_of (eg_outcomes g) (eg_sources g) (eg_artifacts g) of
          None \<Rightarrow> False
        | Some m \<Rightarrow>
            let trails = filter is_trail (map snd index) in
            cm_region m = JStr requested \<and> distinct (map nr_aws_id trails) \<and>
            set (map nr_aws_id trails) = set (cm_admitted m) \<and> list_all (trail_read_back m) trails))"

section \<open>Buckets\<close>

text \<open>The key of the configuration and the name of the state of every source of a bucket.\<close>

definition bucket_projection :: "(string \<times> string option \<times> string) list" where
  "bucket_projection =
     [(''s3.bucket-acl'', Some ''acl'', ''acl''), (''s3.bucket-encryption'', Some ''encryption'', ''encryption''),
      (''s3.bucket-ownership-controls'', Some ''ownership_controls'', ''ownership_controls''),
      (''s3.bucket-policy'', Some ''policy'', ''policy''), (''s3.bucket-policy-status'', Some ''policy_status'', ''policy_status''),
      (''s3.bucket-public-access-block'', Some ''public_access_block'', ''public_access_block''),
      (''s3.bucket-tags'', None, ''tags''), (''s3.bucket-versioning'', Some ''versioning'', ''versioning'')]"

text \<open>One source: the snapshot and the collector, its state, value and legacy projection.\<close>

type_synonym read_source = "(uuid \<times> string) \<times> source_state \<times> json \<times> json"

definition read_source_of :: "env \<Rightarrow> graph_artifact list \<Rightarrow> source_outcome \<Rightarrow> read_source option" where
  "read_source_of env as so =
     (case (resource_of so, cited_payload as (so_kind so) so) of
        (Some r, Some p) \<Rightarrow>
          let v = jget ''value'' p; legacy = jget ''legacy_projection'' p in
          if completion_attested so p \<and> jget ''expected_absence'' p = JBool (so_state so = ST_EXPECTED_ABSENCE) \<and>
             bucket_value_ok env (so_kind so) (so_state so) v \<and>
             (so_kind so \<notin> {''s3.bucket-encryption'', ''s3.bucket-public-access-block''} \<longrightarrow> legacy = JNull)
          then Some ((sj_snapshot_id r, so_collector so), so_state so, v, legacy) else None
      | _ \<Rightarrow> None)"

text \<open>The part of the configuration that one source of the bucket determines.\<close>

definition source_read_back :: "resource \<Rightarrow> string \<times> string option \<times> string \<Rightarrow> source_state \<times> json \<times> json \<Rightarrow> bool" where
  "source_read_back r projection src =
     (let (kind, key, _) = projection; (state, v, legacy) = src; cfg = configuration_of r in
      if kind = ''s3.bucket-tags'' then json_eq (tags_object (nr_tags r)) (tag_entries v)
      else if kind = ''s3.bucket-public-access-block''
      then (let block = jget ''public_access_block'' cfg in
            json_eq block legacy \<and>
            (state = ST_PRESENT \<longrightarrow>
               is_obj block \<and> list_all (\<lambda>f. json_eq (jget f block) (jget f v)) public_access_block_fields))
      else (case key of None \<Rightarrow> False | Some k \<Rightarrow> json_eq (jget k cfg) v))"

definition bucket_configuration_keys :: "string list" where
  "bucket_configuration_keys =
     [''creation_date'', ''bucket_region'', ''default_encryption'', ''public_access_block'',
      ''account_public_access_block'', ''policy'', ''policy_status'', ''acl'', ''versioning'', ''encryption'',
      ''ownership_controls'', ''source_states'']"

text \<open>The default encryption is the legacy projection and says what the normalized value says.\<close>

definition encryption_read_back :: "resource \<Rightarrow> source_state \<times> json \<times> json \<Rightarrow> bool" where
  "encryption_read_back r src =
     (let (_, v, legacy) = src; current = jget ''default_encryption'' (configuration_of r) in
      json_eq current legacy \<and>
      (current \<noteq> JNull \<and> v \<noteq> JNull \<longrightarrow>
         (case normalize_legacy_encryption current of None \<Rightarrow> False | Some n \<Rightarrow> json_eq n v)))"

definition bucket_read_back ::
    "source_state \<times> json \<Rightarrow> (string \<times> json) list \<Rightarrow> (string \<Rightarrow> (source_state \<times> json \<times> json) option) \<Rightarrow> resource \<Rightarrow> bool" where
  "bucket_read_back account listed src r =
     (let cfg = configuration_of r in
      case map_of listed (nr_aws_id r) of
        None \<Rightarrow> False
      | Some b \<Rightarrow>
          is_bucket r \<and> has_keys bucket_configuration_keys cfg \<and> json_eq (JObj (nr_raw_configuration r)) cfg \<and>
          optional_text (nr_arn r) = jget ''bucket_arn'' b \<and> nr_name r = Some (nr_aws_id r) \<and>
          json_eq (jget ''creation_date'' cfg) (jget ''creation_date'' b) \<and>
          jget ''bucket_region'' cfg = optional_text (nr_region r) \<and>
          json_eq (jget ''account_public_access_block'' cfg) (snd account) \<and>
          list_all (\<lambda>x. case src (fst x) of None \<Rightarrow> False | Some s \<Rightarrow> source_read_back r x s) bucket_projection \<and>
          json_eq (jget ''source_states'' cfg)
            (JObj ((''account_public_access_block'', JStr (state_text (fst account))) #
               map (\<lambda>(kind, _, name). (name, case src kind of None \<Rightarrow> JNull | Some (s, _) \<Rightarrow> JStr (state_text s)))
                 bucket_projection)) \<and>
          (case src ''s3.bucket-encryption'' of None \<Rightarrow> False | Some s \<Rightarrow> encryption_read_back r s))"

text \<open>The buckets of the discovery by name; a later bucket of the same name replaces.\<close>

definition listed_by_name :: "json \<Rightarrow> (string \<times> json) list option" where
  "listed_by_name p =
     (if is_list (jget ''buckets'' p)
      then map_option rev (those (map (\<lambda>b. case jget ''bucket_name'' b of JStr n \<Rightarrow> Some (n, b) | _ \<Rightarrow> None)
        (list_items (jget ''buckets'' p))))
      else None)"

definition buckets_read_back ::
    "env \<Rightarrow> evidence_graph \<Rightarrow> resource_index \<Rightarrow> (string \<times> json) list \<Rightarrow> source_state \<times> json \<Rightarrow> bool" where
  "buckets_read_back env g index listed account =
     (case those (map (read_source_of env (eg_artifacts g))
         (filter (\<lambda>so. so_collector so \<in> set (map fst bucket_projection)) (eg_outcomes g))) of
        None \<Rightarrow> False
      | Some srcs \<Rightarrow>
          distinct (map fst srcs) \<and>
          list_all (\<lambda>i. case map_of index i of
              None \<Rightarrow> False
            | Some r \<Rightarrow> bucket_read_back account listed (\<lambda>kind. map_of srcs (i, kind)) r)
            (map (fst \<circ> fst) srcs))"

section \<open>Keys\<close>

definition present_key_value :: "graph_artifact list \<Rightarrow> source_outcome \<Rightarrow> (uuid \<times> json) option" where
  "present_key_value as so =
     (case (resource_of so, cited_payload as ''kms.key'' so) of
        (Some r, Some p) \<Rightarrow>
          if kms_key_value_ok (so_state so) (jget ''key'' p) then Some (sj_snapshot_id r, jget ''key'' p) else None
      | _ \<Rightarrow> None)"

definition key_read_back :: "json \<Rightarrow> resource \<Rightarrow> bool" where
  "key_read_back key r =
     (is_key r \<and> optional_text (nr_arn r) = jget ''arn'' key \<and> nr_name r = None \<and> nr_tags r = [] \<and>
      json_eq (configuration_of r) key \<and> json_eq (JObj (nr_raw_configuration r)) key)"

definition keys_read_back :: "evidence_graph \<Rightarrow> resource_index \<Rightarrow> bool" where
  "keys_read_back g index =
     (case those (map (present_key_value (eg_artifacts g))
         (filter (\<lambda>so. so_collector so = ''kms.keys'' \<and> so_state so = ST_PRESENT) (eg_outcomes g))) of
        None \<Rightarrow> False
      | Some ks \<Rightarrow>
          list_all (\<lambda>(i, k). list_all (\<lambda>(i', k'). i = i' \<longrightarrow> json_eq k k') ks) ks \<and>
          list_all (\<lambda>(i, k). case map_of index i of None \<Rightarrow> False | Some r \<Rightarrow> key_read_back k r) ks)"

text \<open>
  \<open>_validate_s3_and_kms_resource_readback\<close>: graphs without the account source are older and are not
  read back.
\<close>

definition storage_read_back :: "env \<Rightarrow> evidence_graph \<Rightarrow> resource_index \<Rightarrow> bool" where
  "storage_read_back env g index =
     (case filter (\<lambda>so. so_collector so = ''s3.buckets'' \<and> so_kind so = ''s3.buckets.discovery'') (eg_outcomes g) of
        [] \<Rightarrow> True
      | [disc] \<Rightarrow>
          (case Option.bind (cited_payload (eg_artifacts g) ''s3.buckets.discovery'' disc) listed_by_name of
             None \<Rightarrow> False
           | Some listed \<Rightarrow>
               (case filter (\<lambda>so. so_collector so = ''s3.account-public-access-block'') (eg_outcomes g) of
                  [] \<Rightarrow> True
                | [account] \<Rightarrow>
                    (case cited_payload (eg_artifacts g) ''s3.account-public-access-block'' account of
                       None \<Rightarrow> False
                     | Some p \<Rightarrow>
                         let block = jget ''public_access_block'' p in
                         bucket_value_ok env ''s3.bucket-public-access-block'' (so_state account) block \<and>
                         buckets_read_back env g index listed (so_state account, block) \<and> keys_read_back g index)
                | _ \<Rightarrow> False))
      | _ \<Rightarrow> False)"

section \<open>Facts\<close>

text \<open>A graph with the account source has every bucket source and every key read back.\<close>

lemma storage_read_back_sources:
  assumes "storage_read_back env g index"
    "filter (\<lambda>so. so_collector so = ''s3.buckets'' \<and> so_kind so = ''s3.buckets.discovery'') (eg_outcomes g) \<noteq> []"
    "filter (\<lambda>so. so_collector so = ''s3.account-public-access-block'') (eg_outcomes g) = [account]"
  obtains listed block where "buckets_read_back env g index listed block" "keys_read_back g index"
proof -
  obtain disc ds where disc: "filter (\<lambda>so. so_collector so = ''s3.buckets'' \<and> so_kind so = ''s3.buckets.discovery'') (eg_outcomes g) = disc # ds"
    using assms(2) by (meson neq_Nil_conv)
  have "\<exists>listed block. buckets_read_back env g index listed block \<and> keys_read_back g index"
    using assms(1) unfolding storage_read_back_def disc assms(3)
    by (cases ds) (auto simp: Let_def split: option.splits)
  then show thesis using that by blast
qed

end
