(* ===== verification/Graph_Admission.thy ===== *)
theory Graph_Admission
  imports Graph_Readback
begin

text \<open>
  \<open>validate_graph_resources\<close> of app/assessment/evidence_graph.py and the validator of the inventory
  snapshot that calls it (app/schemas/inventory.py), with what they guarantee of every resource: an
  owner that is not the collection account is proven, and so is every Region but the requested one.
\<close>

section \<open>Regional coverage\<close>

text \<open>The Regions of the buckets: located by the S3 sources, or those of the resources of older graphs.\<close>

definition bucket_regions :: "string \<Rightarrow> region_evidence option \<Rightarrow> resource list \<Rightarrow> string list" where
  "bucket_regions account regions rs =
     (case regions of
        Some (_, found) \<Rightarrow> map snd found
      | None \<Rightarrow> List.map_filter nr_region
          (filter (\<lambda>r. nr_account r = account \<and> is_bucket r \<and> nr_scope r = SCOPE_REGIONAL) rs))"

definition discovery_region :: "source_contract \<Rightarrow> string option" where
  "discovery_region d =
     (case sd_subject d of
        AccountSubject _ scope region \<Rightarrow> if sd_phase d = DISCOVERY \<and> scope = SCOPE_REGIONAL then region else None
      | ResourceSubject _ \<Rightarrow> None)"

text \<open>A Regional discovery runs in the requested Region, or is declared supplemental for a bucket Region.\<close>

definition discovery_region_ok :: "string \<Rightarrow> string list \<Rightarrow> source_contract \<Rightarrow> bool" where
  "discovery_region_ok requested regions d =
     (case discovery_region d of
        None \<Rightarrow> True
      | Some region \<Rightarrow>
          if region = requested then \<not> sd_supplemental d else sd_supplemental d \<and> region \<in> set regions)"

text \<open>Analyzers are discovered once in the requested Region and once in every bucket Region.\<close>

definition analyzer_regions_ok :: "string \<Rightarrow> string list \<Rightarrow> source_contract list \<Rightarrow> bool" where
  "analyzer_regions_ok requested regions ds =
     (let found = List.map_filter discovery_region
          (filter (\<lambda>d. sd_key d = ''access-analyzer.analyzers.discovery'' \<and> access_analyzer_discovery d) ds) in
      found = [] \<or> distinct found \<and> set found = insert requested (set regions))"

section \<open>Proofs of resources\<close>

text \<open>The present outcomes about one snapshot with their declared sources.\<close>

definition proofs_of :: "evidence_graph \<Rightarrow> uuid \<Rightarrow> (source_contract \<times> source_outcome) list" where
  "proofs_of g i =
     List.map_filter (\<lambda>so.
       case resource_of so of
         Some r \<Rightarrow>
           if so_state so = ST_PRESENT \<and> sj_snapshot_id r = i
           then map_option (\<lambda>d. (d, so)) (find_row sd_outcome_id (so_id so) (eg_sources g)) else None
       | None \<Rightarrow> None) (eg_outcomes g)"

definition key_buckets_of :: "graph_artifact list \<Rightarrow> source_outcome \<Rightarrow> string list option" where
  "key_buckets_of as so =
     (case find_row ga_reference (so_reference so) as of
        None \<Rightarrow> None
      | Some a \<Rightarrow>
          (case sorted_texts_of (jget ''source_bucket_names'' (ga_payload a)) of
             None \<Rightarrow> None
           | Some names \<Rightarrow> if names \<noteq> [] \<and> list_all (\<lambda>n. n \<noteq> []) names then Some names else None))"

text \<open>The buckets that authoritative lookups name for the key of a snapshot; \<open>None\<close> raises.\<close>

definition key_buckets :: "evidence_graph \<Rightarrow> uuid \<Rightarrow> string list option" where
  "key_buckets g i =
     map_option concat (those (map (key_buckets_of (eg_artifacts g) \<circ> snd)
       (filter (authoritative_key_source \<circ> fst) (proofs_of g i))))"

definition resolved_target :: "relationship \<Rightarrow> endpoint option" where
  "resolved_target x =
     (case xr_target x of
        StableTarget e \<Rightarrow> if xr_resolution x = RR_RESOLVED then Some e else None
      | PartialTarget _ \<Rightarrow> None)"

definition edge_observed :: "resource_index \<Rightarrow> relationship \<Rightarrow> bool" where
  "edge_observed index x =
     (endpoint_observed index (xr_source x) \<and>
      (xr_resolution x = RR_RESOLVED \<longrightarrow>
         (case resolved_target x of None \<Rightarrow> False | Some e \<Rightarrow> endpoint_observed index e)))"

text \<open>A snapshot at either end of a resolved relationship.\<close>

definition resolved_end :: "evidence_graph \<Rightarrow> uuid \<Rightarrow> bool" where
  "resolved_end g i =
     list_ex (\<lambda>x. case resolved_target x of
         None \<Rightarrow> False
       | Some e \<Rightarrow> ep_snapshot_id (xr_source x) = Some i \<or> ep_snapshot_id e = Some i) (eg_relationships g)"

text \<open>A resolved encryption edge from a bucket that the lookup of the key names, on the bucket's own source.\<close>

definition encrypts_bucket :: "evidence_graph \<Rightarrow> uuid \<Rightarrow> relationship \<Rightarrow> bool" where
  "encrypts_bucket g i x =
     (case (resolved_target x, outcomes_for_provenance (eg_outcomes g) (xr_provenance x), key_buckets g i) of
        (Some e, [so], Some buckets) \<Rightarrow>
          ep_snapshot_id e = Some i \<and> is_encryption_edge x \<and> encryption_reference_source so \<and>
          (case resource_of so of
             None \<Rightarrow> False
           | Some r \<Rightarrow> ep_snapshot_id (xr_source x) = Some (sj_snapshot_id r)) \<and>
          ep_aws_id (xr_source x) \<in> set buckets
      | _ \<Rightarrow> False)"

section \<open>The validator\<close>

definition subjects_observed :: "resource_index \<Rightarrow> source_outcome list \<Rightarrow> bool" where
  "subjects_observed index outcomes =
     list_all (\<lambda>so. case resource_of so of None \<Rightarrow> True | Some r \<Rightarrow> subject_observed index r) outcomes"

definition admitted_by_graph ::
    "evidence_graph \<Rightarrow> string \<Rightarrow> region_evidence option \<Rightarrow> uuid \<times> resource \<Rightarrow> bool" where
  "admitted_by_graph g requested regions entry =
     (let (i, r) = entry in
      resource_admitted (eg_account g) requested (map fst (proofs_of g i)) (resolved_end g i)
        (list_ex (encrypts_bucket g i) (eg_relationships g)) regions r)"

definition index_ok ::
    "env \<Rightarrow> evidence_graph \<Rightarrow> string \<Rightarrow> region_evidence option \<Rightarrow> resource list \<Rightarrow> resource_index \<Rightarrow> bool" where
  "index_ok env g requested regions rs index =
     (let found = bucket_regions (eg_account g) regions rs in
      list_all (discovery_region_ok requested found) (eg_sources g) \<and>
      analyzer_regions_ok requested found (eg_sources g) \<and>
      storage_read_back env g index \<and> trails_read_back g index requested \<and>
      subjects_observed index (eg_outcomes g) \<and>
      list_all (\<lambda>so. case resource_of so of
          None \<Rightarrow> True
        | Some r \<Rightarrow> key_buckets g (sj_snapshot_id r) \<noteq> None) (eg_outcomes g) \<and>
      list_all (edge_observed index) (eg_relationships g) \<and>
      list_all (admitted_by_graph g requested regions) index)"

definition graph_resources_ok :: "env \<Rightarrow> evidence_graph \<Rightarrow> resource list \<Rightarrow> string \<Rightarrow> bool" where
  "graph_resources_ok env g rs requested =
     (case (index_resources env (eg_scan_id g) rs [],
            bucket_regions_of env (eg_outcomes g) (eg_artifacts g) (eg_sources g)) of
        (Some index, Some regions) \<Rightarrow> index_ok env g requested regions rs index
      | _ \<Rightarrow> False)"

text \<open>The validator of \<open>InventorySnapshot\<close>.\<close>

definition snapshot_ok :: "env \<Rightarrow> snapshot \<Rightarrow> bool" where
  "snapshot_ok env s =
     (distinct (map fst (iv_outcomes s)) \<and>
      (case iv_graph s of
         None \<Rightarrow> True
       | Some g \<Rightarrow>
           eg_scan_id g = iv_scan_id s \<and> eg_account g = iv_account s \<and> eg_collected_at g = iv_collected_at s \<and>
           graph_resources_ok env g (iv_resources s) (iv_region s)))"

section \<open>Facts\<close>

text \<open>Every indexed resource comes from the list under its own snapshot, and every listed one is equal to one.\<close>

lemma index_resources_sound:
  assumes "index_resources env scan rs index = Some out"
    "\<And>i r. map_of index i = Some r \<Longrightarrow> i = resource_snapshot env scan r"
    "map_of out i = Some r"
  shows "i = resource_snapshot env scan r"
  using assms
proof (induction rs arbitrary: index)
  case (Cons a rs)
  have "index_resources env scan rs (AList.update (resource_snapshot env scan a) a index) = Some out"
    using Cons.prems(1) by (simp add: Let_def split: if_splits)
  then show ?case
    by (rule Cons.IH) (use Cons.prems(2,3) in \<open>auto simp: update_conv' split: if_splits\<close>)
qed simp

lemma index_resources_keep:
  assumes "index_resources env scan rs index = Some out" "map_of index i = Some r"
  shows "\<exists>r'. map_of out i = Some r' \<and> resource_eq r r'"
  using assms
proof (induction rs arbitrary: index r)
  case Nil
  then show ?case by simp
next
  case (Cons a rs)
  let ?i = "resource_snapshot env scan a"
  have step: "index_resources env scan rs (AList.update ?i a index) = Some out"
    and eq: "pred_option (\<lambda>old. resource_eq old a) (map_of index ?i)"
    using Cons.prems(1) by (simp_all add: Let_def split: if_splits)
  have "\<exists>x. map_of (AList.update ?i a index) i = Some x \<and> resource_eq r x"
    using Cons.prems(2) eq by (auto simp: update_conv')
  then obtain x where x: "map_of (AList.update ?i a index) i = Some x" "resource_eq r x" by blast
  obtain r' where "map_of out i = Some r'" "resource_eq x r'" using Cons.IH [OF step x(1)] by blast
  then show ?case using x(2) resource_eq_trans by blast
qed

lemma index_resources_listed:
  assumes "index_resources env scan rs index = Some out" "r \<in> set rs"
  obtains r' where "map_of out (resource_snapshot env scan r) = Some r'" "resource_eq r r'"
  using assms
proof (induction rs arbitrary: index thesis)
  case (Cons a rs)
  let ?i = "resource_snapshot env scan a"
  have step: "index_resources env scan rs (AList.update ?i a index) = Some out"
    using Cons.prems(2) by (simp add: Let_def split: if_splits)
  show ?case
  proof (cases "r = a")
    case True
    have "map_of (AList.update ?i a index) ?i = Some a" by (simp add: update_conv')
    then show thesis using index_resources_keep [OF step] Cons.prems(1) True by blast
  next
    case False
    then show thesis using Cons.IH [OF _ step] Cons.prems(1,3) by auto
  qed
qed simp

lemma proofs_of_in:
  assumes "(d, so) \<in> set (proofs_of g i)"
  obtains r where "so \<in> set (eg_outcomes g)" "so_state so = ST_PRESENT" "resource_of so = Some r" "sj_snapshot_id r = i"
    "d \<in> set (eg_sources g)" "sd_outcome_id d = so_id so"
  using assms find_row_Some
  by (fastforce simp: proofs_of_def map_filter_def split: option.splits if_splits)

text \<open>The parts of a validated snapshot.\<close>

lemma snapshot_graph:
  assumes "snapshot_ok env s" "iv_graph s = Some g"
  obtains index regions where "index_resources env (eg_scan_id g) (iv_resources s) [] = Some index"
    "bucket_regions_of env (eg_outcomes g) (eg_artifacts g) (eg_sources g) = Some regions"
    "index_ok env g (iv_region s) regions (iv_resources s) index" "eg_account g = iv_account s"
  using assms by (auto simp: snapshot_ok_def graph_resources_ok_def split: option.splits)

text \<open>The resource that a subject observes is the listed one of its identity, up to the order of dicts.\<close>

lemma observed_resource:
  assumes "index_resources env scan rs [] = Some index" "subject_observed index q" "r \<in> set rs"
    "resource_key r = subject_key q"
  obtains r' where "map_of index (sj_snapshot_id q) = Some r'" "resource_eq r r'"
proof -
  obtain r0 where r0: "map_of index (sj_snapshot_id q) = Some r0" "resource_key r0 = subject_key q"
    using assms(2) by (auto simp: subject_observed_def split: option.splits)
  have "sj_snapshot_id q = resource_snapshot env scan r0"
    using index_resources_sound [OF assms(1) _ r0(1)] by simp
  moreover have "resource_snapshot env scan r0 = resource_snapshot env scan r"
    using r0(2) assms(4) by (simp add: resource_snapshot_def resource_key_def subject_key_def)
  moreover obtain r' where "map_of index (resource_snapshot env scan r) = Some r'" "resource_eq r r'"
    using index_resources_listed [OF assms(1,3)] .
  ultimately show thesis using that by simp
qed

text \<open>Every foreign owner of a snapshot is proven: \<open>owner_proven\<close> of its entry, unfolded.\<close>

lemma foreign_owner_proven:
  assumes "snapshot_ok env s" "iv_graph s = Some g" "r \<in> set (iv_resources s)" "nr_account r \<noteq> iv_account s"
  obtains d so q where "d \<in> set (eg_sources g)" "so \<in> set (eg_outcomes g)" "sd_outcome_id d = so_id so"
    "so_state so = ST_PRESENT" "resource_of so = Some q" "subject_key q = resource_key r"
    "sd_authoritative d" "sd_owner_mode d = owner_mode_of (iv_account s) r"
proof -
  obtain index regions where index: "index_resources env (eg_scan_id g) (iv_resources s) [] = Some index"
    and ok: "index_ok env g (iv_region s) regions (iv_resources s) index" and account: "eg_account g = iv_account s"
    using snapshot_graph [OF assms(1,2)] .
  let ?i = "resource_snapshot env (eg_scan_id g) r"
  obtain r' where r': "map_of index ?i = Some r'" "resource_eq r r'" using index_resources_listed [OF index assms(3)] .
  have key: "resource_key r' = resource_key r" using r'(2) by (simp add: resource_eq_def)
  have mode: "owner_mode_of (iv_account s) r' = owner_mode_of (iv_account s) r" "owner_mode_of (iv_account s) r \<noteq> OWN_COLLECTION_ACCOUNT"
    using key assms(4) by (auto simp: owner_mode_of_def resource_key_def)
  have "admitted_by_graph g (iv_region s) regions (?i, r')"
    using ok map_of_SomeD [OF r'(1)] by (simp add: index_ok_def Let_def list_all_iff)
  then have "owner_proven (iv_account s) (map fst (proofs_of g ?i)) (resolved_end g ?i) r'"
    by (simp add: admitted_by_graph_def resource_admitted_def account)
  then obtain d so where d: "(d, so) \<in> set (proofs_of g ?i)" "sd_authoritative d" "sd_owner_mode d = owner_mode_of (iv_account s) r"
    using mode by (auto simp: owner_proven_def Let_def list_ex_iff)
  obtain q where q: "so \<in> set (eg_outcomes g)" "so_state so = ST_PRESENT" "resource_of so = Some q" "sj_snapshot_id q = ?i"
    "d \<in> set (eg_sources g)" "sd_outcome_id d = so_id so"
    using proofs_of_in [OF d(1)] .
  have "subject_observed index q"
    using ok q(1,3) by (fastforce simp: index_ok_def subjects_observed_def list_all_iff Let_def)
  then have "subject_key q = resource_key r" using r'(1) q(4) key by (simp add: subject_observed_def)
  then show thesis using that d(2,3) q by blast
qed

text \<open>An external account needs a resolved relationship as well.\<close>

lemma external_owner_resolved:
  assumes "snapshot_ok env s" "iv_graph s = Some g" "r \<in> set (iv_resources s)"
    "nr_account r \<noteq> iv_account s" "nr_account r \<noteq> ''aws''"
  obtains x e where "x \<in> set (eg_relationships g)" "resolved_target x = Some e"
    "resource_key r = endpoint_key (xr_source x) \<or> resource_key r = endpoint_key e"
proof -
  obtain index regions where index: "index_resources env (eg_scan_id g) (iv_resources s) [] = Some index"
    and ok: "index_ok env g (iv_region s) regions (iv_resources s) index" and account: "eg_account g = iv_account s"
    using snapshot_graph [OF assms(1,2)] .
  let ?i = "resource_snapshot env (eg_scan_id g) r"
  obtain r' where r': "map_of index ?i = Some r'" "resource_eq r r'" using index_resources_listed [OF index assms(3)] .
  have key: "resource_key r' = resource_key r" using r'(2) by (simp add: resource_eq_def)
  have "admitted_by_graph g (iv_region s) regions (?i, r')"
    using ok map_of_SomeD [OF r'(1)] by (simp add: index_ok_def Let_def list_all_iff)
  then have "resolved_end g ?i" using assms(4,5) key
    by (auto simp: admitted_by_graph_def resource_admitted_def account owner_proven_def owner_mode_of_def resource_key_def)
  then obtain x e where x: "x \<in> set (eg_relationships g)" "resolved_target x = Some e"
    "ep_snapshot_id (xr_source x) = Some ?i \<or> ep_snapshot_id e = Some ?i"
    by (auto simp: resolved_end_def list_ex_iff split: option.splits)
  have "edge_observed index x" using ok x(1) by (simp add: index_ok_def Let_def list_all_iff)
  then have "endpoint_observed index (xr_source x)" "endpoint_observed index e"
    using x(2) by (auto simp: edge_observed_def resolved_target_def split: relationship_target.splits if_splits)
  then have "resource_key r' = endpoint_key (xr_source x) \<or> resource_key r' = endpoint_key e"
    using x(3) r'(1) by (auto simp: endpoint_observed_def)
  then show thesis using that [OF x(1,2)] key by simp
qed

end
