(* ===== verification/Bucket_Evidence.thy ===== *)
theory Bucket_Evidence
  imports Graph_Admission Rules_Total
begin

text \<open>
  From the evidence of a bucket to the verdict of S3-900: what the control reads is the validated
  value of the artifact, so its verdict on a bucket with present evidence is determined by it.
\<close>

section \<open>Equality of values\<close>

lemma map_of_sort_key: "map_of (sort_key fst kvs) k = map_of kvs k"
proof -
  have first: "map_of xs k = (case filter (\<lambda>p. fst p = k) xs of [] \<Rightarrow> None | p # _ \<Rightarrow> Some (snd p))" for xs :: "('c \<times> 'd) list" and k
    by (induction xs) auto
  show ?thesis unfolding first by (simp add: sort_key_stable)
qed

lemma jget_canon: "jget k (canon j) = canon (jget k j)"
proof (cases j)
  case (JObj kvs)
  have "map_of (map (\<lambda>(k, v). (k, canon v)) kvs) k = map_option canon (map_of kvs k)" by (induction kvs) auto
  then show ?thesis by (simp add: JObj obj_get_def map_of_sort_key split: option.splits)
qed simp_all

lemma jget_unbool: "jget k (unbool j) = unbool (jget k j)"
proof (cases j)
  case (JObj kvs)
  have "map_of (map (\<lambda>(k, v). (k, unbool v)) kvs) k = map_option unbool (map_of kvs k)" by (induction kvs) auto
  then show ?thesis by (simp add: JObj obj_get_def split: option.splits)
qed simp_all

lemma json_eq_jget: "json_eq a b \<Longrightarrow> json_eq (jget k a) (jget k b)"
  unfolding json_eq_def by (metis jget_canon jget_unbool)

lemma json_eq_obj: "json_eq a b \<Longrightarrow> is_obj b \<Longrightarrow> is_obj a"
  by (cases a; cases b) (auto simp: json_eq_def)

lemma json_eq_null: "json_eq a JNull \<longleftrightarrow> a = JNull"
  by (cases a) (auto simp: json_eq_def)

lemma json_eq_text: "json_eq a (JStr s) \<longleftrightarrow> a = JStr s"
  by (cases a) (auto simp: json_eq_def)

lemma json_eq_items:
  assumes "json_eq a (JList ys)"
  obtains xs where "a = JList xs" "list_all2 json_eq xs ys"
proof (cases a)
  case (JList xs)
  then have "map (canon \<circ> unbool) xs = map (canon \<circ> unbool) ys" using assms by (simp add: json_eq_def)
  then have "list_all2 json_eq xs ys"
    by (simp add: json_eq_def list_all2_conv_all_nth) (metis comp_apply length_map nth_map)
  then show thesis using that JList by blast
qed (use assms in \<open>simp_all add: json_eq_def\<close>)

lemma json_eq_trans: "json_eq a b \<Longrightarrow> json_eq b c \<Longrightarrow> json_eq a c"
  by (simp add: json_eq_def)

section \<open>The rules of a default encryption\<close>

definition rule_algorithm :: "json \<Rightarrow> json" where
  "rule_algorithm rule = jget ''SSEAlgorithm'' (jget ''ApplyServerSideEncryptionByDefault'' rule)"

text \<open>What S3-900 makes of a rule that the evidence accepts: never an exception, and a fault for two of them.\<close>

definition unknown_to_control :: "json \<Rightarrow> bool" where
  "unknown_to_control rule = (rule_algorithm rule \<in> {JNull, JStr ''aws:backup''})"

lemma accepted_rule:
  assumes "legacy_rule b = Some n" "json_eq a b"
  shows "encryption_rule_error (i, a) = None \<or> (\<exists>path. encryption_rule_error (i, a) = Some (Inr path))"
    and "encryption_rule_error (i, a) = None \<longleftrightarrow> \<not> unknown_to_control a"
proof -
  let ?A = "jget ''ApplyServerSideEncryptionByDefault'' a" and ?B = "jget ''ApplyServerSideEncryptionByDefault'' b"
  have b: "is_obj b" "?B \<noteq> JNull \<longrightarrow> is_obj ?B \<and> one_of S3_Values.encryption_algorithms (jget ''SSEAlgorithm'' ?B)"
    using assms(1) by (auto simp: legacy_rule_def Let_def split: if_splits)
  have a: "is_obj a" using json_eq_obj [OF assms(2) b(1)] .
  have eq: "json_eq ?A ?B" using assms(2) by (rule json_eq_jget)
  have both: "(encryption_rule_error (i, a) = None \<or> (\<exists>path. encryption_rule_error (i, a) = Some (Inr path))) \<and>
    (encryption_rule_error (i, a) = None \<longleftrightarrow> \<not> unknown_to_control a)"
  proof (cases "?B = JNull")
    case True
    then have "?A = JNull" using eq by (simp add: json_eq_null)
    then show ?thesis using a by (simp add: encryption_rule_error_def unknown_to_control_def rule_algorithm_def)
  next
    case False
    then obtain s where s: "jget ''SSEAlgorithm'' ?B = JStr s" "s \<in> set S3_Values.encryption_algorithms"
      using b(2) by (auto simp: one_of_def)
    have "is_obj ?A" using json_eq_obj [OF eq] False b(2) by simp
    then obtain kvs where A: "?A = JObj kvs" by (cases ?A) auto
    have "json_eq (jget ''SSEAlgorithm'' ?A) (JStr s)" using json_eq_jget [OF eq, of "''SSEAlgorithm''"] s(1) by simp
    then have "obj_get ''SSEAlgorithm'' kvs = JStr s" by (simp add: A json_eq_text)
    then show ?thesis using a A s(2)
      by (auto simp: encryption_rule_error_def unknown_to_control_def rule_algorithm_def Let_def
          S3_Values.encryption_algorithms_def Rules_Inventory.encryption_algorithms_def)
  qed
  then show "encryption_rule_error (i, a) = None \<or> (\<exists>path. encryption_rule_error (i, a) = Some (Inr path))"
    and "encryption_rule_error (i, a) = None \<longleftrightarrow> \<not> unknown_to_control a" by blast+
qed

lemma map_filter_empty: "List.map_filter f xs = [] \<longleftrightarrow> (\<forall>x\<in>set xs. f x = None)"
  by (induction xs) (auto simp: List.map_filter_simps split: option.splits)

lemma accepted_encryption:
  assumes "normalize_legacy_encryption d = Some n" "json_eq (jget ''default_encryption'' (configuration_of r)) d"
  shows "encryption_configured r"
    and "\<exists>fault. encryption_error_path (nr_configuration r) = Inr fault \<and>
      (fault = None \<longleftrightarrow> \<not> list_ex unknown_to_control (encryption_rules r))"
proof -
  let ?D = "obj_get ''default_encryption'' (nr_configuration r)"
  have D: "json_eq ?D d" using assms(2) by (simp add: configuration_of_def)
  obtain ys where ys: "jget ''Rules'' d = JList ys" "ys \<noteq> []" "\<And>y. y \<in> set ys \<Longrightarrow> \<exists>m. legacy_rule y = Some m" "is_obj d"
  proof -
    have n: "is_obj d" "list_items (jget ''Rules'' d) \<noteq> []" "\<exists>rs. those (map legacy_rule (list_items (jget ''Rules'' d))) = Some rs"
      using assms(1) by (auto simp: normalize_legacy_encryption_def Let_def split: if_splits)
    then obtain rs where rs: "those (map legacy_rule (list_items (jget ''Rules'' d))) = Some rs" by blast
    have "\<exists>m. legacy_rule y = Some m" if "y \<in> set (list_items (jget ''Rules'' d))" for y
    proof -
      have "list_all2 (\<lambda>x y. legacy_rule x = Some y) (list_items (jget ''Rules'' d)) rs"
        using rs by (simp add: those_map_Some)
      then show ?thesis using that by (induction rule: list_all2_induct) auto
    qed
    moreover obtain ys where "jget ''Rules'' d = JList ys" using n(2) by (cases "jget ''Rules'' d") auto
    ultimately show thesis using that n by simp
  qed
  obtain enc where enc: "?D = JObj enc" using json_eq_obj [OF D ys(4)] by (cases ?D) auto
  then have conf: "map_of (nr_configuration r) ''default_encryption'' = Some (JObj enc)"
    by (auto simp: obj_get_def split: option.splits)
  have "json_eq (obj_get ''Rules'' enc) (JList ys)" using json_eq_jget [OF D, of "''Rules''"] by (simp add: enc ys(1))
  then obtain xs where xs: "obj_get ''Rules'' enc = JList xs" "list_all2 json_eq xs ys" by (rule json_eq_items)
  have rule: "\<exists>b m. legacy_rule b = Some m \<and> json_eq a b" if "a \<in> set xs" for a
  proof -
    have "\<exists>b\<in>set ys. json_eq a b" using xs(2) that by (induction rule: list_all2_induct) auto
    then show ?thesis using ys(3) by blast
  qed
  have rules: "encryption_rules r = xs" by (simp add: encryption_rules_def enc xs(1) list_of_def)
  let ?es = "List.map_filter encryption_rule_error (enumerate 0 xs)"
  have inr: "\<exists>path. e = Inr path" if "e \<in> set ?es" for e
  proof -
    have "\<exists>x\<in>set (enumerate 0 xs). encryption_rule_error x = Some e" using that by (rule map_filter_in)
    then obtain i a where x: "(i, a) \<in> set (enumerate 0 xs)" "encryption_rule_error (i, a) = Some e" by auto
    have "a \<in> set xs" using x(1) by (auto simp: in_set_enumerate_eq)
    then show ?thesis using rule accepted_rule(1) x(2) by (metis option.distinct(1) option.inject)
  qed
  have none: "?es = [] \<longleftrightarrow> \<not> list_ex unknown_to_control xs"
  proof -
    have "?es = [] \<longleftrightarrow> (\<forall>a\<in>set xs. \<not> unknown_to_control a)"
    proof
      assume "?es = []"
      then have all: "\<forall>x\<in>set (enumerate 0 xs). encryption_rule_error x = None" by (simp add: map_filter_empty)
      show "\<forall>a\<in>set xs. \<not> unknown_to_control a"
      proof
        fix a assume a: "a \<in> set xs"
        then have "a \<in> set (map snd (enumerate 0 xs))" by (simp only: map_snd_enumerate)
        then obtain x where "x \<in> set (enumerate 0 xs)" "snd x = a" unfolding set_map by blast
        then obtain i where "(i, a) \<in> set (enumerate 0 xs)" by (metis prod.collapse)
        then have "encryption_rule_error (i, a) = None" using all by blast
        then show "\<not> unknown_to_control a" using rule [OF a] accepted_rule(2) by blast
      qed
    next
      assume all: "\<forall>a\<in>set xs. \<not> unknown_to_control a"
      have "encryption_rule_error x = None" if "x \<in> set (enumerate 0 xs)" for x
      proof -
        obtain i a where x: "x = (i, a)" by (cases x)
        have a: "a \<in> set xs" using that by (auto simp: x in_set_enumerate_eq)
        then show ?thesis using rule [OF a] all accepted_rule(2) unfolding x by blast
      qed
      then show "?es = []" by (simp add: map_filter_empty)
    qed
    then show ?thesis by (auto simp: list_ex_iff)
  qed
  have "xs \<noteq> []" using xs(2) ys(2) by auto
  then obtain x xs' where cons: "xs = x # xs'" by (cases xs) auto
  have path: "encryption_error_path (nr_configuration r) =
      (case ?es of [] \<Rightarrow> Inr None | Inl e # _ \<Rightarrow> Inl e | Inr p # _ \<Rightarrow> Inr (Some p))"
    by (simp add: encryption_error_path_def conf xs(1) cons del: enumerate_simps)
  show "encryption_configured r" by (simp add: encryption_configured_def enc)
  show "\<exists>fault. encryption_error_path (nr_configuration r) = Inr fault \<and>
      (fault = None \<longleftrightarrow> \<not> list_ex unknown_to_control (encryption_rules r))"
  proof (cases ?es)
    case Nil
    then show ?thesis using path none rules by simp
  next
    case (Cons e es)
    then obtain p where "e = Inr p" using inr by fastforce
    then show ?thesis using path none rules Cons by simp
  qed
qed

section \<open>From a source to the resource\<close>

text \<open>The projection of a validated encryption source of a valid graph has a normal form, its value.\<close>

lemma encryption_source_valid:
  assumes "make_graph env x = Some g" "has_s3_discovery (eg_outcomes g)" "so \<in> set (eg_outcomes g)"
    "so_collector so = ''s3.bucket-encryption''" "so_state so = ST_PRESENT"
  obtains p n where "cited_payload (eg_artifacts g) (so_kind so) so = Some p" "so_kind so = ''s3.bucket-encryption''"
    "normalize_legacy_encryption (jget ''legacy_projection'' p) = Some n" "json_eq n (jget ''value'' p)"
    "jget ''value'' p \<noteq> JNull"
    "\<exists>account. filter (\<lambda>so. so_collector so = ''s3.account-public-access-block'') (eg_outcomes g) = [account]"
proof -
  have "graph_ok env g (eg_relationships g)" using make_graph_again [OF assms(1)] by blast
  then have family: "s3_family_ok env (eg_outcomes g) (eg_sources g) (eg_artifacts g)"
    using assms(2) by (simp add: graph_ok_def)
  have selected: "so_collector so \<in> set s3_collectors" "so_collector so \<in> set (map fst per_bucket_apis)"
    by (simp_all add: assms(4) s3_collectors_def per_bucket_apis_def)
  have "s3_identity_ok so"
    using family assms(3) selected(1) by (auto simp: s3_family_ok_def s3_contracts_ok_def list_all_iff Let_def)
  then have kind: "so_kind so = ''s3.bucket-encryption''"
    by (simp add: s3_identity_ok_def assms(4) per_bucket_apis_def s3_source_is_def)
  obtain account regions vals where v: "filter (\<lambda>so. so_collector so = ''s3.account-public-access-block'') (eg_outcomes g) = [account]"
    "those (map (per_bucket_value env (eg_artifacts g) regions)
       (filter (\<lambda>so. so_collector so \<in> set (map fst per_bucket_apis)) (eg_outcomes g))) = Some vals"
    using family by (auto simp: s3_family_ok_def s3_artifacts_ok_def split: list.splits option.splits prod.splits)
  have "\<exists>y. per_bucket_value env (eg_artifacts g) regions so = Some y"
  proof -
    have "list_all2 (\<lambda>x y. per_bucket_value env (eg_artifacts g) regions x = Some y)
        (filter (\<lambda>so. so_collector so \<in> set (map fst per_bucket_apis)) (eg_outcomes g)) vals"
      using v(2) by (simp only: those_map_Some)
    moreover have "so \<in> set (filter (\<lambda>so. so_collector so \<in> set (map fst per_bucket_apis)) (eg_outcomes g))"
      using assms(3) selected(2) by simp
    ultimately show ?thesis by (induction rule: list_all2_induct) auto
  qed
  then obtain p where p: "cited_payload (eg_artifacts g) (so_kind so) so = Some p"
    "legacy_projection_ok (so_kind so) (so_state so) (jget ''value'' p) (jget ''legacy_projection'' p)"
    "bucket_value_ok env (so_kind so) (so_state so) (jget ''value'' p)"
    by (auto simp: per_bucket_value_def Let_def split: option.splits if_splits)
  then show thesis using that kind assms(5) v(1)
    by (auto simp: legacy_projection_ok_def bucket_value_ok_def split: option.splits if_splits)
qed

text \<open>The listed resource of a present encryption source holds the value of the source and its projection.\<close>

lemma bucket_holds_evidence:
  assumes "make_graph env x = Some g" "snapshot_ok env s" "iv_graph s = Some g" "has_s3_discovery (eg_outcomes g)"
    "so \<in> set (eg_outcomes g)" "so_collector so = ''s3.bucket-encryption''" "so_state so = ST_PRESENT"
    "resource_of so = Some q" "r \<in> set (iv_resources s)" "resource_key r = subject_key q"
  obtains p d n where "cited_payload (eg_artifacts g) (so_kind so) so = Some p"
    "json_eq (jget ''encryption'' (configuration_of r)) (jget ''value'' p)"
    "json_eq (jget ''default_encryption'' (configuration_of r)) d" "normalize_legacy_encryption d = Some n"
proof -
  obtain p n where p: "cited_payload (eg_artifacts g) (so_kind so) so = Some p" "so_kind so = ''s3.bucket-encryption''"
    "normalize_legacy_encryption (jget ''legacy_projection'' p) = Some n" "jget ''value'' p \<noteq> JNull"
    and account: "\<exists>account. filter (\<lambda>so. so_collector so = ''s3.account-public-access-block'') (eg_outcomes g) = [account]"
    using encryption_source_valid [OF assms(1,4-7)] .
  obtain index regions where index: "index_resources env (eg_scan_id g) (iv_resources s) [] = Some index"
    and ok: "index_ok env g (iv_region s) regions (iv_resources s) index"
    using snapshot_graph [OF assms(2,3)] .
  have seen: "subject_observed index q"
    using ok assms(5,8) by (fastforce simp: index_ok_def subjects_observed_def list_all_iff Let_def)
  obtain r' where r': "map_of index (sj_snapshot_id q) = Some r'" "resource_eq r r'"
    using observed_resource [OF index seen assms(9,10)] .
  have "filter (\<lambda>so. so_collector so = ''s3.buckets'' \<and> so_kind so = ''s3.buckets.discovery'') (eg_outcomes g) \<noteq> []"
    using assms(4) by (auto simp: has_s3_discovery_def list_ex_iff filter_empty_conv)
  moreover have "storage_read_back env g index" using ok by (simp add: index_ok_def Let_def)
  ultimately obtain listed block where bound: "buckets_read_back env g index listed block"
    using account storage_read_back_sources by blast
  then obtain srcs where srcs: "those (map (read_source_of env (eg_artifacts g))
        (filter (\<lambda>so. so_collector so \<in> set (map fst bucket_projection)) (eg_outcomes g))) = Some srcs"
    "distinct (map fst srcs)"
    "\<forall>i\<in>set (map (fst \<circ> fst) srcs). \<exists>r. map_of index i = Some r \<and>
       bucket_read_back block listed (\<lambda>kind. map_of srcs (i, kind)) r"
    by (auto simp: buckets_read_back_def list_all_iff split: option.splits)
  have "so \<in> set (filter (\<lambda>so. so_collector so \<in> set (map fst bucket_projection)) (eg_outcomes g))"
    using assms(5,6) by (simp add: bucket_projection_def)
  moreover have "list_all2 (\<lambda>x y. read_source_of env (eg_artifacts g) x = Some y)
      (filter (\<lambda>so. so_collector so \<in> set (map fst bucket_projection)) (eg_outcomes g)) srcs"
    using srcs(1) by (simp only: those_map_Some)
  ultimately have "\<exists>y\<in>set srcs. read_source_of env (eg_artifacts g) so = Some y"
    by - (erule rev_mp, induction rule: list_all2_induct, auto)
  then have entry: "((sj_snapshot_id q, ''s3.bucket-encryption''), ST_PRESENT, jget ''value'' p, jget ''legacy_projection'' p) \<in> set srcs"
    using assms(6-8) p(1) by (auto simp: read_source_of_def Let_def split: if_splits)
  then have src: "map_of srcs (sj_snapshot_id q, ''s3.bucket-encryption'') = Some (ST_PRESENT, jget ''value'' p, jget ''legacy_projection'' p)"
    using srcs(2) by simp
  have "sj_snapshot_id q \<in> set (map (fst \<circ> fst) srcs)" using entry by force
  then have read: "bucket_read_back block listed (\<lambda>kind. map_of srcs (sj_snapshot_id q, kind)) r'"
    using srcs(3) r'(1) by fastforce
  have "source_read_back r' (''s3.bucket-encryption'', Some ''encryption'', ''encryption'') (ST_PRESENT, jget ''value'' p, jget ''legacy_projection'' p)"
    "encryption_read_back r' (ST_PRESENT, jget ''value'' p, jget ''legacy_projection'' p)"
    using read src by (auto simp: bucket_read_back_def bucket_projection_def Let_def split: option.splits)
  then have held: "json_eq (jget ''encryption'' (configuration_of r')) (jget ''value'' p)"
    "json_eq (jget ''default_encryption'' (configuration_of r')) (jget ''legacy_projection'' p)"
    by (simp_all add: source_read_back_def encryption_read_back_def Let_def)
  have "json_eq (configuration_of r) (configuration_of r')" using r'(2) by (simp add: resource_eq_def)
  then have "json_eq (jget k (configuration_of r)) (jget k (configuration_of r'))" for k by (rule json_eq_jget)
  then show thesis using that [OF p(1) json_eq_trans json_eq_trans p(3)] held by blast
qed

end
