(* ===== verification/Snapshot_Scenario.thy ===== *)
theory Snapshot_Scenario
  imports Bucket_Evidence Graph_Scenario
begin

text \<open>
  Two concrete snapshots with their evidence graphs: one with a resource of another owner, an
  AWS-managed policy whose metadata source is authoritative, and one with a bucket and its complete
  evidence (the discovery, the account block, the location and the eight sources of the bucket, of
  which the encryption source is present).
\<close>

section \<open>A policy of AWS\<close>

definition policy_arn :: string where
  "policy_arn = ''arn:aws:iam::aws:policy/AdministratorAccess''"

definition policy_resource :: resource where
  "policy_resource =
     \<lparr>nr_account = ''aws'', nr_service = ''iam'', nr_type = ''iam_aws_managed_policy'', nr_aws_id = policy_arn,
      nr_arn = Some policy_arn, nr_name = Some ''AdministratorAccess'', nr_scope = SCOPE_GLOBAL, nr_region = None,
      nr_tags = [], nr_configuration = [], nr_raw_configuration = []\<rparr>"

definition policy_row :: resource_subject where
  "policy_row =
     \<lparr>sj_account = ''aws'', sj_service = ''iam'', sj_type = ''iam_aws_managed_policy'', sj_aws_id = policy_arn,
      sj_scope = SCOPE_GLOBAL, sj_region = None, sj_stable_id = 1, sj_snapshot_id = 1\<rparr>"

definition policy_outcome_id :: uuid where
  "policy_outcome_id =
     source_outcome_id graph_env 5 ''111122223333'' ENRICHMENT (ResourceSubject policy_row) ''iam.managed-policy.metadata''
       ''iam.policies'' ''2.0.0'' ''iam:GetPolicy''"

definition policy_contract :: source_contract where
  "policy_contract =
     \<lparr>sd_key = ''iam.managed-policy.metadata'', sd_contract_version = ''1.0.0'', sd_outcome_id = policy_outcome_id,
      sd_scan_id = 5, sd_account = ''111122223333'', sd_phase = ENRICHMENT, sd_subject = ResourceSubject policy_row,
      sd_kind = ''iam.managed-policy.metadata'', sd_collector = ''iam.policies'', sd_version = ''2.0.0'',
      sd_api = ''iam:GetPolicy'', sd_cardinality = CARD_SINGLE, sd_owner_mode = OWN_AWS_MANAGED,
      sd_authoritative = True, sd_supplemental = False\<rparr>"

definition policy_artifact :: graph_artifact where
  "policy_artifact =
     \<lparr>ga_id = graph_artifact_id graph_env 5 ''normalized://policy'', ga_scan_id = 5, ga_account = ''111122223333'',
      ga_reference = ''normalized://policy'', ga_sha = replicate 64 (CHR ''a''),
      ga_schema = ''iam.managed-policy.metadata'', ga_schema_version = ''1.0.0'', ga_collected_at = graph_time,
      ga_payload = JObj [(''complete'', JBool True)]\<rparr>"

definition policy_outcome :: source_outcome where
  "policy_outcome =
     \<lparr>so_id = policy_outcome_id, so_scan_id = 5, so_account = ''111122223333'', so_phase = ENRICHMENT,
      so_subject = ResourceSubject policy_row, so_kind = ''iam.managed-policy.metadata'', so_state = ST_PRESENT,
      so_failure = None, so_collector = ''iam.policies'', so_collector_version = ''2.0.0'', so_api = ''iam:GetPolicy'',
      so_collected_at = graph_time, so_reference = ''normalized://policy'', so_sha = replicate 64 (CHR ''a'')\<rparr>"

definition policy_graph :: evidence_graph where
  "policy_graph =
     \<lparr>eg_scan_id = 5, eg_account = ''111122223333'', eg_collected_at = graph_time, eg_sources = [policy_contract],
      eg_artifacts = [policy_artifact], eg_outcomes = [policy_outcome], eg_relationships = []\<rparr>"

definition policy_snapshot :: snapshot where
  "policy_snapshot =
     \<lparr>iv_scan_id = 5, iv_account = ''111122223333'', iv_region = ''us-east-1'', iv_collected_at = graph_time,
      iv_outcomes = [(''iam_users'', COL_SUCCEEDED)], iv_resources = [policy_resource], iv_graph = Some policy_graph\<rparr>"

subsection \<open>Its records are valid\<close>

lemma policy_texts:
  "trim_text policy_arn = policy_arn" "trim_text ''aws'' = ''aws''" "trim_text ''iam'' = ''iam''"
  "trim_text ''iam_aws_managed_policy'' = ''iam_aws_managed_policy''"
  "trim_text ''iam.managed-policy.metadata'' = ''iam.managed-policy.metadata''"
  "trim_text ''iam.policies'' = ''iam.policies''" "trim_text ''iam:GetPolicy'' = ''iam:GetPolicy''"
  "trim_text ''normalized://policy'' = ''normalized://policy''"
  by code_simp+

lemma policy_patterns:
  "owner_pattern ''aws''" "service_pattern ''iam''" "type_pattern ''iam_aws_managed_policy''" "separator_free policy_arn"
  "separator_free []" "kind_pattern ''iam.managed-policy.metadata''" "contract_key_pattern ''iam.managed-policy.metadata''"
  "collector_pattern ''iam.policies''" "api_pattern ''iam:GetPolicy''" "reference_pattern ''normalized://policy''"
  "normalized_reference ''normalized://policy''" "policy_arn \<noteq> []" "last policy_arn \<noteq> CHR ''2''"
  by code_simp+

lemma policy_ids:
  "stable_resource_id graph_env ''aws'' ''aws'' ''iam'' ''iam_aws_managed_policy'' SCOPE_GLOBAL [] policy_arn = 1"
  "resource_snapshot_id graph_env scan ''aws'' ''iam'' ''iam_aws_managed_policy'' SCOPE_GLOBAL [] policy_arn = 1"
  using policy_patterns(12,13) by (simp_all add: stable_resource_id_def resource_snapshot_id_def graph_env_def)

lemma policy_subject_ok:
  "subject_ok graph_env (ResourceSubject policy_row)"
  "phase_subject_ok graph_env 5 ''111122223333'' ENRICHMENT (ResourceSubject policy_row)"
  by (simp_all add: subject_ok_def resource_subject_ok_def resource_identity_ok_def policy_row_def policy_patterns region_text_def
      scope_region_ok_def canonical_scope_ok_def canonical_resource_scope_def canonical_resource_scopes_def
      resource_owner_ok_def aws_owned_types_def policy_ids phase_subject_ok_def subject_snapshot_id_def)

lemma policy_subject_trimmed: "trim_subject (ResourceSubject policy_row) = ResourceSubject policy_row"
  by (simp add: trim_subject_def policy_row_def policy_texts)

lemma policy_contract_made: "make_contract graph_env policy_contract = Some policy_contract"
proof (rule contracts.make_fixed)
  show "trim_contract policy_contract = policy_contract"
    by (simp add: trim_contract_def policy_contract_def policy_subject_trimmed policy_texts graph_texts)
  have "expected_owner_mode ''111122223333'' (ResourceSubject policy_row) = OWN_AWS_MANAGED"
    by (simp add: expected_owner_mode_def policy_row_def)
  then show "contract_ok graph_env policy_contract"
    by (simp add: contract_ok_def policy_contract_def policy_outcome_id_def policy_patterns graph_patterns policy_subject_ok)
qed

lemma policy_artifact_made: "make_graph_artifact graph_env policy_artifact = Some policy_artifact"
proof (rule graph_artifacts.make_fixed)
  show "trim_graph_artifact policy_artifact = policy_artifact"
    by (simp add: trim_graph_artifact_def policy_artifact_def policy_texts graph_texts)
  have "sensitive_free (JObj [(''complete'', JBool True)])" by code_simp
  then show "graph_artifact_ok graph_env policy_artifact"
    by (simp add: graph_artifact_ok_def policy_artifact_def policy_patterns graph_patterns group_digest)
qed

lemma policy_outcome_made: "make_outcome graph_env policy_outcome = Some policy_outcome"
proof (rule outcomes.make_fixed)
  show "trim_outcome policy_outcome = policy_outcome"
    by (simp add: trim_outcome_def policy_outcome_def policy_subject_trimmed policy_texts graph_texts)
  show "outcome_ok graph_env policy_outcome"
    by (simp add: outcome_ok_def policy_outcome_def policy_outcome_id_def policy_patterns graph_patterns policy_subject_ok)
qed

subsection \<open>The graph and the snapshot are valid\<close>

lemma policy_sources:
  "\<not> has_s3_discovery [policy_outcome]" "\<not> has_cloudtrail [policy_outcome]"
  "so_collector policy_outcome = ''iam.policies''"
  by (simp_all add: has_s3_discovery_def has_cloudtrail_def cloudtrail_collectors_def cloudtrail_sources_def policy_outcome_def)

lemma policy_graph_made: "make_graph graph_env policy_graph = Some policy_graph"
proof -
  have settled: "settled_graph graph_env policy_graph"
    by (simp add: settled_graph_def policy_graph_def policy_contract_made policy_artifact_made policy_outcome_made
        graph_texts deduplicate_canonical deduplicate_relationships_def)
  have match: "matches_outcome policy_contract policy_outcome"
    by (simp add: matches_outcome_def policy_contract_def policy_outcome_def)
  have bound: "source_bound policy_graph policy_contract"
    using match by (simp add: source_bound_def common_observation_def policy_graph_def)
      (simp add: policy_contract_def policy_outcome_def policy_artifact_def)
  have "graph_ok graph_env policy_graph []"
    using bound policy_sources
    by (simp add: graph_ok_def policy_graph_def graph_patterns encryption_edges_ok_def)
      (simp add: common_observation_def policy_contract_def policy_outcome_def policy_artifact_def)
  then show ?thesis using make_graph_of_settled [OF settled] by (simp add: policy_graph_def)
qed

lemma policy_snapshot_ok: "snapshot_ok graph_env policy_snapshot"
proof -
  let ?index = "[(1 :: uuid, policy_resource)]"
  have id: "resource_snapshot graph_env 5 policy_resource = 1"
    by (simp add: resource_snapshot_def policy_resource_def region_text_def policy_ids)
  have scope: "resource_scope_ok policy_resource"
    by (simp add: resource_scope_ok_def policy_resource_def canonical_resource_scope_def canonical_resource_scopes_def)
  have index: "index_resources graph_env 5 [policy_resource] [] = Some ?index" by (simp add: id scope)
  have regions: "bucket_regions_of graph_env [policy_outcome] [policy_artifact] [policy_contract] = Some None"
    by (simp add: bucket_regions_of_def policy_sources)
  have subject: "resource_of policy_outcome = Some policy_row" by (simp add: resource_of_def policy_outcome_def)
  have ids: "sd_outcome_id policy_contract = policy_outcome_id" "so_id policy_outcome = policy_outcome_id"
    by (simp_all add: policy_contract_def policy_outcome_def)
  have row: "sj_snapshot_id policy_row = 1" "subject_key policy_row = resource_key policy_resource"
    by (simp_all add: policy_row_def policy_resource_def subject_key_def resource_key_def)
  have present: "so_state policy_outcome = ST_PRESENT" by (simp add: policy_outcome_def)
  have proofs: "proofs_of policy_graph 1 = [(policy_contract, policy_outcome)]"
    by (simp add: proofs_of_def policy_graph_def subject row present ids)
  have discovery: "discovery_region_ok r rs policy_contract" "\<not> access_analyzer_discovery policy_contract" for r rs
    by (simp_all add: discovery_region_ok_def discovery_region_def access_analyzer_discovery_def policy_contract_def)
  have keys: "key_buckets policy_graph 1 \<noteq> None"
    by (simp add: key_buckets_def proofs authoritative_key_source_def del: One_nat_def)
      (simp add: policy_contract_def policy_row_def)
  have "resource_admitted ''111122223333'' ''us-east-1'' [policy_contract] False False None policy_resource"
    by (simp add: resource_admitted_def owner_proven_def owner_mode_of_def key_admitted_def bucket_admitted_def
        region_admitted_def is_key_def policy_resource_def) (simp add: policy_contract_def)
  then have admitted: "admitted_by_graph policy_graph ''us-east-1'' None (1, policy_resource)"
    by (simp add: admitted_by_graph_def proofs del: One_nat_def) (simp add: policy_graph_def resolved_end_def)
  have lists: "eg_sources policy_graph = [policy_contract]" "eg_artifacts policy_graph = [policy_artifact]"
    "eg_outcomes policy_graph = [policy_outcome]" "eg_relationships policy_graph = []" "eg_scan_id policy_graph = 5"
    "eg_account policy_graph = ''111122223333''" "eg_collected_at policy_graph = graph_time"
    by (simp_all add: policy_graph_def)
  have "index_ok graph_env policy_graph ''us-east-1'' None [policy_resource] ?index"
    using discovery keys admitted
    by (simp add: index_ok_def lists analyzer_regions_ok_def storage_read_back_def trails_read_back_def policy_sources
        subjects_observed_def subject subject_observed_def row del: One_nat_def)
  then show ?thesis
    by (simp add: snapshot_ok_def policy_snapshot_def graph_resources_ok_def lists index regions
        del: index_resources.simps One_nat_def)
qed

section \<open>A bucket\<close>

subsection \<open>The sources\<close>

text \<open>A source: identifier, phase, collector, kind, API, state and payload. The identifiers of the
  scenario are read off the beginning of the hashed text.\<close>

type_synonym b1_source = "uuid \<times> collection_phase \<times> string \<times> string \<times> string \<times> source_state \<times> json"

definition b1_listing :: b1_source where
  "b1_listing = (1, DISCOVERY, ''s3.buckets'', ''s3.buckets.discovery'', ''s3:ListAllMyBuckets'', ST_PRESENT,
     JObj [(''account_id'', JStr ''111122223333''), (''bucket_names'', JList [JStr ''b1'']),
       (''buckets'', JList [JObj [(''bucket_arn'', JStr ''arn:aws:s3:::b1''), (''bucket_name'', JStr ''b1''),
          (''creation_date'', JNull), (''list_bucket_region'', JNull)]]),
       (''complete'', JBool True), (''discarded_item_count'', JInt 0), (''failure_category'', JNull),
       (''resource_count'', JInt 1)])"

definition b1_account_block :: b1_source where
  "b1_account_block = (2, DISCOVERY, ''s3.account-public-access-block'', ''s3.account-public-access-block'',
     ''s3:GetAccountPublicAccessBlock'', ST_UNAVAILABLE,
     JObj [(''account_id'', JStr ''111122223333''), (''complete'', JBool False), (''configured'', JBool False),
       (''expected_absence'', JBool False), (''failure_category'', JStr ''TIMEOUT''), (''public_access_block'', JNull)])"

definition b1_location :: b1_source where
  "b1_location = (3, ENRICHMENT, ''s3.bucket-location'', ''s3.bucket-location'', ''s3:GetBucketLocation'', ST_PRESENT,
     JObj [(''account_id'', JStr ''111122223333''), (''bucket_arn'', JStr ''arn:aws:s3:::b1''),
       (''bucket_name'', JStr ''b1''), (''bucket_region'', JStr ''us-east-1''), (''complete'', JBool True),
       (''failure_category'', JNull), (''legacy_bucket_region'', JNull), (''list_bucket_region'', JNull),
       (''location_constraint'', JNull), (''resource_not_found'', JBool False)])"

definition b1_projection :: json where
  "b1_projection = JObj [(''Rules'', JList [JObj [(''ApplyServerSideEncryptionByDefault'',
     JObj [(''SSEAlgorithm'', JStr ''AES256'')])]])]"

definition b1_encryption_value :: json where
  "b1_encryption_value = JObj [(''rules'', JList [JObj [(''blocked_encryption_types'', JList []),
     (''bucket_key_enabled'', JNull), (''key_management'', JStr ''S3_MANAGED''), (''kms_key_reference'', JNull),
     (''kms_reference_explicit'', JBool False), (''sse_algorithm'', JStr ''AES256'')]])]"

definition bucket_payload :: "bool \<Rightarrow> json \<Rightarrow> json \<Rightarrow> json" where
  "bucket_payload whole legacy v =
     JObj [(''account_id'', JStr ''111122223333''), (''bucket_arn'', JStr ''arn:aws:s3:::b1''),
       (''bucket_name'', JStr ''b1''), (''bucket_region'', JStr ''us-east-1''), (''complete'', JBool whole),
       (''expected_absence'', JBool False), (''failure_category'', if whole then JNull else JStr ''TIMEOUT''),
       (''legacy_projection'', legacy), (''value'', v)]"

definition unavailable_source :: "uuid \<Rightarrow> string \<Rightarrow> string \<Rightarrow> b1_source" where
  "unavailable_source i kind api = (i, ENRICHMENT, kind, kind, api, ST_UNAVAILABLE, bucket_payload False JNull JNull)"

definition b1_encryption :: b1_source where
  "b1_encryption = (4, ENRICHMENT, ''s3.bucket-encryption'', ''s3.bucket-encryption'',
     ''s3:GetEncryptionConfiguration'', ST_PRESENT, bucket_payload True b1_projection b1_encryption_value)"

definition b1_sources :: "b1_source list" where
  "b1_sources =
     [b1_listing, b1_account_block, b1_location, b1_encryption,
      unavailable_source 5 ''s3.bucket-acl'' ''s3:GetBucketAcl'',
      unavailable_source 6 ''s3.bucket-ownership-controls'' ''s3:GetBucketOwnershipControls'',
      unavailable_source 7 ''s3.bucket-policy'' ''s3:GetBucketPolicy'',
      unavailable_source 8 ''s3.bucket-policy-status'' ''s3:GetBucketPolicyStatus'',
      unavailable_source 9 ''s3.bucket-public-access-block'' ''s3:GetBucketPublicAccessBlock'',
      unavailable_source 10 ''s3.bucket-tags'' ''s3:GetBucketTagging'',
      unavailable_source 11 ''s3.bucket-versioning'' ''s3:GetBucketVersioning'']"

subsection \<open>The graph\<close>

definition b1_ids :: "(string \<times> uuid) list" where
  "b1_ids =
     [(''s3.buckets'', 1), (''s3.account-public-access-block'', 2), (''s3.bucket-location'', 3),
      (''s3.bucket-encryption'', 4), (''s3.bucket-acl'', 5), (''s3.bucket-ownership-controls'', 6), (''s3.bucket-policy'', 7),
      (''s3.bucket-policy-status'', 8), (''s3.bucket-public-access-block'', 9), (''s3.bucket-tags'', 10),
      (''s3.bucket-versioning'', 11)]"

text \<open>The quoted text that stands after a prefix.\<close>

definition text_after :: "string \<Rightarrow> string \<Rightarrow> string option" where
  "text_after pre s =
     (if starts_with pre s then Some (takeWhile (\<lambda>c. c \<noteq> CHR 0x22) (drop (length pre) s)) else None)"

definition outcome_prefix :: string where
  "outcome_prefix = ''{'' @ json_quote ''collection_account_id'' @ '':'' @ json_quote ''111122223333'' @ '','' @
     json_quote ''collector'' @ '':'' @ [CHR 0x22]"

definition reference_prefix :: string where
  "reference_prefix = ''{'' @ json_quote ''evidence_reference'' @ '':'' @ [CHR 0x22] @ ''normalized://''"

definition b1_uuid :: "string \<Rightarrow> uuid" where
  "b1_uuid name =
     (case Option.bind (text_after outcome_prefix name) (map_of b1_ids) of
        Some i \<Rightarrow> i
      | None \<Rightarrow>
          (case Option.bind (text_after reference_prefix name) (map_of b1_ids) of Some i \<Rightarrow> 20 + i | None \<Rightarrow> 0))"

definition bucket_env :: env where
  "bucket_env = \<lparr>sha = (\<lambda>_. replicate 64 (CHR ''a'')), uuid5_of = (\<lambda>_. b1_uuid),
     tick = (\<lambda>_. Naive), fresh = (\<lambda>i. i), in_tx = False, pending = False, dialect_of = POSTGRESQL, down = False\<rparr>"

definition b1_bucket_subject :: resource_subject where
  "b1_bucket_subject =
     \<lparr>sj_account = ''111122223333'', sj_service = ''s3'', sj_type = ''s3_bucket'', sj_aws_id = ''b1'',
      sj_scope = SCOPE_REGIONAL, sj_region = Some ''us-east-1'', sj_stable_id = 0, sj_snapshot_id = 0\<rparr>"

definition b1_subject :: "collection_phase \<Rightarrow> subject" where
  "b1_subject phase =
     (if phase = DISCOVERY then AccountSubject ''111122223333'' SCOPE_GLOBAL None else ResourceSubject b1_bucket_subject)"

definition b1_contract :: "b1_source \<Rightarrow> source_contract" where
  "b1_contract = (\<lambda>(i, phase, collector, kind, api, state, payload).
     \<lparr>sd_key = kind, sd_contract_version = ''1.0.0'', sd_outcome_id = i, sd_scan_id = 5, sd_account = ''111122223333'',
      sd_phase = phase, sd_subject = b1_subject phase, sd_kind = kind, sd_collector = collector, sd_version = ''1.0.0'',
      sd_api = api, sd_cardinality = (if i = 1 then CARD_COLLECTION else CARD_SINGLE),
      sd_owner_mode = OWN_COLLECTION_ACCOUNT, sd_authoritative = (i = 3), sd_supplemental = False\<rparr>)"

definition b1_observation :: "b1_source \<Rightarrow> source_outcome" where
  "b1_observation = (\<lambda>(i, phase, collector, kind, api, state, payload).
     \<lparr>so_id = i, so_scan_id = 5, so_account = ''111122223333'', so_phase = phase, so_subject = b1_subject phase,
      so_kind = kind, so_state = state, so_failure = (if state = ST_PRESENT then None else Some FC_TIMEOUT),
      so_collector = collector, so_collector_version = ''1.0.0'', so_api = api, so_collected_at = 1000,
      so_reference = ''normalized://'' @ collector, so_sha = replicate 64 (CHR ''a'')\<rparr>)"

definition b1_evidence :: "b1_source \<Rightarrow> graph_artifact" where
  "b1_evidence = (\<lambda>(i, phase, collector, kind, api, state, payload).
     \<lparr>ga_id = 20 + i, ga_scan_id = 5, ga_account = ''111122223333'', ga_reference = ''normalized://'' @ collector,
      ga_sha = replicate 64 (CHR ''a''), ga_schema = kind, ga_schema_version = ''1.0.0'', ga_collected_at = 1000,
      ga_payload = payload\<rparr>)"

definition bucket_graph :: evidence_graph where
  "bucket_graph =
     \<lparr>eg_scan_id = 5, eg_account = ''111122223333'', eg_collected_at = 1000, eg_sources = map b1_contract b1_sources,
      eg_artifacts = map b1_evidence b1_sources, eg_outcomes = map b1_observation b1_sources, eg_relationships = []\<rparr>"

lemma pred_option_cases [code]: "pred_option P None = True" "pred_option P (Some x) = P x"
  by simp_all

subsection \<open>Its records are valid\<close>


definition b1_names :: "string list" where
  "b1_names = ''s3.buckets.discovery'' # map fst b1_ids"

lemma b1_name_texts: "list_all (\<lambda>s. trim_text s = s \<and> trim_text (''normalized://'' @ s) = ''normalized://'' @ s) b1_names"
  by code_simp
lemma b1_name_patterns: "list_all (\<lambda>s. contract_key_pattern s \<and> length s \<le> 128 \<and> kind_pattern s \<and> collector_pattern s) b1_names"
  by code_simp
lemma b1_reference_patterns: "list_all (\<lambda>s. normalized_reference (''normalized://'' @ s) \<and> reference_pattern (''normalized://'' @ s)) b1_names"
  by code_simp
text \<open>The hashed text of an outcome begins with its account and its collector.\<close>

lemma canon_in_order:
  assumes "mset xs = mset ys" "sorted (map fst ys)" "distinct (map fst ys)"
  shows "canon (JObj xs) = JObj (map (\<lambda>(k, v). (k, canon v)) ys)"
proof -
  have "distinct (map fst xs)" using assms(1,3) by (metis mset_eq_imp_distinct_iff mset_map)
  then have "canon (JObj xs) = canon (JObj ys)" using assms(1) canon_perm by blast
  moreover have "sorted (map fst (map (\<lambda>(k, v). (k, canon v)) ys))" using assms(2) by (simp only: map_fst_canon)
  ultimately show ?thesis by (simp add: sort_key_id_if_sorted)
qed

lemma outcome_seed_begins:
  obtains rest where "source_outcome_seed scan account phase j kind collector version api =
    ''{'' @ json_quote ''collection_account_id'' @ '':'' @ json_quote account @ '','' @ json_quote ''collector'' @ '':'' @
    json_quote collector @ rest"
proof -
  let ?ys = "[(''collection_account_id'', JStr account), (''collector'', JStr collector), (''collector_version'', JStr version),
    (''evidence_kind'', JStr kind), (''phase'', JStr (phase_text phase)), (''scan_id'', JStr (uuid_text scan)),
    (''source_api'', JStr api), (''subject'', JObj (filter (\<lambda>kv. fst kv \<noteq> ''resource_snapshot_id'') (subject_document j)))]"
  have "sorted [''collection_account_id'', ''collector'', ''collector_version'', ''evidence_kind'', ''phase'', ''scan_id'', ''source_api'', ''subject'']"
    by code_simp
  then have "source_outcome_seed scan account phase j kind collector version api = compact_text (JObj (map (\<lambda>(k, v). (k, canon v)) ?ys))"
    unfolding source_outcome_seed_def canonical_text_def by (subst canon_in_order [of _ ?ys]) simp_all
  then show thesis using that by simp
qed

lemma text_after_prefix:
  assumes "CHR 0x22 \<notin> set s"
  shows "text_after pre (pre @ s @ CHR 0x22 # rest) = Some s"
proof -
  have "takeWhile (\<lambda>c. c \<noteq> CHR 0x22) (s @ CHR 0x22 # rest) = s" using assms by (induction s) auto
  then show ?thesis by (simp add: text_after_def starts_with_def)
qed

lemma b1_plain: "list_all (\<lambda>s. json_quote s = [CHR 0x22] @ s @ [CHR 0x22] \<and> CHR 0x22 \<notin> set s \<and>
    json_quote (''normalized://'' @ s) = [CHR 0x22] @ ''normalized://'' @ s @ [CHR 0x22]) b1_names"
  by code_simp

lemma b1_outcome_uuid:
  assumes "(collector, i) \<in> set b1_ids"
  shows "source_outcome_id bucket_env scan ''111122223333'' phase j kind collector version api = i"
proof -
  obtain rest where seed: "source_outcome_seed scan ''111122223333'' phase j kind collector version api =
    ''{'' @ json_quote ''collection_account_id'' @ '':'' @ json_quote ''111122223333'' @ '','' @ json_quote ''collector'' @ '':'' @
    json_quote collector @ rest" by (rule outcome_seed_begins)
  have name: "collector \<in> set b1_names" using assms by (force simp: b1_names_def)
  then have plain: "json_quote collector = [CHR 0x22] @ collector @ [CHR 0x22]" "CHR 0x22 \<notin> set collector"
    using b1_plain unfolding list_all_iff by blast+
  have "text_after outcome_prefix (source_outcome_seed scan ''111122223333'' phase j kind collector version api) = Some collector"
    using text_after_prefix [OF plain(2), of outcome_prefix rest] unfolding seed plain(1) outcome_prefix_def by simp
  moreover have "map_of b1_ids collector = Some i" using assms by (auto simp: b1_ids_def)
  ultimately show ?thesis by (simp add: source_outcome_id_def bucket_env_def b1_uuid_def)
qed

lemma prefix_heads:
  obtains p q where "outcome_prefix = CHR ''{'' # CHR 0x22 # CHR ''c'' # p" "reference_prefix = CHR ''{'' # CHR 0x22 # CHR ''e'' # q"
proof -
  have "outcome_prefix = CHR ''{'' # CHR 0x22 # CHR ''c'' # drop 3 outcome_prefix"
    "reference_prefix = CHR ''{'' # CHR 0x22 # CHR ''e'' # drop 3 reference_prefix" by code_simp+
  then show thesis by (rule that)
qed

lemma b1_uuid_reference:
  assumes "map_of b1_ids s = Some i" "CHR 0x22 \<notin> set s"
  shows "b1_uuid (reference_prefix @ s @ CHR 0x22 # rest) = 20 + i"
proof -
  obtain p q where heads: "outcome_prefix = CHR ''{'' # CHR 0x22 # CHR ''c'' # p"
    "reference_prefix = CHR ''{'' # CHR 0x22 # CHR ''e'' # q" by (rule prefix_heads)
  have "text_after outcome_prefix (reference_prefix @ s @ CHR 0x22 # rest) = None"
    by (simp add: heads text_after_def starts_with_def)
  then show ?thesis using text_after_prefix [OF assms(2), of reference_prefix rest] assms(1) by (simp add: b1_uuid_def)
qed

lemma b1_uuid_other:
  assumes "c \<noteq> CHR ''{''"
  shows "b1_uuid (c # s) = 0"
proof -
  obtain p q where heads: "outcome_prefix = CHR ''{'' # CHR 0x22 # CHR ''c'' # p"
    "reference_prefix = CHR ''{'' # CHR 0x22 # CHR ''e'' # q" by (rule prefix_heads)
  show ?thesis using assms by (simp add: heads b1_uuid_def text_after_def starts_with_def)
qed

lemma b1_artifact_uuid:
  assumes "(collector, i) \<in> set b1_ids"
  shows "graph_artifact_id bucket_env 5 (''normalized://'' @ collector) = 20 + i"
proof -
  have name: "collector \<in> set b1_names" using assms by (force simp: b1_names_def)
  then have plain: "json_quote (''normalized://'' @ collector) = [CHR 0x22] @ ''normalized://'' @ collector @ [CHR 0x22]"
    "CHR 0x22 \<notin> set collector"
    using b1_plain unfolding list_all_iff by blast+
  let ?rest = "'','' @ json_quote ''scan_id'' @ '':'' @ json_quote (uuid_text 5) @ ''}''"
  have "sorted [''evidence_reference'', ''scan_id'']" by code_simp
  then have "canonical_text (JObj [(''evidence_reference'', JStr (''normalized://'' @ collector)), (''scan_id'', JStr (uuid_text 5))]) =
      ''{'' @ json_quote ''evidence_reference'' @ '':'' @ json_quote (''normalized://'' @ collector) @ ?rest"
    unfolding canonical_text_def by (subst canon_in_order [OF refl]) simp_all
  also have "\<dots> = reference_prefix @ collector @ CHR 0x22 # ?rest"
    unfolding plain(1) reference_prefix_def by simp
  finally have seed: "canonical_text (JObj [(''evidence_reference'', JStr (''normalized://'' @ collector)), (''scan_id'', JStr (uuid_text 5))]) =
      reference_prefix @ collector @ CHR 0x22 # ?rest" .
  have "map_of b1_ids collector = Some i" using assms by (auto simp: b1_ids_def)
  then have "b1_uuid (reference_prefix @ collector @ CHR 0x22 # ?rest) = 20 + i" using plain(2) by (rule b1_uuid_reference)
  then show ?thesis unfolding graph_artifact_id_def seed by (simp add: bucket_env_def)
qed

lemma b1_bucket_ids:
  "stable_resource_id bucket_env ''aws'' ''111122223333'' ''s3'' ''s3_bucket'' SCOPE_REGIONAL ''us-east-1'' ''b1'' = 0"
  "resource_snapshot_id bucket_env 5 ''111122223333'' ''s3'' ''s3_bucket'' SCOPE_REGIONAL ''us-east-1'' ''b1'' = 0"
proof -
  have "uuid_text 5 = CHR ''0'' # drop 1 (uuid_text 5)" by code_simp
  then obtain u where u: "uuid_text 5 = CHR ''0'' # u" ..
  show "stable_resource_id bucket_env ''aws'' ''111122223333'' ''s3'' ''s3_bucket'' SCOPE_REGIONAL ''us-east-1'' ''b1'' = 0"
    by (simp add: stable_resource_id_def bucket_env_def b1_uuid_other)
  show "resource_snapshot_id bucket_env 5 ''111122223333'' ''s3'' ''s3_bucket'' SCOPE_REGIONAL ''us-east-1'' ''b1'' = 0"
    by (simp add: resource_snapshot_id_def bucket_env_def b1_uuid_other u)
qed

subsection \<open>Its records are made\<close>

lemma b1_shape:
  "list_all (\<lambda>(i, phase, collector, kind, api, state, payload).
     (collector, i) \<in> set b1_ids \<and> collector \<in> set b1_names \<and> kind \<in> set b1_names) b1_sources"
  "list_all (\<lambda>(i, phase, collector, kind, api, state, payload). api_pattern api \<and> trim_text api = api) b1_sources"
  "list_all (\<lambda>(i, phase, collector, kind, api, state, payload). state \<in> {ST_PRESENT, ST_UNAVAILABLE}) b1_sources"
  by code_simp+

definition b1_payloads :: "json list" where
  "b1_payloads = map (\<lambda>(i, phase, collector, kind, api, state, payload). payload)
     [b1_listing, b1_account_block, b1_location, b1_encryption, unavailable_source 0 [] []]"

lemma b1_payloads_only:
  assumes "(i, phase, collector, kind, api, state, payload) \<in> set b1_sources"
  shows "payload \<in> set b1_payloads"
  using assms by (auto simp: b1_sources_def b1_payloads_def unavailable_source_def case_prod_beta prod_eq_iff)

lemma b1_payload_ok: "list_all is_obj b1_payloads" "list_all (\<lambda>j. canon j = j) b1_payloads"
  by code_simp+

lemma b1_payload_free: "list_all sensitive_free b1_payloads"
  by code_simp

lemma b1_texts:
  "trim_text ''111122223333'' = ''111122223333''" "trim_text ''us-east-1'' = ''us-east-1''" "trim_text ''1.0.0'' = ''1.0.0''"
  "trim_text ''s3'' = ''s3''" "trim_text ''s3_bucket'' = ''s3_bucket''" "trim_text ''b1'' = ''b1''"
  "trim_text (replicate 64 (CHR ''a'')) = replicate 64 (CHR ''a'')"
  by code_simp+

lemma b1_patterns:
  "account_pattern ''111122223333''" "owner_pattern ''111122223333''" "version_pattern ''1.0.0''" "service_pattern ''s3''"
  "type_pattern ''s3_bucket''" "separator_free ''b1''" "separator_free ''us-east-1''" "sha256_pattern (replicate 64 (CHR ''a''))"
  by code_simp+

lemma b1_subject_ok:
  "subject_ok bucket_env (b1_subject phase)" "phase_subject_ok bucket_env 5 ''111122223333'' phase (b1_subject phase)"
  by (cases phase; simp add: b1_subject_def subject_ok_def b1_patterns scope_region_ok_def resource_subject_ok_def
      resource_identity_ok_def b1_bucket_subject_def region_text_def canonical_scope_ok_def canonical_resource_scope_def
      canonical_resource_scopes_def resource_owner_ok_def b1_bucket_ids phase_subject_ok_def subject_snapshot_id_def)+

lemma b1_subject_trimmed: "trim_subject (b1_subject phase) = b1_subject phase"
  by (simp add: b1_subject_def trim_subject_def b1_bucket_subject_def b1_texts)

lemma b1_subject_owner: "expected_owner_mode ''111122223333'' (b1_subject phase) = OWN_COLLECTION_ACCOUNT"
  by (simp add: expected_owner_mode_def b1_subject_def b1_bucket_subject_def)

lemma b1_digest: "json_digest bucket_env j = replicate 64 (CHR ''a'')"
  by (simp add: json_digest_def bucket_env_def)

lemma b1_record:
  assumes "(i, phase, collector, kind, api, state, payload) \<in> set b1_sources"
  shows "(collector, i) \<in> set b1_ids" "trim_text collector = collector" "trim_text kind = kind" "trim_text api = api"
    "trim_text (''normalized://'' @ collector) = ''normalized://'' @ collector" "contract_key_pattern kind \<and> length kind \<le> 128"
    "kind_pattern kind" "collector_pattern collector" "api_pattern api" "normalized_reference (''normalized://'' @ collector)"
    "reference_pattern (''normalized://'' @ collector)" "sensitive_free payload" "is_obj payload" "canon payload = payload"
    "failure_matches state (if state = ST_PRESENT then None else Some FC_TIMEOUT)" "state \<noteq> ST_RESOURCE_DISAPPEARED"
proof -
  have "(collector, i) \<in> set b1_ids \<and> collector \<in> set b1_names \<and> kind \<in> set b1_names"
    "api_pattern api \<and> trim_text api = api" "state \<in> {ST_PRESENT, ST_UNAVAILABLE}"
    using b1_shape assms unfolding list_all_iff by fast+
  moreover have "sensitive_free payload" "is_obj payload" "canon payload = payload"
    using b1_payloads_only [OF assms] b1_payload_ok b1_payload_free unfolding list_all_iff by blast+
  ultimately have s: "(collector, i) \<in> set b1_ids" "collector \<in> set b1_names" "kind \<in> set b1_names" "api_pattern api"
    "trim_text api = api" "sensitive_free payload" "is_obj payload" "canon payload = payload"
    "state \<in> {ST_PRESENT, ST_UNAVAILABLE}" by blast+
  note facts = b1_name_texts b1_name_patterns b1_reference_patterns
  show "(collector, i) \<in> set b1_ids" "api_pattern api" "trim_text api = api" "sensitive_free payload" "is_obj payload"
    "canon payload = payload" by (rule s)+
  show "trim_text collector = collector" "trim_text kind = kind" "contract_key_pattern kind \<and> length kind \<le> 128" "kind_pattern kind"
    "collector_pattern collector" "trim_text (''normalized://'' @ collector) = ''normalized://'' @ collector"
    "normalized_reference (''normalized://'' @ collector)" "reference_pattern (''normalized://'' @ collector)"
    using facts s(2,3) unfolding list_all_iff by blast+
  show "failure_matches state (if state = ST_PRESENT then None else Some FC_TIMEOUT)" "state \<noteq> ST_RESOURCE_DISAPPEARED"
    using s(9) by (auto simp: unavailable_categories_def)
qed

lemma b1_contract_made:
  assumes "x \<in> set b1_sources"
  shows "make_contract bucket_env (b1_contract x) = Some (b1_contract x)"
proof (rule contracts.make_fixed)
  obtain i phase collector kind api state payload where x: "x = (i, phase, collector, kind, api, state, payload)" by (cases x)
  note r = b1_record [OF assms [unfolded x]]
  show "trim_contract (b1_contract x) = b1_contract x"
    by (simp add: x trim_contract_def b1_contract_def b1_subject_trimmed b1_texts r(2-4))
  show "contract_ok bucket_env (b1_contract x)"
    by (simp add: x contract_ok_def b1_contract_def b1_subject_ok b1_subject_owner b1_patterns r(6-9) b1_outcome_uuid [OF r(1)])
qed

lemma b1_outcome_made:
  assumes "x \<in> set b1_sources"
  shows "make_outcome bucket_env (b1_observation x) = Some (b1_observation x)"
proof (rule outcomes.make_fixed)
  obtain i phase collector kind api state payload where x: "x = (i, phase, collector, kind, api, state, payload)" by (cases x)
  note r = b1_record [OF assms [unfolded x]]
  show "trim_outcome (b1_observation x) = b1_observation x"
    using r(5) by (simp add: x trim_outcome_def b1_observation_def b1_subject_trimmed b1_texts r(2-4))
  show "outcome_ok bucket_env (b1_observation x)"
    using r(11,15,16)
    by (simp add: x outcome_ok_def b1_observation_def b1_subject_ok b1_patterns r(7-9) b1_outcome_uuid [OF r(1)])
qed

lemma b1_artifact_made:
  assumes "x \<in> set b1_sources"
  shows "make_graph_artifact bucket_env (b1_evidence x) = Some (b1_evidence x)"
proof (rule graph_artifacts.make_fixed)
  obtain i phase collector kind api state payload where x: "x = (i, phase, collector, kind, api, state, payload)" by (cases x)
  note r = b1_record [OF assms [unfolded x]]
  show "trim_graph_artifact (b1_evidence x) = b1_evidence x"
    using r(5) by (simp add: x trim_graph_artifact_def b1_evidence_def b1_texts r(2-4,14))
  show "graph_artifact_ok bucket_env (b1_evidence x)"
    using r(10) b1_artifact_uuid [OF r(1)]
    by (simp add: x graph_artifact_ok_def b1_evidence_def b1_digest b1_patterns r(6,7,12,13))
qed

subsection \<open>The graph is valid\<close>

lemma b1_sorted:
  "deduplicate sd_outcome_id (map b1_contract b1_sources) = Some (map b1_contract b1_sources)"
  "deduplicate ga_id (map b1_evidence b1_sources) = Some (map b1_evidence b1_sources)"
  "deduplicate so_id (map b1_observation b1_sources) = Some (map b1_observation b1_sources)"
proof -
  have ids: "map sd_outcome_id (map b1_contract b1_sources) = [1, 2, 3, 4, 5, 6, 7, 8, 9, 10, 11]"
    "map ga_id (map b1_evidence b1_sources) = [21, 22, 23, 24, 25, 26, 27, 28, 29, 30, 31]"
    "map so_id (map b1_observation b1_sources) = [1, 2, 3, 4, 5, 6, 7, 8, 9, 10, 11]"
    by code_simp+
  show "deduplicate sd_outcome_id (map b1_contract b1_sources) = Some (map b1_contract b1_sources)"
    by (rule deduplicate_canonical) (simp_all only: ids, simp_all)
  show "deduplicate ga_id (map b1_evidence b1_sources) = Some (map b1_evidence b1_sources)"
    by (rule deduplicate_canonical) (simp_all only: ids, simp_all)
  show "deduplicate so_id (map b1_observation b1_sources) = Some (map b1_observation b1_sources)"
    by (rule deduplicate_canonical) (simp_all only: ids, simp_all)
qed

lemma bucket_graph_settled: "settled_graph bucket_env bucket_graph"
  using b1_contract_made b1_artifact_made b1_outcome_made b1_sorted
  by (simp add: settled_graph_def bucket_graph_def b1_texts deduplicate_relationships_def
      deduplicate_canonical)

lemma bucket_graph_ok: "graph_ok bucket_env bucket_graph []"
  by code_simp

lemma bucket_graph_made: "make_graph bucket_env bucket_graph = Some bucket_graph"
proof -
  have "eg_relationships bucket_graph = []" by (simp add: bucket_graph_def)
  then show ?thesis using make_graph_of_settled [OF bucket_graph_settled] bucket_graph_ok by simp
qed

subsection \<open>The snapshot\<close>

definition b1_configuration :: "(string \<times> json) list" where
  "b1_configuration =
     [(''creation_date'', JNull), (''bucket_region'', JStr ''us-east-1''), (''default_encryption'', b1_projection),
      (''public_access_block'', JNull), (''account_public_access_block'', JNull), (''policy'', JNull),
      (''policy_status'', JNull), (''acl'', JNull), (''versioning'', JNull), (''encryption'', b1_encryption_value),
      (''ownership_controls'', JNull),
      (''source_states'', JObj ((''encryption'', JStr ''PRESENT'') #
         map (\<lambda>k. (k, JStr ''UNAVAILABLE'')) [''account_public_access_block'', ''acl'', ''ownership_controls'', ''policy'',
           ''policy_status'', ''public_access_block'', ''tags'', ''versioning'']))]"

definition b1_resource :: resource where
  "b1_resource =
     \<lparr>nr_account = ''111122223333'', nr_service = ''s3'', nr_type = ''s3_bucket'', nr_aws_id = ''b1'',
      nr_arn = Some ''arn:aws:s3:::b1'', nr_name = Some ''b1'', nr_scope = SCOPE_REGIONAL, nr_region = Some ''us-east-1'',
      nr_tags = [], nr_configuration = b1_configuration, nr_raw_configuration = b1_configuration\<rparr>"

definition bucket_snapshot :: snapshot where
  "bucket_snapshot =
     \<lparr>iv_scan_id = 5, iv_account = ''111122223333'', iv_region = ''us-east-1'', iv_collected_at = 1000,
      iv_outcomes = [(''s3_buckets'', COL_PARTIAL)], iv_resources = [b1_resource], iv_graph = Some bucket_graph\<rparr>"

lemma b1_index: "index_resources bucket_env 5 [b1_resource] [] = Some [(0, b1_resource)]"
proof -
  have "resource_snapshot bucket_env 5 b1_resource = 0"
    by (simp add: resource_snapshot_def b1_resource_def region_text_def b1_bucket_ids)
  moreover have "resource_scope_ok b1_resource"
    by (simp add: resource_scope_ok_def b1_resource_def canonical_resource_scope_def canonical_resource_scopes_def)
  ultimately show ?thesis by simp
qed

lemma b1_regions: "bucket_regions_of bucket_env (eg_outcomes bucket_graph) (eg_artifacts bucket_graph) (eg_sources bucket_graph) =
    Some (Some (True, [(''b1'', ''us-east-1'')]))"
  by code_simp

definition b1_read :: "read_source list" where
  "b1_read =
     ((0, ''s3.bucket-encryption''), ST_PRESENT, b1_encryption_value, b1_projection) #
     map (\<lambda>kind. ((0, kind), ST_UNAVAILABLE, JNull, JNull))
       [''s3.bucket-acl'', ''s3.bucket-ownership-controls'', ''s3.bucket-policy'', ''s3.bucket-policy-status'',
        ''s3.bucket-public-access-block'', ''s3.bucket-tags'', ''s3.bucket-versioning'']"

definition b1_listed :: "(string \<times> json) list" where
  "b1_listed =
     [(''b1'', JObj [(''bucket_arn'', JStr ''arn:aws:s3:::b1''), (''bucket_name'', JStr ''b1''), (''creation_date'', JNull),
        (''list_bucket_region'', JNull)])]"

lemma b1_reads: "those (map (read_source_of bucket_env (eg_artifacts bucket_graph))
    (filter (\<lambda>so. so_collector so \<in> set (map fst bucket_projection)) (eg_outcomes bucket_graph))) = Some b1_read"
  by code_simp

lemma b1_read_distinct: "distinct (map fst b1_read)"
  by code_simp

lemma b1_read_back: "bucket_read_back (ST_UNAVAILABLE, JNull) b1_listed (\<lambda>kind. map_of b1_read (0, kind)) b1_resource"
  by code_simp

lemma b1_buckets: "buckets_read_back bucket_env bucket_graph [(0, b1_resource)] b1_listed (ST_UNAVAILABLE, JNull)"
proof -
  have "list_all (\<lambda>i. i = 0) (map (fst \<circ> fst) b1_read)" by (simp add: b1_read_def)
  then show ?thesis
    using b1_read_back b1_read_distinct unfolding buckets_read_back_def b1_reads by (auto simp: list_all_iff)
qed

lemma b1_discovery:
  "filter (\<lambda>so. so_collector so = ''s3.buckets'' \<and> so_kind so = ''s3.buckets.discovery'') (eg_outcomes bucket_graph) =
     [b1_observation b1_listing]"
  "filter (\<lambda>so. so_collector so = ''s3.account-public-access-block'') (eg_outcomes bucket_graph) = [b1_observation b1_account_block]"
  "Option.bind (cited_payload (eg_artifacts bucket_graph) ''s3.buckets.discovery'' (b1_observation b1_listing)) listed_by_name =
     Some b1_listed"
  by code_simp+

lemma b1_account:
  "map_option (jget ''public_access_block'')
     (cited_payload (eg_artifacts bucket_graph) ''s3.account-public-access-block'' (b1_observation b1_account_block)) = Some JNull"
  "so_state (b1_observation b1_account_block) = ST_UNAVAILABLE"
  "bucket_value_ok bucket_env ''s3.bucket-public-access-block'' ST_UNAVAILABLE JNull"
  "keys_read_back bucket_graph [(0, b1_resource)]"
  by code_simp+

lemma b1_storage: "storage_read_back bucket_env bucket_graph [(0, b1_resource)]"
  using b1_account b1_buckets
  unfolding storage_read_back_def b1_discovery(1,2) list.case b1_discovery(3) option.case by (auto simp: Let_def)

lemma b1_trails: "trails_read_back bucket_graph [(0, b1_resource)] ''us-east-1''"
  by code_simp

lemma b1_subjects: "subjects_observed [(0, b1_resource)] (eg_outcomes bucket_graph)"
  by code_simp

lemma b1_discoveries:
  "list_all (discovery_region_ok ''us-east-1'' [''us-east-1'']) (eg_sources bucket_graph)"
  "analyzer_regions_ok ''us-east-1'' [''us-east-1''] (eg_sources bucket_graph)"
  by code_simp+

lemma b1_keys: "list_all (\<lambda>so. case resource_of so of
    None \<Rightarrow> True | Some r \<Rightarrow> key_buckets bucket_graph (sj_snapshot_id r) \<noteq> None) (eg_outcomes bucket_graph)"
  by code_simp

lemma b1_admitted: "admitted_by_graph bucket_graph ''us-east-1'' (Some (True, [(''b1'', ''us-east-1'')])) (0, b1_resource)"
  by code_simp

lemma bucket_snapshot_ok: "snapshot_ok bucket_env bucket_snapshot"
proof -
  have fields: "eg_scan_id bucket_graph = 5" "eg_account bucket_graph = ''111122223333''" "eg_collected_at bucket_graph = 1000"
    "eg_relationships bucket_graph = []"
    by (simp_all add: bucket_graph_def)
  have found: "bucket_regions account (Some (True, [(''b1'', ''us-east-1'')])) rs = [''us-east-1'']" for account rs
    by (simp add: bucket_regions_def)
  have "index_ok bucket_env bucket_graph ''us-east-1'' (Some (True, [(''b1'', ''us-east-1'')])) [b1_resource] [(0, b1_resource)]"
    using b1_discoveries b1_storage b1_trails b1_subjects b1_keys b1_admitted
    unfolding index_ok_def found Let_def fields(4) by (simp add: list_all_iff)
  then show ?thesis
    unfolding snapshot_ok_def graph_resources_ok_def bucket_snapshot_def
    by (simp only: snapshot.simps fields b1_index b1_regions option.case prod.case) simp
qed

lemma b1_held:
  "has_s3_discovery (eg_outcomes bucket_graph)"
  "b1_observation b1_encryption \<in> set (eg_outcomes bucket_graph)"
  "so_collector (b1_observation b1_encryption) = ''s3.bucket-encryption''"
  "so_state (b1_observation b1_encryption) = ST_PRESENT"
  "resource_of (b1_observation b1_encryption) = Some b1_bucket_subject"
  "b1_resource \<in> set (iv_resources bucket_snapshot)" "resource_key b1_resource = subject_key b1_bucket_subject"
  "iv_graph bucket_snapshot = Some bucket_graph"
proof -
  show "has_s3_discovery (eg_outcomes bucket_graph)" by code_simp
  show "b1_observation b1_encryption \<in> set (eg_outcomes bucket_graph)" by (simp add: bucket_graph_def b1_sources_def)
qed (simp_all add: b1_observation_def b1_encryption_def resource_of_def b1_subject_def bucket_snapshot_def resource_key_def
    subject_key_def b1_resource_def b1_bucket_subject_def)

end
