(* ===== verification/Snapshot_Properties.thy ===== *)
theory Snapshot_Properties
  imports Snapshot_Scenario
begin

text \<open>The properties of a snapshot that was validated against its evidence graph.\<close>

text \<open>C35. A resource of another owner is part of a valid snapshot only with an authoritative, present source about
  exactly this resource, declared for its owner and bound by digest to an artifact of the graph; a resource of another
  account (not of AWS itself) is an end of a resolved relationship as well.\<close>

theorem foreign_resources_are_proven:
  assumes "make_graph env x = Some g" "snapshot_ok env s" "iv_graph s = Some g" "r \<in> set (iv_resources s)"
    "nr_account r \<noteq> iv_account s"
  shows "(\<exists>d so q a. d \<in> set (eg_sources g) \<and> so \<in> set (eg_outcomes g) \<and> sd_outcome_id d = so_id so \<and>
            sd_authoritative d \<and> sd_owner_mode d = owner_mode_of (iv_account s) r \<and> so_state so = ST_PRESENT \<and>
            resource_of so = Some q \<and> subject_key q = resource_key r \<and> a \<in> set (eg_artifacts g) \<and>
            ga_reference a = so_reference so \<and> so_sha so = json_digest env (ga_payload a)) \<and>
         (nr_account r \<noteq> ''aws'' \<longrightarrow>
            (\<exists>e t. e \<in> set (eg_relationships g) \<and> resolved_target e = Some t \<and>
              (resource_key r = endpoint_key (xr_source e) \<or> resource_key r = endpoint_key t)))"
proof (intro conjI impI)
  obtain d so q where p: "d \<in> set (eg_sources g)" "so \<in> set (eg_outcomes g)" "sd_outcome_id d = so_id so"
    "so_state so = ST_PRESENT" "resource_of so = Some q" "subject_key q = resource_key r"
    "sd_authoritative d" "sd_owner_mode d = owner_mode_of (iv_account s) r"
    using foreign_owner_proven [OF assms(2-5)] .
  then show "\<exists>d so q a. d \<in> set (eg_sources g) \<and> so \<in> set (eg_outcomes g) \<and> sd_outcome_id d = so_id so \<and>
      sd_authoritative d \<and> sd_owner_mode d = owner_mode_of (iv_account s) r \<and> so_state so = ST_PRESENT \<and>
      resource_of so = Some q \<and> subject_key q = resource_key r \<and> a \<in> set (eg_artifacts g) \<and>
      ga_reference a = so_reference so \<and> so_sha so = json_digest env (ga_payload a)"
    using outcome_has_artifact [OF assms(1) p(2)] by blast
next
  assume "nr_account r \<noteq> ''aws''"
  then show "\<exists>e t. e \<in> set (eg_relationships g) \<and> resolved_target e = Some t \<and>
      (resource_key r = endpoint_key (xr_source e) \<or> resource_key r = endpoint_key t)"
    using external_owner_resolved [OF assms(2-5)] by blast
qed

theorem foreign_resources_are_proven_witness:
  "\<exists>d so q a. d \<in> set (eg_sources policy_graph) \<and> so \<in> set (eg_outcomes policy_graph) \<and> sd_outcome_id d = so_id so \<and>
      sd_authoritative d \<and> sd_owner_mode d = OWN_AWS_MANAGED \<and> so_state so = ST_PRESENT \<and>
      resource_of so = Some q \<and> subject_key q = resource_key policy_resource \<and> a \<in> set (eg_artifacts policy_graph) \<and>
      ga_reference a = so_reference so \<and> so_sha so = json_digest graph_env (ga_payload a)"
proof -
  have facts: "iv_graph policy_snapshot = Some policy_graph" "policy_resource \<in> set (iv_resources policy_snapshot)"
    "nr_account policy_resource \<noteq> iv_account policy_snapshot"
    "owner_mode_of (iv_account policy_snapshot) policy_resource = OWN_AWS_MANAGED"
    by (simp_all add: policy_snapshot_def policy_resource_def owner_mode_of_def)
  then show ?thesis using foreign_resources_are_proven [OF policy_graph_made policy_snapshot_ok facts(1-3)]
    unfolding facts(4) by (elim conjE)
qed

text \<open>C34. A listed bucket with a present encryption source holds the value of an artifact with the digest of that
  source, and S3-900 decides from it alone: it passes, except for the two rules that the evidence accepts and the control
  does not know, a rule without an algorithm and \<open>aws:backup\<close>, for which the evidence is called insufficient.\<close>

theorem bucket_verdict_from_evidence:
  assumes "make_graph env x = Some g" "snapshot_ok env s" "iv_graph s = Some g" "has_s3_discovery (eg_outcomes g)"
    "so \<in> set (eg_outcomes g)" "so_collector so = ''s3.bucket-encryption''" "so_state so = ST_PRESENT"
    "resource_of so = Some q" "r \<in> set (iv_resources s)" "resource_key r = subject_key q"
  shows "(\<exists>a. a \<in> set (eg_artifacts g) \<and> ga_reference a = so_reference so \<and>
            so_sha so = json_digest env (ga_payload a) \<and>
            json_eq (jget ''encryption'' (configuration_of r)) (jget ''value'' (ga_payload a))) \<and>
         (\<exists>v. encryption_verdict r = Inr v \<and>
            fst v = (if list_ex unknown_to_control (encryption_rules r) then INSUFFICIENT_EVIDENCE else PASS))"
proof
  obtain p d n where p: "cited_payload (eg_artifacts g) (so_kind so) so = Some p"
    "json_eq (jget ''encryption'' (configuration_of r)) (jget ''value'' p)"
    "json_eq (jget ''default_encryption'' (configuration_of r)) d" "normalize_legacy_encryption d = Some n"
    using bucket_holds_evidence [OF assms] .
  obtain a where a: "a \<in> set (eg_artifacts g)" "ga_reference a = so_reference so" "ga_sha a = so_sha so" "ga_payload a = p"
    using cited_payload_Some [OF p(1)] .
  show "\<exists>a. a \<in> set (eg_artifacts g) \<and> ga_reference a = so_reference so \<and>
      so_sha so = json_digest env (ga_payload a) \<and>
      json_eq (jget ''encryption'' (configuration_of r)) (jget ''value'' (ga_payload a))"
    using a p(2) artifact_digest [OF assms(1) a(1)] by auto
  note accepted = accepted_encryption [OF p(4) p(3)]
  then show "\<exists>v. encryption_verdict r = Inr v \<and>
      fst v = (if list_ex unknown_to_control (encryption_rules r) then INSUFFICIENT_EVIDENCE else PASS)"
    by (auto simp: encryption_verdict_def split: option.splits)
qed

theorem bucket_verdict_from_evidence_witness:
  "(\<exists>a. a \<in> set (eg_artifacts bucket_graph) \<and> ga_reference a = so_reference (b1_observation b1_encryption) \<and>
      so_sha (b1_observation b1_encryption) = json_digest bucket_env (ga_payload a) \<and>
      json_eq (jget ''encryption'' (configuration_of b1_resource)) (jget ''value'' (ga_payload a))) \<and>
   (\<exists>v. encryption_verdict b1_resource = Inr v \<and> fst v = PASS)"
proof -
  have "\<not> list_ex unknown_to_control (encryption_rules b1_resource)" by code_simp
  then show ?thesis
    using bucket_verdict_from_evidence [OF bucket_graph_made bucket_snapshot_ok b1_held(8,1-7)] by simp
qed

end
