(* ===== verification/Spec2Isabelle.thy ===== *)
theory Spec2Isabelle
  imports Driver_Termination Results_History Control_Properties Verification_Properties Graph_Properties Snapshot_Properties
begin

text \<open>
  A model of cloud-security-automation (src/app). The program scans an AWS account, keeps the
  normalized evidence of the scan, judges controls on it, keeps the findings of the judgements, and
  lets three humans admit the one remediation it can carry out: turning on EBS encryption by default.
  The theories follow the program from the evidence to the remediation and its verification.

  \<^bold>\<open>The parts and how they interact.\<close> A scan produces resources and source outcomes; their records and
  relationships form an evidence graph (assessment/evidence_graph.py), which is validated against the
  resources of the inventory snapshot and stored in append-only tables (database/evidence_graph.py).
  Controls (rules/) read the snapshot and return one of four states per target; the engine
  (rules/engine.py) checks what they return. The validated results are persisted and reconciled into
  findings (database/persistence.py), which governance annotates (database/governance.py). A regional
  finding of EC2-004 can be proposed for remediation and approved (services/remediation_service.py),
  admitted for execution (services/remediation_execution_service.py), carried out by a worker process
  (remediation/worker_driver.py with the adapter worker_aws.py) whose every step is a transaction of
  services/remediation_worker_service.py, and verified by a later scan
  (services/remediation_verification_service.py, remediation/verification_evidence.py).

  \<^bold>\<open>Shared vocabulary.\<close>
  \<^item> Prelude: results of code that may raise (a sum, the exception on the left), keyed rows, the
    locales event_system, ranked_machine and transactional.
  \<^item> Json, Json_Text: JSON values as Python holds them, dict access, equality, canonical JSON text,
    and the text codecs of uuids.
  \<^item> Database: the rows of app/models, the documents they store, the environment of a call and the
    state-and-exception monad of a transaction.
  \<^item> Ip_Network: the part of the module ipaddress that the network controls use.

  \<^bold>\<open>Evidence.\<close>
  \<^item> Evidence_Records, Source_Outcomes, Relationships, Source_Contracts: the records of
    assessment/source_outcomes.py, relationships.py and evidence_graph.py with their validators and
    identifiers; every constructor is an instance of the locale validated_model.
  \<^item> Source_Payloads, CloudTrail_Sources, S3_Values, S3_Sources, Evidence_Edges: the normalized values
    of the S3, KMS and CloudTrail sources, their manifests, and the relationships they imply.
  \<^item> Evidence_Graph: the graph validator. Graph_Resources, Graph_Readback, Graph_Admission:
    validate_graph_resources, which binds subjects and endpoints to exact resources, rebuilds the
    configuration of buckets, keys and trails from artifacts, and admits resources of other owners or
    Regions on proof only; snapshot_ok is the validator of schemas/inventory.py that calls it.
  \<^item> Analyzer_Coverage, S3_Coverage, Graph_Coverage: the collection status of each collector,
    reconstructed from its evidence (collectors/base.py).
  \<^item> Graph_Rows, Graph_History: the rows, their constraints, persistence and load
    (database/evidence_graph.py, models/evidence_graph.py).
  \<^item> Graph_Properties, Bucket_Evidence, Snapshot_Properties: what is stored is loaded again; stored
    success rests on complete evidence; a resource of another owner is proven; the verdict on a bucket
    is determined by the validated artifact. Graph_Scenario and Snapshot_Scenario are concrete graphs.

  \<^bold>\<open>Controls and assessments.\<close>
  \<^item> Assessment_Models, Evidence_Reader: snapshots, evidence artifacts, candidates, profiles and the
    evidence reader of schema 1.0.0 (assessment/models.py, execution.py, evidence_reader.py).
  \<^item> Rule_Base, Rules_Network, Rules_Inventory, Rules_EC2: the builders and the controls NET-001,
    NET-002, S3-900, IAM-001, LOG-001 and EC2-001 to EC2-004. Rule_Engine: registry and engine.
  \<^item> Rules_Contracts (locale resource_control), Engine_Contracts, EC2_Contracts, Rules_Total,
    Engine_Total, Control_Properties: a control agrees with its reference predicate, both entry points
    agree, the output of the engine is valid and in canonical order, and runs return.

  \<^bold>\<open>Findings.\<close>
  \<^item> Scan_Persistence, Scan_Effects, Finding_Reconciliation, Reconciliation_Contracts,
    Reconciliation_System: recording a scan, and findings as a function of the recorded history.
  \<^item> Finding_Governance, Governance_Contracts, Results_History: exceptions and dispositions, and the
    frame of all these writes.

  \<^bold>\<open>Remediation.\<close>
  \<^item> Remediation_Contracts, Execution_Contracts, Authorization, Provenance: the closed contracts, the
    phase machine of the journal, roles and principals, the baseline of a finding.
  \<^item> Remediation_Authority, Execution_Admission, Worker_Service: one definition per operation of the
    three services, every guard in the order of the code.
  \<^item> Journal_Facts, Service_History, Admission_Invariant, Authority_Invariant, Worker_Effects,
    Worker_Contracts, Remediation_Invariant, Remediation_System: the step relation of all operations
    with any caller, clock and scope, its invariant, and what holds in every reachable database.
  \<^item> Worker_AWS, Worker_Driver, Driver_Safety, Driver_System, Driver_Termination: a whole run of the
    worker process; other processes may act between any two of its transactions, and every answer of
    AWS is arbitrary. At most one enable call is ever made for an execution, only after its durable
    intent. Scenario and Driver_Scenario are a concrete run.
  \<^item> Verification_Contracts, Verification_Evidence, Verification_Service, Verification_Requests,
    Verification_History, Verification_Properties, Verification_Scenario, Verification_Rejection:
    requests, the proof of the postcondition and receipts; a receipt says VERIFIED only on proof, and
    a request that the executor rejects is sealed as INCONCLUSIVE.

  \<^bold>\<open>How code is translated.\<close> A pydantic model is a record and its constructor a function into an
  option, None when it raises; str_strip_whitespace is trim_text before validation. A service call is a
  state transformer over the tables that returns its value or its exception; an exception rolls the
  transaction back. Exceptions whose text the code never reads are one value per kind. A dict is a list
  of pairs in insertion order; equality of JSON values is that of Python (json_eq: the order of keys is
  irrelevant, True equals 1). A check that the code makes by raising is a bool or an option in theories
  of validators. Loops over lists are recursion; the only loop that could run on, the readback of the
  worker, has fuel 3, the number of attempts that a claim allows, and readback_ends_by_itself shows that
  the fuel is never used up: the database ends the loop.

  \<^bold>\<open>Parameters and conventions.\<close> SHA-256 and uuid5 are functions of the environment and arbitrary:
  no property assumes that they are injective. Where identifiers are stored as text, bounded_uuids
  states that uuid5 is below 2^128. Clocks, uuid4, the SDK and the scan executor are parameters. Times
  are instants in microseconds; the offset of a datetime is not kept, as the code normalizes to UTC.
  JSON has no floats, which no modelled document contains. Characters are below 256, as in HOL; case
  folding is written out for these. Row locks are implied by transactions that run one after another.

  \<^bold>\<open>Not modelled.\<close> The collectors' calls of boto3 and the normalization of AWS answers (collectors/iam.py,
  s3.py, cloudtrail.py, ec2.py, network.py, security_groups.py, access_analyzer.py): they are an
  enumeration of API calls and response shapes; what they produce is re-validated by the modelled graph.
  The read-only services, their schemas, the HTTP API and the dashboard: projections of stored rows.
  The migrations with their triggers, deferred foreign keys and column lengths. The controls of the later
  catalogs (IAM policies, NET-003 to NET-005, flow logs, S3 exposure, CloudTrail, tags) with the
  evaluators of their execution schemas. The validation of a persistence bundle, the loading of profiles
  and catalogs, and the composition of the one control that depends on another. The verification of JWT
  signatures, FastAPI dependencies, configuration and the entry point of the worker process.

  \<^bold>\<open>What the model showed.\<close> S3-900 raises TypeError on an encryption algorithm that is a list or an
  object (Rules_Total). The table of declared sources refuses the enrichment sources of a trail of another
  account that the domain demands (external_trail_is_never_stored). A bucket whose validated default
  encryption is aws:backup is reported as insufficient evidence (bucket_verdict_from_evidence).
\<close>

end
